(* ===== verification/Prelude.thy ===== *)
theory Prelude
  imports Main "HOL-Library.Sublist"
begin

section \<open>Prelude: result types, hint collections and generic lemmas\<close>

text \<open>
  What every component theory shares.

  \<^item> A Python call that may raise is a value of \<open>exn + 'a\<close>: \<open>Inl\<close> the exception class (with
    its message where a caller reads it), \<open>Inr\<close> the result.
  \<^item> Two collections carry the component proofs: \<open>py_simps\<close> (unfolding equations of the
    string and container operations) and \<open>wf_intros\<close> (closure of well-formedness
    predicates).
  \<^item> First-match search over a list (\<open>find_first\<close>), the shape of every
    \<open>for x in xs: if p(x): return f(x)\<close> loop of the program, with its lemmas.
\<close>

named_theorems py_simps
named_theorems wf_intros

datatype exn =
    TypeError
  | ValueError string
  | AttributeError
  | KeyError
  | IndexError
  | RedisError
  | OtherError string

type_synonym 'a result = "exn + 'a"

fun is_ok :: "'a result \<Rightarrow> bool" where
  "is_ok (Inr _) = True"
| "is_ok (Inl _) = False"

fun bind_result :: "'a result \<Rightarrow> ('a \<Rightarrow> 'b result) \<Rightarrow> 'b result" where
  "bind_result (Inl e) f = Inl e"
| "bind_result (Inr x) f = f x"

lemma bind_result_Inr_iff [simp]:
  "bind_result r f = Inr y \<longleftrightarrow> (\<exists>x. r = Inr x \<and> f x = Inr y)"
  by (cases r) auto

lemma is_ok_iff: "is_ok r \<longleftrightarrow> (\<exists>x. r = Inr x)"
  by (cases r) auto

subsection \<open>First match in a list\<close>

fun find_first :: "('a \<Rightarrow> bool) \<Rightarrow> 'a list \<Rightarrow> 'a option" where
  "find_first p [] = None"
| "find_first p (x # xs) = (if p x then Some x else find_first p xs)"

lemma find_first_Some: "find_first p xs = Some x \<Longrightarrow> x \<in> set xs \<and> p x"
  by (induction xs) (auto split: if_splits)

lemma find_first_None: "find_first p xs = None \<longleftrightarrow> (\<forall>x \<in> set xs. \<not> p x)"
  by (induction xs) auto

lemma find_first_split:
  "find_first p xs = Some x \<Longrightarrow>
     \<exists>ys zs. xs = ys @ x # zs \<and> p x \<and> (\<forall>y \<in> set ys. \<not> p y)"
proof (induction xs)
  case Nil
  then show ?case by simp
next
  case (Cons a xs)
  show ?case
  proof (cases "p a")
    case True
    with Cons.prems show ?thesis by (metis append_Nil empty_iff find_first.simps(2) list.set(1) option.inject)
  next
    case False
    with Cons obtain ys zs where "xs = ys @ x # zs" "p x" "\<forall>y \<in> set ys. \<not> p y" by auto
    with False have "a # xs = (a # ys) @ x # zs \<and> p x \<and> (\<forall>y \<in> set (a # ys). \<not> p y)"
      by simp
    then show ?thesis by blast
  qed
qed

subsection \<open>Lookup in an association list\<close>

text \<open>A Python dictionary whose order matters is an association list; \<open>assoc\<close> is \<open>d.get(k)\<close>.\<close>

fun assoc :: "'k \<Rightarrow> ('k \<times> 'v) list \<Rightarrow> 'v option" where
  "assoc k [] = None"
| "assoc k ((k', v) # m) = (if k = k' then Some v else assoc k m)"

lemma assoc_map_of: "assoc k m = map_of m k"
  by (induction m) auto

lemma assoc_in_set: "assoc k m = Some v \<Longrightarrow> (k, v) \<in> set m"
  by (induction m) (auto split: if_splits)

definition assoc_default :: "'v \<Rightarrow> 'k \<Rightarrow> ('k \<times> 'v) list \<Rightarrow> 'v" where
  "assoc_default d k m = (case assoc k m of None \<Rightarrow> d | Some v \<Rightarrow> v)"

text \<open>\<open>d[k] = v\<close> on an ordered dictionary: an existing key keeps its place.\<close>

fun assoc_put :: "'k \<Rightarrow> 'v \<Rightarrow> ('k \<times> 'v) list \<Rightarrow> ('k \<times> 'v) list" where
  "assoc_put k v [] = [(k, v)]"
| "assoc_put k v ((k', w) # m) = (if k = k' then (k, v) # m else (k', w) # assoc_put k v m)"

lemma assoc_put_same [simp]: "assoc k (assoc_put k v m) = Some v"
  by (induction k v m rule: assoc_put.induct) auto

lemma assoc_put_other [simp]: "k \<noteq> j \<Longrightarrow> assoc j (assoc_put k v m) = assoc j m"
  by (induction k v m rule: assoc_put.induct) auto

lemma keys_assoc_put: "set (map fst (assoc_put k v m)) = insert k (set (map fst m))"
  by (induction k v m rule: assoc_put.induct) auto

lemma distinct_assoc_put: "distinct (map fst m) \<Longrightarrow> distinct (map fst (assoc_put k v m))"
proof (induction k v m rule: assoc_put.induct)
  case (2 k v k' w m)
  then show ?case using keys_assoc_put [of k v m] by auto
qed simp

subsection \<open>Python truthiness and \<open>or\<close> on optional strings\<close>

text \<open>\<open>x or d\<close> for \<open>x : Optional[str]\<close>: the default replaces \<open>None\<close> and \<open>""\<close>.\<close>

definition or_str :: "string option \<Rightarrow> string \<Rightarrow> string" where
  "or_str x d = (case x of None \<Rightarrow> d | Some s \<Rightarrow> if s = [] then d else s)"

definition truthy :: "string option \<Rightarrow> bool" where
  "truthy x \<longleftrightarrow> (case x of None \<Rightarrow> False | Some s \<Rightarrow> s \<noteq> [])"

lemma truthy_iff: "truthy x \<longleftrightarrow> (\<exists>s. x = Some s \<and> s \<noteq> [])"
  by (auto simp: truthy_def split: option.splits)

lemma or_str_simps [simp]:
  "or_str None d = d" "s \<noteq> [] \<Longrightarrow> or_str (Some s) d = s" "or_str (Some []) d = d"
  by (auto simp: or_str_def)

lemma truthy_simps [simp]: "\<not> truthy None" "truthy (Some s) \<longleftrightarrow> s \<noteq> []"
  by (auto simp: truthy_def)

lemma or_str_empty: "or_str x [] = (case x of None \<Rightarrow> [] | Some s \<Rightarrow> s)"
  by (auto simp: or_str_def split: option.splits)

end
