(* ===== verification/Pystr.thy ===== *)
theory Pystr
  imports Prelude
begin

section \<open>Python strings\<close>

text \<open>
  The string methods the program uses, on \<open>string\<close> (a list of bytes: a Python string is
  represented by its UTF-8 encoding).  Equality, containment, prefixes, suffixes, splitting
  at an ASCII separator and replacement are those of Python on every string, since UTF-8 is
  self-synchronising; case mapping, whitespace and lengths are Python's on ASCII text and
  leave the bytes of other characters alone.

  Each operation comes with the equation a reader expects of it (\<open>py_in_iff\<close>:
  \<open>p in s\<close> iff \<open>p\<close> is a factor of \<open>s\<close>; \<open>startswith_iff\<close>, \<open>endswith_iff\<close>; the digits of
  \<open>str(n)\<close> read back as \<open>n\<close>).
\<close>

abbreviation backslash :: char where "backslash \<equiv> CHR 0x5C"
abbreviation squote :: char where "squote \<equiv> CHR 0x27"

definition code :: "char \<Rightarrow> nat" where
  "code c = of_char c"

subsection \<open>Case mapping\<close>

definition lower_char :: "char \<Rightarrow> char" where
  "lower_char c = (if 65 \<le> code c \<and> code c \<le> 90 then char_of (code c + 32) else c)"

definition upper_char :: "char \<Rightarrow> char" where
  "upper_char c = (if 97 \<le> code c \<and> code c \<le> 122 then char_of (code c - 32) else c)"

definition lower :: "string \<Rightarrow> string" where
  "lower s = map lower_char s"

definition upper :: "string \<Rightarrow> string" where
  "upper s = map upper_char s"

lemma lower_char_idem [simp]: "lower_char (lower_char c) = lower_char c"
  by (auto simp: lower_char_def code_def of_char_of)

lemma lower_idem [simp]: "lower (lower s) = lower s"
  by (simp add: lower_def)

lemma lower_Nil_iff [simp]: "lower s = [] \<longleftrightarrow> s = []"
  by (simp add: lower_def)

lemma lower_append [simp]: "lower (s @ t) = lower s @ lower t"
  by (simp add: lower_def)

lemma length_lower [simp]: "length (lower s) = length s"
  by (simp add: lower_def)

subsection \<open>Whitespace\<close>

definition is_space :: "char \<Rightarrow> bool" where
  "is_space c \<longleftrightarrow> code c \<in> {9, 10, 11, 12, 13, 28, 29, 30, 31, 32}"

definition lstrip :: "string \<Rightarrow> string" where
  "lstrip s = dropWhile is_space s"

definition rstrip :: "string \<Rightarrow> string" where
  "rstrip s = rev (dropWhile is_space (rev s))"

definition strip :: "string \<Rightarrow> string" where
  "strip s = rstrip (lstrip s)"

text \<open>\<open>s.strip(chars)\<close> for a given set of characters.\<close>

definition strip_chars :: "char list \<Rightarrow> string \<Rightarrow> string" where
  "strip_chars cs s = rev (dropWhile (\<lambda>c. c \<in> set cs) (rev (dropWhile (\<lambda>c. c \<in> set cs) s)))"

definition all_space :: "string \<Rightarrow> bool" where
  "all_space s \<longleftrightarrow> list_all is_space s"

lemma dropWhile_id: "s = [] \<or> \<not> p (hd s) \<Longrightarrow> dropWhile p s = s"
  by (cases s) auto

lemma strip_id:
  assumes "s = [] \<or> \<not> is_space (hd s) \<and> \<not> is_space (last s)"
  shows "strip s = s"
  using assms
  by (cases "s = []") (auto simp: strip_def lstrip_def rstrip_def dropWhile_id hd_rev)

lemma strip_Nil_iff: "strip s = [] \<longleftrightarrow> all_space s"
proof -
  have "strip s = [] \<longleftrightarrow> (\<forall>c \<in> set (lstrip s). is_space c)"
    by (simp add: strip_def rstrip_def dropWhile_eq_Nil_conv)
  also have "\<dots> \<longleftrightarrow> lstrip s = []"
    by (metis dropWhile_eq_Nil_conv dropWhile_idem lstrip_def)
  finally show ?thesis
    by (simp add: lstrip_def all_space_def list_all_iff dropWhile_eq_Nil_conv)
qed

subsection \<open>Prefixes, suffixes, containment\<close>

fun startswith :: "string \<Rightarrow> string \<Rightarrow> bool" where
  "startswith s [] = True"
| "startswith [] (p # ps) = False"
| "startswith (c # s) (p # ps) = (c = p \<and> startswith s ps)"

lemma startswith_iff: "startswith s p \<longleftrightarrow> (\<exists>t. s = p @ t)"
  by (induction s p rule: startswith.induct) auto

lemma startswith_append [simp]: "startswith (p @ t) p"
  by (simp add: startswith_iff)

definition endswith :: "string \<Rightarrow> string \<Rightarrow> bool" where
  "endswith s p \<longleftrightarrow> startswith (rev s) (rev p)"

lemma endswith_iff: "endswith s p \<longleftrightarrow> (\<exists>t. s = t @ p)"
proof
  assume "endswith s p"
  then obtain t where "rev s = rev p @ t" by (auto simp: endswith_def startswith_iff)
  then have "s = rev t @ p" by (metis rev_append rev_rev_ident)
  then show "\<exists>t. s = t @ p" ..
qed (auto simp: endswith_def startswith_iff)

text \<open>\<open>py_in p s\<close> is Python's \<open>p in s\<close>.\<close>

fun py_in :: "string \<Rightarrow> string \<Rightarrow> bool" where
  "py_in p [] = (p = [])"
| "py_in p (c # s) = (startswith (c # s) p \<or> py_in p s)"

lemma py_in_iff: "py_in p s \<longleftrightarrow> (\<exists>u v. s = u @ p @ v)"
proof (induction s)
  case Nil
  show ?case by auto
next
  case (Cons c s)
  show ?case
  proof
    assume "py_in p (c # s)"
    then consider "startswith (c # s) p" | "py_in p s" by auto
    then show "\<exists>u v. c # s = u @ p @ v"
    proof cases
      case 1
      then show ?thesis by (metis append_Nil startswith_iff)
    next
      case 2
      with Cons.IH obtain u v where "s = u @ p @ v" by blast
      then have "c # s = (c # u) @ p @ v" by simp
      then show ?thesis by blast
    qed
  next
    assume "\<exists>u v. c # s = u @ p @ v"
    then obtain u v where uv: "c # s = u @ p @ v" by blast
    show "py_in p (c # s)"
    proof (cases u)
      case Nil
      with uv have "startswith (c # s) p" by (simp add: startswith_iff)
      then show ?thesis by simp
    next
      case (Cons a u')
      with uv have "s = u' @ p @ v" by simp
      with Cons.IH show ?thesis by auto
    qed
  qed
qed

lemma py_in_sublist: "py_in p s \<longleftrightarrow> sublist p s"
  by (simp add: py_in_iff sublist_def)

lemma py_in_append: "py_in p s \<Longrightarrow> py_in p (t @ s)" "py_in p s \<Longrightarrow> py_in p (s @ t)"
  by (auto simp: py_in_iff) (metis append.assoc)+

lemma py_in_middle: "py_in p (u @ p @ v)"
  by (auto simp: py_in_iff)

definition any_in :: "string list \<Rightarrow> string \<Rightarrow> bool" where
  "any_in ps s \<longleftrightarrow> list_ex (\<lambda>p. py_in p s) ps"

lemma any_in_iff: "any_in ps s \<longleftrightarrow> (\<exists>p \<in> set ps. py_in p s)"
  by (simp add: any_in_def list_ex_iff)

definition any_startswith :: "string list \<Rightarrow> string \<Rightarrow> bool" where
  "any_startswith ps s \<longleftrightarrow> list_ex (startswith s) ps"

subsection \<open>Replacement and splitting\<close>

text \<open>
  \<open>s.replace(old, new)\<close> for non-empty \<open>old\<close> (the program never replaces the empty string):
  leftmost occurrences first, without overlap.
\<close>

function replace_str :: "string \<Rightarrow> string \<Rightarrow> string \<Rightarrow> string" where
  "replace_str old new [] = []"
| "replace_str old new (c # s) =
     (if old \<noteq> [] \<and> startswith (c # s) old
      then new @ replace_str old new (drop (length old) (c # s))
      else c # replace_str old new s)"
  by pat_completeness auto
termination
  by (relation "measure (\<lambda>(old, new, s). length s)") (auto simp: Suc_le_eq diff_less_Suc)

definition replace_char :: "char \<Rightarrow> string \<Rightarrow> string \<Rightarrow> string" where
  "replace_char a new s = concat (map (\<lambda>c. if c = a then new else [c]) s)"

definition back_to_slash :: "string \<Rightarrow> string" where
  "back_to_slash s = map (\<lambda>c. if c = backslash then CHR ''/'' else c) s"

lemma replace_str_char: "replace_str [a] new s = replace_char a new s"
  by (induction "[a]" new s rule: replace_str.induct) (auto simp: replace_char_def)

lemma back_to_slash_replace: "back_to_slash s = replace_str [backslash] ''/'' s"
  unfolding replace_str_char by (induction s) (auto simp: back_to_slash_def replace_char_def)

text \<open>\<open>s.split(sep)\<close> for a one-character separator: always at least one piece.\<close>

fun split_char :: "char \<Rightarrow> string \<Rightarrow> string list" where
  "split_char sep [] = [[]]"
| "split_char sep (c # s) =
     (if c = sep then [] # split_char sep s
      else (case split_char sep s of [] \<Rightarrow> [[c]] | w # ws \<Rightarrow> (c # w) # ws))"

lemma split_char_nonempty [simp]: "split_char sep s \<noteq> []"
  by (induction s) (auto split: list.splits)

text \<open>\<open>sep.join(parts)\<close>.\<close>

fun join :: "string \<Rightarrow> string list \<Rightarrow> string" where
  "join sep [] = []"
| "join sep [w] = w"
| "join sep (w # ws) = w @ sep @ join sep ws"

lemma join_Cons: "ws \<noteq> [] \<Longrightarrow> join sep (w # ws) = w @ sep @ join sep ws"
  by (cases ws) auto

lemma join_Cons_Cons: "join sep ((c # w) # ws) = c # join sep (w # ws)"
  by (cases ws) auto

lemma join_split: "join [sep] (split_char sep s) = s"
proof (induction s)
  case (Cons c s)
  then show ?case
    by (cases "split_char sep s") (auto simp: join_Cons join_Cons_Cons)
qed simp

lemma split_no_sep: "sep \<notin> set s \<Longrightarrow> split_char sep s = [s]"
  by (induction s) auto

text \<open>\<open>s.split(sep, 1)\<close>: the text before and after the first separator.\<close>

definition split1 :: "char \<Rightarrow> string \<Rightarrow> string \<times> string option" where
  "split1 sep s = (takeWhile (\<lambda>c. c \<noteq> sep) s,
     (case dropWhile (\<lambda>c. c \<noteq> sep) s of [] \<Rightarrow> None | _ # t \<Rightarrow> Some t))"

text \<open>\<open>s.rsplit(sep, 1)[-1]\<close>, and both halves of \<open>s.rsplit(sep, 1)\<close> when \<open>sep\<close> occurs.\<close>

definition after_last :: "char \<Rightarrow> string \<Rightarrow> string" where
  "after_last sep s = rev (takeWhile (\<lambda>c. c \<noteq> sep) (rev s))"

definition before_last :: "char \<Rightarrow> string \<Rightarrow> string" where
  "before_last sep s = rev (tl (dropWhile (\<lambda>c. c \<noteq> sep) (rev s)))"

lemma after_last_no_sep: "sep \<notin> set s \<Longrightarrow> after_last sep s = s"
proof -
  assume "sep \<notin> set s"
  then have "takeWhile (\<lambda>c. c \<noteq> sep) (rev s) = rev s"
    by (auto simp: takeWhile_eq_all_conv)
  then show ?thesis unfolding after_last_def by (simp only: rev_rev_ident)
qed

lemma after_last_sep: "sep \<notin> set t \<Longrightarrow> after_last sep (s @ sep # t) = t"
  by (simp add: after_last_def takeWhile_append)

lemma not_in_after_last: "sep \<notin> set (after_last sep s)"
  unfolding after_last_def by (metis (mono_tags) set_rev set_takeWhileD)

lemma after_last_idem [simp]: "after_last sep (after_last sep s) = after_last sep s"
  by (rule after_last_no_sep) (rule not_in_after_last)

text \<open>\<open>s.split()\<close>: the maximal runs of non-whitespace; \<open>collapse\<close> is \<open>" ".join(s.split())\<close>.\<close>

function words :: "string \<Rightarrow> string list" where
  "words s = (case dropWhile is_space s of
       [] \<Rightarrow> []
     | c # t \<Rightarrow> takeWhile (\<lambda>x. \<not> is_space x) (c # t)
                 # words (dropWhile (\<lambda>x. \<not> is_space x) (c # t)))"
  by pat_completeness auto
termination
proof (relation "measure length")
  fix s x xs assume e: "dropWhile is_space s = x # xs"
  then have ns: "\<not> is_space x" by (metis hd_dropWhile list.sel(1) list.simps(3))
  have "length (dropWhile (\<lambda>x. \<not> is_space x) xs) \<le> length xs"
    by (rule length_dropWhile_le)
  also have "length xs < length (dropWhile is_space s)" using e by simp
  also have "\<dots> \<le> length s" by (rule length_dropWhile_le)
  finally show "(dropWhile (\<lambda>x. \<not> is_space x) (x # xs), s) \<in> measure length"
    using ns by simp
qed simp

declare words.simps [simp del]

definition collapse :: "string \<Rightarrow> string" where
  "collapse s = join '' '' (words s)"

lemma words_code:
  "words s = (let t = lstrip s in if t = [] then [] else
     takeWhile (\<lambda>x. \<not> is_space x) t # words (dropWhile (\<lambda>x. \<not> is_space x) t))"
proof (cases "dropWhile is_space s")
  case Nil
  show ?thesis unfolding words.simps [of s] lstrip_def Let_def Nil by simp
next
  case (Cons c t)
  show ?thesis unfolding words.simps [of s] lstrip_def Let_def Cons by simp
qed

subsection \<open>Slices\<close>

text \<open>\<open>s[:n]\<close>.\<close>

definition upto :: "nat \<Rightarrow> string \<Rightarrow> string" where
  "upto n s = take n s"

text \<open>\<open>s[:n]\<close> for a large bound, which evaluation does not count up to when the text is short.\<close>

definition clip :: "int \<Rightarrow> string \<Rightarrow> string" where
  "clip n s = take (nat n) s"

lemma clip_code [code]: "clip n s = (if int (length s) \<le> n then s else take (nat n) s)"
  by (auto simp: clip_def)

subsection \<open>Decimal integers\<close>

definition digit :: "nat \<Rightarrow> char" where
  "digit d = char_of (48 + d)"

fun show_nat :: "nat \<Rightarrow> string" where
  "show_nat n = (if n < 10 then [digit n] else show_nat (n div 10) @ [digit (n mod 10)])"

declare show_nat.simps [simp del]

definition show_int :: "int \<Rightarrow> string" where
  "show_int i = (if i < 0 then CHR ''-'' # show_nat (nat (- i)) else show_nat (nat i))"

definition is_digit :: "char \<Rightarrow> bool" where
  "is_digit c \<longleftrightarrow> 48 \<le> code c \<and> code c \<le> 57"

definition digit_val :: "char \<Rightarrow> nat" where
  "digit_val c = code c - 48"

definition read_nat :: "string \<Rightarrow> nat" where
  "read_nat s = foldl (\<lambda>n c. 10 * n + digit_val c) 0 s"

lemma digit_props: "d < 10 \<Longrightarrow> is_digit (digit d) \<and> digit_val (digit d) = d"
  by (simp add: is_digit_def digit_def digit_val_def code_def of_char_of)

lemma show_nat_digits: "\<forall>c \<in> set (show_nat n). is_digit c"
proof (induction n rule: show_nat.induct)
  case (1 n)
  then show ?case
    by (cases "n < 10") (auto simp: show_nat.simps [of n] digit_props)
qed

lemma show_nat_nonempty [simp]: "show_nat n \<noteq> []"
  by (subst show_nat.simps) auto

lemma read_show_nat: "read_nat (show_nat n) = n"
proof (induction n rule: show_nat.induct)
  case (1 n)
  show ?case
  proof (cases "n < 10")
    case True
    then show ?thesis by (simp add: show_nat.simps [of n] read_nat_def digit_props)
  next
    case False
    with 1 show ?thesis
      by (simp add: show_nat.simps [of n] read_nat_def digit_props)
  qed
qed

lemma show_nat_inj: "show_nat m = show_nat n \<longleftrightarrow> m = n"
  by (metis read_show_nat)

lemma digit_not_in_show: "\<not> is_digit c \<Longrightarrow> c \<notin> set (show_nat n)"
  using show_nat_digits by blast

text \<open>\<open>str(x)\<close> and f-string formatting of optional strings and integers.\<close>

definition fmt_opt :: "string option \<Rightarrow> string" where
  "fmt_opt x = (case x of None \<Rightarrow> ''None'' | Some s \<Rightarrow> s)"

definition fmt_opt_int :: "int option \<Rightarrow> string" where
  "fmt_opt_int x = (case x of None \<Rightarrow> ''None'' | Some i \<Rightarrow> show_int i)"

text \<open>
  \<open>template.format(k1=v1, ...)\<close>: the replacement fields are filled in one left-to-right
  pass, so braces inside a value are not expanded again.
\<close>

function format_fields :: "(string \<times> string) list \<Rightarrow> string \<Rightarrow> string" where
  "format_fields env [] = []"
| "format_fields env (c # s) =
     (case find_first (\<lambda>kv. startswith (c # s) (''{'' @ fst kv @ ''}'')) env of
        None \<Rightarrow> c # format_fields env s
      | Some kv \<Rightarrow> snd kv @ format_fields env (drop (length (fst kv) + 1) s))"
  by pat_completeness auto
termination
  by (relation "measure (\<lambda>(env, s). length s)") auto

end
