(* ===== verification/Regex.thy ===== *)
theory Regex
  imports Pystr
begin

section \<open>Regular expressions\<close>

text \<open>
  The fixed patterns of the program use characters, classes, alternation, repetition and
  anchors, no groups that are read back and no back-references, so only \<^emph>\<open>whether\<close> a pattern
  matches is observable.  A pattern is its syntax tree \<open>rx\<close>; matching is by derivatives, which
  the kernel can evaluate.  \<open>rx_fullmatch\<close>, \<open>rx_match\<close> and \<open>rx_search\<close> are \<open>re.fullmatch\<close>,
  \<open>re.match\<close> and \<open>re.search\<close>; \<open>fullmatch_iff\<close>, \<open>match_iff\<close> and \<open>search_iff\<close> prove them equal
  to the declarative reading by languages.
\<close>

datatype rx =
    RNone
  | REps
  | RSet "char \<Rightarrow> bool"
  | RAlt rx rx
  | RSeq rx rx
  | RStar rx

subsection \<open>Language\<close>

definition conc :: "string set \<Rightarrow> string set \<Rightarrow> string set" where
  "conc A B = {u @ v | u v. u \<in> A \<and> v \<in> B}"

inductive_set star :: "string set \<Rightarrow> string set" for A where
  star_Nil: "[] \<in> star A"
| star_append: "u \<in> A \<Longrightarrow> v \<in> star A \<Longrightarrow> u @ v \<in> star A"

primrec lang :: "rx \<Rightarrow> string set" where
  "lang RNone = {}"
| "lang REps = {[]}"
| "lang (RSet p) = {[c] | c. p c}"
| "lang (RAlt r s) = lang r \<union> lang s"
| "lang (RSeq r s) = conc (lang r) (lang s)"
| "lang (RStar r) = star (lang r)"

subsection \<open>Matching by derivatives\<close>

primrec nullable :: "rx \<Rightarrow> bool" where
  "nullable RNone = False"
| "nullable REps = True"
| "nullable (RSet p) = False"
| "nullable (RAlt r s) = (nullable r \<or> nullable s)"
| "nullable (RSeq r s) = (nullable r \<and> nullable s)"
| "nullable (RStar r) = True"

text \<open>Smart constructors keep derivatives small.\<close>

fun mk_seq :: "rx \<Rightarrow> rx \<Rightarrow> rx" where
  "mk_seq RNone s = RNone"
| "mk_seq REps s = s"
| "mk_seq r s = RSeq r s"

fun mk_alt :: "rx \<Rightarrow> rx \<Rightarrow> rx" where
  "mk_alt RNone s = s"
| "mk_alt r RNone = r"
| "mk_alt r s = RAlt r s"

primrec deriv :: "char \<Rightarrow> rx \<Rightarrow> rx" where
  "deriv c RNone = RNone"
| "deriv c REps = RNone"
| "deriv c (RSet p) = (if p c then REps else RNone)"
| "deriv c (RAlt r s) = mk_alt (deriv c r) (deriv c s)"
| "deriv c (RSeq r s) =
     (if nullable r then mk_alt (mk_seq (deriv c r) s) (deriv c s) else mk_seq (deriv c r) s)"
| "deriv c (RStar r) = mk_seq (deriv c r) (RStar r)"

fun rx_fullmatch :: "rx \<Rightarrow> string \<Rightarrow> bool" where
  "rx_fullmatch r [] = nullable r"
| "rx_fullmatch r (c # s) = rx_fullmatch (deriv c r) s"

fun rx_match :: "rx \<Rightarrow> string \<Rightarrow> bool" where
  "rx_match r [] = nullable r"
| "rx_match r (c # s) = (nullable r \<or> rx_match (deriv c r) s)"

fun rx_search :: "rx \<Rightarrow> string \<Rightarrow> bool" where
  "rx_search r [] = nullable r"
| "rx_search r (c # s) = (rx_match r (c # s) \<or> rx_search r s)"

text \<open>
  \<open>re.search(r + "$", s)\<close>: without \<open>re.MULTILINE\<close>, \<open>$\<close> matches at the end and before a
  newline that ends the string.
\<close>

fun rx_search_end :: "rx \<Rightarrow> string \<Rightarrow> bool" where
  "rx_search_end r [] = nullable r"
| "rx_search_end r (c # s) =
     (rx_fullmatch (RSeq r (RAlt REps (RSet (\<lambda>d. d = CHR 0x0A)))) (c # s) \<or> rx_search_end r s)"

subsection \<open>Correctness\<close>

lemma Nil_in_conc [simp]: "[] \<in> conc A B \<longleftrightarrow> [] \<in> A \<and> [] \<in> B"
  by (auto simp: conc_def)

lemma nullable_iff: "nullable r \<longleftrightarrow> [] \<in> lang r"
  by (induction r) (auto intro: star.intros)

lemma lang_mk_seq [simp]: "lang (mk_seq r s) = conc (lang r) (lang s)"
  by (cases r) (auto simp: conc_def)

lemma lang_mk_alt [simp]: "lang (mk_alt r s) = lang r \<union> lang s"
  by (cases r; cases s) auto

lemma Cons_in_conc:
  "c # w \<in> conc A B \<longleftrightarrow> w \<in> conc {u. c # u \<in> A} B \<or> ([] \<in> A \<and> c # w \<in> B)"
proof
  assume "c # w \<in> conc A B"
  then obtain u v where uv: "c # w = u @ v" "u \<in> A" "v \<in> B" by (auto simp: conc_def)
  then show "w \<in> conc {u. c # u \<in> A} B \<or> ([] \<in> A \<and> c # w \<in> B)"
    by (cases u) (auto simp: conc_def)
next
  assume "w \<in> conc {u. c # u \<in> A} B \<or> ([] \<in> A \<and> c # w \<in> B)"
  then show "c # w \<in> conc A B"
  proof
    assume "w \<in> conc {u. c # u \<in> A} B"
    then obtain u v where "w = u @ v" "c # u \<in> A" "v \<in> B" by (auto simp: conc_def)
    then have "c # w = (c # u) @ v \<and> c # u \<in> A \<and> v \<in> B" by simp
    then show ?thesis unfolding conc_def by blast
  next
    assume "[] \<in> A \<and> c # w \<in> B"
    then show ?thesis unfolding conc_def by force
  qed
qed

lemma Cons_in_starD:
  assumes "x \<in> star A" "x = c # w"
  shows "w \<in> conc {u. c # u \<in> A} (star A)"
  using assms
proof (induction arbitrary: w rule: star.induct)
  case star_Nil
  then show ?case by simp
next
  case (star_append u v)
  then show ?case by (cases u) (auto simp: conc_def)
qed

lemma Cons_in_star: "c # w \<in> star A \<longleftrightarrow> w \<in> conc {u. c # u \<in> A} (star A)"
proof
  assume "w \<in> conc {u. c # u \<in> A} (star A)"
  then obtain u v where "w = u @ v" "c # u \<in> A" "v \<in> star A" by (auto simp: conc_def)
  then show "c # w \<in> star A" using star.star_append [of "c # u" A v] by simp
qed (auto dest: Cons_in_starD)

lemma lang_deriv: "w \<in> lang (deriv c r) \<longleftrightarrow> c # w \<in> lang r"
proof (induction r arbitrary: w)
  case (RSeq r s)
  have "lang (deriv c r) = {u. c # u \<in> lang r}" using RSeq.IH(1) by auto
  with RSeq.IH(2) show ?case by (auto simp: Cons_in_conc nullable_iff)
next
  case (RStar r)
  have "lang (deriv c r) = {u. c # u \<in> lang r}" using RStar.IH by auto
  then show ?case by (simp add: Cons_in_star)
qed auto

lemma fullmatch_iff: "rx_fullmatch r s \<longleftrightarrow> s \<in> lang r"
  by (induction s arbitrary: r) (auto simp: nullable_iff lang_deriv)

lemma match_iff: "rx_match r s \<longleftrightarrow> (\<exists>u v. s = u @ v \<and> u \<in> lang r)"
proof (induction s arbitrary: r)
  case Nil
  show ?case by (auto simp: nullable_iff)
next
  case (Cons c s)
  have "(\<exists>u v. c # s = u @ v \<and> u \<in> lang r) \<longleftrightarrow>
        [] \<in> lang r \<or> (\<exists>u v. s = u @ v \<and> c # u \<in> lang r)"
    by (auto simp: Cons_eq_append_conv)
  then show ?case by (simp add: Cons nullable_iff lang_deriv)
qed

lemma search_iff: "rx_search r s \<longleftrightarrow> (\<exists>a u b. s = a @ u @ b \<and> u \<in> lang r)"
proof (induction s)
  case Nil
  show ?case by (auto simp: nullable_iff)
next
  case (Cons c s)
  have "(\<exists>a u b. c # s = a @ u @ b \<and> u \<in> lang r) \<longleftrightarrow>
        (\<exists>u b. c # s = u @ b \<and> u \<in> lang r) \<or> (\<exists>a u b. s = a @ u @ b \<and> u \<in> lang r)"
    by (metis append_Cons append_Nil append_eq_Cons_conv)
  then show ?case by (simp only: rx_search.simps Cons match_iff) 
qed

subsection \<open>Pattern combinators\<close>

definition rx_char :: "char \<Rightarrow> rx" where
  "rx_char c = RSet (\<lambda>d. d = c)"

definition rx_any :: rx where
  "rx_any = RSet (\<lambda>_. True)"

text \<open>\<open>.\<close> without \<open>re.DOTALL\<close> does not match a newline.\<close>

definition rx_dot :: rx where
  "rx_dot = RSet (\<lambda>c. c \<noteq> CHR 0x0A)"

fun rx_lit :: "string \<Rightarrow> rx" where
  "rx_lit [] = REps"
| "rx_lit (c # s) = RSeq (rx_char c) (rx_lit s)"

fun rx_seq :: "rx list \<Rightarrow> rx" where
  "rx_seq [] = REps"
| "rx_seq [r] = r"
| "rx_seq (r # rs) = RSeq r (rx_seq rs)"

fun rx_alts :: "rx list \<Rightarrow> rx" where
  "rx_alts [] = RNone"
| "rx_alts [r] = r"
| "rx_alts (r # rs) = RAlt r (rx_alts rs)"

definition rx_opt :: "rx \<Rightarrow> rx" where
  "rx_opt r = RAlt REps r"

definition rx_plus :: "rx \<Rightarrow> rx" where
  "rx_plus r = RSeq r (RStar r)"

fun rx_times :: "nat \<Rightarrow> rx \<Rightarrow> rx" where
  "rx_times 0 r = REps"
| "rx_times (Suc n) r = RSeq r (rx_times n r)"

definition char_in :: "string \<Rightarrow> char \<Rightarrow> bool" where
  "char_in cs c \<longleftrightarrow> c \<in> set cs"

definition is_lower_alpha :: "char \<Rightarrow> bool" where
  "is_lower_alpha c \<longleftrightarrow> 97 \<le> code c \<and> code c \<le> 122"

definition is_alpha :: "char \<Rightarrow> bool" where
  "is_alpha c \<longleftrightarrow> is_lower_alpha c \<or> 65 \<le> code c \<and> code c \<le> 90"

definition is_alnum :: "char \<Rightarrow> bool" where
  "is_alnum c \<longleftrightarrow> is_alpha c \<or> is_digit c"

text \<open>\<open>\w\<close> on ASCII: the characters between which \<open>\b\<close> sees no boundary.\<close>

definition is_word :: "char \<Rightarrow> bool" where
  "is_word c \<longleftrightarrow> is_alnum c \<or> c = CHR ''_''"

lemma conc_Nil [simp]: "conc {[]} B = B"
  by (auto simp: conc_def)

lemma conc_sing: "conc {u} B = (\<lambda>v. u @ v) ` B"
  by (auto simp: conc_def)

lemma lang_rx_char [simp]: "lang (rx_char c) = {[c]}"
  by (auto simp: rx_char_def)

lemma lang_rx_lit [simp]: "lang (rx_lit s) = {s}"
  by (induction s) (auto simp: conc_sing)

lemma in_lang_rx_seq: "lang (rx_seq (r # rs)) = conc (lang r) (lang (rx_seq rs))"
  by (cases rs) (auto simp: conc_def)

lemma lang_rx_alts [simp]: "lang (rx_alts rs) = (\<Union>r \<in> set rs. lang r)"
  by (induction rs rule: rx_alts.induct) auto

lemma lang_rx_opt [simp]: "lang (rx_opt r) = insert [] (lang r)"
  by (simp add: rx_opt_def)

lemma lang_rx_any: "lang (rx_any) = {s. length s = 1}"
  by (auto simp: rx_any_def length_Suc_conv)

lemma star_any: "lang (RStar rx_any) = UNIV"
proof -
  have "s \<in> star {[c] | c. True}" for s :: string
  proof (induction s)
    case (Cons c s)
    have "[c] @ s \<in> star {[c] | c. True}" by (rule star.intros) (use Cons in auto)
    then show ?case by simp
  qed (rule star.intros)
  then show ?thesis by (auto simp: rx_any_def)
qed

text \<open>A literal is searched for as a substring.\<close>

lemma search_lit: "rx_search (rx_lit p) s = py_in p s"
  by (simp add: search_iff py_in_iff)

lemma match_lit: "rx_match (rx_lit p) s = startswith s p"
  by (auto simp: match_iff startswith_iff)

lemma fullmatch_lit: "rx_fullmatch (rx_lit p) s = (s = p)"
  by (simp add: fullmatch_iff)

subsection \<open>Two fixed idioms of the rules\<close>

text \<open>
  \<open>re.search(r"(?<![a-z0-9])" + re.escape(kw), s)\<close>: an occurrence of \<open>kw\<close> that does not follow
  a lower-case letter or a digit.  \<open>b\<close> says whether the character before the rest is one.
\<close>

fun token_search :: "string \<Rightarrow> bool \<Rightarrow> string \<Rightarrow> bool" where
  "token_search kw b [] = (kw = [] \<and> \<not> b)"
| "token_search kw b (c # s) =
     (\<not> b \<and> startswith (c # s) kw \<or> token_search kw (is_lower_alpha c \<or> is_digit c) s)"

text \<open>\<open>re.sub(r"\.exe\b", "", s)\<close>.\<close>

function sub_exe :: "string \<Rightarrow> string" where
  "sub_exe [] = []"
| "sub_exe (c # s) =
     (if startswith (c # s) ''.exe'' \<and>
         (case drop 4 (c # s) of [] \<Rightarrow> True | d # _ \<Rightarrow> \<not> is_word d)
      then sub_exe (drop 4 (c # s)) else c # sub_exe s)"
  by pat_completeness auto
termination
  by (relation "measure length") auto

text \<open>\<open>re.findall(r"[a-z0-9][a-z0-9_.\-]*", s)\<close>: the maximal tokens, left to right.\<close>

definition tok_start :: "char \<Rightarrow> bool" where
  "tok_start c \<longleftrightarrow> is_lower_alpha c \<or> is_digit c"

definition tok_cont :: "char \<Rightarrow> bool" where
  "tok_cont c \<longleftrightarrow> tok_start c \<or> c = CHR ''_'' \<or> c = CHR ''.'' \<or> c = CHR ''-''"

function find_tokens :: "string \<Rightarrow> string list" where
  "find_tokens [] = []"
| "find_tokens (c # s) =
     (if tok_start c
      then (c # takeWhile tok_cont s) # find_tokens (dropWhile tok_cont s)
      else find_tokens s)"
  by pat_completeness auto
termination
  by (relation "measure length") (auto simp: le_imp_less_Suc length_dropWhile_le)

lemma token_search_in: "token_search kw b s \<Longrightarrow> py_in kw s"
  by (induction kw b s rule: token_search.induct) auto

lemma token_search_iff:
  "token_search kw b s \<longleftrightarrow>
     (\<exists>u v. s = u @ kw @ v \<and> (if u = [] then \<not> b else \<not> tok_start (last u)))"
proof (induction kw b s rule: token_search.induct)
  case (1 kw b)
  show ?case by auto
next
  case (2 kw b c s)
  have "(\<exists>u v. c # s = u @ kw @ v \<and> (if u = [] then \<not> b else \<not> tok_start (last u))) \<longleftrightarrow>
     \<not> b \<and> (\<exists>v. c # s = kw @ v) \<or>
     (\<exists>u v. s = u @ kw @ v \<and> (if u = [] then \<not> tok_start c else \<not> tok_start (last u)))"
    (is "?L \<longleftrightarrow> ?R")
  proof
    assume ?L
    then obtain u v where uv: "c # s = u @ kw @ v" "if u = [] then \<not> b else \<not> tok_start (last u)"
      by blast
    show ?R
    proof (cases u)
      case Nil with uv show ?thesis by auto
    next
      case (Cons a w)
      with uv have "s = w @ kw @ v \<and> (if w = [] then \<not> tok_start c else \<not> tok_start (last w))"
        by (auto split: if_splits)
      then show ?thesis by blast
    qed
  next
    assume ?R
    then show ?L
    proof
      assume "\<not> b \<and> (\<exists>v. c # s = kw @ v)"
      then obtain v where "c # s = [] @ kw @ v \<and> (if [] = ([] :: string) then \<not> b else \<not> tok_start (last []))"
        by auto
      then show ?L by blast
    next
      assume "\<exists>u v. s = u @ kw @ v \<and> (if u = [] then \<not> tok_start c else \<not> tok_start (last u))"
      then obtain u v where "s = u @ kw @ v"
        "if u = [] then \<not> tok_start c else \<not> tok_start (last u)" by blast
      then have "c # s = (c # u) @ kw @ v \<and> (if c # u = [] then \<not> b else \<not> tok_start (last (c # u)))"
        by (auto split: if_splits)
      then show ?L by blast
    qed
  qed
  then show ?case using 2 by (simp add: startswith_iff tok_start_def)
qed

end
