(* ===== verification/Pyval.thy ===== *)
theory Pyval
  imports Regex Complex_Main
begin

section \<open>Dynamic Python values\<close>

text \<open>
  Values of type \<open>Any\<close> (JSON and YAML documents, the \<open>extra\<close> dictionary of an event): one
  constructor per Python type.  A float carries its value and the text Python prints for it,
  so that both arithmetic and \<open>str()\<close> are determined; rounding of floating-point operations is
  not modelled.  Dictionaries keep insertion order.  \<open>py_truth\<close> is the truth value that
  \<open>if\<close>, \<open>or\<close> and \<open>and\<close> read, \<open>py_str\<close> and \<open>py_repr\<close> are \<open>str\<close> and \<open>repr\<close>.
\<close>

datatype pyval =
    PNone
  | PBool bool
  | PInt int
  | PFloat rat string
  | PStr string
  | PList "pyval list"
  | PDict "(string \<times> pyval) list"

type_synonym pydict = "(string \<times> pyval) list"

fun py_truth :: "pyval \<Rightarrow> bool" where
  "py_truth PNone = False"
| "py_truth (PBool b) = b"
| "py_truth (PInt i) = (i \<noteq> 0)"
| "py_truth (PFloat r t) = (r \<noteq> 0)"
| "py_truth (PStr s) = (s \<noteq> [])"
| "py_truth (PList xs) = (xs \<noteq> [])"
| "py_truth (PDict m) = (m \<noteq> [])"

subsection \<open>\<open>repr\<close> and \<open>str\<close>\<close>

definition hex_digit :: "nat \<Rightarrow> char" where
  "hex_digit n = (if n < 10 then char_of (48 + n) else char_of (87 + n))"

definition repr_char :: "char \<Rightarrow> char \<Rightarrow> string" where
  "repr_char q c =
     (if c = q \<or> c = backslash then [backslash, c]
      else if c = CHR 0x0A then [backslash, CHR ''n'']
      else if c = CHR 0x0D then [backslash, CHR ''r'']
      else if c = CHR 0x09 then [backslash, CHR ''t'']
      else if code c < 32 \<or> code c = 127
        then [backslash, CHR ''x'', hex_digit (code c div 16), hex_digit (code c mod 16)]
      else [c])"

definition repr_str :: "string \<Rightarrow> string" where
  "repr_str s = (let q = (if squote \<in> set s \<and> CHR 0x22 \<notin> set s then CHR 0x22 else squote)
     in q # concat (map (repr_char q) s) @ [q])"

fun py_repr :: "pyval \<Rightarrow> string" where
  "py_repr PNone = ''None''"
| "py_repr (PBool b) = (if b then ''True'' else ''False'')"
| "py_repr (PInt i) = show_int i"
| "py_repr (PFloat r t) = t"
| "py_repr (PStr s) = repr_str s"
| "py_repr (PList xs) = ''['' @ join '', '' (map py_repr xs) @ '']''"
| "py_repr (PDict m) =
     ''{'' @ join '', '' (map (\<lambda>kv. repr_str (fst kv) @ '': '' @ py_repr (snd kv)) m) @ ''}''"

fun py_str :: "pyval \<Rightarrow> string" where
  "py_str (PStr s) = s"
| "py_str v = py_repr v"

subsection \<open>Dictionary access\<close>

text \<open>\<open>d.get(k)\<close> and \<open>d.get(k, default)\<close>.\<close>

definition dict_get :: "pydict \<Rightarrow> string \<Rightarrow> pyval" where
  "dict_get d k = (case assoc k d of None \<Rightarrow> PNone | Some v \<Rightarrow> v)"

definition dict_get_or :: "pydict \<Rightarrow> string \<Rightarrow> pyval \<Rightarrow> pyval" where
  "dict_get_or d k dflt = (case assoc k d of None \<Rightarrow> dflt | Some v \<Rightarrow> v)"

text \<open>\<open>x or y\<close>.\<close>

definition py_or :: "pyval \<Rightarrow> pyval \<Rightarrow> pyval" where
  "py_or x y = (if py_truth x then x else y)"

text \<open>A string method called on a value of another type raises \<open>AttributeError\<close>.\<close>

fun as_str :: "pyval \<Rightarrow> string result" where
  "as_str (PStr s) = Inr s"
| "as_str v = Inl AttributeError"

definition opt_str :: "string option \<Rightarrow> pyval" where
  "opt_str x = (case x of None \<Rightarrow> PNone | Some s \<Rightarrow> PStr s)"

definition opt_int :: "int option \<Rightarrow> pyval" where
  "opt_int x = (case x of None \<Rightarrow> PNone | Some i \<Rightarrow> PInt i)"

definition opt_strs :: "string list option \<Rightarrow> pyval" where
  "opt_strs x = (case x of None \<Rightarrow> PNone | Some ss \<Rightarrow> PList (map PStr ss))"

definition opt_dicts :: "pydict list option \<Rightarrow> pyval" where
  "opt_dicts x = (case x of None \<Rightarrow> PNone | Some ds \<Rightarrow> PList (map PDict ds))"

text \<open>
  \<open>for x in v\<close> (a dictionary yields its keys, a string its characters) and \<open>s in v\<close> for a
  string \<open>s\<close>; both raise \<open>TypeError\<close> on values that are not containers.
\<close>

fun py_iter :: "pyval \<Rightarrow> pyval list result" where
  "py_iter (PList xs) = Inr xs"
| "py_iter (PDict m) = Inr (map (\<lambda>kv. PStr (fst kv)) m)"
| "py_iter (PStr s) = Inr (map (\<lambda>c. PStr [c]) s)"
| "py_iter v = Inl TypeError"

fun py_contains :: "string \<Rightarrow> pyval \<Rightarrow> bool result" where
  "py_contains s (PList xs) = Inr (list_ex (\<lambda>v. v = PStr s) xs)"
| "py_contains s (PDict m) = Inr (list_ex (\<lambda>kv. fst kv = s) m)"
| "py_contains s (PStr t) = Inr (py_in s t)"
| "py_contains s v = Inl TypeError"

text \<open>\<open>v.get(k, d)\<close>: \<open>AttributeError\<close> unless \<open>v\<close> is a dictionary.\<close>

fun py_get :: "pyval \<Rightarrow> string \<Rightarrow> pyval \<Rightarrow> pyval result" where
  "py_get (PDict m) k d = Inr (dict_get_or m k d)"
| "py_get v k d = Inl AttributeError"

lemma as_str_Inr: "as_str v = Inr s \<longleftrightarrow> v = PStr s"
  by (cases v) auto

lemma py_truth_opt_str [simp]: "py_truth (opt_str x) = truthy x"
  by (auto simp: opt_str_def truthy_def split: option.splits)

section \<open>Conversion to integers\<close>

text \<open>
  \<open>int(v)\<close> on dynamic values: integers and Booleans as they are, floats truncated towards zero,
  texts with optional surrounding whitespace, an optional sign and decimal digits that single
  underscores may separate.  \<open>ValueError\<close> on other texts, \<open>TypeError\<close> on other values.
\<close>

definition trunc :: "rat \<Rightarrow> int" where
  "trunc r = (if r < 0 then - \<lfloor>- r\<rfloor> else \<lfloor>r\<rfloor>)"

text \<open>Digits with single underscores between digits; \<open>b\<close> says whether the last character was a digit.\<close>

fun read_digits :: "bool \<Rightarrow> nat \<Rightarrow> string \<Rightarrow> nat option" where
  "read_digits b n [] = (if b then Some n else None)"
| "read_digits b n (c # cs) =
     (if is_digit c then read_digits True (10 * n + digit_val c) cs
      else if c = CHR ''_'' \<and> b then read_digits False n cs
      else None)"

definition read_int :: "string \<Rightarrow> int option" where
  "read_int s = (case strip s of
       [] \<Rightarrow> None
     | c # cs \<Rightarrow>
         if c = CHR ''-'' then map_option (\<lambda>n. - int n) (read_digits False 0 cs)
         else if c = CHR ''+'' then map_option int (read_digits False 0 cs)
         else map_option int (read_digits False 0 (c # cs)))"

fun py_int :: "pyval \<Rightarrow> int result" where
  "py_int (PInt i) = Inr i"
| "py_int (PBool b) = Inr (if b then 1 else 0)"
| "py_int (PFloat r t) = Inr (trunc r)"
| "py_int (PStr s) = (case read_int s of Some i \<Rightarrow> Inr i | None \<Rightarrow> Inl (ValueError ''int''))"
| "py_int v = Inl TypeError"

lemma read_digits_True:
  "\<forall>c \<in> set ds. is_digit c \<Longrightarrow>
     read_digits True n ds = Some (foldl (\<lambda>n c. 10 * n + digit_val c) n ds)"
  by (induction ds arbitrary: n) auto

lemma read_digits_app:
  "\<forall>c \<in> set ds. is_digit c \<Longrightarrow> ds \<noteq> [] \<Longrightarrow>
     read_digits b n ds = Some (foldl (\<lambda>n c. 10 * n + digit_val c) n ds)"
  by (cases ds) (auto simp: read_digits_True)

lemma read_digits_show: "read_digits False 0 (show_nat n) = Some n"
  using read_digits_app [of "show_nat n" False 0] show_nat_digits read_show_nat [of n]
  by (simp add: read_nat_def)

lemma digit_not_space_sign: "is_digit c \<Longrightarrow> \<not> is_space c \<and> c \<noteq> CHR ''-'' \<and> c \<noteq> CHR ''+''"
proof -
  have "\<not> is_digit CHR ''-''" "\<not> is_digit CHR ''+''" by code_simp+
  then show "is_digit c \<Longrightarrow> \<not> is_space c \<and> c \<noteq> CHR ''-'' \<and> c \<noteq> CHR ''+''"
    unfolding is_digit_def is_space_def by force
qed

text \<open>\<open>int(str(i)) = i\<close>.\<close>

lemma read_show_int: "read_int (show_int i) = Some i"
proof -
  have minus: "\<not> is_space CHR ''-''" by code_simp
  have ends: "\<not> is_space (hd (show_nat n))" "\<not> is_space (last (show_nat n))" for n
    using show_nat_digits [of n] digit_not_space_sign show_nat_nonempty [of n]
    by (metis hd_in_set, metis last_in_set)
  have st: "strip (show_nat n) = show_nat n" "strip (CHR ''-'' # show_nat n) = CHR ''-'' # show_nat n" for n
    by (rule strip_id, simp add: ends) (rule strip_id, simp add: ends minus)
  show ?thesis
  proof (cases "i < 0")
    case True
    then show ?thesis by (simp add: read_int_def show_int_def st read_digits_show)
  next
    case False
    obtain c cs where c: "show_nat (nat i) = c # cs" by (cases "show_nat (nat i)") auto
    then have "is_digit c" using show_nat_digits [of "nat i"] by simp
    then have "c \<noteq> CHR ''-''" "c \<noteq> CHR ''+''" using digit_not_space_sign by blast+
    moreover have "strip (c # cs) = c # cs" "read_digits False 0 (c # cs) = Some (nat i)"
      using st(1) [of "nat i"] read_digits_show [of "nat i"] by (simp_all only: c)
    ultimately show ?thesis using False by (simp add: read_int_def show_int_def c)
  qed
qed

section \<open>Fixed-point formatting of floats\<close>

text \<open>
  \<open>f"{x:.nf}"\<close>: the exact value rounded to \<open>n\<close> decimals, halves to even, with the sign of the value
  (a negative value that rounds to zero prints as \<open>-0.0\<close>).
\<close>

definition half_even :: "rat \<Rightarrow> int" where
  "half_even r = (let k = \<lfloor>r\<rfloor>; f = r - of_int k in
     if f < 1 / 2 then k else if f > 1 / 2 then k + 1 else if even k then k else k + 1)"

definition pad_zeros :: "nat \<Rightarrow> string \<Rightarrow> string" where
  "pad_zeros n s = replicate (n - length s) (CHR ''0'') @ s"

definition show_fixed :: "nat \<Rightarrow> rat \<Rightarrow> string" where
  "show_fixed n r = (let k = nat (half_even (\<bar>r\<bar> * 10 ^ n)) in
     (if r < 0 then ''-'' else []) @ show_nat (k div 10 ^ n) @
     (if n = 0 then [] else CHR ''.'' # pad_zeros n (show_nat (k mod 10 ^ n))))"

lemma half_even_int [simp]: "half_even (of_int i) = i"
  by (simp add: half_even_def Let_def)

lemma half_even_near: "\<bar>of_int (half_even r) - r\<bar> \<le> 1 / 2"
proof -
  have "of_int \<lfloor>r\<rfloor> \<le> r" "r < of_int \<lfloor>r\<rfloor> + 1" by linarith+
  then show ?thesis by (auto simp: half_even_def Let_def)
qed

end
