(* ===== verification/Events.thy ===== *)
theory Events
  imports Pyval
begin

section \<open>Agent events and rule results\<close>

text \<open>
  \<open>event\<close> is the \<open>EventSchema\<close> of \<open>app/api/schemas/common.py\<close>: the record has the fields some
  modelled operation reads; \<open>ev_other\<close> holds the remaining attributes (telemetry numbers,
  identifiers of the sequencing schema, container fields), which only custom rules can read, by
  name.  \<open>event_attr\<close> is \<open>getattr(event, name, default)\<close>.
  \<open>rule_result\<close> and \<open>static_rule\<close> are the dataclasses of \<open>app/rules/rule_definitions.py\<close>;
  the attribute \<open>fn\<close> of a static rule is a Python function object, here the name of the
  function (type \<open>rule_fn\<close>), which \<open>Rule_Registry.run_rule\<close> runs.
\<close>

record event =
  ev_agent_id :: string
  ev_event_type :: string
  ev_hostname :: "string option"
  ev_ip_address :: "string option"
  ev_os :: "string option"
  ev_pid :: "int option"
  ev_parent_pid :: "int option"
  ev_parent_process_name :: "string option"
  ev_process_name :: "string option"
  ev_process_path :: "string option"
  ev_user :: "string option"
  ev_file_hash :: "string option"
  ev_thread_count :: "int option"
  ev_network_connections :: "pydict list option"
  ev_command_line :: "string option"
  ev_loaded_modules :: "string list option"
  ev_signature :: "string option"
  ev_publisher :: "string option"
  ev_proto :: "string option"
  ev_direction :: "string option"
  ev_provenance :: "string option"
  ev_quality :: "string option"
  ev_sampling :: "string option"
  ev_other :: pydict

text \<open>An event with only its two required string fields, all optional fields absent.\<close>

definition blank_event :: event where
  "blank_event = \<lparr>
     ev_agent_id = ''agent-1'', ev_event_type = ''PROCESS_CREATED'',
     ev_hostname = None, ev_ip_address = None, ev_os = None, ev_pid = None,
     ev_parent_pid = None, ev_parent_process_name = None, ev_process_name = None,
     ev_process_path = None, ev_user = None, ev_file_hash = None, ev_thread_count = None,
     ev_network_connections = None, ev_command_line = None, ev_loaded_modules = None,
     ev_signature = None, ev_publisher = None, ev_proto = None, ev_direction = None,
     ev_provenance = None, ev_quality = None, ev_sampling = None,
     ev_other = []\<rparr>"

definition event_attrs :: "event \<Rightarrow> pydict" where
  "event_attrs e =
     [(''agent_id'', PStr (ev_agent_id e)), (''event_type'', PStr (ev_event_type e)),
      (''hostname'', opt_str (ev_hostname e)), (''ip_address'', opt_str (ev_ip_address e)),
      (''os'', opt_str (ev_os e)), (''pid'', opt_int (ev_pid e)),
      (''parent_pid'', opt_int (ev_parent_pid e)),
      (''parent_process_name'', opt_str (ev_parent_process_name e)),
      (''process_name'', opt_str (ev_process_name e)),
      (''process_path'', opt_str (ev_process_path e)), (''user'', opt_str (ev_user e)),
      (''file_hash'', opt_str (ev_file_hash e)), (''thread_count'', opt_int (ev_thread_count e)),
      (''network_connections'', opt_dicts (ev_network_connections e)),
      (''command_line'', opt_str (ev_command_line e)),
      (''loaded_modules'', opt_strs (ev_loaded_modules e)),
      (''signature'', opt_str (ev_signature e)), (''publisher'', opt_str (ev_publisher e)),
      (''proto'', opt_str (ev_proto e)), (''direction'', opt_str (ev_direction e)),
      (''provenance'', opt_str (ev_provenance e)), (''quality'', opt_str (ev_quality e)),
      (''sampling'', opt_str (ev_sampling e))] @ ev_other e"

definition event_attr :: "event \<Rightarrow> string \<Rightarrow> pyval option" where
  "event_attr e f = assoc f (event_attrs e)"

definition DEFAULT_CONFIDENCE :: string where
  "DEFAULT_CONFIDENCE = ''medium''"

record rule_result =
  rr_triggered :: bool
  rr_severity :: string
  rr_description :: string
  rr_mitre_tactic_id :: "string option"
  rr_mitre_tactic :: "string option"
  rr_mitre_technique_id :: "string option"
  rr_mitre_technique :: "string option"
  rr_rule_id :: string
  rr_version :: string
  rr_confidence :: string

text \<open>\<open>RuleResult(triggered=False)\<close> and the keyword call with the given arguments.\<close>

definition no_hit :: rule_result where
  "no_hit = \<lparr>rr_triggered = False, rr_severity = ''LOW'', rr_description = [],
     rr_mitre_tactic_id = None, rr_mitre_tactic = None, rr_mitre_technique_id = None,
     rr_mitre_technique = None, rr_rule_id = ''custom'', rr_version = ''1.0'',
     rr_confidence = DEFAULT_CONFIDENCE\<rparr>"

definition hit :: "string \<Rightarrow> string \<Rightarrow> string \<Rightarrow> string \<Rightarrow> string \<Rightarrow> string \<Rightarrow> rule_result" where
  "hit severity description tactic_id tactic technique technique_id =
     no_hit\<lparr>rr_triggered := True, rr_severity := severity, rr_description := description,
       rr_mitre_tactic_id := Some tactic_id, rr_mitre_tactic := Some tactic,
       rr_mitre_technique := Some technique, rr_mitre_technique_id := Some technique_id\<rparr>"

lemma triggered_no_hit [simp]: "\<not> rr_triggered no_hit"
  by (simp add: no_hit_def)

lemma hit_sel [simp]:
  "rr_triggered (hit s d ti t te tei)"
  "rr_severity (hit s d ti t te tei) = s"
  "rr_description (hit s d ti t te tei) = d"
  "rr_mitre_tactic_id (hit s d ti t te tei) = Some ti"
  "rr_mitre_tactic (hit s d ti t te tei) = Some t"
  "rr_mitre_technique (hit s d ti t te tei) = Some te"
  "rr_mitre_technique_id (hit s d ti t te tei) = Some tei"
  "rr_rule_id (hit s d ti t te tei) = ''custom''"
  "rr_version (hit s d ti t te tei) = ''1.0''"
  "rr_confidence (hit s d ti t te tei) = DEFAULT_CONFIDENCE"
  by (simp_all add: hit_def no_hit_def)

datatype rule_fn =
    Rule_known_attack_tool | Rule_suspicious_parent_child | Rule_malware_family
  | Rule_suspicious_execution_path | Rule_privilege_escalation | Rule_double_extension
  | Rule_encoded_command | Rule_persistence_path | Rule_script_interpreter_abuse
  | Rule_network_tool | Rule_dll_hijack_path | Rule_lolbin_usage | Rule_high_thread_count
  | Rule_network_beacon | Rule_persistence_autorun | Rule_autorun_registry_write
  | Rule_scheduled_task_creation | Rule_discovery_commands | Rule_security_control_tampering
  | Rule_event_log_clearing | Rule_recovery_destruction

record static_rule =
  sr_rule_id :: string
  sr_version :: string
  sr_confidence :: string
  sr_name :: string
  sr_severity :: string
  sr_description :: string
  sr_mitre_tactic_id :: "string option"
  sr_mitre_tactic :: string
  sr_mitre_technique :: string
  sr_mitre_technique_id :: string
  sr_fn :: rule_fn

subsection \<open>What a triggered result promises\<close>

definition SEVERITIES :: "string list" where
  "SEVERITIES = [''LOW'', ''MEDIUM'', ''HIGH'', ''CRITICAL'']"

text \<open>
  A result is well formed if, when triggered, its severity is one of the four the scoring
  knows, it carries a description, and the MITRE tactic and technique identifiers are set.
\<close>

definition wf_result :: "rule_result \<Rightarrow> bool" where
  "wf_result r \<longleftrightarrow> (rr_triggered r \<longrightarrow>
     rr_severity r \<in> set SEVERITIES \<and> rr_description r \<noteq> [] \<and>
     rr_mitre_tactic_id r \<noteq> None \<and> rr_mitre_technique_id r \<noteq> None)"

lemma wf_no_hit [simp, wf_intros]: "wf_result no_hit"
  by (simp add: wf_result_def)

lemma wf_hit [wf_intros]: "s \<in> set SEVERITIES \<Longrightarrow> d \<noteq> [] \<Longrightarrow> wf_result (hit s d ti t te tei)"
  by (simp add: wf_result_def)

end
