(* ===== verification/Rule_Tables.thy ===== *)
theory Rule_Tables
  imports Events
begin

section \<open>Signature tables of the static rules\<close>

text \<open>
  The module constants of \<open>app/rules/rule_definitions.py\<close>, entry by entry and in source order.
  A Python \<open>set\<close> or \<open>tuple\<close> is a list here: the rules only ask for membership, for
  containment of some entry in a text, or walk it in order.  Regular-expression constants are
  syntax trees of theory \<open>Regex\<close>.  A leading underscore of a source name is dropped.
\<close>

type_synonym parent_child =
  "string list \<times> string list \<times> string \<times> string \<times> string \<times> string \<times> string \<times> string"

type_synonym malware_family = "string \<times> string \<times> string \<times> string \<times> string \<times> string"

subsection \<open>Tool and process names\<close>

definition CREDENTIAL_TOOLS :: "string list" where
  "CREDENTIAL_TOOLS =
    [''mimikatz.exe'', ''mimikatz'', ''sekurlsa'', ''logonpasswords'', ''wce.exe'',
     ''fgdump.exe'', ''pwdump.exe'', ''gsecdump.exe'', ''lsadump.exe'', ''procdump.exe'',
     ''samdump2'', ''cachedump.exe'', ''creddump'', ''creddump7'', ''creddump8'',
     ''quarkspwdump.exe'', ''pwddump'', ''pwdump7.exe'', ''pwdump8.exe'', ''dcdiag.exe'',
     ''ntdsutil.exe'', ''vssadmin.exe'', ''dsamain.exe'', ''secretsdump.py'',
     ''impacket-secretsdump'', ''lsassy'', ''spraykatz'', ''kerbrute'', ''kerberoast'',
     ''asreproast'', ''ruby_smb'', ''crackmapexec'', ''netripper'', ''katz.exe'',
     ''lazagne.exe'', ''lazagne'', ''browserpass'', ''webpass'', ''mailpassview'',
     ''networkpassview'', ''chromepass'', ''iepassview'', ''protectedstorage'', ''dpapi'',
     ''sharpdpapi'', ''donpapi'']"

definition SCANNER_TOOLS :: "string list" where
  "SCANNER_TOOLS =
    [''nmap'', ''nmap.exe'', ''masscan'', ''masscan.exe'', ''zmap'', ''zmap.exe'', ''rustscan'',
     ''naabu'', ''naabu.exe'', ''unicornscan'', ''angryip'', ''advanced_port_scanner'',
     ''netscan'', ''zenmap'', ''p0f'', ''amass'', ''subfinder'', ''httpx'', ''gobuster'',
     ''dirb'', ''wfuzz'', ''ffuf'', ''dirbuster'']"

definition EXPLOIT_TOOLS :: "string list" where
  "EXPLOIT_TOOLS =
    [''msfconsole'', ''msf'', ''msfvenom'', ''metasploit'', ''msfcli'', ''cobalt_strike'',
     ''beacon.exe'', ''cs_beacon'', ''teamserver'', ''meterpreter'', ''shellcode'',
     ''payload.exe'', ''sliver'', ''sliver-server'', ''sliver-client'', ''havoc'', ''havoc_c2'',
     ''mythic'', ''apfell'', ''poseidon'', ''bruteratel'', ''brute_ratel'', ''covenant'',
     ''grunt'', ''empire'', ''powershellempire'', ''starkiller'', ''pwn'', ''pwntools'',
     ''exploit.exe'', ''shellter'', ''veil'', ''veil-evasion'', ''shellter.exe'',
     ''encoder.exe'', ''av_evasion'', ''pe_to_shellcode'', ''donut'', ''donut.exe'', ''scrobj'',
     ''sctobjs'']"

definition POST_EXPLOIT_TOOLS :: "string list" where
  "POST_EXPLOIT_TOOLS =
    [''psexec.exe'', ''psexec64.exe'', ''psexecsvc.exe'', ''wmiexec'', ''wmiexec.exe'',
     ''wmic.exe'', ''wmic'', ''smbexec'', ''smbexec.py'', ''smbexec.exe'', ''atexec'',
     ''atexec.py'', ''atexec.exe'', ''dcomexec'', ''dcomexec.py'', ''impacket'',
     ''impacket.exe'', ''impacket_smb'', ''remcom'', ''pth-winexe'', ''winexe'', ''evil-winrm'',
     ''evil_winrm'', ''winrm.vbs'']"

definition REMOTE_ADMIN_TOOLS :: "string list" where
  "REMOTE_ADMIN_TOOLS =
    [''putty.exe'', ''plink.exe'', ''ssh.exe'', ''ssh'', ''sshd'', ''sshd.exe'', ''mstsc.exe'',
     ''mstsc'', ''xfreerdp'', ''freerdp'', ''remmina'']"

definition LOLBINS :: "string list" where
  "LOLBINS =
    [''rundll32.exe'', ''regsvr32.exe'', ''mshta.exe'', ''certutil.exe'', ''bitsadmin.exe'',
     ''cscript.exe'', ''wscript.exe'', ''powershell.exe'', ''powershell'', ''pwsh.exe'',
     ''pwsh'', ''cmd.exe'', ''sh'', ''bash'', ''zsh'', ''wmic.exe'', ''mmc.exe'',
     ''msiexec.exe'', ''reg.exe'', ''schtasks.exe'', ''sc.exe'', ''net.exe'', ''net1.exe'',
     ''nslookup.exe'', ''arp.exe'', ''route.exe'', ''tracert.exe'', ''findstr.exe'',
     ''xcopy.exe'', ''robocopy.exe'', ''curl.exe'', ''curl'', ''wget'', ''wget.exe'',
     ''certreq.exe'', ''esentutl.exe'', ''expand.exe'', ''extract.exe'', ''makecab.exe'',
     ''pcalua.exe'', ''replace.exe'', ''syncappvpublishingserver.exe'', ''wevtutil.exe'',
     ''bcdedit.exe'', ''fsutil.exe'']"

definition RAT_TOOLS :: "string list" where
  "RAT_TOOLS =
    [''njrat'', ''njrat.exe'', ''bladabindi'', ''nanocore'', ''asyncrat'', ''asyncrat.exe'',
     ''darkrat'', ''darkcomet'', ''quasar'', ''quasarrat'', ''quasar.exe'', ''xhacker'',
     ''xhackerrat'', ''orcus'', ''orcusrat'', ''venomrat'', ''cybergater'', ''adwind'',
     ''jrat'', ''limewire'', ''blackshades'', ''poisonivy'', ''hvnc'', ''vnc'', ''tightvnc'',
     ''ultravnc'', ''realvnc'', ''teamviewer'', ''anydesk'', ''ammyy'', ''logmein'',
     ''screenconnect'', ''supremo'', ''remoteutilities'', ''beacon'', ''beacon.exe'',
     ''trojan'', ''backdoor'', ''agenttesla'', ''formbook'', ''lokibot'', ''azorult'',
     ''vidar'', ''raccoon'', ''raccoonstealer'']"

definition RANSOMWARE :: "string list" where
  "RANSOMWARE =
    [''wannacry'', ''wanacry'', ''wana_decryptor'', ''badrabbit'', ''locky'', ''locker'',
     ''goldeneye'', ''notpetya'', ''petya'', ''mischa'', ''ryuk'', ''conti'', ''conti.exe'',
     ''revil'', ''sodinokibi'', ''darkside'', ''blackmatter'', ''hellokitty'', ''dearcry'',
     ''blackbasta'', ''royal'', ''play'', ''cryptolocker'', ''cryptowall'', ''cerber'',
     ''teslacrypt'', ''torrentlocker'', ''keRanger'', ''sam'', ''samas'', ''cryptXXX'',
     ''pcrypt'', ''jigsaw'', ''mole'', ''dmexe'', ''blc.exe'', ''encrypt.exe'', ''encryptor'',
     ''decrypt'', ''lockbit'', ''lockbit.exe'']"

definition INFO_STEALERS :: "string list" where
  "INFO_STEALERS =
    [''keylog'', ''keylogger'', ''keylogger.exe'', ''refog'', ''actualkeylogger'',
     ''bestfreakeylogger'', ''pykeylog'', ''logkeys'', ''uberkey'', ''spyrix'',
     ''microkeylogger'', ''kidlogger'', ''revealer'', ''keystroke'', ''keystrokelogger'',
     ''clipboard'', ''clipboardlogger'', ''clipper'', ''screenshot'', ''screencapture'',
     ''screenlogger'', ''formgrabber'', ''formstealer'', ''webinject'', ''redline'',
     ''redlinestealer'']"

definition EVASION_TOOLS :: "string list" where
  "EVASION_TOOLS =
    [''processhacker'', ''processhacker.exe'', ''procexp'', ''procexp.exe'', ''procmon.exe'',
     ''pchunter'', ''pchunter.exe'', ''powertool'', ''gmerexe'', ''gmerexe.exe'',
     ''rootkitrevealer'', ''hijackthis'', ''autoruns'', ''autoruns.exe'', ''tcpview'',
     ''tcpview.exe'', ''dbgview.exe'', ''x64dbg'', ''x32dbg'', ''ollydbg'', ''windbg'', ''ida'',
     ''idapro'', ''ghidra'', ''radare2'', ''rizin'', ''cheatengine'', ''cheatengine.exe'',
     ''scylla'', ''scylla.exe'', ''strongod'', ''protect'', ''protect.exe'', ''vmp'',
     ''vmprotect'', ''themida'', ''enigma'', ''asprotect'', ''upx'', ''packer'', ''packed'',
     ''crypted'']"

definition SCRIPT_INTERPRETERS :: "string list" where
  "SCRIPT_INTERPRETERS =
    [''powershell.exe'', ''powershell'', ''pwsh.exe'', ''pwsh'', ''cmd.exe'', ''cmd'',
     ''wscript.exe'', ''cscript.exe'', ''mshta.exe'', ''rundll32.exe'', ''bash'', ''sh'',
     ''zsh'', ''dash'', ''ksh'', ''tcsh'', ''python'', ''python.exe'', ''python3'',
     ''python3.exe'', ''perl'', ''perl.exe'', ''ruby'', ''ruby.exe'', ''php'', ''php.exe'',
     ''php-cgi.exe'', ''node'', ''node.exe'', ''nodejs'', ''nodejs.exe'', ''javaw'',
     ''javaw.exe'', ''java.exe'', ''java'', ''lua'', ''lua.exe'', ''tclsh'', ''autoit3.exe'',
     ''powershell_ise.exe'', ''powershell_ise'']"

definition SUSPICIOUS_PATHS :: "string list" where
  "SUSPICIOUS_PATHS =
    [''/temp/'', ''/tmp/'', ''/appdata/local/temp/'', ''/downloads/'', ''/desktop/'',
     ''/cache/'', ''/recycle.bin/'', ''/$recycle.bin/'', ''/programdata/'',
     ''/appdata/roaming/'', ''/users/public/'', ''/perflogs/'', ''/windows/temp/'',
     ''/system32/tasks/'', ''/system32/spool/drivers/'', ''/system32/spool/servic/'',
     ''/var/tmp/'', ''/dev/shm/'', ''/var/cache/'', ''/var/spool/'', ''/var/www/'',
     ''/.cache/'', ''/.local/share/trash/'', ''/run/user/'', ''/dev/pts/'',
     ''library/launchagents/'', ''library/launchdaemons/'']"

definition NON_ROOT_PROCESSES :: "string list" where
  "NON_ROOT_PROCESSES =
    [''chrome.exe'', ''firefox.exe'', ''notepad.exe'', ''calc.exe'', ''wordpad.exe'',
     ''mspaint.exe'', ''winword.exe'', ''excel.exe'', ''powerpnt.exe'', ''outlook.exe'',
     ''acrord32.exe'', ''acrord64.exe'', ''iexplore.exe'', ''msedge.exe'', ''opera.exe'',
     ''brave.exe'', ''spotify.exe'', ''discord.exe'', ''slack.exe'', ''teams.exe'',
     ''zoom.exe'', ''skype.exe'', ''thunderbird.exe'']"

definition NETWORK_TOOLS :: "string list" where
  "NETWORK_TOOLS =
    [''wireshark.exe'', ''wireshark'', ''tshark'', ''tcpdump'', ''dumpcap'', ''ethereal'',
     ''netstat'', ''arp.exe'', ''arp'', ''route.exe'', ''curl.exe'', ''curl'', ''wget'',
     ''wget.exe'', ''nc.exe'', ''ncat.exe'', ''ncat'', ''netcat'', ''socat'', ''telnet.exe'',
     ''telnet'', ''ftp.exe'', ''ftp'', ''ssh.exe'', ''ssh'', ''sshd'', ''sshd.exe'',
     ''nslookup.exe'', ''nslookup'', ''dig'', ''host'', ''ping.exe'', ''ping'', ''tracert.exe'',
     ''tracert'', ''pathping.exe'', ''mtr'', ''iperf'', ''iperf3'', ''httpie'', ''http'',
     ''aria2c'', ''aria2'', ''nmap'', ''nmap.exe'', ''masscan'', ''zmap'', ''rustscan'',
     ''naabu'']"

subsection \<open>Process lineage and malware families\<close>

definition SUSPICIOUS_PARENT_CHILD :: "parent_child list" where
  "SUSPICIOUS_PARENT_CHILD =
    [([''winword.exe'', ''word.exe'', ''excel.exe'', ''powerpnt.exe'', ''outlook.exe''],
      [''powershell'', ''cmd.exe'', ''wscript.exe'', ''cscript.exe'', ''mshta.exe'',
       ''rundll32.exe'', ''sh'', ''bash'', ''python'', ''wmic.exe'', ''regsvr32.exe'',
       ''certutil.exe'', ''bitsadmin.exe''],
      ''CRITICAL'', ''Office process spawning script interpreter: '{parent}' -> '{child}'.'',
      ''TA0002'', ''Execution'', ''User Execution'', ''T1204''),
     ([''chrome.exe'', ''msedge.exe'', ''firefox.exe'', ''opera.exe'', ''brave.exe'',
       ''iexplore.exe'', ''safari.exe'', ''safari''],
      [''powershell'', ''cmd.exe'', ''wscript.exe'', ''cscript.exe'', ''mshta.exe'', ''sh'',
       ''bash'', ''python'', ''rundll32.exe''],
      ''HIGH'', ''Browser spawning script interpreter: '{parent}' -> '{child}'.'',
      ''TA0002'', ''Execution'', ''User Execution'', ''T1204''),
     ([''acrord32.exe'', ''acrord64.exe'', ''pdf'', ''reader'', ''foxit''],
      [''powershell'', ''cmd.exe'', ''wscript.exe'', ''mshta.exe'', ''sh'', ''bash'', ''python''],
      ''CRITICAL'', ''PDF reader spawning script interpreter: '{parent}' -> '{child}'.'',
      ''TA0002'', ''Execution'', ''User Execution'', ''T1204''),
     ([''outlook.exe'', ''thebat.exe'', ''thunderbird.exe'', ''mail''],
      [''powershell'', ''cmd.exe'', ''wscript.exe'', ''cscript.exe'', ''mshta.exe'', ''sh'',
       ''bash''],
      ''CRITICAL'', ''Email client spawning script interpreter: '{parent}' -> '{child}'.'',
      ''TA0002'', ''Execution'', ''User Execution'', ''T1204''),
     ([''svchost.exe'', ''services.exe'', ''lsass.exe'', ''wininit.exe'', ''system'',
       ''winlogon.exe''],
      [''powershell'', ''cmd.exe'', ''wscript.exe'', ''cscript.exe'', ''sh'', ''bash'',
       ''python''],
      ''CRITICAL'', ''System process spawning script interpreter: '{parent}' -> '{child}'.'',
      ''TA0004'', ''Privilege Escalation'', ''Process Injection'', ''T1055''),
     ([''chrome.exe'', ''msedge.exe'', ''firefox.exe'', ''opera.exe'', ''brave.exe'',
       ''iexplore.exe'', ''winword.exe'', ''excel.exe'', ''powerpnt.exe'', ''acrord32.exe'',
       ''acrord64.exe'', ''outlook.exe''],
      [''lsass.exe''],
      ''CRITICAL'', ''User application spawning lsass.exe: '{parent}' -> '{child}'.'',
      ''TA0004'', ''Privilege Escalation'', ''Process Injection'', ''T1055''),
     ([''chrome.exe'', ''msedge.exe'', ''firefox.exe'', ''opera.exe'', ''brave.exe'',
       ''iexplore.exe'', ''winword.exe'', ''excel.exe'', ''powerpnt.exe'', ''acrord32.exe'',
       ''acrord64.exe'', ''outlook.exe''],
      [''svchost.exe'', ''services.exe'', ''wininit.exe'', ''winlogon.exe'', ''csrss.exe'',
       ''smss.exe'', ''lsaiso.exe''],
      ''HIGH'', ''User application spawning a system process: '{parent}' -> '{child}'.'',
      ''TA0004'', ''Privilege Escalation'', ''Process Injection'', ''T1055''),
     ([''explorer.exe'', ''explorer''],
      [''powershell'', ''cmd.exe'', ''wscript.exe'', ''mshta.exe'', ''regsvr32.exe'',
       ''rundll32.exe'', ''certutil.exe''],
      ''MEDIUM'', ''Explorer spawning LOLBin: '{parent}' -> '{child}'.'',
      ''TA0005'', ''Defense Evasion'', ''Signed Binary Proxy Execution'', ''T1218''),
     ([''notepad.exe'', ''wordpad.exe'', ''mspaint.exe'', ''calc.exe''],
      [''powershell'', ''cmd.exe'', ''sh'', ''bash''],
      ''HIGH'', ''Utility process spawning script interpreter: '{parent}' -> '{child}'.'',
      ''TA0002'', ''Execution'', ''User Execution'', ''T1204'')]"

definition MALWARE_FAMILIES :: "malware_family list" where
  "MALWARE_FAMILIES =
    [(''lockbit'', ''HIGH'', ''Possible LockBit ransomware detected: process name '{name}'.'', ''TA0040'', ''Impact'', ''T1486''),
     (''trojan'', ''HIGH'', ''Possible trojan detected: process name '{name}'.'', ''TA0002'', ''Execution'', ''T1204''),
     (''backdoor'', ''HIGH'', ''Possible backdoor detected: process name '{name}'.'', ''TA0002'', ''Execution'', ''T1204''),
     (''dropper'', ''HIGH'', ''Possible dropper detected: process name '{name}'.'', ''TA0005'', ''Defense Evasion'', ''T1204''),
     (''downloader'', ''HIGH'', ''Possible downloader detected: process name '{name}'.'', ''TA0011'', ''Command and Control'', ''T1105''),
     (''loader'', ''MEDIUM'', ''Possible loader detected: process name '{name}'.'', ''TA0005'', ''Defense Evasion'', ''T1218''),
     (''worm'', ''MEDIUM'', ''Possible worm detected: process name '{name}'.'', ''TA0008'', ''Lateral Movement'', ''T1210''),
     (''rootkit'', ''HIGH'', ''Possible rootkit detected: process name '{name}'.'', ''TA0005'', ''Defense Evasion'', ''T1014''),
     (''spyware'', ''MEDIUM'', ''Possible spyware detected: process name '{name}'.'', ''TA0009'', ''Collection'', ''T1056''),
     (''adware'', ''LOW'', ''Possible adware detected: process name '{name}'.'', ''TA0009'', ''Collection'', ''T1056''),
     (''ransom'', ''HIGH'', ''Possible ransomware detected: process name '{name}'.'', ''TA0040'', ''Impact'', ''T1486''),
     (''keylogger'', ''HIGH'', ''Keylogger detected: process name '{name}'.'', ''TA0009'', ''Collection'', ''T1056''),
     (''miner'', ''MEDIUM'', ''Possible cryptocurrency miner: process name '{name}'.'', ''TA0040'', ''Impact'', ''T1496''),
     (''coin'', ''MEDIUM'', ''Possible cryptocurrency mining process: process name '{name}'.'', ''TA0040'', ''Impact'', ''T1496''),
     ('' inject'', ''HIGH'', ''Possible process injection indicator: process name '{name}'.'', ''TA0005'', ''Defense Evasion'', ''T1055''),
     (''injector'', ''HIGH'', ''Process injector detected: process name '{name}'.'', ''TA0005'', ''Defense Evasion'', ''T1055''),
     (''steal'', ''HIGH'', ''Possible information stealer: process name '{name}'.'', ''TA0009'', ''Collection'', ''T1056''),
     (''password'', ''MEDIUM'', ''Password-related process: process name '{name}'.'', ''TA0006'', ''Credential Access'', ''T1003'')]"

subsection \<open>Paths, encoded commands, command-line markers\<close>

definition PERSISTENCE_PATHS :: "string list" where
  "PERSISTENCE_PATHS =
    [''/startup/'', ''/start menu/programs/startup/'', ''/system32/tasks/'',
     ''/system32/drivers/etc/'', ''/windows/system32/tasks/'',
     ''/appdata/roaming/microsoft/windows/start menu/programs/startup/'', ''/etc/init.d/'',
     ''/etc/systemd/system/'', ''/etc/cron.d/'', ''/etc/cron.hourly/'', ''/etc/cron.daily/'',
     ''/library/launchagents/'', ''/library/launchdaemons/'', ''library/launchagents/'']"

definition rx_b64 :: rx where
  "rx_b64 = RSet (\<lambda>c. is_alnum c \<or> c = CHR ''+'' \<or> c = CHR ''/'')"

definition rx_spaces :: rx where
  "rx_spaces = rx_plus (RSet is_space)"

text \<open>\<open>[A-Za-z0-9+/]{12,}={0,2}\<close>.\<close>

definition rx_payload :: rx where
  "rx_payload = rx_seq [rx_times 12 rx_b64, RStar rx_b64,
     rx_opt (rx_char CHR ''=''), rx_opt (rx_char CHR ''='')]"

definition is_hex :: "char \<Rightarrow> bool" where
  "is_hex c \<longleftrightarrow> is_digit c \<or> 97 \<le> code c \<and> code c \<le> 102"

definition ENCODED_PATTERNS :: "rx list" where
  "ENCODED_PATTERNS =
    [rx_seq [rx_char CHR ''-'', rx_alts [rx_lit ''enc'', rx_lit ''encodedcommand'', rx_lit ''e''],
       rx_spaces, rx_payload],
     rx_seq [rx_lit ''base64'', rx_plus rx_dot, rx_lit ''decode''],
     rx_lit ''frombase64string'',
     rx_seq [rx_lit ''-e'', rx_spaces, rx_payload],
     rx_seq [rx_lit ''iex'', RStar (RSet is_space), rx_char CHR ''('' ],
     rx_lit ''invoke-expression'',
     rx_seq [rx_lit ''-ec'', rx_spaces],
     rx_lit ''frombase64'',
     rx_seq [rx_lit ''char('', rx_plus (RSet is_digit), rx_char CHR '')'' ],
     rx_seq [rx_lit (backslash # ''x''), RSet is_hex, RSet is_hex] ]"

definition HIGH_THREAD_COUNT_THRESHOLD :: int where
  "HIGH_THREAD_COUNT_THRESHOLD = 200"

definition LOLBIN_SUSPICIOUS_ARGS :: "string list" where
  "LOLBIN_SUSPICIOUS_ARGS =
    [''-urlcache'', ''-split'', ''-f http'', ''http://'', ''https://'', ''frombase64'',
     ''frombase64string'', ''invoke-expression'', ''iex('', ''-encodedcommand'', ''-enc '',
     ''-e '', ''-ec '', ''downloadstring'', ''webclient'', ''/transfer'', ''bitsadmin'']"

definition STANDARD_SYSTEM_PATHS :: "string list" where
  "STANDARD_SYSTEM_PATHS =
    [''/windows/system32/'', ''/windows/syswow64/'', ''/windows/'', ''/usr/bin/'', ''/bin/'',
     ''/sbin/'', ''/usr/sbin/'', ''/program files/'', ''/program files (x86)/'']"

definition RUN_KEY_PATHS :: "string list" where
  "RUN_KEY_PATHS =
    [backslash # ''currentversion'' @ backslash # ''run'',
     backslash # ''currentversion'' @ backslash # ''runonce'',
     backslash # ''currentversion'' @ backslash # ''policies'' @ backslash # ''explorer'' @ backslash # ''run'']"

definition REG_WRITE_MARKERS :: "string list" where
  "REG_WRITE_MARKERS =
    ['' add '', ''set-itemproperty'', ''new-itemproperty'', ''reg import'', ''reg copy'']"

definition TASK_WRITE_MARKERS :: "string list" where
  "TASK_WRITE_MARKERS =
    [''/create'', ''-create'', ''/change'']"

definition TASK_SCRIPT_ACTIONS :: "string list" where
  "TASK_SCRIPT_ACTIONS =
    [''powershell'', ''pwsh'', ''cmd.exe'', ''cmd /c'', ''wscript'', ''cscript'', ''mshta'',
     ''rundll32'', ''regsvr32'', ''.ps1'', ''.vbs'', ''.js'']"

definition DISCOVERY_COMMANDS :: "(string \<times> string \<times> string) list" where
  "DISCOVERY_COMMANDS =
    [(''whoami /all'', ''T1033'', ''System Owner/User Discovery''),
     (''whoami /priv'', ''T1069'', ''Permission Groups Discovery''),
     (''whoami /groups'', ''T1069'', ''Permission Groups Discovery''),
     (''net user'', ''T1087'', ''Account Discovery''),
     (''net group'', ''T1069'', ''Permission Groups Discovery''),
     (''net localgroup'', ''T1069'', ''Permission Groups Discovery''),
     (''net accounts'', ''T1087'', ''Account Discovery''),
     (''quser'', ''T1033'', ''System Owner/User Discovery''),
     (''query user'', ''T1033'', ''System Owner/User Discovery'')]"

definition SECURITY_SERVICES :: "string list" where
  "SECURITY_SERVICES =
    [''windefend'', ''wdnissvc'', ''sense'', ''msmpeng'', ''mpssvc'', ''csfalconservice'',
     ''csagent'', ''crowdstrike'', ''sophos'', ''savservice'', ''mcshield'', ''mcafee'',
     ''ekrn'', ''avast'', ''avp'', ''avgnt'', ''trendmicro'', ''carbonblack'', ''cbdefense'',
     ''sentinelone'', ''sentinelagent'']"

definition SERVICE_STOP_MARKERS :: "string list" where
  "SERVICE_STOP_MARKERS =
    [''sc stop'', ''sc delete'', ''net stop'', ''stop-service'', ''set-service'',
     ''remove-service'']"

definition SECURITY_PROCESS_KILL :: "string list" where
  "SECURITY_PROCESS_KILL =
    [''taskkill'', ''stop-process'', ''kill '']"

definition DEFENDER_TAMPER_MARKERS :: "string list" where
  "DEFENDER_TAMPER_MARKERS =
    [''disablerealtimemonitoring'', ''disableioavprotection'', ''disablebehaviormonitoring'',
     ''disablescriptscanning'', ''disableblockatfirstseen'', ''disableantispyware'',
     ''disableantivirus'', ''-exclusionpath'', ''-exclusionprocess'', ''-exclusionextension'',
     ''-disableintrusionpreventionsystem'', ''-disablesandbox'']"

definition LOG_CLEAR_MARKERS :: "string list" where
  "LOG_CLEAR_MARKERS =
    [''wevtutil cl'', ''wevtutil clear-log'', ''clear-eventlog'', ''remove-eventlog'',
     ''/e:false'', ''wevtutil sl'']"

definition RECOVERY_DESTRUCTION :: "string list" where
  "RECOVERY_DESTRUCTION =
    [''recoveryenabled no'', ''bootstatuspolicy ignoreallfailures'', ''wbadmin delete catalog'',
     ''wbadmin delete systemstatebackup'', ''vssadmin delete shadows'',
     ''vssadmin resize shadowstorage'', ''delete shadows /all'', ''diskshadow'']"

end
