(* ===== verification/Static_Rules.thy ===== *)
theory Static_Rules
  imports Rule_Tables
begin

section \<open>The static rules\<close>

text \<open>
  The rule functions of \<open>app/rules/rule_definitions.py\<close>, one definition per function, with
  the helpers they share (\<open>_base\<close>, \<open>_stem\<close>, \<open>_norm_path\<close>, \<open>_lev\<close>, \<open>_is_private_ip\<close>).  A rule
  maps an event to a \<open>rule_result\<close>; only \<open>rule_network_beacon\<close> can raise (a connection field
  that is not a string), so it returns \<open>rule_result result\<close>.
\<close>

subsection \<open>Helpers\<close>

definition text_of :: "string option \<Rightarrow> string" where
  "text_of x = or_str x []"

definition quoted :: "string \<Rightarrow> string" where
  "quoted s = squote # s @ [squote]"

definition base :: "string \<Rightarrow> string" where
  "base name = after_last CHR ''/'' (back_to_slash (strip (lower name)))"

definition drop_ext :: "string list \<Rightarrow> string \<Rightarrow> string" where
  "drop_ext exts b = (case find_first (endswith b) exts of
      None \<Rightarrow> b
    | Some ext \<Rightarrow> take (length b - length ext) b)"

definition STEM_EXTS :: "string list" where
  "STEM_EXTS = [''.exe'', ''.com'', ''.dll'', ''.bat'', ''.ps1'', ''.scr'']"

definition stem :: "string \<Rightarrow> string" where
  "stem name = drop_ext STEM_EXTS (base name)"

definition proc_match :: "string \<Rightarrow> string \<Rightarrow> bool" where
  "proc_match name pattern \<longleftrightarrow> stem name = stem pattern"

definition norm_path :: "string option \<Rightarrow> string" where
  "norm_path p = lower (back_to_slash (text_of p))"

definition in_standard_path :: "string option \<Rightarrow> bool" where
  "in_standard_path p \<longleftrightarrow> any_in STANDARD_SYSTEM_PATHS (norm_path p)"

text \<open>
  \<open>_lev\<close> keeps one row of the dynamic-programming table; \<open>lev_cells\<close> is the inner loop (\<open>prev\<close>
  from column \<open>j - 1\<close> on, \<open>left\<close> the cell just written) and \<open>lev_rows\<close> the outer one.
\<close>

fun lev_cells :: "char \<Rightarrow> string \<Rightarrow> nat list \<Rightarrow> nat \<Rightarrow> nat list" where
  "lev_cells x (y # ys) (p0 # p1 # ps) left =
     (let c = min (min (p1 + 1) (left + 1)) (p0 + (if x \<noteq> y then 1 else 0))
      in c # lev_cells x ys (p1 # ps) c)"
| "lev_cells x ys ps left = []"

fun lev_rows :: "string \<Rightarrow> string \<Rightarrow> nat \<Rightarrow> nat list \<Rightarrow> nat list" where
  "lev_rows [] b i prev = prev"
| "lev_rows (x # a) b i prev = lev_rows a b (i + 1) (i # lev_cells x b prev i)"

definition lev :: "string \<Rightarrow> string \<Rightarrow> nat" where
  "lev a b =
     (if a = b then 0
      else if length a > length b + 1 \<or> length b > length a + 1 then 2
      else lev_rows a b 1 [0..<length b + 1] ! length b)"

text \<open>Private address ranges.\<close>

definition rx_range :: "char \<Rightarrow> char \<Rightarrow> rx" where
  "rx_range lo hi = RSet (\<lambda>c. code lo \<le> code c \<and> code c \<le> code hi)"

definition PRIVATE_V4 :: rx where
  "PRIVATE_V4 = (let d = RSet is_digit in rx_alts
     [rx_lit ''10.'',
      rx_seq [rx_lit ''172.'',
        rx_alts [rx_seq [rx_char CHR ''1'', rx_range CHR ''6'' CHR ''9''],
          rx_seq [rx_char CHR ''2'', d],
          rx_seq [rx_char CHR ''3'', rx_alts [rx_char CHR ''0'', rx_char CHR ''1'']]],
        rx_char CHR ''.''],
      rx_lit ''192.168.'', rx_lit ''127.'', rx_lit ''169.254.'', rx_lit ''0.'',
      rx_seq [rx_lit ''100.'',
        rx_alts [rx_seq [rx_char CHR ''6'', rx_range CHR ''4'' CHR ''9''],
          rx_seq [rx_range CHR ''7'' CHR ''9'', d],
          rx_seq [rx_char CHR ''1'', rx_alts [rx_char CHR ''0'', rx_char CHR ''1''], d],
          rx_seq [rx_lit ''12'', rx_range CHR ''0'' CHR ''7'']],
        rx_char CHR ''.'']])"

text \<open>
  The alternatives of \<open>_PRIVATE_V6\<close> without the anchored one, matched against the lower-cased
  text (\<open>re.IGNORECASE\<close>); the anchored branch \<open>::1$\<close> is the equality test of \<open>is_private_v6\<close>.
\<close>

definition PRIVATE_V6_PREFIX :: rx where
  "PRIVATE_V6_PREFIX = rx_alts
     [rx_lit ''::ffff:'', rx_lit ''fe80:'', rx_lit ''fc00:'',
      rx_seq [rx_lit ''fd'', RSet is_hex, RSet is_hex, rx_char CHR '':''],
      rx_lit ''fec0:'']"

definition is_private_v6 :: "string \<Rightarrow> bool" where
  "is_private_v6 s \<longleftrightarrow> s = ''::1'' \<or> s = ''::1'' @ [CHR 0x0A] \<or> rx_match PRIVATE_V6_PREFIX (lower s)"

definition is_private_ip :: "string \<Rightarrow> bool" where
  "is_private_ip ip =
     (let s = hd (split_char CHR ''%'' (strip_chars ''[]'' (strip ip))) in
      if s = [] then True
      else if CHR '':'' \<in> set s then is_private_v6 s
      else rx_match PRIVATE_V4 s)"

text \<open>The prefix \<open>" ".join(cmd.lower().split())\<close> and \<open>re.sub(r"\.exe\b", "", cmd)\<close>.\<close>

definition norm_command :: "string option \<Rightarrow> string" where
  "norm_command c = sub_exe (collapse (lower (text_of c)))"

definition cut200 :: "string option \<Rightarrow> string" where
  "cut200 c = upto 200 (text_of c)"

subsection \<open>Names, paths, lineage\<close>

definition combined_tools :: "string list" where
  "combined_tools = CREDENTIAL_TOOLS @ SCANNER_TOOLS @ EXPLOIT_TOOLS @ POST_EXPLOIT_TOOLS @
     RAT_TOOLS @ RANSOMWARE @ EVASION_TOOLS @ INFO_STEALERS"

definition rule_known_attack_tool :: "event \<Rightarrow> rule_result" where
  "rule_known_attack_tool e =
     (if \<not> truthy (ev_process_name e) then no_hit
      else let pn = text_of (ev_process_name e);
        name = strip (lower pn);
        name_noexe = replace_str ''.dll'' [] (replace_str ''.com'' [] (replace_str ''.exe'' [] name));
        combined_stems = map stem combined_tools;
        candidates = [stem name, stem (base (text_of (ev_process_path e)))]
      in if List.member combined_tools name \<or> List.member combined_tools name_noexe \<or>
            list_ex (List.member combined_stems) candidates
         then hit ''CRITICAL'' (''Known attack tool / malware detected: '' @ quoted pn @ ''.'')
                ''TA0002'' ''Execution'' ''User Execution'' ''T1204''
         else if truthy (ev_command_line e) \<and>
            list_ex (List.member (map lower combined_tools))
              (find_tokens (lower (text_of (ev_command_line e))))
         then hit ''CRITICAL''
                (''Known attack tool invoked via command line: '' @ quoted pn @ ''.'')
                ''TA0002'' ''Execution'' ''User Execution'' ''T1204''
         else no_hit)"

text \<open>\<open>is_signed_verified\<close> of \<open>app/services/detection_context.py\<close>, which the next rule calls.\<close>

definition TRUSTED_SIGNATURE_STATES :: "string list" where
  "TRUSTED_SIGNATURE_STATES = [''authenticode-trusted'']"

definition is_signed_verified :: "event \<Rightarrow> bool" where
  "is_signed_verified e \<longleftrightarrow>
     List.member TRUSTED_SIGNATURE_STATES (strip (lower (text_of (ev_signature e))))"

definition rule_suspicious_execution_path :: "event \<Rightarrow> rule_result" where
  "rule_suspicious_execution_path e =
     (if \<not> truthy (ev_process_path e) then no_hit
      else if any_in SUSPICIOUS_PATHS (norm_path (ev_process_path e))
      then let trusted = is_signed_verified e in
        (hit (if trusted then ''LOW'' else ''HIGH'')
           (''Process '' @ quoted (fmt_opt (ev_process_name e)) @
            '' executing from suspicious path: '' @ quoted (fmt_opt (ev_process_path e)) @ ''.'')
           ''TA0002'' ''Execution'' ''Command and Scripting Interpreter'' ''T1059'')
        \<lparr>rr_confidence := (if trusted then ''low'' else ''medium'')\<rparr>
      else no_hit)"

definition rule_script_interpreter_abuse :: "event \<Rightarrow> rule_result" where
  "rule_script_interpreter_abuse e =
     (if \<not> truthy (ev_process_name e) then no_hit
      else let pn = text_of (ev_process_name e); name = strip (lower pn) in
        if List.member SCRIPT_INTERPRETERS name
        then hit ''MEDIUM'' (''Script interpreter '' @ quoted pn @ '' detected.'')
               ''TA0002'' ''Execution'' ''Command and Scripting Interpreter'' ''T1059''
        else no_hit)"

definition PRIVILEGED_RULE_USERS :: "string list" where
  "PRIVILEGED_RULE_USERS = [''root'', ''system'', ''nt authority'' @ backslash # ''system'',
     ''administrator'', ''nt authority'' @ backslash # ''local service'',
     ''nt authority'' @ backslash # ''network service'']"

definition rule_privilege_escalation :: "event \<Rightarrow> rule_result" where
  "rule_privilege_escalation e =
     (if \<not> truthy (ev_process_name e) then no_hit
      else let pn = text_of (ev_process_name e); name = strip (lower pn);
        user = strip (lower (text_of (ev_user e)));
        is_privileged = List.member PRIVILEGED_RULE_USERS user;
        is_desktop_app = List.member NON_ROOT_PROCESSES name
      in if is_privileged \<and> is_desktop_app
         then hit ''HIGH'' (''Privilege escalation indicator: '' @ quoted pn @ '' running as '' @
                quoted (fmt_opt (ev_user e)) @ ''.'')
                ''TA0004'' ''Privilege Escalation'' ''Access Token Manipulation'' ''T1134''
         else no_hit)"

definition DOUBLE_EXTENSION :: rx where
  "DOUBLE_EXTENSION = rx_seq
     [rx_char CHR ''.'',
      rx_alts (map rx_lit [''pdf'', ''doc'', ''docx'', ''xls'', ''xlsx'', ''jpg'', ''png'', ''txt'',
        ''rtf'', ''ppt'', ''pptx'']),
      rx_char CHR ''.'',
      rx_alts (map rx_lit [''exe'', ''bat'', ''ps1'', ''vbs'', ''js'', ''com'', ''scr'', ''pif'',
        ''jar'', ''wsf'', ''hta''])]"

definition rule_double_extension :: "event \<Rightarrow> rule_result" where
  "rule_double_extension e =
     (if \<not> truthy (ev_process_name e) then no_hit
      else let pn = text_of (ev_process_name e) in
        if rx_search_end DOUBLE_EXTENSION (lower pn)
        then hit ''HIGH'' (''Double extension detected in '' @ quoted pn @ ''.'')
               ''TA0005'' ''Defense Evasion'' ''Masquerading'' ''T1036''
        else no_hit)"

definition rule_encoded_command :: "event \<Rightarrow> rule_result" where
  "rule_encoded_command e =
     (let hay = lower (text_of (ev_command_line e) @ '' '' @ text_of (ev_process_path e)) in
      if strip hay = [] then no_hit
      else if list_ex (\<lambda>r. rx_search r hay) ENCODED_PATTERNS
      then hit ''HIGH'' (''Encoded/obfuscated command detected in '' @
             quoted (fmt_opt (ev_process_name e)) @ '': possible payload.'')
             ''TA0005'' ''Defense Evasion'' ''Obfuscated Files or Information'' ''T1027''
      else no_hit)"

definition rule_network_tool :: "event \<Rightarrow> rule_result" where
  "rule_network_tool e =
     (if \<not> truthy (ev_process_name e) then no_hit
      else let pn = text_of (ev_process_name e); name = stem (strip (lower pn)) in
        if \<not> List.member (map stem NETWORK_TOOLS) name then no_hit
        else if truthy (ev_process_path e) \<and> any_in SUSPICIOUS_PATHS (norm_path (ev_process_path e))
        then hit ''MEDIUM'' (''Network tool '' @ quoted pn @ '' from suspicious path: '' @
               quoted (fmt_opt (ev_process_path e)) @ ''.'')
               ''TA0007'' ''Discovery'' ''System Network Configuration Discovery'' ''T1016''
        else no_hit)"

definition rule_suspicious_parent_child :: "event \<Rightarrow> rule_result" where
  "rule_suspicious_parent_child e =
     (if \<not> truthy (ev_parent_process_name e) \<or> \<not> truthy (ev_process_name e) then no_hit
      else let parent = text_of (ev_parent_process_name e); child = text_of (ev_process_name e) in
        case find_first (\<lambda>(ps, cs, _). list_ex (proc_match parent) ps \<and> list_ex (proc_match child) cs)
               SUSPICIOUS_PARENT_CHILD of
          None \<Rightarrow> no_hit
        | Some (ps, cs, sev, desc, ta_tactic, tactic, technique, tech_id) \<Rightarrow>
            hit sev (format_fields [(''parent'', parent), (''child'', child)] desc)
              ta_tactic tactic technique tech_id)"

definition rule_malware_family :: "event \<Rightarrow> rule_result" where
  "rule_malware_family e =
     (if \<not> truthy (ev_process_name e) then no_hit
      else let pn = text_of (ev_process_name e); name = strip (lower pn);
        name_stripped = replace_str ''.ps1'' [] (replace_str ''.bat'' []
          (replace_str ''.dll'' [] (replace_str ''.exe'' [] name)))
      in case find_first (\<lambda>(keyword, _). token_search (strip keyword) False name \<or>
                 token_search (strip keyword) False name_stripped) MALWARE_FAMILIES of
           None \<Rightarrow> no_hit
         | Some (keyword, sev, desc, ta_tactic, tech, tech_id) \<Rightarrow>
             (hit sev (format_fields [(''name'', pn)] desc) ta_tactic tech [] tech_id)
             \<lparr>rr_mitre_technique := None\<rparr>)"

definition rule_persistence_path :: "event \<Rightarrow> rule_result" where
  "rule_persistence_path e =
     (if \<not> truthy (ev_process_path e) then no_hit
      else if any_in PERSISTENCE_PATHS (norm_path (ev_process_path e))
      then hit ''HIGH'' (''Process '' @ quoted (fmt_opt (ev_process_name e)) @
             '' installed persistence at: '' @ quoted (fmt_opt (ev_process_path e)) @ ''.'')
             ''TA0003'' ''Persistence'' ''Boot or Logon Autostart Execution'' ''T1547''
      else no_hit)"

definition family_match :: "string \<Rightarrow> bool" where
  "family_match name \<longleftrightarrow>
     list_ex (\<lambda>(keyword, _). token_search (strip keyword) False name) MALWARE_FAMILIES"

definition susp_dll :: "string option \<Rightarrow> bool" where
  "susp_dll p = (let pl = norm_path p in endswith pl ''.dll'' \<and> any_in SUSPICIOUS_PATHS pl)"

definition rule_dll_hijack_path :: "event \<Rightarrow> rule_result" where
  "rule_dll_hijack_path e =
     (let mods = (case ev_loaded_modules e of None \<Rightarrow> [] | Some ms \<Rightarrow> ms) in
      case find_first (\<lambda>m. susp_dll (Some m)) mods of
        Some m \<Rightarrow>
          hit ''HIGH'' (''Possible DLL hijacking: '' @ quoted m @ '' loaded from suspicious path.'')
            ''TA0005'' ''Defense Evasion'' ''DLL Side-Loading'' ''T1574''
      | None \<Rightarrow>
          if truthy (ev_process_path e) \<and> susp_dll (ev_process_path e)
          then hit ''HIGH'' (''Possible DLL hijacking: '' @ quoted (fmt_opt (ev_process_name e)) @
                 '' loaded from suspicious path.'')
                 ''TA0005'' ''Defense Evasion'' ''DLL Side-Loading'' ''T1574''
          else no_hit)"

definition lolbin_standard_path :: "string \<Rightarrow> bool" where
  "lolbin_standard_path path_lower \<longleftrightarrow>
     py_in ''/system32/'' path_lower \<or> py_in ''/syswow64/'' path_lower \<or>
     any_startswith [''/usr/bin/'', ''/bin/'', ''/sbin/'', ''/usr/sbin/''] path_lower"

definition rule_lolbin_usage :: "event \<Rightarrow> rule_result" where
  "rule_lolbin_usage e =
     (if \<not> truthy (ev_process_name e) then no_hit
      else let pn = text_of (ev_process_name e); name = strip (lower pn) in
        if \<not> List.member LOLBINS name \<or> \<not> truthy (ev_process_path e) then no_hit
        else if \<not> lolbin_standard_path (norm_path (ev_process_path e))
        then hit ''HIGH'' (''LOLBin '' @ quoted pn @ '' executed from non-standard path: '' @
               quoted (fmt_opt (ev_process_path e)) @ ''.'')
               ''TA0005'' ''Defense Evasion'' ''Signed Binary Proxy Execution'' ''T1218''
        else if any_in LOLBIN_SUSPICIOUS_ARGS (lower (text_of (ev_command_line e)))
        then hit ''HIGH'' (''LOLBin '' @ quoted pn @ '' with suspicious arguments: '' @
               quoted (fmt_opt (ev_command_line e)) @ ''.'')
               ''TA0005'' ''Defense Evasion'' ''Signed Binary Proxy Execution'' ''T1218''
        else no_hit)"

definition rule_high_thread_count :: "event \<Rightarrow> rule_result" where
  "rule_high_thread_count e =
     (case ev_thread_count e of
        None \<Rightarrow> no_hit
      | Some n \<Rightarrow>
          if n > HIGH_THREAD_COUNT_THRESHOLD
          then hit ''MEDIUM'' (''Process '' @ quoted (fmt_opt (ev_process_name e)) @
                 '' has abnormally high thread count: '' @ show_int n @ ''. Possible injection.'')
                 ''TA0005'' ''Defense Evasion'' ''Process Injection'' ''T1055''
          else no_hit)"

subsection \<open>Network beacons\<close>

text \<open>
  One connection: \<open>Some remote\<close> when it is established, to a public address; the two
  \<open>str\<close> methods raise on a value of another type.
\<close>

definition outbound_remote :: "pydict \<Rightarrow> (string option) result" where
  "outbound_remote conn =
     bind_result (as_str (py_or (dict_get_or conn ''remote'' (PStr [])) (PStr []))) (\<lambda>r.
     bind_result (as_str (py_or (dict_get_or conn ''state'' (PStr [])) (PStr []))) (\<lambda>st.
       let remote = strip_chars ''[]'' (strip r); state = upper st in
       if CHR '':'' \<notin> set remote \<or> state \<noteq> ''ESTABLISHED'' then Inr None
       else let host = strip_chars ''[]'' (strip (before_last CHR '':'' remote)) in
         Inr (if host \<noteq> [] \<and> \<not> is_private_ip host then Some remote else None)))"

fun outbound_list :: "pydict list \<Rightarrow> (string list) result" where
  "outbound_list [] = Inr []"
| "outbound_list (c # cs) =
     bind_result (outbound_remote c) (\<lambda>o1. bind_result (outbound_list cs) (\<lambda>os.
       Inr (case o1 of None \<Rightarrow> os | Some r \<Rightarrow> r # os)))"

definition high_risk_process :: "string \<Rightarrow> bool" where
  "high_risk_process name =
     (let st = stem name in
      List.member LOLBINS name \<or> List.member (map stem LOLBINS) st \<or>
      List.member (map stem CREDENTIAL_TOOLS) st \<or> List.member (map stem SCANNER_TOOLS) st \<or>
      List.member (map stem EXPLOIT_TOOLS) st \<or> List.member (map stem POST_EXPLOIT_TOOLS) st \<or>
      List.member (map stem RAT_TOOLS) st \<or> List.member (map stem RANSOMWARE) st \<or>
      List.member (map stem INFO_STEALERS) st \<or> List.member (map stem EVASION_TOOLS) st \<or>
      family_match st)"

definition rule_network_beacon :: "event \<Rightarrow> rule_result result" where
  "rule_network_beacon e =
     (case ev_network_connections e of
        None \<Rightarrow> Inr no_hit
      | Some [] \<Rightarrow> Inr no_hit
      | Some (c # cs) \<Rightarrow>
          if \<not> high_risk_process (base (text_of (ev_process_name e))) \<and>
             (\<not> truthy (ev_process_path e) \<or>
              \<not> any_in SUSPICIOUS_PATHS (norm_path (ev_process_path e)))
          then Inr no_hit
          else bind_result (outbound_list (c # cs)) (\<lambda>outbound.
            Inr (if outbound = [] then no_hit
              else hit ''MEDIUM'' (''High-risk process '' @ quoted (fmt_opt (ev_process_name e)) @
                     '' has '' @ show_nat (length outbound) @ '' outbound connections: '' @
                     join ''; '' (take 3 outbound) @ ''.'')
                     ''TA0011'' ''Command and Control'' ''Application Layer Protocol'' ''T1071'')))"

subsection \<open>Persistence names\<close>

definition persistence_names :: "string list" where
  "persistence_names = [''svch0st.exe'', ''scvhost.exe'', ''sysupdate.exe'', ''winupdate.exe'',
     ''microsofupdate.exe'', ''googledeupdate.exe'', ''adobeflashupdate.exe'', ''javupdate.exe'',
     ''mssecsvc.exe'', ''mssecsvc'']"

text \<open>
  The fuzzy branch walks a Python set; \<open>bads\<close> is the order in which it is iterated, which
  only decides the name printed in the description.
\<close>

definition fuzzy_names :: "string list" where
  "fuzzy_names = remdups (map stem persistence_names @ [''svchost'', ''scvhosts''])"

definition rule_persistence_autorun_in :: "string list \<Rightarrow> event \<Rightarrow> rule_result" where
  "rule_persistence_autorun_in bads e =
     (if \<not> truthy (ev_process_name e) then no_hit
      else let pn = text_of (ev_process_name e); name = strip (lower pn) in
        if List.member persistence_names name
        then hit ''HIGH'' (''Suspicious persistence-like process name: '' @ quoted pn @ ''.'')
               ''TA0003'' ''Persistence'' ''Boot or Logon Autostart Execution'' ''T1547''
        else if truthy (ev_process_path e) \<and> \<not> in_standard_path (ev_process_path e)
        then (case find_first (\<lambda>bad. lev (stem name) bad \<le> 1) bads of
                None \<Rightarrow> no_hit
              | Some bad \<Rightarrow>
                  hit ''HIGH'' (''Suspicious persistence-like process name (variant of '' @
                    quoted bad @ ''): '' @ quoted pn @ ''.'')
                    ''TA0003'' ''Persistence'' ''Boot or Logon Autostart Execution'' ''T1547'')
        else no_hit)"

definition rule_persistence_autorun :: "event \<Rightarrow> rule_result" where
  "rule_persistence_autorun e = rule_persistence_autorun_in fuzzy_names e"

subsection \<open>Command-line rules\<close>

definition rule_autorun_registry_write :: "event \<Rightarrow> rule_result" where
  "rule_autorun_registry_write e =
     (let cmd = lower (text_of (ev_command_line e)) in
      if cmd = [] then no_hit
      else if \<not> any_in RUN_KEY_PATHS cmd then no_hit
      else if \<not> any_in REG_WRITE_MARKERS cmd then no_hit
      else hit ''HIGH'' (''Autorun registry key written by '' @
             quoted (fmt_opt (ev_process_name e)) @ '': '' @ quoted (cut200 (ev_command_line e)) @ ''.'')
             ''TA0003'' ''Persistence'' ''Registry Run Keys / Startup Folder'' ''T1547.001'')"

definition rule_scheduled_task_creation :: "event \<Rightarrow> rule_result" where
  "rule_scheduled_task_creation e =
     (let cmd = lower (text_of (ev_command_line e)) in
      if cmd = [] \<or> \<not> any_in TASK_WRITE_MARKERS cmd then no_hit
      else let script_action = any_in TASK_SCRIPT_ACTIONS cmd in
        hit (if script_action then ''CRITICAL'' else ''HIGH'')
          (''Scheduled task created by '' @ quoted (fmt_opt (ev_process_name e)) @
           (if script_action then '' running a script interpreter'' else []) @ '': '' @
           quoted (cut200 (ev_command_line e)) @ ''.'')
          ''TA0003'' ''Persistence'' ''Scheduled Task/Job'' ''T1053.005'')"

definition rule_discovery_commands :: "event \<Rightarrow> rule_result" where
  "rule_discovery_commands e =
     (let cmd = norm_command (ev_command_line e); name = lower (text_of (ev_process_name e)) in
      if cmd = [] then no_hit
      else if \<not> List.member [''whoami.exe'', ''whoami'', ''net.exe'', ''net1.exe'', ''net'',
                ''quser.exe'', ''query.exe'', ''query''] name then no_hit
      else case find_first (\<lambda>(needle, _). py_in needle cmd) DISCOVERY_COMMANDS of
             None \<Rightarrow> no_hit
           | Some (needle, technique_id, technique) \<Rightarrow>
               hit ''MEDIUM'' (''Reconnaissance command '' @ quoted needle @ '' executed by '' @
                 quoted (fmt_opt (ev_process_name e)) @ '': '' @ quoted (cut200 (ev_command_line e)) @ ''.'')
                 ''TA0007'' ''Discovery'' technique technique_id)"

definition tampering_hit :: "event \<Rightarrow> string \<Rightarrow> string \<Rightarrow> rule_result" where
  "tampering_hit e reason severity =
     hit severity (''Security control tampering ('' @ reason @ '') by '' @
       quoted (fmt_opt (ev_process_name e)) @ '': '' @ quoted (cut200 (ev_command_line e)) @ ''.'')
       ''TA0005'' ''Defense Evasion'' ''Impair Defenses'' ''T1562''"

definition rule_security_control_tampering :: "event \<Rightarrow> rule_result" where
  "rule_security_control_tampering e =
     (let cmd = norm_command (ev_command_line e) in
      if cmd = [] then no_hit
      else if any_in SECURITY_SERVICES cmd \<and> any_in SERVICE_STOP_MARKERS cmd
        then tampering_hit e ''security service stopped/disabled'' ''CRITICAL''
      else if any_in SECURITY_SERVICES cmd \<and> py_in ''sc config'' cmd \<and>
              any_in [''disabled'', ''demand''] cmd
        then tampering_hit e ''security service set to disabled'' ''CRITICAL''
      else if any_in SECURITY_SERVICES cmd \<and> any_in SECURITY_PROCESS_KILL cmd
        then tampering_hit e ''security product process terminated'' ''CRITICAL''
      else if py_in ''mppreference'' cmd \<and> any_in DEFENDER_TAMPER_MARKERS cmd
        then tampering_hit e ''Defender protection disabled or exclusion added'' ''CRITICAL''
      else if any_in [''firewall'', ''netfirewallprofile''] cmd \<and>
              any_in [''state off'', ''opmode disable'', ''-enabled false'', ''-enabled 0''] cmd
        then tampering_hit e ''host firewall disabled'' ''HIGH''
      else if py_in ''auditpol'' cmd \<and> any_in [''/clear'', ''remove''] cmd
        then tampering_hit e ''audit policy cleared'' ''CRITICAL''
      else no_hit)"

definition rule_event_log_clearing :: "event \<Rightarrow> rule_result" where
  "rule_event_log_clearing e =
     (let cmd = norm_command (ev_command_line e) in
      if cmd = [] \<or> \<not> any_in LOG_CLEAR_MARKERS cmd then no_hit
      else hit ''CRITICAL'' (''Windows event log cleared or disabled by '' @
             quoted (fmt_opt (ev_process_name e)) @ '': '' @ quoted (cut200 (ev_command_line e)) @ ''.'')
             ''TA0005'' ''Defense Evasion'' ''Indicator Removal: Clear Windows Event Logs'' ''T1070.001'')"

definition rule_recovery_destruction :: "event \<Rightarrow> rule_result" where
  "rule_recovery_destruction e =
     (let cmd = norm_command (ev_command_line e) in
      if cmd = [] then no_hit
      else let wmi_shadow_delete =
          (py_in ''win32_shadowcopy'' cmd \<or> py_in ''shadowcopy'' cmd) \<and>
          (py_in ''delete'' cmd \<or> py_in ''remove-wmiobject'' cmd)
        in if \<not> wmi_shadow_delete \<and> \<not> any_in RECOVERY_DESTRUCTION cmd then no_hit
           else hit ''CRITICAL'' (''System recovery destroyed (backup/shadow copy/recovery) by '' @
             quoted (fmt_opt (ev_process_name e)) @ '': '' @ quoted (cut200 (ev_command_line e)) @ ''.'')
             ''TA0040'' ''Impact'' ''Inhibit System Recovery'' ''T1490'')"

end
