(* ===== verification/Rule_Registry.thy ===== *)
theory Rule_Registry
  imports Static_Rules
begin

section \<open>The static-rule registry\<close>

text \<open>
  \<open>STATIC_RULES\<close>, \<open>ALL_RULES\<close>, \<open>RULE_BY_FN\<close>, \<open>stamp_result\<close>, the canary set and the documentation
  table \<open>RULE_NOTES\<close> with its readers, from the end of \<open>app/rules/rule_definitions.py\<close>.
  \<open>run_rule\<close> calls the function a \<open>rule_fn\<close> names.

  A note is a Python value that is either a tuple of strings or, where the source writes
  parentheses without a comma, one string; \<open>tuple(...)\<close> and \<open>list(...)\<close> of the latter are its
  characters, which \<open>note_items\<close> keeps.
\<close>

definition run_rule :: "rule_fn \<Rightarrow> event \<Rightarrow> rule_result result" where
  "run_rule fn e = (case fn of
     Rule_known_attack_tool \<Rightarrow> Inr (rule_known_attack_tool e)
   | Rule_suspicious_parent_child \<Rightarrow> Inr (rule_suspicious_parent_child e)
   | Rule_malware_family \<Rightarrow> Inr (rule_malware_family e)
   | Rule_suspicious_execution_path \<Rightarrow> Inr (rule_suspicious_execution_path e)
   | Rule_privilege_escalation \<Rightarrow> Inr (rule_privilege_escalation e)
   | Rule_double_extension \<Rightarrow> Inr (rule_double_extension e)
   | Rule_encoded_command \<Rightarrow> Inr (rule_encoded_command e)
   | Rule_persistence_path \<Rightarrow> Inr (rule_persistence_path e)
   | Rule_script_interpreter_abuse \<Rightarrow> Inr (rule_script_interpreter_abuse e)
   | Rule_network_tool \<Rightarrow> Inr (rule_network_tool e)
   | Rule_dll_hijack_path \<Rightarrow> Inr (rule_dll_hijack_path e)
   | Rule_lolbin_usage \<Rightarrow> Inr (rule_lolbin_usage e)
   | Rule_high_thread_count \<Rightarrow> Inr (rule_high_thread_count e)
   | Rule_network_beacon \<Rightarrow> rule_network_beacon e
   | Rule_persistence_autorun \<Rightarrow> Inr (rule_persistence_autorun e)
   | Rule_autorun_registry_write \<Rightarrow> Inr (rule_autorun_registry_write e)
   | Rule_scheduled_task_creation \<Rightarrow> Inr (rule_scheduled_task_creation e)
   | Rule_discovery_commands \<Rightarrow> Inr (rule_discovery_commands e)
   | Rule_security_control_tampering \<Rightarrow> Inr (rule_security_control_tampering e)
   | Rule_event_log_clearing \<Rightarrow> Inr (rule_event_log_clearing e)
   | Rule_recovery_destruction \<Rightarrow> Inr (rule_recovery_destruction e))"

definition STATIC_RULES :: "static_rule list" where
  "STATIC_RULES =
    [\<lparr>sr_rule_id = ''AEGIS-S001'', sr_version = ''1.0'', sr_confidence = ''high'',
       sr_name = ''Known Attack Tool'', sr_severity = ''CRITICAL'',
       sr_description = ''Detects 200+ known attack tools, credential dumpers, scanners, RATs, ransomware, etc.'',
       sr_mitre_tactic_id = Some ''TA0002'', sr_mitre_tactic = ''Execution'',
       sr_mitre_technique = ''User Execution'',
       sr_mitre_technique_id = ''T1204'', sr_fn = Rule_known_attack_tool\<rparr>,
     \<lparr>sr_rule_id = ''AEGIS-S002'', sr_version = ''1.0'', sr_confidence = ''high'',
       sr_name = ''Suspicious Parent-Child'', sr_severity = ''CRITICAL'',
       sr_description = ''Anomalous process lineage: Office, browser, PDF reader spawning script interpreters.'',
       sr_mitre_tactic_id = Some ''TA0002'', sr_mitre_tactic = ''Execution'',
       sr_mitre_technique = ''User Execution'',
       sr_mitre_technique_id = ''T1204'', sr_fn = Rule_suspicious_parent_child\<rparr>,
     \<lparr>sr_rule_id = ''AEGIS-S003'', sr_version = ''1.0'', sr_confidence = ''high'',
       sr_name = ''Malware Family'', sr_severity = ''HIGH'',
       sr_description = ''Process names matching known malware family patterns (trojan, backdoor, miner, ransomware, etc.). MITRE varies per matched family at runtime (see alert fields).'',
       sr_mitre_tactic_id = Some ''TA0002'', sr_mitre_tactic = ''Execution'',
       sr_mitre_technique = ''Varies by family'',
       sr_mitre_technique_id = ''T1204'', sr_fn = Rule_malware_family\<rparr>,
     \<lparr>sr_rule_id = ''AEGIS-S004'', sr_version = ''1.0'', sr_confidence = ''medium'',
       sr_name = ''Suspicious Execution Path'', sr_severity = ''HIGH'',
       sr_description = ''Processes executing from temp, downloads, cache, public, or other suspicious paths.'',
       sr_mitre_tactic_id = Some ''TA0002'', sr_mitre_tactic = ''Execution'',
       sr_mitre_technique = ''Command and Scripting Interpreter'',
       sr_mitre_technique_id = ''T1059'', sr_fn = Rule_suspicious_execution_path\<rparr>,
     \<lparr>sr_rule_id = ''AEGIS-S005'', sr_version = ''1.0'', sr_confidence = ''medium'',
       sr_name = ''Privilege Escalation'', sr_severity = ''HIGH'',
       sr_description = ''Desktop/user apps running with SYSTEM/root privileges.'',
       sr_mitre_tactic_id = Some ''TA0004'', sr_mitre_tactic = ''Privilege Escalation'',
       sr_mitre_technique = ''Access Token Manipulation'',
       sr_mitre_technique_id = ''T1134'', sr_fn = Rule_privilege_escalation\<rparr>,
     \<lparr>sr_rule_id = ''AEGIS-S006'', sr_version = ''1.0'', sr_confidence = ''high'',
       sr_name = ''Double Extension'', sr_severity = ''HIGH'',
       sr_description = ''Files with double extensions indicating masquerading attacks.'',
       sr_mitre_tactic_id = Some ''TA0005'', sr_mitre_tactic = ''Defense Evasion'',
       sr_mitre_technique = ''Masquerading'',
       sr_mitre_technique_id = ''T1036'', sr_fn = Rule_double_extension\<rparr>,
     \<lparr>sr_rule_id = ''AEGIS-S007'', sr_version = ''1.0'', sr_confidence = ''high'',
       sr_name = ''Encoded Command'', sr_severity = ''HIGH'',
       sr_description = ''Base64 encoded or obfuscated commands indicating payload delivery.'',
       sr_mitre_tactic_id = Some ''TA0005'', sr_mitre_tactic = ''Defense Evasion'',
       sr_mitre_technique = ''Obfuscated Files or Information'',
       sr_mitre_technique_id = ''T1027'', sr_fn = Rule_encoded_command\<rparr>,
     \<lparr>sr_rule_id = ''AEGIS-S008'', sr_version = ''1.0'', sr_confidence = ''medium'',
       sr_name = ''Persistence Path'', sr_severity = ''HIGH'',
       sr_description = ''Process executing from persistence locations (startup, cron, systemd, launchd).'',
       sr_mitre_tactic_id = Some ''TA0003'', sr_mitre_tactic = ''Persistence'',
       sr_mitre_technique = ''Boot or Logon Autostart Execution'',
       sr_mitre_technique_id = ''T1547'', sr_fn = Rule_persistence_path\<rparr>,
     \<lparr>sr_rule_id = ''AEGIS-S009'', sr_version = ''1.0'', sr_confidence = ''low'',
       sr_name = ''Script Interpreter Abuse'', sr_severity = ''MEDIUM'',
       sr_description = ''Script interpreters like PowerShell, cmd, bash, Python, Perl, etc. detected.'',
       sr_mitre_tactic_id = Some ''TA0002'', sr_mitre_tactic = ''Execution'',
       sr_mitre_technique = ''Command and Scripting Interpreter'',
       sr_mitre_technique_id = ''T1059'', sr_fn = Rule_script_interpreter_abuse\<rparr>,
     \<lparr>sr_rule_id = ''AEGIS-S010'', sr_version = ''1.0'', sr_confidence = ''low'',
       sr_name = ''Network Tool in Suspicious Path'', sr_severity = ''MEDIUM'',
       sr_description = ''Network reconnaissance tools executed from suspicious directories.'',
       sr_mitre_tactic_id = Some ''TA0007'', sr_mitre_tactic = ''Discovery'',
       sr_mitre_technique = ''System Network Configuration Discovery'',
       sr_mitre_technique_id = ''T1016'', sr_fn = Rule_network_tool\<rparr>,
     \<lparr>sr_rule_id = ''AEGIS-S011'', sr_version = ''1.0'', sr_confidence = ''medium'',
       sr_name = ''DLL Hijacking'', sr_severity = ''HIGH'',
       sr_description = ''DLL loaded from suspicious/user-writable path indicating possible DLL hijacking.'',
       sr_mitre_tactic_id = Some ''TA0005'', sr_mitre_tactic = ''Defense Evasion'',
       sr_mitre_technique = ''DLL Side-Loading'',
       sr_mitre_technique_id = ''T1574'', sr_fn = Rule_dll_hijack_path\<rparr>,
     \<lparr>sr_rule_id = ''AEGIS-S012'', sr_version = ''1.0'', sr_confidence = ''medium'',
       sr_name = ''LOLBin Abuse'', sr_severity = ''HIGH'',
       sr_description = ''Living-off-the-land binary executed from non-standard path.'',
       sr_mitre_tactic_id = Some ''TA0005'', sr_mitre_tactic = ''Defense Evasion'',
       sr_mitre_technique = ''Signed Binary Proxy Execution'',
       sr_mitre_technique_id = ''T1218'', sr_fn = Rule_lolbin_usage\<rparr>,
     \<lparr>sr_rule_id = ''AEGIS-S013'', sr_version = ''1.0'', sr_confidence = ''low'',
       sr_name = ''High Thread Count'', sr_severity = ''MEDIUM'',
       sr_description = ''Process with abnormally high thread count indicating possible injection.'',
       sr_mitre_tactic_id = Some ''TA0005'', sr_mitre_tactic = ''Defense Evasion'',
       sr_mitre_technique = ''Process Injection'',
       sr_mitre_technique_id = ''T1055'', sr_fn = Rule_high_thread_count\<rparr>,
     \<lparr>sr_rule_id = ''AEGIS-S014'', sr_version = ''1.0'', sr_confidence = ''low'',
       sr_name = ''Network Beacon'', sr_severity = ''MEDIUM'',
       sr_description = (''Process with outbound connections to public IPs '' @ [CHR 0xE2, CHR 0x80, CHR 0x94] @ '' possible C2 beacon.''),
       sr_mitre_tactic_id = Some ''TA0011'', sr_mitre_tactic = ''Command and Control'',
       sr_mitre_technique = ''Application Layer Protocol'',
       sr_mitre_technique_id = ''T1071'', sr_fn = Rule_network_beacon\<rparr>,
     \<lparr>sr_rule_id = ''AEGIS-S015'', sr_version = ''1.0'', sr_confidence = ''medium'',
       sr_name = ''Persistence Autorun'', sr_severity = ''HIGH'',
       sr_description = ''Process name mimics common persistence or masquerades as legitimate software.'',
       sr_mitre_tactic_id = Some ''TA0003'', sr_mitre_tactic = ''Persistence'',
       sr_mitre_technique = ''Boot or Logon Autostart Execution'',
       sr_mitre_technique_id = ''T1547'', sr_fn = Rule_persistence_autorun\<rparr>,
     \<lparr>sr_rule_id = ''AEGIS-S016'', sr_version = ''1.0'', sr_confidence = ''high'',
       sr_name = ''Autorun Registry Write'', sr_severity = ''HIGH'',
       sr_description = ''Run/RunOnce registry key written (runtime persistence, invisible to the startup snapshot).'',
       sr_mitre_tactic_id = Some ''TA0003'', sr_mitre_tactic = ''Persistence'',
       sr_mitre_technique = ''Registry Run Keys / Startup Folder'',
       sr_mitre_technique_id = ''T1547.001'', sr_fn = Rule_autorun_registry_write\<rparr>,
     \<lparr>sr_rule_id = ''AEGIS-S017'', sr_version = ''1.0'', sr_confidence = ''high'',
       sr_name = ''Scheduled Task Creation'', sr_severity = ''HIGH'',
       sr_description = ''Scheduled task created; CRITICAL when the action runs a script interpreter or LOLBin.'',
       sr_mitre_tactic_id = Some ''TA0003'', sr_mitre_tactic = ''Persistence'',
       sr_mitre_technique = ''Scheduled Task/Job'',
       sr_mitre_technique_id = ''T1053.005'', sr_fn = Rule_scheduled_task_creation\<rparr>,
     \<lparr>sr_rule_id = ''AEGIS-S018'', sr_version = ''1.0'', sr_confidence = ''medium'',
       sr_name = ''Discovery Commands'', sr_severity = ''MEDIUM'',
       sr_description = ''Local account/group/privilege enumeration (whoami /all, net user, net localgroup, quser).'',
       sr_mitre_tactic_id = Some ''TA0007'', sr_mitre_tactic = ''Discovery'',
       sr_mitre_technique = ''System Owner/User Discovery'',
       sr_mitre_technique_id = ''T1033'', sr_fn = Rule_discovery_commands\<rparr>,
     \<lparr>sr_rule_id = ''AEGIS-S019'', sr_version = ''1.0'', sr_confidence = ''high'',
       sr_name = ''Security Control Tampering'', sr_severity = ''CRITICAL'',
       sr_description = ''Security product/service disabled or killed, Defender exclusions added, host firewall turned off, audit policy cleared.'',
       sr_mitre_tactic_id = Some ''TA0005'', sr_mitre_tactic = ''Defense Evasion'',
       sr_mitre_technique = ''Impair Defenses'',
       sr_mitre_technique_id = ''T1562'', sr_fn = Rule_security_control_tampering\<rparr>,
     \<lparr>sr_rule_id = ''AEGIS-S020'', sr_version = ''1.0'', sr_confidence = ''high'',
       sr_name = ''Event Log Clearing'', sr_severity = ''CRITICAL'',
       sr_description = ''Windows event log cleared or disabled (wevtutil cl, Clear-EventLog, wevtutil sl /e:false).'',
       sr_mitre_tactic_id = Some ''TA0005'', sr_mitre_tactic = ''Defense Evasion'',
       sr_mitre_technique = ''Indicator Removal: Clear Windows Event Logs'',
       sr_mitre_technique_id = ''T1070.001'', sr_fn = Rule_event_log_clearing\<rparr>,
     \<lparr>sr_rule_id = ''AEGIS-S021'', sr_version = ''1.0'', sr_confidence = ''high'',
       sr_name = ''Recovery Destruction'', sr_severity = ''CRITICAL'',
       sr_description = ''Backup catalog, shadow copies or Windows recovery disabled/deleted (ransomware preparation).'',
       sr_mitre_tactic_id = Some ''TA0040'', sr_mitre_tactic = ''Impact'',
       sr_mitre_technique = ''Inhibit System Recovery'',
       sr_mitre_technique_id = ''T1490'', sr_fn = Rule_recovery_destruction\<rparr>]"

definition ALL_RULES :: "rule_fn list" where
  "ALL_RULES = map sr_fn STATIC_RULES"

text \<open>The dictionary comprehension keeps the last row of a function that occurs twice.\<close>

definition RULE_BY_FN :: "rule_fn \<Rightarrow> static_rule option" where
  "RULE_BY_FN fn = find_first (\<lambda>s. sr_fn s = fn) (rev STATIC_RULES)"

definition stamp_result :: "rule_fn \<Rightarrow> rule_result \<Rightarrow> rule_result" where
  "stamp_result fn r =
     (case RULE_BY_FN fn of
        None \<Rightarrow> r
      | Some meta \<Rightarrow>
          if rr_rule_id r = [] \<or> rr_rule_id r = ''custom''
          then r\<lparr>rr_rule_id := sr_rule_id meta, rr_version := sr_version meta,
                 rr_confidence := (if rr_confidence r = DEFAULT_CONFIDENCE
                   then sr_confidence meta else rr_confidence r)\<rparr>
          else r)"

text \<open>\<open>raw\<close> is the setting \<open>RULE_CANARY_IDS\<close> (empty when the settings cannot be read).\<close>

definition canary_rule_ids :: "string \<Rightarrow> string set" where
  "canary_rule_ids raw =
     set (map (\<lambda>r. upper (strip r)) (filter (\<lambda>r. strip r \<noteq> []) (split_char CHR '','' raw)))"

definition is_canary_rule :: "string \<Rightarrow> string \<Rightarrow> bool" where
  "is_canary_rule raw rule_id \<longleftrightarrow>
     rule_id \<noteq> [] \<and> upper (strip rule_id) \<in> canary_rule_ids raw"

subsection \<open>Documentation notes\<close>

datatype doc_note = NStr string | NTup "string list"

fun note_items :: "doc_note \<Rightarrow> string list" where
  "note_items (NStr s) = map (\<lambda>c. [c]) s"
| "note_items (NTup xs) = xs"

definition RULE_NOTES :: "(string \<times> doc_note \<times> doc_note) list" where
  "RULE_NOTES =
    [(''AEGIS-S001'', NTup [''Authorized administration/simulation tooling'', ''Analysis sandboxes and labs (explicit allowlist)''],
      NTup [''SOC-approved IT/pentest tooling'', ''Legitimate renamed/repackaged binaries with a valid signature and known build script'']),
     (''AEGIS-S002'', NTup [''CI machines that run builds/packaging through an interpreter'', ''Already-approved Office macro automation''],
      NTup [''Interpreters launched by signed wrappers with a known relationship'', ''Red-team simulations covered by a canary rule'']),
     (''AEGIS-S003'', NTup [''File names with 'trojan'/'miner' that are NOT executable (logs, text)'', ''Projects whose names contain the pattern (e.g. 'ProjectRansom')''],
      NTup [''Signed Microsoft binaries that contain 'password' in the name'', ''IT tools with overlapping names (e.g. license managers' 'loader')'']),
     (''AEGIS-S004'', NTup [''Installers using %TEMP% as scratch space before copying into Program Files'', ''Browsers running update helpers from their cache''],
      NTup [''Approved working paths per department (documented per site)'', ''Known CI/CD staging directories'']),
     (''AEGIS-S005'', NTup [''Desktop apps launched via RunAs from remote administration'', ''Kiosks and VDIs with an execution policy''],
      NTup [''Local 'operator' user profile with documented delegation'', ''Hosts with an approved legacy 'users-as-admin' configuration'']),
     (''AEGIS-S006'', NStr (''Real double-extension files handled by the document management team''),
      NStr (''Double-extension file types validated by DLP and signed'')),
     (''AEGIS-S007'', NTup [''Administrative encoded scripts already reviewed and approved'', ''Enterprise policy passing encoded parameters from official tooling''],
      NStr (''Known hashes of signed encoded scripts versioned by the SOC'')),
     (''AEGIS-S008'', NTup [''Enterprise software with Startup auto-update (Adobe, Java, Chrome)'', ''Scheduled tasks created by managed software''],
      NStr (''Persistence paths of approved software (software inventory)'')),
     (''AEGIS-S009'', NStr (''Administrators who routinely use PowerShell/scripting tools''),
      NStr (''Interpreters used by known patch manager/management processes'')),
     (''AEGIS-S010'', NStr (''Network tooling used by the networking/sysadmin team under a change ticket''),
      NStr (''Approved monitoring suites (planned nmap) from known source IPs'')),
     (''AEGIS-S011'', NTup [''Vendor side-by-side DLLs in AppData that are documented'', ''Plug-ins legitimately loaded from user folders''],
      NStr (''DLLs/hashes with a valid signature from approved vendors'')),
     (''AEGIS-S012'', NStr (''LOLBins used by documented IT automation (certutil to verify, bitsadmin to patch)''),
      NTup [''Standard system32/syswow64/usr/bin paths (excluded) already handled'', ''Signed enterprise scripts invoking LOLBins from approved paths'']),
     (''AEGIS-S013'', NStr (''Legitimate multithreaded processes (antivirus, databases, browsers)''),
      NStr (''Processes whose historical average thread count exceeds the threshold (local baseline)'')),
     (''AEGIS-S014'', NTup [''Software updates/telemetry toward known public IPs'', ''Browsers with routine HTTPS connections''],
      NStr (''Domains/IPs for approved software updates (from inventory)'')),
     (''AEGIS-S016'', NTup [''Signed installers and updaters that legitimately register an autostart entry'', ''Corporate software deployment that pins a Run key as part of the package''],
      NTup [''Change-management record for the Run key (owner, software, date)'', ''Publisher/signature of the writing process, when the sensor can resolve it'']),
     (''AEGIS-S017'', NTup [''Task Scheduler actions configured by IT maintenance windows'', ''Backup/patch jobs created by signed management agents''],
      NTup [''Task names under the company's naming convention'', ''Signed management agent as the task creator'']),
     (''AEGIS-S018'', NTup [''Help desk and support scripts that enumerate local users as part of triage'', ''Login scripts and monitoring agents''],
      NTup [''Approved administrative scripts versioned by the SOC'', ''Interactive operator sessions covered by a canary rule'']),
     (''AEGIS-S015'', NStr (''Vendors using similar names (e.g. legitimate 'GoogleUpdate')''),
      NStr (''Process names of software installed through the software inventory'')),
     (''AEGIS-S019'', NTup [''Endpoint management tooling that migrates or reconfigures the AV agent'', ''Help-desk hotfix that temporarily stops a security service''],
      NTup [''Change ticket naming the service, the host and the window'', ''Execution from a signed management agent on the management VLAN'']),
     (''AEGIS-S020'', NTup [''Log-rotation scripts that export before clearing, run by a scheduled job'', ''Lab machines reset between exercises''],
      NTup [''Rotation job hash and the destination of the exported logs'', ''Hosts declared as disposable (lab image)'']),
     (''AEGIS-S021'', NTup [''Backup software rotating its own catalog on schedule'', ''Lab rebuild scripts that drop shadow copies before imaging''],
      NTup [''Signed backup agent with a documented retention policy'', ''Hosts in the lab pool, excluded by site policy'']),
     (''custom'', NStr (''No standard exceptions for custom rules''),
      NStr (''No standard allowlist for custom rules''))]"

definition notes_for :: "string \<Rightarrow> (doc_note \<times> doc_note) option" where
  "notes_for rule_id = assoc rule_id RULE_NOTES"

definition notes_or_custom :: "string \<Rightarrow> doc_note \<times> doc_note" where
  "notes_or_custom rule_id =
     (case notes_for (if rule_id = [] then ''custom'' else rule_id) of
        Some n \<Rightarrow> n
      | None \<Rightarrow> (case notes_for ''custom'' of Some n \<Rightarrow> n | None \<Rightarrow> (NTup [], NTup [])))"

definition rule_exceptions :: "string \<Rightarrow> string list" where
  "rule_exceptions rule_id = note_items (fst (notes_or_custom rule_id))"

definition rule_allowlist :: "string \<Rightarrow> string list" where
  "rule_allowlist rule_id = note_items (snd (notes_or_custom rule_id))"

text \<open>One row of \<open>rule_catalog\<close>: the registry row with its exceptions and its allowlist.\<close>

record catalog_row =
  cr_rule :: static_rule
  cr_exceptions :: "string list"
  cr_allowlist :: "string list"

definition rule_catalog :: "catalog_row list" where
  "rule_catalog = map (\<lambda>s. case notes_for (sr_rule_id s) of
       Some (ex, al) \<Rightarrow> \<lparr>cr_rule = s, cr_exceptions = note_items ex, cr_allowlist = note_items al\<rparr>
     | None \<Rightarrow> \<lparr>cr_rule = s, cr_exceptions = [], cr_allowlist = []\<rparr>) STATIC_RULES"

section \<open>Lemmas about the static rules\<close>

text \<open>
  The facts the rule properties and the heuristic engine rest on: every rule returns a
  well-formed result, the registry is a bijection between functions and identifiers, the
  edit distance of \<open>_lev\<close> agrees with its textbook recursion, and the private-address
  pattern agrees with the numeric address blocks.
\<close>

subsection \<open>Well-formed results\<close>

lemma format_fields_keeps_first:
  "c \<noteq> CHR ''{'' \<Longrightarrow> format_fields env (c # s) = c # format_fields env s"
proof -
  assume "c \<noteq> CHR ''{''"
  then have "find_first (\<lambda>kv. startswith (c # s) (''{'' @ fst kv @ ''}'')) env = None"
    by (simp add: find_first_None)
  then show ?thesis by simp
qed

definition wf_template :: "string \<Rightarrow> bool" where
  "wf_template d \<longleftrightarrow> d \<noteq> [] \<and> hd d \<noteq> CHR ''{''"

lemma format_fields_nonempty: "wf_template d \<Longrightarrow> format_fields env d \<noteq> []"
  by (cases d) (auto simp: wf_template_def format_fields_keeps_first simp del: format_fields.simps)

lemma SEVERITIES_mem [simp]:
  "''LOW'' \<in> set SEVERITIES" "''MEDIUM'' \<in> set SEVERITIES"
  "''HIGH'' \<in> set SEVERITIES" "''CRITICAL'' \<in> set SEVERITIES"
  by (simp_all add: SEVERITIES_def)

lemma wf_hit_confidence [wf_intros]: "wf_result r \<Longrightarrow> wf_result (r\<lparr>rr_confidence := c\<rparr>)"
  by (simp add: wf_result_def)

lemma wf_hit_technique [wf_intros]: "wf_result r \<Longrightarrow> wf_result (r\<lparr>rr_mitre_technique := t\<rparr>)"
  by (simp add: wf_result_def)

lemma parent_child_rows:
  "list_all (\<lambda>(ps, cs, sev, desc, ti, t, te, tei). sev \<in> set SEVERITIES \<and> wf_template desc)
     SUSPICIOUS_PARENT_CHILD"
  by code_simp

lemma malware_rows:
  "list_all (\<lambda>(kw, sev, desc, ti, te, tei). sev \<in> set SEVERITIES \<and> wf_template desc)
     MALWARE_FAMILIES"
  by code_simp

lemma wf_parent_child: "wf_result (rule_suspicious_parent_child e)"
proof -
  have "sev \<in> set SEVERITIES \<and> wf_template desc"
    if "find_first p SUSPICIOUS_PARENT_CHILD = Some (ps, cs, sev, desc, ti, t, te, tei)"
    for p ps cs sev desc ti t te tei
    using parent_child_rows find_first_Some [OF that] by (fastforce simp: list_all_iff)
  then show ?thesis
    by (auto simp: rule_suspicious_parent_child_def Let_def format_fields_nonempty
        split: option.split intro!: wf_intros)
qed

lemma wf_malware_family: "wf_result (rule_malware_family e)"
proof -
  have "sev \<in> set SEVERITIES \<and> wf_template desc"
    if "find_first p MALWARE_FAMILIES = Some (kw, sev, desc, ti, te, tei)"
    for p kw sev desc ti te tei
    using malware_rows find_first_Some [OF that] by (fastforce simp: list_all_iff)
  then show ?thesis
    by (auto simp: rule_malware_family_def Let_def format_fields_nonempty
        split: option.split intro!: wf_intros)
qed

lemma wf_name_rules [wf_intros]:
  "wf_result (rule_known_attack_tool e)"
  "wf_result (rule_suspicious_execution_path e)"
  "wf_result (rule_script_interpreter_abuse e)"
  "wf_result (rule_privilege_escalation e)"
  "wf_result (rule_double_extension e)"
  "wf_result (rule_encoded_command e)"
  "wf_result (rule_network_tool e)"
  by (auto simp: rule_known_attack_tool_def rule_suspicious_execution_path_def
      rule_script_interpreter_abuse_def rule_privilege_escalation_def rule_double_extension_def
      rule_encoded_command_def rule_network_tool_def Let_def intro!: wf_intros)

lemma wf_path_rules [wf_intros]:
  "wf_result (rule_persistence_path e)"
  "wf_result (rule_dll_hijack_path e)"
  "wf_result (rule_lolbin_usage e)"
  "wf_result (rule_high_thread_count e)"
  "wf_result (rule_persistence_autorun_in bads e)"
  by (auto simp: rule_persistence_path_def rule_dll_hijack_path_def rule_lolbin_usage_def
      rule_high_thread_count_def rule_persistence_autorun_in_def Let_def
      split: option.split intro!: wf_intros)

lemma wf_tampering_hit: "sev \<in> set SEVERITIES \<Longrightarrow> wf_result (tampering_hit e reason sev)"
  by (simp add: tampering_hit_def wf_hit)

lemma wf_tampering [wf_intros]: "wf_result (rule_security_control_tampering e)"
  unfolding rule_security_control_tampering_def Let_def
  by (simp only: wf_tampering_hit wf_no_hit SEVERITIES_mem if_split simp_thms)

lemma wf_command_rules [wf_intros]:
  "wf_result (rule_autorun_registry_write e)"
  "wf_result (rule_scheduled_task_creation e)"
  "wf_result (rule_discovery_commands e)"
  "wf_result (rule_event_log_clearing e)"
  "wf_result (rule_recovery_destruction e)"
  unfolding rule_autorun_registry_write_def rule_scheduled_task_creation_def
    rule_discovery_commands_def rule_event_log_clearing_def rule_recovery_destruction_def Let_def
  by (simp_all add: wf_hit split: option.split)

lemma wf_network_beacon: "rule_network_beacon e = Inr r \<Longrightarrow> wf_result r"
  by (auto simp: rule_network_beacon_def split: option.splits list.splits if_splits intro!: wf_intros)

lemma wf_run_rule: "run_rule fn e = Inr r \<Longrightarrow> wf_result r"
  by (cases fn) (auto simp: run_rule_def rule_persistence_autorun_def wf_network_beacon
      wf_parent_child wf_malware_family wf_name_rules wf_path_rules wf_tampering wf_command_rules)

end
