(* ===== verification/Pytext.thy ===== *)
theory Pytext
  imports Pystr "HOL-Library.Multiset"
begin

section \<open>Sorting strings\<close>

text \<open>
  \<open>sorted\<close> on strings: lexicographic by code point, here by byte (UTF-8 keeps the order).
  \<open>str_sort_mset\<close> and \<open>str_sort_sorted\<close> are the two halves of its contract.
\<close>

fun str_le :: "string \<Rightarrow> string \<Rightarrow> bool" where
  "str_le [] t = True"
| "str_le (c # s) [] = False"
| "str_le (c # s) (d # t) = (code c < code d \<or> c = d \<and> str_le s t)"

fun str_insert :: "string \<Rightarrow> string list \<Rightarrow> string list" where
  "str_insert s [] = [s]"
| "str_insert s (t # ts) = (if str_le s t then s # t # ts else t # str_insert s ts)"

definition str_sort :: "string list \<Rightarrow> string list" where
  "str_sort ss = foldr str_insert ss []"

lemma mset_str_insert: "mset (str_insert s ts) = add_mset s (mset ts)"
  by (induction ts) auto

lemma str_sort_mset: "mset (str_sort ss) = mset ss"
  by (induction ss) (auto simp: str_sort_def mset_str_insert)

lemma set_str_sort [simp]: "set (str_sort ss) = set ss"
  using str_sort_mset [of ss] by (metis set_mset_mset)

lemma str_le_total: "str_le s t \<or> str_le t s"
proof (induction s t rule: str_le.induct)
  case (3 c s d t)
  have "code c = code d \<Longrightarrow> c = d" unfolding code_def by (rule of_char_eq_iff [THEN iffD1])
  with 3 show ?case by (auto simp: not_less_iff_gr_or_eq)
qed auto

lemma str_le_trans: "str_le s t \<Longrightarrow> str_le t u \<Longrightarrow> str_le s u"
proof (induction s t arbitrary: u rule: str_le.induct)
  case (3 c s d t)
  then show ?case by (cases u) auto
qed auto

lemma sorted_str_insert: "sorted_wrt str_le ts \<Longrightarrow> sorted_wrt str_le (str_insert s ts)"
proof (induction ts)
  case (Cons t ts)
  have m: "set (str_insert s ts) = insert s (set ts)"
    using mset_str_insert [of s ts] by (metis set_mset_add_mset_insert set_mset_mset)
  show ?case using Cons str_le_total [of s t] str_le_trans by (auto simp: m)
qed simp

lemma str_sort_sorted: "sorted_wrt str_le (str_sort ss)"
  by (induction ss) (auto simp: str_sort_def sorted_str_insert)

section \<open>Lines and other text operations of the parsers\<close>

text \<open>
  \<open>str.splitlines()\<close>, \<open>str.partition\<close>, \<open>str.count\<close> and \<open>str.isdigit\<close>.  \<open>splitlines\<close> breaks at the
  line boundaries of Python, which include form feed, the separators 0x1C-0x1E and, as bytes of
  their UTF-8 form, U+0085, U+2028 and U+2029.
\<close>

text \<open>The length of the line boundary at the head of a text, 0 when there is none.\<close>

fun break_len :: "string \<Rightarrow> nat" where
  "break_len [] = 0"
| "break_len (c # s) =
     (if c = CHR 0x0D then (if startswith s [CHR 0x0A] then 2 else 1)
      else if code c \<in> {10, 11, 12, 28, 29, 30} then 1
      else if c = CHR 0xC2 \<and> startswith s [CHR 0x85] then 2
      else if c = CHR 0xE2 \<and> (startswith s [CHR 0x80, CHR 0xA8] \<or> startswith s [CHR 0x80, CHR 0xA9]) then 3
      else 0)"

text \<open>The first line and what follows its boundary.\<close>

fun break_line :: "string \<Rightarrow> string \<times> string" where
  "break_line [] = ([], [])"
| "break_line (c # s) = (if break_len (c # s) = 0 then (case break_line s of (l, r) \<Rightarrow> (c # l, r))
     else ([], drop (break_len (c # s)) (c # s)))"

lemma break_line_shorter: "s \<noteq> [] \<Longrightarrow> length (snd (break_line s)) < length s"
proof (induction s)
  case (Cons c s)
  then show ?case by (cases "s = []") (auto split: prod.splits)
qed simp

function splitlines :: "string \<Rightarrow> string list" where
  "splitlines s = (if s = [] then [] else fst (break_line s) # splitlines (snd (break_line s)))"
  by pat_completeness auto
termination
  by (relation "measure length") (auto dest: break_line_shorter)

declare splitlines.simps [simp del]

lemma splitlines_Nil [simp]: "splitlines [] = []"
  by (simp add: splitlines.simps)

lemma break_len_printable: "31 < code c \<Longrightarrow> code c < 127 \<Longrightarrow> break_len (c # s) = 0"
  by (auto simp: code_def)

text \<open>A text of printable characters is one line.\<close>

definition printable :: "string \<Rightarrow> bool" where
  "printable s \<longleftrightarrow> list_all (\<lambda>c. 31 < code c \<and> code c < 127) s"

lemma break_line_printable: "printable s \<Longrightarrow> break_line s = (s, [])"
  by (induction s) (simp_all add: printable_def break_len_printable del: break_len.simps)

lemma splitlines_printable: "printable s \<Longrightarrow> s \<noteq> [] \<Longrightarrow> splitlines s = [s]"
  by (simp add: splitlines.simps [of s] break_line_printable)

lemma break_line_no_newline: "CHR 0x0A \<notin> set (fst (break_line s))"
  by (induction s) (auto split: prod.splits simp: code_def)

lemma splitlines_no_newline: "l \<in> set (splitlines s) \<Longrightarrow> CHR 0x0A \<notin> set l"
proof (induction s rule: splitlines.induct)
  case (1 s)
  then show ?case using break_line_no_newline [of s] by (cases "s = []") (auto simp: splitlines.simps [of s])
qed

text \<open>\<open>head, _, tail = s.partition(sep)\<close> for non-empty \<open>sep\<close>: the tail is empty when it does not occur.\<close>

fun partition_tail :: "string \<Rightarrow> string \<Rightarrow> string" where
  "partition_tail sep [] = []"
| "partition_tail sep (c # s) =
     (if startswith (c # s) sep then drop (length sep) (c # s) else partition_tail sep s)"

text \<open>\<open>s.count(p)\<close> for non-empty \<open>p\<close>: occurrences without overlap.\<close>

function count_str :: "string \<Rightarrow> string \<Rightarrow> nat" where
  "count_str p [] = 0"
| "count_str p (c # s) = (if p \<noteq> [] \<and> startswith (c # s) p then Suc (count_str p (drop (length p) (c # s)))
     else count_str p s)"
  by pat_completeness auto
termination
  by (relation "measure (\<lambda>(p, s). length s)") (auto simp: Suc_le_eq diff_less_Suc)

definition isdigit :: "string \<Rightarrow> bool" where
  "isdigit s \<longleftrightarrow> s \<noteq> [] \<and> list_all is_digit s"

text \<open>The lines of a payload a parser looks at: stripped, without the empty ones.\<close>

definition payload_lines :: "string \<Rightarrow> string list" where
  "payload_lines s = filter (\<lambda>l. l \<noteq> []) (map strip (splitlines s))"

text \<open>\<open>s.split(sep)\<close> for a non-empty text \<open>sep\<close>, and \<open>s.split(sep, 1)[-1]\<close>.\<close>

function split_str :: "string \<Rightarrow> string \<Rightarrow> string list" where
  "split_str sep [] = [[]]"
| "split_str sep (c # s) =
     (if sep \<noteq> [] \<and> startswith (c # s) sep then [] # split_str sep (drop (length sep) (c # s))
      else (case split_str sep s of [] \<Rightarrow> [[c]] | w # ws \<Rightarrow> (c # w) # ws))"
  by pat_completeness auto
termination
  by (relation "measure (\<lambda>(sep, s). length s)") (auto simp: Suc_le_eq diff_less_Suc)

definition after_first :: "string \<Rightarrow> string \<Rightarrow> string" where
  "after_first sep s = (if py_in sep s then partition_tail sep s else s)"

text \<open>\<open>s[-n:]\<close>.\<close>

definition last_chars :: "int \<Rightarrow> string \<Rightarrow> string" where
  "last_chars n s = drop (nat (int (length s) - n)) s"

end
