(* ===== verification/Detection_Context.thy ===== *)
theory Detection_Context
  imports Rule_Registry Pytext
begin

section \<open>Detection context and alert policy\<close>

text \<open>
  \<open>app/services/detection_context.py\<close> (signature trust, user role, structured evidence) and
  \<open>app/services/alert_policy.py\<close> (which matched rules do not contribute to an alert, and the
  fingerprint under which an analyst's resolution mutes later alerts).  The alert is the record
  the ingestion code fills; \<open>evidence\<close> is a JSON value.
\<close>

subsection \<open>Evidence\<close>

definition TRUSTED_PUBLISHERS :: "string list" where
  "TRUSTED_PUBLISHERS = [''microsoft windows'', ''microsoft corporation'',
     ''microsoft windows publisher'']"

definition PRIVILEGED_USERS :: "string list" where
  "PRIVILEGED_USERS = [''system'', ''nt authority'' @ backslash # ''system'',
     ''nt authority'' @ backslash # ''local service'',
     ''nt authority'' @ backslash # ''network service'', ''administrator'', ''root'']"

definition is_trusted_signed :: "event \<Rightarrow> bool" where
  "is_trusted_signed e \<longleftrightarrow>
     List.member TRUSTED_SIGNATURE_STATES (strip (lower (text_of (ev_signature e)))) \<and>
     List.member TRUSTED_PUBLISHERS (strip (lower (text_of (ev_publisher e))))"

definition user_role :: "event \<Rightarrow> string" where
  "user_role e =
     (if List.member PRIVILEGED_USERS (strip (lower (text_of (ev_user e))))
      then ''privileged'' else ''standard'')"

text \<open>\<open>a or b\<close> on two optional strings, as a value.\<close>

definition first_truthy :: "string option \<Rightarrow> string option \<Rightarrow> string option" where
  "first_truthy a b = (if truthy a then a else b)"

definition rule_evidence :: "rule_result \<Rightarrow> pyval" where
  "rule_evidence r = PDict
     [(''id'', PStr (rr_rule_id r)), (''version'', PStr (rr_version r)),
      (''severity'', PStr (rr_severity r)), (''confidence'', PStr (rr_confidence r)),
      (''description'', PStr (rr_description r)), (''mitre'', opt_str (rr_mitre_technique_id r))]"

definition build_evidence :: "event \<Rightarrow> rule_result list \<Rightarrow> pydict \<Rightarrow> pydict" where
  "build_evidence e triggered ctx = filter (\<lambda>kv. snd kv \<noteq> PNone)
     [(''process'', PDict
        [(''name'', opt_str (ev_process_name e)), (''path'', opt_str (ev_process_path e)),
         (''pid'', opt_int (ev_pid e)), (''parent'', opt_str (ev_parent_process_name e)),
         (''parent_pid'', opt_int (ev_parent_pid e)), (''user'', opt_str (ev_user e)),
         (''role'', PStr (user_role e)),
         (''cmdline'', opt_str (first_truthy (ev_command_line e) (ev_process_path e)))]),
      (''identity'', PDict
        [(''signature'', opt_str (ev_signature e)), (''publisher'', opt_str (ev_publisher e)),
         (''trusted'', PBool (is_trusted_signed e)), (''hash'', opt_str (ev_file_hash e))]),
      (''network'', PDict
        [(''connections'', opt_dicts (ev_network_connections e)),
         (''proto'', opt_str (ev_proto e)), (''direction'', opt_str (ev_direction e))]),
      (''provenance'', PDict
        [(''provenance'', opt_str (ev_provenance e)), (''quality'', opt_str (ev_quality e)),
         (''sampling'', opt_str (ev_sampling e))]),
      (''rules'', PList (map rule_evidence triggered)),
      (''prevalence'', dict_get ctx ''prevalence''),
      (''first_seen'', dict_get ctx ''first_seen''),
      (''last_seen'', dict_get ctx ''last_seen''),
      (''reputation'', dict_get ctx ''reputation'')]"

subsection \<open>Suppression of noisy rules\<close>

definition TRUSTED_SUPPRESS_RULE_IDS :: "string list" where
  "TRUSTED_SUPPRESS_RULE_IDS = [''AEGIS-S004'', ''AEGIS-S009'', ''AEGIS-S010'', ''AEGIS-S012'',
     ''AEGIS-S014'']"

definition KNOWN_SIGNED_APP_NAMES :: "string list" where
  "KNOWN_SIGNED_APP_NAMES = [''code.exe'', ''code - insiders.exe'', ''cursor.exe'', ''chrome.exe'',
     ''msedge.exe'', ''firefox.exe'', ''brave.exe'', ''opera.exe'', ''slack.exe'', ''discord.exe'',
     ''teams.exe'', ''zoom.exe'', ''devenv.exe'', ''idea64.exe'', ''pycharm64.exe'',
     ''webstorm64.exe'', ''spotify.exe'', ''steam.exe'', ''discordptb.exe'']"

definition basename :: "string option \<Rightarrow> string" where
  "basename n = (if truthy n then after_last CHR ''/'' (strip (lower (back_to_slash (text_of n)))) else [])"

definition should_skip_trusted_noisy_rule :: "string \<Rightarrow> rule_result \<Rightarrow> event \<Rightarrow> bool" where
  "should_skip_trusted_noisy_rule rule_id r e =
     (if \<not> List.member TRUSTED_SUPPRESS_RULE_IDS rule_id then False
      else if \<not> is_signed_verified e then False
      else (if rr_confidence r = [] then ''medium'' else rr_confidence r) = ''low'')"

definition should_skip_known_signed_app_path :: "event \<Rightarrow> string \<Rightarrow> bool" where
  "should_skip_known_signed_app_path e rule_id =
     (if \<not> List.member [''AEGIS-S004'', ''AEGIS-S014''] rule_id then False
      else if \<not> is_signed_verified e then False
      else List.member KNOWN_SIGNED_APP_NAMES
        (basename (first_truthy (ev_process_name e) (ev_process_path e))))"

subsection \<open>The alert record and the triage fingerprint\<close>

record alert =
  al_agent_id :: string
  al_severity :: string
  al_pid :: "int option"
  al_parent_pid :: "int option"
  al_parent_process_name :: "string option"
  al_process_name :: "string option"
  al_process_path :: "string option"
  al_event_type :: "string option"
  al_description :: string
  al_mitre_tactic_id :: "string option"
  al_mitre_technique_id :: "string option"
  al_mitre_tactic_name :: "string option"
  al_mitre_technique_name :: "string option"
  al_evidence :: pyval

definition fp_char :: "char \<Rightarrow> bool" where
  "fp_char c \<longleftrightarrow> is_alnum c \<or> c \<in> set ''_|,.:-''"

text \<open>One underscore per replaced character: continuation bytes of UTF-8 are dropped.\<close>

definition fp_clean :: "string \<Rightarrow> string" where
  "fp_clean s = map (\<lambda>c. if fp_char c then c else CHR ''_'')
     (filter (\<lambda>c. \<not> (128 \<le> code c \<and> code c < 192)) s)"

fun rule_ids_of :: "pyval list \<Rightarrow> string list" where
  "rule_ids_of [] = []"
| "rule_ids_of (PDict m # rs) =
     (if py_truth (dict_get m ''id'') then py_str (dict_get m ''id'') # rule_ids_of rs
      else rule_ids_of rs)"
| "rule_ids_of (_ # rs) = rule_ids_of rs"

definition identity_of :: "pydict \<Rightarrow> pydict" where
  "identity_of ev = (case dict_get ev ''identity'' of PDict m \<Rightarrow> m | _ \<Rightarrow> [])"

definition when_str :: "bool \<Rightarrow> string \<Rightarrow> string list" where
  "when_str b s = (if b then [s] else [])"

definition fingerprint_parts :: "alert \<Rightarrow> string list result" where
  "fingerprint_parts a =
     (let parts = [lower (or_str (al_event_type a) ''unknown''), basename (al_process_name a)] in
      case al_evidence a of
        PDict ev \<Rightarrow>
          bind_result (py_iter (py_or (dict_get ev ''rules'') (PList []))) (\<lambda>rules.
            let ids = str_sort (rule_ids_of rules);
                fh = py_or (dict_get (identity_of ev) ''hash'') (dict_get ev ''file_hash'');
                tag = py_or (dict_get ev ''tag'') (dict_get ev ''type'');
                metric = dict_get ev ''metric''
            in Inr (parts @ when_str (ids \<noteq> []) (join '','' ids) @
                 when_str (py_truth fh) (take 32 (py_str fh)) @
                 when_str (py_truth tag) (py_str tag) @
                 when_str (py_truth metric) (py_str metric)))
      | _ \<Rightarrow> Inr (parts @ when_str (truthy (al_mitre_technique_id a))
                     (text_of (al_mitre_technique_id a))))"

text \<open>\<open>sha256\<close> is the hexadecimal digest of the UTF-8 text.\<close>

definition triage_mute_fingerprint :: "(string \<Rightarrow> string) \<Rightarrow> alert \<Rightarrow> string result" where
  "triage_mute_fingerprint sha256 a =
     bind_result (fingerprint_parts a) (\<lambda>parts.
       let raw = join ''|'' (filter (\<lambda>p. p \<noteq> []) parts);
           raw' = (if length raw > 200 then take 32 (sha256 raw) else raw);
           safe = take 220 (fp_clean raw')
       in Inr (if safe = [] then ''generic'' else safe))"

end
