(* ===== verification/Heuristic_Engine.thy ===== *)
theory Heuristic_Engine
  imports Detection_Context
begin

section \<open>The heuristic engine\<close>

text \<open>
  \<open>app/rules/heuristic_engine.py\<close>: the allowlist, custom rules with their conditions and
  whitelists, the static check of custom patterns, and \<open>HeuristicEngine.analyze\<close>.

  Parameters: \<open>re_search pattern text\<close> is \<open>re.search(pattern, text, re.IGNORECASE)\<close> for a pattern
  stored in the database (\<open>Inl RE_ERROR\<close> when it does not compile, another exception when the
  pattern is not a string); \<open>re_compile\<close> returns the message of \<open>re.error\<close>; the database is the
  outcome of the query for active rules (\<open>None\<close>: no session) and, per rule, whether the update of
  its counter succeeds.
\<close>

definition RE_ERROR :: exn where
  "RE_ERROR = OtherError ''re.error''"

definition ALWAYS_ALLOW_PROCESS_NAMES :: "string list" where
  "ALWAYS_ALLOW_PROCESS_NAMES = [''updater.exe'', ''update.exe'', ''chrome_updater.exe'',
     ''firefox_updater.exe'', ''msedge_updater.exe'', ''brave_updater.exe'',
     ''opera_autoupdate.exe'', ''sophosupdate.exe'', ''sophosupdater.exe'']"

definition ALLOW_SAFE_PATH_PREFIXES :: "string list" where
  "ALLOW_SAFE_PATH_PREFIXES = [''c:/program files/'', ''c:/program files (x86)/'',
     ''c:/windows/system32/'', ''c:/windows/syswow64/'', ''/usr/bin/'', ''/bin/'', ''/opt/'']"

text \<open>An \<open>EventSchema\<close> has no attribute \<open>name\<close>, so the second lookup of the source yields \<open>None\<close>.\<close>

definition allowlisted_and_safe :: "event \<Rightarrow> bool" where
  "allowlisted_and_safe e =
     (if \<not> List.member ALWAYS_ALLOW_PROCESS_NAMES (strip (lower (text_of (ev_process_name e)))) then False
      else any_startswith ALLOW_SAFE_PATH_PREFIXES
        (lower (back_to_slash (text_of (ev_process_path e)))))"

definition SEVERITY_WEIGHT :: "(string \<times> nat) list" where
  "SEVERITY_WEIGHT = [(''LOW'', 1), (''MEDIUM'', 2), (''HIGH'', 3), (''CRITICAL'', 4)]"

definition weight :: "string \<Rightarrow> nat" where
  "weight s = assoc_default 0 s SEVERITY_WEIGHT"

record custom_rule =
  cu_id :: int
  cu_name :: string
  cu_target_field :: string
  cu_pattern :: string
  cu_severity :: string
  cu_conditions :: pyval
  cu_whitelist :: pyval
  cu_mitre_tactic :: "string option"
  cu_mitre_technique :: "string option"
  cu_mitre_technique_id :: "string option"
  cu_auto_remediation :: "string option"

record analysis =
  an_is_threat :: bool
  an_severity :: string
  an_description :: string
  an_rule_count :: nat
  an_mitre_tactic :: "string option"
  an_mitre_technique :: "string option"
  an_mitre_technique_id :: "string option"
  an_triggered_rules :: "rule_result list"
  an_auto_remediation :: "string option"

definition AnalysisResult :: analysis where
  "AnalysisResult = \<lparr>an_is_threat = False, an_severity = ''LOW'', an_description = [],
     an_rule_count = 0, an_mitre_tactic = None, an_mitre_technique = None,
     an_mitre_technique_id = None, an_triggered_rules = [], an_auto_remediation = None\<rparr>"

subsection \<open>Custom rules\<close>

definition excluded :: "string option \<Rightarrow> pyval \<Rightarrow> bool result" where
  "excluded x xs = (if truthy x then py_contains (text_of x) xs else Inr False)"

definition check_whitelist :: "custom_rule \<Rightarrow> string option \<Rightarrow> string option \<Rightarrow> bool result" where
  "check_whitelist rule hostname ip =
     (if \<not> py_truth (cu_whitelist rule) then Inr True
      else case cu_whitelist rule of
        PDict w \<Rightarrow>
          bind_result (excluded hostname (dict_get_or w ''hostnames'' (PList []))) (\<lambda>h.
            if h then Inr False
            else bind_result (excluded ip (dict_get_or w ''ips'' (PList []))) (\<lambda>i. Inr (\<not> i)))
      | _ \<Rightarrow> Inr True)"

text \<open>\<open>re.sub(r"(?<!^)(?=[A-Z])", "_", field).lower()\<close>.\<close>

definition is_upper_alpha :: "char \<Rightarrow> bool" where
  "is_upper_alpha c \<longleftrightarrow> 65 \<le> code c \<and> code c \<le> 90"

definition snake_case :: "string \<Rightarrow> string" where
  "snake_case s = (case s of [] \<Rightarrow> []
     | c # cs \<Rightarrow> lower (c # concat (map (\<lambda>d. if is_upper_alpha d then [CHR ''_'', d] else [d]) cs)))"

fun as_opt_str :: "pyval option \<Rightarrow> string option" where
  "as_opt_str (Some (PStr s)) = Some s"
| "as_opt_str _ = None"

text \<open>
  The last lookup may return a value that is not a string; both callers test for that, so the
  result is the text or \<open>None\<close>.  A field name that is not a string makes \<open>getattr\<close> raise.
\<close>

definition match_event_field :: "event \<Rightarrow> pyval \<Rightarrow> string option result" where
  "match_event_field e field = (case field of
       PStr f \<Rightarrow> Inr (case as_opt_str (event_attr e f) of
           Some s \<Rightarrow> Some s
         | None \<Rightarrow> (case as_opt_str (event_attr e (snake_case f)) of
             Some s \<Rightarrow> Some s
           | None \<Rightarrow> as_opt_str (event_attr e (lower f))))
     | _ \<Rightarrow> Inl TypeError)"

definition eval_condition :: "(pyval \<Rightarrow> string \<Rightarrow> bool result) \<Rightarrow> event \<Rightarrow> pyval \<Rightarrow> bool result" where
  "eval_condition re_search e cond =
     bind_result (py_get cond ''target_field'' (PStr [])) (\<lambda>field.
     bind_result (py_get cond ''pattern'' (PStr [])) (\<lambda>pattern.
     bind_result (py_get cond ''operator'' (PStr ''regex'')) (\<lambda>operator.
     bind_result (match_event_field e field) (\<lambda>value.
       case value of
         None \<Rightarrow> Inr False
       | Some v \<Rightarrow>
           if operator = PStr ''regex'' then
             (case re_search pattern v of
                Inl x \<Rightarrow> if x = RE_ERROR then Inr False else Inl x
              | Inr b \<Rightarrow> Inr b)
           else if operator = PStr ''equals'' then
             bind_result (as_str pattern) (\<lambda>p. Inr (lower v = lower p))
           else if operator = PStr ''contains'' then
             bind_result (as_str pattern) (\<lambda>p. Inr (py_in (lower p) (lower v)))
           else if operator = PStr ''not_equals'' then
             bind_result (as_str pattern) (\<lambda>p. Inr (lower v \<noteq> lower p))
           else Inr False))))"

text \<open>\<open>any\<close> and \<open>all\<close> over a generator: left to right, stopping at the deciding element.\<close>

fun any_result :: "('a \<Rightarrow> bool result) \<Rightarrow> 'a list \<Rightarrow> bool result" where
  "any_result f [] = Inr False"
| "any_result f (x # xs) = bind_result (f x) (\<lambda>b. if b then Inr True else any_result f xs)"

fun all_result :: "('a \<Rightarrow> bool result) \<Rightarrow> 'a list \<Rightarrow> bool result" where
  "all_result f [] = Inr True"
| "all_result f (x # xs) = bind_result (f x) (\<lambda>b. if b then all_result f xs else Inr False)"

definition custom_matches :: "(pyval \<Rightarrow> string \<Rightarrow> bool result) \<Rightarrow> event \<Rightarrow> custom_rule \<Rightarrow> bool result" where
  "custom_matches re_search e rule =
     (case cu_conditions rule of
        PDict (kv # m) \<Rightarrow>
          (let conds = kv # m; logic = dict_get_or conds ''logic'' (PStr ''and'') in
           bind_result (py_iter (dict_get_or conds ''conditions'' (PList []))) (\<lambda>items.
             if logic = PStr ''or'' then any_result (eval_condition re_search e) items
             else all_result (eval_condition re_search e) items))
      | _ \<Rightarrow>
          bind_result (match_event_field e (PStr (cu_target_field rule))) (\<lambda>v.
            if truthy v then re_search (PStr (cu_pattern rule)) (text_of v) else Inr False))"

definition custom_result :: "event \<Rightarrow> custom_rule \<Rightarrow> rule_result" where
  "custom_result e rule = no_hit\<lparr>rr_triggered := True, rr_severity := cu_severity rule,
     rr_description := ''[CUSTOM RULE: '' @ cu_name rule @ ''] Match on '' @ cu_target_field rule @ ''='' @
       quoted (case event_attr e (cu_target_field rule) of None \<Rightarrow> [] | Some v \<Rightarrow> py_str v),
     rr_mitre_tactic := cu_mitre_tactic rule, rr_mitre_technique := cu_mitre_technique rule,
     rr_mitre_technique_id := cu_mitre_technique_id rule\<rparr>"

subsection \<open>Analysis\<close>

text \<open>
  The loop over the static rules keeps the stamped results that triggered; a rule that raises
  is logged and skipped.
\<close>

definition static_hits :: "('f \<Rightarrow> event \<Rightarrow> rule_result result) \<Rightarrow> ('f \<Rightarrow> rule_result \<Rightarrow> rule_result) \<Rightarrow>
    'f list \<Rightarrow> event \<Rightarrow> rule_result list" where
  "static_hits run stamp fns e = concat (map (\<lambda>fn. case run fn e of
       Inl x \<Rightarrow> []
     | Inr r \<Rightarrow> if rr_triggered r then [stamp fn r] else []) fns)"

text \<open>
  The loop over the custom rules carries the triggered list, the identifiers whose counter was
  incremented and the remediation of the last matching rule.  An error in one rule ends only
  that rule; its result is already in the list when the counter update fails.
\<close>

record custom_state =
  cs_triggered :: "rule_result list"
  cs_counted :: "int list"
  cs_remediation :: "string option"

definition custom_step ::
  "(pyval \<Rightarrow> string \<Rightarrow> bool result) \<Rightarrow> (custom_rule \<Rightarrow> bool) \<Rightarrow> event \<Rightarrow> custom_rule \<Rightarrow> custom_state \<Rightarrow> custom_state"
  where
  "custom_step re_search count_ok e rule s =
     (case check_whitelist rule (ev_hostname e) (ev_ip_address e) of
        Inr True \<Rightarrow>
          (case custom_matches re_search e rule of
             Inr True \<Rightarrow>
               (let s1 = s\<lparr>cs_triggered := cs_triggered s @ [custom_result e rule]\<rparr> in
                if \<not> count_ok rule then s1
                else s1\<lparr>cs_counted := cs_counted s1 @ [cu_id rule],
                  cs_remediation := (if truthy (cu_auto_remediation rule)
                    then cu_auto_remediation rule else cs_remediation s1)\<rparr>)
           | _ \<Rightarrow> s)
      | _ \<Rightarrow> s)"

text \<open>\<open>max(triggered_rules, key=...)\<close>: the first element of maximal weight.\<close>

fun max_by :: "('a \<Rightarrow> nat) \<Rightarrow> 'a \<Rightarrow> 'a list \<Rightarrow> 'a" where
  "max_by f x [] = x"
| "max_by f x (y # ys) = max_by f (if f y > f x then y else x) ys"

definition summarise :: "rule_result list \<Rightarrow> string option \<Rightarrow> analysis" where
  "summarise triggered remediation = (case triggered of
       [] \<Rightarrow> AnalysisResult
     | r # rs \<Rightarrow> (let worst = max_by (\<lambda>r. weight (rr_severity r)) r rs in
         \<lparr>an_is_threat = True, an_severity = rr_severity worst,
          an_description = rr_description worst, an_rule_count = length triggered,
          an_mitre_tactic = rr_mitre_tactic worst, an_mitre_technique = rr_mitre_technique worst,
          an_mitre_technique_id = rr_mitre_technique_id worst,
          an_triggered_rules = triggered, an_auto_remediation = remediation\<rparr>))"

definition analyze ::
  "(pyval \<Rightarrow> string \<Rightarrow> bool result) \<Rightarrow> (custom_rule \<Rightarrow> bool) \<Rightarrow> event \<Rightarrow> custom_rule list result option \<Rightarrow>
   analysis \<times> int list" where
  "analyze re_search count_ok e db =
     (if allowlisted_and_safe e then (AnalysisResult, [])
      else let s0 = \<lparr>cs_triggered = static_hits run_rule stamp_result ALL_RULES e,
                     cs_counted = [], cs_remediation = None\<rparr>;
               s = (case db of Some (Inr rules) \<Rightarrow> fold (custom_step re_search count_ok e) rules s0
                    | _ \<Rightarrow> s0)
           in (summarise (cs_triggered s) (cs_remediation s), cs_counted s))"

subsection \<open>Checking custom patterns\<close>

text \<open>\<open>re.match(r"\{\d+,\d+\}", tail)\<close>.\<close>

definition BOUNDED_REPEAT :: rx where
  "BOUNDED_REPEAT = rx_seq [rx_char CHR ''{'', rx_plus (RSet is_digit), rx_char CHR '','',
     rx_plus (RSet is_digit), rx_char CHR ''}'']"

definition bounded_repeat :: "string \<Rightarrow> bool" where
  "bounded_repeat tail = rx_match BOUNDED_REPEAT tail"

text \<open>
  The scanning loop.  \<open>inner_complex\<close> is the list of flags with the innermost group first (the
  source keeps it the other way round); its last element belongs to no group, so \<open>depth\<close> is its
  length minus one.  The next character is the empty string at the end of the pattern, and
  Python's \<open>"" in "+*"\<close> holds.
\<close>

fun set_top :: "bool list \<Rightarrow> bool list" where
  "set_top [] = []"
| "set_top (b # bs) = True # bs"

fun regex_scan :: "string \<Rightarrow> bool list \<Rightarrow> string option" where
  "regex_scan [] fl = (if length fl \<noteq> 1 then Some ''unbalanced parenthesis'' else None)"
| "regex_scan (c # cs) fl =
     (if c = backslash then (case cs of [] \<Rightarrow> regex_scan [] fl | d # ds \<Rightarrow> regex_scan ds fl)
      else if c = CHR ''('' then regex_scan cs (False # fl)
      else if c = CHR '')'' then
        (if length fl \<le> 1 then Some ''unbalanced parenthesis''
         else let inner = hd fl;
                unbounded = (case cs of [] \<Rightarrow> True
                  | d # ds \<Rightarrow> d = CHR ''+'' \<or> d = CHR ''*'' \<or> (d = CHR ''{'' \<and> \<not> bounded_repeat (d # ds)))
              in if inner \<and> unbounded then Some ''nested quantifier (ReDoS risk)''
                 else regex_scan cs (tl fl))
      else if c \<in> set ''+*{|'' \<and> length fl > 1 then regex_scan cs (set_top fl)
      else regex_scan cs fl)"

definition is_regex_safe :: "(string \<Rightarrow> string option) \<Rightarrow> string \<Rightarrow> string option" where
  "is_regex_safe re_compile pattern =
     (if pattern = [] then Some ''empty pattern''
      else if length pattern > 200 then Some ''pattern too long (max 200)''
      else case re_compile pattern of
        Some msg \<Rightarrow> Some (''invalid regex: '' @ msg)
      | None \<Rightarrow> regex_scan pattern [False])"

end
