(* ===== verification/Edit_Distance.thy ===== *)
theory Edit_Distance
  imports Static_Rules
begin

section \<open>The edit distance of the look-alike rule\<close>

text \<open>
  \<open>_lev\<close> fills a table row by row.  \<open>edist\<close> is the textbook recursion on the last characters
  (here the first ones of the reversed words); \<open>lev_rows_edist\<close> is the loop invariant, \<open>lev_edist\<close>
  the result, and \<open>lev_le_1_iff\<close> what the only caller tests: distance at most one means equal, or
  apart by one substituted, inserted or deleted character.
\<close>

fun edist :: "string \<Rightarrow> string \<Rightarrow> nat" where
  "edist [] b = length b"
| "edist a [] = length a"
| "edist (x # a) (y # b) =
     min (min (edist a (y # b) + 1) (edist (x # a) b + 1)) (edist a b + (if x \<noteq> y then 1 else 0))"

lemma edist_Nil2 [simp]: "edist a [] = length a"
  by (cases a) auto

subsection \<open>The table\<close>

definition erow :: "string \<Rightarrow> string \<Rightarrow> nat list" where
  "erow ra b = map (\<lambda>j. edist ra (rev (take j b))) [0..<length b + 1]"

lemma lev_cells_length: "length ps = length b + 1 \<Longrightarrow> length (lev_cells x b ps left) = length b"
  by (induction x b ps left rule: lev_cells.induct) (auto simp: Let_def)

lemma lev_cells_edist:
  assumes "ps = map (\<lambda>j. edist ra (rev (take j b) @ rc)) [0..<length b + 1]"
    and "left = edist (x # ra) rc"
  shows "lev_cells x b ps left = map (\<lambda>j. edist (x # ra) (rev (take j b) @ rc)) [1..<length b + 1]"
  using assms
proof (induction b arbitrary: ps left rc)
  case Nil
  then show ?case by simp
next
  case (Cons y b)
  let ?f = "\<lambda>j. edist ra (rev (take j (y # b)) @ rc)"
  have up: "map h [0..<Suc (Suc n)] = h 0 # h 1 # map (\<lambda>j. h (Suc (Suc j))) [0..<n]"
    for h :: "nat \<Rightarrow> nat" and n
    by (simp add: map_upt_Suc del: upt_Suc)
  have ps: "ps = edist ra rc # edist ra (y # rc) # map (\<lambda>j. ?f (Suc (Suc j))) [0..<length b]"
    using Cons.prems(1) up [of ?f "length b"] by simp
  have tail: "edist ra (y # rc) # map (\<lambda>j. ?f (Suc (Suc j))) [0..<length b]
      = map (\<lambda>j. edist ra (rev (take j b) @ (y # rc))) [0..<length b + 1]"
    by (simp add: map_upt_Suc del: upt_Suc)
  have c: "min (min (edist ra (y # rc) + 1) (left + 1)) (edist ra rc + (if x \<noteq> y then 1 else 0))
      = edist (x # ra) (y # rc)"
    using Cons.prems(2) by simp
  have "lev_cells x (y # b) ps left =
      edist (x # ra) (y # rc) #
      map (\<lambda>j. edist (x # ra) (rev (take j b) @ (y # rc))) [1..<length b + 1]"
    unfolding ps lev_cells.simps Let_def c using Cons.IH [OF tail refl] by simp
  also have "\<dots> = map (\<lambda>j. edist (x # ra) (rev (take j (y # b)) @ rc)) [1..<length (y # b) + 1]"
  proof -
    have "[1..<length (y # b) + 1] = 1 # map Suc [1..<length b + 1]"
      by (simp add: map_Suc_upt upt_conv_Cons del: upt_Suc)
    then show ?thesis by (simp del: upt_Suc)
  qed
  finally show ?case .
qed

lemma lev_rows_edist:
  "i = length ra + 1 \<Longrightarrow> prev = erow ra b \<Longrightarrow> lev_rows a b i prev = erow (rev a @ ra) b"
proof (induction a arbitrary: i ra prev)
  case Nil
  then show ?case by simp
next
  case (Cons x a)
  have "lev_cells x b prev i = map (\<lambda>j. edist (x # ra) (rev (take j b))) [1..<length b + 1]"
    using lev_cells_edist [of prev ra b "[]" i x] Cons.prems by (simp add: erow_def)
  then have "i # lev_cells x b prev i = erow (x # ra) b"
    using Cons.prems(1) by (simp add: erow_def upt_conv_Cons del: upt_Suc)
  then show ?case using Cons.IH [of "i + 1" "x # ra" "erow (x # ra) b"] Cons.prems(1) by simp
qed

lemma lev_table: "lev_rows a b 1 [0..<length b + 1] ! length b = edist (rev a) (rev b)"
proof -
  have "[0..<length b + 1] = erow [] b"
    by (rule nth_equalityI) (auto simp: erow_def simp del: upt_Suc)
  then have "lev_rows a b 1 [0..<length b + 1] = erow (rev a) b"
    using lev_rows_edist [of 1 "[]" "[0..<length b + 1]" b a] by simp
  then show ?thesis by (simp add: erow_def del: upt_Suc)
qed

subsection \<open>Small distances\<close>

lemma edist_length: "length a \<le> length b + edist a b \<and> length b \<le> length a + edist a b"
  by (induction a b rule: edist.induct) auto

lemma edist_same [simp]: "edist a a = 0"
  by (induction a) auto

lemma edist_0_iff: "edist a b = 0 \<longleftrightarrow> a = b"
proof (induction a b rule: edist.induct)
  case (3 x a y b)
  then show ?case by (auto split: if_splits)
qed auto

text \<open>Equal, or one substitution, one deletion or one insertion apart.\<close>

definition one_edit :: "string \<Rightarrow> string \<Rightarrow> bool" where
  "one_edit a b \<longleftrightarrow> a = b \<or>
     (\<exists>u x y v. a = u @ [x] @ v \<and> b = u @ [y] @ v) \<or>
     (\<exists>u x v. a = u @ [x] @ v \<and> b = u @ v) \<or>
     (\<exists>u x v. a = u @ v \<and> b = u @ [x] @ v)"

lemma one_edit_Cons: "one_edit a b \<Longrightarrow> one_edit (x # a) (x # b)"
  unfolding one_edit_def by (elim disjE exE conjE) (simp, (metis append_Cons)+)

lemma edist_Cons_le: "edist (x # a) (x # b) \<le> edist a b"
  by simp

lemma edist_drop1: "edist (u @ v) (u @ [x] @ v) \<le> 1"
proof (induction u)
  case Nil
  show ?case by (cases v) auto
next
  case (Cons y u)
  then show ?case using edist_Cons_le [of y "u @ v" "u @ [x] @ v"] by simp
qed

lemma edist_drop2: "edist (u @ [x] @ v) (u @ v) \<le> 1"
proof (induction u)
  case Nil
  show ?case by (cases v) auto
next
  case (Cons y u)
  then show ?case using edist_Cons_le [of y "u @ [x] @ v" "u @ v"] by simp
qed

lemma edist_subst: "edist (u @ [x] @ v) (u @ [y] @ v) \<le> 1"
proof (induction u)
  case Nil
  show ?case by simp
next
  case (Cons z u)
  then show ?case using edist_Cons_le [of z "u @ [x] @ v" "u @ [y] @ v"] by simp
qed

lemma edist_one_edit: "edist a b \<le> 1 \<Longrightarrow> one_edit a b"
proof (induction a b rule: edist.induct)
  case (1 b)
  then consider "b = []" | x where "b = [x]" by (cases b) auto
  then show ?case by cases (auto simp: one_edit_def)
next
  case (2 x a)
  then have "x # a = [] @ [x] @ [] \<and> [] = [] @ ([] :: string)" by auto
  then show ?case unfolding one_edit_def by blast
next
  case (3 x a y b)
  consider "edist a (y # b) = 0" | "edist (x # a) b = 0" | "x = y" "edist a b \<le> 1"
    | "x \<noteq> y" "edist a b = 0"
    using 3(4) by (fastforce simp: min_def split: if_splits)
  then show ?case
  proof cases
    case 1
    then have "x # a = [] @ [x] @ (y # b) \<and> y # b = [] @ (y # b)" by (simp add: edist_0_iff)
    then show ?thesis unfolding one_edit_def by blast
  next
    case 2
    then have "x # a = [] @ (x # a) \<and> y # b = [] @ [y] @ (x # a)" by (simp add: edist_0_iff)
    then show ?thesis unfolding one_edit_def by blast
  next
    case c3: 3
    then show ?thesis using "3.IH"(3) one_edit_Cons by blast
  next
    case 4
    then have "x # a = [] @ [x] @ b \<and> y # b = [] @ [y] @ b" by (simp add: edist_0_iff)
    then show ?thesis unfolding one_edit_def by blast
  qed
qed

lemma edist_le_1_iff: "edist a b \<le> 1 \<longleftrightarrow> one_edit a b"
proof
  assume "one_edit a b"
  then show "edist a b \<le> 1"
    unfolding one_edit_def
    by (elim disjE exE conjE) (use edist_drop1 edist_drop2 edist_subst in \<open>auto\<close>)
qed (rule edist_one_edit)

lemma one_edit_rev: "one_edit a b \<Longrightarrow> one_edit (rev a) (rev b)"
proof -
  have *: "rev (u @ [x] @ v) = rev v @ [x] @ rev u" for u v :: string and x by simp
  assume "one_edit a b"
  then show ?thesis
    unfolding one_edit_def by (elim disjE exE conjE) (simp, (metis * rev_append)+)
qed

lemma one_edit_rev_iff: "one_edit (rev a) (rev b) \<longleftrightarrow> one_edit a b"
  using one_edit_rev [of a b] one_edit_rev [of "rev a" "rev b"] by auto

lemma one_edit_length: "one_edit a b \<Longrightarrow> length a \<le> length b + 1 \<and> length b \<le> length a + 1"
  by (auto simp: one_edit_def)

lemma lev_edist: "lev a b = (if length a > length b + 1 \<or> length b > length a + 1 then 2
    else edist (rev a) (rev b))"
  by (auto simp: lev_def lev_table [simplified])

lemma lev_le_1_iff: "lev a b \<le> 1 \<longleftrightarrow> one_edit a b"
proof (cases "length a > length b + 1 \<or> length b > length a + 1")
  case True
  then have "\<not> one_edit a b" using one_edit_length [of a b] by auto
  with True show ?thesis by (simp add: lev_edist)
next
  case False
  then have "lev a b = edist (rev a) (rev b)" by (auto simp: lev_edist)
  then show ?thesis by (simp only: edist_le_1_iff one_edit_rev_iff)
qed

section \<open>Private addresses\<close>

text \<open>
  \<open>_PRIVATE_V4\<close> is a pattern over the text of an address.  \<open>private_blocks\<close> states the address
  blocks it stands for by their numbers, and \<open>is_private_ip_quad\<close> shows that on the dotted-quad
  text of an address the pattern decides exactly those blocks.
\<close>

definition quad :: "nat \<Rightarrow> nat \<Rightarrow> nat \<Rightarrow> nat \<Rightarrow> string" where
  "quad a b c d = show_nat a @ ''.'' @ show_nat b @ ''.'' @ show_nat c @ ''.'' @ show_nat d"

text \<open>
  10/8, 172.16/12, 192.168/16, loopback 127/8, link-local 169.254/16, 0/8 and the carrier-grade
  NAT block 100.64/10.
\<close>

definition private_blocks :: "nat \<Rightarrow> nat \<Rightarrow> bool" where
  "private_blocks a b \<longleftrightarrow> a = 10 \<or> a = 127 \<or> a = 0 \<or> (a = 172 \<and> 16 \<le> b \<and> b \<le> 31) \<or>
     (a = 192 \<and> b = 168) \<or> (a = 169 \<and> b = 254) \<or> (a = 100 \<and> 64 \<le> b \<and> b \<le> 127)"

subsection \<open>Numbers as prefixes\<close>

lemma dot_not_digit: "CHR ''.'' \<notin> set (show_nat n)"
  by (rule digit_not_in_show) (simp add: is_digit_def code_def of_char_def)

lemma show_nat_sep_eq:
  "show_nat a @ CHR ''.'' # s = show_nat b @ CHR ''.'' # t \<longleftrightarrow> a = b \<and> s = t"
proof
  assume eq: "show_nat a @ CHR ''.'' # s = show_nat b @ CHR ''.'' # t"
  have "takeWhile (\<lambda>c. c \<noteq> CHR ''.'') (show_nat n @ CHR ''.'' # u) = show_nat n" for n u
    using dot_not_digit [of n] by (auto simp: takeWhile_append)
  then have "show_nat a = show_nat b" by (metis eq)
  then show "a = b \<and> s = t" using eq by (simp add: show_nat_inj)
qed simp

lemma show_nat_eval:
  "show_nat 10 = ''10''" "show_nat 172 = ''172''" "show_nat 192 = ''192''" "show_nat 168 = ''168''"
  "show_nat 127 = ''127''" "show_nat 169 = ''169''" "show_nat 254 = ''254''" "show_nat 0 = ''0''"
  "show_nat 100 = ''100''"
  by code_simp+

lemma startswith_dot: "startswith (show_nat a @ CHR ''.'' # s) (show_nat k @ ''.'') \<longleftrightarrow> a = k"
proof -
  have "startswith (show_nat a @ CHR ''.'' # s) (show_nat k @ ''.'') \<longleftrightarrow>
      (\<exists>t. show_nat a @ CHR ''.'' # s = show_nat k @ CHR ''.'' # t)"
    by (simp add: startswith_iff)
  then show ?thesis by (simp add: show_nat_sep_eq)
qed

lemmas startswith_octet =
  startswith_dot [of _ _ 10, unfolded show_nat_eval, simplified]
  startswith_dot [of _ _ 127, unfolded show_nat_eval, simplified]
  startswith_dot [of _ _ 0, unfolded show_nat_eval, simplified]
  startswith_dot [of _ _ 172, unfolded show_nat_eval, simplified]
  startswith_dot [of _ _ 100, unfolded show_nat_eval, simplified]

subsection \<open>Matching one octet\<close>

text \<open>\<open>rx_avoids c r\<close>: no word of \<open>r\<close> contains \<open>c\<close>.\<close>

primrec rx_avoids :: "char \<Rightarrow> rx \<Rightarrow> bool" where
  "rx_avoids c RNone = True"
| "rx_avoids c REps = True"
| "rx_avoids c (RSet p) = (\<not> p c)"
| "rx_avoids c (RAlt r s) = (rx_avoids c r \<and> rx_avoids c s)"
| "rx_avoids c (RSeq r s) = (rx_avoids c r \<and> rx_avoids c s)"
| "rx_avoids c (RStar r) = rx_avoids c r"

lemma star_avoids: "w \<in> star A \<Longrightarrow> (\<And>u. u \<in> A \<Longrightarrow> c \<notin> set u) \<Longrightarrow> c \<notin> set w"
  by (induction rule: star.induct) auto

lemma lang_avoids: "rx_avoids c r \<Longrightarrow> w \<in> lang r \<Longrightarrow> c \<notin> set w"
proof (induction r arbitrary: w)
  case (RStar r)
  then show ?case using star_avoids [of w "lang r" c] by auto
qed (auto simp: conc_def)

lemma match_alt: "rx_match (RAlt r s) x \<longleftrightarrow> rx_match r x \<or> rx_match s x"
  by (auto simp: match_iff)

lemma match_alts: "rx_match (rx_alts rs) x \<longleftrightarrow> (\<exists>r \<in> set rs. rx_match r x)"
  by (auto simp: match_iff)

lemma match_lit_seq: "rx_match (RSeq (rx_lit p) r) x \<longleftrightarrow> (\<exists>t. x = p @ t \<and> rx_match r t)"
proof
  assume "rx_match (RSeq (rx_lit p) r) x"
  then obtain w v where "w \<in> lang r" "x = p @ (w @ v)" by (auto simp: match_iff conc_sing)
  then show "\<exists>t. x = p @ t \<and> rx_match r t" unfolding match_iff by blast
next
  assume "\<exists>t. x = p @ t \<and> rx_match r t"
  then obtain u v where "x = (p @ u) @ v" "u \<in> lang r" by (auto simp: match_iff)
  then show "rx_match (RSeq (rx_lit p) r) x" unfolding match_iff lang.simps lang_rx_lit conc_sing by blast
qed

lemma match_octet_dot:
  assumes "rx_avoids CHR ''.'' r"
  shows "rx_match (RSeq r (rx_char CHR ''.'')) (show_nat n @ CHR ''.'' # t) \<longleftrightarrow> rx_fullmatch r (show_nat n)"
proof
  assume "rx_match (RSeq r (rx_char CHR ''.'')) (show_nat n @ CHR ''.'' # t)"
  then obtain u v where uv: "show_nat n @ CHR ''.'' # t = u @ CHR ''.'' # v" "u \<in> lang r"
    by (auto simp: match_iff conc_def)
  have "CHR ''.'' \<notin> set u" using assms uv(2) by (rule lang_avoids)
  then have "takeWhile (\<lambda>c. c \<noteq> CHR ''.'') (u @ CHR ''.'' # v) = u"
    by (auto simp: takeWhile_append)
  moreover have "takeWhile (\<lambda>c. c \<noteq> CHR ''.'') (show_nat n @ CHR ''.'' # t) = show_nat n"
    using dot_not_digit [of n] by (auto simp: takeWhile_append)
  ultimately show "rx_fullmatch r (show_nat n)" using uv by (simp add: fullmatch_iff)
next
  assume "rx_fullmatch r (show_nat n)"
  then have "show_nat n @ [CHR ''.''] \<in> lang (RSeq r (rx_char CHR ''.''))"
    by (auto simp: fullmatch_iff conc_def)
  moreover have "show_nat n @ CHR ''.'' # t = (show_nat n @ [CHR ''.'']) @ t" by simp
  ultimately show "rx_match (RSeq r (rx_char CHR ''.'')) (show_nat n @ CHR ''.'' # t)"
    unfolding match_iff by blast
qed

text \<open>The two character-class blocks of the pattern, decided on every octet by evaluation.\<close>

definition B172 :: rx where
  "B172 = rx_alts [rx_seq [rx_char CHR ''1'', rx_range CHR ''6'' CHR ''9''],
          rx_seq [rx_char CHR ''2'', RSet is_digit],
          rx_seq [rx_char CHR ''3'', rx_alts [rx_char CHR ''0'', rx_char CHR ''1'']]]"

definition B100 :: rx where
  "B100 = rx_alts [rx_seq [rx_char CHR ''6'', rx_range CHR ''4'' CHR ''9''],
          rx_seq [rx_range CHR ''7'' CHR ''9'', RSet is_digit],
          rx_seq [rx_char CHR ''1'', rx_alts [rx_char CHR ''0'', rx_char CHR ''1''], RSet is_digit],
          rx_seq [rx_lit ''12'', rx_range CHR ''0'' CHR ''7'']]"

lemma B172_table: "list_all (\<lambda>b. rx_fullmatch B172 (show_nat b) = (16 \<le> b \<and> b \<le> 31)) [0..<256]"
  by code_simp

lemma B100_table: "list_all (\<lambda>b. rx_fullmatch B100 (show_nat b) = (64 \<le> b \<and> b \<le> 127)) [0..<256]"
  by code_simp

lemma block_octets:
  assumes "b < 256"
  shows "rx_fullmatch B172 (show_nat b) \<longleftrightarrow> 16 \<le> b \<and> b \<le> 31"
    "rx_fullmatch B100 (show_nat b) \<longleftrightarrow> 64 \<le> b \<and> b \<le> 127"
  using B172_table B100_table assms by (simp_all add: list_all_iff)

lemma avoids_lit: "CHR ''.'' \<notin> set w \<Longrightarrow> rx_avoids CHR ''.'' (rx_lit w)"
  by (induction w) (auto simp: rx_char_def)

lemma avoids_blocks: "rx_avoids CHR ''.'' B172" "rx_avoids CHR ''.'' B100"
  by code_simp+

lemma match_block:
  assumes "rx_avoids CHR ''.'' B"
  shows "rx_match (RSeq (rx_lit (show_nat k @ ''.'')) (RSeq B (rx_char CHR ''.'')))
      (show_nat a @ CHR ''.'' # show_nat b @ CHR ''.'' # t) \<longleftrightarrow> a = k \<and> rx_fullmatch B (show_nat b)"
proof -
  have "(\<exists>u. show_nat a @ CHR ''.'' # s = (show_nat k @ ''.'') @ u \<and> P u) \<longleftrightarrow> a = k \<and> P s" for s P
    using show_nat_sep_eq [of a s k] by auto
  then show ?thesis by (simp add: match_lit_seq match_octet_dot [OF assms])
qed

lemma match_two:
  "rx_match (rx_lit (show_nat j @ ''.'' @ show_nat k @ ''.''))
     (show_nat a @ CHR ''.'' # show_nat b @ CHR ''.'' # t) \<longleftrightarrow> a = j \<and> b = k"
proof -
  have "rx_match (rx_lit (show_nat j @ ''.'' @ show_nat k @ ''.''))
     (show_nat a @ CHR ''.'' # show_nat b @ CHR ''.'' # t) \<longleftrightarrow>
     (\<exists>u. show_nat a @ CHR ''.'' # show_nat b @ CHR ''.'' # t =
          show_nat j @ CHR ''.'' # show_nat k @ CHR ''.'' # u)"
    by (simp add: match_lit startswith_iff)
  then show ?thesis by (simp add: show_nat_sep_eq)
qed

lemma PRIVATE_V4_match:
  assumes "b < 256"
  shows "rx_match PRIVATE_V4 (show_nat a @ CHR ''.'' # show_nat b @ CHR ''.'' # t) \<longleftrightarrow> private_blocks a b"
proof -
  let ?s = "show_nat a @ CHR ''.'' # show_nat b @ CHR ''.'' # t"
  have one: "rx_match (rx_lit (show_nat k @ ''.'')) ?s \<longleftrightarrow> a = k" for k
    by (simp add: match_lit startswith_dot)
  have eq: "PRIVATE_V4 = rx_alts [rx_lit (show_nat 10 @ ''.''),
      RSeq (rx_lit (show_nat 172 @ ''.'')) (RSeq B172 (rx_char CHR ''.'')),
      rx_lit (show_nat 192 @ ''.'' @ show_nat 168 @ ''.''), rx_lit (show_nat 127 @ ''.''),
      rx_lit (show_nat 169 @ ''.'' @ show_nat 254 @ ''.''), rx_lit (show_nat 0 @ ''.''),
      RSeq (rx_lit (show_nat 100 @ ''.'')) (RSeq B100 (rx_char CHR ''.''))]"
    unfolding show_nat_eval PRIVATE_V4_def Let_def B172_def B100_def by simp
  show ?thesis
    unfolding eq match_alts
    by (simp add: one [simplified] match_block [simplified] avoids_blocks match_two [simplified]
        block_octets [OF assms] private_blocks_def) blast
qed

subsection \<open>Whole addresses\<close>

lemma digit_or_dot_quad: "x \<in> set (quad a b c d) \<Longrightarrow> is_digit x \<or> x = CHR ''.''"
  using show_nat_digits by (auto simp: quad_def)

lemma not_digits: "\<not> is_digit CHR '':''" "\<not> is_digit CHR ''%''" "\<not> is_digit CHR ''[''"
  "\<not> is_digit CHR '']''" "\<not> is_space CHR ''.''"
  by code_simp+

lemma digit_no_space: "is_digit c \<Longrightarrow> \<not> is_space c"
  unfolding is_digit_def is_space_def by force

lemma quad_no_space: "x \<in> set (quad a b c d) \<Longrightarrow> \<not> is_space x"
  using digit_or_dot_quad [of x a b c d] not_digits(5) digit_no_space [of x] by auto

lemma quad_no_char: "\<not> is_digit x \<Longrightarrow> x \<noteq> CHR ''.'' \<Longrightarrow> x \<notin> set (quad a b c d)"
  using digit_or_dot_quad [of x a b c d] by blast

lemma quad_clean:
  "CHR '':'' \<notin> set (quad a b c d)" "CHR ''%'' \<notin> set (quad a b c d)"
  "CHR ''['' \<notin> set (quad a b c d)" "CHR '']'' \<notin> set (quad a b c d)"
  by (rule quad_no_char, rule not_digits, simp)+

lemma strip_chars_id:
  assumes "\<forall>c \<in> set s. c \<notin> set cs"
  shows "strip_chars cs s = s"
proof -
  have "dropWhile (\<lambda>c. c \<in> set cs) t = t" if "set t \<subseteq> set s" for t
    using assms that by (cases t) auto
  then show ?thesis by (simp add: strip_chars_def)
qed

lemma is_private_ip_quad:
  assumes "b < 256"
  shows "is_private_ip (quad a b c d) \<longleftrightarrow> private_blocks a b"
proof -
  let ?s = "quad a b c d"
  have ne: "?s \<noteq> []" by (simp add: quad_def)
  have "strip ?s = ?s" using ne quad_no_space by (intro strip_id) (metis hd_in_set last_in_set)
  moreover have "strip_chars ''[]'' ?s = ?s"
    using quad_clean(3,4) by (intro strip_chars_id) (metis empty_iff empty_set set_ConsD)
  moreover have "split_char CHR ''%'' ?s = [?s]" using quad_clean(2) by (rule split_no_sep)
  moreover have "CHR '':'' \<notin> set ?s" by (rule quad_clean(1))
  ultimately have "is_private_ip ?s \<longleftrightarrow> rx_match PRIVATE_V4 ?s"
    using ne by (simp add: is_private_ip_def)
  then show ?thesis using PRIVATE_V4_match [OF assms] by (simp add: quad_def)
qed

end
