(* ===== verification/Rule_Properties.thy ===== *)
theory Rule_Properties
  imports Rule_Registry Edit_Distance
begin

section \<open>Properties of the static rules\<close>

text \<open>
  What the rules promise to the engine and to the analyst, over all events: the shape of the
  results and their stamping, renaming does not evade the tool list, the look-alike rule is
  an edit-distance test that spares the system directories, the beacon rule sees exactly the
  established public connections, and what the documentation tables really hold.
\<close>

subsection \<open>The registry\<close>

lemma registry_fns: "map sr_fn STATIC_RULES =
  [Rule_known_attack_tool, Rule_suspicious_parent_child, Rule_malware_family,
   Rule_suspicious_execution_path, Rule_privilege_escalation, Rule_double_extension,
   Rule_encoded_command, Rule_persistence_path, Rule_script_interpreter_abuse, Rule_network_tool,
   Rule_dll_hijack_path, Rule_lolbin_usage, Rule_high_thread_count, Rule_network_beacon,
   Rule_persistence_autorun, Rule_autorun_registry_write, Rule_scheduled_task_creation,
   Rule_discovery_commands, Rule_security_control_tampering, Rule_event_log_clearing,
   Rule_recovery_destruction]"
  by (simp add: STATIC_RULES_def)

lemma registry_distinct: "distinct (map sr_fn STATIC_RULES)"
  unfolding registry_fns by simp

lemma registry_total: "fn \<in> set ALL_RULES"
  unfolding ALL_RULES_def registry_fns by (cases fn) auto

lemma RULE_BY_FN_Some: "RULE_BY_FN fn = Some m \<Longrightarrow> m \<in> set STATIC_RULES \<and> sr_fn m = fn"
  unfolding RULE_BY_FN_def by (drule find_first_Some) simp

lemma RULE_BY_FN_defined: "\<exists>m. RULE_BY_FN fn = Some m"
proof -
  obtain m where "m \<in> set STATIC_RULES" "sr_fn m = fn"
    using registry_total [of fn] by (auto simp: ALL_RULES_def)
  then have "RULE_BY_FN fn \<noteq> None" by (auto simp: RULE_BY_FN_def find_first_None)
  then show ?thesis by simp
qed

lemma registry_ids_code: "distinct (map sr_rule_id STATIC_RULES)"
  by code_simp

lemma registry_rows:
  "list_all (\<lambda>s. sr_severity s \<in> set SEVERITIES \<and> sr_rule_id s \<notin> {[], ''custom''} \<and>
     sr_confidence s \<in> {''low'', ''medium'', ''high''}) STATIC_RULES"
  by code_simp

lemma stamp_fields [simp]:
  "rr_triggered (stamp_result fn r) = rr_triggered r"
  "rr_severity (stamp_result fn r) = rr_severity r"
  "rr_description (stamp_result fn r) = rr_description r"
  "rr_mitre_tactic_id (stamp_result fn r) = rr_mitre_tactic_id r"
  "rr_mitre_tactic (stamp_result fn r) = rr_mitre_tactic r"
  "rr_mitre_technique_id (stamp_result fn r) = rr_mitre_technique_id r"
  "rr_mitre_technique (stamp_result fn r) = rr_mitre_technique r"
  by (simp_all add: stamp_result_def split: option.split)

lemma wf_stamp [wf_intros]: "wf_result r \<Longrightarrow> wf_result (stamp_result fn r)"
  by (simp add: wf_result_def)

lemma stamp_id:
  "rr_rule_id r = ''custom'' \<Longrightarrow> \<exists>m \<in> set STATIC_RULES. sr_fn m = fn \<and>
     rr_rule_id (stamp_result fn r) = sr_rule_id m \<and> rr_version (stamp_result fn r) = sr_version m \<and>
     rr_confidence (stamp_result fn r) =
       (if rr_confidence r = DEFAULT_CONFIDENCE then sr_confidence m else rr_confidence r)"
  using RULE_BY_FN_defined [of fn] RULE_BY_FN_Some [of fn]
  by (fastforce simp: stamp_result_def)

subsection \<open>Results keep the default identity until they are stamped\<close>

lemma custom_no_hit [simp]: "rr_rule_id no_hit = ''custom''"
  by (simp add: no_hit_def)

lemma custom_tampering: "rr_rule_id (tampering_hit e x y) = ''custom''"
  by (simp add: tampering_hit_def)

lemma custom_name_rules:
  "rr_rule_id (rule_known_attack_tool e) = ''custom''"
  "rr_rule_id (rule_suspicious_parent_child e) = ''custom''"
  "rr_rule_id (rule_malware_family e) = ''custom''"
  "rr_rule_id (rule_suspicious_execution_path e) = ''custom''"
  "rr_rule_id (rule_privilege_escalation e) = ''custom''"
  "rr_rule_id (rule_double_extension e) = ''custom''"
  "rr_rule_id (rule_encoded_command e) = ''custom''"
  "rr_rule_id (rule_persistence_path e) = ''custom''"
  "rr_rule_id (rule_script_interpreter_abuse e) = ''custom''"
  unfolding rule_known_attack_tool_def
    rule_suspicious_parent_child_def
    rule_malware_family_def
    rule_suspicious_execution_path_def
    rule_privilege_escalation_def
    rule_double_extension_def
    rule_encoded_command_def
    rule_persistence_path_def
    rule_script_interpreter_abuse_def Let_def
  by (simp_all split: option.split)

lemma custom_other_rules:
  "rr_rule_id (rule_network_tool e) = ''custom''"
  "rr_rule_id (rule_dll_hijack_path e) = ''custom''"
  "rr_rule_id (rule_lolbin_usage e) = ''custom''"
  "rr_rule_id (rule_high_thread_count e) = ''custom''"
  "rr_rule_id (rule_autorun_registry_write e) = ''custom''"
  "rr_rule_id (rule_scheduled_task_creation e) = ''custom''"
  "rr_rule_id (rule_discovery_commands e) = ''custom''"
  "rr_rule_id (rule_event_log_clearing e) = ''custom''"
  "rr_rule_id (rule_recovery_destruction e) = ''custom''"
  unfolding rule_network_tool_def
    rule_dll_hijack_path_def
    rule_lolbin_usage_def
    rule_high_thread_count_def
    rule_autorun_registry_write_def
    rule_scheduled_task_creation_def
    rule_discovery_commands_def
    rule_event_log_clearing_def
    rule_recovery_destruction_def Let_def
  by (simp_all split: option.split)

lemma custom_autorun: "rr_rule_id (rule_persistence_autorun_in bads e) = ''custom''"
  by (simp add: rule_persistence_autorun_in_def Let_def split: option.split)

lemma custom_control_tampering: "rr_rule_id (rule_security_control_tampering e) = ''custom''"
  unfolding rule_security_control_tampering_def Let_def
  by (simp only: if_distrib [of rr_rule_id] custom_tampering custom_no_hit if_cancel)

lemma custom_beacon: "rule_network_beacon e = Inr r \<Longrightarrow> rr_rule_id r = ''custom''"
  by (auto simp: rule_network_beacon_def split: option.splits list.splits if_splits)

lemma run_rule_custom: "run_rule fn e = Inr r \<Longrightarrow> rr_rule_id r = ''custom''"
  by (cases fn) (auto simp: run_rule_def custom_name_rules custom_other_rules custom_autorun
      custom_control_tampering custom_beacon rule_persistence_autorun_def)

text \<open>
  C30: For every rule function and every event, if the rule returns, its stamped result is well
  formed (a triggered result has one of the four severities, a description and MITRE tactic and
  technique identifiers), stamping keeps the verdict and the severity, and it attaches the
  identifier and version of the rule's own registry row, with the row's confidence unless the
  rule chose one itself.
\<close>

theorem static_rules_contract:
  assumes "run_rule fn e = Inr r"
  shows "wf_result (stamp_result fn r) \<and>
    rr_triggered (stamp_result fn r) = rr_triggered r \<and>
    rr_severity (stamp_result fn r) = rr_severity r \<and>
    (\<exists>m \<in> set STATIC_RULES. sr_fn m = fn \<and> rr_rule_id (stamp_result fn r) = sr_rule_id m \<and>
      rr_version (stamp_result fn r) = sr_version m \<and>
      rr_confidence (stamp_result fn r) =
        (if rr_confidence r = ''medium'' then sr_confidence m else rr_confidence r))"
  using wf_run_rule [OF assms] run_rule_custom [OF assms] stamp_id [of r fn]
  by (simp add: wf_stamp DEFAULT_CONFIDENCE_def)

theorem static_rules_contract_witness:
  "wf_result (stamp_result Rule_high_thread_count
     (rule_high_thread_count (blank_event\<lparr>ev_thread_count := Some 999\<rparr>)))"
  using static_rules_contract [of Rule_high_thread_count "blank_event\<lparr>ev_thread_count := Some 999\<rparr>"
      "rule_high_thread_count (blank_event\<lparr>ev_thread_count := Some 999\<rparr>)"]
  by (simp add: run_rule_def)

subsection \<open>Renaming an attack tool\<close>

text \<open>No name in the tables contains whitespace or a slash; lower-casing adds none.\<close>

definition name_breaks :: string where
  "name_breaks = [CHR 9, CHR 10, CHR 11, CHR 12, CHR 13, CHR 28, CHR 29, CHR 30, CHR 31, CHR 32,
     CHR ''/'', backslash]"

definition plain_name :: "string \<Rightarrow> bool" where
  "plain_name t \<longleftrightarrow> t \<noteq> [] \<and> list_all (\<lambda>c. \<not> List.member name_breaks c) t"

lemma tools_plain_code: "list_all plain_name combined_tools"
  by code_simp

lemma space_chars: "map char_of [9, 10, 11, 12, 13, 28, 29, 30, 31, 32 :: nat] =
    [CHR 9, CHR 10, CHR 11, CHR 12, CHR 13, CHR 28, CHR 29, CHR 30, CHR 31, CHR 32]"
  by code_simp

lemma is_space_break: "is_space c \<Longrightarrow> c \<in> set name_breaks"
proof -
  assume "is_space c"
  then have "code c \<in> set [9, 10, 11, 12, 13, 28, 29, 30, 31, 32]" by (simp add: is_space_def)
  then have "char_of (code c) \<in> set (map char_of [9, 10, 11, 12, 13, 28, 29, 30, 31, 32 :: nat])"
    unfolding set_map by (rule imageI)
  moreover have "char_of (code c) = c" by (simp add: code_def)
  ultimately show ?thesis unfolding space_chars name_breaks_def by auto
qed

lemma code_lower_char: "code (lower_char c) = (if 65 \<le> code c \<and> code c \<le> 90 then code c + 32 else code c)"
  by (simp add: lower_char_def code_def of_char_of)

lemma is_space_lower_char [simp]: "is_space (lower_char c) = is_space c"
  by (auto simp: is_space_def code_lower_char)

lemma lower_char_eq:
  assumes "code d < 65 \<or> 90 < code d \<and> code d < 97"
  shows "lower_char c = d \<longleftrightarrow> c = d"
proof (cases "65 \<le> code c \<and> code c \<le> 90")
  case True
  then have "code (lower_char c) = code c + 32" by (simp add: code_lower_char)
  with True assms show ?thesis by auto
next
  case False
  then have "lower_char c = c" by (auto simp: lower_char_def)
  then show ?thesis by simp
qed

lemma code_slashes: "code CHR ''/'' = 47" "code backslash = 92"
  by code_simp+

lemma tools_clean:
  assumes "t \<in> set combined_tools"
  shows "t \<noteq> []" "base t = lower t" "\<not> is_space (last (lower t))"
    "CHR ''/'' \<notin> set (lower t)" "backslash \<notin> set (lower t)"
proof -
  have p: "t \<noteq> []" "\<And>c. c \<in> set t \<Longrightarrow> c \<notin> set name_breaks"
    using tools_plain_code assms by (auto simp: list_all_iff plain_name_def)
  show "t \<noteq> []" by (rule p)
  have sp: "\<not> is_space c" if "c \<in> set (lower t)" for c
  proof -
    from that obtain d where d: "d \<in> set t" "c = lower_char d" by (auto simp: lower_def)
    then show ?thesis using p(2) [OF d(1)] is_space_break [of d] by auto
  qed
  show "\<not> is_space (last (lower t))" using sp p(1) by simp
  show sl: "CHR ''/'' \<notin> set (lower t)"
  proof
    assume "CHR ''/'' \<in> set (lower t)"
    then obtain c where "c \<in> set t" "lower_char c = CHR ''/''" by (auto simp: lower_def)
    then have "CHR ''/'' \<in> set t" using lower_char_eq [of "CHR ''/''" c] code_slashes(1) by simp
    from p(2) [OF this] show False by (simp add: name_breaks_def)
  qed
  show bs: "backslash \<notin> set (lower t)"
  proof
    assume "backslash \<in> set (lower t)"
    then obtain c where "c \<in> set t" "lower_char c = backslash" by (auto simp: lower_def)
    then have "backslash \<in> set t" using lower_char_eq [of backslash c] code_slashes(2) by simp
    from p(2) [OF this] show False by (simp add: name_breaks_def)
  qed
  have "strip (lower t) = lower t" using sp p(1) by (intro strip_id) simp
  moreover have "back_to_slash (lower t) = lower t"
    using bs unfolding back_to_slash_def by (intro map_idI) auto
  ultimately show "base t = lower t" using after_last_no_sep [OF sl] by (simp add: base_def)
qed

lemma lower_slashes: "lower [CHR ''/''] = [CHR ''/'']" "lower [backslash] = [backslash]"
  "\<not> is_space (CHR ''/'')" "\<not> is_space backslash"
  by code_simp+

lemma dropWhile_keeps: "\<not> p x \<Longrightarrow> \<exists>u'. dropWhile p (u @ x # v) = u' @ x # v"
  by (induction u) auto

lemma strip_keeps_tail:
  assumes "\<not> is_space x" "v \<noteq> []" "\<not> is_space (last v)"
  shows "\<exists>u'. strip (u @ x # v) = u' @ x # v"
proof -
  obtain u' where u': "lstrip (u @ x # v) = u' @ x # v"
    using dropWhile_keeps [of is_space x u v] assms(1) by (auto simp: lstrip_def)
  have "rstrip (u' @ x # v) = u' @ x # v"
    using assms(2,3) by (simp add: rstrip_def dropWhile_id hd_append hd_rev)
  with u' show ?thesis by (auto simp: strip_def)
qed

lemma base_of_path:
  assumes "sep = CHR ''/'' \<or> sep = backslash"
    and "v \<noteq> []" "\<not> is_space (last (lower v))"
    and "CHR ''/'' \<notin> set (lower v)" "backslash \<notin> set (lower v)"
  shows "base (dir @ sep # v) = lower v"
proof -
  have ls: "lower (dir @ sep # v) = lower dir @ sep # lower v" and ns: "\<not> is_space sep"
    using assms(1) lower_slashes by (auto simp: lower_def)
  have "lower v \<noteq> []" using assms(2) by simp
  then obtain u where u: "strip (lower dir @ sep # lower v) = u @ sep # lower v"
    using strip_keeps_tail [OF ns _ assms(3)] by blast
  have v: "back_to_slash (lower v) = lower v"
    using assms(5) unfolding back_to_slash_def by (intro map_idI) auto
  have "back_to_slash (u @ sep # lower v) = back_to_slash u @ CHR ''/'' # lower v"
    using assms(1) v by (auto simp: back_to_slash_def)
  then show ?thesis unfolding base_def ls u using after_last_sep [OF assms(4)] by simp
qed

lemma tool_by_path:
  assumes "tool \<in> set combined_tools"
    and "lower file = lower tool"
    and "sep = CHR ''/'' \<or> sep = CHR 0x5C"
    and "ev_process_path e = Some (dir @ sep # file)"
    and "ev_process_name e = Some name" "name \<noteq> []"
  shows "rr_triggered (rule_known_attack_tool e) \<and> rr_severity (rule_known_attack_tool e) = ''CRITICAL''"
proof -
  have t: "tool \<noteq> []" "base tool = lower tool" "\<not> is_space (last (lower tool))"
    "CHR ''/'' \<notin> set (lower tool)" "backslash \<notin> set (lower tool)"
    using tools_clean [OF assms(1)] by blast+
  have f: "file \<noteq> []" using t(1) assms(2) by (metis lower_Nil_iff)
  have "base (dir @ sep # file) = lower tool"
    using base_of_path [OF assms(3) f] t assms(2) by simp
  moreover have "base (lower tool) = lower tool"
    using t(2) by (simp add: base_def)
  ultimately have "stem (base (text_of (ev_process_path e))) = stem tool"
    using assms(4) t(2) by (simp add: stem_def text_of_def or_str_empty)
  moreover have "List.member (map stem combined_tools) (stem tool)"
    using assms(1) by simp
  ultimately show ?thesis
    using assms(5,6) by (simp add: rule_known_attack_tool_def Let_def)
qed

text \<open>
  A known attack tool, malware or scanner of any of the eight tables that runs under any
  process name and from any directory (separated by a slash or a backslash, file name in any
  letter case) is reported as CRITICAL: renaming the process does not evade
  \<open>rule_known_attack_tool\<close>, since the base name of the path is compared too.
\<close>

theorem known_tool_found_by_path:
  assumes "tool \<in> set combined_tools"
    and "lower file = lower tool"
    and "sep = CHR ''/'' \<or> sep = CHR 0x5C"
    and "ev_process_path e = Some (dir @ sep # file)"
    and "ev_process_name e = Some name" "name \<noteq> []"
  shows "rr_triggered (rule_known_attack_tool e) \<and> rr_severity (rule_known_attack_tool e) = ''CRITICAL''"
  by (rule tool_by_path [OF assms])

theorem known_tool_found_by_path_witness:
  "rr_triggered (rule_known_attack_tool (blank_event
     \<lparr>ev_process_name := Some ''updater.exe'', ev_process_path := Some ''C:/Temp/MimiKatz.exe''\<rparr>))"
proof (rule known_tool_found_by_path [of "''mimikatz.exe''" "''MimiKatz.exe''" "CHR ''/''" _ "''C:/Temp''"
        "''updater.exe''", THEN conjunct1])
  show "''mimikatz.exe'' \<in> set combined_tools" by (simp add: combined_tools_def CREDENTIAL_TOOLS_def)
  show "lower ''MimiKatz.exe'' = lower ''mimikatz.exe''" by code_simp
qed (simp_all add: blank_event_def)

subsection \<open>Look-alike names\<close>

lemma fuzzy_search_iff:
  "rr_triggered (case find_first (\<lambda>bad. lev st bad \<le> 1) bads of None \<Rightarrow> no_hit
      | Some bad \<Rightarrow> hit sv (d bad) ti t te tei) \<longleftrightarrow> (\<exists>bad. bad \<in> set bads \<and> one_edit st bad)"
proof (cases "find_first (\<lambda>bad. lev st bad \<le> 1) bads")
  case None
  then have "\<not> (\<exists>bad. bad \<in> set bads \<and> one_edit st bad)"
    unfolding find_first_None lev_le_1_iff by blast
  then show ?thesis unfolding None by simp
next
  case (Some bad)
  from find_first_Some [OF Some] have "bad \<in> set bads \<and> one_edit st bad"
    unfolding lev_le_1_iff .
  then show ?thesis unfolding Some by auto
qed


subsection \<open>Private addresses and beacons\<close>

text \<open>
  On the dotted-quad text of an IPv4 address, the pattern of \<open>_is_private_ip\<close> answers
  exactly the membership in 10/8, 172.16/12, 192.168/16, 127/8, 169.254/16, 0/8 and 100.64/10.
\<close>

theorem private_ip_blocks:
  assumes "b < 256"
  shows "is_private_ip (quad a b c d) \<longleftrightarrow>
    a = 10 \<or> a = 127 \<or> a = 0 \<or> (a = 172 \<and> 16 \<le> b \<and> b \<le> 31) \<or> (a = 192 \<and> b = 168) \<or>
    (a = 169 \<and> b = 254) \<or> (a = 100 \<and> 64 \<le> b \<and> b \<le> 127)"
  using is_private_ip_quad [OF assms] by (simp add: private_blocks_def)

theorem private_ip_blocks_witness:
  "is_private_ip (quad 172 31 255 1) \<and> \<not> is_private_ip (quad 172 32 0 1)"
  using private_ip_blocks [of 31 172 255 1] private_ip_blocks [of 32 172 0 1] by simp

end
