(* ===== verification/Rule_Behaviour.thy ===== *)
theory Rule_Behaviour
  imports Rule_Properties
begin

section \<open>Behaviour of the beacon, command-line and documentation code\<close>

text \<open>
  The beacon rule on well-typed connection lists, the command-line rules under spacing and
  letter-case obfuscation, and the contents of the documentation tables.
\<close>

subsection \<open>Connections\<close>

text \<open>The dictionary a sensor sends for one connection: remote endpoint and state, both strings.\<close>

definition conn_of :: "string \<Rightarrow> string \<Rightarrow> pydict" where
  "conn_of remote state = [(''remote'', PStr remote), (''state'', PStr state)]"

definition endpoint :: "nat \<Rightarrow> nat \<Rightarrow> nat \<Rightarrow> nat \<Rightarrow> nat \<Rightarrow> string" where
  "endpoint a b c d port = quad a b c d @ '':'' @ show_nat port"

lemma upper_established: "upper ''ESTABLISHED'' = ''ESTABLISHED''" "upper ''established'' = ''ESTABLISHED''"
  by code_simp+

lemma endpoint_chars:
  "x \<in> set (endpoint a b c d p) \<Longrightarrow> \<not> is_space x \<and> x \<noteq> CHR ''['' \<and> x \<noteq> CHR '']''"
proof -
  have colon: "\<not> is_space CHR '':''" by code_simp
  assume "x \<in> set (endpoint a b c d p)"
  then consider "x \<in> set (quad a b c d)" | "x = CHR '':''" | "x \<in> set (show_nat p)"
    by (auto simp: endpoint_def)
  then show ?thesis
  proof cases
    case 1
    then show ?thesis using quad_no_space quad_clean(3,4) by metis
  next
    case 2
    with colon show ?thesis by simp
  next
    case 3
    then have "is_digit x" using show_nat_digits by blast
    then show ?thesis using digit_no_space not_digits(3,4) by metis
  qed
qed

lemma strip_no_space: "(\<And>x. x \<in> set s \<Longrightarrow> \<not> is_space x) \<Longrightarrow> strip s = s"
  by (rule strip_id) (metis hd_in_set last_in_set)

lemma strip_brackets: "(\<And>x. x \<in> set s \<Longrightarrow> x \<noteq> CHR ''['' \<and> x \<noteq> CHR '']'') \<Longrightarrow> strip_chars ''[]'' s = s"
  by (rule strip_chars_id) (metis empty_iff empty_set set_ConsD)

lemma before_last_sep: "sep \<notin> set t \<Longrightarrow> before_last sep (s @ sep # t) = s"
proof -
  assume "sep \<notin> set t"
  then have "dropWhile (\<lambda>c. c \<noteq> sep) (rev t @ sep # rev s) = sep # rev s"
    by (subst dropWhile_append2) auto
  then show ?thesis by (simp add: before_last_def)
qed

lemma before_last_endpoint: "before_last CHR '':'' (endpoint a b c d p) = quad a b c d"
proof -
  have "CHR '':'' \<notin> set (show_nat p)" using digit_not_in_show not_digits(1) by blast
  then show ?thesis using before_last_sep [of "CHR '':''" "show_nat p" "quad a b c d"]
    by (simp add: endpoint_def)
qed

lemma outbound_conn:
  assumes "b < 256"
  shows "outbound_remote (conn_of (endpoint a b c d p) st) =
    Inr (if upper st = ''ESTABLISHED'' \<and> \<not> private_blocks a b then Some (endpoint a b c d p) else None)"
proof -
  let ?r = "endpoint a b c d p" and ?q = "quad a b c d"
  have r1: "strip ?r = ?r" by (rule strip_no_space) (drule endpoint_chars, elim conjE)
  have r2: "strip_chars ''[]'' ?r = ?r" by (rule strip_brackets) (drule endpoint_chars, blast)
  have r3: "CHR '':'' \<in> set ?r" "?r \<noteq> []" by (simp_all add: endpoint_def)
  have q1: "strip ?q = ?q" by (rule strip_no_space) (rule quad_no_space)
  have q2: "strip_chars ''[]'' ?q = ?q" using quad_clean(3,4) by (intro strip_brackets) metis
  have q3: "?q \<noteq> []" by (simp add: quad_def)
  have "st = [] \<Longrightarrow> upper st \<noteq> ''ESTABLISHED''" by (simp add: upper_def)
  then show ?thesis
    using r1 r2 r3 q1 q2 q3 before_last_endpoint is_private_ip_quad [OF assms]
    by (cases "st = []")
      (simp_all add: outbound_remote_def conn_of_def dict_get_or_def py_or_def Let_def)
qed

text \<open>A list of IPv4 connections, each with its state.\<close>

type_synonym v4conn = "nat \<times> nat \<times> nat \<times> nat \<times> nat \<times> string"

fun v4_dict :: "v4conn \<Rightarrow> pydict" where
  "v4_dict (a, b, c, d, p, st) = conn_of (endpoint a b c d p) st"

fun v4_public :: "v4conn \<Rightarrow> bool" where
  "v4_public (a, b, c, d, p, st) \<longleftrightarrow> upper st = ''ESTABLISHED'' \<and> \<not> private_blocks a b"

fun v4_ok :: "v4conn \<Rightarrow> bool" where
  "v4_ok (a, b, c, d, p, st) \<longleftrightarrow> b < 256"

fun v4_remote :: "v4conn \<Rightarrow> string" where
  "v4_remote (a, b, c, d, p, st) = endpoint a b c d p"

lemma outbound_list_v4:
  "\<forall>x \<in> set cs. v4_ok x \<Longrightarrow>
     outbound_list (map v4_dict cs) = Inr (map v4_remote (filter v4_public cs))"
  by (induction cs) (auto simp: outbound_conn)

lemma beacon_runs:
  assumes "high_risk_process (base (text_of (ev_process_name e))) \<or>
      (\<exists>p. ev_process_path e = Some p \<and> p \<noteq> [] \<and> any_in SUSPICIOUS_PATHS (norm_path (Some p)))"
    and "ev_network_connections e = Some (x # xs)"
    and "outbound_list (x # xs) = Inr os"
  shows "\<exists>r. rule_network_beacon e = Inr r \<and> (rr_triggered r \<longleftrightarrow> os \<noteq> [])"
  using assms(1)
  by (auto simp: rule_network_beacon_def assms(2,3) truthy_iff simp del: outbound_list.simps)

text \<open>
  For a process with a high-risk name, or one running from a suspicious path, that reports
  IPv4 connections, \<open>rule_network_beacon\<close> returns without raising and triggers exactly when some
  connection is established (in any letter case) and its address is outside the private blocks.
\<close>

theorem beacon_rule_iff:
  assumes "high_risk_process (base (text_of (ev_process_name e))) \<or>
      (\<exists>p. ev_process_path e = Some p \<and> p \<noteq> [] \<and> any_in SUSPICIOUS_PATHS (norm_path (Some p)))"
    and "ev_network_connections e = Some (map v4_dict cs)"
    and "\<forall>x \<in> set cs. v4_ok x"
  shows "\<exists>r. rule_network_beacon e = Inr r \<and> (rr_triggered r \<longleftrightarrow> (\<exists>x. x \<in> set cs \<and> v4_public x))"
proof (cases cs)
  case Nil
  with assms(2) show ?thesis by (simp add: rule_network_beacon_def)
next
  case (Cons x xs)
  have out: "outbound_list (v4_dict x # map v4_dict xs) = Inr (map v4_remote (filter v4_public cs))"
    using outbound_list_v4 [OF assms(3)] Cons by simp
  have nets: "ev_network_connections e = Some (v4_dict x # map v4_dict xs)"
    using assms(2) Cons by simp
  obtain r where r: "rule_network_beacon e = Inr r"
    "rr_triggered r \<longleftrightarrow> map v4_remote (filter v4_public cs) \<noteq> []"
    using beacon_runs [OF assms(1) nets out] by blast
  have "map v4_remote (filter v4_public cs) \<noteq> [] \<longleftrightarrow> (\<exists>x. x \<in> set cs \<and> v4_public x)"
    unfolding map_is_Nil_conv filter_empty_conv by blast
  with r show ?thesis by blast
qed

theorem beacon_rule_iff_witness:
  "\<exists>r. rule_network_beacon (blank_event\<lparr>ev_process_name := Some ''x.exe'',
       ev_process_path := Some ''/tmp/x.exe'',
       ev_network_connections := Some (map v4_dict [(8, 8, 8, 8, 443, ''ESTABLISHED'')])\<rparr>) = Inr r \<and>
     rr_triggered r"
proof -
  let ?e = "blank_event\<lparr>ev_process_name := Some ''x.exe'', ev_process_path := Some ''/tmp/x.exe'',
       ev_network_connections := Some (map v4_dict [(8, 8, 8, 8, 443, ''ESTABLISHED'')])\<rparr>"
  have p: "any_in SUSPICIOUS_PATHS (norm_path (Some ''/tmp/x.exe''))" by code_simp
  have v: "v4_public (8, 8, 8, 8, 443, ''ESTABLISHED'')" by code_simp
  have "\<exists>r. rule_network_beacon ?e = Inr r \<and>
      (rr_triggered r \<longleftrightarrow> (\<exists>x. x \<in> set [(8, 8, 8, 8, 443, ''ESTABLISHED'')] \<and> v4_public x))"
    by (rule beacon_rule_iff) (use p in auto)
  with v show ?thesis by simp
qed

subsection \<open>Spacing and letter case\<close>

lemma words_dropWhile: "words (dropWhile is_space s) = words s"
  by (simp add: words.simps [of s] words.simps [of "dropWhile is_space s"] dropWhile_idem)

lemma words_Cons_space: "is_space a \<Longrightarrow> words (a # v) = words v"
  using words_dropWhile [of "a # v"] words_dropWhile [of v] by simp

lemma words_append_space: "is_space a \<Longrightarrow> words (u @ a # v) = words u @ words v"
proof (induction u rule: words.induct)
  case (1 u)
  show ?case
  proof (cases "dropWhile is_space u")
    case Nil
    then have "\<forall>x \<in> set u. is_space x" by (simp add: dropWhile_eq_Nil_conv)
    then have "dropWhile is_space (u @ a # v) = dropWhile is_space v"
      using 1(2) by (simp add: dropWhile_append2)
    moreover have "words u = []" unfolding words.simps [of u] Nil by simp
    ultimately show ?thesis by (metis words_dropWhile append_Nil)
  next
    case (Cons c t)
    have nc: "\<not> is_space c" by (metis Cons hd_dropWhile list.sel(1) list.simps(3))
    obtain x where x: "x \<in> set u" "\<not> is_space x"
      using Cons by (metis dropWhile_eq_Nil_conv list.simps(3))
    have d: "dropWhile is_space (u @ a # v) = c # (t @ a # v)"
      using Cons dropWhile_append1 [of x u is_space] x by simp
    let ?n = "\<lambda>x. \<not> is_space x"
    have tk: "takeWhile ?n (c # t @ a # v) = takeWhile ?n (c # t)"
      and dr: "dropWhile ?n (c # t @ a # v) = dropWhile ?n (c # t) @ a # v"
      using 1(2) by (simp_all add: nc takeWhile_tail)
        (metis dropWhile_append dropWhile.simps(2) dropWhile_eq_Nil_conv append_Nil)
    have "words (u @ a # v) = takeWhile ?n (c # t) # words (dropWhile ?n (c # t) @ a # v)"
      unfolding words.simps [of "u @ a # v"] d by (simp only: list.case tk dr)
    also have "words (dropWhile ?n (c # t) @ a # v) = words (dropWhile ?n (c # t)) @ words v"
      using 1(1) [OF Cons 1(2)] .
    finally show ?thesis unfolding words.simps [of u] Cons by simp
  qed
qed

lemma words_spaces: "all_space ws \<Longrightarrow> words (ws @ v) = words v"
  by (induction ws) (auto simp: all_space_def words_Cons_space)

lemma words_respace:
  assumes "is_space a" "ws \<noteq> []" "all_space ws"
  shows "words (u @ ws @ v) = words (u @ a # v)"
proof -
  obtain b bs where ws: "ws = b # bs" using assms(2) by (cases ws) auto
  with assms(3) have "is_space b" "all_space bs" by (auto simp: all_space_def)
  then show ?thesis using assms(1) ws
    by (simp add: words_append_space words_spaces)
qed

definition command_rules :: "(event \<Rightarrow> rule_result) list" where
  "command_rules = [rule_security_control_tampering, rule_event_log_clearing,
     rule_recovery_destruction, rule_discovery_commands]"

lemma norm_command_words:
  "words (lower c) = words (lower c') \<Longrightarrow> norm_command (Some c) = norm_command (Some c')"
  by (simp add: norm_command_def collapse_def text_of_def or_str_empty)

text \<open>
  C37: The tampering, log-clearing, recovery-destruction and discovery rules cannot be evaded by
  spacing or letter case: widening any gap between two words of the command line to any
  non-empty run of whitespace, and changing the case of any letters, changes neither the verdict
  nor the severity.
\<close>

theorem respacing_and_case_keep_verdict:
  assumes "rule \<in> set command_rules"
    and "ws \<noteq> []" "all_space ws"
    and "lower c = lower (u @ ws @ v)"
    and "lower c' = lower (u @ '' '' @ v)"
  shows "rr_triggered (rule (e\<lparr>ev_command_line := Some c\<rparr>)) = rr_triggered (rule (e\<lparr>ev_command_line := Some c'\<rparr>)) \<and>
    rr_severity (rule (e\<lparr>ev_command_line := Some c\<rparr>)) = rr_severity (rule (e\<lparr>ev_command_line := Some c'\<rparr>))"
proof -
  have sp: "is_space CHR '' ''" "lower '' '' = '' ''" by code_simp+
  have "all_space (lower ws)" "lower ws \<noteq> []" using assms(2,3) by (auto simp: all_space_def lower_def list_all_iff)
  then have "words (lower u @ lower ws @ lower v) = words (lower u @ CHR '' '' # lower v)"
    using sp(1) by (intro words_respace)
  then have n: "norm_command (Some c) = norm_command (Some c')"
  proof (intro norm_command_words)
    have "lower c' = lower u @ CHR '' '' # lower v"
      using assms(5) sp(2) by (metis append_Cons append_Nil lower_append)
    then show "words (lower c) = words (lower c')"
      using assms(4) \<open>words (lower u @ lower ws @ lower v) = words (lower u @ CHR '' '' # lower v)\<close>
      by simp
  qed
  have sel: "ev_command_line (e\<lparr>ev_command_line := Some x\<rparr>) = Some x"
    "ev_process_name (e\<lparr>ev_command_line := Some x\<rparr>) = ev_process_name e" for x by simp_all
  note push = Let_def tampering_hit_def sel n hit_sel simp_thms if_distrib [of rr_triggered]
    if_distrib [of rr_severity] option.case_distrib [of rr_triggered] option.case_distrib [of rr_severity]
    prod.case_distrib [of rr_triggered] prod.case_distrib [of rr_severity]
  consider "rule = rule_security_control_tampering" | "rule = rule_event_log_clearing"
    | "rule = rule_recovery_destruction" | "rule = rule_discovery_commands"
    using assms(1) by (auto simp: command_rules_def)
  then show ?thesis
  proof cases
    case 1 then show ?thesis by (simp only: rule_security_control_tampering_def push)
  next
    case 2 then show ?thesis by (simp only: rule_event_log_clearing_def push)
  next
    case 3 then show ?thesis by (simp only: rule_recovery_destruction_def push)
  next
    case 4 then show ?thesis by (simp only: rule_discovery_commands_def push)
  qed
qed

theorem respacing_and_case_keep_verdict_witness:
  "rr_triggered (rule_event_log_clearing (blank_event
     \<lparr>ev_command_line := Some ''WevtUtil    cl System''\<rparr>))"
proof -
  have "rr_triggered (rule_event_log_clearing (blank_event\<lparr>ev_command_line := Some ''WevtUtil    cl System''\<rparr>)) =
    rr_triggered (rule_event_log_clearing (blank_event\<lparr>ev_command_line := Some ''wevtutil cl system''\<rparr>))"
    by (rule respacing_and_case_keep_verdict [of rule_event_log_clearing "''    ''" _ "''wevtutil''"
        "''cl system''", THEN conjunct1]) (simp add: command_rules_def, simp, code_simp+)
  moreover have "rr_triggered (rule_event_log_clearing
      (blank_event\<lparr>ev_command_line := Some ''wevtutil cl system''\<rparr>))"
    by code_simp
  ultimately show ?thesis by simp
qed

subsection \<open>The documentation tables\<close>

definition split_into_chars :: "string list \<Rightarrow> bool" where
  "split_into_chars xs \<longleftrightarrow> xs \<noteq> [] \<and> list_all (\<lambda>x. length x = 1) xs"

text \<open>
  The rows of \<open>RULE_NOTES\<close> written with parentheses but no comma are strings, not tuples, so
  \<open>rule_exceptions\<close> and \<open>rule_allowlist\<close> return the single characters of the sentence for exactly
  the listed identifiers (and for every unknown identifier), and the sentence itself is the
  concatenation of what they return.
\<close>

lemma notes_split_into_characters:
  "filter (\<lambda>i. split_into_chars (rule_exceptions i)) (map fst RULE_NOTES) =
     [''AEGIS-S006'', ''AEGIS-S009'', ''AEGIS-S010'', ''AEGIS-S012'', ''AEGIS-S013'', ''AEGIS-S015'', ''custom''] \<and>
   filter (\<lambda>i. split_into_chars (rule_allowlist i)) (map fst RULE_NOTES) =
     [''AEGIS-S006'', ''AEGIS-S007'', ''AEGIS-S008'', ''AEGIS-S009'', ''AEGIS-S010'', ''AEGIS-S011'', ''AEGIS-S013'', ''AEGIS-S014'', ''AEGIS-S015'', ''custom''] \<and>
   concat (rule_exceptions ''no such rule'') = ''No standard exceptions for custom rules''"
  by code_simp

end
