(* ===== verification/Heuristic_Properties.thy ===== *)
theory Heuristic_Properties
  imports Heuristic_Engine Rule_Behaviour
begin

section \<open>Properties of the heuristic engine\<close>

text \<open>
  The engine relies on a set of rules through the interface \<open>rule_set\<close>: running a rule yields a
  well-formed result, and stamping keeps verdict and severity.  What the engine's loop
  collects is proved once from that interface, which the registry interprets.  The properties
  are about \<open>analyze\<close>: what a triggered rule guarantees about the verdict, whatever the other
  rules, the custom rules and the database do; and about the guard on custom patterns.
\<close>

subsection \<open>The interface to the rules\<close>

locale rule_set =
  fixes run :: "'f \<Rightarrow> event \<Rightarrow> rule_result result"
    and stamp :: "'f \<Rightarrow> rule_result \<Rightarrow> rule_result"
    and fns :: "'f list"
  assumes run_wf: "run fn e = Inr r \<Longrightarrow> wf_result r"
    and stamp_verdict: "rr_triggered (stamp fn r) = rr_triggered r"
    and stamp_severity: "rr_severity (stamp fn r) = rr_severity r"
    and stamp_wf: "wf_result r \<Longrightarrow> wf_result (stamp fn r)"
begin

lemma in_static_hits:
  "r' \<in> set (static_hits run stamp fns e) \<longleftrightarrow>
     (\<exists>fn \<in> set fns. \<exists>r. run fn e = Inr r \<and> rr_triggered r \<and> r' = stamp fn r)"
  by (auto simp: static_hits_def split: sum.splits if_splits) force+

lemma static_hits_wf: "r \<in> set (static_hits run stamp fns e) \<Longrightarrow> wf_result r \<and> rr_triggered r"
  using run_wf stamp_wf stamp_verdict by (auto simp: in_static_hits)

lemma static_hits_ignore_raising:
  "static_hits run stamp fns e = static_hits run stamp (filter (\<lambda>fn. is_ok (run fn e)) fns) e"
  by (induction fns) (auto simp: static_hits_def split: sum.splits)

end

interpretation registry: rule_set run_rule stamp_result ALL_RULES
  by unfold_locales (auto simp: wf_run_rule wf_stamp)

subsection \<open>The verdict\<close>

lemma max_by_mem: "max_by f x ys \<in> set (x # ys)"
  by (induction f x ys rule: max_by.induct) auto

lemma max_by_ge: "y \<in> set (x # ys) \<Longrightarrow> f y \<le> f (max_by f x ys)"
proof (induction f x ys arbitrary: y rule: max_by.induct)
  case (2 f x z zs)
  have "f (if f x < f z then z else x) \<le> f (max_by f (if f x < f z then z else x) zs)"
    by (rule "2.IH") simp
  moreover have "f x \<le> f (if f x < f z then z else x)" "f z \<le> f (if f x < f z then z else x)"
    by auto
  ultimately have "f x \<le> f (max_by f x (z # zs))" "f z \<le> f (max_by f x (z # zs))" by auto
  moreover have "y \<in> set zs \<Longrightarrow> f y \<le> f (max_by f x (z # zs))" using "2.IH" [of y] by simp
  ultimately show ?case using 2(2) by auto
qed simp

lemma summarise_threat [simp]: "an_is_threat (summarise rs rem) \<longleftrightarrow> rs \<noteq> []"
  by (auto simp: summarise_def AnalysisResult_def Let_def split: list.splits)

lemma summarise_rules [simp]:
  "an_triggered_rules (summarise rs rem) = rs" "an_rule_count (summarise rs rem) = length rs"
  by (auto simp: summarise_def AnalysisResult_def Let_def split: list.splits)

lemma summarise_worst:
  "r \<in> set rs \<Longrightarrow> weight (rr_severity r) \<le> weight (an_severity (summarise rs rem))"
  using max_by_ge [of r "hd rs" "tl rs" "\<lambda>r. weight (rr_severity r)"]
  by (cases rs) (auto simp: summarise_def Let_def)

lemma summarise_member:
  "rs \<noteq> [] \<Longrightarrow> \<exists>r \<in> set rs. an_severity (summarise rs rem) = rr_severity r \<and>
     an_description (summarise rs rem) = rr_description r \<and>
     an_mitre_technique_id (summarise rs rem) = rr_mitre_technique_id r"
  using max_by_mem [of "\<lambda>r. weight (rr_severity r)" "hd rs" "tl rs"]
  by (cases rs) (auto simp: summarise_def Let_def)

subsection \<open>Custom rules only add\<close>

lemma custom_step_extends: "\<exists>new. cs_triggered (custom_step re ok e rule s) = cs_triggered s @ new"
  by (auto simp: custom_step_def Let_def split: sum.splits bool.splits)

lemma custom_fold_extends: "\<exists>new. cs_triggered (fold (custom_step re ok e) rules s) = cs_triggered s @ new"
proof (induction rules arbitrary: s)
  case (Cons rule rules)
  from custom_step_extends [of re ok e rule s] Cons [of "custom_step re ok e rule s"]
  show ?case by (metis append.assoc fold_simps(2))
qed simp

lemma analyze_triggered:
  assumes "\<not> allowlisted_and_safe e"
  shows "\<exists>new. an_triggered_rules (fst (analyze re ok e db)) =
    static_hits run_rule stamp_result ALL_RULES e @ new"
  using assms custom_fold_extends
  by (auto simp: analyze_def Let_def split: option.split sum.split)
    (metis custom_state.select_convs(1))

lemma analyze_shape:
  "\<exists>rs rem. fst (analyze re ok e db) = summarise rs rem"
  by (auto simp: analyze_def Let_def summarise_def [of "[]"] intro: exI [of _ "[]"])

lemma static_hit_reported:
  assumes "\<not> allowlisted_and_safe e"
    and "run_rule fn e = Inr r" "rr_triggered r"
  shows "an_is_threat (fst (analyze re_search count_ok e db)) \<and>
    stamp_result fn r \<in> set (an_triggered_rules (fst (analyze re_search count_ok e db))) \<and>
    weight (rr_severity r) \<le> weight (an_severity (fst (analyze re_search count_ok e db)))"
proof -
  obtain rs rem where a: "fst (analyze re_search count_ok e db) = summarise rs rem"
    using analyze_shape by blast
  obtain new where "rs = static_hits run_rule stamp_result ALL_RULES e @ new"
    using analyze_triggered [OF assms(1), of re_search count_ok db] a by auto
  moreover have "stamp_result fn r \<in> set (static_hits run_rule stamp_result ALL_RULES e)"
    using assms(2,3) registry_total [of fn] by (auto simp: registry.in_static_hits)
  ultimately have m: "stamp_result fn r \<in> set rs" by simp
  then have "rs \<noteq> []" by auto
  then show ?thesis using summarise_worst [OF m, of rem] m unfolding a by simp
qed

text \<open>
  If some static rule triggers on an event that is not skipped by the allowlist, the analysis
  reports a threat, its list of triggered rules contains that rule's stamped result, and its
  severity weighs at least as much as the rule's: no other rule that raises, no custom rule, no
  pattern that does not compile and no database failure can hide or downgrade a static hit.
\<close>

theorem static_hit_is_reported:
  assumes "\<not> allowlisted_and_safe e"
    and "run_rule fn e = Inr r" "rr_triggered r"
  shows "an_is_threat (fst (analyze re_search count_ok e db)) \<and>
    stamp_result fn r \<in> set (an_triggered_rules (fst (analyze re_search count_ok e db))) \<and>
    weight (rr_severity r) \<le> weight (an_severity (fst (analyze re_search count_ok e db)))"
  by (rule static_hit_reported [OF assms])

theorem static_hit_is_reported_witness:
  "an_is_threat (fst (analyze (\<lambda>_ _. Inl TypeError) (\<lambda>_. False)
     (blank_event\<lparr>ev_thread_count := Some 999\<rparr>) (Some (Inl TypeError))))"
  by (rule static_hit_is_reported [of _ Rule_high_thread_count
        "rule_high_thread_count (blank_event\<lparr>ev_thread_count := Some 999\<rparr>)", THEN conjunct1])
    (code_simp | simp add: run_rule_def)+

lemma weight_4: "weight s \<ge> 4 \<Longrightarrow> s = ''CRITICAL''"
  by (auto simp: weight_def SEVERITY_WEIGHT_def assoc_default_def split: if_splits)

text \<open>
  A known attack tool that runs from a directory outside the allowlisted ones is analysed as
  CRITICAL even when its process is named like an allowlisted updater, for every set of custom
  rules and every database outcome.
\<close>

lemma renamed_tool_is_critical:
  assumes "tool \<in> set combined_tools"
    and "lower file = lower tool"
    and "sep = CHR ''/'' \<or> sep = CHR 0x5C"
    and "ev_process_path e = Some (dir @ sep # file)"
    and "ev_process_name e = Some name" "name \<noteq> []"
    and "\<not> any_startswith ALLOW_SAFE_PATH_PREFIXES (lower (back_to_slash (dir @ sep # file)))"
  shows "an_severity (fst (analyze re_search count_ok e db)) = ''CRITICAL''"
proof -
  have hit: "rr_triggered (rule_known_attack_tool e) \<and> rr_severity (rule_known_attack_tool e) = ''CRITICAL''"
    using tool_by_path [OF assms(1-6)] .
  have "\<not> allowlisted_and_safe e"
    using assms(4,7) by (simp add: allowlisted_and_safe_def text_of_def)
  then have "weight ''CRITICAL'' \<le> weight (an_severity (fst (analyze re_search count_ok e db)))"
    using hit static_hit_reported [of e Rule_known_attack_tool "rule_known_attack_tool e"]
    by (simp add: run_rule_def)
  moreover have "weight ''CRITICAL'' = 4" by (simp add: weight_def SEVERITY_WEIGHT_def assoc_default_def)
  ultimately show ?thesis using weight_4 by simp
qed

theorem renamed_tool_is_critical_witness:
  "an_severity (fst (analyze (\<lambda>_ _. Inr False) (\<lambda>_. True)
     (blank_event\<lparr>ev_process_name := Some ''update.exe'', ev_process_path := Some (''c:/users/x/downloads'' @ CHR ''/'' # ''mimikatz.exe'')\<rparr>)
     None)) = ''CRITICAL''"
proof (rule renamed_tool_is_critical)
  show "''mimikatz.exe'' \<in> set combined_tools" by (simp add: List.member_iff [symmetric] del: List.member_iff) code_simp
  show "\<not> any_startswith ALLOW_SAFE_PATH_PREFIXES (lower (back_to_slash (''c:/users/x/downloads'' @ CHR ''/'' # ''mimikatz.exe'')))"
    by code_simp
  show "''update.exe'' \<noteq> []" by (rule list.discI) (rule refl)
qed simp_all

subsection \<open>The guard on custom patterns\<close>

text \<open>The reference: parentheses outside escapes are balanced, \<open>d\<close> groups being open.\<close>

fun balanced :: "string \<Rightarrow> nat \<Rightarrow> bool" where
  "balanced [] d = (d = 0)"
| "balanced (c # cs) d =
     (if c = backslash then (case cs of [] \<Rightarrow> balanced [] d | x # ds \<Rightarrow> balanced ds d)
      else if c = CHR ''('' then balanced cs (d + 1)
      else if c = CHR '')'' then d > 0 \<and> balanced cs (d - 1)
      else balanced cs d)"

lemma length_set_top [simp]: "length (set_top fl) = length fl"
  by (cases fl) auto

lemma regex_scan_balanced: "regex_scan p fl = None \<Longrightarrow> fl \<noteq> [] \<Longrightarrow> balanced p (length fl - 1)"
proof (induction p fl rule: regex_scan.induct)
  case (1 fl)
  then show ?case by (auto split: if_splits)
next
  case (2 c cs fl)
  consider "c = backslash" | "c = CHR ''(''" | "c = CHR '')''"
    | "c \<noteq> backslash" "c \<noteq> CHR ''(''" "c \<noteq> CHR '')''" by blast
  then show ?case
  proof cases
    case 1
    then show ?thesis using 2 by (cases cs) auto
  next
    case c2: 2
    then show ?thesis using 2 by simp
  next
    case 3
    then have fl: "length fl > 1" and sc: "regex_scan cs (tl fl) = None"
      using "2.prems" by (auto simp: Let_def split: if_splits)
    have "balanced cs (length (tl fl) - 1)"
    proof (rule "2.IH"(4) [OF _ _ 3 _ refl refl])
      show "c \<noteq> backslash" "c \<noteq> CHR ''(''" using 3 by simp_all
      show "\<not> length fl \<le> 1" "tl fl \<noteq> []" using fl by (cases fl; simp)+
      show "regex_scan cs (tl fl) = None" by (rule sc)
      show "\<not> (hd fl \<and> (case cs of [] \<Rightarrow> True | d # ds \<Rightarrow> d = CHR ''+'' \<or> d = CHR ''*'' \<or>
          d = CHR ''{'' \<and> \<not> bounded_repeat (d # ds)))"
      proof
        assume "hd fl \<and> (case cs of [] \<Rightarrow> True | d # ds \<Rightarrow> d = CHR ''+'' \<or> d = CHR ''*'' \<or>
          d = CHR ''{'' \<and> \<not> bounded_repeat (d # ds))"
        then show False using "2.prems"(1) 3 fl by (simp add: Let_def)
      qed
    qed
    then show ?thesis using 3 fl by simp
  next
    case 4
    then show ?thesis
    proof (cases "c \<in> set ''+*{|'' \<and> length fl > 1")
      case True
      with 4 have "regex_scan cs (set_top fl) = None" using "2.prems" by (simp split: if_splits)
      moreover have "set_top fl \<noteq> []" using True by (cases fl) auto
      ultimately have "balanced cs (length fl - 1)" using "2.IH"(5) [OF 4 True] by simp
      then show ?thesis using 4 by simp
    next
      case False
      with 4 have "regex_scan cs fl = None" using "2.prems"(1) by (simp split: if_splits)
      with "2.IH"(6) [OF 4 False] have "balanced cs (length fl - 1)" using "2.prems"(2) by blast
      then show ?thesis using 4 by simp
    qed
  qed
qed

text \<open>Scanning a prefix without escapes either rejects or reaches the rest with some group open.\<close>

lemma regex_scan_reaches:
  "backslash \<notin> set u \<Longrightarrow> fl \<noteq> [] \<Longrightarrow>
     regex_scan (u @ w) fl \<noteq> None \<or> (\<exists>fl'. fl' \<noteq> [] \<and> regex_scan (u @ w) fl = regex_scan w fl')"
proof (induction u arbitrary: fl)
  case Nil
  then show ?case by auto
next
  case (Cons c u)
  have "\<exists>fl'. fl' \<noteq> [] \<and> regex_scan ((c # u) @ w) fl = regex_scan (u @ w) fl'"
    if ok: "regex_scan ((c # u) @ w) fl = None"
  proof -
    consider "c = CHR ''(''" | "c = CHR '')''"
      | "c \<noteq> CHR ''(''" "c \<noteq> CHR '')''" by blast
    then show ?thesis
    proof cases
      case 1
      then show ?thesis by auto
    next
      case 2
      then have "length fl > 1" "regex_scan ((c # u) @ w) fl = regex_scan (u @ w) (tl fl)"
        using ok by (auto simp: Let_def split: if_splits)
      moreover then have "tl fl \<noteq> []" by (cases fl) auto
      ultimately show ?thesis by blast
    next
      case 3
      have "set_top fl \<noteq> []" using Cons.prems(2) by (cases fl) auto
      then show ?thesis using 3 Cons.prems by auto
    qed
  qed
  then show ?case using Cons.IH Cons.prems(1) by (metis list.set_intros(2))
qed

definition complex_char :: "char \<Rightarrow> bool" where
  "complex_char c \<longleftrightarrow> c \<in> set ''+*{|''"

definition flat_body :: "string \<Rightarrow> bool" where
  "flat_body b \<longleftrightarrow> list_all (\<lambda>c. c \<noteq> backslash \<and> c \<noteq> CHR ''('' \<and> c \<noteq> CHR '')'') b"

lemma regex_scan_body:
  "flat_body b \<Longrightarrow> fs \<noteq> [] \<Longrightarrow>
     regex_scan (b @ w) (f # fs) = regex_scan w ((f \<or> list_ex complex_char b) # fs)"
proof (induction b arbitrary: f)
  case (Cons c b)
  then have c: "c \<noteq> backslash" "c \<noteq> CHR ''(''" "c \<noteq> CHR '')''" "flat_body b"
    by (auto simp: flat_body_def)
  have "regex_scan ((c # b) @ w) (f # fs) = regex_scan (b @ w) ((f \<or> complex_char c) # fs)"
    using c Cons.prems(2) by (auto simp: complex_char_def)
  then show ?case using Cons.IH [OF c(4) Cons.prems(2)] by simp
qed simp

text \<open>
  The guard on custom patterns is sound for the classic shapes: it never accepts a pattern
  whose parentheses (outside escapes) are not balanced, and never accepts one with a group whose
  body has no inner group or escape, contains a quantifier or an alternation, and is itself
  followed by \<open>+\<close> or \<open>*\<close>, wherever the group stands after an escape-free prefix.
\<close>

theorem regex_guard_rejects:
  assumes "is_regex_safe re_compile p = None"
  shows "p \<noteq> [] \<and> length p \<le> 200 \<and> re_compile p = None \<and> balanced p 0 \<and>
    \<not> (\<exists>u b q v. p = u @ ''('' @ b @ '')'' @ q # v \<and> backslash \<notin> set u \<and> flat_body b \<and>
        list_ex complex_char b \<and> (q = CHR ''+'' \<or> q = CHR ''*''))"
proof -
  have ok: "p \<noteq> []" "length p \<le> 200" "re_compile p = None" "regex_scan p [False] = None"
    using assms by (auto simp: is_regex_safe_def split: if_splits option.splits)
  have "balanced p 0" using regex_scan_balanced [OF ok(4)] by simp
  moreover have "regex_scan (u @ ''('' @ b @ '')'' @ q # v) [False] \<noteq> None"
    if u: "backslash \<notin> set u" and b: "flat_body b" "list_ex complex_char b"
      and q: "q = CHR ''+'' \<or> q = CHR ''*''" for u b q v
  proof -
    have "regex_scan (''('' @ b @ '')'' @ q # v) fl \<noteq> None" if "fl \<noteq> []" for fl
      using regex_scan_body [OF b(1) that, of "'')'' @ q # v" False] b(2) q that
      by (cases fl) auto
    then show ?thesis using regex_scan_reaches [OF u, of "[False]"] by (metis list.simps(3))
  qed
  ultimately show ?thesis using ok by blast
qed

theorem regex_guard_rejects_witness: "balanced ''a(b|c)d'' 0"
proof -
  have "is_regex_safe (\<lambda>_. None) ''a(b|c)d'' = None" by code_simp
  from regex_guard_rejects [OF this] show ?thesis by blast
qed

text \<open>
  The guard is not a complete ReDoS check, and it refuses harmless patterns: a doubly nested
  quantifier is accepted because a flag set in an inner group is dropped when that group closes,
  while a plain alternation is refused when its group ends the pattern (the next character is the
  empty string, and \<open>"" in "+*"\<close> holds).
\<close>

lemma regex_guard_gaps:
  "is_regex_safe (\<lambda>_. None) ''((a+))+$'' = None \<and>
   is_regex_safe (\<lambda>_. None) ''((a|a))*b'' = None \<and>
   is_regex_safe (\<lambda>_. None) ''(cmd|powershell)'' = Some ''nested quantifier (ReDoS risk)'' \<and>
   is_regex_safe (\<lambda>_. None) ''(cmd|powershell)x'' = None"
  by code_simp

end
