(* ===== verification/Redis_Interface.thy ===== *)
theory Redis_Interface
  imports Pyval
begin

section \<open>The Redis client\<close>

text \<open>
  Redis is not part of the repository: its client is a parameter of every definition that uses
  it, the record \<open>redis\<close> of the commands the program sends over a state type \<open>'s\<close>.  A command
  that raises yields \<open>Inl\<close>; the state after it is part of its result.

  \<open>redis_laws R view\<close> is what the commands are documented to do to a reachable server, as
  seen through \<open>view\<close> (the value under a key, expired keys absent); \<open>redis_down R\<close> says that every
  command raises.  The passing of time is a change of state between two commands that can only
  make keys disappear (\<open>ages view s s'\<close>).  \<open>map_redis\<close> is a concrete client that satisfies the
  laws, \<open>dead_redis\<close> one that is down.
\<close>

datatype rval =
    RStr string
  | RNum int
  | RLst "string list"

record 's redis =
  rd_get :: "'s \<Rightarrow> string \<Rightarrow> string option result \<times> 's"
  rd_exists :: "'s \<Rightarrow> string \<Rightarrow> bool result \<times> 's"
  rd_setex :: "'s \<Rightarrow> string \<Rightarrow> int \<Rightarrow> string \<Rightarrow> unit result \<times> 's"
  rd_set_nx :: "'s \<Rightarrow> string \<Rightarrow> string \<Rightarrow> int \<Rightarrow> bool result \<times> 's"
  rd_incr :: "'s \<Rightarrow> string \<Rightarrow> int result \<times> 's"
  rd_expire :: "'s \<Rightarrow> string \<Rightarrow> int \<Rightarrow> unit result \<times> 's"
  rd_delete :: "'s \<Rightarrow> string \<Rightarrow> unit result \<times> 's"
  rd_rpush :: "'s \<Rightarrow> string \<Rightarrow> string \<Rightarrow> unit result \<times> 's"
  rd_ltrim :: "'s \<Rightarrow> string \<Rightarrow> int \<Rightarrow> int \<Rightarrow> unit result \<times> 's"

type_synonym 's view = "'s \<Rightarrow> string \<Rightarrow> rval option"

fun str_of :: "rval option \<Rightarrow> string option" where
  "str_of (Some (RStr v)) = Some v"
| "str_of (Some (RNum i)) = Some (show_int i)"
| "str_of _ = None"

fun num_of :: "rval option \<Rightarrow> int" where
  "num_of (Some (RNum i)) = i"
| "num_of _ = 0"

fun lst_of :: "rval option \<Rightarrow> string list" where
  "lst_of (Some (RLst xs)) = xs"
| "lst_of _ = []"

definition counter_key :: "rval option \<Rightarrow> bool" where
  "counter_key v \<longleftrightarrow> v = None \<or> (\<exists>i. v = Some (RNum i))"

definition list_key :: "rval option \<Rightarrow> bool" where
  "list_key v \<longleftrightarrow> v = None \<or> (\<exists>xs. v = Some (RLst xs))"

text \<open>\<open>LTRIM key start stop\<close> for \<open>0 \<le> start\<close>, as a Python-independent slice of the list.\<close>

definition slice :: "int \<Rightarrow> int \<Rightarrow> 'a list \<Rightarrow> 'a list" where
  "slice i j xs = drop (nat i) (take (nat (j + 1)) xs)"

definition redis_laws :: "'s redis \<Rightarrow> 's view \<Rightarrow> bool" where
  "redis_laws R view \<longleftrightarrow>
     (\<forall>s k. \<exists>s'. rd_get R s k = (Inr (str_of (view s k)), s') \<and> view s' = view s) \<and>
     (\<forall>s k. \<exists>s'. rd_exists R s k = (Inr (view s k \<noteq> None), s') \<and> view s' = view s) \<and>
     (\<forall>s k t v. \<exists>s'. rd_setex R s k t v = (Inr (), s') \<and> view s' = (view s)(k \<mapsto> RStr v)) \<and>
     (\<forall>s k v t. \<exists>s'. rd_set_nx R s k v t = (Inr (view s k = None), s') \<and>
        view s' = (if view s k = None then (view s)(k \<mapsto> RStr v) else view s)) \<and>
     (\<forall>s k. counter_key (view s k) \<longrightarrow>
        (\<exists>s'. rd_incr R s k = (Inr (num_of (view s k) + 1), s') \<and>
          view s' = (view s)(k \<mapsto> RNum (num_of (view s k) + 1)))) \<and>
     (\<forall>s k t. \<exists>s'. rd_expire R s k t = (Inr (), s') \<and> view s' = view s) \<and>
     (\<forall>s k. \<exists>s'. rd_delete R s k = (Inr (), s') \<and> view s' = (view s)(k := None)) \<and>
     (\<forall>s k v. list_key (view s k) \<longrightarrow>
        (\<exists>s'. rd_rpush R s k v = (Inr (), s') \<and> view s' = (view s)(k \<mapsto> RLst (lst_of (view s k) @ [v])))) \<and>
     (\<forall>s k i j. list_key (view s k) \<and> view s k \<noteq> None \<longrightarrow>
        (\<exists>s'. rd_ltrim R s k i j = (Inr (), s') \<and>
          view s' = (view s)(k := (case slice i j (lst_of (view s k)) of [] \<Rightarrow> None | x # xs \<Rightarrow> Some (RLst (x # xs))))))"

definition redis_down :: "'s redis \<Rightarrow> bool" where
  "redis_down R \<longleftrightarrow>
     (\<forall>s k. rd_get R s k = (Inl RedisError, s)) \<and> (\<forall>s k. rd_exists R s k = (Inl RedisError, s)) \<and>
     (\<forall>s k t v. rd_setex R s k t v = (Inl RedisError, s)) \<and>
     (\<forall>s k v t. rd_set_nx R s k v t = (Inl RedisError, s)) \<and>
     (\<forall>s k. rd_incr R s k = (Inl RedisError, s)) \<and> (\<forall>s k t. rd_expire R s k t = (Inl RedisError, s)) \<and>
     (\<forall>s k. rd_delete R s k = (Inl RedisError, s)) \<and>
     (\<forall>s k v. rd_rpush R s k v = (Inl RedisError, s)) \<and>
     (\<forall>s k i j. rd_ltrim R s k i j = (Inl RedisError, s))"

text \<open>The value of a counter that was incremented \<open>n\<close> times from nothing.\<close>

definition counter_val :: "nat \<Rightarrow> rval option" where
  "counter_val n = (if n = 0 then None else Some (RNum (int n)))"

lemma counter_val_facts [simp]: "counter_key (counter_val n)" "num_of (counter_val n) = int n"
  by (auto simp: counter_val_def counter_key_def)

text \<open>Time passed: a key has the value it had or has expired.\<close>

definition ages :: "'s view \<Rightarrow> 's \<Rightarrow> 's \<Rightarrow> bool" where
  "ages view s s' \<longleftrightarrow> (\<forall>k. view s' k = view s k \<or> view s' k = None)"

subsection \<open>Commands under the laws\<close>

lemma redis_lawsD:
  assumes "redis_laws R view"
  shows "\<exists>s'. rd_get R s k = (Inr (str_of (view s k)), s') \<and> view s' = view s"
    "\<exists>s'. rd_exists R s k = (Inr (view s k \<noteq> None), s') \<and> view s' = view s"
    "\<exists>s'. rd_setex R s k t v = (Inr (), s') \<and> view s' = (view s)(k \<mapsto> RStr v)"
    "\<exists>s'. rd_set_nx R s k v t = (Inr (view s k = None), s') \<and>
        view s' = (if view s k = None then (view s)(k \<mapsto> RStr v) else view s)"
    "\<exists>s'. rd_expire R s k t = (Inr (), s') \<and> view s' = view s"
    "\<exists>s'. rd_delete R s k = (Inr (), s') \<and> view s' = (view s)(k := None)"
  using assms unfolding redis_laws_def by simp_all

lemma redis_incrD:
  assumes "redis_laws R view" "counter_key (view s k)"
  shows "\<exists>s'. rd_incr R s k = (Inr (num_of (view s k) + 1), s') \<and>
          view s' = (view s)(k \<mapsto> RNum (num_of (view s k) + 1))"
  using assms unfolding redis_laws_def by simp

lemma redis_listD:
  assumes "redis_laws R view" "list_key (view s k)"
  shows "\<exists>s'. rd_rpush R s k v = (Inr (), s') \<and> view s' = (view s)(k \<mapsto> RLst (lst_of (view s k) @ [v]))"
    "view s k \<noteq> None \<Longrightarrow> \<exists>s'. rd_ltrim R s k i j = (Inr (), s') \<and>
        view s' = (view s)(k := (case slice i j (lst_of (view s k)) of [] \<Rightarrow> None | x # xs \<Rightarrow> Some (RLst (x # xs))))"
  using assms unfolding redis_laws_def by simp_all

subsection \<open>Concrete clients\<close>

type_synonym rmap = "(string \<times> rval) list"

definition rview :: "rmap view" where
  "rview m k = assoc k m"

fun rdel :: "string \<Rightarrow> rmap \<Rightarrow> rmap" where
  "rdel k [] = []"
| "rdel k ((j, v) # m) = (if j = k then rdel k m else (j, v) # rdel k m)"

definition map_redis :: "rmap redis" where
  "map_redis = \<lparr>
     rd_get = (\<lambda>m k. (Inr (str_of (assoc k m)), m)),
     rd_exists = (\<lambda>m k. (Inr (assoc k m \<noteq> None), m)),
     rd_setex = (\<lambda>m k t v. (Inr (), (k, RStr v) # m)),
     rd_set_nx = (\<lambda>m k v t. (Inr (assoc k m = None),
       if assoc k m = None then (k, RStr v) # m else m)),
     rd_incr = (\<lambda>m k. (Inr (num_of (assoc k m) + 1), (k, RNum (num_of (assoc k m) + 1)) # m)),
     rd_expire = (\<lambda>m k t. (Inr (), m)),
     rd_delete = (\<lambda>m k. (Inr (), rdel k m)),
     rd_rpush = (\<lambda>m k v. (Inr (), (k, RLst (lst_of (assoc k m) @ [v])) # m)),
     rd_ltrim = (\<lambda>m k i j. (Inr (), case slice i j (lst_of (assoc k m)) of
        [] \<Rightarrow> rdel k m | x # xs \<Rightarrow> (k, RLst (x # xs)) # m))\<rparr>"

definition dead_redis :: "rmap redis" where
  "dead_redis = \<lparr>
     rd_get = (\<lambda>m k. (Inl RedisError, m)), rd_exists = (\<lambda>m k. (Inl RedisError, m)),
     rd_setex = (\<lambda>m k t v. (Inl RedisError, m)), rd_set_nx = (\<lambda>m k v t. (Inl RedisError, m)),
     rd_incr = (\<lambda>m k. (Inl RedisError, m)), rd_expire = (\<lambda>m k t. (Inl RedisError, m)),
     rd_delete = (\<lambda>m k. (Inl RedisError, m)), rd_rpush = (\<lambda>m k v. (Inl RedisError, m)),
     rd_ltrim = (\<lambda>m k i j. (Inl RedisError, m))\<rparr>"

lemma assoc_rdel: "assoc j (rdel k m) = (if j = k then None else assoc j m)"
  by (induction m) auto

lemma map_redis_laws: "redis_laws map_redis rview"
  by (auto simp: redis_laws_def map_redis_def rview_def fun_eq_iff assoc_rdel split: list.split)

lemma dead_redis_down: "redis_down dead_redis"
  by (simp add: redis_down_def dead_redis_def)

end
