(* ===== verification/Alert_Pipeline.thy ===== *)
theory Alert_Pipeline
  imports Heuristic_Properties Redis_Interface
begin

section \<open>From triggered rules to an alert\<close>

text \<open>
  The static-rule part of \<open>process_telemetry\<close> in \<open>app/services/telemetry_service.py\<close>
  (\<open>PROCESS_CREATED\<close> events): which triggered rules contribute, the cumulative score, the
  cooldown and the triage mute kept in Redis, and the alert that is written.  The Redis client,
  the canary setting, the SHA-256 function and the enrichment context are parameters; the
  database session only receives the alert, so the outcome is the alert or nothing.
\<close>

definition ALERT_SUPPRESS_TTL :: int where "ALERT_SUPPRESS_TTL = 3600"
definition TRIAGE_MUTE_TTL :: int where "TRIAGE_MUTE_TTL = 86400 * 7"

subsection \<open>Cooldown and triage mute\<close>

definition suppress_key :: "string \<Rightarrow> string \<Rightarrow> string" where
  "suppress_key agent key = ''sup:alert:'' @ agent @ '':'' @ key"

definition suppressed :: "'s redis \<Rightarrow> string \<Rightarrow> string \<Rightarrow> 's \<Rightarrow> bool \<times> 's" where
  "suppressed R agent key s =
     (case rd_exists R s (suppress_key agent key) of
        (Inl x, s1) \<Rightarrow> (False, s1)
      | (Inr True, s1) \<Rightarrow> (True, s1)
      | (Inr False, s1) \<Rightarrow>
          (case rd_setex R s1 (suppress_key agent key) ALERT_SUPPRESS_TTL ''1'' of
             (_, s2) \<Rightarrow> (False, s2)))"

definition triage_key :: "string \<Rightarrow> string \<Rightarrow> string" where
  "triage_key agent fp = ''sup:triage:'' @ agent @ '':'' @ fp"

definition muted_by_triage :: "'s redis \<Rightarrow> string \<Rightarrow> string \<Rightarrow> 's \<Rightarrow> bool \<times> 's" where
  "muted_by_triage R agent fp s =
     (case rd_exists R s (triage_key agent fp) of (Inl x, s1) \<Rightarrow> (False, s1) | (Inr b, s1) \<Rightarrow> (b, s1))"

text \<open>The fingerprint is computed before the \<open>try\<close> of the callee, so its exception propagates.\<close>

definition record_triage_mute ::
  "'s redis \<Rightarrow> (string \<Rightarrow> string) \<Rightarrow> string \<Rightarrow> alert \<Rightarrow> 's \<Rightarrow> int result \<times> 's" where
  "record_triage_mute R sha256 agent a s =
     (case triage_mute_fingerprint sha256 a of
        Inl x \<Rightarrow> (Inl x, s)
      | Inr fp \<Rightarrow>
          (case rd_setex R s (triage_key agent fp) TRIAGE_MUTE_TTL ''1'' of
             (Inl x, s1) \<Rightarrow> (Inr 0, s1)
           | (Inr _, s1) \<Rightarrow> (Inr TRIAGE_MUTE_TTL, s1)))"

definition skip_new_alert ::
  "'s redis \<Rightarrow> (string \<Rightarrow> string) \<Rightarrow> string \<Rightarrow> alert \<Rightarrow> 's \<Rightarrow> bool result \<times> 's" where
  "skip_new_alert R sha256 agent a s =
     (case triage_mute_fingerprint sha256 a of
        Inl x \<Rightarrow> (Inl x, s)
      | Inr fp \<Rightarrow> (case muted_by_triage R agent fp s of (b, s1) \<Rightarrow> (Inr b, s1)))"

subsection \<open>Contributing rules and score\<close>

text \<open>One iteration of the loop over \<open>ALL_RULES\<close>; \<open>canary\<close> is the setting \<open>RULE_CANARY_IDS\<close>.\<close>

definition rule_contribution :: "string \<Rightarrow> event \<Rightarrow> rule_fn \<Rightarrow> rule_result list" where
  "rule_contribution canary e fn =
     (case run_rule fn e of
        Inl x \<Rightarrow> []
      | Inr r0 \<Rightarrow>
          if \<not> rr_triggered r0 then []
          else let r1 = stamp_result fn r0;
                 r = (if is_signed_verified e \<and> List.member TRUSTED_SUPPRESS_RULE_IDS (rr_rule_id r1)
                      then r1\<lparr>rr_confidence := ''low''\<rparr> else r1)
               in if is_canary_rule canary (rr_rule_id r) then []
                  else if should_skip_known_signed_app_path e (rr_rule_id r) then []
                  else if should_skip_trusted_noisy_rule (rr_rule_id r) r e then []
                  else [r])"

definition contributing :: "string \<Rightarrow> event \<Rightarrow> rule_result list" where
  "contributing canary e = concat (map (rule_contribution canary e) ALL_RULES)"

definition score_map :: "(string \<times> nat) list" where
  "score_map = [(''CRITICAL'', 100), (''HIGH'', 50), (''MEDIUM'', 25), (''LOW'', 10)]"

definition rule_score :: "rule_result \<Rightarrow> nat" where
  "rule_score r = (if rr_confidence r = ''low'' then 10 else assoc_default 10 (rr_severity r) score_map)"

definition total_score :: "rule_result list \<Rightarrow> nat" where
  "total_score rs = sum_list (map rule_score rs)"

definition overall_severity :: "nat \<Rightarrow> string" where
  "overall_severity n =
     (if n \<ge> 100 then ''CRITICAL'' else if n \<ge> 50 then ''HIGH''
      else if n \<ge> 25 then ''MEDIUM'' else ''LOW'')"

subsection \<open>The alert\<close>

definition alert_reason :: "event \<Rightarrow> rule_result \<Rightarrow> pydict \<Rightarrow> string" where
  "alert_reason e best ctx =
     ''Reason: '' @ rr_description best @ '' | Confidence='' @ rr_confidence best @
     '' | TrustedSigned='' @ py_str (PBool (is_trusted_signed e)) @
     '' | Prevalence='' @ py_str (dict_get ctx ''prevalence'') @
     '' | Lineage='' @ fmt_opt (ev_parent_process_name e) @ ''->'' @ fmt_opt (ev_process_name e)"

definition static_alert :: "string \<Rightarrow> event \<Rightarrow> pydict \<Rightarrow> rule_result \<Rightarrow> rule_result list \<Rightarrow> alert" where
  "static_alert agent e ctx r rs =
     (let triggered = r # rs;
          total = total_score triggered;
          best = max_by (\<lambda>x. assoc_default 10 (rr_severity x) score_map) r rs;
          reason = alert_reason e best ctx
      in \<lparr>al_agent_id = agent, al_severity = overall_severity total, al_pid = ev_pid e,
          al_parent_pid = ev_parent_pid e, al_parent_process_name = ev_parent_process_name e,
          al_process_name = Some (or_str (ev_process_name e) ''unknown''),
          al_process_path = ev_process_path e, al_event_type = Some (ev_event_type e),
          al_description =
            (if rs \<noteq> []
             then ''Multiple indicators ('' @ show_nat total @ '' score): '' @
               join '' | '' (map rr_description triggered) @ '' | '' @ reason
             else rr_description best @ '' | '' @ reason),
          al_mitre_tactic_id = first_truthy (rr_mitre_tactic_id best) (rr_mitre_tactic best),
          al_mitre_technique_id = rr_mitre_technique_id best,
          al_mitre_tactic_name = rr_mitre_tactic best,
          al_mitre_technique_name = rr_mitre_technique best,
          al_evidence = PDict (build_evidence e triggered ctx)\<rparr>)"

text \<open>
  The block for \<open>PROCESS_CREATED\<close>: no alert without a contributing rule, none while the same
  severity of the same process is cooling down, none for a fingerprint the analyst has muted
  (or whose computation raises: the enclosing \<open>try\<close> logs it).
\<close>

definition process_created ::
  "'s redis \<Rightarrow> (string \<Rightarrow> string) \<Rightarrow> string \<Rightarrow> string \<Rightarrow> pydict \<Rightarrow> event \<Rightarrow> 's \<Rightarrow> alert option \<times> 's" where
  "process_created R sha256 canary agent ctx e s =
     (case contributing canary e of
        [] \<Rightarrow> (None, s)
      | r # rs \<Rightarrow>
          (case suppressed R agent (''static:'' @ overall_severity (total_score (r # rs)) @ '':'' @
                  fmt_opt (ev_process_name e)) s of
             (True, s1) \<Rightarrow> (None, s1)
           | (False, s1) \<Rightarrow>
               (let a = static_alert agent e ctx r rs in
                case skip_new_alert R sha256 agent a s1 of
                  (Inr False, s2) \<Rightarrow> (Some a, s2)
                | (_, s2) \<Rightarrow> (None, s2))))"

end
