(* ===== verification/Alert_Pipeline_Properties.thy ===== *)
theory Alert_Pipeline_Properties
  imports Alert_Pipeline
begin

section \<open>Properties of the alert pipeline\<close>

text \<open>
  Which rules contribute to an alert, how the score bounds the severity, and what the cooldown
  and the triage mute guarantee with Redis reachable and with Redis down.
\<close>

subsection \<open>Contribution\<close>

lemma suppressed_ids_include_paths:
  "List.member [''AEGIS-S004'', ''AEGIS-S014''] i \<Longrightarrow> List.member TRUSTED_SUPPRESS_RULE_IDS i"
  by (auto simp: TRUSTED_SUPPRESS_RULE_IDS_def)

lemma skip_known_signed:
  "should_skip_known_signed_app_path e i \<Longrightarrow> is_signed_verified e \<and> i \<in> set TRUSTED_SUPPRESS_RULE_IDS"
  using suppressed_ids_include_paths [of i]
  by (auto simp: should_skip_known_signed_app_path_def split: if_splits)

lemma rule_contribution_eq:
  "rule_contribution canary e fn =
     (case run_rule fn e of
        Inl x \<Rightarrow> []
      | Inr r0 \<Rightarrow>
          if rr_triggered r0 \<and> \<not> is_canary_rule canary (rr_rule_id (stamp_result fn r0)) \<and>
             \<not> (is_signed_verified e \<and> rr_rule_id (stamp_result fn r0) \<in> set TRUSTED_SUPPRESS_RULE_IDS)
          then [stamp_result fn r0] else [])"
  using skip_known_signed
  by (auto simp: rule_contribution_def Let_def should_skip_trusted_noisy_rule_def split: sum.split)

lemma in_contributing:
  "r \<in> set (contributing canary e) \<longleftrightarrow>
     (\<exists>fn r0. run_rule fn e = Inr r0 \<and> rr_triggered r0 \<and> r = stamp_result fn r0 \<and>
        \<not> is_canary_rule canary (rr_rule_id r) \<and>
        \<not> (is_signed_verified e \<and> rr_rule_id r \<in> set TRUSTED_SUPPRESS_RULE_IDS))"
  using registry_total
  by (auto simp: contributing_def rule_contribution_eq split: sum.splits if_splits) force+

text \<open>
  Exactly these triggered rules contribute to an alert: the stamped results of the static
  rules that trigger, except canary rules and, when the binary carries a valid Authenticode
  signature, the five rules of \<open>TRUSTED_SUPPRESS_RULE_IDS\<close>; so no command line makes a signed
  LOLBin (AEGIS-S012) alert, and no signature silences any other rule.
\<close>

theorem contributing_rules_iff:
  "r \<in> set (contributing canary e) \<longleftrightarrow>
     (\<exists>fn r0. run_rule fn e = Inr r0 \<and> rr_triggered r0 \<and> r = stamp_result fn r0 \<and>
        \<not> is_canary_rule canary (rr_rule_id r) \<and>
        \<not> (is_signed_verified e \<and>
           rr_rule_id r \<in> {''AEGIS-S004'', ''AEGIS-S009'', ''AEGIS-S010'', ''AEGIS-S012'', ''AEGIS-S014''}))"
  unfolding in_contributing by (auto simp: TRUSTED_SUPPRESS_RULE_IDS_def)

subsection \<open>Scores\<close>

lemma total_score_mem: "r \<in> set rs \<Longrightarrow> rule_score r \<le> total_score rs"
  unfolding total_score_def by (induction rs) auto

lemma total_score_concat: "total_score (concat (map f xs)) = sum_list (map (\<lambda>x. total_score (f x)) xs)"
  by (induction xs) (auto simp: total_score_def)

definition weak_fns :: "rule_fn list" where
  "weak_fns = [Rule_script_interpreter_abuse, Rule_network_tool, Rule_high_thread_count, Rule_network_beacon]"

lemma weak_rows:
  "list_all (\<lambda>s. sr_confidence s = ''low'' \<longrightarrow> List.member weak_fns (sr_fn s)) STATIC_RULES"
  by code_simp

lemma s004_id: "sr_fn m = Rule_suspicious_execution_path \<Longrightarrow> m \<in> set STATIC_RULES \<Longrightarrow> sr_rule_id m = ''AEGIS-S004''"
proof -
  have "list_all (\<lambda>s. sr_fn s = Rule_suspicious_execution_path \<longrightarrow> sr_rule_id s = ''AEGIS-S004'') STATIC_RULES"
    by code_simp
  then show "sr_fn m = Rule_suspicious_execution_path \<Longrightarrow> m \<in> set STATIC_RULES \<Longrightarrow> sr_rule_id m = ''AEGIS-S004''"
    by (auto simp: list_all_iff)
qed

lemma default_confidence_name_rules:
  "rr_confidence (rule_known_attack_tool e) = ''medium''"
  "rr_confidence (rule_suspicious_parent_child e) = ''medium''"
  "rr_confidence (rule_malware_family e) = ''medium''"
  "rr_confidence (rule_privilege_escalation e) = ''medium''"
  "rr_confidence (rule_double_extension e) = ''medium''"
  "rr_confidence (rule_encoded_command e) = ''medium''"
  "rr_confidence (rule_persistence_path e) = ''medium''"
  unfolding rule_known_attack_tool_def rule_suspicious_parent_child_def rule_malware_family_def
    rule_privilege_escalation_def rule_double_extension_def rule_encoded_command_def
    rule_persistence_path_def Let_def
  by (simp_all add: DEFAULT_CONFIDENCE_def no_hit_def split: option.split)

lemma default_confidence_other_rules:
  "rr_confidence (rule_dll_hijack_path e) = ''medium''"
  "rr_confidence (rule_lolbin_usage e) = ''medium''"
  "rr_confidence (rule_persistence_autorun e) = ''medium''"
  "rr_confidence (rule_autorun_registry_write e) = ''medium''"
  "rr_confidence (rule_scheduled_task_creation e) = ''medium''"
  "rr_confidence (rule_discovery_commands e) = ''medium''"
  "rr_confidence (rule_event_log_clearing e) = ''medium''"
  "rr_confidence (rule_recovery_destruction e) = ''medium''"
  unfolding rule_dll_hijack_path_def rule_lolbin_usage_def rule_persistence_autorun_def
    rule_persistence_autorun_in_def rule_autorun_registry_write_def rule_scheduled_task_creation_def
    rule_discovery_commands_def rule_event_log_clearing_def rule_recovery_destruction_def Let_def
  by (simp_all add: DEFAULT_CONFIDENCE_def no_hit_def split: option.split)

lemma default_confidence_tampering: "rr_confidence (rule_security_control_tampering e) = ''medium''"
proof -
  have t: "rr_confidence (tampering_hit e x y) = ''medium''" "rr_confidence no_hit = ''medium''" for x y
    by (simp_all add: tampering_hit_def DEFAULT_CONFIDENCE_def no_hit_def)
  show ?thesis
    unfolding rule_security_control_tampering_def Let_def
    by (simp only: if_distrib [of rr_confidence] t if_cancel)
qed

lemma s004_confidence:
  "rr_confidence (rule_suspicious_execution_path e) = ''medium'' \<or> is_signed_verified e"
  by (auto simp: rule_suspicious_execution_path_def Let_def no_hit_def DEFAULT_CONFIDENCE_def)

text \<open>A contributing result of low confidence comes from one of four rules.\<close>

lemma low_contribution:
  assumes "r \<in> set (rule_contribution canary e fn)" "rr_confidence r = ''low''"
  shows "fn \<in> set weak_fns"
proof -
  obtain r0 where r0: "run_rule fn e = Inr r0"
    using assms(1) by (cases "run_rule fn e") (auto simp: rule_contribution_eq)
  then have r: "r = stamp_result fn r0"
    and ns: "\<not> (is_signed_verified e \<and> rr_rule_id r \<in> set TRUSTED_SUPPRESS_RULE_IDS)"
    using assms(1) by (auto simp: rule_contribution_eq split: if_splits)
  obtain m where m: "m \<in> set STATIC_RULES" "sr_fn m = fn" "rr_rule_id r = sr_rule_id m"
    "rr_confidence r = (if rr_confidence r0 = ''medium'' then sr_confidence m else rr_confidence r0)"
    using stamp_id [OF run_rule_custom [OF r0], of fn] r by (auto simp: DEFAULT_CONFIDENCE_def)
  show ?thesis
  proof (cases "rr_confidence r0 = ''medium''")
    case True
    then have "sr_confidence m = ''low''" using m(4) assms(2) by simp
    then show ?thesis using weak_rows m(1,2) by (auto simp: list_all_iff)
  next
    case False
    have "fn \<noteq> Rule_suspicious_execution_path"
    proof
      assume fn: "fn = Rule_suspicious_execution_path"
      then have "is_signed_verified e"
        using False r0 s004_confidence [of e] by (auto simp: run_rule_def)
      moreover have "rr_rule_id r \<in> set TRUSTED_SUPPRESS_RULE_IDS"
        using s004_id [of m] fn m by (simp add: TRUSTED_SUPPRESS_RULE_IDS_def)
      ultimately show False using ns by simp
    qed
    then show ?thesis using False r0
      by (cases fn) (auto simp: run_rule_def weak_fns_def default_confidence_name_rules
          default_confidence_other_rules default_confidence_tampering)
  qed
qed

lemma contribution_le1: "length (rule_contribution canary e fn) \<le> 1"
  by (auto simp: rule_contribution_eq split: sum.split)

lemma weak_score:
  assumes "\<forall>r \<in> set (contributing canary e). rr_confidence r = ''low''"
  shows "total_score (contributing canary e) \<le> 40"
proof -
  let ?c = "rule_contribution canary e"
  have s: "total_score (?c fn) \<le> (if fn \<in> set weak_fns then 10 else 0)" if "fn \<in> set ALL_RULES" for fn
  proof -
    have low: "\<forall>r \<in> set (?c fn). rr_confidence r = ''low''"
      using assms that by (auto simp: contributing_def)
    then have "set (?c fn) \<noteq> {} \<longrightarrow> fn \<in> set weak_fns"
      by (meson equals0I low_contribution)
    moreover have "total_score (?c fn) \<le> 10"
      using contribution_le1 [of canary e fn] low
      by (cases "?c fn") (auto simp: total_score_def rule_score_def)
    ultimately show ?thesis by (auto simp: total_score_def)
  qed
  have "total_score (contributing canary e) = sum_list (map (\<lambda>fn. total_score (?c fn)) ALL_RULES)"
    unfolding contributing_def by (rule total_score_concat)
  also have "\<dots> \<le> sum_list (map (\<lambda>fn. if fn \<in> set weak_fns then 10 else 0) ALL_RULES)"
    using s by (intro sum_list_mono) simp
  also have "\<dots> = 40"
    unfolding ALL_RULES_def registry_fns by (simp add: weak_fns_def)
  finally show ?thesis .
qed

text \<open>
  C36: Weak evidence alone never fabricates a high severity: if every contributing rule has low
  confidence, then whatever the number of rules, the cumulative severity is LOW or MEDIUM; and a
  contributing rule of higher confidence is never downgraded: the cumulative severity of a set
  that contains a CRITICAL (HIGH) one is CRITICAL (at least HIGH).
\<close>

theorem severity_of_evidence:
  "((\<forall>r \<in> set (contributing canary e). rr_confidence r = ''low'') \<longrightarrow>
      overall_severity (total_score (contributing canary e)) \<in> {''LOW'', ''MEDIUM''}) \<and>
   (r \<in> set rs \<and> rr_confidence r \<noteq> ''low'' \<and> rr_severity r = ''CRITICAL'' \<longrightarrow>
      overall_severity (total_score rs) = ''CRITICAL'') \<and>
   (r \<in> set rs \<and> rr_confidence r \<noteq> ''low'' \<and> rr_severity r = ''HIGH'' \<longrightarrow>
      overall_severity (total_score rs) \<in> {''HIGH'', ''CRITICAL''})"
proof (intro conjI impI)
  assume "\<forall>r \<in> set (contributing canary e). rr_confidence r = ''low''"
  from weak_score [OF this] show "overall_severity (total_score (contributing canary e)) \<in> {''LOW'', ''MEDIUM''}"
    by (simp add: overall_severity_def)
next
  assume r: "r \<in> set rs \<and> rr_confidence r \<noteq> ''low'' \<and> rr_severity r = ''CRITICAL''"
  then have "rule_score r = 100" by (simp add: rule_score_def score_map_def assoc_default_def)
  with r total_score_mem [of r rs] show "overall_severity (total_score rs) = ''CRITICAL''"
    by (simp add: overall_severity_def)
next
  assume r: "r \<in> set rs \<and> rr_confidence r \<noteq> ''low'' \<and> rr_severity r = ''HIGH''"
  then have "rule_score r = 50" by (simp add: rule_score_def score_map_def assoc_default_def)
  with r total_score_mem [of r rs] show "overall_severity (total_score rs) \<in> {''HIGH'', ''CRITICAL''}"
    by (simp add: overall_severity_def)
qed

theorem severity_of_evidence_witness:
  "overall_severity (total_score [hit ''CRITICAL'' ''d'' ''t'' ''n'' ''x'' ''y'', no_hit]) = ''CRITICAL''"
  using severity_of_evidence [of "[]" blank_event "hit ''CRITICAL'' ''d'' ''t'' ''n'' ''x'' ''y''"
      "[hit ''CRITICAL'' ''d'' ''t'' ''n'' ''x'' ''y'', no_hit]"]
  by (simp add: DEFAULT_CONFIDENCE_def)

subsection \<open>Cooldown and mute\<close>

lemma evidence_rules: "\<exists>xs. dict_get (build_evidence e triggered ctx) ''rules'' = PList xs"
  by (simp add: build_evidence_def dict_get_def)

lemma static_alert_fingerprint: "\<exists>fp. triage_mute_fingerprint sha256 (static_alert agent e ctx r rs) = Inr fp"
proof -
  obtain xs where xs: "dict_get (build_evidence e (r # rs) ctx) ''rules'' = PList xs"
    using evidence_rules by blast
  have "py_or (PList xs) (PList []) = PList xs" by (cases xs) (auto simp: py_or_def)
  then have "\<exists>parts. fingerprint_parts (static_alert agent e ctx r rs) = Inr parts"
    using xs by (simp add: fingerprint_parts_def static_alert_def Let_def)
  then show ?thesis by (auto simp: triage_mute_fingerprint_def Let_def)
qed

text \<open>
  Detection survives the loss of Redis: with every command of the client raising, the block
  for process events writes an alert exactly when some rule contributes, and the alert carries
  the severity of the cumulative score.
\<close>

theorem alert_without_redis:
  assumes "redis_down R"
  shows "fst (process_created R sha256 canary agent ctx e s) =
    (case contributing canary e of [] \<Rightarrow> None | r # rs \<Rightarrow> Some (static_alert agent e ctx r rs))"
proof (cases "contributing canary e")
  case Nil
  then show ?thesis by (simp add: process_created_def)
next
  case (Cons r rs)
  obtain fp where "triage_mute_fingerprint sha256 (static_alert agent e ctx r rs) = Inr fp"
    using static_alert_fingerprint by blast
  moreover have "suppressed R agent key s = (False, s)" "muted_by_triage R agent fp s = (False, s)" for key
    using assms by (simp_all add: suppressed_def muted_by_triage_def redis_down_def)
  ultimately show ?thesis using Cons
    by (simp add: process_created_def Let_def skip_new_alert_def)
qed

theorem alert_without_redis_witness:
  "fst (process_created dead_redis (\<lambda>x. x) [] ''a'' [] blank_event []) = None"
proof -
  have "contributing [] blank_event = []" by code_simp
  then show ?thesis using alert_without_redis [OF dead_redis_down, of "\<lambda>x. x" "[]" "''a''" "[]" blank_event "[]"]
    by simp
qed

lemma suppressed_under_laws:
  assumes "redis_laws R view" "suppressed R agent key s = (b, s')"
  shows "b = (view s (suppress_key agent key) \<noteq> None) \<and>
    view s' = (if b then view s else (view s)(suppress_key agent key \<mapsto> RStr ''1''))"
proof -
  let ?k = "suppress_key agent key"
  obtain s1 where e: "rd_exists R s ?k = (Inr (view s ?k \<noteq> None), s1)" "view s1 = view s"
    using redis_lawsD(2) [OF assms(1)] by blast
  obtain s2 where x: "rd_setex R s1 ?k ALERT_SUPPRESS_TTL ''1'' = (Inr (), s2)"
    "view s2 = (view s1)(?k \<mapsto> RStr ''1'')"
    using redis_lawsD(3) [OF assms(1)] by blast
  show ?thesis using assms(2) e x by (auto simp: suppressed_def split: bool.splits)
qed

lemma muted_under_laws:
  assumes "redis_laws R view"
  shows "\<exists>s'. muted_by_triage R agent fp s = (view s (triage_key agent fp) \<noteq> None, s') \<and> view s' = view s"
  using redis_lawsD(2) [OF assms, of s "triage_key agent fp"] by (auto simp: muted_by_triage_def)

lemma skip_under_laws:
  assumes "redis_laws R view" "triage_mute_fingerprint sha256 a = Inr fp"
  shows "\<exists>s'. skip_new_alert R sha256 agent a s = (Inr (view s (triage_key agent fp) \<noteq> None), s') \<and>
    view s' = view s"
  using muted_under_laws [OF assms(1), of agent fp s] assms(2) by (auto simp: skip_new_alert_def)

lemma written_alert:
  "process_created R sha256 canary agent ctx e s = (Some a, s1) \<Longrightarrow> contributing canary e = r # rs \<Longrightarrow>
     a = static_alert agent e ctx r rs \<and> al_severity a = overall_severity (total_score (r # rs))"
  by (auto simp: process_created_def static_alert_def Let_def split: bool.splits prod.splits sum.splits)

text \<open>
  With Redis reachable, an alert that was just written cools down: as long as its key has
  not expired, the next event of the same agent and process whose evidence has the same cumulative
  severity writes no alert, while evidence of another severity is not held back by it (a LOW never
  hides a later CRITICAL).
\<close>

theorem cooldown_is_per_severity:
  assumes laws: "redis_laws R view"
    and first: "process_created R sha256 canary agent ctx e s = (Some a, s1)"
    and kept: "\<forall>k. view s2 k = view s1 k"
    and next_event: "contributing canary e' = r # rs" "ev_process_name e' = ev_process_name e"
  shows "(overall_severity (total_score (r # rs)) = al_severity a \<longrightarrow>
      fst (process_created R sha256 canary agent ctx' e' s2) = None) \<and>
    view s2 (suppress_key agent (''static:'' @ al_severity a @ '':'' @ fmt_opt (ev_process_name e))) \<noteq> None \<and>
    (\<forall>k. k \<noteq> suppress_key agent (''static:'' @ al_severity a @ '':'' @ fmt_opt (ev_process_name e)) \<longrightarrow>
      view s2 k = view s k)"
proof -
  obtain r0 rs0 where c: "contributing canary e = r0 # rs0"
    using first by (cases "contributing canary e") (auto simp: process_created_def)
  let ?key = "''static:'' @ overall_severity (total_score (r0 # rs0)) @ '':'' @ fmt_opt (ev_process_name e)"
  obtain b s' where sup: "suppressed R agent ?key s = (b, s')" by fastforce
  have b: "\<not> b" and a: "a = static_alert agent e ctx r0 rs0"
    and sk: "skip_new_alert R sha256 agent a s' = (Inr False, s1)"
    using first c sup
    by (auto simp: process_created_def Let_def split: bool.splits prod.splits sum.splits)
  obtain fp where fp: "triage_mute_fingerprint sha256 a = Inr fp"
    using static_alert_fingerprint a by blast
  have sev: "al_severity a = overall_severity (total_score (r0 # rs0))"
    by (simp add: a static_alert_def Let_def)
  have v1: "view s' = (view s)(suppress_key agent ?key \<mapsto> RStr ''1'')"
    using suppressed_under_laws [OF laws sup] b by simp
  have "view s1 = view s'" using skip_under_laws [OF laws fp, of agent s'] sk by auto
  then have v2: "view s2 = (view s)(suppress_key agent ?key \<mapsto> RStr ''1'')" using v1 kept by auto
  have "fst (process_created R sha256 canary agent ctx' e' s2) = None"
    if "overall_severity (total_score (r # rs)) = al_severity a"
  proof -
    let ?key' = "''static:'' @ overall_severity (total_score (r # rs)) @ '':'' @ fmt_opt (ev_process_name e')"
    obtain b' s3 where sup': "suppressed R agent ?key' s2 = (b', s3)" by fastforce
    have "?key' = ?key" using that sev next_event(2) by simp
    then have "b'" using suppressed_under_laws [OF laws sup'] v2 by simp
    then show ?thesis using sup' next_event(1) by (simp add: process_created_def)
  qed
  then show ?thesis using v2 sev by simp
qed

theorem cooldown_is_per_severity_witness:
  "fst (process_created map_redis (\<lambda>x. x) [] ''a'' []
      (blank_event\<lparr>ev_thread_count := Some 999\<rparr>)
      (snd (process_created map_redis (\<lambda>x. x) [] ''a'' []
        (blank_event\<lparr>ev_thread_count := Some 999\<rparr>) []))) = None"
proof -
  let ?e = "blank_event\<lparr>ev_thread_count := Some 999\<rparr>"
  let ?p = "process_created map_redis (\<lambda>x. x) [] ''a'' [] ?e []"
  have n: "fst ?p \<noteq> None" by code_simp
  then obtain a s1 where p: "?p = (Some a, s1)" by (cases ?p) auto
  have "contributing [] ?e \<noteq> []" by code_simp
  then obtain r rs where c: "contributing [] ?e = r # rs" by (cases "contributing [] ?e") auto
  have o: "overall_severity (total_score (r # rs)) = al_severity a"
    by (rule written_alert [OF p c, THEN conjunct2, symmetric])
  have "fst (process_created map_redis (\<lambda>x. x) [] ''a'' [] ?e s1) = None"
    by (rule cooldown_is_per_severity [OF map_redis_laws p allI c refl, THEN conjunct1, THEN mp, OF refl o])
  then show ?thesis unfolding p snd_conv .
qed

end
