(* ===== verification/Unified_Event.thy ===== *)
theory Unified_Event
  imports Pyval
begin

section \<open>The unified SIEM event\<close>

text \<open>
  \<open>UnifiedEvent\<close> and the helpers every parser uses, from \<open>app/ingest/base.py\<close>, with
  \<open>severity_to_ocsf\<close> of \<open>app/services/ocsf.py\<close>.  The record has every field of the model; \<open>time\<close> is
  the text of the datetime.  \<open>uevent_fields\<close> lists them in the model's order, as \<open>getattr\<close> sees
  them.
\<close>

record uevent =
  ue_time :: string
  ue_source :: string
  ue_source_type :: string
  ue_event_id :: string
  ue_ocsf_class_uid :: int
  ue_severity :: string
  ue_severity_id :: int
  ue_hostname :: "string option"
  ue_ip :: "string option"
  ue_user :: "string option"
  ue_user_domain :: "string option"
  ue_process_name :: "string option"
  ue_pid :: "int option"
  ue_parent_process_name :: "string option"
  ue_parent_pid :: "int option"
  ue_process_path :: "string option"
  ue_command_line :: "string option"
  ue_file_path :: "string option"
  ue_file_name :: "string option"
  ue_file_hash :: "string option"
  ue_src_ip :: "string option"
  ue_src_port :: "int option"
  ue_dst_ip :: "string option"
  ue_dst_port :: "int option"
  ue_protocol :: "string option"
  ue_url :: "string option"
  ue_http_method :: "string option"
  ue_http_status :: "int option"
  ue_user_agent :: "string option"
  ue_domain :: "string option"
  ue_dns_query :: "string option"
  ue_signature_id :: "string option"
  ue_signature :: "string option"
  ue_category :: "string option"
  ue_message :: "string option"
  ue_message_id :: "string option"
  ue_raw :: "string option"
  ue_extra :: pydict

definition uevent_fields :: "uevent \<Rightarrow> pydict" where
  "uevent_fields e =
     [(''time'', PStr (ue_time e)),
      (''source'', PStr (ue_source e)),
      (''source_type'', PStr (ue_source_type e)),
      (''event_id'', PStr (ue_event_id e)),
      (''ocsf_class_uid'', PInt (ue_ocsf_class_uid e)),
      (''severity'', PStr (ue_severity e)),
      (''severity_id'', PInt (ue_severity_id e)),
      (''hostname'', opt_str (ue_hostname e)),
      (''ip'', opt_str (ue_ip e)),
      (''user'', opt_str (ue_user e)),
      (''user_domain'', opt_str (ue_user_domain e)),
      (''process_name'', opt_str (ue_process_name e)),
      (''pid'', opt_int (ue_pid e)),
      (''parent_process_name'', opt_str (ue_parent_process_name e)),
      (''parent_pid'', opt_int (ue_parent_pid e)),
      (''process_path'', opt_str (ue_process_path e)),
      (''command_line'', opt_str (ue_command_line e)),
      (''file_path'', opt_str (ue_file_path e)),
      (''file_name'', opt_str (ue_file_name e)),
      (''file_hash'', opt_str (ue_file_hash e)),
      (''src_ip'', opt_str (ue_src_ip e)),
      (''src_port'', opt_int (ue_src_port e)),
      (''dst_ip'', opt_str (ue_dst_ip e)),
      (''dst_port'', opt_int (ue_dst_port e)),
      (''protocol'', opt_str (ue_protocol e)),
      (''url'', opt_str (ue_url e)),
      (''http_method'', opt_str (ue_http_method e)),
      (''http_status'', opt_int (ue_http_status e)),
      (''user_agent'', opt_str (ue_user_agent e)),
      (''domain'', opt_str (ue_domain e)),
      (''dns_query'', opt_str (ue_dns_query e)),
      (''signature_id'', opt_str (ue_signature_id e)),
      (''signature'', opt_str (ue_signature e)),
      (''category'', opt_str (ue_category e)),
      (''message'', opt_str (ue_message e)),
      (''message_id'', opt_str (ue_message_id e)),
      (''raw'', opt_str (ue_raw e)),
      (''extra'', PDict (ue_extra e))]"

text \<open>An event with only the required fields.\<close>

definition blank_uevent :: uevent where
  "blank_uevent = \<lparr>ue_time = ''2026-01-01 00:00:00+00:00'', ue_source = ''src'', ue_source_type = ''syslog'',
     ue_event_id = ''e1'', ue_ocsf_class_uid = 0, ue_severity = ''INFO'', ue_severity_id = 1,
     ue_hostname = None, ue_ip = None, ue_user = None, ue_user_domain = None, ue_process_name =
     None, ue_pid = None, ue_parent_process_name = None, ue_parent_pid = None, ue_process_path
     = None, ue_command_line = None, ue_file_path = None, ue_file_name = None, ue_file_hash =
     None, ue_src_ip = None, ue_src_port = None, ue_dst_ip = None, ue_dst_port = None,
     ue_protocol = None, ue_url = None, ue_http_method = None, ue_http_status = None,
     ue_user_agent = None, ue_domain = None, ue_dns_query = None, ue_signature_id = None,
     ue_signature = None, ue_category = None, ue_message = None, ue_message_id = None, ue_raw =
     None, ue_extra = []\<rparr>"

subsection \<open>Severities\<close>

definition INTERNAL_SEVERITIES :: "string list" where
  "INTERNAL_SEVERITIES = [''INFO'', ''LOW'', ''MEDIUM'', ''HIGH'', ''CRITICAL'']"

definition SEVERITY_LABELS :: "(string \<times> string) list" where
  "SEVERITY_LABELS =
    [(''info'', ''INFO''), (''informational'', ''INFO''), (''debug'', ''INFO''), (''trace'',
     ''INFO''), (''notice'', ''LOW''), (''low'', ''LOW''), (''warning'', ''MEDIUM''),
     (''warn'', ''MEDIUM''), (''medium'', ''MEDIUM''), (''error'', ''HIGH''), (''err'',
     ''HIGH''), (''high'', ''HIGH''), (''critical'', ''CRITICAL''), (''crit'', ''CRITICAL''),
     (''alert'', ''CRITICAL''), (''emergency'', ''CRITICAL''), (''emerg'', ''CRITICAL''),
     (''fatal'', ''CRITICAL''), (''severe'', ''CRITICAL''), (''panic'', ''CRITICAL''),
     (''notset'', ''INFO''), (''unknown'', ''INFO''), (''1'', ''CRITICAL''), (''2'', ''HIGH''),
     (''3'', ''MEDIUM''), (''4'', ''INFO''), (''5'', ''INFO'')]"

definition SYSLOG_SEVERITY :: "(int \<times> string) list" where
  "SYSLOG_SEVERITY = [(0, ''CRITICAL''), (1, ''CRITICAL''), (2, ''CRITICAL''), (3, ''HIGH''),
     (4, ''MEDIUM''), (5, ''LOW''), (6, ''INFO''), (7, ''INFO'')]"

definition WINDOWS_SEVERITY :: "(int \<times> string) list" where
  "WINDOWS_SEVERITY = [(1, ''CRITICAL''), (2, ''HIGH''), (3, ''MEDIUM''), (4, ''INFO''), (5, ''INFO'')]"

definition SEVERITY_IDS :: "(string \<times> int) list" where
  "SEVERITY_IDS = [(''INFO'', 1), (''INFORMATIONAL'', 1), (''LOW'', 2), (''MEDIUM'', 3), (''HIGH'', 4),
     (''CRITICAL'', 5), (''FATAL'', 6)]"

definition severity_to_ocsf :: "string option \<Rightarrow> int" where
  "severity_to_ocsf s = assoc_default 0 (upper (strip (or_str s []))) SEVERITY_IDS"

definition numeric_severity :: "pyval \<Rightarrow> (int \<times> string) list \<Rightarrow> string" where
  "numeric_severity v tab = (case py_int v of Inl _ \<Rightarrow> ''INFO'' | Inr i \<Rightarrow> assoc_default ''INFO'' i tab)"

definition normalize_severity :: "pyval \<Rightarrow> string \<Rightarrow> string" where
  "normalize_severity v kind =
     (if v = PNone \<or> v = PStr [] then ''INFO''
      else if kind = ''syslog'' then numeric_severity v SYSLOG_SEVERITY
      else if kind = ''windows'' then numeric_severity v WINDOWS_SEVERITY
      else assoc_default ''INFO'' (lower (strip (py_str v))) SEVERITY_LABELS)"

subsection \<open>Field helpers\<close>

definition blank_to_none :: "string option \<Rightarrow> string option" where
  "blank_to_none v = (case v of None \<Rightarrow> None | Some s \<Rightarrow> if strip s = [] then None else Some s)"

definition finalize :: "uevent \<Rightarrow> uevent" where
  "finalize e =
     (let sev = (if ue_severity e \<noteq> [] then normalize_severity (PStr (ue_severity e)) ''label'' else ''INFO'')
      in e\<lparr>ue_severity := sev, ue_severity_id := severity_to_ocsf (Some sev),
        ue_hostname := blank_to_none (ue_hostname e), ue_user := blank_to_none (ue_user e),
        ue_process_name := blank_to_none (ue_process_name e),
        ue_file_path := blank_to_none (ue_file_path e),
        ue_src_ip := blank_to_none (ue_src_ip e), ue_dst_ip := blank_to_none (ue_dst_ip e),
        ue_url := blank_to_none (ue_url e), ue_domain := blank_to_none (ue_domain e),
        ue_command_line := blank_to_none (ue_command_line e)\<rparr>)"

definition as_int :: "pyval \<Rightarrow> int option" where
  "as_int v = (if v = PNone \<or> v = PStr [] then None
     else case py_int v of Inr i \<Rightarrow> Some i | Inl _ \<Rightarrow> None)"

definition PROTOCOLS :: "(string \<times> string) list" where
  "PROTOCOLS = [(''6'', ''tcp''), (''17'', ''udp''), (''1'', ''icmp''), (''tcp'', ''tcp''),
     (''udp'', ''udp''), (''icmp'', ''icmp''), (''icmpv6'', ''icmp''), (''http'', ''tcp''),
     (''https'', ''tcp''), (''ssl'', ''tcp''), (''tls'', ''tcp''), (''dns'', ''udp''), (''ssh'', ''tcp'')]"

definition normalize_protocol :: "pyval \<Rightarrow> string option" where
  "normalize_protocol v =
     (if v = PNone then None
      else let text = lower (strip (py_str v)) in
        if text = [] then None else Some (assoc_default (take 16 text) text PROTOCOLS))"

definition MAX_RAW_CHARS :: int where "MAX_RAW_CHARS = 8192"

definition scalar_text :: "pyval \<Rightarrow> bool" where
  "scalar_text v = (case v of PStr _ \<Rightarrow> True | PInt _ \<Rightarrow> True | PBool _ \<Rightarrow> True | PFloat _ _ \<Rightarrow> True | _ \<Rightarrow> False)"

definition searchable_text :: "uevent \<Rightarrow> string" where
  "searchable_text e = clip MAX_RAW_CHARS (join '' ''
     (map (\<lambda>v. or_str v []) (filter truthy
        [ue_message e, ue_command_line e, ue_url e, ue_dns_query e, ue_file_path e,
         ue_process_path e, ue_user_agent e, ue_signature e, ue_process_name e, ue_hostname e]) @
      map (\<lambda>(k, v). k @ ''='' @ py_str v) (filter (\<lambda>(k, v). scalar_text v) (ue_extra e))))"

subsection \<open>What the helpers guarantee\<close>

lemma severity_labels_internal:
  "list_all (\<lambda>(k, s). List.member INTERNAL_SEVERITIES s) SEVERITY_LABELS \<and>
   list_all (\<lambda>(k, s). List.member INTERNAL_SEVERITIES s) SYSLOG_SEVERITY \<and>
   list_all (\<lambda>(k, s). List.member INTERNAL_SEVERITIES s) WINDOWS_SEVERITY"
  by code_simp

lemma assoc_default_mem:
  "list_all (\<lambda>(k, s). P s) m \<Longrightarrow> P d \<Longrightarrow> P (assoc_default d k m)"
  by (induction m) (auto simp: assoc_default_def split: if_splits)

lemma info_internal: "''INFO'' \<in> set INTERNAL_SEVERITIES"
  by (simp add: INTERNAL_SEVERITIES_def)

lemma normalize_severity_internal: "normalize_severity v kind \<in> set INTERNAL_SEVERITIES"
proof -
  have "assoc_default ''INFO'' k SEVERITY_LABELS \<in> set INTERNAL_SEVERITIES"
    "assoc_default ''INFO'' i SYSLOG_SEVERITY \<in> set INTERNAL_SEVERITIES"
    "assoc_default ''INFO'' i WINDOWS_SEVERITY \<in> set INTERNAL_SEVERITIES" for k i
    using severity_labels_internal info_internal
    by (auto intro: assoc_default_mem [where P = "\<lambda>s. s \<in> set INTERNAL_SEVERITIES"])
  then show ?thesis
    by (auto simp: normalize_severity_def numeric_severity_def info_internal split: sum.split)
qed

lemma internal_cases:
  assumes "s \<in> set INTERNAL_SEVERITIES"
  shows "normalize_severity (PStr s) ''label'' = s" "severity_to_ocsf (Some s) \<in> {1..5}"
proof -
  have "list_all (\<lambda>s. normalize_severity (PStr s) ''label'' = s \<and> 1 \<le> severity_to_ocsf (Some s) \<and>
      severity_to_ocsf (Some s) \<le> 5) INTERNAL_SEVERITIES"
    by code_simp
  then show "normalize_severity (PStr s) ''label'' = s" "severity_to_ocsf (Some s) \<in> {1..5}"
    using assms by (auto simp: list_all_iff)
qed

lemma internal_nonempty: "[] \<notin> set INTERNAL_SEVERITIES"
  by (simp add: INTERNAL_SEVERITIES_def)

lemma blank_to_none_idem [simp]: "blank_to_none (blank_to_none v) = blank_to_none v"
  by (auto simp: blank_to_none_def split: option.split)

text \<open>The normal form of an event: severity, its number and the cleaned fields fit together.\<close>

definition normal_event :: "uevent \<Rightarrow> bool" where
  "normal_event e \<longleftrightarrow> finalize e = e \<and> ue_severity e \<in> set INTERNAL_SEVERITIES \<and>
     ue_severity_id e = severity_to_ocsf (Some (ue_severity e))"

lemma finalize_normal: "normal_event (finalize e)"
proof -
  let ?s = "ue_severity (finalize e)"
  have i: "?s \<in> set INTERNAL_SEVERITIES"
    using normalize_severity_internal info_internal by (simp add: finalize_def Let_def)
  have id: "ue_severity_id (finalize e) = severity_to_ocsf (Some ?s)" by (simp add: finalize_def Let_def)
  have "?s \<noteq> []" using i internal_nonempty by metis
  then have "finalize (finalize e) = finalize e"
    using internal_cases(1) [OF i] id by (simp add: finalize_def [of "finalize e"] Let_def) (simp add: finalize_def Let_def)
  then show ?thesis using i id by (simp add: normal_event_def)
qed

text \<open>What \<open>finalize\<close> does to the single fields.\<close>

lemma finalize_severity: "ue_severity e \<in> set INTERNAL_SEVERITIES \<Longrightarrow> ue_severity (finalize e) = ue_severity e"
  using internal_cases(1) [of "ue_severity e"] internal_nonempty by (auto simp: finalize_def Let_def)

lemma finalize_fields:
  "ue_hostname (finalize e) = blank_to_none (ue_hostname e)" "ue_process_name (finalize e) = blank_to_none (ue_process_name e)"
  "ue_user (finalize e) = blank_to_none (ue_user e)" "ue_src_ip (finalize e) = blank_to_none (ue_src_ip e)"
  "ue_time (finalize e) = ue_time e" "ue_pid (finalize e) = ue_pid e" "ue_message (finalize e) = ue_message e"
  "ue_extra (finalize e) = ue_extra e" "ue_source (finalize e) = ue_source e" "ue_event_id (finalize e) = ue_event_id e"
  by (simp_all add: finalize_def Let_def)

end
