(* ===== verification/Sigma_Matcher.thy ===== *)
theory Sigma_Matcher
  imports Unified_Event Pytext
begin

section \<open>Sigma field names\<close>

text \<open>
  \<open>app/rules/sigma/fields.py\<close>: how a Sigma field name is resolved on a unified event (explicit
  alias, then the model's own field, then the source's extra fields).  \<open>_DIRECT\<close> maps lower-cased
  model fields to themselves (all are lower case), so the direct lookup is a lookup in
  \<open>uevent_fields\<close>.
\<close>

definition ALIASES :: "(string \<times> string list) list" where
  "ALIASES =
    [(''eventid'', [''message_id'', ''extra.event_id'']),
     (''eventcode'', [''message_id'', ''extra.event_id'']),
     (''provider_name'', [''signature'', ''extra.provider'']),
     (''channel'', [''extra.channel'']), (''computer'', [''hostname'']),
     (''image'', [''process_path'', ''process_name'']), (''originalfilename'', [''file_name'']),
     (''newname'', [''file_name'']), (''commandline'', [''command_line'']),
     (''parentcommandline'', [''extra.win.ParentCommandLine'']),
     (''parentimage'', [''parent_process_name'']),
     (''parentprocessname'', [''parent_process_name'']), (''processname'', [''process_name'']),
     (''newprocessname'', [''process_path'', ''process_name'']), (''processid'', [''pid'']),
     (''newprocessid'', [''pid'']), (''parentprocessid'', [''parent_pid'']),
     (''targetusername'', [''user'']), (''subjectusername'', [''user'']),
     (''user'', [''user'']), (''username'', [''user'']),
     (''targetdomainname'', [''user_domain'']), (''subjectdomainname'', [''user_domain'']),
     (''logontype'', [''extra.logon_type'', ''extra.win.LogonType'']),
     (''ipaddress'', [''src_ip'', ''ip'']), (''sourceip'', [''src_ip'', ''ip'']),
     (''workstationname'', [''hostname'']), (''targetfilename'', [''file_path'']),
     (''filename'', [''file_name'', ''file_path'']),
     (''imagepath'', [''file_path'', ''process_path'', ''extra.win.ImagePath'']),
     (''servicename'', [''extra.win.ServiceName'']),
     (''servicetype'', [''extra.win.ServiceType'']), (''starttype'', [''extra.win.StartType'']),
     (''taskname'', [''extra.win.TaskName'']), (''hashes'', [''file_hash'']),
     (''sha256'', [''file_hash'']), (''scriptblocktext'', [''command_line'']),
     (''payload'', [''command_line'']), (''processcommandline'', [''command_line'']),
     (''program'', [''extra.syslog_tag'', ''process_name'']),
     (''syslog_tag'', [''extra.syslog_tag'']), (''src_ip'', [''src_ip'', ''ip'']),
     (''source_ip'', [''src_ip'']), (''srcip'', [''src_ip'']), (''id.orig_h'', [''src_ip'']),
     (''dst_ip'', [''dst_ip'']), (''dest_ip'', [''dst_ip'']), (''destinationip'', [''dst_ip'']),
     (''id.resp_h'', [''dst_ip'']), (''src_port'', [''src_port'']),
     (''srcport'', [''src_port'']), (''id.orig_p'', [''src_port'']),
     (''dst_port'', [''dst_port'']), (''dest_port'', [''dst_port'']),
     (''destinationport'', [''dst_port'']), (''id.resp_p'', [''dst_port'']),
     (''proto'', [''protocol'']), (''protocol'', [''protocol'']),
     (''app_proto'', [''extra.app_proto'']), (''conn_state'', [''extra.conn_state'']),
     (''service'', [''extra.service'']), (''query'', [''dns_query'']),
     (''queryname'', [''dns_query'']), (''dns.query'', [''dns_query'']), (''url'', [''url'']),
     (''uri'', [''url'']), (''http.url'', [''url'']), (''method'', [''http_method'']),
     (''http_method'', [''http_method'']), (''status_code'', [''http_status'']),
     (''useragent'', [''user_agent'']), (''user_agent'', [''user_agent'']),
     (''http.user_agent'', [''user_agent'']), (''host'', [''domain'', ''hostname'']),
     (''hostname'', [''domain'', ''hostname'']), (''domain'', [''domain'']),
     (''fqdn'', [''domain'']), (''sni'', [''extra.sni'']), (''ja3'', [''extra.ja3'']),
     (''alert.signature'', [''signature'']), (''alert.signature_id'', [''signature_id'']),
     (''alert.category'', [''category'', ''extra.alert_category'']),
     (''alert.action'', [''extra.alert_action'']),
     (''alert.severity'', [''extra.alert_severity'']), (''signature'', [''signature'']),
     (''signature_id'', [''signature_id'']), (''note'', [''signature'']),
     (''rule'', [''signature'']), (''event_type'', [''extra.event_type'']),
     (''eventtype'', [''extra.event_type'']), (''severity'', [''severity'']),
     (''source'', [''source'']), (''source_type'', [''source_type'']),
     (''file_path'', [''file_path'']), (''process_path'', [''process_path'']),
     (''command_line'', [''command_line'']), (''process_name'', [''process_name'']),
     (''parent_process_name'', [''parent_process_name'']), (''hostname_net'', [''hostname'']),
     (''dns_query'', [''dns_query'']), (''category'', [''category''])]"

definition aliases_of :: "string \<Rightarrow> string list" where
  "aliases_of key = assoc_default [] key ALIASES"

definition dig :: "uevent \<Rightarrow> string \<Rightarrow> pyval" where
  "dig e path = (if startswith path ''extra.'' then dict_get (ue_extra e) (drop 6 path)
     else dict_get (uevent_fields e) path)"

text \<open>\<open>v in (None, "", [], {})\<close>.\<close>

definition blank :: "pyval \<Rightarrow> bool" where
  "blank v \<longleftrightarrow> v = PNone \<or> v = PStr [] \<or> v = PList [] \<or> v = PDict []"

definition suffix_match :: "string \<Rightarrow> string \<Rightarrow> bool" where
  "suffix_match key k \<longleftrightarrow> lower k = key \<or> endswith (lower k) (CHR ''.'' # key)"

definition has_key :: "string \<Rightarrow> pydict \<Rightarrow> bool" where
  "has_key k m \<longleftrightarrow> assoc k m \<noteq> None"

definition has_field :: "uevent \<Rightarrow> string \<Rightarrow> bool" where
  "has_field e name =
     (let key = lower (strip name) in
      if list_ex (\<lambda>p. dig e p \<noteq> PNone) (aliases_of key) then True
      else if has_key key (uevent_fields e) then dict_get (uevent_fields e) key \<noteq> PNone
      else if has_key name (ue_extra e) \<or> has_key (''win.'' @ name) (ue_extra e) then True
      else list_ex (\<lambda>kv. suffix_match key (fst kv)) (ue_extra e))"

definition get_values :: "uevent \<Rightarrow> string \<Rightarrow> pyval list" where
  "get_values e name =
     (let key = lower (strip name);
          out = filter (\<lambda>v. \<not> blank v) (map (dig e) (aliases_of key))
      in if out \<noteq> [] then out
         else if has_key key (uevent_fields e) \<and> \<not> blank (dict_get (uevent_fields e) key)
         then [dict_get (uevent_fields e) key]
         else let extra = ue_extra e in
           case find_first (\<lambda>c. has_key c extra \<and> dict_get extra c \<noteq> PNone \<and> dict_get extra c \<noteq> PStr [])
                  [name, ''win.'' @ name, lower name, ''win.'' @ lower name] of
             Some c \<Rightarrow> [dict_get extra c]
           | None \<Rightarrow> map snd (filter (\<lambda>(k, v). suffix_match key k \<and> \<not> blank v) extra))"

section \<open>Sigma field matching\<close>

text \<open>
  \<open>app/rules/sigma/matcher.py\<close>: wildcards, modifiers and the predicate a field test compiles to.
  A pattern with wildcards becomes a regular expression over single characters; with
  \<open>re.IGNORECASE\<close> a literal matches up to case, with \<open>re.DOTALL\<close> a dot matches every character.

  The record \<open>pylib\<close> holds the library calls on data from outside: \<open>pl_re_search cased p t\<close> is
  \<open>re.search\<close> with a pattern from a rule (\<open>None\<close>: it does not compile), \<open>pl_cidr\<close> is membership
  of an address in a network (\<open>False\<close> on \<open>ValueError\<close>), \<open>pl_float\<close> is \<open>float(v)\<close> (\<open>None\<close> when it
  raises or is not a number; infinities are outside the model).
\<close>

record pylib =
  pl_re_search :: "bool \<Rightarrow> string \<Rightarrow> string \<Rightarrow> bool option"
  pl_cidr :: "string \<Rightarrow> string \<Rightarrow> bool"
  pl_float :: "pyval \<Rightarrow> rat option"

definition SUPPORTED_MODIFIERS :: "string list" where
  "SUPPORTED_MODIFIERS = [''contains'', ''startswith'', ''endswith'', ''re'', ''all'', ''any'', ''cased'',
     ''cidr'', ''gt'', ''gte'', ''lt'', ''lte'', ''exists'', ''base64offset'', ''windash'',
     ''utf16'', ''utf16le'', ''utf16be'', ''wide'', ''fieldref'']"

definition NUMERIC_MODIFIERS :: "string list" where
  "NUMERIC_MODIFIERS = [''gt'', ''gte'', ''lt'', ''lte'']"

subsection \<open>Wildcards\<close>

datatype wtok = WStar | WAny | WChar char

text \<open>
  The loop of \<open>_wildcard_to_regex\<close>, as the list of pieces it emits: \<open>.*\<close>, \<open>.\<close> or an escaped
  character.
\<close>

fun wildcard_tokens :: "string \<Rightarrow> wtok list" where
  "wildcard_tokens [] = []"
| "wildcard_tokens [c] =
     [if c = CHR ''*'' then WStar else if c = CHR ''?'' then WAny else WChar c]"
| "wildcard_tokens (c # d # s) =
     (if c = backslash \<and> (d = CHR ''*'' \<or> d = CHR ''?'' \<or> d = backslash)
      then WChar d # wildcard_tokens s
      else (if c = CHR ''*'' then WStar else if c = CHR ''?'' then WAny else WChar c)
             # wildcard_tokens (d # s))"

definition same_char :: "bool \<Rightarrow> char \<Rightarrow> char \<Rightarrow> bool" where
  "same_char cased c d \<longleftrightarrow> (if cased then c = d else lower_char c = lower_char d)"

fun tok_rx :: "bool \<Rightarrow> wtok \<Rightarrow> rx" where
  "tok_rx cased WStar = RStar rx_any"
| "tok_rx cased WAny = rx_any"
| "tok_rx cased (WChar c) = RSet (same_char cased c)"

definition wildcard_to_regex :: "bool \<Rightarrow> string \<Rightarrow> rx" where
  "wildcard_to_regex cased pattern = foldr (\<lambda>t r. RSeq (tok_rx cased t) r) (wildcard_tokens pattern) REps"

definition targets :: "pyval \<Rightarrow> string list" where
  "targets v = (case v of PList xs \<Rightarrow> map py_str xs | _ \<Rightarrow> [py_str v])"

definition match_text :: "pylib \<Rightarrow> string \<Rightarrow> string \<Rightarrow> string \<Rightarrow> bool \<Rightarrow> bool" where
  "match_text lib target pattern mode cased =
     (if mode = ''re'' then (case pl_re_search lib cased pattern target of None \<Rightarrow> False | Some b \<Rightarrow> b)
      else let body = wildcard_to_regex cased pattern; dots = RStar rx_any in
        rx_fullmatch
          (if mode = ''contains'' then RSeq dots (RSeq body dots)
           else if mode = ''startswith'' then RSeq body dots
           else if mode = ''endswith'' then RSeq dots body
           else body) target)"

subsection \<open>Base64 and dash variants\<close>

text \<open>\<open>base64.b64encode\<close>, on bytes.\<close>

definition B64 :: string where
  "B64 = ''ABCDEFGHIJKLMNOPQRSTUVWXYZabcdefghijklmnopqrstuvwxyz0123456789+/''"

definition b64_char :: "nat \<Rightarrow> char" where
  "b64_char n = B64 ! n"

fun b64encode :: "string \<Rightarrow> string" where
  "b64encode [] = []"
| "b64encode [a] =
     [b64_char (code a div 4), b64_char (code a mod 4 * 16), CHR ''='', CHR ''='']"
| "b64encode [a, b] =
     [b64_char (code a div 4), b64_char (code a mod 4 * 16 + code b div 16),
      b64_char (code b mod 16 * 4), CHR ''='']"
| "b64encode (a # b # c # s) =
     b64_char (code a div 4) # b64_char (code a mod 4 * 16 + code b div 16) #
     b64_char (code b mod 16 * 4 + code c div 64) # b64_char (code c mod 64) # b64encode s"

definition rstrip_eq :: "string \<Rightarrow> string" where
  "rstrip_eq s = rev (dropWhile (\<lambda>c. c = CHR ''='') (rev s))"

definition base64_variants :: "string \<Rightarrow> string list" where
  "base64_variants v = filter (\<lambda>x. x \<noteq> [])
     (map (\<lambda>(offset, n). rstrip_eq (drop n (b64encode (replicate offset (CHR 0x00) @ v))))
       [(0, 0), (1, 2), (2, 3)])"

text \<open>En dash U+2013 and em dash U+2014, as UTF-8.\<close>

definition windash_variants :: "string \<Rightarrow> string list" where
  "windash_variants v = [v, replace_char CHR ''-'' ''/'' v,
     replace_char CHR ''-'' [CHR 0xE2, CHR 0x80, CHR 0x93] v,
     replace_char CHR ''-'' [CHR 0xE2, CHR 0x80, CHR 0x94] v]"

definition numeric_compare :: "pylib \<Rightarrow> pyval \<Rightarrow> pyval \<Rightarrow> string \<Rightarrow> bool" where
  "numeric_compare lib t p modifier =
     (case (pl_float lib t, pl_float lib p) of
        (Some l, Some r) \<Rightarrow>
          (if modifier = ''gt'' then l > r else if modifier = ''gte'' then l \<ge> r
           else if modifier = ''lt'' then l < r else l \<le> r)
      | _ \<Rightarrow> False)"

subsection \<open>Compiling one field test\<close>

type_synonym epred = "uevent \<Rightarrow> bool"

text \<open>
  The test of one pattern against one target text, with the modifiers; then the whole predicate:
  some (with \<open>all\<close>: every) pattern matches some value.
\<close>

definition match_target :: "pylib \<Rightarrow> string list \<Rightarrow> string \<Rightarrow> bool \<Rightarrow> string \<Rightarrow> pyval \<Rightarrow> bool" where
  "match_target lib mods mode cased target pattern =
     list_ex (\<lambda>candidate.
         if List.member mods ''cidr'' then pl_cidr lib (strip target) candidate
         else if List.member mods ''windash''
           then list_ex (\<lambda>v. match_text lib target v mode cased) (windash_variants candidate)
         else match_text lib target candidate mode cased)
       (if List.member mods ''base64offset'' then base64_variants (py_str pattern) else [py_str pattern])"

definition match_value :: "pylib \<Rightarrow> string list \<Rightarrow> string \<Rightarrow> bool \<Rightarrow> pyval \<Rightarrow> pyval \<Rightarrow> bool" where
  "match_value lib mods mode cased v pattern =
     (case find_first (List.member NUMERIC_MODIFIERS) mods of
        Some m \<Rightarrow> numeric_compare lib v pattern m
      | None \<Rightarrow> list_ex (\<lambda>t. match_target lib mods mode cased t pattern) (targets v))"

definition field_predicate :: "pylib \<Rightarrow> string \<Rightarrow> string list \<Rightarrow> pyval list \<Rightarrow> epred" where
  "field_predicate lib field mods patterns e =
     (if List.member mods ''exists'' then
        list_ex (\<lambda>p. has_field e field = List.member [''true'', ''1'', ''yes''] (lower (strip (py_str p)))) patterns
      else let values = get_values e field;
               mode = (case find_first (List.member [''contains'', ''startswith'', ''endswith'', ''re'']) mods of
                         Some m \<Rightarrow> m | None \<Rightarrow> ''equals'');
               cased = List.member mods ''cased'';
               hits = (\<lambda>p. list_ex (\<lambda>v. match_value lib mods mode cased v p) values)
           in if values = [] then False
              else if List.member mods ''all'' then list_all hits patterns else list_ex hits patterns)"

definition compile_field_match ::
  "pylib \<Rightarrow> string \<Rightarrow> string list \<Rightarrow> pyval \<Rightarrow> epred option \<times> string list" where
  "compile_field_match lib field modifiers patterns =
     (let mods = map lower modifiers;
          unknown = filter (\<lambda>m. \<not> List.member SUPPORTED_MODIFIERS m) mods
      in if unknown \<noteq> [] then
           (None, [''unsupported modifier(s): '' @ join '', '' (str_sort (remdups unknown))])
         else if List.member mods ''fieldref'' then
           (None, [''modifier '' @ squote # ''fieldref'' @ squote # '' not supported''])
         else (Some (field_predicate lib field mods
                (case patterns of PList ps \<Rightarrow> ps | p \<Rightarrow> [p])), []))"

definition level_to_severity :: "string option \<Rightarrow> string" where
  "level_to_severity level = assoc_default ''MEDIUM'' (lower (strip (or_str level [])))
     [(''informational'', ''INFO''), (''low'', ''LOW''), (''medium'', ''MEDIUM''), (''high'', ''HIGH''),
      (''critical'', ''CRITICAL'')]"

section \<open>What a field test means\<close>

text \<open>
  \<open>glob\<close> is the declarative reading of a wildcard pattern; \<open>match_text_glob\<close> shows that the
  generated regular expression with its anchors decides it for every modifier, and
  \<open>match_text_plain\<close> that a pattern without wildcards is plain case-insensitive equality,
  containment, prefix or suffix, backslashes included.
\<close>

subsection \<open>Glob patterns\<close>

fun glob :: "bool \<Rightarrow> wtok list \<Rightarrow> string \<Rightarrow> bool" where
  "glob cased [] s = (s = [])"
| "glob cased (WStar # ts) s = (\<exists>u v. s = u @ v \<and> glob cased ts v)"
| "glob cased (WAny # ts) s = (\<exists>c v. s = c # v \<and> glob cased ts v)"
| "glob cased (WChar d # ts) s = (\<exists>c v. s = c # v \<and> same_char cased d c \<and> glob cased ts v)"

lemma conc_iff: "w \<in> conc A B \<longleftrightarrow> (\<exists>u v. w = u @ v \<and> u \<in> A \<and> v \<in> B)"
  by (auto simp: conc_def)

lemma conc_chars: "w \<in> conc {[c] | c. P c} B \<longleftrightarrow> (\<exists>c v. w = c # v \<and> P c \<and> v \<in> B)"
proof
  assume "\<exists>c v. w = c # v \<and> P c \<and> v \<in> B"
  then obtain c v where "w = [c] @ v" "P c" "v \<in> B" by auto
  then show "w \<in> conc {[c] | c. P c} B" unfolding conc_def by blast
qed (auto simp: conc_def)

lemma lang_tok:
  "lang (tok_rx cased WStar) = UNIV"
  "lang (tok_rx cased WAny) = {[c] | c. True}"
  "lang (tok_rx cased (WChar d)) = {[c] | c. same_char cased d c}"
  using star_any by (simp_all add: rx_any_def)

lemma lang_tokens: "s \<in> lang (foldr (\<lambda>t r. RSeq (tok_rx cased t) r) ts REps) \<longleftrightarrow> glob cased ts s"
proof (induction ts arbitrary: s)
  case (Cons t ts)
  have "s \<in> lang (foldr (\<lambda>t r. RSeq (tok_rx cased t) r) (t # ts) REps) \<longleftrightarrow>
      s \<in> conc (lang (tok_rx cased t)) (lang (foldr (\<lambda>t r. RSeq (tok_rx cased t) r) ts REps))"
    by simp
  also have "\<dots> \<longleftrightarrow> glob cased (t # ts) s"
  proof (cases t)
    case WStar
    then show ?thesis by (simp only: lang_tok conc_iff UNIV_I simp_thms Cons.IH glob.simps)
  next
    case WAny
    then show ?thesis unfolding WAny lang_tok conc_chars Cons.IH by simp
  next
    case (WChar d)
    then show ?thesis unfolding WChar lang_tok conc_chars Cons.IH by simp
  qed
  finally show ?case .
qed simp

lemma lang_wildcard: "s \<in> lang (wildcard_to_regex cased p) \<longleftrightarrow> glob cased (wildcard_tokens p) s"
  by (simp add: wildcard_to_regex_def lang_tokens)

lemma lang_dots: "lang (RStar rx_any) = UNIV"
  by (rule star_any)

text \<open>Whether text may precede and follow the match, per mode.\<close>

definition free_before :: "string \<Rightarrow> bool" where
  "free_before mode \<longleftrightarrow> mode = ''contains'' \<or> mode = ''endswith''"

definition free_after :: "string \<Rightarrow> bool" where
  "free_after mode \<longleftrightarrow> mode = ''contains'' \<or> mode = ''startswith''"

lemma match_text_spec:
  assumes "mode \<noteq> ''re''"
  shows "match_text lib t p mode cased \<longleftrightarrow>
    (\<exists>u w v. t = u @ w @ v \<and> glob cased (wildcard_tokens p) w \<and>
       (u = [] \<or> free_before mode) \<and> (v = [] \<or> free_after mode))"
proof -
  consider "mode = ''contains''" | "mode = ''startswith''" | "mode = ''endswith''"
    | "mode \<noteq> ''contains''" "mode \<noteq> ''startswith''" "mode \<noteq> ''endswith''" by blast
  then show ?thesis
    using assms
    by cases (auto simp: match_text_def Let_def fullmatch_iff conc_iff lang_dots [unfolded lang.simps]
        lang_wildcard free_before_def free_after_def)
qed

subsection \<open>Plain patterns\<close>

text \<open>No wildcard, and no backslash that escapes one or another backslash.\<close>

fun plain_pattern :: "string \<Rightarrow> bool" where
  "plain_pattern [] = True"
| "plain_pattern [c] = (c \<noteq> CHR ''*'' \<and> c \<noteq> CHR ''?'')"
| "plain_pattern (c # d # s) = (c \<noteq> CHR ''*'' \<and> c \<noteq> CHR ''?'' \<and> \<not> (c = backslash \<and> d = backslash) \<and>
     plain_pattern (d # s))"

lemma plain_tokens: "plain_pattern p \<Longrightarrow> wildcard_tokens p = map WChar p"
proof (induction p rule: plain_pattern.induct)
  case (3 c d s)
  then have "d \<noteq> CHR ''*''" "d \<noteq> CHR ''?''" by (cases s; auto)+
  with 3 show ?case by auto
qed auto

lemma glob_chars: "glob cased (map WChar p) s \<longleftrightarrow> list_all2 (same_char cased) p s"
  by (induction p arbitrary: s) (auto simp: list_all2_Cons1)

lemma same_lower: "list_all2 (same_char False) p s \<longleftrightarrow> lower p = lower s"
  by (induction p arbitrary: s) (auto simp: same_char_def lower_def list_all2_Cons1 map_eq_Cons_conv Cons_eq_map_conv)

lemma same_cased: "list_all2 (same_char True) p s \<longleftrightarrow> p = s"
  by (induction p arbitrary: s) (auto simp: same_char_def list_all2_Cons1)

lemma lower_split: "lower t = a @ b \<longleftrightarrow> (\<exists>u v. t = u @ v \<and> a = lower u \<and> b = lower v)"
  unfolding lower_def by (auto simp: map_eq_append_conv)

lemma lower_split2: "a @ b = lower t \<longleftrightarrow> (\<exists>u v. t = u @ v \<and> lower u = a \<and> lower v = b)"
  using lower_split [of t a b] by auto

definition plain_test :: "string \<Rightarrow> string \<Rightarrow> string \<Rightarrow> bool" where
  "plain_test mode p t =
     (if mode = ''contains'' then py_in p t
      else if mode = ''startswith'' then startswith t p
      else if mode = ''endswith'' then endswith t p
      else t = p)"

lemma match_text_plain:
  assumes "mode \<noteq> ''re''" "plain_pattern p"
  shows "match_text lib t p mode cased =
    (if cased then plain_test mode p t else plain_test mode (lower p) (lower t))"
proof -
  have g: "glob cased (wildcard_tokens p) w \<longleftrightarrow> (if cased then w = p else lower w = lower p)" for w
    using plain_tokens [OF assms(2)] by (auto simp: glob_chars same_lower same_cased)
  have ms: "match_text lib t p mode cased \<longleftrightarrow>
      (\<exists>u w v. t = u @ w @ v \<and> (if cased then w = p else lower w = lower p) \<and>
         (u = [] \<or> free_before mode) \<and> (v = [] \<or> free_after mode))"
    unfolding match_text_spec [OF assms(1)] g by simp
  show ?thesis
  proof (cases cased)
    case True
    then show ?thesis unfolding ms plain_test_def
      by (auto simp: free_before_def free_after_def py_in_iff startswith_iff endswith_iff)
  next
    case False
    have "py_in (lower p) (lower t) \<longleftrightarrow> (\<exists>u w v. t = u @ w @ v \<and> lower w = lower p)"
    proof -
      have "py_in (lower p) (lower t) \<longleftrightarrow> (\<exists>a b. a @ (lower p @ b) = lower t)"
        unfolding py_in_iff by metis
      also have "\<dots> \<longleftrightarrow> (\<exists>b u x. t = u @ x \<and> lower x = lower p @ b)"
        unfolding lower_split2 by blast
      also have "\<dots> \<longleftrightarrow> (\<exists>u w v. t = u @ w @ v \<and> lower w = lower p)"
      proof
        assume "\<exists>u w v. t = u @ w @ v \<and> lower w = lower p"
        then obtain u w v where "t = u @ (w @ v)" "lower (w @ v) = lower p @ lower v" by auto
        then show "\<exists>b u x. t = u @ x \<and> lower x = lower p @ b" by blast
      next
        assume "\<exists>b u x. t = u @ x \<and> lower x = lower p @ b"
        then show "\<exists>u w v. t = u @ w @ v \<and> lower w = lower p"
          unfolding lower_split by auto metis
      qed
      finally show ?thesis .
    qed
    moreover have "startswith (lower t) (lower p) \<longleftrightarrow> (\<exists>w v. t = w @ v \<and> lower w = lower p)"
      unfolding startswith_iff lower_split by metis
    moreover have "endswith (lower t) (lower p) \<longleftrightarrow> (\<exists>u w. t = u @ w \<and> lower w = lower p)"
      unfolding endswith_iff lower_split by metis
    ultimately show ?thesis using False unfolding ms plain_test_def
      by (simp add: free_before_def free_after_def)
  qed
qed

end
