(* ===== verification/Sigma_Compiler.thy ===== *)
theory Sigma_Compiler
  imports Sigma_Matcher
begin

section \<open>Compiling a Sigma detection\<close>

text \<open>
  \<open>app/rules/sigma/compiler.py\<close>: selections become predicates on the event, the condition becomes
  an expression over the selections' results.  The closures the parser builds are the syntax
  trees \<open>cond\<close>, which \<open>cond_eval\<close> applies to the results.  Exceptions of the parser are values:
  \<open>ValueError\<close> for what it rejects, \<open>IndexError\<close> when it reads past the last token.
\<close>

subsection \<open>Selections\<close>

definition MAX_FIELD_CHARS :: nat where "MAX_FIELD_CHARS = 200000"

definition keyword_predicate :: "string \<Rightarrow> epred" where
  "keyword_predicate keyword e =
     rx_search (wildcard_to_regex False keyword)
       (take MAX_FIELD_CHARS (searchable_text e @ '' '' @ or_str (ue_raw e) []))"

definition pred_or :: "epred list \<Rightarrow> epred" where
  "pred_or parts e = list_ex (\<lambda>p. p e) parts"

definition pred_and :: "epred list \<Rightarrow> epred" where
  "pred_and parts e = list_all (\<lambda>p. p e) parts"

fun type_name :: "pyval \<Rightarrow> string" where
  "type_name PNone = ''NoneType''"
| "type_name (PBool _) = ''bool''"
| "type_name (PInt _) = ''int''"
| "type_name (PFloat _ _) = ''float''"
| "type_name (PStr _) = ''str''"
| "type_name (PList _) = ''list''"
| "type_name (PDict _) = ''dict''"

text \<open>One item of a dictionary selection: its predicate, or its problems.\<close>

definition field_entry :: "pylib \<Rightarrow> string \<times> pyval \<Rightarrow> epred option \<times> string list" where
  "field_entry lib = (\<lambda>(raw_field, patterns).
     (let parts = split_char CHR ''|'' raw_field; field = hd parts; modifiers = tl parts in
      if List.member [[], ''null''] (lower (strip field)) then
        (Some (case patterns of
           PList ps \<Rightarrow> pred_or (map (\<lambda>p. keyword_predicate (py_str p)) ps)
         | p \<Rightarrow> keyword_predicate (py_str p)), [])
      else (case compile_field_match lib (strip field) modifiers patterns of
           (p, problems) \<Rightarrow>
             if problems \<noteq> [] then (None, map (\<lambda>x. raw_field @ '': '' @ x) problems) else (p, []))))"

definition somes :: "'a option list \<Rightarrow> 'a list" where
  "somes xs = map the (filter (\<lambda>x. x \<noteq> None) xs)"

fun build_selection :: "pylib \<Rightarrow> pyval \<Rightarrow> epred option \<times> string list" where
  "build_selection lib (PDict spec) =
     (let entries = map (field_entry lib) spec;
          predicates = somes (map fst entries);
          unsupported = concat (map snd entries)
      in if predicates = [] then
           (None, if unsupported = [] then [''selection without usable fields''] else unsupported)
         else (Some (pred_and predicates), unsupported))"
| "build_selection lib (PList spec) =
     (let items = map (\<lambda>item. case item of
              PStr s \<Rightarrow> (Some (keyword_predicate s), [])
            | _ \<Rightarrow> build_selection lib item) spec;
          parts = somes (map fst items);
          unsupported = concat (map snd items)
      in if parts = [] then (None, if unsupported = [] then [''empty selection list''] else unsupported)
         else (if unsupported = [] then Some (pred_or parts) else None, unsupported))"
| "build_selection lib (PStr spec) = (Some (keyword_predicate spec), [])"
| "build_selection lib spec = (None, [''unsupported selection type: '' @ type_name spec])"

subsection \<open>Conditions\<close>

datatype quant = QAll | QAny | QNone | QAtLeast nat

datatype cond =
    CSel string
  | CQuant quant "string list"
  | CNot cond
  | CAnd cond cond
  | COr cond cond

text \<open>\<open>s\<close> is \<open>lambda n: results.get(n, False)\<close>.\<close>

fun cond_eval :: "cond \<Rightarrow> (string \<Rightarrow> bool) \<Rightarrow> bool" where
  "cond_eval (CSel n) s = s n"
| "cond_eval (CQuant QAll ns) s = list_all s ns"
| "cond_eval (CQuant QAny ns) s = list_ex s ns"
| "cond_eval (CQuant QNone ns) s = (\<not> list_ex s ns)"
| "cond_eval (CQuant (QAtLeast k) ns) s = (length (filter s ns) \<ge> k)"
| "cond_eval (CNot c) s = (\<not> cond_eval c s)"
| "cond_eval (CAnd a b) s = (cond_eval a s \<and> cond_eval b s)"
| "cond_eval (COr a b) s = (cond_eval a s \<or> cond_eval b s)"

text \<open>\<open>_TOKEN.findall\<close>: parentheses and maximal runs of other non-space characters.\<close>

definition tok_char :: "char \<Rightarrow> bool" where
  "tok_char c \<longleftrightarrow> \<not> is_space c \<and> c \<noteq> CHR ''('' \<and> c \<noteq> CHR '')''"

function tokenize :: "string \<Rightarrow> string list" where
  "tokenize [] = []"
| "tokenize (c # s) =
     (if tok_char c then (c # takeWhile tok_char s) # tokenize (dropWhile tok_char s)
      else if is_space c then tokenize s
      else [c] # tokenize s)"
  by pat_completeness auto
termination
  by (relation "measure length") (auto simp: le_imp_less_Suc length_dropWhile_le)

definition peek_is :: "string \<Rightarrow> string list \<Rightarrow> bool" where
  "peek_is w ts \<longleftrightarrow> (case ts of [] \<Rightarrow> False | t # _ \<Rightarrow> lower t = w)"

text \<open>\<open>re.compile(_wildcard_to_regex(target) + "$", re.IGNORECASE).match(n)\<close>: no \<open>re.DOTALL\<close> here.\<close>

fun line_tok_rx :: "wtok \<Rightarrow> rx" where
  "line_tok_rx WStar = RStar rx_dot"
| "line_tok_rx WAny = rx_dot"
| "line_tok_rx (WChar c) = RSet (same_char False c)"

definition name_matches :: "string \<Rightarrow> string \<Rightarrow> bool" where
  "name_matches target n =
     rx_fullmatch (foldr (\<lambda>t r. RSeq (line_tok_rx t) r) (wildcard_tokens target)
       (RAlt REps (RSet (\<lambda>d. d = CHR 0x0A)))) n"

definition resolve_set :: "string list \<Rightarrow> string \<Rightarrow> string list" where
  "resolve_set names target =
     (if lower target = ''them'' then names else filter (name_matches target) names)"

definition quant_words :: "(string \<times> quant) list" where
  "quant_words = [(''all'', QAll), (''any'', QAny), (''none'', QNone), (''1'', QAtLeast 1),
     (''2'', QAtLeast 2), (''3'', QAtLeast 3), (''4'', QAtLeast 4), (''5'', QAtLeast 5),
     (''6'', QAtLeast 6), (''7'', QAtLeast 7), (''8'', QAtLeast 8), (''9'', QAtLeast 9),
     (''10'', QAtLeast 10)]"

definition FUEL_ERROR :: exn where
  "FUEL_ERROR = OtherError ''fuel''"

text \<open>
  The recursive-descent parser on the remaining tokens.  \<open>not_expr\<close> recurses on the tokens;
  the two \<open>while\<close> loops take a bound \<open>k\<close> on their iterations and \<open>or_expr\<close> a bound on the nesting
  of parentheses, both one more than the number of tokens, which \<open>or_expr_no_fuel\<close> shows to be
  enough.
\<close>

type_synonym cparser = "string list \<Rightarrow> (cond \<times> string list) result"

definition primary :: "string list \<Rightarrow> cparser \<Rightarrow> cparser" where
  "primary names orx ts =
     (case ts of
        [] \<Rightarrow> Inl (ValueError ''unexpected end of condition'')
      | token # rest \<Rightarrow>
          if token = ''('' then
            bind_result (orx rest) (\<lambda>(inner, ts').
              case ts' of
                [] \<Rightarrow> Inl (ValueError ''missing closing parenthesis'')
              | t # ts'' \<Rightarrow> if t = '')'' then Inr (inner, ts'')
                  else Inl (ValueError ''missing closing parenthesis''))
          else if assoc (lower token) quant_words \<noteq> None \<and> peek_is ''of'' rest then
            (case tl rest of
               [] \<Rightarrow> Inl IndexError
             | target # rest' \<Rightarrow>
                 (case resolve_set names target of
                    [] \<Rightarrow> Inl (ValueError (''condition references unknown selection set '' @ repr_str target))
                  | m # ms \<Rightarrow> Inr (CQuant (the (assoc (lower token) quant_words)) (m # ms), rest')))
          else if List.member names token then Inr (CSel token, rest)
          else Inl (ValueError (''condition references unknown selection '' @ repr_str token)))"

fun not_expr :: "cparser \<Rightarrow> cparser" where
  "not_expr prim [] = prim []"
| "not_expr prim (t # ts) =
     (if lower t = ''not''
      then bind_result (not_expr prim ts) (\<lambda>(inner, ts'). Inr (CNot inner, ts'))
      else prim (t # ts))"

primrec binary_loop :: "string \<Rightarrow> (cond \<Rightarrow> cond \<Rightarrow> cond) \<Rightarrow> cparser \<Rightarrow> nat \<Rightarrow> cond \<Rightarrow> cparser" where
  "binary_loop w mk operand 0 left ts = Inl FUEL_ERROR"
| "binary_loop w mk operand (Suc k) left ts =
     (if peek_is w ts
      then bind_result (operand (tl ts)) (\<lambda>(right, ts'). binary_loop w mk operand k (mk left right) ts')
      else Inr (left, ts))"

definition and_expr :: "nat \<Rightarrow> cparser \<Rightarrow> cparser" where
  "and_expr k prim ts =
     bind_result (not_expr prim ts) (\<lambda>(left, ts'). binary_loop ''and'' CAnd (not_expr prim) k left ts')"

primrec or_expr :: "string list \<Rightarrow> nat \<Rightarrow> nat \<Rightarrow> cparser" where
  "or_expr names k 0 ts = Inl FUEL_ERROR"
| "or_expr names k (Suc d) ts =
     bind_result (and_expr k (primary names (or_expr names k d)) ts) (\<lambda>(left, ts').
       binary_loop ''or'' COr (and_expr k (primary names (or_expr names k d))) k left ts')"

definition parse_tokens :: "string list \<Rightarrow> string list \<Rightarrow> cond result" where
  "parse_tokens names ts =
     bind_result (or_expr names (length ts + 1) (length ts + 1) ts) (\<lambda>(c, rest).
       case rest of [] \<Rightarrow> Inr c | t # _ \<Rightarrow> Inl (ValueError (''unexpected token '' @ repr_str t)))"

definition compile_condition :: "string \<Rightarrow> string list \<Rightarrow> cond result" where
  "compile_condition text names =
     (case tokenize text of [] \<Rightarrow> Inl (ValueError ''empty condition'') | t # ts \<Rightarrow> parse_tokens names (t # ts))"

subsection \<open>The detection block\<close>

record detection =
  dt_selections :: "(string \<times> epred) list"
  dt_condition :: "cond option"
  dt_unsupported :: "string list"

definition condition_of :: "pydict \<Rightarrow> pyval" where
  "condition_of d = (case dict_get d ''condition'' of
       PList cs \<Rightarrow> PStr (join '' or '' (map (\<lambda>c. ''('' @ py_str c @ '')'') cs))
     | v \<Rightarrow> v)"

definition compile_detection :: "pylib \<Rightarrow> pyval \<Rightarrow> detection result" where
  "compile_detection lib det = (case det of
     PDict d \<Rightarrow>
       (let built = map (\<lambda>(name, spec). (name, build_selection lib spec)) (filter (\<lambda>kv. fst kv \<noteq> ''condition'') d);
            selections = concat (map (\<lambda>(name, p, _). case p of Some q \<Rightarrow> [(name, q)] | None \<Rightarrow> []) built);
            unsupported = concat (map (\<lambda>(name, _, problems). map (\<lambda>x. name @ '': '' @ x) problems) built)
        in case condition_of d of
             PStr text \<Rightarrow>
               if text = [] then Inr \<lparr>dt_selections = selections, dt_condition = None,
                   dt_unsupported = unsupported @ [''missing condition'']\<rparr>
               else (case compile_condition text (map fst selections) of
                   Inr c \<Rightarrow> Inr \<lparr>dt_selections = selections, dt_condition = Some c, dt_unsupported = unsupported\<rparr>
                 | Inl (ValueError msg) \<Rightarrow> Inr \<lparr>dt_selections = selections, dt_condition = None,
                     dt_unsupported = unsupported @ [''condition: '' @ msg]\<rparr>
                 | Inl x \<Rightarrow> Inl x)
           | _ \<Rightarrow> Inr \<lparr>dt_selections = selections, dt_condition = None,
                   dt_unsupported = unsupported @ [''missing condition'']\<rparr>)
   | _ \<Rightarrow> Inr \<lparr>dt_selections = [], dt_condition = None, dt_unsupported = [''detection block missing'']\<rparr>)"

end
