(* ===== verification/Sigma_Engine.thy ===== *)
theory Sigma_Engine
  imports Sigma_Compiler
begin

section \<open>Sigma rules, loader and engine\<close>

text \<open>
  \<open>app/rules/sigma/model.py\<close>, \<open>loader.py\<close> and \<open>engine.py\<close>.  A rule record holds the compiled
  selections and condition; the loader receives the directory listing with, per file, the parsed
  YAML documents (\<open>None\<close>: unreadable or not YAML) and the digest function used for missing
  identifiers; the engine evaluates the executable rules whose log source fits the event.
\<close>

record sigma_rule =
  sg_id :: string
  sg_title :: string
  sg_level :: string
  sg_description :: string
  sg_status :: string
  sg_author :: string
  sg_references :: "string list"
  sg_tags :: "string list"
  sg_falsepositives :: "string list"
  sg_logsource :: "(string \<times> string) list"
  sg_selections :: "(string \<times> epred) list"
  sg_condition :: "cond option"
  sg_condition_text :: string
  sg_unsupported :: "string list"

definition executable :: "sigma_rule \<Rightarrow> bool" where
  "executable r \<longleftrightarrow> sg_unsupported r = [] \<and> sg_condition r \<noteq> None"

text \<open>\<open>low.split(".", 1)[1].upper()\<close> after the test for \<open>attack.t\<close>.\<close>

definition mitre_techniques :: "string list \<Rightarrow> string list" where
  "mitre_techniques tags = map (\<lambda>t. upper (or_str (snd (split1 CHR ''.'' (lower t))) []))
     (filter (\<lambda>t. startswith (lower t) ''attack.t'') tags)"

record sigma_match =
  sm_rule_id :: string
  sm_title :: string
  sm_level :: string
  sm_description :: string
  sm_mitre_techniques :: "string list"
  sm_tags :: "string list"
  sm_event_id :: string

subsection \<open>Loading\<close>

text \<open>\<open>str(doc.get(k, d))\<close>, \<open>str(doc.get(k, d) or "")\<close> and \<open>[str(x) for x in (doc.get(k) or [])][:n]\<close>.\<close>

definition doc_str :: "pydict \<Rightarrow> string \<Rightarrow> string \<Rightarrow> string" where
  "doc_str d k dflt = py_str (dict_get_or d k (PStr dflt))"

definition doc_str_or :: "pydict \<Rightarrow> string \<Rightarrow> string" where
  "doc_str_or d k = py_str (py_or (dict_get_or d k (PStr [])) (PStr []))"

definition doc_strs :: "pydict \<Rightarrow> string \<Rightarrow> nat \<Rightarrow> string list result" where
  "doc_strs d k n = bind_result (py_iter (py_or (dict_get d k) (PList []))) (\<lambda>xs. Inr (take n (map py_str xs)))"

definition rule_id :: "(string \<Rightarrow> string) \<Rightarrow> pydict \<Rightarrow> string \<Rightarrow> string" where
  "rule_id sha256 d path =
     (if py_truth (dict_get d ''id'') then py_str (dict_get d ''id'')
      else ''sigma-'' @ take 16 (sha256 (doc_str d ''title'' [] @ CHR 0x00 # path)))"

definition build_rule :: "pylib \<Rightarrow> (string \<Rightarrow> string) \<Rightarrow> pyval \<Rightarrow> string \<Rightarrow> sigma_rule option result" where
  "build_rule lib sha256 doc path = (case doc of
     PDict d \<Rightarrow>
       (case dict_get d ''detection'' of
          PDict det \<Rightarrow>
            if \<not> py_truth (dict_get d ''title'') then Inr None
            else bind_result (compile_detection lib (PDict det)) (\<lambda>c.
              bind_result (doc_strs d ''references'' 20) (\<lambda>refs.
              bind_result (doc_strs d ''tags'' 40) (\<lambda>tags.
              bind_result (doc_strs d ''falsepositives'' 10) (\<lambda>fps.
              Inr (Some \<lparr>sg_id = rule_id sha256 d path, sg_title = py_str (dict_get d ''title''),
                sg_level = lower (doc_str d ''level'' ''medium''),
                sg_description = doc_str_or d ''description'',
                sg_status = doc_str d ''status'' ''experimental'', sg_author = doc_str_or d ''author'',
                sg_references = refs, sg_tags = tags, sg_falsepositives = fps,
                sg_logsource = (case dict_get d ''logsource'' of
                  PDict ls \<Rightarrow> map (\<lambda>(k, v). (k, py_str v)) ls | _ \<Rightarrow> []),
                sg_selections = dt_selections c, sg_condition = dt_condition c,
                sg_condition_text = doc_str det ''condition'' [],
                sg_unsupported = dt_unsupported c\<rparr>)))))
        | _ \<Rightarrow> Inr None)
   | _ \<Rightarrow> Inr None)"

text \<open>The loop over the documents of a file, with lists of rules flattened, and over the files.\<close>

definition doc_items :: "pyval \<Rightarrow> pyval list" where
  "doc_items doc = (case doc of PList items \<Rightarrow> items | _ \<Rightarrow> [doc])"

fun build_all :: "(pyval \<Rightarrow> sigma_rule option result) \<Rightarrow> pyval list \<Rightarrow> sigma_rule list result" where
  "build_all f [] = Inr []"
| "build_all f (x # xs) = bind_result (f x) (\<lambda>r. bind_result (build_all f xs) (\<lambda>rs.
     Inr (case r of None \<Rightarrow> rs | Some q \<Rightarrow> q # rs)))"

definition yaml_name :: "string \<Rightarrow> bool" where
  "yaml_name n \<longleftrightarrow> endswith (lower n) ''.yml'' \<or> endswith (lower n) ''.yaml''"

fun load_rules :: "pylib \<Rightarrow> (string \<Rightarrow> string) \<Rightarrow> string \<Rightarrow> (string \<times> pyval list option) list \<Rightarrow> sigma_rule list result" where
  "load_rules lib sha256 dir [] = Inr []"
| "load_rules lib sha256 dir ((name, docs) # files) =
     (if \<not> yaml_name name then load_rules lib sha256 dir files
      else case docs of
        None \<Rightarrow> load_rules lib sha256 dir files
      | Some ds \<Rightarrow>
          bind_result (build_all (\<lambda>item. build_rule lib sha256 item (dir @ ''/'' @ name)) (concat (map doc_items ds))) (\<lambda>rs.
          bind_result (load_rules lib sha256 dir files) (\<lambda>rest. Inr (rs @ rest))))"

subsection \<open>Log sources\<close>

definition PRODUCT_SOURCES :: "(string \<times> string list) list" where
  "PRODUCT_SOURCES =
    [(''windows'', [''windows_event'']), (''linux'', [''syslog'']), (''zeek'', [''zeek'']),
     (''suricata'', [''suricata'']), (''webserver'', [''web'', ''nginx'', ''apache'', ''squid'']),
     (''proxy'', [''web'', ''squid'', ''nginx'']),
     (''firewall'', [''firewall'', ''pfsense'', ''pfirewall'', ''iptables'']),
     (''aegis'', [''json'', ''syslog'', ''windows_event'', ''zeek'', ''suricata'', ''web'', ''firewall'',
        ''pfsense'', ''pfirewall'', ''iptables'', ''nginx'', ''squid''])]"

definition WINDOWS_SERVICE_HINTS :: "(string \<times> string) list" where
  "WINDOWS_SERVICE_HINTS =
    [(''security'', ''security''), (''system'', ''system''), (''application'', ''application''),
     (''sysmon'', ''sysmon''), (''powershell'', ''powershell''),
     (''powershell-classic'', ''windowspowershell''), (''taskscheduler'', ''taskscheduler''),
     (''windefend'', ''windefend''), (''dns-server'', ''dns-server''),
     (''windows firewall'', ''firewall''), (''terminalservices'', ''terminalservices''),
     (''bits-client'', ''bits-client'')]"

definition WINDOWS_CATEGORY_TYPES :: "(string \<times> string list) list" where
  "WINDOWS_CATEGORY_TYPES =
    [(''process_creation'', [''process_creation'']), (''process_termination'', [''process_termination'']),
     (''network_connection'', [''network_connect'']), (''file_creation'', [''file_created'']),
     (''file_event'', [''file_created'', ''file_transfer'']), (''registry_set'', [''registry_set'']),
     (''registry_event'', [''registry_set'', ''registry_delete'']),
     (''service_installation'', [''service_installed'']), (''driver_load'', [''service_installed'']),
     (''scheduled_task'', [''scheduled_task_created'', ''scheduled_task_updated'']),
     (''logon'', [''auth_success'', ''auth_failure'']), (''log_cleared'', [''log_cleared'']),
     (''ps_script'', [''powershell_script_block'', ''powershell_module'']),
     (''dns_query'', [''dns_query''])]"

definition NETWORK_SERVICE_HINTS :: "(string \<times> string list) list" where
  "NETWORK_SERVICE_HINTS =
    [(''dns'', [''dns_query'', ''dns'']), (''http'', [''http_request'', ''http'']),
     (''ssl'', [''tls_handshake'', ''ssl'']),
     (''conn'', [''network_connect'', ''network_denied'', ''conn'']), (''ssh'', [''auth'', ''ssh'']),
     (''alert'', [''alert'', ''ids_notice'']), (''notice'', [''ids_notice''])]"

text \<open>\<open>str(event.extra.get(k) or "")\<close>.\<close>

definition extra_str :: "uevent \<Rightarrow> string \<Rightarrow> string" where
  "extra_str e k = py_str (py_or (dict_get (ue_extra e) k) (PStr []))"

definition ls_field :: "(string \<times> string) list \<Rightarrow> string \<Rightarrow> string" where
  "ls_field ls k = lower (strip (assoc_default [] k ls))"

definition product_matches :: "string \<Rightarrow> uevent \<Rightarrow> bool" where
  "product_matches product e =
     (let st = lower (ue_source_type e);
          allowed = (case assoc product PRODUCT_SOURCES of None \<Rightarrow> [product] | Some a \<Rightarrow> a)
      in List.member allowed st \<or> product = st \<or> product = lower (ue_source e))"

definition category_matches :: "string \<Rightarrow> uevent \<Rightarrow> bool" where
  "category_matches category e =
     (case (if lower (ue_source_type e) = ''windows_event'' then assoc category WINDOWS_CATEGORY_TYPES
            else assoc category NETWORK_SERVICE_HINTS) of
        None \<Rightarrow> False
      | Some types \<Rightarrow> List.member types (extra_str e ''event_type''))"

definition service_matches :: "string \<Rightarrow> uevent \<Rightarrow> bool" where
  "service_matches service e =
     (let st = lower (ue_source_type e) in
      if st = ''windows_event''
      then py_in (assoc_default service service WINDOWS_SERVICE_HINTS) (lower (extra_str e ''channel''))
      else let vals = [extra_str e ''event_type'', extra_str e ''service'', extra_str e ''zeek_log'', st] in
        (case assoc service NETWORK_SERVICE_HINTS of
           Some hint \<Rightarrow> list_ex (List.member hint) vals
         | None \<Rightarrow> List.member vals service))"

definition logsource_matches :: "sigma_rule \<Rightarrow> uevent \<Rightarrow> bool" where
  "logsource_matches r e =
     (let ls = sg_logsource r; product = ls_field ls ''product''; service = ls_field ls ''service'';
          category = ls_field ls ''category''
      in if ls = [] then True
         else (product \<noteq> [] \<longrightarrow> product_matches product e) \<and>
              (category \<noteq> [] \<longrightarrow> category_matches category e) \<and>
              (service \<noteq> [] \<longrightarrow> service_matches service e))"

subsection \<open>Evaluation\<close>

definition selection_results :: "sigma_rule \<Rightarrow> uevent \<Rightarrow> string \<Rightarrow> bool" where
  "selection_results r e n = (case assoc n (sg_selections r) of None \<Rightarrow> False | Some p \<Rightarrow> p e)"

definition match_of :: "sigma_rule \<Rightarrow> uevent \<Rightarrow> sigma_match" where
  "match_of r e = \<lparr>sm_rule_id = sg_id r, sm_title = sg_title r, sm_level = sg_level r,
     sm_description = sg_description r, sm_mitre_techniques = mitre_techniques (sg_tags r),
     sm_tags = sg_tags r, sm_event_id = ue_event_id e\<rparr>"

definition rule_fires :: "sigma_rule \<Rightarrow> uevent \<Rightarrow> bool" where
  "rule_fires r e \<longleftrightarrow> logsource_matches r e \<and>
     (case sg_condition r of None \<Rightarrow> False | Some c \<Rightarrow> cond_eval c (selection_results r e))"

definition evaluate :: "sigma_rule list \<Rightarrow> uevent \<Rightarrow> sigma_match list" where
  "evaluate rules e = map (\<lambda>r. match_of r e) (filter (\<lambda>r. rule_fires r e) (filter executable rules))"

definition get_rule :: "sigma_rule list \<Rightarrow> string \<Rightarrow> sigma_rule option" where
  "get_rule rules i = find_first (\<lambda>r. sg_id r = i) rules"

definition severity_for :: "sigma_rule list \<Rightarrow> string \<Rightarrow> string" where
  "severity_for rules i = level_to_severity (map_option sg_level (get_rule rules i))"

record coverage =
  cv_rules_total :: nat
  cv_rules_executable :: nat
  cv_rules_excluded :: nat
  cv_by_level :: "(string \<times> nat) list"
  cv_mitre_techniques :: "string list"
  cv_excluded :: "(string \<times> string \<times> string list) list"

definition count_by :: "string list \<Rightarrow> (string \<times> nat) list" where
  "count_by ks = fold (\<lambda>k m. assoc_put k (assoc_default 0 k m + 1) m) ks []"

definition engine_coverage :: "sigma_rule list \<Rightarrow> coverage" where
  "engine_coverage rules =
     (let ex = filter executable rules in
      \<lparr>cv_rules_total = length rules, cv_rules_executable = length ex,
       cv_rules_excluded = length rules - length ex,
       cv_by_level = count_by (map sg_level ex),
       cv_mitre_techniques = str_sort (remdups (concat (map (\<lambda>r. mitre_techniques (sg_tags r)) ex))),
       cv_excluded = take 50 (map (\<lambda>r. (sg_id r, sg_title r, sg_unsupported r))
         (filter (\<lambda>r. \<not> executable r) rules))\<rparr>)"

end
