(* ===== verification/Sigma_Condition_Print.thy ===== *)
theory Sigma_Condition_Print
  imports Sigma_Compiler
begin

section \<open>The condition parser\<close>

text \<open>
  First, the two bounds of the parser are never reached (\<open>parse_tokens_no_fuel\<close>): every parser
  consumes a token.  Second, the parser inverts a printer with minimal parentheses
  (\<open>parse_print\<close>): \<open>not\<close> binds tighter than \<open>and\<close>, \<open>and\<close> tighter than \<open>or\<close>, and both are left
  associative.
\<close>

subsection \<open>Every parser consumes a token\<close>

definition consuming :: "cparser \<Rightarrow> bool" where
  "consuming p \<longleftrightarrow> (\<forall>ts c r. p ts = Inr (c, r) \<longrightarrow> length r < length ts)"

lemma consumingD: "consuming p \<Longrightarrow> p ts = Inr (c, r) \<Longrightarrow> length r < length ts"
  by (auto simp: consuming_def)

lemma consuming_primary: "consuming orx \<Longrightarrow> consuming (primary names orx)"
  unfolding consuming_def
proof (intro allI impI)
  fix ts c r
  assume orx: "\<forall>ts c r. orx ts = Inr (c, r) \<longrightarrow> length r < length ts"
    and p: "primary names orx ts = Inr (c, r)"
  obtain token rest where ts: "ts = token # rest" using p by (cases ts) (auto simp: primary_def)
  show "length r < length ts"
  proof (cases "token = ''(''")
    case True
    with p ts obtain inner us where o1: "orx rest = Inr (inner, us)" and
      us: "(case us of [] \<Rightarrow> Inl (ValueError ''missing closing parenthesis'')
        | t # ts'' \<Rightarrow> if t = '')'' then Inr (inner, ts'')
            else Inl (ValueError ''missing closing parenthesis'')) = Inr (c, r)"
      by (auto simp: primary_def)
    then have "length r < length us" by (cases us) (auto split: if_splits)
    with o1 orx ts show ?thesis by fastforce
  next
    case False
    with p ts show ?thesis
      by (cases rest) (auto simp: primary_def peek_is_def split: list.splits if_splits)
  qed
qed

lemma consuming_not: "consuming prim \<Longrightarrow> consuming (not_expr prim)"
  unfolding consuming_def
proof (intro allI impI)
  fix ts c r
  assume prim: "\<forall>ts c r. prim ts = Inr (c, r) \<longrightarrow> length r < length ts"
  show "not_expr prim ts = Inr (c, r) \<Longrightarrow> length r < length ts"
  proof (induction ts arbitrary: c)
    case (Cons t ts)
    then show ?case using prim by (fastforce split: if_splits)
  qed (use prim in fastforce)
qed

lemma binary_loop_length:
  "consuming op \<Longrightarrow> binary_loop w mk op k left ts = Inr (c, r) \<Longrightarrow> length r \<le> length ts"
proof (induction k arbitrary: left ts)
  case (Suc k)
  show ?case
  proof (cases "peek_is w ts")
    case True
    then obtain t ts0 where ts: "ts = t # ts0" by (cases ts) (auto simp: peek_is_def)
    from True Suc.prems(2) obtain right ts' where
      op: "op ts0 = Inr (right, ts')" and l: "binary_loop w mk op k (mk left right) ts' = Inr (c, r)"
      by (auto simp: ts)
    from Suc.IH [OF Suc.prems(1) l] consumingD [OF Suc.prems(1) op] show ?thesis by (simp add: ts)
  next
    case False
    with Suc.prems show ?thesis by simp
  qed
qed simp

lemma consuming_and: "consuming prim \<Longrightarrow> consuming (and_expr k prim)"
  unfolding consuming_def [of "and_expr k prim"]
proof (intro allI impI)
  fix ts c r
  assume prim: "consuming prim" and "and_expr k prim ts = Inr (c, r)"
  then obtain left ts' where "not_expr prim ts = Inr (left, ts')"
    "binary_loop ''and'' CAnd (not_expr prim) k left ts' = Inr (c, r)"
    by (auto simp: and_expr_def)
  then show "length r < length ts"
    using consumingD [OF consuming_not [OF prim]] binary_loop_length [OF consuming_not [OF prim]]
    by (meson le_less_trans)
qed

lemma consuming_or: "consuming (or_expr names k d)"
proof (induction d)
  case 0
  show ?case by (simp add: consuming_def)
next
  case (Suc d)
  let ?andx = "and_expr k (primary names (or_expr names k d))"
  have andx: "consuming ?andx" by (intro consuming_and consuming_primary Suc)
  show ?case unfolding consuming_def
  proof (intro allI impI)
    fix ts c r assume "or_expr names k (Suc d) ts = Inr (c, r)"
    then obtain left ts' where "?andx ts = Inr (left, ts')"
      "binary_loop ''or'' COr ?andx k left ts' = Inr (c, r)" by auto
    then show "length r < length ts"
      using consumingD [OF andx] binary_loop_length [OF andx] by (meson le_less_trans)
  qed
qed

subsection \<open>The bounds are enough\<close>

definition in_bounds :: "nat \<Rightarrow> cparser \<Rightarrow> bool" where
  "in_bounds m p \<longleftrightarrow> (\<forall>ts. length ts \<le> m \<longrightarrow> p ts \<noteq> Inl FUEL_ERROR)"

lemma bind_not_fuel:
  "r \<noteq> Inl x \<Longrightarrow> (\<And>y. r = Inr y \<Longrightarrow> f y \<noteq> Inl x) \<Longrightarrow> bind_result r f \<noteq> Inl x"
  by (cases r) auto

lemma in_bounds_primary:
  assumes "\<And>ts. length ts < length ts0 \<Longrightarrow> orx ts \<noteq> Inl FUEL_ERROR"
  shows "primary names orx ts0 \<noteq> Inl FUEL_ERROR"
proof (cases ts0)
  case (Cons t rest)
  have "orx rest \<noteq> Inl FUEL_ERROR" using assms Cons by simp
  then have "bind_result (orx rest) (\<lambda>(inner, ts'). case ts' of
        [] \<Rightarrow> Inl (ValueError ''missing closing parenthesis'')
      | t # ts'' \<Rightarrow> if t = '')'' then Inr (inner, ts'')
                  else Inl (ValueError ''missing closing parenthesis'')) \<noteq> Inl FUEL_ERROR"
    by (rule bind_not_fuel) (auto simp: FUEL_ERROR_def split: list.splits prod.splits)
  then show ?thesis using Cons
    by (auto simp: primary_def FUEL_ERROR_def split: list.splits)
qed (simp add: primary_def FUEL_ERROR_def)

lemma in_bounds_not: "in_bounds m prim \<Longrightarrow> in_bounds m (not_expr prim)"
proof -
  assume p: "in_bounds m prim"
  have "length ts \<le> m \<Longrightarrow> not_expr prim ts \<noteq> Inl FUEL_ERROR" for ts
  proof (induction ts)
    case Nil
    then show ?case using p by (simp add: in_bounds_def)
  next
    case (Cons t ts)
    then have "bind_result (not_expr prim ts) (\<lambda>(inner, ts'). Inr (CNot inner, ts')) \<noteq> Inl FUEL_ERROR"
      by (intro bind_not_fuel) auto
    then show ?case using p Cons.prems by (auto simp: in_bounds_def)
  qed
  then show ?thesis by (simp add: in_bounds_def)
qed

lemma in_bounds_loop:
  assumes "in_bounds m op" "consuming op"
  shows "length ts \<le> m \<Longrightarrow> length ts < k \<Longrightarrow> binary_loop w mk op k left ts \<noteq> Inl FUEL_ERROR"
proof (induction k arbitrary: left ts)
  case (Suc k)
  show ?case
  proof (cases "peek_is w ts")
    case True
    then obtain t ts0 where ts: "ts = t # ts0" by (cases ts) (auto simp: peek_is_def)
    have "bind_result (op ts0) (\<lambda>(right, ts'). binary_loop w mk op k (mk left right) ts') \<noteq> Inl FUEL_ERROR"
    proof (rule bind_not_fuel)
      show "op ts0 \<noteq> Inl FUEL_ERROR" using assms(1) Suc.prems by (simp add: in_bounds_def ts)
      fix y assume y: "op ts0 = Inr y"
      obtain right ts' where "y = (right, ts')" by (cases y)
      with y consumingD [OF assms(2)] have "length ts' < length ts0" by simp
      with Suc.IH [of ts'] Suc.prems ts \<open>y = (right, ts')\<close>
      show "(case y of (right, ts') \<Rightarrow> binary_loop w mk op k (mk left right) ts') \<noteq> Inl FUEL_ERROR" by simp
    qed
    with True show ?thesis by (simp add: ts)
  next
    case False
    then show ?thesis by simp
  qed
qed simp

lemma in_bounds_and:
  assumes "in_bounds m prim" "consuming prim" "m < k"
  shows "in_bounds m (and_expr k prim)"
  unfolding in_bounds_def
proof (intro allI impI)
  fix ts :: "string list"
  assume m: "length ts \<le> m"
  have nb: "in_bounds m (not_expr prim)" and nc: "consuming (not_expr prim)"
    using in_bounds_not consuming_not assms by blast+
  show "and_expr k prim ts \<noteq> Inl FUEL_ERROR"
    unfolding and_expr_def
  proof (rule bind_not_fuel)
    show "not_expr prim ts \<noteq> Inl FUEL_ERROR" using nb m by (simp add: in_bounds_def)
    fix y assume "not_expr prim ts = Inr y"
    moreover obtain left ts' where y: "y = (left, ts')" by (cases y)
    ultimately have "length ts' < length ts" using consumingD [OF nc] by simp
    then show "(case y of (left, ts') \<Rightarrow> binary_loop ''and'' CAnd (not_expr prim) k left ts') \<noteq> Inl FUEL_ERROR"
      using in_bounds_loop [OF nb nc, of ts' k] m assms(3) y by simp
  qed
qed

lemma in_bounds_or: "m < k \<Longrightarrow> m < d \<Longrightarrow> in_bounds m (or_expr names k d)"
proof (induction d arbitrary: m)
  case (Suc d)
  let ?prim = "primary names (or_expr names k d)"
  have pc: "consuming ?prim" by (intro consuming_primary consuming_or)
  have "in_bounds m ?prim" unfolding in_bounds_def
  proof (intro allI impI in_bounds_primary)
    fix ts ts' :: "string list"
    assume "length ts \<le> m" "length ts' < length ts"
    then have "length ts' \<le> m - 1" "m - 1 < k" "m - 1 < d" using Suc.prems by linarith+
    then show "or_expr names k d ts' \<noteq> Inl FUEL_ERROR"
      using Suc.IH [of "m - 1"] by (simp add: in_bounds_def)
  qed
  then have ab: "in_bounds m (and_expr k ?prim)" and ac: "consuming (and_expr k ?prim)"
    using in_bounds_and pc consuming_and Suc.prems by blast+
  show ?case unfolding in_bounds_def
  proof (intro allI impI)
    fix ts :: "string list" assume m: "length ts \<le> m"
    show "or_expr names k (Suc d) ts \<noteq> Inl FUEL_ERROR"
      unfolding or_expr.simps
    proof (rule bind_not_fuel)
      show "and_expr k ?prim ts \<noteq> Inl FUEL_ERROR" using ab m by (simp add: in_bounds_def)
      fix y assume "and_expr k ?prim ts = Inr y"
      moreover obtain left ts' where y: "y = (left, ts')" by (cases y)
      ultimately have "length ts' < length ts" using consumingD [OF ac] by simp
      then show "(case y of (left, ts') \<Rightarrow> binary_loop ''or'' COr (and_expr k ?prim) k left ts') \<noteq> Inl FUEL_ERROR"
        using in_bounds_loop [OF ab ac, of ts' k] m Suc.prems y by simp
    qed
  qed
qed simp

lemma parse_tokens_no_fuel: "parse_tokens names ts \<noteq> Inl FUEL_ERROR"
proof -
  have "or_expr names (length ts + 1) (length ts + 1) ts \<noteq> Inl FUEL_ERROR"
    using in_bounds_or [of "length ts" "length ts + 1" "length ts + 1" names] by (simp add: in_bounds_def)
  then show ?thesis unfolding parse_tokens_def
    by (rule bind_not_fuel) (auto simp: FUEL_ERROR_def split: list.split prod.split)
qed

section \<open>Printing and parsing conditions\<close>

text \<open>
  \<open>csrc\<close> is a condition as a rule author writes it (a quantifier keeps its word and its target),
  \<open>pr\<close> prints it with as few parentheses as the precedences allow (0: \<open>or\<close>, 1: \<open>and\<close>, 2: \<open>not\<close>
  and below) and \<open>denote\<close> is its meaning over the given selections.
\<close>

datatype csrc =
    SSel string
  | SQuant string string
  | SNot csrc
  | SAnd csrc csrc
  | SOr csrc csrc

definition paren :: "bool \<Rightarrow> string list \<Rightarrow> string list" where
  "paren b ts = (if b then [''(''] @ ts @ ['')''] else ts)"

fun pr :: "nat \<Rightarrow> csrc \<Rightarrow> string list" where
  "pr p (SSel n) = [n]"
| "pr p (SQuant w t) = [w, ''of'', t]"
| "pr p (SNot e) = ''not'' # pr 2 e"
| "pr p (SAnd a b) = paren (p > 1) (pr 1 a @ [''and''] @ pr 2 b)"
| "pr p (SOr a b) = paren (p > 0) (pr 0 a @ [''or''] @ pr 1 b)"

fun denote :: "string list \<Rightarrow> csrc \<Rightarrow> cond" where
  "denote names (SSel n) = CSel n"
| "denote names (SQuant w t) = CQuant (the (assoc (lower w) quant_words)) (resolve_set names t)"
| "denote names (SNot e) = CNot (denote names e)"
| "denote names (SAnd a b) = CAnd (denote names a) (denote names b)"
| "denote names (SOr a b) = COr (denote names a) (denote names b)"

text \<open>Selections exist and are not named like a word of the grammar; targets match something.\<close>

fun wf_src :: "string list \<Rightarrow> csrc \<Rightarrow> bool" where
  "wf_src names (SSel n) \<longleftrightarrow> n \<in> set names \<and> lower n \<noteq> ''not'' \<and> n \<noteq> ''('' \<and> assoc (lower n) quant_words = None"
| "wf_src names (SQuant w t) \<longleftrightarrow> assoc (lower w) quant_words \<noteq> None \<and> resolve_set names t \<noteq> []"
| "wf_src names (SNot e) \<longleftrightarrow> wf_src names e"
| "wf_src names (SAnd a b) \<longleftrightarrow> wf_src names a \<and> wf_src names b"
| "wf_src names (SOr a b) \<longleftrightarrow> wf_src names a \<and> wf_src names b"

fun dep :: "nat \<Rightarrow> csrc \<Rightarrow> nat" where
  "dep p (SSel n) = 0"
| "dep p (SQuant w t) = 0"
| "dep p (SNot e) = dep 2 e"
| "dep p (SAnd a b) = (if p > 1 then 1 else 0) + max (dep 1 a) (dep 2 b)"
| "dep p (SOr a b) = (if p > 0 then 1 else 0) + max (dep 0 a) (dep 1 b)"

fun nodes :: "csrc \<Rightarrow> nat" where
  "nodes (SSel n) = 1"
| "nodes (SQuant w t) = 1"
| "nodes (SNot e) = nodes e + 1"
| "nodes (SAnd a b) = nodes a + nodes b + 1"
| "nodes (SOr a b) = nodes a + nodes b + 1"

fun ands :: "csrc \<Rightarrow> nat" where
  "ands (SAnd a b) = ands a + 1"
| "ands _ = 0"

fun ors :: "csrc \<Rightarrow> nat" where
  "ors (SOr a b) = ors a + 1"
| "ors _ = 0"

lemma ands_nodes: "ands e < nodes e" "ors e < nodes e"
  by (induction e) auto

lemma nodes_le_length: "nodes e \<le> length (pr p e)"
proof (induction e arbitrary: p)
  case (SAnd a b)
  from SAnd(1) [of 1] SAnd(2) [of 2] show ?case by (simp add: paren_def)
next
  case (SOr a b)
  from SOr(1) [of 0] SOr(2) [of 1] show ?case by (simp add: paren_def)
next
  case (SNot e)
  from SNot [of 2] show ?case by simp
qed auto

lemma dep_le_length: "dep p e \<le> length (pr p e)"
proof (induction e arbitrary: p)
  case (SAnd a b)
  from SAnd(1) [of 1] SAnd(2) [of 2] show ?case by (auto simp: paren_def)
next
  case (SOr a b)
  from SOr(1) [of 0] SOr(2) [of 1] show ?case by (auto simp: paren_def)
next
  case (SNot e)
  from SNot [of 2] show ?case by simp
qed auto

lemma word_facts: "lower ''('' \<noteq> ''not''" "lower ''and'' = ''and''" "lower ''or'' = ''or''"
  "lower ''not'' = ''not''" "lower ''of'' = ''of''" "lower '')'' \<noteq> ''and''" "lower '')'' \<noteq> ''or''"
  "lower ''or'' \<noteq> ''and''" "assoc ''not'' quant_words = None" "assoc (lower ''('') quant_words = None"
  by code_simp+

lemma quant_not_special: "assoc (lower w) quant_words \<noteq> None \<Longrightarrow> lower w \<noteq> ''not'' \<and> w \<noteq> ''(''"
  using word_facts(9,10) by metis

subsection \<open>The inverse\<close>

definition and_from :: "string list \<Rightarrow> nat \<Rightarrow> nat \<Rightarrow> nat \<Rightarrow> cparser" where
  "and_from names k d j ts =
     bind_result (not_expr (primary names (or_expr names k d)) ts)
       (\<lambda>(l, ts'). binary_loop ''and'' CAnd (not_expr (primary names (or_expr names k d))) j l ts')"

definition or_from :: "string list \<Rightarrow> nat \<Rightarrow> nat \<Rightarrow> nat \<Rightarrow> cparser" where
  "or_from names k d j ts =
     bind_result (and_expr k (primary names (or_expr names k d)) ts)
       (\<lambda>(l, ts'). binary_loop ''or'' COr (and_expr k (primary names (or_expr names k d))) j l ts')"

lemma and_expr_from: "and_expr k (primary names (or_expr names k d)) = and_from names k d k"
  by (simp add: and_expr_def and_from_def fun_eq_iff)

lemma or_expr_from: "or_expr names k (Suc d) = or_from names k d k"
  by (simp add: or_from_def fun_eq_iff)

definition reads_not :: "string list \<Rightarrow> nat \<Rightarrow> csrc \<Rightarrow> bool" where
  "reads_not names k e \<longleftrightarrow> (\<forall>d rest. dep 2 e \<le> d \<longrightarrow>
     not_expr (primary names (or_expr names k d)) (pr 2 e @ rest) = Inr (denote names e, rest))"

definition reads_and :: "string list \<Rightarrow> nat \<Rightarrow> csrc \<Rightarrow> bool" where
  "reads_and names k e \<longleftrightarrow> (\<forall>d j rest. dep 1 e \<le> d \<longrightarrow>
     and_from names k d (j + ands e) (pr 1 e @ rest) =
       binary_loop ''and'' CAnd (not_expr (primary names (or_expr names k d))) j (denote names e) rest)"

definition reads_or :: "string list \<Rightarrow> nat \<Rightarrow> csrc \<Rightarrow> bool" where
  "reads_or names k e \<longleftrightarrow> (\<forall>d j rest. dep 0 e \<le> d \<longrightarrow> \<not> peek_is ''and'' rest \<longrightarrow>
     or_from names k d (j + ors e) (pr 0 e @ rest) =
       binary_loop ''or'' COr (and_expr k (primary names (or_expr names k d))) j (denote names e) rest)"

lemma and_expr_reads:
  assumes "reads_and names k e" "ands e < k" "dep 1 e \<le> d" "\<not> peek_is ''and'' rest"
  shows "and_expr k (primary names (or_expr names k d)) (pr 1 e @ rest) = Inr (denote names e, rest)"
proof -
  obtain j where j: "k = Suc j + ands e" using assms(2) by (metis add.commute less_natE add_Suc)
  have "and_from names k d k (pr 1 e @ rest) = and_from names k d (Suc j + ands e) (pr 1 e @ rest)"
    by (subst (2) j) simp
  also have "\<dots> = Inr (denote names e, rest)"
    using assms(1,3,4) unfolding reads_and_def by (simp del: add_Suc)
  finally show ?thesis by (simp add: and_expr_from)
qed

lemma or_expr_reads:
  assumes "reads_or names k e" "ors e < k" "dep 0 e \<le> d" "\<not> peek_is ''and'' rest" "\<not> peek_is ''or'' rest"
  shows "or_expr names k (Suc d) (pr 0 e @ rest) = Inr (denote names e, rest)"
proof -
  obtain j where j: "k = Suc j + ors e" using assms(2) by (metis add.commute less_natE add_Suc)
  have "or_from names k d k (pr 0 e @ rest) = or_from names k d (Suc j + ors e) (pr 0 e @ rest)"
    by (subst (2) j) simp
  also have "\<dots> = Inr (denote names e, rest)"
    using assms(1,3,4,5) unfolding reads_or_def by (simp del: add_Suc)
  finally show ?thesis by (simp only: or_expr_from)
qed

text \<open>What a smaller precedence level reads, the next one reads.\<close>

lemma reads_and_from_not:
  assumes "reads_not names k e" "pr 1 e = pr 2 e" "dep 1 e = dep 2 e" "ands e = 0"
  shows "reads_and names k e"
  using assms by (simp add: reads_and_def reads_not_def and_from_def)

lemma reads_or_from_and:
  assumes "reads_and names k e" "pr 0 e = pr 1 e" "dep 0 e = dep 1 e" "ors e = 0" "ands e < k"
  shows "reads_or names k e"
  using and_expr_reads [OF assms(1,5)] assms(2-4) by (simp add: reads_or_def or_from_def)

lemma reads_parens:
  assumes "reads_or names k e" "ors e < k" "pr 2 e = ''('' # pr 0 e @ ['')'']" "dep 2 e = Suc (dep 0 e)"
  shows "reads_not names k e"
  unfolding reads_not_def
proof (intro allI impI)
  fix d rest assume "dep 2 e \<le> d"
  then obtain d' where d: "d = Suc d'" "dep 0 e \<le> d'" using assms(4) by (cases d) auto
  have "or_expr names k d (pr 0 e @ ('')'' # rest)) = Inr (denote names e, '')'' # rest)"
    unfolding d(1) by (rule or_expr_reads [OF assms(1,2) d(2)]) (simp_all add: peek_is_def word_facts)
  then show "not_expr (primary names (or_expr names k d)) (pr 2 e @ rest) = Inr (denote names e, rest)"
    by (simp add: assms(3) primary_def word_facts)
qed

lemma reads_all:
  "wf_src names e \<Longrightarrow> nodes e < k \<Longrightarrow> reads_not names k e \<and> reads_and names k e \<and> reads_or names k e"
proof (induction e)
  case (SSel n)
  then have "reads_not names k (SSel n)"
    by (auto simp: reads_not_def primary_def)
  then show ?case using SSel reads_and_from_not reads_or_from_and by simp
next
  case (SQuant w t)
  obtain q where q: "assoc (lower w) quant_words = Some q" using SQuant by auto
  have "lower w \<noteq> ''not''" "w \<noteq> ''(''" using quant_not_special SQuant by auto
  moreover obtain m ms where "resolve_set names t = m # ms" using SQuant by (cases "resolve_set names t") auto
  ultimately have "reads_not names k (SQuant w t)"
    using q by (simp add: reads_not_def primary_def peek_is_def word_facts)
  then show ?case using SQuant reads_and_from_not reads_or_from_and by simp
next
  case (SNot e)
  then have "reads_not names k e" by simp
  then have "reads_not names k (SNot e)" by (simp add: reads_not_def word_facts)
  then show ?case using SNot reads_and_from_not reads_or_from_and by simp
next
  case (SAnd a b)
  let ?e = "SAnd a b"
  have a: "reads_and names k a" and b: "reads_not names k b" using SAnd by auto
  have an: "reads_and names k ?e" unfolding reads_and_def
  proof (intro allI impI)
    fix d j rest assume d: "dep 1 ?e \<le> d"
    have "and_from names k d (Suc j + ands a) (pr 1 a @ (''and'' # pr 2 b @ rest)) =
        binary_loop ''and'' CAnd (not_expr (primary names (or_expr names k d))) (Suc j) (denote names a)
          (''and'' # pr 2 b @ rest)"
      by (rule a [unfolded reads_and_def, rule_format]) (use d in simp)
    also have "\<dots> = binary_loop ''and'' CAnd (not_expr (primary names (or_expr names k d))) j (denote names ?e) rest"
      using b d unfolding reads_not_def by (simp add: peek_is_def word_facts)
    finally show "and_from names k d (j + ands ?e) (pr 1 ?e @ rest) =
        binary_loop ''and'' CAnd (not_expr (primary names (or_expr names k d))) j (denote names ?e) rest"
      by (simp add: paren_def)
  qed
  moreover have "ands ?e < k" using ands_nodes(1) [of ?e] SAnd.prems(2) by linarith
  ultimately have or: "reads_or names k ?e" by (intro reads_or_from_and) (simp_all add: paren_def)
  moreover have "reads_not names k ?e"
    by (rule reads_parens [OF or]) (use SAnd.prems(2) in \<open>simp_all add: paren_def\<close>)
  ultimately show ?case using an by blast
next
  case (SOr a b)
  let ?e = "SOr a b"
  have a: "reads_or names k a" and b: "reads_and names k b" using SOr by auto
  have bk: "ands b < k" using ands_nodes(1) [of b] SOr.prems(2) by simp
  have or: "reads_or names k ?e" unfolding reads_or_def
  proof (intro allI impI)
    fix d j rest assume d: "dep 0 ?e \<le> d" and na: "\<not> peek_is ''and'' rest"
    let ?ax = "and_expr k (primary names (or_expr names k d))"
    have "or_from names k d (Suc j + ors a) (pr 0 a @ (''or'' # pr 1 b @ rest)) =
        binary_loop ''or'' COr ?ax (Suc j) (denote names a) (''or'' # pr 1 b @ rest)"
      by (rule a [unfolded reads_or_def, rule_format]) (use d in \<open>simp_all add: peek_is_def word_facts\<close>)
    also have "\<dots> = binary_loop ''or'' COr ?ax j (denote names ?e) rest"
      using and_expr_reads [OF b bk _ na, of d] d by (simp add: peek_is_def word_facts)
    finally show "or_from names k d (j + ors ?e) (pr 0 ?e @ rest) =
        binary_loop ''or'' COr ?ax j (denote names ?e) rest"
      by (simp add: paren_def)
  qed
  have "ors ?e < k" using ands_nodes(2) [of ?e] SOr.prems(2) by linarith
  then have no: "reads_not names k ?e" by (intro reads_parens [OF or]) (simp_all add: paren_def)
  then have "reads_and names k ?e" by (intro reads_and_from_not) (simp_all add: paren_def)
  with or no show ?case by blast
qed

lemma parse_print:
  assumes "wf_src names e"
  shows "parse_tokens names (pr 0 e) = Inr (denote names e)"
proof -
  let ?n = "length (pr 0 e)"
  have n: "nodes e < ?n + 1" using nodes_le_length [of e 0] by simp
  then have "ors e < ?n + 1" using ands_nodes(2) [of e] by linarith
  moreover have "dep 0 e \<le> ?n" by (rule dep_le_length)
  ultimately have "or_expr names (?n + 1) (Suc ?n) (pr 0 e @ []) = Inr (denote names e, [])"
    using reads_all [OF assms n] by (intro or_expr_reads) (simp_all add: peek_is_def)
  then have "or_expr names (?n + 1) (?n + 1) (pr 0 e) = Inr (denote names e, [])"
    by (simp only: append_Nil2 Suc_eq_plus1)
  then show ?thesis
    unfolding parse_tokens_def by (simp only: bind_result.simps prod.case list.case)
qed

end
