(* ===== verification/Sigma_Properties.thy ===== *)
theory Sigma_Properties
  imports Sigma_Engine Sigma_Condition_Print
begin

section \<open>Properties of the Sigma engine\<close>

text \<open>
  Field tests mean what Sigma says they mean; conditions are parsed with the documented
  precedences and always end; a rule with something the compiler does not support never fires;
  Base64 variants are found when the encoded value fills whole groups; and three places where
  the code does not do what it says.
\<close>

subsection \<open>Tokens of a printed condition\<close>

definition word_token :: "string \<Rightarrow> bool" where
  "word_token t \<longleftrightarrow> t \<noteq> [] \<and> list_all tok_char t"

definition clean_token :: "string \<Rightarrow> bool" where
  "clean_token t \<longleftrightarrow> word_token t \<or> t = ''('' \<or> t = '')''"

lemma paren_chars: "\<not> tok_char CHR ''(''" "\<not> tok_char CHR '')''" "\<not> is_space CHR ''(''" "\<not> is_space CHR '')''"
  "\<not> tok_char CHR '' ''" "is_space CHR '' ''"
  by code_simp+

lemma tokenize_word:
  assumes "word_token t" "s = [] \<or> \<not> tok_char (hd s)"
  shows "tokenize (t @ s) = t # tokenize s"
proof -
  obtain c u where t: "t = c # u" "tok_char c" "list_all tok_char u"
    using assms(1) by (cases t) (auto simp: word_token_def)
  have "takeWhile tok_char (u @ s) = u" "dropWhile tok_char (u @ s) = s"
    using t(3) assms(2) by (induction u) (auto simp: dropWhile_id takeWhile_eq_Nil_iff)
  then show ?thesis using t by simp
qed

lemma tokenize_token:
  assumes "clean_token t"
  shows "tokenize (t @ CHR '' '' # s) = t # tokenize s" "tokenize t = [t]"
proof -
  have sp: "tokenize (CHR '' '' # s) = tokenize s" using paren_chars by simp
  show "tokenize (t @ CHR '' '' # s) = t # tokenize s"
    using assms tokenize_word [of t "CHR '' '' # s"] paren_chars sp by (auto simp: clean_token_def)
  show "tokenize t = [t]"
    using assms tokenize_word [of t "[]"] paren_chars by (auto simp: clean_token_def)
qed

lemma join_cons: "join sep (x # y # xs) = x @ sep @ join sep (y # xs)"
  by simp

lemma tokenize_join: "list_all clean_token ts \<Longrightarrow> tokenize (join '' '' ts) = ts"
proof (induction ts)
  case (Cons t ts)
  then show ?case
  proof (cases ts)
    case Nil
    with Cons.prems show ?thesis by (simp add: tokenize_token)
  next
    case (Cons u us)
    with Cons.IH Cons.prems show ?thesis by (simp add: tokenize_token(1))
  qed
qed simp

text \<open>The names, quantifier words and targets of a condition are tokens.\<close>

fun clean_src :: "csrc \<Rightarrow> bool" where
  "clean_src (SSel n) \<longleftrightarrow> word_token n"
| "clean_src (SQuant w t) \<longleftrightarrow> word_token w \<and> word_token t"
| "clean_src (SNot e) \<longleftrightarrow> clean_src e"
| "clean_src (SAnd a b) \<longleftrightarrow> clean_src a \<and> clean_src b"
| "clean_src (SOr a b) \<longleftrightarrow> clean_src a \<and> clean_src b"

lemma clean_words: "word_token ''of''" "word_token ''not''" "word_token ''and''" "word_token ''or''"
  by code_simp+

lemma clean_pr: "clean_src e \<Longrightarrow> list_all clean_token (pr p e)"
  by (induction e arbitrary: p) (auto simp: paren_def clean_words clean_token_def)

text \<open>The reading of a condition over the results of the selections.\<close>

fun meaning :: "string list \<Rightarrow> (string \<Rightarrow> bool) \<Rightarrow> csrc \<Rightarrow> bool" where
  "meaning names s (SSel n) = s n"
| "meaning names s (SQuant w t) =
     (let ns = resolve_set names t; hits = length (filter s ns) in
      case assoc (lower w) quant_words of
        None \<Rightarrow> False | Some QAll \<Rightarrow> hits = length ns | Some QAny \<Rightarrow> hits > 0
      | Some QNone \<Rightarrow> hits = 0 | Some (QAtLeast k) \<Rightarrow> hits \<ge> k)"
| "meaning names s (SNot e) = (\<not> meaning names s e)"
| "meaning names s (SAnd a b) = (meaning names s a \<and> meaning names s b)"
| "meaning names s (SOr a b) = (meaning names s a \<or> meaning names s b)"

lemma filter_all: "length (filter p xs) = length xs \<longleftrightarrow> list_all p xs"
  by (metis filter_True list_all_iff filter_id_conv length_filter_less less_irrefl_nat)

lemma filter_some: "0 < length (filter p xs) \<longleftrightarrow> list_ex p xs"
  by (auto simp: list_ex_iff filter_empty_conv)

lemma quant_eval:
  "cond_eval (CQuant q ns) s = (let hits = length (filter s ns) in
     case q of QAll \<Rightarrow> hits = length ns | QAny \<Rightarrow> hits > 0 | QNone \<Rightarrow> hits = 0 | QAtLeast k \<Rightarrow> hits \<ge> k)"
  using filter_all [of s ns] filter_some [of s ns] by (cases q) auto

lemma denote_meaning: "wf_src names e \<Longrightarrow> cond_eval (denote names e) s = meaning names s e"
proof (induction e)
  case (SQuant w t)
  then obtain q where "assoc (lower w) quant_words = Some q" by auto
  then show ?case by (simp add: quant_eval Let_def del: cond_eval.simps split: quant.split)
qed auto

text \<open>
  C8: A condition printed with spaces between its words and no more parentheses than the
  precedences (\<open>not\<close> over \<open>and\<close> over \<open>or\<close>) require is compiled to a condition that is true
  exactly when the reading of the source says so: selections by their result, quantifiers by the
  number of selections of their set that match, whatever the results are.
\<close>

theorem condition_means_what_it_says:
  assumes "wf_src names e" "clean_src e"
  shows "\<exists>c. compile_condition (join '' '' (pr 0 e)) names = Inr c \<and>
    (\<forall>results. cond_eval c results = meaning names results e)"
proof -
  have tk: "tokenize (join '' '' (pr 0 e)) = pr 0 e" by (rule tokenize_join [OF clean_pr [OF assms(2)]])
  have ne: "pr 0 e \<noteq> []" using nodes_le_length [of e 0] by (cases e) auto
  have "compile_condition (join '' '' (pr 0 e)) names = Inr (denote names e)"
    using ne parse_print [OF assms(1)] by (auto simp: compile_condition_def tk split: list.split)
  then show ?thesis using denote_meaning [OF assms(1)] by blast
qed

theorem condition_means_what_it_says_witness:
  "\<exists>c. compile_condition ''( sel1 or sel2 ) and not 1 of filter*'' [''sel1'', ''sel2'', ''filter_a''] = Inr c \<and>
    (\<forall>results. cond_eval c results = meaning [''sel1'', ''sel2'', ''filter_a''] results
      (SAnd (SOr (SSel ''sel1'') (SSel ''sel2'')) (SNot (SQuant ''1'' ''filter*''))))"
proof -
  have wf: "wf_src [''sel1'', ''sel2'', ''filter_a'']
      (SAnd (SOr (SSel ''sel1'') (SSel ''sel2'')) (SNot (SQuant ''1'' ''filter*'')))"
    "clean_src (SAnd (SOr (SSel ''sel1'') (SSel ''sel2'')) (SNot (SQuant ''1'' ''filter*'')))"
    by code_simp+
  have pr: "join '' '' (pr 0 (SAnd (SOr (SSel ''sel1'') (SSel ''sel2'')) (SNot (SQuant ''1'' ''filter*''))))
      = ''( sel1 or sel2 ) and not 1 of filter*''"
    by code_simp
  show ?thesis using condition_means_what_it_says [OF wf] unfolding pr .
qed


subsection \<open>Text tests\<close>

text \<open>What \<open>field|mode\<close> requires of one pattern: some value of the field passes, up to case.\<close>

definition field_passes :: "uevent \<Rightarrow> string \<Rightarrow> string \<Rightarrow> string \<Rightarrow> bool" where
  "field_passes e field mode p =
     list_ex (\<lambda>v. list_ex (\<lambda>t. plain_test mode (lower p) (lower t)) (targets v)) (get_values e field)"

definition text_modes :: "string list" where
  "text_modes = [''contains'', ''startswith'', ''endswith'']"

definition text_mods :: "string \<Rightarrow> bool \<Rightarrow> string list" where
  "text_mods mode every = mode # (if every then [''all''] else [])"

definition plain_mods :: "string \<Rightarrow> bool \<Rightarrow> bool" where
  "plain_mods mode every \<longleftrightarrow> (let mods = text_mods mode every in
      map lower mods = mods \<and> filter (\<lambda>m. \<not> List.member SUPPORTED_MODIFIERS m) mods = [] \<and>
      \<not> List.member mods ''fieldref'' \<and> \<not> List.member mods ''exists'' \<and> \<not> List.member mods ''cased'' \<and>
      \<not> List.member mods ''cidr'' \<and> \<not> List.member mods ''windash'' \<and> \<not> List.member mods ''base64offset'' \<and>
      find_first (List.member NUMERIC_MODIFIERS) mods = None \<and>
      find_first (List.member [''contains'', ''startswith'', ''endswith'', ''re'']) mods = Some mode \<and>
      List.member mods ''all'' = every \<and> mode \<noteq> ''re'')"

lemma plain_mods_all: "list_all (\<lambda>mode. plain_mods mode True \<and> plain_mods mode False) text_modes"
  by code_simp

lemma plain_modsI: "mode \<in> set text_modes \<Longrightarrow> plain_mods mode every"
  using plain_mods_all by (cases every) (auto simp: list_all_iff)

lemma text_modD:
  assumes "mode \<in> set text_modes"
  shows "map lower (text_mods mode every) = text_mods mode every"
    "filter (\<lambda>m. \<not> List.member SUPPORTED_MODIFIERS m) (text_mods mode every) = []"
    "\<not> List.member (text_mods mode every) ''fieldref''" "\<not> List.member (text_mods mode every) ''exists''"
    "\<not> List.member (text_mods mode every) ''cased''" "\<not> List.member (text_mods mode every) ''cidr''"
    "\<not> List.member (text_mods mode every) ''windash''" "\<not> List.member (text_mods mode every) ''base64offset''"
    "find_first (List.member NUMERIC_MODIFIERS) (text_mods mode every) = None"
    "find_first (List.member [''contains'', ''startswith'', ''endswith'', ''re'']) (text_mods mode every) = Some mode"
    "List.member (text_mods mode every) ''all'' = every" "mode \<noteq> ''re''"
  using plain_modsI [OF assms, of every] unfolding plain_mods_def Let_def by blast+

lemma match_value_text:
  assumes "mode \<in> set text_modes" "plain_pattern p"
  shows "match_value lib (text_mods mode every) mode False v (PStr p) \<longleftrightarrow>
    list_ex (\<lambda>t. plain_test mode (lower p) (lower t)) (targets v)"
  using match_text_plain [OF text_modD(12) [OF assms(1)] assms(2)]
  by (simp add: match_value_def match_target_def text_modD [OF assms(1)] del: List.member_iff)

text \<open>
  The text modifiers: with \<open>contains\<close>, \<open>startswith\<close> or \<open>endswith\<close> and patterns without
  wildcards, a field test always compiles, and it holds of an event exactly when the field has a
  value and some pattern (with \<open>all\<close>: every pattern) is contained in, a prefix of or a suffix of
  some value of the field, up to case; backslashes in paths stand for themselves.
\<close>

theorem text_modifiers_meaning:
  assumes "mode \<in> set text_modes" "\<forall>p \<in> set ps. plain_pattern p"
  shows "\<exists>test. compile_field_match lib field (text_mods mode every) (PList (map PStr ps)) = (Some test, []) \<and>
    (\<forall>e. test e \<longleftrightarrow> get_values e field \<noteq> [] \<and>
      (if every then list_all (field_passes e field mode) ps else list_ex (field_passes e field mode) ps))"
proof (intro exI conjI allI)
  let ?test = "field_predicate lib field (text_mods mode every) (map PStr ps)"
  show "compile_field_match lib field (text_mods mode every) (PList (map PStr ps)) = (Some ?test, [])"
    by (simp add: compile_field_match_def text_modD [OF assms(1)] del: List.member_iff)
  fix e
  have "list_all (\<lambda>p. list_ex (\<lambda>v. match_value lib (text_mods mode every) mode False v p) (get_values e field)) (map PStr ps)
      = list_all (field_passes e field mode) ps"
    "list_ex (\<lambda>p. list_ex (\<lambda>v. match_value lib (text_mods mode every) mode False v p) (get_values e field)) (map PStr ps)
      = list_ex (field_passes e field mode) ps"
    using assms by (auto simp: list_all_iff list_ex_iff field_passes_def match_value_text)
  then show "?test e \<longleftrightarrow> get_values e field \<noteq> [] \<and>
      (if every then list_all (field_passes e field mode) ps else list_ex (field_passes e field mode) ps)"
    by (cases every) (simp_all add: field_predicate_def text_modD [OF assms(1)] Let_def del: List.member_iff)
qed

text \<open>Library calls on outside data for the witnesses: they never match.\<close>

definition no_lib :: pylib where
  "no_lib = \<lparr>pl_re_search = (\<lambda>_ _ _. None), pl_cidr = (\<lambda>_ _. False), pl_float = (\<lambda>_. None)\<rparr>"

theorem text_modifiers_meaning_witness:
  "\<exists>test. compile_field_match no_lib ''Image'' (text_mods ''endswith'' False)
      (PList (map PStr [backslash # ''cmd.exe'', backslash # ''powershell.exe''])) = (Some test, []) \<and>
    (\<forall>e. test e \<longleftrightarrow> get_values e ''Image'' \<noteq> [] \<and>
      (if False then list_all (field_passes e ''Image'' ''endswith'') [backslash # ''cmd.exe'', backslash # ''powershell.exe'']
       else list_ex (field_passes e ''Image'' ''endswith'') [backslash # ''cmd.exe'', backslash # ''powershell.exe'']))"
  by (rule text_modifiers_meaning) (simp_all add: text_modes_def)

end
