(* ===== verification/Sigma_Safety.thy ===== *)
theory Sigma_Safety
  imports Sigma_Properties
begin

section \<open>Sigma: exclusion of unsupported rules, loading, Base64, events\<close>

text \<open>
  A rule with a part the compiler cannot translate is loaded but never fires; the loader's one
  way to fail; the three Base64 alignments; and the normal form every parser gives its events.
\<close>

subsection \<open>Unsupported parts\<close>

lemma compile_field_unsupported:
  assumes "m \<in> set modifiers" "lower m \<notin> set SUPPORTED_MODIFIERS \<or> lower m = ''fieldref''"
  shows "fst (compile_field_match lib field modifiers ps) = None" "snd (compile_field_match lib field modifiers ps) \<noteq> []"
proof -
  let ?unknown = "filter (\<lambda>m. \<not> List.member SUPPORTED_MODIFIERS m) (map lower modifiers)"
  have "?unknown = [] \<Longrightarrow> List.member (map lower modifiers) ''fieldref''"
    using assms by (auto simp: filter_empty_conv intro: rev_image_eqI)
  then show "fst (compile_field_match lib field modifiers ps) = None" "snd (compile_field_match lib field modifiers ps) \<noteq> []"
    by (auto simp: compile_field_match_def Let_def simp del: List.member_iff)
qed

text \<open>A key of a selection that is a field test (not a keyword search) with a bad modifier.\<close>

definition bad_key :: "string \<Rightarrow> bool" where
  "bad_key raw \<longleftrightarrow> lower (strip (hd (split_char CHR ''|'' raw))) \<notin> {[], ''null''} \<and>
     list_ex (\<lambda>m. lower m \<notin> set SUPPORTED_MODIFIERS \<or> lower m = ''fieldref'') (tl (split_char CHR ''|'' raw))"

lemma field_entry_bad:
  assumes "bad_key raw"
  shows "snd (field_entry lib (raw, ps)) \<noteq> []"
proof -
  let ?f = "strip (hd (split_char CHR ''|'' raw))" and ?ms = "tl (split_char CHR ''|'' raw)"
  obtain m where "m \<in> set ?ms" "lower m \<notin> set SUPPORTED_MODIFIERS \<or> lower m = ''fieldref''"
    using assms by (auto simp: bad_key_def list_ex_iff)
  then have "snd (compile_field_match lib ?f ?ms ps) \<noteq> []" by (rule compile_field_unsupported(2))
  then show ?thesis using assms by (auto simp: bad_key_def field_entry_def Let_def split: prod.split)
qed

lemma build_selection_bad:
  assumes "(raw, ps) \<in> set spec" "bad_key raw"
  shows "snd (build_selection lib (PDict spec)) \<noteq> []"
proof -
  have "concat (map snd (map (field_entry lib) spec)) \<noteq> []"
    using assms field_entry_bad [of raw lib ps] by force
  then show ?thesis by (simp add: Let_def)
qed

lemma compile_detection_bad:
  assumes "compile_detection lib (PDict det) = Inr c" "(name, spec) \<in> set det" "name \<noteq> ''condition''"
    "snd (build_selection lib spec) \<noteq> []"
  shows "dt_unsupported c \<noteq> []"
proof -
  let ?built = "map (\<lambda>(name, spec). (name, build_selection lib spec)) (filter (\<lambda>kv. fst kv \<noteq> ''condition'') det)"
  let ?uns = "concat (map (\<lambda>(name, _, problems). map (\<lambda>x. name @ '': '' @ x) problems) ?built)"
  have "(name, build_selection lib spec) \<in> set ?built" using assms(2,3) by force
  moreover have "(\<lambda>(name, _, problems). map (\<lambda>x. name @ '': '' @ x) problems) (name, build_selection lib spec) \<noteq> []"
    using assms(4) by (cases "build_selection lib spec") simp
  ultimately have "?uns \<noteq> []" by (metis (no_types, lifting) concat_eq_Nil_conv image_eqI set_map)
  with assms(1) show ?thesis
    unfolding compile_detection_def Let_def
    by (auto split: pyval.splits sum.splits exn.splits if_splits simp del: build_selection.simps)
qed

lemma build_rule_unsupported:
  assumes "build_rule lib sha256 (PDict d) path = Inr (Some r)" "dict_get d ''detection'' = PDict det"
  shows "\<exists>c. compile_detection lib (PDict det) = Inr c \<and> sg_unsupported r = dt_unsupported c"
  using assms by (auto simp: build_rule_def split: if_splits)

lemma never_fires: "\<not> executable r \<Longrightarrow> evaluate (rs @ r # rs') e = evaluate (rs @ rs') e"
  by (simp add: evaluate_def)

text \<open>
  No rule is turned into something nearly right: when a selection of a rule document tests a
  field with a modifier the matcher does not know (or with \<open>fieldref\<close>, which it refuses), the rule
  that is loaded from it is not executable, and the engine reports for every event exactly what it
  reports without that rule.
\<close>

theorem unsupported_modifier_never_fires:
  assumes "build_rule lib sha256 (PDict d) path = Inr (Some r)" "dict_get d ''detection'' = PDict det"
    "(name, PDict spec) \<in> set det" "name \<noteq> ''condition''" "(raw, ps) \<in> set spec" "bad_key raw"
  shows "\<not> executable r \<and> evaluate (rs @ r # rs') e = evaluate (rs @ rs') e"
proof -
  have "sg_unsupported r \<noteq> []"
    using build_rule_unsupported [OF assms(1,2)] compile_detection_bad [OF _ assms(3,4)]
      build_selection_bad [OF assms(5,6)] by metis
  then have "\<not> executable r" by (simp add: executable_def)
  with never_fires show ?thesis by blast
qed

subsection \<open>Witness data\<close>

definition odd_rule_detection :: pydict where
  "odd_rule_detection = [(''sel'', PDict [(''Image|contains|expand'', PStr ''x'')]), (''condition'', PStr ''sel'')]"

definition odd_rule_doc :: pydict where
  "odd_rule_doc = [(''title'', PStr ''Odd''), (''detection'', PDict odd_rule_detection)]"

lemma odd_rule_facts:
  "case build_rule no_lib (\<lambda>_. ''0'') (PDict odd_rule_doc) ''p'' of Inr (Some r) \<Rightarrow> True | _ \<Rightarrow> False"
  "bad_key ''Image|contains|expand''"
  by (code_simp)+

theorem unsupported_modifier_never_fires_witness:
  "\<exists>r. build_rule no_lib (\<lambda>_. ''0'') (PDict odd_rule_doc) ''p'' = Inr (Some r) \<and>
     \<not> executable r \<and> evaluate ([] @ r # []) blank_uevent = evaluate ([] @ []) blank_uevent"
proof -
  obtain r where r: "build_rule no_lib (\<lambda>_. ''0'') (PDict odd_rule_doc) ''p'' = Inr (Some r)"
    using odd_rule_facts(1) by (auto split: sum.splits option.splits)
  have "dict_get odd_rule_doc ''detection'' = PDict odd_rule_detection"
    by (simp add: odd_rule_doc_def dict_get_def)
  from unsupported_modifier_never_fires [OF r this, of "''sel''" "[(''Image|contains|expand'', PStr ''x'')]"
      "''Image|contains|expand''" "PStr ''x''" "[]" "[]" blank_uevent] r odd_rule_facts(2)
  show ?thesis by (auto simp: odd_rule_detection_def)
qed

subsection \<open>Loading\<close>

definition dangling_rule :: pyval where
  "dangling_rule = PDict [(''title'', PStr ''Dangling''),
     (''detection'', PDict [(''selection'', PStr ''mimikatz''), (''condition'', PStr ''1 of'')])]"

lemma dangling_condition: "compile_condition ''1 of'' [''selection''] = Inl IndexError"
  by code_simp

lemma dangling_detection:
  "compile_detection lib (PDict [(''selection'', PStr ''mimikatz''), (''condition'', PStr ''1 of'')]) = Inl IndexError"
  by (simp add: compile_detection_def condition_of_def dict_get_def dangling_condition)

text \<open>
  The loader's documentation says a broken rule must not stop the start-up, and the compiler turns
  \<open>ValueError\<close> into a note; but a condition that ends after \<open>of\<close> makes the parser read past its
  tokens, which is an \<open>IndexError\<close> that nothing catches: with such a file first in the directory
  no rule at all is loaded, whatever the other files hold.
\<close>

theorem dangling_quantifier_stops_loading:
  "load_rules lib sha256 dir ((''a.yml'', Some [dangling_rule]) # files) = Inl IndexError"
proof -
  have y: "yaml_name ''a.yml''" by code_simp
  have "build_rule lib sha256 dangling_rule path = Inl IndexError" for path
    using dangling_detection by (simp add: build_rule_def dangling_rule_def dict_get_def)
  then show ?thesis using y by (simp add: doc_items_def dangling_rule_def)
qed


subsection \<open>Base64\<close>

lemma b64encode_append: "length a mod 3 = 0 \<Longrightarrow> b64encode (a @ b) = b64encode a @ b64encode b"
proof (induction a rule: b64encode.induct)
  case (4 x y z s)
  then have "length s mod 3 = 0" by (simp add: mod_Suc split: if_splits)
  with 4 show ?case by simp
qed auto

lemma code_less: "code c < 256"
  unfolding code_def by (metis mod_less_divisor of_char_mod_256 zero_less_numeral)

lemma b64_char_not_pad: "n < 64 \<Longrightarrow> b64_char n \<noteq> CHR ''=''"
proof -
  have "list_all (\<lambda>n. b64_char n \<noteq> CHR ''='') [0..<64]" by code_simp
  then show "n < 64 \<Longrightarrow> b64_char n \<noteq> CHR ''=''" by (simp add: list_all_iff)
qed

lemma b64_no_pad: "length v mod 3 = 0 \<Longrightarrow> CHR ''='' \<notin> set (b64encode v)"
proof (induction v rule: b64encode.induct)
  case (4 a b c s)
  then have "length s mod 3 = 0" by (simp add: mod_Suc split: if_splits)
  moreover have "code a div 4 < 64" "code a mod 4 * 16 + code b div 16 < 64"
    "code b mod 16 * 4 + code c div 64 < 64" "code c mod 64 < 64"
    using code_less [of a] code_less [of b] code_less [of c] by linarith+
  ultimately show ?case using 4 b64_char_not_pad [THEN not_sym] by simp
qed auto

lemma b64encode_Nil_iff: "b64encode v = [] \<longleftrightarrow> v = []"
  by (cases v rule: b64encode.cases) auto

lemma b64_length: "length (b64encode v) \<ge> length v"
  by (induction v rule: b64encode.induct) auto

lemma rstrip_eq_id: "CHR ''='' \<notin> set s \<Longrightarrow> rstrip_eq s = s"
  by (cases s rule: rev_cases) (auto simp: rstrip_eq_def)

text \<open>The characters after the dropped ones depend on the value only.\<close>

definition b64_skip :: "nat \<Rightarrow> nat" where
  "b64_skip k = (if k = 0 then 0 else if k = 1 then 2 else 3)"

lemma b64_aligned:
  assumes "length x < 3" "(length x + length v) mod 3 = 0" "v \<noteq> []"
  shows "drop (b64_skip (length x)) (b64encode (x @ v)) =
     drop (b64_skip (length x)) (b64encode (replicate (length x) (CHR 0x00) @ v))"
    "drop (b64_skip (length x)) (b64encode (x @ v)) \<noteq> []"
proof -
  consider "x = []" | a where "x = [a]" | a b where "x = [a, b]"
    using assms(1) by (cases x rule: b64encode.cases) auto
  then have "drop (b64_skip (length x)) (b64encode (x @ v)) =
      drop (b64_skip (length x)) (b64encode (replicate (length x) (CHR 0x00) @ v)) \<and>
      drop (b64_skip (length x)) (b64encode (x @ v)) \<noteq> []"
  proof cases
    case 1
    then show ?thesis using assms(3) by (simp add: b64_skip_def b64encode_Nil_iff)
  next
    case (2 a)
    then obtain p q w where "v = p # q # w" using assms(2,3) by (cases v rule: b64encode.cases) auto
    with 2 show ?thesis by (simp add: b64_skip_def numeral_2_eq_2)
  next
    case (3 a b)
    then obtain p w where "v = p # w" using assms(3) by (cases v) auto
    with 3 show ?thesis by (simp add: b64_skip_def numeral_2_eq_2 numeral_3_eq_3)
  qed
  then show "drop (b64_skip (length x)) (b64encode (x @ v)) =
     drop (b64_skip (length x)) (b64encode (replicate (length x) (CHR 0x00) @ v))"
    "drop (b64_skip (length x)) (b64encode (x @ v)) \<noteq> []" by blast+
qed

lemma base64_variants_mem:
  assumes "k < 3" "rstrip_eq (drop (b64_skip k) (b64encode (replicate k (CHR 0x00) @ v))) \<noteq> []"
  shows "rstrip_eq (drop (b64_skip k) (b64encode (replicate k (CHR 0x00) @ v))) \<in> set (base64_variants v)"
proof -
  consider "k = 0" | "k = 1" | "k = 2" using assms(1) by linarith
  then show ?thesis using assms(2) by cases (simp_all add: base64_variants_def b64_skip_def)
qed

text \<open>
  \<open>base64offset\<close>: a value that ends on a group boundary of an encoded text is found at each of
  the three alignments, because the text's Base64 form then contains one of the variants the
  matcher searches for.
\<close>

lemma base64_aligned_value_found:
  assumes "v \<noteq> []" "(length x + length v) mod 3 = 0"
  shows "\<exists>b \<in> set (base64_variants v). py_in b (b64encode (x @ v @ y))"
proof -
  let ?k = "length x mod 3"
  define x1 x2 where "x1 = take (length x - ?k) x" and "x2 = drop (length x - ?k) x"
  have x: "x = x1 @ x2" and l: "length x1 mod 3 = 0" "length x2 = ?k"
    by (auto simp: x1_def x2_def minus_mod_eq_mult_div [symmetric] mod_less_eq_dividend diff_diff_cancel)
  have a: "length x2 < 3" "(length x2 + length v) mod 3 = 0"
    using assms(2) by (simp_all add: l mod_simps)
  let ?d = "drop (b64_skip (length x2)) (b64encode (x2 @ v))"
  have nopad: "CHR ''='' \<notin> set ?d"
    using b64_no_pad [of "x2 @ v"] a(2) by (auto dest: in_set_dropD)
  have r: "rstrip_eq (drop (b64_skip (length x2)) (b64encode (replicate (length x2) (CHR 0x00) @ v))) = ?d"
    using b64_aligned(1) [OF a assms(1)] rstrip_eq_id [OF nopad] by simp
  have m: "?d \<in> set (base64_variants v)"
    using base64_variants_mem [OF a(1), of v] b64_aligned(2) [OF a assms(1)] unfolding r by blast
  have "b64encode (x @ v @ y) = b64encode x1 @ b64encode (x2 @ v) @ b64encode y"
    using b64encode_append [OF l(1), of "x2 @ v @ y"] b64encode_append [of "x2 @ v" y] a(2) by (simp add: x)
  also have "\<dots> = (b64encode x1 @ take (b64_skip (length x2)) (b64encode (x2 @ v))) @ ?d @ b64encode y"
    by (simp add: append_assoc [symmetric] del: append_assoc) simp
  finally have "py_in ?d (b64encode (x @ v @ y))" unfolding py_in_iff by blast
  with m show ?thesis by blast
qed

theorem base64_aligned_value_found_witness:
  "\<exists>b \<in> set (base64_variants ''whoami''). py_in b (b64encode (''cmd'' @ ''whoami'' @ '' /all''))"
  by (rule base64_aligned_value_found) simp_all

text \<open>
  Elsewhere the variants miss: only the padding is stripped, so that the last character of a
  variant encodes zero bits the text does not have. \<open>foo\<close> is inside \<open>xfoobar\<close>, but none of its
  variants is inside the Base64 form of that text.
\<close>

lemma base64_offset_misses:
  "py_in ''foo'' ''xfoobar'' \<and> list_all (\<lambda>b. \<not> py_in b (b64encode ''xfoobar'')) (base64_variants ''foo'')"
  by code_simp

subsection \<open>Fields\<close>

text \<open>
  \<open>exists\<close> and the value lookup disagree: for an event whose own \<open>pid\<close> is not set but whose
  source sent an extra field of that name, \<open>get_values\<close> finds the value while
  \<open>has_field\<close> says the field is absent, so that a rule with \<open>exists: true\<close> on it never fires.
\<close>

lemma exists_ignores_extra_fields:
  "has_field (blank_uevent\<lparr>ue_extra := [(''pid'', PStr ''42'')]\<rparr>) ''pid'' = False \<and>
   get_values (blank_uevent\<lparr>ue_extra := [(''pid'', PStr ''42'')]\<rparr>) ''pid'' = [PStr ''42'']"
  by code_simp

subsection \<open>The normal form of an event\<close>

text \<open>
  Whatever severity a parser put on an event, after \<open>finalize\<close> it is one of the five internal
  severities with the OCSF number that belongs to it, between 1 and 5, no cleaned field is blank,
  and finalizing again changes nothing.
\<close>

theorem finalize_normal_form:
  "ue_severity (finalize e) \<in> set INTERNAL_SEVERITIES \<and>
   ue_severity_id (finalize e) = severity_to_ocsf (Some (ue_severity (finalize e))) \<and>
   1 \<le> ue_severity_id (finalize e) \<and> ue_severity_id (finalize e) \<le> 5 \<and>
   ue_hostname (finalize e) \<noteq> Some [] \<and> ue_src_ip (finalize e) \<noteq> Some [] \<and>
   finalize (finalize e) = finalize e"
proof -
  have "ue_hostname (finalize e) \<noteq> Some []" "ue_src_ip (finalize e) \<noteq> Some []"
    by (auto simp: finalize_def Let_def blank_to_none_def strip_Nil_iff all_space_def split: option.splits if_splits)
  then show ?thesis using finalize_normal [of e] internal_cases(2) [of "ue_severity (finalize e)"]
    by (simp add: normal_event_def)
qed

end
