(* ===== verification/Correlation.thy ===== *)
theory Correlation
  imports Sigma_Engine Redis_Interface
begin

section \<open>Multi-event correlation\<close>

text \<open>
  \<open>app/services/correlation.py\<close>: \<open>threshold\<close> and \<open>sequence\<close> rules over events that share a
  group, with counters, armed steps and the fire-once mark in Redis.  Rules are built from
  parsed YAML documents; \<open>sha256\<close> names a rule without an identifier.
\<close>

subsection \<open>Rules\<close>

definition SUPPORTED_TYPES :: "string list" where
  "SUPPORTED_TYPES = [''threshold'', ''sequence'']"

record corr_rule =
  cr_id :: string
  cr_title :: string
  cr_type :: string
  cr_group_by :: "string list"
  cr_threshold :: int
  cr_window_seconds :: int
  cr_severity :: string
  cr_description :: string
  cr_mitre :: "string list"
  cr_tags :: "string list"
  cr_source_types :: "string list"
  cr_steps :: pyval
  cr_matchers :: "epred list"
  cr_unsupported :: "string list"

definition corr_executable :: "corr_rule \<Rightarrow> bool" where
  "corr_executable r \<longleftrightarrow> cr_unsupported r = [] \<and> cr_matchers r \<noteq> []"

record corr_match =
  cm_rule_id :: string
  cm_title :: string
  cm_severity :: string
  cm_description :: string
  cm_mitre :: "string list"
  cm_group_key :: string
  cm_group_label :: string
  cm_observed :: int
  cm_window_seconds :: int
  cm_tags :: "string list"
  cm_event :: uevent

definition corr_to_dict :: "corr_match \<Rightarrow> pydict" where
  "corr_to_dict m = [(''rule_id'', PStr (cm_rule_id m)), (''title'', PStr (cm_title m)),
     (''severity'', PStr (cm_severity m)), (''description'', PStr (cm_description m)),
     (''mitre_techniques'', PList (map PStr (cm_mitre m))), (''group_key'', PStr (cm_group_key m)),
     (''group'', PStr (cm_group_label m)), (''observed'', PInt (cm_observed m)),
     (''window_seconds'', PInt (cm_window_seconds m)), (''engine'', PStr ''correlation''),
     (''type'', PStr (if cm_group_label m \<noteq> [] then ''sequence'' else ''threshold''))]"

subsection \<open>Building a rule\<close>

definition match_entry :: "pylib \<Rightarrow> string \<times> pyval \<Rightarrow> epred option \<times> string list" where
  "match_entry lib = (\<lambda>(raw_field, patterns).
     (let parts = split_char CHR ''|'' raw_field in
      case compile_field_match lib (strip (hd parts)) (tl parts) patterns of
        (p, issues) \<Rightarrow>
          if issues \<noteq> [] then (None, map (\<lambda>i. raw_field @ '': '' @ i) issues) else (p, [])))"

definition compile_match :: "pylib \<Rightarrow> pyval \<Rightarrow> epred option \<times> string list" where
  "compile_match lib spec = (case spec of
     PDict (kv # kvs) \<Rightarrow>
       (let entries = map (match_entry lib) (kv # kvs);
            predicates = somes (map fst entries);
            problems = concat (map snd entries)
        in if problems \<noteq> [] then (None, problems)
           else if predicates = [] then (None, [''match without usable fields''])
           else (Some (pred_and predicates), []))
   | _ \<Rightarrow> (None, [''empty match block'']))"

definition never :: epred where
  "never e = False"

text \<open>One step of a sequence: \<open>(step or {}).get("match") or {}\<close>.\<close>

definition step_matcher :: "pylib \<Rightarrow> pyval \<Rightarrow> (epred \<times> string list) result" where
  "step_matcher lib step =
     bind_result (py_get (py_or step (PDict [])) ''match'' PNone) (\<lambda>spec.
       case compile_match lib (py_or spec (PDict [])) of (p, problems) \<Rightarrow>
         Inr (case p of None \<Rightarrow> never | Some q \<Rightarrow> q, problems))"

fun step_matchers :: "pylib \<Rightarrow> pyval list \<Rightarrow> (epred list \<times> string list) result" where
  "step_matchers lib [] = Inr ([], [])"
| "step_matchers lib (st # steps) =
     bind_result (step_matcher lib st) (\<lambda>(p, ps). bind_result (step_matchers lib steps) (\<lambda>(qs, us).
       Inr (p # qs, ps @ us)))"

definition rule_matchers :: "pylib \<Rightarrow> pydict \<Rightarrow> string \<Rightarrow> (epred list \<times> string list) result" where
  "rule_matchers lib d rtype =
     (if rtype = ''threshold'' then
        (case compile_match lib (py_or (dict_get d ''match'') (PDict [])) of (p, problems) \<Rightarrow>
           Inr (case p of None \<Rightarrow> [] | Some q \<Rightarrow> [q], problems))
      else if rtype = ''sequence'' then
        (case py_or (dict_get d ''steps'') (PList []) of
           PList steps \<Rightarrow> bind_result (step_matchers lib steps) (\<lambda>(ms, us).
             Inr (ms, (if length steps < 2 then [''sequence requires at least 2 steps''] else []) @ us))
         | _ \<Rightarrow> Inr ([], [''sequence requires at least 2 steps'']))
      else Inr ([], []))"

text \<open>\<open>max(1, int(doc.get(k, n) or n))\<close>.\<close>

definition doc_pos :: "pydict \<Rightarrow> string \<Rightarrow> int \<Rightarrow> int result" where
  "doc_pos d k n = bind_result (py_int (py_or (dict_get_or d k (PInt n)) (PInt n))) (\<lambda>i. Inr (max 1 i))"

definition build_corr_rule :: "pylib \<Rightarrow> (string \<Rightarrow> string) \<Rightarrow> pyval \<Rightarrow> corr_rule option result" where
  "build_corr_rule lib sha256 doc = (case doc of
     PDict d \<Rightarrow>
       if \<not> py_truth (dict_get d ''title'') then Inr None
       else let rtype = lower (strip (doc_str d ''type'' []));
                bad = (if List.member SUPPORTED_TYPES rtype then []
                  else [''unsupported correlation type: '' @ (if rtype = [] then ''missing'' else rtype)]);
                i = doc_str_or d ''id''
            in bind_result (rule_matchers lib d rtype) (\<lambda>(ms, problems).
               bind_result (doc_strs d ''group_by'' 4) (\<lambda>group_by.
               bind_result (doc_pos d ''threshold'' 5) (\<lambda>threshold.
               bind_result (doc_pos d ''window_seconds'' 300) (\<lambda>window.
               bind_result (doc_strs d ''mitre'' 6) (\<lambda>mitre.
               bind_result (doc_strs d ''tags'' 20) (\<lambda>tags.
               bind_result (py_iter (py_or (dict_get d ''source_types'') (PList []))) (\<lambda>sources.
               Inr (Some \<lparr>cr_id = (if i \<noteq> [] then i else ''corr-'' @ take 12 (sha256 (py_str (dict_get d ''title'')))),
                 cr_title = py_str (dict_get d ''title''), cr_type = rtype, cr_group_by = group_by,
                 cr_threshold = threshold, cr_window_seconds = window,
                 cr_severity = upper (doc_str d ''severity'' ''MEDIUM''),
                 cr_description = doc_str_or d ''description'', cr_mitre = map upper mitre,
                 cr_tags = tags, cr_source_types = map (\<lambda>x. lower (py_str x)) sources,
                 cr_steps = py_or (dict_get d ''steps'') (PList []), cr_matchers = ms,
                 cr_unsupported = bad @ problems\<rparr>))))))))
   | _ \<Rightarrow> Inr None)"

fun build_corr_all :: "(pyval \<Rightarrow> corr_rule option result) \<Rightarrow> pyval list \<Rightarrow> corr_rule list result" where
  "build_corr_all f [] = Inr []"
| "build_corr_all f (x # xs) = bind_result (f x) (\<lambda>r. bind_result (build_corr_all f xs) (\<lambda>rs.
     Inr (case r of None \<Rightarrow> rs | Some q \<Rightarrow> q # rs)))"

fun load_correlation_rules ::
  "pylib \<Rightarrow> (string \<Rightarrow> string) \<Rightarrow> (string \<times> pyval list option) list \<Rightarrow> corr_rule list result" where
  "load_correlation_rules lib sha256 [] = Inr []"
| "load_correlation_rules lib sha256 ((name, docs) # files) =
     (if \<not> yaml_name name then load_correlation_rules lib sha256 files
      else case docs of
        None \<Rightarrow> load_correlation_rules lib sha256 files
      | Some ds \<Rightarrow>
          bind_result (build_corr_all (build_corr_rule lib sha256) (concat (map doc_items ds))) (\<lambda>rs.
          bind_result (load_correlation_rules lib sha256 files) (\<lambda>rest. Inr (rs @ rest))))"

subsection \<open>Groups\<close>

fun group_parts :: "uevent \<Rightarrow> string list \<Rightarrow> string list option" where
  "group_parts e [] = Some []"
| "group_parts e (f # fs) = (case get_values e f of
     [] \<Rightarrow> None
   | v # vs \<Rightarrow> (case group_parts e fs of None \<Rightarrow> None | Some ps \<Rightarrow> Some (take 128 (py_str v) # ps)))"

text \<open>\<open>None\<close>: the rule does not apply to the event.\<close>

definition group_key :: "corr_rule \<Rightarrow> uevent \<Rightarrow> string option" where
  "group_key r e = (case group_parts e (cr_group_by r) of
     None \<Rightarrow> None | Some [] \<Rightarrow> Some ''global'' | Some (p # ps) \<Rightarrow> Some (join ''|'' (p # ps)))"

definition group_label :: "corr_rule \<Rightarrow> uevent \<Rightarrow> string" where
  "group_label r e = join ''|'' (concat (map (\<lambda>f. case get_values e f of [] \<Rightarrow> [] | v # _ \<Rightarrow> [py_str v]) (cr_group_by r)))"

definition source_matches :: "corr_rule \<Rightarrow> uevent \<Rightarrow> bool" where
  "source_matches r e \<longleftrightarrow> cr_source_types r = [] \<or> List.member (cr_source_types r) (lower (ue_source_type e))"

definition counter_name :: "corr_rule \<Rightarrow> string \<Rightarrow> nat \<Rightarrow> string" where
  "counter_name r g i = ''corr:'' @ cr_id r @ '':'' @ g @ '':'' @ show_nat i"

definition armed_name :: "corr_rule \<Rightarrow> string \<Rightarrow> int \<Rightarrow> string" where
  "armed_name r g i = ''corr-armed:'' @ cr_id r @ '':'' @ g @ '':'' @ show_int i"

definition fired_name :: "corr_rule \<Rightarrow> string \<Rightarrow> string \<Rightarrow> string" where
  "fired_name r g tag = ''corr-fired:'' @ cr_id r @ '':'' @ g @ '':'' @ tag"

definition corr_match_of :: "corr_rule \<Rightarrow> uevent \<Rightarrow> string \<Rightarrow> int \<Rightarrow> corr_match" where
  "corr_match_of r e g observed = \<lparr>cm_rule_id = cr_id r, cm_title = cr_title r, cm_severity = cr_severity r,
     cm_description = cr_description r, cm_mitre = cr_mitre r, cm_group_key = g,
     cm_group_label = group_label r e, cm_observed = observed, cm_window_seconds = cr_window_seconds r,
     cm_tags = cr_tags r, cm_event = e\<rparr>"

subsection \<open>Evaluation\<close>

text \<open>
  Each call returns its match, nothing, or the exception \<open>evaluate\<close> catches, with the state it
  leaves.  \<open>bump\<close> is \<open>INCR\<close> with the expiry on the first increment; \<open>claim\<close> the \<open>SET NX\<close>.
\<close>

type_synonym 's corr_out = "corr_match option result \<times> 's"

definition bump :: "'s redis \<Rightarrow> corr_rule \<Rightarrow> string \<Rightarrow> 's \<Rightarrow> int result \<times> 's" where
  "bump R r key s = (case rd_incr R s key of
     (Inl x, s1) \<Rightarrow> (Inl x, s1)
   | (Inr n, s1) \<Rightarrow>
       if n = 1 then (case rd_expire R s1 key (cr_window_seconds r) of
           (Inl x, s2) \<Rightarrow> (Inl x, s2) | (Inr _, s2) \<Rightarrow> (Inr n, s2))
       else (Inr n, s1))"

definition claim :: "'s redis \<Rightarrow> corr_rule \<Rightarrow> uevent \<Rightarrow> string \<Rightarrow> string \<Rightarrow> int \<Rightarrow> 's \<Rightarrow> 's corr_out" where
  "claim R r e g tag observed s =
     (case rd_set_nx R s (fired_name r g tag) ''1'' (cr_window_seconds r) of
        (Inl x, s1) \<Rightarrow> (Inl x, s1)
      | (Inr claimed, s1) \<Rightarrow> (Inr (if claimed then Some (corr_match_of r e g observed) else None), s1))"

definition eval_threshold :: "'s redis \<Rightarrow> corr_rule \<Rightarrow> uevent \<Rightarrow> nat \<Rightarrow> 's \<Rightarrow> 's corr_out" where
  "eval_threshold R r e i s =
     (if \<not> (cr_matchers r ! i) e then (Inr None, s)
      else case group_key r e of
        None \<Rightarrow> (Inr None, s)
      | Some g \<Rightarrow>
          (case bump R r (counter_name r g i) s of
             (Inl x, s1) \<Rightarrow> (Inl x, s1)
           | (Inr n, s1) \<Rightarrow> if n < cr_threshold r then (Inr None, s1)
               else claim R r e g (show_nat i) n s1))"

text \<open>\<open>int((rule.steps[index] or {}).get("count", 1) or 1)\<close>.\<close>

definition needed_count :: "corr_rule \<Rightarrow> nat \<Rightarrow> int result" where
  "needed_count r i = (case cr_steps r of
     PList steps \<Rightarrow> if i < length steps
       then bind_result (py_get (py_or (steps ! i) (PDict [])) ''count'' (PInt 1)) (\<lambda>c. py_int (py_or c (PInt 1)))
       else Inl IndexError
   | _ \<Rightarrow> Inl TypeError)"

fun seq_steps :: "'s redis \<Rightarrow> corr_rule \<Rightarrow> uevent \<Rightarrow> string \<Rightarrow> nat \<Rightarrow> epred list \<Rightarrow> 's \<Rightarrow> 's corr_out" where
  "seq_steps R r e g i [] s = (Inr None, s)"
| "seq_steps R r e g i (p # ps) s =
     (if \<not> p e then seq_steps R r e g (i + 1) ps s
      else if ps = [] then
        (case rd_get R s (armed_name r g (int i - 1)) of
           (Inl x, s1) \<Rightarrow> (Inl x, s1)
         | (Inr armed, s1) \<Rightarrow> if truthy armed then claim R r e g ''seq'' (int (length (cr_matchers r))) s1
             else (Inr None, s1))
      else case needed_count r i of
        Inl x \<Rightarrow> (Inl x, s)
      | Inr needed \<Rightarrow>
          (case bump R r (counter_name r g i) s of
             (Inl x, s1) \<Rightarrow> (Inl x, s1)
           | (Inr n, s1) \<Rightarrow>
               if n \<ge> needed
               then (case rd_setex R s1 (armed_name r g (int i)) (cr_window_seconds r) ''1'' of
                   (Inl x, s2) \<Rightarrow> (Inl x, s2)
                 | (Inr _, s2) \<Rightarrow> seq_steps R r e g (i + 1) ps s2)
               else seq_steps R r e g (i + 1) ps s1))"

definition eval_sequence :: "'s redis \<Rightarrow> corr_rule \<Rightarrow> uevent \<Rightarrow> 's \<Rightarrow> 's corr_out" where
  "eval_sequence R r e s = (case group_key r e of
     None \<Rightarrow> (Inr None, s) | Some g \<Rightarrow> seq_steps R r e g 0 (cr_matchers r) s)"

definition eval_rule :: "'s redis \<Rightarrow> corr_rule \<Rightarrow> uevent \<Rightarrow> 's \<Rightarrow> 's corr_out" where
  "eval_rule R r e s =
     (if cr_type r = ''threshold'' then eval_threshold R r e 0 s else eval_sequence R r e s)"

fun eval_rules :: "'s redis \<Rightarrow> corr_rule list \<Rightarrow> uevent \<Rightarrow> 's \<Rightarrow> corr_match list \<times> 's" where
  "eval_rules R [] e s = ([], s)"
| "eval_rules R (r # rs) e s =
     (if \<not> source_matches r e then eval_rules R rs e s
      else case eval_rule R r e s of (out, s1) \<Rightarrow>
        (case eval_rules R rs e s1 of (ms, s2) \<Rightarrow>
          (case out of Inr (Some m) \<Rightarrow> (m # ms, s2) | _ \<Rightarrow> (ms, s2))))"

fun corr_loop :: "'s redis \<Rightarrow> corr_rule list \<Rightarrow> uevent list \<Rightarrow> 's \<Rightarrow> corr_match list \<times> 's" where
  "corr_loop R rs [] s = ([], s)"
| "corr_loop R rs (e # es) s = (case eval_rules R rs e s of (ms, s1) \<Rightarrow>
     (case corr_loop R rs es s1 of (ns, s2) \<Rightarrow> (ms @ ns, s2)))"

definition corr_evaluate :: "'s redis \<Rightarrow> corr_rule list \<Rightarrow> uevent list \<Rightarrow> 's \<Rightarrow> corr_match list \<times> 's" where
  "corr_evaluate R rules es s = corr_loop R (filter corr_executable rules) es s"

definition corr_get_rule :: "corr_rule list \<Rightarrow> string \<Rightarrow> corr_rule option" where
  "corr_get_rule rules i = find_first (\<lambda>r. cr_id r = i) rules"

record corr_coverage =
  cc_rules_total :: nat
  cc_rules_executable :: nat
  cc_by_type :: "(string \<times> nat) list"
  cc_mitre_techniques :: "string list"
  cc_excluded :: "(string \<times> string \<times> string list) list"

definition corr_engine_coverage :: "corr_rule list \<Rightarrow> corr_coverage" where
  "corr_engine_coverage rules =
     (let ex = filter corr_executable rules in
      \<lparr>cc_rules_total = length rules, cc_rules_executable = length ex,
       cc_by_type = map (\<lambda>t. (t, length (filter (\<lambda>r. cr_type r = t) ex))) SUPPORTED_TYPES,
       cc_mitre_techniques = str_sort (remdups (concat (map cr_mitre ex))),
       cc_excluded = map (\<lambda>r. (cr_id r, cr_title r, cr_unsupported r)) (filter (\<lambda>r. \<not> corr_executable r) rules)\<rparr>)"

end
