(* ===== verification/Correlation_Properties.thy ===== *)
theory Correlation_Properties
  imports Correlation
begin

section \<open>Properties of the correlation engine\<close>

text \<open>
  A threshold rule fires once per group, at the event that reaches the threshold; a sequence fires
  exactly when the step before the last is armed; without Redis nothing fires.
\<close>

subsection \<open>Keys\<close>

lemma key_facts [simp]:
  "counter_name r g i = counter_name r h i \<longleftrightarrow> g = h"
  "fired_name r g t = fired_name r h t \<longleftrightarrow> g = h"
  "counter_name r g i \<noteq> fired_name r h t" "fired_name r h t \<noteq> counter_name r g i"
  "armed_name r g n \<noteq> fired_name r h t" "fired_name r h t \<noteq> armed_name r g n"
  "armed_name r g n \<noteq> counter_name r h i" "counter_name r h i \<noteq> armed_name r g n"
  by (simp_all add: counter_name_def fired_name_def armed_name_def)

lemma bump_laws:
  assumes "redis_laws R view" "counter_key (view s k)"
  shows "\<exists>s'. bump R r k s = (Inr (num_of (view s k) + 1), s') \<and>
    view s' = (view s)(k \<mapsto> RNum (num_of (view s k) + 1))"
proof -
  obtain s1 where s1: "rd_incr R s k = (Inr (num_of (view s k) + 1), s1)"
      "view s1 = (view s)(k \<mapsto> RNum (num_of (view s k) + 1))"
    using redis_incrD [of R view s k] assms by blast
  obtain s2 where "rd_expire R s1 k (cr_window_seconds r) = (Inr (), s2)" "view s2 = view s1"
    using redis_lawsD(5) [OF assms(1)] by blast
  with s1 show ?thesis by (auto simp: bump_def)
qed

lemma claim_laws:
  assumes "redis_laws R view"
  shows "\<exists>s'. claim R r e g tag n s =
      (Inr (if view s (fired_name r g tag) = None then Some (corr_match_of r e g n) else None), s') \<and>
    view s' = (if view s (fired_name r g tag) = None then (view s)(fired_name r g tag \<mapsto> RStr ''1'') else view s)"
proof -
  obtain s' where "rd_set_nx R s (fired_name r g tag) ''1'' (cr_window_seconds r) = (Inr (view s (fired_name r g tag) = None), s')"
    "view s' = (if view s (fired_name r g tag) = None then (view s)(fired_name r g tag \<mapsto> RStr ''1'') else view s)"
    using redis_lawsD(4) [OF assms] by blast
  then show ?thesis by (auto simp: claim_def)
qed

subsection \<open>Threshold rules\<close>

text \<open>The events a threshold rule counts for a group.\<close>

definition counted :: "corr_rule \<Rightarrow> string \<Rightarrow> uevent \<Rightarrow> bool" where
  "counted r g e \<longleftrightarrow> source_matches r e \<and> (cr_matchers r ! 0) e \<and> group_key r e = Some g"

text \<open>The state after \<open>cnt g\<close> counted events per group.\<close>

definition counts :: "'s view \<Rightarrow> corr_rule \<Rightarrow> (string \<Rightarrow> nat) \<Rightarrow> 's \<Rightarrow> bool" where
  "counts view r cnt s \<longleftrightarrow> (\<forall>g. view s (counter_name r g 0) = counter_val (cnt g) \<and>
     (view s (fired_name r g ''0'') \<noteq> None \<longleftrightarrow> cr_threshold r \<le> int (cnt g)))"

lemma show_nat_0: "show_nat 0 = ''0''"
  by code_simp

lemma threshold_step:
  assumes "redis_laws R view" "counts view r cnt s" "counted r g e" "cr_type r = ''threshold''"
    "1 \<le> cr_threshold r"
  shows "\<exists>s'. eval_rules R [r] e s =
      (if int (cnt g) + 1 = cr_threshold r then [corr_match_of r e g (cr_threshold r)] else [], s') \<and>
    counts view r (cnt(g := cnt g + 1)) s'"
proof -
  let ?c = "counter_name r g 0" and ?f = "fired_name r g ''0''"
  have v: "view s ?c = counter_val (cnt g)" "view s ?f \<noteq> None \<longleftrightarrow> cr_threshold r \<le> int (cnt g)"
    using assms(2) by (auto simp: counts_def)
  obtain s1 where s1: "bump R r ?c s = (Inr (int (cnt g) + 1), s1)"
      "view s1 = (view s)(?c \<mapsto> RNum (int (cnt g) + 1))"
    using bump_laws [OF assms(1), of s ?c r] v(1) by auto
  have f1: "view s1 ?f = view s ?f" by (simp add: s1(2))
  obtain s2 where s2: "claim R r e g ''0'' (int (cnt g) + 1) s1 =
      (Inr (if view s ?f = None then Some (corr_match_of r e g (int (cnt g) + 1)) else None), s2)"
      "view s2 = (if view s ?f = None then (view s1)(?f \<mapsto> RStr ''1'') else view s1)"
    using claim_laws [OF assms(1), of r e g "''0''" "int (cnt g) + 1" s1] unfolding f1 by blast
  have cv: "counter_val (cnt g + 1) = Some (RNum (int (cnt g) + 1))" by (simp add: counter_val_def)
  have run: "eval_rules R [r] e s = (case eval_threshold R r e 0 s of (out, s1) \<Rightarrow>
      (case out of Inr (Some m) \<Rightarrow> ([m], s1) | _ \<Rightarrow> ([], s1)))"
    using assms(3,4) by (simp add: counted_def eval_rule_def split: prod.split)
  show ?thesis
  proof (cases "int (cnt g) + 1 < cr_threshold r")
    case True
    then have "eval_rules R [r] e s = ([], s1)"
      using assms(3) unfolding run by (simp add: eval_threshold_def counted_def s1(1))
    moreover have "counts view r (cnt(g := cnt g + 1)) s1"
      using assms(2) True cv v(2) by (auto simp: counts_def s1(2))
    ultimately show ?thesis using True by auto
  next
    case False
    then have "eval_rules R [r] e s =
        (if view s ?f = None then [corr_match_of r e g (int (cnt g) + 1)] else [], s2)"
      using assms(3) unfolding run by (simp add: eval_threshold_def counted_def s1(1) show_nat_0 s2(1))
    moreover have "view s ?f = None \<longleftrightarrow> int (cnt g) + 1 = cr_threshold r" using v(2) False by auto
    moreover have "counts view r (cnt(g := cnt g + 1)) s2"
      using assms(2) False cv v(2) by (auto simp: counts_def s2(2) s1(2))
    ultimately show ?thesis by auto
  qed
qed

lemma not_counted_step:
  assumes "\<And>g. \<not> counted r g e" "cr_type r = ''threshold''"
  shows "eval_rules R [r] e s = ([], s)"
  using assms by (auto simp: counted_def eval_rule_def eval_threshold_def split: option.split)

lemma threshold_run:
  assumes "redis_laws R view" "cr_type r = ''threshold''" "1 \<le> cr_threshold r"
  shows "counts view r cnt s \<Longrightarrow>
    filter (\<lambda>m. cm_group_key m = g) (fst (corr_loop R [r] es s)) =
      (let ms = filter (counted r g) es in
       if int (cnt g) < cr_threshold r \<and> cr_threshold r \<le> int (cnt g + length ms)
       then [corr_match_of r (ms ! (nat (cr_threshold r) - 1 - cnt g)) g (cr_threshold r)] else [])"
proof (induction es arbitrary: cnt s)
  case Nil
  then show ?case by simp
next
  case (Cons e es)
  have split: "fst (corr_loop R [r] (e # es) s) =
      fst (eval_rules R [r] e s) @ fst (corr_loop R [r] es (snd (eval_rules R [r] e s)))"
    by (simp split: prod.split del: eval_rules.simps)
  show ?case
  proof (cases "\<exists>h. counted r h e")
    case False
    then show ?thesis using not_counted_step [of r e R s, OF _ assms(2)] Cons.IH [OF Cons.prems]
      unfolding split by simp
  next
    case True
    then obtain h where h: "counted r h e" by blast
    obtain s' where s': "eval_rules R [r] e s =
        (if int (cnt h) + 1 = cr_threshold r then [corr_match_of r e h (cr_threshold r)] else [], s')"
        "counts view r (cnt(h := cnt h + 1)) s'"
      using threshold_step [OF assms(1) Cons.prems h assms(2,3)] by blast
    note ih = Cons.IH [OF s'(2)]
    have kh: "cm_group_key (corr_match_of r e k n) = k" for k n by (simp add: corr_match_of_def)
    show ?thesis
    proof (cases "h = g")
      case False
      then have "\<not> counted r g e" using h by (auto simp: counted_def)
      then show ?thesis using ih False False [symmetric] unfolding split s'(1) by (simp add: kh Let_def)
    next
      case True
      then have g: "counted r g e" using h by simp
      consider "int (cnt g) + 1 = cr_threshold r" | "int (cnt g) + 1 > cr_threshold r"
        | "int (cnt g) + 1 < cr_threshold r" by linarith
      then show ?thesis
      proof cases
        case 1
        then show ?thesis using ih g True assms(3) unfolding split s'(1) by (simp add: kh nat_add_distrib)
      next
        case 2
        then show ?thesis using ih g True unfolding split s'(1) by (auto simp: Let_def)
      next
        case 3
        then have "nat (cr_threshold r) - Suc (cnt g) = Suc (nat (cr_threshold r) - Suc (Suc (cnt g)))" by linarith
        then show ?thesis using ih g True 3 unfolding split s'(1) by (simp add: Let_def)
      qed
    qed
  qed
qed

text \<open>
  C20: A threshold rule, started on an empty store and as long as its keys live, raises for each
  group exactly one alert however long the attack lasts: none before the threshold, then one for
  the event that reaches it, with the threshold as the observed count; events of other groups, of
  other sources or that do not match make no difference.
\<close>

theorem threshold_fires_once:
  assumes "redis_laws R view" "\<forall>k. view s k = None" "corr_executable r" "cr_type r = ''threshold''"
    "1 \<le> cr_threshold r"
  shows "filter (\<lambda>m. cm_group_key m = g) (fst (corr_evaluate R [r] es s)) =
    (let ms = filter (counted r g) es in
     if nat (cr_threshold r) \<le> length ms
     then [corr_match_of r (ms ! (nat (cr_threshold r) - 1)) g (cr_threshold r)] else [])"
proof -
  have "counts view r (\<lambda>_. 0) s" using assms(2,5) by (simp add: counts_def counter_val_def)
  from threshold_run [OF assms(1,4,5) this, of g es] assms(3,5) show ?thesis
    by (simp add: corr_evaluate_def Let_def nat_le_iff)
qed

definition bf_rule :: corr_rule where
  "bf_rule = \<lparr>cr_id = ''bf'', cr_title = ''Brute force'', cr_type = ''threshold'', cr_group_by = [''src_ip''],
     cr_threshold = 2, cr_window_seconds = 300, cr_severity = ''HIGH'', cr_description = [], cr_mitre = [],
     cr_tags = [], cr_source_types = [], cr_steps = PList [], cr_matchers = [\<lambda>e. True], cr_unsupported = []\<rparr>"

theorem threshold_fires_once_witness:
  "length (filter (\<lambda>m. cm_group_key m = ''10.0.0.1'') (fst (corr_evaluate map_redis [bf_rule]
     (replicate 5 (blank_uevent\<lparr>ue_src_ip := Some ''10.0.0.1''\<rparr>)) []))) = 1"
proof -
  let ?e = "blank_uevent\<lparr>ue_src_ip := Some ''10.0.0.1''\<rparr>"
  have g: "group_key bf_rule ?e = Some ''10.0.0.1''" by code_simp
  have "counted bf_rule ''10.0.0.1'' ?e"
    unfolding counted_def g by (simp add: source_matches_def bf_rule_def)
  then have "filter (counted bf_rule ''10.0.0.1'') (replicate 5 ?e) = replicate 5 ?e" by simp
  then show ?thesis
    using threshold_fires_once [OF map_redis_laws, of "[]" bf_rule "''10.0.0.1''" "replicate 5 ?e"]
    by (simp add: rview_def corr_executable_def bf_rule_def)
qed


subsection \<open>Without Redis\<close>

lemma redis_downD:
  assumes "redis_down R"
  shows "rd_get R s k = (Inl RedisError, s)" "rd_incr R s k = (Inl RedisError, s)"
    "rd_setex R s k t v = (Inl RedisError, s)" "rd_set_nx R s k v t = (Inl RedisError, s)"
  using assms unfolding redis_down_def by simp_all

lemma down_bump: "redis_down R \<Longrightarrow> bump R r k s = (Inl RedisError, s)"
  by (simp add: bump_def redis_downD)

lemma down_threshold: "redis_down R \<Longrightarrow> \<exists>out. eval_threshold R r e i s = (out, s) \<and> (\<forall>m. out \<noteq> Inr (Some m))"
  by (simp add: eval_threshold_def down_bump split: option.split)

lemma down_seq: "redis_down R \<Longrightarrow> \<exists>out. seq_steps R r e g i ps s = (out, s) \<and> (\<forall>m. out \<noteq> Inr (Some m))"
proof (induction ps arbitrary: i)
  case (Cons p ps)
  then show ?case
    by (cases "p e"; cases "ps = []"; cases "needed_count r i") (simp_all add: redis_downD down_bump)
qed simp

lemma down_rule:
  assumes "redis_down R"
  obtains out where "eval_rule R r e s = (out, s)" "\<forall>m. out \<noteq> Inr (Some m)"
proof (cases "cr_type r = ''threshold''")
  case True
  then show ?thesis using down_threshold [OF assms, of r e 0 s] that by (auto simp: eval_rule_def)
next
  case False
  show ?thesis
  proof (cases "group_key r e")
    case None
    then show ?thesis using that False by (simp add: eval_rule_def eval_sequence_def)
  next
    case (Some g)
    then show ?thesis using that False down_seq [OF assms, of r e g 0 "cr_matchers r" s]
      by (auto simp: eval_rule_def eval_sequence_def simp del: seq_steps.simps)
  qed
qed

lemma down_rules: "redis_down R \<Longrightarrow> eval_rules R rs e s = ([], s)"
proof (induction rs)
  case (Cons r rs)
  obtain out where out: "eval_rule R r e s = (out, s)" "\<forall>m. out \<noteq> Inr (Some m)"
    using down_rule [OF Cons.prems] by blast
  then show ?case
  proof (cases out)
    case (Inr x)
    then show ?thesis using out Cons by (cases x) simp_all
  qed (use Cons out in simp_all)
qed simp

text \<open>
  With Redis down the engine neither raises nor reports anything: no rule matches any event,
  and the state is untouched.
\<close>

lemma correlation_without_redis:
  assumes "redis_down R"
  shows "corr_evaluate R rules es s = ([], s)"
proof -
  have "corr_loop R rs es s = ([], s)" for rs
    by (induction es) (simp_all add: down_rules [OF assms])
  then show ?thesis by (simp add: corr_evaluate_def)
qed

theorem correlation_without_redis_witness:
  "corr_evaluate dead_redis [bf_rule] [blank_uevent] [] = ([], [])"
  by (rule correlation_without_redis [OF dead_redis_down])

subsection \<open>Sequences\<close>

lemma seq_skip:
  "\<forall>p \<in> set ps. \<not> p e \<Longrightarrow> seq_steps R r e g i (ps @ [q]) s = seq_steps R r e g (i + length ps) [q] s"
  by (induction ps arbitrary: i) (auto simp del: seq_steps.simps(1))

text \<open>
  The trigger of a sequence: an event that matches only the last step raises an alert exactly
  when the step before it is armed for the event's group and the sequence has not fired for this
  group within the window; then it is marked as fired, so that the same event again raises
  nothing.
\<close>

theorem sequence_trigger:
  assumes "redis_laws R view" "cr_matchers r = ps @ [q]" "\<forall>p \<in> set ps. \<not> p e" "q e"
    "group_key r e = Some g"
    "view s (armed_name r g (int (length ps) - 1)) \<in> {None, Some (RStr ''1'')}"
  shows "\<exists>s'. eval_sequence R r e s =
      (Inr (if view s (armed_name r g (int (length ps) - 1)) \<noteq> None \<and> view s (fired_name r g ''seq'') = None
        then Some (corr_match_of r e g (int (length ps) + 1)) else None), s') \<and>
    (\<exists>s''. eval_sequence R r e s' = (Inr None, s''))"
proof -
  let ?a = "armed_name r g (int (length ps) - 1)" and ?f = "fired_name r g ''seq''"
  have run: "eval_sequence R r e t = (case rd_get R t ?a of
       (Inl x, s1) \<Rightarrow> (Inl x, s1)
     | (Inr armed, s1) \<Rightarrow> if truthy armed then claim R r e g ''seq'' (int (length ps) + 1) s1 else (Inr None, s1))" for t
  proof -
    have n: "int (length (cr_matchers r)) = int (length ps) + 1" by (simp add: assms(2))
    show ?thesis
      using seq_skip [OF assms(3), of R r g 0 q t] assms(2,4,5) by (simp add: eval_sequence_def n add.commute split: sum.split prod.split)
  qed
  have step: "view t ?a \<in> {None, Some (RStr ''1'')} \<Longrightarrow> \<exists>t'. eval_sequence R r e t =
      (Inr (if view t ?a \<noteq> None \<and> view t ?f = None then Some (corr_match_of r e g (int (length ps) + 1)) else None), t') \<and>
      view t' ?a = view t ?a \<and> (view t ?a \<noteq> None \<longrightarrow> view t' ?f \<noteq> None)" for t
  proof -
    assume a: "view t ?a \<in> {None, Some (RStr ''1'')}"
    obtain t1 where t1: "rd_get R t ?a = (Inr (str_of (view t ?a)), t1)" "view t1 = view t"
      using redis_lawsD(1) [OF assms(1)] by blast
    obtain t2 where t2: "claim R r e g ''seq'' (int (length ps) + 1) t1 =
        (Inr (if view t ?f = None then Some (corr_match_of r e g (int (length ps) + 1)) else None), t2)"
        "view t2 = (if view t ?f = None then (view t)(?f \<mapsto> RStr ''1'') else view t)"
      using claim_laws [OF assms(1), of r e g "''seq''" "int (length ps) + 1" t1] unfolding t1(2) by blast
    show ?thesis
      using a t1 t2 by (cases "view t ?a") (auto simp: run)
  qed
  obtain s' where s': "eval_sequence R r e s =
      (Inr (if view s ?a \<noteq> None \<and> view s ?f = None then Some (corr_match_of r e g (int (length ps) + 1)) else None), s')"
      "view s' ?a = view s ?a" "view s ?a \<noteq> None \<longrightarrow> view s' ?f \<noteq> None"
    using step [OF assms(6)] by blast
  then obtain s'' where "eval_sequence R r e s' = (Inr None, s'')"
    using step [of s'] assms(6) by (cases "view s ?a = None") auto
  with s'(1) show ?thesis by blast
qed

definition seq_rule :: "epred list \<Rightarrow> corr_rule" where
  "seq_rule ps = bf_rule\<lparr>cr_id := ''seq'', cr_type := ''sequence'', cr_matchers := ps,
     cr_steps := PList (replicate (length ps) (PDict []))\<rparr>"

definition type_is :: "string \<Rightarrow> epred" where
  "type_is t e = (ue_category e = Some t)"

definition typed :: "string \<Rightarrow> uevent" where
  "typed t = blank_uevent\<lparr>ue_src_ip := Some ''10.0.0.1'', ue_category := Some t\<rparr>"

theorem sequence_trigger_witness:
  "\<exists>s'. eval_sequence map_redis (seq_rule [type_is ''a'', type_is ''b'']) (typed ''b'') [(''corr-armed:seq:10.0.0.1:0'', RStr ''1'')] =
     (Inr (Some (corr_match_of (seq_rule [type_is ''a'', type_is ''b'']) (typed ''b'') ''10.0.0.1'' 2)), s')"
proof -
  let ?r = "seq_rule [type_is ''a'', type_is ''b'']" and ?s = "[(''corr-armed:seq:10.0.0.1:0'', RStr ''1'')]"
  have g: "group_key ?r (typed ''b'') = Some ''10.0.0.1''" by code_simp
  have n: "armed_name ?r ''10.0.0.1'' 0 = ''corr-armed:seq:10.0.0.1:0''"
    "fired_name ?r ''10.0.0.1'' ''seq'' \<noteq> ''corr-armed:seq:10.0.0.1:0''" by code_simp+
  from sequence_trigger [OF map_redis_laws, of ?r "[type_is ''a'']" "type_is ''b''" "typed ''b''" "''10.0.0.1''" ?s] g n
  show ?thesis by (auto simp: rview_def seq_rule_def type_is_def typed_def)
qed

text \<open>
  Only the step before the last is looked at: with three steps, two events of the second and
  third kind raise the alert although the first step never happened, contrary to the engine's
  description of a sequence; and the report of a threshold match with a group calls it a
  sequence.
\<close>

lemma first_of_three_steps_is_ignored:
  "length (fst (corr_evaluate map_redis [seq_rule [type_is ''a'', type_is ''b'', type_is ''c'']]
      [typed ''b'', typed ''c''] [])) = 1 \<and>
   dict_get (corr_to_dict (corr_match_of bf_rule (typed ''a'') ''10.0.0.1'' 2)) ''type'' = PStr ''sequence''"
  by code_simp

end
