(* ===== verification/Json.thy ===== *)
theory Json
  imports Pyval
begin

section \<open>JSON output\<close>

text \<open>
  \<open>json.dumps(value)\<close> with its default separators: strings are escaped to ASCII, characters
  above U+007F as \<open>u\<close> escapes of their UTF-16 code units, read from the UTF-8 bytes that represent
  a string in this development.
\<close>

definition hex4 :: "nat \<Rightarrow> string" where
  "hex4 n = [backslash, CHR ''u'', hex_digit (n div 4096 mod 16), hex_digit (n div 256 mod 16),
     hex_digit (n div 16 mod 16), hex_digit (n mod 16)]"

definition json_point :: "nat \<Rightarrow> string" where
  "json_point n = (if n < 65536 then hex4 n
     else hex4 (55296 + (n - 65536) div 1024) @ hex4 (56320 + (n - 65536) mod 1024))"

definition json_ascii :: "char \<Rightarrow> string" where
  "json_ascii c =
     (if c = CHR 0x22 \<or> c = backslash then [backslash, c]
      else if c = CHR 0x0A then [backslash, CHR ''n''] else if c = CHR 0x0D then [backslash, CHR ''r'']
      else if c = CHR 0x09 then [backslash, CHR ''t''] else if c = CHR 0x08 then [backslash, CHR ''b'']
      else if c = CHR 0x0C then [backslash, CHR ''f'']
      else if code c < 32 then hex4 (code c) else [c])"

definition low6 :: "char \<Rightarrow> nat" where
  "low6 c = code c mod 64"

fun json_chars :: "string \<Rightarrow> string" where
  "json_chars [] = []"
| "json_chars (a # s) =
     (if code a < 128 then json_ascii a @ json_chars s
      else case s of
        b # s1 \<Rightarrow>
          (if code a < 224 then json_point (code a mod 32 * 64 + low6 b) @ json_chars s1
           else case s1 of
             c # s2 \<Rightarrow>
               (if code a < 240 then json_point (code a mod 16 * 4096 + low6 b * 64 + low6 c) @ json_chars s2
                else case s2 of
                  d # s3 \<Rightarrow> json_point (code a mod 8 * 262144 + low6 b * 4096 + low6 c * 64 + low6 d) @ json_chars s3
                | [] \<Rightarrow> [])
           | [] \<Rightarrow> [])
      | [] \<Rightarrow> [])"

definition json_str :: "string \<Rightarrow> string" where
  "json_str s = CHR 0x22 # json_chars s @ [CHR 0x22]"

fun json_dumps :: "pyval \<Rightarrow> string" where
  "json_dumps PNone = ''null''"
| "json_dumps (PBool b) = (if b then ''true'' else ''false'')"
| "json_dumps (PInt i) = show_int i"
| "json_dumps (PFloat r t) = t"
| "json_dumps (PStr s) = json_str s"
| "json_dumps (PList xs) = ''['' @ join '', '' (map json_dumps xs) @ '']''"
| "json_dumps (PDict m) =
     ''{'' @ join '', '' (map (\<lambda>kv. json_str (fst kv) @ '': '' @ json_dumps (snd kv)) m) @ ''}''"

section \<open>JSON input\<close>

text \<open>
  \<open>json.loads(text)\<close>, as a recursive descent over the text; \<open>None\<close> is \<open>JSONDecodeError\<close>.  Every
  call consumes a character, so the length of the text is enough fuel.  The value and the printed form
  of a number with a fraction or an exponent, and of the constants \<open>NaN\<close> and \<open>Infinity\<close>, are
  those of \<open>float()\<close>, a parameter.
\<close>

type_synonym float_reader = "string \<Rightarrow> (rat \<times> string) option"

definition json_ws :: "char \<Rightarrow> bool" where
  "json_ws c \<longleftrightarrow> code c \<in> {9, 10, 13, 32}"

definition skip_ws :: "string \<Rightarrow> string" where
  "skip_ws s = dropWhile json_ws s"

subsection \<open>Strings\<close>

definition hex_val :: "char \<Rightarrow> nat option" where
  "hex_val c = (if is_digit c then Some (code c - 48)
     else if 97 \<le> code c \<and> code c \<le> 102 then Some (code c - 87)
     else if 65 \<le> code c \<and> code c \<le> 70 then Some (code c - 55) else None)"

definition hex_unit :: "char \<Rightarrow> char \<Rightarrow> char \<Rightarrow> char \<Rightarrow> nat option" where
  "hex_unit a b c d = (case (hex_val a, hex_val b, hex_val c, hex_val d) of
     (Some w, Some x, Some y, Some z) \<Rightarrow> Some (4096 * w + 256 * x + 16 * y + z) | _ \<Rightarrow> None)"

definition simple_escape :: "char \<Rightarrow> char option" where
  "simple_escape c =
     (if c = CHR 0x22 \<or> c = backslash \<or> c = CHR ''/'' then Some c
      else if c = CHR ''b'' then Some (CHR 0x08) else if c = CHR ''f'' then Some (CHR 0x0C)
      else if c = CHR ''n'' then Some (CHR 0x0A) else if c = CHR ''r'' then Some (CHR 0x0D)
      else if c = CHR ''t'' then Some (CHR 0x09) else None)"

text \<open>The text after an opening quote: bytes and \<open>u\<close> escapes up to the closing quote.\<close>

fun json_units :: "string \<Rightarrow> ((char + nat) list \<times> string) option" where
  "json_units [] = None"
| "json_units (c # s) =
     (if c = CHR 0x22 then Some ([], s)
      else if code c < 32 then None
      else if c \<noteq> backslash then map_option (\<lambda>(us, r). (Inl c # us, r)) (json_units s)
      else case s of
        [] \<Rightarrow> None
      | e # s1 \<Rightarrow>
          (if e = CHR ''u'' then
             (case s1 of h1 # h2 # h3 # h4 # s2 \<Rightarrow>
                (case hex_unit h1 h2 h3 h4 of
                   None \<Rightarrow> None
                 | Some n \<Rightarrow> map_option (\<lambda>(us, r). (Inr n # us, r)) (json_units s2))
              | _ \<Rightarrow> None)
           else case simple_escape e of
             None \<Rightarrow> None
           | Some d \<Rightarrow> map_option (\<lambda>(us, r). (Inl d # us, r)) (json_units s1)))"

definition utf8 :: "nat \<Rightarrow> string" where
  "utf8 n = (if n < 128 then [char_of n]
     else if n < 2048 then [char_of (192 + n div 64), char_of (128 + n mod 64)]
     else if n < 65536 then [char_of (224 + n div 4096), char_of (128 + n div 64 mod 64), char_of (128 + n mod 64)]
     else [char_of (240 + n div 262144), char_of (128 + n div 4096 mod 64), char_of (128 + n div 64 mod 64),
           char_of (128 + n mod 64)])"

text \<open>Two escapes that form a surrogate pair are one character.\<close>

fun join_units :: "(char + nat) list \<Rightarrow> string" where
  "join_units [] = []"
| "join_units (Inl c # us) = c # join_units us"
| "join_units (Inr n # Inr m # us) =
     (if 55296 \<le> n \<and> n < 56320 \<and> 56320 \<le> m \<and> m < 57344
      then utf8 (65536 + (n - 55296) * 1024 + (m - 56320)) @ join_units us
      else utf8 n @ join_units (Inr m # us))"
| "join_units (Inr n # us) = utf8 n @ join_units us"

definition json_string :: "string \<Rightarrow> (string \<times> string) option" where
  "json_string s = map_option (\<lambda>(us, r). (join_units us, r)) (json_units s)"

subsection \<open>Numbers\<close>

definition digits_of :: "string \<Rightarrow> string \<times> string" where
  "digits_of s = (takeWhile is_digit s, dropWhile is_digit s)"

text \<open>\<open>(-?(?:0|[1-9]\d*))(\.\d+)?([eE][-+]?\d+)?\<close>: the integer part, the fraction, the exponent, the rest.\<close>

definition int_part :: "string \<Rightarrow> (string \<times> string) option" where
  "int_part s = (case s of
     [] \<Rightarrow> None
   | c # t \<Rightarrow> if c = CHR ''0'' then Some ([c], t)
       else if is_digit c then Some (digits_of s) else None)"

definition frac_part :: "string \<Rightarrow> string \<times> string" where
  "frac_part s = (case s of
     c # d # t \<Rightarrow> if c = CHR ''.'' \<and> is_digit d then (case digits_of (d # t) of (ds, r) \<Rightarrow> (c # ds, r)) else ([], s)
   | _ \<Rightarrow> ([], s))"

definition exp_part :: "string \<Rightarrow> string \<times> string" where
  "exp_part s = (case s of
     e # t \<Rightarrow> if e = CHR ''e'' \<or> e = CHR ''E'' then
         (case t of
            sg # u \<Rightarrow> if sg = CHR ''+'' \<or> sg = CHR ''-''
              then (case digits_of u of (ds, r) \<Rightarrow> if ds = [] then ([], s) else (e # sg # ds, r))
              else (case digits_of t of (ds, r) \<Rightarrow> if ds = [] then ([], s) else (e # ds, r))
          | [] \<Rightarrow> ([], s))
       else ([], s)
   | [] \<Rightarrow> ([], s))"

definition json_number :: "float_reader \<Rightarrow> string \<Rightarrow> (pyval \<times> string) option" where
  "json_number fl s =
     (let (sg, t) = (if startswith s ''-'' then (''-'', tl s) else ([], s)) in
      case int_part t of
        None \<Rightarrow> None
      | Some (ds, r1) \<Rightarrow>
          (case frac_part r1 of (fr, r2) \<Rightarrow> case exp_part r2 of (ex, r3) \<Rightarrow>
             if fr = [] \<and> ex = [] then Some (PInt ((if sg = [] then 1 else - 1) * int (read_nat ds)), r3)
             else (case fl (sg @ ds @ fr @ ex) of
                 None \<Rightarrow> None
               | Some (q, text) \<Rightarrow> Some (PFloat q text, r3))))"

definition json_words :: "(string \<times> pyval) list" where
  "json_words = [(''null'', PNone), (''true'', PBool True), (''false'', PBool False)]"

definition json_constant :: "float_reader \<Rightarrow> string \<Rightarrow> (pyval \<times> string) option" where
  "json_constant fl s = (case find_first (\<lambda>w. startswith s w) [''NaN'', ''Infinity'', ''-Infinity''] of
     None \<Rightarrow> json_number fl s
   | Some w \<Rightarrow> (case fl w of None \<Rightarrow> None | Some (q, text) \<Rightarrow> Some (PFloat q text, drop (length w) s)))"

definition json_scalar :: "float_reader \<Rightarrow> string \<Rightarrow> (pyval \<times> string) option" where
  "json_scalar fl s = (case find_first (\<lambda>(w, v). startswith s w) json_words of
     Some (w, v) \<Rightarrow> Some (v, drop (length w) s)
   | None \<Rightarrow> json_constant fl s)"

subsection \<open>Values\<close>

text \<open>
  \<open>json_elems\<close> reads the elements of an array and \<open>json_members\<close> those of an object, from the
  first character of an element to the closing bracket; a repeated key keeps its place and the last value.
\<close>

fun json_value :: "float_reader \<Rightarrow> nat \<Rightarrow> string \<Rightarrow> (pyval \<times> string) option"
  and json_elems :: "float_reader \<Rightarrow> nat \<Rightarrow> string \<Rightarrow> (pyval list \<times> string) option"
  and json_members :: "float_reader \<Rightarrow> nat \<Rightarrow> pydict \<Rightarrow> string \<Rightarrow> (pydict \<times> string) option" where
  "json_value fl 0 s = None"
| "json_value fl (Suc n) s = (case s of
     [] \<Rightarrow> None
   | c # t \<Rightarrow>
       if c = CHR 0x22 then map_option (\<lambda>(w, r). (PStr w, r)) (json_string t)
       else if c = CHR ''{'' then
         (if startswith (skip_ws t) ''}'' then Some (PDict [], tl (skip_ws t))
          else map_option (\<lambda>(m, r). (PDict m, r)) (json_members fl n [] (skip_ws t)))
       else if c = CHR ''['' then
         (if startswith (skip_ws t) '']'' then Some (PList [], tl (skip_ws t))
          else map_option (\<lambda>(xs, r). (PList xs, r)) (json_elems fl n (skip_ws t)))
       else json_scalar fl s)"
| "json_elems fl 0 s = None"
| "json_elems fl (Suc n) s = (case json_value fl n s of
     None \<Rightarrow> None
   | Some (v, r) \<Rightarrow> (case skip_ws r of
       [] \<Rightarrow> None
     | c # t \<Rightarrow>
         if c = CHR '']'' then Some ([v], t)
         else if c = CHR '','' then map_option (\<lambda>(vs, r). (v # vs, r)) (json_elems fl n (skip_ws t))
         else None))"
| "json_members fl 0 m s = None"
| "json_members fl (Suc n) m s = (case s of
     [] \<Rightarrow> None
   | q # s1 \<Rightarrow>
       if q \<noteq> CHR 0x22 then None
       else (case json_string s1 of
           None \<Rightarrow> None
         | Some (key, r) \<Rightarrow>
             if \<not> startswith (skip_ws r) '':'' then None
             else (case json_value fl n (skip_ws (tl (skip_ws r))) of
                 None \<Rightarrow> None
               | Some (v, r2) \<Rightarrow> (case skip_ws r2 of
                   [] \<Rightarrow> None
                 | c # t \<Rightarrow>
                     if c = CHR ''}'' then Some (assoc_put key v m, t)
                     else if c = CHR '','' then json_members fl n (assoc_put key v m) (skip_ws t)
                     else None))))"

definition json_loads :: "float_reader \<Rightarrow> string \<Rightarrow> pyval option" where
  "json_loads fl s = (case json_value fl (2 * length s + 2) (skip_ws s) of
     Some (v, r) \<Rightarrow> if skip_ws r = [] then Some v else None
   | None \<Rightarrow> None)"

text \<open>\<open>json.dumps(v, sort_keys=True)\<close>: the keys of every object in order.\<close>

end
