(* ===== verification/Playbooks.thy ===== *)
theory Playbooks
  imports Detection_Context Redis_Interface Json Pyval
begin

section \<open>Playbooks\<close>

text \<open>
  \<open>app/services/playbook_engine.py\<close>: automation on alerts.  The world is the state of Redis, the
  rows written to the database (executions, remediations) and the effects outside the platform
  (web hooks, shell commands on the server), in order.  The environment \<open>pb_env\<close> holds what is
  outside: the HTTP client, \<open>subprocess.run\<close>, the published artifacts, the hash and the MAC, the
  text of an exception, and the settings.  The database accepts every row.
\<close>

subsection \<open>Risk of the actions\<close>

definition risk_entry :: "string \<Rightarrow> string \<Rightarrow> bool \<Rightarrow> string \<Rightarrow> string option \<Rightarrow> pydict" where
  "risk_entry risk approver reversible pre rollback =
     [(''risk'', PStr risk), (''approver'', PStr approver), (''reversible'', PBool reversible),
      (''preconditions'', PStr pre)] @ (case rollback of None \<Rightarrow> [] | Some t \<Rightarrow> [(''rollback'', PStr t)])"

text \<open>The arrows in the text of \<open>eradicate\<close> are U+2192.\<close>

definition arrow :: string where
  "arrow = [CHR 0xE2, CHR 0x86, CHR 0x92]"

definition ACTION_RISK :: "(string \<times> pydict) list" where
  "ACTION_RISK =
    [(''webhook'', risk_entry ''low'' ''analyst'' True ''reachable https URL'' None),
     (''verify'', risk_entry ''low'' ''analyst'' True ''PID present in the alert'' None),
     (''collect_ioc'', risk_entry ''low'' ''analyst'' True ''PID present in the alert'' None),
     (''kill_process'', risk_entry ''high'' ''analyst'' False ''PID present, high confidence'' None),
     (''kill_process_tree'', risk_entry ''high'' ''analyst'' False ''PID present, high confidence'' None),
     (''quarantine_binary'', risk_entry ''medium'' ''analyst'' True ''PID present, readable binary''
        (Some ''restore from quarantine/ + ACL'')),
     (''remove_persistence'', risk_entry ''high'' ''analyst'' False ''persistence evidence present'' None),
     (''dns_sinkhole'', risk_entry ''medium'' ''analyst'' True ''confirmed malicious domain''
        (Some ''remove hosts entry'')),
     (''block_ip'', risk_entry ''high'' ''analyst'' True ''IP not in the allowlist'' (Some ''remove firewall rule'')),
     (''block_ip_temporal'', risk_entry ''medium'' ''analyst'' True ''IP not in the allowlist''
        (Some ''automatic expiry'')),
     (''isolate_host'', risk_entry ''critical'' ''analyst'' True ''explicit approval, non-critical host''
        (Some ''DEISOLATE_HOST'')),
     (''deisolate_host'', risk_entry ''low'' ''analyst'' True ''host is isolated'' None),
     (''release_host'', risk_entry ''low'' ''analyst'' True ''host is isolated'' None),
     (''update_agent'', risk_entry ''medium'' ''analyst'' True ''signed artifact published''
        (Some ''UPDATE_AGENT to the previous version'')),
     (''script'', risk_entry ''critical'' ''admin'' False ''admin only, reviewed command, audited'' None),
     (''eradicate'', risk_entry ''critical'' ''analyst'' False
        (''chain COLLECT'' @ arrow @ ''QUARANTINE'' @ arrow @ ''KILL'' @ arrow @ ''REMOVE'' @ arrow @ ''VERIFY'') None)]"

definition describe_action :: "string \<Rightarrow> pydict" where
  "describe_action t = assoc_default
     (risk_entry ''critical'' ''admin'' False ''tipo azione sconosciuto: revisione manuale'' None)
     (lower t) ACTION_RISK"

subsection \<open>Data\<close>

record stored_alert = alert +
  al_id :: int

record pb_action =
  pa_type :: string
  pa_target :: string
  pa_params :: "pydict option"
  pa_order :: int

text \<open>\<open>pb_actions\<close> is the result of the query for the playbook's actions, in order.\<close>

record playbook =
  pb_id :: int
  pb_is_active :: bool
  pb_trigger_event_type :: "string option"
  pb_trigger_severity :: "string option"
  pb_trigger_process_name :: "string option"
  pb_actions :: "pb_action list result"

record execution =
  ex_playbook_id :: int
  ex_alert_id :: int
  ex_triggered_by :: "int option"
  ex_status :: string
  ex_result :: pydict

record remediation =
  rm_alert_id :: int
  rm_agent_id :: string
  rm_action :: string
  rm_target :: string
  rm_status :: pyval
  rm_details :: pyval

datatype effect =
    Posted string pydict
  | RanScript "string list" int

record 's pworld =
  pw_redis :: 's
  pw_effects :: "effect list"
  pw_executions :: "execution list"
  pw_remediations :: "remediation list"

record pb_env =
  pe_post :: "string \<Rightarrow> pydict \<Rightarrow> string + int"
  pe_run :: "string list \<Rightarrow> int \<Rightarrow> string + (int \<times> string \<times> string)"
  pe_exn_text :: "exn \<Rightarrow> string"
  pe_artifact :: "string \<Rightarrow> string option"
  pe_sha256 :: "string \<Rightarrow> string"
  pe_sign :: "string \<Rightarrow> string"
  pe_base_url :: string
  pe_script_enabled :: bool
  pe_idempotency_ttl :: int

subsection \<open>Commands to the agent\<close>

definition queue_name :: "string \<Rightarrow> string" where
  "queue_name agent = ''aegis:commands:'' @ agent"

definition outcome :: "string \<Rightarrow> string \<Rightarrow> pydict" where
  "outcome status text = [(''status'', PStr status), (''output'', PStr text)]"

definition send_agent_command :: "'s redis \<Rightarrow> string \<Rightarrow> pydict \<Rightarrow> 's \<Rightarrow> pydict \<times> 's" where
  "send_agent_command R agent cmd s =
     (let name = py_str (dict_get cmd ''command'');
          down = outcome ''failed'' (''Queue unavailable: '' @ name)
      in case rd_rpush R s (queue_name agent) (json_dumps (PDict cmd)) of
           (Inl x, s1) \<Rightarrow> (down, s1)
         | (Inr _, s1) \<Rightarrow>
             (case rd_ltrim R s1 (queue_name agent) 0 99 of
                (Inl x, s2) \<Rightarrow> (down, s2)
              | (Inr _, s2) \<Rightarrow> (outcome ''completed'' (''Command queued: '' @ name), s2)))"

definition queue_cmd :: "'s redis \<Rightarrow> stored_alert \<Rightarrow> pydict \<Rightarrow> 's pworld \<Rightarrow> pydict result \<times> 's pworld" where
  "queue_cmd R a cmd w = (case send_agent_command R (al_agent_id a) cmd (pw_redis w) of
     (r, s) \<Rightarrow> (Inr r, w\<lparr>pw_redis := s\<rparr>))"

definition has_pid :: "stored_alert \<Rightarrow> bool" where
  "has_pid a \<longleftrightarrow> (case al_pid a of None \<Rightarrow> False | Some p \<Rightarrow> p \<noteq> 0)"

definition with_pid :: "'s redis \<Rightarrow> stored_alert \<Rightarrow> pydict \<Rightarrow> 's pworld \<Rightarrow> pydict result \<times> 's pworld" where
  "with_pid R a cmd w =
     (if has_pid a then queue_cmd R a cmd w else (Inr (outcome ''failed'' ''No PID available''), w))"

definition cmd_head :: "string \<Rightarrow> pydict" where
  "cmd_head c = [(''command'', PStr c)]"

definition cmd_pid :: "stored_alert \<Rightarrow> pydict" where
  "cmd_pid a = [(''pid'', opt_int (al_pid a))]"

definition cmd_proc :: "stored_alert \<Rightarrow> pydict" where
  "cmd_proc a = [(''process_name'', opt_str (al_process_name a))]"

definition cmd_alert :: "stored_alert \<Rightarrow> pydict" where
  "cmd_alert a = [(''alert_id'', PInt (al_id a))]"

definition pid_cmd :: "string \<Rightarrow> stored_alert \<Rightarrow> pydict" where
  "pid_cmd c a = cmd_head c @ cmd_pid a @ cmd_proc a @ cmd_alert a"

subsection \<open>The actions that leave the queue\<close>

definition put_all :: "pydict \<Rightarrow> pydict \<Rightarrow> pydict" where
  "put_all m upd = fold (\<lambda>(k, v) d. assoc_put k v d) upd m"

definition webhook_payload :: "stored_alert \<Rightarrow> pydict \<Rightarrow> pydict" where
  "webhook_payload a params = put_all
     [(''alert_id'', PInt (al_id a)), (''severity'', PStr (al_severity a)),
      (''process_name'', opt_str (al_process_name a)), (''description'', PStr (al_description a))] params"

definition run_webhook :: "pb_env \<Rightarrow> string \<Rightarrow> pydict \<Rightarrow> 's pworld \<Rightarrow> pydict result \<times> 's pworld" where
  "run_webhook env target payload w =
     (Inr (case pe_post env target payload of
        Inl msg \<Rightarrow> outcome ''failed'' msg
      | Inr status \<Rightarrow> outcome (if 200 \<le> status \<and> status \<le> 299 then ''completed'' else ''failed'')
          (''HTTP '' @ show_int status)),
      w\<lparr>pw_effects := pw_effects w @ [Posted target payload]\<rparr>)"

definition run_script :: "pb_env \<Rightarrow> string \<Rightarrow> pydict \<Rightarrow> 's pworld \<Rightarrow> pydict result \<times> 's pworld" where
  "run_script env target params w =
     (if \<not> pe_script_enabled env then (Inr (outcome ''blocked'' ''script actions disabled''), w)
      else case py_int (dict_get_or params ''timeout'' (PInt 30)) of
        Inl x \<Rightarrow> (Inr (outcome ''failed'' (take 500 (pe_exn_text env x))), w)
      | Inr t \<Rightarrow>
          (let args = words target; limit = min t 120;
               w1 = w\<lparr>pw_effects := pw_effects w @ [RanScript args limit]\<rparr>
           in case pe_run env args limit of
                Inl msg \<Rightarrow> (Inr (outcome ''failed'' (take 500 msg)), w1)
              | Inr (rc, out, err) \<Rightarrow>
                  (Inr (outcome (if rc = 0 then ''completed'' else ''failed'')
                     (take 4000 (if out \<noteq> [] then out else err))), w1)))"

definition artifact_name_for :: "string \<Rightarrow> string \<Rightarrow> string" where
  "artifact_name_for agent_type version =
     (let v = or_str (Some (strip (or_str (Some version) ''latest''))) ''latest'' in
      (if agent_type = ''aegis-guard'' then ''aegis-guard-'' else ''nodetrace-'') @ v @ ''.zip'')"

definition rstrip_slash :: "string \<Rightarrow> string" where
  "rstrip_slash s = rev (dropWhile (\<lambda>c. c = CHR ''/'') (rev s))"

definition build_update_command :: "string \<Rightarrow> string \<Rightarrow> string \<Rightarrow> string \<Rightarrow> string \<Rightarrow> pydict" where
  "build_update_command agent_type version base_url sha256 signature =
     [(''command'', PStr ''UPDATE_AGENT''), (''agent_type'', PStr agent_type), (''version'', PStr version),
      (''url'', PStr (rstrip_slash base_url @ ''/api/v1/deploy/artifacts/'' @ artifact_name_for agent_type version)),
      (''sha256'', PStr sha256), (''signature'', PStr signature)]"

definition run_update :: "'s redis \<Rightarrow> pb_env \<Rightarrow> stored_alert \<Rightarrow> string \<Rightarrow> pydict \<Rightarrow> 's pworld \<Rightarrow> pydict result \<times> 's pworld" where
  "run_update R env a target params w =
     (let version = py_str (dict_get_or params ''version'' (PStr ''latest''));
          atype = (if py_in ''guard'' (lower target) then ''aegis-guard'' else ''nodetrace'');
          fname = artifact_name_for atype version
      in case pe_artifact env fname of
           None \<Rightarrow> (Inr (outcome ''failed'' (''Artifact '' @ fname @ '' not published'')), w)
         | Some content \<Rightarrow>
             (let digest = pe_sha256 env content in
              queue_cmd R a (assoc_put ''alert_id'' (PInt (al_id a))
                (build_update_command atype version (pe_base_url env) digest (pe_sign env digest))) w))"

text \<open>The chain of \<open>eradicate\<close>: the commands that are sent, in order; then its fixed answer.\<close>

definition eradicate_chain :: "stored_alert \<Rightarrow> pydict list" where
  "eradicate_chain a =
     (if has_pid a then [pid_cmd ''COLLECT_IOC'' a, pid_cmd ''QUARANTINE_BINARY'' a, pid_cmd ''KILL_PROCESS_TREE'' a] else []) @
     [cmd_head ''REMOVE_PERSISTENCE'' @ cmd_proc a @ cmd_alert a] @
     (if has_pid a then [cmd_head ''VERIFY'' @ cmd_pid a @ cmd_alert a] else [])"

fun send_all :: "'s redis \<Rightarrow> string \<Rightarrow> pydict list \<Rightarrow> 's \<Rightarrow> pydict list \<times> 's" where
  "send_all R agent [] s = ([], s)"
| "send_all R agent (c # cs) s = (case send_agent_command R agent c s of
     (r, s1) \<Rightarrow> (case send_all R agent cs s1 of (rs, s2) \<Rightarrow> (r # rs, s2)))"

definition run_eradicate :: "'s redis \<Rightarrow> stored_alert \<Rightarrow> 's pworld \<Rightarrow> pydict result \<times> 's pworld" where
  "run_eradicate R a w = (case send_all R (al_agent_id a) (eradicate_chain a) (pw_redis w) of
     (rs, s) \<Rightarrow> (Inr (outcome ''completed'' ''Eradication chain executed'' @ [(''chain'', PList (map PDict rs))]),
       w\<lparr>pw_redis := s\<rparr>))"

subsection \<open>One action\<close>

definition execute_action ::
  "'s redis \<Rightarrow> pb_env \<Rightarrow> pb_action \<Rightarrow> stored_alert \<Rightarrow> 's pworld \<Rightarrow> pydict result \<times> 's pworld" where
  "execute_action R env act a w =
     (let t = pa_type act; target = pa_target act; params = (case pa_params act of None \<Rightarrow> [] | Some p \<Rightarrow> p) in
      if t = ''webhook'' then run_webhook env target (webhook_payload a params) w
      else if t = ''block_ip'' then
        queue_cmd R a (cmd_head ''BLOCK_IP'' @ [(''ip'', PStr target)] @ cmd_alert a) w
      else if t = ''kill_process'' \<or> t = ''kill_process_tree'' then
        with_pid R a (pid_cmd (if t = ''kill_process_tree'' then ''KILL_PROCESS_TREE'' else ''KILL_PROCESS'') a) w
      else if t = ''block_ip_temporal'' then
        (case py_int (dict_get_or params ''duration_seconds'' (PInt 3600)) of
           Inl x \<Rightarrow> (Inl x, w)
         | Inr n \<Rightarrow> queue_cmd R a (cmd_head ''BLOCK_IP_TEMPORAL'' @ [(''ip'', PStr target),
             (''duration_seconds'', PInt n)] @ cmd_alert a) w)
      else if t = ''isolate_host'' then queue_cmd R a (cmd_head ''ISOLATE_HOST'' @ cmd_alert a) w
      else if t = ''deisolate_host'' \<or> t = ''release_host'' then
        queue_cmd R a (cmd_head ''DEISOLATE_HOST'' @ cmd_alert a) w
      else if t = ''update_agent'' then run_update R env a target params w
      else if t = ''script'' then run_script env target params w
      else if t = ''quarantine_binary'' then with_pid R a (pid_cmd ''QUARANTINE_BINARY'' a) w
      else if t = ''remove_persistence'' then
        queue_cmd R a (cmd_head ''REMOVE_PERSISTENCE'' @ cmd_proc a @ cmd_alert a) w
      else if t = ''verify'' then with_pid R a (cmd_head ''VERIFY'' @ cmd_pid a @ cmd_alert a) w
      else if t = ''dns_sinkhole'' then
        queue_cmd R a (cmd_head ''DNS_SINKHOLE'' @ [(''domain'', PStr target)] @ cmd_alert a) w
      else if t = ''collect_ioc'' then with_pid R a (pid_cmd ''COLLECT_IOC'' a) w
      else if t = ''eradicate'' then run_eradicate R a w
      else (Inr (outcome ''failed'' (''Unknown action type: '' @ t)), w))"

subsection \<open>One playbook on one alert\<close>

definition matches_trigger :: "playbook \<Rightarrow> stored_alert \<Rightarrow> bool" where
  "matches_trigger p a \<longleftrightarrow>
     \<not> (truthy (pb_trigger_severity p) \<and> upper (text_of (pb_trigger_severity p)) \<noteq> upper (al_severity a)) \<and>
     \<not> (truthy (pb_trigger_event_type p) \<and> pb_trigger_event_type p \<noteq> al_event_type a) \<and>
     \<not> (truthy (pb_trigger_process_name p) \<and>
        \<not> py_in (lower (text_of (pb_trigger_process_name p))) (lower (or_str (al_process_name a) [])))"

definition remediation_of :: "stored_alert \<Rightarrow> pb_action \<Rightarrow> pydict \<Rightarrow> remediation" where
  "remediation_of a act r = \<lparr>rm_alert_id = al_id a, rm_agent_id = al_agent_id a, rm_action = pa_type act,
     rm_target = pa_target act, rm_status = dict_get_or r ''status'' (PStr ''failed''),
     rm_details = dict_get_or r ''output'' (PStr [])\<rparr>"

fun run_actions :: "'s redis \<Rightarrow> pb_env \<Rightarrow> pb_action list \<Rightarrow> stored_alert \<Rightarrow> 's pworld \<Rightarrow>
    pydict list result \<times> 's pworld" where
  "run_actions R env [] a w = (Inr [], w)"
| "run_actions R env (act # acts) a w = (case execute_action R env act a w of
     (Inl x, w1) \<Rightarrow> (Inl x, w1)
   | (Inr r, w1) \<Rightarrow>
       (case run_actions R env acts a (w1\<lparr>pw_remediations := pw_remediations w1 @ [remediation_of a act r]\<rparr>) of
          (Inl x, w2) \<Rightarrow> (Inl x, w2)
        | (Inr rs, w2) \<Rightarrow> (Inr (r # rs), w2)))"

definition execution_of :: "playbook \<Rightarrow> stored_alert \<Rightarrow> int option \<Rightarrow> string \<Rightarrow> pydict \<Rightarrow> execution" where
  "execution_of p a by status res = \<lparr>ex_playbook_id = pb_id p, ex_alert_id = al_id a, ex_triggered_by = by,
     ex_status = status, ex_result = res\<rparr>"

definition add_execution :: "execution \<Rightarrow> 's pworld \<Rightarrow> 's pworld" where
  "add_execution x w = w\<lparr>pw_executions := pw_executions w @ [x]\<rparr>"

definition would_do :: "pb_action \<Rightarrow> pyval" where
  "would_do act = PDict (put_all [(''action_type'', PStr (pa_type act)), (''target'', PStr (pa_target act)),
     (''params'', case pa_params act of None \<Rightarrow> PNone | Some p \<Rightarrow> PDict p), (''order'', PInt (pa_order act))]
     (describe_action (pa_type act)))"

definition live_run :: "'s redis \<Rightarrow> pb_env \<Rightarrow> playbook \<Rightarrow> stored_alert \<Rightarrow> int option \<Rightarrow> 's pworld \<Rightarrow> 's pworld" where
  "live_run R env p a by w =
     (case (case pb_actions p of Inl x \<Rightarrow> (Inl x, w) | Inr acts \<Rightarrow> run_actions R env acts a w) of
        (Inl x, w1) \<Rightarrow> add_execution (execution_of p a by ''failed'' [(''error'', PStr (pe_exn_text env x))]) w1
      | (Inr rs, w1) \<Rightarrow> add_execution (execution_of p a by ''completed'' [(''actions'', PList (map PDict rs))]) w1)"

definition idem_key :: "playbook \<Rightarrow> stored_alert \<Rightarrow> string" where
  "idem_key p a = ''playbook:exec:'' @ show_int (pb_id p) @ '':'' @ show_int (al_id a)"

definition cooldown_key :: "playbook \<Rightarrow> stored_alert \<Rightarrow> string" where
  "cooldown_key p a = ''playbook:cooldown:'' @ show_int (pb_id p) @ '':'' @ al_agent_id a"

text \<open>
  The cooldown: whether it holds the playbook back; a failure of either command lets it pass.
\<close>

definition cooling_down :: "'s redis \<Rightarrow> playbook \<Rightarrow> stored_alert \<Rightarrow> 's \<Rightarrow> bool \<times> 's" where
  "cooling_down R p a s = (case rd_get R s (cooldown_key p a) of
     (Inl x, s1) \<Rightarrow> (False, s1)
   | (Inr v, s1) \<Rightarrow> if truthy v then (True, s1)
       else (case rd_setex R s1 (cooldown_key p a) 60 ''1'' of (_, s2) \<Rightarrow> (False, s2)))"

definition run_live :: "'s redis \<Rightarrow> pb_env \<Rightarrow> playbook \<Rightarrow> stored_alert \<Rightarrow> int option \<Rightarrow> 's pworld \<Rightarrow> 's pworld" where
  "run_live R env p a by w =
     (case rd_set_nx R (pw_redis w) (idem_key p a) ''1'' (pe_idempotency_ttl env) of
        (Inl x, s1) \<Rightarrow> w\<lparr>pw_redis := s1\<rparr>
      | (Inr claimed, s1) \<Rightarrow>
          if \<not> claimed then w\<lparr>pw_redis := s1\<rparr>
          else (case cooling_down R p a s1 of
            (True, s2) \<Rightarrow> w\<lparr>pw_redis := s2\<rparr>
          | (False, s2) \<Rightarrow> live_run R env p a by (w\<lparr>pw_redis := s2\<rparr>)))"

fun check_playbooks :: "'s redis \<Rightarrow> pb_env \<Rightarrow> bool \<Rightarrow> int option \<Rightarrow> stored_alert \<Rightarrow> playbook list \<Rightarrow> 's pworld \<Rightarrow>
    unit result \<times> 's pworld" where
  "check_playbooks R env dry by a [] w = (Inr (), w)"
| "check_playbooks R env dry by a (p # ps) w =
     (if \<not> matches_trigger p a then check_playbooks R env dry by a ps w
      else if dry then (case pb_actions p of
          Inl x \<Rightarrow> (Inl x, w)
        | Inr acts \<Rightarrow> check_playbooks R env dry by a ps (add_execution (execution_of p a by ''dry_run''
            [(''dry_run'', PBool True), (''actions'', PList (map would_do acts))]) w))
      else check_playbooks R env dry by a ps (run_live R env p a by w))"

definition check_and_execute_playbooks ::
  "'s redis \<Rightarrow> pb_env \<Rightarrow> playbook list \<Rightarrow> stored_alert \<Rightarrow> int option \<Rightarrow> bool \<Rightarrow> 's pworld \<Rightarrow> unit result \<times> 's pworld"
  where
  "check_and_execute_playbooks R env playbooks a by dry w =
     check_playbooks R env dry by a (filter pb_is_active playbooks) w"

section \<open>Playbooks: the command queue and what a run touches\<close>

text \<open>
  The contract of a bounded queue as a locale: a send appends and keeps the oldest \<open>cap\<close>
  entries.  Every reachable Redis gives one (\<open>live_redis\<close>), with \<open>send_agent_command\<close> as its
  send.  Then the frame of a playbook run: apart from its own marks it only changes the
  command queue of the alert's agent.
\<close>

subsection \<open>Bounded queues\<close>

locale bounded_queue =
  fixes send :: "'c \<Rightarrow> 's \<Rightarrow> 's" and queue :: "'s \<Rightarrow> 'e list" and enc :: "'c \<Rightarrow> 'e"
    and wf :: "'s \<Rightarrow> bool" and cap :: nat
  assumes send_queue: "wf s \<Longrightarrow> queue (send c s) = take cap (queue s @ [enc c])"
    and send_wf: "wf s \<Longrightarrow> wf (send c s)"
begin

lemma sends_wf: "wf s \<Longrightarrow> wf (fold send cs s)"
  by (induction cs arbitrary: s) (simp_all add: send_wf)

lemma sends_queue: "wf s \<Longrightarrow> length (queue s) \<le> cap \<Longrightarrow> queue (fold send cs s) = take cap (queue s @ map enc cs)"
proof (induction cs arbitrary: s)
  case (Cons c cs)
  have "queue (fold send (c # cs) s) = take cap (take cap (queue s @ [enc c]) @ map enc cs)"
    using Cons.IH [of "send c s"] Cons.prems send_queue [of s c] send_wf by simp
  then show ?case by (cases "length (queue s) = cap") (use Cons.prems in \<open>simp_all\<close>)
qed simp

lemma sends_bounded: "wf s \<Longrightarrow> length (queue s) \<le> cap \<Longrightarrow> length (queue (fold send cs s)) \<le> cap"
  by (simp add: sends_queue)

end

locale live_redis =
  fixes R :: "'s redis" and view :: "'s view"
  assumes laws: "redis_laws R view"
begin

lemma send_command:
  assumes "list_key (view s (queue_name agent))"
  shows "\<exists>s'. send_agent_command R agent cmd s =
      (outcome ''completed'' (''Command queued: '' @ py_str (dict_get cmd ''command'')), s') \<and>
    view s' = (view s)(queue_name agent \<mapsto>
      RLst (take 100 (lst_of (view s (queue_name agent)) @ [json_dumps (PDict cmd)])))"
proof -
  let ?q = "queue_name agent"
  define xs where "xs = lst_of (view s ?q) @ [json_dumps (PDict cmd)]"
  obtain s1 where s1: "rd_rpush R s ?q (json_dumps (PDict cmd)) = (Inr (), s1)" "view s1 = (view s)(?q \<mapsto> RLst xs)"
    using redis_listD(1) [OF laws assms] unfolding xs_def by blast
  have "list_key (view s1 ?q)" "view s1 ?q \<noteq> None" by (simp_all add: s1(2) list_key_def)
  then obtain s2 where s2: "rd_ltrim R s1 ?q 0 99 = (Inr (), s2)"
    "view s2 = (view s1)(?q := (case slice 0 99 (lst_of (view s1 ?q)) of [] \<Rightarrow> None | x # xs \<Rightarrow> Some (RLst (x # xs))))"
    using redis_listD(2) [OF laws, of s1 ?q 0 99] by blast
  have "take 100 xs \<noteq> []" by (simp add: xs_def)
  then obtain y ys where t: "slice 0 99 xs = y # ys" "take 100 xs = y # ys"
    by (cases "take 100 xs") (simp_all add: slice_def)
  have "view s2 = (view s)(?q \<mapsto> RLst (take 100 xs))"
    unfolding s2(2) s1(2) t(2) by (simp add: t(1))
  then have "view s2 = (view s)(?q \<mapsto> RLst (take 100 (lst_of (view s ?q) @ [json_dumps (PDict cmd)])))"
    unfolding xs_def .
  with s1(1) s2(1) show ?thesis by (auto simp: send_agent_command_def Let_def simp del: json_dumps.simps)
qed

end

sublocale live_redis \<subseteq> commands: bounded_queue
  "\<lambda>cmd s. snd (send_agent_command R agent cmd s)" "\<lambda>s. lst_of (view s (queue_name agent))"
  "\<lambda>cmd. json_dumps (PDict cmd)" "\<lambda>s. list_key (view s (queue_name agent))" 100 for agent
proof unfold_locales
  fix s c
  assume "list_key (view s (queue_name agent))"
  from send_command [OF this, of c] show
    "lst_of (view (snd (send_agent_command R agent c s)) (queue_name agent)) =
       take 100 (lst_of (view s (queue_name agent)) @ [json_dumps (PDict c)])"
    "list_key (view (snd (send_agent_command R agent c s)) (queue_name agent))"
    by (auto simp: list_key_def simp del: json_dumps.simps)
qed

interpretation memory: live_redis map_redis rview
  by unfold_locales (rule map_redis_laws)

subsection \<open>What a run touches\<close>

definition only_queue :: "'s view \<Rightarrow> string \<Rightarrow> 's \<Rightarrow> 's \<Rightarrow> bool" where
  "only_queue view agent s s' \<longleftrightarrow> (\<forall>k. k \<noteq> queue_name agent \<longrightarrow> view s' k = view s k) \<and>
     list_key (view s' (queue_name agent))"

lemma only_queue_refl: "list_key (view s (queue_name agent)) \<Longrightarrow> only_queue view agent s s"
  by (simp add: only_queue_def)

lemma only_queue_trans: "only_queue view agent s t \<Longrightarrow> only_queue view agent t u \<Longrightarrow> only_queue view agent s u"
  by (simp add: only_queue_def)

lemma only_queueD: "only_queue view agent s s' \<Longrightarrow> list_key (view s' (queue_name agent))"
  "only_queue view agent s s' \<Longrightarrow> k \<noteq> queue_name agent \<Longrightarrow> view s' k = view s k"
  by (simp_all add: only_queue_def)

context live_redis
begin

lemmas queue_fifo = commands.sends_queue
lemmas queue_bounded = commands.sends_bounded

lemma send_frame:
  assumes "list_key (view s (queue_name agent))"
  shows "only_queue view agent s (snd (send_agent_command R agent cmd s))"
  using send_command [OF assms, of cmd] by (auto simp: only_queue_def list_key_def simp del: json_dumps.simps)

lemma send_all_frame:
  "list_key (view s (queue_name agent)) \<Longrightarrow> only_queue view agent s (snd (send_all R agent cs s))"
proof (induction cs arbitrary: s)
  case Nil
  then show ?case by (simp add: only_queue_refl)
next
  case (Cons c cs)
  have f: "only_queue view agent s (snd (send_agent_command R agent c s))" by (rule send_frame [OF Cons.prems])
  have "only_queue view agent (snd (send_agent_command R agent c s))
      (snd (send_all R agent cs (snd (send_agent_command R agent c s))))"
    by (rule Cons.IH [OF only_queueD(1) [OF f]])
  with f have "only_queue view agent s (snd (send_all R agent cs (snd (send_agent_command R agent c s))))"
    by (rule only_queue_trans)
  then show ?case by (simp add: case_prod_beta)
qed

definition wf_queue :: "stored_alert \<Rightarrow> 's pworld \<Rightarrow> bool" where
  "wf_queue a w \<longleftrightarrow> list_key (view (pw_redis w) (queue_name (al_agent_id a)))"

definition frame :: "stored_alert \<Rightarrow> 's pworld \<Rightarrow> 's pworld \<Rightarrow> bool" where
  "frame a w w' \<longleftrightarrow> only_queue view (al_agent_id a) (pw_redis w) (pw_redis w')"

lemma frame_refl: "wf_queue a w \<Longrightarrow> frame a w w"
  by (simp add: frame_def wf_queue_def only_queue_refl)

lemma frame_same: "wf_queue a w \<Longrightarrow> pw_redis w' = pw_redis w \<Longrightarrow> frame a w w'"
  by (simp add: frame_def wf_queue_def only_queue_refl)

lemma frame_trans: "frame a w w1 \<Longrightarrow> frame a w1 w2 \<Longrightarrow> frame a w w2"
  unfolding frame_def by (rule only_queue_trans)

lemma frame_wf: "frame a w w' \<Longrightarrow> wf_queue a w'"
  by (simp add: frame_def wf_queue_def only_queueD)

lemma queue_cmd_frame: "wf_queue a w \<Longrightarrow> frame a w (snd (queue_cmd R a cmd w))"
  using send_frame [of "pw_redis w" "al_agent_id a" cmd]
  by (simp add: queue_cmd_def frame_def wf_queue_def case_prod_beta)

lemma eradicate_frame: "wf_queue a w \<Longrightarrow> frame a w (snd (run_eradicate R a w))"
  using send_all_frame [of "pw_redis w" "al_agent_id a" "eradicate_chain a"]
  by (simp add: run_eradicate_def frame_def wf_queue_def case_prod_beta)

lemma other_frames:
  "wf_queue a w \<Longrightarrow> frame a w (snd (with_pid R a cmd w))"
  "wf_queue a w \<Longrightarrow> frame a w (snd (run_webhook env target payload w))"
  "wf_queue a w \<Longrightarrow> frame a w (snd (run_script env target params w))"
  "wf_queue a w \<Longrightarrow> frame a w (snd (run_update R env a target params w))"
  by (simp_all add: with_pid_def run_webhook_def run_script_def run_update_def Let_def queue_cmd_frame
      frame_same split: sum.split option.split prod.split)

lemma execute_action_frame: "wf_queue a w \<Longrightarrow> frame a w (snd (execute_action R env act a w))"
  by (simp add: execute_action_def Let_def queue_cmd_frame eradicate_frame other_frames frame_refl
      split: sum.split)

lemma run_actions_frame: "wf_queue a w \<Longrightarrow> frame a w (snd (run_actions R env acts a w))"
proof (induction acts arbitrary: w)
  case Nil
  then show ?case by (simp add: frame_refl)
next
  case (Cons act acts)
  obtain o1 w1 where e: "execute_action R env act a w = (o1, w1)" by fastforce
  have f: "frame a w w1" using execute_action_frame [OF Cons.prems, of env act] by (simp add: e)
  show ?case
  proof (cases o1)
    case (Inl x)
    then show ?thesis by (simp add: e f)
  next
    case (Inr r)
    let ?w = "w1\<lparr>pw_remediations := pw_remediations w1 @ [remediation_of a act r]\<rparr>"
    have "frame a w ?w" using f by (simp add: frame_def)
    then have "frame a w (snd (run_actions R env acts a ?w))"
      using Cons.IH [OF frame_wf] frame_trans by blast
    with Inr show ?thesis by (auto simp: e split: prod.split sum.split)
  qed
qed

lemma live_run_frame: "wf_queue a w \<Longrightarrow> frame a w (live_run R env p a by w)"
proof -
  assume w: "wf_queue a w"
  have add: "frame a w v \<Longrightarrow> frame a w (add_execution x v)" for v x
    by (simp add: frame_def add_execution_def)
  show ?thesis
  proof (cases "pb_actions p")
    case (Inl x)
    then show ?thesis by (simp add: live_run_def add frame_refl w)
  next
    case (Inr acts)
    obtain o1 w1 where "run_actions R env acts a w = (o1, w1)" by fastforce
    with Inr run_actions_frame [OF w, of env acts] show ?thesis
      by (cases o1) (simp_all add: live_run_def add)
  qed
qed

end

end
