(* ===== verification/Playbook_Properties.thy ===== *)
theory Playbook_Properties
  imports Playbooks
begin

section \<open>Properties of the playbook engine\<close>

text \<open>
  Containment runs at most once per alert, never without the idempotency store, never on a dry
  run; commands are queued in order and bounded; the script action is closed by its flag.
\<close>

subsection \<open>A concrete case\<close>

definition demo_alert :: stored_alert where
  "demo_alert = \<lparr>al_agent_id = ''a1'', al_severity = ''HIGH'', al_pid = Some 7, al_parent_pid = None,
     al_parent_process_name = None, al_process_name = Some ''evil.exe'', al_process_path = None,
     al_event_type = Some ''PROCESS_CREATED'', al_description = ''d'', al_mitre_tactic_id = None,
     al_mitre_technique_id = None, al_mitre_tactic_name = None, al_mitre_technique_name = None,
     al_evidence = PNone, al_id = 5\<rparr>"

definition demo_playbook :: playbook where
  "demo_playbook = \<lparr>pb_id = 3, pb_is_active = True, pb_trigger_event_type = None,
     pb_trigger_severity = Some ''high'', pb_trigger_process_name = Some ''EVIL'',
     pb_actions = Inr [\<lparr>pa_type = ''kill_process'', pa_target = [], pa_params = None, pa_order = 0\<rparr>]\<rparr>"

definition demo_env :: pb_env where
  "demo_env = \<lparr>pe_post = (\<lambda>_ _. Inr 200), pe_run = (\<lambda>_ _. Inl ''no shell''), pe_exn_text = (\<lambda>_. ''error''),
     pe_artifact = (\<lambda>_. None), pe_sha256 = (\<lambda>_. ''0''), pe_sign = (\<lambda>_. ''0''), pe_base_url = ''https://aegis.local'',
     pe_script_enabled = False, pe_idempotency_ttl = 86400\<rparr>"

definition demo_world :: "rmap pworld" where
  "demo_world = \<lparr>pw_redis = [], pw_effects = [], pw_executions = [], pw_remediations = []\<rparr>"

definition after_demo :: "rmap pworld" where
  "after_demo = snd (check_and_execute_playbooks map_redis demo_env [demo_playbook] demo_alert None False demo_world)"

lemma demo_runs:
  "map ex_status (pw_executions after_demo) = [''completed'']"
  "length (lst_of (rview (pw_redis after_demo) (queue_name ''a1''))) = 1"
  "list_key (rview (pw_redis demo_world) (queue_name ''a1''))"
  by (code_simp, code_simp, simp add: rview_def demo_world_def list_key_def)

subsection \<open>Once per alert\<close>

lemma pb_keys [simp]:
  "idem_key p a \<noteq> cooldown_key q b" "cooldown_key q b \<noteq> idem_key p a"
  "idem_key p a \<noteq> queue_name g" "queue_name g \<noteq> idem_key p a"
  "cooldown_key p a \<noteq> queue_name g" "queue_name g \<noteq> cooldown_key p a"
  by (simp_all add: idem_key_def cooldown_key_def queue_name_def)

text \<open>The marks \<open>s\<close> has are in \<open>s'\<close>.\<close>

definition keeps_marks :: "'s view \<Rightarrow> stored_alert \<Rightarrow> 's \<Rightarrow> 's \<Rightarrow> bool" where
  "keeps_marks view a s s' \<longleftrightarrow> (\<forall>p. view s (idem_key p a) \<noteq> None \<longrightarrow> view s' (idem_key p a) \<noteq> None)"

context live_redis
begin

lemma cooling_down_spec:
  "\<exists>b s'. cooling_down R p a s = (b, s') \<and> (\<forall>k. k \<noteq> cooldown_key p a \<longrightarrow> view s' k = view s k) \<and>
     (truthy (str_of (view s (cooldown_key p a))) \<longrightarrow> b \<and> view s' = view s)"
proof -
  let ?k = "cooldown_key p a"
  obtain s1 where s1: "rd_get R s ?k = (Inr (str_of (view s ?k)), s1)" "view s1 = view s"
    using redis_lawsD(1) [OF laws] by blast
  obtain s2 where s2: "rd_setex R s1 ?k 60 ''1'' = (Inr (), s2)" "view s2 = (view s1)(?k \<mapsto> RStr ''1'')"
    using redis_lawsD(3) [OF laws] by blast
  show ?thesis by (cases "truthy (str_of (view s ?k))") (auto simp: cooling_down_def s1 s2)
qed

lemma run_live_spec:
  assumes "wf_queue a w"
  shows "wf_queue a (run_live R env p a by w) \<and> keeps_marks view a (pw_redis w) (pw_redis (run_live R env p a by w)) \<and>
    view (pw_redis (run_live R env p a by w)) (idem_key p a) \<noteq> None"
    "view (pw_redis w) (idem_key p a) \<noteq> None \<Longrightarrow>
       \<exists>s'. run_live R env p a by w = w\<lparr>pw_redis := s'\<rparr> \<and> view s' = view (pw_redis w)"
proof -
  let ?i = "idem_key p a" and ?s = "pw_redis w" and ?q = "queue_name (al_agent_id a)"
  obtain s1 where s1: "rd_set_nx R ?s ?i ''1'' (pe_idempotency_ttl env) = (Inr (view ?s ?i = None), s1)"
      "view s1 = (if view ?s ?i = None then (view ?s)(?i \<mapsto> RStr ''1'') else view ?s)"
    using redis_lawsD(4) [OF laws] by blast
  show "view (pw_redis w) (idem_key p a) \<noteq> None \<Longrightarrow>
       \<exists>s'. run_live R env p a by w = w\<lparr>pw_redis := s'\<rparr> \<and> view s' = view (pw_redis w)"
    using s1 by (auto simp: run_live_def)
  obtain b s2 where s2: "cooling_down R p a s1 = (b, s2)" "\<forall>k. k \<noteq> cooldown_key p a \<longrightarrow> view s2 k = view s1 k"
    using cooling_down_spec by blast
  have set: "view s1 ?i \<noteq> None" by (simp add: s1(2))
  have keep: "keeps_marks view a ?s s1" by (simp add: keeps_marks_def s1(2))
  have w1: "list_key (view s1 ?q)" "list_key (view s2 ?q)"
    using assms by (simp_all add: wf_queue_def s1(2) s2(2))
  have live: "frame a (w\<lparr>pw_redis := s2\<rparr>) (live_run R env p a by (w\<lparr>pw_redis := s2\<rparr>))"
    by (rule live_run_frame) (simp add: wf_queue_def w1)
  then have "view (pw_redis (live_run R env p a by (w\<lparr>pw_redis := s2\<rparr>))) (idem_key q a) = view s1 (idem_key q a)" for q
    by (simp add: frame_def only_queue_def s2(2))
  moreover have "wf_queue a (live_run R env p a by (w\<lparr>pw_redis := s2\<rparr>))" by (rule frame_wf [OF live])
  ultimately show "wf_queue a (run_live R env p a by w) \<and> keeps_marks view a (pw_redis w) (pw_redis (run_live R env p a by w)) \<and>
    view (pw_redis (run_live R env p a by w)) (idem_key p a) \<noteq> None"
    using set keep s1 s2 w1 assms
    by (cases "view ?s ?i = None"; cases b) (simp_all add: run_live_def wf_queue_def keeps_marks_def)
qed

lemma check_marks:
  "wf_queue a w \<Longrightarrow> keeps_marks view a (pw_redis w) (pw_redis (snd (check_playbooks R env False by a ps w))) \<and>
    (\<forall>p \<in> set ps. matches_trigger p a \<longrightarrow> view (pw_redis (snd (check_playbooks R env False by a ps w))) (idem_key p a) \<noteq> None)"
proof (induction ps arbitrary: w)
  case Nil
  then show ?case by (simp add: keeps_marks_def)
next
  case (Cons p ps)
  note s = run_live_spec(1) [OF Cons.prems, of env p "by"]
  show ?case
    using Cons.IH [of w] Cons.IH [of "run_live R env p a by w"] Cons.prems s
    by (auto simp: keeps_marks_def)
qed

lemma check_marked:
  "wf_queue a w \<Longrightarrow> (\<forall>p \<in> set ps. matches_trigger p a \<longrightarrow> view (pw_redis w) (idem_key p a) \<noteq> None) \<Longrightarrow>
    \<exists>s'. check_playbooks R env False by a ps w = (Inr (), w\<lparr>pw_redis := s'\<rparr>) \<and> view s' = view (pw_redis w)"
proof (induction ps arbitrary: w)
  case Nil
  show ?case by (rule exI [of _ "pw_redis w"]) simp
next
  case (Cons p ps)
  show ?case
  proof (cases "matches_trigger p a")
    case False
    then show ?thesis using Cons.IH [of w] Cons.prems by simp
  next
    case True
    then obtain s1 where s1: "run_live R env p a by w = w\<lparr>pw_redis := s1\<rparr>" "view s1 = view (pw_redis w)"
      using run_live_spec(2) [OF Cons.prems(1), of p env "by"] Cons.prems(2) by auto
    have "wf_queue a (w\<lparr>pw_redis := s1\<rparr>)" using Cons.prems(1) by (simp add: wf_queue_def s1(2))
    from Cons.IH [OF this] Cons.prems(2) obtain s2 where
      "check_playbooks R env False by a ps (w\<lparr>pw_redis := s1\<rparr>) = (Inr (), w\<lparr>pw_redis := s2\<rparr>)" "view s2 = view s1"
      by (auto simp: s1(2))
    with True s1 show ?thesis by auto
  qed
qed

end

text \<open>
  Containment runs at most once per alert: after the playbooks have run on an alert, and as long as
  the marks they left in Redis have not expired, delivering the same alert again (any later state
  of the platform, any number of other things having happened) executes no action, queues no
  command, calls nothing outside and writes no row.
\<close>

theorem redelivered_alert_runs_nothing:
  assumes "redis_laws R view" "list_key (view (pw_redis w) (queue_name (al_agent_id a)))"
    "keeps_marks view a (pw_redis (snd (check_and_execute_playbooks R env playbooks a by False w))) (pw_redis w2)"
    "list_key (view (pw_redis w2) (queue_name (al_agent_id a)))"
  shows "\<exists>s'. check_and_execute_playbooks R env playbooks a by False w2 = (Inr (), w2\<lparr>pw_redis := s'\<rparr>) \<and>
    view s' = view (pw_redis w2)"
proof -
  note live = live_redis.intro [OF assms(1)]
  have "live_redis.wf_queue view a w" "live_redis.wf_queue view a w2"
    using assms(2,4) by (simp_all add: live_redis.wf_queue_def [OF live])
  then show ?thesis
    using live_redis.check_marks [OF live, of a w env "by" "filter pb_is_active playbooks"]
      live_redis.check_marked [OF live, of a w2 "filter pb_is_active playbooks" env "by"] assms(3)
    unfolding check_and_execute_playbooks_def keeps_marks_def by blast
qed

theorem redelivered_alert_runs_nothing_witness:
  "\<exists>s'. check_and_execute_playbooks map_redis demo_env [demo_playbook] demo_alert None False after_demo =
     (Inr (), after_demo\<lparr>pw_redis := s'\<rparr>)"
proof -
  have q: "al_agent_id demo_alert = ''a1''" by (simp add: demo_alert_def)
  have "list_key (rview (pw_redis after_demo) (queue_name ''a1''))"
    using demo_runs(2) by (cases "rview (pw_redis after_demo) (queue_name ''a1'')" rule: lst_of.cases)
      (auto simp: list_key_def)
  then show ?thesis
    using redelivered_alert_runs_nothing [OF map_redis_laws, of demo_world demo_alert demo_env "[demo_playbook]" None after_demo]
      demo_runs(3)
    by (auto simp: q after_demo_def [symmetric] keeps_marks_def)
qed

subsection \<open>Fail closed\<close>

lemma down_run_live: "redis_down R \<Longrightarrow> run_live R env p a by w = w"
  by (simp add: run_live_def redis_down_def)

text \<open>
  Automation fails closed: with Redis down no playbook runs, whatever its trigger and actions,
  and nothing in the world changes.
\<close>

theorem playbooks_fail_closed:
  assumes "redis_down R"
  shows "check_and_execute_playbooks R env playbooks a by False w = (Inr (), w)"
proof -
  have "check_playbooks R env False by a ps w = (Inr (), w)" for ps
    by (induction ps) (simp_all add: down_run_live [OF assms])
  then show ?thesis by (simp add: check_and_execute_playbooks_def)
qed

theorem playbooks_fail_closed_witness:
  "check_and_execute_playbooks dead_redis demo_env [demo_playbook] demo_alert None False demo_world = (Inr (), demo_world)"
  by (rule playbooks_fail_closed [OF dead_redis_down])

subsection \<open>Dry runs\<close>

definition dry_execution :: "playbook \<Rightarrow> stored_alert \<Rightarrow> int option \<Rightarrow> execution" where
  "dry_execution p a by = execution_of p a by ''dry_run''
     [(''dry_run'', PBool True), (''actions'', PList (map would_do (case pb_actions p of Inl _ \<Rightarrow> [] | Inr acts \<Rightarrow> acts)))]"

text \<open>
  A dry run has no effect: it sends nothing, claims nothing in Redis, writes no remediation, and
  its only trace is one execution row per active matching playbook, in order, that lists what
  would run with the risk of each action.
\<close>

lemma dry_run_only_reports:
  assumes "\<forall>p \<in> set playbooks. is_ok (pb_actions p)"
  shows "check_and_execute_playbooks R env playbooks a by True w =
    (Inr (), w\<lparr>pw_executions := pw_executions w @
      map (\<lambda>p. dry_execution p a by) (filter (\<lambda>p. pb_is_active p \<and> matches_trigger p a) playbooks)\<rparr>)"
proof -
  have "check_playbooks R env True by a ps w = (Inr (), w\<lparr>pw_executions := pw_executions w @
      map (\<lambda>p. dry_execution p a by) (filter (\<lambda>p. matches_trigger p a) ps)\<rparr>)"
    if "\<forall>p \<in> set ps. is_ok (pb_actions p)" for ps and w :: "'a pworld"
    using that
  proof (induction ps arbitrary: w)
    case (Cons p ps)
    then obtain acts where "pb_actions p = Inr acts" by (auto simp: is_ok_iff)
    with Cons show ?case by (simp add: add_execution_def dry_execution_def)
  qed simp
  from this [of "filter pb_is_active playbooks" w] assms show ?thesis
    by (simp add: check_and_execute_playbooks_def conj_commute)
qed


theorem dry_run_only_reports_witness:
  "pw_executions (snd (check_and_execute_playbooks map_redis demo_env [demo_playbook] demo_alert None True demo_world)) =
     [dry_execution demo_playbook demo_alert None]"
proof -
  have "pb_is_active demo_playbook \<and> matches_trigger demo_playbook demo_alert" by code_simp
  then show ?thesis
    using dry_run_only_reports [of "[demo_playbook]" map_redis demo_env demo_alert None demo_world]
    by (simp add: demo_world_def demo_playbook_def)
qed

subsection \<open>The command queue\<close>

lemma send_all_states: "snd (send_all R agent cs s) = fold (\<lambda>c s. snd (send_agent_command R agent c s)) cs s"
  by (induction cs arbitrary: s) (simp_all add: case_prod_beta)

lemma send_all_answers:
  "redis_laws R view \<Longrightarrow> list_key (view s (queue_name agent)) \<Longrightarrow> r \<in> set (fst (send_all R agent cs s)) \<Longrightarrow>
     dict_get r ''status'' = PStr ''completed''"
proof (induction cs arbitrary: s)
  case (Cons c cs)
  note live = live_redis.intro [OF Cons.prems(1)]
  obtain s1 where s1: "send_agent_command R agent c s =
      (outcome ''completed'' (''Command queued: '' @ py_str (dict_get c ''command'')), s1)"
      "list_key (view s1 (queue_name agent))"
    using live_redis.send_command [OF live Cons.prems(2), of c] by (auto simp: list_key_def simp del: json_dumps.simps)
  then show ?case
    using Cons.IH [OF Cons.prems(1) s1(2)] Cons.prems(3)
    by (auto simp: outcome_def dict_get_def case_prod_beta)
qed simp

text \<open>
  The command queue of an agent is first-in first-out and never longer than 100: after sending a
  list of commands to a queue within the bound, the queue holds the first 100 of the old entries
  followed by the new ones in order. Every send is reported as completed, so a command sent to a
  full queue is dropped and reported as queued.
\<close>

theorem command_queue_fifo_bounded:
  assumes "redis_laws R view" "list_key (view s (queue_name agent))" "length (lst_of (view s (queue_name agent))) \<le> 100"
  shows "lst_of (view (snd (send_all R agent cmds s)) (queue_name agent)) =
      take 100 (lst_of (view s (queue_name agent)) @ map (\<lambda>c. json_dumps (PDict c)) cmds) \<and>
    length (lst_of (view (snd (send_all R agent cmds s)) (queue_name agent))) \<le> 100 \<and>
    list_all (\<lambda>r. dict_get r ''status'' = PStr ''completed'') (fst (send_all R agent cmds s))"
proof -
  note live = live_redis.intro [OF assms(1)]
  have "lst_of (view (snd (send_all R agent cmds s)) (queue_name agent)) =
      take 100 (lst_of (view s (queue_name agent)) @ map (\<lambda>c. json_dumps (PDict c)) cmds)"
    unfolding send_all_states by (rule live_redis.queue_fifo [OF live assms(2,3)])
  moreover have "length (lst_of (view (snd (send_all R agent cmds s)) (queue_name agent))) \<le> 100"
    unfolding send_all_states by (rule live_redis.queue_bounded [OF live assms(2,3)])
  moreover have "list_all (\<lambda>r. dict_get r ''status'' = PStr ''completed'') (fst (send_all R agent cmds s))"
    using send_all_answers [OF assms(1,2)] by (auto simp: list_all_iff)
  ultimately show ?thesis by blast
qed

theorem command_queue_fifo_bounded_witness:
  "lst_of (rview (snd (send_all map_redis ''a1'' [cmd_head ''VERIFY''] [])) (queue_name ''a1'')) =
     [json_dumps (PDict (cmd_head ''VERIFY''))]"
  using command_queue_fifo_bounded [OF map_redis_laws, of "[]" "''a1''" "[cmd_head ''VERIFY'']"]
  by (simp add: rview_def list_key_def del: json_dumps.simps send_all.simps)

subsection \<open>The script action\<close>

definition shell_calls :: "effect list \<Rightarrow> effect list" where
  "shell_calls es = filter (\<lambda>e. case e of RanScript _ _ \<Rightarrow> True | Posted _ _ \<Rightarrow> False) es"

lemma shell_calls_append: "shell_calls (xs @ ys) = shell_calls xs @ shell_calls ys"
  by (simp add: shell_calls_def)

lemma queue_cmd_effects: "pw_effects (snd (queue_cmd R a cmd w)) = pw_effects w"
  by (simp add: queue_cmd_def case_prod_beta)

lemma action_no_shell:
  assumes "\<not> pe_script_enabled env"
  shows "shell_calls (pw_effects (snd (execute_action R env act a w))) = shell_calls (pw_effects w)"
proof -
  have "shell_calls (pw_effects (snd (run_webhook env t pl w))) = shell_calls (pw_effects w)" for t pl
    by (simp add: run_webhook_def shell_calls_append) (simp add: shell_calls_def)
  then show ?thesis using assms
    by (simp add: execute_action_def Let_def with_pid_def run_script_def run_update_def queue_cmd_effects
        run_eradicate_def case_prod_beta split: sum.split option.split)
qed

lemma actions_no_shell:
  assumes "\<not> pe_script_enabled env"
  shows "shell_calls (pw_effects (snd (run_actions R env acts a w))) = shell_calls (pw_effects w)"
proof (induction acts arbitrary: w)
  case (Cons act acts)
  obtain o1 w1 where e: "execute_action R env act a w = (o1, w1)" by fastforce
  have "shell_calls (pw_effects w1) = shell_calls (pw_effects w)"
    using action_no_shell [OF assms, of R act a w] by (simp add: e)
  with e show ?case
    using Cons.IH by (cases o1) (simp_all add: case_prod_beta split: sum.split)
qed simp

lemma run_live_no_shell:
  assumes "\<not> pe_script_enabled env"
  shows "shell_calls (pw_effects (run_live R env p a by w)) = shell_calls (pw_effects w)"
proof -
  have "shell_calls (pw_effects (live_run R env p a by w)) = shell_calls (pw_effects w)" for w
    using actions_no_shell [OF assms, of R _ a w]
    by (simp add: live_run_def add_execution_def case_prod_beta split: sum.split)
  then show ?thesis by (simp add: run_live_def case_prod_beta split: sum.split bool.split prod.split)
qed

text \<open>
  With the flag for script actions off, no alert, no playbook (whatever is written in its rows)
  and no state of Redis makes the server run a shell command.
\<close>

theorem no_shell_without_flag:
  assumes "\<not> pe_script_enabled env"
  shows "shell_calls (pw_effects (snd (check_and_execute_playbooks R env playbooks a by dry w))) =
    shell_calls (pw_effects w)"
proof -
  have "shell_calls (pw_effects (snd (check_playbooks R env dry by a ps w))) = shell_calls (pw_effects w)" for ps
    by (cases dry; induction ps arbitrary: w)
      (simp_all add: run_live_no_shell [OF assms] add_execution_def split: sum.split)
  then show ?thesis by (simp add: check_and_execute_playbooks_def)
qed

theorem no_shell_without_flag_witness:
  "shell_calls (pw_effects after_demo) = []"
  using no_shell_without_flag [of demo_env map_redis "[demo_playbook]" demo_alert None False demo_world]
  by (simp add: demo_env_def [of] after_demo_def demo_world_def shell_calls_def [of "[]"])

subsection \<open>Cooldown\<close>

text \<open>
  The mark is claimed before the cooldown is looked at: an alert that arrives while the playbook
  is cooling down on its agent is not handled, and because its mark is set, it is not handled
  later either, when the cooldown is over, for as long as the mark lives.
\<close>

theorem cooldown_swallows_alert:
  assumes "redis_laws R view" "list_key (view (pw_redis w) (queue_name (al_agent_id a)))"
    "view (pw_redis w) (cooldown_key p a) = Some (RStr ''1'')"
    "keeps_marks view a (pw_redis (snd (check_and_execute_playbooks R env [p] a by False w))) (pw_redis w2)"
    "view (pw_redis w2) (cooldown_key p a) = None"
    "list_key (view (pw_redis w2) (queue_name (al_agent_id a)))"
  shows "pw_executions (snd (check_and_execute_playbooks R env [p] a by False w)) = pw_executions w \<and>
    pw_executions (snd (check_and_execute_playbooks R env [p] a by False w2)) = pw_executions w2"
proof
  note live = live_redis.intro [OF assms(1)]
  obtain s1 where s1: "rd_set_nx R (pw_redis w) (idem_key p a) ''1'' (pe_idempotency_ttl env) =
      (Inr (view (pw_redis w) (idem_key p a) = None), s1)"
      "view s1 (cooldown_key p a) = Some (RStr ''1'')"
    using redis_lawsD(4) [OF assms(1), of "pw_redis w" "idem_key p a" "''1''" "pe_idempotency_ttl env"] assms(3) by fastforce
  obtain b s2 where "cooling_down R p a s1 = (b, s2)" "truthy (str_of (view s1 (cooldown_key p a))) \<longrightarrow> b"
    using live_redis.cooling_down_spec [OF live, of p a s1] by blast
  then have "run_live R env p a by w = w\<lparr>pw_redis := s1\<rparr> \<or> run_live R env p a by w = w\<lparr>pw_redis := s2\<rparr>"
    using s1 by (auto simp: run_live_def)
  then show "pw_executions (snd (check_and_execute_playbooks R env [p] a by False w)) = pw_executions w"
    by (auto simp: check_and_execute_playbooks_def)
  have "\<exists>s'. check_and_execute_playbooks R env [p] a by False w2 = (Inr (), w2\<lparr>pw_redis := s'\<rparr>)"
  proof -
    have "live_redis.wf_queue view a w" "live_redis.wf_queue view a w2"
      using assms(2,6) by (simp_all add: live_redis.wf_queue_def [OF live])
    then show ?thesis
      using live_redis.check_marks [OF live, of a w env "by" "filter pb_is_active [p]"]
        live_redis.check_marked [OF live, of a w2 "filter pb_is_active [p]" env "by"] assms(4)
      unfolding check_and_execute_playbooks_def keeps_marks_def by blast
  qed
  then show "pw_executions (snd (check_and_execute_playbooks R env [p] a by False w2)) = pw_executions w2"
    by auto
qed

definition cooling_world :: "rmap pworld" where
  "cooling_world = demo_world\<lparr>pw_redis := [(cooldown_key demo_playbook demo_alert, RStr ''1'')]\<rparr>"

theorem cooldown_swallows_alert_witness:
  "pw_executions (snd (check_and_execute_playbooks map_redis demo_env [demo_playbook] demo_alert None False
     (demo_world\<lparr>pw_redis := [(idem_key demo_playbook demo_alert, RStr ''1'')]\<rparr>))) = []"
proof -
  let ?w2 = "demo_world\<lparr>pw_redis := [(idem_key demo_playbook demo_alert, RStr ''1'')]\<rparr>"
  have k: "idem_key p demo_alert = idem_key demo_playbook demo_alert \<or>
      rview (pw_redis (snd (check_and_execute_playbooks map_redis demo_env [demo_playbook] demo_alert None False cooling_world)))
        (idem_key p demo_alert) = None" for p
  proof -
    have "pw_redis (snd (check_and_execute_playbooks map_redis demo_env [demo_playbook] demo_alert None False cooling_world)) =
        [(idem_key demo_playbook demo_alert, RStr ''1''), (cooldown_key demo_playbook demo_alert, RStr ''1'')]"
      by code_simp
    then show ?thesis by (simp add: rview_def)
  qed
  have "keeps_marks rview demo_alert
      (pw_redis (snd (check_and_execute_playbooks map_redis demo_env [demo_playbook] demo_alert None False cooling_world)))
      (pw_redis ?w2)"
    unfolding keeps_marks_def
  proof (intro allI impI)
    fix p
    assume "rview (pw_redis (snd (check_and_execute_playbooks map_redis demo_env [demo_playbook] demo_alert None False cooling_world)))
        (idem_key p demo_alert) \<noteq> None"
    with k [of p] show "rview (pw_redis ?w2) (idem_key p demo_alert) \<noteq> None" by (auto simp: rview_def)
  qed
  from cooldown_swallows_alert [OF map_redis_laws _ _ this]
  show ?thesis by (simp add: cooling_world_def rview_def demo_world_def list_key_def)
qed

subsection \<open>Eradication\<close>

text \<open>The answer of \<open>eradicate\<close> does not depend on the answers of its chain.\<close>

lemma eradicate_reports_completed:
  assumes "redis_down R"
  shows "\<exists>r w'. execute_action R env (act\<lparr>pa_type := ''eradicate''\<rparr>) a w = (Inr r, w') \<and> w' = w \<and>
    dict_get r ''status'' = PStr ''completed''"
proof -
  have "snd (send_all R agent cs s) = s" for agent cs s
    using assms by (induction cs) (simp_all add: send_agent_command_def redis_down_def Let_def case_prod_beta)
  then show ?thesis
    by (simp add: execute_action_def run_eradicate_def Let_def case_prod_beta outcome_def dict_get_def)
qed

end
