(* ===== verification/Ingest_Guards.thy ===== *)
theory Ingest_Guards
  imports Redis_Interface Pyval
begin

section \<open>Guards of the ingestion: deduplication, sequence gaps, rate limit\<close>

text \<open>
  \<open>app/services/event_dedup.py\<close> and \<open>app/core/rate_guard.py\<close>: in-memory state machines, each
  with its lock held for a whole operation, so that an operation is one step.  Times are the
  values of \<open>time.monotonic()\<close>, as rational numbers.
\<close>

subsection \<open>Deduplication\<close>

text \<open>The ordered dictionary is the list of its keys, least recently used first.\<close>

type_synonym dkey = "string \<times> string"

record event_dedup =
  dd_capacity :: nat
  dd_seen :: "dkey list"
  dd_accepted :: nat
  dd_duplicates :: nat

definition new_dedup :: "nat \<Rightarrow> event_dedup" where
  "new_dedup n = \<lparr>dd_capacity = n, dd_seen = [], dd_accepted = 0, dd_duplicates = 0\<rparr>"

text \<open>\<open>while len(seen) > capacity: seen.popitem(last=False)\<close>.\<close>

function evict :: "nat \<Rightarrow> 'a list \<Rightarrow> 'a list" where
  "evict n xs = (if length xs > n then evict n (tl xs) else xs)"
  by pat_completeness auto
termination
  by (relation "measure (\<lambda>(n, xs). length xs)") auto

declare evict.simps [simp del]

definition dedup_check :: "pyval \<Rightarrow> pyval \<Rightarrow> event_dedup \<Rightarrow> bool \<times> event_dedup" where
  "dedup_check agent event d =
     (if \<not> py_truth event then (False, d)
      else let key = (py_str agent, py_str event) in
        if List.member (dd_seen d) key
        then (True, d\<lparr>dd_duplicates := dd_duplicates d + 1, dd_seen := remove1 key (dd_seen d) @ [key]\<rparr>)
        else (False, d\<lparr>dd_accepted := dd_accepted d + 1, dd_seen := evict (dd_capacity d) (dd_seen d @ [key])\<rparr>))"

definition dedup_snapshot :: "event_dedup \<Rightarrow> (string \<times> nat) list" where
  "dedup_snapshot d = [(''accepted'', dd_accepted d), (''duplicates'', dd_duplicates d),
     (''window'', length (dd_seen d))]"

text \<open>
  The persistent variant.  \<open>redis-py\<close> documents that \<open>set(..., nx=True)\<close> returns \<open>True\<close> when the
  key was set and \<open>None\<close> when it was not (\<open>set_nx_value\<close>); the code compares with \<open>False\<close>.
\<close>

definition set_nx_value :: "bool \<Rightarrow> pyval" where
  "set_nx_value claimed = (if claimed then PBool True else PNone)"

definition dedup_key :: "string \<Rightarrow> string \<Rightarrow> string" where
  "dedup_key agent event = ''dedup:'' @ agent @ '':'' @ event"

definition is_duplicate ::
  "'s redis \<Rightarrow> int \<Rightarrow> pyval \<Rightarrow> pyval \<Rightarrow> 's \<times> event_dedup \<Rightarrow> bool \<times> 's \<times> event_dedup" where
  "is_duplicate R ttl agent event = (\<lambda>(s, d).
     if \<not> py_truth event then (False, s, d)
     else case rd_set_nx R s (dedup_key (py_str agent) (py_str event)) ''1'' ttl of
       (Inl x, s1) \<Rightarrow> (case dedup_check agent event d of (b, d1) \<Rightarrow> (b, s1, d1))
     | (Inr claimed, s1) \<Rightarrow>
         (let ok = set_nx_value claimed in
          if ok = PBool False then (True, s1, d\<lparr>dd_duplicates := dd_duplicates d + 1\<rparr>)
          else if ok = PBool True then (False, s1, snd (dedup_check agent event d))
          else (case dedup_check agent event d of (b, d1) \<Rightarrow> (b, s1, d1))))"

subsection \<open>Sequence gaps\<close>

record seq_tracker =
  sq_last :: "((string \<times> string) \<times> int) list"
  sq_boots :: "(string \<times> string list) list"
  sq_gaps :: int
  sq_gap_events :: int
  sq_resets :: int
  sq_late :: int
  sq_tracked :: int

definition new_tracker :: seq_tracker where
  "new_tracker = \<lparr>sq_last = [], sq_boots = [], sq_gaps = 0, sq_gap_events = 0, sq_resets = 0,
     sq_late = 0, sq_tracked = 0\<rparr>"

text \<open>The answer: the gap, whether a boot was new, whether the event was late.\<close>

datatype observation =
    Untracked
  | Tracked int bool bool

definition first_of_stream :: "string \<Rightarrow> string \<Rightarrow> int \<Rightarrow> seq_tracker \<Rightarrow> observation \<times> seq_tracker" where
  "first_of_stream agent boot n t =
     (let known = assoc_default [] agent (sq_boots t);
          reset = (boot \<noteq> [] \<and> known \<noteq> [] \<and> \<not> List.member known boot);
          known' = (if boot \<noteq> [] \<and> \<not> List.member known boot then known @ [boot] else known)
      in (Tracked 0 reset False,
          t\<lparr>sq_boots := assoc_put agent known' (sq_boots t),
            sq_resets := sq_resets t + (if reset then 1 else 0),
            sq_last := assoc_put (agent, boot) n (sq_last t)\<rparr>))"

definition seq_step :: "string \<Rightarrow> string \<Rightarrow> int \<Rightarrow> seq_tracker \<Rightarrow> observation \<times> seq_tracker" where
  "seq_step agent boot n t0 =
     (let t = t0\<lparr>sq_tracked := sq_tracked t0 + 1\<rparr>; key = (agent, boot) in
      case assoc key (sq_last t) of
        None \<Rightarrow> first_of_stream agent boot n t
      | Some prev \<Rightarrow>
          if n = prev + 1 then (Tracked 0 False False, t\<lparr>sq_last := assoc_put key n (sq_last t)\<rparr>)
          else if n > prev + 1 then
            (let gap = n - prev - 1 in
             (Tracked gap False False,
              t\<lparr>sq_gaps := sq_gaps t + 1, sq_gap_events := sq_gap_events t + gap,
                sq_last := assoc_put key n (sq_last t)\<rparr>))
          else (Tracked 0 False True, t\<lparr>sq_late := sq_late t + 1\<rparr>))"

definition seq_observe :: "pyval \<Rightarrow> pyval \<Rightarrow> pyval \<Rightarrow> seq_tracker \<Rightarrow> observation \<times> seq_tracker" where
  "seq_observe agent boot seq t =
     (if seq = PNone then (Untracked, t)
      else case py_int seq of
        Inl x \<Rightarrow> (Untracked, t)
      | Inr n \<Rightarrow>
          if n < 0 then (Untracked, t)
          else seq_step (py_str agent) (if py_truth boot then py_str boot else []) n t)"

definition seq_snapshot :: "seq_tracker \<Rightarrow> (string \<times> int) list" where
  "seq_snapshot t = [(''tracked'', sq_tracked t), (''gaps'', sq_gaps t), (''gap_events'', sq_gap_events t),
     (''resets'', sq_resets t), (''late'', sq_late t), (''streams'', int (length (sq_last t)))]"

subsection \<open>Rate limit\<close>

record rate_guard =
  rg_events_per_min :: int
  rg_use_redis :: bool
  rg_windows :: "(string \<times> int \<times> rat) list"
  rg_allowlist :: "string list"
  rg_client :: bool
  rg_redis_down_until :: rat

definition REDIS_DOWN_COOLDOWN_S :: rat where
  "REDIS_DOWN_COOLDOWN_S = 60"

definition live_windows :: "rat \<Rightarrow> (string \<times> int \<times> rat) list \<Rightarrow> (string \<times> int \<times> rat) list" where
  "live_windows now ws = filter (\<lambda>(k, c, start). now - start < 120) ws"

text \<open>A missing window reads as \<open>(0, 0.0)\<close>, the default of the dictionary.\<close>

definition window_of :: "rat \<Rightarrow> string \<Rightarrow> (string \<times> int \<times> rat) list \<Rightarrow> int \<times> rat" where
  "window_of now agent ws =
     (let (cur, start) = assoc_default (0, 0) agent ws in
      if now - start \<ge> 60 then (0, now) else (cur, start))"

definition local_allow :: "rat \<Rightarrow> string \<Rightarrow> int \<Rightarrow> rate_guard \<Rightarrow> bool \<times> rate_guard" where
  "local_allow now agent count g =
     (let ws = live_windows now (rg_windows g); (cur, start) = window_of now agent ws in
      (cur + count \<le> rg_events_per_min g, g\<lparr>rg_windows := assoc_put agent (cur + count, start) ws\<rparr>))"

text \<open>The local part of \<open>remaining\<close>; the lookup inserts a missing window.\<close>

definition local_remaining :: "rat \<Rightarrow> string \<Rightarrow> rate_guard \<Rightarrow> int \<times> rate_guard" where
  "local_remaining now agent g =
     (let (cur, start) = assoc_default (0, 0) agent (rg_windows g);
          g1 = g\<lparr>rg_windows := assoc_put agent (cur, start) (rg_windows g)\<rparr>
      in (if now - start \<ge> 60 then rg_events_per_min g else max 0 (rg_events_per_min g - cur), g1))"

definition rate_key :: "string \<Rightarrow> string" where
  "rate_key agent = ''rg:ingest:'' @ agent"

text \<open>The Lua script, which runs atomically; then the extra increments.\<close>

definition rate_script :: "'s redis \<Rightarrow> string \<Rightarrow> 's \<Rightarrow> int result \<times> 's" where
  "rate_script R key s = (case rd_incr R s key of
     (Inl x, s1) \<Rightarrow> (Inl x, s1)
   | (Inr n, s1) \<Rightarrow> if n = 1 then (case rd_expire R s1 key 60 of
         (Inl x, s2) \<Rightarrow> (Inl x, s2) | (Inr _, s2) \<Rightarrow> (Inr n, s2)) else (Inr n, s1))"

fun extra_incrs :: "'s redis \<Rightarrow> string \<Rightarrow> nat \<Rightarrow> int \<Rightarrow> 's \<Rightarrow> int result \<times> 's" where
  "extra_incrs R key 0 n s = (Inr n, s)"
| "extra_incrs R key (Suc k) n s = (case rd_incr R s key of
     (Inl x, s1) \<Rightarrow> (Inl x, s1) | (Inr m, s1) \<Rightarrow> extra_incrs R key k m s1)"

definition redis_count :: "'s redis \<Rightarrow> string \<Rightarrow> int \<Rightarrow> 's \<Rightarrow> int result \<times> 's" where
  "redis_count R agent count s = (case rate_script R (rate_key agent) s of
     (Inl x, s1) \<Rightarrow> (Inl x, s1)
   | (Inr n, s1) \<Rightarrow> extra_incrs R (rate_key agent) (nat (count - 1)) n s1)"

text \<open>\<open>can_connect\<close>: whether a client can be made from the configured address.\<close>

definition allow_async :: "'s redis \<Rightarrow> bool \<Rightarrow> rat \<Rightarrow> string \<Rightarrow> int \<Rightarrow> 's \<times> rate_guard \<Rightarrow> bool \<times> 's \<times> rate_guard" where
  "allow_async R can_connect now agent count = (\<lambda>(s, g).
     if List.member (rg_allowlist g) agent then (True, s, g)
     else let g1 = (if rg_use_redis g \<and> \<not> rg_client g \<and> now \<ge> rg_redis_down_until g
                    then g\<lparr>rg_client := can_connect\<rparr> else g) in
       if rg_use_redis g1 \<and> rg_client g1 then
         (case redis_count R agent count s of
            (Inr n, s1) \<Rightarrow> (n \<le> rg_events_per_min g1, s1, g1)
          | (Inl x, s1) \<Rightarrow>
              (case local_allow now agent count
                  (g1\<lparr>rg_redis_down_until := now + REDIS_DOWN_COOLDOWN_S, rg_client := False\<rparr>) of
                 (b, g2) \<Rightarrow> (b, s1, g2)))
       else (case local_allow now agent count g1 of (b, g2) \<Rightarrow> (b, s, g2)))"

end
