(* ===== verification/Guard_Properties.thy ===== *)
theory Guard_Properties
  imports Ingest_Guards
begin

section \<open>Properties of the ingestion guards\<close>

text \<open>
  Deduplication is a window over the distinct identifiers most recently seen; every lost sequence
  number is counted once; a rate window never admits more than its budget.
\<close>

subsection \<open>Deduplication\<close>

text \<open>The abstraction: the last \<open>n\<close> distinct entries of a history, least recent first.\<close>

definition last_n :: "nat \<Rightarrow> 'a list \<Rightarrow> 'a list" where
  "last_n n xs = drop (length xs - n) xs"

definition recent :: "nat \<Rightarrow> 'a list \<Rightarrow> 'a list" where
  "recent n h = last_n n (remdups h)"

lemma evict_last_n: "evict n xs = last_n n xs"
proof (induction n xs rule: evict.induct)
  case (1 n xs)
  show ?case
  proof (cases "length xs > n")
    case True
    then have "evict n xs = last_n n (tl xs)" using 1 by (simp add: evict.simps [of n xs])
    also have "\<dots> = last_n n xs" using True by (cases xs) (auto simp: last_n_def Suc_diff_le)
    finally show ?thesis .
  qed (simp add: evict.simps [of n xs] last_n_def)
qed

lemma remdups_snoc: "remdups (h @ [k]) = removeAll k (remdups h) @ [k]"
  by (induction h) auto

lemma removeAll_last_n:
  assumes "distinct xs"
  shows "k \<in> set (last_n n xs) \<Longrightarrow> remove1 k (last_n n xs) @ [k] = last_n n (removeAll k xs @ [k])"
    "k \<notin> set (last_n n xs) \<Longrightarrow> last_n n (last_n n xs @ [k]) = last_n n (removeAll k xs @ [k])"
proof -
  define a b where "a = take (length xs - n) xs" and "b = last_n n xs"
  have xs: "xs = a @ b" by (simp add: a_def b_def last_n_def)
  have l: "length b = min n (length xs)" "length a = length xs - n" by (simp_all add: a_def b_def last_n_def)
  have d: "distinct b" "distinct a" "set a \<inter> set b = {}" using assms by (simp_all add: xs)
  show "k \<in> set (last_n n xs) \<Longrightarrow> remove1 k (last_n n xs) @ [k] = last_n n (removeAll k xs @ [k])"
  proof -
    assume "k \<in> set (last_n n xs)"
    then have k: "k \<in> set b" "k \<notin> set a" using d(3) by (auto simp: b_def)
    have r: "removeAll k xs @ [k] = a @ (remove1 k b @ [k])"
      using k d(1) by (simp add: xs distinct_remove1_removeAll)
    have "length (remove1 k b @ [k]) = length b" using k by (simp add: length_remove1) (cases b; auto)
    then show ?thesis unfolding b_def [symmetric] r using l by (auto simp: last_n_def)
  qed
  show "k \<notin> set (last_n n xs) \<Longrightarrow> last_n n (last_n n xs @ [k]) = last_n n (removeAll k xs @ [k])"
  proof -
    assume "k \<notin> set (last_n n xs)"
    then have "k \<notin> set b" by (simp add: b_def)
    then have r: "removeAll k xs @ [k] = removeAll k a @ (b @ [k])"
      by (simp add: xs b_def [symmetric])
    have "a \<noteq> [] \<Longrightarrow> length b = n" using l by (cases "length xs \<le> n") auto
    then show ?thesis unfolding b_def [symmetric] r by (cases "a = []") (auto simp: last_n_def)
  qed
qed

text \<open>A run of checks of events that carry an identifier, and the answers.\<close>

definition check_keys :: "dkey \<Rightarrow> event_dedup \<Rightarrow> bool \<times> event_dedup" where
  "check_keys k d = dedup_check (PStr (fst k)) (PStr (snd k)) d"

fun dedup_run :: "dkey list \<Rightarrow> event_dedup \<Rightarrow> bool list \<times> event_dedup" where
  "dedup_run [] d = ([], d)"
| "dedup_run (k # ks) d = (let (b, d1) = check_keys k d; (bs, d2) = dedup_run ks d1 in (b # bs, d2))"

lemma check_refines:
  assumes "dd_seen d = recent (dd_capacity d) h" "snd k \<noteq> []"
  shows "fst (check_keys k d) \<longleftrightarrow> k \<in> set (recent (dd_capacity d) h)"
    "dd_seen (snd (check_keys k d)) = recent (dd_capacity d) (h @ [k])"
    "dd_capacity (snd (check_keys k d)) = dd_capacity d"
  using assms removeAll_last_n [of "remdups h" k "dd_capacity d"]
  by (auto simp: check_keys_def dedup_check_def Let_def recent_def remdups_snoc evict_last_n)

lemma dedup_run_refines:
  assumes "\<forall>k \<in> set ks. snd k \<noteq> []"
  shows "dd_seen d = recent (dd_capacity d) h \<Longrightarrow>
    fst (dedup_run ks d) = map (\<lambda>i. ks ! i \<in> set (recent (dd_capacity d) (h @ take i ks))) [0..<length ks] \<and>
    dd_seen (snd (dedup_run ks d)) = recent (dd_capacity d) (h @ ks)"
  using assms
proof (induction ks arbitrary: d h)
  case (Cons k ks)
  obtain b d1 where c: "check_keys k d = (b, d1)" by fastforce
  note r = check_refines [OF Cons.prems(1), of k]
  have s: "dd_seen d1 = recent (dd_capacity d1) (h @ [k])" "dd_capacity d1 = dd_capacity d"
    "b \<longleftrightarrow> k \<in> set (recent (dd_capacity d) h)"
    using r Cons.prems(2) by (auto simp: c)
  have "fst (dedup_run ks d1) = map (\<lambda>i. ks ! i \<in> set (recent (dd_capacity d) (h @ k # take i ks))) [0..<length ks]"
    "dd_seen (snd (dedup_run ks d1)) = recent (dd_capacity d) (h @ k # ks)"
    using Cons.IH [OF s(1)] Cons.prems(2) by (simp_all add: s(2))
  moreover have u: "[0..<length (k # ks)] = 0 # map Suc [0..<length ks]"
    unfolding map_Suc_upt list.size(4) add_Suc_right add_0_right by (rule upt_conv_Cons) simp
  moreover have "map (\<lambda>i. (k # ks) ! i \<in> set (recent (dd_capacity d) (h @ take i (k # ks)))) (0 # map Suc xs) =
      (k \<in> set (recent (dd_capacity d) h)) # map (\<lambda>i. ks ! i \<in> set (recent (dd_capacity d) (h @ k # take i ks))) xs" for xs
    by simp
  ultimately show ?case using s(3) by (simp only: u dedup_run.simps c case_prod_beta Let_def fst_conv snd_conv)
qed simp

text \<open>
  C16: Refinement: starting empty, an event is judged a duplicate exactly when its identifier is among
  the \<open>capacity\<close> distinct identifiers seen most recently before it (repetitions refresh an
  identifier), and the table holds exactly those; so a retry within the window is always caught,
  the table never exceeds its capacity, and no event with a new identifier is ever discarded.
\<close>

theorem dedup_is_recent_window:
  assumes "\<forall>k \<in> set ks. snd k \<noteq> []"
  shows "fst (dedup_run ks (new_dedup n)) =
      map (\<lambda>i. ks ! i \<in> set (recent n (take i ks))) [0..<length ks] \<and>
    dd_seen (snd (dedup_run ks (new_dedup n))) = recent n ks \<and>
    length (dd_seen (snd (dedup_run ks (new_dedup n)))) \<le> n \<and>
    (\<forall>i < length ks. ks ! i \<notin> set (take i ks) \<longrightarrow> \<not> fst (dedup_run ks (new_dedup n)) ! i)"
proof -
  have "dd_seen (new_dedup n) = recent (dd_capacity (new_dedup n)) []"
    by (simp add: new_dedup_def recent_def last_n_def)
  from dedup_run_refines [OF assms this]
  have r: "fst (dedup_run ks (new_dedup n)) = map (\<lambda>i. ks ! i \<in> set (recent n (take i ks))) [0..<length ks]"
    "dd_seen (snd (dedup_run ks (new_dedup n))) = recent n ks"
    by (simp_all add: new_dedup_def)
  moreover have "set (recent n h) \<subseteq> set h" for h :: "dkey list"
    by (auto simp: recent_def last_n_def dest: in_set_dropD)
  ultimately show ?thesis by (auto simp: recent_def last_n_def)
qed

theorem dedup_is_recent_window_witness:
  "fst (dedup_run [(''a'', ''1''), (''a'', ''2''), (''a'', ''1''), (''a'', ''3''), (''a'', ''2'')] (new_dedup 2)) =
     [False, False, True, False, False]"
proof -
  have "map (\<lambda>i. [(''a'', ''1''), (''a'', ''2''), (''a'', ''1''), (''a'', ''3''), (''a'', ''2'')] ! i \<in> set (recent 2
      (take i [(''a'', ''1''), (''a'', ''2''), (''a'', ''1''), (''a'', ''3''), (''a'', ''2'')])))
      [0..<length [(''a'', ''1''), (''a'', ''2''), (''a'', ''1''), (''a'', ''3''), (''a'', ''2'')]] =
      [False, False, True, False, False]" by code_simp
  then show ?thesis
    using dedup_is_recent_window [of "[(''a'', ''1''), (''a'', ''2''), (''a'', ''1''), (''a'', ''3''), (''a'', ''2'')]" 2]
    by simp
qed

text \<open>
  Across workers and restarts duplicates are not recognised: although the identifier of the event
  is in Redis, a worker whose memory does not hold it accepts the event, because the client
  answers \<open>None\<close> and not \<open>False\<close> when the key exists.
\<close>

theorem dedup_ignores_redis:
  assumes "redis_laws R view" "py_truth event" "view s (dedup_key (py_str agent) (py_str event)) \<noteq> None"
    "(py_str agent, py_str event) \<notin> set (dd_seen d)"
  shows "\<not> fst (is_duplicate R ttl agent event (s, d))"
proof -
  obtain s1 where "rd_set_nx R s (dedup_key (py_str agent) (py_str event)) ''1'' ttl = (Inr False, s1)"
    using redis_lawsD(4) [OF assms(1), of s "dedup_key (py_str agent) (py_str event)" "''1''" ttl] assms(3) by auto
  then show ?thesis
    using assms(2,4) by (simp add: is_duplicate_def set_nx_value_def Let_def dedup_check_def)
qed

theorem dedup_ignores_redis_witness:
  "\<not> fst (is_duplicate map_redis 86400 (PStr ''a1'') (PStr ''e1'') ([(dedup_key ''a1'' ''e1'', RStr ''1'')], new_dedup 20000))"
  by (rule dedup_ignores_redis [OF map_redis_laws]) (simp_all add: rview_def new_dedup_def)


subsection \<open>Sequence gaps\<close>

fun seq_run :: "string \<Rightarrow> string \<Rightarrow> int list \<Rightarrow> seq_tracker \<Rightarrow> seq_tracker" where
  "seq_run agent boot [] t = t"
| "seq_run agent boot (n # ns) t = seq_run agent boot ns (snd (seq_observe (PStr agent) (PStr boot) (PInt n) t))"

text \<open>What is known of a stream that started at \<open>first\<close> and whose highest number is \<open>hi\<close>.\<close>

definition accounts :: "string \<times> string \<Rightarrow> int \<Rightarrow> int \<Rightarrow> seq_tracker \<Rightarrow> bool" where
  "accounts key first hi t \<longleftrightarrow> assoc key (sq_last t) = Some hi \<and>
     sq_tracked t + sq_gap_events t = hi - first + 1 + sq_late t"

lemma observe_later:
  assumes "accounts (agent, boot) first hi t" "0 \<le> n"
  shows "accounts (agent, boot) first (max hi n) (snd (seq_observe (PStr agent) (PStr boot) (PInt n) t))"
proof -
  have b: "(if boot = [] then [] else boot) = boot" by simp
  consider "n = hi + 1" | "n > hi + 1" | "n \<le> hi" by linarith
  then show ?thesis
    using assms by cases (auto simp: seq_observe_def seq_step_def accounts_def Let_def)
qed

lemma seq_run_accounts:
  "accounts (agent, boot) first hi t \<Longrightarrow> \<forall>n \<in> set ns. 0 \<le> n \<Longrightarrow>
    accounts (agent, boot) first (fold max ns hi) (seq_run agent boot ns t)"
proof (induction ns arbitrary: hi t)
  case (Cons n ns)
  then have "accounts (agent, boot) first (max hi n) (snd (seq_observe (PStr agent) (PStr boot) (PInt n) t))"
    by (intro observe_later) simp_all
  from Cons.IH [OF this] Cons.prems(2) show ?case by (simp add: max.commute)
qed simp

text \<open>
  C33: The gap counter loses nothing: for a stream of events of one agent and boot, however they are
  ordered, the events counted plus the losses counted are the sequence numbers from the first to
  the highest one plus the events counted as late; without late or repeated events the counted
  losses are exactly the missing numbers.
\<close>

theorem sequence_losses_counted:
  assumes "\<forall>n \<in> set (m # ns). 0 \<le> n"
  shows "sq_tracked (seq_run agent boot (m # ns) new_tracker) + sq_gap_events (seq_run agent boot (m # ns) new_tracker) =
      Max (set (m # ns)) - m + 1 + sq_late (seq_run agent boot (m # ns) new_tracker)"
proof -
  have "accounts (agent, boot) m m (snd (seq_observe (PStr agent) (PStr boot) (PInt m) new_tracker))"
    using assms by (simp add: seq_observe_def seq_step_def first_of_stream_def accounts_def new_tracker_def Let_def)
  from seq_run_accounts [OF this, of ns] assms
  have "accounts (agent, boot) m (fold max ns m) (seq_run agent boot (m # ns) new_tracker)" by simp
  moreover have "fold max ns m = Max (set (m # ns))" by (metis Max.set_eq_fold)
  ultimately show ?thesis by (simp add: accounts_def)
qed

theorem sequence_losses_counted_witness:
  "sq_gap_events (seq_run ''a'' ''b'' [3, 4, 9, 7] new_tracker) = 4"
proof -
  have "sq_tracked (seq_run ''a'' ''b'' [3, 4, 9, 7] new_tracker) = 4"
    "sq_late (seq_run ''a'' ''b'' [3, 4, 9, 7] new_tracker) = 1" by code_simp+
  then show ?thesis using sequence_losses_counted [of 3 "[4, 9, 7]" "''a''" "''b''"] by simp
qed

subsection \<open>Rate limit\<close>

text \<open>
  Calls of one agent on the local guard: time and number of events; the outcome of a call is its
  window's start, its number of events and the verdict.
\<close>

fun local_run :: "string \<Rightarrow> (rat \<times> int) list \<Rightarrow> rate_guard \<Rightarrow> (rat \<times> int \<times> bool) list" where
  "local_run agent [] g = []"
| "local_run agent ((now, count) # calls) g =
     (let (ok, g1) = local_allow now agent count g
      in (snd (assoc_default (0, 0) agent (rg_windows g1)), count, ok) # local_run agent calls g1)"

definition admitted :: "rat \<Rightarrow> (rat \<times> int \<times> bool) list \<Rightarrow> int" where
  "admitted start outs = sum_list (map (\<lambda>(s, c, ok). if s = start \<and> ok then c else 0) outs)"

definition ordered_calls :: "rat \<Rightarrow> (rat \<times> int) list \<Rightarrow> bool" where
  "ordered_calls t calls \<longleftrightarrow> sorted (t # map fst calls) \<and> list_all (\<lambda>c. 0 \<le> snd c) calls"

lemma assoc_live:
  "distinct (map fst ws) \<Longrightarrow> assoc k (live_windows now ws) =
     (case assoc k ws of None \<Rightarrow> None | Some (c, st) \<Rightarrow> if now - st < 120 then Some (c, st) else None)"
proof (induction ws)
  case (Cons w ws)
  obtain j c st where w: "w = (j, c, st)" by (cases w)
  have "j \<notin> set (map fst ws) \<Longrightarrow> assoc j ws = None" by (auto simp: assoc_map_of map_of_eq_None_iff)
  with Cons w show ?case by (auto simp: live_windows_def)
qed (simp add: live_windows_def)

lemma distinct_live: "distinct (map fst ws) \<Longrightarrow> distinct (map fst (live_windows now ws))"
  by (induction ws) (auto simp: live_windows_def)

text \<open>The window of a call: the agent's own while it is younger than a minute, else a new one.\<close>

definition call_window :: "rat \<Rightarrow> (int \<times> rat) option \<Rightarrow> int \<times> rat" where
  "call_window now w = (case w of
     None \<Rightarrow> (0, if now \<ge> 60 then now else 0)
   | Some (c, st) \<Rightarrow> if now - st \<ge> 60 then (0, now) else (c, st))"

lemma window_of_live:
  assumes "distinct (map fst ws)" "\<And>c st. assoc agent ws = Some (c, st) \<Longrightarrow> 0 \<le> st"
  shows "window_of now agent (live_windows now ws) = call_window now (assoc agent ws)"
proof (cases "assoc agent ws")
  case None
  then show ?thesis by (simp add: window_of_def call_window_def assoc_default_def assoc_live assms(1))
next
  case (Some w)
  obtain c st where w: "w = (c, st)" by (cases w)
  with Some assms(2) have "0 \<le> st" by simp
  with Some w show ?thesis
    by (auto simp: window_of_def call_window_def assoc_default_def assoc_live assms(1))
qed

definition window_ok :: "string \<Rightarrow> rat \<Rightarrow> rate_guard \<Rightarrow> bool" where
  "window_ok agent t g \<longleftrightarrow> distinct (map fst (rg_windows g)) \<and>
     (\<forall>c st. assoc agent (rg_windows g) = Some (c, st) \<longrightarrow> 0 \<le> st \<and> st \<le> t)"

lemma local_allow_spec:
  assumes "window_ok agent t g" "t \<le> now" "0 \<le> now" "call_window now (assoc agent (rg_windows g)) = (cur, start)"
  shows "fst (local_allow now agent count g) \<longleftrightarrow> cur + count \<le> rg_events_per_min g"
    "assoc agent (rg_windows (snd (local_allow now agent count g))) = Some (cur + count, start)"
    "rg_events_per_min (snd (local_allow now agent count g)) = rg_events_per_min g"
    "window_ok agent now (snd (local_allow now agent count g))"
proof -
  have w: "window_of now agent (live_windows now (rg_windows g)) = (cur, start)"
    using window_of_live [of "rg_windows g" agent now] assms(1,4) by (auto simp: window_ok_def)
  then show "fst (local_allow now agent count g) \<longleftrightarrow> cur + count \<le> rg_events_per_min g"
    "assoc agent (rg_windows (snd (local_allow now agent count g))) = Some (cur + count, start)"
    "rg_events_per_min (snd (local_allow now agent count g)) = rg_events_per_min g"
    by (simp_all add: local_allow_def Let_def)
  have "0 \<le> start \<and> start \<le> now"
    using assms by (auto simp: call_window_def window_ok_def split: option.splits if_splits)
  then show "window_ok agent now (snd (local_allow now agent count g))"
    using assms(1) distinct_assoc_put [OF distinct_live [of "rg_windows g" now], of agent "(cur + count, start)"]
    by (simp add: local_allow_def Let_def w window_ok_def)
qed

text \<open>What may still be admitted in the window that starts at \<open>s\<close>.\<close>

definition budget :: "int \<Rightarrow> (int \<times> rat) option \<Rightarrow> rat \<Rightarrow> int" where
  "budget limit w s = (case w of None \<Rightarrow> max 0 limit
     | Some (c, st) \<Rightarrow> if s < st then 0 else if s = st then max 0 (limit - c) else max 0 limit)"

lemma budget_step:
  assumes "call_window now w = (cur, start)" "0 \<le> count" "\<And>c st. w = Some (c, st) \<Longrightarrow> st \<le> now"
  shows "(if start = s \<and> cur + count \<le> limit then count else 0) + budget limit (Some (cur + count, start)) s
    \<le> budget limit w s"
  using assms by (auto simp: budget_def call_window_def split: option.splits if_splits)

lemma local_run_budget:
  "window_ok agent t g \<Longrightarrow> 0 \<le> t \<Longrightarrow> ordered_calls t calls \<Longrightarrow>
    admitted s (local_run agent calls g) \<le> budget (rg_events_per_min g) (assoc agent (rg_windows g)) s"
proof (induction calls arbitrary: t g)
  case Nil
  then show ?case by (auto simp: admitted_def budget_def split: option.split)
next
  case (Cons c calls)
  obtain now count where c: "c = (now, count)" by (cases c)
  obtain cur start where w: "call_window now (assoc agent (rg_windows g)) = (cur, start)" by fastforce
  have o: "t \<le> now" "0 \<le> now" "0 \<le> count" "ordered_calls now calls"
    using Cons.prems by (auto simp: ordered_calls_def c)
  obtain ok g1 where l: "local_allow now agent count g = (ok, g1)" by fastforce
  note sp = local_allow_spec [OF Cons.prems(1) o(1,2) w, of count, unfolded l fst_conv snd_conv]
  have ih: "admitted s (local_run agent calls g1) \<le> budget (rg_events_per_min g) (Some (cur + count, start)) s"
    using Cons.IH [OF sp(4) o(2,4)] by (simp add: sp)
  have past: "\<And>k st. assoc agent (rg_windows g) = Some (k, st) \<Longrightarrow> st \<le> now"
    using Cons.prems(1) o(1) by (force simp: window_ok_def)
  have "(if start = s \<and> cur + count \<le> rg_events_per_min g then count else 0) +
      budget (rg_events_per_min g) (Some (cur + count, start)) s \<le> budget (rg_events_per_min g) (assoc agent (rg_windows g)) s"
    by (rule budget_step [OF w o(3)]) (rule past)
  with ih have "(if start = s \<and> cur + count \<le> rg_events_per_min g then count else 0) + admitted s (local_run agent calls g1)
      \<le> budget (rg_events_per_min g) (assoc agent (rg_windows g)) s"
    by linarith
  then show ?case by (simp add: c l sp(1,2) admitted_def assoc_default_def)
qed

text \<open>
  C34: The local rate guard never admits more than its budget in one window: over any sequence of calls
  with rising times, the numbers of events of the admitted calls that fall into the window
  starting at a given time add up to at most the budget, also when windows expire and are
  dropped.
\<close>

theorem rate_window_within_budget:
  assumes "ordered_calls t calls" "0 \<le> t" "distinct (map fst (rg_windows g))" "assoc agent (rg_windows g) = None"
    "0 \<le> rg_events_per_min g"
  shows "admitted s (local_run agent calls g) \<le> rg_events_per_min g"
proof -
  have "window_ok agent t g" using assms(3,4) by (simp add: window_ok_def)
  from local_run_budget [OF this assms(2,1), of s] assms(4,5) show ?thesis by (simp add: budget_def)
qed

definition small_guard :: rate_guard where
  "small_guard = \<lparr>rg_events_per_min = 10, rg_use_redis = False, rg_windows = [], rg_allowlist = [],
     rg_client = False, rg_redis_down_until = 0\<rparr>"

theorem rate_window_within_budget_witness:
  "admitted 100 (local_run ''a'' [(100, 6), (120, 6), (150, 4)] small_guard) \<le> 10"
  using rate_window_within_budget [of 100 "[(100, 6), (120, 6), (150, 4)]" small_guard "''a''" 100]
  by (simp add: ordered_calls_def small_guard_def)

text \<open>The windows are fixed, not sliding: 19 events of a budget of 10 pass within one second.\<close>

lemma rate_windows_are_fixed:
  "map (snd \<circ> snd) (local_run ''a'' [(100, 1), (159, 9), (160, 10)] small_guard) = [True, True, True]"
  by code_simp

end
