(* ===== verification/Regex_Groups.thy ===== *)
theory Regex_Groups
  imports Regex
begin

section \<open>Regular expressions with groups\<close>

text \<open>
  The parsers read what the groups of a match captured, so here the \<^emph>\<open>order\<close> in which a pattern is
  tried matters.  A pattern is a \<open>grx\<close>; \<open>gm r k\<close> is the backtracking matcher of Python's \<open>re\<close>:
  it tries the ways \<open>r\<close> can match in order of priority (left alternative first, greedy
  repetition longest first, lazy repetition shortest first) and returns the first result of the
  continuation \<open>k\<close>.  A state is the character before the position, the rest of the text and the
  groups captured so far.  Repetition is over bodies that consume a character, as in every pattern
  of the program; its fuel is the length of the rest.

  \<open>gsem\<close> is the declarative meaning, a relation between states; \<open>gm_Some\<close> and \<open>gm_None\<close> show that
  the matcher finds a match exactly when there is one, and \<open>gm_greedy\<close> that a greedy run over a
  class of characters takes the whole run when the rest of the pattern accepts it.
\<close>

type_synonym groups = "(string \<times> string) list"

datatype mstate = MState (before: "char option") (rest: string) (groups: groups)

datatype grx =
    GEps
  | GSet "char \<Rightarrow> bool"
  | GSeq grx grx
  | GAlt grx grx
  | GStar grx
  | GLazy grx
  | GGroup string grx
  | GRef string
  | GStart
  | GEnd
  | GWordB
  | GNotAfter "char \<Rightarrow> bool"
  | GPeek "char \<Rightarrow> bool"

definition shorter :: "mstate \<Rightarrow> mstate \<Rightarrow> bool" where
  "shorter st' st \<longleftrightarrow> length (rest st') < length (rest st)"

abbreviation first_of :: "'a option \<Rightarrow> 'a option \<Rightarrow> 'a option" where
  "first_of x y \<equiv> (case x of None \<Rightarrow> y | Some a \<Rightarrow> Some a)"

lemma first_of_None [simp]: "first_of x y = None \<longleftrightarrow> x = None \<and> y = None"
  by (cases x) auto

subsection \<open>Elementary steps\<close>

fun take_char :: "(char \<Rightarrow> bool) \<Rightarrow> mstate \<Rightarrow> mstate option" where
  "take_char p (MState b [] g) = None"
| "take_char p (MState b (c # s) g) = (if p c then Some (MState (Some c) s g) else None)"

text \<open>The group \<open>n\<close> gets the text between the two positions.\<close>

fun capture :: "string \<Rightarrow> mstate \<Rightarrow> mstate \<Rightarrow> mstate" where
  "capture n (MState b0 s0 g0) (MState b s g) = MState b s (assoc_put n (take (length s0 - length s) s0) g)"

fun take_ref :: "string \<Rightarrow> mstate \<Rightarrow> mstate option" where
  "take_ref n (MState b s g) = (case assoc n g of
       None \<Rightarrow> None
     | Some w \<Rightarrow> if startswith s w then Some (MState (if w = [] then b else Some (last w)) (drop (length w) s) g) else None)"

fun at_start :: "mstate \<Rightarrow> bool" where
  "at_start (MState b s g) = (b = None)"

text \<open>\<open>$\<close> without \<open>re.MULTILINE\<close>: the end, or before a newline that ends the text.\<close>

fun at_end :: "mstate \<Rightarrow> bool" where
  "at_end (MState b s g) = (s = [] \<or> s = [CHR 0x0A])"

definition word_before :: "char option \<Rightarrow> bool" where
  "word_before b = (case b of None \<Rightarrow> False | Some c \<Rightarrow> is_word c)"

fun at_word_boundary :: "mstate \<Rightarrow> bool" where
  "at_word_boundary (MState b s g) = (word_before b \<noteq> (s \<noteq> [] \<and> is_word (hd s)))"

fun not_after :: "(char \<Rightarrow> bool) \<Rightarrow> mstate \<Rightarrow> bool" where
  "not_after p (MState b s g) = (case b of None \<Rightarrow> True | Some c \<Rightarrow> \<not> p c)"

fun peek :: "(char \<Rightarrow> bool) \<Rightarrow> mstate \<Rightarrow> bool" where
  "peek p (MState b s g) = (s \<noteq> [] \<and> p (hd s))"

subsection \<open>The backtracking matcher\<close>

type_synonym matcher = "(mstate \<Rightarrow> mstate option) \<Rightarrow> mstate \<Rightarrow> mstate option"

primrec star_greedy :: "matcher \<Rightarrow> nat \<Rightarrow> matcher" where
  "star_greedy m 0 k st = k st"
| "star_greedy m (Suc n) k st =
     first_of (m (\<lambda>st'. if shorter st' st then star_greedy m n k st' else None) st) (k st)"

primrec star_lazy :: "matcher \<Rightarrow> nat \<Rightarrow> matcher" where
  "star_lazy m 0 k st = k st"
| "star_lazy m (Suc n) k st =
     first_of (k st) (m (\<lambda>st'. if shorter st' st then star_lazy m n k st' else None) st)"

primrec gm :: "grx \<Rightarrow> (mstate \<Rightarrow> mstate option) \<Rightarrow> mstate \<Rightarrow> mstate option" where
  "gm GEps k st = k st"
| "gm (GSet p) k st = (case take_char p st of None \<Rightarrow> None | Some st' \<Rightarrow> k st')"
| "gm (GSeq r s) k st = gm r (gm s k) st"
| "gm (GAlt r s) k st = first_of (gm r k st) (gm s k st)"
| "gm (GStar r) k st = star_greedy (gm r) (length (rest st)) k st"
| "gm (GLazy r) k st = star_lazy (gm r) (length (rest st)) k st"
| "gm (GGroup n r) k st = gm r (\<lambda>st'. k (capture n st st')) st"
| "gm (GRef n) k st = (case take_ref n st of None \<Rightarrow> None | Some st' \<Rightarrow> k st')"
| "gm GStart k st = (if at_start st then k st else None)"
| "gm GEnd k st = (if at_end st then k st else None)"
| "gm GWordB k st = (if at_word_boundary st then k st else None)"
| "gm (GNotAfter p) k st = (if not_after p st then k st else None)"
| "gm (GPeek p) k st = (if peek p st then k st else None)"

text \<open>
  \<open>g_match\<close> is \<open>re.match\<close> (the groups), \<open>g_search\<close> is \<open>re.search\<close>, \<open>g_all\<close> is \<open>re.finditer\<close> for
  patterns that consume a character, \<open>g_sub\<close> is \<open>re.sub\<close> with the replacement computed from the
  groups.  A group that did not take part is \<open>None\<close> (\<open>grp\<close>).
\<close>

definition grp :: "groups \<Rightarrow> string \<Rightarrow> string option" where
  "grp g n = assoc n g"

text \<open>A group that every match captures.\<close>

definition grp_text :: "groups \<Rightarrow> string \<Rightarrow> string" where
  "grp_text g n = (case assoc n g of None \<Rightarrow> [] | Some s \<Rightarrow> s)"

definition g_match :: "grx \<Rightarrow> string \<Rightarrow> groups option" where
  "g_match r s = map_option groups (gm r Some (MState None s []))"

fun g_search_from :: "grx \<Rightarrow> char option \<Rightarrow> string \<Rightarrow> groups option" where
  "g_search_from r b [] = map_option groups (gm r Some (MState b [] []))"
| "g_search_from r b (c # s) =
     first_of (map_option groups (gm r Some (MState b (c # s) []))) (g_search_from r (Some c) s)"

definition g_search :: "grx \<Rightarrow> string \<Rightarrow> groups option" where
  "g_search r s = g_search_from r None s"

text \<open>\<open>s[m.start():]\<close> for the first match \<open>m\<close>.\<close>

fun g_locate_from :: "grx \<Rightarrow> char option \<Rightarrow> string \<Rightarrow> string option" where
  "g_locate_from r b [] = map_option (\<lambda>_. []) (gm r Some (MState b [] []))"
| "g_locate_from r b (c # s) = (case gm r Some (MState b (c # s) []) of
     None \<Rightarrow> g_locate_from r (Some c) s | Some _ \<Rightarrow> Some (c # s))"

definition g_locate :: "grx \<Rightarrow> string \<Rightarrow> string option" where
  "g_locate r s = g_locate_from r None s"

definition g_found :: "grx \<Rightarrow> string \<Rightarrow> bool" where
  "g_found r s \<longleftrightarrow> g_search r s \<noteq> None"

function g_all_from :: "grx \<Rightarrow> char option \<Rightarrow> string \<Rightarrow> groups list" where
  "g_all_from r b [] = []"
| "g_all_from r b (c # s) = (case gm r Some (MState b (c # s) []) of
     None \<Rightarrow> g_all_from r (Some c) s
   | Some st \<Rightarrow> if length (rest st) \<le> length s then groups st # g_all_from r (before st) (rest st)
       else g_all_from r (Some c) s)"
  by pat_completeness auto
termination
  by (relation "measure (\<lambda>(r, b, s). length s)") auto

definition g_all :: "grx \<Rightarrow> string \<Rightarrow> groups list" where
  "g_all r s = g_all_from r None s"

function g_sub_from :: "grx \<Rightarrow> (groups \<Rightarrow> string) \<Rightarrow> char option \<Rightarrow> string \<Rightarrow> string" where
  "g_sub_from r f b [] = []"
| "g_sub_from r f b (c # s) = (case gm r Some (MState b (c # s) []) of
     None \<Rightarrow> c # g_sub_from r f (Some c) s
   | Some st \<Rightarrow> if length (rest st) \<le> length s then f (groups st) @ g_sub_from r f (before st) (rest st)
       else c # g_sub_from r f (Some c) s)"
  by pat_completeness auto
termination
  by (relation "measure (\<lambda>(r, f, b, s). length s)") auto

definition g_sub :: "grx \<Rightarrow> (groups \<Rightarrow> string) \<Rightarrow> string \<Rightarrow> string" where
  "g_sub r f s = g_sub_from r f None s"

subsection \<open>Pattern combinators\<close>

definition g_char :: "char \<Rightarrow> grx" where
  "g_char c = GSet (\<lambda>d. d = c)"

definition g_any :: grx where
  "g_any = GSet (\<lambda>_. True)"

definition g_dot :: grx where
  "g_dot = GSet (\<lambda>c. c \<noteq> CHR 0x0A)"

definition g_space :: grx where "g_space = GSet is_space"
definition g_nonspace :: grx where "g_nonspace = GSet (\<lambda>c. \<not> is_space c)"
definition g_digit :: grx where "g_digit = GSet is_digit"

fun g_seq :: "grx list \<Rightarrow> grx" where
  "g_seq [] = GEps"
| "g_seq [r] = r"
| "g_seq (r # rs) = GSeq r (g_seq rs)"

fun g_alts :: "grx list \<Rightarrow> grx" where
  "g_alts [] = GSet (\<lambda>_. False)"
| "g_alts [r] = r"
| "g_alts (r # rs) = GAlt r (g_alts rs)"

definition g_opt :: "grx \<Rightarrow> grx" where
  "g_opt r = GAlt r GEps"

definition g_plus :: "grx \<Rightarrow> grx" where
  "g_plus r = GSeq r (GStar r)"

definition g_plus_lazy :: "grx \<Rightarrow> grx" where
  "g_plus_lazy r = GSeq r (GLazy r)"

fun g_times :: "nat \<Rightarrow> grx \<Rightarrow> grx" where
  "g_times 0 r = GEps"
| "g_times (Suc n) r = GSeq r (g_times n r)"

text \<open>\<open>r{0,n}\<close>, greedy.\<close>

fun g_upto :: "nat \<Rightarrow> grx \<Rightarrow> grx" where
  "g_upto 0 r = GEps"
| "g_upto (Suc n) r = GAlt (GSeq r (g_upto n r)) GEps"

fun g_lit :: "string \<Rightarrow> grx" where
  "g_lit [] = GEps"
| "g_lit [c] = g_char c"
| "g_lit (c # s) = GSeq (g_char c) (g_lit s)"

text \<open>A literal under \<open>(?i)\<close>.\<close>

fun g_lit_ci :: "string \<Rightarrow> grx" where
  "g_lit_ci [] = GEps"
| "g_lit_ci [c] = GSet (\<lambda>d. lower_char d = lower_char c)"
| "g_lit_ci (c # s) = GSeq (GSet (\<lambda>d. lower_char d = lower_char c)) (g_lit_ci s)"

definition g_words_ci :: "string list \<Rightarrow> grx" where
  "g_words_ci ws = g_alts (map g_lit_ci ws)"

definition is_upper_alpha :: "char \<Rightarrow> bool" where
  "is_upper_alpha c \<longleftrightarrow> 65 \<le> code c \<and> code c \<le> 90"

subsection \<open>Declarative meaning\<close>

definition strictly :: "(mstate \<times> mstate) set \<Rightarrow> (mstate \<times> mstate) set" where
  "strictly R = {(st, st') \<in> R. shorter st' st}"

primrec gsem :: "grx \<Rightarrow> (mstate \<times> mstate) set" where
  "gsem GEps = Id"
| "gsem (GSet p) = {(st, st'). take_char p st = Some st'}"
| "gsem (GSeq r s) = gsem r O gsem s"
| "gsem (GAlt r s) = gsem r \<union> gsem s"
| "gsem (GStar r) = (strictly (gsem r))\<^sup>*"
| "gsem (GLazy r) = (strictly (gsem r))\<^sup>*"
| "gsem (GGroup n r) = {(st, capture n st st') | st st'. (st, st') \<in> gsem r}"
| "gsem (GRef n) = {(st, st'). take_ref n st = Some st'}"
| "gsem GStart = {(st, st') \<in> Id. at_start st}"
| "gsem GEnd = {(st, st') \<in> Id. at_end st}"
| "gsem GWordB = {(st, st') \<in> Id. at_word_boundary st}"
| "gsem (GNotAfter p) = {(st, st') \<in> Id. not_after p st}"
| "gsem (GPeek p) = {(st, st') \<in> Id. peek p st}"

text \<open>A matcher is right for a relation when it finds a continuation exactly where there is one.\<close>

definition matches_rel :: "matcher \<Rightarrow> (mstate \<times> mstate) set \<Rightarrow> bool" where
  "matches_rel m R \<longleftrightarrow> (\<forall>k st. (m k st = None \<longleftrightarrow> (\<forall>st'. (st, st') \<in> R \<longrightarrow> k st' = None)) \<and>
     (\<forall>x. m k st = Some x \<longrightarrow> (\<exists>st'. (st, st') \<in> R \<and> k st' = Some x)))"

lemma matches_relI:
  assumes "\<And>k st. (m k st = None \<longleftrightarrow> (\<forall>st'. (st, st') \<in> R \<longrightarrow> k st' = None))"
    and "\<And>k st x. m k st = Some x \<Longrightarrow> \<exists>st'. (st, st') \<in> R \<and> k st' = Some x"
  shows "matches_rel m R"
  using assms unfolding matches_rel_def by blast

lemma matches_relD:
  assumes "matches_rel m R"
  shows "m k st = None \<longleftrightarrow> (\<forall>st'. (st, st') \<in> R \<longrightarrow> k st' = None)"
    "m k st = Some x \<Longrightarrow> \<exists>st'. (st, st') \<in> R \<and> k st' = Some x"
  using assms unfolding matches_rel_def by blast+

lemma strictly_step:
  "(st, st') \<in> (strictly R)\<^sup>* \<longleftrightarrow> st' = st \<or> (\<exists>u. (st, u) \<in> R \<and> shorter u st \<and> (u, st') \<in> (strictly R)\<^sup>*)"
  by (auto simp: strictly_def elim: converse_rtranclE intro: converse_rtrancl_into_rtrancl)

lemma strictly_stuck: "rest st = [] \<Longrightarrow> (st, st') \<in> (strictly R)\<^sup>* \<longleftrightarrow> st' = st"
  by (subst strictly_step) (simp add: shorter_def)

text \<open>One iteration of either repetition, before the continuation is tried.\<close>

lemma star_body:
  assumes m: "matches_rel m R" and it: "\<And>u. shorter u st \<Longrightarrow>
      (it u = None \<longleftrightarrow> (\<forall>st'. (u, st') \<in> (strictly R)\<^sup>* \<longrightarrow> k st' = None)) \<and>
      (\<forall>x. it u = Some x \<longrightarrow> (\<exists>st'. (u, st') \<in> (strictly R)\<^sup>* \<and> k st' = Some x))"
  defines "body \<equiv> m (\<lambda>st'. if shorter st' st then it st' else None) st"
  shows "body = None \<and> k st = None \<longleftrightarrow> (\<forall>st'. (st, st') \<in> (strictly R)\<^sup>* \<longrightarrow> k st' = None)"
    "body = Some x \<or> k st = Some x \<Longrightarrow> \<exists>st'. (st, st') \<in> (strictly R)\<^sup>* \<and> k st' = Some x"
proof -
  have n: "body = None \<longleftrightarrow> (\<forall>u. (st, u) \<in> R \<and> shorter u st \<longrightarrow> (\<forall>st'. (u, st') \<in> (strictly R)\<^sup>* \<longrightarrow> k st' = None))"
    unfolding body_def matches_relD(1) [OF m] using it by auto
  show "body = None \<and> k st = None \<longleftrightarrow> (\<forall>st'. (st, st') \<in> (strictly R)\<^sup>* \<longrightarrow> k st' = None)"
    unfolding n by (subst strictly_step [of st]) auto
  have s: "\<exists>u. (st, u) \<in> R \<and> shorter u st \<and> it u = Some x" if "body = Some x"
    using matches_relD(2) [OF m that [unfolded body_def]] by (auto split: if_splits)
  show "body = Some x \<or> k st = Some x \<Longrightarrow> \<exists>st'. (st, st') \<in> (strictly R)\<^sup>* \<and> k st' = Some x"
    using s it by (subst strictly_step [of st]) blast
qed

lemma star_greedy_rel:
  assumes "matches_rel m R" "length (rest st) \<le> n"
  shows "(star_greedy m n k st = None \<longleftrightarrow> (\<forall>st'. (st, st') \<in> (strictly R)\<^sup>* \<longrightarrow> k st' = None)) \<and>
    (\<forall>x. star_greedy m n k st = Some x \<longrightarrow> (\<exists>st'. (st, st') \<in> (strictly R)\<^sup>* \<and> k st' = Some x))"
  using assms(2)
proof (induction n arbitrary: st)
  case (Suc n)
  note b = star_body [OF assms(1), of st "star_greedy m n k" k]
  have it: "\<And>u. shorter u st \<Longrightarrow> length (rest u) \<le> n" using Suc.prems by (auto simp: shorter_def)
  show ?case using b(1) [OF Suc.IH [OF it]] b(2) [OF Suc.IH [OF it]]
    by (auto split: option.splits)
qed (simp add: strictly_stuck)

lemma star_lazy_rel:
  assumes "matches_rel m R" "length (rest st) \<le> n"
  shows "(star_lazy m n k st = None \<longleftrightarrow> (\<forall>st'. (st, st') \<in> (strictly R)\<^sup>* \<longrightarrow> k st' = None)) \<and>
    (\<forall>x. star_lazy m n k st = Some x \<longrightarrow> (\<exists>st'. (st, st') \<in> (strictly R)\<^sup>* \<and> k st' = Some x))"
  using assms(2)
proof (induction n arbitrary: st)
  case (Suc n)
  note b = star_body [OF assms(1), of st "star_lazy m n k" k]
  have it: "\<And>u. shorter u st \<Longrightarrow> length (rest u) \<le> n" using Suc.prems by (auto simp: shorter_def)
  show ?case using b(1) [OF Suc.IH [OF it]] b(2) [OF Suc.IH [OF it]]
    by (auto split: option.splits)
qed (simp add: strictly_stuck)

lemma gm_rel: "matches_rel (gm r) (gsem r)"
proof (induction r)
  case (GSeq r s)
  show ?case
    by (rule matches_relI) (use matches_relD(1) [OF GSeq.IH(1)] matches_relD(1) [OF GSeq.IH(2)] in auto,
      use matches_relD(2) [OF GSeq.IH(1)] matches_relD(2) [OF GSeq.IH(2)] in fastforce)
next
  case (GAlt r s)
  show ?case
    by (rule matches_relI) (use matches_relD(1) [OF GAlt.IH(1)] matches_relD(1) [OF GAlt.IH(2)] in auto,
      use matches_relD(2) [OF GAlt.IH(1)] matches_relD(2) [OF GAlt.IH(2)] in
        \<open>fastforce split: option.splits\<close>)
next
  case (GStar r)
  show ?case by (rule matches_relI) (use star_greedy_rel [OF GStar.IH order_refl] in auto)
next
  case (GLazy r)
  show ?case by (rule matches_relI) (use star_lazy_rel [OF GLazy.IH order_refl] in auto)
next
  case (GGroup n r)
  show ?case by (rule matches_relI) (use matches_relD(1) [OF GGroup.IH] in auto,
      use matches_relD(2) [OF GGroup.IH] in fastforce)
qed (auto simp: matches_rel_def split: option.splits)

lemmas gm_None = matches_relD(1) [OF gm_rel] and gm_Some = matches_relD(2) [OF gm_rel]

lemma g_match_None: "g_match r s = None \<longleftrightarrow> (\<forall>st'. (MState None s [], st') \<notin> gsem r)"
  by (simp add: g_match_def gm_None)

subsection \<open>Deterministic runs\<close>

text \<open>The character before the position after a run of \<open>u\<close>.\<close>

definition after_run :: "char option \<Rightarrow> string \<Rightarrow> char option" where
  "after_run b u = (if u = [] then b else Some (last u))"

lemma after_run_simps [simp]: "after_run b [] = b" "after_run b (c # u) = after_run (Some c) u"
  by (auto simp: after_run_def)

lemma star_greedy_run:
  assumes "\<forall>c \<in> set u. p c" "v = [] \<or> \<not> p (hd v)" "k (MState (after_run b u) v g) = Some x" "length (u @ v) \<le> n"
  shows "star_greedy (gm (GSet p)) n k (MState b (u @ v) g) = Some x"
  using assms
proof (induction u arbitrary: b n)
  case Nil
  have "take_char p (MState b v g) = None" using Nil.prems(2) by (cases v) auto
  then show ?case using Nil.prems(3) by (cases n) auto
next
  case (Cons c u)
  then obtain m where n: "n = Suc m" by (cases n) auto
  show ?case using Cons n by (simp add: shorter_def)
qed

text \<open>
  A greedy run over a class takes all of it when the rest of the pattern accepts what follows; a
  lazy run stops at the first place the rest of the pattern accepts.
\<close>

lemma gm_greedy:
  assumes "\<forall>c \<in> set u. p c" "v = [] \<or> \<not> p (hd v)" "k (MState (after_run b u) v g) = Some x"
  shows "gm (GStar (GSet p)) k (MState b (u @ v) g) = Some x"
  using star_greedy_run [of u p v k b g x "length (u @ v)"] assms by simp

lemma gm_greedy_plus:
  assumes "\<forall>c \<in> set u. p c" "u \<noteq> []" "v = [] \<or> \<not> p (hd v)" "k (MState (Some (last u)) v g) = Some x"
  shows "gm (g_plus (GSet p)) k (MState b (u @ v) g) = Some x"
proof (cases u)
  case (Cons c w)
  have "after_run (Some c) w = Some (last u)" by (auto simp: Cons after_run_def)
  then show ?thesis using gm_greedy [of w p v k "Some c" g x] assms Cons by (simp add: g_plus_def)
qed (use assms in simp)

lemma star_lazy_run:
  assumes "\<forall>c \<in> set u. p c" "k (MState (after_run b u) v g) = Some x"
    "\<And>a w. u = a @ w \<Longrightarrow> w \<noteq> [] \<Longrightarrow> k (MState (after_run b a) (w @ v) g) = None" "length (u @ v) \<le> n"
  shows "star_lazy (gm (GSet p)) n k (MState b (u @ v) g) = Some x"
  using assms
proof (induction u arbitrary: b n)
  case Nil
  then show ?case by (cases n) auto
next
  case (Cons c u)
  then obtain m where n: "n = Suc m" by (cases n) auto
  have "k (MState b (c # u @ v) g) = None" using Cons.prems(3) [of "[]" "c # u"] by simp
  moreover have "star_lazy (gm (GSet p)) m k (MState (Some c) (u @ v) g) = Some x"
  proof (rule Cons.IH)
    show "k (MState (after_run (Some c) a) (w @ v) g) = None" if "u = a @ w" "w \<noteq> []" for a w
      using Cons.prems(3) [of "c # a" w] that by simp
  qed (use Cons.prems n in auto)
  ultimately show ?case using Cons.prems(1) n by (simp add: shorter_def gm.simps(2) [abs_def])
qed

lemma gm_lazy_plus:
  assumes "\<forall>c \<in> set u. p c" "u \<noteq> []" "k (MState (Some (last u)) v g) = Some x"
    "\<And>a w. u = a @ w \<Longrightarrow> a \<noteq> [] \<Longrightarrow> w \<noteq> [] \<Longrightarrow> k (MState (Some (last a)) (w @ v) g) = None"
  shows "gm (g_plus_lazy (GSet p)) k (MState b (u @ v) g) = Some x"
proof (cases u)
  case (Cons c u')
  have l: "after_run (Some c) w = Some (last (c # w))" for w by (auto simp: after_run_def)
  have "star_lazy (gm (GSet p)) (length (u' @ v)) k (MState (Some c) (u' @ v) g) = Some x"
  proof (rule star_lazy_run)
    show "k (MState (after_run (Some c) a) (w @ v) g) = None" if "u' = a @ w" "w \<noteq> []" for a w
      using assms(4) [of "c # a" w] that Cons by (simp add: l)
  qed (use assms Cons in \<open>auto simp: l\<close>)
  then show ?thesis using assms(1) Cons by (simp add: g_plus_lazy_def)
qed (use assms in simp)

end
