(* ===== verification/Ingest_Base.thy ===== *)
theory Ingest_Base
  imports Unified_Event Json Pytext Regex_Groups
begin

section \<open>What every parser shares\<close>

text \<open>
  The rest of \<open>app/ingest/base.py\<close>: the contract of a parser, the event identifier, the bounded raw
  text, and the construction of a \<open>UnifiedEvent\<close> with the validation of its model (a text field
  accepts \<open>None\<close> and strings only).  A parser returns events, a \<open>ParserError\<close> of its own, or fails
  with another exception.  \<open>parse_env\<close> holds what the parsers call outside the modelled code:
  \<open>parse_timestamp\<close> (a value and the default, as texts of datetimes), the present time, SHA-256,
  \<open>float()\<close> and \<open>str()\<close> of an exception.

  \<open>event_parser\<close> is the interface the registry relies on: a parser that succeeds returns at least one
  event and only events in normal form.
\<close>

datatype perr = ParserErr string | Internal exn

type_synonym 'a parsed = "perr + 'a"

record parse_env =
  pe_time :: "pyval \<Rightarrow> string \<Rightarrow> string"
  pe_now :: string
  pe_sha256 :: "string \<Rightarrow> string"
  pe_float :: float_reader
  pe_exn_text :: "exn \<Rightarrow> string"

definition fallback_time :: "parse_env \<Rightarrow> pydict \<Rightarrow> string" where
  "fallback_time E meta = pe_time E (dict_get meta ''received_at'') (pe_now E)"

text \<open>\<open>meta.get("source") or default\<close>; the registry puts a string there.\<close>

definition meta_source :: "pydict \<Rightarrow> string \<Rightarrow> string" where
  "meta_source meta dflt = py_str (py_or (dict_get meta ''source'') (PStr dflt))"

subsection \<open>Identifier and raw text\<close>

fun insert_key :: "string \<times> 'a \<Rightarrow> (string \<times> 'a) list \<Rightarrow> (string \<times> 'a) list" where
  "insert_key kv [] = [kv]"
| "insert_key kv (kw # m) = (if str_le (fst kv) (fst kw) then kv # kw # m else kw # insert_key kv m)"

fun sort_keys :: "pyval \<Rightarrow> pyval" where
  "sort_keys (PList xs) = PList (map sort_keys xs)"
| "sort_keys (PDict m) = PDict (foldr insert_key (map (\<lambda>kv. (fst kv, sort_keys (snd kv))) m) [])"
| "sort_keys v = v"

definition is_container :: "pyval \<Rightarrow> bool" where
  "is_container v = (case v of PList _ \<Rightarrow> True | PDict _ \<Rightarrow> True | _ \<Rightarrow> False)"

definition make_event_id :: "parse_env \<Rightarrow> string \<Rightarrow> pyval \<Rightarrow> string" where
  "make_event_id E source raw =
     (let body = (if is_container raw then json_dumps (sort_keys raw) else py_str raw)
      in take 32 (pe_sha256 E (source @ CHR 0x00 # body)))"

definition bounded_raw :: "pyval \<Rightarrow> string" where
  "bounded_raw raw = clip MAX_RAW_CHARS (case raw of PStr s \<Rightarrow> s | v \<Rightarrow> json_dumps v)"

subsection \<open>Construction of an event\<close>

text \<open>The required fields; every other field has its default.\<close>

definition new_event :: "string \<Rightarrow> string \<Rightarrow> string \<Rightarrow> string \<Rightarrow> string \<Rightarrow> uevent" where
  "new_event time source stype eid severity = blank_uevent\<lparr>ue_time := time, ue_source := source,
     ue_source_type := stype, ue_event_id := eid, ue_severity := severity\<rparr>"

definition text_field :: "pyval \<Rightarrow> string option result" where
  "text_field v = (case v of PNone \<Rightarrow> Inr None | PStr s \<Rightarrow> Inr (Some s) | _ \<Rightarrow> Inl (ValueError ''string_type''))"

text \<open>\<open>fill\<close> sets text fields from dynamic values; the first one of another type raises.\<close>

type_synonym field_put = "pyval \<times> (string option \<Rightarrow> uevent \<Rightarrow> uevent)"

fun fill :: "field_put list \<Rightarrow> uevent \<Rightarrow> uevent parsed" where
  "fill [] e = Inr e"
| "fill ((v, put) # fs) e = (case text_field v of Inl x \<Rightarrow> Inl (Internal x) | Inr s \<Rightarrow> fill fs (put s e))"

definition finalized :: "uevent parsed \<Rightarrow> uevent parsed" where
  "finalized r = (case r of Inl x \<Rightarrow> Inl x | Inr e \<Rightarrow> Inr (finalize e))"

text \<open>\<open>str(v)[:n] if v else None\<close>, and \<open>str(v) if v is not None else None\<close>.\<close>

definition bounded_text :: "int \<Rightarrow> pyval \<Rightarrow> string option" where
  "bounded_text n v = (if py_truth v then Some (clip n (py_str v)) else None)"

definition text_or_none :: "pyval \<Rightarrow> string option" where
  "text_or_none v = (if v = PNone then None else Some (py_str v))"

text \<open>\<open>v or None\<close>.\<close>

definition or_none :: "pyval \<Rightarrow> pyval" where
  "or_none v = py_or v PNone"

text \<open>\<open>value not in (None, "")\<close> as in the loops that copy optional entries to \<open>extra\<close>.\<close>

definition present :: "pyval \<Rightarrow> bool" where
  "present v \<longleftrightarrow> v \<noteq> PNone \<and> v \<noteq> PStr []"

definition copy_present :: "(string \<times> pyval) list \<Rightarrow> pydict \<Rightarrow> pydict" where
  "copy_present kvs d = foldl (\<lambda>d (k, v). if present v then assoc_put k v d else d) d kvs"

text \<open>\<open>{**d, k: v, ...}\<close>.\<close>

definition dict_update :: "pydict \<Rightarrow> pydict \<Rightarrow> pydict" where
  "dict_update d kvs = foldl (\<lambda>d (k, v). assoc_put k v d) d kvs"

definition has_key :: "string \<Rightarrow> pydict \<Rightarrow> bool" where
  "has_key k d \<longleftrightarrow> assoc k d \<noteq> None"

text \<open>\<open>r.get(k) if isinstance(r.get(k), dict) else {}\<close>.\<close>

definition sub_dict :: "pydict \<Rightarrow> string \<Rightarrow> pydict" where
  "sub_dict d k = (case dict_get d k of PDict m \<Rightarrow> m | _ \<Rightarrow> [])"

text \<open>
  The loop over the records or the lines of a payload: records that yield no event are skipped, the
  first exception ends the loop, and no event at all is a \<open>ParserError\<close>.
\<close>

fun collect :: "('r \<Rightarrow> uevent option parsed) \<Rightarrow> 'r list \<Rightarrow> uevent list parsed" where
  "collect f [] = Inr []"
| "collect f (r # rs) = (case f r of
     Inl x \<Rightarrow> Inl x
   | Inr None \<Rightarrow> collect f rs
   | Inr (Some e) \<Rightarrow> (case collect f rs of Inl x \<Rightarrow> Inl x | Inr es \<Rightarrow> Inr (e # es)))"

definition nonempty_or :: "string \<Rightarrow> uevent list parsed \<Rightarrow> uevent list parsed" where
  "nonempty_or msg r = (case r of Inl x \<Rightarrow> Inl x | Inr es \<Rightarrow> if es = [] then Inl (ParserErr msg) else Inr es)"

definition some_event :: "uevent parsed \<Rightarrow> uevent option parsed" where
  "some_event r = (case r of Inl x \<Rightarrow> Inl x | Inr e \<Rightarrow> Inr (Some e))"

subsection \<open>The interface of a parser\<close>

lemma finalized_normal: "finalized r = Inr e \<Longrightarrow> normal_event e"
  using finalize_normal by (auto simp: finalized_def split: sum.splits)

lemma some_event_iff [simp]: "some_event r = Inr (Some e) \<longleftrightarrow> r = Inr e"
  by (auto simp: some_event_def split: sum.splits)

lemma collect_mem: "collect f rs = Inr es \<Longrightarrow> e \<in> set es \<Longrightarrow> \<exists>r \<in> set rs. f r = Inr (Some e)"
  by (induction rs arbitrary: es) (auto split: sum.splits option.splits)

lemma collect_normal:
  assumes "nonempty_or msg (collect f rs) = Inr es" "\<And>r e. f r = Inr (Some e) \<Longrightarrow> normal_event e"
  shows "es \<noteq> [] \<and> (\<forall>e \<in> set es. normal_event e)"
  using assms collect_mem [of f rs es] by (auto simp: nonempty_or_def split: sum.splits if_splits) blast

locale event_parser =
  fixes parse :: "parse_env \<Rightarrow> pyval \<Rightarrow> pydict \<Rightarrow> uevent list parsed"
  assumes parse_normal: "parse E p m = Inr es \<Longrightarrow> es \<noteq> [] \<and> (\<forall>e \<in> set es. normal_event e)"

end
