(* ===== verification/Windows_Event_Parser.thy ===== *)
theory Windows_Event_Parser
  imports Ingest_Base
begin

section \<open>Windows Event Log\<close>

text \<open>
  \<open>app/ingest/parsers/windows_event.py\<close>: JSON of a collector, JSON with positional \<open>Properties\<close>, and XML read
  with regular expressions.  \<open>win_extract\<close> brings a payload to a dictionary, \<open>win_event\<close> is
  \<open>_parse_record\<close>.  The table \<open>_POSITIONAL\<close> of the source is read nowhere, so it has no counterpart.
\<close>

record winspec =
  ws_event_type :: string
  ws_severity :: string
  ws_category :: string
  ws_names :: "(string \<times> string list) list"

definition win_spec :: "string \<Rightarrow> string \<Rightarrow> string \<Rightarrow> (string \<times> string list) list \<Rightarrow> winspec" where
  "win_spec t s c ns = \<lparr>ws_event_type = t, ws_severity = s, ws_category = c, ws_names = ns\<rparr>"

definition WINDOWS_EVENTS :: "(int \<times> winspec) list" where
  "WINDOWS_EVENTS =
    [(4624, win_spec ''auth_success'' ''INFO'' ''authentication'' [(''user'', [''TargetUserName'']),
        (''user_domain'', [''TargetDomainName'']), (''src_ip'', [''IpAddress'',
        ''SourceNetworkAddress'']), (''logon_type'', [''LogonType'']), (''process_name'',
        [''ProcessName'']), (''hostname'', [''WorkstationName''])]),
     (4625, win_spec ''auth_failure'' ''HIGH'' ''authentication'' [(''user'', [''TargetUserName'']),
        (''user_domain'', [''TargetDomainName'']), (''src_ip'', [''IpAddress'',
        ''SourceNetworkAddress'']), (''logon_type'', [''LogonType'']), (''process_name'',
        [''ProcessName'']), (''hostname'', [''WorkstationName''])]),
     (4634, win_spec ''logoff'' ''INFO'' ''authentication'' [(''user'', [''TargetUserName'']),
        (''user_domain'', [''TargetDomainName''])]),
     (4647, win_spec ''logoff'' ''INFO'' ''authentication'' [(''user'', [''TargetUserName'']),
        (''user_domain'', [''TargetDomainName''])]),
     (4648, win_spec ''explicit_credentials'' ''MEDIUM'' ''authentication'' [(''user'',
        [''TargetUserName'']), (''user_domain'', [''TargetDomainName'']), (''src_ip'', [''IpAddress'']),
        (''process_name'', [''ProcessName''])]),
     (4672, win_spec ''special_privileges'' ''MEDIUM'' ''authentication'' [(''user'',
        [''SubjectUserName'']), (''user_domain'', [''SubjectDomainName''])]),
     (4688, win_spec ''process_creation'' ''INFO'' ''process'' [(''process_name'', [''NewProcessName'']),
        (''process_path'', [''NewProcessName'']), (''command_line'', [''CommandLine'']),
        (''parent_process_name'', [''ParentProcessName'']), (''pid'', [''NewProcessId'']),
        (''parent_pid'', [''ProcessId'']), (''user'', [''SubjectUserName'']), (''user_domain'',
        [''SubjectDomainName''])]),
     (4697, win_spec ''service_installed'' ''HIGH'' ''persistence'' [(''process_name'', [''ImagePath'',
        ''ServiceFileName'']), (''file_path'', [''ImagePath'', ''ServiceFileName'']), (''extra'',
        [''ServiceName'', ''ServiceType'']), (''user'', [''SubjectUserName''])]),
     (4698, win_spec ''scheduled_task_created'' ''HIGH'' ''persistence'' [(''user'',
        [''SubjectUserName'']), (''extra'', [''TaskName''])]),
     (4699, win_spec ''scheduled_task_deleted'' ''MEDIUM'' ''persistence'' [(''user'',
        [''SubjectUserName'']), (''extra'', [''TaskName''])]),
     (4700, win_spec ''scheduled_task_enabled'' ''MEDIUM'' ''persistence'' [(''user'',
        [''SubjectUserName'']), (''extra'', [''TaskName''])]),
     (4702, win_spec ''scheduled_task_updated'' ''MEDIUM'' ''persistence'' [(''user'',
        [''SubjectUserName'']), (''extra'', [''TaskName''])]),
     (4720, win_spec ''user_account_created'' ''MEDIUM'' ''account'' [(''user'', [''TargetUserName'']),
        (''user_domain'', [''TargetDomainName''])]),
     (4722, win_spec ''user_account_enabled'' ''MEDIUM'' ''account'' [(''user'', [''TargetUserName'']),
        (''user_domain'', [''TargetDomainName''])]),
     (4724, win_spec ''password_reset'' ''MEDIUM'' ''account'' [(''user'', [''TargetUserName'']),
        (''user_domain'', [''TargetDomainName''])]),
     (4726, win_spec ''user_account_deleted'' ''MEDIUM'' ''account'' [(''user'', [''TargetUserName'']),
        (''user_domain'', [''TargetDomainName''])]),
     (4728, win_spec ''group_member_added'' ''HIGH'' ''account'' [(''user'', [''MemberName'']),
        (''extra'', [''TargetUserName'', ''GroupName''])]),
     (4732, win_spec ''group_member_added'' ''HIGH'' ''account'' [(''user'', [''MemberName'']),
        (''extra'', [''TargetUserName'', ''GroupName''])]),
     (4756, win_spec ''group_member_added'' ''HIGH'' ''account'' [(''user'', [''MemberName'']),
        (''extra'', [''TargetUserName'', ''GroupName''])]),
     (1102, win_spec ''log_cleared'' ''CRITICAL'' ''defense_evasion'' [(''user'', [''SubjectUserName''])]),
     (104, win_spec ''log_cleared'' ''CRITICAL'' ''defense_evasion'' []),
     (7045, win_spec ''service_installed'' ''HIGH'' ''persistence'' [(''process_name'', [''ImagePath'']),
        (''file_path'', [''ImagePath'']), (''extra'', [''ServiceName'', ''ServiceType'', ''StartType''])]),
     (7040, win_spec ''service_start_type_changed'' ''MEDIUM'' ''persistence'' [(''extra'',
        [''ServiceName'', ''StartType''])]),
     (4103, win_spec ''powershell_module'' ''INFO'' ''script'' [(''command_line'', [''CommandLine'',
        ''Payload'']), (''user'', [''UserId''])]),
     (4104, win_spec ''powershell_script_block'' ''MEDIUM'' ''script'' [(''command_line'',
        [''ScriptBlockText'']), (''user'', [''UserId''])]),
     (1, win_spec ''process_creation'' ''INFO'' ''process'' [(''process_name'', [''Image'']),
        (''process_path'', [''Image'']), (''command_line'', [''CommandLine'']), (''parent_process_name'',
        [''ParentImage'']), (''user'', [''User'']), (''file_hash'', [''Hashes''])]),
     (3, win_spec ''network_connect'' ''INFO'' ''network'' [(''process_name'', [''Image'']), (''src_ip'',
        [''SourceIp'']), (''dst_ip'', [''DestinationIp'']), (''dst_port'', [''DestinationPort'']),
        (''protocol'', [''Protocol''])]),
     (11, win_spec ''file_created'' ''INFO'' ''file'' [(''file_path'', [''TargetFilename'']),
        (''process_name'', [''Image''])])]"

definition WINDOWS_MARKERS :: "string list" where
  "WINDOWS_MARKERS = [''Id'', ''EventID'', ''EventData'', ''event_data'', ''Provider'', ''ProviderName'',
     ''Channel'', ''LogName'', ''Computer'', ''MachineName'', ''EventRecordID'',
     ''System'', ''TimeCreated'', ''LevelDisplayName'']"

subsection \<open>XML\<close>

definition not_quote :: "char \<Rightarrow> bool" where "not_quote c \<longleftrightarrow> c \<noteq> CHR 0x22"
definition not_gt :: "char \<Rightarrow> bool" where "not_gt c \<longleftrightarrow> c \<noteq> CHR ''>''"

definition data_open :: grx where
  "data_open = g_seq [g_lit ''<Data'', g_plus g_space, g_lit ''Name='', g_char CHR 0x22,
     GGroup ''1'' (g_plus (GSet not_quote)), g_char CHR 0x22, GStar g_space]"

definition XML_DATA :: grx where
  "XML_DATA = g_seq [data_open, g_char CHR ''>'', GGroup ''2'' (GLazy g_any), g_lit ''</Data>'']"

definition XML_DATA_EMPTY :: grx where
  "XML_DATA_EMPTY = g_seq [data_open, g_lit ''/>'']"

definition XML_SIMPLE :: grx where
  "XML_SIMPLE = g_seq [g_char CHR ''<'', GGroup ''tag'' (g_alts (map g_lit
       [''EventID'', ''Computer'', ''Provider'', ''Channel'', ''Level'', ''Task'', ''SecurityUserID'', ''Execution''])),
     GLazy (GSet not_gt), GGroup ''attrs'' (GStar (GSet not_gt)), g_char CHR ''>'',
     GGroup ''text'' (GLazy g_any), g_lit ''</'', GRef ''tag'', g_char CHR ''>'']"

definition XML_ATTR :: grx where
  "XML_ATTR = g_seq [GGroup ''1'' (g_plus (GSet (\<lambda>c. is_alpha c \<or> c = CHR ''_''))), g_char CHR ''='', g_char CHR 0x22,
     GGroup ''2'' (GStar (GSet not_quote)), g_char CHR 0x22]"

definition XML_TAG :: grx where
  "XML_TAG = g_seq [g_char CHR ''<'', g_plus (GSet not_gt), g_char CHR ''>'']"

definition SYSTEM_TIME :: grx where
  "SYSTEM_TIME = g_seq [g_lit ''SystemTime='', g_char CHR 0x22, GGroup ''1'' (g_plus (GSet not_quote)), g_char CHR 0x22]"

definition strip_tags :: "string \<Rightarrow> string" where
  "strip_tags s = strip (g_sub XML_TAG (\<lambda>_. []) s)"

definition xml_data :: "string \<Rightarrow> pydict" where
  "xml_data raw =
     (let filled = foldl (\<lambda>d g. assoc_put (grp_text g ''1'') (PStr (strip_tags (grp_text g ''2''))) d) [] (g_all XML_DATA raw)
      in foldl (\<lambda>d g. if has_key (grp_text g ''1'') d then d else assoc_put (grp_text g ''1'') (PStr []) d)
           filled (g_all XML_DATA_EMPTY raw))"

definition xml_attr :: "string \<Rightarrow> string \<Rightarrow> pyval" where
  "xml_attr attrs n = dict_get
     (foldl (\<lambda>d g. assoc_put (grp_text g ''1'') (PStr (grp_text g ''2'')) d) [] (g_all XML_ATTR attrs)) n"

definition xml_number :: "string \<Rightarrow> pyval" where
  "xml_number s = opt_int (as_int (PStr (strip_tags s)))"

definition xml_system_step :: "pydict \<Rightarrow> groups \<Rightarrow> pydict" where
  "xml_system_step d g =
     (let tag = grp_text g ''tag''; text = grp_text g ''text'' in
      if tag = ''EventID'' then assoc_put ''Id'' (xml_number text) d
      else if tag = ''Computer'' then assoc_put ''Computer'' (PStr (strip_tags text)) d
      else if tag = ''Provider'' then assoc_put ''Provider'' (xml_attr (grp_text g ''attrs'') ''Name'') d
      else if tag = ''Channel'' then assoc_put ''Channel'' (PStr (strip_tags text)) d
      else if tag = ''Level'' then assoc_put ''Level'' (xml_number text) d
      else d)"

definition xml_system :: "string \<Rightarrow> pydict" where
  "xml_system raw = (let d = foldl xml_system_step [] (g_all XML_SIMPLE raw) in
     case g_search SYSTEM_TIME raw of None \<Rightarrow> d | Some g \<Rightarrow> assoc_put ''TimeCreated'' (PStr (grp_text g ''1'')) d)"

definition parse_windows_xml :: "string \<Rightarrow> pydict option" where
  "parse_windows_xml raw =
     (if \<not> py_in ''<Event'' raw \<and> \<not> py_in ''<event'' raw then None
      else let sys = dict_get (xml_system raw) in
        if \<not> py_truth (sys ''Id'') then None
        else Some [(''Id'', sys ''Id''), (''Computer'', sys ''Computer''), (''Provider'', sys ''Provider''),
          (''Channel'', sys ''Channel''), (''Level'', sys ''Level''), (''TimeCreated'', sys ''TimeCreated''),
          (''EventData'', PDict (xml_data raw)), (''Message'', PNone)])"

subsection \<open>The three forms of a record\<close>

definition has_marker :: "pydict \<Rightarrow> bool" where
  "has_marker m \<longleftrightarrow> list_ex (\<lambda>k. has_key k m) WINDOWS_MARKERS"

definition win_extract :: "parse_env \<Rightarrow> pyval \<Rightarrow> pydict option" where
  "win_extract E p = (case p of
     PDict m \<Rightarrow> if has_marker m then Some m else None
   | PStr s \<Rightarrow> (let text = strip s in
       if text = [] then None
       else if py_in ''<Event'' text then parse_windows_xml text
       else if startswith text ''{'' then
         (case json_loads (pe_float E) text of Some (PDict m) \<Rightarrow> if has_marker m then Some m else None | _ \<Rightarrow> None)
       else None)
   | _ \<Rightarrow> None)"

definition win_can_parse :: "parse_env \<Rightarrow> pyval \<Rightarrow> pydict \<Rightarrow> bool result" where
  "win_can_parse E p meta = Inr (case p of
     PDict m \<Rightarrow> has_marker m
   | PStr s \<Rightarrow> list_ex (\<lambda>l. win_extract E (PStr l) \<noteq> None) (take 3 (filter (\<lambda>l. strip l \<noteq> []) (splitlines s))) \<or>
       win_extract E p \<noteq> None
   | _ \<Rightarrow> False)"

text \<open>\<open>_event_data\<close>: the first of the three keys that holds a dictionary, or a list of named items.\<close>

definition named_item :: "pydict \<Rightarrow> pyval \<Rightarrow> pydict" where
  "named_item d v = (case v of
     PDict m \<Rightarrow> (let name = py_or (dict_get m ''Name'') (dict_get m ''name'');
           val = dict_get_or m ''Value'' (dict_get_or m ''value'' (dict_get m ''#text''))
       in if py_truth name then assoc_put (py_str name) val d else d)
   | _ \<Rightarrow> d)"

fun event_data_of :: "pydict \<Rightarrow> string list \<Rightarrow> pydict" where
  "event_data_of r [] = []"
| "event_data_of r (k # ks) = (case dict_get r k of
     PDict m \<Rightarrow> m
   | PList xs \<Rightarrow> (let out = foldl named_item [] xs in if out \<noteq> [] then out else event_data_of r ks)
   | _ \<Rightarrow> event_data_of r ks)"

definition property_values :: "pyval list \<Rightarrow> pyval list" where
  "property_values xs = concat (map (\<lambda>x. case x of PDict m \<Rightarrow> [dict_get m ''Value''] | _ \<Rightarrow> []) xs)"

definition number_values :: "pyval list \<Rightarrow> pydict" where
  "number_values vs = map (\<lambda>(i, v). (CHR ''p'' # show_nat i, v)) (enumerate 0 vs)"

definition win_data :: "pydict \<Rightarrow> pydict" where
  "win_data r = (let data = event_data_of r [''EventData'', ''event_data'', ''Data''] in
     if data \<noteq> [] then data
     else case dict_get r ''Properties'' of PList xs \<Rightarrow> number_values (property_values xs) | _ \<Rightarrow> data)"

text \<open>\<open>by_name\<close>: the first candidate with a value; names are compared in lower case, the last spelling wins.\<close>

definition lower_keys :: "pydict \<Rightarrow> pydict" where
  "lower_keys d = foldl (\<lambda>m (k, v). assoc_put (lower k) v m) [] d"

definition by_name :: "pydict \<Rightarrow> string list \<Rightarrow> pyval" where
  "by_name data names = (let low = lower_keys data in
     case find_first (\<lambda>n. has_key (lower n) low \<and> present (dict_get low (lower n)) \<and> dict_get low (lower n) \<noteq> PStr ''-'') names of
       None \<Rightarrow> PNone | Some n \<Rightarrow> dict_get low (lower n))"

subsection \<open>One record\<close>

definition spec_severity :: "winspec option \<Rightarrow> string" where
  "spec_severity spec = (case spec of None \<Rightarrow> ''INFO'' | Some w \<Rightarrow> ws_severity w)"

definition SEVERITY_ORDER :: "(string \<times> nat) list" where
  "SEVERITY_ORDER = [(''INFO'', 0), (''LOW'', 1), (''MEDIUM'', 2), (''HIGH'', 3), (''CRITICAL'', 4)]"

definition sev_rank :: "string \<Rightarrow> nat" where
  "sev_rank s = assoc_default 0 s SEVERITY_ORDER"

text \<open>The level of a record may raise the severity of its identifier, never lower it.\<close>

definition win_severity :: "winspec option \<Rightarrow> pydict \<Rightarrow> string" where
  "win_severity spec r =
     (let base = normalize_severity (PStr (spec_severity spec)) ''label'';
          level = py_or (dict_get r ''LevelDisplayName'') (dict_get r ''Level'')
      in if \<not> present level then base
         else let sev = normalize_severity level (if isdigit (strip (py_str level)) then ''windows'' else ''label'')
           in if sev_rank sev > sev_rank base then sev else base)"

definition win_names :: "winspec option \<Rightarrow> string \<Rightarrow> string list" where
  "win_names spec n = (case spec of None \<Rightarrow> [] | Some w \<Rightarrow> assoc_default [] n (ws_names w))"

definition win_message :: "pydict \<Rightarrow> string option" where
  "win_message r =
     (let msg = (case dict_get r ''Message'' of PDict m \<Rightarrow> dict_get m ''#text'' | v \<Rightarrow> v)
      in if py_truth msg then Some (strip_tags (py_str msg)) else None)"

definition win_extra :: "int option \<Rightarrow> winspec option \<Rightarrow> pydict \<Rightarrow> pydict \<Rightarrow> pydict" where
  "win_extra eid spec r data =
     (let provider = py_or (dict_get r ''Provider'') (dict_get r ''ProviderName'');
          channel = py_or (dict_get r ''Channel'') (dict_get r ''LogName'');
          d = [(''event_id'', opt_int eid), (''raw_event_id'', opt_int eid)];
          d = (if py_truth provider then assoc_put ''provider'' provider d else d);
          d = (if py_truth channel then assoc_put ''channel'' channel d else d);
          d = copy_present (map (\<lambda>k. (lower k, dict_get r k)) [''Task'', ''Keywords'', ''Opcode'']) d;
          d = foldl (\<lambda>d (k, v). if scalar_text v \<and> length (py_str v) < 500 then assoc_put (''win.'' @ k) v d else d) d data;
          d = foldl (\<lambda>d n. if by_name data [n] \<noteq> PNone then assoc_put (''win.'' @ n) (by_name data [n]) d else d) d
                (win_names spec ''extra'');
          logon = by_name data (win_names spec ''logon_type'')
      in if logon \<noteq> PNone then assoc_put ''logon_type'' logon d else d)"

definition win_event_id :: "pydict \<Rightarrow> int option" where
  "win_event_id r = as_int (if has_key ''Id'' r then dict_get r ''Id'' else dict_get r ''EventID'')"

definition win_lookup :: "int option \<Rightarrow> winspec option" where
  "win_lookup eid = (case eid of None \<Rightarrow> assoc (- 1) WINDOWS_EVENTS
     | Some i \<Rightarrow> assoc (if i = 0 then - 1 else i) WINDOWS_EVENTS)"

text \<open>\<open>str(event_id) if event_id else None\<close>.\<close>

definition id_text :: "int option \<Rightarrow> string option" where
  "id_text eid = (case eid of None \<Rightarrow> None | Some i \<Rightarrow> if i = 0 then None else Some (show_int i))"

definition win_event :: "parse_env \<Rightarrow> pydict \<Rightarrow> string \<Rightarrow> string \<Rightarrow> uevent parsed" where
  "win_event E r source fallback =
     (let eid = win_event_id r; spec = win_lookup eid; data = win_data r;
          named = (\<lambda>n. or_none (by_name data (win_names spec n)));
          host = py_or (py_or (dict_get r ''Computer'') (dict_get r ''MachineName'')) (by_name data [''WorkstationName'', ''Computer'']);
          provider = py_or (dict_get r ''Provider'') (dict_get r ''ProviderName'');
          etype = (case spec of None \<Rightarrow> None | Some w \<Rightarrow> Some (ws_event_type w));
          ts = py_or (py_or (dict_get r ''TimeCreated'') (dict_get r ''TimeGenerated'')) (dict_get r ''SystemTime'')
      in finalized (fill
          [(named ''user'', \<lambda>s. ue_user_update (\<lambda>_. s)),
           (named ''user_domain'', \<lambda>s. ue_user_domain_update (\<lambda>_. s)),
           (named ''process_name'', \<lambda>s. ue_process_name_update (\<lambda>_. s)),
           (named ''parent_process_name'', \<lambda>s. ue_parent_process_name_update (\<lambda>_. s)),
           (named ''process_path'', \<lambda>s. ue_process_path_update (\<lambda>_. s)),
           (named ''command_line'', \<lambda>s. ue_command_line_update (\<lambda>_. s)),
           (named ''file_path'', \<lambda>s. ue_file_path_update (\<lambda>_. s)),
           (named ''file_hash'', \<lambda>s. ue_file_hash_update (\<lambda>_. s)),
           (named ''src_ip'', \<lambda>s. ue_src_ip_update (\<lambda>_. s)),
           (named ''dst_ip'', \<lambda>s. ue_dst_ip_update (\<lambda>_. s)),
           (named ''protocol'', \<lambda>s. ue_protocol_update (\<lambda>_. s))]
          ((new_event (pe_time E ts fallback) source ''windows_event'' (make_event_id E source (PDict r)) (win_severity spec r))
           \<lparr>ue_ocsf_class_uid := (if startswith (or_str etype []) ''auth'' then 3002 else 0),
            ue_hostname := (if py_truth host then Some (py_str host) else None),
            ue_pid := as_int (by_name data (win_names spec ''pid'')),
            ue_parent_pid := as_int (by_name data (win_names spec ''parent_pid'')),
            ue_dst_port := as_int (by_name data (win_names spec ''dst_port'')),
            ue_signature_id := id_text eid,
            ue_signature := (if py_truth provider then Some (py_str provider) else None),
            ue_category := map_option ws_category spec,
            ue_message := (case win_message r of None \<Rightarrow> None | Some s \<Rightarrow> if s = [] then None else Some (clip 2000 s)),
            ue_message_id := id_text eid,
            ue_raw := Some (bounded_raw (PDict r)),
            ue_extra := assoc_put ''event_type'' (PStr (case etype of None \<Rightarrow> ''windows_event'' | Some t \<Rightarrow> t))
              (win_extra eid spec r data)\<rparr>)))"

subsection \<open>A payload\<close>

definition win_records :: "pyval \<Rightarrow> pyval list" where
  "win_records p = (case p of
     PList xs \<Rightarrow> xs
   | PDict m \<Rightarrow> (case dict_get m ''Events'' of PList xs \<Rightarrow> xs | _ \<Rightarrow> [p])
   | PStr s \<Rightarrow> (let text = strip s in
       if count_str ''<Event'' text = 1 then [PStr text]
       else map PStr (filter (\<lambda>l. strip l \<noteq> [] \<and> \<not> startswith (lstrip l) ''#'') (splitlines text)))
   | _ \<Rightarrow> [p])"

definition win_step :: "parse_env \<Rightarrow> string \<Rightarrow> string \<Rightarrow> pyval \<Rightarrow> uevent option parsed" where
  "win_step E source fallback v = (case win_extract E v of
     None \<Rightarrow> Inr None
   | Some r \<Rightarrow> if py_truth (dict_get r ''Id'') \<or> py_truth (dict_get r ''EventID'')
       then some_event (win_event E r source fallback) else Inr None)"

definition win_parse :: "parse_env \<Rightarrow> pyval \<Rightarrow> pydict \<Rightarrow> uevent list parsed" where
  "win_parse E p meta = nonempty_or ''no Windows Event record found''
     (collect (win_step E (meta_source meta ''windows_event'') (fallback_time E meta)) (win_records p))"

lemma win_event_normal: "win_event E r source fb = Inr e \<Longrightarrow> normal_event e"
  by (auto simp: win_event_def Let_def finalized_normal)

interpretation windows: event_parser win_parse
proof
  fix E p m es
  assume "win_parse E p m = Inr es"
  then show "es \<noteq> [] \<and> (\<forall>e \<in> set es. normal_event e)"
    unfolding win_parse_def
    by (rule collect_normal) (auto simp: win_step_def win_event_normal split: option.splits if_splits)
qed

end
