(* ===== verification/Suricata_Parser.thy ===== *)
theory Suricata_Parser
  imports Ingest_Base
begin

section \<open>Suricata\<close>

text \<open>
  \<open>app/ingest/parsers/suricata.py\<close>: the records of \<open>eve.json\<close>.  \<open>suricata_records\<close> reads a
  payload, \<open>suricata_event\<close> is \<open>_from_record\<close>, with the optional entries of \<open>extra\<close> by event type
  in definitions of their own.
\<close>

definition SURICATA_SEVERITY :: "(int \<times> string) list" where
  "SURICATA_SEVERITY = [(1, ''HIGH''), (2, ''MEDIUM''), (3, ''LOW'')]"

definition SURICATA_EVENT_TYPES :: "string list" where
  "SURICATA_EVENT_TYPES = [''alert'', ''flow'', ''dns'', ''http'', ''tls'', ''fileinfo'', ''ssh'',
     ''smb'', ''ftp'', ''smtp'', ''dhcp'', ''anomaly'', ''stats'', ''drop'']"

subsection \<open>Records\<close>

definition json_lines :: "float_reader \<Rightarrow> string \<Rightarrow> pyval list" where
  "json_lines fl text = concat (map (\<lambda>l. case json_loads fl l of None \<Rightarrow> [] | Some v \<Rightarrow> [v]) (payload_lines text))"

definition suricata_records :: "parse_env \<Rightarrow> pyval \<Rightarrow> pyval list" where
  "suricata_records E payload = (case payload of
     PList xs \<Rightarrow> xs | PDict m \<Rightarrow> [payload] | PStr text \<Rightarrow> json_lines (pe_float E) text | _ \<Rightarrow> [])"

text \<open>\<open>v in _EVENT_TYPES\<close>: a list or a dictionary cannot be looked up in a set.\<close>

definition in_text_set :: "pyval \<Rightarrow> string list \<Rightarrow> bool result" where
  "in_text_set v ts = (if is_container v then Inl TypeError
     else Inr (case v of PStr s \<Rightarrow> List.member ts s | _ \<Rightarrow> False))"

fun suricata_can_records :: "pyval list \<Rightarrow> bool result" where
  "suricata_can_records [] = Inr False"
| "suricata_can_records (r # rs) = (case r of
     PDict m \<Rightarrow> (case in_text_set (dict_get m ''event_type'') SURICATA_EVENT_TYPES of
         Inl x \<Rightarrow> Inl x
       | Inr b \<Rightarrow> if b \<and> (has_key ''flow_id'' m \<or> has_key ''src_ip'' m \<or> has_key ''timestamp'' m)
           then Inr True else suricata_can_records rs)
   | _ \<Rightarrow> suricata_can_records rs)"

definition suricata_can_parse :: "parse_env \<Rightarrow> pyval \<Rightarrow> pydict \<Rightarrow> bool result" where
  "suricata_can_parse E payload meta = suricata_can_records (take 3 (suricata_records E payload))"

subsection \<open>One record\<close>

definition suricata_severity :: "string \<Rightarrow> pydict \<Rightarrow> string" where
  "suricata_severity etype alert =
     (if etype = ''alert'' then
        (let base = (case as_int (dict_get alert ''severity'') of
             None \<Rightarrow> ''MEDIUM'' | Some i \<Rightarrow> assoc_default ''MEDIUM'' i SURICATA_SEVERITY)
         in normalize_severity (py_or (dict_get alert ''severity_label'') (PStr base)) ''label'')
      else ''INFO'')"

definition alert_extra :: "pydict \<Rightarrow> pydict" where
  "alert_extra alert =
     [(''alert_action'', dict_get alert ''action''), (''alert_category'', dict_get alert ''category''),
      (''signature_rev'', dict_get alert ''rev''), (''signature_gid'', dict_get alert ''gid''),
      (''alert_severity'', dict_get alert ''severity''),
      (''alert_metadata'', case dict_get alert ''metadata'' of PList xs \<Rightarrow> PList xs | _ \<Rightarrow> PNone)]"

definition fileinfo_extra :: "pydict \<Rightarrow> pydict" where
  "fileinfo_extra f = map (\<lambda>k. (''file_'' @ k, dict_get f k))
     [''filename'', ''md5'', ''sha1'', ''sha256'', ''size'', ''state'', ''magic'']"

definition tls_extra :: "pydict \<Rightarrow> pydict" where
  "tls_extra tls =
     [(''sni'', dict_get tls ''sni''), (''tls_version'', dict_get tls ''version''),
      (''ja3'', dict_get (sub_dict tls ''ja3'') ''hash''), (''ja3s'', dict_get tls ''ja3s''),
      (''subject'', dict_get tls ''subject'')]"

text \<open>\<open>(ssh.get(k) or {}).get("software_version")\<close>.\<close>

definition ssh_version :: "pydict \<Rightarrow> string \<Rightarrow> pyval result" where
  "ssh_version ssh k = py_get (py_or (dict_get ssh k) (PDict [])) ''software_version'' PNone"

definition ssh_extra :: "string \<Rightarrow> pydict \<Rightarrow> pydict \<Rightarrow> pydict parsed" where
  "ssh_extra etype ssh extra =
     (if etype = ''ssh'' \<and> ssh \<noteq> [] then
        (case ssh_version ssh ''client'' of
           Inl x \<Rightarrow> Inl (Internal x)
         | Inr c \<Rightarrow> (case ssh_version ssh ''server'' of
             Inl x \<Rightarrow> Inl (Internal x)
           | Inr s \<Rightarrow> Inr (dict_update extra [(''ssh_client'', c), (''ssh_server'', s)])))
      else Inr extra)"

definition suricata_extra :: "string \<Rightarrow> pydict \<Rightarrow> pydict parsed" where
  "suricata_extra etype r =
     (let common = copy_present (map (\<lambda>k. (k, dict_get r k))
            [''flow_id'', ''app_proto'', ''community_id'', ''pkt_src'', ''tx_id'']) [(''suricata_event_type'', PStr etype)];
          alert = sub_dict r ''alert'';
          with_alert = (if alert \<noteq> [] then dict_update common (alert_extra alert) else common);
          with_file = (if etype = ''fileinfo'' then copy_present (fileinfo_extra (sub_dict r ''fileinfo'')) with_alert
            else with_alert);
          with_tls = (if etype = ''tls'' then copy_present (tls_extra (sub_dict r ''tls'')) with_file else with_file)
      in case ssh_extra etype (sub_dict r ''ssh'') with_tls of
           Inl x \<Rightarrow> Inl x
         | Inr d \<Rightarrow> Inr (if List.member [''http'', ''dns'', ''tls''] etype \<and> py_truth (dict_get r ''proto'')
             then assoc_put ''proto_raw'' (dict_get r ''proto'') d else d))"

definition SURICATA_CLASSES :: "(string \<times> int) list" where
  "SURICATA_CLASSES = [(''alert'', 2004), (''dns'', 4003), (''http'', 4002), (''tls'', 4001),
     (''flow'', 4001), (''fileinfo'', 1001)]"

definition suricata_event :: "parse_env \<Rightarrow> pydict \<Rightarrow> string \<Rightarrow> string \<Rightarrow> uevent parsed" where
  "suricata_event E r source fallback =
     (let etype = py_str (dict_get r ''event_type'');
          alert = sub_dict r ''alert''; dns = sub_dict r ''dns''; http = sub_dict r ''http'';
          tls = sub_dict r ''tls''; fileinfo = sub_dict r ''fileinfo'';
          dns_query = py_or (dict_get dns ''rrname'') (dict_get dns ''query'');
          file_hash = py_or (py_or (dict_get fileinfo ''sha256'') (dict_get fileinfo ''md5'')) (dict_get fileinfo ''sha1'');
          ts = py_or (dict_get r ''timestamp'') (dict_get (sub_dict r ''flow'') ''start'');
          message = py_str (py_or (py_or (py_or (dict_get alert ''signature'') dns_query) (dict_get http ''url'')) (PStr etype))
      in case suricata_extra etype r of
        Inl x \<Rightarrow> Inl x
      | Inr extra \<Rightarrow> finalized (fill
          [(or_none (dict_get r ''host''), \<lambda>s. ue_hostname_update (\<lambda>_. s)),
           (or_none (dict_get r ''src_ip''), \<lambda>s. ue_ip_update (\<lambda>_. s)),
           (or_none (dict_get r ''src_ip''), \<lambda>s. ue_src_ip_update (\<lambda>_. s)),
           (or_none (py_or (dict_get r ''dest_ip'') (dict_get r ''dst_ip'')), \<lambda>s. ue_dst_ip_update (\<lambda>_. s)),
           (or_none (py_or (dict_get http ''hostname'') (dict_get tls ''sni'')), \<lambda>s. ue_domain_update (\<lambda>_. s)),
           (dns_query, \<lambda>s. ue_dns_query_update (\<lambda>_. s)),
           (dict_get fileinfo ''filename'', \<lambda>s. ue_file_name_update (\<lambda>_. s)),
           (file_hash, \<lambda>s. ue_file_hash_update (\<lambda>_. s)),
           (dict_get alert ''signature'', \<lambda>s. ue_signature_update (\<lambda>_. s)),
           (py_or (dict_get alert ''category'') (PStr etype), \<lambda>s. ue_category_update (\<lambda>_. s))]
          ((new_event (pe_time E ts fallback) source ''suricata'' (make_event_id E source (PDict r))
              (suricata_severity etype alert))
           \<lparr>ue_ocsf_class_uid := assoc_default 0 etype SURICATA_CLASSES,
            ue_src_port := as_int (dict_get r ''src_port''),
            ue_dst_port := as_int (py_or (dict_get r ''dest_port'') (dict_get r ''dst_port'')),
            ue_protocol := normalize_protocol (py_or (dict_get r ''proto'') (dict_get r ''app_proto'')),
            ue_url := bounded_text 2000 (dict_get http ''url''),
            ue_http_method := bounded_text 16 (dict_get http ''http_method''),
            ue_http_status := as_int (dict_get http ''status''),
            ue_user_agent := bounded_text 1000 (dict_get http ''http_user_agent''),
            ue_signature_id := text_or_none (dict_get alert ''signature_id''),
            ue_message := Some (clip 2000 message),
            ue_raw := Some (bounded_raw (PDict r)),
            ue_extra := assoc_put ''event_type'' (PStr etype) extra\<rparr>)))"

definition suricata_step :: "parse_env \<Rightarrow> string \<Rightarrow> string \<Rightarrow> pyval \<Rightarrow> uevent option parsed" where
  "suricata_step E source fallback v = (case v of
     PDict r \<Rightarrow>
       if \<not> py_truth (dict_get r ''event_type'') \<or> dict_get r ''event_type'' = PStr ''stats'' then Inr None
       else some_event (suricata_event E r source fallback)
   | _ \<Rightarrow> Inr None)"

definition suricata_parse :: "parse_env \<Rightarrow> pyval \<Rightarrow> pydict \<Rightarrow> uevent list parsed" where
  "suricata_parse E payload meta = nonempty_or ''no Suricata eve record''
     (collect (suricata_step E (meta_source meta ''suricata'') (fallback_time E meta)) (suricata_records E payload))"

lemma suricata_event_normal: "suricata_event E r source fb = Inr e \<Longrightarrow> normal_event e"
  by (auto simp: suricata_event_def Let_def finalized_normal split: sum.splits)

interpretation suricata: event_parser suricata_parse
proof
  fix E p m es
  assume "suricata_parse E p m = Inr es"
  then show "es \<noteq> [] \<and> (\<forall>e \<in> set es. normal_event e)"
    unfolding suricata_parse_def
    by (rule collect_normal) (auto simp: suricata_step_def suricata_event_normal split: pyval.splits if_splits)
qed

section \<open>Generic JSON\<close>

text \<open>
  \<open>app/ingest/parsers/json_generic.py\<close>: the fallback for JSON.  \<open>leaves\<close> is \<open>_iter_leaves\<close> (path, lower-case
  name and value of every leaf), \<open>map_leaf\<close> the body of the loop that sends a leaf to a field of the
  event or to \<open>extra\<close>, \<open>generic_event\<close> is \<open>_parse_record\<close>.
\<close>

definition GENERIC_ALIASES :: "(string \<times> string) list" where
  "GENERIC_ALIASES =
    [(''timestamp'', ''time''), (''time'', ''time''), (''@timestamp'', ''time''),
     (''event_time'', ''time''), (''eventtime'', ''time''), (''datetime'', ''time''),
     (''utctime'', ''time''), (''ts'', ''time''), (''host'', ''hostname''),
     (''hostname'', ''hostname''), (''computername'', ''hostname''), (''computer'', ''hostname''),
     (''device'', ''hostname''), (''host_name'', ''hostname''), (''agent_hostname'', ''hostname''),
     (''syslog_hostname'', ''hostname''), (''ip'', ''ip''), (''ipaddress'', ''ip''),
     (''ip_address'', ''ip''), (''host_ip'', ''ip''), (''local_ip'', ''ip''), (''user'', ''user''),
     (''username'', ''user''), (''user_name'', ''user''), (''accountname'', ''user''),
     (''targetusername'', ''user''), (''subjectusername'', ''user''), (''userid'', ''user''),
     (''account'', ''user''), (''src_user'', ''user''), (''accountdomain'', ''user_domain''),
     (''targetdomainname'', ''user_domain''), (''ad_domain'', ''user_domain''),
     (''process'', ''process_name''), (''process_name'', ''process_name''),
     (''processname'', ''process_name''), (''image'', ''process_name''),
     (''newprocessname'', ''process_name''), (''exe'', ''process_name''),
     (''executable'', ''process_name''), (''application'', ''process_name''),
     (''parentprocessname'', ''parent_process_name''), (''parent_process'', ''parent_process_name''),
     (''parentimage'', ''parent_process_name''), (''commandline'', ''command_line''),
     (''command_line'', ''command_line''), (''cmd'', ''command_line''),
     (''cmdline'', ''command_line''), (''process_command_line'', ''command_line''),
     (''processid'', ''pid''), (''pid'', ''pid''), (''newprocessid'', ''pid''),
     (''process_id'', ''pid''), (''parentprocessid'', ''parent_pid''), (''ppid'', ''parent_pid''),
     (''parent_pid'', ''parent_pid''), (''processpath'', ''process_path''),
     (''process_path'', ''process_path''), (''filepath'', ''file_path''),
     (''file_path'', ''file_path''), (''targetfilename'', ''file_path''), (''path'', ''file_path''),
     (''fullpath'', ''file_path''), (''filename'', ''file_name''), (''file_name'', ''file_name''),
     (''targetname'', ''file_name''), (''hash_sha256'', ''file_hash''), (''sha256'', ''file_hash''),
     (''filehash'', ''file_hash''), (''hashes'', ''file_hash''), (''md5'', ''file_hash''),
     (''src_ip'', ''src_ip''), (''source_ip'', ''src_ip''), (''sourceip'', ''src_ip''),
     (''src'', ''src_ip''), (''client_ip'', ''src_ip''), (''ip_src'', ''src_ip''),
     (''sourceaddress'', ''src_ip''), (''dst_ip'', ''dst_ip''), (''dest_ip'', ''dst_ip''),
     (''destination_ip'', ''dst_ip''), (''destinationip'', ''dst_ip''), (''dst'', ''dst_ip''),
     (''server_ip'', ''dst_ip''), (''ip_dst'', ''dst_ip''), (''destinationaddress'', ''dst_ip''),
     (''src_port'', ''src_port''), (''source_port'', ''src_port''), (''sourceport'', ''src_port''),
     (''sport'', ''src_port''), (''dst_port'', ''dst_port''), (''dest_port'', ''dst_port''),
     (''destination_port'', ''dst_port''), (''destinationport'', ''dst_port''),
     (''dport'', ''dst_port''), (''port'', ''dst_port''), (''protocol'', ''protocol''),
     (''proto'', ''protocol''), (''transport'', ''protocol''), (''url'', ''url''), (''uri'', ''url''),
     (''request_url'', ''url''), (''request'', ''url''), (''http_method'', ''http_method''),
     (''method'', ''http_method''), (''verb'', ''http_method''), (''status_code'', ''http_status''),
     (''status'', ''http_status''), (''http_status'', ''http_status''),
     (''useragent'', ''user_agent''), (''user_agent'', ''user_agent''),
     (''http_user_agent'', ''user_agent''), (''domain_name'', ''domain''), (''fqdn'', ''domain''),
     (''hostname_queried'', ''domain''), (''query'', ''dns_query''), (''dns_query'', ''dns_query''),
     (''question'', ''dns_query''), (''signature'', ''signature''),
     (''signature_id'', ''signature_id''), (''signatureid'', ''signature_id''),
     (''alert_signature'', ''signature''), (''rule'', ''signature''), (''category'', ''category''),
     (''eventcategory'', ''category''), (''message'', ''message''), (''msg'', ''message''),
     (''description'', ''message''), (''severity'', ''severity''), (''level'', ''severity''),
     (''severity_label'', ''severity''), (''loglevel'', ''severity''),
     (''event_code'', ''message_id''), (''provider'', ''extra_provider'')]"

subsection \<open>Leaves\<close>

definition sub_path :: "string \<Rightarrow> string \<Rightarrow> string" where
  "sub_path pre key = (if pre \<noteq> [] then pre @ ''.'' @ key else key)"

function leaves :: "pyval \<Rightarrow> string \<Rightarrow> (string \<times> string \<times> pyval) list" where
  "leaves (PDict m) pre =
     (if count_str ''.'' pre \<ge> 3 then [] else
      concat (map (\<lambda>kv. if is_container (snd kv) then leaves (snd kv) (sub_path pre (fst kv))
        else [(sub_path pre (fst kv), lower (fst kv), snd kv)]) m))"
| "leaves (PList xs) pre =
     (if count_str ''.'' pre \<ge> 3 then [] else
      concat (map (\<lambda>x. if is_container x then leaves x pre
        else [(pre, lower (after_last CHR ''.'' pre), x)]) (take 200 xs)))"
| "leaves PNone pre = []"
| "leaves (PBool b) pre = []"
| "leaves (PInt i) pre = []"
| "leaves (PFloat q t) pre = []"
| "leaves (PStr s) pre = []"
  by pat_completeness auto
termination
proof (relation "measure (\<lambda>(v, p). size v)")
  fix m :: pydict and pre kv assume "kv \<in> set m"
  then have "size (snd kv) \<le> size_list (size_prod (\<lambda>x. 0) size) m"
    by (rule size_list_estimation') (simp add: size_prod_simp)
  then show "((snd kv, sub_path pre (fst kv)), (PDict m, pre)) \<in> measure (\<lambda>(v, p). size v)" by simp
next
  fix xs :: "pyval list" and pre x assume "x \<in> set (take 200 xs)"
  then have "x \<in> set xs" by (rule in_set_takeD)
  then show "((x, pre), (PList xs, pre)) \<in> measure (\<lambda>(v, p). size v)"
    by (induction xs) auto
qed auto

text \<open>
  One leaf: the first value of a field wins, later ones go to \<open>extra\<close>, which holds 60 entries; a
  second time is dropped.
\<close>

definition map_leaf :: "pydict \<times> pydict \<Rightarrow> string \<times> string \<times> pyval \<Rightarrow> pydict \<times> pydict" where
  "map_leaf me l = (case (me, l) of ((mapped, extra), (path, leaf, value)) \<Rightarrow>
     (let field = assoc leaf GENERIC_ALIASES in
      if field = Some ''time'' then (if has_key ''time'' mapped then mapped else assoc_put ''time'' value mapped, extra)
      else if field = Some ''extra_provider'' then (mapped, assoc_put ''provider'' value extra)
      else case field of
        Some f \<Rightarrow> if has_key f mapped then
              (mapped, if path \<noteq> ''time'' \<and> length extra < 60 then assoc_put path value extra else extra)
            else (assoc_put f value mapped, extra)
      | None \<Rightarrow> (mapped, if path \<noteq> ''time'' \<and> length extra < 60 then assoc_put path value extra else extra)))"

definition map_leaves :: "pydict \<Rightarrow> pydict \<times> pydict" where
  "map_leaves r = foldl map_leaf ([], []) (leaves (PDict r) [])"

subsection \<open>Records\<close>

text \<open>\<open>str(v).strip().isdigit() and 1 <= int(str(v)) <= 5\<close>.\<close>

definition windows_level :: "pyval \<Rightarrow> bool" where
  "windows_level v \<longleftrightarrow> isdigit (strip (py_str v)) \<and>
     (case read_int (py_str v) of None \<Rightarrow> False | Some i \<Rightarrow> 1 \<le> i \<and> i \<le> 5)"

definition generic_event :: "parse_env \<Rightarrow> pydict \<Rightarrow> string \<Rightarrow> string \<Rightarrow> uevent parsed" where
  "generic_event E r source fallback =
     (case map_leaves r of (mapped, extra) \<Rightarrow>
       let sev = dict_get mapped ''severity'';
           severity = normalize_severity sev (if windows_level sev then ''windows'' else ''label'')
       in finalized (fill
          [(dict_get mapped ''hostname'', \<lambda>s. ue_hostname_update (\<lambda>_. s)),
           (dict_get mapped ''ip'', \<lambda>s. ue_ip_update (\<lambda>_. s)),
           (dict_get mapped ''user'', \<lambda>s. ue_user_update (\<lambda>_. s)),
           (dict_get mapped ''user_domain'', \<lambda>s. ue_user_domain_update (\<lambda>_. s)),
           (dict_get mapped ''process_name'', \<lambda>s. ue_process_name_update (\<lambda>_. s)),
           (dict_get mapped ''parent_process_name'', \<lambda>s. ue_parent_process_name_update (\<lambda>_. s)),
           (dict_get mapped ''process_path'', \<lambda>s. ue_process_path_update (\<lambda>_. s)),
           (dict_get mapped ''command_line'', \<lambda>s. ue_command_line_update (\<lambda>_. s)),
           (dict_get mapped ''file_path'', \<lambda>s. ue_file_path_update (\<lambda>_. s)),
           (dict_get mapped ''file_name'', \<lambda>s. ue_file_name_update (\<lambda>_. s)),
           (dict_get mapped ''file_hash'', \<lambda>s. ue_file_hash_update (\<lambda>_. s)),
           (dict_get mapped ''src_ip'', \<lambda>s. ue_src_ip_update (\<lambda>_. s)),
           (dict_get mapped ''dst_ip'', \<lambda>s. ue_dst_ip_update (\<lambda>_. s)),
           (dict_get mapped ''url'', \<lambda>s. ue_url_update (\<lambda>_. s)),
           (dict_get mapped ''http_method'', \<lambda>s. ue_http_method_update (\<lambda>_. s)),
           (dict_get mapped ''user_agent'', \<lambda>s. ue_user_agent_update (\<lambda>_. s)),
           (dict_get mapped ''domain'', \<lambda>s. ue_domain_update (\<lambda>_. s)),
           (dict_get mapped ''dns_query'', \<lambda>s. ue_dns_query_update (\<lambda>_. s)),
           (dict_get mapped ''signature'', \<lambda>s. ue_signature_update (\<lambda>_. s)),
           (dict_get mapped ''category'', \<lambda>s. ue_category_update (\<lambda>_. s))]
          ((new_event (pe_time E (dict_get mapped ''time'') fallback) source ''json''
              (make_event_id E source (PStr (json_dumps (sort_keys (PDict r))))) severity)
           \<lparr>ue_pid := as_int (dict_get mapped ''pid''),
            ue_parent_pid := as_int (dict_get mapped ''parent_pid''),
            ue_src_port := as_int (dict_get mapped ''src_port''),
            ue_dst_port := as_int (dict_get mapped ''dst_port''),
            ue_protocol := normalize_protocol (dict_get mapped ''protocol''),
            ue_http_status := as_int (dict_get mapped ''http_status''),
            ue_signature_id := text_or_none (dict_get mapped ''signature_id''),
            ue_message := bounded_text 2000 (dict_get mapped ''message''),
            ue_message_id := text_or_none (dict_get mapped ''message_id''),
            ue_raw := Some (bounded_raw (PDict r)),
            ue_extra := extra\<rparr>)))"

definition is_list :: "pyval \<Rightarrow> bool" where
  "is_list v = (case v of PList _ \<Rightarrow> True | _ \<Rightarrow> False)"

definition generic_records :: "parse_env \<Rightarrow> pyval \<Rightarrow> pyval list" where
  "generic_records E payload = (case payload of
     PList xs \<Rightarrow> xs
   | PDict m \<Rightarrow> (case find_first (\<lambda>k. is_list (dict_get m k)) [''events'', ''logs'', ''records'', ''items''] of
       Some k \<Rightarrow> (case dict_get m k of PList xs \<Rightarrow> xs | _ \<Rightarrow> [])
     | None \<Rightarrow> [payload])
   | PStr text \<Rightarrow> (case json_loads (pe_float E) (strip text) of
       Some (PList xs) \<Rightarrow> xs | Some v \<Rightarrow> [v] | None \<Rightarrow> json_lines (pe_float E) (strip text))
   | _ \<Rightarrow> [])"

definition generic_can_parse :: "parse_env \<Rightarrow> pyval \<Rightarrow> pydict \<Rightarrow> bool result" where
  "generic_can_parse E payload meta = Inr (case payload of
     PDict m \<Rightarrow> True
   | PList xs \<Rightarrow> True
   | PStr s \<Rightarrow> (let text = strip s in
       (startswith text ''{'' \<or> startswith text ''['') \<and>
       json_loads (pe_float E) (hd (splitlines text)) \<noteq> None)
   | _ \<Rightarrow> False)"

definition generic_step :: "parse_env \<Rightarrow> string \<Rightarrow> string \<Rightarrow> pyval \<Rightarrow> uevent option parsed" where
  "generic_step E source fallback v = (case v of
     PDict r \<Rightarrow> some_event (generic_event E r source fallback)
   | _ \<Rightarrow> Inr None)"

definition generic_parse :: "parse_env \<Rightarrow> pyval \<Rightarrow> pydict \<Rightarrow> uevent list parsed" where
  "generic_parse E payload meta =
     (let records = generic_records E payload in
      if records = [] then Inl (ParserErr ''no JSON record found'')
      else nonempty_or ''no JSON object parsed''
        (collect (generic_step E (meta_source meta ''json'') (fallback_time E meta)) records))"

lemma generic_event_normal: "generic_event E r source fb = Inr e \<Longrightarrow> normal_event e"
  by (auto simp: generic_event_def Let_def finalized_normal split: prod.splits)

interpretation generic: event_parser generic_parse
proof
  fix E p m es
  assume "generic_parse E p m = Inr es"
  then have "nonempty_or ''no JSON object parsed''
      (collect (generic_step E (meta_source m ''json'') (fallback_time E m)) (generic_records E p)) = Inr es"
    by (simp add: generic_parse_def Let_def split: if_splits)
  then show "es \<noteq> [] \<and> (\<forall>e \<in> set es. normal_event e)"
    by (rule collect_normal) (auto simp: generic_step_def generic_event_normal split: pyval.splits)
qed

end
