(* ===== verification/Zeek_Parser.thy ===== *)
theory Zeek_Parser
  imports Suricata_Parser
begin

section \<open>Zeek\<close>

text \<open>
  \<open>app/ingest/parsers/zeek.py\<close>: Zeek logs as JSON records or as tab-separated text with header
  lines.  \<open>tsv_scan\<close> is the loop over the lines of a text, \<open>zeek_event\<close> is \<open>_from_fields\<close>; the name of
  the log is a value, since a JSON record may bring any \<open>_path\<close>.
\<close>

definition ZEEK_KEYS :: "string list" where
  "ZEEK_KEYS = [''id.orig_h'', ''id.resp_h'', ''uid'', ''conn_state'', ''proto'', ''query'',
     ''qtype_name'', ''method'', ''status_code'', ''server_name'', ''trans_id'']"

definition PATH_TO_CATEGORY :: "(string \<times> string) list" where
  "PATH_TO_CATEGORY =
    [(''conn'', ''network''), (''dns'', ''network''), (''http'', ''web''), (''ssl'', ''network''),
     (''files'', ''file''), (''notice'', ''detection''), (''weird'', ''anomaly''),
     (''ssh'', ''authentication''), (''dhcp'', ''network''), (''smtp'', ''email''),
     (''smb_files'', ''file''), (''kerberos'', ''authentication''), (''pe'', ''file'')]"

text \<open>\<open>_unset(str(v or "")) or None\<close>.\<close>

definition unset :: "string \<Rightarrow> string option" where
  "unset v = (if List.member [[], ''-'', ''(empty)'', ''(unset)''] v then None else Some v)"

definition zeek_text :: "pyval \<Rightarrow> string option" where
  "zeek_text v = unset (py_str (py_or v (PStr [])))"

definition zeek_keys_in :: "pydict \<Rightarrow> bool" where
  "zeek_keys_in m \<longleftrightarrow> list_ex (\<lambda>k. has_key k m) ZEEK_KEYS"

definition zeek_can_parse :: "parse_env \<Rightarrow> pyval \<Rightarrow> pydict \<Rightarrow> bool result" where
  "zeek_can_parse E payload meta = Inr (case payload of
     PDict m \<Rightarrow> zeek_keys_in m
   | PStr s \<Rightarrow> (let text = lstrip s in
       if startswith text ''#separator'' \<or> startswith text ''#fields'' then True
       else if startswith text ''#'' then py_in ''#fields'' text
       else (let first = (case splitlines text of [] \<Rightarrow> [] | l # _ \<Rightarrow> l) in
         startswith (strip first) ''{'' \<and>
         (case json_loads (pe_float E) first of Some (PDict m) \<Rightarrow> zeek_keys_in m | _ \<Rightarrow> False)))
   | _ \<Rightarrow> False)"

subsection \<open>One record\<close>

definition zeek_event_type :: "pyval \<Rightarrow> pydict \<Rightarrow> string" where
  "zeek_event_type path r =
     (if path = PStr ''notice'' then ''ids_notice''
      else if path = PStr ''conn'' then
        (if List.member [''S0'', ''REJ'', ''RSTO''] (py_str (py_or (dict_get r ''conn_state'') (PStr [])))
         then ''network_denied'' else ''network_connect'')
      else if path = PStr ''dns'' then ''dns_query''
      else if path = PStr ''http'' then ''http_request''
      else if path = PStr ''ssl'' then ''tls_handshake''
      else if path = PStr ''files'' then ''file_transfer''
      else ''zeek_'' @ py_str path)"

definition ZEEK_COPIED :: "string list" where
  "ZEEK_COPIED = [''uid'', ''community_id'', ''service'', ''conn_state'', ''duration'',
     ''orig_bytes'', ''resp_bytes'', ''orig_pkts'', ''resp_pkts'', ''qtype_name'',
     ''rcode_name'', ''answers'', ''version'', ''cipher'', ''ja3'', ''note'',
     ''msg'', ''sub'', ''peer'', ''trans_depth'', ''referrer'', ''mime_type'', ''pe_info'', ''ts'']"

definition zeek_extra :: "pyval \<Rightarrow> pydict \<Rightarrow> pydict" where
  "zeek_extra path r =
     (let extra = copy_present (map (\<lambda>k. (k, dict_get r k)) ZEEK_COPIED) [(''zeek_log'', path)]
      in case dict_get r ''answers'' of
           PList xs \<Rightarrow> if xs \<noteq> [] then assoc_put ''answers'' (PStr (clip 500 (join '','' (map py_str xs)))) extra else extra
         | _ \<Rightarrow> extra)"

definition ZEEK_PRIORITY :: "(string \<times> string) list" where
  "ZEEK_PRIORITY = [(''1'', ''CRITICAL''), (''2'', ''HIGH''), (''3'', ''MEDIUM''), (''4'', ''LOW''), (''5'', ''INFO'')]"

definition zeek_severity :: "pyval \<Rightarrow> pydict \<Rightarrow> string" where
  "zeek_severity path r =
     (if path = PStr ''notice'' then
        (let priority = lower (py_str (py_or (dict_get_or r ''priority'' (PStr [])) (PStr [])))
         in normalize_severity (py_or (dict_get r ''severity'') (PStr (assoc_default ''MEDIUM'' priority ZEEK_PRIORITY))) ''label'')
      else ''INFO'')"

definition ZEEK_CLASSES :: "(string \<times> int) list" where
  "ZEEK_CLASSES = [(''dns'', 4003), (''http'', 4002), (''conn'', 4001), (''ssl'', 4001), (''notice'', 2004)]"

text \<open>\<open>table.get(v, d)\<close>: a list or a dictionary cannot be looked up.\<close>

definition table_get :: "'a \<Rightarrow> pyval \<Rightarrow> (string \<times> 'a) list \<Rightarrow> 'a result" where
  "table_get d v tab = (if is_container v then Inl TypeError
     else Inr (case v of PStr s \<Rightarrow> assoc_default d s tab | _ \<Rightarrow> d))"

definition zeek_event :: "parse_env \<Rightarrow> pydict \<Rightarrow> pyval \<Rightarrow> string \<Rightarrow> string \<Rightarrow> pyval \<Rightarrow> uevent parsed" where
  "zeek_event E r path source fallback raw =
     (let get = dict_get r; signature = (if path = PStr ''notice'' then get ''note'' else PNone)
      in case table_get 0 path ZEEK_CLASSES of
        Inl x \<Rightarrow> Inl (Internal x)
      | Inr class \<Rightarrow> (case table_get ''network'' path PATH_TO_CATEGORY of
          Inl x \<Rightarrow> Inl (Internal x)
        | Inr category \<Rightarrow> Inr (finalize
            ((new_event (pe_time E (get ''ts'') fallback) source ''zeek'' (make_event_id E source raw) (zeek_severity path r))
             \<lparr>ue_ocsf_class_uid := class,
              ue_hostname := zeek_text (py_or (get ''host'') (get ''machine'')),
              ue_ip := zeek_text (get ''id.orig_h''),
              ue_user := zeek_text (py_or (get ''user'') (get ''username'')),
              ue_src_ip := zeek_text (get ''id.orig_h''),
              ue_src_port := as_int (get ''id.orig_p''),
              ue_dst_ip := zeek_text (get ''id.resp_h''),
              ue_dst_port := as_int (get ''id.resp_p''),
              ue_protocol := normalize_protocol (get ''proto''),
              ue_url := bounded_text 2000 (get ''uri''),
              ue_http_method := zeek_text (get ''method''),
              ue_http_status := as_int (get ''status_code''),
              ue_user_agent := bounded_text 1000 (get ''user_agent''),
              ue_domain := zeek_text (py_or (get ''host'') (get ''server_name'')),
              ue_dns_query := zeek_text (get ''query''),
              ue_signature_id := (let s = py_str (py_or (get ''fuid'') (PStr [])) in if s = [] then None else Some s),
              ue_signature := bounded_text 200 signature,
              ue_category := Some category,
              ue_message := (let s = clip 2000 (py_str (py_or (py_or (get ''msg'') (get ''sub'')) (PStr [])))
                 in if s = [] then None else Some s),
              ue_raw := Some (bounded_raw raw),
              ue_extra := assoc_put ''event_type'' (PStr (zeek_event_type path r)) (zeek_extra path r)\<rparr>))))"

subsection \<open>JSON\<close>

definition guess_path :: "pydict \<Rightarrow> string" where
  "guess_path m =
     (if has_key ''conn_state'' m \<or> has_key ''id.orig_h'' m \<and> has_key ''duration'' m then ''conn''
      else if has_key ''query'' m then ''dns''
      else if has_key ''method'' m \<or> has_key ''status_code'' m then ''http''
      else if has_key ''server_name'' m \<or> has_key ''cipher'' m then ''ssl''
      else if has_key ''note'' m then ''notice''
      else ''unknown'')"

definition zeek_json_records :: "parse_env \<Rightarrow> pyval \<Rightarrow> pyval list" where
  "zeek_json_records E payload = (case payload of
     PDict m \<Rightarrow> [payload] | PList xs \<Rightarrow> xs | PStr text \<Rightarrow> json_lines (pe_float E) text | _ \<Rightarrow> [])"

definition zeek_json_step :: "parse_env \<Rightarrow> string \<Rightarrow> string \<Rightarrow> pyval \<Rightarrow> uevent option parsed" where
  "zeek_json_step E source fallback v = (case v of
     PDict r \<Rightarrow> some_event (zeek_event E r (py_or (dict_get r ''_path'') (PStr (guess_path r))) source fallback v)
   | _ \<Rightarrow> Inr None)"

definition zeek_parse_json :: "parse_env \<Rightarrow> pyval \<Rightarrow> pydict \<Rightarrow> uevent list parsed" where
  "zeek_parse_json E payload meta = nonempty_or ''no Zeek JSON record''
     (collect (zeek_json_step E (meta_source meta ''zeek'') (fallback_time E meta)) (zeek_json_records E payload))"

subsection \<open>Tab-separated text\<close>

record tsv_head =
  tsv_fields :: "string list option"
  tsv_path :: string
  tsv_sep :: string

definition SEPARATORS :: "(string \<times> string) list" where
  "SEPARATORS = [(backslash # ''x09'', [CHR 0x09]), (backslash # ''x20'', '' ''), (backslash # ''x2c'', '','')]"

definition read_separator :: "string \<Rightarrow> string" where
  "read_separator l = (let sep = (case split1 CHR '' '' l of (_, Some t) \<Rightarrow> t | _ \<Rightarrow> [])
     in assoc_default (if sep = [] then [CHR 0x09] else sep) sep SEPARATORS)"

definition tsv_header :: "tsv_head \<Rightarrow> string \<Rightarrow> tsv_head" where
  "tsv_header h l =
     (if startswith l ''#separator'' then h\<lparr>tsv_sep := read_separator l\<rparr>
      else if startswith l ''#set_separator'' then h
      else if startswith l ''#fields'' then h\<lparr>tsv_fields := Some (tl (split_str (tsv_sep h) l))\<rparr>
      else if startswith l ''#path'' then h\<lparr>tsv_path := strip (after_first (tsv_sep h) l)\<rparr>
      else h)"

fun tsv_scan :: "tsv_head \<Rightarrow> string list \<Rightarrow> tsv_head \<times> string list" where
  "tsv_scan h [] = (h, [])"
| "tsv_scan h (l # ls) =
     (if l = [] then tsv_scan h ls
      else if startswith l ''#'' then tsv_scan (tsv_header h l) ls
      else (case tsv_scan h ls of (h', data) \<Rightarrow> (h', l # data)))"

definition tsv_guess_path :: "string list \<Rightarrow> string \<Rightarrow> string" where
  "tsv_guess_path keys path =
     (let has = List.member keys in
      if path \<noteq> ''unknown'' then path
      else if has ''conn_state'' \<or> has ''orig_bytes'' then ''conn''
      else if has ''query'' then ''dns''
      else if has ''method'' \<or> has ''status_code'' then ''http''
      else if has ''server_name'' \<or> has ''cipher'' then ''ssl''
      else if has ''note'' then ''notice''
      else if has ''fuid'' then ''files''
      else path)"

definition tsv_record :: "string list \<Rightarrow> string list \<Rightarrow> pydict" where
  "tsv_record names vals = foldl (\<lambda>d (k, v). assoc_put k (opt_str (unset v)) d) [] (zip names vals)"

definition zeek_tsv_step :: "parse_env \<Rightarrow> string list \<Rightarrow> string \<Rightarrow> string \<Rightarrow> string \<Rightarrow> string \<Rightarrow> string \<Rightarrow> uevent option parsed" where
  "zeek_tsv_step E names path sep source fallback line =
     (let vals = split_str sep line in
      if length vals < 2 then Inr None
      else some_event (zeek_event E (tsv_record names vals) (PStr path) source fallback (PStr line)))"

definition zeek_parse_tsv :: "parse_env \<Rightarrow> string \<Rightarrow> pydict \<Rightarrow> uevent list parsed" where
  "zeek_parse_tsv E text meta =
     (case tsv_scan \<lparr>tsv_fields = None, tsv_path = ''unknown'', tsv_sep = [CHR 0x09]\<rparr> (splitlines text) of
        (h, data) \<Rightarrow> (case tsv_fields h of
            None \<Rightarrow> Inl (ParserErr ''Zeek TSV without #fields header'')
          | Some names \<Rightarrow> nonempty_or ''Zeek TSV with header but no data rows''
              (collect (zeek_tsv_step E names (tsv_guess_path names (tsv_path h)) (tsv_sep h)
                  (meta_source meta ''zeek'') (fallback_time E meta)) data)))"

definition zeek_parse :: "parse_env \<Rightarrow> pyval \<Rightarrow> pydict \<Rightarrow> uevent list parsed" where
  "zeek_parse E payload meta = (case payload of
     PDict m \<Rightarrow> zeek_parse_json E payload meta
   | PList xs \<Rightarrow> zeek_parse_json E payload meta
   | PStr text \<Rightarrow> if startswith (lstrip text) ''{'' then zeek_parse_json E payload meta else zeek_parse_tsv E text meta
   | _ \<Rightarrow> Inl (ParserErr ''unsupported Zeek payload type''))"

lemma zeek_event_normal: "zeek_event E r path source fb raw = Inr e \<Longrightarrow> normal_event e"
  by (auto simp: zeek_event_def Let_def finalize_normal split: sum.splits)

lemma zeek_json_normal: "zeek_parse_json E p m = Inr es \<Longrightarrow> es \<noteq> [] \<and> (\<forall>e \<in> set es. normal_event e)"
  unfolding zeek_parse_json_def
  by (erule collect_normal) (auto simp: zeek_json_step_def zeek_event_normal split: pyval.splits)

lemma zeek_tsv_normal: "zeek_parse_tsv E t m = Inr es \<Longrightarrow> es \<noteq> [] \<and> (\<forall>e \<in> set es. normal_event e)"
  unfolding zeek_parse_tsv_def
  by (auto simp: zeek_tsv_step_def Let_def zeek_event_normal split: prod.splits option.splits if_splits
      elim!: collect_normal [THEN conjunct1] dest: collect_normal [THEN conjunct2])

interpretation zeek: event_parser zeek_parse
proof
  fix E p m es
  assume "zeek_parse E p m = Inr es"
  then show "es \<noteq> [] \<and> (\<forall>e \<in> set es. normal_event e)"
    using zeek_json_normal zeek_tsv_normal unfolding zeek_parse_def by (cases p) (auto split: if_splits)
qed

end
