(* ===== verification/Syslog_Parser.thy ===== *)
theory Syslog_Parser
  imports Ingest_Base
begin

section \<open>Syslog\<close>

text \<open>
  \<open>app/ingest/parsers/syslog.py\<close>: RFC 5424, RFC 3164 and lines without a time.  The three patterns are
  syntax trees with the groups the parser reads; \<open>syslog_head\<close> is the choice between them, \<open>syslog_event\<close> the
  rest of \<open>_parse_line\<close>.
\<close>

subsection \<open>Patterns\<close>

definition not_chars :: "string \<Rightarrow> char \<Rightarrow> bool" where
  "not_chars cs c \<longleftrightarrow> c \<notin> set cs"

definition PRI :: grx where
  "PRI = g_seq [GStart, g_char CHR ''<'', GGroup ''pri'' (g_seq [g_digit, g_upto 2 g_digit]), g_char CHR ''>'']"

definition RFC5424 :: grx where
  "RFC5424 = g_seq [PRI, GGroup ''version'' g_digit, g_space,
     GGroup ''ts'' (g_plus g_nonspace), g_space, GGroup ''host'' (g_plus g_nonspace), g_space,
     GGroup ''app'' (g_plus g_nonspace), g_space, GGroup ''procid'' (g_plus g_nonspace), g_space,
     GGroup ''msgid'' (g_plus g_nonspace), g_space,
     GGroup ''sd'' (GAlt (g_char CHR ''-'') (g_seq [g_char CHR ''['', GLazy g_any, g_char CHR '']''])),
     g_opt (g_seq [g_space, GGroup ''msg'' (GStar g_any)]), GEnd]"

definition BSD_TIME :: grx where
  "BSD_TIME = g_seq [GSet is_upper_alpha, g_times 2 (GSet is_lower_alpha), g_plus g_space, g_digit,
     g_upto 1 g_digit, g_space, g_times 2 g_digit, g_char CHR '':'', g_times 2 g_digit, g_char CHR '':'',
     g_times 2 g_digit]"

definition PID_AND_MESSAGE :: grx where
  "PID_AND_MESSAGE = g_seq [g_opt (g_seq [g_char CHR ''['', GGroup ''pid'' (g_plus g_digit), g_char CHR '']'']),
     g_char CHR '':'', g_opt g_space, GGroup ''msg'' (GStar g_any), GEnd]"

definition RFC3164 :: grx where
  "RFC3164 = g_seq [PRI, GGroup ''ts'' BSD_TIME, g_space, GGroup ''host'' (g_plus g_nonspace), g_space,
     GGroup ''tag'' (g_plus_lazy (GSet (not_chars '':['')) ), PID_AND_MESSAGE]"

definition NO_TS :: grx where
  "NO_TS = g_seq [PRI, GGroup ''tag'' (g_plus (GSet (\<lambda>c. is_alnum c \<or> c \<in> set ''._/-''))), PID_AND_MESSAGE]"

definition FACILITIES :: "(int \<times> string) list" where
  "FACILITIES = [(0, ''kernel''), (1, ''user''), (2, ''mail''), (3, ''daemon''), (4, ''auth''), (5, ''syslog''),
     (6, ''lpr''), (7, ''news''), (8, ''uucp''), (9, ''cron''), (10, ''authpriv''), (11, ''ftp''),
     (16, ''local0''), (17, ''local1''), (18, ''local2''), (19, ''local3''), (20, ''local4''),
     (21, ''local5''), (22, ''local6''), (23, ''local7'')]"

definition AUTH_TAGS :: "string list" where
  "AUTH_TAGS = [''ssh'', ''sshd'', ''sudo'', ''su'', ''login'', ''systemd-logind'', ''gdm'', ''winbind'', ''krb5'', ''pam'']"

definition FAILED_AUTH :: grx where
  "FAILED_AUTH = g_alts [g_lit_ci ''failed password'', g_lit_ci ''authentication failure'', g_lit_ci ''invalid user'',
     g_lit_ci ''failed login'', g_lit_ci ''login failed'',
     g_seq [g_lit_ci ''auth'', g_opt (g_lit_ci ''entication''), g_lit_ci '' fail''],
     g_lit_ci ''incorrect password'', g_lit_ci ''access denied'']"

definition ACCEPTED_AUTH :: grx where
  "ACCEPTED_AUTH = g_alts [g_seq [g_lit_ci ''accepted '', GAlt (g_lit_ci ''password'') (g_lit_ci ''publickey'')],
     g_lit_ci ''session opened for user'', g_lit_ci ''login successful'', g_lit_ci ''successful login'',
     g_lit_ci ''new session'']"

definition OCTET :: grx where
  "OCTET = g_seq [g_digit, g_upto 2 g_digit]"

definition IPV4_TEXT :: grx where
  "IPV4_TEXT = g_seq [GWordB, GGroup ''1'' (g_seq [OCTET, g_times 3 (g_seq [g_char CHR ''.'', OCTET])]), GWordB]"

definition USER_PATTERNS :: "grx list" where
  "USER_PATTERNS =
    [g_seq [g_lit_ci ''for '', g_opt (g_lit_ci ''invalid ''), g_lit_ci ''user '', GGroup ''1'' (g_plus g_nonspace)],
     g_seq [g_lit_ci ''user'', GSet (\<lambda>c. c \<in> set ''= ''), GGroup ''1'' (g_plus g_nonspace)],
     g_seq [g_lit_ci ''by ('', GGroup ''1'' (g_plus g_nonspace), g_char CHR '')''],
     g_seq [g_lit_ci ''for '', GGroup ''1'' (g_plus g_nonspace), g_lit_ci '' from'']]"

subsection \<open>Fields of a message\<close>

fun user_by :: "grx list \<Rightarrow> string \<Rightarrow> string option" where
  "user_by [] msg = None"
| "user_by (p # ps) msg = (case g_search p msg of
     None \<Rightarrow> user_by ps msg
   | Some g \<Rightarrow> Some (strip_chars (squote # '',;:'') (grp_text g ''1'')))"

definition extract_user :: "string \<Rightarrow> string option" where
  "extract_user msg = user_by USER_PATTERNS msg"

definition extract_ip :: "string \<Rightarrow> string option" where
  "extract_ip msg = (case g_search IPV4_TEXT msg of
     None \<Rightarrow> None
   | Some g \<Rightarrow> let ip = grp_text g ''1'' in
       if list_ex (\<lambda>part. read_nat part > 255) (split_char CHR ''.'' ip) then None else Some ip)"

subsection \<open>One line\<close>

text \<open>What the patterns give: the texts of the groups, and whether the line is RFC 5424.\<close>

record syslog_head =
  sh_pri :: string
  sh_time :: "string option"
  sh_host :: "string option"
  sh_app :: "string option"
  sh_procid :: "string option"
  sh_msgid :: "string option"
  sh_sd :: "string option"
  sh_msg :: "string option"
  sh_structured :: bool

definition bsd_head :: "groups \<Rightarrow> syslog_head" where
  "bsd_head g = \<lparr>sh_pri = grp_text g ''pri'', sh_time = grp g ''ts'', sh_host = grp g ''host'',
     sh_app = grp g ''tag'', sh_procid = grp g ''pid'', sh_msgid = None, sh_sd = None, sh_msg = grp g ''msg'',
     sh_structured = False\<rparr>"

definition rfc5424_head :: "groups \<Rightarrow> syslog_head" where
  "rfc5424_head g = \<lparr>sh_pri = grp_text g ''pri'', sh_time = grp g ''ts'', sh_host = grp g ''host'',
     sh_app = grp g ''app'', sh_procid = grp g ''procid'', sh_msgid = grp g ''msgid'', sh_sd = grp g ''sd'',
     sh_msg = grp g ''msg'', sh_structured = True\<rparr>"

definition bsd_match :: "string \<Rightarrow> syslog_head option" where
  "bsd_match line = map_option bsd_head (first_of (g_match RFC3164 line) (g_match NO_TS line))"

definition syslog_match :: "string \<Rightarrow> syslog_head option" where
  "syslog_match line = (case g_match RFC5424 line of
     None \<Rightarrow> bsd_match line
   | Some g \<Rightarrow> if grp g ''ts'' \<noteq> Some ''-'' then Some (rfc5424_head g) else bsd_match line)"

definition priority :: "string \<Rightarrow> int" where
  "priority pri = (case as_int (PStr pri) of None \<Rightarrow> 13 | Some i \<Rightarrow> if i = 0 then 13 else i)"

definition is_auth_tag :: "string \<Rightarrow> bool" where
  "is_auth_tag tag \<longleftrightarrow> List.member AUTH_TAGS (lower tag) \<or> any_in AUTH_TAGS (lower tag)"

text \<open>The event type and the severity after the look at the outcome of a login.\<close>

definition auth_outcome :: "string \<Rightarrow> string \<Rightarrow> string \<Rightarrow> string \<times> string" where
  "auth_outcome tag msg sev =
     (if is_auth_tag tag then
        (if g_found FAILED_AUTH msg then
           (''auth_failure'', if List.member [''INFO'', ''LOW'', ''MEDIUM''] sev then ''HIGH'' else sev)
         else if g_found ACCEPTED_AUTH msg then (''auth_success'', sev)
         else (''auth'', sev))
      else (''syslog'', sev))"

definition not_dash :: "string option \<Rightarrow> bool" where
  "not_dash x \<longleftrightarrow> truthy x \<and> x \<noteq> Some ''-''"

definition syslog_extra :: "syslog_head \<Rightarrow> string \<Rightarrow> string option \<Rightarrow> string \<Rightarrow> pydict" where
  "syslog_extra h tag facility line =
     (if tag \<noteq> [] then [(''syslog_tag'', PStr tag)] else []) @
     (case facility of None \<Rightarrow> [] | Some f \<Rightarrow> [(''facility'', PStr f)]) @
     (if not_dash (sh_procid h) then [(''procid'', opt_str (sh_procid h))] else []) @
     (if not_dash (sh_msgid h) then [(''msgid'', opt_str (sh_msgid h))] else []) @
     (if sh_structured h then [(''rfc'', PStr ''5424'')]
      else if g_match RFC3164 line \<noteq> None then [(''rfc'', PStr ''3164'')] else [])"

definition syslog_event :: "parse_env \<Rightarrow> syslog_head \<Rightarrow> string \<Rightarrow> string \<Rightarrow> string \<Rightarrow> uevent" where
  "syslog_event E h line source fallback =
     (let pri = priority (sh_pri h);
          facility = assoc (pri div 8) FACILITIES;
          time = (if truthy (sh_time h) then pe_time E (opt_str (sh_time h)) fallback else fallback);
          message = strip (or_str (sh_msg h) (or_str (sh_sd h) []));
          tag = strip (or_str (sh_app h) []);
          (etype, severity) = auth_outcome tag message (normalize_severity (PInt (pri mod 8)) ''syslog'');
          auth = is_auth_tag tag \<or> facility = Some ''authpriv''
      in finalize ((new_event time source ''syslog'' (make_event_id E source (PStr line)) severity)
        \<lparr>ue_ocsf_class_uid := (if startswith etype ''auth'' then 3002 else 0),
         ue_hostname := (if sh_host h = Some ''-'' then None else sh_host h),
         ue_ip := extract_ip message,
         ue_user := extract_user message,
         ue_process_name := (if tag = [] then None else Some tag),
         ue_pid := as_int (opt_str (sh_procid h)),
         ue_src_ip := extract_ip message,
         ue_message := (if clip 2000 message = [] then None else Some (clip 2000 message)),
         ue_raw := Some (bounded_raw (PStr line)),
         ue_extra := syslog_extra h tag facility line @ [(''event_type'', PStr etype)] @
           (if auth then [(''category'', PStr ''authentication'')] else [])\<rparr>))"

definition syslog_line :: "parse_env \<Rightarrow> string \<Rightarrow> string \<Rightarrow> string \<Rightarrow> uevent option" where
  "syslog_line E source fallback line =
     map_option (\<lambda>h. syslog_event E h line source fallback) (syslog_match line)"

subsection \<open>A payload\<close>

definition payload_text :: "pyval \<Rightarrow> string" where
  "payload_text p = (case p of
     PStr s \<Rightarrow> s | PDict m \<Rightarrow> py_str (dict_get_or m ''message'' (PStr [])) | _ \<Rightarrow> py_str p)"

definition syslog_can_parse :: "parse_env \<Rightarrow> pyval \<Rightarrow> pydict \<Rightarrow> bool result" where
  "syslog_can_parse E p meta = Inr (g_match PRI
     (case splitlines (payload_text p) of [] \<Rightarrow> [] | l # _ \<Rightarrow> l) \<noteq> None)"

definition syslog_parse :: "parse_env \<Rightarrow> pyval \<Rightarrow> pydict \<Rightarrow> uevent list parsed" where
  "syslog_parse E p meta =
     (if payload_text p = [] then Inl (ParserErr ''empty syslog payload'')
      else nonempty_or ''no parseable syslog line''
        (collect (\<lambda>l. Inr (syslog_line E (meta_source meta ''syslog'') (fallback_time E meta) l))
           (payload_lines (payload_text p))))"

lemma syslog_event_normal: "normal_event (syslog_event E h line source fb)"
  by (simp add: syslog_event_def Let_def finalize_normal split: prod.splits)

interpretation syslog: event_parser syslog_parse
proof
  fix E p m es
  assume "syslog_parse E p m = Inr es"
  then have "nonempty_or ''no parseable syslog line''
      (collect (\<lambda>l. Inr (syslog_line E (meta_source m ''syslog'') (fallback_time E m) l)) (payload_lines (payload_text p))) = Inr es"
    by (simp add: syslog_parse_def split: if_splits)
  then show "es \<noteq> [] \<and> (\<forall>e \<in> set es. normal_event e)"
    by (rule collect_normal) (auto simp: syslog_line_def syslog_event_normal)
qed

end
