(* ===== verification/Firewall_Parser.thy ===== *)
theory Firewall_Parser
  imports Ingest_Base
begin

section \<open>Firewall logs\<close>

text \<open>
  \<open>app/ingest/parsers/firewall.py\<close>: Windows Firewall, iptables/ufw and pfSense lines.  An instance of the parser is
  its name: the instances for one format accept that format only.
\<close>

subsection \<open>Patterns\<close>

definition is_key_char :: "char \<Rightarrow> bool" where
  "is_key_char c \<longleftrightarrow> is_upper_alpha c \<or> c = CHR ''_''"

definition KV :: grx where
  "KV = g_seq [GGroup ''1'' (g_plus (GSet is_key_char)), g_char CHR ''='',
     GGroup ''2'' (GAlt (g_seq [g_char CHR 0x22, GStar (GSet (\<lambda>c. c \<noteq> CHR 0x22)), g_char CHR 0x22])
       (g_plus g_nonspace))]"

definition IPTABLES :: grx where
  "IPTABLES = g_seq [GAlt (g_seq [GWordB, g_lit ''IN='', GStar g_nonspace]) (g_seq [GWordB, g_lit ''SRC='']),
     g_plus g_space, GStar g_dot, GWordB, g_lit ''DST='', g_plus g_nonspace]"

definition PFSENSE_MIN_COLS :: nat where "PFSENSE_MIN_COLS = 18"

definition digits_or_dash :: grx where
  "digits_or_dash = GAlt (g_plus g_digit) (g_char CHR ''-'')"

definition PFIREWALL :: grx where
  "PFIREWALL = g_seq [GStart,
     GGroup ''date'' (g_seq [g_times 4 g_digit, g_char CHR ''-'', g_times 2 g_digit, g_char CHR ''-'', g_times 2 g_digit]),
     g_plus g_space,
     GGroup ''time'' (g_seq [g_times 2 g_digit, g_char CHR '':'', g_times 2 g_digit, g_char CHR '':'', g_times 2 g_digit]),
     g_plus g_space, GGroup ''action'' (g_plus (GSet is_upper_alpha)),
     g_plus g_space, GGroup ''proto'' (g_plus (GSet is_upper_alpha)),
     g_plus g_space, GGroup ''src_ip'' (g_plus g_nonspace), g_plus g_space, GGroup ''dst_ip'' (g_plus g_nonspace),
     g_plus g_space, GGroup ''src_port'' digits_or_dash, g_plus g_space, GGroup ''dst_port'' digits_or_dash,
     g_plus g_space, GGroup ''size'' digits_or_dash, g_plus g_space, GGroup ''rest'' (GStar g_dot), GEnd]"

definition BLOCK_ACTIONS :: "string list" where
  "BLOCK_ACTIONS = [''block'', ''drop'', ''deny'', ''reject'', ''closed'']"

definition SYSLOG_TS :: grx where
  "SYSLOG_TS = g_seq [g_opt (g_seq [g_char CHR ''<'', g_digit, g_upto 2 g_digit, g_char CHR ''>'']),
     GGroup ''ts'' (g_seq [GSet is_upper_alpha, g_times 2 (GSet is_lower_alpha), g_plus g_space, g_digit, g_upto 1 g_digit,
       g_space, g_times 2 g_digit, g_char CHR '':'', g_times 2 g_digit, g_char CHR '':'', g_times 2 g_digit]),
     g_plus g_space, GGroup ''host'' (g_plus g_nonspace)]"

definition BLOCK_WORD :: grx where
  "BLOCK_WORD = g_seq [GWordB, g_words_ci [''dpt'', ''block'', ''drop'', ''deny''], GWordB]"

definition ALLOW_WORD :: grx where
  "ALLOW_WORD = g_seq [GWordB, g_words_ci [''accept'', ''allow''], GWordB]"

definition CSV_START :: grx where
  "CSV_START = g_seq [GNotAfter (\<lambda>c. is_digit c \<or> c = CHR '',''), g_plus g_digit, GPeek (\<lambda>c. c = CHR '','')]"

subsection \<open>Detection of the format\<close>

definition SPECIFIC_FORMATS :: "string list" where
  "SPECIFIC_FORMATS = [''pfsense'', ''pfirewall'', ''iptables'']"

definition detect_format :: "string \<Rightarrow> string option" where
  "detect_format line =
     (if g_match PFIREWALL line \<noteq> None then Some ''pfirewall''
      else if g_found IPTABLES line \<and> py_in ''DST='' line then Some ''iptables''
      else if count_str '','' line \<ge> PFSENSE_MIN_COLS then
        (let cols = split_char CHR '','' line in
         if length cols \<ge> 8 \<and> List.member (BLOCK_ACTIONS @ [''pass'']) (lower (strip (cols ! 6)))
         then Some ''pfsense'' else None)
      else None)"

definition firewall_can_parse :: "string \<Rightarrow> parse_env \<Rightarrow> pyval \<Rightarrow> pydict \<Rightarrow> bool result" where
  "firewall_can_parse name E p meta = Inr (case p of
     PStr s \<Rightarrow> (case payload_lines s of
         [] \<Rightarrow> False
       | l # _ \<Rightarrow> if List.member SPECIFIC_FORMATS name then detect_format l = Some name else detect_format l \<noteq> None)
   | _ \<Rightarrow> False)"

subsection \<open>The three formats\<close>

text \<open>What the three formats have in common.\<close>

definition firewall_event :: "parse_env \<Rightarrow> string \<Rightarrow> string \<Rightarrow> string \<Rightarrow> bool \<Rightarrow> string \<Rightarrow> string \<Rightarrow> uevent" where
  "firewall_event E time source line blocked src dst =
     (new_event time source ''firewall'' (make_event_id E source (PStr line)) (if blocked then ''MEDIUM'' else ''INFO''))
     \<lparr>ue_ocsf_class_uid := 4001, ue_ip := Some src, ue_src_ip := Some src, ue_dst_ip := Some dst,
      ue_raw := Some (bounded_raw (PStr line))\<rparr>"

definition verdict :: "bool \<Rightarrow> string \<times> pyval" where
  "verdict blocked = (''event_type'', PStr (if blocked then ''network_denied'' else ''network_allow''))"

definition last_word :: "string \<Rightarrow> pyval" where
  "last_word s = (if words s = [] then PNone else PStr (last (words s)))"

definition pfirewall_event :: "parse_env \<Rightarrow> string \<Rightarrow> string \<Rightarrow> string \<Rightarrow> string \<Rightarrow> uevent option" where
  "pfirewall_event E source fallback fmt line = (case g_match PFIREWALL line of
     None \<Rightarrow> None
   | Some g \<Rightarrow>
       let t = grp_text g; blocked = List.member BLOCK_ACTIONS (lower (t ''action''))
       in Some (finalize
         ((firewall_event E (pe_time E (PStr (t ''date'' @ ''T'' @ t ''time'')) fallback) source line blocked (t ''src_ip'') (t ''dst_ip''))
          \<lparr>ue_src_port := as_int (PStr (t ''src_port'')), ue_dst_port := as_int (PStr (t ''dst_port'')),
           ue_protocol := normalize_protocol (PStr (t ''proto'')),
           ue_extra := [(''action'', PStr (lower (t ''action''))), (''direction'', last_word (t ''rest'')),
             (''format'', PStr fmt), (''bytes'', opt_int (as_int (PStr (t ''size'')))), verdict blocked],
           ue_message := Some (t ''action'' @ '' '' @ t ''proto'' @ '' '' @ t ''src_ip'' @ '':'' @ t ''src_port'' @ '' -> '' @
             t ''dst_ip'' @ '':'' @ t ''dst_port'')\<rparr>)))"

text \<open>The pairs \<open>KEY=value\<close> of a kernel line, later ones over earlier ones, without quotation marks.\<close>

definition kv_fields :: "string \<Rightarrow> (string \<times> string) list" where
  "kv_fields line = foldl (\<lambda>d g. assoc_put (grp_text g ''1'') (strip_chars [CHR 0x22] (grp_text g ''2'')) d) [] (g_all KV line)"

definition iptables_blocked :: "string \<Rightarrow> bool" where
  "iptables_blocked line \<longleftrightarrow> g_found BLOCK_WORD line \<and> \<not> g_found ALLOW_WORD line"

definition syslog_ts_group :: "string \<Rightarrow> string \<Rightarrow> string option" where
  "syslog_ts_group line n = (case g_search SYSLOG_TS line of None \<Rightarrow> None | Some g \<Rightarrow> grp g n)"

definition iptables_event :: "parse_env \<Rightarrow> string \<Rightarrow> string \<Rightarrow> string \<Rightarrow> string \<Rightarrow> uevent option" where
  "iptables_event E source fallback fmt line =
     (let f = (\<lambda>k. assoc k (kv_fields line)); blocked = iptables_blocked line in
      if \<not> truthy (f ''SRC'') \<or> \<not> truthy (f ''DST'') then None
      else Some (finalize
        ((firewall_event E (pe_time E (opt_str (syslog_ts_group line ''ts'')) fallback) source line blocked
            (or_str (f ''SRC'') []) (or_str (f ''DST'') []))
         \<lparr>ue_hostname := syslog_ts_group line ''host'',
          ue_src_port := as_int (opt_str (f ''SPT'')), ue_dst_port := as_int (opt_str (f ''DPT'')),
          ue_protocol := normalize_protocol (opt_str (f ''PROTO'')),
          ue_extra := [(''in_iface'', opt_str (f ''IN'')), (''out_iface'', opt_str (f ''OUT'')),
            (''ttl'', opt_int (as_int (opt_str (f ''TTL'')))), (''format'', PStr fmt), verdict blocked],
          ue_message := Some (last_chars 500 line)\<rparr>)))"

definition pfsense_columns :: "string \<Rightarrow> string list" where
  "pfsense_columns line =
     (let body = (case g_locate CSV_START line of None \<Rightarrow> line | Some b \<Rightarrow> b);
          body = (if count_str '','' body < PFSENSE_MIN_COLS then partition_tail ''filterlog: '' line else body)
      in map strip (split_char CHR '','' body))"

text \<open>\<open>cols[i] if len(cols) > i else None\<close>.\<close>

definition column :: "string list \<Rightarrow> nat \<Rightarrow> string option" where
  "column cols i = (if i < length cols then Some (cols ! i) else None)"

definition pfsense_event :: "parse_env \<Rightarrow> string \<Rightarrow> string \<Rightarrow> string \<Rightarrow> string \<Rightarrow> uevent option" where
  "pfsense_event E source fallback fmt line =
     (let cols = pfsense_columns line; col = column cols; action = lower (cols ! 6);
          blocked = List.member BLOCK_ACTIONS action
      in if length cols < PFSENSE_MIN_COLS then None
      else if \<not> truthy (col 18) \<or> \<not> truthy (col 19) then None
      else Some (finalize
        ((firewall_event E (pe_time E (opt_str (syslog_ts_group line ''ts'')) fallback) source line blocked
            (or_str (col 18) []) (or_str (col 19) []))
         \<lparr>ue_hostname := syslog_ts_group line ''host'',
          ue_src_port := as_int (opt_str (col 20)), ue_dst_port := as_int (opt_str (col 21)),
          ue_protocol := normalize_protocol (opt_str (col 16)),
          ue_extra := [(''action'', PStr action), (''direction'', opt_str (map_option lower (col 7))),
            (''interface'', opt_str (col 4)), (''ip_version'', opt_int (as_int (opt_str (col 8)))),
            (''format'', PStr fmt), verdict blocked],
          ue_message := Some (action @ '' '' @ fmt_opt (col 16) @ '' '' @ fmt_opt (col 18) @ '' -> '' @ fmt_opt (col 19))\<rparr>)))"

subsection \<open>A payload\<close>

definition firewall_line :: "string \<Rightarrow> parse_env \<Rightarrow> string \<Rightarrow> string \<Rightarrow> string \<Rightarrow> uevent option" where
  "firewall_line name E source fallback line =
     (let found = detect_format line;
          fmt = (if found = None \<and> List.member SPECIFIC_FORMATS name then Some name else found)
      in case fmt of
           None \<Rightarrow> None
         | Some f \<Rightarrow> if f = ''pfirewall'' then pfirewall_event E source fallback f line
             else if f = ''iptables'' then iptables_event E source fallback f line
             else pfsense_event E source fallback f line)"

definition firewall_parse :: "string \<Rightarrow> parse_env \<Rightarrow> pyval \<Rightarrow> pydict \<Rightarrow> uevent list parsed" where
  "firewall_parse name E p meta = (case p of
     PStr s \<Rightarrow> nonempty_or ''no parseable firewall line''
       (collect (\<lambda>l. Inr (firewall_line name E (meta_source meta name) (fallback_time E meta) l)) (payload_lines s))
   | _ \<Rightarrow> Inl (ParserErr ''firewall log must be text''))"

lemma firewall_line_normal: "firewall_line name E source fb l = Some e \<Longrightarrow> normal_event e"
  by (auto simp: firewall_line_def pfirewall_event_def iptables_event_def pfsense_event_def Let_def finalize_normal
      split: option.splits if_splits)

interpretation firewall: event_parser "firewall_parse name" for name
proof
  fix E p m es
  assume "firewall_parse name E p m = Inr es"
  then obtain s where "nonempty_or ''no parseable firewall line''
      (collect (\<lambda>l. Inr (firewall_line name E (meta_source m name) (fallback_time E m) l)) (payload_lines s)) = Inr es"
    by (cases p) (auto simp: firewall_parse_def)
  then show "es \<noteq> [] \<and> (\<forall>e \<in> set es. normal_event e)"
    by (rule collect_normal) (use firewall_line_normal in auto)
qed

section \<open>Access logs of proxies and web servers\<close>

text \<open>\<open>app/ingest/parsers/web_proxy.py\<close>: the native log of Squid and the combined format.\<close>

subsection \<open>Patterns\<close>

definition spaces1 :: grx where "spaces1 = g_plus g_space"

definition in_quotes :: "string \<Rightarrow> grx" where
  "in_quotes n = g_seq [g_char CHR 0x22, GGroup n (GStar (GSet (\<lambda>c. c \<noteq> CHR 0x22))), g_char CHR 0x22]"

definition bytes_group :: grx where
  "bytes_group = GGroup ''bytes'' (GAlt (g_plus g_digit) (g_char CHR ''-''))"

definition SQUID :: grx where
  "SQUID = g_seq [GStart,
     GGroup ''ts'' (g_seq [g_times 9 g_digit, GStar g_digit, g_opt (g_seq [g_char CHR ''.'', g_plus g_digit])]),
     spaces1, GGroup ''elapsed'' (g_plus g_digit), spaces1, GGroup ''client'' (g_plus g_nonspace), spaces1,
     GGroup ''result'' (g_plus (GSet (\<lambda>c. is_upper_alpha c \<or> c = CHR ''_''))), g_char CHR ''/'',
     GGroup ''status'' (g_times 3 g_digit), spaces1, bytes_group, spaces1,
     GGroup ''method'' (g_plus (GSet is_upper_alpha)), spaces1, GGroup ''url'' (g_plus g_nonspace), spaces1,
     GGroup ''ident'' (g_plus g_nonspace), spaces1, GGroup ''hier'' (g_plus g_nonspace),
     g_opt (g_seq [spaces1, GGroup ''ctype'' (g_plus g_nonspace)])]"

definition COMBINED :: grx where
  "COMBINED = g_seq [GStart, GGroup ''client'' (g_plus g_nonspace), spaces1, g_plus g_nonspace, spaces1,
     GGroup ''user'' (g_plus g_nonspace), spaces1,
     g_char CHR ''['', GGroup ''ts'' (g_plus (GSet (\<lambda>c. c \<noteq> CHR '']''))), g_char CHR '']'', spaces1,
     in_quotes ''request'', spaces1, GGroup ''status'' (g_times 3 g_digit), spaces1, bytes_group, GStar g_space,
     g_opt (g_seq [in_quotes ''referer'', GStar g_space]), g_opt (in_quotes ''ua'')]"

definition REQUEST :: grx where
  "REQUEST = g_seq [GStart, GGroup ''method'' (g_plus (GSet is_upper_alpha)), spaces1,
     GGroup ''target'' (g_plus g_nonspace), spaces1,
     GGroup ''version'' (g_seq [g_lit ''HTTP/'', g_plus (GSet (\<lambda>c. is_digit c \<or> c = CHR ''.''))]), GEnd]"

definition URL_HOST :: grx where
  "URL_HOST = g_seq [g_lit ''http'', g_opt (g_char CHR ''s''), g_lit ''://'',
     GGroup ''1'' (g_plus (GSet (\<lambda>c. c \<notin> set ''/:'')))]"

definition SQUID_DENIED :: "string list" where
  "SQUID_DENIED = [''TCP_DENIED'', ''TCP_DENIED_REPLY'', ''ERR_'', ''UDP_DENIED'']"

subsection \<open>Lines\<close>

definition some_text :: "string \<Rightarrow> string option" where
  "some_text s = (if s = [] then None else Some s)"

definition host_of :: "string option \<Rightarrow> string option" where
  "host_of url =
     (if \<not> truthy url then None
      else let u = or_str url [] in case g_match URL_HOST u of
        Some g \<Rightarrow> Some (lower (grp_text g ''1''))
      | None \<Rightarrow> if startswith u ''/'' then None
          else some_text (lower (hd (split_char CHR '':'' (hd (split_char CHR ''/'' u))))))"

definition no_dash :: "string \<Rightarrow> string option" where
  "no_dash s = (if s = ''-'' then None else Some s)"

definition error_status :: "int option \<Rightarrow> bool" where
  "error_status st = (case st of None \<Rightarrow> False | Some n \<Rightarrow> n \<noteq> 0 \<and> n \<ge> 400)"

definition bytes_field :: "string \<Rightarrow> pyval" where
  "bytes_field s = (if s = ''-'' then PNone else opt_int (as_int (PStr s)))"

definition squid_denied :: "string \<Rightarrow> bool" where
  "squid_denied res = list_ex (\<lambda>d. startswith res d \<or> py_in d res) SQUID_DENIED"

definition squid_event :: "parse_env \<Rightarrow> string \<Rightarrow> string \<Rightarrow> string \<Rightarrow> uevent option" where
  "squid_event E source fallback line = (case g_match SQUID line of
     None \<Rightarrow> None
   | Some g \<Rightarrow>
       let t = grp_text g; status = as_int (PStr (t ''status'')); denied = squid_denied (t ''result'');
           severity = (if denied then ''MEDIUM'' else if error_status status then ''LOW'' else ''INFO'');
           url = no_dash (t ''url'')
       in Some (finalize
         ((new_event (pe_time E (PStr (t ''ts'')) fallback) source ''web'' (make_event_id E source (PStr line)) severity)
          \<lparr>ue_ocsf_class_uid := 4002, ue_ip := Some (t ''client''), ue_src_ip := Some (t ''client''),
           ue_user := no_dash (t ''ident''), ue_url := url, ue_http_method := Some (t ''method''),
           ue_http_status := status, ue_domain := host_of url,
           ue_extra := [(''proxy_result'', PStr (t ''result'')), (''elapsed_ms'', opt_int (as_int (PStr (t ''elapsed'')))),
             (''bytes'', bytes_field (t ''bytes'')), (''hierarchy'', PStr (t ''hier'')), (''format'', PStr ''squid''),
             (''event_type'', PStr (if denied then ''proxy_denied'' else ''http_request''))],
           ue_message := Some (t ''method'' @ '' '' @ or_str url ''-'' @ '' -> '' @ t ''status'' @ '' ('' @ t ''result'' @ '')''),
           ue_raw := Some (bounded_raw (PStr line))\<rparr>)))"

definition combined_match :: "string \<Rightarrow> groups option" where
  "combined_match line = (case g_match COMBINED line of
     None \<Rightarrow> None | Some g \<Rightarrow> if grp_text g ''request'' = [] then None else Some g)"

definition combined_event :: "parse_env \<Rightarrow> string \<Rightarrow> string \<Rightarrow> string \<Rightarrow> uevent option" where
  "combined_event E source fallback line = (case combined_match line of
     None \<Rightarrow> None
   | Some g \<Rightarrow>
       let t = grp_text g; req = g_match REQUEST (t ''request'');
           verb = (case req of None \<Rightarrow> None | Some q \<Rightarrow> grp q ''method'');
           target = (case req of None \<Rightarrow> t ''request'' | Some q \<Rightarrow> grp_text q ''target'');
           status = as_int (PStr (t ''status''))
       in Some (finalize
         ((new_event (pe_time E (PStr (t ''ts'')) fallback) source ''web'' (make_event_id E source (PStr line))
             (if error_status status then ''LOW'' else ''INFO''))
          \<lparr>ue_ocsf_class_uid := 4002, ue_ip := Some (t ''client''), ue_src_ip := Some (t ''client''),
           ue_user := no_dash (t ''user''), ue_url := Some target, ue_http_method := verb,
           ue_http_status := status, ue_user_agent := some_text (t ''ua''), ue_domain := host_of (Some target),
           ue_extra := [(''bytes'', bytes_field (t ''bytes'')), (''referer'', opt_str (grp g ''referer'')),
             (''format'', PStr ''combined''), (''event_type'', PStr ''http_request'')],
           ue_message := Some (or_str verb ''-'' @ '' '' @ target @ '' -> '' @ t ''status''),
           ue_raw := Some (bounded_raw (PStr line))\<rparr>)))"

subsection \<open>A payload\<close>

definition log_lines :: "string \<Rightarrow> string list" where
  "log_lines s = filter (\<lambda>l. \<not> startswith l ''#'') (payload_lines s)"

definition web_line :: "parse_env \<Rightarrow> string \<Rightarrow> string \<Rightarrow> string \<Rightarrow> uevent option" where
  "web_line E source fallback line = first_of (squid_event E source fallback line) (combined_event E source fallback line)"

definition web_can_parse :: "string \<Rightarrow> parse_env \<Rightarrow> pyval \<Rightarrow> pydict \<Rightarrow> bool result" where
  "web_can_parse name E p meta = Inr (case (case p of PStr s \<Rightarrow> log_lines s | _ \<Rightarrow> []) of
     [] \<Rightarrow> False
   | line # _ \<Rightarrow>
       let squid = g_match SQUID line \<noteq> None; combined = combined_match line \<noteq> None in
       if name = ''squid'' then squid
       else if List.member [''nginx'', ''apache'', ''httpd'', ''access_log''] name then combined
       else squid \<or> combined)"

definition web_parse :: "string \<Rightarrow> parse_env \<Rightarrow> pyval \<Rightarrow> pydict \<Rightarrow> uevent list parsed" where
  "web_parse name E p meta = (case p of
     PStr s \<Rightarrow> nonempty_or ''no parseable access log line''
       (collect (\<lambda>l. Inr (web_line E (meta_source meta name) (fallback_time E meta) l)) (log_lines s))
   | _ \<Rightarrow> Inl (ParserErr ''web access log must be text''))"

lemma web_line_normal: "web_line E source fb l = Some e \<Longrightarrow> normal_event e"
  by (auto simp: web_line_def squid_event_def combined_event_def Let_def finalize_normal
      split: option.splits if_splits)

interpretation web: event_parser "web_parse name" for name
proof
  fix E p m es
  assume "web_parse name E p m = Inr es"
  then obtain s where "nonempty_or ''no parseable access log line''
      (collect (\<lambda>l. Inr (web_line E (meta_source m name) (fallback_time E m) l)) (log_lines s)) = Inr es"
    by (cases p) (auto simp: web_parse_def)
  then show "es \<noteq> [] \<and> (\<forall>e \<in> set es. normal_event e)"
    by (rule collect_normal) (use web_line_normal in auto)
qed

end
