(* ===== verification/Parser_Registry.thy ===== *)
theory Parser_Registry
  imports Windows_Event_Parser Zeek_Parser Syslog_Parser Firewall_Parser
begin

section \<open>The registry of parsers\<close>

text \<open>
  \<open>app/ingest/registry.py\<close>: a parser is chosen by the name of the source or by auto-detection, in the order of
  registration; a payload of several lines nobody claims is parsed line by line.  A payload is a
  text or a JSON value (bytes are decoded before).
\<close>

record parser =
  pr_name :: string
  pr_source_type :: string
  pr_can :: "parse_env \<Rightarrow> pyval \<Rightarrow> pydict \<Rightarrow> bool result"
  pr_parse :: "parse_env \<Rightarrow> pyval \<Rightarrow> pydict \<Rightarrow> uevent list parsed"

record parse_result =
  ps_events :: "uevent list"
  ps_parser :: "string option"
  ps_unparsed :: nat
  ps_errors :: "string list"
  ps_detected_by :: string

definition MAX_AUTO_LINES :: nat where "MAX_AUTO_LINES = 500"

subsection \<open>Registration\<close>

record registry =
  rg_parsers :: "(string \<times> parser) list"
  rg_order :: "string list"
  rg_generic :: "string list"

definition empty_registry :: registry where
  "empty_registry = \<lparr>rg_parsers = [], rg_order = [], rg_generic = []\<rparr>"

definition register :: "parser \<Rightarrow> string list \<Rightarrow> bool \<Rightarrow> registry \<Rightarrow> registry" where
  "register p aliases generic g =
     (let ps = foldl (\<lambda>m a. assoc_put a p m) (assoc_put (pr_name p) p (rg_parsers g)) aliases
      in g\<lparr>rg_parsers := ps,
        rg_order := (if List.member (rg_order g) (pr_name p) then rg_order g else rg_order g @ [pr_name p]),
        rg_generic := (if generic then List.insert (pr_name p) (rg_generic g) else rg_generic g)\<rparr>)"

definition registry_get :: "registry \<Rightarrow> string \<Rightarrow> parser option" where
  "registry_get g name = assoc (lower (strip name)) (rg_parsers g)"

subsection \<open>Detection\<close>

text \<open>A \<open>can_parse\<close> that raises counts as no.\<close>

fun detect_in :: "registry \<Rightarrow> parse_env \<Rightarrow> bool \<Rightarrow> pyval \<Rightarrow> pydict \<Rightarrow> string list \<Rightarrow> parser option result" where
  "detect_in g E skip p meta [] = Inr None"
| "detect_in g E skip p meta (n # ns) =
     (if skip \<and> List.member (rg_generic g) n then detect_in g E skip p meta ns
      else case assoc n (rg_parsers g) of
        None \<Rightarrow> Inl KeyError
      | Some q \<Rightarrow> if pr_can q E p meta = Inr True then Inr (Some q) else detect_in g E skip p meta ns)"

definition detect :: "registry \<Rightarrow> parse_env \<Rightarrow> bool \<Rightarrow> pyval \<Rightarrow> pydict \<Rightarrow> parser option result" where
  "detect g E skip p meta = detect_in g E skip p meta (rg_order g)"

subsection \<open>Parsing\<close>

definition failed_run :: "parser \<Rightarrow> string \<Rightarrow> string \<Rightarrow> parse_result" where
  "failed_run q msg by = \<lparr>ps_events = [], ps_parser = Some (pr_name q), ps_unparsed = 0,
     ps_errors = [pr_name q @ '': '' @ msg], ps_detected_by = by\<rparr>"

definition run_parser :: "parse_env \<Rightarrow> parser \<Rightarrow> pyval \<Rightarrow> pydict \<Rightarrow> string \<Rightarrow> parse_result" where
  "run_parser E q p meta by = (case pr_parse q E p meta of
     Inl (ParserErr msg) \<Rightarrow> failed_run q msg by
   | Inl (Internal x) \<Rightarrow> failed_run q (''internal error: '' @ pe_exn_text E x) by
   | Inr es \<Rightarrow> \<lparr>ps_events = es, ps_parser = Some (pr_name q), ps_unparsed = 0, ps_errors = [], ps_detected_by = by\<rparr>)"

definition no_match :: "string \<Rightarrow> string" where
  "no_match source = ''no parser matched source='' @ repr_str source"

definition nothing_parsed :: "string \<Rightarrow> parse_result" where
  "nothing_parsed msg = \<lparr>ps_events = [], ps_parser = None, ps_unparsed = 0, ps_errors = [msg], ps_detected_by = ''auto''\<rparr>"

text \<open>
  The loop over the lines, with the counter of lines; \<open>used\<close> counts the events of each parser.
\<close>

record auto_state =
  au_result :: parse_result
  au_used :: "(string \<times> nat) list"

definition auto_unparsed :: "nat \<Rightarrow> auto_state \<Rightarrow> auto_state" where
  "auto_unparsed n a = a\<lparr>au_result := (au_result a)\<lparr>ps_unparsed := ps_unparsed (au_result a) + n\<rparr>\<rparr>"

definition auto_add :: "parse_env \<Rightarrow> parser \<Rightarrow> string \<Rightarrow> pydict \<Rightarrow> auto_state \<Rightarrow> auto_state" where
  "auto_add E q line meta a =
     (let single = run_parser E q (PStr line) meta ''auto-line''; r = au_result a in
      if ps_events single \<noteq> [] then
        a\<lparr>au_result := r\<lparr>ps_events := ps_events r @ ps_events single\<rparr>,
          au_used := assoc_put (pr_name q) (assoc_default 0 (pr_name q) (au_used a) + length (ps_events single)) (au_used a)\<rparr>
      else auto_unparsed 1 (a\<lparr>au_result := r\<lparr>ps_errors := ps_errors r @ take 1 (ps_errors single)\<rparr>\<rparr>))"

fun auto_lines :: "registry \<Rightarrow> parse_env \<Rightarrow> pydict \<Rightarrow> nat \<Rightarrow> string list \<Rightarrow> auto_state \<Rightarrow> auto_state result" where
  "auto_lines g E meta i [] a = Inr a"
| "auto_lines g E meta i (l # ls) a =
     (if i \<ge> MAX_AUTO_LINES then Inr (auto_unparsed (length (l # ls)) a)
      else if strip l = [] then auto_lines g E meta (Suc i) ls a
      else case detect g E False (PStr (strip l)) meta of
        Inl x \<Rightarrow> Inl x
      | Inr None \<Rightarrow> auto_lines g E meta (Suc i) ls (auto_unparsed 1 a)
      | Inr (Some q) \<Rightarrow> auto_lines g E meta (Suc i) ls (auto_add E q (strip l) meta a))"

definition auto_start :: auto_state where
  "auto_start = \<lparr>au_result = \<lparr>ps_events = [], ps_parser = None, ps_unparsed = 0, ps_errors = [],
     ps_detected_by = ''auto-line''\<rparr>, au_used = []\<rparr>"

definition auto_finish :: "string \<Rightarrow> auto_state \<Rightarrow> parse_result" where
  "auto_finish source a =
     (let r = au_result a; used = map fst (au_used a) in
      if used \<noteq> [] then r\<lparr>ps_parser := Some (if length used = 1 then hd used
        else ''mixed:'' @ join '','' (str_sort used))\<rparr>
      else if ps_errors r = [] then r\<lparr>ps_errors := [no_match source]\<rparr>
      else r)"

definition parse_auto :: "registry \<Rightarrow> parse_env \<Rightarrow> string \<Rightarrow> pyval \<Rightarrow> pydict \<Rightarrow> parse_result result" where
  "parse_auto g E source p meta = (case detect g E False p meta of
     Inl x \<Rightarrow> Inl x
   | Inr (Some q) \<Rightarrow> Inr (run_parser E q p meta ''auto'')
   | Inr None \<Rightarrow> (case p of
       PStr s \<Rightarrow> if CHR 0x0A \<in> set (strip s)
         then (case auto_lines g E meta 0 (splitlines s) auto_start of
             Inl x \<Rightarrow> Inl x | Inr a \<Rightarrow> Inr (auto_finish source a))
         else Inr (nothing_parsed (no_match source))
     | _ \<Rightarrow> Inr (nothing_parsed (no_match source))))"

definition with_source :: "string \<Rightarrow> pydict \<Rightarrow> pydict" where
  "with_source source meta = (if has_key ''source'' meta then meta else assoc_put ''source'' (PStr source) meta)"

definition registry_parse :: "registry \<Rightarrow> parse_env \<Rightarrow> string \<Rightarrow> pyval \<Rightarrow> pydict \<Rightarrow> parse_result result" where
  "registry_parse g E source p meta =
     (case registry_get g source of
        Some q \<Rightarrow> Inr (run_parser E q p (with_source source meta) ''source'')
      | None \<Rightarrow> parse_auto g E source p (with_source source meta))"

subsection \<open>The default registry\<close>

definition mk_parser :: "string \<Rightarrow> string \<Rightarrow> (parse_env \<Rightarrow> pyval \<Rightarrow> pydict \<Rightarrow> bool result) \<Rightarrow>
    (parse_env \<Rightarrow> pyval \<Rightarrow> pydict \<Rightarrow> uevent list parsed) \<Rightarrow> parser" where
  "mk_parser n t c p = \<lparr>pr_name = n, pr_source_type = t, pr_can = c, pr_parse = p\<rparr>"

definition firewall_parser :: "string \<Rightarrow> parser" where
  "firewall_parser n = mk_parser n ''firewall'' (firewall_can_parse n) (firewall_parse n)"

definition web_parser :: "string \<Rightarrow> parser" where
  "web_parser n = mk_parser n ''web'' (web_can_parse n) (web_parse n)"

definition registrations :: "(parser \<times> string list \<times> bool) list" where
  "registrations =
    [(mk_parser ''windows_event'' ''windows_event'' win_can_parse win_parse, [''win_event'', ''winevent'', ''evtx''], False),
     (mk_parser ''suricata'' ''suricata'' suricata_can_parse suricata_parse, [''eve'', ''ids''], False),
     (mk_parser ''zeek'' ''zeek'' zeek_can_parse zeek_parse, [''bro''], False),
     (firewall_parser ''pfsense'', [''opnsense'', ''filterlog''], False),
     (firewall_parser ''pfirewall'', [''windows_firewall''], False),
     (firewall_parser ''iptables'', [''ufw''], False),
     (web_parser ''squid'', [], False),
     (web_parser ''nginx'', [''apache'', ''httpd'', ''access_log''], False),
     (mk_parser ''syslog'' ''syslog'' syslog_can_parse syslog_parse, [''rfc5424'', ''rfc3164''], False),
     (firewall_parser ''firewall'', [], False),
     (web_parser ''web'', [], False),
     (mk_parser ''json'' ''json'' generic_can_parse generic_parse, [''ndjson'', ''generic''], True)]"

definition default_registry :: registry where
  "default_registry = foldl (\<lambda>g (p, aliases, generic). register p aliases generic g) empty_registry registrations"

text \<open>\<open>parser_catalog\<close>.\<close>

fun catalog_from :: "registry \<Rightarrow> string list \<Rightarrow> string list \<Rightarrow> (string \<times> string) list" where
  "catalog_from g seen [] = []"
| "catalog_from g seen (n # ns) = (case registry_get g n of
     None \<Rightarrow> catalog_from g seen ns
   | Some p \<Rightarrow> if List.member seen (pr_name p) then catalog_from g seen ns
       else (pr_name p, pr_source_type p) # catalog_from g (pr_name p # seen) ns)"

definition parser_catalog :: "(string \<times> string) list" where
  "parser_catalog = catalog_from default_registry [] (rg_order default_registry)"

end
