(* ===== verification/Registry_Properties.thy ===== *)
theory Registry_Properties
  imports Parser_Registry
begin

section \<open>Properties of the registry\<close>

text \<open>
  Running a parser through the interface \<open>event_parser\<close>, detection, and the line-by-line mode: which
  events come out and what is counted as unparsed.
\<close>

subsection \<open>Parsers that keep the interface\<close>

definition good_parser :: "parser \<Rightarrow> bool" where
  "good_parser q \<longleftrightarrow> event_parser (pr_parse q)"

definition honest :: "parse_result \<Rightarrow> bool" where
  "honest r \<longleftrightarrow> list_all normal_event (ps_events r) \<and> 1 \<le> length (ps_events r) + length (ps_errors r)"

lemma run_cases:
  assumes "good_parser q"
  shows "(\<exists>es. run_parser E q p m by = \<lparr>ps_events = es, ps_parser = Some (pr_name q), ps_unparsed = 0, ps_errors = [],
      ps_detected_by = by\<rparr> \<and> es \<noteq> [] \<and> list_all normal_event es) \<or> (\<exists>msg. run_parser E q p m by = failed_run q msg by)"
proof (cases "pr_parse q E p m")
  case (Inl x)
  then show ?thesis by (cases x) (auto simp: run_parser_def)
next
  case (Inr es)
  then show ?thesis using event_parser.parse_normal [OF assms [unfolded good_parser_def] Inr]
    by (simp add: run_parser_def list_all_iff)
qed

lemma run_honest: "good_parser q \<Longrightarrow> honest (run_parser E q p m by)"
  using run_cases [of q E p m "by"] by (auto simp: honest_def failed_run_def Suc_le_eq)

lemma default_parsers:
  "good_parser (mk_parser n t c win_parse)" "good_parser (mk_parser n t c suricata_parse)"
  "good_parser (mk_parser n t c zeek_parse)" "good_parser (mk_parser n t c syslog_parse)"
  "good_parser (mk_parser n t c generic_parse)" "good_parser (firewall_parser n)" "good_parser (web_parser n)"
  by (simp_all add: good_parser_def mk_parser_def firewall_parser_def web_parser_def windows.event_parser_axioms
      suricata.event_parser_axioms zeek.event_parser_axioms syslog.event_parser_axioms generic.event_parser_axioms
      firewall.event_parser_axioms web.event_parser_axioms)

subsection \<open>Well-formed registries\<close>

definition wf_registry :: "registry \<Rightarrow> bool" where
  "wf_registry g \<longleftrightarrow> (\<forall>(n, q) \<in> set (rg_parsers g). good_parser q) \<and>
     (\<forall>n \<in> set (rg_order g). \<exists>q. assoc n (rg_parsers g) = Some q)"

lemma assoc_put_mem: "x \<in> set (assoc_put k v m) \<Longrightarrow> x = (k, v) \<or> x \<in> set m"
  by (induction k v m rule: assoc_put.induct) (auto split: if_splits)

lemma assoc_put_defined: "(\<exists>q. assoc n m = Some q) \<Longrightarrow> \<exists>q. assoc n (assoc_put k v m) = Some q"
  by (cases "n = k") auto

lemma wf_put: "good_parser q \<Longrightarrow> wf_registry g \<Longrightarrow> wf_registry (g\<lparr>rg_parsers := assoc_put a q (rg_parsers g)\<rparr>)"
  unfolding wf_registry_def by (auto dest!: assoc_put_mem intro: assoc_put_defined)

lemma wf_puts: "good_parser q \<Longrightarrow> wf_registry g \<Longrightarrow>
    wf_registry (g\<lparr>rg_parsers := foldl (\<lambda>m a. assoc_put a q m) (rg_parsers g) as\<rparr>)"
proof (induction "as" arbitrary: g)
  case (Cons a as)
  then show ?case using Cons.IH [OF _ wf_put [OF Cons.prems, of a]] by simp
qed simp

lemma puts_defined: "(\<exists>q. assoc n m = Some q) \<Longrightarrow> \<exists>q. assoc n (foldl (\<lambda>m a. assoc_put a p m) m as) = Some q"
proof (induction "as" arbitrary: m)
  case (Cons a as)
  then show ?case using assoc_put_defined [OF Cons.prems] by simp
qed simp

lemma wf_register:
  assumes "good_parser p" "wf_registry g"
  shows "wf_registry (register p as gen g)"
proof -
  let ?g = "g\<lparr>rg_parsers := assoc_put (pr_name p) p (rg_parsers g)\<rparr>"
  have w: "wf_registry (?g\<lparr>rg_parsers := foldl (\<lambda>m a. assoc_put a p m) (rg_parsers ?g) as\<rparr>)"
    by (rule wf_puts [OF assms(1) wf_put [OF assms]])
  have "\<exists>q. assoc (pr_name p) (foldl (\<lambda>m a. assoc_put a p m) (assoc_put (pr_name p) p (rg_parsers g)) as) = Some q"
    by (rule puts_defined) simp
  then show ?thesis using w by (auto simp: wf_registry_def register_def Let_def)
qed

lemma wf_registrations:
  "list_all (\<lambda>(p, as, gen). good_parser p) rs \<Longrightarrow> wf_registry g \<Longrightarrow>
    wf_registry (foldl (\<lambda>g (p, as, gen). register p as gen g) g rs)"
  by (induction rs arbitrary: g) (auto intro: wf_register)

lemma wf_default: "wf_registry default_registry"
  unfolding default_registry_def
  by (rule wf_registrations) (simp_all add: registrations_def default_parsers wf_registry_def empty_registry_def)

subsection \<open>Detection\<close>

lemma detect_in_wf:
  assumes "wf_registry g" "set ns \<subseteq> set (rg_order g)"
  shows "\<exists>d. detect_in g E skip p m ns = Inr d \<and> (\<forall>q. d = Some q \<longrightarrow> good_parser q)"
  using assms(2)
proof (induction ns)
  case (Cons n ns)
  then obtain q where q: "assoc n (rg_parsers g) = Some q" using assms(1) by (auto simp: wf_registry_def)
  then have "good_parser q" using assms(1) assoc_in_set [OF q] by (auto simp: wf_registry_def)
  then show ?case using Cons q by auto
qed simp

lemma detect_wf:
  assumes "wf_registry g"
  obtains d where "detect g E skip p m = Inr d" "\<And>q. d = Some q \<Longrightarrow> good_parser q"
  using detect_in_wf [OF assms, of "rg_order g" E skip p m] unfolding detect_def by auto

subsection \<open>Line by line\<close>

text \<open>The events of one line, and whether the line is counted as unparsed.\<close>

definition line_events :: "registry \<Rightarrow> parse_env \<Rightarrow> pydict \<Rightarrow> string \<Rightarrow> uevent list" where
  "line_events g E meta l = (case detect g E False (PStr (strip l)) meta of
     Inr (Some q) \<Rightarrow> if strip l = [] then [] else ps_events (run_parser E q (PStr (strip l)) meta ''auto-line'')
   | _ \<Rightarrow> [])"

definition silent_line :: "registry \<Rightarrow> parse_env \<Rightarrow> pydict \<Rightarrow> string \<Rightarrow> bool" where
  "silent_line g E meta l \<longleftrightarrow> strip l \<noteq> [] \<and> line_events g E meta l = []"

definition au_ok :: "auto_state \<Rightarrow> bool" where
  "au_ok a \<longleftrightarrow> list_all normal_event (ps_events (au_result a)) \<and> (au_used a = [] \<longleftrightarrow> ps_events (au_result a) = [])"

lemma assoc_put_nonempty [simp]: "assoc_put k v m \<noteq> []"
  by (cases "(k, v, m)" rule: assoc_put.cases) auto

lemma auto_lines_spec:
  assumes "wf_registry g"
  shows "au_ok a \<Longrightarrow> \<exists>b. auto_lines g E m i ls a = Inr b \<and> au_ok b \<and>
    ps_events (au_result b) = ps_events (au_result a) @ concat (map (line_events g E m) (take (MAX_AUTO_LINES - i) ls)) \<and>
    ps_unparsed (au_result b) = ps_unparsed (au_result a) +
      length (filter (silent_line g E m) (take (MAX_AUTO_LINES - i) ls)) + (length ls - (MAX_AUTO_LINES - i))"
proof (induction ls arbitrary: i a)
  case (Cons l ls)
  show ?case
  proof (cases "i \<ge> MAX_AUTO_LINES")
    case True
    then show ?thesis using Cons.prems by (simp add: auto_unparsed_def au_ok_def)
  next
    case False
    then obtain n where n: "MAX_AUTO_LINES - i = Suc n" "MAX_AUTO_LINES - Suc i = n"
      by (metis Suc_diff_Suc linorder_not_le)
    obtain d where d: "detect g E False (PStr (strip l)) m = Inr d" "\<And>q. d = Some q \<Longrightarrow> good_parser q"
      using detect_wf [OF assms] by metis
    define a' where "a' = (if strip l = [] then a else case d of None \<Rightarrow> auto_unparsed 1 a
      | Some q \<Rightarrow> auto_add E q (strip l) m a)"
    have step: "auto_lines g E m i (l # ls) a = auto_lines g E m (Suc i) ls a'"
      using False d(1) by (simp add: a'_def split: option.split)
    have ev: "ps_events (au_result a') = ps_events (au_result a) @ line_events g E m l"
      by (auto simp: a'_def line_events_def d(1) auto_unparsed_def auto_add_def Let_def split: option.split)
    have un: "ps_unparsed (au_result a') = ps_unparsed (au_result a) + (if silent_line g E m l then 1 else 0)"
      by (auto simp: a'_def silent_line_def line_events_def d(1) auto_unparsed_def auto_add_def Let_def split: option.split)
    have "au_ok a'"
    proof (cases d)
      case (Some q)
      have "honest (run_parser E q (PStr (strip l)) m ''auto-line'')" by (rule run_honest) (rule d(2) [OF Some])
      then show ?thesis using Cons.prems Some
        by (auto simp: a'_def au_ok_def auto_add_def auto_unparsed_def Let_def honest_def)
    qed (use Cons.prems in \<open>simp add: a'_def au_ok_def auto_unparsed_def\<close>)
    from Cons.IH [OF this, of "Suc i"] show ?thesis unfolding step n by (auto simp: ev un)
  qed
qed (simp add: au_ok_def)

lemma auto_finish_fields [simp]:
  "ps_events (auto_finish s a) = ps_events (au_result a)" "ps_unparsed (auto_finish s a) = ps_unparsed (au_result a)"
  by (auto simp: auto_finish_def Let_def)

lemma auto_finish_honest: "au_ok a \<Longrightarrow> honest (auto_finish s a)"
  unfolding honest_def by (cases "ps_errors (au_result a)") (auto simp: au_ok_def auto_finish_def Let_def Suc_le_eq)

text \<open>
  C17: Whatever a source sends, parsing ends without an exception; every event that comes out is in
  normal form (an internal severity with the number that belongs to it, no blank field), and when
  no event comes out an error says so.
\<close>

theorem registry_parse_is_honest:
  "\<exists>r. registry_parse default_registry E source p meta = Inr r \<and> honest r"
proof -
  have auto: "\<exists>r. parse_auto default_registry E source p m = Inr r \<and> honest r" for m
  proof -
    obtain d where d: "detect default_registry E False p m = Inr d" "\<And>q. d = Some q \<Longrightarrow> good_parser q"
      using detect_wf [OF wf_default] by metis
    show ?thesis
    proof (cases d)
      case None
      have "au_ok auto_start" by (simp add: au_ok_def auto_start_def)
      then have lines: "\<exists>b. auto_lines default_registry E m 0 (splitlines t) auto_start = Inr b \<and> honest (auto_finish source b)" for t
        using auto_lines_spec [OF wf_default, of auto_start E m 0 "splitlines t"] auto_finish_honest by blast
      have "honest (nothing_parsed msg)" for msg by (simp add: honest_def nothing_parsed_def)
      then show ?thesis
      proof (cases p)
        case (PStr t)
        then show ?thesis using lines [of t] d(1) None \<open>\<And>msg. honest (nothing_parsed msg)\<close> by (auto simp: parse_auto_def)
      qed (use d(1) None in \<open>simp_all add: parse_auto_def\<close>)
    qed (use d run_honest in \<open>simp add: parse_auto_def\<close>)
  qed
  have "registry_get default_registry source = Some q \<Longrightarrow> good_parser q" for q
    using wf_default by (auto simp: registry_get_def wf_registry_def dest: assoc_in_set)
  then show ?thesis using auto run_honest by (auto simp: registry_parse_def split: option.split)
qed

subsection \<open>A mixed payload\<close>

text \<open>The events of a payload sent alone.\<close>

definition events_of :: "parse_env \<Rightarrow> string \<Rightarrow> pydict \<Rightarrow> string \<Rightarrow> uevent list" where
  "events_of E source meta s = (case registry_parse default_registry E source (PStr s) meta of
     Inr r \<Rightarrow> ps_events r | Inl _ \<Rightarrow> [])"

definition content_lines :: "string \<Rightarrow> string list" where
  "content_lines s = filter (\<lambda>l. l \<noteq> []) (map strip (take MAX_AUTO_LINES (splitlines s)))"

lemma set_strip: "set (strip s) \<subseteq> set s"
  by (auto simp: strip_def lstrip_def rstrip_def dest!: set_dropWhileD)

lemma run_events_by: "ps_events (run_parser E q p m a) = ps_events (run_parser E q p m b)"
  by (auto simp: run_parser_def failed_run_def split: sum.split perr.split)

lemma line_events_alone:
  assumes "registry_get default_registry source = None" "l \<in> set (splitlines s)" "strip l \<noteq> []"
  shows "line_events default_registry E (with_source source meta) l = events_of E source meta (strip l)"
proof -
  have "CHR 0x0A \<notin> set (strip (strip l))"
    using splitlines_no_newline [OF assms(2)] set_strip [of "strip l"] set_strip [of l] by auto
  then show ?thesis
    using assms(1,3) run_events_by [of E _ "PStr (strip l)" "with_source source meta" "''auto''" "''auto-line''"]
    by (auto simp: line_events_def events_of_def registry_parse_def parse_auto_def nothing_parsed_def
        split: option.split sum.split)
qed

lemma lines_alone:
  assumes "registry_get default_registry source = None" "set ls \<subseteq> set (splitlines s)"
  shows "concat (map (line_events default_registry E (with_source source meta)) ls) =
      concat (map (events_of E source meta) (filter (\<lambda>l. l \<noteq> []) (map strip ls))) \<and>
    length (filter (silent_line default_registry E (with_source source meta)) ls) =
      length (filter (\<lambda>l. events_of E source meta l = []) (filter (\<lambda>l. l \<noteq> []) (map strip ls)))"
  using assms(2)
proof (induction ls)
  case (Cons l ls)
  have "strip l = [] \<Longrightarrow> line_events default_registry E (with_source source meta) l = []"
    by (simp add: line_events_def split: option.split sum.split)
  then show ?case using Cons line_events_alone [OF assms(1), of l s E meta] by (auto simp: silent_line_def)
qed simp

text \<open>
  C18: A payload of several lines that no parser claims as a whole is parsed line by line: its events are, in
  order, those that its first 500 lines give when each is sent alone, and every other line with content,
  and every line beyond the limit, is counted as unparsed.
\<close>

theorem mixed_payload_line_by_line:
  assumes "registry_get default_registry source = None"
    "detect default_registry E False (PStr s) (with_source source meta) = Inr None" "CHR 0x0A \<in> set (strip s)"
  shows "\<exists>r. registry_parse default_registry E source (PStr s) meta = Inr r \<and>
    ps_events r = concat (map (events_of E source meta) (content_lines s)) \<and>
    ps_unparsed r = length (filter (\<lambda>l. events_of E source meta l = []) (content_lines s)) +
      (length (splitlines s) - MAX_AUTO_LINES)"
proof -
  have "au_ok auto_start" by (simp add: au_ok_def auto_start_def)
  from auto_lines_spec [OF wf_default this, of E "with_source source meta" 0 "splitlines s"]
  obtain b where b: "auto_lines default_registry E (with_source source meta) 0 (splitlines s) auto_start = Inr b"
    "ps_events (au_result b) = concat (map (line_events default_registry E (with_source source meta)) (take MAX_AUTO_LINES (splitlines s)))"
    "ps_unparsed (au_result b) = length (filter (silent_line default_registry E (with_source source meta)) (take MAX_AUTO_LINES (splitlines s))) +
      (length (splitlines s) - MAX_AUTO_LINES)"
    by (auto simp: auto_start_def)
  then show ?thesis
    using assms lines_alone [OF assms(1), of "take MAX_AUTO_LINES (splitlines s)" s E meta] set_take_subset [of MAX_AUTO_LINES "splitlines s"]
    by (simp add: registry_parse_def parse_auto_def content_lines_def)
qed

text \<open>A concrete environment: times are printed as they come, the digest is the identity.\<close>

definition demo_env :: parse_env where
  "demo_env = \<lparr>pe_time = (\<lambda>v d. if present v then py_str v else d), pe_now = ''now'', pe_sha256 = (\<lambda>s. s),
     pe_float = (\<lambda>_. None), pe_exn_text = (\<lambda>_. ''error'')\<rparr>"

definition mixed_payload :: string where
  "mixed_payload = ''hello'' @ [CHR 0x0A] @ ''<13>cron: done''"

theorem mixed_payload_line_by_line_witness:
  "\<exists>r. registry_parse default_registry demo_env ''relay'' (PStr mixed_payload) [] = Inr r \<and>
    map ue_message (ps_events r) = [Some ''done''] \<and> ps_unparsed r = 1"
proof -
  have "Option.is_none (registry_get default_registry ''relay'')" by code_simp
  then have "registry_get default_registry ''relay'' = None" by (simp add: Option.is_none_def)
  moreover have "case detect default_registry demo_env False (PStr mixed_payload) (with_source ''relay'' []) of
      Inr None \<Rightarrow> True | _ \<Rightarrow> False" by code_simp
  then have "detect default_registry demo_env False (PStr mixed_payload) (with_source ''relay'' []) = Inr None"
    by (simp split: sum.splits option.splits)
  moreover have "CHR 0x0A \<in> set (strip mixed_payload)" by code_simp
  moreover have "content_lines mixed_payload = [''hello'', ''<13>cron: done'']" "length (splitlines mixed_payload) = 2"
    by code_simp+
  moreover have "length (events_of demo_env ''relay'' [] ''hello'') = 0" by code_simp
  moreover have "map ue_message (events_of demo_env ''relay'' [] ''<13>cron: done'') = [Some ''done'']" by code_simp
  ultimately show ?thesis
    using mixed_payload_line_by_line [of "''relay''" demo_env mixed_payload "[]"] by (auto simp: MAX_AUTO_LINES_def)
qed

end
