(* ===== verification/Syslog_Properties.thy ===== *)
theory Syslog_Properties
  imports Syslog_Parser
begin

section \<open>Properties of the syslog parser\<close>

text \<open>
  Each part of the RFC 3164 pattern on a text that was printed for it, then the whole line: parsing reads back what was
  printed.  The facts about the parts hold for every continuation, so they compose.
\<close>

subsection \<open>Steps of the pattern\<close>

lemma star_stop: "v = [] \<or> \<not> p (hd v) \<Longrightarrow> star_greedy (gm (GSet p)) n k (MState b v g) = k (MState b v g)"
  by (cases n; cases v) auto

lemma gm_star_stop: "v = [] \<or> \<not> p (hd v) \<Longrightarrow> gm (GStar (GSet p)) k (MState b v g) = k (MState b v g)"
  using star_stop by simp

lemma take_prefix [simp]: "take (length (u @ v) - length v) (u @ v) = u"
  by simp

lemma group_greedy:
  assumes "\<forall>c \<in> set u. p c" "u \<noteq> []" "v = [] \<or> \<not> p (hd v)" "k (MState (Some (last u)) v (assoc_put n u g)) = Some x"
  shows "gm (GGroup n (g_plus (GSet p))) k (MState b (u @ v) g) = Some x"
  using gm_greedy_plus [of u p v "\<lambda>st'. k (capture n (MState b (u @ v) g) st')" g x b] assms by simp

lemma digit_facts: "\<not> is_digit CHR ''>''" "\<not> is_digit CHR '']''" "\<not> is_digit CHR '' ''" "\<not> is_digit CHR '':''"
    "is_space CHR '' ''" "\<not> is_space CHR '':''"
  by code_simp+

lemma digit_not_gt: "is_digit c \<Longrightarrow> c \<noteq> CHR ''>''"
  using digit_facts by blast

text \<open>Up to three digits in angle brackets, and nothing else, match \<open>PRI\<close>.\<close>

lemma PRI_step:
  assumes "list_all is_digit ds" "ds \<noteq> []" "length ds \<le> 3"
  shows "gm PRI k (MState None (CHR ''<'' # ds @ CHR ''>'' # r) g) = k (MState (Some CHR ''>'') r (assoc_put ''pri'' ds g))"
proof -
  obtain a ds' where ds: "ds = a # ds'" using assms(2) by (cases ds) auto
  then consider "ds = [a]" | b where "ds = [a, b]" | b c where "ds = [a, b, c]"
    using assms(3) by (cases ds'; cases "tl ds'"; cases "tl (tl ds')") auto
  then show ?thesis
    using assms(1)
    by cases (auto simp: PRI_def g_char_def g_digit_def digit_facts numeral_2_eq_2 dest: digit_not_gt split: option.split)
qed

text \<open>A time of RFC 3164: month, day of two digits, hours, minutes and seconds.\<close>

definition bsd_time :: "string \<Rightarrow> bool" where
  "bsd_time t \<longleftrightarrow> (case t of
     [m1, m2, m3, s1, d1, d2, s2, h1, h2, c1, n1, n2, c2, x1, x2] \<Rightarrow>
       is_upper_alpha m1 \<and> is_lower_alpha m2 \<and> is_lower_alpha m3 \<and> s1 = CHR '' '' \<and> s2 = CHR '' '' \<and>
       c1 = CHR '':'' \<and> c2 = CHR '':'' \<and> list_all is_digit [d1, d2, h1, h2, n1, n2, x1, x2]
   | _ \<Rightarrow> False)"

lemma digit_not_space: "is_digit c \<Longrightarrow> \<not> is_space c"
  using digit_not_space_sign by blast

lemma TIME_step:
  assumes "bsd_time t" "k (MState (Some (last t)) r (assoc_put ''ts'' t g)) = Some x"
  shows "gm (GGroup ''ts'' BSD_TIME) k (MState b (t @ r) g) = Some x"
  using assms
  by (auto simp: bsd_time_def BSD_TIME_def g_char_def g_digit_def g_space_def g_plus_def digit_facts gm_star_stop
      digit_not_space numeral_2_eq_2 simp del: gm.simps(5) split: list.splits)

lemma MESSAGE_step:
  "gm (g_seq [g_char CHR '':'', g_opt g_space, GGroup ''msg'' (GStar g_any), GEnd]) Some
     (MState b ('': '' @ msg) g) = Some (MState (after_run (Some CHR '' '') msg) [] (assoc_put ''msg'' msg g))"
proof -
  have "gm (GStar g_any) (\<lambda>st'. gm GEnd Some (capture ''msg'' (MState (Some CHR '' '') msg g) st')) (MState (Some CHR '' '') (msg @ []) g) =
      Some (MState (after_run (Some CHR '' '') msg) [] (assoc_put ''msg'' msg g))"
    unfolding g_any_def by (rule gm_greedy) auto
  then show ?thesis by (simp add: g_char_def g_opt_def g_space_def digit_facts del: gm.simps(5))
qed

lemma PID_step:
  assumes "list_all is_digit ds" "ds \<noteq> []"
  shows "gm PID_AND_MESSAGE Some (MState b (CHR ''['' # ds @ '']: '' @ msg) g) =
    Some (MState (after_run (Some CHR '' '') msg) [] (assoc_put ''msg'' msg (assoc_put ''pid'' ds g)))"
proof -
  let ?k = "gm (g_char CHR '']'') (gm (g_seq [g_char CHR '':'', g_opt g_space, GGroup ''msg'' (GStar g_any), GEnd]) Some)"
  have "gm (GGroup ''pid'' (g_plus (GSet is_digit))) ?k (MState (Some CHR ''['') (ds @ '']: '' @ msg) g) =
      Some (MState (after_run (Some CHR '' '') msg) [] (assoc_put ''msg'' msg (assoc_put ''pid'' ds g)))"
  proof (rule group_greedy)
    show "?k (MState (Some (last ds)) ('']: '' @ msg) (assoc_put ''pid'' ds g)) =
        Some (MState (after_run (Some CHR '' '') msg) [] (assoc_put ''msg'' msg (assoc_put ''pid'' ds g)))"
      using MESSAGE_step [of "Some CHR '']''" msg "assoc_put ''pid'' ds g"] by (simp add: g_char_def del: g_seq.simps)
  qed (use assms digit_facts in \<open>auto simp: list_all_iff\<close>)
  then show ?thesis
    by (simp add: PID_AND_MESSAGE_def g_opt_def g_char_def g_digit_def g_plus_def del: gm.simps(5))
qed

lemma PID_None: "c \<noteq> CHR ''['' \<Longrightarrow> c \<noteq> CHR '':'' \<Longrightarrow> gm PID_AND_MESSAGE k (MState b (c # w) g) = None"
  by (simp add: PID_AND_MESSAGE_def g_opt_def g_char_def)

lemma TAG_step:
  assumes "tag \<noteq> []" "list_all (not_chars '':['') tag" "gm PID_AND_MESSAGE Some (MState (Some (last tag)) r (assoc_put ''tag'' tag g)) = Some x"
  shows "gm (GGroup ''tag'' (g_plus_lazy (GSet (not_chars '':['')))) (gm PID_AND_MESSAGE Some) (MState b (tag @ r) g) = Some x"
proof -
  have "gm (g_plus_lazy (GSet (not_chars '':[''))) (\<lambda>st'. gm PID_AND_MESSAGE Some (capture ''tag'' (MState b (tag @ r) g) st'))
      (MState b (tag @ r) g) = Some x"
  proof (rule gm_lazy_plus)
    fix a w assume w: "tag = a @ w" "a \<noteq> []" "w \<noteq> []"
    then obtain c w' where "w = c # w'" "c \<noteq> CHR ''[''" "c \<noteq> CHR '':''"
      using assms(2) by (cases w) (auto simp: not_chars_def)
    then show "gm PID_AND_MESSAGE Some (capture ''tag'' (MState b (tag @ r) g) (MState (Some (last a)) (w @ r) g)) = None"
      by (simp add: PID_None)
  qed (use assms in \<open>auto simp: list_all_iff\<close>)
  then show ?thesis by simp
qed

subsection \<open>A printed line\<close>

record bsd_message =
  bm_pri :: nat
  bm_time :: string
  bm_host :: string
  bm_tag :: string
  bm_pid :: nat
  bm_msg :: string

definition print_bsd :: "bsd_message \<Rightarrow> string" where
  "print_bsd m = CHR ''<'' # show_nat (bm_pri m) @ CHR ''>'' # bm_time m @ CHR '' '' # bm_host m @ CHR '' '' # bm_tag m @
     CHR ''['' # show_nat (bm_pid m) @ '']: '' @ bm_msg m"

definition plain_word :: "string \<Rightarrow> bool" where
  "plain_word w \<longleftrightarrow> w \<noteq> [] \<and> printable w \<and> list_all (\<lambda>c. \<not> is_space c) w"

definition wf_bsd :: "bsd_message \<Rightarrow> bool" where
  "wf_bsd m \<longleftrightarrow> 1 \<le> bm_pri m \<and> bm_pri m \<le> 191 \<and> bsd_time (bm_time m) \<and>
     plain_word (bm_host m) \<and> bm_host m \<noteq> ''-'' \<and> plain_word (bm_tag m) \<and> list_all (not_chars '':['') (bm_tag m) \<and>
     printable (bm_msg m) \<and> bm_msg m \<noteq> [] \<and> \<not> is_space (hd (bm_msg m)) \<and> \<not> is_space (last (bm_msg m))"

lemma show_nat_digits_all: "list_all is_digit (show_nat n)"
  using show_nat_digits by (simp add: list_all_iff)

lemma show_nat_3: "n \<le> 191 \<Longrightarrow> length (show_nat n) \<le> 3"
proof -
  assume n: "n \<le> 191"
  have one: "d < 10 \<Longrightarrow> length (show_nat d) = 1" for d by (simp add: show_nat.simps [of d])
  have "length (show_nat (n div 10)) \<le> 2"
    using n one [of "n div 10 div 10"] by (subst show_nat.simps) auto
  then show ?thesis by (subst show_nat.simps) auto
qed

lemma bsd_time_head: "bsd_time t \<Longrightarrow> \<exists>c t'. t = c # t' \<and> is_upper_alpha c"
  by (cases t) (auto simp: bsd_time_def split: list.splits)

lemma upper_not_digit: "is_upper_alpha c \<Longrightarrow> \<not> is_digit c"
  by (simp add: is_upper_alpha_def is_digit_def)

lemma RFC5424_fails:
  assumes "list_all is_digit ds" "ds \<noteq> []" "length ds \<le> 3" "bsd_time t"
  shows "g_match RFC5424 (CHR ''<'' # ds @ CHR ''>'' # t @ r) = None"
proof -
  obtain c t' where t: "t = c # t'" "\<not> is_digit c" using bsd_time_head [OF assms(4)] upper_not_digit by blast
  show ?thesis
    unfolding g_match_def RFC5424_def g_seq.simps gm.simps(3) PRI_step [OF assms(1-3)]
    by (simp add: t g_digit_def)
qed

lemma RFC3164_reads:
  assumes "wf_bsd m"
  shows "g_match RFC3164 (print_bsd m) = Some [(''pri'', show_nat (bm_pri m)), (''ts'', bm_time m), (''host'', bm_host m),
    (''tag'', bm_tag m), (''pid'', show_nat (bm_pid m)), (''msg'', bm_msg m)]"
proof -
  let ?g2 = "[(''pri'', show_nat (bm_pri m)), (''ts'', bm_time m)]"
  let ?g3 = "?g2 @ [(''host'', bm_host m)]" let ?g4 = "?g3 @ [(''tag'', bm_tag m)]"
  let ?tagged = "CHR ''['' # show_nat (bm_pid m) @ '']: '' @ bm_msg m"
  let ?final = "MState (after_run (Some CHR '' '') (bm_msg m)) [] (?g4 @ [(''pid'', show_nat (bm_pid m)), (''msg'', bm_msg m)])"
  let ?tag = "gm (GGroup ''tag'' (g_plus_lazy (GSet (not_chars '':[''))))"
  have "gm PID_AND_MESSAGE Some (MState (Some (last (bm_tag m))) ?tagged ?g4) = Some ?final"
    using PID_step [OF show_nat_digits_all show_nat_nonempty] by simp
  then have 1: "?tag (gm PID_AND_MESSAGE Some) (MState (Some CHR '' '') (bm_tag m @ ?tagged) ?g3) = Some ?final"
    by (intro TAG_step) (use assms in \<open>simp_all add: wf_bsd_def plain_word_def\<close>)
  then have 2: "gm g_space (?tag (gm PID_AND_MESSAGE Some)) (MState (Some (last (bm_host m))) (CHR '' '' # bm_tag m @ ?tagged) ?g3) = Some ?final"
    by (simp add: g_space_def digit_facts del: gm.simps(7))
  have 3: "gm (GGroup ''host'' (g_plus g_nonspace)) (gm g_space (?tag (gm PID_AND_MESSAGE Some)))
      (MState (Some CHR '' '') (bm_host m @ CHR '' '' # bm_tag m @ ?tagged) ?g2) = Some ?final"
    unfolding g_nonspace_def
    by (rule group_greedy) (use 2 assms in \<open>auto simp: wf_bsd_def plain_word_def list_all_iff digit_facts\<close>)
  then have 4: "gm g_space (gm (GGroup ''host'' (g_plus g_nonspace)) (gm g_space (?tag (gm PID_AND_MESSAGE Some))))
      (MState (Some (last (bm_time m))) (CHR '' '' # bm_host m @ CHR '' '' # bm_tag m @ ?tagged) ?g2) = Some ?final"
    by (simp add: g_space_def digit_facts del: gm.simps(7))
  have 5: "gm (GGroup ''ts'' BSD_TIME) (gm g_space (gm (GGroup ''host'' (g_plus g_nonspace)) (gm g_space (?tag (gm PID_AND_MESSAGE Some)))))
      (MState (Some CHR ''>'') (bm_time m @ CHR '' '' # bm_host m @ CHR '' '' # bm_tag m @ ?tagged) [(''pri'', show_nat (bm_pri m))]) = Some ?final"
    by (rule TIME_step) (use 4 assms in \<open>simp_all add: wf_bsd_def\<close>)
  have "length (show_nat (bm_pri m)) \<le> 3" using assms show_nat_3 by (simp add: wf_bsd_def)
  from PRI_step [OF show_nat_digits_all show_nat_nonempty this]
  have "gm RFC3164 Some (MState None (print_bsd m) []) = Some ?final"
    unfolding RFC3164_def g_seq.simps gm.simps(3) print_bsd_def using 5 by simp
  then show ?thesis by (simp add: g_match_def)
qed

lemma syslog_match_bsd:
  assumes "wf_bsd m"
  shows "syslog_match (print_bsd m) = Some \<lparr>sh_pri = show_nat (bm_pri m), sh_time = Some (bm_time m),
    sh_host = Some (bm_host m), sh_app = Some (bm_tag m), sh_procid = Some (show_nat (bm_pid m)), sh_msgid = None,
    sh_sd = None, sh_msg = Some (bm_msg m), sh_structured = False\<rparr>"
proof -
  have "g_match RFC5424 (print_bsd m) = None"
    unfolding print_bsd_def by (rule RFC5424_fails) (use assms show_nat_3 in \<open>auto simp: wf_bsd_def show_nat_digits_all\<close>)
  then show ?thesis using RFC3164_reads [OF assms]
    by (simp add: syslog_match_def bsd_match_def bsd_head_def grp_def grp_text_def)
qed

subsection \<open>The event of a line\<close>

lemma printable_append [simp]: "printable (u @ v) \<longleftrightarrow> printable u \<and> printable v"
  by (simp add: printable_def)

lemma printable_Cons: "printable (c # v) \<longleftrightarrow> 31 < code c \<and> code c < 127 \<and> printable v"
  by (simp add: printable_def)

lemma printable_digits: "list_all is_digit ds \<Longrightarrow> printable ds"
  by (auto simp: printable_def list_all_iff is_digit_def)

lemma printable_consts: "printable '' ''" "printable ''<''" "printable ''>''" "printable ''[''" "printable '']: ''" "printable '':''"
  by code_simp+

lemma printable_time: "bsd_time t \<Longrightarrow> printable t"
proof -
  have "31 < code CHR '' ''" "code CHR '' '' < 127" "31 < code CHR '':''" "code CHR '':'' < 127" by code_simp+
  then show "bsd_time t \<Longrightarrow> printable t"
    by (auto simp: bsd_time_def printable_def is_upper_alpha_def is_lower_alpha_def is_digit_def split: list.splits)
qed

lemma bsd_payload_lines: "wf_bsd m \<Longrightarrow> payload_lines (print_bsd m) = [print_bsd m]"
proof -
  assume w: "wf_bsd m"
  let ?l = "print_bsd m"
  have "printable ?l"
    using w printable_consts printable_digits [OF show_nat_digits_all] printable_time
    by (simp add: print_bsd_def wf_bsd_def plain_word_def printable_Cons)
  moreover have "strip ?l = ?l"
    by (rule strip_id) (use w in \<open>auto simp: print_bsd_def wf_bsd_def is_space_def code_def\<close>)
  moreover have "?l \<noteq> []" by (simp add: print_bsd_def)
  ultimately show ?thesis by (simp add: payload_lines_def splitlines_printable)
qed

lemma keep_text: "s \<noteq> [] \<Longrightarrow> list_all (\<lambda>c. \<not> is_space c) s \<Longrightarrow> blank_to_none (Some s) = Some s"
  by (cases s) (auto simp: blank_to_none_def strip_Nil_iff all_space_def)

lemma outcome_internal:
  assumes "sev \<in> set INTERNAL_SEVERITIES"
  shows "snd (auth_outcome tag msg sev) \<in> set INTERNAL_SEVERITIES"
proof -
  have "''HIGH'' \<in> set INTERNAL_SEVERITIES" by (simp add: INTERNAL_SEVERITIES_def)
  then show ?thesis using assms by (auto simp: auth_outcome_def split: if_splits)
qed

lemma syslog_event_severity:
  "ue_severity (syslog_event E h line src fb) = snd (auth_outcome (strip (or_str (sh_app h) []))
     (strip (or_str (sh_msg h) (or_str (sh_sd h) []))) (normalize_severity (PInt (priority (sh_pri h) mod 8)) ''syslog''))"
proof -
  define out where "out = auth_outcome (strip (or_str (sh_app h) [])) (strip (or_str (sh_msg h) (or_str (sh_sd h) [])))
    (normalize_severity (PInt (priority (sh_pri h) mod 8)) ''syslog'')"
  have "snd out \<in> set INTERNAL_SEVERITIES" unfolding out_def by (rule outcome_internal [OF normalize_severity_internal])
  then show ?thesis
    unfolding syslog_event_def Let_def out_def [symmetric] case_prod_beta
    by (subst finalize_severity) (simp_all add: new_event_def)
qed

lemma syslog_event_fields:
  "ue_hostname (syslog_event E h line src fb) = blank_to_none (if sh_host h = Some ''-'' then None else sh_host h)"
  "ue_pid (syslog_event E h line src fb) = as_int (opt_str (sh_procid h))"
  "ue_time (syslog_event E h line src fb) = (if truthy (sh_time h) then pe_time E (opt_str (sh_time h)) fb else fb)"
  "ue_process_name (syslog_event E h line src fb) = blank_to_none
     (if strip (or_str (sh_app h) []) = [] then None else Some (strip (or_str (sh_app h) [])))"
  "ue_message (syslog_event E h line src fb) = (let t = clip 2000 (strip (or_str (sh_msg h) (or_str (sh_sd h) [])))
     in if t = [] then None else Some t)"
  unfolding syslog_event_def Let_def case_prod_beta finalize_fields by (simp_all add: new_event_def)

lemma facility_kept:
  "dict_get (ue_extra (syslog_event E h line src fb)) ''facility'' = opt_str (assoc (priority (sh_pri h) div 8) FACILITIES)"
proof -
  have a: "assoc k (xs @ ys) = (case assoc k xs of None \<Rightarrow> assoc k ys | Some v \<Rightarrow> Some v)" for k :: string and xs ys :: pydict
    by (induction xs) auto
  show ?thesis
    unfolding syslog_event_def Let_def case_prod_beta finalize_fields
    by (simp add: syslog_extra_def dict_get_def a opt_str_def split: option.split)
qed


definition sshd_message :: bsd_message where
  "sshd_message = \<lparr>bm_pri = 38, bm_time = ''Sep 15 12:00:01'', bm_host = ''gate'', bm_tag = ''sshd'', bm_pid = 77,
     bm_msg = ''Failed password for root''\<rparr>"


end
