(* ===== verification/Parser_Behaviour.thy ===== *)
theory Parser_Behaviour
  imports Registry_Properties Syslog_Properties
begin

section \<open>Places where the parsers do not do what they say\<close>

text \<open>
  The port of an iptables line makes it a denied connection; one record with a number where a text is expected loses its
  whole batch; a priority of zero is replaced; a nil time loses the line; an indented XML document is
  cut into lines.
\<close>

subsection \<open>Groups and searches\<close>

primrec names_of :: "grx \<Rightarrow> string set" where
  "names_of GEps = {}"
| "names_of (GSet p) = {}"
| "names_of (GSeq r s) = names_of r \<union> names_of s"
| "names_of (GAlt r s) = names_of r \<union> names_of s"
| "names_of (GStar r) = names_of r"
| "names_of (GLazy r) = names_of r"
| "names_of (GGroup n r) = insert n (names_of r)"
| "names_of (GRef n) = {}"
| "names_of GStart = {}"
| "names_of GEnd = {}"
| "names_of GWordB = {}"
| "names_of (GNotAfter p) = {}"
| "names_of (GPeek p) = {}"

text \<open>A pattern keeps the groups it does not name.\<close>

lemma groups_kept:
  "(st, st') \<in> gsem r \<Longrightarrow> n \<notin> names_of r \<Longrightarrow> assoc n (groups st') = assoc n (groups st)"
proof (induction r arbitrary: st st')
  case (GSet p)
  then show ?case by (cases "(p, st)" rule: take_char.cases) (auto split: if_splits)
next
  case (GStar r)
  have "(st, st') \<in> (strictly (gsem r))\<^sup>*" using GStar.prems by simp
  then show ?case by (induction) (use GStar in \<open>auto simp: strictly_def\<close>)
next
  case (GLazy r)
  have "(st, st') \<in> (strictly (gsem r))\<^sup>*" using GLazy.prems by simp
  then show ?case by (induction) (use GLazy in \<open>auto simp: strictly_def\<close>)
next
  case (GGroup m r)
  then obtain u where u: "st' = capture m st u" "(st, u) \<in> gsem r" by auto
  have "n \<noteq> m" "assoc n (groups u) = assoc n (groups st)" using GGroup.IH [OF u(2)] GGroup.prems(2) by simp_all
  moreover have "\<exists>w. groups (capture m st u) = assoc_put m w (groups u)" by (cases st; cases u) auto
  ultimately show ?case using u(1) by auto
next
  case (GRef m)
  then show ?case by (cases st) (auto split: option.splits if_splits)
qed auto

lemma found_at: "gm r Some (MState (after_run b u) w []) \<noteq> None \<Longrightarrow> g_search_from r b (u @ w) \<noteq> None"
proof (induction u arbitrary: b)
  case Nil
  then show ?case by (cases w) (auto split: option.splits)
next
  case (Cons c u)
  then show ?case by (auto split: option.splits)
qed

subsection \<open>iptables\<close>

lemma DPT_blocks: "g_found BLOCK_WORD (u @ '' DPT='' @ v)"
proof -
  have w: "\<not> is_word CHR '' ''" "is_word CHR ''D''" "is_word CHR ''T''" "\<not> is_word CHR ''=''"
    "lower_char CHR ''D'' = CHR ''d''" "lower_char CHR ''P'' = CHR ''p''" "lower_char CHR ''T'' = CHR ''t''"
    "lower_char CHR ''d'' = CHR ''d''" "lower_char CHR ''p'' = CHR ''p''" "lower_char CHR ''t'' = CHR ''t''"
    by code_simp+
  have "gm BLOCK_WORD Some (MState (after_run None (u @ '' '')) (''DPT='' @ v) []) \<noteq> None"
    by (simp add: BLOCK_WORD_def g_words_ci_def w word_before_def after_run_def)
  from found_at [OF this] show ?thesis by (simp add: g_found_def g_search_def)
qed

text \<open>
  Every iptables or ufw line that names a destination port is taken for a denied connection of severity MEDIUM,
  whatever the firewall did, unless the line has the word \<open>accept\<close> or \<open>allow\<close>: the pattern that looks for
  \<open>block\<close>, \<open>drop\<close> or \<open>deny\<close> also looks for \<open>dpt\<close>, which is the name of the port field.
\<close>

theorem iptables_port_means_denied:
  assumes "line = u @ '' DPT='' @ v" "\<not> g_found ALLOW_WORD line" "iptables_event E source fb fmt line = Some e"
  shows "ue_severity e = ''MEDIUM'' \<and> dict_get (ue_extra e) ''event_type'' = PStr ''network_denied''"
proof -
  have b: "iptables_blocked line" using DPT_blocks assms(1,2) by (simp add: iptables_blocked_def)
  have "''MEDIUM'' \<in> set INTERNAL_SEVERITIES" by (simp add: INTERNAL_SEVERITIES_def)
  then show ?thesis using assms(3) b
    by (auto simp: iptables_event_def Let_def finalize_severity finalize_fields firewall_event_def new_event_def
        verdict_def dict_get_def split: if_splits)
qed

definition ufw_audit_line :: string where
  "ufw_audit_line = ''[UFW AUDIT] IN= SRC=10.0.0.1 DST=10.0.0.2 DPT=443''"

theorem iptables_port_means_denied_witness:
  "\<exists>e. iptables_event demo_env ''fw'' ''now'' ''ufw'' ufw_audit_line = Some e \<and>
    dict_get (ue_extra e) ''event_type'' = PStr ''network_denied''"
proof -
  have "truthy (assoc ''SRC'' (kv_fields ufw_audit_line)) \<and> truthy (assoc ''DST'' (kv_fields ufw_audit_line))" by code_simp
  then obtain e where "iptables_event demo_env ''fw'' ''now'' ''ufw'' ufw_audit_line = Some e"
    by (auto simp: iptables_event_def Let_def)
  moreover have "ufw_audit_line = ''[UFW AUDIT] IN= SRC=10.0.0.1 DST=10.0.0.2'' @ '' DPT='' @ ''443''" by code_simp
  moreover have "\<not> g_found ALLOW_WORD ufw_audit_line" by code_simp
  ultimately show ?thesis using iptables_port_means_denied by blast
qed

subsection \<open>One bad record\<close>

lemma fill_fails: "(v, put) \<in> set fs \<Longrightarrow> text_field v = Inl x \<Longrightarrow> \<exists>y. fill fs e = Inl (Internal y)"
  by (induction fs arbitrary: e) (auto split: sum.splits)

lemma finalized_fill_fails:
  "(v, put) \<in> set fs \<Longrightarrow> text_field v = Inl x \<Longrightarrow> \<exists>y. finalized (fill fs e) = Inl (Internal y)"
  using fill_fails [of v put fs x e] by (auto simp: finalized_def)

lemma collect_fails: "r \<in> set rs \<Longrightarrow> f r = Inl x \<Longrightarrow> \<exists>y. collect f rs = Inl y"
  by (induction rs) (auto split: sum.splits option.splits)

lemma leaf_adds:
  "fst (map_leaf me l) = fst me \<or> (\<exists>f v. \<not> has_key f (fst me) \<and> fst (map_leaf me l) = assoc_put f v (fst me))"
proof -
  obtain mapped extra path leaf v where eq: "me = (mapped, extra)" "l = (path, leaf, v)" by (cases me; cases l)
  show ?thesis unfolding eq map_leaf_def prod.case Let_def fst_conv
    by (cases "assoc leaf GENERIC_ALIASES") (simp_all, blast)
qed

lemma field_stays:
  assumes "dict_get (fst me) ''user'' = PInt n"
  shows "dict_get (fst (foldl map_leaf me ls)) ''user'' = PInt n"
  using assms
proof (induction ls arbitrary: me)
  case (Cons l ls)
  have h: "has_key ''user'' (fst me)" using Cons.prems by (auto simp: has_key_def dict_get_def split: option.splits)
  have keep: "dict_get (assoc_put f v (fst me)) ''user'' = PInt n" if "\<not> has_key f (fst me)" for f v
  proof -
    have "f \<noteq> ''user''" using h that by metis
    then show ?thesis using Cons.prems by (simp add: dict_get_def)
  qed
  have "dict_get (fst (map_leaf me l)) ''user'' = PInt n"
    using leaf_adds [of me l] Cons.prems keep by auto
  then show ?case using Cons.IH by simp
qed simp

lemma numeric_user_fails: "\<exists>y. generic_event E ((''userid'', PInt n) # r) source fb = Inl (Internal y)"
proof -
  let ?r = "(''userid'', PInt n) # r"
  have "leaves (PDict ?r) [] = (''userid'', ''userid'', PInt n) # leaves (PDict r) []"
    by (simp add: is_container_def sub_path_def lower_def) code_simp
  moreover have "map_leaf ([], []) (''userid'', ''userid'', PInt n) = ([(''user'', PInt n)], [])"
    by code_simp
  ultimately have "dict_get (fst (map_leaves ?r)) ''user'' = PInt n"
    unfolding map_leaves_def by (simp only: foldl_Cons, intro field_stays) (simp add: dict_get_def)
  then have "\<exists>x. text_field (dict_get (fst (map_leaves ?r)) ''user'') = Inl x" by (simp add: text_field_def)
  then obtain x where x: "text_field (dict_get (fst (map_leaves ?r)) ''user'') = Inl x" by blast
  show ?thesis
    unfolding generic_event_def Let_def case_prod_beta
    by (rule finalized_fill_fails [OF _ x], rule list.set_intros(2), rule list.set_intros(2), rule list.set_intros(1))
qed

lemma registry_json: "registry_get default_registry ''json'' = Some (mk_parser ''json'' ''json'' generic_can_parse generic_parse)"
proof -
  have "lower (strip ''json'') = ''json''" by code_simp
  moreover have "assoc ''json'' (rg_parsers (register (mk_parser ''json'' ''json'' generic_can_parse generic_parse) [''ndjson'', ''generic''] True g)) =
      Some (mk_parser ''json'' ''json'' generic_can_parse generic_parse)" for g
    by (simp add: register_def mk_parser_def)
  ultimately show ?thesis by (simp add: registry_get_def default_registry_def registrations_def)
qed

text \<open>
  One record with a number where a text is expected, such as a numeric user identifier, makes the parser of
  generic JSON fail as a whole: whatever the other records of the batch are, no event comes out, and nothing is counted as unparsed.
\<close>

theorem numeric_user_loses_batch:
  assumes "PDict ((''userid'', PInt n) # r) \<in> set records"
  shows "\<exists>res. registry_parse default_registry E ''json'' (PList records) meta = Inr res \<and>
    ps_events res = [] \<and> ps_unparsed res = 0"
proof -
  let ?src = "meta_source (with_source ''json'' meta) ''json''" and ?fb = "fallback_time E (with_source ''json'' meta)"
  obtain y where "generic_step E ?src ?fb (PDict ((''userid'', PInt n) # r)) = Inl (Internal y)"
    using numeric_user_fails [of E n r ?src ?fb] by (auto simp: generic_step_def some_event_def)
  from collect_fails [OF assms, of "generic_step E ?src ?fb", OF this] obtain z where "collect (generic_step E ?src ?fb) records = Inl z" by blast
  moreover have "records \<noteq> []" using assms by auto
  ultimately have "generic_parse E (PList records) (with_source ''json'' meta) = Inl z"
    by (simp add: generic_parse_def generic_records_def nonempty_or_def)
  then show ?thesis
    by (cases z) (simp_all add: registry_parse_def registry_json run_parser_def mk_parser_def failed_run_def)
qed

theorem numeric_user_loses_batch_witness:
  "\<exists>res. registry_parse default_registry demo_env ''json''
      (PList [PDict [(''user'', PStr ''alice'')], PDict [(''userid'', PInt 1000)]]) [] = Inr res \<and> ps_events res = []"
  using numeric_user_loses_batch [of 1000 "[]" "[PDict [(''user'', PStr ''alice'')], PDict [(''userid'', PInt 1000)]]" demo_env "[]"]
  by auto

subsection \<open>Syslog\<close>

text \<open>The priority 0, a kernel emergency, becomes 13, a notice of a user process.\<close>

lemma kernel_emergency_is_a_notice:
  "priority ''0'' = 13" "assoc (priority ''0'' div 8) FACILITIES = Some ''user''"
  "normalize_severity (PInt (priority ''0'' mod 8)) ''syslog'' = ''LOW''"
  by code_simp+

text \<open>A line of RFC 5424 without a time has the nil value there; no pattern reads it.\<close>

lemma nil_time_lost:
  assumes "list_all is_digit ds" "ds \<noteq> []" "length ds \<le> 3" "is_digit v"
  shows "syslog_match (CHR ''<'' # ds @ CHR ''>'' # v # '' - '' @ r) = None"
proof -
  let ?line = "CHR ''<'' # ds @ CHR ''>'' # v # '' - '' @ r"
  let ?st = "MState (Some CHR '' '') (''- '' @ r) [(''pri'', ds), (''version'', [v])]"
  let ?rest = "g_seq [g_space, GGroup ''host'' (g_plus g_nonspace), g_space,
     GGroup ''app'' (g_plus g_nonspace), g_space, GGroup ''procid'' (g_plus g_nonspace), g_space,
     GGroup ''msgid'' (g_plus g_nonspace), g_space,
     GGroup ''sd'' (GAlt (g_char CHR ''-'') (g_seq [g_char CHR ''['', GLazy g_any, g_char CHR '']''])),
     g_opt (g_seq [g_space, GGroup ''msg'' (GStar g_any)]), GEnd]"
  have sp: "is_space CHR '' ''" "\<not> is_space CHR ''-''" "\<not> is_upper_alpha CHR ''-''" "\<not> is_alnum CHR '' ''"
    by code_simp+
  have ts: "grp g ''ts'' = Some ''-''" if "g_match RFC5424 ?line = Some g" for g
  proof -
    obtain st' where st': "gm RFC5424 Some (MState None ?line []) = Some st'" "g = groups st'"
      using \<open>g_match RFC5424 ?line = Some g\<close> by (auto simp: g_match_def)
    have "gm RFC5424 Some (MState None ?line []) = gm (GGroup ''ts'' (g_plus g_nonspace)) (gm ?rest Some) ?st"
      unfolding RFC5424_def g_seq.simps gm.simps(3) PRI_step [OF assms(1-3)]
      by (simp add: g_digit_def g_space_def assms(4) sp del: gm.simps(5))
    also have "\<dots> = gm ?rest Some (MState (Some CHR ''-'') ('' '' @ r) [(''pri'', ds), (''version'', [v]), (''ts'', ''-'')])"
      by (simp add: g_plus_def g_nonspace_def sp gm_star_stop del: gm.simps(5) g_seq.simps)
    finally have "gm ?rest Some (MState (Some CHR ''-'') ('' '' @ r) [(''pri'', ds), (''version'', [v]), (''ts'', ''-'')]) = Some st'"
      using st'(1) by simp
    then obtain u where u: "(MState (Some CHR ''-'') ('' '' @ r) [(''pri'', ds), (''version'', [v]), (''ts'', ''-'')], u) \<in> gsem ?rest"
        "Some u = Some st'"
      using gm_Some by metis
    have "''ts'' \<notin> names_of ?rest"
      by (simp add: g_space_def g_nonspace_def g_plus_def g_char_def g_any_def g_opt_def)
    from groups_kept [OF u(1) this] u(2) st'(2) show ?thesis by (simp add: grp_def)
  qed
  have up: "\<not> is_upper_alpha v" using assms(4) by (auto simp: is_upper_alpha_def is_digit_def)
  have "g_match RFC3164 ?line = None"
    unfolding g_match_def RFC3164_def g_seq.simps gm.simps(3) PRI_step [OF assms(1-3)]
    by (simp add: BSD_TIME_def up)
  moreover have "g_match NO_TS ?line = None"
    unfolding g_match_def NO_TS_def g_seq.simps gm.simps(3) PRI_step [OF assms(1-3)]
    by (simp add: g_plus_def gm_star_stop PID_None is_alnum_def [of v] assms(4) sp del: gm.simps(5))
  ultimately have "bsd_match ?line = None" by (simp add: bsd_match_def)
  then show ?thesis using ts by (auto simp: syslog_match_def split: option.split)
qed

subsection \<open>Windows\<close>

text \<open>
  A document is taken whole only when \<open><Event\<close> occurs once in it, but \<open><EventID\<close> and \<open><EventData\<close> begin alike: an
  indented document is cut into lines, and the line of the identifier becomes an event without data.
\<close>

definition indented_logon_failure :: string where
  "indented_logon_failure = ''<Event>'' @ [CHR 0x0A] @ ''<EventID>4625</EventID>'' @ [CHR 0x0A] @
     ''<EventData><Data Name='' @ [CHR 0x22] @ ''TargetUserName'' @ [CHR 0x22] @ ''>bob</Data></EventData>'' @ [CHR 0x0A] @ ''</Event>''"

definition user_seen :: "pyval \<Rightarrow> (int option \<times> pyval) option" where
  "user_seen v = map_option (\<lambda>r. (win_event_id r, by_name (win_data r) [''TargetUserName''])) (win_extract demo_env v)"

lemma indented_xml_loses_its_data:
  "map user_seen (win_records (PStr indented_logon_failure)) = [None, Some (Some 4625, PNone), None, None]"
  "user_seen (PStr indented_logon_failure) = Some (Some 4625, PStr ''bob'')"
  by code_simp+

end
