(* ===== verification/Redaction.thy ===== *)
theory Redaction
  imports Regex_Groups Pyval
begin

section \<open>Redaction of secrets and control characters\<close>

text \<open>
  \<open>app/core/redaction.py\<close>: what an event passes through before it is stored.  The patterns are \<open>grx\<close>
  syntax trees in source order, applied by \<open>re.sub\<close> one after the other; \<open>(?i)\<close> folds ASCII
  letters.  The set \<open>stripped\<close> of the code holds at most one tag, so it is a truth value here:
  \<open>strips v\<close> says whether the walk over \<open>v\<close> adds it.
\<close>

subsection \<open>Patterns\<close>

definition redacted :: string where
  "redacted = ''<redacted>''"

text \<open>\<open>api[-_]?key\<close> and the optional quote.\<close>

definition api_key_word :: grx where
  "api_key_word = g_seq [g_lit_ci ''api'', g_opt (GSet (\<lambda>c. c = CHR ''-'' \<or> c = CHR ''_'')), g_lit_ci ''key'']"

definition quote_opt :: grx where
  "quote_opt = g_opt (GSet (\<lambda>c. c = CHR 0x22 \<or> c = squote))"

definition spaces_opt :: grx where
  "spaces_opt = GStar g_space"

definition flag_secret :: grx where
  "flag_secret = GSeq
     (GGroup ''1'' (g_seq [g_char CHR ''-'', g_opt (g_char CHR ''-''),
        g_alts [GSeq (g_lit_ci ''pass'') (g_opt (g_lit_ci ''word'')), g_lit_ci ''pwd'', g_lit_ci ''token'',
          g_lit_ci ''secret'', api_key_word, g_lit_ci ''salt'', g_lit_ci ''auth'',
          g_seq [g_lit_ci ''session'', g_opt (GSet (\<lambda>c. c = CHR ''-'' \<or> c = CHR ''_'')), g_lit_ci ''cookie'']],
        spaces_opt, GSet (\<lambda>c. c = CHR ''='' \<or> c = CHR '':'' \<or> is_space c)]))
     (g_plus g_nonspace)"

definition bearer_secret :: grx where
  "bearer_secret = GSeq (GGroup ''1'' (GSeq (g_lit_ci ''bearer'') (g_plus g_space)))
     (g_plus (GSet (\<lambda>c. \<not> is_space c \<and> c \<noteq> CHR 0x22 \<and> c \<noteq> squote)))"

definition named_secret :: grx where
  "named_secret = GSeq
     (GGroup ''1'' (g_seq [quote_opt,
        g_alts [g_lit_ci ''password'', g_lit_ci ''passwd'', g_lit_ci ''pwd'', g_lit_ci ''token'',
          g_lit_ci ''secret'', api_key_word, g_lit_ci ''authorization'', g_lit_ci ''cookie''],
        quote_opt, spaces_opt, GSet (\<lambda>c. c = CHR ''='' \<or> c = CHR '':''), spaces_opt, quote_opt]))
     (g_plus g_nonspace)"

definition aws_secret :: grx where
  "aws_secret = GSeq
     (GGroup ''1'' (g_seq [g_lit_ci ''aws_secret_access_key'', spaces_opt,
        GSet (\<lambda>c. c = CHR ''='' \<or> c = CHR '':''), spaces_opt]))
     (g_plus (GSet (\<lambda>c. is_alnum c \<or> c = CHR ''/'' \<or> c = CHR ''+'' \<or> c = CHR ''='')))"

definition aws_key :: grx where
  "aws_key = g_seq [GWordB, g_lit ''AKIA'', g_times 16 (GSet (\<lambda>c. is_digit c \<or> is_upper_alpha c)), GWordB]"

definition shell_secret :: grx where
  "shell_secret = g_seq [GGroup ''1'' (GSeq (g_lit_ci ''x-oxo-shell'') (g_plus g_space)),
     GSet (\<lambda>c. is_alnum c \<or> c = CHR ''-''), GStar g_nonspace]"

definition sk_secret :: grx where
  "sk_secret = g_seq [g_lit_ci ''sk-'', g_times 10 (GSet is_alnum), GStar (GSet is_alnum)]"

definition secret_part :: grx where
  "secret_part = g_words_ci [''pass'', ''token'', ''secret'', ''key'', ''cookie'', ''cred'']"

definition set_secret :: grx where
  "set_secret = g_seq [GGroup ''1'' (GSeq (g_lit_ci ''set'') (g_plus g_space)),
     GGroup ''2'' (g_seq [GLazy (GSet is_word), secret_part, GStar (GSet is_word), spaces_opt,
       g_opt (g_char CHR ''=''), spaces_opt]),
     g_plus g_nonspace]"

definition percent_secret :: grx where
  "percent_secret = g_seq [g_char CHR ''%'', GStar (GSet is_word), secret_part, GStar (GSet is_word), g_char CHR ''%'']"

text \<open>The replacement keeps the named groups and puts the marker after them.\<close>

definition keep :: "string list \<Rightarrow> groups \<Rightarrow> string" where
  "keep ns g = concat (map (grp_text g) ns) @ redacted"

definition PATTERNS :: "(grx \<times> string list) list" where
  "PATTERNS = [(flag_secret, [''1'']), (bearer_secret, [''1'']), (named_secret, [''1'']), (aws_secret, [''1'']),
     (aws_key, []), (shell_secret, [''1'']), (sk_secret, []), (set_secret, [''1'', ''2'']), (percent_secret, [])]"

subsection \<open>Text and values\<close>

definition REDACT_MAX :: int where
  "REDACT_MAX = 4096"

definition redact_text :: "string \<Rightarrow> string" where
  "redact_text text =
     (if text = [] then text
      else clip REDACT_MAX (fold (\<lambda>(rx, ns) t. g_sub rx (keep ns) t) PATTERNS (clip (REDACT_MAX * 2) text)))"

definition SECRET_KEYS :: "string list" where
  "SECRET_KEYS = [''password'', ''token'', ''secret'', ''api_key'', ''apikey'', ''key'', ''cookie'', ''auth'',
     ''credential'', ''pass'']"

definition secret_key :: "string \<Rightarrow> bool" where
  "secret_key key \<longleftrightarrow> any_in SECRET_KEYS (replace_char CHR ''-'' ''_'' (lower key))"

definition redact_value :: "string \<Rightarrow> string \<Rightarrow> string" where
  "redact_value key v = (if secret_key key then redacted else redact_text v)"

subsection \<open>Control characters\<close>

definition CONTROL_TAG :: string where
  "CONTROL_TAG = ''stripped-ctrl''"

definition is_control :: "char \<Rightarrow> bool" where
  "is_control c \<longleftrightarrow> code c \<le> 8 \<or> code c = 0x0B \<or> code c = 0x0C \<or> (0x0E \<le> code c \<and> code c \<le> 0x1F) \<or> code c = 0x7F"

definition strip_control_chars :: "string \<Rightarrow> string" where
  "strip_control_chars s = filter (\<lambda>c. \<not> is_control c) s"

text \<open>Whether the call adds the tag.\<close>

definition has_control :: "string \<Rightarrow> bool" where
  "has_control s \<longleftrightarrow> list_ex is_control s"

subsection \<open>Events\<close>

definition PASSTHROUGH_KEYS :: "string list" where
  "PASSTHROUGH_KEYS =
    [''agent_id'', ''agentId'', ''timestamp'', ''event_type'', ''eventType'', ''hostname'', ''ip_address'',
     ''ipAddress'', ''os'', ''process_name'', ''processName'', ''user'', ''pid'', ''parent_pid'', ''parentPid'',
     ''parent_process_name'', ''parentProcessName'']"

definition sanitize_text :: "string \<Rightarrow> string \<Rightarrow> string" where
  "sanitize_text key s =
     (let v = strip_control_chars s in
      if List.member PASSTHROUGH_KEYS key then v
      else if List.member [''command_line'', ''commandline''] (lower key) then redact_text v
      else redact_value key v)"

fun sanitize_value :: "string \<Rightarrow> pyval \<Rightarrow> pyval" where
  "sanitize_value key (PDict m) = PDict (map (\<lambda>(k, v). (k, sanitize_value k v)) m)"
| "sanitize_value key (PList xs) = PList (map (sanitize_value key) xs)"
| "sanitize_value key (PStr s) = PStr (sanitize_text key s)"
| "sanitize_value key v = v"

fun strips :: "pyval \<Rightarrow> bool" where
  "strips (PDict m) = list_ex (\<lambda>(k, v). strips v) m"
| "strips (PList xs) = list_ex strips xs"
| "strips (PStr s) = has_control s"
| "strips v = False"

definition QUALITY_MAX :: int where
  "QUALITY_MAX = 64"

definition sanitize_event :: "pydict \<Rightarrow> pydict" where
  "sanitize_event payload =
     (let clean = map (\<lambda>(k, v). (k, sanitize_value k v)) payload in
      if strips (PDict payload) then
        (let existing = dict_get clean ''quality'';
             merged = (if py_truth existing then py_str existing @ '';'' @ CONTROL_TAG else CONTROL_TAG)
         in assoc_put ''quality'' (PStr (clip QUALITY_MAX merged)) clean)
      else clean)"

section \<open>Properties of the redaction\<close>

text \<open>
  Substitution only rearranges characters of the text and of the replacement (\<open>g_sub_chars\<close>), so the redaction
  brings back no control character that was taken out; the walk over an event keeps its keys.
\<close>

subsection \<open>The characters of a substitution\<close>

fun state_chars :: "(char \<Rightarrow> bool) \<Rightarrow> mstate \<Rightarrow> bool" where
  "state_chars P (MState b s g) = (list_all P s \<and> list_all (\<lambda>(n, w). list_all P w) g)"

lemma list_all_assoc_put: "list_all (\<lambda>(n, w). Q w) g \<Longrightarrow> Q v \<Longrightarrow> list_all (\<lambda>(n, w). Q w) (assoc_put k v g)"
  by (induction k v g rule: assoc_put.induct) auto

lemma list_all_take_drop: "list_all P s \<Longrightarrow> list_all P (take n s) \<and> list_all P (drop n s)"
  by (auto simp: list_all_iff dest: in_set_takeD in_set_dropD)

lemma take_char_chars: "take_char p st = Some st' \<Longrightarrow> state_chars P st \<Longrightarrow> state_chars P st'"
  by (induction p st rule: take_char.induct) (auto split: if_splits)

lemma take_ref_chars: "take_ref n st = Some st' \<Longrightarrow> state_chars P st \<Longrightarrow> state_chars P st'"
  by (induction n st rule: take_ref.induct) (auto simp: list_all_take_drop split: option.splits if_splits)

lemma capture_chars: "state_chars P st \<Longrightarrow> state_chars P st' \<Longrightarrow> state_chars P (capture n st st')"
  by (cases st; cases st') (simp add: list_all_assoc_put list_all_take_drop)

lemma star_chars:
  assumes "(st, st') \<in> (strictly R)\<^sup>*" "\<And>a b. (a, b) \<in> R \<Longrightarrow> state_chars P a \<Longrightarrow> state_chars P b" "state_chars P st"
  shows "state_chars P st'"
  using assms(1,3) by (induction rule: rtrancl_induct) (use assms(2) in \<open>auto simp: strictly_def\<close>)

lemma gsem_chars: "(st, st') \<in> gsem r \<Longrightarrow> state_chars P st \<Longrightarrow> state_chars P st'"
proof (induction r arbitrary: st st')
  case (GStar r)
  show ?case by (rule star_chars [of st st' "gsem r" P]) (use GStar in auto)
next
  case (GLazy r)
  show ?case by (rule star_chars [of st st' "gsem r" P]) (use GLazy in auto)
next
  case (GGroup n r)
  then show ?case by (auto intro!: capture_chars)
qed (auto intro: take_char_chars take_ref_chars)

lemma gm_chars: "gm r Some st = Some st' \<Longrightarrow> state_chars P st \<Longrightarrow> state_chars P st'"
  using gm_Some [of r Some st st'] by (auto intro: gsem_chars)

lemma g_sub_from_chars:
  "(\<And>g. list_all (\<lambda>(n, w). list_all P w) g \<Longrightarrow> list_all P (f g)) \<Longrightarrow> list_all P s \<Longrightarrow>
    list_all P (g_sub_from r f b s)"
proof (induction r f b s rule: g_sub_from.induct)
  case (2 r f b c s)
  show ?case
  proof (cases "gm r Some (MState b (c # s) [])")
    case None
    then show ?thesis using 2 by simp
  next
    case (Some st)
    obtain b' s' g where st: "st = MState b' s' g" by (cases st)
    have "state_chars P st" using gm_chars [OF Some, of P] 2(5) by simp
    then have "list_all P s'" "list_all (\<lambda>(n, w). list_all P w) g" using st by simp_all
    then show ?thesis using 2 Some st by simp
  qed
qed simp

lemma g_sub_chars:
  assumes "\<And>g. list_all (\<lambda>(n, w). list_all P w) g \<Longrightarrow> list_all P (f g)" "list_all P s"
  shows "list_all P (g_sub r f s)"
  unfolding g_sub_def by (rule g_sub_from_chars) (use assms in auto)

subsection \<open>No control character survives\<close>

definition storable :: "string \<Rightarrow> bool" where
  "storable s \<longleftrightarrow> list_all (\<lambda>c. \<not> is_control c) s"

lemma storable_simps [simp]: "storable []" "storable (s @ t) \<longleftrightarrow> storable s \<and> storable t"
    "storable (c # s) \<longleftrightarrow> \<not> is_control c \<and> storable s"
  by (auto simp: storable_def)

lemma storable_clip: "storable s \<Longrightarrow> storable (clip n s)"
  by (simp add: storable_def clip_def list_all_take_drop)

lemma storable_strip: "storable (strip_control_chars s)"
  by (simp add: storable_def strip_control_chars_def list_all_iff)

lemma storable_redacted: "storable redacted"
  by code_simp

lemma strip_storable: "storable s \<Longrightarrow> strip_control_chars s = s"
  by (simp add: storable_def strip_control_chars_def list_all_iff)

lemma has_control_iff: "has_control s \<longleftrightarrow> \<not> storable s"
  by (auto simp: has_control_def storable_def list_ex_iff list_all_iff)

lemma storable_group: "list_all (\<lambda>(n, w). storable w) g \<Longrightarrow> storable (grp_text g n)"
  by (induction g) (auto simp: grp_text_def)

lemma storable_keep: "list_all (\<lambda>(n, w). storable w) g \<Longrightarrow> storable (keep ns g)"
  by (induction ns) (auto simp: keep_def storable_redacted storable_group)

lemma storable_sub: "storable s \<Longrightarrow> storable (g_sub r (keep ns) s)"
  unfolding storable_def by (rule g_sub_chars) (use storable_keep in \<open>auto simp: storable_def\<close>)

lemma storable_redact_text: "storable s \<Longrightarrow> storable (redact_text s)"
proof -
  have "storable t \<Longrightarrow> storable (fold (\<lambda>(rx, ns) t. g_sub rx (keep ns) t) ps t)" for ps t
    by (induction ps arbitrary: t) (auto simp: storable_sub)
  then show "storable s \<Longrightarrow> storable (redact_text s)" by (simp add: redact_text_def storable_clip)
qed

lemma storable_sanitize_text: "storable (sanitize_text k s)"
  by (simp add: sanitize_text_def redact_value_def Let_def storable_strip storable_redact_text storable_redacted)

fun storable_value :: "pyval \<Rightarrow> bool" where
  "storable_value (PStr s) = storable s"
| "storable_value (PList xs) = list_all storable_value xs"
| "storable_value (PDict m) = list_all (\<lambda>(k, v). storable_value v) m"
| "storable_value v = True"

lemma sanitize_value_storable: "storable_value (sanitize_value k v)"
  by (induction k v rule: sanitize_value.induct) (auto simp: list_all_iff storable_sanitize_text)

lemma strips_iff: "strips v \<longleftrightarrow> \<not> storable_value v"
proof (induction v rule: strips.induct)
  case (1 m)
  then have "\<And>x. x \<in> set m \<Longrightarrow> strips (snd x) = (\<not> storable_value (snd x))" by (metis prod.collapse)
  then show ?case by (simp add: list_ex_iff list_all_iff case_prod_beta)
qed (auto simp: list_ex_iff list_all_iff has_control_iff)

subsection \<open>The shape of the event\<close>

lemma assoc_map_value: "assoc k (map (\<lambda>(j, v). (j, f j v)) m) = map_option (f k) (assoc k m)"
  by (induction m) auto

lemma keys_map_value: "map fst (map (\<lambda>(j, v). (j, f j v)) m) = map fst m"
  by (induction m) auto

lemma map_fst_assoc_put: "map fst (assoc_put k v m) = (if k \<in> set (map fst m) then map fst m else map fst m @ [k])"
  by (induction k v m rule: assoc_put.induct) auto


lemma list_all_put_value: "list_all (\<lambda>(k, v). Q v) m \<Longrightarrow> Q v \<Longrightarrow> list_all (\<lambda>(k, v). Q v) (assoc_put k v m)"
  by (rule list_all_assoc_put)

lemma quality_key: "\<not> List.member PASSTHROUGH_KEYS ''quality'' \<and> \<not> secret_key ''quality''"
  by code_simp

lemma sanitized_get:
  assumes "dict_get p k = PStr s" "k \<noteq> ''quality''"
  shows "dict_get (sanitize_event p) k = PStr (sanitize_text k s)"
proof -
  have "assoc k p = Some (PStr s)" using assms(1) by (simp add: dict_get_def split: option.splits)
  then show ?thesis using assms(2) by (simp add: sanitize_event_def Let_def dict_get_def assoc_map_value)
qed

lemma sanitized_quality:
  assumes "dict_get p ''quality'' = opt_str q"
  shows "dict_get (map (\<lambda>(k, v). (k, sanitize_value k v)) p) ''quality'' = opt_str (map_option (sanitize_text ''quality'') q)"
  using assms by (cases q) (auto simp: dict_get_def assoc_map_value opt_str_def split: option.splits)

definition marked_quality :: "string option \<Rightarrow> string" where
  "marked_quality q = (let old = or_str q [] in clip QUALITY_MAX (if old = [] then CONTROL_TAG else old @ '';'' @ CONTROL_TAG))"

lemma sanitize_event_marked:
  assumes "dict_get p ''quality'' = opt_str q" "\<not> storable_value (PDict p)"
  shows "sanitize_event p = assoc_put ''quality'' (PStr (marked_quality (map_option (sanitize_text ''quality'') q)))
    (map (\<lambda>(k, v). (k, sanitize_value k v)) p)"
  using assms(2) strips_iff [of "PDict p"] unfolding sanitize_event_def Let_def sanitized_quality [OF assms(1)]
  by (cases q) (auto simp: opt_str_def marked_quality_def or_str_def Let_def)

lemma storable_marked: "storable (or_str q []) \<Longrightarrow> storable (marked_quality q)"
proof -
  have "storable CONTROL_TAG" "\<not> is_control CHR '';''" by code_simp+
  then show "storable (or_str q []) \<Longrightarrow> storable (marked_quality q)" by (auto simp: marked_quality_def Let_def storable_clip)
qed

lemma marked_nonempty: "marked_quality q \<noteq> []"
  by (auto simp: marked_quality_def Let_def clip_def QUALITY_MAX_def CONTROL_TAG_def)


definition dirty_event :: pydict where
  "dirty_event = [(''hostname'', PStr [CHR ''h'', CHR 0x00]), (''api-Key'', PStr ''k1''),
     (''processes'', PList [PDict [(''name'', PStr [CHR 0x07, CHR ''b''])]])]"


text \<open>At the edges: a long \<open>quality\<close> hides the mark, and spaces around the sign let a secret through.\<close>

lemma long_quality_hides_the_mark:
  assumes "length q \<ge> 64"
  shows "marked_quality (Some q) = take 64 q"
  using assms by (cases q) (auto simp: marked_quality_def or_str_def Let_def clip_def QUALITY_MAX_def)

lemma spaced_flag_leaks:
  "g_sub named_secret (keep [''1'']) ''pwd = x'' = ''pwd = <redacted>'' \<and>
   g_sub named_secret (keep [''1'']) (g_sub flag_secret (keep [''1'']) ''-pwd = x'') = ''-pwd <redacted> x''"
  by code_simp

end
