(* ===== verification/Siem_Store.thy ===== *)
theory Siem_Store
  imports Unified_Event Redaction Redis_Interface
begin

section \<open>The event store\<close>

text \<open>
  \<open>app/services/siem_store.py  The search over stored events and the
  clean-up follow at the end.
\<close>: the claim of an event identifier in Redis, the row an event becomes,
  the registry of sources, the filters and the calendar of the monthly partitions.  The tables are lists of
  rows inside the record \<open>siem_db\<close>; whether the database accepts a block of rows and whether a commit succeeds are
  functions given to the operations.  Rows have the columns the code writes.
\<close>

subsection \<open>Deduplication\<close>

definition siem_key :: "string \<Rightarrow> string" where
  "siem_key i = ''siem:evt:'' @ i"

definition claim_event :: "'s redis \<Rightarrow> int \<Rightarrow> string \<Rightarrow> 's \<Rightarrow> bool \<times> 's" where
  "claim_event R ttl i s =
     (if i = [] then (True, s)
      else case rd_set_nx R s (siem_key i) ''1'' ttl of
        (Inl x, s1) \<Rightarrow> (True, s1)
      | (Inr claimed, s1) \<Rightarrow> (claimed, s1))"

subsection \<open>Rows\<close>

text \<open>\<open>_strip_structure\<close>: the value, and whether it was changed.\<close>

fun strip_structure :: "pyval \<Rightarrow> pyval" where
  "strip_structure (PStr s) = PStr (strip_control_chars s)"
| "strip_structure (PDict m) = PDict (map (\<lambda>(k, v). (k, strip_structure v)) m)"
| "strip_structure (PList xs) = PList (map strip_structure xs)"
| "strip_structure v = v"

fun structure_changed :: "pyval \<Rightarrow> bool" where
  "structure_changed (PStr s) = (strip_control_chars s \<noteq> s)"
| "structure_changed (PDict m) = list_ex (\<lambda>(k, v). structure_changed v) m"
| "structure_changed (PList xs) = list_ex structure_changed xs"
| "structure_changed v = False"

definition SEARCH_TEXT_MAX :: int where
  "SEARCH_TEXT_MAX = 4000"

definition raw_row :: "uevent \<Rightarrow> pydict" where
  "raw_row e =
    [(''time'', PStr (ue_time e)), (''source'', PStr (ue_source e)), (''source_type'', PStr (ue_source_type e)),
     (''event_id'', PStr (ue_event_id e)), (''severity'', PStr (ue_severity e)),
     (''ocsf_class_uid'', PInt (ue_ocsf_class_uid e)), (''hostname'', opt_str (ue_hostname e)),
     (''ip'', opt_str (ue_ip e)), (''user'', opt_str (ue_user e)), (''user_domain'', opt_str (ue_user_domain e)),
     (''process_name'', opt_str (ue_process_name e)), (''pid'', opt_int (ue_pid e)),
     (''parent_process_name'', opt_str (ue_parent_process_name e)), (''parent_pid'', opt_int (ue_parent_pid e)),
     (''process_path'', opt_str (ue_process_path e)), (''command_line'', opt_str (ue_command_line e)),
     (''file_path'', opt_str (ue_file_path e)), (''file_name'', opt_str (ue_file_name e)),
     (''file_hash'', opt_str (ue_file_hash e)), (''src_ip'', opt_str (ue_src_ip e)),
     (''src_port'', opt_int (ue_src_port e)), (''dst_ip'', opt_str (ue_dst_ip e)),
     (''dst_port'', opt_int (ue_dst_port e)), (''protocol'', opt_str (ue_protocol e)), (''url'', opt_str (ue_url e)),
     (''http_method'', opt_str (ue_http_method e)), (''http_status'', opt_int (ue_http_status e)),
     (''user_agent'', opt_str (ue_user_agent e)), (''domain'', opt_str (ue_domain e)),
     (''dns_query'', opt_str (ue_dns_query e)), (''signature'', opt_str (ue_signature e)),
     (''signature_id'', opt_str (ue_signature_id e)), (''category'', opt_str (ue_category e)),
     (''message'', opt_str (ue_message e)), (''message_id'', opt_str (ue_message_id e)),
     (''search_text'', PStr (clip SEARCH_TEXT_MAX (searchable_text e))),
     (''extra'', py_or (PDict (ue_extra e)) PNone)]"

definition event_to_row :: "uevent \<Rightarrow> pydict" where
  "event_to_row e = map (\<lambda>(k, v). (k, strip_structure v)) (raw_row e)"

subsection \<open>Tables\<close>

record log_source =
  ls_name :: string
  ls_source_type :: pyval
  ls_parser :: string
  ls_description :: pyval
  ls_events_total :: int
  ls_events_invalid :: int
  ls_last_event_at :: "string option"
  ls_last_error :: "string option"

record source_agent =
  sa_id :: string
  sa_hostname :: string
  sa_os_type :: string
  sa_meta :: pydict

record 'a siem_db =
  db_events :: "pydict list"
  db_sources :: "log_source list"
  db_agents :: "source_agent list"
  db_alerts :: "'a list"

text \<open>
  A session: what it sees, and what was committed last.  A commit succeeds when the database accepts the content;
  a rollback returns to the committed content.
\<close>

record 'd session =
  ss_view :: 'd
  ss_saved :: 'd

definition db_commit :: "('d \<Rightarrow> unit result) \<Rightarrow> 'd session \<Rightarrow> unit result \<times> 'd session" where
  "db_commit ok ss = (case ok (ss_view ss) of
     Inl x \<Rightarrow> (Inl x, ss) | Inr _ \<Rightarrow> (Inr (), ss\<lparr>ss_saved := ss_view ss\<rparr>))"

definition db_rollback :: "'d session \<Rightarrow> 'd session" where
  "db_rollback ss = ss\<lparr>ss_view := ss_saved ss\<rparr>"

text \<open>
  \<open>insert\<close> of all rows in one statement: all or nothing.  The partitions are created before
  (\<open>ensure_monthly_partitions\<close>); what the database makes of rows without a partition is part of \<open>accepts\<close>.
\<close>

definition store_events :: "(pydict list \<Rightarrow> unit result) \<Rightarrow> uevent list \<Rightarrow> 'a siem_db session \<Rightarrow>
    nat result \<times> 'a siem_db session" where
  "store_events accepts es ss =
     (if es = [] then (Inr 0, ss)
      else let rows = map event_to_row es in
        (case accepts rows of
           Inl x \<Rightarrow> (Inl x, ss)
         | Inr _ \<Rightarrow> (Inr (length rows), ss\<lparr>ss_view := (ss_view ss)\<lparr>db_events := db_events (ss_view ss) @ rows\<rparr>\<rparr>)))"

subsection \<open>The registry of sources\<close>

definition new_source :: "string \<Rightarrow> pyval \<Rightarrow> string \<Rightarrow> pyval \<Rightarrow> log_source" where
  "new_source name stype parser descr = \<lparr>ls_name = name, ls_source_type = stype, ls_parser = parser,
     ls_description = descr, ls_events_total = 0, ls_events_invalid = 0, ls_last_event_at = None, ls_last_error = None\<rparr>"

text \<open>The first row of that name is changed.\<close>

fun on_source :: "string \<Rightarrow> (log_source \<Rightarrow> log_source) \<Rightarrow> log_source list \<Rightarrow> log_source list" where
  "on_source name f [] = []"
| "on_source name f (r # rs) = (if ls_name r = name then f r # rs else r # on_source name f rs)"

definition upsert_source :: "string \<Rightarrow> pyval \<Rightarrow> string \<Rightarrow> pyval \<Rightarrow> log_source list \<Rightarrow> log_source list" where
  "upsert_source name stype parser descr rs =
     (if find_first (\<lambda>r. ls_name r = name) rs = None then rs @ [new_source name stype parser descr]
      else on_source name (\<lambda>r. r\<lparr>ls_source_type := stype, ls_parser := parser,
        ls_description := (if py_truth descr then descr else ls_description r)\<rparr>) rs)"

definition record_source_result :: "string \<Rightarrow> string \<Rightarrow> nat \<Rightarrow> nat \<Rightarrow> string option \<Rightarrow> log_source list \<Rightarrow> log_source list" where
  "record_source_result now name accepted invalid error rs =
     on_source name (\<lambda>r. r\<lparr>ls_events_total := ls_events_total r + int accepted,
       ls_events_invalid := ls_events_invalid r + int invalid,
       ls_last_event_at := (if accepted \<noteq> 0 then Some now else ls_last_event_at r),
       ls_last_error := (if truthy error then Some (clip 2000 (or_str error [])) else None)\<rparr>) rs"

subsection \<open>Queries\<close>

definition FILTERABLE_FIELDS :: "string list" where
  "FILTERABLE_FIELDS =
    [''source'', ''source_type'', ''severity'', ''hostname'', ''ip'', ''user'', ''src_ip'', ''dst_ip'', ''src_port'',
     ''dst_port'', ''protocol'', ''process_name'', ''file_name'', ''file_path'', ''domain'', ''dns_query'',
     ''signature'', ''signature_id'', ''category'', ''message_id'', ''url'', ''http_method'', ''http_status'', ''event_id'']"

text \<open>
  A condition on a column: equality, or membership in a list of at most 50 values.  \<open>apply_filters\<close> adds them to
  a statement, which is the list of its conditions.
\<close>

datatype column_test = Equals string pyval | OneOf string "pyval list"

definition filter_test :: "string \<times> pyval \<Rightarrow> column_test list" where
  "filter_test = (\<lambda>(field, v).
     if v = PNone \<or> v = PStr [] \<or> v = PList [] then []
     else if \<not> List.member FILTERABLE_FIELDS field then []
     else case v of PList xs \<Rightarrow> [OneOf field (take 50 xs)] | _ \<Rightarrow> [Equals field v])"

definition apply_filters :: "column_test list \<Rightarrow> pydict \<Rightarrow> column_test list" where
  "apply_filters stmt filters = stmt @ concat (map filter_test filters)"

text \<open>SQL equality: a null column matches nothing.\<close>

fun row_passes :: "pydict \<Rightarrow> column_test \<Rightarrow> bool" where
  "row_passes row (Equals f v) = (dict_get row f \<noteq> PNone \<and> dict_get row f = v)"
| "row_passes row (OneOf f vs) = (dict_get row f \<noteq> PNone \<and> List.member vs (dict_get row f))"

text \<open>The free text search: the escape of the wildcards of \<open>LIKE\<close>.\<close>

definition like_escape :: "string \<Rightarrow> string" where
  "like_escape text = replace_char CHR ''_'' [backslash, CHR ''_'']
     (replace_char CHR ''%'' [backslash, CHR ''%''] (replace_char backslash [backslash, backslash] text))"

text \<open>\<open>LIKE\<close> with \<open>ESCAPE '\'\<close> on a text, as SQL defines it; \<open>ILIKE\<close> folds case first.\<close>

fun like_match :: "string \<Rightarrow> string \<Rightarrow> bool" where
  "like_match [] s = (s = [])"
| "like_match (p # ps) s =
     (if p = CHR ''%'' then (like_match ps s \<or> (case s of [] \<Rightarrow> False | c # t \<Rightarrow> like_match (p # ps) t))
      else if p = CHR ''_'' then (case s of [] \<Rightarrow> False | c # t \<Rightarrow> like_match ps t)
      else if p = backslash then
        (case ps of [] \<Rightarrow> False | q # qs \<Rightarrow> (case s of [] \<Rightarrow> False | c # t \<Rightarrow> c = q \<and> like_match qs t))
      else (case s of [] \<Rightarrow> False | c # t \<Rightarrow> c = p \<and> like_match ps t))"

definition search_pattern :: "string \<Rightarrow> string" where
  "search_pattern text = CHR ''%'' # like_escape text @ ''%''"

definition text_hit :: "string \<Rightarrow> pydict \<Rightarrow> bool" where
  "text_hit text row =
     list_ex (\<lambda>f. case dict_get row f of PStr s \<Rightarrow> like_match (lower (search_pattern text)) (lower s) | _ \<Rightarrow> False)
       [''search_text'', ''message'']"

definition SEARCH_MAX_LIMIT :: int where
  "SEARCH_MAX_LIMIT = 500"

definition query_limit :: "int \<Rightarrow> int" where
  "query_limit limit = max 1 (min limit SEARCH_MAX_LIMIT)"

section \<open>Searching the event store\<close>

text \<open>
  \<open>query_events\<close> and \<open>purge_expired\<close> of \<open>app/services/siem_store.py\<close>.  A stored row carries its identifier
  and the columns of \<open>event_to_row\<close>; the clock order of two datetimes is a parameter \<open>le\<close>.  The free text is
  turned into a pattern of \<open>LIKE\<close>; \<open>like_literal\<close> shows that the escape makes it match the text itself and nothing
  else.
\<close>

record stored_event =
  se_id :: int
  se_row :: pydict

record query =
  qy_since :: "string option"
  qy_until :: "string option"
  qy_text :: "string option"
  qy_filters :: pydict
  qy_limit :: int
  qy_offset :: int
  qy_order :: string

definition event_time :: "stored_event \<Rightarrow> string" where
  "event_time r = py_str (dict_get (se_row r) ''time'')"

text \<open>\<open>le a b\<close>: the datetime \<open>a\<close> is not after \<open>b\<close>.\<close>

definition selects :: "(string \<Rightarrow> string \<Rightarrow> bool) \<Rightarrow> query \<Rightarrow> stored_event \<Rightarrow> bool" where
  "selects le q r \<longleftrightarrow>
     (case qy_since q of None \<Rightarrow> True | Some t \<Rightarrow> le t (event_time r)) \<and>
     (case qy_until q of None \<Rightarrow> True | Some t \<Rightarrow> le (event_time r) t) \<and>
     (truthy (qy_text q) \<longrightarrow> text_hit (or_str (qy_text q) []) (se_row r)) \<and>
     list_all (row_passes (se_row r)) (apply_filters [] (qy_filters q))"

fun insert_by :: "('a \<Rightarrow> 'a \<Rightarrow> bool) \<Rightarrow> 'a \<Rightarrow> 'a list \<Rightarrow> 'a list" where
  "insert_by le x [] = [x]"
| "insert_by le x (y # ys) = (if le x y then x # y # ys else y # insert_by le x ys)"

definition sort_rows :: "('a \<Rightarrow> 'a \<Rightarrow> bool) \<Rightarrow> 'a list \<Rightarrow> 'a list" where
  "sort_rows le xs = foldr (insert_by le) xs []"

definition row_order :: "(string \<Rightarrow> string \<Rightarrow> bool) \<Rightarrow> query \<Rightarrow> stored_event \<Rightarrow> stored_event \<Rightarrow> bool" where
  "row_order le q a b = (if qy_order q = ''asc'' then le (event_time a) (event_time b) else le (event_time b) (event_time a))"

definition ROW_OUT :: "string list" where
  "ROW_OUT = [''source'', ''source_type'', ''event_id'', ''severity'', ''ocsf_class_uid'', ''hostname'', ''user'',
     ''user_domain'', ''src_ip'', ''src_port'', ''dst_ip'', ''dst_port'', ''protocol'', ''process_name'', ''pid'',
     ''parent_process_name'', ''process_path'', ''command_line'', ''file_path'', ''file_name'', ''file_hash'', ''url'',
     ''http_method'', ''http_status'', ''user_agent'', ''domain'', ''dns_query'', ''signature'', ''signature_id'',
     ''category'', ''message_id'', ''message'', ''extra'']"

definition row_out :: "stored_event \<Rightarrow> pydict" where
  "row_out r = [(''id'', PInt (se_id r)), (''time'', dict_get (se_row r) ''time'')] @
     map (\<lambda>k. (k, dict_get (se_row r) k)) ROW_OUT"

record query_result =
  qr_total :: nat
  qr_limit :: int
  qr_offset :: int
  qr_items :: "pydict list"

definition query_events :: "(string \<Rightarrow> string \<Rightarrow> bool) \<Rightarrow> query \<Rightarrow> stored_event list \<Rightarrow> query_result" where
  "query_events le q rows =
     (let hits = filter (selects le q) rows; limit = query_limit (qy_limit q); offset = max 0 (qy_offset q) in
      \<lparr>qr_total = length hits, qr_limit = limit, qr_offset = offset,
       qr_items = map row_out (take (nat limit) (drop (nat offset) (sort_rows (row_order le q) hits)))\<rparr>)"

subsection \<open>The search is literal\<close>

definition escape_char :: "char \<Rightarrow> string" where
  "escape_char c = (if c = backslash \<or> c = CHR ''%'' \<or> c = CHR ''_'' then [backslash, c] else [c])"

lemma backslash_facts: "backslash \<noteq> CHR ''%''" "backslash \<noteq> CHR ''_''" "lower_char backslash = backslash"
  by code_simp+

lemma like_escape_chars: "like_escape t = concat (map escape_char t)"
  by (induction t) (auto simp: like_escape_def replace_char_def escape_char_def backslash_facts)

lemma escape_lower: "map lower_char (escape_char c) = escape_char (lower_char c)"
proof -
  have low: "code (lower_char d) = (if 65 \<le> code d \<and> code d \<le> 90 then code d + 32 else code d)" for d
    by (simp add: lower_char_def code_def)
  have "lower_char d = e \<longleftrightarrow> d = e" if "e \<in> {backslash, CHR ''%'', CHR ''_''}" for d e
  proof
    assume "lower_char d = e"
    then have "code e = (if 65 \<le> code d \<and> code d \<le> 90 then code d + 32 else code d)" using low [of d] by simp
    moreover have "code e \<in> {92, 37, 95}" using that by (auto simp: code_def)
    ultimately have "lower_char d = d" by (auto simp: lower_char_def split: if_splits)
    then show "d = e" using \<open>lower_char d = e\<close> by simp
  qed (use that in \<open>auto simp: lower_char_def code_def\<close>)
  then show ?thesis by (auto simp: escape_char_def)
qed

lemma like_escape_lower: "lower (like_escape t) = like_escape (lower t)"
  by (induction t) (simp_all add: like_escape_chars lower_def escape_lower)

lemma like_literal: "like_match (like_escape t @ ps) s \<longleftrightarrow> startswith s t \<and> like_match ps (drop (length t) s)"
proof (induction t arbitrary: s)
  case Nil
  then show ?case by (simp add: like_escape_chars)
next
  case (Cons c t)
  show ?case
  proof (cases s)
    case Nil
    then show ?thesis by (auto simp: like_escape_chars escape_char_def backslash_facts)
  next
    case (Cons d u)
    then show ?thesis using Cons.IH [of u] by (auto simp: like_escape_chars escape_char_def backslash_facts)
  qed
qed

lemma like_percent: "like_match (CHR ''%'' # ps) s \<longleftrightarrow> (\<exists>u v. s = u @ v \<and> like_match ps v)"
proof (induction s)
  case (Cons c s)
  then show ?case by (auto simp: Cons_eq_append_conv)
qed simp

lemma search_pattern_lower: "lower (search_pattern text) = search_pattern (lower text)"
proof -
  have "lower (c # s) = lower_char c # lower s" for c s by (simp add: lower_def)
  moreover have "lower_char CHR ''%'' = CHR ''%''" by code_simp
  moreover have "lower [] = []" by (simp add: lower_def)
  ultimately show ?thesis by (simp only: search_pattern_def lower_append like_escape_lower)
qed

lemma like_search: "like_match (search_pattern t) s \<longleftrightarrow> py_in t s"
proof -
  have "like_match (search_pattern t) s \<longleftrightarrow> (\<exists>u v. s = u @ v \<and> startswith v t)"
    by (simp only: search_pattern_def like_percent like_literal) simp
  then show ?thesis by (auto simp: py_in_iff startswith_iff)
qed

text \<open>
  The free text of a search is taken literally: a row is found exactly when the text occurs, in any letter
  case, in its \<open>search_text\<close> or its message, also when the text has the wildcards or the escape of \<open>LIKE\<close>; and the
  answer never has more than \<open>SIEM_SEARCH_MAX_LIMIT\<close> rows, all of them matches.
\<close>

theorem search_is_literal:
  "(text_hit text row \<longleftrightarrow> (\<exists>s. (dict_get row ''search_text'' = PStr s \<or> dict_get row ''message'' = PStr s) \<and>
      py_in (lower text) (lower s))) \<and>
   length (qr_items (query_events le q rows)) \<le> 500 \<and>
   set (qr_items (query_events le q rows)) \<subseteq> row_out ` set (filter (selects le q) rows)"
proof (intro conjI)
  have col: "(case dict_get row f of PStr s \<Rightarrow> like_match (lower (search_pattern text)) (lower s) | _ \<Rightarrow> False) \<longleftrightarrow>
      (\<exists>s. dict_get row f = PStr s \<and> py_in (lower text) (lower s))" for f
    by (simp add: search_pattern_lower like_search split: pyval.split)
  show "text_hit text row \<longleftrightarrow> (\<exists>s. (dict_get row ''search_text'' = PStr s \<or> dict_get row ''message'' = PStr s) \<and>
      py_in (lower text) (lower s))"
    unfolding text_hit_def list_ex_iff by (simp only: col) auto
  have ins: "set (insert_by (row_order le q) x xs) = insert x (set xs)" for x xs by (induction xs) auto
  have sorted: "set (sort_rows (row_order le q) xs) = set xs" for xs
    by (induction xs) (simp_all add: sort_rows_def ins)
  show "length (qr_items (query_events le q rows)) \<le> 500"
    by (simp add: query_events_def Let_def query_limit_def SEARCH_MAX_LIMIT_def)
  show "set (qr_items (query_events le q rows)) \<subseteq> row_out ` set (filter (selects le q) rows)"
    using sorted by (auto simp: query_events_def Let_def simp del: set_filter dest!: in_set_takeD in_set_dropD)
qed

end
