(* ===== verification/Mitre.thy ===== *)
theory Mitre
  imports Pyval
begin

section \<open>MITRE ATT\&CK names\<close>

text \<open>
  \<open>app/rules/mitre.py\<close>: the tactic and technique tables and the three lookups.  Optional lists
  (\<open>tags or []\<close>) are option types; list elements are arbitrary values turned into text by \<open>str\<close>.
\<close>

definition TACTICS :: "(string \<times> string \<times> string) list" where
  "TACTICS =
    [(''reconnaissance'', ''TA0043'', ''Reconnaissance''),
     (''resource_development'', ''TA0042'', ''Resource Development''),
     (''initial_access'', ''TA0001'', ''Initial Access''),
     (''execution'', ''TA0002'', ''Execution''),
     (''persistence'', ''TA0003'', ''Persistence''),
     (''privilege_escalation'', ''TA0004'', ''Privilege Escalation''),
     (''defense_evasion'', ''TA0005'', ''Defense Evasion''),
     (''credential_access'', ''TA0006'', ''Credential Access''),
     (''discovery'', ''TA0007'', ''Discovery''),
     (''lateral_movement'', ''TA0008'', ''Lateral Movement''),
     (''collection'', ''TA0009'', ''Collection''),
     (''exfiltration'', ''TA0010'', ''Exfiltration''),
     (''command_and_control'', ''TA0011'', ''Command and Control''),
     (''impact'', ''TA0040'', ''Impact'')]"

definition TECHNIQUES :: "(string \<times> string) list" where
  "TECHNIQUES =
    [(''T1027'', ''Obfuscated Files or Information''),
     (''T1046'', ''Network Service Discovery''),
     (''T1053.005'', ''Scheduled Task''),
     (''T1059.001'', ''PowerShell''),
     (''T1070.001'', ''Clear Windows Event Logs''),
     (''T1071'', ''Application Layer Protocol''),
     (''T1071.001'', ''Web Protocols''),
     (''T1071.004'', ''DNS''),
     (''T1078'', ''Valid Accounts''),
     (''T1078.003'', ''Local Accounts''),
     (''T1098'', ''Account Manipulation''),
     (''T1105'', ''Ingress Tool Transfer''),
     (''T1110'', ''Brute Force''),
     (''T1110.001'', ''Password Guessing''),
     (''T1204.002'', ''Malicious File''),
     (''T1543.003'', ''Windows Service'')]"

text \<open>\<open>name.split(".", 1)[1]\<close> after the prefix test is the text after \<open>attack.\<close>.\<close>

fun tactic_from_tags :: "pyval list \<Rightarrow> (string \<times> string) option" where
  "tactic_from_tags [] = None"
| "tactic_from_tags (tag # tags) =
     (let name = lower (strip (py_str tag)) in
      if startswith name ''attack.'' then
        (case split1 CHR ''.'' name of
           (_, Some t) \<Rightarrow> (case assoc t TACTICS of Some hit \<Rightarrow> Some hit | None \<Rightarrow> tactic_from_tags tags)
         | (_, None) \<Rightarrow> tactic_from_tags tags)
      else tactic_from_tags tags)"

definition technique_name :: "string option \<Rightarrow> string option" where
  "technique_name t = (if \<not> truthy t then None else assoc (upper (strip (or_str t []))) TECHNIQUES)"

fun technique_names :: "string option list \<Rightarrow> string list" where
  "technique_names [] = []"
| "technique_names (t # ts) =
     (case technique_name t of Some n \<Rightarrow> if n = [] then technique_names ts else n # technique_names ts
      | None \<Rightarrow> technique_names ts)"

end
