(* ===== verification/Siem_Pipeline.thy ===== *)
theory Siem_Pipeline
  imports Siem_Store Correlation Playbooks Mitre Parser_Registry
begin

section \<open>The SIEM pipeline\<close>

text \<open>
  \<open>app/services/siem_pipeline.py\<close>: from a payload to the alert.  It composes the parser registry, the
  event store, the Sigma engine, the correlation and the playbooks.  The state is the database session, the cache
  of source agents (\<open>_SOURCE_AGENT_CACHE\<close>), the world of the playbooks (which holds the state of Redis) and the
  alerts handed to the notifier.  \<open>siem_env\<close> has the rules and settings and what is outside: whether the
  database accepts rows, the identifiers it assigns, the notifier.  Queries do not fail; the playbook engine
  commits its own rows.
\<close>

record siem_detection =
  dn_sigma :: nat
  dn_correlation :: nat
  dn_alerts :: nat
  dn_alert_ids :: "int list"
  dn_sigma_rules :: "string list"
  dn_correlation_rules :: "string list"
  dn_error :: "string option"

record siem_outcome =
  so_accepted :: nat
  so_duplicates :: nat
  so_stored :: nat
  so_detection :: siem_detection
  so_error :: "string option"

type_synonym siem_tables = "stored_alert siem_db"

record siem_env =
  se_rules :: "sigma_rule list"
  se_corr_rules :: "corr_rule list"
  se_playbooks :: "playbook list"
  se_playbook_env :: pb_env
  se_parse_env :: parse_env
  se_enabled :: bool
  se_max_events :: nat
  se_dedup_ttl :: int
  se_now :: string
  se_accepts :: "pydict list \<Rightarrow> unit result"
  se_commit :: "siem_tables \<Rightarrow> unit result"
  se_agent_id :: "source_agent list \<Rightarrow> string"
  se_add_agent :: "source_agent \<Rightarrow> unit result"
  se_add_alerts :: "siem_tables \<Rightarrow> alert list \<Rightarrow> stored_alert list result"
  se_notify :: "stored_alert \<Rightarrow> unit result"

record 's siem =
  si_session :: "siem_tables session"
  si_cache :: "(string \<times> string) list"
  si_play :: "'s pworld"
  si_notified :: "int list"

definition si_redis :: "'s siem \<Rightarrow> 's" where
  "si_redis w = pw_redis (si_play w)"

definition set_redis :: "'s \<Rightarrow> 's siem \<Rightarrow> 's siem" where
  "set_redis s w = w\<lparr>si_play := (si_play w)\<lparr>pw_redis := s\<rparr>\<rparr>"

definition view_of :: "'s siem \<Rightarrow> siem_tables" where
  "view_of w = ss_view (si_session w)"

definition saved_of :: "'s siem \<Rightarrow> siem_tables" where
  "saved_of w = ss_saved (si_session w)"

definition set_view :: "siem_tables \<Rightarrow> 's siem \<Rightarrow> 's siem" where
  "set_view d w = w\<lparr>si_session := (si_session w)\<lparr>ss_view := d\<rparr>\<rparr>"

definition rolled_back :: "'s siem \<Rightarrow> 's siem" where
  "rolled_back w = w\<lparr>si_session := db_rollback (si_session w)\<rparr>"

definition committing :: "siem_env \<Rightarrow> 's siem \<Rightarrow> unit result \<times> 's siem" where
  "committing E w = (case db_commit (se_commit E) (si_session w) of (r, ss) \<Rightarrow> (r, w\<lparr>si_session := ss\<rparr>))"

text \<open>\<open>try: ...; commit\<close> with \<open>except: rollback\<close>.\<close>

definition commit_or_rollback :: "siem_env \<Rightarrow> 's siem \<Rightarrow> 's siem" where
  "commit_or_rollback E w = (case committing E w of (Inl x, w1) \<Rightarrow> rolled_back w1 | (Inr _, w1) \<Rightarrow> w1)"

subsection \<open>The agent of a source\<close>

definition new_source_agent :: "string \<Rightarrow> string \<Rightarrow> string \<Rightarrow> source_agent" where
  "new_source_agent i name stype = \<lparr>sa_id = i, sa_hostname = name, sa_os_type = ''logsource:'' @ stype,
     sa_meta = [(''kind'', PStr ''logsource''), (''source_type'', PStr stype),
       (''note'', PStr ''External log source: not a managed endpoint.'')]\<rparr>"

definition cached_agent :: "string \<Rightarrow> 's siem \<Rightarrow> source_agent option" where
  "cached_agent name w = (case assoc name (si_cache w) of
     None \<Rightarrow> None | Some i \<Rightarrow> find_first (\<lambda>a. sa_id a = i) (db_agents (view_of w)))"

definition get_or_create_source_agent :: "siem_env \<Rightarrow> string \<Rightarrow> string \<Rightarrow> 's siem \<Rightarrow> source_agent result \<times> 's siem" where
  "get_or_create_source_agent E name stype w = (case cached_agent name w of
     Some a \<Rightarrow> (Inr a, w)
   | None \<Rightarrow>
       (case find_first (\<lambda>a. sa_hostname a = name \<and> sa_os_type a = ''logsource:'' @ stype) (db_agents (view_of w)) of
          Some a \<Rightarrow> (Inr a, w\<lparr>si_cache := assoc_put name (sa_id a) (si_cache w)\<rparr>)
        | None \<Rightarrow>
            (let d = view_of w; a = new_source_agent (se_agent_id E (db_agents d)) name stype in
             case se_add_agent E a of
               Inl x \<Rightarrow> (Inl x, w)
             | Inr _ \<Rightarrow> (Inr a, (set_view (d\<lparr>db_agents := db_agents d @ [a]\<rparr>) w)
                 \<lparr>si_cache := assoc_put name (sa_id a) (si_cache w)\<rparr>))))"

subsection \<open>Alerts\<close>

text \<open>The dash in the descriptions is U+2014.\<close>

definition dash :: string where
  "dash = '' '' @ [CHR 0xE2, CHR 0x80, CHR 0x94] @ '' ''"

definition first_string :: "string list \<Rightarrow> string option" where
  "first_string xs = (case xs of [] \<Rightarrow> None | x # _ \<Rightarrow> Some x)"

definition alert_from_sigma :: "uevent \<Rightarrow> sigma_match \<Rightarrow> string \<Rightarrow> alert" where
  "alert_from_sigma e m agent =
     (let technique = first_string (sm_mitre_techniques m); tactic = tactic_from_tags (map PStr (sm_tags m)) in
      \<lparr>al_agent_id = agent, al_severity = (if sm_level m \<noteq> [] then upper (sm_level m) else ''MEDIUM''),
       al_pid = ue_pid e, al_parent_pid = ue_parent_pid e, al_parent_process_name = ue_parent_process_name e,
       al_process_name = Some (take 255 (or_str (ue_process_name e) (or_str (ue_signature e)
         (or_str (Some (ue_source e)) ''log-source'')))),
       al_process_path = (if truthy (ue_process_path e) then ue_process_path e else ue_file_path e),
       al_event_type = Some (take 100 (py_str (py_or (dict_get (ue_extra e) ''event_type'') (PStr (ue_source_type e))))),
       al_description = ''[SIGMA '' @ sm_rule_id m @ ''] '' @ sm_title m @
         (if truthy (ue_message e) then dash @ take 200 (or_str (ue_message e) []) else []),
       al_mitre_tactic_id = map_option fst tactic, al_mitre_technique_id = technique,
       al_mitre_tactic_name = map_option snd tactic, al_mitre_technique_name = technique_name technique,
       al_evidence = PNone\<rparr>)"

definition alert_from_correlation :: "corr_match \<Rightarrow> string \<Rightarrow> alert" where
  "alert_from_correlation m agent =
     (let e = cm_event m; technique = first_string (cm_mitre m); tactic = tactic_from_tags (map PStr (cm_tags m));
          detail = (if cm_group_label m \<noteq> [] then '' ('' @ cm_group_label m @ '')'' else [])
      in \<lparr>al_agent_id = agent, al_severity = cm_severity m, al_pid = ue_pid e, al_parent_pid = None,
       al_parent_process_name = None,
       al_process_name = Some (take 255 (or_str (ue_process_name e) (or_str (Some (cm_group_label m)) ''log-source''))),
       al_process_path = None, al_event_type = Some ''CORRELATION'',
       al_description = ''[CORRELATION '' @ cm_rule_id m @ ''] '' @ cm_title m @ detail @ dash @
         show_int (cm_observed m) @ '' eventi in '' @ show_int (cm_window_seconds m) @ ''s'',
       al_mitre_tactic_id = map_option fst tactic, al_mitre_technique_id = technique,
       al_mitre_tactic_name = map_option snd tactic, al_mitre_technique_name = technique_name technique,
       al_evidence = PNone\<rparr>)"

subsection \<open>Detection\<close>

definition no_detection :: siem_detection where
  "no_detection = \<lparr>dn_sigma = 0, dn_correlation = 0, dn_alerts = 0, dn_alert_ids = [], dn_sigma_rules = [],
     dn_correlation_rules = [], dn_error = None\<rparr>"

definition sigma_matches :: "sigma_rule list \<Rightarrow> uevent list \<Rightarrow> (uevent \<times> sigma_match) list" where
  "sigma_matches rules es = concat (map (\<lambda>e. map (Pair e) (evaluate rules e)) es)"

definition detect_and_alert :: "'s redis \<Rightarrow> siem_env \<Rightarrow> string \<Rightarrow> string \<Rightarrow> uevent list \<Rightarrow> 's siem \<Rightarrow>
    siem_detection result \<times> 's siem" where
  "detect_and_alert R E name stype es w =
     (let sm = sigma_matches (se_rules E) es in
      case corr_evaluate R (se_corr_rules E) es (si_redis w) of (cm, s1) \<Rightarrow>
        (let w1 = set_redis s1 w in
         if sm = [] \<and> cm = [] then (Inr no_detection, w1)
         else case get_or_create_source_agent E name stype w1 of
           (Inl x, w2) \<Rightarrow> (Inl x, w2)
         | (Inr a, w2) \<Rightarrow>
             (let alerts = map (\<lambda>(e, m). alert_from_sigma e m (sa_id a)) sm @
                    map (\<lambda>m. alert_from_correlation m (sa_id a)) cm; d = view_of w2
              in case se_add_alerts E d alerts of
                   Inl x \<Rightarrow> (Inl x, w2)
                 | Inr rows \<Rightarrow>
                     (Inr \<lparr>dn_sigma = length sm, dn_correlation = length cm, dn_alerts = length alerts,
                        dn_alert_ids = map al_id rows,
                        dn_sigma_rules = str_sort (remdups (map (\<lambda>(e, m). sm_title m) sm)),
                        dn_correlation_rules = str_sort (remdups (map cm_title cm)), dn_error = None\<rparr>,
                      set_view (d\<lparr>db_alerts := db_alerts d @ rows\<rparr>) w2))))"

subsection \<open>Playbooks and notification\<close>

definition selected_alerts :: "int list \<Rightarrow> 's siem \<Rightarrow> stored_alert list" where
  "selected_alerts ids w = filter (\<lambda>a. List.member (take 200 ids) (al_id a)) (db_alerts (view_of w))"

fun playbook_loop :: "'s redis \<Rightarrow> siem_env \<Rightarrow> stored_alert list \<Rightarrow> 's pworld \<Rightarrow> nat \<times> 's pworld" where
  "playbook_loop R E [] p = (0, p)"
| "playbook_loop R E (a # alerts) p =
     (case check_and_execute_playbooks R (se_playbook_env E) (se_playbooks E) a None False p of (r, p1) \<Rightarrow>
       (case playbook_loop R E alerts p1 of (n, p2) \<Rightarrow> (if is_ok r then Suc n else n, p2)))"

definition run_playbooks_for_alerts :: "'s redis \<Rightarrow> siem_env \<Rightarrow> int list \<Rightarrow> 's siem \<Rightarrow> nat \<times> 's siem" where
  "run_playbooks_for_alerts R E ids w =
     (if ids = [] then (0, w)
      else case playbook_loop R E (selected_alerts ids w) (si_play w) of (n, p) \<Rightarrow> (n, w\<lparr>si_play := p\<rparr>))"

text \<open>The first notification that raises ends the loop.\<close>

fun notify_loop :: "siem_env \<Rightarrow> stored_alert list \<Rightarrow> int list" where
  "notify_loop E [] = []"
| "notify_loop E (a # alerts) = al_id a # (case se_notify E a of Inl _ \<Rightarrow> [] | Inr _ \<Rightarrow> notify_loop E alerts)"

definition react :: "'s redis \<Rightarrow> siem_env \<Rightarrow> int list \<Rightarrow> 's siem \<Rightarrow> 's siem" where
  "react R E ids w =
     (let w1 = commit_or_rollback E (snd (run_playbooks_for_alerts R E ids w))
      in w1\<lparr>si_notified := si_notified w1 @ notify_loop E (selected_alerts ids w1)\<rparr>)"

subsection \<open>A batch of events\<close>

fun claim_all :: "'s redis \<Rightarrow> int \<Rightarrow> uevent list \<Rightarrow> 's \<Rightarrow> uevent list \<times> nat \<times> 's" where
  "claim_all R ttl [] s = ([], 0, s)"
| "claim_all R ttl (e # es) s = (case claim_event R ttl (ue_event_id e) s of (new, s1) \<Rightarrow>
     (case claim_all R ttl es s1 of (fresh, dups, s2) \<Rightarrow>
       (if new then (e # fresh, dups, s2) else (fresh, Suc dups, s2))))"

definition store_step :: "siem_env \<Rightarrow> uevent list \<Rightarrow> 's siem \<Rightarrow> nat result \<times> 's siem" where
  "store_step E fresh w =
     (if fresh = [] then (Inr 0, w)
      else case store_events (se_accepts E) fresh (si_session w) of
        (Inl x, ss) \<Rightarrow> (Inl x, rolled_back (w\<lparr>si_session := ss\<rparr>))
      | (Inr n, ss) \<Rightarrow> (case committing E (w\<lparr>si_session := ss\<rparr>) of
          (Inl x, w1) \<Rightarrow> (Inl x, rolled_back w1) | (Inr _, w1) \<Rightarrow> (Inr n, w1)))"

definition failed_detection :: siem_detection where
  "failed_detection = no_detection\<lparr>dn_error := Some ''detection failed''\<rparr>"

definition detect_step :: "'s redis \<Rightarrow> siem_env \<Rightarrow> string \<Rightarrow> string \<Rightarrow> uevent list \<Rightarrow> 's siem \<Rightarrow> siem_detection \<times> 's siem" where
  "detect_step R E name stype fresh w =
     (if fresh = [] then (no_detection, w)
      else case detect_and_alert R E name stype fresh w of
        (Inl x, w1) \<Rightarrow> (failed_detection, rolled_back w1)
      | (Inr d, w1) \<Rightarrow> (case committing E w1 of
          (Inl x, w2) \<Rightarrow> (failed_detection, rolled_back w2) | (Inr _, w2) \<Rightarrow> (d, w2)))"

definition outcome_of :: "nat \<Rightarrow> nat \<Rightarrow> nat \<Rightarrow> siem_detection \<Rightarrow> string option \<Rightarrow> siem_outcome" where
  "outcome_of accepted dups stored d err = \<lparr>so_accepted = accepted, so_duplicates = dups, so_stored = stored,
     so_detection = d, so_error = err\<rparr>"

definition process_events :: "'s redis \<Rightarrow> siem_env \<Rightarrow> string \<Rightarrow> string \<Rightarrow> uevent list \<Rightarrow> 's siem \<Rightarrow> siem_outcome \<times> 's siem" where
  "process_events R E name stype es w =
     (if es = [] then (outcome_of 0 0 0 no_detection None, w)
      else case claim_all R (se_dedup_ttl E) es (si_redis w) of (fresh, dups, s1) \<Rightarrow>
        (case store_step E fresh (set_redis s1 w) of
           (Inl x, w1) \<Rightarrow> (outcome_of (length es) dups 0 no_detection (Some ''store failed''), w1)
         | (Inr stored, w1) \<Rightarrow>
             (case detect_step R E name stype fresh w1 of (d, w2) \<Rightarrow>
               (outcome_of (length es) dups stored d (dn_error d),
                if dn_alert_ids d \<noteq> [] then react R E (dn_alert_ids d) w2 else w2))))"

subsection \<open>A payload\<close>

record ingest_outcome =
  io_parser :: "string option"
  io_detected_by :: string
  io_unparsed :: nat
  io_errors :: "string list"
  io_result :: siem_outcome

definition ingest_meta :: "siem_env \<Rightarrow> string \<Rightarrow> pydict \<Rightarrow> pydict" where
  "ingest_meta E name meta =
     (let m1 = with_source name meta in
      if has_key ''received_at'' m1 then m1 else assoc_put ''received_at'' (PStr (se_now E)) m1)"

definition on_sources :: "(log_source list \<Rightarrow> log_source list) \<Rightarrow> 's siem \<Rightarrow> 's siem" where
  "on_sources f w = (let d = view_of w in set_view (d\<lparr>db_sources := f (db_sources d)\<rparr>) w)"

text \<open>\<open>"; ".join(errors[:2])\<close>.\<close>

definition two_errors :: "string list \<Rightarrow> string" where
  "two_errors errs = join ''; '' (take 2 errs)"

text \<open>\<open>None\<close>: ingestion is switched off.\<close>

definition ingest_payload :: "'s redis \<Rightarrow> siem_env \<Rightarrow> registry \<Rightarrow> string \<Rightarrow> pyval \<Rightarrow> pydict \<Rightarrow> string option \<Rightarrow> 's siem \<Rightarrow>
    ingest_outcome option result \<times> 's siem" where
  "ingest_payload R E g name payload meta0 parser w =
     (if \<not> se_enabled E then (Inr None, w)
      else let meta = ingest_meta E name meta0 in
        case registry_parse g (se_parse_env E) (or_str parser name) payload meta of
          Inl x \<Rightarrow> (Inl x, w)
        | Inr r \<Rightarrow>
            (let es = take (se_max_events E) (ps_events r);
                 stype = (case es of e # _ \<Rightarrow> PStr (ue_source_type e)
                   | [] \<Rightarrow> dict_get_or meta ''source_type'' (PStr ''unknown''));
                 w1 = commit_or_rollback E (on_sources (upsert_source name stype
                   (or_str (ps_parser r) (or_str parser ''auto'')) (dict_get meta ''description'')) w);
                 outcome = (\<lambda>res. \<lparr>io_parser = ps_parser r, io_detected_by = ps_detected_by r,
                   io_unparsed = ps_unparsed r, io_errors = take 5 (ps_errors r), io_result = res\<rparr>)
             in case es of
                  [] \<Rightarrow> (Inr (Some (outcome (outcome_of 0 0 0 no_detection None))),
                    commit_or_rollback E (on_sources (record_source_result (se_now E) name 0 (max 1 (ps_unparsed r))
                      (Some (or_str (Some (two_errors (ps_errors r))) ''no parser matched''))) w1))
                | e # _ \<Rightarrow>
                    (case process_events R E name (ue_source_type e) es w1 of (res, w2) \<Rightarrow>
                      (Inr (Some (outcome res)),
                       commit_or_rollback E (on_sources (record_source_result (se_now E) name (so_stored res)
                         (ps_unparsed r) (if ps_errors r \<noteq> [] then Some (two_errors (ps_errors r)) else None)) w2)))))"

record batch_totals =
  bt_accepted :: nat
  bt_stored :: nat
  bt_alerts :: nat
  bt_duplicates :: nat
  bt_errors :: "string list"

definition add_totals :: "ingest_outcome option \<Rightarrow> batch_totals \<Rightarrow> batch_totals" where
  "add_totals r t = (case r of
     None \<Rightarrow> t
   | Some i \<Rightarrow> let res = io_result i in
       \<lparr>bt_accepted = bt_accepted t + so_accepted res, bt_stored = bt_stored t + so_stored res,
        bt_alerts = bt_alerts t + dn_alerts (so_detection res), bt_duplicates = bt_duplicates t + so_duplicates res,
        bt_errors = bt_errors t @ io_errors i\<rparr>)"

fun ingest_batch_from :: "'s redis \<Rightarrow> siem_env \<Rightarrow> registry \<Rightarrow> string \<Rightarrow> pyval list \<Rightarrow> batch_totals \<Rightarrow> 's siem \<Rightarrow>
    batch_totals result \<times> 's siem" where
  "ingest_batch_from R E g name [] t w = (Inr t, w)"
| "ingest_batch_from R E g name (p # ps) t w = (case ingest_payload R E g name p [] None w of
     (Inl x, w1) \<Rightarrow> (Inl x, w1)
   | (Inr r, w1) \<Rightarrow> ingest_batch_from R E g name ps (add_totals r t) w1)"

definition ingest_batch :: "'s redis \<Rightarrow> siem_env \<Rightarrow> registry \<Rightarrow> string \<Rightarrow> pyval list \<Rightarrow> 's siem \<Rightarrow> batch_totals result \<times> 's siem" where
  "ingest_batch R E g name payloads w = ingest_batch_from R E g name payloads
     \<lparr>bt_accepted = 0, bt_stored = 0, bt_alerts = 0, bt_duplicates = 0, bt_errors = []\<rparr> w"

section \<open>Who touches which key\<close>

text \<open>
  The claims of event identifiers live in Redis beside the counters of the correlation and the marks, cooldowns and
  queues of the playbooks.  The locale \<open>shared_redis\<close> is the interface between them: a relation \<open>kept\<close>
  between states of the store that every command on a key of somebody else respects.  The correlation and the
  playbooks only use such keys, so everything they do keeps the claims.
\<close>

definition claim_key :: "string \<Rightarrow> bool" where
  "claim_key k \<longleftrightarrow> startswith k ''siem:evt:''"

text \<open>The documented behaviour of every command: it changes no key but its own.\<close>

definition redis_keyed :: "'s redis \<Rightarrow> 's view \<Rightarrow> bool" where
  "redis_keyed R view \<longleftrightarrow> (\<forall>s k j. j \<noteq> k \<longrightarrow>
     view (snd (rd_get R s k)) j = view s j \<and> view (snd (rd_exists R s k)) j = view s j \<and>
     view (snd (rd_delete R s k)) j = view s j \<and> view (snd (rd_incr R s k)) j = view s j \<and>
     (\<forall>t. view (snd (rd_expire R s k t)) j = view s j) \<and>
     (\<forall>t v. view (snd (rd_setex R s k t v)) j = view s j) \<and>
     (\<forall>t v. view (snd (rd_set_nx R s k v t)) j = view s j) \<and>
     (\<forall>v. view (snd (rd_rpush R s k v)) j = view s j) \<and>
     (\<forall>m n. view (snd (rd_ltrim R s k m n)) j = view s j))"

lemma other_keys:
  "\<not> claim_key (counter_name r g i)" "\<not> claim_key (armed_name r g n)" "\<not> claim_key (fired_name r g tag)"
  "\<not> claim_key (queue_name agent)" "\<not> claim_key (idem_key p a)" "\<not> claim_key (cooldown_key p a)"
  by (simp_all add: claim_key_def counter_name_def armed_name_def fired_name_def queue_name_def idem_key_def
      cooldown_key_def)

locale shared_redis =
  fixes R :: "'s redis" and kept :: "'s \<Rightarrow> 's \<Rightarrow> bool"
  assumes kept_refl: "kept s s"
    and kept_trans: "kept s t \<Longrightarrow> kept t u \<Longrightarrow> kept s u"
    and kept_get: "\<not> claim_key k \<Longrightarrow> kept s (snd (rd_get R s k))"
    and kept_incr: "\<not> claim_key k \<Longrightarrow> kept s (snd (rd_incr R s k))"
    and kept_expire: "\<not> claim_key k \<Longrightarrow> kept s (snd (rd_expire R s k ttl))"
    and kept_setex: "\<not> claim_key k \<Longrightarrow> kept s (snd (rd_setex R s k ttl v))"
    and kept_set_nx: "\<not> claim_key k \<Longrightarrow> kept s (snd (rd_set_nx R s k v ttl))"
    and kept_rpush: "\<not> claim_key k \<Longrightarrow> kept s (snd (rd_rpush R s k v))"
    and kept_ltrim: "\<not> claim_key k \<Longrightarrow> kept s (snd (rd_ltrim R s k m n))"
begin

lemmas kept_cmds = kept_get kept_incr kept_expire kept_setex kept_set_nx kept_rpush kept_ltrim

lemma kept_eqs:
  "\<not> claim_key k \<Longrightarrow> rd_get R s k = (a, s') \<Longrightarrow> kept s s'"
  "\<not> claim_key k \<Longrightarrow> rd_incr R s k = (b, s') \<Longrightarrow> kept s s'"
  "\<not> claim_key k \<Longrightarrow> rd_expire R s k t = (c, s') \<Longrightarrow> kept s s'"
  "\<not> claim_key k \<Longrightarrow> rd_setex R s k t v = (c, s') \<Longrightarrow> kept s s'"
  "\<not> claim_key k \<Longrightarrow> rd_set_nx R s k v t = (d, s') \<Longrightarrow> kept s s'"
  "\<not> claim_key k \<Longrightarrow> rd_rpush R s k v = (c, s') \<Longrightarrow> kept s s'"
  "\<not> claim_key k \<Longrightarrow> rd_ltrim R s k m n = (c, s') \<Longrightarrow> kept s s'"
  by (metis kept_cmds snd_conv)+

text \<open>The correlation.\<close>

lemma bump_kept: "bump R r (counter_name r g i) s = (out, s') \<Longrightarrow> kept s s'"
  by (auto simp: bump_def split: prod.splits sum.splits if_splits
      dest!: kept_eqs(2,3) [OF other_keys(1)] intro: kept_trans)

lemma claim_kept: "claim R r e g tag n s = (out, s') \<Longrightarrow> kept s s'"
  by (auto simp: claim_def split: prod.splits sum.splits dest: kept_eqs(5) [OF other_keys(3)])

lemma threshold_kept: "eval_threshold R r e i s = (out, s') \<Longrightarrow> kept s s'"
  by (auto simp: eval_threshold_def kept_refl split: prod.splits sum.splits if_splits option.splits
      dest!: bump_kept claim_kept intro: kept_trans)

lemma seq_kept: "seq_steps R r e g i ps s = (out, s') \<Longrightarrow> kept s s'"
proof (induction ps arbitrary: i s out s')
  case (Cons p ps)
  then show ?case
    by (auto simp: kept_refl split: prod.splits sum.splits if_splits
        dest!: bump_kept claim_kept kept_eqs(1) [OF other_keys(2)] kept_eqs(4) [OF other_keys(2)] intro: kept_trans)
qed (simp add: kept_refl)

lemma rule_kept: "eval_rule R r e s = (out, s') \<Longrightarrow> kept s s'"
  by (auto simp: eval_rule_def eval_sequence_def kept_refl split: if_splits option.splits
      dest: threshold_kept seq_kept)

lemma rules_kept: "eval_rules R rs e s = (out, s') \<Longrightarrow> kept s s'"
proof (induction rs arbitrary: s out s')
  case (Cons r rs)
  then show ?case by (auto split: prod.splits sum.splits if_splits option.splits dest!: rule_kept intro: kept_trans)
qed (simp add: kept_refl)

lemma loop_kept: "corr_loop R rs es s = (out, s') \<Longrightarrow> kept s s'"
  by (induction es arbitrary: s out s') (auto simp: kept_refl split: prod.splits dest!: rules_kept intro: kept_trans)

lemma correlation_kept: "corr_evaluate R rs es s = (out, s') \<Longrightarrow> kept s s'"
  unfolding corr_evaluate_def by (rule loop_kept)

text \<open>The playbooks.\<close>

lemma send_kept: "send_agent_command R agent cmd s = (out, s') \<Longrightarrow> kept s s'"
  by (auto simp: send_agent_command_def Let_def split: prod.splits sum.splits
      dest!: kept_eqs(6,7) [OF other_keys(4)] intro: kept_trans)

lemma send_all_kept: "send_all R agent cs s = (out, s') \<Longrightarrow> kept s s'"
  by (induction cs arbitrary: s out s') (auto simp: kept_refl split: prod.splits dest!: send_kept intro: kept_trans)

abbreviation world_kept :: "'s pworld \<Rightarrow> 's pworld \<Rightarrow> bool" where
  "world_kept w w' \<equiv> kept (pw_redis w) (pw_redis w')"

lemma queue_kept: "world_kept w (snd (queue_cmd R a cmd w))"
  by (auto simp: queue_cmd_def split: prod.splits dest: send_kept)

lemma action_kept: "world_kept w (snd (execute_action R env act a w))"
proof -
  have "world_kept w (snd (with_pid R a cmd w))" for cmd
    by (simp add: with_pid_def queue_kept kept_refl)
  moreover have "world_kept w (snd (run_webhook env t d w))" "world_kept w (snd (run_script env t d w))" for t d
    by (auto simp: run_webhook_def run_script_def Let_def kept_refl split: sum.splits prod.splits)
  moreover have "world_kept w (snd (run_update R env a t d w))" for t d
    by (auto simp: run_update_def Let_def kept_refl queue_kept split: option.splits)
  moreover have "world_kept w (snd (run_eradicate R a w))"
    by (auto simp: run_eradicate_def split: prod.splits dest: send_all_kept)
  ultimately show ?thesis
    unfolding execute_action_def Let_def by (auto simp: queue_kept kept_refl split: sum.splits)
qed

lemma actions_kept: "run_actions R env acts a w = (out, w') \<Longrightarrow> world_kept w w'"
proof (induction acts arbitrary: w out w')
  case (Cons act acts)
  have "execute_action R env act a w = (x, w1) \<Longrightarrow> world_kept w w1" for x w1
    using action_kept [of w env act a] by simp
  with Cons show ?case by (fastforce split: prod.splits sum.splits intro: kept_trans)
qed (simp add: kept_refl)

lemma live_kept: "world_kept w (live_run R env p a by w)"
  by (auto simp: live_run_def add_execution_def kept_refl split: prod.splits sum.splits dest: actions_kept)

lemma cooling_kept: "cooling_down R p a s = (b, s') \<Longrightarrow> kept s s'"
  by (auto simp: cooling_down_def split: prod.splits sum.splits if_splits
      dest!: kept_eqs(1,4) [OF other_keys(6)] intro: kept_trans)

lemma run_live_kept: "world_kept w (run_live R env p a by w)"
proof -
  have live: "kept s s2 \<Longrightarrow> kept s (pw_redis (live_run R env p a by (w\<lparr>pw_redis := s2\<rparr>)))" for s s2
    using live_kept [of "w\<lparr>pw_redis := s2\<rparr>" env p a] by (auto intro: kept_trans)
  show ?thesis unfolding run_live_def
    by (auto split: prod.splits sum.splits bool.splits dest!: kept_eqs(5) [OF other_keys(5)] cooling_kept
        intro: kept_trans live)
qed

lemma check_kept: "world_kept w (snd (check_playbooks R env dry by a ps w))"
proof (induction ps arbitrary: w)
  case (Cons p ps)
  have "world_kept w (snd (check_playbooks R env dry by a ps (add_execution x w)))" for x
    using Cons [of "add_execution x w"] by (simp add: add_execution_def)
  moreover have "world_kept w (snd (check_playbooks R env dry by a ps (run_live R env p a by w)))"
    by (rule kept_trans [OF run_live_kept Cons])
  ultimately show ?case using Cons by (auto simp: kept_refl split: sum.splits)
qed (simp add: kept_refl)

lemma playbooks_kept: "world_kept w (snd (check_and_execute_playbooks R env ps a by dry w))"
  unfolding check_and_execute_playbooks_def by (rule check_kept)

lemma playbook_loop_kept: "playbook_loop R E alerts p = (n, p') \<Longrightarrow> world_kept p p'"
proof (induction alerts arbitrary: p n p')
  case (Cons a alerts)
  have "check_and_execute_playbooks R (se_playbook_env E) (se_playbooks E) a None False p = (r, p1) \<Longrightarrow> world_kept p p1" for r p1
    using playbooks_kept [of p "se_playbook_env E" "se_playbooks E" a None False] by simp
  with Cons show ?case by (fastforce split: prod.splits intro: kept_trans)
qed (simp add: kept_refl)

end

text \<open>A store whose commands keep to their keys gives the interface, for the values of the claims.\<close>

definition claims_kept :: "'s view \<Rightarrow> 's \<Rightarrow> 's \<Rightarrow> bool" where
  "claims_kept view s s' \<longleftrightarrow> (\<forall>j. claim_key j \<longrightarrow> view s' j = view s j)"

lemma redis_keyedD:
  assumes "redis_keyed R view" "j \<noteq> k"
  shows "view (snd (rd_get R s k)) j = view s j" "view (snd (rd_incr R s k)) j = view s j"
    "view (snd (rd_expire R s k t)) j = view s j" "view (snd (rd_setex R s k t v)) j = view s j"
    "view (snd (rd_set_nx R s k v t)) j = view s j" "view (snd (rd_rpush R s k v)) j = view s j"
    "view (snd (rd_ltrim R s k m n)) j = view s j"
  using assms unfolding redis_keyed_def by blast+

lemma keyed_shared: "redis_keyed R view \<Longrightarrow> shared_redis R (claims_kept view)"
  by unfold_locales (auto simp: claims_kept_def intro!: redis_keyedD)

lemma map_redis_keyed: "redis_keyed map_redis rview"
proof -
  have del: "j \<noteq> k \<Longrightarrow> assoc j (rdel k m) = assoc j m" for j k and m :: rmap
    by (induction k m rule: rdel.induct) auto
  show ?thesis by (auto simp: redis_keyed_def map_redis_def rview_def del split: option.splits rval.splits list.splits)
qed

interpretation shared_memory: shared_redis map_redis "claims_kept rview"
  by (rule keyed_shared [OF map_redis_keyed])

end
