(* ===== verification/Siem_Properties.thy ===== *)
theory Siem_Properties
  imports Siem_Pipeline
begin

section \<open>Properties of the SIEM pipeline\<close>

text \<open>
  Between two batches the session agrees with what is committed (\<open>clean\<close>).  From the step lemmas
  (\<open>store_step_cases\<close>, \<open>detect_step_frame\<close>, \<open>react_frame\<close>) follow: the account of a batch, that a failing
  detection costs no stored event, that an identifier is stored at most once, and that a batch whose store fails is lost.
\<close>

definition clean :: "'s siem \<Rightarrow> bool" where
  "clean w \<longleftrightarrow> view_of w = saved_of w"

lemmas world_defs = view_of_def saved_of_def set_view_def rolled_back_def si_redis_def set_redis_def db_rollback_def

subsection \<open>Sessions\<close>

lemma committing_cases:
  assumes "committing E w = (r, w')"
  obtains x where "r = Inl x" "w' = w"
  | "r = Inr ()" "view_of w' = view_of w" "saved_of w' = view_of w" "si_play w' = si_play w" "si_cache w' = si_cache w"
proof (cases "se_commit E (view_of w)")
  case (Inl x)
  then show ?thesis using assms that(1) [of x] by (auto simp: committing_def db_commit_def world_defs)
next
  case (Inr u)
  then show ?thesis using assms that(2) by (auto simp: committing_def db_commit_def world_defs)
qed

lemma rolled_back_simps [simp]:
  "view_of (rolled_back w) = saved_of w" "saved_of (rolled_back w) = saved_of w" "si_play (rolled_back w) = si_play w"
  "clean (rolled_back w)"
  by (simp_all add: world_defs clean_def)

lemma set_redis_simps [simp]:
  "view_of (set_redis s w) = view_of w" "saved_of (set_redis s w) = saved_of w" "si_redis (set_redis s w) = s"
  "clean (set_redis s w) = clean w" "si_cache (set_redis s w) = si_cache w"
  by (simp_all add: world_defs clean_def)

lemma commit_or_rollback_clean:
  assumes "clean w"
  shows "clean (commit_or_rollback E w)" "saved_of (commit_or_rollback E w) = saved_of w"
    "si_play (commit_or_rollback E w) = si_play w"
proof -
  obtain r w' where c: "committing E w = (r, w')" by fastforce
  show "clean (commit_or_rollback E w)" "saved_of (commit_or_rollback E w) = saved_of w"
    "si_play (commit_or_rollback E w) = si_play w"
    using assms by (cases rule: committing_cases [OF c]; simp add: commit_or_rollback_def c clean_def)+
qed

subsection \<open>The store\<close>

lemma store_step_cases:
  assumes "store_step E fresh w = (r, w')" "clean w"
  shows "clean w' \<and> si_play w' = si_play w \<and>
    (case r of Inl x \<Rightarrow> saved_of w' = saved_of w
     | Inr n \<Rightarrow> n = length fresh \<and>
         saved_of w' = (saved_of w)\<lparr>db_events := db_events (saved_of w) @ map event_to_row fresh\<rparr>)"
proof (cases "fresh = []")
  case True
  then show ?thesis using assms by (auto simp: store_step_def)
next
  case False
  show ?thesis
  proof (cases "se_accepts E (map event_to_row fresh)")
    case (Inl x)
    then show ?thesis using assms False
      by (auto simp: store_step_def store_events_def Let_def world_defs clean_def)
  next
    case (Inr u)
    let ?d = "(view_of w)\<lparr>db_events := db_events (view_of w) @ map event_to_row fresh\<rparr>"
    let ?w = "w\<lparr>si_session := (si_session w)\<lparr>ss_view := ?d\<rparr>\<rparr>"
    have s: "store_step E fresh w = (case committing E ?w of
        (Inl x, w1) \<Rightarrow> (Inl x, rolled_back w1) | (Inr _, w1) \<Rightarrow> (Inr (length fresh), w1))"
      using False Inr by (simp add: store_step_def store_events_def Let_def view_of_def)
    have w: "view_of ?w = ?d" "saved_of ?w = saved_of w" "si_play ?w = si_play w" by (simp_all add: world_defs)
    obtain q w1 where c: "committing E ?w = (q, w1)" by fastforce
    show ?thesis
    proof (cases rule: committing_cases [OF c])
      case (1 x)
      then show ?thesis using assms(1) s c w by auto
    next
      case 2
      then have "r = Inr (length fresh)" "w' = w1" using assms(1) s c by auto
      then show ?thesis using 2 w assms(2) by (simp add: clean_def)
    qed
  qed
qed

subsection \<open>Detection and reaction leave the events alone\<close>

lemma agent_frame:
  assumes "get_or_create_source_agent E name stype w = (r, w')"
  shows "db_events (view_of w') = db_events (view_of w)" "db_alerts (view_of w') = db_alerts (view_of w)"
    "saved_of w' = saved_of w" "si_play w' = si_play w"
  using assms by (auto simp: get_or_create_source_agent_def Let_def world_defs split: option.splits sum.splits)

lemma detect_frame:
  assumes "detect_and_alert R E name stype es w = (r, w')"
  shows "db_events (view_of w') = db_events (view_of w)" "saved_of w' = saved_of w"
    "si_redis w' = snd (corr_evaluate R (se_corr_rules E) es (si_redis w))"
proof -
  obtain cm s1 where c: "corr_evaluate R (se_corr_rules E) es (si_redis w) = (cm, s1)" by fastforce
  obtain q w2 where a: "get_or_create_source_agent E name stype (set_redis s1 w) = (q, w2)" by fastforce
  note f = agent_frame [OF a]
  have "si_redis w2 = s1" using f(4) by (simp add: si_redis_def set_redis_def)
  then have "db_events (view_of w') = db_events (view_of w) \<and> saved_of w' = saved_of w \<and> si_redis w' = s1"
    using assms f unfolding detect_and_alert_def Let_def c prod.case a
    by (auto simp: set_view_def split: if_splits sum.splits) (simp_all add: world_defs)
  then show "db_events (view_of w') = db_events (view_of w)" "saved_of w' = saved_of w"
    "si_redis w' = snd (corr_evaluate R (se_corr_rules E) es (si_redis w))"
    using c by auto
qed

lemma detect_step_frame:
  assumes "detect_step R E name stype fresh w = (d, w')" "clean w"
  shows "clean w'" "db_events (saved_of w') = db_events (saved_of w)"
    "dn_error d \<noteq> None \<Longrightarrow> db_alerts (saved_of w') = db_alerts (saved_of w)"
    "si_redis w' = (if fresh = [] then si_redis w else snd (corr_evaluate R (se_corr_rules E) fresh (si_redis w)))"
proof -
  have "clean w' \<and> db_events (saved_of w') = db_events (saved_of w) \<and>
    (dn_error d \<noteq> None \<longrightarrow> db_alerts (saved_of w') = db_alerts (saved_of w)) \<and>
    si_redis w' = (if fresh = [] then si_redis w else snd (corr_evaluate R (se_corr_rules E) fresh (si_redis w)))"
  proof (cases "fresh = []")
    case True
    then show ?thesis using assms by (auto simp: detect_step_def no_detection_def)
  next
    case False
    obtain r w1 where dd: "detect_and_alert R E name stype fresh w = (r, w1)" by fastforce
    note f = detect_frame [OF dd]
    show ?thesis
    proof (cases r)
      case (Inl x)
      then have "w' = rolled_back w1" using assms(1) False dd by (simp add: detect_step_def)
      then show ?thesis using f False by (simp add: si_redis_def)
    next
      case (Inr d')
      have none: "dn_error d' = None"
        using dd Inr unfolding detect_and_alert_def Let_def
        by (auto simp: no_detection_def split: prod.splits if_splits sum.splits)
      obtain q w2 where c: "committing E w1 = (q, w2)" by fastforce
      show ?thesis
      proof (cases rule: committing_cases [OF c])
        case (1 x)
        then have "w' = rolled_back w1" using assms(1) False dd Inr c by (simp add: detect_step_def)
        then show ?thesis using f False by (simp add: si_redis_def)
      next
        case 2
        then have "w' = w2" "d = d'" using assms(1) False dd Inr c by (simp_all add: detect_step_def)
        then show ?thesis using 2 f none False assms(2) by (simp add: clean_def si_redis_def)
      qed
    qed
  qed
  then show "clean w'" "db_events (saved_of w') = db_events (saved_of w)"
    "dn_error d \<noteq> None \<Longrightarrow> db_alerts (saved_of w') = db_alerts (saved_of w)"
    "si_redis w' = (if fresh = [] then si_redis w else snd (corr_evaluate R (se_corr_rules E) fresh (si_redis w)))"
    by blast+
qed

lemma react_frame:
  assumes "clean w"
  shows "clean (react R E ids w)" "saved_of (react R E ids w) = saved_of w"
    "si_play (react R E ids w) = si_play (snd (run_playbooks_for_alerts R E ids w))"
proof -
  let ?p = "snd (run_playbooks_for_alerts R E ids w)"
  have p: "clean ?p" "saved_of ?p = saved_of w"
    using assms by (auto simp: run_playbooks_for_alerts_def clean_def world_defs split: prod.split)
  note f = commit_or_rollback_clean [OF p(1), of E]
  show "clean (react R E ids w)" "saved_of (react R E ids w) = saved_of w" "si_play (react R E ids w) = si_play ?p"
    using f p by (simp_all add: react_def Let_def clean_def world_defs)
qed

subsection \<open>The account of a batch\<close>

lemma claim_all_counts: "claim_all R ttl es s = (fresh, dups, s') \<Longrightarrow> length fresh + dups = length es \<and> set fresh \<subseteq> set es"
  by (induction es arbitrary: s fresh dups s') (fastforce split: prod.splits if_splits)+

lemma processed_cases:
  assumes "claim_all R (se_dedup_ttl E) es (si_redis w) = (fresh, dups, s1)" "es \<noteq> []" "clean w"
    "store_step E fresh (set_redis s1 w) = (r, w1)"
  obtains x where "r = Inl x" "process_events R E name stype es w =
      (outcome_of (length es) dups 0 no_detection (Some ''store failed''), w1)"
  | n d w2 where "r = Inr n" "detect_step R E name stype fresh w1 = (d, w2)"
      "process_events R E name stype es w = (outcome_of (length es) dups n d (dn_error d),
         if dn_alert_ids d \<noteq> [] then react R E (dn_alert_ids d) w2 else w2)"
proof (cases r)
  case (Inl x)
  then show ?thesis using that(1) assms by (simp add: process_events_def)
next
  case (Inr n)
  obtain d w2 where "detect_step R E name stype fresh w1 = (d, w2)" by fastforce
  then show ?thesis using that(2) Inr assms by (simp add: process_events_def)
qed

lemma dn_error_values: "detect_step R E name stype fresh w = (d, w') \<Longrightarrow> dn_error d = None \<or> dn_error d = Some ''detection failed''"
  by (auto simp: detect_step_def detect_and_alert_def Let_def failed_detection_def no_detection_def
      split: prod.splits sum.splits if_splits)

text \<open>
  C5: Every event of a batch is new or a duplicate.  Unless the store fails, exactly the new ones are committed,
  in order, and nothing the detection or the playbooks do afterwards takes them back; if the store or the
  detection fails the committed alerts are those of before.
\<close>

theorem stored_events_survive:
  assumes "clean w" "claim_all R (se_dedup_ttl E) es (si_redis w) = (fresh, dups, s1)"
    "process_events R E name stype es w = (out, w')"
  shows "clean w' \<and> so_accepted out = length es \<and> so_duplicates out = dups \<and> length fresh + dups = length es \<and>
    db_events (saved_of w') = db_events (saved_of w) @
      (if so_error out = Some ''store failed'' then [] else map event_to_row fresh) \<and>
    so_stored out = (if so_error out = Some ''store failed'' then 0 else length fresh) \<and>
    (so_error out \<noteq> None \<longrightarrow> db_alerts (saved_of w') = db_alerts (saved_of w))"
proof (cases "es = []")
  case True
  then show ?thesis using assms by (auto simp: process_events_def outcome_of_def no_detection_def)
next
  case False
  obtain r w1 where st: "store_step E fresh (set_redis s1 w) = (r, w1)" by fastforce
  have store: "clean w1" "case r of Inl x \<Rightarrow> saved_of w1 = saved_of w
     | Inr n \<Rightarrow> n = length fresh \<and>
         saved_of w1 = (saved_of w)\<lparr>db_events := db_events (saved_of w) @ map event_to_row fresh\<rparr>"
    using store_step_cases [OF st] assms(1) by (cases r; simp)+
  have counts: "length fresh + dups = length es" using claim_all_counts [OF assms(2)] by simp
  show ?thesis
  proof (cases rule: processed_cases [OF assms(2) False assms(1) st, of name stype])
    case (1 x)
    then have "out = outcome_of (length es) dups 0 no_detection (Some ''store failed'')" "w' = w1" using assms(3) by simp_all
    then show ?thesis using 1 store counts by (simp add: outcome_of_def)
  next
    case (2 n d w2)
    note f = detect_step_frame [OF 2(2) store(1)]
    have out: "out = outcome_of (length es) dups n d (dn_error d)"
      "w' = (if dn_alert_ids d \<noteq> [] then react R E (dn_alert_ids d) w2 else w2)" using 2 assms(3) by simp_all
    have w': "clean w'" "saved_of w' = saved_of w2" using out(2) f(1) react_frame [OF f(1)] by simp_all
    show ?thesis using out(1) w' f store 2(1) counts dn_error_values [OF 2(2)] by (auto simp: outcome_of_def)
  qed
qed

subsection \<open>Claims\<close>

lemma siem_key_claim: "claim_key (siem_key i)"
  by (simp add: claim_key_def siem_key_def)

lemma siem_key_inj [simp]: "siem_key i = siem_key j \<longleftrightarrow> i = j"
  by (simp add: siem_key_def)

lemma claim_event_live:
  assumes "redis_laws R view" "i \<noteq> []"
  obtains s' where "claim_event R ttl i s = (view s (siem_key i) = None, s')"
    "\<And>k. view s' k \<noteq> None \<longleftrightarrow> view s k \<noteq> None \<or> k = siem_key i"
proof -
  obtain s' where "rd_set_nx R s (siem_key i) ''1'' ttl = (Inr (view s (siem_key i) = None), s')"
    "view s' = (if view s (siem_key i) = None then (view s)(siem_key i \<mapsto> RStr ''1'') else view s)"
    using redis_lawsD(4) [OF assms(1), of s "siem_key i" "''1''" ttl] by blast
  then show ?thesis using that [of s'] assms(2) by (auto simp: claim_event_def)
qed

definition claimed :: "'s view \<Rightarrow> 's \<Rightarrow> string \<Rightarrow> bool" where
  "claimed view s i \<longleftrightarrow> view s (siem_key i) \<noteq> None"

lemma claim_all_live:
  assumes "redis_laws R view" "\<forall>e \<in> set es. ue_event_id e \<noteq> []" "claim_all R ttl es s = (fresh, dups, s')"
  shows "(\<forall>i. claimed view s' i \<longleftrightarrow> claimed view s i \<or> i \<in> ue_event_id ` set es) \<and>
    distinct (map ue_event_id fresh) \<and> (\<forall>e \<in> set fresh. \<not> claimed view s (ue_event_id e))"
  using assms(2,3)
proof (induction es arbitrary: s fresh dups)
  case (Cons e es)
  obtain s1 where one: "claim_event R ttl (ue_event_id e) s = (view s (siem_key (ue_event_id e)) = None, s1)"
    "\<And>k. view s1 k \<noteq> None \<longleftrightarrow> view s k \<noteq> None \<or> k = siem_key (ue_event_id e)"
    using claim_event_live [OF assms(1), of "ue_event_id e" ttl s] Cons.prems(1) by auto
  obtain fr du where rest: "claim_all R ttl es s1 = (fr, du, s')"
    "fresh = (if view s (siem_key (ue_event_id e)) = None then e # fr else fr)"
    using Cons.prems(2) one(1) by (auto split: prod.splits if_splits)
  have s1: "claimed view s1 i \<longleftrightarrow> claimed view s i \<or> i = ue_event_id e" for i
    using one(2) by (auto simp: claimed_def)
  note IH = Cons.IH [OF _ rest(1)]
  show ?case using IH Cons.prems(1) rest(2) by (auto simp: s1) (auto simp: claimed_def)
qed simp

lemma claimed_kept: "claims_kept view s s' \<Longrightarrow> claimed view s' i = claimed view s i"
  by (simp add: claims_kept_def claimed_def siem_key_claim)

text \<open>After a batch, whatever happened in it, exactly its identifiers have been claimed in addition.\<close>

lemma batch_claims:
  assumes "redis_laws R view" "redis_keyed R view" "\<forall>e \<in> set es. ue_event_id e \<noteq> []" "clean w"
  shows "claimed view (si_redis (snd (process_events R E name stype es w))) i \<longleftrightarrow>
    claimed view (si_redis w) i \<or> i \<in> ue_event_id ` set es"
proof (cases "es = []")
  case True
  then show ?thesis by (simp add: process_events_def)
next
  case False
  note kept = shared_redis.correlation_kept [OF keyed_shared [OF assms(2)]]
    shared_redis.playbook_loop_kept [OF keyed_shared [OF assms(2)]]
  obtain fresh dups s1 where c: "claim_all R (se_dedup_ttl E) es (si_redis w) = (fresh, dups, s1)"
    by (metis prod.collapse)
  obtain r w1 where st: "store_step E fresh (set_redis s1 w) = (r, w1)" by fastforce
  have "clean w1" "si_play w1 = si_play (set_redis s1 w)" using store_step_cases [OF st] assms(4) by simp_all
  then have w1: "clean w1" "si_redis w1 = s1" by (simp_all add: si_redis_def set_redis_def)
  have s1: "claimed view s1 i \<longleftrightarrow> claimed view (si_redis w) i \<or> i \<in> ue_event_id ` set es"
    using claim_all_live [OF assms(1,3) c] by simp
  show ?thesis
  proof (cases rule: processed_cases [OF c False assms(4) st, of name stype])
    case (1 x)
    then show ?thesis using s1 w1(2) by simp
  next
    case (2 n d w2)
    note f = detect_step_frame [OF 2(2) w1(1)]
    have w2: "claimed view (si_redis w2) i = claimed view s1 i"
      using f(4) w1(2) kept(1) [THEN claimed_kept] by (simp split: if_splits) (metis prod.collapse)
    have "claimed view (si_redis (react R E (dn_alert_ids d) w2)) i = claimed view (si_redis w2) i"
    proof -
      obtain m p where l: "playbook_loop R E (selected_alerts (dn_alert_ids d) w2) (si_play w2) = (m, p)" by fastforce
      have "claimed view (pw_redis p) i = claimed view (pw_redis (si_play w2)) i"
        using kept(2) [OF l, THEN claimed_kept] by simp
      then show ?thesis unfolding si_redis_def react_frame(3) [OF f(1)]
        by (simp add: run_playbooks_for_alerts_def l)
    qed
    then show ?thesis using 2(3) w2 s1 by simp
  qed
qed

subsection \<open>At most one row per identifier\<close>

definition rows_of :: "string \<Rightarrow> pydict list \<Rightarrow> pydict list" where
  "rows_of i rows = filter (\<lambda>r. dict_get r ''event_id'' = PStr i) rows"

lemma row_event_id: "dict_get (event_to_row e) ''event_id'' = PStr (strip_control_chars (ue_event_id e))"
  by (simp add: event_to_row_def raw_row_def dict_get_def)

type_synonym batch = "siem_env \<times> string \<times> string \<times> uevent list"

definition run_batches :: "'s redis \<Rightarrow> batch list \<Rightarrow> 's siem \<Rightarrow> 's siem" where
  "run_batches R bs w = fold (\<lambda>(E, name, stype, es) w. snd (process_events R E name stype es w)) bs w"

text \<open>Identifiers as \<open>make_event_id\<close> builds them: not empty, no control characters.\<close>

definition good_ids :: "uevent list \<Rightarrow> bool" where
  "good_ids es \<longleftrightarrow> list_all (\<lambda>e. ue_event_id e \<noteq> [] \<and> storable (ue_event_id e)) es"

definition at_most_once :: "'s view \<Rightarrow> 's siem \<Rightarrow> bool" where
  "at_most_once view w \<longleftrightarrow> clean w \<and> (\<forall>i. length (rows_of i (db_events (saved_of w))) \<le> 1 \<and>
     (rows_of i (db_events (saved_of w)) \<noteq> [] \<longrightarrow> claimed view (si_redis w) i))"

lemma distinct_filter_le: "distinct (map f xs) \<Longrightarrow> length (filter (\<lambda>x. f x = i) xs) \<le> 1"
proof (induction xs)
  case (Cons x xs)
  then have "f x = i \<Longrightarrow> filter (\<lambda>x. f x = i) xs = []"
    by (auto simp: filter_empty_conv) (metis image_eqI)
  then show ?case using Cons by simp
qed simp

lemma rows_of_new:
  assumes "good_ids fresh" "distinct (map ue_event_id fresh)"
  shows "length (rows_of i (map event_to_row fresh)) \<le> 1"
    "rows_of i (map event_to_row fresh) \<noteq> [] \<Longrightarrow> i \<in> ue_event_id ` set fresh"
proof -
  have eq: "rows_of i (map event_to_row fresh) = map event_to_row (filter (\<lambda>e. ue_event_id e = i) fresh)"
    using assms(1) by (induction fresh) (auto simp: rows_of_def good_ids_def row_event_id strip_storable)
  have "length (filter (\<lambda>e. ue_event_id e = i) fresh) \<le> 1"
    by (rule distinct_filter_le [OF assms(2)])
  then show "length (rows_of i (map event_to_row fresh)) \<le> 1" by (simp add: eq)
  show "rows_of i (map event_to_row fresh) \<noteq> [] \<Longrightarrow> i \<in> ue_event_id ` set fresh"
    by (auto simp: eq filter_empty_conv)
qed

lemma batch_at_most_once:
  assumes "redis_laws R view" "redis_keyed R view" "good_ids es" "at_most_once view w"
  shows "at_most_once view (snd (process_events R E name stype es w))"
proof -
  obtain fresh dups s1 where c: "claim_all R (se_dedup_ttl E) es (si_redis w) = (fresh, dups, s1)"
    by (metis prod.collapse)
  obtain out w' where p: "process_events R E name stype es w = (out, w')" by fastforce
  have w: "clean w" using assms(4) by (simp add: at_most_once_def)
  have ids: "\<forall>e \<in> set es. ue_event_id e \<noteq> []" using assms(3) by (auto simp: good_ids_def list_all_iff)
  note surv = stored_events_survive [OF w c p] and live = claim_all_live [OF assms(1) ids c]
  have fresh: "good_ids fresh" "set fresh \<subseteq> set es"
    using claim_all_counts [OF c] assms(3) by (auto simp: good_ids_def list_all_iff)
  have now: "claimed view (si_redis w') i \<longleftrightarrow> claimed view (si_redis w) i \<or> i \<in> ue_event_id ` set es" for i
    using batch_claims [OF assms(1,2) ids w, of E name stype i] p by simp
  show ?thesis
  proof (cases "so_error out = Some ''store failed''")
    case True
    then show ?thesis using surv assms(4) now p by (simp add: at_most_once_def)
  next
    case False
    have rows: "rows_of i (db_events (saved_of w')) = rows_of i (db_events (saved_of w)) @ rows_of i (map event_to_row fresh)" for i
      using surv False by (simp add: rows_of_def)
    have new: "rows_of i (map event_to_row fresh) \<noteq> [] \<Longrightarrow>
        \<not> claimed view (si_redis w) i \<and> i \<in> ue_event_id ` set es" for i
      using rows_of_new(2) [OF fresh(1), of i] live fresh(2) by blast
    have "length (rows_of i (db_events (saved_of w'))) \<le> 1 \<and>
        (rows_of i (db_events (saved_of w')) \<noteq> [] \<longrightarrow> claimed view (si_redis w') i)" for i
    proof (cases "rows_of i (map event_to_row fresh) = []")
      case True
      then show ?thesis using assms(4) rows [of i] now by (simp add: at_most_once_def)
    next
      case False
      then have "rows_of i (db_events (saved_of w)) = []" using new assms(4) by (auto simp: at_most_once_def)
      then show ?thesis using rows_of_new(1) [OF fresh(1), of i] live rows [of i] now new False by auto
    qed
    then show ?thesis using surv p by (simp add: at_most_once_def)
  qed
qed

text \<open>
  C4: Over any sequence of batches from any sources, with any failures of the database, no event identifier is
  stored twice while Redis keeps the claims.
\<close>

theorem stored_at_most_once:
  assumes "redis_laws R view" "redis_keyed R view" "clean w" "db_events (saved_of w) = []"
    "\<forall>(E, name, stype, es) \<in> set bs. good_ids es"
  shows "length (rows_of i (db_events (saved_of (run_batches R bs w)))) \<le> 1"
proof -
  have "at_most_once view w" using assms(3,4) by (simp add: at_most_once_def rows_of_def)
  then have "at_most_once view (run_batches R bs w)" using assms(5) unfolding run_batches_def
  proof (induction bs arbitrary: w)
    case (Cons b bs)
    then show ?case using batch_at_most_once [OF assms(1,2)] by (cases b) simp
  qed simp
  then show ?thesis by (simp add: at_most_once_def)
qed

subsection \<open>A failed store\<close>

lemma all_claimed_are_duplicates:
  assumes "redis_laws R view" "\<forall>e \<in> set es. ue_event_id e \<noteq> [] \<and> claimed view s (ue_event_id e)"
  shows "\<exists>s'. claim_all R ttl es s = ([], length es, s')"
proof -
  obtain fresh dups s' where c: "claim_all R ttl es s = (fresh, dups, s')" by (metis prod.collapse)
  have "set fresh \<subseteq> set es" "length fresh + dups = length es" using claim_all_counts [OF c] by auto
  moreover have "\<forall>e \<in> set fresh. \<not> claimed view s (ue_event_id e)" using claim_all_live [OF assms(1) _ c] assms(2) by blast
  ultimately have "fresh = []" using assms(2) by (cases fresh) auto
  then show ?thesis using c \<open>length fresh + dups = length es\<close> by simp
qed

text \<open>
  A batch whose store fails is lost: its identifiers stay claimed, so sending the same events again, to a
  database that works by now, counts them as duplicates and stores none.
\<close>

theorem failed_store_loses_batch:
  assumes "redis_laws R view" "redis_keyed R view" "clean w" "\<forall>e \<in> set es. ue_event_id e \<noteq> []" "es \<noteq> []"
    "process_events R E name stype es w = (out, w1)" "so_error out = Some ''store failed''"
    "process_events R E' name stype es w1 = (again, w2)"
  shows "so_stored again = 0 \<and> so_duplicates again = length es \<and> so_error again = None \<and>
    db_events (saved_of w2) = db_events (saved_of w)"
proof -
  obtain fresh dups s1 where c: "claim_all R (se_dedup_ttl E) es (si_redis w) = (fresh, dups, s1)"
    by (metis prod.collapse)
  have w1: "clean w1" "db_events (saved_of w1) = db_events (saved_of w)"
    using stored_events_survive [OF assms(3) c assms(6)] assms(7) by simp_all
  have "claimed view (si_redis w1) (ue_event_id e)" if "e \<in> set es" for e
    using batch_claims [OF assms(1,2,4,3), of E name stype] assms(6) that by simp
  then obtain s2 where c2: "claim_all R (se_dedup_ttl E') es (si_redis w1) = ([], length es, s2)"
    using all_claimed_are_duplicates [OF assms(1), of es "si_redis w1" "se_dedup_ttl E'"] assms(4) by blast
  have "again = outcome_of (length es) (length es) 0 no_detection None"
    using assms(5,8) by (auto simp: process_events_def c2 store_step_def detect_step_def no_detection_def)
  then show ?thesis using stored_events_survive [OF w1(1) c2 assms(8)] w1(2) by (simp add: outcome_of_def no_detection_def)
qed

subsection \<open>Concrete runs\<close>

definition sample_env :: "(pydict list \<Rightarrow> unit result) \<Rightarrow> siem_env" where
  "sample_env accepts = \<lparr>se_rules = [], se_corr_rules = [], se_playbooks = [],
     se_playbook_env = \<lparr>pe_post = (\<lambda>_ _. Inr 200), pe_run = (\<lambda>_ _. Inr (0, [], [])), pe_exn_text = (\<lambda>_. ''error''),
       pe_artifact = (\<lambda>_. None), pe_sha256 = (\<lambda>_. ''0''), pe_sign = (\<lambda>_. ''0''), pe_base_url = [],
       pe_script_enabled = False, pe_idempotency_ttl = 60\<rparr>,
     se_parse_env = \<lparr>pe_time = (\<lambda>_ d. d), pe_now = ''now'', pe_sha256 = (\<lambda>_. ''0''), pe_float = (\<lambda>_. None),
       pe_exn_text = (\<lambda>_. ''error'')\<rparr>,
     se_enabled = True, se_max_events = 5000, se_dedup_ttl = 86400, se_now = ''now'', se_accepts = accepts,
     se_commit = (\<lambda>_. Inr ()), se_agent_id = (\<lambda>_. ''a1''), se_add_agent = (\<lambda>_. Inr ()),
     se_add_alerts = (\<lambda>_ _. Inr []), se_notify = (\<lambda>_. Inr ())\<rparr>"

definition empty_siem :: "rmap siem" where
  "empty_siem = (let d = \<lparr>db_events = [], db_sources = [], db_agents = [], db_alerts = []\<rparr> in
     \<lparr>si_session = \<lparr>ss_view = d, ss_saved = d\<rparr>, si_cache = [],
      si_play = \<lparr>pw_redis = [], pw_effects = [], pw_executions = [], pw_remediations = []\<rparr>, si_notified = []\<rparr>)"

definition works :: siem_env where "works = sample_env (\<lambda>_. Inr ())"
definition refuses :: siem_env where "refuses = sample_env (\<lambda>_. Inl (OtherError ''invalid byte sequence''))"

definition event_named :: "string \<Rightarrow> uevent" where
  "event_named i = blank_uevent\<lparr>ue_event_id := i\<rparr>"

lemma empty_clean: "clean empty_siem" "db_events (saved_of empty_siem) = []"
  by (simp_all add: clean_def empty_siem_def view_of_def saved_of_def Let_def)

lemma stored_events_survive_witness:
  "so_stored (fst (process_events map_redis works ''fw'' ''syslog'' [event_named ''x'', event_named ''y'', event_named ''x''] empty_siem)) = 2"
proof -
  let ?es = "[event_named ''x'', event_named ''y'', event_named ''x'']"
  obtain fresh dups s1 where c: "claim_all map_redis (se_dedup_ttl works) ?es (si_redis empty_siem) = (fresh, dups, s1)"
    by (metis prod.collapse)
  obtain out w' where p: "process_events map_redis works ''fw'' ''syslog'' ?es empty_siem = (out, w')" by fastforce
  have "map ue_event_id (fst (claim_all map_redis (se_dedup_ttl works) ?es (si_redis empty_siem))) = [''x'', ''y'']"
    by code_simp
  then have "length fresh = 2" using c by (metis fst_conv length_map list.size(3,4) numeral_2_eq_2 One_nat_def add.commute plus_1_eq_Suc)
  moreover have "so_error (fst (process_events map_redis works ''fw'' ''syslog'' ?es empty_siem)) = None" by code_simp
  ultimately show ?thesis using stored_events_survive [OF empty_clean(1) c p] p by simp
qed

lemma stored_at_most_once_witness:
  "length (rows_of ''x'' (db_events (saved_of (run_batches map_redis
     [(works, ''fw'', ''syslog'', [event_named ''x'']), (refuses, ''ids'', ''suricata'', [event_named ''z'']),
      (works, ''fw'', ''syslog'', [event_named ''y'', event_named ''x''])] empty_siem)))) \<le> 1"
proof (rule stored_at_most_once [OF map_redis_laws map_redis_keyed empty_clean])
  show "\<forall>(E, name, stype, es) \<in> set [(works, ''fw'', ''syslog'', [event_named ''x'']),
      (refuses, ''ids'', ''suricata'', [event_named ''z'']),
      (works, ''fw'', ''syslog'', [event_named ''y'', event_named ''x''])]. good_ids es"
    by (simp add: good_ids_def event_named_def storable_def is_control_def code_def)
qed

lemma failed_store_loses_batch_witness:
  "so_duplicates (fst (process_events map_redis works ''fw'' ''syslog'' [event_named ''x'']
     (snd (process_events map_redis refuses ''fw'' ''syslog'' [event_named ''x''] empty_siem)))) = 1"
proof -
  obtain out w1 where p: "process_events map_redis refuses ''fw'' ''syslog'' [event_named ''x''] empty_siem = (out, w1)"
    by fastforce
  obtain again w2 where q: "process_events map_redis works ''fw'' ''syslog'' [event_named ''x''] w1 = (again, w2)"
    by fastforce
  have "so_error (fst (process_events map_redis refuses ''fw'' ''syslog'' [event_named ''x''] empty_siem)) = Some ''store failed''"
    by code_simp
  then have "so_error out = Some ''store failed''" using p by simp
  then show ?thesis
    using failed_store_loses_batch [OF map_redis_laws map_redis_keyed empty_clean(1) _ _ p _ q] p q
    by (simp add: event_named_def)
qed

subsection \<open>The agent of a source\<close>

text \<open>The cache is keyed by the name alone: a second type of the same source gets the agent of the first.\<close>

lemma cached_agent_ignores_type:
  assumes "get_or_create_source_agent E name first w = (Inr a, w1)"
    "find_first (\<lambda>b. sa_id b = sa_id a) (db_agents (view_of w1)) = Some a" "assoc name (si_cache w1) = Some (sa_id a)"
  shows "get_or_create_source_agent E name second w1 = (Inr a, w1)"
  using assms(2,3) by (simp add: get_or_create_source_agent_def cached_agent_def)

subsection \<open>Severities and keys\<close>

text \<open>
  The level of a rule becomes the severity of the alert as it is, so the lowest level of Sigma gives a severity the
  rest of the program does not know; and the names inside \<open>extra\<close> are not cleaned, only the values.
\<close>

lemma informational_is_no_severity:
  "sm_level m = ''informational'' \<Longrightarrow> al_severity (alert_from_sigma e m a) = ''INFORMATIONAL''"
  "\<not> List.member INTERNAL_SEVERITIES ''INFORMATIONAL''"
proof -
  have "upper ''informational'' = ''INFORMATIONAL''" by code_simp
  then show "sm_level m = ''informational'' \<Longrightarrow> al_severity (alert_from_sigma e m a) = ''INFORMATIONAL''"
    by (simp add: alert_from_sigma_def Let_def)
  show "\<not> List.member INTERNAL_SEVERITIES ''INFORMATIONAL''" by code_simp
qed

lemma control_character_in_key_survives:
  "dict_get (event_to_row (blank_uevent\<lparr>ue_extra := [([CHR 0x00], PInt 1)]\<rparr>)) ''extra'' = PDict [([CHR 0x00], PInt 1)]"
  by code_simp

end
