(* ===== verification/Total_Tables.thy ===== *)
theory Total_Tables
  imports Regex_Groups Pytext
begin

section \<open>Aegis Total: tables and patterns\<close>

text \<open>
  The tables and regular expressions of \<open>app/api/v1/total.py\<close>, in source order.  A file is the list of its
  bytes, and its Latin-1 text the same list; patterns under \<open>(?i)\<close> fold ASCII letters.  The whole match is the
  group \<open>0\<close>.
\<close>

subsection \<open>Tables\<close>

definition TEXT_EXTS :: "string list" where
  "TEXT_EXTS =
    [''.py'', ''.pyw'', ''.js'', ''.mjs'', ''.cjs'', ''.ts'', ''.tsx'', ''.jsx'', ''.vue'', ''.svelte'',
     ''.ps1'', ''.psm1'', ''.psd1'', ''.sh'', ''.bash'', ''.zsh'', ''.bat'', ''.cmd'', ''.vbs'', ''.vbe'',
     ''.vba'', ''.hta'', ''.wsf'', ''.pl'', ''.pm'', ''.rb'', ''.php'', ''.java'', ''.kt'', ''.kts'',
     ''.go'', ''.rs'', ''.c'', ''.h'', ''.cc'', ''.cpp'', ''.hpp'', ''.cs'', ''.vb'', ''.swift'', ''.lua'',
     ''.r'', ''.scala'', ''.clj'', ''.groovy'', ''.dart'', ''.sql'', ''.asm'', ''.s'', ''.json'',
     ''.jsonc'', ''.yml'', ''.yaml'', ''.toml'', ''.ini'', ''.cfg'', ''.conf'', ''.env'', ''.xml'',
     ''.xsl'', ''.xslt'', ''.html'', ''.htm'', ''.css'', ''.scss'', ''.less'', ''.md'', ''.txt'', ''.rst'',
     ''.log'', ''.csv'', ''.tsv'', ''.gradle'', ''.properties'', ''.cmake'', ''.dockerfile'', ''.makefile'',
     ''.tf'', ''.tfvars'', ''.hcl'', ''.reg'', ''.inf'', ''.desktop'', ''.service'']"

definition MANIFEST_NAMES :: "string list" where
  "MANIFEST_NAMES =
    [''requirements.txt'', ''package.json'', ''package-lock.json'', ''go.mod'', ''go.sum'', ''cargo.toml'',
     ''cargo.lock'', ''pom.xml'', ''build.gradle'', ''build.gradle.kts'', ''pyproject.toml'', ''pipfile'',
     ''pipfile.lock'', ''gemfile'', ''composer.json'', ''venv.yml'', ''environment.yml'', ''dune-project'',
     ''mix.exs'']"

definition DUAL_USE_IMPORTS :: "string list" where
  "DUAL_USE_IMPORTS =
    [''RegSetValueEx'', ''CreateService'', ''ShellExecute'', ''WinExec'', ''CreateProcessW'',
     ''WinHttpOpen'', ''InternetOpenUrl'', ''CryptEncrypt'', ''GetAsyncKeyState'', ''SetWindowsHookEx'',
     ''NtQueryInformationProcess'']"

definition POWERSHELL_EXEC_MARKERS :: "string list" where
  "POWERSHELL_EXEC_MARKERS =
    [''-encodedcommand'', ''-enc '', ''invoke-expression'', ''frombase64string'', ''-nop'', ''-w hidden'',
     ''-windowstyle hidden'', ''add-type'', ''-executionpolicy bypass'', ''iex ('', ''iex('',
     ''new-object net.webclient'', ''downloadstring'', ''downloadfile'', ''invoke-webrequest'',
     ''-noprofile'']"

definition VBA_AUTORUN :: "string list" where
  "VBA_AUTORUN =
    [''autoopen'', ''document_open'', ''workbook_open'', ''auto_close'', ''document_close'',
     ''workbook_activate'', ''autoexec'', ''autonew'', ''documentbeforeclose'']"

definition VBA_RISKY_API :: "string list" where
  "VBA_RISKY_API =
    [''createobject'', ''wscript.shell'', ''shell('', ''shellexecute'', ''powershell'', ''cmd.exe'',
     ''urlmon'', ''xmlhttp'', ''adodb.stream'', ''saveToFile'', ''environ('', ''getobject'',
     ''declare ptrsafe'', ''virtualalloc'', ''lib '', ''kernel32'']"

definition OFFICE_EXEC_MARKERS :: "string list" where
  "OFFICE_EXEC_MARKERS =
    [''ddeauto'', ''dde '', ''microsoft excel 4.0 macro'', ''xm|'', ''msexcel4macro'']"

definition SUSPICIOUS_IMPORTS :: "(string \<times> string \<times> string) list" where
  "SUSPICIOUS_IMPORTS =
    [(''CreateRemoteThread'', ''Process Injection'', ''T1055''),
     (''WriteProcessMemory'', ''Process Injection'', ''T1055''),
     (''VirtualAllocEx'', ''Process Injection'', ''T1055''),
     (''NtUnmapViewOfSection'', ''Process Hollowing'', ''T1055.012''),
     (''SetWindowsHookEx'', ''Keylogging'', ''T1056.001''),
     (''GetAsyncKeyState'', ''Keylogging'', ''T1056.001''),
     (''CryptEncrypt'', ''Ransomware/Obfuscation'', ''T1486''),
     (''WinHttpOpen'', ''HTTP C2'', ''T1071.001''), (''InternetOpenUrl'', ''HTTP C2'', ''T1071.001''),
     (''RegSetValueEx'', ''Registry Modification'', ''T1112''),
     (''CreateService'', ''Persistence'', ''T1543.003''),
     (''ShellExecute'', ''Shell Execution'', ''T1059''), (''WinExec'', ''Shell Execution'', ''T1059''),
     (''CreateProcessW'', ''Process Execution'', ''T1106''),
     (''NtQueryInformationProcess'', ''Evasion/Injection'', ''T1055''),
     (''MiniDumpWriteDump'', ''Credential Dumping'', ''T1003.001''),
     (''AdjustTokenPrivileges'', ''Privilege Escalation'', ''T1134''),
     (''SetThreadContext'', ''Process Injection'', ''T1055.003''),
     (''QueueUserAPC'', ''Process Injection'', ''T1055.004'')]"

definition MACHO_MAGICS :: "(string \<times> string \<times> bool) list" where
  "MACHO_MAGICS =
    [([CHR 0xFE, CHR 0xED, CHR 0xFA, CHR 0xCE], ''Mach-O 32 LE'', True),
     ([CHR 0xFE, CHR 0xED, CHR 0xFA, CHR 0xCF], ''Mach-O 64 LE'', True),
     ([CHR 0xCE, CHR 0xFA, CHR 0xED, CHR 0xFE], ''Mach-O 32 BE'', False),
     ([CHR 0xCF, CHR 0xFA, CHR 0xED, CHR 0xFE], ''Mach-O 64 BE'', False),
     ([CHR 0xCA, CHR 0xFE, CHR 0xBA, CHR 0xBE], ''Mach-O fat/universal'', False),
     ([CHR 0xBE, CHR 0xBA, CHR 0xFE, CHR 0xCA], ''Mach-O fat/universal BE'', True)]"

definition MACHO_CPUS :: "(int \<times> string) list" where
  "MACHO_CPUS = [(7, ''x86''), (0x1000007, ''x86_64''), (12, ''arm''), (0x100000c, ''arm64''), (18, ''ppc''),
     (0x1000012, ''ppc64'')]"

definition IMPORT_WEIGHT_SPECIFIC :: int where "IMPORT_WEIGHT_SPECIFIC = 15"
definition IMPORT_WEIGHT_DUAL_USE :: int where "IMPORT_WEIGHT_DUAL_USE = 0"
definition IMPORT_SCORE_CAP :: int where "IMPORT_SCORE_CAP = 30"

definition PER_ENTRY_MAX_BYTES :: int where "PER_ENTRY_MAX_BYTES = 64 * 1024 * 1024"
definition TOTAL_UNCOMPRESSED_MAX :: int where "TOTAL_UNCOMPRESSED_MAX = 500 * 1024 * 1024"
definition MAX_ANALYZED_MEMBERS :: nat where "MAX_ANALYZED_MEMBERS = 500"
definition MAX_NESTED_DEPTH :: nat where "MAX_NESTED_DEPTH = 2"
definition MAX_TEXT_SCAN_BYTES :: int where "MAX_TEXT_SCAN_BYTES = 5 * 1024 * 1024"
definition MAX_UTF16_SCAN_BYTES :: int where "MAX_UTF16_SCAN_BYTES = 16 * 1024 * 1024"

subsection \<open>Pieces of patterns\<close>

definition whole :: "grx \<Rightarrow> grx" where
  "whole r = GGroup ''0'' r"

definition word_ci :: "string \<Rightarrow> grx" where
  "word_ci w = g_seq [GWordB, g_lit_ci w, GWordB]"

text \<open>\<open>\bw\w*\<close>, \<open>.{0,n}\<close> and \<open>r{m,n}\<close>.\<close>

definition stem_ci :: "string \<Rightarrow> grx" where
  "stem_ci w = g_seq [GWordB, g_lit_ci w, GStar (GSet is_word)]"

definition gap :: "nat \<Rightarrow> grx" where
  "gap n = g_upto n g_dot"

definition g_range :: "nat \<Rightarrow> nat \<Rightarrow> grx \<Rightarrow> grx" where
  "g_range m n r = GSeq (g_times m r) (g_upto (n - m) r)"

text \<open>\<open>r{m,}\<close>.\<close>

definition g_atleast :: "nat \<Rightarrow> grx \<Rightarrow> grx" where
  "g_atleast m r = GSeq (g_times m r) (GStar r)"

definition one_of :: "string \<Rightarrow> grx" where
  "one_of cs = GSet (\<lambda>c. c \<in> set cs)"

definition alnum_or :: "string \<Rightarrow> grx" where
  "alnum_or cs = GSet (\<lambda>c. is_alnum c \<or> c \<in> set cs)"

definition no_space_or :: "string \<Rightarrow> grx" where
  "no_space_or cs = GSet (\<lambda>c. \<not> is_space c \<and> c \<notin> set cs)"

abbreviation dquote :: char where "dquote \<equiv> CHR 0x22"

subsection \<open>Suspicious strings\<close>

definition tools_pattern :: grx where
  "tools_pattern = g_seq [GWordB, g_words_ci [''mimikatz'', ''bloodhound'', ''sharphound'', ''rubeus'', ''sekurlsa'',
     ''kerberoast''], GWordB]"

definition powershell_pattern :: grx where
  "powershell_pattern = g_alts [g_seq [word_ci ''powershell'', gap 60, g_lit_ci ''-enc''], word_ci ''-encodedcommand'',
     word_ci ''frombase64string'', word_ci ''invoke-mimikatz'', word_ci ''invoke-expression'']"

definition amsi_pattern :: grx where
  "amsi_pattern = g_alts [stem_ci ''disableamsi'',
     g_seq [stem_ci ''amsi'', gap 40, stem_ci ''patch''], g_seq [stem_ci ''patch'', gap 40, stem_ci ''amsi''],
     g_seq [stem_ci ''etw'', gap 40, stem_ci ''patch''], g_seq [stem_ci ''patch'', gap 40, stem_ci ''etw''],
     g_seq [stem_ci ''unhook'', gap 40, word_ci ''ntdll'']]"

definition credential_pattern :: grx where
  "credential_pattern = g_alts [stem_ci ''keylog'', stem_ci ''clipboardlog'',
     g_seq [stem_ci ''credential'', gap 40, stem_ci ''dump''], g_seq [word_ci ''lsass'', gap 40, stem_ci ''dump''],
     word_ci ''procdump'']"

definition shell_pattern :: grx where
  "shell_pattern = g_alts [g_seq [word_ci ''reverse'', gap 30, word_ci ''shell''],
     g_seq [word_ci ''bind'', gap 30, word_ci ''shell''], word_ci ''nc.exe'', word_ci ''ncat'',
     g_seq [word_ci ''cobalt'', gap 30, word_ci ''strike''], word_ci ''metasploit'', word_ci ''meterpreter'']"

definition injection_pattern :: grx where
  "injection_pattern = g_alts [g_seq [word_ci ''virtualalloc'', gap 40, word_ci ''rwx''],
     word_ci ''writeprocessmemory'', word_ci ''createremotethread'', word_ci ''ntcreatethreadex'']"

definition lolbin_pattern :: grx where
  "lolbin_pattern = g_alts [g_seq [word_ci ''regsvr32'', gap 60, word_ci ''scrobj''],
     g_seq [word_ci ''mshta'', gap 60, word_ci ''vbscript''], g_seq [word_ci ''certutil'', gap 60, word_ci ''decode''],
     g_seq [word_ci ''bitsadmin'', gap 60, word_ci ''transfer'']]"

definition piped_shell :: "string \<Rightarrow> grx" where
  "piped_shell w = g_seq [word_ci w, gap 60, g_char CHR ''|'', GStar g_space, g_words_ci [''bash'', ''sh''], GWordB]"

definition miner_pattern :: grx where
  "miner_pattern = g_seq [GWordB, g_words_ci [''xmrig'', ''stratum+tcp'', ''moneropool'', ''ethermine'', ''nanopool''], GWordB]"

definition SUSPICIOUS_STRINGS :: "grx list" where
  "SUSPICIOUS_STRINGS = map whole [tools_pattern, powershell_pattern, amsi_pattern, credential_pattern, shell_pattern,
     injection_pattern, lolbin_pattern, g_alts [piped_shell ''wget'', piped_shell ''curl''], miner_pattern]"

subsection \<open>Secrets\<close>

definition quote_1 :: grx where
  "quote_1 = one_of [squote, dquote]"

definition SECRET_PATTERNS :: "(string \<times> grx) list" where
  "SECRET_PATTERNS =
    [(''aws_access_key'', GSeq (g_lit ''AKIA'') (g_times 16 (GSet (\<lambda>c. is_digit c \<or> is_upper_alpha c)))),
     (''aws_secret_key'', g_seq [g_lit_ci ''aws'', gap 20, g_lit_ci ''secret'', gap 20, quote_1,
        g_times 40 (alnum_or ''/+''), quote_1]),
     (''private_key_pem'', g_seq [g_lit ''-----BEGIN '', g_opt (g_alts [g_lit ''RSA '', g_lit ''EC '',
        g_lit ''OPENSSH '', g_lit ''DSA '']), g_lit ''PRIVATE KEY-----'']),
     (''jwt_token'', g_seq [g_lit ''eyJ'', g_atleast 10 (alnum_or ''_-''), g_char CHR ''.'', g_atleast 10 (alnum_or ''_-''),
        g_char CHR ''.'', g_atleast 10 (alnum_or ''_-'')]),
     (''password_literal'', g_seq [g_words_ci [''password'', ''passwd'', ''pwd''], GStar g_space, one_of '':='',
        GStar g_space, g_atleast 4 (no_space_or ([dquote, squote] @ '',;''))]),
     (''generic_api_key'', g_seq [g_alts [g_seq [g_lit_ci ''api'', g_opt (one_of ''_-''), g_lit_ci ''key''],
          g_seq [g_lit_ci ''secret'', g_opt (one_of ''_-''), g_lit_ci ''key''],
          g_seq [g_lit_ci ''access'', g_opt (one_of ''_-''), g_lit_ci ''token'']],
        GStar g_space, one_of '':='', GStar g_space, g_opt quote_1, g_atleast 16 (alnum_or ''_-'')]),
     (''github_token'', g_seq [g_lit ''gh'', one_of ''pousr'', g_char CHR ''_'', g_atleast 36 (GSet is_alnum)]),
     (''slack_token'', g_seq [g_lit ''xox'', one_of ''baprs'', g_char CHR ''-'', g_atleast 10 (alnum_or ''-'')]),
     (''stripe_key'', g_seq [g_alts [g_lit ''sk'', g_lit ''pk''], g_char CHR ''_'', g_alts [g_lit ''live'', g_lit ''test''],
        g_char CHR ''_'', g_atleast 24 (GSet is_alnum)]),
     (''google_api_key'', GSeq (g_lit ''AIza'') (g_times 35 (alnum_or ''-_''))),
     (''connection_string'', g_seq [g_words_ci [''mongodb'', ''mysql'', ''postgresql'', ''redis'', ''amqp''], g_lit ''://'',
        g_plus (no_space_or ([dquote, squote] @ ''<>''))])]"

subsection \<open>Indicators\<close>

definition octet_pattern :: grx where
  "octet_pattern = g_alts [GSeq (g_lit ''25'') (one_of ''012345''), g_seq [g_char CHR ''2'', one_of ''01234'', g_digit],
     g_seq [g_opt (one_of ''01''), g_digit, g_opt g_digit]]"

definition ipv4_pattern :: grx where
  "ipv4_pattern = g_seq [GWordB, g_times 3 (GSeq octet_pattern (g_char CHR ''.'')), octet_pattern, GWordB]"

definition domain_pattern :: grx where
  "domain_pattern = g_seq [GWordB,
     g_plus (g_seq [GSet is_alnum, g_opt (GSeq (g_upto 61 (alnum_or ''-'')) (GSet is_alnum)), g_char CHR ''.'']),
     g_alts (map g_lit [''com'', ''net'', ''org'', ''io'', ''xyz'', ''top'', ''ru'', ''cn'', ''tk'', ''pw'', ''cc'', ''biz'',
       ''info'', ''online'', ''site'', ''shop'', ''live'', ''club'']), GWordB]"

definition url_pattern :: grx where
  "url_pattern = g_seq [g_lit ''http'', g_opt (g_char CHR ''s''), g_lit ''://'',
     g_range 10 200 (GSet (\<lambda>c. \<not> is_space c \<and> c \<notin> set ([dquote, squote] @ ''<>'') \<and> code c > 31))]"

definition registry_pattern :: grx where
  "registry_pattern = g_seq [g_lit ''HKEY_'', GGroup ''1'' (g_alts [g_lit ''LOCAL_MACHINE'', g_lit ''CURRENT_USER'',
     g_lit ''CLASSES_ROOT'', g_lit ''USERS'']), g_char backslash, g_atleast 5 (no_space_or [dquote, squote])]"

definition onion_pattern :: grx where
  "onion_pattern = g_seq [GWordB, g_range 16 56 (GSet (\<lambda>c. is_lower_alpha c \<or> c \<in> set ''234567'')), g_lit ''.onion'', GWordB]"

text \<open>
  \<open>findall\<close> returns the text of the match, or of the group when the pattern has one: the last component names the group
  it reads.
\<close>

definition IOC_PATTERNS :: "(string \<times> grx \<times> string) list" where
  "IOC_PATTERNS = [(''ipv4'', whole ipv4_pattern, ''0''), (''domain'', whole domain_pattern, ''0''),
     (''url'', whole url_pattern, ''0''), (''registry_key'', whole registry_pattern, ''1''), (''onion'', whole onion_pattern, ''0'')]"

definition VERSIONLIKE_IPV4 :: grx where
  "VERSIONLIKE_IPV4 = g_seq [GStart, g_range 1 3 g_digit, g_char CHR ''.'', g_range 1 3 g_digit, g_lit ''.0.0'', GEnd]"

definition CRACK_NAMES :: grx where
  "CRACK_NAMES = g_seq [g_words_ci [''crack'', ''keygen'', ''keymaker'', ''patcher'', ''serial'', ''activator'', ''loader''],
     GLazy g_dot, g_char CHR ''.'', g_words_ci [''exe'', ''dll'', ''zip''], GEnd]"

definition PDB_PATTERN :: grx where
  "PDB_PATTERN = whole (g_seq [GSet is_alpha, g_char CHR '':'', g_char backslash,
     g_upto 200 (GSet (\<lambda>c. c \<notin> {CHR 0x00, CHR 0x0D, CHR 0x0A})), g_lit ''.pdb''])"

end
