(* ===== verification/Siem_Partitions.thy ===== *)
theory Siem_Partitions
  imports Pytext Regex_Groups
begin

section \<open>Monthly partitions\<close>

text \<open>
  The calendar part of \<open>app/services/siem_store.py\<close>: the partitions that are created ahead and those
  that are dropped when they are old.  A moment is a date of the Gregorian calendar and the seconds of its day;
  \<open>add_days\<close> is the addition of a \<open>timedelta\<close> of days.  \<open>next_month_correct\<close> shows that the trick of adding 32
  days and returning to the first gives the next month, and \<open>dropped_partition_is_old\<close> that no partition is dropped
  that may hold an event younger than the cutoff.
\<close>

record date =
  year :: int
  month :: int
  day :: int

record moment = date +
  seconds :: int

definition leap :: "int \<Rightarrow> bool" where
  "leap y \<longleftrightarrow> y mod 4 = 0 \<and> (y mod 100 \<noteq> 0 \<or> y mod 400 = 0)"

definition month_days :: "int \<Rightarrow> int \<Rightarrow> int" where
  "month_days y mo = (if mo = 2 then (if leap y then 29 else 28) else if mo \<in> {4, 6, 9, 11} then 30 else 31)"

definition wf_date :: "'a date_scheme \<Rightarrow> bool" where
  "wf_date d \<longleftrightarrow> 1 \<le> month d \<and> month d \<le> 12 \<and> 1 \<le> day d \<and> day d \<le> month_days (year d) (month d)"

definition tomorrow :: "'a date_scheme \<Rightarrow> 'a date_scheme" where
  "tomorrow d = (if day d < month_days (year d) (month d) then d\<lparr>day := day d + 1\<rparr>
     else if month d < 12 then d\<lparr>month := month d + 1, day := 1\<rparr>
     else d\<lparr>year := year d + 1, month := 1, day := 1\<rparr>)"

fun add_days :: "nat \<Rightarrow> 'a date_scheme \<Rightarrow> 'a date_scheme" where
  "add_days 0 d = d"
| "add_days (Suc n) d = add_days n (tomorrow d)"

subsection \<open>Months\<close>

definition month_start :: "moment \<Rightarrow> moment" where
  "month_start t = t\<lparr>day := 1, seconds := 0\<rparr>"

definition next_month :: "moment \<Rightarrow> moment" where
  "next_month t = (add_days 32 (month_start t))\<lparr>day := 1\<rparr>"

text \<open>The digits of \<open>%Y\<close>, \<open>%m\<close> and \<open>%d\<close>.\<close>

fun padded :: "nat \<Rightarrow> int \<Rightarrow> string" where
  "padded 0 n = []"
| "padded (Suc w) n = padded w (n div 10) @ [digit (nat (n mod 10))]"

definition read_digits :: "string \<Rightarrow> int" where
  "read_digits s = foldl (\<lambda>n c. n * 10 + int (digit_val c)) 0 s"

definition partition_name :: "moment \<Rightarrow> string" where
  "partition_name t = ''siem_events_'' @ padded 4 (year t) @ ''_'' @ padded 2 (month t)"

definition iso_date :: "moment \<Rightarrow> string" where
  "iso_date t = padded 4 (year t) @ ''-'' @ padded 2 (month t) @ ''-'' @ padded 2 (day t)"

definition create_statement :: "moment \<Rightarrow> string" where
  "create_statement t = ''CREATE TABLE IF NOT EXISTS '' @ partition_name t @
     '' PARTITION OF siem_events FOR VALUES FROM ('' @ [squote] @ iso_date t @ [squote] @ '') TO ('' @ [squote] @
     iso_date (next_month t) @ [squote] @ '')''"

subsection \<open>Creating partitions\<close>

text \<open>
  The process flag, the kind of the table the catalog reports (\<open>Inl\<close>: the query failed) and the database that runs
  statements: the statements issued are the result, with the number that succeeded.
\<close>

fun create_from :: "(string \<Rightarrow> unit result) \<Rightarrow> nat \<Rightarrow> moment \<Rightarrow> nat \<times> string list" where
  "create_from run 0 t = (0, [])"
| "create_from run (Suc n) t = (case run (create_statement t) of
     Inl x \<Rightarrow> (0, [create_statement t])
   | Inr _ \<Rightarrow> (case create_from run n (next_month t) of (k, ss) \<Rightarrow> (Suc k, create_statement t # ss)))"

definition ensure_monthly_partitions ::
  "string option result \<Rightarrow> (string \<Rightarrow> unit result) \<Rightarrow> moment \<Rightarrow> nat \<Rightarrow> bool \<Rightarrow> (nat \<times> string list) \<times> bool" where
  "ensure_monthly_partitions kind run now months_ahead ready =
     (if ready then ((0, []), ready)
      else case kind of
        Inl x \<Rightarrow> ((0, []), True)
      | Inr k \<Rightarrow> if k \<noteq> Some ''p'' then ((0, []), True)
          else (create_from run (max 1 months_ahead + 1) (month_start now), True))"

subsection \<open>Dropping partitions\<close>

text \<open>\<open>strptime(suffix, "%Y_%m")\<close>: four digits, an underscore, and a month of one or two digits.\<close>

definition YEAR_MONTH :: grx where
  "YEAR_MONTH = g_seq [GGroup ''Y'' (g_times 4 g_digit), g_char CHR ''_'',
     GGroup ''m'' (g_alts [GSeq (g_char CHR ''1'') (GSet (\<lambda>c. c \<in> set ''012'')),
       GSeq (g_char CHR ''0'') (GSet (\<lambda>c. is_digit c \<and> c \<noteq> CHR ''0'')), GSet (\<lambda>c. is_digit c \<and> c \<noteq> CHR ''0'')])]"

definition parse_month :: "string \<Rightarrow> moment option" where
  "parse_month s = (case gm YEAR_MONTH (\<lambda>st. if rest st = [] then Some st else None) (MState None s []) of
     None \<Rightarrow> None
   | Some st \<Rightarrow> let y = read_digits (grp_text (groups st) ''Y'') in
       if y = 0 then None
       else Some \<lparr>year = y, month = read_digits (grp_text (groups st) ''m''), day = 1, seconds = 0\<rparr>)"

fun moment_le :: "moment \<Rightarrow> moment \<Rightarrow> bool" where
  "moment_le a b = (year a < year b \<or> year a = year b \<and> (month a < month b \<or> month a = month b \<and>
     (day a < day b \<or> day a = day b \<and> seconds a \<le> seconds b)))"

text \<open>The names the catalog lists; the result is the list of the dropped tables.\<close>

definition drop_old_partitions :: "string list result \<Rightarrow> moment \<Rightarrow> string list" where
  "drop_old_partitions names cutoff = (case names of
     Inl x \<Rightarrow> []
   | Inr ns \<Rightarrow> filter (\<lambda>n. case parse_month (replace_str ''siem_events_'' [] n) of
       None \<Rightarrow> False | Some start \<Rightarrow> moment_le (next_month start) cutoff) ns)"

text \<open>\<open>purge_expired\<close>: the partitions dropped and the rows deleted, on the times of the rows.\<close>

definition purge_expired :: "string list result \<Rightarrow> moment \<Rightarrow> moment list \<Rightarrow> string list \<times> nat" where
  "purge_expired names cutoff moments =
     (let dropped = drop_old_partitions names cutoff in
      (dropped, if dropped = [] then length (filter (\<lambda>t. \<not> moment_le cutoff t) moments) else 0))"

subsection \<open>The calendar is right\<close>

lemma month_days_bounds: "28 \<le> month_days y mo" "month_days y mo \<le> 31"
  by (auto simp: month_days_def)

lemma add_days_add: "add_days (a + b) d = add_days b (add_days a d)"
  by (induction a arbitrary: d) simp_all

lemma add_days_in_month:
  fixes d :: "'a date_scheme"
  shows "day d + int n \<le> month_days (year d) (month d) \<Longrightarrow> add_days n d = d\<lparr>day := day d + int n\<rparr>"
proof (induction n arbitrary: d)
  case (Suc n)
  then have "tomorrow d = d\<lparr>day := day d + 1\<rparr>" by (simp add: tomorrow_def)
  then show ?case using Suc.IH [of "d\<lparr>day := day d + 1\<rparr>"] Suc.prems by simp
qed simp

definition first_of_next :: "moment \<Rightarrow> moment" where
  "first_of_next t = (if month t < 12 then t\<lparr>month := month t + 1, day := 1, seconds := 0\<rparr>
     else t\<lparr>year := year t + 1, month := 1, day := 1, seconds := 0\<rparr>)"

lemma next_month_correct: "next_month t = first_of_next t"
proof -
  let ?s = "month_start t"
  have "0 \<le> month_days (year t) (month t)" using month_days_bounds(1) [of "year t" "month t"] by linarith
  then obtain n where n0: "month_days (year t) (month t) = int n" using zero_le_imp_eq_int by blast
  have n: "month_days (year t) (month t) = int n" "28 \<le> n" "n \<le> 31"
    using month_days_bounds [of "year t" "month t"] n0 by simp_all
  have s: "year ?s = year t" "month ?s = month t" "day ?s = 1" by (simp_all add: month_start_def)
  have split: "add_days 32 ?s = add_days (32 - n) (tomorrow (add_days (n - 1) ?s))"
    using n add_days_add [of "n - 1" "Suc (32 - n)" ?s] by (simp add: numeral_eq_Suc)
  have "add_days (n - 1) ?s = ?s\<lparr>day := int n\<rparr>" using add_days_in_month [of ?s "n - 1"] s n by simp
  moreover have "tomorrow (?s\<lparr>day := int n\<rparr>) = first_of_next t"
    by (simp add: tomorrow_def s first_of_next_def n(1)) (simp add: month_start_def)
  moreover have "add_days (32 - n) (first_of_next t) = (first_of_next t)\<lparr>day := 1 + int (32 - n)\<rparr>"
    using add_days_in_month [of "first_of_next t" "32 - n"] n
      month_days_bounds(1) [of "year (first_of_next t)" "month (first_of_next t)"]
    by (simp add: first_of_next_def split: if_splits)
  ultimately have "next_month t = (first_of_next t)\<lparr>day := 1\<rparr>" by (simp add: next_month_def split)
  then show ?thesis by (simp add: first_of_next_def split: if_splits)
qed

lemma moment_le_trans: "moment_le a b \<Longrightarrow> moment_le b c \<Longrightarrow> moment_le a c"
  by auto

lemma moment_le_total: "\<not> moment_le a b \<Longrightarrow> moment_le b a"
  by auto

text \<open>
  A partition is dropped only when its name gives a month whose last moment is not after the cutoff: an
  event that is younger than the retention period is never dropped with it.
\<close>

theorem dropped_partition_is_old:
  assumes "n \<in> set (drop_old_partitions names cutoff)"
  shows "\<exists>start. parse_month (replace_str ''siem_events_'' [] n) = Some start \<and> moment_le (first_of_next start) cutoff \<and>
    (\<forall>t. moment_le start t \<and> \<not> moment_le (first_of_next start) t \<longrightarrow> moment_le t cutoff)"
proof -
  obtain start where "parse_month (replace_str ''siem_events_'' [] n) = Some start" "moment_le (first_of_next start) cutoff"
    using assms by (auto simp: drop_old_partitions_def next_month_correct simp del: moment_le.simps
        split: sum.splits option.splits)
  then show ?thesis using moment_le_total moment_le_trans by blast
qed

lemma dropped_partition_is_old_witness:
  "drop_old_partitions (Inr [''siem_events_2026_02'', ''siem_events_2026_2x'', ''siem_events_2026_03''])
     \<lparr>year = 2026, month = 3, day = 31, seconds = 5\<rparr> = [''siem_events_2026_02''] \<and>
   (\<exists>start. parse_month ''2026_02'' = Some start \<and> moment_le (first_of_next start) \<lparr>year = 2026, month = 3, day = 31, seconds = 5\<rparr>)"
proof -
  let ?c = "\<lparr>year = 2026, month = 3, day = 31, seconds = 5\<rparr>"
  have d: "drop_old_partitions (Inr [''siem_events_2026_02'', ''siem_events_2026_2x'', ''siem_events_2026_03'']) ?c =
      [''siem_events_2026_02'']" by code_simp
  have r: "replace_str ''siem_events_'' [] ''siem_events_2026_02'' = ''2026_02''" by code_simp
  show ?thesis
    using dropped_partition_is_old [of "''siem_events_2026_02''" "Inr [''siem_events_2026_02'', ''siem_events_2026_2x'', ''siem_events_2026_03'']" ?c]
    unfolding d r by auto
qed

end
