(* ===== verification/Total_Base.thy ===== *)
theory Total_Base
  imports Total_Tables Ingest_Base Siem_Partitions
begin

section \<open>Aegis Total: bytes, texts and reports\<close>

text \<open>
  What the analyses of \<open>app/api/v1/total.py\<close> and \<open>app/services/disasm.py\<close> share: reading integers out of a file
  (\<open>struct.unpack_from\<close>, which raises beyond the end), the three decodings the code uses, entropy, the strings of a
  binary, indicators, the hexadecimal preview, names of archive members, and the report a parser fills
  (an ordered dictionary).  A file is the list of its bytes, a decoded text the list of the bytes of its UTF-8 form.
  What the code asks of the C library and of archive, disassembly and signature packages is a field of \<open>total_env\<close>.
\<close>

record zip_info =
  zi_name :: string
  zi_size :: int
  zi_is_dir :: bool
  zi_read :: "string result"

text \<open>A member of a tar archive: \<open>extractfile\<close> may return \<open>None\<close> or raise.\<close>

record tar_member =
  tm_name :: string
  tm_is_file :: bool
  tm_read :: "string option result"

datatype operand = Immediate int | RipRelative int | Absolute int | OtherOperand | BadOperand

record insn =
  in_address :: int
  in_bytes :: string
  in_mnemonic :: string
  in_op_str :: string
  in_operands :: "operand list"

text \<open>
  \<open>te_log2\<close> is \<open>math.log2\<close>, \<open>te_set_order\<close> the order in which a set of the given elements is iterated,
  \<open>te_unzip\<close> the directory of an archive (\<open>None\<close>: not readable), \<open>te_expand\<close> the decompression, \<open>te_is_tar\<close> and \<open>te_untar\<close>
  the \<open>tarfile\<close> package, \<open>te_disasm\<close> the capstone package (\<open>Inl\<close>: not installed) with the instructions decoded before
  an error, if any.  \<open>te_overflow\<close> is the outcome of a recursion deeper than the fuel: \<open>None\<close> when it is left open (so that
  \<open>None\<close> for every fuel means that the recursion does not end by itself), \<open>Some (Inl x)\<close> when the interpreter raises.
\<close>

record total_env =
  te_log2 :: "rat \<Rightarrow> rat"
  te_set_order :: "string list \<Rightarrow> string list"
  te_sha256 :: "string \<Rightarrow> string"
  te_unzip :: "string \<Rightarrow> zip_info list option"
  te_expand :: "string \<Rightarrow> string \<Rightarrow> string result"
  te_is_tar :: "string \<Rightarrow> bool"
  te_untar :: "string \<Rightarrow> tar_member list result"
  te_overflow :: "pydict result option"
  te_disasm :: "string + (bool \<Rightarrow> string \<Rightarrow> int \<Rightarrow> insn list \<times> string option)"

subsection \<open>Bytes\<close>

text \<open>\<open>s[i:j]\<close> for \<open>i, j \<ge> 0\<close>; bounds beyond the end are not counted up to.\<close>

definition byte_slice :: "string \<Rightarrow> int \<Rightarrow> int \<Rightarrow> string" where
  "byte_slice s i j = (if int (length s) \<le> i then [] else clip (j - i) (drop (nat i) s))"

definition le_value :: "string \<Rightarrow> int" where
  "le_value bs = foldr (\<lambda>c n. int (code c) + 256 * n) bs 0"

definition struct_error :: "int \<Rightarrow> int \<Rightarrow> string \<Rightarrow> exn" where
  "struct_error n off raw = OtherError (''unpack_from requires a buffer of at least '' @ show_int (off + n) @
     '' bytes for unpacking '' @ show_int n @ '' bytes at offset '' @ show_int off @ '' (actual buffer size is '' @
     show_int (int (length raw)) @ '')'')"

definition unpack_le :: "int \<Rightarrow> string \<Rightarrow> int \<Rightarrow> int result" where
  "unpack_le n raw off = (if off + n \<le> int (length raw) then Inr (le_value (byte_slice raw off (off + n)))
     else Inl (struct_error n off raw))"

definition unpack_be :: "int \<Rightarrow> string \<Rightarrow> int \<Rightarrow> int result" where
  "unpack_be n raw off = (if off + n \<le> int (length raw) then Inr (le_value (rev (byte_slice raw off (off + n))))
     else Inl (struct_error n off raw))"

abbreviation u16 :: "string \<Rightarrow> int \<Rightarrow> int result" where "u16 \<equiv> unpack_le 2"
abbreviation u32 :: "string \<Rightarrow> int \<Rightarrow> int result" where "u32 \<equiv> unpack_le 4"

text \<open>A field the caller has checked to lie inside the file.\<close>

definition field32 :: "string \<Rightarrow> int \<Rightarrow> int" where
  "field32 raw off = le_value (byte_slice raw off (off + 4))"

definition exn_text :: "exn \<Rightarrow> string" where
  "exn_text x = (case x of OtherError m \<Rightarrow> m | ValueError m \<Rightarrow> m | _ \<Rightarrow> [])"

text \<open>\<open>n & (1 << k)\<close> as a truth value.\<close>

definition has_bit :: "int \<Rightarrow> int \<Rightarrow> bool" where
  "has_bit n b \<longleftrightarrow> n div b mod 2 = 1"

lemma unpack_ok: "off + n \<le> int (length raw) \<Longrightarrow> is_ok (unpack_le n raw off)"
  by (simp add: unpack_le_def)

lemma unpack_fails: "int (length raw) < off + n \<Longrightarrow> unpack_le n raw off = Inl (struct_error n off raw)"
  by (simp add: unpack_le_def)

subsection \<open>Decoding\<close>

text \<open>\<open>decode("latin-1")\<close>: every byte is a code point.\<close>

definition latin1 :: "string \<Rightarrow> string" where
  "latin1 s = concat (map (\<lambda>c. utf8 (code c)) s)"

text \<open>\<open>decode("ascii", errors="replace")\<close>.\<close>

definition ascii_replace :: "string \<Rightarrow> string" where
  "ascii_replace s = concat (map (\<lambda>c. if code c < 128 then [c] else utf8 65533) s)"

text \<open>
  \<open>decode("utf-8", errors="ignore")\<close>: the length of the valid sequence at the head, 0 when there is none; a byte that
  starts none is dropped.
\<close>

definition between :: "nat \<Rightarrow> nat \<Rightarrow> char \<Rightarrow> bool" where
  "between lo hi c \<longleftrightarrow> lo \<le> code c \<and> code c \<le> hi"

fun all_conts :: "nat \<Rightarrow> string \<Rightarrow> bool" where
  "all_conts 0 s = True"
| "all_conts (Suc n) [] = False"
| "all_conts (Suc n) (c # s) = (between 0x80 0xBF c \<and> all_conts n s)"

fun utf8_len :: "string \<Rightarrow> nat" where
  "utf8_len [] = 0"
| "utf8_len (a # s) = (
     let n = (if code a < 0x80 then 1 else if between 0xC2 0xDF a then 2 else if between 0xE0 0xEF a then 3
              else if between 0xF0 0xF4 a then 4 else 0);
         second = (case s of [] \<Rightarrow> False | b # _ \<Rightarrow>
              if code a = 0xE0 then 0xA0 \<le> code b else if code a = 0xED then code b \<le> 0x9F
              else if code a = 0xF0 then 0x90 \<le> code b else if code a = 0xF4 then code b \<le> 0x8F else True)
     in if n \<le> 1 then n else if all_conts (n - 1) s \<and> second then n else 0)"

fun utf8_ignore_from :: "nat \<Rightarrow> string \<Rightarrow> string" where
  "utf8_ignore_from k [] = []"
| "utf8_ignore_from (Suc k) (c # s) = c # utf8_ignore_from k s"
| "utf8_ignore_from 0 (c # s) = (let n = utf8_len (c # s) in
     if n = 0 then utf8_ignore_from 0 s else c # utf8_ignore_from (n - 1) s)"

definition utf8_ignore :: "string \<Rightarrow> string" where
  "utf8_ignore s = utf8_ignore_from 0 s"

text \<open>\<open>decode("utf-16-le", errors="ignore")\<close>: unpaired surrogates and an odd last byte are dropped.\<close>

fun utf16_units :: "string \<Rightarrow> nat list" where
  "utf16_units (a # b # s) = (code a + 256 * code b) # utf16_units s"
| "utf16_units s = []"

fun utf16_join :: "nat list \<Rightarrow> string" where
  "utf16_join [] = []"
| "utf16_join [n] = (if 0xD800 \<le> n \<and> n \<le> 0xDFFF then [] else utf8 n)"
| "utf16_join (n # m # us) =
     (if 0xD800 \<le> n \<and> n \<le> 0xDBFF then
        (if 0xDC00 \<le> m \<and> m \<le> 0xDFFF then utf8 (0x10000 + (n - 0xD800) * 1024 + (m - 0xDC00)) @ utf16_join us
         else utf16_join (m # us))
      else if 0xDC00 \<le> n \<and> n \<le> 0xDFFF then utf16_join (m # us)
      else utf8 n @ utf16_join (m # us))"

definition utf16 :: "string \<Rightarrow> string" where
  "utf16 s = utf16_join (utf16_units s)"

text \<open>\<open>encode("latin-1", errors="ignore")\<close> of a text: code points above 255 are dropped.\<close>

fun latin1_bytes :: "string \<Rightarrow> string" where
  "latin1_bytes [] = []"
| "latin1_bytes [a] = (if code a < 0x80 then [a] else [])"
| "latin1_bytes (a # b # s) = (if code a < 0x80 then a # latin1_bytes (b # s)
     else if code a \<in> {0xC2, 0xC3} then char_of ((code a - 0xC0) * 64 + low6 b) # latin1_bytes s
     else latin1_bytes (b # s))"

subsection \<open>Entropy\<close>

definition byte_counts :: "string \<Rightarrow> nat list" where
  "byte_counts raw = map (count_list raw) (remdups raw)"

definition entropy :: "'z total_env_scheme \<Rightarrow> string \<Rightarrow> rat" where
  "entropy te raw = (if raw = [] then 0 else
     - sum_list (map (\<lambda>c. of_nat c / of_nat (length raw) * te_log2 te (of_nat c / of_nat (length raw))) (byte_counts raw)))"

text \<open>\<open>round(x, 2)\<close>, its \<open>repr\<close> and \<open>f"{x:.2f}"\<close> for \<open>x \<ge> 0\<close>; the entropy of equal bytes is the float \<open>-0.0\<close>.\<close>

definition hundredths :: "rat \<Rightarrow> int" where
  "hundredths r = (let t = 100 * r; f = \<lfloor>t\<rfloor>; d = t - of_int f in
     if d < 1 / 2 \<or> d = 1 / 2 \<and> even f then f else f + 1)"

definition round2 :: "rat \<Rightarrow> rat" where
  "round2 r = of_int (hundredths r) / 100"

definition fixed2 :: "rat \<Rightarrow> string" where
  "fixed2 r = show_int (hundredths r div 100) @ ''.'' @ padded 2 (hundredths r mod 100)"

definition repr2 :: "rat \<Rightarrow> string" where
  "repr2 r = show_int (hundredths r div 100) @ ''.'' @
     (if hundredths r mod 10 = 0 then padded 1 (hundredths r div 10 mod 10) else padded 2 (hundredths r mod 100))"

definition entropy_field :: "'z total_env_scheme \<Rightarrow> string \<Rightarrow> pyval" where
  "entropy_field te raw = (let e = entropy te raw in
     PFloat (round2 e) (if e = 0 \<and> raw \<noteq> [] then ''-0.0'' else repr2 e))"

subsection \<open>Strings of a binary\<close>

abbreviation visible :: "char \<Rightarrow> bool" where
  "visible \<equiv> between 0x20 0x7E"

definition long_run :: "string \<Rightarrow> string list" where
  "long_run cur = (if 6 \<le> length cur then [cur] else [])"

fun ascii_runs :: "string \<Rightarrow> string \<Rightarrow> string list" where
  "ascii_runs cur [] = long_run cur"
| "ascii_runs cur (b # bs) = (if visible b then ascii_runs (cur @ [b]) bs else long_run cur @ ascii_runs [] bs)"

definition WIDE_PATTERN :: grx where
  "WIDE_PATTERN = whole (g_atleast 6 (GSeq (GSet visible) (g_char CHR 0x00)))"

definition findall :: "grx \<Rightarrow> string \<Rightarrow> string \<Rightarrow> string list" where
  "findall r g text = map (\<lambda>gs. grp_text gs g) (g_all r text)"

definition extract_strings :: "string \<Rightarrow> string list" where
  "extract_strings raw = take 4000 (ascii_runs [] raw @
     map (\<lambda>w. strip (utf16 w)) (take 400 (findall WIDE_PATTERN ''0'' (clip MAX_UTF16_SCAN_BYTES raw))))"

lemma extract_strings_bound: "length (extract_strings raw) \<le> 4000"
  by (simp add: extract_strings_def)

subsection \<open>Indicators\<close>

definition SAFE_ADDRESSES :: "string list" where
  "SAFE_ADDRESSES = [''127.0.0.1'', ''0.0.0.0'', ''255.255.255.255'']"

definition iocs_of :: "'z total_env_scheme \<Rightarrow> string \<Rightarrow> string \<times> grx \<times> string \<Rightarrow> string list" where
  "iocs_of te text = (\<lambda>(name, pat, g).
     let filtered = filter (\<lambda>m. \<not> List.member SAFE_ADDRESSES m) (take 15 (te_set_order te (findall pat g text)))
     in if name = ''ipv4'' then filter (\<lambda>m. g_match VERSIONLIKE_IPV4 m = None) filtered else filtered)"

definition iocs_from :: "'z total_env_scheme \<Rightarrow> string \<Rightarrow> pydict" where
  "iocs_from te text = concat (map (\<lambda>p. case iocs_of te text p of [] \<Rightarrow> []
     | ms \<Rightarrow> [(fst p, PList (map PStr ms))]) IOC_PATTERNS)"

text \<open>\<open>m.group(0)[:80]\<close> for every suspicious pattern that matches.\<close>

definition suspicious_matches :: "string \<Rightarrow> string list" where
  "suspicious_matches text = map (\<lambda>gs. take 80 (grp_text gs ''0''))
     (List.map_filter (\<lambda>pat. g_search pat text) SUSPICIOUS_STRINGS)"

lemma suspicious_matches_bound: "length (suspicious_matches text) \<le> 9"
proof -
  have "length (List.map_filter f xs) \<le> length xs" for f :: "grx \<Rightarrow> groups option" and xs
    by (simp add: List.map_filter_def)
  from this [of _ SUSPICIOUS_STRINGS] show ?thesis
    unfolding suspicious_matches_def length_map by (rule order_trans) (simp add: SUSPICIOUS_STRINGS_def)
qed

subsection \<open>Previews\<close>

definition hex2 :: "char \<Rightarrow> string" where
  "hex2 c = [hex_digit (code c div 16), hex_digit (code c mod 16)]"

fun hex_padded :: "nat \<Rightarrow> int \<Rightarrow> string" where
  "hex_padded 0 n = []"
| "hex_padded (Suc w) n = hex_padded w (n div 16) @ [hex_digit (nat (n mod 16))]"

function hex_of :: "int \<Rightarrow> string" where
  "hex_of n = (if n < 16 then [hex_digit (nat n)] else hex_of (n div 16) @ [hex_digit (nat (n mod 16))])"
  by pat_completeness auto
termination
  by (relation "measure nat") auto

declare hex_of.simps [simp del]

definition pad_right :: "nat \<Rightarrow> string \<Rightarrow> string" where
  "pad_right w s = s @ replicate (w - length s) CHR '' ''"

fun hexdump_rows :: "nat \<Rightarrow> int \<Rightarrow> string \<Rightarrow> string list" where
  "hexdump_rows 0 off raw = []"
| "hexdump_rows (Suc k) off raw = (if raw = [] then [] else
     (let chunk = take 16 raw in
      hex_padded 8 off @ ''  '' @ pad_right 47 (join '' '' (map hex2 chunk)) @ ''  '' @
      map (\<lambda>b. if visible b then b else CHR ''.'') chunk) # hexdump_rows k (off + 16) (drop 16 raw))"

definition hexdump_preview :: "string \<Rightarrow> string" where
  "hexdump_preview raw = join [CHR 0x0A] (hexdump_rows 32 0 raw)"

text \<open>\<open>datetime.fromtimestamp(value, tz=utc).isoformat()\<close>: the epoch plus whole days, then the time of day.\<close>

definition epoch :: moment where
  "epoch = \<lparr>year = 1970, month = 1, day = 1, seconds = 0\<rparr>"

definition iso_moment :: "int \<Rightarrow> string" where
  "iso_moment v = (let s = v mod 86400 in iso_date (add_days (nat (v div 86400)) epoch) @ ''T'' @
     padded 2 (s div 3600) @ '':'' @ padded 2 (s div 60 mod 60) @ '':'' @ padded 2 (s mod 60) @ ''+00:00'')"

definition ts_to_iso :: "int \<Rightarrow> string option" where
  "ts_to_iso v = (if 0 < v \<and> v < 4102444800 then Some (iso_moment v) else None)"

definition safe_member_name :: "string \<Rightarrow> string" where
  "safe_member_name name = (
     let parts = filter (\<lambda>p. p \<noteq> [] \<and> p \<noteq> ''.'') (split_char CHR ''/'' (dropWhile (\<lambda>c. c = CHR ''/'') (back_to_slash name)))
     in if List.member parts ''..'' then ''(unsafe-path)''
        else case take 400 (join ''/'' parts) of [] \<Rightarrow> ''(unnamed)'' | s \<Rightarrow> s)"

subsection \<open>Reports\<close>

text \<open>The operations of the parsers on the dictionary they fill.\<close>

fun list_items :: "pyval \<Rightarrow> pyval list" where
  "list_items (PList xs) = xs"
| "list_items v = []"

fun int_of :: "pyval \<Rightarrow> int" where
  "int_of (PInt i) = i"
| "int_of v = 0"

fun dict_of :: "pyval \<Rightarrow> pydict" where
  "dict_of (PDict m) = m"
| "dict_of v = []"

abbreviation contribution :: "pydict \<Rightarrow> int" where
  "contribution d \<equiv> int_of (dict_get d ''score_contribution'')"

definition findings_of :: "pydict \<Rightarrow> pyval list" where
  "findings_of d = list_items (dict_get d ''findings'')"

definition finding :: "string \<Rightarrow> string \<Rightarrow> string \<Rightarrow> string option \<Rightarrow> pyval" where
  "finding ty sev detail mitre = PDict ([(''type'', PStr ty), (''severity'', PStr sev), (''detail'', PStr detail)] @
     (case mitre of None \<Rightarrow> [] | Some t \<Rightarrow> [(''mitre'', PStr t)]))"

definition add_findings :: "pyval list \<Rightarrow> pydict \<Rightarrow> pydict" where
  "add_findings fs d = assoc_put ''findings'' (PList (findings_of d @ fs)) d"

definition add_score :: "int \<Rightarrow> pydict \<Rightarrow> pydict" where
  "add_score n d = assoc_put ''score_contribution'' (PInt (contribution d + n)) d"

text \<open>\<open>min(score + n, 100)\<close>.\<close>

definition add_capped :: "int \<Rightarrow> pydict \<Rightarrow> pydict" where
  "add_capped n d = assoc_put ''score_contribution'' (PInt (min (contribution d + n) 100)) d"

definition string_match :: "string \<Rightarrow> string \<Rightarrow> pyval" where
  "string_match ty m = PDict [(''type'', PStr ty), (''severity'', PStr ''high''), (''match'', PStr m)]"

text \<open>The loop over \<open>SUSPICIOUS_STRINGS\<close> of the binary parsers.\<close>

definition flag_strings :: "string \<Rightarrow> string \<Rightarrow> pydict \<Rightarrow> pydict" where
  "flag_strings ty text d = fold (\<lambda>m d. add_capped 25 (add_findings [string_match ty m] d)) (suspicious_matches text) d"

definition dict_pop :: "string \<Rightarrow> pydict \<Rightarrow> pydict" where
  "dict_pop k d = filter (\<lambda>kv. fst kv \<noteq> k) d"

text \<open>\<open>detail.update({..., "score": detail.pop("score_contribution", 0)})\<close>.\<close>

definition finish_report :: "pydict \<Rightarrow> pydict \<Rightarrow> pydict" where
  "finish_report extra d = dict_update (dict_pop ''score_contribution'' d)
     (extra @ [(''score'', dict_get_or d ''score_contribution'' (PInt 0))])"

text \<open>
  A \<open>try\<close> block whose statements fill a dictionary: the first one that raises ends it, what was written before stays,
  and the message becomes \<open>parse_error\<close>.
\<close>

fun try_steps :: "(pydict \<Rightarrow> pydict result) list \<Rightarrow> pydict \<Rightarrow> pydict" where
  "try_steps [] d = d"
| "try_steps (f # fs) d = (case f d of
     Inl x \<Rightarrow> assoc_put ''parse_error'' (PStr (exn_text x)) d
   | Inr d' \<Rightarrow> try_steps fs d')"

end
