(* ===== verification/Total_Formats.thy ===== *)
theory Total_Formats
  imports Total_Base
begin

section \<open>Aegis Total: parsers of executables and documents\<close>

text \<open>
  The parsers of \<open>app/api/v1/total.py\<close>, one definition per function; the statements of a \<open>try\<close> block are a list of steps
  (\<open>try_steps\<close>), each of which raises before it writes.  Reads whose range the code has checked are total (\<open>field32\<close>).
\<close>

subsection \<open>PE\<close>

record pe_section =
  ps_name :: string
  ps_virtual_size :: int
  ps_raw_size :: int
  ps_entropy :: rat
  ps_executable :: bool
  ps_writable :: bool

definition pe_section_at :: "'z total_env_scheme \<Rightarrow> string \<Rightarrow> int \<Rightarrow> pe_section" where
  "pe_section_at te raw off = (
     let sname = strip (ascii_replace (rev (dropWhile (\<lambda>c. c = CHR 0x00) (rev (byte_slice raw off (off + 8))))));
         raw_sz = field32 raw (off + 16); raw_off = field32 raw (off + 20); chars = field32 raw (off + 36)
     in \<lparr>ps_name = (if sname = [] then ''(unnamed)'' else sname), ps_virtual_size = field32 raw (off + 8),
         ps_raw_size = raw_sz,
         ps_entropy = (if raw_off \<noteq> 0 \<and> raw_sz \<noteq> 0 then entropy te (byte_slice raw raw_off (raw_off + raw_sz)) else 0),
         ps_executable = has_bit chars 0x20000000, ps_writable = has_bit chars 0x80000000\<rparr>)"

definition section_end :: "string \<Rightarrow> int \<Rightarrow> int" where
  "section_end raw off = (let raw_sz = field32 raw (off + 16); raw_off = field32 raw (off + 20)
     in if raw_off \<noteq> 0 \<and> raw_sz \<noteq> 0 then raw_off + raw_sz else 0)"

fun pe_sections :: "'z total_env_scheme \<Rightarrow> string \<Rightarrow> nat \<Rightarrow> int \<Rightarrow> pe_section list \<times> int" where
  "pe_sections te raw 0 off = ([], 0)"
| "pe_sections te raw (Suc n) off = (if int (length raw) < off + 40 then ([], 0)
     else (case pe_sections te raw n (off + 40) of
       (ss, e) \<Rightarrow> (pe_section_at te raw off # ss, max (section_end raw off) e)))"

definition section_dict :: "pe_section \<Rightarrow> pyval" where
  "section_dict s = PDict [(''name'', PStr (ps_name s)), (''virtual_size'', PInt (ps_virtual_size s)),
     (''raw_size'', PInt (ps_raw_size s)), (''entropy'', PFloat (round2 (ps_entropy s)) (repr2 (ps_entropy s))),
     (''executable'', PBool (ps_executable s)), (''writable'', PBool (ps_writable s))]"

definition machine_name :: "int \<Rightarrow> string" where
  "machine_name m = (if m = 0x8664 then ''x64'' else if m = 0x14C then ''x86'' else if m = 0xAA64 then ''arm64''
     else ''0x'' @ upper (hex_padded 4 m))"

definition pe_kind :: "int \<Rightarrow> string" where
  "pe_kind chars = (if has_bit chars 0x2000 then ''DLL'' else if has_bit chars 0x1000 then ''SYS/Driver'' else ''EXE'')"

text \<open>The COFF header at \<open>c\<close>, then the optional header at \<open>p\<close>: its magic, the entry point, the data directories.\<close>

definition pe_coff :: "string \<Rightarrow> int \<Rightarrow> pydict \<Rightarrow> pydict result" where
  "pe_coff raw c d = bind_result (u16 raw c) (\<lambda>machine. bind_result (u32 raw (c + 4)) (\<lambda>timestamp.
     bind_result (u16 raw (c + 18)) (\<lambda>chars. Inr (assoc_put ''kind'' (PStr (pe_kind chars))
       (assoc_put ''compile_time'' (opt_str (ts_to_iso timestamp)) (assoc_put ''arch'' (PStr (machine_name machine)) d))))))"

definition pe_magic :: "string \<Rightarrow> int \<Rightarrow> pydict \<Rightarrow> pydict result" where
  "pe_magic raw p d = (if int (length raw) \<le> p then Inr d else bind_result (u16 raw p) (\<lambda>magic.
     Inr (assoc_put ''pe_type'' (PStr (if magic = 0x20B then ''PE32+'' else ''PE32'')) d)))"

definition pe_entry :: "string \<Rightarrow> int \<Rightarrow> pydict \<Rightarrow> pydict result" where
  "pe_entry raw p d = (if int (length raw) \<le> p then Inr d else bind_result (u32 raw (p + 16)) (\<lambda>entry.
     Inr (assoc_put ''entrypoint_rva'' (PInt entry) d)))"

definition pe_directories :: "string \<Rightarrow> int \<Rightarrow> pydict \<Rightarrow> pydict result" where
  "pe_directories raw p d = (
     let dd = p + (if u16 raw p = Inr 0x20B then 112 else 96)
     in if int (length raw) \<le> p \<or> int (length raw) < dd + 128 then Inr d
        else let signed = field32 raw (dd + 32) \<noteq> 0 \<and> field32 raw (dd + 36) \<noteq> 0;
                 d1 = assoc_put ''dotnet'' (PBool (field32 raw (dd + 112) \<noteq> 0)) (assoc_put ''signed'' (PBool signed) d)
             in Inr (if signed then d1 else add_findings [finding ''unsigned_binary'' ''low''
                  ''No Authenticode certificate: common in droppers/loaders.'' None] d1))"

definition pe_packer :: "pe_section list \<Rightarrow> pydict \<Rightarrow> pydict" where
  "pe_packer ss d = (case filter (\<lambda>s. 7 < round2 (ps_entropy s) \<and> 512 < ps_raw_size s) ss of [] \<Rightarrow> d
     | hs \<Rightarrow> add_score 40 (add_findings [finding ''packer_or_encrypted'' ''high''
         (''Sezioni ad alta entropia: '' @ join '', '' (map ps_name hs) @
          '' '' @ utf8 8212 @ '' probabile packing/cifratura (UPX, Themida'' @ utf8 8230 @ '')'') (Some ''T1027'')]
         (assoc_put ''entropy_alert'' (PBool True) d)))"

definition pe_overlay :: "string \<Rightarrow> int \<Rightarrow> pydict \<Rightarrow> pydict" where
  "pe_overlay raw start d = (if 0 < start \<and> start < int (length raw) - 1024 then
     (let n = int (length raw) - start; high = 65536 < n \<and> 1 < count_str ''mz'' (lower raw);
          d1 = add_findings [finding ''overlay_data'' (if high then ''high'' else ''low'')
            (show_int n @ '' bytes of data past the last section (appended payload / SFX installer).'') None]
            (assoc_put ''overlay_bytes'' (PInt n) d)
      in if high then add_capped 20 d1 else d1)
     else d)"

definition pe_pdb :: "string \<Rightarrow> pydict \<Rightarrow> pydict" where
  "pe_pdb raw d = (case g_search PDB_PATTERN (latin1 raw) of None \<Rightarrow> d
     | Some gs \<Rightarrow> assoc_put ''pdb_path'' (PStr (take 255 (grp_text gs ''0''))) d)"

definition import_weight :: "string \<Rightarrow> int" where
  "import_weight fn = (if List.member DUAL_USE_IMPORTS fn then IMPORT_WEIGHT_DUAL_USE else IMPORT_WEIGHT_SPECIFIC)"

definition imports_found :: "string list \<Rightarrow> (string \<times> string \<times> string) list" where
  "imports_found strings = filter (\<lambda>(fn, _). list_ex (\<lambda>s. py_in (lower fn) (lower s)) strings) SUSPICIOUS_IMPORTS"

definition pe_imports :: "string list \<Rightarrow> pydict \<Rightarrow> pydict" where
  "pe_imports strings d = (
     let fs = imports_found strings; sc = sum_list (map (\<lambda>f. import_weight (fst f)) fs);
         d1 = (if fs = [] then d else assoc_put ''imports_suspicious'' (PList (list_items (dict_get d ''imports_suspicious'') @
           map (\<lambda>(fn, cap, tid). PDict [(''function'', PStr fn), (''capability'', PStr cap), (''mitre'', PStr tid),
             (''weight'', PInt (import_weight fn))]) fs)) d)
     in if sc \<noteq> 0 then add_capped (min sc IMPORT_SCORE_CAP) d1 else d1)"

definition pe_dotnet :: "pydict \<Rightarrow> pydict" where
  "pe_dotnet d = (if py_truth (dict_get d ''dotnet'') then add_findings [finding ''dotnet_assembly'' ''low''
     ''.NET assembly (CLR header present): possible loading via PowerShell/reflection.'' (Some ''T1055'')] d else d)"

definition ioc_count :: "pydict \<Rightarrow> string \<Rightarrow> nat" where
  "ioc_count d k = length (list_items (dict_get (dict_of (dict_get d ''iocs'')) k))"

definition pe_network :: "pydict \<Rightarrow> pydict" where
  "pe_network d = (if 0 < ioc_count d ''url'' \<or> 0 < ioc_count d ''domain'' then
     add_findings [finding ''network_ioc'' ''medium'' (show_nat (ioc_count d ''url'') @ '' URL(s), '' @
       show_nat (ioc_count d ''domain'') @ '' embedded domain(s).'') None] d else d)"

definition pe_powershell :: "string \<Rightarrow> pydict \<Rightarrow> pydict" where
  "pe_powershell raw d = (let low = lower raw in
     if any_in [''powershell'', ''invoke-expression''] low then
       (let exec = any_in POWERSHELL_EXEC_MARKERS low;
            d1 = add_findings [finding ''embedded_powershell'' (if exec then ''high'' else ''low'')
              (if exec then ''PE contains PowerShell with execution flags '' @ utf8 8212 @ '' possible dropper.''
               else ''References to PowerShell without execution flags (common in signed binaries and docs).'')
              (Some ''T1059.001'')] d
        in if exec then add_capped 30 d1 else d1)
     else d)"

definition set_iocs :: "'z total_env_scheme \<Rightarrow> string \<Rightarrow> pydict \<Rightarrow> pydict" where
  "set_iocs te text d = assoc_put ''iocs'' (PDict (iocs_from te text)) d"

definition pe_base :: pydict where
  "pe_base = [(''format'', PStr ''PE''), (''findings'', PList []), (''score_contribution'', PInt 0), (''sections'', PList []),
     (''imports_suspicious'', PList []), (''iocs'', PDict []), (''entropy_alert'', PBool False)]"

definition pe_header :: "string \<Rightarrow> int" where
  "pe_header raw = field32 raw 0x3C"

definition has_pe_header :: "string \<Rightarrow> bool" where
  "has_pe_header raw \<longleftrightarrow> 64 \<le> length raw \<and> pe_header raw + 24 \<le> int (length raw) \<and>
     byte_slice raw (pe_header raw) (pe_header raw + 4) = [CHR ''P'', CHR ''E'', CHR 0x00, CHR 0x00]"

text \<open>What follows the headers: it cannot raise.\<close>

definition pe_body :: "'z total_env_scheme \<Rightarrow> string \<Rightarrow> pe_section list \<times> int \<Rightarrow> pydict \<Rightarrow> pydict" where
  "pe_body te raw = (\<lambda>(ss, start) d.
     let strings = extract_strings raw; full = join '' '' strings
     in pe_powershell raw (pe_network (pe_dotnet (flag_strings ''suspicious_string_in_binary'' full
        (pe_imports strings (pe_pdb raw (set_iocs te full (pe_overlay raw start (pe_packer ss
          (assoc_put ''sections'' (PList (map section_dict ss)) d))))))))))"

definition pe_rest :: "'z total_env_scheme \<Rightarrow> string \<Rightarrow> int \<Rightarrow> pydict \<Rightarrow> pydict result" where
  "pe_rest te raw c d = bind_result (u16 raw (c + 2)) (\<lambda>num. bind_result (u16 raw (c + 16)) (\<lambda>opt.
     Inr (pe_body te raw (pe_sections te raw (nat (min num 96)) (c + 20 + opt)) d)))"

definition analyze_pe :: "'z total_env_scheme \<Rightarrow> string \<Rightarrow> pydict" where
  "analyze_pe te raw = (if \<not> has_pe_header raw then pe_base else
     (let c = pe_header raw + 4 in try_steps
       [pe_coff raw c, pe_magic raw (c + 20), pe_entry raw (c + 20), pe_directories raw (c + 20), pe_rest te raw c] pe_base))"

subsection \<open>ELF and Mach-O\<close>

definition packed_if :: "rat \<Rightarrow> rat \<Rightarrow> pydict \<Rightarrow> pydict" where
  "packed_if limit e d = (if limit < e then add_score 40 (add_findings [finding ''packer_or_encrypted'' ''high''
     (''Entropia '' @ fixed2 e @ '' '' @ utf8 8212 @ '' binario probabilmente packato/cifrato.'') (Some ''T1027'')]
     (assoc_put ''entropy_alert'' (PBool True) d)) else d)"

definition elf_kind :: "int \<Rightarrow> string" where
  "elf_kind t = (if t = 1 then ''relocatable'' else if t = 2 then ''executable'' else if t = 3 then ''shared-object''
     else if t = 4 then ''core-dump'' else ''type-'' @ show_int t)"

definition elf_arch :: "string \<Rightarrow> string" where
  "elf_arch raw = (if code (raw ! 4) = 2 then ''ELF64'' else ''ELF32'') @ (if code (raw ! 5) = 1 then '' LE'' else '' BE'')"

definition flag_if :: "bool \<Rightarrow> int \<Rightarrow> pyval \<Rightarrow> pydict \<Rightarrow> pydict" where
  "flag_if b n f d = (if b then add_score n (add_findings [f] d) else d)"

definition flag_text :: "bool \<Rightarrow> int \<Rightarrow> pyval \<Rightarrow> pydict \<Rightarrow> pydict" where
  "flag_text b n f d = (if b then add_capped n (add_findings [f] d) else d)"

definition plain_base :: "string \<Rightarrow> pydict" where
  "plain_base fmt = [(''format'', PStr fmt), (''findings'', PList []), (''score_contribution'', PInt 0), (''iocs'', PDict [])]"

definition elf_body :: "'z total_env_scheme \<Rightarrow> string \<Rightarrow> pydict \<Rightarrow> pydict" where
  "elf_body te raw d = (let full = join '' '' (extract_strings raw) in
     flag_text (py_in ''/etc/ld.so.preload'' full) 25 (finding ''ld_preload_reference'' ''high''
       ''Riferimento a ld.so.preload: tecnica classica di rootkit userland.'' (Some ''T1574.006''))
     (set_iocs te full (flag_strings ''suspicious_string_in_elf'' full
       (packed_if (72 / 10) (entropy te raw) (assoc_put ''entropy'' (entropy_field te raw) d)))))"

definition analyze_elf :: "'z total_env_scheme \<Rightarrow> string \<Rightarrow> pydict" where
  "analyze_elf te raw = (if length raw < 52 then plain_base ''ELF'' else try_steps
     [\<lambda>d. bind_result (u16 raw 16) (\<lambda>t. Inr (elf_body te raw
        (assoc_put ''kind'' (PStr (elf_kind t)) (assoc_put ''arch'' (PStr (elf_arch raw)) d))))] (plain_base ''ELF''))"

definition cpu_name :: "int \<Rightarrow> string" where
  "cpu_name n = assoc_default (''cpu-'' @ show_int n) n MACHO_CPUS"

fun fat_cpus :: "string \<Rightarrow> nat \<Rightarrow> int \<Rightarrow> string list result" where
  "fat_cpus raw 0 off = Inr []"
| "fat_cpus raw (Suc n) off = (if int (length raw) < off + 12 then Inr [] else
     bind_result (unpack_be 4 raw off) (\<lambda>cpu. bind_result (fat_cpus raw n (off + 20)) (\<lambda>cs. Inr (cpu_name cpu # cs))))"

definition macho_file_type :: "int \<Rightarrow> string" where
  "macho_file_type t = (if t = 1 then ''object'' else if t = 2 then ''executable'' else if t = 6 then ''dylib''
     else if t = 8 then ''bundle'' else if t = 11 then ''dylinker'' else ''type-'' @ show_int t)"

definition FAT_MAGICS :: "string list" where
  "FAT_MAGICS = [[CHR 0xCA, CHR 0xFE, CHR 0xBA, CHR 0xBE], [CHR 0xBE, CHR 0xBA, CHR 0xFE, CHR 0xCA]]"

definition macho_header :: "string \<Rightarrow> pydict \<Rightarrow> pydict result" where
  "macho_header raw d = (if List.member FAT_MAGICS (take 4 raw) then
       bind_result (unpack_be 4 raw 4) (\<lambda>nfat. bind_result (fat_cpus raw (nat (min nfat 8)) 8) (\<lambda>cpus.
         Inr (assoc_put ''kind'' (PStr ''universal'') (assoc_put ''arch''
           (PStr (''fat:'' @ join ''+'' (if cpus = [] then [''?''] else cpus))) d))))
     else (let (label, little) = assoc_default (''Mach-O'', True) (take 4 raw) MACHO_MAGICS;
               unpack = (if little then unpack_le 4 raw else unpack_be 4 raw)
           in bind_result (unpack 4) (\<lambda>cpu. bind_result (unpack 12) (\<lambda>t.
             Inr (assoc_put ''magic_label'' (PStr label) (assoc_put ''kind'' (PStr (macho_file_type t))
               (assoc_put ''arch'' (PStr (cpu_name cpu)) d)))))))"

definition macho_body :: "'z total_env_scheme \<Rightarrow> string \<Rightarrow> pydict \<Rightarrow> pydict" where
  "macho_body te raw d = (let full = join '' '' (extract_strings raw) in
     flag_text (any_in [''com.apple.quarantine'', ''xattr''] full) 15 (finding ''quarantine_evasion'' ''medium''
       ''References to Apple quarantine handling (possible Gatekeeper evasion).'' (Some ''T1553.001''))
     (set_iocs te full (flag_strings ''suspicious_string_in_macho'' full
       (assoc_put ''entropy'' (entropy_field te raw) d))))"

definition analyze_macho :: "'z total_env_scheme \<Rightarrow> string \<Rightarrow> pydict" where
  "analyze_macho te raw = (if length raw < 32 then plain_base ''Mach-O'' else
     try_steps [macho_header raw, \<lambda>d. Inr (macho_body te raw d)] (plain_base ''Mach-O''))"

subsection \<open>Office documents\<close>

definition office_autorun :: "string \<Rightarrow> string \<Rightarrow> pyval list" where
  "office_autorun low source = (case filter (\<lambda>a. py_in a low) VBA_AUTORUN of [] \<Rightarrow> [] | as' \<Rightarrow>
     [finding ''office_autorun_macro'' ''critical'' (''Macro auto-eseguibile ('' @ source @ ''): '' @
       join '', '' (take 6 (str_sort (remdups as')))) (Some ''T1204.002'')])"

definition office_risky :: "string \<Rightarrow> string \<Rightarrow> pyval list" where
  "office_risky low source = (case filter (\<lambda>r. py_in (lower r) low) VBA_RISKY_API of [] \<Rightarrow> [] | rs \<Rightarrow>
     [finding ''office_macro_risky_api'' ''high'' (''Risky API in the VBA content ('' @ source @ ''): '' @
       join '', '' (take 8 (str_sort (remdups rs)))) (Some ''T1059.005'')])"

definition office_exec :: "string \<Rightarrow> string \<Rightarrow> pyval list" where
  "office_exec low source = (case find_first (\<lambda>m. py_in m low) OFFICE_EXEC_MARKERS of None \<Rightarrow> [] | Some m \<Rightarrow>
     [finding ''office_dde_or_xlm'' ''critical'' (''Marker di esecuzione ('' @ source @ ''): '' @ [squote] @ strip m @ [squote] @
       '' '' @ utf8 8212 @ '' DDE o macro Excel 4.0.'') (Some ''T1559.002'')])"

definition office_refs :: "string \<Rightarrow> pyval list" where
  "office_refs text = (if any_in [''http://'', ''https://''] (lower text) \<or> py_in [backslash, backslash] text then
     (case take 5 (findall (whole url_pattern) ''0'' text) of [] \<Rightarrow> [] | us \<Rightarrow>
       [finding ''office_external_ref'' ''medium'' (''External references in the document: '' @ join '', '' (take 3 us)) None])
     else [])"

definition office_findings_from_text :: "string \<Rightarrow> string \<Rightarrow> pyval list" where
  "office_findings_from_text text source = office_autorun (lower text) source @ office_risky (lower text) source @
     office_exec (lower text) source @ office_refs text"

definition STREAM_MARKERS :: "(string \<times> string) list" where
  "STREAM_MARKERS = [(''WordDocument'', ''Word (doc)''), (''Workbook'', ''Excel (xls)''), (''Book'', ''Excel (xls)''),
     (''PowerPoint Document'', ''PowerPoint (ppt)''), (''_VBA_PROJECT'', ''progetto VBA''), (''VBA'', ''modulo VBA''),
     (''Macros'', ''storage Macros''), (''ThisDocument'', ''modulo ThisDocument''), (''Module1'', ''modulo standard''),
     (''ObjectPool'', ''ObjectPool (embedded)'')]"

definition severity_in :: "string list \<Rightarrow> pyval \<Rightarrow> bool" where
  "severity_in ss f = list_ex (\<lambda>s. dict_get (dict_of f) ''severity'' = PStr s) ss"

definition severe_count :: "pydict \<Rightarrow> nat" where
  "severe_count d = length (filter (severity_in [''high'', ''critical'']) (findings_of d))"

definition ole_base :: pydict where
  "ole_base = plain_base ''OLE2/CFB'' @ [(''streams'', PList [])]"

definition analyze_ole :: "'z total_env_scheme \<Rightarrow> string \<Rightarrow> pydict" where
  "analyze_ole te raw = (
     let combined = latin1 raw @ CHR 0x0A # utf16 raw;
         labels = map snd (filter (\<lambda>(m, _). py_in (lower m) (lower combined)) STREAM_MARKERS);
         d1 = assoc_put ''streams'' (PList (map PStr (str_sort (remdups labels)))) ole_base;
         d2 = flag_if (any_in [''_VBA_PROJECT'', ''VBA'', ''Attribute VB_''] combined) 30
                (finding ''ole_vba_project'' ''high'' ''VBA project present in the OLE document.'' (Some ''T1204.002'')) d1;
         d3 = add_findings (office_findings_from_text combined ''OLE'') d2;
         d4 = flag_if (1 < count_str ''MZ'' raw) 40 (finding ''embedded_executable'' ''critical''
                ''Document contains one or more embedded PE objects (MZ), possible dropper.'' (Some ''T1204.002'')) d3;
         d5 = add_capped (15 * int (severe_count d4)) d4
     in assoc_put ''entropy'' (entropy_field te raw) (set_iocs te combined d5))"

section \<open>Aegis Total: OOXML, RTF and PDF\<close>

text \<open>
  The parsers of \<open>app/api/v1/total.py\<close> for documents that are archives or texts.  The directory of a zip file is the
  list of its entries; \<open>ZipFile.read(name)\<close> looks the name up in the table the package keeps, where a later
  entry of the same name replaces an earlier one.
\<close>

subsection \<open>OOXML\<close>

definition read_member :: "zip_info list \<Rightarrow> string \<Rightarrow> string result" where
  "read_member infos n = (case find_first (\<lambda>i. zi_name i = n) (rev infos) of None \<Rightarrow> Inl KeyError | Some i \<Rightarrow> zi_read i)"

definition any_endswith :: "string list \<Rightarrow> string \<Rightarrow> bool" where
  "any_endswith ps s \<longleftrightarrow> list_ex (endswith s) ps"

definition part_names :: "zip_info list \<Rightarrow> string list" where
  "part_names infos = filter (\<lambda>n. \<not> endswith n ''/'') (map zi_name infos)"

definition TEXT_SAMPLE_MAX :: int where
  "TEXT_SAMPLE_MAX = 2 * 1024 * 1024"

fun ooxml_text :: "zip_info list \<Rightarrow> string list \<Rightarrow> string \<Rightarrow> string" where
  "ooxml_text infos [] acc = acc"
| "ooxml_text infos (n # ns) acc = (if TEXT_SAMPLE_MAX < int (length acc) then acc
     else case read_member infos n of
       Inl x \<Rightarrow> ooxml_text infos ns acc
     | Inr b \<Rightarrow> ooxml_text infos ns (acc @ utf8_ignore (clip 200000 b) @ [CHR 0x0A]))"

definition has_embedded_pe :: "zip_info list \<Rightarrow> string \<Rightarrow> bool" where
  "has_embedded_pe infos n \<longleftrightarrow> any_endswith [''.bin'', ''.exe'', ''.dll'', ''.scr''] (lower n) \<and>
     (case read_member infos n of Inl x \<Rightarrow> False | Inr b \<Rightarrow> take 2 b = ''MZ'')"

definition ooxml_macros :: "string list \<Rightarrow> pydict \<Rightarrow> pydict" where
  "ooxml_macros names d =
     flag_if (list_ex (\<lambda>n. startswith (lower n) ''xl/macrosheets/'') names) 45 (finding ''excel4_macro_sheet'' ''critical''
       ''Excel 4.0 macro sheet (xl/macrosheets): execution without classic VBA macros.'' (Some ''T1204.002''))
     (flag_if (list_ex (\<lambda>n. endswith (lower n) ''vbaproject.bin'') names) 45 (finding ''ooxml_vba_macro'' ''critical''
       (''Documento OOXML con macro VBA (vbaProject.bin) '' @ utf8 8212 @ '' esecuzione al Document_Open.'') (Some ''T1204.002'')) d)"

definition ooxml_embedded :: "string list \<Rightarrow> pydict \<Rightarrow> pydict" where
  "ooxml_embedded names d = (let es = filter (\<lambda>n. py_in ''/embeddings/'' (lower n) \<or>
       any_endswith [''.bin'', ''.exe'', ''.dll''] (lower n)) names
     in flag_if (es \<noteq> []) 20 (finding ''ooxml_embedded_object'' ''high'' (''Embedded objects: '' @ join '', '' (take 5 es))
       (Some ''T1204.002'')) d)"

definition ooxml_pe :: "zip_info list \<Rightarrow> string list \<Rightarrow> pydict \<Rightarrow> pydict" where
  "ooxml_pe infos names d = (case find_first (has_embedded_pe infos) (take 200 names) of None \<Rightarrow> d
     | Some n \<Rightarrow> add_capped 30 (add_findings [finding ''ooxml_embedded_pe'' ''critical''
         (''Embedded PE in '' @ n @ '' (dropper inside the document).'') (Some ''T1204.002'')] d))"

definition analyze_ooxml :: "'z total_env_scheme \<Rightarrow> zip_info list \<Rightarrow> pydict" where
  "analyze_ooxml te infos = (
     let names = part_names infos;
         d0 = plain_base ''OOXML'' @ [(''parts'', PList (map PStr (take 60 names)))];
         d1 = ooxml_embedded names (ooxml_macros names d0);
         sample = ooxml_text infos (take 60 (filter (\<lambda>n. any_endswith [''.rels'', ''.xml'', ''.txt''] (lower n)) names)) [];
         d2 = add_findings (office_findings_from_text sample ''OOXML'') d1;
         d3 = flag_if (py_in ''DDEAUTO'' (latin1_bytes (upper sample))) 40 (finding ''ooxml_dde'' ''critical''
           ''DDE callback in the XML content (execution without macros).'' (Some ''T1559.002'')) d2
     in set_iocs te sample (add_capped 0 (ooxml_pe infos names d3)))"

subsection \<open>RTF\<close>

definition RTF_OBJECT :: grx where
  "RTF_OBJECT = whole (g_seq [g_char backslash, g_lit_ci ''obj'', g_words_ci [''data'', ''update'', ''emb'']])"

definition RTF_CLASS :: grx where
  "RTF_CLASS = g_seq [g_char backslash, g_lit_ci ''objclass'', g_plus g_space, g_words_ci [''Equation'', ''Package'']]"

definition analyze_rtf :: "'z total_env_scheme \<Rightarrow> string \<Rightarrow> pydict" where
  "analyze_rtf te raw = (
     let text = latin1 raw; n = length (g_all RTF_OBJECT text);
         d0 = [(''format'', PStr ''RTF''), (''findings'', PList []), (''score_contribution'', PInt 0),
               (''iocs'', PDict (iocs_from te text))];
         d1 = flag_if (0 < n) 45 (finding ''rtf_embedded_object'' ''high'' (''RTF with '' @ show_nat n @
           '' embedded object(s) (classic exploit/dropper vector).'') (Some ''T1204.002'')) d0
     in flag_text (g_found RTF_CLASS text) 30 (finding ''rtf_equation_exploit'' ''critical''
       ''Equation/Package object: historical CVE vector (Eqnedt32).'' (Some ''T1203'')) d1)"

subsection \<open>PDF\<close>

definition PDF_CHECKS :: "(string \<times> string \<times> string \<times> string \<times> string option) list" where
  "PDF_CHECKS =
    [(''/javascript'', ''pdf_javascript'', ''critical'', ''JavaScript embedded in the PDF.'', Some ''T1059.007''),
     (''/openaction'', ''pdf_openaction'', ''high'', ''/OpenAction: automatic action on open.'', Some ''T1204.002''),
     (''/aa'', ''pdf_additional_action'', ''high'', ''/AA: automatic additional action.'', Some ''T1204.002''),
     (''/launch'', ''pdf_launch'', ''critical'', ''/Launch: execution of an external program.'', Some ''T1204.002''),
     (''/embeddedfile'', ''pdf_embedded_file'', ''high'', ''Attached file embedded in the PDF.'', Some ''T1204.002''),
     (''/richmedia'', ''pdf_richmedia'', ''medium'', ''RichMedia content (Flash/JS).'', Some ''T1204.002''),
     (''/xfa'', ''pdf_xfa_form'', ''medium'', ''XFA form (often used for obfuscation).'', Some ''T1027''),
     (''/submitform'', ''pdf_form_exfil'', ''medium'', ''Form submit action (possible exfiltration).'', Some ''T1041''),
     (''/encrypt'', ''pdf_encrypted'', ''low'', ''PDF cifrato: i contenuti non sono ispezionabili staticamente.'', None)]"

definition pdf_weight :: "string \<Rightarrow> int" where
  "pdf_weight sev = (if sev = ''critical'' then 40 else if sev = ''high'' then 25 else if sev = ''medium'' then 15 else 5)"

definition pdf_check :: "string \<Rightarrow> string \<times> string \<times> string \<times> string \<times> string option \<Rightarrow> pydict \<Rightarrow> pydict" where
  "pdf_check low = (\<lambda>(token, ty, sev, detail, mitre) d. flag_if (py_in token low) (pdf_weight sev) (finding ty sev detail mitre) d)"

text \<open>The text from the last \<open>%%EOF\<close>.\<close>

fun eof_tail :: "string \<Rightarrow> string option" where
  "eof_tail [] = None"
| "eof_tail (c # s) = (case eof_tail s of Some t \<Rightarrow> Some t
     | None \<Rightarrow> if startswith (c # s) ''%%EOF'' then Some (c # s) else None)"

definition pdf_links :: "'z total_env_scheme \<Rightarrow> string \<Rightarrow> pydict \<Rightarrow> pydict" where
  "pdf_links te text d = (let n = count_str ''/uri'' (lower text) in
     if n = 0 then d
     else let d1 = set_iocs te text (assoc_put ''uri_count'' (PInt (int n)) d)
          in if 0 < ioc_count d1 ''url'' \<or> 10 < n then add_findings [finding ''pdf_external_links'' ''low''
               (show_nat n @ '' external links in the PDF.'') None] d1 else d1)"

definition pdf_appended :: "string \<Rightarrow> pydict \<Rightarrow> pydict" where
  "pdf_appended raw d = (case eof_tail raw of None \<Rightarrow> d
     | Some t \<Rightarrow> flag_if (1024 < length t) 20 (finding ''pdf_data_after_eof'' ''medium'' (show_nat (length t) @
         '' byte dopo l'' @ [squote] @ ''ultimo %%EOF (payload appeso).'') (Some ''T1027'')) d)"

definition analyze_pdf :: "'z total_env_scheme \<Rightarrow> string \<Rightarrow> pydict" where
  "analyze_pdf te raw = (let text = latin1 raw in
     assoc_put ''entropy'' (entropy_field te raw) (add_capped 0 (pdf_appended raw (pdf_links te text
       (fold (pdf_check (lower text)) PDF_CHECKS (plain_base ''PDF''))))))"

end
