(* ===== verification/Total_Disasm.thy ===== *)
theory Total_Disasm
  imports Total_Base
begin

section \<open>Disassembly of the entry point\<close>

text \<open>
  \<open>app/services/disasm.py\<close>: the headers of a PE file, the import table as a map from slots to names, and the annotated
  listing from the entry point.  Decoding itself is the capstone package (\<open>te_disasm\<close>).  Reading the headers is
  outside every \<open>try\<close>, so it may raise.
\<close>

definition SUSPICIOUS_APIS :: "(string \<times> string) list" where
  "SUSPICIOUS_APIS =
    [(''virtualallocex'', ''cross-process memory allocation''),
     (''virtualprotect'', ''memory permission change (unpacking/injection)''),
     (''writeprocessmemory'', ''cross-process write''), (''createremotethread'', ''remote code execution''),
     (''createremotethreadex'', ''remote code execution''), (''ntunmapviewofsection'', ''process hollowing''),
     (''zwunmapviewofsection'', ''process hollowing''), (''setthreadcontext'', ''process hollowing / injection''),
     (''queueuserapc'', ''APC injection''), (''openprocess'', ''handle to another process''),
     (''setwindowshookexa'', ''input capture / injection''), (''setwindowshookexw'', ''input capture / injection''),
     (''getasynckeystate'', ''keystroke capture''), (''isdebuggerpresent'', ''anti-analysis''),
     (''checkremotedebuggerpresent'', ''anti-analysis''),
     (''ntqueryinformationprocess'', ''anti-analysis / debugger detection''), (''outputdebugstringa'', ''anti-analysis''),
     (''lsass'', ''credential access''), (''minidumpwritedump'', ''credential dumping''), (''credreada'', ''credential access''),
     (''credreadw'', ''credential access''), (''urldownloadtofilea'', ''payload download''),
     (''urldownloadtofilew'', ''payload download''), (''internetopenurla'', ''payload download''),
     (''internetopenurlw'', ''payload download''), (''winexec'', ''legacy process execution''),
     (''shellexecutea'', ''process execution''), (''shellexecutew'', ''process execution''),
     (''createprocessa'', ''process execution''), (''createprocessw'', ''process execution''),
     (''cryptencrypt'', ''encryption (ransomware behaviour)''), (''cryptgenkey'', ''encryption (ransomware behaviour)''),
     (''bcryptencrypt'', ''encryption (ransomware behaviour)''), (''regsetvalueexa'', ''registry persistence''),
     (''regsetvalueexw'', ''registry persistence''), (''schtasks'', ''scheduled task persistence''),
     (''wsastartup'', ''raw socket networking''), (''winhttpopen'', ''HTTP beaconing''), (''wininetopen'', ''HTTP beaconing'')]"

definition DEFAULT_MAX_INSTRUCTIONS :: nat where "DEFAULT_MAX_INSTRUCTIONS = 120"
definition DEFAULT_MAX_BYTES :: int where "DEFAULT_MAX_BYTES = 4096"

subsection \<open>Headers\<close>

record image_section =
  is_name :: string
  is_virtual_size :: int
  is_virtual_address :: int
  is_raw_size :: int
  is_raw_offset :: int
  is_characteristics :: int

record image_headers =
  ih_machine :: int
  ih_pe32plus :: bool
  ih_image_base :: int
  ih_entry_rva :: int
  ih_sections :: "image_section list"
  ih_import_rva :: int
  ih_iat_rva :: int

definition section_span :: "image_section \<Rightarrow> int" where
  "section_span s = max (is_virtual_size s) (is_raw_size s)"

definition covers :: "int \<Rightarrow> image_section \<Rightarrow> bool" where
  "covers rva s \<longleftrightarrow> is_virtual_address s \<le> rva \<and> rva < is_virtual_address s + section_span s"

definition section_of :: "int \<Rightarrow> image_section list \<Rightarrow> image_section option" where
  "section_of rva ss = find_first (covers rva) ss"

definition rva_to_offset :: "int \<Rightarrow> image_section list \<Rightarrow> int option" where
  "rva_to_offset rva ss = (case find_first (covers rva) ss of None \<Rightarrow> None
     | Some s \<Rightarrow> if is_raw_offset s = 0 \<or> is_raw_size s = 0 then None
         else Some (is_raw_offset s + (rva - is_virtual_address s)))"

definition image_section_at :: "string \<Rightarrow> int \<Rightarrow> image_section" where
  "image_section_at raw off = (
     let sname = ascii_replace (rev (dropWhile (\<lambda>c. c = CHR 0x00) (rev (byte_slice raw off (off + 8)))))
     in \<lparr>is_name = (if sname = [] then ''(unnamed)'' else sname), is_virtual_size = field32 raw (off + 8),
         is_virtual_address = field32 raw (off + 12), is_raw_size = field32 raw (off + 16),
         is_raw_offset = field32 raw (off + 20), is_characteristics = field32 raw (off + 36)\<rparr>)"

fun image_sections :: "string \<Rightarrow> nat \<Rightarrow> int \<Rightarrow> image_section list" where
  "image_sections raw 0 off = []"
| "image_sections raw (Suc n) off = (if int (length raw) < off + 40 then []
     else image_section_at raw off # image_sections raw n (off + 40))"

definition parse_headers :: "string \<Rightarrow> image_headers option result" where
  "parse_headers raw = (
     if length raw < 64 \<or> take 2 raw \<noteq> ''MZ'' then Inr None
     else let e = field32 raw 0x3C; c = e + 4; p = c + 20 in
       if int (length raw) < e + 24 \<or> byte_slice raw e (e + 4) \<noteq> [CHR ''P'', CHR ''E'', CHR 0x00, CHR 0x00] then Inr None
       else if int (length raw) < p + 2 then Inr None
       else bind_result (u16 raw c) (\<lambda>machine. bind_result (u16 raw (c + 2)) (\<lambda>num.
         bind_result (u16 raw (c + 16)) (\<lambda>opt. bind_result (u16 raw p) (\<lambda>magic.
         bind_result (u32 raw (p + 16)) (\<lambda>entry.
           let plus = (magic = 0x20B); dd = p + (if plus then 112 else 96) in
           bind_result (if plus then unpack_le 8 raw (p + 24) else u32 raw (p + 28)) (\<lambda>base.
             Inr (Some \<lparr>ih_machine = machine, ih_pe32plus = plus, ih_image_base = base, ih_entry_rva = entry,
               ih_sections = image_sections raw (nat (min num 96)) (p + opt),
               ih_import_rva = (if dd + 104 \<le> int (length raw) then field32 raw (dd + 8) else 0),
               ih_iat_rva = (if dd + 104 \<le> int (length raw) then field32 raw (dd + 96) else 0)\<rparr>))))))))"

subsection \<open>Imports\<close>

text \<open>\<open>raw[off:raw.find(b"\x00", off, off + 256)]\<close>, empty when there is no terminator.\<close>

definition c_string :: "string \<Rightarrow> int \<Rightarrow> string" where
  "c_string raw off = (let t = byte_slice raw off (off + 256) in
     if CHR 0x00 \<in> set t then ascii_replace (takeWhile (\<lambda>c. c \<noteq> CHR 0x00) t) else [])"

text \<open>The names of one descriptor, from the thunk at \<open>slot\<close> for the slot \<open>rva\<close> on.\<close>

fun thunk_loop :: "string \<Rightarrow> image_section list \<Rightarrow> int \<Rightarrow> string \<Rightarrow> nat \<Rightarrow> int \<Rightarrow> int \<Rightarrow> (int \<times> string) list \<Rightarrow> (int \<times> string) list" where
  "thunk_loop raw ss ptr dll 0 slot rva out = out"
| "thunk_loop raw ss ptr dll (Suc n) slot rva out = (
     if int (length raw) < slot + ptr then out
     else let v = le_value (byte_slice raw slot (slot + ptr));
              named = (\<lambda>fn. assoc_put rva (if dll = [] then fn else dll @ ''!'' @ fn) out);
              go = thunk_loop raw ss ptr dll n (slot + ptr) (rva + ptr)
       in if v = 0 then out
       else if has_bit v (2 ^ nat (ptr * 8 - 1)) then go (named (''ordinal_'' @ show_int (v mod 0x10000)))
       else case rva_to_offset v ss of
         None \<Rightarrow> go out
       | Some h \<Rightarrow> if int (length raw) \<le> h + 2 then go out else go (named (c_string raw (h + 2))))"

fun descriptor_loop :: "string \<Rightarrow> image_section list \<Rightarrow> int \<Rightarrow> nat \<Rightarrow> int \<Rightarrow> (int \<times> string) list \<Rightarrow> (int \<times> string) list" where
  "descriptor_loop raw ss ptr 0 off out = out"
| "descriptor_loop raw ss ptr (Suc n) off out = (
     if int (length raw) < off + 20 then out
     else let oft = field32 raw off; name_rva = field32 raw (off + 12); first_thunk = field32 raw (off + 16)
       in if oft = 0 \<and> name_rva = 0 \<and> first_thunk = 0 then out
       else let dll = (case rva_to_offset name_rva ss of None \<Rightarrow> [] | Some q \<Rightarrow> c_string raw q);
                out' = (case rva_to_offset (if oft = 0 then first_thunk else oft) ss of None \<Rightarrow> out
                  | Some t \<Rightarrow> thunk_loop raw ss ptr dll 4096 t first_thunk out)
            in descriptor_loop raw ss ptr n (off + 20) out')"

definition imports_by_iat_slot :: "string \<Rightarrow> image_headers \<Rightarrow> (int \<times> string) list" where
  "imports_by_iat_slot raw h = (if ih_import_rva h = 0 then [] else
     case rva_to_offset (ih_import_rva h) (ih_sections h) of None \<Rightarrow> []
     | Some off \<Rightarrow> descriptor_loop raw (ih_sections h) (if ih_pe32plus h then 8 else 4) 256 off [])"

subsection \<open>Listing\<close>

definition flags_for :: "string \<Rightarrow> string option" where
  "flags_for api = assoc (lower (after_last CHR ''!'' api)) SUSPICIOUS_APIS"

definition hex_addr :: "int \<Rightarrow> string" where
  "hex_addr n = ''0x'' @ hex_of n"

fun target_of :: "insn \<Rightarrow> operand list \<Rightarrow> int option" where
  "target_of i [] = None"
| "target_of i (Immediate n # ops) = Some n"
| "target_of i (RipRelative disp # ops) = Some (in_address i + int (length (in_bytes i)) + disp)"
| "target_of i (Absolute disp # ops) = (if disp \<noteq> 0 then Some disp else target_of i ops)"
| "target_of i (OtherOperand # ops) = target_of i ops"
| "target_of i (BadOperand # ops) = None"

definition branch_target_va :: "insn \<Rightarrow> int option" where
  "branch_target_va i = target_of i (in_operands i)"

definition annotate_target :: "int \<Rightarrow> int \<Rightarrow> (int \<times> string) list \<Rightarrow> image_section list \<Rightarrow> pydict option" where
  "annotate_target target base imports ss = (if target \<le> 0 then None else
     let rva = target - base; va = (''va'', PStr (hex_addr target)) in
     case assoc rva imports of Some api \<Rightarrow> Some [va, (''import'', PStr api)]
     | None \<Rightarrow> (case find_first (\<lambda>(slot, _). slot \<le> rva \<and> rva < slot + 16) imports of
         Some (_, api) \<Rightarrow> Some [va, (''import'', PStr api)]
       | None \<Rightarrow> (case section_of rva ss of
           Some s \<Rightarrow> Some [va, (''section'', PStr (is_name s @ ''+0x'' @ hex_of (rva - is_virtual_address s)))]
         | None \<Rightarrow> Some [va])))"

definition is_branch :: "insn \<Rightarrow> bool" where
  "is_branch i \<longleftrightarrow> any_startswith [''call'', ''jmp''] (in_mnemonic i)"

definition note_of :: "(int \<Rightarrow> pydict option) \<Rightarrow> insn \<Rightarrow> pydict option" where
  "note_of annotate i = (if \<not> is_branch i then None else case branch_target_va i of None \<Rightarrow> None | Some t \<Rightarrow> annotate t)"

definition flagged_import :: "insn \<Rightarrow> pydict option \<Rightarrow> (string \<times> string) option" where
  "flagged_import i note = (case note of None \<Rightarrow> None | Some n \<Rightarrow>
     (case dict_get n ''import'' of
       PStr api \<Rightarrow> if startswith (in_mnemonic i) ''call'' \<and> api \<noteq> [] then map_option (Pair api) (flags_for api) else None
     | _ \<Rightarrow> None))"

definition insn_row :: "(int \<Rightarrow> pydict option) \<Rightarrow> insn \<Rightarrow> pydict" where
  "insn_row annotate i = [(''address'', PStr (hex_addr (in_address i))), (''bytes'', PStr (concat (map hex2 (in_bytes i)))),
     (''text'', PStr (strip (in_mnemonic i @ '' '' @ in_op_str i)))] @
     (case note_of annotate i of None \<Rightarrow> [] | Some n \<Rightarrow> [(''target'', PDict n)]) @
     (case flagged_import i (note_of annotate i) of None \<Rightarrow> [] | Some (api, flag) \<Rightarrow> [(''flag'', PStr flag)])"

definition suspicious_call :: "(int \<Rightarrow> pydict option) \<Rightarrow> insn \<Rightarrow> pydict list" where
  "suspicious_call annotate i = (case flagged_import i (note_of annotate i) of None \<Rightarrow> []
     | Some (api, flag) \<Rightarrow> [[(''api'', PStr api), (''address'', PStr (hex_addr (in_address i))), (''reason'', PStr flag)]])"

text \<open>
  The loop over the decoded instructions: the rows, the flagged calls, and how it ended (\<open>None\<close>: the decoder ran out,
  \<open>Some True\<close>: cut at the limit, \<open>Some False\<close>: at a return).
\<close>

fun listing :: "(int \<Rightarrow> pydict option) \<Rightarrow> nat \<Rightarrow> insn list \<Rightarrow> pydict list \<times> pydict list \<times> bool option" where
  "listing annotate n [] = ([], [], None)"
| "listing annotate 0 (i # is) = ([], [], Some True)"
| "listing annotate (Suc n) (i # is) = (
     if startswith (in_mnemonic i) ''ret'' then ([insn_row annotate i], suspicious_call annotate i, Some False)
     else case listing annotate n is of (rows, calls, stop) \<Rightarrow>
       (insn_row annotate i # rows, suspicious_call annotate i @ calls, stop))"

definition disabled :: "string \<Rightarrow> pydict list \<Rightarrow> pydict list \<Rightarrow> pydict" where
  "disabled reason rows calls = [(''enabled'', PBool False), (''reason'', PStr reason),
     (''instructions'', PList (map PDict rows)), (''suspicious_calls'', PList (map PDict calls))]"

definition decoded :: "'z total_env_scheme \<Rightarrow> string \<Rightarrow> image_headers \<Rightarrow> int \<Rightarrow> (bool \<Rightarrow> string \<Rightarrow> int \<Rightarrow> insn list \<times> string option) \<Rightarrow> pydict" where
  "decoded te raw h off dis = (
     let imports = imports_by_iat_slot raw h; start = ih_image_base h + ih_entry_rva h; x64 = (ih_machine h = 0x8664);
         (insns, err) = dis x64 (byte_slice raw off (off + DEFAULT_MAX_BYTES)) start;
         (rows, calls, stop) = listing (\<lambda>t. annotate_target t (ih_image_base h) imports (ih_sections h)) DEFAULT_MAX_INSTRUCTIONS insns
     in case (stop, err) of
       (None, Some e) \<Rightarrow> disabled (''decode failed: '' @ e) rows calls
     | _ \<Rightarrow> if rows = [] then disabled ''no instruction decoded at the entry point'' [] []
         else [(''enabled'', PBool True), (''reason'', PNone), (''arch'', PStr (if x64 then ''x64'' else ''x86'')),
           (''entrypoint'', PStr (hex_addr start)), (''instructions'', PList (map PDict rows)),
           (''instructions_analyzed'', PInt (int (length rows))), (''truncated'', PBool (stop = Some True)),
           (''window_bytes'', PInt DEFAULT_MAX_BYTES), (''imports_resolved'', PInt (int (length imports))),
           (''suspicious_calls'', PList (map PDict calls))])"

definition disassemble_pe :: "'z total_env_scheme \<Rightarrow> string \<Rightarrow> pydict result" where
  "disassemble_pe te raw = bind_result (parse_headers raw) (\<lambda>headers. Inr (case headers of
     None \<Rightarrow> disabled ''not a parsable PE image'' [] []
   | Some h \<Rightarrow>
       if ih_machine h \<notin> {0x8664, 0x14C} then disabled (''unsupported architecture 0x'' @ upper (hex_padded 4 (ih_machine h))) [] []
       else if ih_entry_rva h = 0 then disabled ''no entry point (entry RVA is 0)'' [] []
       else case rva_to_offset (ih_entry_rva h) (ih_sections h) of
         None \<Rightarrow> disabled ''entry point outside the file (packed/sectionless)'' [] []
       | Some off \<Rightarrow> (case te_disasm te of
           Inl err \<Rightarrow> disabled err [] []
         | Inr dis \<Rightarrow> decoded te raw h off dis)))"

section \<open>Signatures of the operators\<close>

text \<open>
  \<open>app/services/yara_engine.py\<close>: compiling the rules of the database one by one, scanning a file with those that
  compile, and the effect of the matches on the score.  The yara package is a parameter: whether it is installed, what it
  compiles and what a compiled rule matches.  \<open>broken_rule_is_isolated\<close>: a rule that does not compile or whose scan raises
  changes nothing about the others.
\<close>

record yara_match =
  ym_rule :: string
  ym_strings :: "string list"

record 'c yara_lib =
  yl_import_error :: "string option"
  yl_compile :: "string \<Rightarrow> 'c result"
  yl_match :: "'c \<Rightarrow> string \<Rightarrow> yara_match list result"

definition MAX_SCAN_BYTES :: int where
  "MAX_SCAN_BYTES = 32 * 1024 * 1024"

definition raised :: "exn \<Rightarrow> string" where
  "raised x = (case x of OtherError m \<Rightarrow> m | ValueError m \<Rightarrow> m | _ \<Rightarrow> [])"

definition rule_error :: "string \<Rightarrow> string \<Rightarrow> pyval" where
  "rule_error rule msg = PDict [(''rule'', PStr rule), (''error'', PStr msg)]"

fun compile_each :: "(string \<Rightarrow> 'c result) \<Rightarrow> (string \<times> string) list \<Rightarrow> (string \<times> 'c) list \<times> pyval list" where
  "compile_each cc [] = ([], [])"
| "compile_each cc ((name, content) # rules) = (case compile_each cc rules of (ok, errs) \<Rightarrow>
     (case cc content of Inr c \<Rightarrow> ((name, c) # ok, errs) | Inl x \<Rightarrow> (ok, rule_error name (take 300 (raised x)) # errs)))"

definition compile_rules :: "('c, 'z) yara_lib_scheme \<Rightarrow> (string \<times> string) list \<Rightarrow> (string \<times> 'c) list \<times> pyval list" where
  "compile_rules yl rules = (case yl_import_error yl of
     Some e \<Rightarrow> ([], [rule_error ''*'' (''yara-python non installato: '' @ e)])
   | None \<Rightarrow> compile_each (yl_compile yl) rules)"

record yara_scan =
  sc_enabled :: bool
  sc_matches :: "(yara_match \<times> string) list"
  sc_errors :: "pyval list"
  sc_skipped :: bool

fun scan_each :: "('c \<Rightarrow> string \<Rightarrow> yara_match list result) \<Rightarrow> string \<Rightarrow> (string \<times> 'c) list \<Rightarrow>
    (yara_match \<times> string) list \<times> pyval list" where
  "scan_each run raw [] = ([], [])"
| "scan_each run raw ((name, c) # rules) = (case scan_each run raw rules of (ms, errs) \<Rightarrow>
     (case run c raw of Inr new \<Rightarrow> (map (\<lambda>m. (m\<lparr>ym_strings := take 10 (ym_strings m)\<rparr>, name)) new @ ms, errs)
      | Inl x \<Rightarrow> (ms, rule_error name (take 200 (raised x)) # errs)))"

definition scan_bytes :: "('c, 'z) yara_lib_scheme \<Rightarrow> string \<Rightarrow> (string \<times> 'c) list \<Rightarrow> yara_scan" where
  "scan_bytes yl raw rules = (
     let on = yl_import_error yl = None \<and> rules \<noteq> [];
         out = \<lparr>sc_enabled = on, sc_matches = [], sc_errors = [], sc_skipped = False\<rparr>
     in if \<not> on then out
        else if MAX_SCAN_BYTES < int (length raw) then
          out\<lparr>sc_skipped := True, sc_errors := [rule_error ''*'' (''file oltre '' @ show_int (MAX_SCAN_BYTES div (1024 * 1024)) @ ''MB: skip dichiarato'')]\<rparr>
        else (case scan_each (yl_match yl) raw rules of (ms, errs) \<Rightarrow> out\<lparr>sc_matches := ms, sc_errors := errs\<rparr>))"

definition yara_finding :: "yara_match \<times> string \<Rightarrow> pyval" where
  "yara_finding = (\<lambda>(m, source). PDict [(''type'', PStr ''yara_signature_match''), (''severity'', PStr ''high''),
     (''detail'', PStr (''YARA rule '' @ [squote] @ ym_rule m @ [squote] @ '' (source: '' @ source @ '') matched the sample''))])"

definition score_impact :: "yara_scan \<Rightarrow> int \<Rightarrow> int \<times> pyval list" where
  "score_impact scan score = (min (score + 40 * int (length (sc_matches scan))) 100, map yara_finding (sc_matches scan))"

lemma compile_each_append:
  "compile_each cc (xs @ ys) = (fst (compile_each cc xs) @ fst (compile_each cc ys),
     snd (compile_each cc xs) @ snd (compile_each cc ys))"
  by (induction xs) (auto split: sum.splits prod.splits)

text \<open>A broken rule does not change what the others find.\<close>

lemma broken_rule_is_isolated:
  assumes "yl_import_error yl = None" "yl_compile yl bad = Inl x"
  shows "fst (compile_rules yl (xs @ (name, bad) # ys)) = fst (compile_rules yl (xs @ ys))"
  using assms by (simp add: compile_rules_def compile_each_append split: prod.splits)

lemma scan_each_append:
  "scan_each run raw (xs @ ys) = (fst (scan_each run raw xs) @ fst (scan_each run raw ys),
     snd (scan_each run raw xs) @ snd (scan_each run raw ys))"
  by (induction xs) (auto split: sum.splits prod.splits)

lemma raising_rule_is_isolated:
  assumes "yl_match yl c raw = Inl x" "xs @ ys \<noteq> []"
  shows "sc_matches (scan_bytes yl raw (xs @ (name, c) # ys)) = sc_matches (scan_bytes yl raw (xs @ ys))"
  using assms by (simp add: scan_bytes_def Let_def scan_each_append split: prod.splits)

text \<open>A match lifts a score to suspicious at least, and the result stays within the scale.\<close>

lemma score_impact_bounds:
  assumes "0 \<le> score" "score \<le> 100"
  shows "score \<le> fst (score_impact scan score)" "fst (score_impact scan score) \<le> 100"
    "sc_matches scan \<noteq> [] \<Longrightarrow> 40 \<le> fst (score_impact scan score)"
proof -
  show "score \<le> fst (score_impact scan score)" "fst (score_impact scan score) \<le> 100"
    using assms by (auto simp: score_impact_def)
  assume "sc_matches scan \<noteq> []"
  then have "1 \<le> length (sc_matches scan)" by (cases "sc_matches scan") auto
  then show "40 \<le> fst (score_impact scan score)" using assms by (simp add: score_impact_def)
qed

end
