(* ===== verification/Total_Archive.thy ===== *)
theory Total_Archive
  imports Total_Formats Total_Disasm
begin

section \<open>Aegis Total: formats, archives and the router\<close>

text \<open>
  The rest of the analysis in \<open>app/api/v1/total.py\<close>: texts and unknown binaries, recognition of the format, archives, and
  \<open>_analyze_bytes\<close>, which sends a file to the parser of its format and which archives call for their members.  A run may
  raise, and its recursion may be deeper than the fuel.
\<close>

type_synonym 'a run = "'a result option"

definition bind_run :: "'a run \<Rightarrow> ('a \<Rightarrow> 'b run) \<Rightarrow> 'b run" where
  "bind_run r f = (case r of None \<Rightarrow> None | Some (Inl x) \<Rightarrow> Some (Inl x) | Some (Inr a) \<Rightarrow> f a)"

lemma bind_run_simps [simp]:
  "bind_run None f = None" "bind_run (Some (Inl x)) f = Some (Inl x)" "bind_run (Some (Inr a)) f = f a"
  by (simp_all add: bind_run_def)

lemma bind_run_split: "bind_run r f = Some (Inr y) \<longleftrightarrow> (\<exists>a. r = Some (Inr a) \<and> f a = Some (Inr y))"
  by (auto simp: bind_run_def split: option.splits sum.splits)

subsection \<open>Texts and unknown binaries\<close>

definition looks_like_script :: "string \<Rightarrow> bool" where
  "looks_like_script text \<longleftrightarrow>
     any_in [''powershell'', ''cmd.exe'', ''wscript'', ''createobject'', ''sub '', ''function '', ''#!/''] (lower text)"

definition secret_findings :: "string \<Rightarrow> pyval list" where
  "secret_findings text = concat (map (\<lambda>(name, pat). let n = length (g_all pat text) in
     if n = 0 then [] else [PDict [(''type'', PStr ''secret''), (''pattern'', PStr name), (''severity'', PStr ''medium''),
       (''count'', PInt (int n))]]) SECRET_PATTERNS)"

definition text_match :: "string \<Rightarrow> pyval" where
  "text_match m = PDict [(''type'', PStr ''suspicious_string''), (''match'', PStr m), (''severity'', PStr ''high'')]"

definition text_iocs :: "'z total_env_scheme \<Rightarrow> string \<Rightarrow> pyval list" where
  "text_iocs te text = concat (map (\<lambda>(name, pat, g). let ms = take 8 (te_set_order te (findall pat g text)) in
     if ms \<noteq> [] \<and> List.member [''url'', ''domain'', ''onion''] name then
       [PDict [(''type'', PStr (''ioc_'' @ name)), (''severity'', PStr ''low''), (''matches'', PList (map PStr (take 5 ms)))]]
     else []) IOC_PATTERNS)"

definition redact_secrets :: "string \<Rightarrow> string" where
  "redact_secrets text = fold (\<lambda>(_, pat) t. g_sub pat (\<lambda>_. ''[REDACTED_SECRET]'') t) SECRET_PATTERNS text"

record text_report =
  tr_score :: int
  tr_findings :: "pyval list"
  tr_preview :: string

definition score_text :: "'z total_env_scheme \<Rightarrow> string \<Rightarrow> text_report" where
  "score_text te content = (
     let text = utf8_ignore (clip MAX_TEXT_SCAN_BYTES content);
         cut = (if MAX_TEXT_SCAN_BYTES < int (length content) then [finding ''scan_truncated'' ''low''
           (''Source is '' @ show_int (int (length content) div (1024 * 1024)) @ '' MB: first '' @
            show_int (MAX_TEXT_SCAN_BYTES div (1024 * 1024)) @ '' MB analyzed.'') None] else []);
         secrets = secret_findings text; ms = suspicious_matches text
     in \<lparr>tr_score = min (20 * int (length secrets) + 35 * int (length ms)) 100,
         tr_findings = cut @ secrets @ map text_match ms @
           (if looks_like_script text then office_findings_from_text text ''script'' else []) @ text_iocs te text,
         tr_preview = clip 30000 (redact_secrets text)\<rparr>)"

definition binary_strings :: "string \<Rightarrow> string" where
  "binary_strings raw = join '' '' (extract_strings raw)"

definition analyze_binary :: "'z total_env_scheme \<Rightarrow> string \<Rightarrow> string \<Rightarrow> pydict" where
  "analyze_binary te raw fmt = (
     let full = binary_strings raw; e = entropy te raw; packed = 75 / 10 < e \<and> 4096 < length raw; ms = suspicious_matches full;
         fs = (if packed then [finding ''high_entropy_blob'' ''medium''
           (''Entropy '' @ fixed2 e @ '': compressed/encrypted/packed content.'') (Some ''T1027'')] else []) @
           map (string_match ''suspicious_string'') ms
     in [(''kind'', PStr ''binary''), (''format'', PStr (upper fmt)),
         (''score'', PInt (min (10 + (if packed then 15 else 0) + 25 * int (length ms)) 100)), (''findings'', PList fs),
         (''iocs'', PDict (iocs_from te full)), (''entropy'', entropy_field te raw),
         (''strings_preview'', PList (map PStr (take 120 (extract_strings raw)))), (''hexdump'', PStr (hexdump_preview raw)),
         (''note'', PStr (''No dedicated parser for '' @ upper fmt @ '': entropy, strings, IOCs and an optional hexdump.''))])"

definition malformed_container :: "'z total_env_scheme \<Rightarrow> string \<Rightarrow> string \<Rightarrow> pydict \<Rightarrow> pydict" where
  "malformed_container te raw fmt detail = (
     let generic = analyze_binary te raw (fmt @ '' (malformed)'');
         fs = finding ''malformed_header'' ''medium'' (fmt @
           '' magic recognised but the header does not parse: analyzed generically instead of being skipped.'') (Some ''T1027'') #
           findings_of detail @ findings_of generic
     in assoc_put ''malformed'' (PBool True) (assoc_put ''format'' (PStr fmt)
       (assoc_put ''score'' (PInt (min (int_of (dict_get generic ''score'') + 15) 100))
         (assoc_put ''findings'' (PList fs) generic))))"

definition parse_failed :: "pydict \<Rightarrow> bool" where
  "parse_failed d \<longleftrightarrow> \<not> py_truth (dict_get d ''arch'') \<and> \<not> py_truth (dict_get d ''sections'') \<and> \<not> py_truth (dict_get d ''kind'')"

definition analyze_archive_other :: "'z total_env_scheme \<Rightarrow> string \<Rightarrow> string \<Rightarrow> pydict" where
  "analyze_archive_other te raw fmt = (
     let full = binary_strings raw; ms = suspicious_matches full; pe = py_in ''MZ'' (clip 65536 raw) \<or> 3 < count_str ''MZ'' raw
     in [(''kind'', PStr ''binary''), (''format'', PStr (upper fmt)),
         (''score'', PInt (min (5 + 25 * int (length ms) + (if pe then 25 else 0)) 100)),
         (''findings'', PList (finding ''container_format'' ''low'' (''Contenitore '' @ upper fmt @
             '' identificato: estrazione completa (7z/rar/ISO) in Phase 2. Analisi statica su header, stringhe e IOC eseguita.'') None #
           map (string_match ''suspicious_string_in_container'') ms @
           (if pe then [finding ''executable_inside_container'' ''high'' ''PE headers detected inside the container.'' (Some ''T1027'')] else []))),
         (''iocs'', PDict (iocs_from te full)), (''entropy'', entropy_field te raw),
         (''note'', PStr (''Contenitore '' @ upper fmt @ '': analisi statica disponibile, estrazione per-file in Phase 2.''))])"

subsection \<open>Recognition\<close>

definition printable_byte :: "char \<Rightarrow> bool" where
  "printable_byte b \<longleftrightarrow> between 32 126 b \<or> code b \<in> {9, 10, 13}"

definition file_ext :: "string \<Rightarrow> string" where
  "file_ext name = (if CHR ''.'' \<in> set name then CHR ''.'' # after_last CHR ''.'' name else [])"

definition ELF_MAGIC :: string where "ELF_MAGIC = CHR 0x7F # ''ELF''"
definition OLE_MAGIC :: string where "OLE_MAGIC = [CHR 0xD0, CHR 0xCF, CHR 0x11, CHR 0xA0]"
definition ZIP_MAGIC :: string where "ZIP_MAGIC = [CHR ''P'', CHR ''K'', CHR 0x03, CHR 0x04]"
definition CLASS_MAGIC :: string where "CLASS_MAGIC = [CHR 0xCA, CHR 0xFE, CHR 0xBA, CHR 0xBE]"

definition is_text_file :: "string \<Rightarrow> string \<Rightarrow> bool" where
  "is_text_file name content = (
     let base = after_last CHR ''/'' (lower name) in
     if List.member TEXT_EXTS (file_ext base) \<or> List.member MANIFEST_NAMES base \<or> startswith base ''dockerfile'' then True
     else if startswith content ''MZ'' then False
     else if startswith content ELF_MAGIC \<or> startswith content OLE_MAGIC \<or> startswith content ZIP_MAGIC then False
     else if startswith content ''%PDF'' then False
     else if content = [] then True
     else (let sample = clip 4096 content in
       82 / 100 < (of_nat (length (filter printable_byte sample)) / of_nat (length sample) :: rat)))"

definition starts_any :: "string list \<Rightarrow> string \<Rightarrow> bool" where
  "starts_any ps raw \<longleftrightarrow> list_ex (startswith raw) ps"

text \<open>\<open>_detect_format\<close>: the magic bytes first, the name only when they say nothing.\<close>

definition magic_format :: "string \<Rightarrow> string option" where
  "magic_format raw = (
     if raw = [] then Some ''text''
     else if startswith raw ''MZ'' then Some ''pe''
     else if startswith raw ELF_MAGIC then Some ''elf''
     else if startswith raw CLASS_MAGIC \<and> 8 \<le> length raw \<and>
       (let nfat = le_value (rev (byte_slice raw 4 8)) in \<not> (1 \<le> nfat \<and> nfat \<le> 16)) then Some ''class''
     else if starts_any (map fst MACHO_MAGICS) raw then Some ''macho''
     else if startswith raw ''%PDF-'' then Some ''pdf''
     else if startswith raw OLE_MAGIC then Some ''ole''
     else if starts_any [[CHR 0x89, CHR ''P'', CHR ''N'', CHR ''G'', CHR 0x0D, CHR 0x0A, CHR 0x1A, CHR 0x0A],
       [CHR 0xFF, CHR 0xD8, CHR 0xFF], ''GIF87a'', ''GIF89a''] raw then Some ''image''
     else if starts_any [ZIP_MAGIC, [CHR ''P'', CHR ''K'', CHR 0x05, CHR 0x06]] raw then Some ''zip''
     else if startswith raw [CHR ''7'', CHR ''z'', CHR 0xBC, CHR 0xAF, CHR 0x27, CHR 0x1C] then Some ''7z''
     else if startswith raw ''Rar!'' then Some ''rar''
     else if startswith raw [CHR 0x1F, CHR 0x8B] then Some ''gzip''
     else if startswith raw ''BZh'' then Some ''bzip2''
     else if startswith raw [CHR 0xFD, CHR ''7'', CHR ''z'', CHR ''X'', CHR ''Z'', CHR 0x00] then Some ''xz''
     else if startswith raw ''ustar'' \<or> byte_slice raw 257 262 = ''ustar'' then Some ''tar''
     else if startswith raw CLASS_MAGIC then Some ''class''
     else if startswith raw (CHR 0x00 # ''asm'') then Some ''wasm''
     else if startswith raw (''SQLite format 3'' @ [CHR 0x00]) then Some ''sqlite''
     else if starts_any [[CHR 0xD4, CHR 0xC3, CHR 0xB2, CHR 0xA1], [CHR 0xA1, CHR 0xB2, CHR 0xC3, CHR 0xD4],
       [CHR 0x0A, CHR 0x0D, CHR 0x0D, CHR 0x0A]] raw then Some ''pcap''
     else if startswith raw [CHR ''L'', CHR 0x00, CHR 0x00, CHR 0x00] then Some ''lnk''
     else if startswith raw (CHR ''{'' # backslash # ''rtf'') then Some ''rtf''
     else if starts_any [''MSCF'', ''ISc(''] raw then Some ''cab''
     else if take 4 raw = ''CD001'' \<or> byte_slice raw 0x8001 0x8006 = ''CD001'' then Some ''iso''
     else None)"

definition detect_file_format :: "string \<Rightarrow> string \<Rightarrow> string" where
  "detect_file_format raw name = (case magic_format raw of Some fmt \<Rightarrow> fmt | None \<Rightarrow>
     if lower (file_ext name) = ''.lnk'' then ''lnk''
     else if lower (file_ext name) = ''.7z'' \<and> startswith raw ''7z'' then ''7z''
     else if is_text_file name raw then ''text'' else ''binary'')"

section \<open>Aegis Total: archives and the router\<close>

text \<open>
  \<open>_analyze_zip\<close>, \<open>_analyze_tar_like\<close> and \<open>_analyze_bytes\<close> of \<open>app/api/v1/total.py\<close>.  The archive functions take the
  recursive call as an argument (content, name, \<open>allow_nested\<close>); \<open>analyze_bytes\<close> ties the knot with fuel, one
  unit per call of \<open>_analyze_bytes\<close>.  The nesting depth every archive passes on is 1, as in the code.
\<close>

type_synonym analyzer = "string \<Rightarrow> string \<Rightarrow> bool \<Rightarrow> pydict run"

subsection \<open>ZIP\<close>

definition zip_skip :: "zip_info \<Rightarrow> bool" where
  "zip_skip i \<longleftrightarrow> startswith (zi_name i) ''/'' \<or> py_in ''..'' (zi_name i) \<or> zi_is_dir i"

definition oversize_entry :: "zip_info \<Rightarrow> pydict" where
  "oversize_entry i = [(''kind'', PStr ''binary''), (''format'', PStr ''OVERSIZE''), (''score'', PInt 0),
     (''path'', PStr (safe_member_name (zi_name i))), (''size'', PInt (zi_size i)),
     (''findings'', PList [finding ''entry_too_large'' ''medium'' (''Voce da '' @ show_int (zi_size i div (1024 * 1024)) @
        '' MB non estratta (cap per-file).'') None])]"

definition tag_entry :: "'z total_env_scheme \<Rightarrow> string \<Rightarrow> string \<Rightarrow> pydict \<Rightarrow> pydict" where
  "tag_entry te name content e = assoc_put ''sha256'' (PStr (te_sha256 te content))
     (assoc_put ''size'' (PInt (int (length content))) (assoc_put ''path'' (PStr (safe_member_name name)) e))"

text \<open>The entries extracted and whether the budget ended the loop.\<close>

fun zip_loop :: "'z total_env_scheme \<Rightarrow> analyzer \<Rightarrow> bool \<Rightarrow> zip_info list \<Rightarrow> zip_info list \<Rightarrow> int \<Rightarrow> pydict list \<Rightarrow> (pydict list \<times> bool) run" where
  "zip_loop te rec nested infos [] budget out = Some (Inr (out, False))"
| "zip_loop te rec nested infos (i # is) budget out = (
     if zip_skip i then zip_loop te rec nested infos is budget out
     else if PER_ENTRY_MAX_BYTES < zi_size i then zip_loop te rec nested infos is budget (out @ [oversize_entry i])
     else case read_member infos (zi_name i) of
       Inl x \<Rightarrow> zip_loop te rec nested infos is budget out
     | Inr content \<Rightarrow>
         bind_run (rec content (zi_name i) (nested \<and> length out < MAX_ANALYZED_MEMBERS)) (\<lambda>e.
           let out' = out @ [tag_entry te (zi_name i) content e]; budget' = budget - int (length content)
           in if budget' \<le> 0 \<and> length out' < length infos then Some (Inr (out', True))
              else zip_loop te rec nested infos is budget' out'))"

definition is_ooxml :: "string list \<Rightarrow> bool" where
  "is_ooxml names \<longleftrightarrow> list_ex (\<lambda>n. endswith n ''.xml'' \<and> any_in [''word/'', ''xl/'', ''ppt/''] n) names \<or>
     List.member names ''[content_types].xml''"

definition is_apk :: "string list \<Rightarrow> bool" where
  "is_apk names \<longleftrightarrow> List.member names ''androidmanifest.xml'' \<or> List.member names ''classes.dex''"

definition is_jar :: "string list \<Rightarrow> bool" where
  "is_jar names \<longleftrightarrow> list_ex (\<lambda>n. endswith n ''.class'') names \<and> list_ex (\<lambda>n. endswith n ''.mf'') names"

definition invalid_zip :: pydict where
  "invalid_zip = [(''kind'', PStr ''archive''), (''format'', PStr ''ZIP''), (''score'', PInt 0),
     (''findings'', PList [finding ''invalid_zip'' ''medium'' ''Contenitore non leggibile come ZIP.'' None]),
     (''extracted'', PList []), (''truncated'', PBool False)]"

definition zip_kind_findings :: "string list \<Rightarrow> pyval list" where
  "zip_kind_findings names = (if is_apk names then [finding ''android_package'' ''low''
       ''Pacchetto APK: classes.dex e AndroidManifest presenti.'' (Some ''T1400'')]
     else if is_jar names then [finding ''java_archive'' ''low'' ''Archivio Java (class + manifest).'' (Some ''T1059.007'')] else [])"

definition too_many :: "zip_info list \<Rightarrow> nat \<Rightarrow> pyval list" where
  "too_many infos max_files = (if max_files < length infos then [PDict [(''type'', PStr ''archive_truncated''),
     (''severity'', PStr ''low''), (''detail'', PStr (''Archive with '' @ show_nat (length infos) @ '' files: first '' @
      show_nat max_files @ '' analyzed.'')), (''mitre'', PNone)]] else [])"

definition declared_bytes :: "zip_info list \<Rightarrow> int" where
  "declared_bytes infos = sum_list (map zi_size infos)"

definition zip_bomb :: "zip_info list \<Rightarrow> bool" where
  "zip_bomb infos \<longleftrightarrow> TOTAL_UNCOMPRESSED_MAX < declared_bytes infos"

definition bomb_findings :: "zip_info list \<Rightarrow> pyval list" where
  "bomb_findings infos = (if zip_bomb infos then [finding ''zip_bomb_suspected'' ''high''
     (''Dimensione dichiarata in espansione '' @ show_int (declared_bytes infos div (1024 * 1024)) @ '' MB (limite '' @
      show_int (TOTAL_UNCOMPRESSED_MAX div (1024 * 1024)) @ '' MB): analisi parziale antifrode.'') None] else [])"

definition zip_format :: "string list \<Rightarrow> string" where
  "zip_format names = ''ZIP'' @ (if is_apk names then '' (APK)'' else if is_jar names then '' (JAR)'' else [])"

definition zip_score :: "zip_info list \<Rightarrow> int" where
  "zip_score infos = min ((if is_apk (map (lower \<circ> zi_name) infos) then 10 else 0) + (if zip_bomb infos then 20 else 0)) 100"

definition zip_report :: "zip_info list \<Rightarrow> nat \<Rightarrow> pydict list \<times> bool \<Rightarrow> pydict" where
  "zip_report infos max_files = (\<lambda>(out, exhausted). let names = map (lower \<circ> zi_name) infos in
     [(''kind'', PStr ''archive''), (''format'', PStr (zip_format names)), (''score'', PInt (zip_score infos)),
      (''findings'', PList (zip_kind_findings names @ too_many infos max_files @ bomb_findings infos @
        (if exhausted then [finding ''budget_exhausted'' ''low'' ''Analysis budget exhausted: remaining files not analyzed.'' None] else []))),
      (''analyzed_members'', PInt (int (length out))), (''total_members'', PInt (int (length infos))),
      (''truncated'', PBool (max_files < length infos \<or> zip_bomb infos \<or> exhausted)),
      (''extracted'', PList (map PDict out))])"

definition analyze_zip :: "'z total_env_scheme \<Rightarrow> analyzer \<Rightarrow> string \<Rightarrow> nat \<Rightarrow> int \<Rightarrow> bool \<Rightarrow> pydict run" where
  "analyze_zip te rec raw max_files max_bytes nested = (case te_unzip te raw of
     None \<Rightarrow> Some (Inr invalid_zip)
   | Some infos \<Rightarrow>
       if is_ooxml (map (lower \<circ> zi_name) infos) then Some (Inr (finish_report
         [(''kind'', PStr ''office''), (''analyzed_members'', PInt 0), (''truncated'', PBool False)] (analyze_ooxml te infos)))
       else bind_run (zip_loop te rec nested infos (take max_files infos) max_bytes [])
         (\<lambda>r. Some (Inr (zip_report infos max_files r))))"

subsection \<open>tar, gzip, bzip2, xz\<close>

definition STREAM_SUFFIX :: grx where
  "STREAM_SUFFIX = g_seq [g_char CHR ''.'', g_words_ci [''gz'', ''bz2'', ''xz'', ''tgz'', ''txz''], GEnd]"

definition stream_name :: "string \<Rightarrow> string" where
  "stream_name name = (case g_sub STREAM_SUFFIX (\<lambda>_. []) name of [] \<Rightarrow> ''decompressed.bin'' | n \<Rightarrow> n)"

definition insert_finding :: "pyval \<Rightarrow> pydict \<Rightarrow> pydict" where
  "insert_finding f d = assoc_put ''findings'' (PList (f # findings_of d)) d"

definition wrap_stream :: "string \<Rightarrow> nat \<Rightarrow> pydict \<Rightarrow> pydict" where
  "wrap_stream fmt n d = (
     let d1 = insert_finding (finding ''compressed_stream'' ''low'' (upper fmt @ '' content decompressed and analyzed ('' @
           show_nat n @ '' bytes).'') None) d
     in assoc_put ''kind'' (PStr ''binary'')
       (assoc_put ''format'' (PStr (upper fmt @ ''>'' @ py_str (dict_get_or d1 ''format'' (PStr ''BINARY'')))) d1))"

fun tar_loop :: "'z total_env_scheme \<Rightarrow> analyzer \<Rightarrow> tar_member list \<Rightarrow> pydict list \<Rightarrow> pyval list \<Rightarrow> (pydict list \<times> pyval list) run" where
  "tar_loop te rec [] out fs = Some (Inr (out, fs))"
| "tar_loop te rec (m # ms) out fs = (
     if \<not> tm_is_file m then tar_loop te rec ms out fs
     else case tm_read m of
       Inl x \<Rightarrow> tar_loop te rec ms out fs
     | Inr None \<Rightarrow> tar_loop te rec ms out fs
     | Inr (Some content) \<Rightarrow>
         if PER_ENTRY_MAX_BYTES < int (length content) then tar_loop te rec ms out (fs @
           [finding ''entry_too_large'' ''medium'' (safe_member_name (tm_name m) @ '' oltre il cap per-file.'') None])
         else bind_run (rec content (tm_name m) False) (\<lambda>e. tar_loop te rec ms (out @ [tag_entry te (tm_name m) content e]) fs))"

definition tar_report :: "string \<Rightarrow> nat \<Rightarrow> pydict list \<times> pyval list \<Rightarrow> pydict" where
  "tar_report fmt n = (\<lambda>(out, fs). [(''kind'', PStr ''archive''), (''format'', PStr (upper fmt)), (''score'', PInt 0),
     (''findings'', PList fs), (''analyzed_members'', PInt (int (length out))), (''total_members'', PInt (int n)),
     (''truncated'', PBool (200 < n)), (''extracted'', PList (map PDict out))])"

definition tar_error :: "string \<Rightarrow> exn \<Rightarrow> pydict" where
  "tar_error fmt x = [(''kind'', PStr ''archive''), (''format'', PStr (upper fmt)), (''score'', PInt 5),
     (''findings'', PList [finding ''decompression_error'' ''medium'' (take 200 (exn_text x)) None]),
     (''extracted'', PList []), (''truncated'', PBool False)]"

definition tar_members :: "'z total_env_scheme \<Rightarrow> analyzer \<Rightarrow> string \<Rightarrow> string \<Rightarrow> pydict run" where
  "tar_members te rec stream fmt = (case te_untar te stream of Inl x \<Rightarrow> Some (Inl x)
     | Inr ms \<Rightarrow> bind_run (tar_loop te rec (take 200 ms) [] []) (\<lambda>r. Some (Inr (tar_report fmt (length ms) r))))"

definition single_stream :: "analyzer \<Rightarrow> string \<Rightarrow> string \<Rightarrow> string \<Rightarrow> pydict run" where
  "single_stream rec stream fmt name = (let content = clip PER_ENTRY_MAX_BYTES stream in
     bind_run (rec content (stream_name name) False) (\<lambda>d. Some (Inr (wrap_stream fmt (length content) d))))"

definition analyze_tar_like :: "'z total_env_scheme \<Rightarrow> analyzer \<Rightarrow> string \<Rightarrow> string \<Rightarrow> string \<Rightarrow> pydict option run" where
  "analyze_tar_like te rec raw fmt name = (
     if \<not> List.member [''tar'', ''gzip'', ''bzip2'', ''xz''] fmt then Some (Inr None)
     else case (case (if fmt = ''tar'' then Inr raw else te_expand te fmt raw) of Inl x \<Rightarrow> Some (Inl x)
       | Inr stream \<Rightarrow> if te_is_tar te stream then tar_members te rec stream fmt else single_stream rec stream fmt name) of
       None \<Rightarrow> None
     | Some (Inl x) \<Rightarrow> Some (Inr (Some (tar_error fmt x)))
     | Some (Inr d) \<Rightarrow> Some (Inr (Some d)))"

subsection \<open>The router\<close>

definition executable_report :: "'z total_env_scheme \<Rightarrow> string \<Rightarrow> string \<Rightarrow> pydict \<Rightarrow> pydict" where
  "executable_report te raw fmt d = (if parse_failed d then malformed_container te raw fmt d
     else finish_report [(''kind'', PStr ''binary''), (''size'', PInt (int (length raw))), (''format'', PStr fmt)] d)"

definition pe_report :: "'z total_env_scheme \<Rightarrow> string \<Rightarrow> pydict result" where
  "pe_report te raw = (let d = analyze_pe te raw in
     if parse_failed d then Inr (malformed_container te raw ''PE'' d)
     else bind_result (disassemble_pe te raw) (\<lambda>a. Inr (assoc_put ''disasm'' (PDict a)
       (dict_update (executable_report te raw ''PE'' d)
         [(''note'', PStr ''PE: sezioni/entropia, import, .NET, firma, IOC.'')]))))"

definition document_report :: "string \<Rightarrow> string \<Rightarrow> string \<Rightarrow> pydict \<Rightarrow> pydict" where
  "document_report kind raw fmt d = finish_report
     [(''kind'', PStr kind), (''size'', PInt (int (length raw))), (''format'', PStr fmt)] d"

definition text_file_report :: "'z total_env_scheme \<Rightarrow> string \<Rightarrow> pydict" where
  "text_file_report te raw = (let t = score_text te raw in
     [(''kind'', PStr ''text''), (''format'', PStr ''text''), (''size'', PInt (int (length raw))),
      (''score'', PInt (tr_score t)), (''findings'', PList (tr_findings t)), (''preview'', PStr (tr_preview t))])"

definition lnk_finding :: pyval where
  "lnk_finding = finding ''windows_shortcut'' ''medium'' ''LNK: check target and arguments (classic LOLBin vector).'' (Some ''T1204.002'')"

text \<open>The formats that need no recursion.\<close>

definition plain_report :: "'z total_env_scheme \<Rightarrow> string \<Rightarrow> string \<Rightarrow> pydict" where
  "plain_report te raw fmt = (
     if fmt = ''elf'' then executable_report te raw ''ELF'' (analyze_elf te raw)
     else if fmt = ''macho'' then executable_report te raw ''Mach-O'' (analyze_macho te raw)
     else if fmt = ''ole'' then dict_update (document_report ''binary'' raw ''OLE2/CFB'' (analyze_ole te raw))
       [(''note'', PStr ''Documento OLE/Office legacy o pacchetto MSI.'')]
     else if fmt = ''pdf'' then document_report ''binary'' raw ''PDF'' (analyze_pdf te raw)
     else if fmt = ''rtf'' then document_report ''text'' raw ''RTF'' (analyze_rtf te raw)
     else if List.member [''7z'', ''rar'', ''cab'', ''iso''] fmt then analyze_archive_other te raw fmt
     else if List.member [''class'', ''wasm''] fmt then assoc_put ''kind'' (PStr ''binary'') (analyze_binary te raw fmt)
     else if fmt = ''text'' then text_file_report te raw
     else if fmt = ''lnk'' then add_findings [lnk_finding] (analyze_binary te raw fmt)
     else analyze_binary te raw fmt)"

definition set_default :: "string \<Rightarrow> pyval \<Rightarrow> pydict \<Rightarrow> pydict" where
  "set_default k v d = (if has_key k d then d else assoc_put k v d)"

definition stream_report :: "'z total_env_scheme \<Rightarrow> string \<Rightarrow> string \<Rightarrow> pydict option \<Rightarrow> pydict" where
  "stream_report te raw fmt r = (
     let d = set_default ''kind'' (PStr ''binary'') (case r of None \<Rightarrow> analyze_binary te raw fmt | Some d \<Rightarrow> d)
     in if dict_get d ''kind'' = PStr ''archive'' then assoc_put ''kind'' (PStr ''binary'') d else d)"

fun analyze_bytes :: "'z total_env_scheme \<Rightarrow> nat \<Rightarrow> string \<Rightarrow> string \<Rightarrow> bool \<Rightarrow> nat \<Rightarrow> pydict run" where
  "analyze_bytes te 0 raw name nested depth = te_overflow te"
| "analyze_bytes te (Suc n) raw name nested depth = (
     let fmt = detect_file_format raw name; rec = (\<lambda>content nm allow. analyze_bytes te n content nm allow 1) in
     if fmt = ''pe'' then Some (pe_report te raw)
     else if fmt = ''zip'' then
       (if MAX_NESTED_DEPTH \<le> depth then Some (Inr (analyze_binary te raw ''ZIP''))
        else bind_run (analyze_zip te rec raw MAX_ANALYZED_MEMBERS (int MAX_ANALYZED_MEMBERS * 1024) nested)
          (\<lambda>d. Some (Inr (assoc_put ''kind'' (PStr ''binary'') d))))
     else if List.member [''tar'', ''gzip'', ''bzip2'', ''xz''] fmt then
       (if MAX_NESTED_DEPTH \<le> depth then Some (Inr (analyze_binary te raw (upper fmt)))
        else bind_run (analyze_tar_like te rec raw fmt name) (\<lambda>r. Some (Inr (stream_report te raw fmt r))))
     else Some (Inr (plain_report te raw fmt)))"

declare analyze_bytes.simps [simp del]

end
