(* ===== verification/Total_Upload.thy ===== *)
theory Total_Upload
  imports Total_Archive
begin

section \<open>Aegis Total: an upload\<close>

text \<open>
  \<open>upload_analyze\<close> of \<open>app/api/v1/total.py\<close>: limits, the cache, the analysis of an archive or a single file, names of
  cracks, signatures, verdict and the stored report.  The settings, the fingerprint of the rules, the row of the cache and the active
  rules of the database are arguments; the result is the refusal, the cached answer or the report.
\<close>

record upload_env =
  ue_signature :: string
  ue_fingerprint :: string
  ue_max_file_mb :: int
  ue_max_zip_mb :: int
  ue_max_files_per_zip :: int

record cached_report =
  cr_engine :: "string option"
  cr_score :: int
  cr_verdict :: string

record total_report =
  rp_sha256 :: string
  rp_filename :: string
  rp_kind :: string
  rp_score :: int
  rp_verdict :: string
  rp_engines :: pydict
  rp_files :: "pydict list"
  rp_sbom :: "pydict list"
  rp_format :: string
  rp_truncated :: bool

datatype upload_answer = Refused int string | Cached int string | Report total_report

text \<open>What the branch for archives and the branch for single files leave behind.\<close>

record collected =
  co_kind :: string
  co_files :: "pydict list"
  co_score :: int
  co_iocs :: pydict
  co_imports :: "pyval list"
  co_sbom :: "pydict list"
  co_truncated :: bool
  co_members :: int

definition ENGINE_VERSION :: string where "ENGINE_VERSION = ''3.2''"

definition SINGLE_STREAM :: "string list" where
  "SINGLE_STREAM = [''zip'', ''gzip'', ''bzip2'', ''xz'', ''tar'', ''7z'', ''rar'', ''cab'', ''iso'']"

definition ARCHIVE_SUFFIXES :: "string list" where
  "ARCHIVE_SUFFIXES = [''.zip'', ''.tar'', ''.gz'', ''.tgz'', ''.bz2'', ''.xz'', ''.7z'', ''.rar'', ''.apk'', ''.jar'', ''.war'',
     ''.ear'', ''.whl'', ''.xpi'', ''.ipa'', ''.oxt'']"

definition is_archive_upload :: "string \<Rightarrow> string \<Rightarrow> bool" where
  "is_archive_upload fmt filename \<longleftrightarrow> List.member SINGLE_STREAM fmt \<or> any_endswith ARCHIVE_SUFFIXES (lower filename)"

definition refusal :: "upload_env \<Rightarrow> string \<Rightarrow> string \<Rightarrow> string \<Rightarrow> upload_answer option" where
  "refusal ue raw fmt filename = (
     let n = int (length raw); archive = is_archive_upload fmt filename; mb = 1024 * 1024 in
     if ue_max_file_mb ue * mb < n \<and> \<not> archive then Some (Refused 413 (''File too large: '' @ show_int (n div mb) @
       '' MB (max '' @ show_int (ue_max_file_mb ue) @ ''MB). Archives up to '' @ show_int (ue_max_zip_mb ue) @
       ''MB are accepted (configurable via TOTAL_MAX_FILE_MB/TOTAL_MAX_ZIP_MB).''))
     else if archive \<and> ue_max_zip_mb ue * mb < n then
       Some (Refused 413 (''Archive too large: max '' @ show_int (ue_max_zip_mb ue) @ ''MB''))
     else None)"

definition score_of :: "pydict \<Rightarrow> int" where
  "score_of d = int_of (dict_get d ''score'')"

definition manifest_entry :: "pydict \<Rightarrow> pydict list" where
  "manifest_entry e = (case dict_get e ''path'' of
     PStr p \<Rightarrow> if List.member MANIFEST_NAMES (after_last CHR ''/'' (lower p)) then
       [[(''manifest'', PStr p), (''preview'', PStr (clip 5000 (case dict_get e ''preview'' of PStr s \<Rightarrow> s | _ \<Rightarrow> [])))]] else []
   | _ \<Rightarrow> [])"

subsection \<open>An archive\<close>

definition office_upload :: "'z total_env_scheme \<Rightarrow> string \<Rightarrow> string \<Rightarrow> pydict \<Rightarrow> collected" where
  "office_upload te raw filename z =
     \<lparr>co_kind = ''project'', co_files = [[(''path'', PStr filename), (''kind'', PStr ''binary''), (''format'', PStr ''OOXML (Office)''),
        (''size'', PInt (int (length raw))), (''sha256'', PStr (te_sha256 te raw)), (''score'', dict_get_or z ''score'' (PInt 0)),
        (''findings'', dict_get_or z ''findings'' (PList [])), (''iocs'', dict_get_or z ''iocs'' (PDict [])),
        (''parts'', dict_get_or z ''parts'' (PList [])),
        (''note'', PStr ''Office OOXML document: analysis of macros, external relationships, embedded objects.'')]],
      co_score = score_of z, co_iocs = dict_of (dict_get z ''iocs''), co_imports = [], co_sbom = [],
      co_truncated = py_truth (dict_get z ''truncated''), co_members = int_of (dict_get z ''total_members'')\<rparr>"

definition container_file :: "'z total_env_scheme \<Rightarrow> string \<Rightarrow> string \<Rightarrow> pydict \<Rightarrow> pydict list" where
  "container_file te raw filename z = (if findings_of z = [] then [] else
     [[(''path'', PStr filename), (''kind'', PStr ''binary''), (''format'', dict_get_or z ''format'' (PStr ''ZIP'')),
       (''size'', PInt (int (length raw))), (''sha256'', PStr (te_sha256 te raw)), (''score'', dict_get_or z ''score'' (PInt 0)),
       (''findings'', PList (findings_of z)), (''analyzed_members'', dict_get z ''analyzed_members''),
       (''total_members'', dict_get z ''total_members''), (''truncated'', PBool (py_truth (dict_get z ''truncated''))),
       (''note'', PStr (''Container: '' @ py_str (dict_get z ''analyzed_members'') @ '' of '' @ py_str (dict_get z ''total_members'') @
          '' members analyzed.''))]])"

definition project_upload :: "'z total_env_scheme \<Rightarrow> upload_env \<Rightarrow> string \<Rightarrow> string \<Rightarrow> pydict \<Rightarrow> collected" where
  "project_upload te ue raw filename z = (
     let es = map (\<lambda>e. set_default ''path'' (PStr ''(unnamed)'') (dict_of e))
       (take (nat (max (ue_max_files_per_zip ue) 200)) (list_items (dict_get z ''extracted'')))
     in \<lparr>co_kind = ''project'', co_files = container_file te raw filename z @ es,
         co_score = foldl (\<lambda>s e. max s (score_of e)) 0 es,
         co_iocs = foldl (\<lambda>m e. dict_update m (dict_of (dict_get e ''iocs''))) [] es,
         co_imports = concat (map (\<lambda>e. list_items (dict_get e ''imports_suspicious'')) es),
         co_sbom = concat (map manifest_entry es), co_truncated = py_truth (dict_get z ''truncated''),
         co_members = int_of (dict_get z ''total_members'')\<rparr>)"

definition zip_upload :: "'z total_env_scheme \<Rightarrow> upload_env \<Rightarrow> nat \<Rightarrow> string \<Rightarrow> string \<Rightarrow> collected run" where
  "zip_upload te ue n raw filename = (
     let max_files = nat (max 1 (min (ue_max_files_per_zip ue) (int MAX_ANALYZED_MEMBERS)))
     in bind_run (analyze_zip te (\<lambda>content nm allow. analyze_bytes te n content nm allow 1) raw max_files
          (ue_max_zip_mb ue * 1024 * 1024) True)
        (\<lambda>z. Some (Inr (if dict_get z ''kind'' = PStr ''office'' then office_upload te raw filename z
          else project_upload te ue raw filename z))))"

subsection \<open>A single file\<close>

definition file_upload :: "'z total_env_scheme \<Rightarrow> nat \<Rightarrow> string \<Rightarrow> string \<Rightarrow> collected run" where
  "file_upload te n raw filename = bind_run (analyze_bytes te n raw filename True 0) (\<lambda>d0.
     let d = set_default ''sha256'' (PStr (te_sha256 te raw)) (set_default ''size'' (PInt (int (length raw)))
               (set_default ''path'' (PStr filename) d0))
     in Some (Inr \<lparr>co_kind = ''file'', co_files = [d], co_score = score_of d, co_iocs = dict_of (dict_get d ''iocs''),
          co_imports = list_items (dict_get d ''imports_suspicious''),
          co_sbom = concat (map (\<lambda>e. manifest_entry (dict_of e)) (list_items (dict_get d ''extracted''))),
          co_truncated = py_truth (dict_get d ''truncated''), co_members = int_of (dict_get d ''total_members'')\<rparr>))"

definition blocked_file :: "string \<Rightarrow> pydict" where
  "blocked_file filename = [(''path'', PStr filename), (''kind'', PStr ''blocked''), (''format'', PStr ''unknown''), (''score'', PInt 0),
     (''note'', PStr (''Crack/keygen pattern '' @ utf8 8212 @ '' full code viewer disabled by policy. Verdict only.''))]"

definition crack_policy :: "string \<Rightarrow> collected \<Rightarrow> collected" where
  "crack_policy filename c = (if g_found CRACK_NAMES filename then c\<lparr>co_files := [blocked_file filename], co_score := 85\<rparr> else c)"

subsection \<open>Signatures and verdict\<close>

definition scan_dict :: "yara_scan \<Rightarrow> pydict" where
  "scan_dict s = [(''enabled'', PBool (sc_enabled s)), (''matches'', PList (map (\<lambda>(m, source). PDict [(''rule'', PStr (ym_rule m)),
     (''rule_name'', PStr source), (''strings'', PList (map PStr (ym_strings m)))]) (sc_matches s))),
     (''errors'', PList (sc_errors s)), (''skipped'', PBool (sc_skipped s))]"

definition add_yara_findings :: "pyval list \<Rightarrow> collected \<Rightarrow> collected" where
  "add_yara_findings fs c = c\<lparr>co_files := map (add_findings fs) (co_files c)\<rparr>"

definition yara_off :: pydict where
  "yara_off = [(''enabled'', PBool False), (''matches'', PList [])]"

definition yara_step :: "('c, 'z) yara_lib_scheme \<Rightarrow> (string \<times> string) list result \<Rightarrow> string \<Rightarrow> collected \<Rightarrow> pydict \<times> collected" where
  "yara_step yl rules raw c = (case rules of
     Inl x \<Rightarrow> (yara_off @ [(''error'', PStr (take 200 (raised x)))], c)
   | Inr [] \<Rightarrow> ([(''enabled'', PBool True), (''matches'', PList []), (''note'', PStr ''no active rule'')], c)
   | Inr rs \<Rightarrow> (case compile_rules yl rs of (compiled, cerrs) \<Rightarrow>
       if compiled = [] then (yara_off, c)
       else let s = scan_bytes yl raw compiled; errs = (if sc_errors s = [] then cerrs else sc_errors s);
                section = (if errs = [] then scan_dict s else assoc_put ''errors'' (PList (take 10 errs)) (scan_dict s))
         in if sc_matches s = [] then (section, c)
            else case score_impact s (co_score c) of (n, fs) \<Rightarrow> (section, add_yara_findings fs (c\<lparr>co_score := n\<rparr>))))"

definition verdict_of :: "int \<Rightarrow> string" where
  "verdict_of n = (if n < 20 then ''clean'' else if n < 60 then ''suspicious'' else ''malicious'')"

definition format_text :: "pydict \<Rightarrow> string" where
  "format_text f = (case dict_get f ''format'' of PStr s \<Rightarrow> s | _ \<Rightarrow> [])"

definition disasm_state :: "upload_env \<Rightarrow> pydict list \<Rightarrow> pydict" where
  "disasm_state ue files = (
     let ds = filter (\<lambda>d. case d of PDict _ \<Rightarrow> True | _ \<Rightarrow> False) (map (\<lambda>f. dict_get f ''disasm'') files);
         off = filter (\<lambda>d. \<not> py_truth (dict_get (dict_of d) ''enabled'')) ds
     in [(''enabled'', PBool (list_ex (\<lambda>d. py_truth (dict_get (dict_of d) ''enabled'')) ds)),
         (''reason'', (case off of [] \<Rightarrow> PNone | d # _ \<Rightarrow> dict_get (dict_of d) ''reason'')), (''engine'', PStr (ue_fingerprint ue))])"

definition enabled_if :: "bool \<Rightarrow> pyval" where
  "enabled_if b = PDict [(''enabled'', PBool b)]"

definition engines_of :: "upload_env \<Rightarrow> string \<Rightarrow> pydict \<Rightarrow> collected \<Rightarrow> pydict" where
  "engines_of ue fmt yara c = (let formats = map format_text (co_files c) in
     [(''static_lite'', PDict [(''score'', PInt (co_score c)), (''version'', PStr (ue_signature ue)), (''engine'', PStr ENGINE_VERSION)]),
      (''pe_parser'', enabled_if (List.member formats ''PE'')), (''elf_parser'', enabled_if (List.member formats ''ELF'')),
      (''macho_parser'', enabled_if (List.member formats ''Mach-O'')),
      (''office_parser'', enabled_if (list_ex (\<lambda>f. any_startswith [''OOXML'', ''OLE''] (upper f)) formats)),
      (''pdf_parser'', enabled_if (List.member formats ''PDF'')),
      (''archive_parser'', enabled_if (co_members c \<noteq> 0 \<or> list_ex (\<lambda>f. dict_get f ''kind'' = PStr ''archive'') (co_files c))),
      (''strings_scan'', enabled_if True),
      (''secret_scan'', PDict [(''enabled'', PBool True), (''patterns'', PInt (int (length SECRET_PATTERNS)))]),
      (''yara'', PDict yara), (''disasm'', PDict (disasm_state ue (co_files c))), (''iocs_found'', PDict (co_iocs c)),
      (''suspicious_imports'', PList (take 20 (co_imports c))), (''detected_format'', PStr fmt),
      (''members_analyzed'', if co_members c = 0 then PNone else PInt (co_members c)),
      (''note'', PStr ''Static sandbox complete: PE/ELF/Mach-O/Office/PDF + entropy + imports + secrets + IOC + YARA (SOC signatures) + entry-point disassembly.'')])"

definition report_of :: "'z total_env_scheme \<Rightarrow> upload_env \<Rightarrow> string \<Rightarrow> string \<Rightarrow> string \<Rightarrow> pydict \<Rightarrow> collected \<Rightarrow> total_report" where
  "report_of te ue raw filename fmt yara c = \<lparr>rp_sha256 = te_sha256 te raw, rp_filename = filename, rp_kind = co_kind c,
     rp_score = co_score c, rp_verdict = verdict_of (co_score c), rp_engines = engines_of ue fmt yara c,
     rp_files = take 500 (co_files c), rp_sbom = co_sbom c, rp_format = fmt, rp_truncated = co_truncated c\<rparr>"

text \<open>The row of the cache, unless other rules wrote it.\<close>

definition fresh_report :: "upload_env \<Rightarrow> cached_report option \<Rightarrow> cached_report option" where
  "fresh_report ue cached = (case cached of None \<Rightarrow> None
     | Some c \<Rightarrow> if cr_engine c = Some (ue_signature ue) then Some c else None)"

definition upload_analyze :: "'z total_env_scheme \<Rightarrow> upload_env \<Rightarrow> ('c, 'y) yara_lib_scheme \<Rightarrow> (string \<times> string) list result \<Rightarrow>
    cached_report option \<Rightarrow> nat \<Rightarrow> bool \<Rightarrow> string option \<Rightarrow> string \<Rightarrow> upload_answer run" where
  "upload_analyze te ue yl rules cached n accept file_name raw = (
     if \<not> accept then Some (Inr (Refused 400 ''Disclaimer must be accepted (accept_disclaimer=true)''))
     else let filename = or_str file_name ''upload.bin''; fmt = detect_file_format raw filename in
       case refusal ue raw fmt filename of Some r \<Rightarrow> Some (Inr r)
     | None \<Rightarrow>
        (case fresh_report ue cached of Some c \<Rightarrow> Some (Inr (Cached (cr_score c) (cr_verdict c)))
         | None \<Rightarrow> bind_run (if fmt = ''zip'' then zip_upload te ue n raw filename else file_upload te n raw filename)
           (\<lambda>c0. case yara_step yl rules raw (crack_policy filename c0) of (yara, c) \<Rightarrow>
             Some (Inr (Report (report_of te ue raw filename fmt yara c))))))"

end
