(* ===== verification/Total_Scores.thy ===== *)
theory Total_Scores
  imports Total_Upload
begin

section \<open>Aegis Total: facts about reports\<close>

text \<open>
  What the steps of the parsers leave alone (\<open>report_simps\<close>), the scale of scores as an invariant of every step
  (\<open>on_scale\<close>, with the rules \<open>scale_intros\<close>), and the outcome of a \<open>try\<close> block.
\<close>

named_theorems report_simps
named_theorems scale_intros

subsection \<open>What a step leaves alone\<close>

lemma assoc_put_apart [report_simps]: "k \<noteq> j \<Longrightarrow> assoc k (assoc_put j v d) = assoc k d"
  by simp

lemma assoc_add_findings [report_simps]: "k \<noteq> ''findings'' \<Longrightarrow> assoc k (add_findings fs d) = assoc k d"
  by (simp add: add_findings_def)

lemma assoc_add_score [report_simps]: "k \<noteq> ''score_contribution'' \<Longrightarrow> assoc k (add_score n d) = assoc k d"
  by (simp add: add_score_def)

lemma assoc_add_capped [report_simps]: "k \<noteq> ''score_contribution'' \<Longrightarrow> assoc k (add_capped n d) = assoc k d"
  by (simp add: add_capped_def)

lemma assoc_set_iocs [report_simps]: "k \<noteq> ''iocs'' \<Longrightarrow> assoc k (set_iocs te t d) = assoc k d"
  by (simp add: set_iocs_def)

lemma assoc_fold_matches:
  "k \<notin> {''findings'', ''score_contribution''} \<Longrightarrow>
     assoc k (fold (\<lambda>m d. add_capped 25 (add_findings [string_match ty m] d)) ms d) = assoc k d"
  by (induction ms arbitrary: d) (simp_all add: report_simps)

lemma assoc_flag_strings [report_simps]:
  "k \<notin> {''findings'', ''score_contribution''} \<Longrightarrow> assoc k (flag_strings ty t d) = assoc k d"
  by (simp add: flag_strings_def assoc_fold_matches)

lemma assoc_flag_text [report_simps]:
  "k \<notin> {''findings'', ''score_contribution''} \<Longrightarrow> assoc k (flag_text b n f d) = assoc k d"
  by (simp add: flag_text_def report_simps)

lemma assoc_flag_if [report_simps]:
  "k \<notin> {''findings'', ''score_contribution''} \<Longrightarrow> assoc k (flag_if b n f d) = assoc k d"
  by (simp add: flag_if_def report_simps)

lemma assoc_packed_if [report_simps]:
  "k \<notin> {''findings'', ''score_contribution'', ''entropy_alert''} \<Longrightarrow> assoc k (packed_if l e d) = assoc k d"
  by (simp add: packed_if_def report_simps)

lemma dict_get_assoc: "assoc k d = assoc k d' \<Longrightarrow> dict_get d k = dict_get d' k"
  by (simp add: dict_get_def)

lemma assoc_pop: "assoc k (dict_pop j d) = (if k = j then None else assoc k d)"
  by (induction d) (auto simp: dict_pop_def)

lemma assoc_update: "assoc k (dict_update d kvs) = (case assoc k (rev kvs) of None \<Rightarrow> assoc k d | Some v \<Rightarrow> Some v)"
proof (induction kvs arbitrary: d rule: rev_induct)
  case (snoc kv kvs)
  then show ?case by (cases kv) (auto simp: dict_update_def)
qed (simp add: dict_update_def)

subsection \<open>The scale\<close>

definition on_scale :: "pydict \<Rightarrow> bool" where
  "on_scale d \<longleftrightarrow> (\<exists>s. assoc ''score_contribution'' d = Some (PInt s) \<and> 0 \<le> s \<and> s \<le> 100)"

definition unscored :: "pydict \<Rightarrow> bool" where
  "unscored d \<longleftrightarrow> assoc ''score_contribution'' d = Some (PInt 0)"

lemma on_scale_cong: "assoc ''score_contribution'' d = assoc ''score_contribution'' d' \<Longrightarrow> on_scale d \<longleftrightarrow> on_scale d'"
  by (simp add: on_scale_def)

lemma unscored_on_scale: "unscored d \<Longrightarrow> on_scale d"
  by (auto simp: on_scale_def unscored_def)

lemma on_scale_put [scale_intros]: "on_scale d \<Longrightarrow> k \<noteq> ''score_contribution'' \<Longrightarrow> on_scale (assoc_put k v d)"
  by (simp add: on_scale_def)

lemma on_scale_findings [scale_intros]: "on_scale d \<Longrightarrow> on_scale (add_findings fs d)"
  by (simp add: on_scale_def report_simps)

lemma on_scale_capped [scale_intros]: "on_scale d \<Longrightarrow> 0 \<le> n \<Longrightarrow> on_scale (add_capped n d)"
  by (auto simp: on_scale_def add_capped_def dict_get_def)

lemma on_scale_iocs [scale_intros]: "on_scale d \<Longrightarrow> on_scale (set_iocs te t d)"
  by (simp add: on_scale_def report_simps)

lemma on_scale_add: "unscored d \<Longrightarrow> 0 \<le> n \<Longrightarrow> n \<le> 100 \<Longrightarrow> on_scale (add_score n d)"
  by (auto simp: on_scale_def unscored_def add_score_def dict_get_def)

lemma on_scale_fold_matches:
  "on_scale d \<Longrightarrow> on_scale (fold (\<lambda>m d. add_capped 25 (add_findings [string_match ty m] d)) ms d)"
  by (induction ms arbitrary: d) (simp_all add: scale_intros)

lemma on_scale_flag_strings [scale_intros]: "on_scale d \<Longrightarrow> on_scale (flag_strings ty t d)"
  by (simp add: flag_strings_def on_scale_fold_matches)

lemma on_scale_flag_text [scale_intros]: "on_scale d \<Longrightarrow> 0 \<le> n \<Longrightarrow> on_scale (flag_text b n f d)"
  by (auto simp: flag_text_def intro!: scale_intros)

lemma unscored_put [scale_intros]: "unscored d \<Longrightarrow> k \<noteq> ''score_contribution'' \<Longrightarrow> unscored (assoc_put k v d)"
  by (simp add: unscored_def)

lemma unscored_findings [scale_intros]: "unscored d \<Longrightarrow> unscored (add_findings fs d)"
  by (simp add: unscored_def report_simps)

text \<open>Where additions are not capped the score is only known not to be negative, until the cut at the end.\<close>

definition tallied :: "pydict \<Rightarrow> bool" where
  "tallied d \<longleftrightarrow> (\<exists>s. assoc ''score_contribution'' d = Some (PInt s) \<and> 0 \<le> s)"

named_theorems count_intros

lemma tallied_findings [count_intros]: "tallied d \<Longrightarrow> tallied (add_findings fs d)"
  by (simp add: tallied_def report_simps)

lemma tallied_put [count_intros]: "tallied d \<Longrightarrow> k \<noteq> ''score_contribution'' \<Longrightarrow> tallied (assoc_put k v d)"
  by (simp add: tallied_def)

lemma tallied_iocs [count_intros]: "tallied d \<Longrightarrow> tallied (set_iocs te t d)"
  by (simp add: tallied_def report_simps)

lemma tallied_flag_if [count_intros]: "tallied d \<Longrightarrow> 0 \<le> n \<Longrightarrow> tallied (flag_if c n f d)"
  by (auto simp: tallied_def flag_if_def add_score_def report_simps dict_get_def)

lemma tallied_capped [count_intros]: "tallied d \<Longrightarrow> 0 \<le> n \<Longrightarrow> tallied (add_capped n d)"
  by (auto simp: tallied_def add_capped_def dict_get_def)

lemma tallied_scale: "tallied d \<Longrightarrow> 0 \<le> n \<Longrightarrow> on_scale (add_capped n d)"
  by (auto simp: tallied_def on_scale_def add_capped_def dict_get_def)

subsection \<open>\<open>try\<close> blocks\<close>

lemma try_steps_invariant:
  assumes "P d" "\<And>v d. P d \<Longrightarrow> P (assoc_put ''parse_error'' v d)"
    "\<And>f d d'. f \<in> set fs \<Longrightarrow> P d \<Longrightarrow> f d = Inr d' \<Longrightarrow> P d'"
  shows "P (try_steps fs d)"
  using assms(1,3)
proof (induction fs arbitrary: d)
  case (Cons f fs)
  show ?case
  proof (cases "f d")
    case (Inr d')
    have "P d'" by (rule Cons.prems(2) [of f d d']) (simp_all add: Cons.prems(1) Inr)
    moreover have "P d'" if "g \<in> set fs" "P d" "g d = Inr d'" for g d d'
      using Cons.prems(2) [of g d d'] that by simp
    ultimately show ?thesis using Cons.IH [of d'] Inr by simp
  qed (simp add: assms(2) Cons.prems(1))
qed simp

lemma assoc_finish:
  "assoc ''score_contribution'' d = Some (PInt s) \<Longrightarrow> assoc ''score'' (finish_report extra d) = Some (PInt s)"
  by (simp add: finish_report_def assoc_update dict_get_or_def)

lemma finish_on_scale:
  assumes "on_scale d"
  shows "\<exists>s. assoc ''score'' (finish_report extra d) = Some (PInt s) \<and> 0 \<le> s \<and> s \<le> 100"
  using assms assoc_finish unfolding on_scale_def by blast

section \<open>Aegis Total: scores\<close>

text \<open>
  Every parser keeps its score within 0 and 100, although some additions are not capped, and so does every report of the
  router, whatever the archives contain.
\<close>

subsection \<open>The parsers\<close>

lemma imports_weight: "0 \<le> sum_list (map (\<lambda>f. import_weight (fst f)) fs)"
  by (rule sum_list_nonneg) (auto simp: import_weight_def IMPORT_WEIGHT_DUAL_USE_def IMPORT_WEIGHT_SPECIFIC_def)

lemma pe_steps_scale [scale_intros]:
  "on_scale d \<Longrightarrow> on_scale (pe_overlay raw start d)"
  "on_scale d \<Longrightarrow> on_scale (pe_pdb raw d)"
  "on_scale d \<Longrightarrow> on_scale (pe_imports strings d)"
  "on_scale d \<Longrightarrow> on_scale (pe_dotnet d)"
  "on_scale d \<Longrightarrow> on_scale (pe_network d)"
  "on_scale d \<Longrightarrow> on_scale (pe_powershell raw d)"
proof -
  assume d: "on_scale d"
  show "on_scale (pe_overlay raw start d)"
    using d by (auto simp: pe_overlay_def Let_def intro!: scale_intros)
  show "on_scale (pe_pdb raw d)"
    using d by (auto simp: pe_pdb_def intro!: scale_intros split: option.split)
  have "0 \<le> min (sum_list (map (\<lambda>f. import_weight (fst f)) fs)) IMPORT_SCORE_CAP" for fs
    using imports_weight [of fs] by (simp add: IMPORT_SCORE_CAP_def)
  from this [of "imports_found strings"] show "on_scale (pe_imports strings d)"
    using d by (auto simp: pe_imports_def Let_def intro!: scale_intros)
  show "on_scale (pe_dotnet d)" "on_scale (pe_network d)"
    using d by (simp_all add: pe_dotnet_def pe_network_def scale_intros)
  show "on_scale (pe_powershell raw d)"
    using d by (auto simp: pe_powershell_def Let_def intro!: scale_intros)
qed

lemma pe_packer_scale: "unscored d \<Longrightarrow> on_scale (pe_packer ss d)"
  by (auto simp: pe_packer_def unscored_on_scale intro!: on_scale_add scale_intros split: list.split)

lemma pe_body_scale: "unscored d \<Longrightarrow> on_scale (pe_body te raw p d)"
  by (cases p) (simp add: pe_body_def Let_def scale_intros pe_packer_scale)

text \<open>The steps before the body leave the score at 0.\<close>

lemma pe_header_steps:
  "pe_coff raw c d = Inr d' \<Longrightarrow> unscored d \<Longrightarrow> unscored d'"
  "pe_magic raw p d = Inr d' \<Longrightarrow> unscored d \<Longrightarrow> unscored d'"
  "pe_entry raw p d = Inr d' \<Longrightarrow> unscored d \<Longrightarrow> unscored d'"
  "pe_directories raw p d = Inr d' \<Longrightarrow> unscored d \<Longrightarrow> unscored d'"
  by (auto simp: pe_coff_def pe_magic_def pe_entry_def pe_directories_def Let_def scale_intros split: if_splits)

lemma analyze_pe_scale: "on_scale (analyze_pe te raw)"
proof (cases "has_pe_header raw")
  case True
  have base: "unscored pe_base" by (simp add: unscored_def pe_base_def)
  have err: "P (assoc_put ''parse_error'' v d)" if "P = on_scale \<or> P = unscored" "P d" for P v d
    using that by (auto intro!: scale_intros)
  have body: "on_scale d'" if "pe_rest te raw c d = Inr d'" "unscored d" for c d d'
    using that by (auto simp: pe_rest_def pe_body_scale)
  have step: "on_scale (try_steps (f # fs) d)"
    if "unscored d" "\<And>d'. f d = Inr d' \<Longrightarrow> unscored d' \<Longrightarrow> on_scale (try_steps fs d')"
      "\<And>d'. f d = Inr d' \<Longrightarrow> unscored d'" for f fs d
    using that by (auto simp: unscored_on_scale scale_intros split: sum.split)
  have last: "on_scale (try_steps [pe_rest te raw c] d)" if "unscored d" for c d
    using that by (auto simp: unscored_on_scale scale_intros body split: sum.split)
  show ?thesis
    using True base unfolding analyze_pe_def Let_def
    by (simp only: if_False not_True_eq_False)
      (intro step last; (assumption | erule pe_header_steps))
next
  case False
  then show ?thesis by (simp add: analyze_pe_def on_scale_def pe_base_def)
qed

lemma plain_base_unscored: "unscored (plain_base fmt)"
  by (simp add: unscored_def plain_base_def)

lemma packed_if_scale: "unscored d \<Longrightarrow> on_scale (packed_if l e d)"
  by (auto simp: packed_if_def unscored_on_scale intro!: on_scale_add scale_intros)

lemma analyze_elf_scale: "on_scale (analyze_elf te raw)"
proof -
  have "on_scale (elf_body te raw d)" if "unscored d" for d
    using that by (simp add: elf_body_def Let_def scale_intros packed_if_scale)
  then show ?thesis
    by (auto simp: analyze_elf_def unscored_on_scale plain_base_unscored scale_intros split: sum.split)
qed

lemma macho_header_scale: "macho_header raw d = Inr d' \<Longrightarrow> on_scale d \<Longrightarrow> on_scale d'"
  by (auto simp: macho_header_def Let_def scale_intros split: if_splits prod.splits)

lemma analyze_macho_scale: "on_scale (analyze_macho te raw)"
proof -
  have "on_scale (macho_body te raw d)" if "on_scale d" for d
    using that by (simp add: macho_body_def Let_def scale_intros)
  then have "on_scale (try_steps [macho_header raw, \<lambda>d. Inr (macho_body te raw d)] (plain_base ''Mach-O''))"
    by (intro try_steps_invariant [where P = on_scale])
      (auto simp: unscored_on_scale plain_base_unscored scale_intros macho_header_scale)
  then show ?thesis
    by (simp add: analyze_macho_def unscored_on_scale plain_base_unscored)
qed

text \<open>Documents add without cap and cut at the end.\<close>

lemma plain_tallied: "tallied (plain_base fmt @ extra)"
  by (simp add: tallied_def plain_base_def)

lemma analyze_ole_scale: "on_scale (analyze_ole te raw)"
  unfolding analyze_ole_def ole_base_def Let_def
  by (intro on_scale_put on_scale_iocs tallied_scale count_intros plain_tallied) simp_all

lemma ooxml_tallied [count_intros]:
  "tallied d \<Longrightarrow> tallied (ooxml_macros names d)"
  "tallied d \<Longrightarrow> tallied (ooxml_embedded names d)"
  "tallied d \<Longrightarrow> tallied (ooxml_pe infos names d)"
  by (auto simp: ooxml_macros_def ooxml_embedded_def ooxml_pe_def Let_def intro!: count_intros split: option.split)

lemma analyze_ooxml_scale: "on_scale (analyze_ooxml te infos)"
  unfolding analyze_ooxml_def Let_def
  by (intro on_scale_iocs tallied_scale count_intros plain_tallied) simp_all

lemma analyze_rtf_scale: "on_scale (analyze_rtf te raw)"
proof -
  have "unscored [(''format'', PStr ''RTF''), (''findings'', PList []), (''score_contribution'', PInt 0), (''iocs'', i)]" for i
    by (simp add: unscored_def)
  then show ?thesis
    unfolding analyze_rtf_def Let_def flag_if_def
    by (intro on_scale_flag_text) (simp_all add: unscored_on_scale on_scale_add scale_intros)
qed

lemma pdf_steps_tallied [count_intros]:
  "tallied d \<Longrightarrow> tallied (pdf_links te t d)"
  "tallied d \<Longrightarrow> tallied (pdf_appended raw d)"
  "tallied d \<Longrightarrow> tallied (pdf_check low c d)"
  by (auto simp: pdf_links_def pdf_appended_def pdf_check_def pdf_weight_def Let_def intro!: count_intros
      split: option.split prod.split)

lemma pdf_checks_tallied [count_intros]: "tallied d \<Longrightarrow> tallied (fold (pdf_check low) cs d)"
  by (induction cs arbitrary: d) (simp_all add: count_intros)

lemma analyze_pdf_scale: "on_scale (analyze_pdf te raw)"
  unfolding analyze_pdf_def Let_def
  by (intro on_scale_put tallied_scale count_intros plain_tallied [of _ "[]", simplified]) simp_all

subsection \<open>The router\<close>

definition scored :: "pydict \<Rightarrow> bool" where
  "scored d \<longleftrightarrow> (\<exists>s. assoc ''score'' d = Some (PInt s) \<and> 0 \<le> s \<and> s \<le> 100)"

lemma scored_put [simp]: "k \<noteq> ''score'' \<Longrightarrow> scored (assoc_put k v d) \<longleftrightarrow> scored d"
  by (simp add: scored_def)

lemma scored_findings [simp]: "scored (add_findings fs d) \<longleftrightarrow> scored d"
  by (simp add: scored_def report_simps)

lemma scored_update: "scored d \<Longrightarrow> ''score'' \<notin> set (map fst kvs) \<Longrightarrow> scored (dict_update d kvs)"
proof -
  assume d: "scored d" and k: "''score'' \<notin> set (map fst kvs)"
  have "assoc ''score'' (rev kvs) = None"
    using k by (simp add: assoc_map_of map_of_eq_None_iff)
  then show "scored (dict_update d kvs)" using d by (simp add: scored_def assoc_update)
qed

lemma scored_of: "scored d \<Longrightarrow> 0 \<le> score_of d \<and> score_of d \<le> 100"
  by (auto simp: scored_def score_of_def dict_get_def)

lemma finish_scored: "on_scale d \<Longrightarrow> scored (finish_report extra d)"
  using finish_on_scale unfolding scored_def .

lemma binary_scored: "scored (analyze_binary te raw fmt)"
  by (simp add: scored_def analyze_binary_def Let_def)

lemma archive_other_scored: "scored (analyze_archive_other te raw fmt)"
  by (simp add: scored_def analyze_archive_other_def Let_def)

lemma malformed_scored: "scored (malformed_container te raw fmt d)"
  using scored_of [OF binary_scored, of te raw "fmt @ '' (malformed)''"]
  by (simp add: malformed_container_def Let_def) (simp add: scored_def score_of_def)

lemma text_file_scored: "scored (text_file_report te raw)"
  by (simp add: scored_def text_file_report_def score_text_def Let_def)

lemma executable_scored: "on_scale d \<Longrightarrow> scored (executable_report te raw fmt d)"
  by (simp add: executable_report_def malformed_scored finish_scored)

lemma pe_scored: "pe_report te raw = Inr d \<Longrightarrow> scored d"
  by (auto simp: pe_report_def Let_def malformed_scored executable_scored analyze_pe_scale intro!: scored_update split: if_splits)

lemma scored_if: "scored x \<Longrightarrow> scored y \<Longrightarrow> scored (if b then x else y)"
  by simp

lemmas parser_scales = analyze_elf_scale analyze_macho_scale analyze_ole_scale analyze_pdf_scale analyze_rtf_scale

lemma plain_scored: "scored (plain_report te raw fmt)"
  unfolding plain_report_def document_report_def
  by (intro scored_if executable_scored finish_scored archive_other_scored binary_scored text_file_scored scored_update parser_scales)
    (simp_all add: binary_scored)

lemma zip_report_score: "assoc ''score'' (zip_report infos mf r) = Some (PInt (zip_score infos))"
  by (cases r) (simp add: zip_report_def Let_def)

lemma zip_score_range: "0 \<le> zip_score infos" "zip_score infos \<le> 30"
  by (auto simp: zip_score_def)

lemma zip_scored:
  assumes "analyze_zip te rec raw mf mb nested = Some (Inr d)"
  shows "scored d"
proof -
  consider "d = invalid_zip" | e infos where "d = finish_report e (analyze_ooxml te infos)" | infos r where "d = zip_report infos mf r"
    using assms by (auto simp: analyze_zip_def bind_run_split split: option.splits if_splits)
  then show ?thesis
  proof cases
    case 1
    then show ?thesis by (simp add: scored_def invalid_zip_def)
  next
    case 3
    then show ?thesis using zip_score_range [of infos] by (simp add: scored_def zip_report_score)
  qed (simp add: finish_scored analyze_ooxml_scale)
qed

lemma tar_like_scored:
  assumes "analyze_tar_like te rec raw fmt name = Some (Inr (Some d))"
    and "\<And>c nm a e. rec c nm a = Some (Inr e) \<Longrightarrow> scored e"
  shows "scored d"
proof -
  have stream: "scored (wrap_stream fmt n e)" if "scored e" for n e
    using that by (simp add: wrap_stream_def Let_def insert_finding_def)
  have "scored (tar_report fmt n r)" "scored (tar_error fmt x)" for n r x
    by (cases r) (simp_all add: tar_report_def tar_error_def scored_def)
  then show ?thesis
    using assms stream by (auto simp: analyze_tar_like_def tar_members_def single_stream_def bind_run_def Let_def
        split: if_splits sum.splits option.splits)
qed

lemma stream_scored: "(\<And>d. r = Some d \<Longrightarrow> scored d) \<Longrightarrow> scored (stream_report te raw fmt r)"
  by (auto simp: stream_report_def set_default_def binary_scored Let_def split: option.split)

end
