(* ===== verification/Total_Properties.thy ===== *)
theory Total_Properties
  imports Total_Scores
begin

section \<open>Aegis Total: properties\<close>

text \<open>
  What an upload can and cannot tell: the scale of scores, headers that do not parse, headers that parse half,
  archives whose members decide nothing, and a recursion that does not end.
\<close>

subsection \<open>An environment for the witnesses\<close>

definition quiet_env :: total_env where
  "quiet_env = \<lparr>te_log2 = (\<lambda>_. 0), te_set_order = remdups, te_sha256 = id, te_unzip = (\<lambda>_. None),
     te_expand = (\<lambda>_ _. Inl TypeError), te_is_tar = (\<lambda>_. False), te_untar = (\<lambda>_. Inr []), te_overflow = None,
     te_disasm = Inl ''capstone not installed (ImportError)''\<rparr>"

text \<open>
  C22: Whatever the file, its name and the archives inside it, when the analysis returns a report its score is an integer
  between 0 and 100, although several parsers add without a cap.
\<close>

theorem analysis_score_in_scale:
  assumes "\<And>d. te_overflow te \<noteq> Some (Inr d)"
    and "analyze_bytes te n raw name nested depth = Some (Inr d)"
  shows "\<exists>s. assoc ''score'' d = Some (PInt s) \<and> 0 \<le> s \<and> s \<le> 100"
proof -
  have "scored d"
    using assms(2)
  proof (induction n arbitrary: raw name nested depth d)
    case 0
    then show ?case by (simp add: analyze_bytes.simps assms(1))
  next
    case (Suc n)
    note IH = Suc.IH
    have tar: "scored (stream_report te raw fmt r)"
      if "analyze_tar_like te (\<lambda>content nm allow. analyze_bytes te n content nm allow 1) raw fmt name = Some (Inr r)" for fmt r
      using that IH by (intro stream_scored) (auto elim!: tar_like_scored)
    show ?case
      using Suc.prems tar
      by (auto simp: analyze_bytes.simps Let_def bind_run_split plain_scored binary_scored pe_scored zip_scored split: if_splits)
  qed
  then show ?thesis by (simp add: scored_def)
qed


lemma analysis_score_in_scale_witness:
  "\<exists>d s. analyze_bytes quiet_env 1 ''MZ'' ''a.exe'' True 0 = Some (Inr d) \<and> assoc ''score'' d = Some (PInt s) \<and> 0 \<le> s \<and> s \<le> 100"
proof -
  obtain d where d: "analyze_bytes quiet_env 1 ''MZ'' ''a.exe'' True 0 = Some (Inr d)"
    by (simp add: analyze_bytes.simps detect_file_format_def magic_format_def pe_report_def analyze_pe_def has_pe_header_def parse_failed_def pe_base_def
        dict_get_def)
  have "te_overflow quiet_env \<noteq> Some (Inr d)" for d by (simp add: quiet_env_def)
  from analysis_score_in_scale [of quiet_env 1 "''MZ''" "''a.exe''" True 0, OF this d] d show ?thesis by blast
qed

subsection \<open>Headers that do not parse\<close>

lemma verdict_clean: "verdict_of n = ''clean'' \<longleftrightarrow> n < 20"
  by (simp add: verdict_of_def)

text \<open>
  A file with the magic of an executable whose header does not parse is analyzed like an unknown binary and marked: its score
  is at least 25 and its verdict never clean.
\<close>

theorem unparsed_header_is_not_clean:
  assumes "detect_file_format raw name = ''pe'' \<and> \<not> has_pe_header raw \<or> detect_file_format raw name = ''elf'' \<and> length raw < 52 \<or>
      detect_file_format raw name = ''macho'' \<and> length raw < 32"
  shows "\<exists>d. analyze_bytes te (Suc n) raw name nested depth = Some (Inr d) \<and> 25 \<le> score_of d \<and>
     verdict_of (score_of d) \<noteq> ''clean''"
proof -
  have low: "10 \<le> score_of (analyze_binary te raw fmt)" for fmt
    by (simp add: score_of_def analyze_binary_def dict_get_def Let_def)
  then have ge: "25 \<le> score_of (malformed_container te raw fmt d)" for fmt d
    using low [of "fmt @ '' (malformed)''"] by (simp add: malformed_container_def score_of_def dict_get_def Let_def)
  have "verdict_of (score_of (malformed_container te raw fmt d)) \<noteq> ''clean''" for fmt d
    using ge [of fmt d] by (simp add: verdict_clean)
  moreover have "parse_failed pe_base" "parse_failed (plain_base fmt)" for fmt
    by (simp_all add: parse_failed_def pe_base_def plain_base_def dict_get_def)
  then have "\<exists>fmt d. analyze_bytes te (Suc n) raw name nested depth = Some (Inr (malformed_container te raw fmt d))"
    using assms by (auto simp: analyze_bytes.simps pe_report_def analyze_pe_def plain_report_def executable_report_def analyze_elf_def
        analyze_macho_def) blast+
  ultimately show ?thesis using ge by auto
qed

lemma unparsed_header_is_not_clean_witness:
  "\<exists>d. analyze_bytes quiet_env 1 ''MZ'' ''a.exe'' True 0 = Some (Inr d) \<and> 25 \<le> score_of d \<and> verdict_of (score_of d) \<noteq> ''clean''"
proof -
  have "detect_file_format ''MZ'' ''a.exe'' = ''pe''" "\<not> has_pe_header ''MZ''"
    by (simp_all add: detect_file_format_def magic_format_def has_pe_header_def)
  then show ?thesis using unparsed_header_is_not_clean [of "''MZ''" "''a.exe''" quiet_env 0 True 0] by simp
qed

subsection \<open>Headers that parse half\<close>

text \<open>The optional header of a PE file starts here.\<close>

definition optional_header :: "string \<Rightarrow> int" where
  "optional_header raw = pe_header raw + 24"

lemma pe_detected: "startswith raw ''MZ'' \<Longrightarrow> detect_file_format raw name = ''pe''"
  by (auto simp: detect_file_format_def magic_format_def startswith_iff)

lemma assoc_pe_steps [report_simps]:
  "assoc ''arch'' (pe_packer ss d) = assoc ''arch'' d"
  "assoc ''arch'' (pe_overlay raw start d) = assoc ''arch'' d"
  "assoc ''arch'' (pe_pdb raw d) = assoc ''arch'' d"
  "assoc ''arch'' (pe_imports strings d) = assoc ''arch'' d"
  "assoc ''arch'' (pe_dotnet d) = assoc ''arch'' d"
  "assoc ''arch'' (pe_network d) = assoc ''arch'' d"
  "assoc ''arch'' (pe_powershell raw d) = assoc ''arch'' d"
  by (simp_all add: pe_packer_def pe_overlay_def pe_pdb_def pe_imports_def pe_dotnet_def pe_network_def pe_powershell_def
      report_simps Let_def split: list.split option.split)

definition has_arch :: "pydict \<Rightarrow> bool" where
  "has_arch d \<longleftrightarrow> (\<exists>m. assoc ''arch'' d = Some (PStr m) \<and> m \<noteq> [])"

lemma arch_not_failed: "has_arch d \<Longrightarrow> \<not> parse_failed d"
  by (auto simp: has_arch_def parse_failed_def dict_get_def)

lemma pe_body_arch: "assoc ''arch'' (pe_body te raw p d) = assoc ''arch'' d"
  by (cases p) (simp add: pe_body_def report_simps Let_def)

lemma arch_steps:
  "pe_magic raw p d = Inr d' \<Longrightarrow> has_arch d \<Longrightarrow> has_arch d'"
  "pe_entry raw p d = Inr d' \<Longrightarrow> has_arch d \<Longrightarrow> has_arch d'"
  "pe_directories raw p d = Inr d' \<Longrightarrow> has_arch d \<Longrightarrow> has_arch d'"
  "pe_rest te raw c d = Inr d' \<Longrightarrow> has_arch d \<Longrightarrow> has_arch d'"
  by (auto simp: pe_magic_def pe_entry_def pe_directories_def pe_rest_def pe_body_arch has_arch_def report_simps Let_def
      split: if_splits prod.splits)

lemma pe_coff_ok:
  assumes "has_pe_header raw"
  shows "\<exists>d'. pe_coff raw (pe_header raw + 4) d = Inr d' \<and> has_arch d' \<and>
    assoc ''findings'' d' = assoc ''findings'' d \<and> assoc ''score_contribution'' d' = assoc ''score_contribution'' d"
proof -
  have "machine_name m \<noteq> []" for m by (simp add: machine_name_def)
  then show ?thesis using assms by (simp add: pe_coff_def unpack_le_def has_pe_header_def has_arch_def)
qed

lemma analyze_pe_arch: "has_pe_header raw \<Longrightarrow> has_arch (analyze_pe te raw)"
proof -
  assume h: "has_pe_header raw"
  obtain d where d: "pe_coff raw (pe_header raw + 4) pe_base = Inr d" "has_arch d" using pe_coff_ok [OF h] by blast
  have "has_arch (try_steps [pe_magic raw p, pe_entry raw p, pe_directories raw p, pe_rest te raw c] d)" for p c
    by (rule try_steps_invariant [where P = has_arch])
      (auto simp: d(2) intro: arch_steps, simp_all add: has_arch_def)
  then show ?thesis using h d by (simp add: analyze_pe_def Let_def)
qed

text \<open>
  With one byte of the optional header the parser stops after it has written the architecture: nothing after that
  runs, yet the header does not count as unparsed.
\<close>

lemma one_byte_report:
  assumes "has_pe_header raw" "int (length raw) = optional_header raw + 1"
  shows "\<exists>d. analyze_pe te raw = d \<and> has_arch d \<and> assoc ''findings'' d = Some (PList []) \<and> assoc ''score_contribution'' d = Some (PInt 0)"
proof -
  obtain d where d: "pe_coff raw (pe_header raw + 4) pe_base = Inr d" "has_arch d" "assoc ''findings'' d = assoc ''findings'' pe_base"
    "assoc ''score_contribution'' d = assoc ''score_contribution'' pe_base" using pe_coff_ok [OF assms(1)] by blast
  have m: "pe_magic raw (pe_header raw + 24) d = Inl (struct_error 2 (pe_header raw + 24) raw)"
    using assms(2) by (simp add: pe_magic_def unpack_le_def optional_header_def)
  have "analyze_pe te raw = assoc_put ''parse_error'' (PStr (exn_text (struct_error 2 (pe_header raw + 24) raw))) d"
    using assms(1) d(1) m by (simp add: analyze_pe_def Let_def add.commute [of 4] algebra_simps)
  then show ?thesis using d by (simp add: has_arch_def pe_base_def)
qed

lemma half_header_disasm: "int (length raw) < optional_header raw + 2 \<Longrightarrow> parse_headers raw = Inr None"
  by (simp add: parse_headers_def Let_def optional_header_def pe_header_def)

text \<open>
  A PE file that ends one byte into its optional header is clean whatever stands before: score 0, no finding, no
  error.  The header may stand at the end of the file, so the whole body is never looked at.
\<close>

theorem one_byte_of_optional_header_is_clean:
  assumes "startswith raw ''MZ''" "has_pe_header raw" "int (length raw) = optional_header raw + 1"
  shows "\<exists>d. analyze_bytes te (Suc n) raw name nested depth = Some (Inr d) \<and> score_of d = 0 \<and> findings_of d = []"
proof -
  obtain d where d: "analyze_pe te raw = d" "has_arch d" "assoc ''findings'' d = Some (PList [])"
    "assoc ''score_contribution'' d = Some (PInt 0)" using one_byte_report [OF assms(2,3)] by blast
  define a where "a = disabled ''not a parsable PE image'' [] []"
  define r where "r = assoc_put ''disasm'' (PDict a) (dict_update (executable_report te raw ''PE'' d)
    [(''note'', PStr ''PE: sezioni/entropia, import, .NET, firma, IOC.'')])"
  have r: "pe_report te raw = Inr r"
    using d(1) arch_not_failed [OF d(2)] assms(3)
    by (simp add: pe_report_def disassemble_pe_def half_header_disasm r_def a_def)
  have "assoc ''score'' r = Some (PInt 0)" "assoc ''findings'' r = Some (PList [])"
    using d arch_not_failed [OF d(2)]
    by (simp_all add: r_def executable_report_def finish_report_def assoc_update assoc_pop dict_get_or_def)
  then have "score_of r = 0" "findings_of r = []" by (simp_all add: score_of_def findings_of_def dict_get_def)
  then show ?thesis using pe_detected [OF assms(1)] r by (simp add: analyze_bytes.simps)
qed

text \<open>A stub with the headers and \<open>k\<close> bytes of the optional header.\<close>

definition pe_stub :: "nat \<Rightarrow> string" where
  "pe_stub k = ''MZ'' @ replicate 58 CHR 0x00 @ [CHR 0x40, CHR 0x00, CHR 0x00, CHR 0x00] @
     [CHR ''P'', CHR ''E'', CHR 0x00, CHR 0x00] @ replicate (20 + k) CHR 0x00"

lemma one_byte_of_optional_header_is_clean_witness:
  "\<exists>d. analyze_bytes quiet_env 1 (pe_stub 1) ''a.exe'' True 0 = Some (Inr d) \<and> score_of d = 0 \<and> findings_of d = []"
proof -
  have "startswith (pe_stub 1) ''MZ''" "has_pe_header (pe_stub 1)" "int (length (pe_stub 1)) = optional_header (pe_stub 1) + 1"
    by code_simp+
  then show ?thesis using one_byte_of_optional_header_is_clean [of "pe_stub 1" quiet_env 0 "''a.exe''" True 0] by simp
qed

subsection \<open>Headers whose disassembly raises\<close>

definition truncated_pe :: "string \<Rightarrow> bool" where
  "truncated_pe raw \<longleftrightarrow> startswith raw ''MZ'' \<and> has_pe_header raw \<and> optional_header raw + 2 \<le> int (length raw) \<and>
     int (length raw) < optional_header raw + 32"

lemma truncated_headers_raise: "truncated_pe raw \<Longrightarrow> \<exists>x. parse_headers raw = Inl x"
  by (auto simp: truncated_pe_def optional_header_def has_pe_header_def parse_headers_def unpack_le_def Let_def startswith_iff
      pe_header_def [symmetric])

lemma truncated_raises: "truncated_pe raw \<Longrightarrow> \<exists>x. analyze_bytes te (Suc n) raw name nested depth = Some (Inl x)"
  using truncated_headers_raise [of raw] arch_not_failed [OF analyze_pe_arch, of raw te] pe_detected [of raw name]
  by (auto simp: truncated_pe_def analyze_bytes.simps pe_report_def disassemble_pe_def)

lemma tar_loop_raises:
  assumes "m \<in> set ms" "tm_is_file m" "tm_read m = Inr (Some c)" "int (length c) \<le> PER_ENTRY_MAX_BYTES" "\<exists>x. rec c (tm_name m) False = Some (Inl x)"
  shows "tar_loop te rec ms out fs \<noteq> Some (Inr r)"
  using assms(1)
proof (induction ms arbitrary: out fs)
  case (Cons k ms)
  show ?case
  proof (cases "k = m")
    case True
    then show ?thesis using assms(2-5) by auto
  next
    case False
    then have "\<And>out fs. tar_loop te rec ms out fs \<noteq> Some (Inr r)" using Cons by auto
    then show ?thesis by (auto simp: bind_run_def split: sum.split option.split)
  qed
qed simp

lemma zip_loop_raises:
  assumes "i \<in> set is" "\<not> zip_skip i" "zi_size i \<le> PER_ENTRY_MAX_BYTES" "read_member infos (zi_name i) = Inr c"
    "\<And>a. \<exists>x. rec c (zi_name i) a = Some (Inl x)"
  shows "zip_loop te rec nested infos is budget out \<noteq> Some (Inr (r, False))"
  using assms(1)
proof (induction "is" arbitrary: budget out)
  case (Cons k ks)
  show ?case
  proof (cases "k = i")
    case True
    then show ?thesis using assms(2-4) assms(5) [of "nested \<and> length out < MAX_ANALYZED_MEMBERS"] by auto
  next
    case False
    then have "\<And>budget out. zip_loop te rec nested infos ks budget out \<noteq> Some (Inr (r, False))" using Cons by auto
    then show ?thesis by (auto simp: bind_run_def Let_def split: sum.split option.split)
  qed
qed simp

text \<open>The uncompressed content of an archive whose format the code hands to \<open>tarfile\<close>.\<close>

definition tar_stream :: "'z total_env_scheme \<Rightarrow> string \<Rightarrow> string \<Rightarrow> string result" where
  "tar_stream te raw fmt = (if fmt = ''tar'' then Inr raw else te_expand te fmt raw)"

abbreviation STREAM_FORMATS :: "string list" where
  "STREAM_FORMATS \<equiv> [''tar'', ''gzip'', ''bzip2'', ''xz'']"

definition nested_call :: "'z total_env_scheme \<Rightarrow> nat \<Rightarrow> analyzer" where
  "nested_call te n = (\<lambda>content nm allow. analyze_bytes te n content nm allow 1)"

lemma analyze_stream:
  assumes "List.member STREAM_FORMATS (detect_file_format raw name)" "depth < 2"
  shows "analyze_bytes te (Suc n) raw name nested depth = bind_run (analyze_tar_like te (nested_call te n) raw (detect_file_format raw name) name)
    (\<lambda>r. Some (Inr (stream_report te raw (detect_file_format raw name) r)))"
  using assms by (auto simp: analyze_bytes.simps MAX_NESTED_DEPTH_def nested_call_def Let_def)

lemma analyze_tar_members:
  assumes "List.member STREAM_FORMATS fmt" "tar_stream te raw fmt = Inr stream" "te_is_tar te stream"
  shows "analyze_tar_like te rec raw fmt name = (case tar_members te rec stream fmt of None \<Rightarrow> None
     | Some (Inl x) \<Rightarrow> Some (Inr (Some (tar_error fmt x))) | Some (Inr d) \<Rightarrow> Some (Inr (Some d)))"
  using assms unfolding tar_stream_def by (simp add: analyze_tar_like_def)

lemma stream_report_tar:
  "score_of (stream_report te raw fmt (Some (tar_error f x))) = 5"
  "dict_get (stream_report te raw fmt (Some (tar_error f x))) ''extracted'' = PList []"
  "score_of (stream_report te raw fmt (Some (tar_report f n r))) = 0"
  by (cases r; simp add: stream_report_def tar_error_def tar_report_def set_default_def has_key_def score_of_def dict_get_def)+

text \<open>
  One member with a PE header cut inside the optional header is enough to hide all other members of a tar archive: the
  disassembly raises, and the report is a decompression error of score 5 without any member.
\<close>

theorem one_truncated_member_hides_the_archive:
  assumes "List.member STREAM_FORMATS (detect_file_format raw name)" "tar_stream te raw (detect_file_format raw name) = Inr stream"
    and "te_is_tar te stream" "te_untar te stream = Inr ms"
    and "m \<in> set (take 200 ms)" "tm_is_file m" "tm_read m = Inr (Some c)" "int (length c) \<le> PER_ENTRY_MAX_BYTES" "truncated_pe c"
    and "analyze_bytes te (Suc (Suc n)) raw name nested 0 = Some r"
  shows "\<exists>d. r = Inr d \<and> score_of d = 5 \<and> dict_get d ''extracted'' = PList []"
proof -
  have raises: "\<exists>x. nested_call te (Suc n) c (tm_name m) False = Some (Inl x)"
    unfolding nested_call_def using truncated_raises [OF assms(9)] .
  have "tar_members te (nested_call te (Suc n)) stream fmt \<noteq> Some (Inr d)" for d fmt
    using tar_loop_raises [of m "take 200 ms" c "nested_call te (Suc n)" te, OF assms(5-8) raises] assms(4) by (auto simp: tar_members_def bind_run_split)
  note members = this [of "detect_file_format raw name"]
  have "analyze_tar_like te (nested_call te (Suc n)) raw (detect_file_format raw name) name = None \<or>
      (\<exists>x. analyze_tar_like te (nested_call te (Suc n)) raw (detect_file_format raw name) name = Some (Inr (Some (tar_error (detect_file_format raw name) x))))"
    unfolding analyze_tar_members [OF assms(1-3)] using members by (auto split: option.split sum.split)
  then show ?thesis
    using assms(10) analyze_stream [OF assms(1), of 0 te "Suc n" nested] stream_report_tar by auto
qed

definition tar_env :: total_env where
  "tar_env = quiet_env\<lparr>te_is_tar := (\<lambda>_. True),
     te_untar := (\<lambda>_. Inr [\<lparr>tm_name = ''a.exe'', tm_is_file = True, tm_read = Inr (Some (pe_stub 4))\<rparr>])\<rparr>"

lemma tar_env_facts:
  "detect_file_format ''ustar'' ''a.tar'' = ''tar''" "truncated_pe (pe_stub 4)" "int (length (pe_stub 4)) \<le> PER_ENTRY_MAX_BYTES"
  by code_simp+

lemma tar_env_runs: "\<exists>d. analyze_bytes tar_env (Suc (Suc 0)) ''ustar'' ''a.tar'' True 0 = Some (Inr d)"
proof -
  obtain x where "nested_call tar_env 1 (pe_stub 4) ''a.exe'' False = Some (Inl x)"
    using truncated_raises [OF tar_env_facts(2), of tar_env 0 "''a.exe''" False 1] by (auto simp: nested_call_def)
  then have "tar_members tar_env (nested_call tar_env 1) ''ustar'' ''tar'' = Some (Inl x)"
    using tar_env_facts(3) by (simp add: tar_members_def tar_env_def)
  then show ?thesis
    using analyze_stream [of "''ustar''" "''a.tar''" 0 tar_env 1 True] analyze_tar_members [of "''tar''" tar_env "''ustar''" "''ustar''"]
    by (simp add: tar_env_facts(1) tar_stream_def) (simp add: tar_env_def)
qed

lemma one_truncated_member_hides_the_archive_witness:
  "\<exists>d. analyze_bytes tar_env 2 ''ustar'' ''a.tar'' True 0 = Some (Inr d) \<and> score_of d = 5 \<and> dict_get d ''extracted'' = PList []"
proof -
  define m where "m = \<lparr>tm_name = ''a.exe'', tm_is_file = True, tm_read = Inr (Some (pe_stub 4))\<rparr>"
  have e: "te_is_tar tar_env ''ustar''" "te_untar tar_env ''ustar'' = Inr [m]" by (simp_all add: tar_env_def m_def)
  obtain d where d: "analyze_bytes tar_env (Suc (Suc 0)) ''ustar'' ''a.tar'' True 0 = Some (Inr d)" using tar_env_runs by blast
  have "\<exists>d'. (Inr d :: pydict result) = Inr d' \<and> score_of d' = 5 \<and> dict_get d' ''extracted'' = PList []"
    by (rule one_truncated_member_hides_the_archive [where raw = "''ustar''" and name = "''a.tar''" and
        stream = "''ustar''" and ms = "[m]" and m = m and c = "pe_stub 4" and n = 0 and nested = True and te = tar_env])
      (use tar_env_facts e d in \<open>simp_all add: tar_stream_def m_def\<close>)
  then show ?thesis using d by (auto simp: numeral_2_eq_2)
qed

subsection \<open>A recursion that does not end\<close>

lemma tar_any_name: "detect_file_format raw a = ''tar'' \<Longrightarrow> detect_file_format raw b = ''tar''"
  by (auto simp: detect_file_format_def split: option.splits if_splits)

lemma bogus_tar_step:
  assumes "detect_file_format raw name = ''tar''" "\<not> te_is_tar te raw" "int (length raw) \<le> PER_ENTRY_MAX_BYTES" "depth < 2"
  shows "analyze_bytes te (Suc n) raw name nested depth = bind_run
    (case analyze_bytes te n raw (stream_name name) False 1 of None \<Rightarrow> None
       | Some (Inl x) \<Rightarrow> Some (Inr (Some (tar_error ''tar'' x))) | Some (Inr d) \<Rightarrow> Some (Inr (Some (wrap_stream ''tar'' (length raw) d))))
    (\<lambda>r. Some (Inr (stream_report te raw ''tar'' r)))"
proof -
  have "clip PER_ENTRY_MAX_BYTES raw = raw" using assms(3) by (simp add: clip_def)
  then have "analyze_tar_like te (nested_call te n) raw ''tar'' name = (case analyze_bytes te n raw (stream_name name) False 1 of
      None \<Rightarrow> None | Some (Inl x) \<Rightarrow> Some (Inr (Some (tar_error ''tar'' x)))
    | Some (Inr d) \<Rightarrow> Some (Inr (Some (wrap_stream ''tar'' (length raw) d))))"
    using assms(2) by (simp add: analyze_tar_like_def single_stream_def nested_call_def bind_run_def split: option.split sum.split)
  then show ?thesis using analyze_stream [of raw name depth te n nested] assms(1,4) by simp
qed

lemma wrapped_score:
  "score_of d = 5 \<Longrightarrow> score_of (stream_report te raw fmt (Some (wrap_stream f n d))) = 5"
  by (simp add: stream_report_def set_default_def wrap_stream_def insert_finding_def Let_def score_of_def dict_get_def has_key_def)

text \<open>
  A file with the magic of a tar archive that \<open>tarfile\<close> does not accept is analyzed by analyzing the same bytes again: the
  recursion does not end by itself, whatever the fuel; when the interpreter stops it by raising, the report has score 5 and
  nothing of the content was looked at.
\<close>

theorem bogus_tar_never_ends:
  assumes "detect_file_format raw name = ''tar''" "\<not> te_is_tar te raw" "int (length raw) \<le> PER_ENTRY_MAX_BYTES" "depth < 2"
  shows "(te_overflow te = None \<longrightarrow> analyze_bytes te n raw name nested depth = None) \<and>
    (\<forall>x. te_overflow te = Some (Inl x) \<longrightarrow> 0 < n \<longrightarrow>
       (\<exists>d. analyze_bytes te n raw name nested depth = Some (Inr d) \<and> score_of d = 5))"
  using assms(1,4)
proof (induction n arbitrary: name nested depth)
  case 0
  then show ?case by (simp add: analyze_bytes.simps)
next
  case (Suc n)
  note step = bogus_tar_step [OF Suc.prems(1) assms(2,3) Suc.prems(2), of n nested]
  have IH: "(te_overflow te = None \<longrightarrow> analyze_bytes te n raw (stream_name name) False 1 = None) \<and>
    (\<forall>x. te_overflow te = Some (Inl x) \<longrightarrow> 0 < n \<longrightarrow>
       (\<exists>d. analyze_bytes te n raw (stream_name name) False 1 = Some (Inr d) \<and> score_of d = 5))"
    by (rule Suc.IH) (simp_all add: tar_any_name [OF Suc.prems(1)])
  show ?case
  proof (cases n)
    case 0
    then show ?thesis unfolding step by (simp add: analyze_bytes.simps stream_report_tar)
  next
    case (Suc k)
    then show ?thesis using IH unfolding step by (auto simp: wrapped_score)
  qed
qed

subsection \<open>Archives decide nothing\<close>

lemma tar_like_result:
  assumes "List.member STREAM_FORMATS fmt" "tar_stream te raw fmt = Inr stream" "te_is_tar te stream"
    and "analyze_tar_like te rec raw fmt name = Some (Inr r)"
  shows "(\<exists>x. r = Some (tar_error fmt x)) \<or> (\<exists>n p. r = Some (tar_report fmt n p))"
proof (cases "tar_members te rec stream fmt")
  case (Some q)
  then show ?thesis
    using assms(4) unfolding analyze_tar_members [OF assms(1-3)]
    by (cases q) (auto simp: tar_members_def bind_run_split split: sum.splits)
qed (use assms(4) analyze_tar_members [OF assms(1-3)] in simp)

lemma refusal_no_report: "refusal ue raw fmt filename \<noteq> Some (Report rp)"
  by (simp add: refusal_def Let_def)

text \<open>
  An upload that is a tar archive, compressed or not, scores 0 or 5 and is clean whatever its members are (unless its name
  is that of a crack or a signature of the operators matches): the scores of the members do not reach the report.
\<close>

theorem tar_upload_is_clean:
  assumes "List.member STREAM_FORMATS (detect_file_format raw filename)" "filename \<noteq> []" "\<not> g_found CRACK_NAMES filename"
    and "tar_stream te raw (detect_file_format raw filename) = Inr stream" "te_is_tar te stream"
    and "upload_analyze te ue yl (Inr []) cached n accept (Some filename) raw = Some (Inr (Report rp))"
    and "\<And>d. te_overflow te \<noteq> Some (Inr d)"
  shows "rp_verdict rp = ''clean'' \<and> rp_score rp \<in> {0, 5}"
proof -
  have zip: "detect_file_format raw filename \<noteq> ''zip''" using assms(1) by auto
  obtain c where c: "file_upload te n raw filename = Some (Inr c)" and rp: "rp_score rp = co_score c" "rp_verdict rp = verdict_of (co_score c)"
    using assms(2,3,6) zip
    by (auto simp: upload_analyze_def or_str_def crack_policy_def yara_step_def report_of_def bind_run_split refusal_no_report Let_def
        split: if_splits option.splits)
  from c obtain d where d: "analyze_bytes te n raw filename True 0 = Some (Inr d)" and s: "co_score c = score_of d"
    by (auto simp: file_upload_def bind_run_split set_default_def score_of_def dict_get_def has_key_def Let_def)
  then obtain k where n: "n = Suc k" using assms(7) by (cases n) (auto simp: analyze_bytes.simps)
  from d obtain r where r: "analyze_tar_like te (nested_call te k) raw (detect_file_format raw filename) filename = Some (Inr r)"
    and dr: "d = stream_report te raw (detect_file_format raw filename) r"
    unfolding n using analyze_stream [OF assms(1), of 0 te k True] by (auto simp: bind_run_split)
  from tar_like_result [OF assms(1,4,5) r] have "score_of d \<in> {0, 5}"
    by (auto simp: dr stream_report_tar)
  then show ?thesis using rp s by (auto simp: verdict_of_def)
qed

lemma bogus_tar_never_ends_witness:
  "analyze_bytes quiet_env 7 ''ustar'' ''a.tar'' True 0 = None \<and>
   (\<exists>d. analyze_bytes (quiet_env\<lparr>te_overflow := Some (Inl (OtherError ''maximum recursion depth exceeded''))\<rparr>) 7
      ''ustar'' ''a.tar'' True 0 = Some (Inr d) \<and> score_of d = 5)"
proof -
  have "detect_file_format ''ustar'' ''a.tar'' = ''tar''" "int (length ''ustar'') \<le> PER_ENTRY_MAX_BYTES" by code_simp+
  note b = bogus_tar_never_ends [OF this(1) _ this(2), where depth = 0 and n = 7 and nested = True]
  show ?thesis
    using b [of quiet_env] b [of "quiet_env\<lparr>te_overflow := Some (Inl (OtherError ''maximum recursion depth exceeded''))\<rparr>"]
    by (simp add: quiet_env_def)
qed

lemma tar_upload_is_clean_witness:
  "\<exists>rp. upload_analyze (tar_env :: total_env) \<lparr>ue_signature = ''s'', ue_fingerprint = ''f'', ue_max_file_mb = 100, ue_max_zip_mb = 200,
      ue_max_files_per_zip = 2000\<rparr> \<lparr>yl_import_error = None, yl_compile = (\<lambda>_. Inl TypeError), yl_match = (\<lambda>_ _. Inr [])\<rparr>
      (Inr []) None 2 True (Some ''a.tar'') ''ustar'' = Some (Inr (Report rp)) \<and> rp_verdict rp = ''clean'' \<and> rp_score rp \<in> {0, 5}"
  (is "\<exists>rp. upload_analyze tar_env ?ue ?yl _ _ _ _ _ _ = _ \<and> _")
proof -
  have fmt: "detect_file_format ''ustar'' ''a.tar'' = ''tar''" "\<not> g_found CRACK_NAMES ''a.tar''" by code_simp+
  have ref: "refusal ?ue ''ustar'' ''tar'' ''a.tar'' = None" by code_simp
  obtain d where d: "analyze_bytes tar_env 2 ''ustar'' ''a.tar'' True 0 = Some (Inr d)"
    using tar_env_runs by (auto simp: numeral_2_eq_2)
  then obtain rp where rp: "upload_analyze tar_env ?ue ?yl (Inr []) None 2 True (Some ''a.tar'') ''ustar'' = Some (Inr (Report rp))"
    by (simp add: upload_analyze_def fmt ref fresh_report_def file_upload_def Let_def yara_step_def)
  have "rp_verdict rp = ''clean'' \<and> rp_score rp \<in> {0, 5}"
    by (rule tar_upload_is_clean [OF _ _ fmt(2) _ _ rp, of "''ustar''"])
      (auto simp: fmt tar_stream_def tar_env_def quiet_env_def)
  with rp show ?thesis by blast
qed

end
