(* ===== verification/Total_Behaviour.thy ===== *)
theory Total_Behaviour
  imports Total_Properties
begin

section \<open>Aegis Total: behaviour of the parsers and archives\<close>

text \<open>
  When the analysis of nested archives ends, which copy of a repeated member is looked at, what makes a text clean,
  how much a nested archive can score, and what the parsers report about byte orders.
\<close>

subsection \<open>Termination\<close>

definition ends :: "'a run \<Rightarrow> bool" where
  "ends r \<longleftrightarrow> r \<noteq> None"

lemma ends_Some [simp]: "ends (Some r)"
  by (simp add: ends_def)

lemma bind_run_ends [intro]: "ends r \<Longrightarrow> (\<And>a. ends (f a)) \<Longrightarrow> ends (bind_run r f)"
  by (auto simp: ends_def bind_run_def split: sum.split option.split)

lemma ends_caught: "ends r \<Longrightarrow> ends (case r of None \<Rightarrow> None | Some (Inl x) \<Rightarrow> Some (f x) | Some (Inr d) \<Rightarrow> Some (g d))"
  by (auto simp: ends_def split: sum.split option.split)

lemma zip_loop_ends:
  assumes "\<And>i c a. i \<in> set is \<Longrightarrow> read_member infos (zi_name i) = Inr c \<Longrightarrow> ends (rec c (zi_name i) a)"
  shows "ends (zip_loop te rec nested infos is budget out)"
  using assms
proof (induction "is" arbitrary: budget out)
  case (Cons i js)
  have IH: "ends (zip_loop te rec nested infos js b out')" for b out' by (rule Cons.IH) (use Cons.prems in auto)
  show ?case
  proof (cases "read_member infos (zi_name i)")
    case (Inr c)
    then have "ends (rec c (zi_name i) a)" for a by (intro Cons.prems) simp_all
    then show ?thesis using IH Inr by (auto simp: Let_def)
  qed (use IH in auto)
qed simp

lemma tar_loop_ends:
  assumes "\<And>m c. m \<in> set ms \<Longrightarrow> tm_read m = Inr (Some c) \<Longrightarrow> ends (rec c (tm_name m) False)"
  shows "ends (tar_loop te rec ms out fs)"
  using assms
proof (induction ms arbitrary: out fs)
  case (Cons m ms)
  have IH: "ends (tar_loop te rec ms out' fs')" for out' fs' by (rule Cons.IH) (use Cons.prems in auto)
  have "tm_read m = Inr (Some c) \<Longrightarrow> ends (rec c (tm_name m) False)" for c by (rule Cons.prems) simp_all
  then show ?case using IH by (auto split: sum.split option.split)
qed simp

lemma read_member_in: "read_member infos n = Inr c \<Longrightarrow> \<exists>i \<in> set infos. zi_read i = Inr c"
  by (auto simp: read_member_def split: option.splits dest!: find_first_Some)

text \<open>What an archive holds is lower in some rank than the archive.\<close>

definition well_nested :: "'z total_env_scheme \<Rightarrow> (string \<Rightarrow> nat) \<Rightarrow> bool" where
  "well_nested te rank \<longleftrightarrow>
     (\<forall>raw infos i c. te_unzip te raw = Some infos \<longrightarrow> i \<in> set infos \<longrightarrow> zi_read i = Inr c \<longrightarrow> rank c < rank raw) \<and>
     (\<forall>raw fmt s. te_expand te fmt raw = Inr s \<longrightarrow> rank s < rank raw) \<and>
     (\<forall>s ms m c. te_untar te s = Inr ms \<longrightarrow> m \<in> set ms \<longrightarrow> tm_read m = Inr (Some c) \<longrightarrow> rank c < rank s) \<and>
     (\<forall>s. rank (clip PER_ENTRY_MAX_BYTES s) \<le> rank s) \<and>
     (\<forall>raw. magic_format raw = Some ''tar'' \<longrightarrow> te_is_tar te raw)"

lemma tar_like_ends:
  assumes "well_nested te rank" "\<And>c nm a. rank c < rank raw \<Longrightarrow> ends (rec c nm a)"
    and "fmt = ''tar'' \<Longrightarrow> te_is_tar te raw"
  shows "ends (analyze_tar_like te rec raw fmt name)"
proof -
  have members: "ends (tar_members te rec s fmt)" if "rank s \<le> rank raw" for s
  proof (cases "te_untar te s")
    case (Inr ms)
    have "rank c < rank raw" if "m \<in> set (take 200 ms)" "tm_read m = Inr (Some c)" for m c
    proof -
      have "rank c < rank s" using assms(1) Inr in_set_takeD [OF that(1)] that(2) unfolding well_nested_def by blast
      then show ?thesis using \<open>rank s \<le> rank raw\<close> by simp
    qed
    then have "ends (tar_loop te rec (take 200 ms) [] [])" by (intro tar_loop_ends assms(2))
    then show ?thesis using Inr by (auto simp: tar_members_def)
  qed (simp add: tar_members_def)
  have single: "ends (single_stream rec s fmt name)" if "rank s < rank raw" for s
  proof -
    have "rank (clip PER_ENTRY_MAX_BYTES s) < rank raw" using that assms(1) unfolding well_nested_def by (meson le_less_trans)
    then show ?thesis using assms(2) by (auto simp: single_stream_def Let_def)
  qed
  have expand: "te_expand te fmt raw = Inr s \<Longrightarrow> rank s < rank raw" for s using assms(1) by (simp add: well_nested_def)
  have "ends (if te_is_tar te s then tar_members te rec s fmt else single_stream rec s fmt name)"
    if "(if fmt = ''tar'' then Inr raw else te_expand te fmt raw) = Inr s" for s
  proof (cases "fmt = ''tar''")
    case True
    then show ?thesis using that assms(3) members [of raw] by simp
  next
    case False
    then have "rank s < rank raw" using that expand by simp
    then show ?thesis using members [of s] single [of s] by simp
  qed
  then have "ends (case (if fmt = ''tar'' then Inr raw else te_expand te fmt raw) of Inl x \<Rightarrow> Some (Inl x)
      | Inr s \<Rightarrow> if te_is_tar te s then tar_members te rec s fmt else single_stream rec s fmt name)"
    by (simp split: sum.split)
  then show ?thesis unfolding analyze_tar_like_def by (simp add: ends_caught)
qed



subsection \<open>Repeated names in an archive\<close>

definition same_header :: "zip_info \<Rightarrow> zip_info \<Rightarrow> bool" where
  "same_header i j \<longleftrightarrow> zi_name i = zi_name j \<and> zi_size i = zi_size j \<and> zi_is_dir i = zi_is_dir j"

lemma zip_loop_cong:
  assumes "list_all2 same_header is js" "read_member infos = read_member infos'" "length infos = length infos'"
    "te_sha256 te = te_sha256 te'"
  shows "zip_loop te rec nested infos is budget out = zip_loop te' rec nested infos' js budget out"
  using assms(1)
proof (induction arbitrary: budget out rule: list_all2_induct)
  case (Cons i ks j ls)
  have [simp]: "zip_skip i = zip_skip j" "oversize_entry i = oversize_entry j" "zi_size i = zi_size j" "zi_name i = zi_name j"
    "tag_entry te = tag_entry te'"
    using Cons.hyps(1) assms(4) by (auto simp: same_header_def zip_skip_def oversize_entry_def tag_entry_def fun_eq_iff)
  show ?case using assms(2,3) by (simp add: Cons.IH Let_def split: sum.split cong: if_cong)
qed simp

lemma ooxml_text_cong:
  "read_member infos = read_member infos' \<Longrightarrow> ooxml_text infos ns acc = ooxml_text infos' ns acc"
  by (induction ns arbitrary: acc) (auto split: sum.split)

lemma analyze_ooxml_cong:
  assumes "map zi_name infos = map zi_name infos'" "read_member infos = read_member infos'"
  shows "analyze_ooxml te infos = analyze_ooxml te infos'"
  using assms ooxml_text_cong [OF assms(2)]
  by (simp add: analyze_ooxml_def part_names_def ooxml_pe_def has_embedded_pe_def [abs_def])

lemma read_member_shadow:
  assumes "zi_name a = zi_name b" "zi_name a' = zi_name a"
  shows "read_member (xs @ a # ys @ b # zs) = read_member (xs @ a' # ys @ b # zs)"
proof -
  have app: "find_first p (us @ vs) = (case find_first p us of None \<Rightarrow> find_first p vs | Some x \<Rightarrow> Some x)" for p us vs
    by (induction us) auto
  show ?thesis using assms by (auto simp: read_member_def fun_eq_iff app split: option.splits)
qed

lemma ooxml_env: "analyze_ooxml (te\<lparr>te_unzip := f\<rparr>) infos = analyze_ooxml te infos"
  by (simp add: analyze_ooxml_def set_iocs_def iocs_from_def iocs_of_def)

text \<open>
  When two members of a ZIP archive have the same name, the content of the earlier one does not influence the analysis: it
  may be anything.
\<close>

theorem shadowed_member_is_never_analyzed:
  assumes "te_unzip te raw = Some (xs @ a # ys @ b # zs)" "zi_name a = zi_name b"
  shows "analyze_zip (te\<lparr>te_unzip := (\<lambda>_. Some (xs @ a\<lparr>zi_read := content\<rparr> # ys @ b # zs))\<rparr>) rec raw max_files max_bytes nested
       = analyze_zip te rec raw max_files max_bytes nested"
proof -
  define te' where "te' = te\<lparr>te_unzip := (\<lambda>_. Some (xs @ a\<lparr>zi_read := content\<rparr> # ys @ b # zs))\<rparr>"
  define old where "old = xs @ a # ys @ b # zs"
  define new where "new = xs @ a\<lparr>zi_read := content\<rparr> # ys @ b # zs"
  have rd: "read_member new = read_member old" unfolding old_def new_def by (rule read_member_shadow) (use assms(2) in simp_all)
  have names: "map zi_name new = map zi_name old" "map zi_size new = map zi_size old" "length new = length old"
    by (simp_all add: old_def new_def)
  have "list_all2 same_header us us" for us by (simp add: list_all2_refl same_header_def)
  then have "list_all2 same_header new old" by (simp add: old_def new_def list_all2_append same_header_def)
  then have hd: "list_all2 same_header (take k new) (take k old)" for k by simp
  have loop: "zip_loop te' rec nested new (take max_files new) max_bytes [] = zip_loop te rec nested old (take max_files old) max_bytes []"
    by (rule zip_loop_cong [OF hd rd names(3)]) (simp add: te'_def)
  have ox: "analyze_ooxml te' new = analyze_ooxml te old"
  proof -
    have "analyze_ooxml te' old = analyze_ooxml te old" by (simp add: te'_def ooxml_env)
    then show ?thesis using analyze_ooxml_cong [OF names(1) rd, of te'] by simp
  qed
  have rep: "zip_report new = zip_report old"
    using names by (simp add: zip_report_def fun_eq_iff zip_score_def zip_bomb_def declared_bytes_def too_many_def bomb_findings_def
        flip: map_map) 
  show ?thesis
    unfolding te'_def [symmetric] new_def [symmetric]
    using assms(1) loop ox rep names(1) by (simp add: analyze_zip_def te'_def new_def [symmetric] old_def [symmetric] flip: map_map)
qed

definition twin :: "string \<Rightarrow> zip_info" where
  "twin content = \<lparr>zi_name = ''a.txt'', zi_size = 3, zi_is_dir = False, zi_read = Inr content\<rparr>"

lemma shadowed_member_is_never_analyzed_witness:
  "analyze_zip (quiet_env\<lparr>te_unzip := (\<lambda>_. Some [twin ''mimikatz'', twin ''hello''])\<rparr>) (nested_call quiet_env 1) ''PK'' 10 100 True
   = analyze_zip (quiet_env\<lparr>te_unzip := (\<lambda>_. Some [twin ''good'', twin ''hello''])\<rparr>) (nested_call quiet_env 1) ''PK'' 10 100 True"
  using shadowed_member_is_never_analyzed [of "quiet_env\<lparr>te_unzip := (\<lambda>_. Some [twin ''good'', twin ''hello''])\<rparr>" "''PK''" "[]"
      "twin ''good''" "[]" "twin ''hello''" "[]" "Inr ''mimikatz''" "nested_call quiet_env 1" 10 100 True]
  by (simp add: twin_def)

subsection \<open>Texts and nested archives\<close>

lemma secret_findings_Nil: "secret_findings text = [] \<longleftrightarrow> list_all (\<lambda>(name, pat). g_all pat text = []) SECRET_PATTERNS"
  by (auto simp: secret_findings_def list_all_iff Let_def split: if_splits)

lemma suspicious_matches_Nil: "suspicious_matches text = [] \<longleftrightarrow> list_all (\<lambda>pat. \<not> g_found pat text) SUSPICIOUS_STRINGS"
proof -
  have "List.map_filter f xs = [] \<longleftrightarrow> (\<forall>x \<in> set xs. f x = None)" for f :: "grx \<Rightarrow> groups option" and xs
    by (auto simp: List.map_filter_def filter_empty_conv)
  then show ?thesis by (auto simp: suspicious_matches_def g_found_def list_all_iff)
qed

text \<open>
  A text is clean exactly when none of the secret patterns and none of the suspicious patterns occurs in what is scanned of it: the
  findings about macros and addresses do not count.
\<close>

theorem text_is_clean_iff:
  "verdict_of (score_of (text_file_report te raw)) = ''clean'' \<longleftrightarrow>
     list_all (\<lambda>(name, pat). g_all pat (utf8_ignore (clip MAX_TEXT_SCAN_BYTES raw)) = []) SECRET_PATTERNS \<and>
     list_all (\<lambda>pat. \<not> g_found pat (utf8_ignore (clip MAX_TEXT_SCAN_BYTES raw))) SUSPICIOUS_STRINGS"
  (is "_ \<longleftrightarrow> ?secrets \<and> ?strings")
proof -
  define t where "t = utf8_ignore (clip MAX_TEXT_SCAN_BYTES raw)"
  have s: "score_of (text_file_report te raw) = min (20 * int (length (secret_findings t)) + 35 * int (length (suspicious_matches t))) 100"
    by (simp add: score_of_def text_file_report_def score_text_def dict_get_def t_def Let_def)
  have "score_of (text_file_report te raw) < 20 \<longleftrightarrow> length (secret_findings t) = 0 \<and> length (suspicious_matches t) = 0"
    unfolding s by linarith
  then show ?thesis by (simp add: verdict_clean secret_findings_Nil suspicious_matches_Nil t_def)
qed

text \<open>An archive inside an archive scores at most 30 unless it is an Office document: its members are not counted.\<close>

lemma nested_zip_score:
  assumes "te_unzip te raw = Some infos" "\<not> is_ooxml (map (lower \<circ> zi_name) infos)"
    and "analyze_zip te rec raw mf mb nested = Some (Inr d)"
  shows "score_of d \<le> 30"
  using assms zip_report_score [of infos mf] zip_score_range [of infos]
  by (auto simp: analyze_zip_def bind_run_split score_of_def dict_get_def)

subsection \<open>Byte orders\<close>

text \<open>
  The magic of the usual little-endian 64-bit files, \<open>CF FA ED FE\<close>, is in the table as big-endian, so the processor of every
  such file is read backwards: x86-64 is reported as an unknown number.
\<close>

lemma macho_little_endian_read_backwards:
  assumes "take 4 raw = [CHR 0xCF, CHR 0xFA, CHR 0xED, CHR 0xFE]" "byte_slice raw 4 8 = [CHR 0x07, CHR 0x00, CHR 0x00, CHR 0x01]"
    "32 \<le> length raw"
  shows "\<exists>d. macho_header raw [] = Inr d \<and> dict_get d ''arch'' = PStr ''cpu-117440513'' \<and>
    dict_get d ''magic_label'' = PStr ''Mach-O 64 BE''"
proof -
  have num: "le_value (rev [CHR 0x07, CHR 0x00, CHR 0x00, CHR 0x01]) = 117440513" by code_simp
  have v: "unpack_be 4 raw 4 = Inr 117440513"
  proof -
    have "byte_slice raw 4 (4 + 4) = [CHR 0x07, CHR 0x00, CHR 0x00, CHR 0x01]" using assms(2) by simp
    then show ?thesis using assms(3) by (subst unpack_be_def, simp only: num) (simp del: One_nat_def)
  qed
  have "12 + 4 \<le> int (length raw)" using assms(3) by linarith
  then obtain t where t: "unpack_be 4 raw 12 = Inr t" by (simp only: unpack_be_def if_True)
  have cpu: "cpu_name 117440513 = ''cpu-117440513''"
    by (simp add: cpu_name_def MACHO_CPUS_def assoc_default_def show_int_def show_nat.simps digit_def) code_simp
  have tab: "\<not> List.member FAT_MAGICS [CHR 0xCF, CHR 0xFA, CHR 0xED, CHR 0xFE]"
    "assoc_default (''Mach-O'', True) [CHR 0xCF, CHR 0xFA, CHR 0xED, CHR 0xFE] MACHO_MAGICS = (''Mach-O 64 BE'', False)" by code_simp+
  show ?thesis
    unfolding macho_header_def assms(1) tab using v t tab(1) cpu by (simp add: dict_get_def del: List.member_iff)
qed

text \<open>A big-endian ELF executable is a file of type 512.\<close>

lemma big_endian_elf_kind: "u16 (replicate 16 c @ [CHR 0x00, CHR 0x02]) 16 = Inr 512 \<and> elf_kind 512 = ''type-512''"
proof -
  have "elf_kind 512 = ''type-512''" by code_simp
  then show ?thesis by (simp add: unpack_le_def byte_slice_def clip_def le_value_def code_def)
qed

subsection \<open>The listing\<close>

lemma listing_bound: "length (fst (listing annotate n is)) \<le> n"
  by (induction annotate n "is" rule: listing.induct) (auto split: prod.splits)

text \<open>Every flagged call is a call to a function of the table, and its row is in the listing.\<close>

lemma suspicious_call_sound:
  assumes "c \<in> set (suspicious_call annotate i)"
  shows "\<exists>api reason. c = [(''api'', PStr api), (''address'', PStr (hex_addr (in_address i))), (''reason'', PStr reason)] \<and>
    flags_for api = Some reason \<and> startswith (in_mnemonic i) ''call''"
  using assms by (auto simp: suspicious_call_def flagged_import_def map_option_case split: option.splits pyval.splits if_splits)

lemma listing_calls_sound:
  "(rows, calls, stop) = listing annotate n is \<Longrightarrow> c \<in> set calls \<Longrightarrow>
     \<exists>i \<in> set is. c \<in> set (suspicious_call annotate i) \<and> insn_row annotate i \<in> set rows"
proof (induction annotate n "is" arbitrary: rows calls stop rule: listing.induct)
  case (3 annotate n i js)
  then show ?case by (auto split: if_splits prod.splits)
qed auto

end
