(* ===== verification/Fleet.thy ===== *)
theory Fleet
  imports Unified_Event
begin

section \<open>Agents and the fleet\<close>

text \<open>
  The \<open>agents\<close> table of \<open>app/database/models.py\<close> and \<open>app/services/fleet.py\<close>: sites kept in the
  \<open>meta\<close> document of an agent, the status computed from \<open>last_seen\<close>, and the retention cutoffs.
  Instants are seconds since the epoch; \<open>from_iso\<close> is \<open>datetime.fromisoformat\<close>, naive datetimes
  read as UTC.
\<close>

record agent_row =
  ag_agent_id :: string
  ag_hostname :: "string option"
  ag_ip_address :: "string option"
  ag_os_type :: "string option"
  ag_agent_type :: "string option"
  ag_agent_version :: "string option"
  ag_isolated :: bool
  ag_is_demo :: bool
  ag_last_seen :: "rat option"
  ag_capabilities :: pyval
  ag_meta :: pyval

definition blank_agent :: agent_row where
  "blank_agent = \<lparr>ag_agent_id = ''agent-1'', ag_hostname = None, ag_ip_address = None, ag_os_type = None,
     ag_agent_type = None, ag_agent_version = None, ag_isolated = False, ag_is_demo = False,
     ag_last_seen = None, ag_capabilities = PNone, ag_meta = PNone\<rparr>"

subsection \<open>Sites\<close>

text \<open>\<open>^[a-z0-9][a-z0-9-]{0,63}$\<close>: \<open>$\<close> also matches before a final newline.\<close>

definition site_first :: "char \<Rightarrow> bool" where
  "site_first c \<longleftrightarrow> is_digit c \<or> (97 \<le> code c \<and> code c \<le> 122)"

definition site_name :: "string \<Rightarrow> bool" where
  "site_name s = (case s of [] \<Rightarrow> False
     | c # cs \<Rightarrow> site_first c \<and> length cs \<le> 63 \<and> list_all (\<lambda>d. site_first d \<or> d = CHR ''-'') cs)"

definition site_match :: "string \<Rightarrow> bool" where
  "site_match s \<longleftrightarrow> site_name s \<or> (s \<noteq> [] \<and> last s = CHR 0x0A \<and> site_name (butlast s))"

definition DEFAULT_SITE :: string where
  "DEFAULT_SITE = ''default''"

definition clean_site :: "pyval \<Rightarrow> string" where
  "clean_site v = lower (strip (py_str (py_or v (PStr []))))"

definition normalize_site :: "pyval \<Rightarrow> string result" where
  "normalize_site v =
     (if site_match (clean_site v) then Inr (clean_site v)
      else Inl (ValueError ''invalid site: lowercase, [a-z0-9-], max 64 chars''))"

definition get_site :: "agent_row \<Rightarrow> string" where
  "get_site a = (case ag_meta a of
     PDict m \<Rightarrow> (let site = clean_site (dict_get m ''site'') in if site_match site then site else DEFAULT_SITE)
   | _ \<Rightarrow> DEFAULT_SITE)"

definition set_site_meta :: "pyval \<Rightarrow> string \<Rightarrow> pydict result" where
  "set_site_meta meta site =
     bind_result (normalize_site (PStr site)) (\<lambda>clean.
       Inr (assoc_put ''site'' (PStr clean) (case meta of PDict m \<Rightarrow> m | _ \<Rightarrow> [])))"

subsection \<open>Status\<close>

datatype seen =
    Never
  | Seen_at rat
  | Seen_text string

definition seen_instant :: "(string \<Rightarrow> rat option) \<Rightarrow> seen \<Rightarrow> rat option" where
  "seen_instant from_iso s = (case s of Never \<Rightarrow> None | Seen_at t \<Rightarrow> Some t | Seen_text txt \<Rightarrow> from_iso txt)"

definition agent_status :: "(string \<Rightarrow> rat option) \<Rightarrow> rat \<Rightarrow> rat \<Rightarrow> seen \<Rightarrow> rat \<Rightarrow> string" where
  "agent_status from_iso online_min offline_h last_seen now =
     (case seen_instant from_iso last_seen of
        None \<Rightarrow> ''unknown''
      | Some t \<Rightarrow>
          (let age = now - t in
           if age < 0 then ''online''
           else if age < online_min * 60 then ''online''
           else if age < offline_h * 3600 then ''stale''
           else ''offline''))"

subsection \<open>Retention\<close>

definition retention_cutoffs :: "int \<Rightarrow> int \<Rightarrow> int \<Rightarrow> int \<Rightarrow> rat \<Rightarrow> (string \<times> rat) list result" where
  "retention_cutoffs telemetry_days alerts_days audit_days syslog_days now =
     (if list_ex (\<lambda>v. v \<le> 0) [telemetry_days, alerts_days, audit_days, syslog_days]
      then Inl (ValueError ''retention days must be positive'')
      else Inr [(''telemetry'', now - 86400 * of_int telemetry_days),
             (''alerts'', now - 86400 * of_int alerts_days),
             (''audit'', now - 86400 * of_int audit_days),
             (''syslog'', now - 86400 * of_int syslog_days)])"

text \<open>\<open>DELETE ... WHERE stamp < cutoff\<close>, per table.\<close>

definition purge_rows :: "('a \<Rightarrow> rat) \<Rightarrow> rat \<Rightarrow> 'a list \<Rightarrow> 'a list" where
  "purge_rows stamp cutoff rows = filter (\<lambda>r. \<not> stamp r < cutoff) rows"

subsection \<open>What a site and a status promise\<close>

lemma clean_site_str: "s \<noteq> [] \<Longrightarrow> clean_site (PStr s) = lower (strip s)"
  by (simp add: clean_site_def py_or_def)

lemma last_strip: "strip s \<noteq> [] \<Longrightarrow> \<not> is_space (last (strip s))"
proof -
  assume ne: "strip s \<noteq> []"
  let ?d = "dropWhile is_space (rev (lstrip s))"
  have "?d \<noteq> []" using ne by (auto simp: strip_def rstrip_def)
  then show ?thesis
    using hd_dropWhile [of is_space "rev (lstrip s)"] by (simp add: strip_def rstrip_def last_rev)
qed

lemma lower_newline: "lower_char c = CHR 0x0A \<Longrightarrow> c = CHR 0x0A"
proof -
  assume l: "lower_char c = CHR 0x0A"
  have "\<not> (65 \<le> code c \<and> code c \<le> 90)"
  proof
    assume r: "65 \<le> code c \<and> code c \<le> 90"
    then have "code (lower_char c) = code c + 32" by (simp add: lower_char_def code_def of_char_of)
    then show False using l r by (simp add: code_def)
  qed
  then show "c = CHR 0x0A" using l by (auto simp: lower_char_def split: if_splits)
qed

lemma site_match_clean: "site_match (clean_site v) \<Longrightarrow> site_name (clean_site v)"
proof -
  let ?t = "strip (py_str (py_or v (PStr [])))"
  have "last (lower ?t) \<noteq> CHR 0x0A" if "?t \<noteq> []"
    using last_strip [OF that] that
    by (auto simp: lower_def last_map is_space_def code_def dest: lower_newline)
  then show "site_match (clean_site v) \<Longrightarrow> site_name (clean_site v)"
    by (auto simp: site_match_def clean_site_def)
qed

lemma site_char: "site_first c \<or> c = CHR ''-'' \<Longrightarrow> \<not> is_space c \<and> lower_char c = c"
  by (auto simp: site_first_def is_digit_def is_space_def lower_char_def code_def)

lemma site_name_clean: "site_name s \<Longrightarrow> lower (strip s) = s"
proof -
  assume s: "site_name s"
  then have all: "c \<in> set s \<Longrightarrow> site_first c \<or> c = CHR ''-''" for c
    by (auto simp: site_name_def list_all_iff split: list.splits)
  have ne: "s \<noteq> []" using s by (auto simp: site_name_def)
  then have "strip s = s"
    using all [OF hd_in_set] all [OF last_in_set] site_char by (intro strip_id) auto
  moreover have "lower s = s"
    using all site_char by (auto simp: lower_def intro: map_idI)
  ultimately show ?thesis by simp
qed

text \<open>A stored site is the one read back.\<close>

lemma stored_site_is_read:
  assumes "set_site_meta meta site = Inr d"
  shows "get_site (a\<lparr>ag_meta := PDict d\<rparr>) = clean_site (PStr site)"
proof -
  have ok: "site_match (clean_site (PStr site))"
    and d: "d = assoc_put ''site'' (PStr (clean_site (PStr site))) (case meta of PDict m \<Rightarrow> m | _ \<Rightarrow> [])"
    using assms by (auto simp: set_site_meta_def normalize_site_def split: if_splits)
  have ne: "clean_site (PStr site) \<noteq> []"
    using ok by (auto simp: site_match_def site_name_def)
  have "dict_get d ''site'' = PStr (clean_site (PStr site))"
    by (simp add: d dict_get_def)
  then show ?thesis
    using ok ne site_name_clean [OF site_match_clean [OF ok]]
    by (simp add: get_site_def clean_site_str Let_def)
qed

lemma status_cases:
  "agent_status from_iso 15 24 last_seen now \<in> {''unknown'', ''online'', ''stale'', ''offline''}"
  by (simp add: agent_status_def Let_def split: option.split)

lemma status_monotone:
  assumes "agent_status from_iso m h (Seen_at t) now = ''offline''" "now \<le> later" "0 \<le> h * 3600"
  shows "agent_status from_iso m h (Seen_at t) later = ''offline''"
  using assms by (auto simp: agent_status_def seen_instant_def Let_def split: if_splits)

text \<open>A purge keeps what is at least as recent as the cutoff, and repeating it changes nothing.\<close>

lemma purge_keeps_recent: "r \<in> set (purge_rows stamp c rows) \<longleftrightarrow> r \<in> set rows \<and> c \<le> stamp r"
  by (auto simp: purge_rows_def)

lemma purge_idem: "purge_rows stamp c (purge_rows stamp c rows) = purge_rows stamp c rows"
  by (simp add: purge_rows_def)

end
