(* ===== verification/Ocsf.thy ===== *)
theory Ocsf
  imports Fleet
begin

section \<open>OCSF export\<close>

text \<open>
  \<open>app/services/ocsf.py\<close>: the conversion of alerts to Detection Findings and of process events to
  Process Activity.  A source is an object with attributes (a row of the database) or a dictionary
  of the request; \<open>oc_is_dict\<close> tells which, because \<open>_attacks\<close> reads attributes only.  A timestamp
  is a Python value or a datetime: \<open>Stamp t txt\<close> is the instant \<open>t\<close> (seconds, naive read as UTC)
  with its ISO text in UTC.  Parameters: the clock \<open>now\<close> and \<open>iso_of\<close>, the ISO text of an instant
  (\<open>datetime.fromtimestamp\<close> raises out of its range).
\<close>

definition OCSF_VERSION :: string where
  "OCSF_VERSION = ''1.4.0''"

definition PRODUCT :: pydict where
  "PRODUCT = [(''name'', PStr ''Aegis Brain''), (''vendor_name'', PStr ''Aegis Ecosystem''),
     (''version'', PStr ''4.0.0''), (''feature'', PDict [(''name'', PStr ''Static + behavioral detection'')])]"

definition SEVERITY_NAMES :: "(int \<times> string) list" where
  "SEVERITY_NAMES = [(0, ''Unknown''), (1, ''Informational''), (2, ''Low''), (3, ''Medium''), (4, ''High''),
     (5, ''Critical''), (6, ''Fatal'')]"

datatype stamp =
    Value pyval
  | Stamp rat string

record ocsf_source =
  oc_is_dict :: bool
  oc_values :: pydict
  oc_time :: stamp

text \<open>The local function \<open>g\<close> and \<open>getattr(alert, name, None)\<close>.\<close>

definition oc_get :: "ocsf_source \<Rightarrow> string \<Rightarrow> pyval" where
  "oc_get x k = dict_get (oc_values x) k"

definition oc_attr :: "ocsf_source \<Rightarrow> string \<Rightarrow> pyval" where
  "oc_attr x k = (if oc_is_dict x then PNone else dict_get (oc_values x) k)"

definition entry_if :: "bool \<Rightarrow> string \<Rightarrow> pyval \<Rightarrow> pydict" where
  "entry_if b k v = (if b then [(k, v)] else [])"

subsection \<open>Times\<close>

fun number_of :: "pyval \<Rightarrow> rat option" where
  "number_of (PInt i) = Some (of_int i)"
| "number_of (PBool b) = Some (if b then 1 else 0)"
| "number_of (PFloat r t) = Some r"
| "number_of v = None"

definition ms_of :: "rat \<Rightarrow> int" where
  "ms_of t = trunc (t * 1000)"

definition iso_stamp :: "(rat \<Rightarrow> string result) \<Rightarrow> rat \<Rightarrow> stamp \<Rightarrow> string result" where
  "iso_stamp iso_of now t = (case t of
     Stamp r txt \<Rightarrow> Inr txt
   | Value PNone \<Rightarrow> iso_of now
   | Value (PStr s) \<Rightarrow> Inr s
   | Value v \<Rightarrow> (case number_of v of
       Some n \<Rightarrow> iso_of (if n \<ge> 100000000000 then n / 1000 else n)
     | None \<Rightarrow> Inl AttributeError))"

definition epoch_ms :: "rat \<Rightarrow> stamp \<Rightarrow> int" where
  "epoch_ms now t = (case t of
     Stamp r txt \<Rightarrow> ms_of r
   | Value v \<Rightarrow> (case number_of v of
       Some n \<Rightarrow> if n < 100000000000 then ms_of n else trunc n
     | None \<Rightarrow> ms_of now))"

subsection \<open>Device, severity, techniques\<close>

definition os_platform :: "string \<Rightarrow> string" where
  "os_platform low =
     (if py_in ''win'' low then ''Windows''
      else if py_in ''linux'' low \<or> py_in ''deb'' low \<or> py_in ''ubuntu'' low then ''Linux''
      else if py_in ''mac'' low \<or> py_in ''darwin'' low then ''macOS''
      else if py_in ''android'' low then ''Android''
      else if py_in ''ios'' low then ''iOS'' else low)"

definition os_object :: "string option \<Rightarrow> pydict" where
  "os_object os_type =
     (let low = lower (strip (or_str os_type [])) in
      if low = [] then [] else [(''name'', PStr (os_platform low)), (''type'', PStr low)])"

definition device :: "agent_row option \<Rightarrow> pydict" where
  "device agent = (case agent of None \<Rightarrow> []
   | Some a \<Rightarrow>
       filter (\<lambda>(k, v). v \<noteq> PNone \<and> v \<noteq> PStr [])
         ([(''hostname'', opt_str (ag_hostname a)), (''uid'', PStr (ag_agent_id a)), (''type_id'', PInt 1),
           (''type'', PStr ''Endpoint'')] @
          entry_if (truthy (ag_ip_address a)) ''ip'' (opt_str (ag_ip_address a)) @
          entry_if (os_object (ag_os_type a) \<noteq> []) ''os'' (PDict (os_object (ag_os_type a))) @
          entry_if (truthy (ag_agent_version a)) ''agent_list'' (PList [PDict
            [(''name'', PStr ''aegis-agent''), (''version'', opt_str (ag_agent_version a)), (''type_id'', PInt 1),
             (''type'', PStr ''Endpoint Detection and Response'')]])))"

text \<open>\<open>severity_to_ocsf\<close> on any value: a truthy value that is not a string has no \<open>strip\<close>.\<close>

definition severity_of :: "pyval \<Rightarrow> int result" where
  "severity_of v = (if \<not> py_truth v then Inr (severity_to_ocsf None)
     else bind_result (as_str v) (\<lambda>s. Inr (severity_to_ocsf (Some s))))"

definition attacks :: "ocsf_source \<Rightarrow> pyval list" where
  "attacks x =
     (let tid = oc_attr x ''mitre_technique_id''; tname = oc_attr x ''mitre_technique_name'';
          tactic_id = oc_attr x ''mitre_tactic_id''; tactic_name = oc_attr x ''mitre_tactic_name''
      in if \<not> (py_truth tid \<or> py_truth tactic_id) then []
         else [PDict
           (entry_if (py_truth tid) ''technique'' (PDict [(''uid'', tid), (''name'', py_or tname tid)]) @
            entry_if (py_truth tactic_id \<or> py_truth tactic_name) ''tactic''
              (PDict [(''uid'', py_or tactic_id (PStr [])),
                 (''name'', py_or tactic_name (py_or tactic_id (PStr [])))]))])"

definition parent_process :: "ocsf_source \<Rightarrow> pydict" where
  "parent_process x =
     entry_if (oc_get x ''parent_pid'' \<noteq> PNone \<or> py_truth (oc_get x ''parent_process_name'')) ''parent_process''
       (PDict (filter (\<lambda>(k, v). v \<noteq> PNone)
         [(''pid'', oc_get x ''parent_pid''), (''name'', oc_get x ''parent_process_name'')]))"

definition process_file :: "ocsf_source \<Rightarrow> pydict" where
  "process_file x =
     entry_if (oc_get x ''pid'' \<noteq> PNone) ''pid'' (oc_get x ''pid'') @
     entry_if (py_truth (oc_get x ''process_path'')) ''file''
       (PDict [(''path'', oc_get x ''process_path''), (''name'', oc_get x ''process_name'')])"

subsection \<open>Detection Finding\<close>

definition finding_info :: "ocsf_source \<Rightarrow> pydict" where
  "finding_info x =
     [(''title'', py_or (oc_get x ''description'') (py_or (oc_get x ''process_name'') (PStr ''Aegis detection''))),
      (''uid'', PStr (py_str (oc_get x ''id''))), (''types'', PList [PStr ''Detection Finding''])] @
     (let tid = oc_get x ''mitre_technique_id'' in
      entry_if (py_truth tid) ''analytic''
        (PDict [(''name'', PStr ''static-rule''), (''type_id'', PInt 1), (''type'', PStr ''Rule'')]) @
      entry_if (py_truth tid) ''related_analytics''
        (PList [PDict [(''name'', py_or (oc_get x ''description'') (PStr ''aegis-rule'')), (''uid'', tid),
           (''type_id'', PInt 1), (''type'', PStr ''Rule'')]]))"

definition finding_process :: "ocsf_source \<Rightarrow> pydict" where
  "finding_process x =
     entry_if (py_truth (oc_get x ''process_name'')) ''name'' (oc_get x ''process_name'') @
     process_file x @ parent_process x"

definition alert_to_ocsf ::
  "(rat \<Rightarrow> string result) \<Rightarrow> rat \<Rightarrow> ocsf_source \<Rightarrow> agent_row option \<Rightarrow> pydict result" where
  "alert_to_ocsf iso_of now x agent =
     bind_result (severity_of (oc_get x ''severity'')) (\<lambda>sev_id.
     bind_result (iso_stamp iso_of now (oc_time x)) (\<lambda>time_dt.
       let resolved = py_truth (oc_get x ''is_resolved'');
           uid = py_str (oc_get x ''id'');
           process = finding_process x
       in Inr
         ([(''metadata'', PDict [(''version'', PStr OCSF_VERSION), (''product'', PDict PRODUCT),
             (''event_code'', PStr ''aegis.alert''), (''log_name'', PStr ''Aegis Alerts''),
             (''log_provider'', dict_get PRODUCT ''vendor_name''), (''uid'', PStr (''aegis-alert-'' @ uid))]),
           (''class_uid'', PInt 2004), (''class_name'', PStr ''Detection Finding''),
           (''category_uid'', PInt 2), (''category_name'', PStr ''Findings''), (''activity_id'', PInt 1),
           (''activity_name'', PStr ''Create''), (''type_uid'', PInt 200401),
           (''type_name'', PStr ''Detection Finding: Create''), (''severity_id'', PInt sev_id),
           (''severity'', PStr (assoc_default ''Unknown'' sev_id SEVERITY_NAMES)),
           (''time'', PInt (epoch_ms now (oc_time x))), (''time_dt'', PStr time_dt),
           (''status_id'', PInt (if resolved then 4 else 1)),
           (''status'', PStr (if resolved then ''Resolved'' else ''New'')), (''is_alert'', PBool True),
           (''finding_info'', PDict (finding_info x)), (''device'', PDict (device agent)),
           (''timezone_offset'', PInt 0)] @
          entry_if (process \<noteq> []) ''actor'' (PDict [(''process'', PDict process)]) @
          entry_if (attacks x \<noteq> []) ''attacks'' (PList (attacks x)) @
          [(''unmapped'', PDict [(''aegis'', PDict
             ([(''event_type'', oc_get x ''event_type''),
               (''agent_id'', PStr (py_str (py_or (oc_get x ''agent_id'') (PStr [])))),
               (''resolved'', PBool resolved)] @
              (case agent of None \<Rightarrow> [] | Some a \<Rightarrow> [(''hostname'', opt_str (ag_hostname a))])))])])))"

subsection \<open>Process Activity\<close>

definition activity_of :: "string \<Rightarrow> int \<times> string" where
  "activity_of et =
     (if any_in [''TERMINATE'', ''EXIT'', ''KILL'', ''STOP''] et then (2, ''Terminate'')
      else if any_in [''CREATE'', ''START'', ''LAUNCH'', ''SPAWN'', ''EXEC''] et then (1, ''Launch'')
      else (6, ''Other''))"

definition activity_from_event_type :: "pyval \<Rightarrow> (int \<times> string) result" where
  "activity_from_event_type v = (if \<not> py_truth v then Inr (activity_of [])
     else bind_result (as_str v) (\<lambda>s. Inr (activity_of (upper s))))"

definition process_activity_to_ocsf ::
  "(rat \<Rightarrow> string result) \<Rightarrow> rat \<Rightarrow> ocsf_source \<Rightarrow> agent_row option \<Rightarrow> pydict result" where
  "process_activity_to_ocsf iso_of now x agent =
     bind_result (activity_from_event_type (oc_get x ''event_type'')) (\<lambda>(aid, aname).
     bind_result (severity_of (py_or (oc_get x ''severity'') (PStr ''INFO''))) (\<lambda>sev_id.
     bind_result (iso_stamp iso_of now (oc_time x)) (\<lambda>time_dt.
       Inr [(''metadata'', PDict [(''version'', PStr OCSF_VERSION), (''product'', PDict PRODUCT),
              (''event_code'', PStr ''aegis.process''), (''log_name'', PStr ''Aegis Process Telemetry'')]),
            (''class_uid'', PInt 1007), (''class_name'', PStr ''Process Activity''),
            (''category_uid'', PInt 1), (''category_name'', PStr ''System Activity''),
            (''activity_id'', PInt aid), (''activity_name'', PStr aname),
            (''type_uid'', PInt (1007 * 100 + aid)), (''type_name'', PStr (''Process Activity: '' @ aname)),
            (''severity_id'', PInt sev_id), (''time'', PInt (epoch_ms now (oc_time x))),
            (''time_dt'', PStr time_dt), (''device'', PDict (device agent)),
            (''actor'', PDict [(''process'', PDict
               ((''name'', py_or (oc_get x ''process_name'') (PStr ''unknown'')) # process_file x @ parent_process x))]),
            (''unmapped'', PDict [(''aegis'', PDict
               [(''event_type'', oc_get x ''event_type''),
                (''agent_id'', PStr (py_str (py_or (oc_get x ''agent_id'') (PStr []))))])])])))"

subsection \<open>The convert endpoint of \<open>app/api/v1/ocsf.py\<close>\<close>

definition source_of_dict :: "pydict \<Rightarrow> ocsf_source" where
  "source_of_dict d = \<lparr>oc_is_dict = True, oc_values = d, oc_time = Value (dict_get d ''timestamp'')\<rparr>"

definition convert_event :: "(rat \<Rightarrow> string result) \<Rightarrow> rat \<Rightarrow> string \<Rightarrow> pydict \<Rightarrow> pydict result" where
  "convert_event iso_of now kind d =
     (if kind = ''process'' then process_activity_to_ocsf iso_of now (source_of_dict d) None
      else if kind = ''alert'' then alert_to_ocsf iso_of now (source_of_dict d) None
      else Inl (OtherError ''400''))"

section \<open>What an exported finding says\<close>

text \<open>
  The shape of a converted alert (its class, severity and status fields agree with each other) and
  three places where the conversion of a request's dictionary differs from that of a row.
\<close>

lemma assoc_append: "assoc k (xs @ ys) = (case assoc k xs of None \<Rightarrow> assoc k ys | Some v \<Rightarrow> Some v)"
  by (induction xs) auto

lemma assoc_entry_if: "assoc k (entry_if b j v) = (if b \<and> k = j then Some v else None)"
  by (simp add: entry_if_def)

lemma converted_fields:
  assumes "alert_to_ocsf iso_of now x agent = Inr d"
  obtains sev t where
    "severity_of (oc_get x ''severity'') = Inr sev" "iso_stamp iso_of now (oc_time x) = Inr t"
    "assoc ''severity_id'' d = Some (PInt sev)"
    "assoc ''severity'' d = Some (PStr (assoc_default ''Unknown'' sev SEVERITY_NAMES))"
    "assoc ''time'' d = Some (PInt (epoch_ms now (oc_time x)))" "assoc ''time_dt'' d = Some (PStr t)"
    "assoc ''attacks'' d = (if attacks x \<noteq> [] then Some (PList (attacks x)) else None)"
    "assoc ''status_id'' d = Some (PInt (if py_truth (oc_get x ''is_resolved'') then 4 else 1))"
    "assoc ''status'' d = Some (PStr (if py_truth (oc_get x ''is_resolved'') then ''Resolved'' else ''New''))"
  using assms by (auto simp: alert_to_ocsf_def Let_def assoc_append assoc_entry_if)

lemma severity_range: "severity_of v = Inr n \<Longrightarrow> 0 \<le> n \<and> n \<le> 6"
proof -
  have "0 \<le> severity_to_ocsf s \<and> severity_to_ocsf s \<le> 6" for s
    by (auto simp: severity_to_ocsf_def assoc_default_def SEVERITY_IDS_def)
  then show "severity_of v = Inr n \<Longrightarrow> 0 \<le> n \<and> n \<le> 6"
    by (auto simp: severity_of_def split: if_splits)
qed

lemma severity_names_total: "0 \<le> n \<Longrightarrow> n \<le> 6 \<Longrightarrow> n \<noteq> 0 \<Longrightarrow> assoc_default ''Unknown'' n SEVERITY_NAMES \<noteq> ''Unknown''"
proof -
  assume "0 \<le> n" "n \<le> 6" "n \<noteq> 0"
  then have "n \<in> {1, 2, 3, 4, 5, 6}" by auto
  then show ?thesis by (auto simp: assoc_default_def SEVERITY_NAMES_def)
qed

text \<open>The severity name is \<open>Unknown\<close> exactly for the identifier 0.\<close>

lemma severity_fields_agree:
  assumes "alert_to_ocsf iso_of now x agent = Inr d"
  shows "assoc ''severity'' d = Some (PStr ''Unknown'') \<longleftrightarrow> assoc ''severity_id'' d = Some (PInt 0)"
proof -
  obtain sev where s: "severity_of (oc_get x ''severity'') = Inr sev"
    "assoc ''severity_id'' d = Some (PInt sev)"
    "assoc ''severity'' d = Some (PStr (assoc_default ''Unknown'' sev SEVERITY_NAMES))"
    using converted_fields [OF assms] by metis
  have "assoc_default ''Unknown'' 0 SEVERITY_NAMES = ''Unknown''"
    by (simp add: assoc_default_def SEVERITY_NAMES_def)
  then show ?thesis
    using s severity_range [OF s(1)] severity_names_total [of sev] by auto
qed

lemma attacks_of_dict: "oc_is_dict x \<Longrightarrow> attacks x = []"
  by (simp add: attacks_def oc_attr_def Let_def)

lemma attacks_of_row: "\<not> oc_is_dict x \<Longrightarrow> py_truth (oc_get x ''mitre_technique_id'') \<Longrightarrow> attacks x \<noteq> []"
  by (simp add: attacks_def oc_attr_def oc_get_def Let_def)

text \<open>
  The convert endpoint promises that an alert given as a dictionary becomes the same finding as
  the stored alert.  It does not: whatever techniques the dictionary names, the finding has no
  \<open>attacks\<close>, and a textual timestamp is kept in \<open>time_dt\<close> while \<open>time\<close> is the clock of the server.
\<close>

theorem converted_dictionary_loses:
  assumes "convert_event iso_of now ''alert'' d = Inr finding" "dict_get d ''timestamp'' = PStr s"
  shows "assoc ''attacks'' finding = None \<and> assoc ''time_dt'' finding = Some (PStr s) \<and>
    assoc ''time'' finding = Some (PInt (ms_of now))"
proof -
  have a: "alert_to_ocsf iso_of now (source_of_dict d) None = Inr finding"
    using assms by (simp add: convert_event_def)
  have "attacks (source_of_dict d) = []"
    by (rule attacks_of_dict) (simp add: source_of_dict_def)
  moreover have t: "oc_time (source_of_dict d) = Value (PStr s)"
    using assms(2) by (simp add: source_of_dict_def)
  ultimately show ?thesis
    using converted_fields [OF a] unfolding t by (auto simp: epoch_ms_def iso_stamp_def)
qed

definition sample_alert :: pydict where
  "sample_alert = [(''id'', PInt 7), (''severity'', PStr ''HIGH''), (''description'', PStr ''LSASS access''),
     (''mitre_technique_id'', PStr ''T1003''), (''timestamp'', PStr ''2026-01-01T00:00:00+00:00'')]"

theorem converted_dictionary_loses_witness:
  "\<exists>f. convert_event (\<lambda>r. Inr ''now'') 2000 ''alert'' sample_alert = Inr f \<and> assoc ''attacks'' f = None \<and>
     assoc ''time'' f = Some (PInt 2000000)"
proof -
  have "convert_event (\<lambda>r. Inr ''now'') 2000 ''alert'' sample_alert \<noteq> Inl x" for x
    by (simp add: convert_event_def alert_to_ocsf_def source_of_dict_def sample_alert_def oc_get_def dict_get_def
        severity_of_def iso_stamp_def Let_def)
  then obtain f where f: "convert_event (\<lambda>r. Inr ''now'') 2000 ''alert'' sample_alert = Inr f"
    by (metis sum.exhaust)
  have "dict_get sample_alert ''timestamp'' = PStr ''2026-01-01T00:00:00+00:00''"
    by (simp add: sample_alert_def dict_get_def)
  from converted_dictionary_loses [OF f this] have
    "assoc ''attacks'' f = None" "assoc ''time'' f = Some (PInt (ms_of 2000))" by simp_all
  moreover have "ms_of 2000 = 2000000" by (simp add: ms_of_def trunc_def)
  ultimately show ?thesis using f by auto
qed

text \<open>A row with the same values keeps its technique.\<close>

lemma row_keeps_technique:
  assumes "alert_to_ocsf iso_of now x agent = Inr d" "\<not> oc_is_dict x"
    "py_truth (oc_get x ''mitre_technique_id'')"
  shows "assoc ''attacks'' d = Some (PList (attacks x))"
  using converted_fields [OF assms(1)] attacks_of_row [OF assms(2,3)] by metis

text \<open>The name every macOS kernel reports contains \<open>win\<close>.\<close>

lemma darwin_is_windows: "os_object (Some ''Darwin'') = [(''name'', PStr ''Windows''), (''type'', PStr ''darwin'')]"
  by code_simp

end
