(* ===== verification/Incidents.thy ===== *)
theory Incidents
  imports Detection_Context Ocsf
begin

section \<open>Incidents: grouping and beacon verdicts\<close>

text \<open>
  \<open>app/services/incident_grouping.py\<close>: the similarity key of an alert, the grouping of a list of
  alerts and the verdict on the regularity of connection times.  An alert row is the record \<open>alert\<close>
  with its primary key, its resolved flag and its time; \<open>from_iso\<close> is \<open>datetime.fromisoformat\<close>.
\<close>

record alert_row = alert +
  ar_id :: int
  ar_is_resolved :: bool
  ar_time :: stamp

definition blank_alert :: alert_row where
  "blank_alert = \<lparr>al_agent_id = ''agent-1'', al_severity = ''LOW'', al_pid = None, al_parent_pid = None,
     al_parent_process_name = None, al_process_name = Some ''unknown'', al_process_path = None,
     al_event_type = Some ''PROCESS_CREATED'', al_description = [], al_mitre_tactic_id = None,
     al_mitre_technique_id = None, al_mitre_tactic_name = None, al_mitre_technique_name = None,
     al_evidence = PNone, ar_id = 1, ar_is_resolved = False, ar_time = Value PNone\<rparr>"

subsection \<open>The key\<close>

definition to_ts :: "(string \<Rightarrow> rat option) \<Rightarrow> stamp \<Rightarrow> rat" where
  "to_ts from_iso t = (case t of
     Stamp r txt \<Rightarrow> r
   | Value v \<Rightarrow> (case number_of v of
       Some n \<Rightarrow> n
     | None \<Rightarrow> if v = PNone then 0 else (case from_iso (py_str v) of None \<Rightarrow> 0 | Some r \<Rightarrow> r)))"

definition base_name :: "string option \<Rightarrow> string" where
  "base_name name = drop_ext STEM_EXTS (after_last CHR ''/'' (back_to_slash (strip (lower (or_str name [])))))"

type_synonym incident_key = "string \<times> string \<times> string \<times> int"

definition similarity_key :: "(string \<Rightarrow> rat option) \<Rightarrow> int \<Rightarrow> alert_row \<Rightarrow> incident_key" where
  "similarity_key from_iso window_min a =
     (let technique = upper (or_str (first_truthy (al_mitre_technique_id a) (al_event_type a)) ''unknown'');
          ts = to_ts from_iso (ar_time a);
          window_s = max 60 (window_min * 60);
          bucket = (if ts > 0 then \<lfloor>ts / of_int window_s\<rfloor> else 0)
      in (or_str (Some (al_agent_id a)) ''unknown'', technique, base_name (al_process_name a), bucket))"

text \<open>\<open>groups[key].append(a)\<close> on a \<open>defaultdict(list)\<close>.\<close>

definition group_add :: "('a \<Rightarrow> 'k) \<Rightarrow> 'a \<Rightarrow> ('k \<times> 'a list) list \<Rightarrow> ('k \<times> 'a list) list" where
  "group_add key a gs = assoc_put (key a) (assoc_default [] (key a) gs @ [a]) gs"

definition group_by :: "('a \<Rightarrow> 'k) \<Rightarrow> 'a list \<Rightarrow> ('k \<times> 'a list) list" where
  "group_by key xs = foldl (\<lambda>gs a. group_add key a gs) [] xs"

definition suggest_groups ::
  "(string \<Rightarrow> rat option) \<Rightarrow> alert_row list \<Rightarrow> int \<Rightarrow> (incident_key \<times> alert_row list) list" where
  "suggest_groups from_iso alerts window_min = group_by (similarity_key from_iso window_min) alerts"

text \<open>The dash is U+2014.\<close>

definition group_title :: "incident_key \<Rightarrow> string \<Rightarrow> string" where
  "group_title key hostname = (case key of (agent, technique, proc, bucket) \<Rightarrow>
     technique @ '' '' @ [CHR 0xE2, CHR 0x80, CHR 0x94] @ '' '' @ or_str (Some proc) ''unknown'' @ '' @ '' @
     or_str (Some hostname) (take 8 agent))"

subsection \<open>Beacons\<close>

record verdict =
  bv_beacon :: bool
  bv_reason :: string
  bv_avg :: rat
  bv_var :: rat
  bv_samples :: nat

definition no_beacon :: "string \<Rightarrow> nat \<Rightarrow> verdict" where
  "no_beacon reason n = \<lparr>bv_beacon = False, bv_reason = reason, bv_avg = 0, bv_var = 0, bv_samples = n\<rparr>"

definition intervals :: "rat list \<Rightarrow> rat list" where
  "intervals ts = map (\<lambda>(a, b). b - a) (zip ts (tl ts))"

definition mean :: "rat list \<Rightarrow> rat" where
  "mean xs = sum_list xs / of_nat (length xs)"

definition variance :: "rat list \<Rightarrow> rat" where
  "variance xs = mean (map (\<lambda>i. (i - mean xs) ^ 2) xs)"

definition beacon_verdict :: "rat option list \<Rightarrow> int \<Rightarrow> rat \<Rightarrow> verdict" where
  "beacon_verdict timestamps min_samples max_variance =
     (let ts = sort (List.map_filter id timestamps); n = length ts; iv = intervals ts in
      if int n < max 2 min_samples then no_beacon ''too-few-samples'' n
      else if iv = [] \<or> list_ex (\<lambda>i. i < 0) iv then no_beacon ''unordered'' n
      else if mean iv \<le> 0 then no_beacon ''zero-interval'' n
      else if variance iv < max_variance
        then \<lparr>bv_beacon = True, bv_reason = [], bv_avg = mean iv, bv_var = variance iv, bv_samples = n\<rparr>
      else \<lparr>bv_beacon = False, bv_reason = ''irregular'', bv_avg = mean iv, bv_var = variance iv, bv_samples = n\<rparr>)"

subsection \<open>Grouping loses and invents nothing\<close>

lemma assoc_group_add:
  "assoc k (group_add key a gs) = (if k = key a then Some (assoc_default [] k gs @ [a]) else assoc k gs)"
  by (simp add: group_add_def)

lemma assoc_default_group_add:
  "assoc_default [] k (group_add key a gs) = assoc_default [] k gs @ (if key a = k then [a] else [])"
  by (auto simp: assoc_default_def assoc_group_add split: option.split)

lemma group_by_snoc: "group_by key (xs @ [x]) = group_add key x (group_by key xs)"
  by (simp add: group_by_def)

lemma group_of: "assoc_default [] k (group_by key xs) = filter (\<lambda>a. key a = k) xs"
proof (induction xs rule: rev_induct)
  case Nil
  show ?case by (simp add: group_by_def assoc_default_def)
next
  case (snoc x xs)
  then show ?case by (simp add: group_by_snoc assoc_default_group_add)
qed

lemma group_keys: "set (map fst (group_by key xs)) = key ` set xs"
proof (induction xs rule: rev_induct)
  case Nil
  show ?case by (simp add: group_by_def)
next
  case (snoc x xs)
  then show ?case by (simp add: group_by_snoc group_add_def keys_assoc_put del: set_map)
qed

lemma group_keys_distinct: "distinct (map fst (group_by key xs))"
proof (induction xs rule: rev_induct)
  case Nil
  show ?case by (simp add: group_by_def)
next
  case (snoc x xs)
  then show ?case by (simp add: group_by_snoc group_add_def distinct_assoc_put)
qed

lemma assoc_of_distinct: "distinct (map fst m) \<Longrightarrow> (k, v) \<in> set m \<Longrightarrow> assoc k m = Some v"
  by (simp add: assoc_map_of)

lemma group_members:
  assumes "(k, g) \<in> set (group_by key xs)"
  shows "g = filter (\<lambda>a. key a = k) xs" "g \<noteq> []"
proof -
  have a: "assoc k (group_by key xs) = Some g"
    using assms group_keys_distinct by (metis assoc_of_distinct)
  then show g: "g = filter (\<lambda>a. key a = k) xs"
    using group_of [of k key xs] by (simp add: assoc_default_def)
  have "k \<in> key ` set xs"
    using assms group_keys [of key xs] by force
  then show "g \<noteq> []" by (auto simp: g filter_empty_conv)
qed

lemma group_split:
  assumes "distinct ks" "key ` set xs \<subseteq> set ks"
  shows "mset (concat (map (\<lambda>k. filter (\<lambda>a. key a = k) xs) ks)) = mset xs"
  using assms
proof (induction xs)
  case (Cons x xs)
  have "mset (concat (map (\<lambda>k. filter (\<lambda>a. key a = k) (x # xs)) ks)) =
      mset (concat (map (\<lambda>k. if key x = k then [x] else []) ks)) +
      mset (concat (map (\<lambda>k. filter (\<lambda>a. key a = k) xs) ks))"
    by (induction ks) auto
  moreover have "mset (concat (map (\<lambda>k. if key x = k then [x] else []) ks)) = {#x#}"
    using Cons.prems
  proof (induction ks)
    case (Cons k ks)
    show ?case
    proof (cases "key x = k")
      case True
      then have "key x \<notin> set ks" using Cons.prems by auto
      then have "concat (map (\<lambda>k. if key x = k then [x] else []) ks) = []"
        by (induction ks) auto
      then show ?thesis using True by simp
    next
      case False
      then have "key x \<in> set ks" using Cons.prems by auto
      then have "mset (concat (map (\<lambda>k. if key x = k then [x] else []) ks)) = {#x#}"
        using Cons.prems(1)
        by (induction ks) (auto intro!: arg_cong [where f = "\<lambda>z. add_mset x z"] simp: concat_eq_Nil_conv)
      then show ?thesis using False by simp
    qed
  qed simp
  ultimately show ?case using Cons by simp
qed simp

lemma group_by_mset: "mset (concat (map snd (group_by key xs))) = mset xs"
proof -
  have "map snd (group_by key xs) = map (\<lambda>k. filter (\<lambda>a. key a = k) xs) (map fst (group_by key xs))"
    using group_members [of _ _ key xs] by (auto intro!: map_cong)
  then show ?thesis
    using group_split [OF group_keys_distinct, of key xs key xs] group_keys [of key xs]
    by (metis order_refl)
qed

section \<open>Incidents: triage\<close>

text \<open>
  \<open>app/api/v1/incidents.py\<close> over the tables it touches: alerts, agents, users, incidents, the links
  between incidents and alerts, and the audit log.  A request is a function from the tables to its
  answer and the tables it leaves; \<open>HTTPException\<close> is \<open>Inl\<close> with its status, and the session it
  abandons leaves the tables as they were.  \<open>now\<close> is the clock of the request and \<open>to_iso\<close> the text
  of an instant; a query without \<open>ORDER BY\<close> answers in table order.
\<close>

definition INCIDENT_STATUSES :: "string list" where
  "INCIDENT_STATUSES = [''open'', ''investigating'', ''contained'', ''resolved'', ''closed'']"

definition SEVERITY_RANK :: "(string \<times> int) list" where
  "SEVERITY_RANK = [(''LOW'', 0), (''MEDIUM'', 1), (''HIGH'', 2), (''CRITICAL'', 3)]"

record incident =
  in_id :: int
  in_title :: string
  in_severity :: string
  in_status :: string
  in_assignee_id :: "int option"
  in_agent_id :: "string option"
  in_created_by :: int
  in_created_at :: rat
  in_updated_at :: rat
  in_resolved_at :: "rat option"

record user_row =
  us_id :: int
  us_username :: string
  us_role :: "string option"

record audit_row =
  au_action :: string
  au_resource :: string
  au_resource_id :: "string option"
  au_details :: pydict
  au_user :: int
  au_username :: string

record tables =
  tb_alerts :: "alert_row list"
  tb_agents :: "agent_row list"
  tb_users :: "user_row list"
  tb_incidents :: "incident list"
  tb_links :: "(int \<times> int) list"
  tb_next :: int
  tb_audit :: "audit_row list"

text \<open>Roles: \<open>(user.role or "user").lower()\<close>.\<close>

definition role_in :: "string list \<Rightarrow> user_row \<Rightarrow> bool" where
  "role_in roles u = List.member roles (lower (or_str (us_role u) ''user''))"

definition http :: "string \<Rightarrow> exn" where
  "http status = OtherError status"

definition log_audit ::
  "user_row \<Rightarrow> string \<Rightarrow> string \<Rightarrow> string option \<Rightarrow> pydict \<Rightarrow> tables \<Rightarrow> tables" where
  "log_audit u action resource resource_id details s =
     s\<lparr>tb_audit := tb_audit s @ [\<lparr>au_action = action, au_resource = resource,
        au_resource_id = (if truthy resource_id then resource_id else None), au_details = details,
        au_user = us_id u, au_username = us_username u\<rparr>]\<rparr>"

subsection \<open>Rows\<close>

definition user_of :: "tables \<Rightarrow> int \<Rightarrow> user_row option" where
  "user_of s i = find_first (\<lambda>u. us_id u = i) (tb_users s)"

definition incident_of :: "tables \<Rightarrow> int \<Rightarrow> incident option" where
  "incident_of s i = find_first (\<lambda>n. in_id n = i) (tb_incidents s)"

definition agent_of :: "tables \<Rightarrow> string \<Rightarrow> agent_row option" where
  "agent_of s a = find_first (\<lambda>g. ag_agent_id g = a) (tb_agents s)"

definition linked_alerts :: "tables \<Rightarrow> int \<Rightarrow> alert_row list" where
  "linked_alerts s i = filter (\<lambda>a. List.member (tb_links s) (i, ar_id a)) (tb_alerts s)"

text \<open>A flushed update stamps \<open>updated_at\<close> when a column changed.\<close>

definition put_incident :: "rat \<Rightarrow> incident \<Rightarrow> tables \<Rightarrow> tables" where
  "put_incident now inc s =
     s\<lparr>tb_incidents := map (\<lambda>old. if in_id old \<noteq> in_id inc then old
        else if inc = old then old else inc\<lparr>in_updated_at := now\<rparr>) (tb_incidents s)\<rparr>"

definition add_incident :: "rat \<Rightarrow> incident \<Rightarrow> alert_row list \<Rightarrow> tables \<Rightarrow> tables" where
  "add_incident now inc alerts s =
     s\<lparr>tb_incidents := tb_incidents s @
          [inc\<lparr>in_id := tb_next s, in_created_at := now, in_updated_at := now\<rparr>],
       tb_links := tb_links s @ map (\<lambda>a. (tb_next s, ar_id a)) alerts,
       tb_next := tb_next s + 1\<rparr>"

definition new_incident :: "string \<Rightarrow> string \<Rightarrow> int option \<Rightarrow> string option \<Rightarrow> int \<Rightarrow> incident" where
  "new_incident title severity assignee agent creator =
     \<lparr>in_id = 0, in_title = title, in_severity = severity, in_status = ''open'', in_assignee_id = assignee,
      in_agent_id = agent, in_created_by = creator, in_created_at = 0, in_updated_at = 0, in_resolved_at = None\<rparr>"

subsection \<open>Severity of a group\<close>

definition rank_of :: "string \<Rightarrow> int" where
  "rank_of sev = assoc_default 0 (upper sev) SEVERITY_RANK"

fun severity_scan :: "alert_row list \<Rightarrow> string \<times> int \<Rightarrow> string" where
  "severity_scan [] (best, rank) = best"
| "severity_scan (a # as) (best, rank) =
     severity_scan as
       (if rank_of (al_severity a) > rank
        then (upper (or_str (Some (al_severity a)) ''MEDIUM''), rank_of (al_severity a)) else (best, rank))"

definition severity_of_alerts :: "alert_row list \<Rightarrow> string" where
  "severity_of_alerts alerts = severity_scan alerts (''MEDIUM'', - 1)"

subsection \<open>The answer\<close>

definition opt_iso :: "(rat \<Rightarrow> string) \<Rightarrow> rat option \<Rightarrow> pyval" where
  "opt_iso to_iso t = (case t of None \<Rightarrow> PNone | Some r \<Rightarrow> PStr (to_iso r))"

definition time_iso :: "(rat \<Rightarrow> string) \<Rightarrow> stamp \<Rightarrow> pyval" where
  "time_iso to_iso t = (case t of Stamp r txt \<Rightarrow> PStr (to_iso r) | Value v \<Rightarrow> PNone)"

definition timeline_entry :: "(rat \<Rightarrow> string) \<Rightarrow> alert_row \<Rightarrow> pyval" where
  "timeline_entry to_iso a = PDict
     [(''id'', PInt (ar_id a)), (''timestamp'', time_iso to_iso (ar_time a)), (''severity'', PStr (al_severity a)),
      (''process_name'', opt_str (al_process_name a)), (''event_type'', opt_str (al_event_type a)),
      (''description'', PStr (clip 300 (al_description a))), (''is_resolved'', PBool (ar_is_resolved a))]"

definition by_time :: "(string \<Rightarrow> rat option) \<Rightarrow> alert_row list \<Rightarrow> alert_row list" where
  "by_time from_iso = sort_key (\<lambda>a. to_ts from_iso (ar_time a))"

definition incident_out ::
  "(string \<Rightarrow> rat option) \<Rightarrow> (rat \<Rightarrow> string) \<Rightarrow> tables \<Rightarrow> incident \<Rightarrow> pydict" where
  "incident_out from_iso to_iso s inc =
     (let alerts = by_time from_iso (linked_alerts s (in_id inc));
          assignee = (case in_assignee_id inc of
              Some i \<Rightarrow> if i = 0 then PNone
                else (case user_of s i of None \<Rightarrow> PNone | Some u \<Rightarrow> PStr (us_username u))
            | None \<Rightarrow> PNone)
      in [(''id'', PInt (in_id inc)), (''title'', PStr (in_title inc)), (''severity'', PStr (in_severity inc)),
          (''status'', PStr (in_status inc)), (''assignee_id'', opt_int (in_assignee_id inc)),
          (''assignee'', assignee), (''agent_id'', opt_str (in_agent_id inc)),
          (''alert_count'', PInt (int (length alerts))), (''created_at'', PStr (to_iso (in_created_at inc))),
          (''updated_at'', PStr (to_iso (in_updated_at inc))), (''resolved_at'', opt_iso to_iso (in_resolved_at inc)),
          (''timeline'', PList (map (timeline_entry to_iso) alerts))])"

subsection \<open>Requests\<close>

type_synonym 'a answer = "tables \<Rightarrow> 'a result \<times> tables"

definition OPERATORS :: "string list" where
  "OPERATORS = [''admin'', ''analyst'']"

definition list_incidents :: "string option \<Rightarrow> nat \<Rightarrow> tables \<Rightarrow> incident list result" where
  "list_incidents status limit s =
     (let newest = rev (sort_key in_updated_at (rev (tb_incidents s))) in
      if truthy status \<and> \<not> List.member INCIDENT_STATUSES (text_of status) then Inl (http ''400'')
      else Inr (take limit
        (if truthy status then filter (\<lambda>i. in_status i = text_of status) newest else newest)))"

definition missing_assignee :: "tables \<Rightarrow> int option \<Rightarrow> bool" where
  "missing_assignee s a = (case a of None \<Rightarrow> False | Some i \<Rightarrow> i \<noteq> 0 \<and> user_of s i = None)"

definition common_agent :: "alert_row list \<Rightarrow> string option" where
  "common_agent alerts = (case alerts of [] \<Rightarrow> None
     | a # as \<Rightarrow> if list_all (\<lambda>b. al_agent_id b = al_agent_id a) as then Some (al_agent_id a) else None)"

definition create_incident ::
  "rat \<Rightarrow> user_row \<Rightarrow> string \<Rightarrow> int list \<Rightarrow> int option \<Rightarrow> int answer" where
  "create_incident now u title alert_ids assignee s =
     (if \<not> role_in OPERATORS u then (Inl (http ''403''), s)
      else let alerts = filter (\<lambda>a. List.member alert_ids (ar_id a)) (tb_alerts s) in
        if alert_ids \<noteq> [] \<and> length alerts \<noteq> card (set alert_ids) then (Inl (http ''400''), s)
        else if missing_assignee s assignee then (Inl (http ''400''), s)
        else let inc = new_incident title (if alerts \<noteq> [] then severity_of_alerts alerts else ''MEDIUM'')
                         assignee (common_agent alerts) (us_id u);
                 s1 = add_incident now inc alerts s
             in (Inr (tb_next s),
                 log_audit u ''incident_create'' ''incident'' (Some (show_int (tb_next s)))
                   [(''title'', PStr title), (''alerts'', PInt (int (length alerts)))] s1))"

record patch =
  pt_title :: "string option"
  pt_status :: "string option"
  pt_assignee_id :: "int option"
  pt_note :: "string option"

definition patched :: "rat \<Rightarrow> patch \<Rightarrow> incident \<Rightarrow> incident" where
  "patched now p inc =
     (let i1 = (case pt_title p of None \<Rightarrow> inc | Some t \<Rightarrow> inc\<lparr>in_title := t\<rparr>);
          i2 = (case pt_status p of None \<Rightarrow> i1
            | Some st \<Rightarrow> i1\<lparr>in_status := st,
                in_resolved_at := (if List.member [''resolved'', ''closed''] st then Some now else None)\<rparr>)
      in case pt_assignee_id p of None \<Rightarrow> i2
       | Some i \<Rightarrow> i2\<lparr>in_assignee_id := (if i = 0 then None else Some i)\<rparr>)"

definition update_incident :: "rat \<Rightarrow> user_row \<Rightarrow> int \<Rightarrow> patch \<Rightarrow> unit answer" where
  "update_incident now u i p s =
     (if \<not> role_in OPERATORS u then (Inl (http ''403''), s)
      else case incident_of s i of
        None \<Rightarrow> (Inl (http ''404''), s)
      | Some inc \<Rightarrow>
          if (case pt_status p of None \<Rightarrow> False | Some st \<Rightarrow> \<not> List.member INCIDENT_STATUSES st)
          then (Inl (http ''400''), s)
          else if missing_assignee s (pt_assignee_id p) then (Inl (http ''400''), s)
          else let inc1 = patched now p inc;
                   details = [(''status'', PStr (in_status inc1)), (''assignee_id'', opt_int (in_assignee_id inc1))] @
                     (if truthy (pt_note p) then [(''note'', PStr (clip 2000 (text_of (pt_note p))))] else [])
               in (Inr (), log_audit u (if truthy (pt_note p) then ''incident_note'' else ''incident_update'')
                     ''incident'' (Some (show_int i)) details (put_incident now inc1 s)))"

definition attach_alerts :: "rat \<Rightarrow> user_row \<Rightarrow> int \<Rightarrow> int list \<Rightarrow> nat answer" where
  "attach_alerts now u i alert_ids s =
     (if \<not> role_in OPERATORS u then (Inl (http ''403''), s)
      else case incident_of s i of
        None \<Rightarrow> (Inl (http ''404''), s)
      | Some inc \<Rightarrow>
          (let ids = take 500 alert_ids;
               fresh = filter (\<lambda>a. List.member ids (ar_id a) \<and> \<not> List.member (tb_links s) (i, ar_id a)) (tb_alerts s);
               s1 = s\<lparr>tb_links := tb_links s @ map (\<lambda>a. (i, ar_id a)) fresh\<rparr>;
               s2 = put_incident now (inc\<lparr>in_severity := severity_of_alerts (linked_alerts s1 i)\<rparr>) s1
           in (Inr (length fresh),
               log_audit u ''incident_attach'' ''incident'' (Some (show_int i))
                 [(''added'', PInt (int (length fresh)))] s2)))"

subsection \<open>Automatic grouping\<close>

definition AUTO_GROUP_LIMIT :: nat where
  "AUTO_GROUP_LIMIT = 1000"

definition is_linked :: "tables \<Rightarrow> alert_row \<Rightarrow> bool" where
  "is_linked s a \<longleftrightarrow> list_ex (\<lambda>(i, j). j = ar_id a) (tb_links s)"

definition ungrouped :: "(string \<Rightarrow> rat option) \<Rightarrow> tables \<Rightarrow> alert_row list" where
  "ungrouped from_iso s =
     filter (\<lambda>a. \<not> is_linked s a)
       (take AUTO_GROUP_LIMIT (by_time from_iso (filter (\<lambda>a. \<not> ar_is_resolved a) (tb_alerts s))))"

definition group_incident :: "user_row \<Rightarrow> tables \<Rightarrow> incident_key \<Rightarrow> alert_row list \<Rightarrow> incident" where
  "group_incident u s key alerts =
     new_incident
       (group_title key (case agent_of s (al_agent_id (hd alerts)) of None \<Rightarrow> [] | Some g \<Rightarrow> or_str (ag_hostname g) []))
       (severity_of_alerts alerts) None (Some (fst key)) (us_id u)"

definition auto_group :: "(string \<Rightarrow> rat option) \<Rightarrow> rat \<Rightarrow> int \<Rightarrow> user_row \<Rightarrow> nat answer" where
  "auto_group from_iso now window_min u s =
     (if \<not> role_in OPERATORS u then (Inl (http ''403''), s)
      else let groups = suggest_groups from_iso (ungrouped from_iso s) window_min;
               s1 = foldl (\<lambda>t (key, alerts). add_incident now (group_incident u t key alerts) alerts t) s groups
           in (Inr (length groups),
               log_audit u ''incident_autogroup'' ''incident'' None
                 [(''created'', PInt (int (length groups))), (''window_min'', PInt window_min)] s1))"

end
