(* ===== verification/Incident_Properties.thy ===== *)
theory Incident_Properties
  imports Incidents
begin

section \<open>What grouping promises\<close>

text \<open>
  The severity of an incident is that of its worst alert; an automatic grouping puts every alert it
  selects into exactly one new incident and touches nothing else; it selects among the oldest
  unresolved alerts only, so that a backlog of alerts already grouped keeps the later ones out.
\<close>

subsection \<open>Severity\<close>

lemma severity_scan_worst:
  assumes "\<forall>a \<in> set alerts. al_severity a \<noteq> []"
  shows "(\<forall>a \<in> set alerts. rank_of (al_severity a) \<le> rank) \<and> severity_scan alerts (best, rank) = best \<or>
    (\<exists>a \<in> set alerts. severity_scan alerts (best, rank) = upper (al_severity a) \<and> rank < rank_of (al_severity a) \<and>
       (\<forall>b \<in> set alerts. rank_of (al_severity b) \<le> rank_of (al_severity a)))"
  using assms
proof (induction alerts arbitrary: best rank)
  case (Cons x xs)
  show ?case
  proof (cases "rank < rank_of (al_severity x)")
    case True
    have "\<forall>a \<in> set xs. al_severity a \<noteq> []" "al_severity x \<noteq> []" using Cons.prems by auto
    with Cons.IH [where best = "upper (al_severity x)" and rank = "rank_of (al_severity x)"] True
    show ?thesis by (simp; meson less_imp_le less_trans order.trans order_refl)
  next
    case False
    have "\<forall>a \<in> set xs. al_severity a \<noteq> []" using Cons.prems by auto
    with Cons.IH [where best = best and rank = rank] False
    show ?thesis by (simp; meson less_imp_le linorder_not_less order.trans)
  qed
qed simp

lemma rank_nonneg: "0 \<le> rank_of x"
  by (simp add: rank_of_def assoc_default_def SEVERITY_RANK_def)

lemma incident_severity_is_worst:
  assumes "alerts \<noteq> []" "\<forall>a \<in> set alerts. al_severity a \<noteq> []"
  shows "\<exists>a \<in> set alerts. severity_of_alerts alerts = upper (al_severity a) \<and>
    (\<forall>b \<in> set alerts. rank_of (al_severity b) \<le> rank_of (al_severity a))"
proof -
  have "\<exists>a \<in> set alerts. \<not> rank_of (al_severity a) \<le> - 1"
    using assms(1) rank_nonneg by (cases alerts) (auto simp: not_le intro: order.strict_trans2 [of "- 1" 0])
  then show ?thesis
    using severity_scan_worst [OF assms(2), of "- 1" "''MEDIUM''"] by (auto simp: severity_of_alerts_def)
qed

subsection \<open>Automatic grouping\<close>

definition new_links :: "int \<Rightarrow> (incident_key \<times> alert_row list) list \<Rightarrow> (int \<times> int) list" where
  "new_links n groups =
     concat (map (\<lambda>(i, key, alerts). map (\<lambda>a. (i, ar_id a)) alerts) (zip [n..n + int (length groups) - 1] groups))"

lemma fold_groups:
  "tb_links (foldl (\<lambda>t (key, alerts). add_incident now (f t key alerts) alerts t) s groups) =
     tb_links s @ new_links (tb_next s) groups \<and>
   tb_alerts (foldl (\<lambda>t (key, alerts). add_incident now (f t key alerts) alerts t) s groups) = tb_alerts s"
proof (induction groups arbitrary: s)
  case Nil
  show ?case by (simp add: new_links_def)
next
  case (Cons g groups)
  have "[tb_next s..tb_next s + int (length (g # groups)) - 1] =
      tb_next s # [tb_next s + 1..(tb_next s + 1) + int (length groups) - 1]"
    by (subst upto.simps) simp
  then have "new_links (tb_next s) (g # groups) =
      map (\<lambda>a. (tb_next s, ar_id a)) (snd g) @ new_links (tb_next s + 1) groups"
    by (simp add: new_links_def split: prod.split)
  then show ?case
    using Cons.IH by (cases g) (simp add: add_incident_def)
qed

lemma new_links_alerts: "map snd (new_links n groups) = map ar_id (concat (map snd groups))"
proof (induction groups arbitrary: n)
  case Nil
  show ?case by (simp add: new_links_def)
next
  case (Cons g groups)
  have "[n..n + int (length (g # groups)) - 1] = n # [n + 1..(n + 1) + int (length groups) - 1]"
    by (subst upto.simps) simp
  then have "new_links n (g # groups) = map (\<lambda>a. (n, ar_id a)) (snd g) @ new_links (n + 1) groups"
    by (simp add: new_links_def split: prod.split)
  then show ?case using Cons.IH by (cases g) simp
qed

lemma auto_group_links:
  assumes "auto_group from_iso now w u s = (Inr n, s1)"
  shows "tb_links s1 = tb_links s @ new_links (tb_next s) (suggest_groups from_iso (ungrouped from_iso s) w)"
    "tb_alerts s1 = tb_alerts s" "n = length (suggest_groups from_iso (ungrouped from_iso s) w)"
  using assms fold_groups
  by (auto simp: auto_group_def Let_def log_audit_def split: if_splits)

lemma suggested_mset: "mset (concat (map snd (suggest_groups from_iso xs w))) = mset xs"
  by (simp add: suggest_groups_def group_by_mset)

lemma suggested_nil: "suggest_groups from_iso [] w = []"
  by (simp add: suggest_groups_def group_by_def)


definition analyst :: user_row where
  "analyst = \<lparr>us_id = 1, us_username = ''ann'', us_role = Some ''analyst''\<rparr>"

definition empty_tables :: tables where
  "empty_tables = \<lparr>tb_alerts = [], tb_agents = [], tb_users = [analyst], tb_incidents = [], tb_links = [],
     tb_next = 1, tb_audit = []\<rparr>"

definition two_alerts :: "alert_row list" where
  "two_alerts = [blank_alert\<lparr>ar_id := 1, al_severity := ''HIGH'', ar_time := Stamp 100 []\<rparr>,
     blank_alert\<lparr>ar_id := 2, ar_time := Stamp 101 []\<rparr>]"


text \<open>
  The limit is applied before the alerts that are already grouped are dropped: once the thousand oldest
  unresolved alerts belong to incidents, automatic grouping creates nothing, however many
  later alerts belong to none.
\<close>

theorem grouped_backlog_starves_grouping:
  assumes "role_in OPERATORS u"
    "\<forall>a \<in> set (take AUTO_GROUP_LIMIT (by_time from_iso (filter (\<lambda>a. \<not> ar_is_resolved a) (tb_alerts s)))). is_linked s a"
  shows "fst (auto_group from_iso now w u s) = Inr 0 \<and> tb_links (snd (auto_group from_iso now w u s)) = tb_links s"
proof -
  have "ungrouped from_iso s = []"
    using assms(2) by (simp add: ungrouped_def filter_empty_conv)
  then show ?thesis
    using assms(1) by (simp add: auto_group_def suggested_nil log_audit_def)
qed

text \<open>The backlog: a thousand grouped alerts and a later one that no incident holds.\<close>

definition old_alert :: "int \<Rightarrow> alert_row" where
  "old_alert i = blank_alert\<lparr>ar_id := i, ar_time := Stamp 1 []\<rparr>"

definition late_alert :: alert_row where
  "late_alert = blank_alert\<lparr>ar_id := 1001, al_severity := ''CRITICAL'', ar_time := Stamp 2 []\<rparr>"

definition backlog :: tables where
  "backlog = empty_tables\<lparr>tb_alerts := map old_alert [1..1000] @ [late_alert],
     tb_links := map (\<lambda>i. (1, i)) [1..1000]\<rparr>"

lemma sort_key_sorted: "sorted (map f xs) \<Longrightarrow> sort_key f xs = xs"
proof (induction xs)
  case (Cons x xs)
  then show ?case by (cases xs) auto
qed simp

lemma backlog_head:
  "take AUTO_GROUP_LIMIT (by_time (\<lambda>t. None) (filter (\<lambda>a. \<not> ar_is_resolved a) (tb_alerts backlog))) = map old_alert [1..1000]"
proof -
  have rows: "tb_alerts backlog = map old_alert [1..1000] @ [late_alert]"
    by (simp add: backlog_def)
  have unres: "filter (\<lambda>a. \<not> ar_is_resolved a) (tb_alerts backlog) = tb_alerts backlog"
    unfolding rows by (simp add: filter_map o_def old_alert_def late_alert_def blank_alert_def)
  have "sorted (map (\<lambda>a. to_ts (\<lambda>t. None) (ar_time a)) (tb_alerts backlog))"
    unfolding rows by (simp add: sorted_append o_def old_alert_def late_alert_def to_ts_def map_replicate_const)
  then show ?thesis
    unfolding unres by_time_def by (simp add: sort_key_sorted rows AUTO_GROUP_LIMIT_def)
qed

theorem grouped_backlog_starves_grouping_witness:
  "late_alert \<in> set (tb_alerts backlog) \<and> \<not> is_linked backlog late_alert \<and>
     fst (auto_group (\<lambda>t. None) 9 30 analyst backlog) = Inr 0"
proof -
  have op: "role_in OPERATORS analyst" by code_simp
  have linked: "is_linked backlog a \<longleftrightarrow> ar_id a \<in> {1..1000}" for a
    by (auto simp: is_linked_def backlog_def list_ex_iff)
  have "\<forall>a \<in> set (take AUTO_GROUP_LIMIT (by_time (\<lambda>t. None) (filter (\<lambda>a. \<not> ar_is_resolved a) (tb_alerts backlog)))).
      is_linked backlog a"
    unfolding backlog_head linked by (auto simp: old_alert_def)
  from grouped_backlog_starves_grouping [OF op this] show ?thesis
    unfolding linked by (simp add: late_alert_def) (simp add: backlog_def late_alert_def)
qed

end
