(* ===== verification/Access.thy ===== *)
theory Access
  imports Incidents Redis_Interface
begin

section \<open>Authentication and authorisation\<close>

text \<open>
  \<open>app/core/deps.py\<close> (roles, tokens of users), \<open>app/core/security.py\<close> (revoked tokens, throttled
  logins), \<open>app/core/agent_deps.py\<close> and \<open>app/services/mtls.py\<close> (secret and certificate of an agent),
  \<open>app/services/pki.py\<close> (the list of revocations and the checks on a certificate) and
  \<open>app/core/age_validation.py\<close>.  Cryptography is a parameter: decoding a token, verifying a password,
  reading a certificate and checking its signature.  A refused request is \<open>Inl (http status)\<close>.
\<close>

subsection \<open>Roles\<close>

definition ROLE_PERMISSIONS :: "(string \<times> string list) list" where
  "ROLE_PERMISSIONS =
    [(''viewer'', [''read'']), (''user'', [''read'']), (''auditor'', [''read'', ''audit'']),
     (''responder'', [''read'', ''respond'']),
     (''analyst'', [''read'', ''audit'', ''respond'', ''triage'', ''deploy'', ''rules'']),
     (''admin'', [''read'', ''audit'', ''respond'', ''triage'', ''deploy'', ''rules'', ''manage''])]"

definition KNOWN_ROLES :: "string list" where
  "KNOWN_ROLES = map fst ROLE_PERMISSIONS"

definition permissions_of :: "string \<Rightarrow> string list" where
  "permissions_of role = assoc_default [] role ROLE_PERMISSIONS"

definition has_perm :: "string option \<Rightarrow> string \<Rightarrow> bool" where
  "has_perm role perm = List.member (permissions_of (lower (or_str role []))) perm"

definition role_text :: "user_row \<Rightarrow> string" where
  "role_text u = lower (or_str (us_role u) ''user'')"

definition require_perm :: "string list \<Rightarrow> user_row \<Rightarrow> user_row result" where
  "require_perm perms u =
     (if list_ex (List.member perms) (permissions_of (role_text u)) then Inr u else Inl (http ''403''))"

definition require_roles :: "string list \<Rightarrow> user_row \<Rightarrow> user_row result" where
  "require_roles roles u = (if List.member (map lower roles) (role_text u) then Inr u else Inl (http ''403''))"

subsection \<open>Tokens of users\<close>

record account = user_row +
  ac_active :: bool

text \<open>\<open>None\<close> is a missing header or cookie.\<close>

definition extract_token :: "string option \<Rightarrow> string option \<Rightarrow> string option" where
  "extract_token authorization cookie =
     (if truthy authorization \<and> startswith (text_of authorization) ''Bearer '' then Some (drop 7 (text_of authorization))
      else if truthy cookie then cookie else None)"

definition blacklist_key :: "string \<Rightarrow> string" where
  "blacklist_key jti = ''bl:'' @ jti"

text \<open>Revoking is fail-closed, and so is the question whether a token was revoked.\<close>

definition blacklist_token :: "'s redis \<Rightarrow> int \<Rightarrow> string \<Rightarrow> int \<Rightarrow> 's \<Rightarrow> bool \<times> 's" where
  "blacklist_token R now jti expires s =
     (let ttl = max 0 (expires - now) in
      if ttl \<le> 0 then (True, s)
      else (case rd_setex R s (blacklist_key jti) ttl ''1'' of (Inl x, s1) \<Rightarrow> (False, s1) | (Inr _, s1) \<Rightarrow> (True, s1)))"

definition is_token_blacklisted :: "'s redis \<Rightarrow> pyval \<Rightarrow> 's \<Rightarrow> bool \<times> 's" where
  "is_token_blacklisted R jti s =
     (if \<not> py_truth jti then (True, s)
      else (case rd_exists R s (blacklist_key (py_str jti)) of (Inl x, s1) \<Rightarrow> (True, s1) | (Inr b, s1) \<Rightarrow> (b, s1)))"

definition validate_token ::
  "'s redis \<Rightarrow> (string \<Rightarrow> pydict option) \<Rightarrow> account list \<Rightarrow> string \<Rightarrow> 's \<Rightarrow> account result \<times> 's" where
  "validate_token R decode accounts token s =
     (case decode token of None \<Rightarrow> (Inl (http ''401''), s)
      | Some payload \<Rightarrow>
          if payload = [] then (Inl (http ''401''), s)
          else (case is_token_blacklisted R (dict_get payload ''jti'') s of (b, s1) \<Rightarrow>
            (if b then Inl (http ''401'')
             else if \<not> py_truth (dict_get payload ''sub'') then Inl (http ''401'')
             else (case py_int (dict_get payload ''sub'') of
                     Inl x \<Rightarrow> Inl x
                   | Inr i \<Rightarrow> (case find_first (\<lambda>u. us_id u = i) accounts of
                       None \<Rightarrow> Inl (http ''401'')
                     | Some u \<Rightarrow> if ac_active u then Inr u else Inl (http ''401''))), s1)))"

definition get_current_user ::
  "'s redis \<Rightarrow> (string \<Rightarrow> pydict option) \<Rightarrow> account list \<Rightarrow> string option \<Rightarrow> string option \<Rightarrow> 's \<Rightarrow> account result \<times> 's" where
  "get_current_user R decode accounts authorization cookie s =
     (let token = extract_token authorization cookie in
      if \<not> truthy token then (Inl (http ''401''), s) else validate_token R decode accounts (text_of token) s)"

fun is_http :: "exn \<Rightarrow> bool" where
  "is_http (OtherError st) = True"
| "is_http x = False"

definition get_optional_user ::
  "'s redis \<Rightarrow> (string \<Rightarrow> pydict option) \<Rightarrow> account list \<Rightarrow> string option \<Rightarrow> string option \<Rightarrow> 's \<Rightarrow> account option result \<times> 's" where
  "get_optional_user R decode accounts authorization cookie s =
     (let token = extract_token authorization cookie in
      if \<not> truthy token then (Inr None, s)
      else (case validate_token R decode accounts (text_of token) s of
              (Inr u, s1) \<Rightarrow> (Inr (Some u), s1)
            | (Inl x, s1) \<Rightarrow> (if is_http x then Inr None else Inl x, s1)))"

definition verify_api_key :: "string \<Rightarrow> string option \<Rightarrow> string result" where
  "verify_api_key expected given =
     (if expected = [] then Inl (http ''500'')
      else if \<not> truthy given \<or> text_of given \<noteq> expected then Inl (http ''403'')
      else Inr (text_of given))"

text \<open>The throttle of logins counts the failures of an address and fails open.\<close>

definition LOGIN_FAIL_MAX :: int where "LOGIN_FAIL_MAX = 10"
definition LOGIN_FAIL_WINDOW_S :: int where "LOGIN_FAIL_WINDOW_S = 900"

definition login_key :: "string option \<Rightarrow> string" where
  "login_key email = ''rl:loginfail:'' @ strip (lower (or_str email []))"

definition login_throttled :: "'s redis \<Rightarrow> string option \<Rightarrow> 's \<Rightarrow> bool \<times> 's" where
  "login_throttled R email s = (case rd_get R s (login_key email) of
     (Inl x, s1) \<Rightarrow> (False, s1)
   | (Inr n, s1) \<Rightarrow> (case read_int (or_str n ''0'') of None \<Rightarrow> False | Some i \<Rightarrow> LOGIN_FAIL_MAX \<le> i, s1))"

definition record_login_failure :: "'s redis \<Rightarrow> string option \<Rightarrow> 's \<Rightarrow> 's" where
  "record_login_failure R email s = (case rd_incr R s (login_key email) of
     (Inl x, s1) \<Rightarrow> s1
   | (Inr n, s1) \<Rightarrow> if n = 1 then snd (rd_expire R s1 (login_key email) LOGIN_FAIL_WINDOW_S) else s1)"

definition clear_login_failures :: "'s redis \<Rightarrow> string option \<Rightarrow> 's \<Rightarrow> 's" where
  "clear_login_failures R email s = snd (rd_delete R s (login_key email))"

subsection \<open>Revocations\<close>

text \<open>
  \<open>RevokeList\<close>: entries in memory and a file of lines.  \<open>None\<close> is a file that cannot be read; a
  missing file is an empty one.
\<close>

record revoke_list =
  rl_entries :: "string list"
  rl_load_error :: bool

definition clean_entry :: "string \<Rightarrow> string" where
  "clean_entry line = lower (strip line)"

definition load_revocations :: "string list option \<Rightarrow> revoke_list" where
  "load_revocations f = (case f of
     None \<Rightarrow> \<lparr>rl_entries = [], rl_load_error = True\<rparr>
   | Some ls \<Rightarrow> \<lparr>rl_entries = filter (\<lambda>e. e \<noteq> []) (map clean_entry ls), rl_load_error = False\<rparr>)"

text \<open>\<open>None\<close> is \<open>PkiUnavailable\<close>.\<close>

definition require_healthy :: "revoke_list \<Rightarrow> unit option" where
  "require_healthy rl = (if rl_load_error rl then None else Some ())"

text \<open>\<open>revoke\<close>: the outcome, the list, the file; \<open>writable\<close> tells whether the append succeeds.\<close>

datatype revoked = Revoked | Unavailable | Empty_entry

definition revoke :: "bool \<Rightarrow> string \<Rightarrow> revoke_list \<Rightarrow> string list option \<Rightarrow> revoked \<times> revoke_list \<times> string list option" where
  "revoke writable entry rl f =
     (let e = clean_entry entry; rl1 = rl\<lparr>rl_entries := rl_entries rl @ [e]\<rparr> in
      if e = [] then (Empty_entry, rl, f)
      else if \<not> writable then (Unavailable, rl1, f)
      else (Revoked, rl1, map_option (\<lambda>ls. ls @ [e]) f))"

definition is_revoked :: "revoke_list \<Rightarrow> string \<Rightarrow> bool" where
  "is_revoked rl entry = List.member (rl_entries rl) (clean_entry entry)"

definition agent_revoked :: "revoke_list \<Rightarrow> string \<Rightarrow> bool" where
  "agent_revoked rl agent = is_revoked rl (''agent:'' @ agent)"

definition serial_entries :: "revoke_list \<Rightarrow> string list" where
  "serial_entries rl = filter (\<lambda>e. \<not> startswith e ''agent:'') (rl_entries rl)"

text \<open>The cache is rebuilt from the database, which has the last word.\<close>

definition rebuild_from_db :: "bool \<Rightarrow> string list \<Rightarrow> revoke_list \<Rightarrow> string list option \<Rightarrow> unit option \<times> revoke_list \<times> string list option" where
  "rebuild_from_db writable db rl f =
     (let new = remdups (map clean_entry (filter (\<lambda>e. e \<noteq> []) db)) in
      if writable then (Some (), \<lparr>rl_entries = new, rl_load_error = False\<rparr>, Some (str_sort new)) else (None, rl, f))"

subsection \<open>Certificates\<close>

record cert =
  ct_issuer :: string
  ct_cn :: "string option"
  ct_serial :: string
  ct_from :: rat
  ct_to :: rat

text \<open>
  \<open>ae_load_cert\<close> is \<open>load_pem_x509_certificate\<close>, \<open>ae_ca\<close> the subject of the CA (\<open>None\<close> when its file
  cannot be read), \<open>ae_signed\<close> the check of a signature (\<open>None\<close> for an exception other than
  \<open>InvalidSignature\<close>), \<open>ae_der_pem\<close> the conversion of a base64 text, \<open>ae_file\<close> the file of revocations.
\<close>

record auth_env =
  ae_uuid_of :: "string \<Rightarrow> string option"
  ae_verify_password :: "string \<Rightarrow> string \<Rightarrow> bool"
  ae_mode :: "string option"
  ae_ca :: "string option"
  ae_load_cert :: "string \<Rightarrow> cert option"
  ae_signed :: "cert \<Rightarrow> bool option"
  ae_der_pem :: "string \<Rightarrow> string option"
  ae_file :: "string list option"
  ae_now :: rat

definition verify_device_cert :: "auth_env \<Rightarrow> string \<Rightarrow> string \<Rightarrow> string \<Rightarrow> string list \<Rightarrow> bool \<times> string" where
  "verify_device_cert env ca pem agent serials =
     (case ae_load_cert env pem of None \<Rightarrow> (False, ''certificato illeggibile'')
      | Some c \<Rightarrow>
          if ct_issuer c \<noteq> ca then (False, ''issuer diverso dalla CA'')
          else (case ae_signed env c of
            None \<Rightarrow> (False, ''verifica firma impossibile'')
          | Some False \<Rightarrow> (False, ''firma CA non valida'')
          | Some True \<Rightarrow>
              if \<not> (ct_from c \<le> ae_now env \<and> ae_now env \<le> ct_to c) then (False, ''fuori finestra'')
              else (case ct_cn c of
                None \<Rightarrow> (False, ''CN assente'')
              | Some cn \<Rightarrow>
                  if strip cn \<noteq> strip agent then (False, ''CN diverso dall'' @ [CHR 0x27] @ ''agent_id'')
                  else if List.member serials (ct_serial c) then (False, ''certificato revocato'')
                  else (True, []))))"

text \<open>\<open>verify_agent_cert\<close>; \<open>None\<close> is \<open>PkiUnavailable\<close>.\<close>

definition verify_agent_cert :: "auth_env \<Rightarrow> string \<Rightarrow> string \<Rightarrow> (bool \<times> string) option" where
  "verify_agent_cert env agent pem =
     (case ae_ca env of None \<Rightarrow> None
      | Some ca \<Rightarrow>
          (let rl = load_revocations (ae_file env) in
           case require_healthy rl of None \<Rightarrow> None
           | Some _ \<Rightarrow>
               if agent_revoked rl agent then Some (False, ''agent revocato'')
               else Some (verify_device_cert env ca pem agent (serial_entries rl))))"

subsection \<open>Certificates in headers\<close>

type_synonym headers = "(string \<times> string) list"

definition raw_header :: "headers \<Rightarrow> string \<Rightarrow> string option" where
  "raw_header h name = (case assoc name h of
     Some v \<Rightarrow> Some v
   | None \<Rightarrow> (case assoc (upper name) h of
       Some v \<Rightarrow> Some v
     | None \<Rightarrow> assoc name (rev (map (\<lambda>(k, v). (lower k, v)) h))))"

definition CERT_HEADER :: string where "CERT_HEADER = ''x-client-cert''"
definition DER_HEADER :: string where "DER_HEADER = ''x-client-cert-der''"
definition HASH_HEADER :: string where "HASH_HEADER = ''x-client-cert-hash''"
definition MAX_PEM_BYTES :: nat where "MAX_PEM_BYTES = 8192"

definition header_text :: "string \<Rightarrow> string" where
  "header_text raw = strip_chars [CHR 0x27] (strip_chars [CHR 0x22] (strip raw))"

definition base64_char :: "char \<Rightarrow> bool" where
  "base64_char c \<longleftrightarrow> is_alnum c \<or> c \<in> set ''+/=''"

text \<open>One header: \<open>Inl\<close> is the \<open>UnicodeEncodeError\<close> of a text with characters outside ASCII, \<open>Inr None\<close> goes on.\<close>

definition cert_in :: "auth_env \<Rightarrow> string option \<Rightarrow> string option result" where
  "cert_in env raw =
     (if \<not> truthy raw then Inr None
      else let text = header_text (text_of raw); compact = filter (\<lambda>c. \<not> is_space c) text in
        if text = [] \<or> length text > MAX_PEM_BYTES then Inr None
        else if py_in ''BEGIN CERTIFICATE'' text
          then (if list_all (\<lambda>c. code c < 128) text then Inr (Some text) else Inl (ValueError ''ascii''))
        else if 500 \<le> length compact \<and> length compact \<le> 20000 \<and> list_all base64_char compact
          then Inr (ae_der_pem env compact)
        else Inr None)"

definition extract_client_cert :: "auth_env \<Rightarrow> headers \<Rightarrow> string option result" where
  "extract_client_cert env h =
     bind_result (cert_in env (raw_header h CERT_HEADER)) (\<lambda>r. case r of
       Some pem \<Rightarrow> Inr (Some pem)
     | None \<Rightarrow> cert_in env (raw_header h DER_HEADER))"

definition hex_char :: "char \<Rightarrow> bool" where
  "hex_char c \<longleftrightarrow> c \<in> set ''0123456789abcdef''"

definition extract_cert_hash :: "headers \<Rightarrow> string option" where
  "extract_cert_hash h = (let raw = raw_header h HASH_HEADER; text = lower (strip (text_of raw)) in
     if truthy raw \<and> length text = 64 \<and> list_all hex_char text then Some text else None)"

definition header_present :: "headers \<Rightarrow> bool" where
  "header_present h \<longleftrightarrow> raw_header h CERT_HEADER \<noteq> None \<or> raw_header h DER_HEADER \<noteq> None"

definition mtls_mode :: "auth_env \<Rightarrow> string" where
  "mtls_mode env = (let mode = lower (strip (or_str (ae_mode env) ''off'')) in
     if List.member [''off'', ''optional'', ''required''] mode then mode else ''off'')"

definition enforce :: "auth_env \<Rightarrow> headers \<Rightarrow> string \<Rightarrow> bool \<Rightarrow> string option result" where
  "enforce env h agent bootstrap =
     (if mtls_mode env = ''off'' then Inr None
      else bind_result (extract_client_cert env h) (\<lambda>pem. case pem of
        None \<Rightarrow>
          if header_present h then Inl (http ''401'')
          else if mtls_mode env = ''required'' \<and> \<not> bootstrap then Inl (http ''401'')
          else Inr (Some (if mtls_mode env = ''optional'' then ''no-cert-optional'' else ''bootstrap-no-cert''))
      | Some p \<Rightarrow> (case verify_agent_cert env agent p of
            None \<Rightarrow> Inl (http ''503'')
          | Some (ok, reason) \<Rightarrow> if ok then Inr (Some ''cert-ok'') else Inl (http ''401''))))"

text \<open>The fingerprint the server wrote is ASCII, so \<open>compare_digest\<close> is equality.\<close>

definition bound_fingerprint :: "agent_row \<Rightarrow> pyval" where
  "bound_fingerprint g = (case ag_meta g of PDict d \<Rightarrow> dict_get d ''device_cert_sha256'' | _ \<Rightarrow> PNone)"

definition enforce_fingerprint :: "auth_env \<Rightarrow> agent_row \<Rightarrow> headers \<Rightarrow> string result" where
  "enforce_fingerprint env g h =
     (case extract_cert_hash h of None \<Rightarrow> Inl (http ''401'')
      | Some given \<Rightarrow>
          let expected = bound_fingerprint g in
          if \<not> py_truth expected \<or> given \<noteq> lower (py_str expected) then Inl (http ''401'')
          else let rl = load_revocations (ae_file env) in
            (case require_healthy rl of None \<Rightarrow> Inl (http ''503'')
             | Some _ \<Rightarrow> if agent_revoked rl (ag_agent_id g) then Inl (http ''401'') else Inr ''fingerprint-ok''))"

subsection \<open>Agents\<close>

record enrolled = agent_row +
  en_token_hash :: "string option"

text \<open>\<open>None\<close>: the table of revocations cannot be read.\<close>

definition verify_agent_secret ::
  "auth_env \<Rightarrow> string \<Rightarrow> string \<Rightarrow> enrolled list \<Rightarrow> string list option \<Rightarrow> enrolled result" where
  "verify_agent_secret env x_agent_id authorization agents rows =
     (if \<not> startswith authorization ''Bearer '' then Inl (http ''401'')
      else case ae_uuid_of env x_agent_id of None \<Rightarrow> Inl (http ''401'')
      | Some uid \<Rightarrow>
          (case find_first (\<lambda>g. ag_agent_id g = uid) agents of None \<Rightarrow> Inl (http ''401'')
           | Some g \<Rightarrow>
               if \<not> truthy (en_token_hash g) then Inl (http ''401'')
               else if \<not> ae_verify_password env (drop 7 authorization) (text_of (en_token_hash g)) then Inl (http ''401'')
               else (case rows of None \<Rightarrow> Inr g
                     | Some rs \<Rightarrow> if List.member rs uid then Inl (http ''403'') else Inr g)))"

definition cert_headers :: "headers \<Rightarrow> string option \<Rightarrow> headers" where
  "cert_headers h x_client_cert = (if truthy x_client_cert then assoc_put CERT_HEADER (text_of x_client_cert) h else h)"

definition accepted :: "'a result \<Rightarrow> unit result" where
  "accepted r = bind_result r (\<lambda>x. Inr ())"

definition apply_agent_mtls :: "auth_env \<Rightarrow> agent_row \<Rightarrow> headers \<Rightarrow> string option \<Rightarrow> bool \<Rightarrow> unit result" where
  "apply_agent_mtls env g req x_client_cert bootstrap =
     (if mtls_mode env = ''off'' then Inr ()
      else let h = cert_headers req x_client_cert in
        bind_result (extract_client_cert env h) (\<lambda>pem.
          if pem \<noteq> None \<or> header_present h then accepted (enforce env h (ag_agent_id g) bootstrap)
          else if extract_cert_hash h \<noteq> None then accepted (enforce_fingerprint env g h)
          else accepted (enforce env h (ag_agent_id g) bootstrap)))"

definition agent_auth ::
  "auth_env \<Rightarrow> bool \<Rightarrow> string \<Rightarrow> string \<Rightarrow> string option \<Rightarrow> headers \<Rightarrow> enrolled list \<Rightarrow> string list option \<Rightarrow> enrolled result" where
  "agent_auth env bootstrap x_agent_id authorization x_client_cert req agents rows =
     bind_result (verify_agent_secret env x_agent_id authorization agents rows) (\<lambda>g.
       bind_result (apply_agent_mtls env (agent_row.truncate g) req x_client_cert bootstrap) (\<lambda>_. Inr g))"

definition get_current_agent ::
  "auth_env \<Rightarrow> string \<Rightarrow> string \<Rightarrow> string option \<Rightarrow> headers \<Rightarrow> enrolled list \<Rightarrow> string list option \<Rightarrow> enrolled result" where
  "get_current_agent env = agent_auth env False"

definition get_bootstrap_agent ::
  "auth_env \<Rightarrow> string \<Rightarrow> string \<Rightarrow> string option \<Rightarrow> headers \<Rightarrow> enrolled list \<Rightarrow> string list option \<Rightarrow> enrolled result" where
  "get_bootstrap_agent env = agent_auth env True"

subsection \<open>The age of an event\<close>

text \<open>\<open>float(raw)\<close>.\<close>

datatype float_value = Fin rat | Pos_inf | Neg_inf | Nan

definition MAX_AGE_SECONDS :: rat where "MAX_AGE_SECONDS = 604800"

definition AGE_HEADERS :: "string list" where
  "AGE_HEADERS = [''age'', ''x-event-age'', ''x-created-at'', ''x-event-timestamp'']"

text \<open>The dictionary of lower-case names keeps the last value of a name.\<close>

definition age_header :: "headers \<Rightarrow> string option" where
  "age_header h = (let d = rev (map (\<lambda>(k, v). (lower k, v)) h) in
     case find_first (\<lambda>n. assoc n d \<noteq> None) AGE_HEADERS of None \<Rightarrow> None | Some n \<Rightarrow> assoc n d)"

definition check_unix_age :: "rat \<Rightarrow> rat option \<Rightarrow> rat \<Rightarrow> unit result" where
  "check_unix_age now event age =
     (if age > now + 60 \<or> age < now - MAX_AGE_SECONDS then Inl (http ''400'')
      else case event of None \<Rightarrow> Inr ()
      | Some t \<Rightarrow> let delta = now - t in
          if \<bar>delta - (now - age)\<bar> > 300 \<and> \<bar>delta\<bar> > MAX_AGE_SECONDS then Inl (http ''400'') else Inr ())"

definition check_age :: "rat \<Rightarrow> rat option \<Rightarrow> rat \<Rightarrow> unit result" where
  "check_age now event age = (case event of None \<Rightarrow> Inr ()
     | Some t \<Rightarrow> let event_age = now - t in
         if \<bar>event_age - age\<bar> > max 60 (\<bar>age\<bar> * (1 / 10)) \<and> \<bar>event_age - age\<bar> > 3600 then Inl (http ''400'') else Inr ())"

definition validate_age_header ::
  "(string \<Rightarrow> float_value option) \<Rightarrow> rat \<Rightarrow> headers \<Rightarrow> rat option \<Rightarrow> unit result" where
  "validate_age_header to_float now h event =
     (case age_header h of None \<Rightarrow> Inr ()
      | Some raw \<Rightarrow> (case to_float raw of
            Some (Fin age) \<Rightarrow>
              if 0 \<le> age \<and> age \<le> MAX_AGE_SECONDS then check_age now event age
              else if age > 1000000000 then check_unix_age now event age
              else Inl (http ''400'')
          | _ \<Rightarrow> Inl (http ''400'')))"

end
