(* ===== verification/Enrollment.thy ===== *)
theory Enrollment
  imports Access
begin

section \<open>Enrollment of agents\<close>

text \<open>
  \<open>consume_enroll_token\<close> of \<open>app/services/enrollment.py\<close> and the routes of \<open>app/api/v1/enroll.py\<close>:
  enrolling, signing a certificate request, revoking.  The state \<open>enroll_db\<close> holds the rows of tokens,
  agents and revocations, the file of revocations, the cache of secrets in Redis and the audit log.  A request
  that ends in an exception leaves the rows as they were.  \<open>sha256\<close>, the secrets, the hash of a password
  and the signing of a request are parameters.
\<close>

record enroll_token =
  et_hash :: string
  et_agent_type :: string
  et_expires_at :: "rat option"
  et_used_at :: "rat option"
  et_used_by_hostname :: "string option"
  et_used_agent_types :: "string list option"
  et_revoked :: bool

subsection \<open>Consuming a token\<close>

definition BOTH_TYPES :: "string list" where
  "BOTH_TYPES = [''aegis-guard'', ''nodetrace'']"

definition live_token :: "rat \<Rightarrow> enroll_token \<Rightarrow> bool" where
  "live_token now t \<longleftrightarrow> \<not> et_revoked t \<and> (case et_expires_at t of None \<Rightarrow> False | Some e \<Rightarrow> now < e)"

definition allowed_types :: "enroll_token \<Rightarrow> string \<Rightarrow> string list" where
  "allowed_types t agent_type = (if et_agent_type t \<noteq> ''both'' then [agent_type] else BOTH_TYPES)"

definition used_types :: "enroll_token \<Rightarrow> string list" where
  "used_types t = (case et_used_agent_types t of None \<Rightarrow> [] | Some us \<Rightarrow> us)"

text \<open>\<open>sorted(set)\<close> of the types used so far and this one.\<close>

definition mark_used :: "rat \<Rightarrow> string \<Rightarrow> string \<Rightarrow> enroll_token \<Rightarrow> enroll_token" where
  "mark_used now agent_type hostname t =
     (let us = str_sort (remdups (agent_type # used_types t)) in
      t\<lparr>et_used_agent_types := Some us,
        et_used_at := (if set (allowed_types t agent_type) \<subseteq> set us then Some now else None),
        et_used_by_hostname := Some (clip 255 hostname)\<rparr>)"

definition check_token :: "rat \<Rightarrow> string \<Rightarrow> enroll_token option \<Rightarrow> enroll_token result" where
  "check_token now agent_type row =
     (case row of None \<Rightarrow> Inl (http ''403'')
      | Some t \<Rightarrow>
          if \<not> live_token now t then Inl (http ''403'')
          else if \<not> List.member (allowed_types t agent_type) agent_type then Inl (http ''403'')
          else if List.member (used_types t) agent_type then Inl (http ''403'')
          else Inr t)"

definition consume_enroll_token ::
  "(string \<Rightarrow> string) \<Rightarrow> rat \<Rightarrow> string \<Rightarrow> string \<Rightarrow> string \<Rightarrow> enroll_token list \<Rightarrow> enroll_token result \<times> enroll_token list" where
  "consume_enroll_token sha256 now raw agent_type hostname ts =
     (let digest = sha256 (strip raw) in
      case check_token now agent_type (find_first (\<lambda>t. et_hash t = digest) ts) of
        Inl x \<Rightarrow> (Inl x, ts)
      | Inr t \<Rightarrow> (let t1 = mark_used now agent_type hostname t in
          (Inr t1, map (\<lambda>r. if et_hash r = digest then t1 else r) ts)))"

subsection \<open>The routes\<close>

record enroll_db =
  ed_tokens :: "enroll_token list"
  ed_agents :: "enrolled list"
  ed_revoked :: "string list"
  ed_file :: "string list option"
  ed_cache :: "(string \<times> string) list"
  ed_audit :: "(string \<times> string \<times> pydict) list"

text \<open>
  \<open>en_fresh\<close>: the new identifier and the new secret; \<open>en_cache_ok\<close>: whether Redis takes the cache entry;
  \<open>en_sign\<close>: \<open>sign_csr\<close> with the certificate, its serial number and fingerprint (\<open>None\<close> is \<open>ValueError\<close>);
  \<open>en_pki_ok\<close>: whether the CA can be created and loaded; \<open>en_writable\<close>: whether the file of revocations takes a line.
\<close>

record enroll_env =
  en_key :: string
  en_sha256 :: "string \<Rightarrow> string"
  en_hash :: "string \<Rightarrow> string"
  en_now :: rat
  en_fresh :: "string \<times> string"
  en_cache_ok :: bool
  en_uuid_of :: "string \<Rightarrow> string option"
  en_sign :: "string \<Rightarrow> string \<Rightarrow> (string \<times> string \<times> string) option"
  en_pki_ok :: bool
  en_writable :: bool

record enroll_request =
  er_hostname :: string
  er_os :: string
  er_enroll_key :: string
  er_agent_type :: string

type_synonym 'a enroll_answer = "enroll_db \<Rightarrow> 'a result \<times> enroll_db"

text \<open>\<open>compare_digest\<close> is equality on ASCII texts; it raises for others, which no key of the settings is.\<close>

definition valid_static :: "enroll_env \<Rightarrow> enroll_request \<Rightarrow> bool" where
  "valid_static env q \<longleftrightarrow> en_key env \<noteq> [] \<and> strip (er_enroll_key q) = en_key env"

definition same_host :: "enroll_request \<Rightarrow> enrolled \<Rightarrow> bool" where
  "same_host q g \<longleftrightarrow> ag_hostname g = Some (er_hostname q) \<and> ag_os_type g = Some (er_os q)"

definition cache_secret :: "enroll_env \<Rightarrow> string \<Rightarrow> enroll_db \<Rightarrow> enroll_db" where
  "cache_secret env agent d = (if en_cache_ok env
     then d\<lparr>ed_cache := assoc_put (''auth:agent:'' @ en_sha256 env (snd (en_fresh env))) agent (ed_cache d)\<rparr> else d)"

definition new_enrolled :: "enroll_env \<Rightarrow> enroll_request \<Rightarrow> enrolled" where
  "new_enrolled env q = agent_row.extend
     (blank_agent\<lparr>ag_agent_id := fst (en_fresh env), ag_hostname := Some (er_hostname q), ag_os_type := Some (er_os q),
        ag_agent_type := Some (er_agent_type q)\<rparr>)
     (enrolled.fields (Some (en_hash env (snd (en_fresh env)))))"

definition revoked_anywhere :: "enroll_db \<Rightarrow> string \<Rightarrow> bool result" where
  "revoked_anywhere d agent =
     (let rl = load_revocations (ed_file d) in
      case require_healthy rl of None \<Rightarrow> Inl (http ''503'')
      | Some _ \<Rightarrow> Inr (agent_revoked rl agent \<or> List.member (ed_revoked d) agent))"

text \<open>The answer of an enrollment: the agent, its secret, the status.\<close>

definition admit :: "enroll_env \<Rightarrow> enroll_request \<Rightarrow> (string \<times> string \<times> string) enroll_answer" where
  "admit env q d =
     (let secret = snd (en_fresh env) in
      case find_first (same_host q) (ed_agents d) of
        Some g \<Rightarrow>
          (case revoked_anywhere d (ag_agent_id g) of
             Inl x \<Rightarrow> (Inl x, d)
           | Inr True \<Rightarrow> (Inl (http ''403''), d)
           | Inr False \<Rightarrow> (Inr (ag_agent_id g, secret, ''re-enrolled''),
               cache_secret env (ag_agent_id g)
                 (d\<lparr>ed_agents := map (\<lambda>b. if ag_agent_id b = ag_agent_id g
                      then g\<lparr>en_token_hash := Some (en_hash env secret)\<rparr> else b) (ed_agents d)\<rparr>)))
      | None \<Rightarrow> (Inr (fst (en_fresh env), secret, ''enrolled''),
          cache_secret env (fst (en_fresh env)) (d\<lparr>ed_agents := ed_agents d @ [new_enrolled env q]\<rparr>)))"

definition enroll_agent :: "enroll_env \<Rightarrow> enroll_request \<Rightarrow> (string \<times> string \<times> string) enroll_answer" where
  "enroll_agent env q d =
     (if valid_static env q then admit env q d
      else case consume_enroll_token (en_sha256 env) (en_now env) (er_enroll_key q) (er_agent_type q) (er_hostname q) (ed_tokens d) of
        (Inl x, ts) \<Rightarrow> (Inl x, d)
      | (Inr t, ts) \<Rightarrow> (case admit env q (d\<lparr>ed_tokens := ts\<rparr>) of
            (Inl x, d1) \<Rightarrow> (Inl x, d)
          | (Inr r, d1) \<Rightarrow> (Inr r, d1)))"

definition put_enrolled :: "enrolled \<Rightarrow> enroll_db \<Rightarrow> enroll_db" where
  "put_enrolled g d = d\<lparr>ed_agents := map (\<lambda>b. if ag_agent_id b = ag_agent_id g then g else b) (ed_agents d)\<rparr>"

definition bind_fingerprint :: "string \<Rightarrow> pyval \<Rightarrow> pyval" where
  "bind_fingerprint fp meta =
     PDict (assoc_put ''device_cert_sha256'' (PStr fp) (case meta of PDict m \<Rightarrow> m | _ \<Rightarrow> []))"

definition sign_device_csr :: "enroll_env \<Rightarrow> enrolled \<Rightarrow> string \<Rightarrow> (string \<times> string \<times> string) enroll_answer" where
  "sign_device_csr env g csr d =
     (let rl = load_revocations (ed_file d) in
      if \<not> en_pki_ok env \<or> require_healthy rl = None then (Inl (http ''503''), d)
      else if agent_revoked rl (ag_agent_id g) then (Inl (http ''403''), d)
      else (case en_sign env csr (ag_agent_id g) of
          None \<Rightarrow> (Inl (http ''400''), d)
        | Some (pem, serial, fp) \<Rightarrow>
            (Inr (pem, serial, fp),
             (put_enrolled (g\<lparr>ag_meta := bind_fingerprint fp (ag_meta g)\<rparr>) d)
               \<lparr>ed_audit := ed_audit d @ [(''device_cert_issue'', ag_agent_id g, [(''serial'', PStr serial), (''fingerprint'', PStr fp)])]\<rparr>)))"

text \<open>A revocation that the file does not take is rolled back.\<close>

definition revoke_agent :: "enroll_env \<Rightarrow> user_row \<Rightarrow> string \<Rightarrow> string \<Rightarrow> unit enroll_answer" where
  "revoke_agent env u agent_id reason d =
     (if \<not> role_in OPERATORS u then (Inl (http ''403''), d)
      else case en_uuid_of env agent_id of None \<Rightarrow> (Inl (http ''400''), d)
      | Some uid \<Rightarrow> (case find_first (\<lambda>g. ag_agent_id g = uid) (ed_agents d) of
          None \<Rightarrow> (Inl (http ''404''), d)
        | Some g \<Rightarrow>
            (case revoke (en_writable env) (''agent:'' @ uid) (load_revocations (ed_file d)) (ed_file d) of
               (Revoked, rl, f) \<Rightarrow>
                 (Inr (), (put_enrolled (g\<lparr>en_token_hash := Some (en_hash env (snd (en_fresh env)))\<rparr>) d)
                    \<lparr>ed_revoked := ed_revoked d @ [uid], ed_file := f,
                     ed_audit := ed_audit d @ [(''agent_revoke'', uid, [(''hostname'', opt_str (ag_hostname g)), (''reason'', PStr reason)])]\<rparr>)
             | (r, rl, f) \<Rightarrow> (Inl (http ''503''), d))))"

definition certificate_status :: "enroll_env \<Rightarrow> string \<Rightarrow> enroll_db \<Rightarrow> bool result" where
  "certificate_status env agent_id d =
     (case en_uuid_of env agent_id of None \<Rightarrow> Inl (http ''400'')
      | Some uid \<Rightarrow> Inr (agent_revoked (load_revocations (ed_file d)) uid \<or> List.member (ed_revoked d) uid))"

subsection \<open>Tokens\<close>

fun consume_all ::
  "(string \<Rightarrow> string) \<Rightarrow> rat \<Rightarrow> string \<Rightarrow> (string \<times> string) list \<Rightarrow> enroll_token list \<Rightarrow> enroll_token result list \<times> enroll_token list" where
  "consume_all sha now raw [] ts = ([], ts)"
| "consume_all sha now raw ((ty, host) # qs) ts =
     (case consume_enroll_token sha now raw ty host ts of (r, ts1) \<Rightarrow>
        (case consume_all sha now raw qs ts1 of (rs, ts2) \<Rightarrow> (r # rs, ts2)))"

definition token_at :: "string \<Rightarrow> enroll_token list \<Rightarrow> enroll_token option" where
  "token_at digest ts = find_first (\<lambda>t. et_hash t = digest) ts"

lemma mark_used_facts [simp]:
  "et_hash (mark_used now ty h t) = et_hash t" "et_agent_type (mark_used now ty h t) = et_agent_type t"
  "et_expires_at (mark_used now ty h t) = et_expires_at t" "et_revoked (mark_used now ty h t) = et_revoked t"
  "set (used_types (mark_used now ty h t)) = insert ty (set (used_types t))"
  by (auto simp: mark_used_def used_types_def Let_def split: option.splits)

lemma live_mark_used [simp]: "live_token now (mark_used now' ty h t) = live_token now t"
  by (simp add: live_token_def)

lemma token_at_put:
  "token_at digest ts = Some t \<Longrightarrow> et_hash u = digest \<Longrightarrow>
     token_at digest (map (\<lambda>r. if et_hash r = digest then u else r) ts) = Some u"
  unfolding token_at_def by (induction ts) (auto split: if_splits)

lemma token_at_hash: "token_at digest ts = Some t \<Longrightarrow> et_hash t = digest"
  unfolding token_at_def using find_first_Some by fastforce

lemma consume_step:
  assumes "token_at (sha (strip raw)) ts = Some t"
  shows "consume_enroll_token sha now raw ty host ts =
    (case check_token now ty (Some t) of Inl x \<Rightarrow> (Inl x, ts)
     | Inr t' \<Rightarrow> (Inr (mark_used now ty host t), map (\<lambda>r. if et_hash r = sha (strip raw) then mark_used now ty host t else r) ts))"
  using assms by (simp add: consume_enroll_token_def token_at_def Let_def check_token_def)

lemma consume_keeps_token:
  assumes "token_at (sha (strip raw)) ts = Some t" "consume_enroll_token sha now raw ty host ts = (r, ts1)"
  shows "token_at (sha (strip raw)) ts1 = Some (if is_ok r then mark_used now ty host t else t)"
proof -
  note c = consume_step [where sha = sha and raw = raw, OF assms(1), of now ty host]
  show ?thesis
  proof (cases "check_token now ty (Some t)")
    case (Inl x)
    then show ?thesis using c assms by auto
  next
    case (Inr t')
    then show ?thesis using c assms token_at_put [OF assms(1)] token_at_hash [OF assms(1)] by auto
  qed
qed

text \<open>
  A token made for one type of agent does not limit the type at all, since the requested type
  is compared with itself: the same token enrolls an agent for every list of different type names, without
  a bound.
\<close>

theorem single_type_token_is_unbounded:
  assumes "token_at (sha (strip raw)) ts = Some t" "live_token now t" "et_agent_type t \<noteq> ''both''"
    "distinct (map fst qs)" "set (map fst qs) \<inter> set (used_types t) = {}"
  shows "list_all is_ok (fst (consume_all sha now raw qs ts)) \<and> length (fst (consume_all sha now raw qs ts)) = length qs"
  using assms
proof (induction qs arbitrary: ts t)
  case (Cons q qs)
  obtain ty host where q: "q = (ty, host)" by (cases q)
  have ok: "check_token now ty (Some t) = Inr t"
    using Cons.prems q by (simp add: check_token_def allowed_types_def)
  obtain ts1 where c: "consume_enroll_token sha now raw ty host ts = (Inr (mark_used now ty host t), ts1)"
    using consume_step [where sha = sha and raw = raw, OF Cons.prems(1), of now ty host] ok by simp
  have t1: "token_at (sha (strip raw)) ts1 = Some (mark_used now ty host t)"
    using consume_keeps_token [where sha = sha and raw = raw, OF Cons.prems(1) c] by simp
  have "set (map fst qs) \<inter> set (used_types (mark_used now ty host t)) = {}"
    using Cons.prems(4,5) q by auto
  from Cons.IH [where ts = ts1, OF t1 _ _ _ this] show ?case
    using Cons.prems q c by (simp add: case_prod_beta)
qed simp

definition guard_token :: enroll_token where
  "guard_token = \<lparr>et_hash = ''secret'', et_agent_type = ''aegis-guard'', et_expires_at = Some 100, et_used_at = None,
     et_used_by_hostname = None, et_used_agent_types = None, et_revoked = False\<rparr>"

lemma single_type_token_is_unbounded_witness:
  "list_all is_ok (fst (consume_all id 5 ''secret'' [(''nodetrace'', ''a''), (''x1'', ''b''), (''x2'', ''c'')] [guard_token])) \<and>
   length (fst (consume_all id 5 ''secret'' [(''nodetrace'', ''a''), (''x1'', ''b''), (''x2'', ''c'')] [guard_token])) = 3"
proof -
  let ?qs = "[(''nodetrace'', ''a''), (''x1'', ''b''), (''x2'', ''c'')]"
  have a: "token_at (id (strip ''secret'')) [guard_token] = Some guard_token" by code_simp
  have l: "live_token 5 guard_token" by (simp add: live_token_def guard_token_def)
  have b: "et_agent_type guard_token \<noteq> ''both''" by code_simp
  have d: "distinct (map fst ?qs)" "set (map fst ?qs) \<inter> set (used_types guard_token) = {}"
    by (simp_all add: guard_token_def used_types_def)
  show ?thesis using single_type_token_is_unbounded [where sha = id and raw = "''secret''", OF a l b d] by simp
qed



subsection \<open>Revocation\<close>

text \<open>The gateway (\<open>RedisService.getAgentIdBySecret\<close> of the link service) asks the cache which agent a secret belongs to.\<close>

definition gateway_agent :: "(string \<Rightarrow> string) \<Rightarrow> string \<Rightarrow> enroll_db \<Rightarrow> string option" where
  "gateway_agent sha256 secret d =
     (if all_space secret then None else assoc (''auth:agent:'' @ sha256 (strip secret)) (ed_cache d))"

lemma revoke_agent_effect:
  assumes "revoke_agent env u agent_id reason d = (Inr (), d1)"
  shows "\<exists>uid g. en_uuid_of env agent_id = Some uid \<and> find_first (\<lambda>g. ag_agent_id g = uid) (ed_agents d) = Some g \<and>
     ed_revoked d1 = ed_revoked d @ [uid] \<and> ed_cache d1 = ed_cache d \<and>
     map ag_agent_id (ed_agents d1) = map ag_agent_id (ed_agents d) \<and>
     ed_agents d1 = map (\<lambda>b. if ag_agent_id b = uid then g\<lparr>en_token_hash := Some (en_hash env (snd (en_fresh env)))\<rparr> else b) (ed_agents d)"
proof -
  obtain uid g where ug: "en_uuid_of env agent_id = Some uid" "find_first (\<lambda>g. ag_agent_id g = uid) (ed_agents d) = Some g"
    using assms by (auto simp: revoke_agent_def split: if_splits option.splits)
  have id: "ag_agent_id g = uid" using find_first_Some [OF ug(2)] by simp
  show ?thesis
    using assms ug id
    by (auto simp: revoke_agent_def put_enrolled_def split: if_splits prod.splits revoked.splits)
qed


definition demo_enrolled :: enrolled where
  "demo_enrolled = agent_row.extend (blank_agent\<lparr>ag_agent_id := ''u1'', ag_hostname := Some ''web'', ag_os_type := Some ''linux''\<rparr>)
     (enrolled.fields (Some ''H''))"

definition demo_db :: enroll_db where
  "demo_db = \<lparr>ed_tokens = [guard_token], ed_agents = [demo_enrolled], ed_revoked = [], ed_file = Some [],
     ed_cache = [(''auth:agent:stolen'', ''u1'')], ed_audit = []\<rparr>"

definition demo_enroll :: enroll_env where
  "demo_enroll = \<lparr>en_key = ''static'', en_sha256 = id, en_hash = id, en_now = 5, en_fresh = (''u2'', ''fresh''),
     en_cache_ok = True, en_uuid_of = Some, en_sign = (\<lambda>_ _. None), en_pki_ok = True, en_writable = True\<rparr>"

definition demo_auth :: auth_env where
  "demo_auth = \<lparr>ae_uuid_of = Some, ae_verify_password = (\<lambda>p h. p = h), ae_mode = Some ''required'', ae_ca = Some ''CA'',
     ae_load_cert = (\<lambda>pem. Some \<lparr>ct_issuer = ''CA'', ct_cn = Some ''u1'', ct_serial = ''2a'', ct_from = 0, ct_to = 9\<rparr>),
     ae_signed = (\<lambda>_. Some True), ae_der_pem = (\<lambda>_. None), ae_file = Some [], ae_now = 5\<rparr>"

definition demo_request :: enroll_request where
  "demo_request = \<lparr>er_hostname = ''web'', er_os = ''linux'', er_enroll_key = ''static'', er_agent_type = ''nodetrace''\<rparr>"

definition demo_admin :: user_row where
  "demo_admin = \<lparr>us_id = 1, us_username = ''root'', us_role = Some ''admin''\<rparr>"


text \<open>
  No operation withdraws a secret from the cache the gateway asks: an agent that was enrolled again or revoked
  still passes the gateway with its old secret.
\<close>

theorem cached_secret_is_never_withdrawn:
  assumes "gateway_agent (en_sha256 env) secret d = Some uid" "en_sha256 env (strip secret) \<noteq> en_sha256 env (snd (en_fresh env))"
  shows "gateway_agent (en_sha256 env) secret (snd (enroll_agent env q d)) = Some uid \<and>
     gateway_agent (en_sha256 env) secret (snd (revoke_agent env u agent_id reason d)) = Some uid \<and>
     gateway_agent (en_sha256 env) secret (snd (sign_device_csr env g csr d)) = Some uid"
proof -
  have keep: "gateway_agent (en_sha256 env) secret (cache_secret env a d2) = gateway_agent (en_sha256 env) secret d2" for a d2
    using assms(2) by (simp add: gateway_agent_def cache_secret_def)
  have same: "gateway_agent (en_sha256 env) secret d2 = Some uid" if "ed_cache d2 = ed_cache d" for d2
    using assms(1) unfolding gateway_agent_def that .
  have admit: "gateway_agent (en_sha256 env) secret (snd (admit env q d2)) = Some uid" if "ed_cache d2 = ed_cache d" for d2
    using same that by (auto simp: admit_def keep Let_def split: option.split sum.split bool.split)
  have "gateway_agent (en_sha256 env) secret (snd (enroll_agent env q d)) = Some uid"
  proof (cases "valid_static env q")
    case True
    then show ?thesis using admit [OF refl] by (simp add: enroll_agent_def)
  next
    case False
    obtain r ts where c: "consume_enroll_token (en_sha256 env) (en_now env) (er_enroll_key q) (er_agent_type q) (er_hostname q) (ed_tokens d) = (r, ts)"
      by (cases "consume_enroll_token (en_sha256 env) (en_now env) (er_enroll_key q) (er_agent_type q) (er_hostname q) (ed_tokens d)")
    have "gateway_agent (en_sha256 env) secret (snd (admit env q (d\<lparr>ed_tokens := ts\<rparr>))) = Some uid" by (rule admit) simp
    then show ?thesis using False c same
      by (cases "admit env q (d\<lparr>ed_tokens := ts\<rparr>)") (auto simp: enroll_agent_def split: sum.split)
  qed
  moreover have "ed_cache (snd (revoke_agent env u agent_id reason d)) = ed_cache d"
    by (auto simp: revoke_agent_def put_enrolled_def split: option.split prod.split revoked.split)
  moreover have "ed_cache (snd (sign_device_csr env g csr d)) = ed_cache d"
    by (auto simp: sign_device_csr_def put_enrolled_def Let_def split: option.split)
  ultimately show ?thesis using same by blast
qed

lemma cached_secret_is_never_withdrawn_witness:
  "gateway_agent id ''stolen'' (snd (revoke_agent demo_enroll demo_admin ''u1'' ''lost'' demo_db)) = Some ''u1''"
proof -
  have a: "gateway_agent (en_sha256 demo_enroll) ''stolen'' demo_db = Some ''u1''" by code_simp
  have b: "en_sha256 demo_enroll (strip ''stolen'') \<noteq> en_sha256 demo_enroll (snd (en_fresh demo_enroll))" by code_simp
  have "en_sha256 demo_enroll = id" by (simp add: demo_enroll_def)
  then show ?thesis using cached_secret_is_never_withdrawn [OF a b] by metis
qed

subsection \<open>Mutual authentication\<close>

definition valid_cert :: "auth_env \<Rightarrow> string \<Rightarrow> string \<Rightarrow> bool" where
  "valid_cert env agent pem \<longleftrightarrow> (case ae_load_cert env pem of None \<Rightarrow> False | Some c \<Rightarrow>
     ae_ca env = Some (ct_issuer c) \<and> ae_signed env c = Some True \<and> ct_from c \<le> ae_now env \<and> ae_now env \<le> ct_to c \<and>
     map_option strip (ct_cn c) = Some (strip agent) \<and>
     \<not> List.member (serial_entries (load_revocations (ae_file env))) (ct_serial c))"

lemma verify_device_cert_sound:
  assumes "verify_device_cert env ca pem agent serials = (True, r)"
  shows "\<exists>c. ae_load_cert env pem = Some c \<and> ct_issuer c = ca \<and> ae_signed env c = Some True \<and>
     ct_from c \<le> ae_now env \<and> ae_now env \<le> ct_to c \<and> map_option strip (ct_cn c) = Some (strip agent) \<and>
     \<not> List.member serials (ct_serial c)"
proof -
  obtain c where c: "ae_load_cert env pem = Some c"
    using assms by (cases "ae_load_cert env pem") (simp_all add: verify_device_cert_def)
  note v = assms [unfolded verify_device_cert_def c option.case]
  have i: "ct_issuer c = ca" using v by (cases "ct_issuer c = ca") simp_all
  have sg: "ae_signed env c = Some True"
    using v i by (cases "ae_signed env c"; cases "the (ae_signed env c)") simp_all
  have w: "ct_from c \<le> ae_now env \<and> ae_now env \<le> ct_to c"
    using v i sg by (cases "ct_from c \<le> ae_now env \<and> ae_now env \<le> ct_to c") simp_all
  obtain cn where cn: "ct_cn c = Some cn"
    using v i sg w by (cases "ct_cn c") simp_all
  have "strip cn = strip agent" using v i sg w cn by (cases "strip cn = strip agent") simp_all
  moreover have "\<not> List.member serials (ct_serial c)"
    using v i sg w cn calculation by (cases "List.member serials (ct_serial c)") simp_all
  ultimately show ?thesis using c i sg w cn by simp
qed

lemma verify_agent_cert_sound:
  assumes "verify_agent_cert env agent pem = Some (True, r)"
  shows "ae_file env \<noteq> None \<and> \<not> agent_revoked (load_revocations (ae_file env)) agent \<and> valid_cert env agent pem"
proof -
  obtain ca where ca: "ae_ca env = Some ca" using assms by (cases "ae_ca env") (simp_all add: verify_agent_cert_def)
  have f: "ae_file env \<noteq> None"
    using assms by (cases "ae_file env") (auto simp: verify_agent_cert_def ca require_healthy_def load_revocations_def Let_def)
  then have h: "require_healthy (load_revocations (ae_file env)) = Some ()"
    by (auto simp: require_healthy_def load_revocations_def)
  have n: "\<not> agent_revoked (load_revocations (ae_file env)) agent"
    using assms by (cases "agent_revoked (load_revocations (ae_file env)) agent") (simp_all add: verify_agent_cert_def ca h Let_def)
  then have "verify_device_cert env ca pem agent (serial_entries (load_revocations (ae_file env))) = (True, r)"
    using assms by (simp add: verify_agent_cert_def ca h Let_def)
  from verify_device_cert_sound [OF this] show ?thesis using f n ca by (auto simp: valid_cert_def)
qed

lemma enforce_sound:
  assumes "enforce env h agent False = Inr r" "mtls_mode env = ''required''"
  shows "\<exists>pem. extract_client_cert env h = Inr (Some pem) \<and> ae_file env \<noteq> None \<and>
     \<not> agent_revoked (load_revocations (ae_file env)) agent \<and> valid_cert env agent pem"
proof -
  have e: "bind_result (extract_client_cert env h) (\<lambda>pem. case pem of
        None \<Rightarrow> Inl (http ''401'')
      | Some p \<Rightarrow> (case verify_agent_cert env agent p of
            None \<Rightarrow> Inl (http ''503'')
          | Some (ok, reason) \<Rightarrow> if ok then Inr (Some ''cert-ok'') else Inl (http ''401''))) = Inr r"
    using assms by (simp add: enforce_def if_distrib cong: if_cong)
  then obtain q where q: "extract_client_cert env h = Inr q"
    by (cases "extract_client_cert env h") simp_all
  obtain pem where pem: "q = Some pem" using e q by (cases q) simp_all
  obtain ok reason where v: "verify_agent_cert env agent pem = Some (ok, reason)"
    using e q pem by (cases "verify_agent_cert env agent pem") auto
  have "ok" using e q pem v by (cases ok) simp_all
  then show ?thesis using q pem v verify_agent_cert_sound [of env agent pem reason] by auto
qed

lemma enforce_fingerprint_sound:
  assumes "enforce_fingerprint env g h = Inr r"
  shows "\<exists>fp. extract_cert_hash h = Some fp \<and> py_truth (bound_fingerprint g) \<and> fp = lower (py_str (bound_fingerprint g)) \<and>
     ae_file env \<noteq> None \<and> \<not> agent_revoked (load_revocations (ae_file env)) (ag_agent_id g)"
  using assms by (auto simp: enforce_fingerprint_def require_healthy_def load_revocations_def Let_def split: option.splits if_splits)

text \<open>
  C1: with certificates required, a request is accepted as an agent only when the secret matches the stored hash of
  that agent, no revocation names it (in the table when it can be read, and in the file, which must be readable), and
  the request carries either a certificate of this agent that the CA signed, inside its dates and not
  revoked, or the fingerprint bound to it when its certificate was issued.
\<close>

theorem accepted_agent_is_mutually_authenticated:
  assumes "get_current_agent env x authorization cert req agents rows = Inr g" "mtls_mode env = ''required''"
  shows "g \<in> set agents \<and> ae_uuid_of env x = Some (ag_agent_id g) \<and> startswith authorization ''Bearer '' \<and>
     ae_verify_password env (drop 7 authorization) (text_of (en_token_hash g)) \<and>
     (case rows of None \<Rightarrow> True | Some rs \<Rightarrow> ag_agent_id g \<notin> set rs) \<and>
     ae_file env \<noteq> None \<and> \<not> agent_revoked (load_revocations (ae_file env)) (ag_agent_id g) \<and>
     ((\<exists>pem. extract_client_cert env (cert_headers req cert) = Inr (Some pem) \<and> valid_cert env (ag_agent_id g) pem) \<or>
      (\<exists>fp. extract_cert_hash (cert_headers req cert) = Some fp \<and> fp = lower (py_str (bound_fingerprint (agent_row.truncate g)))))"
proof -
  have v: "verify_agent_secret env x authorization agents rows = Inr g"
    and m: "apply_agent_mtls env (agent_row.truncate g) req cert False = Inr ()"
    using assms(1) by (auto simp: get_current_agent_def agent_auth_def)
  have secret: "ae_uuid_of env x = Some (ag_agent_id g)" "g \<in> set agents" "startswith authorization ''Bearer ''"
    "ae_verify_password env (drop 7 authorization) (text_of (en_token_hash g))"
    "case rows of None \<Rightarrow> True | Some rs \<Rightarrow> ag_agent_id g \<notin> set rs"
    using v find_first_Some by (fastforce simp: verify_agent_secret_def split: if_splits option.splits)+
  have id: "ag_agent_id (agent_row.truncate g) = ag_agent_id g" by (simp add: agent_row.defs)
  have on: "mtls_mode env \<noteq> ''off''" using assms(2) by simp
  consider r where "enforce env (cert_headers req cert) (ag_agent_id g) False = Inr r"
    | r where "enforce_fingerprint env (agent_row.truncate g) (cert_headers req cert) = Inr r"
    using m on id by (auto simp: apply_agent_mtls_def accepted_def Let_def split: if_splits)
  then show ?thesis
  proof cases
    case 1
    from enforce_sound [OF 1 assms(2)] show ?thesis using secret by blast
  next
    case 2
    from enforce_fingerprint_sound [OF 2] show ?thesis using secret id by auto
  qed
qed

definition demo_pem :: string where
  "demo_pem = ''-----BEGIN CERTIFICATE-----''"

lemma accepted_agent_is_mutually_authenticated_witness:
  "get_current_agent demo_auth ''u1'' ''Bearer H'' (Some demo_pem) [] [demo_enrolled] (Some []) = Inr demo_enrolled \<and>
   (\<exists>pem. valid_cert demo_auth ''u1'' pem)"
proof -
  have r: "is_ok (get_current_agent demo_auth ''u1'' ''Bearer H'' (Some demo_pem) [] [demo_enrolled] (Some []))" by code_simp
  obtain g where g: "get_current_agent demo_auth ''u1'' ''Bearer H'' (Some demo_pem) [] [demo_enrolled] (Some []) = Inr g"
    using r by (cases "get_current_agent demo_auth ''u1'' ''Bearer H'' (Some demo_pem) [] [demo_enrolled] (Some [])") auto
  have m: "mtls_mode demo_auth = ''required''" by code_simp
  note t = accepted_agent_is_mutually_authenticated [OF g m]
  have n: "extract_cert_hash (cert_headers [] (Some demo_pem)) = None" by code_simp
  have "ag_agent_id demo_enrolled = ''u1''" by code_simp
  then show ?thesis using t g n by auto
qed

subsection \<open>Tokens of users fail closed\<close>

text \<open>
  A logout that was confirmed holds: while Redis keeps the mark, the token is refused; and when Redis does not
  answer, every token is refused.
\<close>

lemma revoked_token_is_refused:
  assumes "redis_laws R view" "redis_down D" "decode token = Some p" "dict_get p ''jti'' = PStr jti" "jti \<noteq> []"
    "now < expires" "blacklist_token R now jti expires s = (True, s1)"
  shows "fst (validate_token R decode accounts token s1) = Inl (http ''401'') \<and>
     fst (validate_token D decode accounts token s2) = Inl (http ''401'')"
proof -
  obtain s' where b: "s1 = s'" "view s' = (view s)(blacklist_key jti \<mapsto> RStr ''1'')"
    using redis_lawsD(3) [OF assms(1), of s "blacklist_key jti" "expires - now" "''1''"] assms(6,7)
    by (auto simp: blacklist_token_def Let_def)
  obtain s3 where e: "rd_exists R s1 (blacklist_key jti) = (Inr True, s3)"
    using redis_lawsD(2) [OF assms(1), of s1 "blacklist_key jti"] b by auto
  have d: "rd_exists D s2 (blacklist_key jti) = (Inl RedisError, s2)" using assms(2) by (simp add: redis_down_def)
  have ne: "p \<noteq> []" using assms(4) by (auto simp: dict_get_def)
  show ?thesis using assms(3-5) ne e d
    by (simp add: validate_token_def is_token_blacklisted_def)
qed

lemma revoked_token_is_refused_witness:
  "\<exists>s1. blacklist_token map_redis 5 ''j1'' 65 [] = (True, s1) \<and>
     fst (validate_token map_redis (\<lambda>_. Some [(''jti'', PStr ''j1''), (''sub'', PStr ''1'')]) [] ''t'' s1) = Inl (http ''401'')"
proof -
  obtain s1 where b: "blacklist_token map_redis 5 ''j1'' 65 [] = (True, s1)"
    using redis_lawsD(3) [OF map_redis_laws, of "[]" "blacklist_key ''j1''" 60 "''1''"] by (auto simp: blacklist_token_def)
  have j: "dict_get [(''jti'', PStr ''j1''), (''sub'', PStr ''1'')] ''jti'' = PStr ''j1''" by code_simp
  show ?thesis
    using b revoked_token_is_refused [where decode = "\<lambda>_. Some [(''jti'', PStr ''j1''), (''sub'', PStr ''1'')]" and token = "''t''",
        OF map_redis_laws dead_redis_down refl j _ _ b] by auto
qed

end
