(* ===== verification/Alerts_Api.thy ===== *)
theory Alerts_Api
  imports Access Alert_Pipeline Playbooks
begin

section \<open>Alerts and agents: the analyst's requests\<close>

text \<open>
  The routes of \<open>app/api/v1/telemetry.py\<close> an analyst or an agent calls around the ingestion: the
  list and the detail of alerts, triage, the process tree, the fleet, the commands and their
  acknowledgements.  The state \<open>soc\<close> adds to the tables of \<open>Incidents\<close> the store of Redis, the
  remediation actions, the threat reports, the telemetry samples and the notifications sent.  As
  there, \<open>HTTPException\<close> is \<open>Inl\<close> with its status.  \<open>uuid_ok\<close> tells whether a text is a UUID, \<open>lpop\<close> is the Redis
  command of that name, and \<open>set_order\<close> the iteration order of a Python set.
\<close>

record remediation =
  re_id :: int
  re_alert_id :: int
  re_action :: string
  re_target :: string
  re_status :: string
  re_executed_at :: rat
  re_details :: "string option"

record threat_report =
  tr_id :: int
  tr_alert_id :: int
  tr_created_at :: rat
  tr_body :: pydict

record sample =
  sa_id :: int
  sa_device :: string
  sa_time :: rat
  sa_columns :: pydict

record 's soc =
  so_tables :: tables
  so_redis :: 's
  so_remediations :: "remediation list"
  so_reports :: "threat_report list"
  so_samples :: "sample list"
  so_notified :: "(int \<times> bool) list"

record api_env =
  ap_from_iso :: "string \<Rightarrow> rat option"
  ap_to_iso :: "rat \<Rightarrow> string"
  ap_sha256 :: "string \<Rightarrow> string"
  ap_now :: rat
  ap_uuid_ok :: "string \<Rightarrow> bool"
  ap_set_order :: "int option list \<Rightarrow> int option list"

text \<open>\<open>ORDER BY column DESC\<close>, ties in table order.\<close>

definition newest :: "('a \<Rightarrow> rat) \<Rightarrow> 'a list \<Rightarrow> 'a list" where
  "newest f xs = rev (sort_key f (rev xs))"

definition alert_time :: "api_env \<Rightarrow> alert_row \<Rightarrow> rat" where
  "alert_time env a = to_ts (ap_from_iso env) (ar_time a)"

definition alert_of :: "tables \<Rightarrow> int \<Rightarrow> alert_row option" where
  "alert_of t i = find_first (\<lambda>a. ar_id a = i) (tb_alerts t)"

definition put_alert :: "alert_row \<Rightarrow> tables \<Rightarrow> tables" where
  "put_alert a t = t\<lparr>tb_alerts := map (\<lambda>b. if ar_id b = ar_id a then a else b) (tb_alerts t)\<rparr>"

definition put_agent :: "agent_row \<Rightarrow> tables \<Rightarrow> tables" where
  "put_agent g t = t\<lparr>tb_agents := map (\<lambda>b. if ag_agent_id b = ag_agent_id g then g else b) (tb_agents t)\<rparr>"

subsection \<open>Lists\<close>

definition get_alerts ::
  "api_env \<Rightarrow> string option \<Rightarrow> bool option \<Rightarrow> bool option \<Rightarrow> nat \<Rightarrow> nat \<Rightarrow> tables \<Rightarrow> (alert_row \<times> string option) list" where
  "get_alerts env severity is_resolved resolved skip limit t =
     (let effective = (case is_resolved of Some b \<Rightarrow> Some b | None \<Rightarrow> resolved);
          hits = filter (\<lambda>a. (truthy severity \<longrightarrow> Some (al_severity a) = severity) \<and>
                   (case effective of None \<Rightarrow> True | Some b \<Rightarrow> ar_is_resolved a = b)) (tb_alerts t)
      in map (\<lambda>a. (a, case agent_of t (al_agent_id a) of None \<Rightarrow> None | Some g \<Rightarrow> ag_hostname g))
           (take limit (drop skip (newest (alert_time env) hits))))"

definition report_out :: "api_env \<Rightarrow> threat_report \<Rightarrow> pyval" where
  "report_out env r = PDict ((''id'', PInt (tr_id r)) # tr_body r @ [(''created_at'', PStr (ap_to_iso env (tr_created_at r)))])"

definition remediation_out :: "api_env \<Rightarrow> remediation \<Rightarrow> pyval" where
  "remediation_out env r = PDict [(''id'', PInt (re_id r)), (''action'', PStr (re_action r)),
     (''target'', PStr (re_target r)), (''status'', PStr (re_status r)),
     (''executed_at'', PStr (ap_to_iso env (re_executed_at r))), (''details'', opt_str (re_details r))]"

definition sample_out :: "sample list \<Rightarrow> pyval" where
  "sample_out ss = (case ss of [] \<Rightarrow> PNone
     | x # xs \<Rightarrow> PDict (map (\<lambda>k. (k, dict_get (sa_columns x) k))
         [''cpu_usage'', ''ram_usage'', ''processes'', ''users'', ''network_flows'']))"

definition get_alert_detail :: "api_env \<Rightarrow> int \<Rightarrow> 's soc \<Rightarrow> pydict result" where
  "get_alert_detail env i w =
     (case alert_of (so_tables w) i of None \<Rightarrow> Inl (http ''404'')
      | Some a \<Rightarrow>
          (let agent = agent_of (so_tables w) (al_agent_id a);
               reports = newest tr_created_at (filter (\<lambda>r. tr_alert_id r = i) (so_reports w));
               rems = newest re_executed_at (filter (\<lambda>r. re_alert_id r = i) (so_remediations w));
               samples = newest sa_time (filter (\<lambda>x. sa_device x = al_agent_id a) (so_samples w))
           in Inr [(''id'', PInt (ar_id a)), (''agent_id'', PStr (al_agent_id a)),
                (''agent_hostname'', (case agent of None \<Rightarrow> PNone | Some g \<Rightarrow> opt_str (ag_hostname g))),
                (''timestamp'', time_iso (ap_to_iso env) (ar_time a)), (''severity'', PStr (al_severity a)),
                (''pid'', opt_int (al_pid a)), (''parent_pid'', opt_int (al_parent_pid a)),
                (''parent_process_name'', opt_str (al_parent_process_name a)),
                (''process_name'', opt_str (al_process_name a)), (''process_path'', opt_str (al_process_path a)),
                (''event_type'', opt_str (al_event_type a)), (''description'', PStr (al_description a)),
                (''evidence'', al_evidence a), (''is_resolved'', PBool (ar_is_resolved a)),
                (''telemetry'', sample_out samples), (''threat_reports'', PList (map (report_out env) reports)),
                (''remediations'', PList (map (remediation_out env) rems))]))"

definition get_remediation_actions :: "nat \<Rightarrow> 's soc \<Rightarrow> remediation list" where
  "get_remediation_actions limit w = take limit (newest re_executed_at (so_remediations w))"

definition get_threat_reports :: "nat \<Rightarrow> 's soc \<Rightarrow> threat_report list" where
  "get_threat_reports limit w = take limit (newest tr_created_at (so_reports w))"

subsection \<open>Fleet\<close>

text \<open>Agents whose \<open>last_seen\<close> is null come first in descending order; no condition on it holds for them.\<close>

definition seen_since :: "rat \<Rightarrow> agent_row \<Rightarrow> bool" where
  "seen_since r g = (case ag_last_seen g of None \<Rightarrow> False | Some t \<Rightarrow> r \<le> t)"

definition seen_before :: "rat \<Rightarrow> agent_row \<Rightarrow> bool" where
  "seen_before r g = (case ag_last_seen g of None \<Rightarrow> False | Some t \<Rightarrow> t < r)"

definition newest_agents :: "agent_row list \<Rightarrow> agent_row list" where
  "newest_agents gs = filter (\<lambda>g. ag_last_seen g = None) gs @
     newest (\<lambda>g. case ag_last_seen g of None \<Rightarrow> 0 | Some t \<Rightarrow> t) (filter (\<lambda>g. ag_last_seen g \<noteq> None) gs)"

definition row_status :: "api_env \<Rightarrow> agent_row \<Rightarrow> string" where
  "row_status env g = agent_status (ap_from_iso env) 15 24
     (case ag_last_seen g of None \<Rightarrow> Never | Some t \<Rightarrow> Seen_at t) (ap_now env)"

definition get_agents ::
  "api_env \<Rightarrow> bool \<Rightarrow> bool \<Rightarrow> string option \<Rightarrow> nat \<Rightarrow> tables \<Rightarrow> (agent_row \<times> string \<times> string) list" where
  "get_agents env active_only include_demo site limit t =
     (let hits = filter (\<lambda>g. (active_only \<longrightarrow> seen_since (ap_now env - 900) g) \<and>
                   (include_demo \<or> \<not> ag_is_demo g)) (tb_agents t);
          rows = filter (\<lambda>g. truthy site \<longrightarrow> get_site g = lower (strip (text_of site)))
                   (take limit (newest_agents hits))
      in map (\<lambda>g. (g, get_site g, row_status env g)) rows)"

definition NODETRACE_TYPES :: "string list" where
  "NODETRACE_TYPES = [''nodetrace'', ''NodeTrace'']"

definition recent_row :: "bool \<Rightarrow> sample \<times> agent_row \<Rightarrow> pydict" where
  "recent_row slim xg = (case xg of (x, g) \<Rightarrow>
     [(''id'', PInt (sa_id x)), (''agent_id'', PStr (sa_device x)), (''hostname'', opt_str (ag_hostname g)),
      (''agent_type'', opt_str (ag_agent_type g)), (''timestamp'', PFloat (sa_time x) [])] @
     map (\<lambda>k. (k, dict_get (sa_columns x) k)) [''cpu_usage'', ''ram_usage'', ''disk_free'', ''disk_total''] @
     (if slim then [] else map (\<lambda>k. (k, dict_get (sa_columns x) k))
        [''network_sent'', ''network_received'', ''processes'', ''ip_local'', ''ip_public'', ''users'', ''network_flows'']))"

text \<open>The join of the samples with their agents.\<close>

definition sample_agents :: "'s soc \<Rightarrow> (sample \<times> agent_row) list" where
  "sample_agents w = concat (map (\<lambda>x. case agent_of (so_tables w) (sa_device x) of None \<Rightarrow> [] | Some g \<Rightarrow> [(x, g)]) (so_samples w))"

definition get_recent_telemetry :: "string option \<Rightarrow> nat \<Rightarrow> bool \<Rightarrow> 's soc \<Rightarrow> pydict list" where
  "get_recent_telemetry agent limit slim w =
     map (recent_row slim) (take limit (newest (\<lambda>(x, g). sa_time x)
       (filter (\<lambda>(x, g). List.member NODETRACE_TYPES (text_of (ag_agent_type g)) \<and>
          (truthy agent \<longrightarrow> Some (sa_device x) = agent)) (sample_agents w))))"

datatype activity = Sample sample agent_row | Raised alert_row agent_row

fun activity_time :: "api_env \<Rightarrow> activity \<Rightarrow> rat" where
  "activity_time env (Sample x g) = sa_time x"
| "activity_time env (Raised a g) = alert_time env a"

definition alert_agents :: "tables \<Rightarrow> (alert_row \<times> agent_row) list" where
  "alert_agents t = concat (map (\<lambda>a. case agent_of t (al_agent_id a) of None \<Rightarrow> [] | Some g \<Rightarrow> [(a, g)]) (tb_alerts t))"

definition all_samples :: "'s soc \<Rightarrow> activity list" where
  "all_samples w = map (\<lambda>(x, g). Sample x g) (sample_agents w)"

definition all_raised :: "'s soc \<Rightarrow> activity list" where
  "all_raised w = map (\<lambda>(a, g). Raised a g) (alert_agents (so_tables w))"

definition get_activity :: "api_env \<Rightarrow> nat \<Rightarrow> 's soc \<Rightarrow> activity list" where
  "get_activity env limit w =
     take limit (newest (activity_time env)
       (take limit (newest (activity_time env) (all_samples w)) @
        take limit (newest (activity_time env) (all_raised w))))"

record stats =
  st_total_alerts :: nat
  st_unresolved_alerts :: nat
  st_current :: "string \<Rightarrow> nat"
  st_active_agents :: nat
  st_demo_agents :: nat
  st_isolated_agents :: nat
  st_stale_agents :: nat
  st_offline_agents :: nat

definition count_if :: "('a \<Rightarrow> bool) \<Rightarrow> 'a list \<Rightarrow> nat" where
  "count_if p xs = length (filter p xs)"

definition get_stats :: "api_env \<Rightarrow> bool \<Rightarrow> tables \<Rightarrow> stats" where
  "get_stats env include_demo t =
     (let threshold = ap_now env - 900; stale_cut = ap_now env - 86400;
          alerts = tb_alerts t; agents = tb_agents t
      in \<lparr>st_total_alerts = length alerts,
          st_unresolved_alerts = count_if (\<lambda>a. \<not> ar_is_resolved a) alerts,
          st_current = (\<lambda>sev. count_if (\<lambda>a. \<not> ar_is_resolved a \<and> upper (al_severity a) = sev) alerts),
          st_active_agents = count_if (\<lambda>g. seen_since threshold g \<and> (include_demo \<or> \<not> ag_is_demo g)) agents,
          st_demo_agents = count_if (\<lambda>g. ag_is_demo g \<and> seen_since threshold g) agents,
          st_isolated_agents = count_if ag_isolated agents,
          st_stale_agents = count_if (\<lambda>g. seen_before threshold g \<and> seen_since stale_cut g) agents,
          st_offline_agents = count_if (seen_before stale_cut) agents\<rparr>)"

subsection \<open>Triage\<close>

text \<open>The loop of \<open>resolve-all\<close>: the rows, how many were resolved and how many of them muted.\<close>

fun resolve_each ::
  "'s redis \<Rightarrow> (string \<Rightarrow> string) \<Rightarrow> alert_row list \<Rightarrow> 's \<Rightarrow> (alert_row list \<times> nat \<times> nat) result \<times> 's" where
  "resolve_each R sha256 [] s = (Inr ([], 0, 0), s)"
| "resolve_each R sha256 (a # as) s =
     (if ar_is_resolved a then
        (case resolve_each R sha256 as s of
           (Inl x, s1) \<Rightarrow> (Inl x, s1) | (Inr (bs, c, m), s1) \<Rightarrow> (Inr (a # bs, c, m), s1))
      else (case record_triage_mute R sha256 (al_agent_id a) (alert.truncate a) s of
          (Inl x, s1) \<Rightarrow> (Inl x, s1)
        | (Inr ttl, s1) \<Rightarrow>
            (case resolve_each R sha256 as s1 of
               (Inl x, s2) \<Rightarrow> (Inl x, s2)
             | (Inr (bs, c, m), s2) \<Rightarrow>
                 (Inr (a\<lparr>ar_is_resolved := True\<rparr> # bs, c + 1, if ttl \<noteq> 0 then m + 1 else m), s2))))"

type_synonym ('s, 'a) soc_answer = "'s soc \<Rightarrow> 'a result \<times> 's soc"

definition resolve_all_alerts :: "'s redis \<Rightarrow> api_env \<Rightarrow> user_row \<Rightarrow> ('s, nat \<times> nat) soc_answer" where
  "resolve_all_alerts R env u w =
     (if \<not> role_in OPERATORS u then (Inl (http ''403''), w)
      else case resolve_each R (ap_sha256 env) (tb_alerts (so_tables w)) (so_redis w) of
        (Inl x, s) \<Rightarrow> (Inl x, w\<lparr>so_redis := s\<rparr>)
      | (Inr (rows, done_n, muted), s) \<Rightarrow>
          (Inr (done_n, muted), w\<lparr>so_redis := s, so_tables :=
             log_audit u ''resolve_all_alerts'' ''alert'' None
               [(''count'', PInt (int done_n)), (''triage_muted'', PInt (int muted))]
               ((so_tables w)\<lparr>tb_alerts := rows\<rparr>)\<rparr>))"

text \<open>The foreign keys cascade to links, threat reports and remediations.\<close>

definition delete_all_alerts :: "user_row \<Rightarrow> ('s, nat) soc_answer" where
  "delete_all_alerts u w =
     (if \<not> role_in [''admin''] u then (Inl (http ''403''), w)
      else let t = so_tables w; gone = length (tb_alerts t) in
        (Inr gone, w\<lparr>so_remediations := [], so_reports := [], so_tables :=
           log_audit u ''delete_all_alerts'' ''alert'' None [(''count'', PInt (int gone))]
             (t\<lparr>tb_alerts := [], tb_links := []\<rparr>)\<rparr>))"

text \<open>\<open>send_command_to_agent\<close>: the second component tells whether no command raised.\<close>

definition send_command_to_agent :: "'s redis \<Rightarrow> string \<Rightarrow> pydict \<Rightarrow> 's \<Rightarrow> bool \<times> 's" where
  "send_command_to_agent R agent command s =
     (case rd_rpush R s (queue_name agent) (json_dumps (PDict command)) of
        (Inl x, s1) \<Rightarrow> (False, s1)
      | (Inr _, s1) \<Rightarrow> (case rd_ltrim R s1 (queue_name agent) 0 99 of (Inl x, s2) \<Rightarrow> (False, s2) | (Inr _, s2) \<Rightarrow> (True, s2)))"

definition kill_command :: "alert_row \<Rightarrow> pydict" where
  "kill_command a = [(''command'', PStr ''KILL_PROCESS''), (''pid'', opt_int (al_pid a)),
     (''process_name'', opt_str (al_process_name a)), (''alert_id'', PInt (ar_id a))]"

definition may_kill :: "user_row \<Rightarrow> alert_row \<Rightarrow> bool" where
  "may_kill u a \<longleftrightarrow> (case al_pid a of None \<Rightarrow> False | Some p \<Rightarrow> p \<noteq> 0) \<and>
     List.member [''PROCESS_CREATED'', ''custom_rule''] (text_of (al_event_type a)) \<and> has_perm (us_role u) ''respond''"

text \<open>The part of \<open>resolve_alert\<close> that talks to Redis: whether the process was killed and for how long the alert is muted.\<close>

definition close_alert :: "'s redis \<Rightarrow> api_env \<Rightarrow> user_row \<Rightarrow> alert_row \<Rightarrow> 's \<Rightarrow> (bool \<times> int) result \<times> 's" where
  "close_alert R env u a s =
     (case (if may_kill u a then send_command_to_agent R (al_agent_id a) (kill_command a) s else (False, s)) of
        (killed, s1) \<Rightarrow>
          (case record_triage_mute R (ap_sha256 env) (al_agent_id a) (alert.truncate a) s1 of
             (Inl x, s2) \<Rightarrow> (Inl x, s2) | (Inr ttl, s2) \<Rightarrow> (Inr (killed, ttl), s2)))"

definition reopen_alert :: "'s redis \<Rightarrow> api_env \<Rightarrow> alert_row \<Rightarrow> 's \<Rightarrow> (bool \<times> int) result \<times> 's" where
  "reopen_alert R env a s =
     (case triage_mute_fingerprint (ap_sha256 env) (alert.truncate a) of
        Inl x \<Rightarrow> (Inl x, s)
      | Inr fp \<Rightarrow> (Inr (False, 0), snd (rd_delete R s (triage_key (al_agent_id a) fp))))"

definition resolve_alert :: "'s redis \<Rightarrow> api_env \<Rightarrow> user_row \<Rightarrow> int \<Rightarrow> bool \<Rightarrow> ('s, int \<times> bool) soc_answer" where
  "resolve_alert R env u i resolved w =
     (case require_perm [''triage'', ''respond''] u of Inl x \<Rightarrow> (Inl x, w) | Inr _ \<Rightarrow>
      (case alert_of (so_tables w) i of None \<Rightarrow> (Inl (http ''404''), w)
       | Some a \<Rightarrow>
          (case (if \<not> ar_is_resolved a \<and> resolved then close_alert R env u a (so_redis w)
                 else if ar_is_resolved a \<and> \<not> resolved then reopen_alert R env a (so_redis w)
                 else (Inr (False, 0), so_redis w)) of
             (Inl x, s) \<Rightarrow> (Inl x, w\<lparr>so_redis := s\<rparr>)
           | (Inr (killed, muted), s) \<Rightarrow>
               (Inr (if resolved then muted else 0, killed),
                w\<lparr>so_redis := s,
                  so_notified := so_notified w @ (if ar_is_resolved a \<noteq> resolved then [(i, \<not> resolved)] else []),
                  so_tables := log_audit u ''resolve_alert'' ''alert'' (Some (show_int i))
                    [(''resolved'', PBool resolved), (''agent_id'', PStr (al_agent_id a)), (''killed'', PBool killed),
                     (''triage_muted_seconds'', PInt muted)]
                    (put_alert (a\<lparr>ar_is_resolved := resolved\<rparr>) (so_tables w))\<rparr>))))"

subsection \<open>Containment and commands\<close>

definition SOC_ROLES :: "string list" where
  "SOC_ROLES = [''admin'', ''analyst'', ''responder'']"

text \<open>An agent by the text of its identifier: 400 for a text that is no UUID, 404 for an unknown agent.\<close>

definition find_agent :: "api_env \<Rightarrow> string \<Rightarrow> tables \<Rightarrow> agent_row result" where
  "find_agent env agent_id t =
     (if \<not> ap_uuid_ok env agent_id then Inl (http ''400'')
      else case agent_of t agent_id of None \<Rightarrow> Inl (http ''404'') | Some g \<Rightarrow> Inr g)"

definition contain ::
  "'s redis \<Rightarrow> api_env \<Rightarrow> user_row \<Rightarrow> string \<Rightarrow> string \<Rightarrow> pydict \<Rightarrow> pydict \<Rightarrow> ('s, bool \<times> bool) soc_answer" where
  "contain R env u agent_id action command details w =
     (if \<not> role_in SOC_ROLES u then (Inl (http ''403''), w)
      else case find_agent env agent_id (so_tables w) of Inl x \<Rightarrow> (Inl x, w)
      | Inr g \<Rightarrow> (case send_command_to_agent R (ag_agent_id g) command (so_redis w) of
          (queued, s) \<Rightarrow> (Inr (queued, ag_isolated g), w\<lparr>so_redis := s, so_tables :=
             log_audit u action ''agent'' (Some (ag_agent_id g)) (details @ [(''queued'', PBool queued)]) (so_tables w)\<rparr>)))"

definition isolate_agent :: "'s redis \<Rightarrow> api_env \<Rightarrow> user_row \<Rightarrow> string \<Rightarrow> string option \<Rightarrow> ('s, bool \<times> bool) soc_answer" where
  "isolate_agent R env u agent_id reason =
     contain R env u agent_id ''agent_isolate''
       [(''command'', PStr ''ISOLATE_HOST''), (''reason'', PStr (or_str reason ''SOC contain''))]
       [(''reason'', opt_str reason)]"

definition release_agent :: "'s redis \<Rightarrow> api_env \<Rightarrow> user_row \<Rightarrow> string \<Rightarrow> ('s, bool \<times> bool) soc_answer" where
  "release_agent R env u agent_id = contain R env u agent_id ''agent_release'' [(''command'', PStr ''DEISOLATE_HOST'')] []"

definition assign_agent_site :: "api_env \<Rightarrow> user_row \<Rightarrow> string \<Rightarrow> string \<Rightarrow> tables \<Rightarrow> (string \<times> string) result \<times> tables" where
  "assign_agent_site env u agent_id site t =
     (if \<not> role_in OPERATORS u then (Inl (http ''403''), t)
      else case find_agent env agent_id t of Inl x \<Rightarrow> (Inl x, t)
      | Inr g \<Rightarrow> (case set_site_meta (ag_meta g) site of
          Inl x \<Rightarrow> (Inl (http ''400''), t)
        | Inr m \<Rightarrow> (let new = py_str (dict_get m ''site''); old = get_site g in
            (Inr (old, new), log_audit u ''agent_site_assign'' ''agent'' (Some (ag_agent_id g))
               [(''old_site'', PStr old), (''new_site'', PStr new)] (put_agent (g\<lparr>ag_meta := PDict m\<rparr>) t)))))"

text \<open>One command, or the next \<open>n\<close>; a command that is not JSON is skipped, an exception of Redis ends the batch.\<close>

type_synonym 's lpop = "'s \<Rightarrow> string \<Rightarrow> string option result \<times> 's"

definition get_agent_commands :: "'s lpop \<Rightarrow> (string \<Rightarrow> pyval option) \<Rightarrow> string \<Rightarrow> 's \<Rightarrow> pyval result \<times> 's" where
  "get_agent_commands lpop loads agent s =
     (case lpop s (queue_name agent) of
        (Inl x, s1) \<Rightarrow> (Inl x, s1)
      | (Inr c, s1) \<Rightarrow> (if truthy c then (case loads (text_of c) of None \<Rightarrow> Inl (ValueError ''json'') | Some v \<Rightarrow> Inr v)
                         else Inr PNone, s1))"

fun drain :: "'s lpop \<Rightarrow> (string \<Rightarrow> pyval option) \<Rightarrow> string \<Rightarrow> nat \<Rightarrow> 's \<Rightarrow> pyval list \<times> 's" where
  "drain lpop loads q 0 s = ([], s)"
| "drain lpop loads q (Suc n) s = (case lpop s q of
     (Inl x, s1) \<Rightarrow> ([], s1)
   | (Inr c, s1) \<Rightarrow> if \<not> truthy c then ([], s1)
       else (case drain lpop loads q n s1 of (vs, s2) \<Rightarrow>
         (case loads (text_of c) of None \<Rightarrow> (vs, s2) | Some v \<Rightarrow> (v # vs, s2))))"

definition get_agent_commands_batch :: "'s lpop \<Rightarrow> (string \<Rightarrow> pyval option) \<Rightarrow> string \<Rightarrow> nat \<Rightarrow> 's \<Rightarrow> pyval list \<times> 's" where
  "get_agent_commands_batch lpop loads agent n s = drain lpop loads (queue_name agent) n s"

text \<open>The acknowledgement: \<open>agent\<close> is the row of the caller.\<close>

definition acked :: "string \<Rightarrow> string \<Rightarrow> agent_row \<Rightarrow> agent_row" where
  "acked command status g =
     (if upper command = ''ISOLATE_HOST'' \<and> status = ''ok'' then g\<lparr>ag_isolated := True\<rparr>
      else if List.member [''DEISOLATE_HOST'', ''DEISOLATE''] (upper command) \<and> status = ''ok'' then g\<lparr>ag_isolated := False\<rparr>
      else g)"

definition ack_remediation :: "string \<Rightarrow> string option \<Rightarrow> int \<Rightarrow> remediation list \<Rightarrow> remediation list" where
  "ack_remediation status details i rs =
     map (\<lambda>r. if re_id r \<noteq> i then r
       else r\<lparr>re_status := status,
              re_details := (if truthy details then Some (clip 2000 (text_of details)) else re_details r)\<rparr>) rs"

definition ack_agent_command :: "agent_row \<Rightarrow> string \<Rightarrow> string \<Rightarrow> string option \<Rightarrow> int option \<Rightarrow> 's soc \<Rightarrow> 's soc" where
  "ack_agent_command g command status details alert_id w =
     w\<lparr>so_remediations := (case alert_id of None \<Rightarrow> so_remediations w
          | Some i \<Rightarrow> if i = 0 then so_remediations w else ack_remediation status details i (so_remediations w)),
       so_tables := put_agent (acked command status g) (so_tables w)\<rparr>"

text \<open>The heartbeat: the row of the agent and the entry of the discovered host with its address.\<close>

record discovered =
  dh_ip_address :: string
  dh_guard_status :: string
  dh_nodetrace_status :: string
  dh_last_seen :: "rat option"

definition beat_row :: "rat \<Rightarrow> pydict \<Rightarrow> agent_row \<Rightarrow> agent_row" where
  "beat_row now data g =
     (let g1 = g\<lparr>ag_last_seen := Some now\<rparr>;
          g2 = (if py_truth (dict_get data ''agent_version'')
                then g1\<lparr>ag_agent_version := Some (clip 50 (py_str (dict_get data ''agent_version'')))\<rparr> else g1)
      in case dict_get data ''capabilities'' of
           PDict m \<Rightarrow> g2\<lparr>ag_capabilities := PDict m\<rparr> | PList xs \<Rightarrow> g2\<lparr>ag_capabilities := PList xs\<rparr> | _ \<Rightarrow> g2)"

definition beat_host :: "rat \<Rightarrow> agent_row \<Rightarrow> discovered \<Rightarrow> discovered" where
  "beat_host now g h =
     (let kind = lower (or_str (ag_agent_type g) []);
          h1 = (if kind = ''aegis-guard'' then h\<lparr>dh_guard_status := ''active''\<rparr>
                else if kind = ''nodetrace'' then h\<lparr>dh_nodetrace_status := ''active''\<rparr> else h)
      in h1\<lparr>dh_last_seen := Some now\<rparr>)"

fun update_first :: "('a \<Rightarrow> bool) \<Rightarrow> ('a \<Rightarrow> 'a) \<Rightarrow> 'a list \<Rightarrow> 'a list" where
  "update_first p f [] = []"
| "update_first p f (x # xs) = (if p x then f x # xs else x # update_first p f xs)"

definition agent_heartbeat :: "rat \<Rightarrow> pydict \<Rightarrow> agent_row \<Rightarrow> discovered list \<Rightarrow> agent_row \<times> discovered list" where
  "agent_heartbeat now data g hosts =
     (beat_row now data g,
      if truthy (ag_ip_address g)
      then update_first (\<lambda>h. Some (dh_ip_address h) = ag_ip_address g) (beat_host now g) hosts else hosts)"

subsection \<open>The process tree of an alert\<close>

text \<open>
  \<open>alert_process_tree\<close> over the newest alerts of the agent: \<open>by_pid\<close> keeps the first of each
  process number (a number that is null or zero has no entry), \<open>children\<close> the numbers below each
  parent.  A process number is an \<open>int option\<close>, as the list of children may hold nulls.
\<close>

definition real_pid :: "int option \<Rightarrow> bool" where
  "real_pid p \<longleftrightarrow> p \<noteq> None \<and> p \<noteq> Some 0"

type_synonym pid_table = "(int option \<times> alert_row) list"

fun by_pid_of :: "alert_row list \<Rightarrow> pid_table" where
  "by_pid_of [] = []"
| "by_pid_of (a # as) = (if real_pid (al_pid a) then (al_pid a, a) # filter (\<lambda>(p, b). p \<noteq> al_pid a) (by_pid_of as)
     else by_pid_of as)"

definition children_of :: "alert_row list \<Rightarrow> int option \<Rightarrow> int option list" where
  "children_of as p = (if real_pid p then map al_pid (filter (\<lambda>a. al_parent_pid a = p) as) else [])"

definition parent_of :: "pid_table \<Rightarrow> alert_row \<Rightarrow> alert_row option" where
  "parent_of tab a = (if real_pid (al_parent_pid a) then assoc (al_parent_pid a) tab else None)"

definition table_pids :: "pid_table \<Rightarrow> int option set" where
  "table_pids tab = (\<lambda>(p, a). al_pid a) ` set tab"

lemma finite_table_pids [simp]: "finite (table_pids tab)"
  by (simp add: table_pids_def)

lemma parent_in_table: "parent_of tab a = Some b \<Longrightarrow> al_pid b \<in> table_pids tab"
  by (force simp: parent_of_def table_pids_def dest: assoc_in_set split: if_splits)

definition climb_rank :: "pid_table \<Rightarrow> alert_row option \<Rightarrow> int option list \<Rightarrow> nat" where
  "climb_rank tab cur seen = 2 * card (table_pids tab - set seen) +
     (case cur of None \<Rightarrow> 0 | Some a \<Rightarrow> if al_pid a \<in> table_pids tab then 0 else 1)"

lemma climb_rank_less:
  assumes "al_pid a \<notin> set seen"
  shows "climb_rank tab (parent_of tab a) (al_pid a # seen) < climb_rank tab (Some a) seen"
proof -
  have "(case parent_of tab a of None \<Rightarrow> 0 | Some b \<Rightarrow> if al_pid b \<in> table_pids tab then 0 else 1) = (0::nat)"
    using parent_in_table [of tab a] by (auto split: option.split)
  then have r: "climb_rank tab (parent_of tab a) (al_pid a # seen) = 2 * card (table_pids tab - insert (al_pid a) (set seen))"
    by (simp add: climb_rank_def)
  show ?thesis
  proof (cases "al_pid a \<in> table_pids tab")
    case True
    then have "table_pids tab - insert (al_pid a) (set seen) \<subset> table_pids tab - set seen" using assms by blast
    then have "card (table_pids tab - insert (al_pid a) (set seen)) < card (table_pids tab - set seen)"
      by (simp add: psubset_card_mono)
    then show ?thesis using r True by (simp add: climb_rank_def)
  next
    case False
    then have "table_pids tab - insert (al_pid a) (set seen) = table_pids tab - set seen" by blast
    then show ?thesis using r False by (simp add: climb_rank_def)
  qed
qed

text \<open>The loop up the chain, from the alert to its oldest ancestor, with the numbers seen.\<close>

function climb :: "pid_table \<Rightarrow> alert_row option \<Rightarrow> int option list \<Rightarrow> alert_row list \<times> int option list" where
  "climb tab None seen = ([], seen)"
| "climb tab (Some a) seen =
     (if \<not> real_pid (al_pid a) \<or> List.member seen (al_pid a) then ([], seen)
      else (case climb tab (parent_of tab a) (al_pid a # seen) of (chain, sn) \<Rightarrow> (a # chain, sn)))"
  by pat_completeness auto
termination
  by (relation "measure (\<lambda>(tab, cur, seen). climb_rank tab cur seen)") (auto simp: climb_rank_less)

text \<open>The loop down: \<open>stack.pop()\<close> takes the last element.\<close>

definition table_keys :: "pid_table \<Rightarrow> int option set" where
  "table_keys tab = fst ` set tab"

lemma assoc_keys: "assoc p tab = Some a \<Longrightarrow> p \<in> table_keys tab"
  by (force simp: table_keys_def dest: assoc_in_set)

function descend ::
  "pid_table \<Rightarrow> (int option \<Rightarrow> int option list) \<Rightarrow> int option list \<Rightarrow> int option list \<Rightarrow> alert_row list \<times> int option list" where
  "descend tab kids stack seen =
     (if stack = [] then ([], seen)
      else let p = last stack; rest_stack = butlast stack in
        if List.member seen p then descend tab kids rest_stack seen
        else (case assoc p tab of
                None \<Rightarrow> descend tab kids rest_stack (p # seen)
              | Some a \<Rightarrow>
                  (case descend tab kids (rest_stack @ filter (\<lambda>c. \<not> List.member (p # seen) c) (kids p)) (p # seen) of
                     (ds, sn) \<Rightarrow> (a # ds, sn))))"
  by pat_completeness auto
termination
proof (relation "measures [\<lambda>(tab, kids, stack, seen). card (table_keys tab - set seen), \<lambda>(tab, kids, stack, seen). length stack]",
    goal_cases)
  case (3 tab kids stack seen p rest_stack)
  have "card (table_keys tab - insert p (set seen)) \<le> card (table_keys tab - set seen)"
    by (rule card_mono) (auto simp: table_keys_def)
  moreover have "length rest_stack < length stack" using 3 by (simp add: Let_def) 
  ultimately show ?case by (auto simp: le_less)
next
  case (4 tab kids stack seen p rest_stack a)
  then have "table_keys tab - insert p (set seen) \<subset> table_keys tab - set seen"
    using assoc_keys [of p tab a] by auto
  then have "card (table_keys tab - insert p (set seen)) < card (table_keys tab - set seen)"
    by (intro psubset_card_mono) (auto simp: table_keys_def)
  then show ?case by simp
qed auto

declare descend.simps [simp del]

definition siblings_of :: "api_env \<Rightarrow> nat \<Rightarrow> tables \<Rightarrow> alert_row \<Rightarrow> alert_row list" where
  "siblings_of env limit t a =
     take limit (newest (alert_time env) (filter (\<lambda>b. al_agent_id b = al_agent_id a) (tb_alerts t)))"

text \<open>The rows of the answer: the chain from the oldest ancestor to the alert, and the descendants.\<close>

definition tree_rows :: "api_env \<Rightarrow> alert_row list \<Rightarrow> alert_row \<Rightarrow> alert_row list \<times> alert_row list" where
  "tree_rows env sibs a =
     (let tab = by_pid_of sibs; kids = children_of sibs in
      case climb tab (Some a) [] of (chain, seen) \<Rightarrow>
        (rev chain, fst (descend tab kids
           (filter (\<lambda>c. \<not> List.member seen c) (concat (map kids (ap_set_order env seen)))) seen)))"

definition tree_node :: "api_env \<Rightarrow> int \<Rightarrow> alert_row \<Rightarrow> pydict" where
  "tree_node env i a =
     [(''alert_id'', PInt (ar_id a)), (''pid'', opt_int (al_pid a)), (''parent_pid'', opt_int (al_parent_pid a)),
      (''process_name'', opt_str (al_process_name a)), (''process_path'', opt_str (al_process_path a)),
      (''severity'', PStr (al_severity a)), (''event_type'', opt_str (al_event_type a)),
      (''timestamp'', time_iso (ap_to_iso env) (ar_time a)), (''is_target'', PBool (ar_id a = i))]"

definition alert_process_tree :: "api_env \<Rightarrow> int \<Rightarrow> nat \<Rightarrow> tables \<Rightarrow> (pydict list \<times> pydict list) result" where
  "alert_process_tree env i limit t =
     (case alert_of t i of None \<Rightarrow> Inl (http ''404'')
      | Some a \<Rightarrow> (case tree_rows env (siblings_of env limit t a) a of
          (chain, below) \<Rightarrow> Inr (map (tree_node env i) chain, map (tree_node env i) below)))"

end
