(* ===== verification/Triage_Properties.thy ===== *)
theory Triage_Properties
  imports Alerts_Api
begin

section \<open>Properties of triage\<close>

text \<open>
  The process tree: the chain is the line of parents of the alert and the descendants are what its
  members spawned.  Then resolving and reopening an alert, and what an acknowledgement updates.
\<close>

subsection \<open>The table of process numbers\<close>

lemma assoc_filter_other: "p \<noteq> q \<Longrightarrow> assoc p (filter (\<lambda>(k, v). k \<noteq> q) m) = assoc p m"
  by (induction m) auto

lemma by_pid_row: "assoc p (by_pid_of as) = Some b \<Longrightarrow> b \<in> set as \<and> al_pid b = p \<and> real_pid p"
proof (induction as)
  case (Cons a as)
  then show ?case
    by (cases "p = al_pid a") (auto simp: assoc_filter_other split: if_splits)
qed simp

lemma by_pid_first:
  "real_pid p \<Longrightarrow> assoc p (by_pid_of as) = find_first (\<lambda>a. al_pid a = p) as"
  by (induction as) (auto simp: assoc_filter_other)

lemma parent_linked:
  assumes "parent_of (by_pid_of as) x = Some y"
  shows "al_parent_pid x = al_pid y" "y \<in> set as"
  using assms by_pid_row by (auto simp: parent_of_def split: if_splits)

subsection \<open>The chain\<close>

lemma climb_chain:
  "climb tab cur seen = (chain, sn) \<Longrightarrow>
     (chain = [] \<or> cur = Some (hd chain)) \<and> successively (\<lambda>x y. parent_of tab x = Some y) chain \<and>
     distinct (map al_pid chain) \<and> set (map al_pid chain) \<inter> set seen = {} \<and>
     set sn = set (map al_pid chain) \<union> set seen"
proof (induction tab cur seen arbitrary: chain sn rule: climb.induct)
  case (2 tab a seen)
  show ?case
  proof (cases "\<not> real_pid (al_pid a) \<or> List.member seen (al_pid a)")
    case False
    obtain c1 s1 where r: "climb tab (parent_of tab a) (al_pid a # seen) = (c1, s1)"
      by (cases "climb tab (parent_of tab a) (al_pid a # seen)")
    then have eq: "chain = a # c1" "sn = s1" using 2(2) False by auto
    from 2(1) [OF False r] show ?thesis unfolding eq using False by (cases c1) auto
  qed (use 2(2) in auto)
qed simp

subsection \<open>What the members of the chain spawned\<close>

inductive spawned :: "pid_table \<Rightarrow> (int option \<Rightarrow> int option list) \<Rightarrow> int option set \<Rightarrow> int option \<Rightarrow> bool"
  for tab kids S where
  direct: "p \<in> S \<Longrightarrow> c \<in> set (kids p) \<Longrightarrow> c \<notin> S \<Longrightarrow> spawned tab kids S c"
| deeper: "spawned tab kids S p \<Longrightarrow> assoc p tab \<noteq> None \<Longrightarrow> c \<in> set (kids p) \<Longrightarrow> c \<notin> S \<Longrightarrow> spawned tab kids S c"

lemma descend_step:
  "descend tab kids stack seen = (if stack = [] then ([], seen)
     else if last stack \<in> set seen then descend tab kids (butlast stack) seen
     else case assoc (last stack) tab of
        None \<Rightarrow> descend tab kids (butlast stack) (last stack # seen)
      | Some a \<Rightarrow> (case descend tab kids (butlast stack @ filter (\<lambda>c. c \<notin> set (last stack # seen)) (kids (last stack)))
           (last stack # seen) of (ds, sn) \<Rightarrow> (a # ds, sn)))"
  by (subst descend.simps) (auto simp: Let_def split: option.split)

lemma stack_split: "stack \<noteq> [] \<Longrightarrow> set stack = insert (last stack) (set (butlast stack))"
  by (metis append_butlast_last_id insert_is_Un list.simps(15) set_append sup_commute empty_set)

lemma descend_visits:
  "descend tab kids stack seen = (ds, sn) \<Longrightarrow>
     set seen \<subseteq> set sn \<and> set stack \<subseteq> set sn \<and>
     set ds = {a. \<exists>p \<in> set sn - set seen. assoc p tab = Some a} \<and>
     (\<forall>p \<in> set sn - set seen. assoc p tab = None \<or> set (kids p) \<subseteq> set sn)"
proof (induction tab kids stack seen arbitrary: ds sn rule: descend.induct)
  case (1 tab kids stack seen)
  show ?case
  proof (cases "stack = []")
    case True
    then show ?thesis using 1(4) by (subst (asm) descend_step) auto
  next
    case ne: False
    define p where "p = last stack"
    show ?thesis
    proof (cases "p \<in> set seen")
      case True
      then have r: "descend tab kids (butlast stack) seen = (ds, sn)"
        using 1(4) ne by (subst (asm) descend_step) (simp add: p_def)
      have "List.member seen p" using True by simp
      from 1(1) [OF ne p_def refl this r] show ?thesis
        using True stack_split [OF ne] by (auto simp: p_def)
    next
      case new: False
      then have nm: "\<not> List.member seen p" by simp
      show ?thesis
      proof (cases "assoc p tab")
        case None
        then have r: "descend tab kids (butlast stack) (p # seen) = (ds, sn)"
          using 1(4) ne new by (subst (asm) descend_step) (simp add: p_def)
        note ih = 1(2) [OF ne p_def refl nm None r]
        then have "set sn - set seen = insert p (set sn - set (p # seen))" using new by auto
        then show ?thesis using ih None stack_split [OF ne] by (auto simp: p_def)
      next
        case (Some a)
        define more where "more = butlast stack @ filter (\<lambda>c. c \<notin> set (p # seen)) (kids p)"
        obtain es where r: "descend tab kids more (p # seen) = (es, sn)" and ds: "ds = a # es"
          using 1(4) ne new Some by (subst (asm) descend_step) (auto simp: p_def more_def split: prod.splits)
        have "descend tab kids (butlast stack @ filter (\<lambda>c. \<not> List.member (p # seen) c) (kids p)) (p # seen) = (es, sn)"
          using r by (simp add: more_def)
        note ih = 1(3) [OF ne p_def refl nm Some this]
        have below: "set (kids p) \<subseteq> set sn" using ih by auto
        have "set sn - set seen = insert p (set sn - set (p # seen))" using ih new by auto
        then show ?thesis using ih ds Some below stack_split [OF ne] by (auto simp: p_def)
      qed
    qed
  qed
qed

lemma descend_spawned:
  "descend tab kids stack seen = (ds, sn) \<Longrightarrow> S \<subseteq> set seen \<Longrightarrow> \<forall>p \<in> set stack. spawned tab kids S p \<or> p \<in> S \<Longrightarrow>
     \<forall>p \<in> set sn - set seen. spawned tab kids S p"
proof (induction tab kids stack seen arbitrary: ds sn rule: descend.induct)
  case (1 tab kids stack seen)
  show ?case
  proof (cases "stack = []")
    case True
    then show ?thesis using 1(4) by (subst (asm) descend_step) auto
  next
    case ne: False
    define p where "p = last stack"
    have sub: "set (butlast stack) \<subseteq> set stack" "p \<in> set stack" using stack_split [OF ne] by (auto simp: p_def)
    show ?thesis
    proof (cases "p \<in> set seen")
      case True
      then have r: "descend tab kids (butlast stack) seen = (ds, sn)"
        using 1(4) ne by (subst (asm) descend_step) (simp add: p_def)
      have "List.member seen p" using True by simp
      from 1(1) [OF ne p_def refl this r 1(5)] show ?thesis using 1(6) sub by blast
    next
      case new: False
      then have nm: "\<not> List.member seen p" by simp
      have p: "spawned tab kids S p" using 1(5,6) sub new by blast
      show ?thesis
      proof (cases "assoc p tab")
        case None
        then have r: "descend tab kids (butlast stack) (p # seen) = (ds, sn)"
          using 1(4) ne new by (subst (asm) descend_step) (simp add: p_def)
        have "\<forall>q \<in> set sn - set (p # seen). spawned tab kids S q"
          by (rule 1(2) [OF ne p_def refl nm None r]) (use 1(5,6) sub in auto)
        then show ?thesis using p by auto
      next
        case (Some a)
        define more where "more = butlast stack @ filter (\<lambda>c. c \<notin> set (p # seen)) (kids p)"
        obtain es where r: "descend tab kids more (p # seen) = (es, sn)"
          using 1(4) ne new Some by (subst (asm) descend_step) (auto simp: p_def more_def split: prod.splits)
        have "descend tab kids (butlast stack @ filter (\<lambda>c. \<not> List.member (p # seen) c) (kids p)) (p # seen) = (es, sn)"
          using r by (simp add: more_def)
        from 1(3) [OF ne p_def refl nm Some this] have "\<forall>q \<in> set sn - set (p # seen). spawned tab kids S q"
          using 1(5,6) sub p Some by (auto intro: deeper)
        then show ?thesis using p by auto
      qed
    qed
  qed
qed


text \<open>
  Alert 3 under parent 10: its sibling 2 under the same parent is listed among the descendants, as the
  search starts from every member of the chain.
\<close>

definition tree_row :: "int \<Rightarrow> int \<Rightarrow> int \<Rightarrow> alert_row" where
  "tree_row i p q = blank_alert\<lparr>al_pid := Some p, al_parent_pid := Some q, ar_id := i\<rparr>"

definition tree_env :: api_env where
  "tree_env = \<lparr>ap_from_iso = (\<lambda>_. None), ap_to_iso = (\<lambda>_. []), ap_sha256 = id, ap_now = 0,
     ap_uuid_ok = (\<lambda>_. True), ap_set_order = id\<rparr>"

definition family :: "alert_row list" where
  "family = [tree_row 1 10 0, tree_row 2 20 10, tree_row 3 30 10, tree_row 4 40 30]"

lemma siblings_are_descendants:
  "map_prod (map ar_id) (map ar_id) (tree_rows tree_env family (tree_row 3 30 10)) = ([1, 3], [4, 2])"
  by code_simp


subsection \<open>Acknowledgements\<close>

text \<open>
  The command to kill a process carries the number of the alert; its acknowledgement is applied to
  the remediation with that number as its own key, so the remediation of the alert keeps its status.
\<close>

lemma ack_misses_the_remediation:
  assumes "r \<in> set (so_remediations w)" "re_alert_id r = ar_id a" "re_id r \<noteq> ar_id a"
    "dict_get (kill_command a) ''alert_id'' = PInt i"
  shows "r \<in> set (so_remediations (ack_agent_command g c st d (Some i) w))"
proof -
  have "i = ar_id a" using assms(4) by (simp add: kill_command_def dict_get_def)
  then show ?thesis using assms(1,3) by (force simp: ack_agent_command_def ack_remediation_def)
qed

lemma ack_hits_another_alert:
  assumes "r \<in> set (so_remediations w)" "re_id r = i" "i \<noteq> 0"
  shows "\<exists>r' \<in> set (so_remediations (ack_agent_command g c st d (Some i) w)).
     re_id r' = i \<and> re_alert_id r' = re_alert_id r \<and> re_status r' = st"
proof -
  let ?r = "r\<lparr>re_status := st, re_details := (if truthy d then Some (clip 2000 (text_of d)) else re_details r)\<rparr>"
  have "?r \<in> set (so_remediations (ack_agent_command g c st d (Some i) w))"
    using assms by (force simp: ack_agent_command_def ack_remediation_def image_iff)
  then show ?thesis using assms(2) by (intro bexI [of _ ?r]) simp_all
qed

text \<open>The site filter sees only the newest \<open>limit\<close> agents.\<close>

lemma site_filter_after_limit:
  "get_agents env active demo (Some site) limit t = [] \<or>
   (\<exists>g \<in> set (take limit (newest_agents (filter (\<lambda>g. (active \<longrightarrow> seen_since (ap_now env - 900) g) \<and> (demo \<or> \<not> ag_is_demo g)) (tb_agents t)))).
      truthy (Some site) \<longrightarrow> get_site g = lower (strip site))"
  by (auto simp: get_agents_def Let_def filter_empty_conv text_of_def)

subsection \<open>Resolving and reopening\<close>

lemma resolved_alert_is_muted:
  assumes "redis_laws R view" "triage_mute_fingerprint sha256 a = Inr fp"
  shows "\<exists>s'. record_triage_mute R sha256 agent a s = (Inr TRIAGE_MUTE_TTL, s') \<and>
     view s' = (view s)(triage_key agent fp \<mapsto> RStr ''1'')"
  using redis_lawsD(3) [OF assms(1), of s "triage_key agent fp" TRIAGE_MUTE_TTL "''1''"] assms(2)
  by (auto simp: record_triage_mute_def)

lemma skip_iff_muted:
  assumes "redis_laws R view" "triage_mute_fingerprint sha256 a = Inr fp"
  shows "\<exists>s'. skip_new_alert R sha256 agent a s = (Inr (view s (triage_key agent fp) \<noteq> None), s') \<and> view s' = view s"
  using redis_lawsD(2) [OF assms(1), of s "triage_key agent fp"] assms(2)
  by (auto simp: skip_new_alert_def muted_by_triage_def)

lemma put_alert_of:
  "alert_of t i = Some a \<Longrightarrow> ar_id b = i \<Longrightarrow> alert_of (put_alert b t) i = Some b"
proof -
  have "find_first (\<lambda>a. ar_id a = i) as = Some a \<Longrightarrow> ar_id b = i \<Longrightarrow>
    find_first (\<lambda>a. ar_id a = i) (map (\<lambda>x. if ar_id x = i then b else x) as) = Some b" for as
    by (induction as) auto
  then show "alert_of t i = Some a \<Longrightarrow> ar_id b = i \<Longrightarrow> alert_of (put_alert b t) i = Some b"
    by (simp add: alert_of_def put_alert_def)
qed

lemma alert_of_audit [simp]: "alert_of (log_audit u x y z d t) i = alert_of t i"
  by (simp add: alert_of_def log_audit_def)

lemma put_alert_back:
  assumes "alert_of t i = Some a" "distinct (map ar_id (tb_alerts t))" "ar_id b = i"
  shows "tb_alerts (put_alert a (log_audit u x y z d (put_alert b t))) = tb_alerts t"
proof -
  have a: "a \<in> set (tb_alerts t)" "ar_id a = i"
    using assms(1) find_first_Some by (fastforce simp: alert_of_def)+
  have inj: "inj_on ar_id (set (tb_alerts t))" using assms(2) by (simp add: distinct_map)
  have same: "c = a" if "c \<in> set (tb_alerts t)" "ar_id c = i" for c
    by (rule inj_onD [OF inj]) (use that a in simp_all)
  have "map (\<lambda>x. if ar_id x = i then a else x) (map (\<lambda>x. if ar_id x = i then b else x) (tb_alerts t)) = tb_alerts t"
    unfolding map_map by (rule map_idI) (auto simp: assms(3) dest: same)
  then show ?thesis unfolding put_alert_def log_audit_def a(2) assms(3) by simp
qed

lemma truncate_resolved [simp]: "alert.truncate (a\<lparr>ar_is_resolved := b\<rparr>) = alert.truncate a"
  by (simp add: alert.defs)

lemma close_without_kill:
  assumes "redis_laws R view" "triage_mute_fingerprint (ap_sha256 env) (alert.truncate a) = Inr fp" "\<not> may_kill u a"
  shows "\<exists>s'. close_alert R env u a s = (Inr (False, TRIAGE_MUTE_TTL), s') \<and>
     view s' = (view s)(triage_key (al_agent_id a) fp \<mapsto> RStr ''1'')"
  using resolved_alert_is_muted [OF assms(1,2), of "al_agent_id a" s] assms(3)
  by (auto simp: close_alert_def)

lemma reopen_unmutes:
  assumes "redis_laws R view" "triage_mute_fingerprint (ap_sha256 env) (alert.truncate a) = Inr fp"
  shows "\<exists>s'. reopen_alert R env a s = (Inr (False, 0), s') \<and> view s' = (view s)(triage_key (al_agent_id a) fp := None)"
  using redis_lawsD(6) [OF assms(1), of s "triage_key (al_agent_id a) fp"] assms(2)
  by (auto simp: reopen_alert_def)


definition open_alert :: alert_row where
  "open_alert = blank_alert\<lparr>ar_id := 7, al_description := ''encoded command''\<rparr>"

definition triage_soc :: "(string \<times> rval) list soc" where
  "triage_soc = \<lparr>so_tables = \<lparr>tb_alerts = [open_alert], tb_agents = [], tb_users = [], tb_incidents = [],
       tb_links = [], tb_next = 1, tb_audit = []\<rparr>,
     so_redis = [], so_remediations = [], so_reports = [], so_samples = [], so_notified = []\<rparr>"

definition analyst :: user_row where
  "analyst = \<lparr>us_id = 1, us_username = ''ann'', us_role = Some ''analyst''\<rparr>"


end
