(* ===== verification/Event_Schema.thy ===== *)
theory Event_Schema
  imports Redaction Pytext
begin

section \<open>The validator of the event schema\<close>

text \<open>
  \<open>EventSchema._clamp_oversized_strings\<close> of \<open>app/api/schemas/common.py\<close>, which runs before the
  validation of every event: control characters are removed from each text at the top level, texts
  longer than their field declares are cut, and both losses are recorded in \<open>quality\<close>.
  \<open>FIELD_LIMITS\<close> is the table the code derives from the declared fields, under their names and their
  aliases (the alias generator of the model gives every field its camel-case alias).
\<close>

definition TRUNCATION_TAG :: string where
  "TRUNCATION_TAG = ''truncated''"

definition DECLARED_LIMITS :: "(string \<times> string \<times> int) list" where
  "DECLARED_LIMITS =
    [(''agent_id'', ''agentId'', 64), (''event_type'', ''eventType'', 50), (''hostname'', ''hostname'', 255),
     (''ip_address'', ''ipAddress'', 45), (''os'', ''os'', 50),
     (''parent_process_name'', ''parentProcessName'', 255), (''process_name'', ''processName'', 255),
     (''process_path'', ''processPath'', 1024), (''user'', ''user'', 255), (''file_hash'', ''fileHash'', 64),
     (''processes'', ''processes'', 500), (''agent_version'', ''agentVersion'', 50),
     (''command_line'', ''commandLine'', 4096), (''anomalies'', ''anomalies'', 200),
     (''loaded_modules'', ''loadedModules'', 256), (''event_id'', ''eventId'', 64), (''boot_id'', ''bootId'', 64),
     (''session_id'', ''sessionId'', 128), (''integrity_level'', ''integrityLevel'', 64),
     (''signature'', ''signature'', 256), (''publisher'', ''publisher'', 256), (''proto'', ''proto'', 16),
     (''direction'', ''direction'', 16), (''container_id'', ''containerId'', 128), (''cgroup'', ''cgroup'', 512),
     (''net_namespace'', ''netNamespace'', 128), (''provenance'', ''provenance'', 32),
     (''quality'', ''quality'', 64), (''sampling'', ''sampling'', 32), (''drop_reason'', ''dropReason'', 128)]"

definition FIELD_LIMITS :: "(string \<times> string \<times> int) list" where
  "FIELD_LIMITS = concat (map (\<lambda>(name, alias, n). [(name, name, n), (alias, name, n)]) DECLARED_LIMITS)"

text \<open>One field: its clamped value, the name of the field when it was cut, whether something was stripped.\<close>

definition clamp_value :: "string \<Rightarrow> pyval \<Rightarrow> pyval \<times> string list \<times> bool" where
  "clamp_value key v = (case v of
     PStr s \<Rightarrow>
       (let t = strip_control_chars s; stripped = (t \<noteq> s) in
        case assoc key FIELD_LIMITS of
          None \<Rightarrow> (PStr t, [], stripped)
        | Some (name, n) \<Rightarrow>
            if int (length t) > n then (PStr (clip n t), (if name \<noteq> ''quality'' then [name] else []), stripped)
            else (PStr t, [], stripped))
   | _ \<Rightarrow> (v, [], False))"

definition clamp_markers :: "pydict \<Rightarrow> string list" where
  "clamp_markers d =
     (let rs = map (\<lambda>(k, v). clamp_value k v) d; cut = concat (map (\<lambda>(v, ns, b). ns) rs) in
      (if list_ex (\<lambda>(v, ns, b). b) rs then [CONTROL_TAG] else []) @
      (if cut \<noteq> [] then [TRUNCATION_TAG @ '':'' @ join '','' (str_sort (remdups cut))] else []))"

definition clamp_oversized_strings :: "pyval \<Rightarrow> pyval" where
  "clamp_oversized_strings data = (case data of
     PDict d \<Rightarrow>
       (let clean = map (\<lambda>(k, v). (k, fst (clamp_value k v))) d; markers = clamp_markers d in
        if markers = [] then PDict clean
        else let existing = dict_get clean ''quality'';
                 merged = (if py_truth existing then py_str existing @ '';'' @ join '';'' markers else join '';'' markers)
             in PDict (assoc_put ''quality'' (PStr (clip 64 merged)) clean))
   | v \<Rightarrow> v)"

subsection \<open>What validation then sees\<close>

definition within_limit :: "string \<times> pyval \<Rightarrow> bool" where
  "within_limit kv \<longleftrightarrow> (case snd kv of
     PStr s \<Rightarrow> (case assoc (fst kv) FIELD_LIMITS of None \<Rightarrow> True | Some (name, n) \<Rightarrow> int (length s) \<le> n)
   | _ \<Rightarrow> True)"

definition clean_text :: "string \<times> pyval \<Rightarrow> bool" where
  "clean_text kv \<longleftrightarrow> (case snd kv of PStr s \<Rightarrow> \<not> has_control s | _ \<Rightarrow> True)"

lemma has_control_mem: "has_control s \<longleftrightarrow> (\<exists>c \<in> set s. is_control c)"
  by (simp add: has_control_def list_ex_iff)

lemma has_control_clip: "\<not> has_control s \<Longrightarrow> \<not> has_control (clip n s)"
  by (auto simp: has_control_mem clip_def dest: in_set_takeD)

lemma has_control_strip: "\<not> has_control (strip_control_chars s)"
  by (simp add: has_control_mem strip_control_chars_def)

lemma limits_nonneg: "assoc k FIELD_LIMITS = Some (name, n) \<Longrightarrow> 0 \<le> n"
proof -
  have "list_all (\<lambda>(k, name, n). 0 \<le> n) FIELD_LIMITS" by code_simp
  then show "assoc k FIELD_LIMITS = Some (name, n) \<Longrightarrow> 0 \<le> n"
    using assoc_in_set [of k FIELD_LIMITS] by (fastforce simp: list_all_iff)
qed

definition limited :: "string \<Rightarrow> string \<Rightarrow> string" where
  "limited k t = (case assoc k FIELD_LIMITS of None \<Rightarrow> t | Some (name, n) \<Rightarrow> if int (length t) > n then clip n t else t)"

lemma clamp_value_text: "fst (clamp_value k (PStr s)) = PStr (limited k (strip_control_chars s))"
  by (simp add: clamp_value_def limited_def Let_def split: option.split)

lemma clamp_value_other: "\<forall>s. v \<noteq> PStr s \<Longrightarrow> clamp_value k v = (v, [], False)"
  by (cases v) (simp_all add: clamp_value_def)

lemma limited_clean: "\<not> has_control t \<Longrightarrow> \<not> has_control (limited k t)"
  by (simp add: limited_def has_control_clip split: option.split)

lemma limited_fits: "assoc k FIELD_LIMITS = Some (name, n) \<Longrightarrow> int (length (limited k t)) \<le> n"
  using limits_nonneg [of k name n] by (simp add: limited_def clip_def)

lemma clamp_value_ok:
  "within_limit (k, fst (clamp_value k v))" "clean_text (k, fst (clamp_value k v))"
proof -
  have "within_limit (k, fst (clamp_value k v)) \<and> clean_text (k, fst (clamp_value k v))"
  proof (cases v)
    case (PStr s)
    then show ?thesis
      using limited_fits [of k _ _ "strip_control_chars s"] limited_clean [OF has_control_strip]
      by (simp add: within_limit_def clean_text_def clamp_value_text split: option.split)
  qed (simp_all add: clamp_value_other within_limit_def clean_text_def)
  then show "within_limit (k, fst (clamp_value k v))" "clean_text (k, fst (clamp_value k v))" by simp_all
qed

lemma set_assoc_put: "kv \<in> set (assoc_put k v d) \<Longrightarrow> kv = (k, v) \<or> kv \<in> set d"
  by (induction k v d rule: assoc_put.induct) (auto split: if_splits)

lemma set_join: "set (join sep ws) \<subseteq> set sep \<union> \<Union> (set ` set ws)"
  by (induction sep ws rule: join.induct) auto

lemma join_clean: "\<not> has_control sep \<Longrightarrow> \<forall>w \<in> set ws. \<not> has_control w \<Longrightarrow> \<not> has_control (join sep ws)"
  using set_join [of sep ws] by (fastforce simp: has_control_mem)

lemma has_control_append: "has_control (s @ t) \<longleftrightarrow> has_control s \<or> has_control t"
  by (auto simp: has_control_mem)

definition cut_names :: "pydict \<Rightarrow> string list" where
  "cut_names d = concat (map (\<lambda>(v, ns, b). ns) (map (\<lambda>(k, v). clamp_value k v) d))"

lemma cut_names_declared: "x \<in> set (cut_names d) \<Longrightarrow> x \<in> (\<lambda>(k, name, n). name) ` set FIELD_LIMITS"
  by (force simp: cut_names_def clamp_value_def Let_def split: pyval.splits option.splits if_splits dest: assoc_in_set)

lemma declared_names_clean: "x \<in> (\<lambda>(k, name, n). name) ` set FIELD_LIMITS \<Longrightarrow> \<not> has_control x"
proof -
  have "list_all (\<lambda>(k, name, n). \<not> has_control name) FIELD_LIMITS" by code_simp
  then show "x \<in> (\<lambda>(k, name, n). name) ` set FIELD_LIMITS \<Longrightarrow> \<not> has_control x"
    by (auto simp: list_all_iff)
qed

lemma tags_clean: "\<not> has_control CONTROL_TAG" "\<not> has_control (TRUNCATION_TAG @ '':'')"
  "\<not> has_control '';''" "\<not> has_control '',''"
  by code_simp+

lemma markers_clean: "\<not> has_control (join '';'' (clamp_markers d))"
proof (rule join_clean [OF tags_clean(3)])
  have "\<not> has_control (join '','' (str_sort (remdups (cut_names d))))"
    by (rule join_clean [OF tags_clean(4)]) (auto dest!: cut_names_declared declared_names_clean)
  then have "\<not> has_control ((TRUNCATION_TAG @ '':'') @ join '','' (str_sort (remdups (cut_names d))))"
    using tags_clean(2) unfolding has_control_append by blast
  then have "\<not> has_control (TRUNCATION_TAG @ '':'' @ join '','' (str_sort (remdups (cut_names d))))"
    by simp
  then show "\<forall>w \<in> set (clamp_markers d). \<not> has_control w"
    unfolding clamp_markers_def Let_def cut_names_def [symmetric] using tags_clean(1) by auto
qed

lemma markers_nonempty: "m \<in> set (clamp_markers d) \<Longrightarrow> m \<noteq> []"
  by (auto simp: clamp_markers_def Let_def CONTROL_TAG_def TRUNCATION_TAG_def split: if_splits)

text \<open>The \<open>quality\<close> of a payload is a text or absent; everything else is rejected by the schema.\<close>

definition quality_text :: "pydict \<Rightarrow> bool" where
  "quality_text d \<longleftrightarrow> (case dict_get d ''quality'' of PStr s \<Rightarrow> True | PNone \<Rightarrow> True | _ \<Rightarrow> False)"

lemma clamped_fields: "list_all within_limit (map (\<lambda>(k, v). (k, fst (clamp_value k v))) d)"
  "list_all clean_text (map (\<lambda>(k, v). (k, fst (clamp_value k v))) d)"
  by (auto simp: list_all_iff clamp_value_ok)

lemma assoc_clamped: "assoc k (map (\<lambda>(k, v). (k, fst (clamp_value k v))) d) = map_option (\<lambda>v. fst (clamp_value k v)) (assoc k d)"
  by (induction d) auto

lemma clamp_absent: "fst (clamp_value k PNone) = PNone"
  by (simp add: clamp_value_def)

lemma dict_get_clamped:
  "dict_get (map (\<lambda>(k, v). (k, fst (clamp_value k v))) d) k = fst (clamp_value k (dict_get d k))"
  by (cases "assoc k d") (simp_all add: dict_get_def assoc_clamped clamp_absent)

definition merged_quality :: "pydict \<Rightarrow> string" where
  "merged_quality d = (let q = fst (clamp_value ''quality'' (dict_get d ''quality'')); m = join '';'' (clamp_markers d)
     in clip 64 (if py_truth q then py_str q @ '';'' @ m else m))"

lemma clamp_dict:
  "clamp_oversized_strings (PDict d) =
     PDict (let e = map (\<lambda>(k, v). (k, fst (clamp_value k v))) d in
            if clamp_markers d = [] then e else assoc_put ''quality'' (PStr (merged_quality d)) e)"
  by (simp add: clamp_oversized_strings_def merged_quality_def dict_get_clamped Let_def)

lemma semicolon_clean: "has_control (CHR '';'' # s) \<longleftrightarrow> has_control s"
proof -
  have "\<not> is_control (CHR '';'')" by code_simp
  then show ?thesis by (simp add: has_control_def)
qed

lemma merged_quality_clean:
  assumes "quality_text d"
  shows "\<not> has_control (merged_quality d)"
proof (cases "dict_get d ''quality''")
  case (PStr s)
  then show ?thesis using markers_clean [of d] limited_clean [OF has_control_strip [of s]]
    by (auto simp: merged_quality_def Let_def clamp_value_text has_control_append semicolon_clean intro!: has_control_clip)
qed (use assms markers_clean [of d] in
    \<open>auto simp: quality_text_def merged_quality_def clamp_absent intro!: has_control_clip\<close>)

lemma merged_quality_nonempty: "clamp_markers d \<noteq> [] \<Longrightarrow> merged_quality d \<noteq> []"
  using markers_nonempty [of "hd (clamp_markers d)" d]
  by (cases "clamp_markers d"; cases "tl (clamp_markers d)") (auto simp: merged_quality_def Let_def clip_def)

lemma quality_limit: "assoc ''quality'' FIELD_LIMITS = Some (''quality'', 64)"
  by code_simp

lemma merged_quality_fits: "within_limit (''quality'', PStr (merged_quality d))"
  by (simp add: within_limit_def quality_limit merged_quality_def Let_def clip_def)


text \<open>A name of 300 characters with a NUL in it: the NUL goes, the rest is cut, both are declared.\<close>

definition long_event :: pydict where
  "long_event = [(''hostname'', PStr (''a'' @ [CHR 0x00] @ replicate 300 (CHR ''b''))), (''seq'', PInt 4)]"


text \<open>An existing \<open>quality\<close> of 64 characters leaves no room for the mark: the loss is not declared.\<close>

lemma full_quality_hides_the_cut:
  "clamp_oversized_strings (PDict [(''hostname'', PStr (replicate 300 (CHR ''b''))), (''quality'', PStr (replicate 64 (CHR ''q'')))]) =
   PDict [(''hostname'', PStr (replicate 255 (CHR ''b''))), (''quality'', PStr (replicate 64 (CHR ''q'')))]"
  by code_simp

end
