(* ===== verification/Anomaly_Engine.thy ===== *)
theory Anomaly_Engine
  imports Redis_Interface Pytext Pyval
begin

section \<open>Sorted sets of the Redis client\<close>

text \<open>
  The commands on sorted sets, as a second record of parameters over the state type of the client.
  \<open>zset_laws Z view\<close> is what they are documented to do, \<open>view\<close> giving the members of a key with
  their scores in ascending order (scores first, then members); \<open>map_zset\<close> is a client that satisfies
  the laws, \<open>dead_zset\<close> one that is down.
\<close>

type_synonym scored = "(rat \<times> string) list"

record 's zset =
  zs_add :: "'s \<Rightarrow> string \<Rightarrow> string \<Rightarrow> rat \<Rightarrow> unit result \<times> 's"
  zs_range :: "'s \<Rightarrow> string \<Rightarrow> string list result \<times> 's"
  zs_card :: "'s \<Rightarrow> string \<Rightarrow> int result \<times> 's"
  zs_trim :: "'s \<Rightarrow> string \<Rightarrow> nat \<Rightarrow> unit result \<times> 's"
  zs_expire :: "'s \<Rightarrow> string \<Rightarrow> int \<Rightarrow> unit result \<times> 's"
  zs_delete :: "'s \<Rightarrow> string \<Rightarrow> unit result \<times> 's"

text \<open>
  \<open>ZADD\<close> moves an existing member; \<open>zs_trim s k n\<close> is \<open>ZREMRANGEBYRANK k 0 (-n-1)\<close>, which leaves
  the \<open>n\<close> highest ranks.
\<close>

fun scored_less :: "rat \<times> string \<Rightarrow> rat \<times> string \<Rightarrow> bool" where
  "scored_less (a, m) (b, n) \<longleftrightarrow> a < b \<or> (a = b \<and> str_le m n)"

fun scored_insert :: "rat \<times> string \<Rightarrow> scored \<Rightarrow> scored" where
  "scored_insert x [] = [x]"
| "scored_insert x (y # ys) = (if scored_less x y then x # y # ys else y # scored_insert x ys)"

definition scored_add :: "string \<Rightarrow> rat \<Rightarrow> scored \<Rightarrow> scored" where
  "scored_add m r xs = scored_insert (r, m) (filter (\<lambda>(a, n). n \<noteq> m) xs)"

definition keep_last :: "nat \<Rightarrow> 'a list \<Rightarrow> 'a list" where
  "keep_last n xs = drop (length xs - n) xs"

definition zset_laws :: "'s zset \<Rightarrow> ('s \<Rightarrow> string \<Rightarrow> scored) \<Rightarrow> bool" where
  "zset_laws Z view \<longleftrightarrow>
     (\<forall>s k m r. \<exists>s'. zs_add Z s k m r = (Inr (), s') \<and> view s' = (view s)(k := scored_add m r (view s k))) \<and>
     (\<forall>s k. \<exists>s'. zs_range Z s k = (Inr (map snd (view s k)), s') \<and> view s' = view s) \<and>
     (\<forall>s k. \<exists>s'. zs_card Z s k = (Inr (int (length (view s k))), s') \<and> view s' = view s) \<and>
     (\<forall>s k n. \<exists>s'. zs_trim Z s k n = (Inr (), s') \<and> view s' = (view s)(k := keep_last n (view s k))) \<and>
     (\<forall>s k t. \<exists>s'. zs_expire Z s k t = (Inr (), s') \<and> view s' = view s) \<and>
     (\<forall>s k. \<exists>s'. zs_delete Z s k = (Inr (), s') \<and> view s' = (view s)(k := []))"

definition zset_down :: "'s zset \<Rightarrow> bool" where
  "zset_down Z \<longleftrightarrow>
     (\<forall>s k m r. zs_add Z s k m r = (Inl RedisError, s)) \<and> (\<forall>s k. zs_range Z s k = (Inl RedisError, s)) \<and>
     (\<forall>s k. zs_card Z s k = (Inl RedisError, s)) \<and> (\<forall>s k n. zs_trim Z s k n = (Inl RedisError, s)) \<and>
     (\<forall>s k t. zs_expire Z s k t = (Inl RedisError, s)) \<and> (\<forall>s k. zs_delete Z s k = (Inl RedisError, s))"

lemma zset_lawsD:
  assumes "zset_laws Z view"
  shows "\<exists>s'. zs_add Z s k m r = (Inr (), s') \<and> view s' = (view s)(k := scored_add m r (view s k))"
    "\<exists>s'. zs_range Z s k = (Inr (map snd (view s k)), s') \<and> view s' = view s"
    "\<exists>s'. zs_card Z s k = (Inr (int (length (view s k))), s') \<and> view s' = view s"
    "\<exists>s'. zs_trim Z s k n = (Inr (), s') \<and> view s' = (view s)(k := keep_last n (view s k))"
    "\<exists>s'. zs_expire Z s k t = (Inr (), s') \<and> view s' = view s"
    "\<exists>s'. zs_delete Z s k = (Inr (), s') \<and> view s' = (view s)(k := [])"
  using assms unfolding zset_laws_def by simp_all

lemma length_keep_last: "length (keep_last n xs) \<le> n"
  by (simp add: keep_last_def)

lemma set_keep_last: "set (keep_last n xs) \<subseteq> set xs"
  by (simp add: keep_last_def set_drop_subset)

lemma set_scored_insert: "set (scored_insert x xs) = insert x (set xs)"
  by (induction xs) auto

lemma length_scored_insert: "length (scored_insert x xs) = Suc (length xs)"
  by (induction xs) auto

lemma length_scored_add: "length (scored_add m r xs) \<le> Suc (length xs)"
  by (simp add: scored_add_def length_scored_insert)

subsection \<open>Concrete clients\<close>

type_synonym zmap = "(string \<times> scored) list"

definition zview :: "zmap \<Rightarrow> string \<Rightarrow> scored" where
  "zview m k = assoc_default [] k m"

definition map_zset :: "zmap zset" where
  "map_zset = \<lparr>
     zs_add = (\<lambda>s k m r. (Inr (), assoc_put k (scored_add m r (zview s k)) s)),
     zs_range = (\<lambda>s k. (Inr (map snd (zview s k)), s)),
     zs_card = (\<lambda>s k. (Inr (int (length (zview s k))), s)),
     zs_trim = (\<lambda>s k n. (Inr (), assoc_put k (keep_last n (zview s k)) s)),
     zs_expire = (\<lambda>s k t. (Inr (), s)),
     zs_delete = (\<lambda>s k. (Inr (), assoc_put k [] s))\<rparr>"

definition dead_zset :: "zmap zset" where
  "dead_zset = \<lparr>zs_add = (\<lambda>s k m r. (Inl RedisError, s)), zs_range = (\<lambda>s k. (Inl RedisError, s)),
     zs_card = (\<lambda>s k. (Inl RedisError, s)), zs_trim = (\<lambda>s k n. (Inl RedisError, s)),
     zs_expire = (\<lambda>s k t. (Inl RedisError, s)), zs_delete = (\<lambda>s k. (Inl RedisError, s))\<rparr>"

lemma zview_put: "zview (assoc_put k v s) = (zview s)(k := v)"
  by (rule ext) (simp add: zview_def assoc_default_def)

lemma map_zset_laws: "zset_laws map_zset zview"
  by (simp add: zset_laws_def map_zset_def zview_put)

lemma dead_zset_down: "zset_down dead_zset"
  by (simp add: zset_down_def dead_zset_def)

section \<open>Statistical anomalies\<close>

text \<open>
  \<open>app/services/anomaly_engine.py\<close>: per agent and metric, a window of samples in a Redis sorted set
  and a z-score against it.  Parameters: the sorted-set client, numpy (\<open>np_mean\<close>, \<open>np_std\<close> the
  sample deviation, \<open>np_round2\<close>, \<open>float_text\<close> the printed float), \<open>read_float\<close> (\<open>float(text)\<close>), a
  fresh identifier per sample and the clock.  The rounding of floating-point operations is
  not modelled.
\<close>

record numlib =
  np_mean :: "rat list \<Rightarrow> rat"
  np_std :: "rat list \<Rightarrow> rat"
  np_round2 :: "rat \<Rightarrow> rat"
  float_text :: "rat \<Rightarrow> string"
  read_float :: "string \<Rightarrow> rat option"

record anomaly_settings =
  ae_window_size :: nat
  ae_threshold :: rat
  ae_min_samples :: nat

definition anomaly_engine :: anomaly_settings where
  "anomaly_engine = \<lparr>ae_window_size = 60, ae_threshold = 3, ae_min_samples = 20\<rparr>"

record anomaly =
  an_metric :: string
  an_value :: rat
  an_z_score :: rat
  an_threshold :: rat
  an_level :: string

definition history_key :: "string \<Rightarrow> string \<Rightarrow> string" where
  "history_key agent metric = ''anomaly:'' @ agent @ '':'' @ metric"

text \<open>\<open>[float(m.split(":")[0]) for m in members]\<close>; any failure gives the empty history.\<close>

fun read_all :: "(string \<Rightarrow> rat option) \<Rightarrow> string list \<Rightarrow> rat list option" where
  "read_all f [] = Some []"
| "read_all f (m # ms) = (case f (hd (split_char CHR '':'' m)) of
     None \<Rightarrow> None
   | Some r \<Rightarrow> map_option (\<lambda>rs. r # rs) (read_all f ms))"

definition load_history :: "'s zset \<Rightarrow> numlib \<Rightarrow> string \<Rightarrow> string \<Rightarrow> 's \<Rightarrow> rat list \<times> 's" where
  "load_history Z np agent metric s =
     (case zs_range Z s (history_key agent metric) of
        (Inl x, s1) \<Rightarrow> ([], s1)
      | (Inr members, s1) \<Rightarrow> (case read_all (read_float np) members of None \<Rightarrow> ([], s1) | Some h \<Rightarrow> (h, s1)))"

definition save_value ::
  "'s zset \<Rightarrow> numlib \<Rightarrow> anomaly_settings \<Rightarrow> string \<Rightarrow> string \<Rightarrow> string \<Rightarrow> rat \<Rightarrow> rat \<Rightarrow> 's \<Rightarrow> 's" where
  "save_value Z np st agent metric uid timestamp v s =
     (case zs_add Z s (history_key agent metric) (float_text np v @ '':'' @ uid) timestamp of
        (Inl x, s1) \<Rightarrow> s1
      | (Inr _, s1) \<Rightarrow> snd (zs_trim Z s1 (history_key agent metric) (ae_window_size st)))"

definition anomaly_of :: "numlib \<Rightarrow> anomaly_settings \<Rightarrow> string \<Rightarrow> rat \<Rightarrow> rat list \<Rightarrow> anomaly option" where
  "anomaly_of np st metric v history =
     (if length history < ae_min_samples st then None
      else let mean = np_mean np history; std = np_std np history in
        if \<not> std > 0 then None
        else let z = \<bar>v - mean\<bar> / std in
          if z > ae_threshold st
          then Some \<lparr>an_metric = metric, an_value = v, an_z_score = np_round2 np z, an_threshold = ae_threshold st,
                 an_level = (if z > ae_threshold st * (3 / 2) then ''HIGH'' else ''MEDIUM'')\<rparr>
          else None)"

fun anomaly_analyze ::
  "'s zset \<Rightarrow> numlib \<Rightarrow> anomaly_settings \<Rightarrow> string \<Rightarrow> rat \<Rightarrow> (string \<times> rat \<times> string) list \<Rightarrow> 's \<Rightarrow> anomaly list \<times> 's" where
  "anomaly_analyze Z np st agent timestamp [] s = ([], s)"
| "anomaly_analyze Z np st agent timestamp ((metric, v, uid) # ms) s =
     (case load_history Z np agent metric s of (history, s1) \<Rightarrow>
       (case anomaly_analyze Z np st agent timestamp ms
              (save_value Z np st agent metric uid timestamp v s1) of (as, s2) \<Rightarrow>
         ((case anomaly_of np st metric v history of None \<Rightarrow> as | Some a \<Rightarrow> a # as), s2)))"

subsection \<open>What the engine promises\<close>

text \<open>No verdict before the baseline exists, and the level follows the score.\<close>

lemma anomaly_needs_baseline: "anomaly_of np st metric v history = Some a \<Longrightarrow> ae_min_samples st \<le> length history"
  by (auto simp: anomaly_of_def Let_def split: if_splits)

lemma anomaly_scores:
  assumes "anomaly_of np st metric v history = Some a"
  shows "ae_threshold st * np_std np history < \<bar>v - np_mean np history\<bar>" "0 < np_std np history"
    "an_level a = ''HIGH'' \<longleftrightarrow> ae_threshold st * (3 / 2) < \<bar>v - np_mean np history\<bar> / np_std np history"
  using assms by (auto simp: anomaly_of_def Let_def pos_less_divide_eq split: if_splits)

text \<open>The window never grows beyond its size.\<close>

lemma saved_window_bounded:
  assumes "zset_laws Z view"
  shows "length (view (save_value Z np st agent metric uid t v s) (history_key agent metric)) \<le> ae_window_size st"
proof -
  let ?k = "history_key agent metric"
  obtain s1 where s1: "zs_add Z s ?k (float_text np v @ '':'' @ uid) t = (Inr (), s1)"
    using zset_lawsD(1) [OF assms] by metis
  obtain s2 where s2: "zs_trim Z s1 ?k (ae_window_size st) = (Inr (), s2)"
    "view s2 = (view s1)(?k := keep_last (ae_window_size st) (view s1 ?k))"
    using zset_lawsD(4) [OF assms] by metis
  show ?thesis using s1 s2 by (simp add: save_value_def length_keep_last)
qed

text \<open>With Redis down there is no history, so nothing is ever anomalous.\<close>

lemma no_anomaly_without_redis:
  assumes "zset_down Z" "0 < ae_min_samples st"
  shows "anomaly_analyze Z np st agent t ms s = ([], s)"
  using assms
  by (induction ms) (auto simp: zset_down_def load_history_def save_value_def anomaly_of_def)

end
