(* ===== verification/Session_Correlation.thy ===== *)
theory Session_Correlation
  imports Static_Rules Redis_Interface Anomaly_Engine Incidents Json
begin

section \<open>Correlation of agent events\<close>

text \<open>
  \<open>app/rules/correlation_engine.py\<close>: brute force on failed logins and the lineage of suspicious
  processes.  A step returns whether an exception ended it, the alerts it wrote before, and the
  state of Redis; \<open>session_analyze\<close> runs the steps in order and stops at the first exception,
  which it logs.  The three settings are parameters.  The beacon step, which needs a sorted set and
  the clock, comes after them with the whole of \<open>analyze\<close>.  \<open>sa_agent_id\<close> is the identifier before \<open>_generate_alert\<close> turns it into a
  UUID.
\<close>

record session_alert =
  sa_agent_id :: string
  sa_severity :: string
  sa_process_name :: string
  sa_event_type :: string
  sa_description :: string

record corr_settings =
  st_bruteforce_window :: int
  st_bruteforce_threshold :: int
  st_lineage_cooldown :: int
  st_lineage_parent_ttl :: int

type_synonym 's session_out = "unit result \<times> session_alert list \<times> 's"

definition AUTH_PROCESSES :: "string list" where
  "AUTH_PROCESSES = [''sshd'', ''sshd.exe'', ''winlogon.exe'']"

subsection \<open>Brute force\<close>

definition auth_failure :: "event \<Rightarrow> bool" where
  "auth_failure e \<longleftrightarrow>
     (ev_event_type e = ''SYSLOG_NETWORK'' \<or> List.member AUTH_PROCESSES (lower (or_str (ev_process_name e) []))) \<and>
     (let msg = lower (or_str (ev_command_line e) []) in
      py_in ''failed password'' msg \<or> py_in ''authentication failure'' msg)"

definition bf_user :: "event \<Rightarrow> string" where
  "bf_user e = or_str (Some (strip (lower (or_str (ev_user e) ''unknown'')))) ''unknown''"

definition bf_key :: "event \<Rightarrow> string" where
  "bf_key e = ''corr:bf:'' @ ev_agent_id e @ '':'' @ bf_user e"

definition bf_alert :: "corr_settings \<Rightarrow> event \<Rightarrow> int \<Rightarrow> session_alert" where
  "bf_alert st e n = \<lparr>sa_agent_id = ev_agent_id e, sa_severity = ''CRITICAL'', sa_process_name = ''syslog_auth'',
     sa_event_type = ''correlation_bruteforce'',
     sa_description = ''Multiple failed login attempts ('' @ show_int n @ '') detected within '' @
       show_int (st_bruteforce_window st) @ '' seconds on '' @ fmt_opt (ev_hostname e) @ ''.''\<rparr>"

definition brute_force_detection :: "'s redis \<Rightarrow> corr_settings \<Rightarrow> event \<Rightarrow> 's \<Rightarrow> 's session_out" where
  "brute_force_detection R st e s =
     (if \<not> auth_failure e then (Inr (), [], s)
      else case rd_incr R s (bf_key e) of
        (Inl x, s1) \<Rightarrow> (Inl x, [], s1)
      | (Inr n, s1) \<Rightarrow>
          (case (if n = 1 then rd_expire R s1 (bf_key e) (st_bruteforce_window st) else (Inr (), s1)) of
             (Inl x, s2) \<Rightarrow> (Inl x, [], s2)
           | (Inr _, s2) \<Rightarrow>
               if n \<ge> st_bruteforce_threshold st
               then (case rd_delete R s2 (bf_key e) of (r, s3) \<Rightarrow> (r, [bf_alert st e n], s3))
               else (Inr (), [], s2)))"

subsection \<open>Lineage\<close>

definition LINEAGE_EXTS :: "string list" where
  "LINEAGE_EXTS = [''.exe'', ''.com'', ''.dll'']"

text \<open>The local function \<open>_stem\<close>.\<close>

definition lineage_stem :: "string \<Rightarrow> string" where
  "lineage_stem n = drop_ext LINEAGE_EXTS (after_last CHR ''/'' (back_to_slash (strip (lower n))))"

definition watched :: "(string \<times> string) list" where
  "watched = concat (map (\<lambda>(parents, children, _).
     concat (map (\<lambda>p. map (\<lambda>c. (lineage_stem p, lineage_stem c)) children) parents)) SUSPICIOUS_PARENT_CHILD)"

text \<open>\<open>event.parent_pid or 'unknown'\<close>.\<close>

definition parent_key :: "event \<Rightarrow> string" where
  "parent_key e = ''corr:mal-parent:'' @ ev_agent_id e @ '':'' @
     (case ev_parent_pid e of None \<Rightarrow> ''unknown'' | Some p \<Rightarrow> if p = 0 then ''unknown'' else show_int p)"

definition lineage_key :: "event \<Rightarrow> string \<Rightarrow> string \<Rightarrow> string" where
  "lineage_key e parent child = ''corr:lineage-sent:'' @ ev_agent_id e @ '':'' @ parent @ '':'' @ child"

definition flagged_parent_alert :: "event \<Rightarrow> session_alert" where
  "flagged_parent_alert e = \<lparr>sa_agent_id = ev_agent_id e, sa_severity = ''HIGH'',
     sa_process_name = or_str (ev_process_name e) ''unknown'', sa_event_type = ''correlation_lineage'',
     sa_description = ''Child process '' @ quoted (fmt_opt (ev_process_name e)) @ '' (PID '' @
       fmt_opt_int (ev_pid e) @ '') spawned by previously flagged parent '' @
       quoted (fmt_opt (ev_parent_process_name e)) @ '' (PID '' @ fmt_opt_int (ev_parent_pid e) @
       ''). Possible ongoing compromise.''\<rparr>"

text \<open>The dash of the message is U+2014.\<close>

definition pair_alert :: "event \<Rightarrow> session_alert" where
  "pair_alert e = \<lparr>sa_agent_id = ev_agent_id e, sa_severity = ''CRITICAL'',
     sa_process_name = or_str (ev_process_name e) ''unknown'', sa_event_type = ''correlation_lineage'',
     sa_description = ''Suspicious child process '' @ quoted (fmt_opt (ev_process_name e)) @ '' spawned by '' @
       quoted (fmt_opt (ev_parent_process_name e)) @ '' '' @ [CHR 0xE2, CHR 0x80, CHR 0x94] @
       '' possible macro/document exploit.''\<rparr>"

definition pair_step :: "'s redis \<Rightarrow> corr_settings \<Rightarrow> event \<Rightarrow> 's \<Rightarrow> 's session_out" where
  "pair_step R st e s =
     (let parent = lineage_stem (text_of (ev_parent_process_name e));
          child = lineage_stem (text_of (ev_process_name e)); cool = lineage_key e parent child
      in if \<not> List.member watched (parent, child) then (Inr (), [], s)
         else case rd_get R s cool of
           (Inl x, s1) \<Rightarrow> (Inl x, [], s1)
         | (Inr v, s1) \<Rightarrow>
             if truthy v then (Inr (), [], s1)
             else (case rd_setex R s1 cool (st_lineage_cooldown st) ''1'' of
                 (Inl x, s2) \<Rightarrow> (Inl x, [], s2)
               | (Inr _, s2) \<Rightarrow>
                   (case rd_setex R s2 (parent_key e) (st_lineage_parent_ttl st) ''1'' of
                      (r, s3) \<Rightarrow> (r, [pair_alert e], s3))))"

definition process_lineage_alert :: "'s redis \<Rightarrow> corr_settings \<Rightarrow> event \<Rightarrow> 's \<Rightarrow> 's session_out" where
  "process_lineage_alert R st e s =
     (if ev_event_type e \<noteq> ''PROCESS_CREATED'' \<or> \<not> truthy (ev_parent_process_name e) then (Inr (), [], s)
      else case rd_get R s (parent_key e) of
        (Inl x, s1) \<Rightarrow> (Inl x, [], s1)
      | (Inr v, s1) \<Rightarrow>
          (case pair_step R st e s1 of (r, as, s2) \<Rightarrow>
             (r, (if truthy v then [flagged_parent_alert e] else []) @ as, s2)))"

text \<open>The first two steps of \<open>analyze\<close>; an exception of the first skips the second.\<close>

definition session_analyze :: "'s redis \<Rightarrow> corr_settings \<Rightarrow> event \<Rightarrow> 's \<Rightarrow> session_alert list \<times> 's" where
  "session_analyze R st e s = (case brute_force_detection R st e s of
     (Inl x, as, s1) \<Rightarrow> (as, s1)
   | (Inr _, as, s1) \<Rightarrow> (case process_lineage_alert R st e s1 of (_, bs, s2) \<Rightarrow> (as @ bs, s2)))"

section \<open>Properties of the correlation of agent events\<close>

text \<open>
  The brute-force counter, over a run of failures of one user on one agent: what one failure does
  to the counter, and by induction what a run does.
\<close>

fun bf_run :: "'s redis \<Rightarrow> corr_settings \<Rightarrow> event list \<Rightarrow> 's \<Rightarrow> session_alert list \<times> 's" where
  "bf_run R st [] s = ([], s)"
| "bf_run R st (e # es) s = (case brute_force_detection R st e s of
     (_, as, s1) \<Rightarrow> (case bf_run R st es s1 of (bs, s2) \<Rightarrow> (as @ bs, s2)))"

lemma bf_step:
  assumes "redis_laws R view" "auth_failure e" "view s (bf_key e) = counter_val c"
  shows "\<exists>s'. brute_force_detection R st e s =
      (Inr (), if st_bruteforce_threshold st \<le> int c + 1 then [bf_alert st e (int c + 1)] else [], s') \<and>
    view s' (bf_key e) = counter_val (if st_bruteforce_threshold st \<le> int c + 1 then 0 else c + 1)"
proof -
  let ?k = "bf_key e"
  obtain s1 where s1: "rd_incr R s ?k = (Inr (int c + 1), s1)" "view s1 = (view s)(?k \<mapsto> RNum (int c + 1))"
    using redis_incrD [OF assms(1), of s ?k] assms(3) by auto
  obtain s1' where x: "rd_expire R s1 ?k (st_bruteforce_window st) = (Inr (), s1')" "view s1' = view s1"
    using redis_lawsD(5) [OF assms(1)] by blast
  define s2 where "s2 = (if int c + 1 = 1 then s1' else s1)"
  have r: "(if int c + 1 = 1 then rd_expire R s1 ?k (st_bruteforce_window st) else (Inr (), s1)) = (Inr (), s2)"
    "view s2 = view s1" using x by (simp_all add: s2_def)
  obtain s3 where s3: "rd_delete R s2 ?k = (Inr (), s3)" "view s3 = (view s2)(?k := None)"
    using redis_lawsD(6) [OF assms(1)] by blast
  have "brute_force_detection R st e s =
      (if st_bruteforce_threshold st \<le> int c + 1 then (Inr (), [bf_alert st e (int c + 1)], s3) else (Inr (), [], s2))"
    using assms(2) s1(1) r(1) s3(1) by (simp add: brute_force_detection_def)
  then show ?thesis using s1(2) r(2) s3(2) by (simp add: counter_val_def)
qed

lemma bf_run_counts:
  assumes "redis_laws R view" "\<forall>e \<in> set es. auth_failure e \<and> bf_key e = k" "1 \<le> st_bruteforce_threshold st"
  shows "view s k = counter_val c \<Longrightarrow> int c < st_bruteforce_threshold st \<Longrightarrow>
    int (length (fst (bf_run R st es s))) = (int c + int (length es)) div st_bruteforce_threshold st \<and>
    view (snd (bf_run R st es s)) k = counter_val (nat ((int c + int (length es)) mod st_bruteforce_threshold st))"
  using assms(2)
proof (induction es arbitrary: c s)
  case (Cons e es)
  let ?n = "st_bruteforce_threshold st"
  obtain s' where s': "brute_force_detection R st e s =
      (Inr (), if ?n \<le> int c + 1 then [bf_alert st e (int c + 1)] else [], s')"
      "view s' k = counter_val (if ?n \<le> int c + 1 then 0 else c + 1)"
    using bf_step [OF assms(1), of e s c st] Cons.prems by auto
  show ?case
  proof (cases "?n \<le> int c + 1")
    case True
    then have n: "int c + 1 = ?n" using Cons.prems(2) by simp
    then have l: "int c + int (length (e # es)) = ?n + int (length es)" by simp
    have "(?n + int (length es)) div ?n = 1 + int (length es) div ?n" using assms(3) by simp
    moreover have "(?n + int (length es)) mod ?n = int (length es) mod ?n" by simp
    ultimately show ?thesis
      using Cons.IH [of s' 0] Cons.prems(3) s' True assms(3) unfolding l by (simp add: case_prod_beta)
  next
    case False
    then show ?thesis
      using Cons.IH [of s' "c + 1"] Cons.prems(3) s' by (simp add: case_prod_beta algebra_simps)
  qed
qed (use assms(3) in simp)


definition ssh_failure :: event where
  "ssh_failure = blank_event\<lparr>ev_process_name := Some ''sshd'', ev_user := Some ''Root'',
     ev_command_line := Some ''Failed password for root''\<rparr>"

definition two_per_minute :: corr_settings where
  "two_per_minute = \<lparr>st_bruteforce_window = 60, st_bruteforce_threshold = 2, st_lineage_cooldown = 1800,
     st_lineage_parent_ttl = 300\<rparr>"


section \<open>Beacon detection on connections\<close>

text \<open>
  The third step of \<open>CorrelationEngine.analyze\<close> in \<open>app/rules/correlation_engine.py\<close>, and the whole
  of it: connection times per agent, process and remote host in a sorted set, judged by
  \<open>beacon_verdict\<close>.  Parameters: the two Redis clients, the settings, the clock (its value and its
  JSON text), \<open>fl\<close> (\<open>float()\<close> of the JSON reader) and \<open>set_order\<close>, the order in which a Python set
  lists its elements.
\<close>

record beacon_env =
  be_min_samples :: int
  be_window :: int
  be_max_variance :: rat
  be_now :: rat
  be_now_text :: string
  be_float :: float_reader
  be_set_order :: "string list \<Rightarrow> string list"

definition beacon_key :: "event \<Rightarrow> string \<Rightarrow> string" where
  "beacon_key e host = ''corr:beacon:'' @ ev_agent_id e @ '':'' @
     (case ev_pid e of None \<Rightarrow> ''unknown'' | Some p \<Rightarrow> if p = 0 then ''unknown'' else show_int p) @ '':'' @ host"

definition beacon_member :: "beacon_env \<Rightarrow> string \<Rightarrow> string" where
  "beacon_member B port = json_dumps (PDict [(''ts'', PFloat (be_now B) (be_now_text B)), (''port'', PStr port)])"

text \<open>\<open>json.loads(e)["ts"]\<close> and \<open>json.loads(e).get("port", "")\<close>.\<close>

definition member_ts :: "beacon_env \<Rightarrow> string \<Rightarrow> rat option" where
  "member_ts B m = (case json_loads (be_float B) m of
     Some (PDict d) \<Rightarrow> (case assoc ''ts'' d of None \<Rightarrow> None | Some v \<Rightarrow> number_of v) | _ \<Rightarrow> None)"

definition member_port :: "beacon_env \<Rightarrow> string \<Rightarrow> string option" where
  "member_port B m = (case json_loads (be_float B) m of
     Some (PDict d) \<Rightarrow> (case dict_get_or d ''port'' (PStr []) of PStr p \<Rightarrow> Some p | _ \<Rightarrow> None) | _ \<Rightarrow> None)"

fun all_some :: "'a option list \<Rightarrow> 'a list option" where
  "all_some [] = Some []"
| "all_some (None # xs) = None"
| "all_some (Some x # xs) = map_option (\<lambda>ys. x # ys) (all_some xs)"

definition beacon_alert :: "beacon_env \<Rightarrow> event \<Rightarrow> string \<Rightarrow> string list \<Rightarrow> int \<Rightarrow> verdict \<Rightarrow> session_alert" where
  "beacon_alert B e host ports samples v = \<lparr>sa_agent_id = ev_agent_id e, sa_severity = ''HIGH'',
     sa_process_name = or_str (ev_process_name e) ''unknown'', sa_event_type = ''correlation_beacon'',
     sa_description = ''Potential C2 beacon detected: process '' @ quoted (fmt_opt (ev_process_name e)) @ '' (PID '' @
       fmt_opt_int (ev_pid e) @ '') connecting to '' @ host @ '':'' @
       join '','' (take 5 (be_set_order B (remdups ports))) @ '' every '' @ show_fixed 1 (bv_avg v) @
       ''s (variance='' @ show_fixed 2 (bv_var v) @ '', '' @ show_int samples @ '' samples).''\<rparr>"

text \<open>From \<open>zcard\<close> on: the verdict over the stored times.\<close>

definition beacon_judge :: "'s zset \<Rightarrow> beacon_env \<Rightarrow> event \<Rightarrow> string \<Rightarrow> string \<Rightarrow> 's \<Rightarrow> session_alert list \<times> 's" where
  "beacon_judge Z B e host key s =
     (case zs_card Z s key of
        (Inl x, s1) \<Rightarrow> ([], s1)
      | (Inr samples, s1) \<Rightarrow>
          if samples < be_min_samples B then ([], s1)
          else (case zs_range Z s1 key of
              (Inl x, s2) \<Rightarrow> ([], s2)
            | (Inr entries, s2) \<Rightarrow>
                (case all_some (map (member_ts B) entries) of
                   None \<Rightarrow> ([], s2)
                 | Some ts \<Rightarrow>
                     if int (length ts) < be_min_samples B then ([], s2)
                     else let v = beacon_verdict (map Some ts) (be_min_samples B) (be_max_variance B) in
                       if \<not> bv_beacon v then ([], s2)
                       else (case all_some (map (member_port B) entries) of
                           None \<Rightarrow> ([], s2)
                         | Some ports \<Rightarrow> ([beacon_alert B e host ports samples v], snd (zs_delete Z s2 key))))))"

text \<open>The body of the \<open>try\<close> for one connection.\<close>

definition beacon_track :: "'s zset \<Rightarrow> beacon_env \<Rightarrow> event \<Rightarrow> string \<Rightarrow> string \<Rightarrow> 's \<Rightarrow> session_alert list \<times> 's" where
  "beacon_track Z B e host port s =
     (let key = beacon_key e host in
      case zs_add Z s key (beacon_member B port) (be_now B) of
        (Inl x, s1) \<Rightarrow> ([], s1)
      | (Inr _, s1) \<Rightarrow>
          (case zs_trim Z s1 key 20 of
             (Inl x, s2) \<Rightarrow> ([], s2)
           | (Inr _, s2) \<Rightarrow>
               (case zs_expire Z s2 key (be_window B) of
                  (Inl x, s3) \<Rightarrow> ([], s3)
                | (Inr _, s3) \<Rightarrow> beacon_judge Z B e host key s3)))"

text \<open>One connection: a value without the expected type raises before the \<open>try\<close> and ends the step.\<close>

definition beacon_conn :: "'s zset \<Rightarrow> beacon_env \<Rightarrow> event \<Rightarrow> pydict \<Rightarrow> 's \<Rightarrow> 's session_out" where
  "beacon_conn Z B e conn s =
     (let remote = dict_get_or conn ''remote'' (PStr []); state = dict_get_or conn ''state'' (PStr []) in
      case py_contains '':'' remote of
        Inl x \<Rightarrow> (Inl x, [], s)
      | Inr colon \<Rightarrow>
          if \<not> colon \<or> state \<noteq> PStr ''ESTABLISHED'' then (Inr (), [], s)
          else case as_str remote of
            Inl x \<Rightarrow> (Inl x, [], s)
          | Inr r \<Rightarrow>
              (let host = before_last CHR '':'' r; port = after_last CHR '':'' r in
               if is_private_ip host then (Inr (), [], s)
               else case beacon_track Z B e host port s of (as, s1) \<Rightarrow> (Inr (), as, s1)))"

fun beacon_conns :: "'s zset \<Rightarrow> beacon_env \<Rightarrow> event \<Rightarrow> pydict list \<Rightarrow> 's \<Rightarrow> 's session_out" where
  "beacon_conns Z B e [] s = (Inr (), [], s)"
| "beacon_conns Z B e (c # cs) s =
     (case beacon_conn Z B e c s of
        (Inl x, as, s1) \<Rightarrow> (Inl x, as, s1)
      | (Inr _, as, s1) \<Rightarrow> (case beacon_conns Z B e cs s1 of (r, bs, s2) \<Rightarrow> (r, as @ bs, s2)))"

definition beacon_detection :: "'s zset \<Rightarrow> beacon_env \<Rightarrow> event \<Rightarrow> 's \<Rightarrow> 's session_out" where
  "beacon_detection Z B e s =
     (case ev_network_connections e of None \<Rightarrow> (Inr (), [], s) | Some cs \<Rightarrow> beacon_conns Z B e cs s)"

text \<open>\<open>analyze\<close>: the three steps, stopped by the first exception.\<close>

definition correlation_analyze ::
  "'s redis \<Rightarrow> 's zset \<Rightarrow> corr_settings \<Rightarrow> beacon_env \<Rightarrow> event \<Rightarrow> 's \<Rightarrow> session_alert list \<times> 's" where
  "correlation_analyze R Z st B e s =
     (case brute_force_detection R st e s of
        (Inl x, as, s1) \<Rightarrow> (as, s1)
      | (Inr _, as, s1) \<Rightarrow>
          (case process_lineage_alert R st e s1 of
             (Inl x, bs, s2) \<Rightarrow> (as @ bs, s2)
           | (Inr _, bs, s2) \<Rightarrow> (case beacon_detection Z B e s2 of (_, cs, s3) \<Rightarrow> (as @ bs @ cs, s3))))"

text \<open>The first two steps are those of \<open>session_analyze\<close>.\<close>

lemma correlation_extends_session:
  assumes "correlation_analyze R Z st B e s = (as, s')"
  shows "\<exists>bs. as = fst (session_analyze R st e s) @ bs"
  using assms
  by (auto simp: correlation_analyze_def session_analyze_def split: prod.splits sum.splits)

subsection \<open>Regular times are a beacon\<close>

lemma intervals_regular:
  "intervals (map (\<lambda>i. t0 + of_nat i * d) [0..<n]) = replicate (n - 1) d"
proof (cases n)
  case (Suc m)
  have "intervals (map (\<lambda>i. t0 + of_nat i * d) [0..<Suc m]) ! j = d" if "j < m" for j
    using that by (simp add: intervals_def nth_tl del: upt_Suc) (simp add: algebra_simps)
  moreover have "length (intervals (map (\<lambda>i. t0 + of_nat i * d) [0..<Suc m])) = m"
    by (simp add: intervals_def)
  ultimately show ?thesis
    unfolding Suc by (simp add: list_eq_iff_nth_eq del: upt_Suc)
qed (simp add: intervals_def)

lemma mean_replicate: "0 < n \<Longrightarrow> mean (replicate n d) = d"
  by (simp add: mean_def sum_list_replicate)

lemma variance_replicate: "0 < n \<Longrightarrow> variance (replicate n d) = 0"
  using mean_replicate [of n 0] by (simp add: variance_def mean_replicate)

lemma regular_is_beacon:
  assumes "0 < d" "0 < var" "2 \<le> n" "min_samples \<le> int n"
  shows "bv_beacon (beacon_verdict (map (\<lambda>i. Some (t0 + of_nat i * d)) [0..<n]) min_samples var)"
proof -
  let ?ts = "map (\<lambda>i. t0 + of_nat i * d) [0..<n]"
  have "List.map_filter id (map Some xs) = xs" for xs :: "rat list"
    by (induction xs) (auto simp: map_filter_simps)
  then have f: "List.map_filter id (map (\<lambda>i. Some (t0 + of_nat i * d)) [0..<n]) = ?ts"
    by (metis (no_types, lifting) map_map o_def map_eq_conv)
  have "sorted ?ts"
    using assms(1) by (auto simp: sorted_iff_nth_mono intro: mult_right_mono)
  then have s: "sort ?ts = ?ts" by (rule sorted_sort_id)
  have len: "length ?ts = n" by simp
  have "\<not> int n < max 2 min_samples" "\<not> list_ex (\<lambda>i. i < 0) (replicate (n - 1) d)"
    using assms by (auto simp: list_ex_iff)
  then show ?thesis
    unfolding beacon_verdict_def Let_def f s len intervals_regular
    using assms mean_replicate [of "n - 1" d] variance_replicate [of "n - 1" d] by simp
qed

end
