(* ===== verification/File_Events.thy ===== *)
theory File_Events
  imports Detection_Context Unified_Event Pytext
begin

section \<open>File events and YARA matches\<close>

text \<open>
  \<open>app/services/file_event_service.py\<close>: the alert for a file change or a YARA match, the rate window
  that bounds these alerts, and the event that always goes to the store.  The outcome is the alert the
  session receives (none when the window is full), the event for \<open>store_events\<close>, and the window.
  Parameters: the clock, \<open>uuid_of\<close> (the UUID a text denotes, else \<open>uuid5\<close> of it), and the text of
  the identifier and time of the event.
\<close>

definition FIM_ALERTS_PER_MINUTE :: nat where
  "FIM_ALERTS_PER_MINUTE = 60"

definition YARA_ALERTS_PER_MINUTE :: nat where
  "YARA_ALERTS_PER_MINUTE = 30"

datatype file_kind = Fim | Yara

record rate_window =
  rw_start :: "rat option"
  rw_fim :: nat
  rw_yara :: nat

definition new_window :: rate_window where
  "new_window = \<lparr>rw_start = None, rw_fim = 0, rw_yara = 0\<rparr>"

definition window_limit :: "file_kind \<Rightarrow> nat" where
  "window_limit k = (case k of Fim \<Rightarrow> FIM_ALERTS_PER_MINUTE | Yara \<Rightarrow> YARA_ALERTS_PER_MINUTE)"

definition window_count :: "rate_window \<Rightarrow> file_kind \<Rightarrow> nat" where
  "window_count w k = (case k of Fim \<Rightarrow> rw_fim w | Yara \<Rightarrow> rw_yara w)"

definition window_bump :: "file_kind \<Rightarrow> rate_window \<Rightarrow> rate_window" where
  "window_bump k w = (case k of Fim \<Rightarrow> w\<lparr>rw_fim := rw_fim w + 1\<rparr> | Yara \<Rightarrow> w\<lparr>rw_yara := rw_yara w + 1\<rparr>)"

definition window_roll :: "rat \<Rightarrow> rate_window \<Rightarrow> rate_window" where
  "window_roll now w = (case rw_start w of
     None \<Rightarrow> \<lparr>rw_start = Some now, rw_fim = 0, rw_yara = 0\<rparr>
   | Some t \<Rightarrow> if now - t \<ge> 60 then \<lparr>rw_start = Some now, rw_fim = 0, rw_yara = 0\<rparr> else w)"

definition rate_allow :: "rat \<Rightarrow> file_kind \<Rightarrow> rate_window \<Rightarrow> bool \<times> rate_window" where
  "rate_allow now k w0 =
     (let w = window_roll now w0 in
      if window_count w k \<ge> window_limit k then (False, w) else (True, window_bump k w))"

subsection \<open>Technique of a changed path\<close>

definition AUTOSTART_MARKS :: "string list" where
  "AUTOSTART_MARKS = [backslash # ''tasks'', ''currentversion'' @ [backslash] @ ''run'', ''startup'', ''/cron.'',
     ''/systemd/'', ''/rc'']"

definition SERVICE_MARKS :: "string list" where
  "SERVICE_MARKS = [backslash # ''services'', ''/etc/init.d'', ''systemd'']"

definition classify_fim_mitre :: "string \<Rightarrow> string \<times> string \<times> string" where
  "classify_fim_mitre path =
     (let low = lower path in
      if any_in AUTOSTART_MARKS low then (''Persistence'', ''T1547'', ''Boot or Logon Autostart Execution'')
      else if any_in SERVICE_MARKS low then (''Persistence'', ''T1543'', ''Create or Modify System Process'')
      else (''Impact'', ''T1565.001'', ''Stored Data Manipulation''))"

subsection \<open>The event\<close>

text \<open>The verb and the path of the command line \<open>[FIM] verb: path\<close>.\<close>

fun strip_verb :: "string list \<Rightarrow> string \<Rightarrow> string \<times> string" where
  "strip_verb [] path = (''modified'', path)"
| "strip_verb (kw # kws) path =
     (if startswith (lower path) (kw @ '': '') then (kw, strip (drop (length kw + 2) path))
      else strip_verb kws path)"

definition file_change :: "event \<Rightarrow> string \<times> string" where
  "file_change e =
     (let raw = strip (or_str (ev_command_line e) []);
          path = or_str (Some (strip (replace_str ''[FIM] '' [] raw))) (or_str (ev_process_name e) ''?'')
      in strip_verb [''created'', ''modified'', ''deleted''] path)"

definition file_kind_of :: "event \<Rightarrow> file_kind" where
  "file_kind_of e = (if ev_event_type e = ''YARA_MATCH'' then Yara else Fim)"

definition bare_alert :: "string \<Rightarrow> string \<Rightarrow> string option \<Rightarrow> string \<Rightarrow> string \<Rightarrow> alert" where
  "bare_alert agent severity process event_type description =
     \<lparr>al_agent_id = agent, al_severity = severity, al_pid = None, al_parent_pid = None,
      al_parent_process_name = None, al_process_name = process, al_process_path = None,
      al_event_type = Some event_type, al_description = description, al_mitre_tactic_id = None,
      al_mitre_technique_id = None, al_mitre_tactic_name = None, al_mitre_technique_name = None,
      al_evidence = PNone\<rparr>"

definition file_alert :: "(string \<Rightarrow> string) \<Rightarrow> event \<Rightarrow> alert" where
  "file_alert uuid_of e =
     (let agent = uuid_of (ev_agent_id e) in
      case file_change e of (change, path) \<Rightarrow>
        (case file_kind_of e of
           Yara \<Rightarrow> (bare_alert agent ''HIGH'' (ev_process_name e) ''yara_match''
               (''YARA match '' @ quoted (fmt_opt (ev_process_name e)) @ '': '' @ path))
             \<lparr>al_mitre_tactic_name := Some ''Execution'', al_mitre_technique_id := Some ''T1204'',
              al_mitre_technique_name := Some ''User Execution''\<rparr>
         | Fim \<Rightarrow> (case classify_fim_mitre path of (tactic, tech_id, tech_name) \<Rightarrow>
             (bare_alert agent ''MEDIUM'' (Some (or_str (ev_process_name e) ''file'')) ''fim_file_change''
               (''FIM: file '' @ change @ '': '' @ path))
             \<lparr>al_mitre_tactic_name := Some tactic, al_mitre_technique_id := Some tech_id,
              al_mitre_technique_name := Some tech_name\<rparr>)))"

definition file_uevent :: "string \<Rightarrow> string \<Rightarrow> event \<Rightarrow> uevent" where
  "file_uevent event_id time e =
     (case file_change e of (change, path) \<Rightarrow>
        (let sev = (case file_kind_of e of Fim \<Rightarrow> ''NOTICE'' | Yara \<Rightarrow> ''HIGH'') in
         blank_uevent\<lparr>ue_time := time, ue_source := ''agent:'' @ ev_agent_id e, ue_source_type := ''agent_file'',
           ue_event_id := event_id, ue_ocsf_class_uid := 1001, ue_severity := sev,
           ue_severity_id := severity_to_ocsf (Some sev), ue_hostname := ev_hostname e, ue_user := ev_user e,
           ue_process_name := ev_process_name e,
           ue_file_path := Some (case file_kind_of e of Fim \<Rightarrow> path | Yara \<Rightarrow> last (split_str ''-> '' path)),
           ue_file_hash := ev_file_hash e, ue_command_line := ev_command_line e\<rparr>))"

definition handle_file_event ::
  "rat \<Rightarrow> (string \<Rightarrow> string) \<Rightarrow> string \<Rightarrow> string \<Rightarrow> event \<Rightarrow> rate_window \<Rightarrow> alert option \<times> uevent \<times> rate_window" where
  "handle_file_event now uuid_of event_id time e w =
     (case rate_allow now (file_kind_of e) w of (ok, w1) \<Rightarrow>
        ((if ok then Some (file_alert uuid_of e) else None), file_uevent event_id time e, w1))"

subsection \<open>What the window and the store promise\<close>

definition window_wf :: "rate_window \<Rightarrow> bool" where
  "window_wf w \<longleftrightarrow> rw_fim w \<le> FIM_ALERTS_PER_MINUTE \<and> rw_yara w \<le> YARA_ALERTS_PER_MINUTE"

lemma window_wf_new: "window_wf new_window"
  by (simp add: window_wf_def new_window_def)

lemma window_wf_allow: "window_wf w \<Longrightarrow> window_wf (snd (rate_allow now k w))"
  by (cases k) (auto simp: window_wf_def rate_allow_def window_roll_def window_count_def window_limit_def
      window_bump_def Let_def split: option.split)

lemma allow_counts:
  assumes "rate_allow now k w = (True, w')"
  shows "window_count w' k = window_count (window_roll now w) k + 1" "window_count w' k \<le> window_limit k"
  using assms by (cases k; auto simp: rate_allow_def window_count_def window_bump_def Let_def split: if_splits)+

text \<open>The event reaches the store whatever the window says; its severity label has no OCSF number.\<close>

lemma event_is_stored: "\<exists>a w'. handle_file_event now uuid_of i t e w = (a, file_uevent i t e, w')"
  by (simp add: handle_file_event_def split: prod.split)

lemma fim_severity_unknown:
  assumes "ev_event_type e \<noteq> ''YARA_MATCH''"
  shows "ue_severity_id (file_uevent i t e) = 0"
proof -
  have "severity_to_ocsf (Some ''NOTICE'') = 0" by code_simp
  then show ?thesis
    using assms by (simp add: file_uevent_def file_kind_of_def Let_def split: prod.split)
qed

text \<open>A unit file of systemd is classified as an autostart, not as a service.\<close>

lemma systemd_unit_is_autostart:
  "fst (snd (classify_fim_mitre ''/etc/systemd/system/x.service'')) = ''T1547''"
  by code_simp

end
