(* ===== verification/Telemetry_Service.thy ===== *)
theory Telemetry_Service
  imports Alert_Pipeline Session_Correlation File_Events
begin

section \<open>Telemetry of an agent\<close>

text \<open>
  \<open>process_telemetry\<close> of \<open>app/services/telemetry_service.py\<close>: one event of an agent, from the
  dump of an \<open>EventSchema\<close> to the rows, the alerts and what is dispatched.  Each step of the function is a
  step on \<open>tele_state\<close>, which holds Redis, the rows and alerts pending in the session, the alerts
  created by this event, the agent and custom-rule rows as the session sees them, the rate window
  of file events, and what a commit has stored.  \<open>tele_env\<close> holds the parameters: the Redis
  clients, numpy, \<open>sha256\<close>, the canary setting, the clock, \<open>re.compile\<close> (\<open>None\<close> is
  \<open>re.error\<close>), the construction of an \<open>EventSchema\<close>, the enrichment context, \<open>ipaddress\<close>, the
  outcome of the query for custom rules and whether the flush of the agent row conflicts.
\<close>

record rule_row = custom_rule +
  ru_mitre_tactic_id :: "string option"
  ru_trigger_count :: "int option"
  ru_last_triggered :: "rat option"

record 's tele_env =
  te_redis :: "'s redis"
  te_zset :: "'s zset"
  te_num :: numlib
  te_corr :: corr_settings
  te_beacon :: beacon_env
  te_sha256 :: "string \<Rightarrow> string"
  te_canary :: string
  te_now :: rat
  te_uid :: "string \<Rightarrow> string"
  te_uuid_of :: "string \<Rightarrow> string"
  te_event_text :: "event \<Rightarrow> string \<times> string"
  te_regex :: "string \<Rightarrow> (string \<Rightarrow> bool) option"
  te_schema :: "pydict \<Rightarrow> event result"
  te_context :: "event \<Rightarrow> pydict"
  te_is_ip :: "string \<Rightarrow> bool"
  te_rules_ok :: bool
  te_conflict :: "agent_row \<Rightarrow> bool"

record 's tele_state =
  ts_redis :: 's
  ts_rows :: "pydict list"
  ts_alerts :: "alert list"
  ts_created :: "alert list"
  ts_agent :: "agent_row option"
  ts_rules :: "rule_row list"
  ts_window :: rate_window
  ts_correlated :: "session_alert list"
  ts_uevents :: "uevent list"
  ts_db_rows :: "pydict list"
  ts_db_alerts :: "alert list"
  ts_db_agent :: "agent_row option"
  ts_dispatched :: "alert list"

type_synonym 's tele_step = "'s tele_state \<Rightarrow> unit result \<times> 's tele_state"

subsection \<open>Bounds on the payload\<close>

definition TELEMETRY_LIST_FIELDS :: "string list" where
  "TELEMETRY_LIST_FIELDS = [''processes'', ''users'', ''network_flows'']"

definition TELEMETRY_LIST_MAX_ITEMS :: nat where "TELEMETRY_LIST_MAX_ITEMS = 500"
definition TELEMETRY_JSON_MAX_BYTES :: int where "TELEMETRY_JSON_MAX_BYTES = 65536"
definition CAPABILITIES_MAX_BYTES :: int where "CAPABILITIES_MAX_BYTES = 8192"
definition ANOMALY_MAX_ITEMS :: nat where "ANOMALY_MAX_ITEMS = 50"
definition ANOMALY_MAX_BYTES :: int where "ANOMALY_MAX_BYTES = 4096"

definition cut_list :: "string \<Rightarrow> pydict \<Rightarrow> pydict" where
  "cut_list f d = (case dict_get d f of
     PList xs \<Rightarrow> if length xs > TELEMETRY_LIST_MAX_ITEMS
       then assoc_put f (PList (take TELEMETRY_LIST_MAX_ITEMS xs)) d else d
   | _ \<Rightarrow> d)"

definition field_limit :: "string \<Rightarrow> int" where
  "field_limit f = (if List.member [''capabilities'', ''details''] f then CAPABILITIES_MAX_BYTES
     else TELEMETRY_JSON_MAX_BYTES)"

definition oversize_note :: "int \<Rightarrow> pyval" where
  "oversize_note limit = PDict [(''truncated'', PBool True), (''note'', PStr (''oversize>'' @ show_int limit @ ''B''))]"

fun is_container :: "pyval \<Rightarrow> bool" where
  "is_container (PDict m) = True"
| "is_container (PList xs) = True"
| "is_container v = False"

text \<open>The JSON text is ASCII, so its length is its size in bytes; a value read from JSON always serialises.\<close>

definition bound_size :: "string \<Rightarrow> pydict \<Rightarrow> pydict" where
  "bound_size f d =
     (let v = dict_get d f in
      if is_container v \<and> int (length (json_dumps v)) > field_limit f
      then assoc_put f (oversize_note (field_limit f)) d else d)"

definition bound_telemetry_data :: "pydict \<Rightarrow> pydict" where
  "bound_telemetry_data d =
     fold bound_size (TELEMETRY_LIST_FIELDS @ [''capabilities'', ''details''])
       (fold cut_list TELEMETRY_LIST_FIELDS d)"

subsection \<open>Names of processes\<close>

text \<open>\<open>_proc_str\<close>: three rounds, each going into a nested \<open>name\<close>.\<close>

definition PROC_KEYS :: "string list" where
  "PROC_KEYS = [''name'', ''process_name'', ''comm'', ''path'', ''process_path'']"

fun first_text :: "pydict \<Rightarrow> string list \<Rightarrow> string option" where
  "first_text d [] = None"
| "first_text d (k # ks) = (case dict_get d k of
     PStr s \<Rightarrow> if strip s \<noteq> [] then Some (clip 255 (strip s)) else first_text d ks
   | _ \<Rightarrow> first_text d ks)"

fun proc_rounds :: "nat \<Rightarrow> string list \<Rightarrow> string \<Rightarrow> pyval \<Rightarrow> string" where
  "proc_rounds 0 ks dflt v = dflt"
| "proc_rounds (Suc n) ks dflt v = (case v of
     PStr s \<Rightarrow> if strip s \<noteq> [] then clip 255 (strip s) else dflt
   | PDict d \<Rightarrow> (case first_text d ks of
       Some s \<Rightarrow> s
     | None \<Rightarrow> (case dict_get d ''name'' of
         PDict m \<Rightarrow> proc_rounds n ks dflt (PDict m)
       | PStr s \<Rightarrow> proc_rounds n ks dflt (PStr s)
       | _ \<Rightarrow> proc_rounds n ks dflt PNone))
   | _ \<Rightarrow> dflt)"

definition proc_str :: "pyval \<Rightarrow> string list \<Rightarrow> string \<Rightarrow> string" where
  "proc_str v ks dflt = proc_rounds 3 (if ks = [] then PROC_KEYS else ks) dflt v"

subsection \<open>The rows of the sample and of the agent\<close>

definition telemetry_row :: "string \<Rightarrow> pydict \<Rightarrow> pydict" where
  "telemetry_row agent d =
     (''device_id'', PStr agent) #
     map (\<lambda>k. (k, dict_get d k)) [''cpu_usage'', ''ram_usage'', ''disk_free'', ''disk_total'', ''network_sent'',
       ''network_received''] @
     [(''processes'', case dict_get d ''processes'' of PList xs \<Rightarrow> PDict [(''list'', PList xs)] | v \<Rightarrow> v)] @
     map (\<lambda>k. (k, dict_get d k)) [''ip_local'', ''ip_public'', ''geo_country'', ''geo_city'', ''users'', ''network_flows'']"

text \<open>\<open>data.get(k)\<close> where the schema declares \<open>Optional[str]\<close> or \<open>Optional[int]\<close>.\<close>

definition text_field :: "pydict \<Rightarrow> string \<Rightarrow> string option" where
  "text_field d k = as_opt_str (assoc k d)"

definition int_field :: "pydict \<Rightarrow> string \<Rightarrow> int option" where
  "int_field d k = (case dict_get d k of PInt i \<Rightarrow> Some i | _ \<Rightarrow> None)"

definition touch :: "rat \<Rightarrow> pydict \<Rightarrow> agent_row \<Rightarrow> agent_row" where
  "touch now d a = a\<lparr>ag_last_seen := Some now,
     ag_ip_address := (if truthy (text_field d ''ip_address'') then text_field d ''ip_address'' else ag_ip_address a)\<rparr>"

definition refresh_agent :: "pydict \<Rightarrow> agent_row \<Rightarrow> agent_row" where
  "refresh_agent d a = a\<lparr>
     ag_hostname := first_truthy (text_field d ''hostname'') (ag_hostname a),
     ag_os_type := first_truthy (first_truthy (text_field d ''os'') (text_field d ''os_type'')) (ag_os_type a),
     ag_agent_version := (if py_truth (dict_get d ''agent_version'')
       then Some (clip 50 (py_str (dict_get d ''agent_version''))) else ag_agent_version a),
     ag_capabilities := (if is_container (dict_get d ''capabilities'') then dict_get d ''capabilities''
       else ag_capabilities a)\<rparr>"

definition truthy_or_none :: "string option \<Rightarrow> string option" where
  "truthy_or_none x = (if truthy x then x else None)"

definition fresh_agent :: "string \<Rightarrow> rat \<Rightarrow> pydict \<Rightarrow> agent_row" where
  "fresh_agent agent now d = blank_agent\<lparr>ag_agent_id := agent,
     ag_hostname := truthy_or_none (text_field d ''hostname''),
     ag_ip_address := truthy_or_none (text_field d ''ip_address''),
     ag_os_type := truthy_or_none (first_truthy (text_field d ''os'') (text_field d ''os_type'')),
     ag_agent_type := first_truthy (text_field d ''agent_type'') (Some ''nodetrace''),
     ag_last_seen := Some now\<rparr>"

text \<open>
  A conflict of the flush rolls the session back: what was pending is gone, the agent is read again.
\<close>

definition update_agent :: "'s tele_env \<Rightarrow> string \<Rightarrow> pydict \<Rightarrow> 's tele_state \<Rightarrow> 's tele_state" where
  "update_agent E agent d s = (case ts_agent s of
     None \<Rightarrow> s\<lparr>ts_agent := Some (fresh_agent agent (te_now E) d)\<rparr>
   | Some a \<Rightarrow>
       (let b = refresh_agent d (touch (te_now E) d a) in
        if te_conflict E b
        then s\<lparr>ts_rows := [], ts_alerts := [], ts_agent := map_option (touch (te_now E) d) (ts_db_agent s)\<rparr>
        else s\<lparr>ts_agent := Some b\<rparr>))"

subsection \<open>Offering an alert\<close>

text \<open>The cooldown is taken before the mute is read; the fingerprint of the mute may raise.\<close>

definition offer_alert :: "'s tele_env \<Rightarrow> string \<Rightarrow> string \<Rightarrow> alert \<Rightarrow> 's tele_step" where
  "offer_alert E agent key a s =
     (case suppressed (te_redis E) agent key (ts_redis s) of
        (True, r1) \<Rightarrow> (Inr (), s\<lparr>ts_redis := r1\<rparr>)
      | (False, r1) \<Rightarrow>
          (case skip_new_alert (te_redis E) (te_sha256 E) agent a r1 of
             (Inl x, r2) \<Rightarrow> (Inl x, s\<lparr>ts_redis := r2\<rparr>)
           | (Inr True, r2) \<Rightarrow> (Inr (), s\<lparr>ts_redis := r2\<rparr>)
           | (Inr False, r2) \<Rightarrow> (Inr (), s\<lparr>ts_redis := r2, ts_alerts := ts_alerts s @ [a],
               ts_created := ts_created s @ [a]\<rparr>)))"

fun tele_seq :: "('a \<Rightarrow> 's tele_step) \<Rightarrow> 'a list \<Rightarrow> 's tele_step" where
  "tele_seq f [] s = (Inr (), s)"
| "tele_seq f (x # xs) s = (case f x s of (Inl e, s1) \<Rightarrow> (Inl e, s1) | (Inr _, s1) \<Rightarrow> tele_seq f xs s1)"

subsection \<open>Statistical anomalies\<close>

definition PSEUDO_PROCESSES :: "string list" where
  "PSEUDO_PROCESSES = [''system idle process'', ''idle'', ''memcompression'', ''registry'', ''secure system'']"

text \<open>An entry \<open>name(pid)\<close> of an old agent.\<close>

definition parse_entry :: "string \<Rightarrow> pydict" where
  "parse_entry p =
     (let parts = split_char CHR ''('' p; tl1 = rev (dropWhile (\<lambda>c. c = CHR '')'') (rev (parts ! 1))) in
      [(''name'', PStr (strip (hd parts))),
       (''pid'', PInt (case read_int tl1 of None \<Rightarrow> 0 | Some i \<Rightarrow> i)), (''cpu_percent'', PInt 0)])"

definition process_entries :: "pyval list \<Rightarrow> pydict list" where
  "process_entries ps = concat (map (\<lambda>p. case p of
     PDict d \<Rightarrow> [d] | PStr s \<Rightarrow> if CHR ''('' \<in> set s then [parse_entry s] else [] | _ \<Rightarrow> []) ps)"

definition real_process :: "pydict \<Rightarrow> bool result" where
  "real_process p =
     (if List.member PSEUDO_PROCESSES (strip (lower (py_str (dict_get_or p ''name'' (PStr []))))) then Inr False
      else bind_result (py_int (py_or (dict_get p ''pid'') (PInt 0))) (\<lambda>i. Inr (i \<noteq> 0)))"

fun filter_result :: "('a \<Rightarrow> bool result) \<Rightarrow> 'a list \<Rightarrow> 'a list result" where
  "filter_result f [] = Inr []"
| "filter_result f (x # xs) = bind_result (f x) (\<lambda>b. bind_result (filter_result f xs) (\<lambda>ys.
     Inr (if b then x # ys else ys)))"

definition CPU_KEYS :: "string list" where
  "CPU_KEYS = [''cpu_percent'', ''cpu_usage'', ''cpu'', ''percent'']"

definition RAM_KEYS :: "string list" where
  "RAM_KEYS = [''memory_percent'', ''ram_usage'', ''memory_percent'', ''mem_usage'', ''ram'', ''memory'']"

definition to_float :: "numlib \<Rightarrow> pyval \<Rightarrow> rat option" where
  "to_float np v = (case v of PStr t \<Rightarrow> read_float np t | _ \<Rightarrow> number_of v)"

fun proc_score :: "numlib \<Rightarrow> string list \<Rightarrow> pydict \<Rightarrow> rat" where
  "proc_score np [] p = 0"
| "proc_score np (k # ks) p = (case to_float np (dict_get p k) of Some r \<Rightarrow> r | None \<Rightarrow> proc_score np ks p)"

text \<open>The name and the context of the heaviest process; any error leaves the defaults.\<close>

definition top_process :: "numlib \<Rightarrow> pydict \<Rightarrow> string \<Rightarrow> string \<times> string" where
  "top_process np d metric =
     (let dflt = (''unknown'', ''host-wide resource spike (no per-process data): '') in
      case dict_get d ''processes'' of
        PList (p # ps) \<Rightarrow>
          (case filter_result real_process (process_entries (p # ps)) of
             Inl x \<Rightarrow> dflt
           | Inr procs \<Rightarrow>
               (let score = proc_score np (if py_in ''cpu'' metric then CPU_KEYS else RAM_KEYS);
                    ranked = sort_key (\<lambda>q. - score q) (filter (\<lambda>q. score q > 0) procs)
                in case ranked of
                     q # _ \<Rightarrow> (let n = proc_str (PDict q) [] ''unknown'' in (n, ''on process '' @ quoted n @ '': ''))
                   | [] \<Rightarrow> (case procs of
                       q # _ \<Rightarrow> (let n = proc_str (PDict q) [] ''unknown''
                         in (n, ''heaviest sampled process '' @ quoted n @ '', host-wide spike: ''))
                     | [] \<Rightarrow> dflt)))
      | _ \<Rightarrow> dflt)"

text \<open>\<open>str.title()\<close>.\<close>

fun title_case :: "bool \<Rightarrow> string \<Rightarrow> string" where
  "title_case in_word [] = []"
| "title_case in_word (c # s) =
     (let up = 65 \<le> code c \<and> code c \<le> 90; lo = 97 \<le> code c \<and> code c \<le> 122 in
      (if in_word then lower_char c else upper_char c) # title_case (up \<or> lo) s)"

text \<open>The dash is U+2014.\<close>

definition anomaly_alert :: "'s tele_env \<Rightarrow> string \<Rightarrow> pydict \<Rightarrow> anomaly \<Rightarrow> alert" where
  "anomaly_alert E agent d a =
     (case top_process (te_num E) d (an_metric a) of (top_proc, context) \<Rightarrow>
        (let fl = (\<lambda>r. PFloat r (float_text (te_num E) r)) in
         (bare_alert agent (an_level a) (Some top_proc) ''statistical_anomaly''
           (''Suspicious '' @ title_case False (replace_char CHR ''_'' '' '' (an_metric a)) @ '' spike (z-score='' @
            show_fixed 1 (an_z_score a) @ '', threshold='' @ show_fixed 1 (an_threshold a) @ '') '' @ context @
            ''current='' @ show_fixed 1 (an_value a) @ ''% '' @ [CHR 0xE2, CHR 0x80, CHR 0x94] @
            '' significantly above normal baseline. ''))
         \<lparr>al_evidence := PDict [(''source'', PStr ''anomaly-engine''), (''metric'', PStr (an_metric a)),
            (''value'', fl (an_value a)), (''z_score'', fl (an_z_score a)), (''threshold'', fl (an_threshold a)),
            (''process'', PStr top_proc)]\<rparr>))"

definition anomaly_step :: "'s tele_env \<Rightarrow> string \<Rightarrow> pydict \<Rightarrow> anomaly \<Rightarrow> 's tele_step" where
  "anomaly_step E agent d a =
     offer_alert E agent (''anomaly:'' @ an_metric a @ '':'' @ fst (top_process (te_num E) d (an_metric a)))
       (anomaly_alert E agent d a)"

definition metric_values :: "pydict \<Rightarrow> (string \<times> rat) list" where
  "metric_values d = concat (map (\<lambda>k. case number_of (dict_get d k) of None \<Rightarrow> [] | Some r \<Rightarrow> [(k, r)])
     [''cpu_usage'', ''ram_usage''])"

definition anomalies_step :: "'s tele_env \<Rightarrow> string \<Rightarrow> pydict \<Rightarrow> 's tele_step" where
  "anomalies_step E agent d s =
     (case anomaly_analyze (te_zset E) (te_num E) anomaly_engine agent (te_now E)
            (map (\<lambda>(k, v). (k, v, te_uid E k)) (metric_values d)) (ts_redis s) of
        (as, r1) \<Rightarrow> tele_seq (anomaly_step E agent d) as (s\<lparr>ts_redis := r1\<rparr>))"

section \<open>Telemetry of an agent: rules, tags, anomalies, dispatch\<close>

text \<open>
  The rest of \<open>process_telemetry\<close>: the custom rules on the sampled processes, the branches for
  connections and process creations, the tags and anomalies an agent reports, file events, the
  commit and what follows it.  \<open>alert_storable\<close> is the declaration of the table \<open>alerts\<close> in
  \<open>app/database/models.py\<close>: the database refuses a row that breaks it, and the commit raises.
\<close>

subsection \<open>Custom rules on processes\<close>

definition rule_value :: "pydict \<Rightarrow> string \<Rightarrow> string" where
  "rule_value p field =
     assoc_default [] field [(''process_name'', proc_str (PDict p) [''name'', ''process_name''] ''unknown''),
       (''process_path'', proc_str (PDict p) [''path'', ''process_path''] [])]"

definition custom_alert :: "string \<Rightarrow> rule_row \<Rightarrow> string \<Rightarrow> string \<Rightarrow> alert" where
  "custom_alert agent r name v =
     (bare_alert agent (upper (cu_severity r)) (Some (or_str (Some name) ''Unknown'')) ''custom_rule''
        (''Rule '' @ quoted (cu_name r) @ '' matched: '' @ cu_target_field r @ ''='' @ quoted v @
         '' matched pattern /'' @ cu_pattern r @ ''/''))
     \<lparr>al_mitre_tactic_id := first_truthy (ru_mitre_tactic_id r) (cu_mitre_tactic r),
      al_mitre_technique_id := first_truthy (cu_mitre_technique_id r) (cu_mitre_technique r),
      al_mitre_tactic_name := cu_mitre_tactic r, al_mitre_technique_name := cu_mitre_technique r,
      al_evidence := PDict [(''source'', PStr ''custom_rule''), (''rule_id'', PInt (cu_id r)),
        (''rule_name'', PStr (cu_name r))]\<rparr>"

definition rule_hits :: "(string \<Rightarrow> bool) \<Rightarrow> rule_row \<Rightarrow> pyval \<Rightarrow> bool" where
  "rule_hits rx r p = (case p of
     PDict d \<Rightarrow> rule_value d (cu_target_field r) \<noteq> [] \<and> rx (rule_value d (cu_target_field r)) | _ \<Rightarrow> False)"

definition count_trigger :: "rat \<Rightarrow> int \<Rightarrow> rule_row list \<Rightarrow> rule_row list" where
  "count_trigger now i rs = map (\<lambda>r. if cu_id r = i
     then r\<lparr>ru_trigger_count := Some ((case ru_trigger_count r of None \<Rightarrow> 0 | Some n \<Rightarrow> n) + 1),
            ru_last_triggered := Some now\<rparr> else r) rs"

text \<open>The first matching process decides, whatever becomes of its alert.\<close>

definition custom_rule_step :: "'s tele_env \<Rightarrow> string \<Rightarrow> pyval list \<Rightarrow> rule_row \<Rightarrow> 's tele_step" where
  "custom_rule_step E agent ps r s = (case te_regex E (cu_pattern r) of
     None \<Rightarrow> (Inr (), s)
   | Some rx \<Rightarrow> (case find_first (rule_hits rx r) ps of
       Some (PDict d) \<Rightarrow>
         (let name = rule_value d ''process_name'' in
          offer_alert E agent (''custom:'' @ show_int (cu_id r) @ '':'' @ name)
            (custom_alert agent r name (rule_value d (cu_target_field r)))
            (s\<lparr>ts_rules := count_trigger (te_now E) (cu_id r) (ts_rules s)\<rparr>))
     | _ \<Rightarrow> (Inr (), s)))"

definition custom_rules_step :: "'s tele_env \<Rightarrow> string \<Rightarrow> pydict \<Rightarrow> 's tele_step" where
  "custom_rules_step E agent d s =
     (if \<not> te_rules_ok E then (Inr (), s)
      else case dict_get d ''processes'' of
        PList ps \<Rightarrow> tele_seq (custom_rule_step E agent ps) (ts_rules s) s
      | _ \<Rightarrow> (Inr (), s))"

subsection \<open>Connections and process creations\<close>

definition event_type_of :: "pydict \<Rightarrow> pyval" where
  "event_type_of d = py_or (dict_get d ''event_type'') (py_or (dict_get d ''eventType'') (PStr []))"

definition connection_fields :: "string \<Rightarrow> pydict \<Rightarrow> pyval \<Rightarrow> pydict" where
  "connection_fields agent d conns =
     [(''agent_id'', PStr agent), (''event_type'', PStr ''CONNECTION_ESTABLISHED''),
      (''process_name'', py_or (dict_get d ''process_name'') (py_or (dict_get d ''comm'') (PStr ''unknown''))),
      (''network_connections'', conns)]"

text \<open>Only beacons, and never an error; the timestamp of the event is the clock.\<close>

definition connection_step :: "'s tele_env \<Rightarrow> string \<Rightarrow> pydict \<Rightarrow> 's tele_state \<Rightarrow> 's tele_state" where
  "connection_step E agent d s =
     (let conns0 = py_or (dict_get d ''network_connections'') (PList []);
          conns = (if py_truth (dict_get d ''remote'') \<and> \<not> py_truth conns0
            then PList [PDict [(''remote'', dict_get d ''remote''), (''state'', PStr ''ESTABLISHED'')]] else conns0)
      in if \<not> py_truth conns then s
         else case te_schema E (connection_fields agent d conns) of
           Inl x \<Rightarrow> s
         | Inr e \<Rightarrow> (case correlation_analyze (te_redis E) (te_zset E) (te_corr E) (te_beacon E) e (ts_redis s) of
             (as, r1) \<Rightarrow> s\<lparr>ts_redis := r1, ts_correlated := ts_correlated s @ as\<rparr>))"

definition process_step :: "'s tele_env \<Rightarrow> string \<Rightarrow> pydict \<Rightarrow> 's tele_state \<Rightarrow> 's tele_state" where
  "process_step E agent d s = (case te_schema E d of
     Inl x \<Rightarrow> s
   | Inr e \<Rightarrow>
       (case process_created (te_redis E) (te_sha256 E) (te_canary E) agent (te_context E e) e (ts_redis s) of
          (None, r1) \<Rightarrow> s\<lparr>ts_redis := r1\<rparr>
        | (Some a, r1) \<Rightarrow> s\<lparr>ts_redis := r1, ts_alerts := ts_alerts s @ [a], ts_created := ts_created s @ [a]\<rparr>))"

subsection \<open>Tags of the Guard\<close>

definition BEHAVIORAL_TAG_MITRE :: "(string \<times> string \<times> string \<times> string \<times> string) list" where
  "BEHAVIORAL_TAG_MITRE =
    [(''SUSPICIOUS_SVCHOST_PARENT'', ''HIGH'', ''Defense Evasion'', ''T1055'', ''Process Injection''),
     (''OFFICE_SPAWNED_SHELL'', ''CRITICAL'', ''Execution'', ''T1566'', ''Phishing / Macro Execution''),
     (''SUSPICIOUS_POWERSHELL_ARGS'', ''HIGH'', ''Execution'', ''T1059.001'', ''PowerShell''),
     (''HIDDEN_OR_BYPASS_EXECUTION'', ''HIGH'', ''Defense Evasion'', ''T1562'', ''Impair Defenses''),
     (''CREDENTIAL_DUMPING_TOOL_DETECTED'', ''CRITICAL'', ''Credential Access'', ''T1003'', ''OS Credential Dumping''),
     (''POSSIBLE_CRYPTOMINER'', ''HIGH'', ''Impact'', ''T1496'', ''Resource Hijacking''),
     (''SUSPICIOUS_LOLBIN_MEMORY'', ''MEDIUM'', ''Execution'', ''T1218'', ''System Binary Proxy Execution''),
     (''HIGH_CONNECTION_COUNT_TO_IP'', ''HIGH'', ''Command and Control'', ''T1071'', ''Application Layer Protocol'')]"

definition tag_mitre :: "string \<Rightarrow> string \<times> string \<times> string option \<times> string" where
  "tag_mitre tag = (case assoc tag BEHAVIORAL_TAG_MITRE of
     Some (severity, tactic, tid, tname) \<Rightarrow> (severity, tactic, Some tid, tname)
   | None \<Rightarrow> (''MEDIUM'', ''Unknown'', None, tag))"

definition command_line_of :: "pydict \<Rightarrow> string" where
  "command_line_of d = text_of (first_truthy (text_field d ''command_line'') (first_truthy (text_field d ''commandLine'') (Some [])))"

definition with_mitre :: "string \<times> string \<times> string option \<times> string \<Rightarrow> alert \<Rightarrow> alert" where
  "with_mitre m a = (case m of (severity, tactic, tid, tname) \<Rightarrow>
     a\<lparr>al_severity := severity, al_mitre_tactic_name := Some tactic, al_mitre_technique_id := tid,
       al_mitre_technique_name := Some tname\<rparr>)"

text \<open>The arrow is U+2190.\<close>

definition tag_alert :: "string \<Rightarrow> pydict \<Rightarrow> string \<Rightarrow> alert" where
  "tag_alert agent d tag =
     (let cmd = command_line_of d in
      with_mitre (tag_mitre tag)
       ((bare_alert agent [] (Some (or_str (text_field d ''process_name'') ''unknown'')) ''behavioral_detection''
          (''[Sensor Heuristic] '' @ tag @ '': '' @ py_str (dict_get_or d ''process_name'' (PStr ''?'')) @ '' '' @
           [CHR 0xE2, CHR 0x86, CHR 0x90] @ '' '' @ py_str (dict_get_or d ''parent_process_name'' (PStr ''?'')) @
           '' | CLI: '' @ take 200 cmd))
        \<lparr>al_pid := int_field d ''pid'', al_parent_pid := int_field d ''parent_pid'',
         al_parent_process_name := text_field d ''parent_process_name'', al_process_path := text_field d ''process_path'',
         al_evidence := PDict [(''source'', PStr ''aegis-guard''), (''tag'', PStr tag), (''command_line'', PStr cmd),
           (''pid'', dict_get d ''pid''), (''parent_pid'', dict_get d ''parent_pid''),
           (''parent_process_name'', dict_get d ''parent_process_name''),
           (''process_path'', dict_get d ''process_path''),
           (''user'', py_or (dict_get d ''user'') (dict_get d ''username''))]\<rparr>))"

text \<open>The schema makes every tag a string; another value could not be looked up or joined.\<close>

definition tag_step :: "'s tele_env \<Rightarrow> string \<Rightarrow> pydict \<Rightarrow> pyval \<Rightarrow> 's tele_step" where
  "tag_step E agent d tag s = (case tag of
     PStr t \<Rightarrow> offer_alert E agent
       (''btag:'' @ t @ '':'' @ py_str (dict_get_or d ''process_name'' (PStr ''unknown''))) (tag_alert agent d t) s
   | _ \<Rightarrow> (Inl TypeError, s))"

definition tags_step :: "'s tele_env \<Rightarrow> string \<Rightarrow> pydict \<Rightarrow> 's tele_step" where
  "tags_step E agent d s =
     (case py_iter (py_or (dict_get d ''behavioral_tags'') (py_or (dict_get d ''behavioralTags'') (PList []))) of
        Inl x \<Rightarrow> (Inl x, s)
      | Inr tags \<Rightarrow> tele_seq (tag_step E agent d) tags s)"

subsection \<open>Anomalies of NodeTrace\<close>

definition bound_anomaly :: "pyval \<Rightarrow> pyval list" where
  "bound_anomaly v = (case v of
     PStr s \<Rightarrow> [PStr (clip 512 s)]
   | PDict m \<Rightarrow> if int (length (json_dumps v)) \<le> ANOMALY_MAX_BYTES then [v] else []
   | _ \<Rightarrow> [])"

definition agent_anomalies :: "pydict \<Rightarrow> pyval list" where
  "agent_anomalies d = (case py_or (dict_get d ''anomalies'') (PList []) of
     PList xs \<Rightarrow> concat (map bound_anomaly (take ANOMALY_MAX_ITEMS xs)) | _ \<Rightarrow> [])"

definition looks_like_ip :: "(string \<Rightarrow> bool) \<Rightarrow> string \<Rightarrow> bool" where
  "looks_like_ip is_ip v = is_ip (strip_chars ''[]'' (strip v))"

text \<open>What is read from an anomaly: tag, evidence, process, description.\<close>

record finding_of_agent =
  fa_tag :: string
  fa_evidence :: pydict
  fa_process :: pyval
  fa_description :: string

definition dict_update :: "pydict \<Rightarrow> pydict \<Rightarrow> pydict" where
  "dict_update d m = foldl (\<lambda>acc (k, v). assoc_put k v acc) d m"

text \<open>\<open>o.get('name')\<close> of every owner among the first three; a value without \<open>get\<close> raises.\<close>

fun owner_texts :: "pyval list \<Rightarrow> string list result" where
  "owner_texts [] = Inr []"
| "owner_texts (v # vs) = bind_result (py_get v ''name'' PNone) (\<lambda>n. bind_result (py_get v ''connections'' PNone) (\<lambda>c.
     bind_result (owner_texts vs) (\<lambda>ts. Inr ((py_str n @ ''('' @ py_str c @ '')'') # ts))))"

text \<open>\<open>owners[:3]\<close>: lists and strings are sliced, other values raise.\<close>

fun first_three :: "pyval \<Rightarrow> pyval list result" where
  "first_three (PList xs) = Inr (take 3 xs)"
| "first_three (PStr s) = Inr (map (\<lambda>c. PStr [c]) (take 3 s))"
| "first_three v = Inl TypeError"

definition owners_text :: "pyval \<Rightarrow> string result" where
  "owners_text owners =
     (if \<not> py_truth owners then Inr []
      else bind_result (first_three owners) (\<lambda>os. bind_result (owner_texts os) (\<lambda>ts.
        Inr ('' '' @ [CHR 0xE2, CHR 0x80, CHR 0x94] @ '' '' @ join '', '' ts))))"

definition dict_finding :: "pydict \<Rightarrow> finding_of_agent result" where
  "dict_finding m =
     (let tag = strip (py_str (py_or (dict_get m ''type'') (PStr ''unknown'')));
          proc = py_or (dict_get m ''process'') (dict_get m ''process_name'');
          ip = dict_get m ''ip''; n = dict_get m ''connection_count'';
          owners = py_or (dict_get m ''processes'') (PList []);
          mk = (\<lambda>detail. \<lparr>fa_tag = tag, fa_evidence = dict_update [(''source'', PStr ''nodetrace'')] m,
            fa_process = proc, fa_description = ''[NodeTrace Heuristic] '' @ detail\<rparr>)
      in if py_truth ip
         then bind_result (owners_text owners) (\<lambda>t. Inr (mk (tag @ '': '' @ py_str ip @
                (if py_truth n then '' ('' @ py_str n @ '' connections)'' else []) @ t)))
         else Inr (mk (tag @ '': '' @ py_str (py_or proc (py_or (dict_get m ''endpoint'') (PStr ''system''))))))"

definition str_finding :: "(string \<Rightarrow> bool) \<Rightarrow> string \<Rightarrow> finding_of_agent" where
  "str_finding is_ip a =
     (let tag = strip (hd (split_char CHR '':'' a));
          payload = strip (case snd (split1 CHR '':'' a) of None \<Rightarrow> [] | Some p \<Rightarrow> p)
      in \<lparr>fa_tag = tag,
          fa_evidence = [(''source'', PStr ''nodetrace''), (''tag'', PStr tag), (''detail'', PStr payload)],
          fa_process = (if payload \<noteq> [] \<and> \<not> looks_like_ip is_ip payload then PStr payload else PNone),
          fa_description = ''[NodeTrace Heuristic] '' @ a\<rparr>)"

definition finding_of_anomaly :: "(string \<Rightarrow> bool) \<Rightarrow> pyval \<Rightarrow> finding_of_agent result" where
  "finding_of_anomaly is_ip v = (case v of
     PDict m \<Rightarrow> dict_finding m | PStr s \<Rightarrow> Inr (str_finding is_ip s) | _ \<Rightarrow> Inl TypeError)"

definition nodetrace_alert :: "string \<Rightarrow> finding_of_agent \<Rightarrow> string \<Rightarrow> alert" where
  "nodetrace_alert agent f proc =
     with_mitre (tag_mitre (fa_tag f))
       ((bare_alert agent [] (Some proc) ''behavioral_detection'' (fa_description f))
        \<lparr>al_evidence := PDict (fa_evidence f)\<rparr>)"

text \<open>
  A process that is not a string is put in the alert as it is; the cooldown is taken, then the
  fingerprint of the mute, which normalises the name, raises.
\<close>

definition nodetrace_step :: "'s tele_env \<Rightarrow> string \<Rightarrow> pyval \<Rightarrow> 's tele_step" where
  "nodetrace_step E agent v s = (case finding_of_anomaly (te_is_ip E) v of
     Inl x \<Rightarrow> (Inl x, s)
   | Inr f \<Rightarrow>
       (let key = ''anomaly_nt:'' @ clip 80 (py_str v) in
        case as_str (py_or (fa_process f) (PStr ''system'')) of
          Inr proc \<Rightarrow> offer_alert E agent key (nodetrace_alert agent f proc) s
        | Inl x \<Rightarrow> (case suppressed (te_redis E) agent key (ts_redis s) of
              (b, r1) \<Rightarrow> ((if b then Inr () else Inl x), s\<lparr>ts_redis := r1\<rparr>))))"

subsection \<open>File events, commit, dispatch\<close>

definition file_step :: "'s tele_env \<Rightarrow> pydict \<Rightarrow> 's tele_state \<Rightarrow> 's tele_state" where
  "file_step E d s = (case te_schema E d of
     Inl x \<Rightarrow> s
   | Inr e \<Rightarrow> (case te_event_text E e of (i, t) \<Rightarrow>
       (case handle_file_event (te_now E) (te_uuid_of E) i t e (ts_window s) of (a, u, w) \<Rightarrow>
          s\<lparr>ts_alerts := ts_alerts s @ (case a of None \<Rightarrow> [] | Some x \<Rightarrow> [x]),
            ts_uevents := ts_uevents s @ [u], ts_window := w\<rparr>)))"

definition fits :: "nat \<Rightarrow> string option \<Rightarrow> bool" where
  "fits n x = (case x of None \<Rightarrow> True | Some s \<Rightarrow> length s \<le> n)"

definition alert_storable :: "alert \<Rightarrow> bool" where
  "alert_storable a \<longleftrightarrow> fits 20 (Some (al_severity a)) \<and> fits 255 (al_parent_process_name a) \<and>
     al_process_name a \<noteq> None \<and> fits 255 (al_process_name a) \<and>
     al_event_type a \<noteq> None \<and> fits 100 (al_event_type a) \<and>
     fits 20 (al_mitre_tactic_id a) \<and> fits 20 (al_mitre_technique_id a) \<and>
     fits 200 (al_mitre_tactic_name a) \<and> fits 200 (al_mitre_technique_name a)"

definition tele_commit :: "'s tele_step" where
  "tele_commit s =
     (if list_all alert_storable (ts_alerts s)
      then (Inr (), s\<lparr>ts_db_rows := ts_db_rows s @ ts_rows s, ts_db_alerts := ts_db_alerts s @ ts_alerts s,
              ts_db_agent := ts_agent s, ts_rows := [], ts_alerts := []\<rparr>)
      else (Inl (OtherError ''DataError''), s))"

text \<open>Playbooks, notifier and bus receive the created alerts in order; each is best-effort.\<close>

definition tele_dispatch :: "'s tele_state \<Rightarrow> 's tele_state" where
  "tele_dispatch s = s\<lparr>ts_dispatched := ts_dispatched s @ ts_created s\<rparr>"

subsection \<open>The function\<close>

definition tele_then :: "'s tele_step \<Rightarrow> 's tele_step \<Rightarrow> 's tele_step" where
  "tele_then f g s = (case f s of (Inl x, s1) \<Rightarrow> (Inl x, s1) | (Inr _, s1) \<Rightarrow> g s1)"

definition tele_store :: "'s tele_env \<Rightarrow> string \<Rightarrow> pydict \<Rightarrow> 's tele_state \<Rightarrow> 's tele_state" where
  "tele_store E agent d s =
     update_agent E agent d (s\<lparr>ts_created := [], ts_rows := ts_rows s @ [telemetry_row agent d]\<rparr>)"

definition tele_reports :: "'s tele_env \<Rightarrow> string \<Rightarrow> pydict \<Rightarrow> 's tele_step" where
  "tele_reports E agent d =
     tele_then (tags_step E agent d) (tele_then (tele_seq (nodetrace_step E agent) (agent_anomalies d))
       (tele_then (\<lambda>s. (Inr (), if event_type_of d = PStr ''FILE_MODIFIED'' \<or> event_type_of d = PStr ''YARA_MATCH''
                               then file_step E d s else s))
          (tele_then tele_commit (\<lambda>s. (Inr (), tele_dispatch s)))))"

definition tele_branch :: "'s tele_env \<Rightarrow> string \<Rightarrow> pydict \<Rightarrow> 's tele_step" where
  "tele_branch E agent d s =
     (if event_type_of d = PStr ''CONNECTION_ESTABLISHED'' then tele_commit (connection_step E agent d s)
      else tele_reports E agent d
        (if event_type_of d = PStr ''PROCESS_CREATED'' then process_step E agent d s else s))"

definition process_telemetry :: "'s tele_env \<Rightarrow> string \<Rightarrow> pydict \<Rightarrow> 's tele_step" where
  "process_telemetry E agent data s =
     (let d = bound_telemetry_data data in
      tele_then (anomalies_step E agent d) (tele_then (custom_rules_step E agent d) (tele_branch E agent d))
        (tele_store E agent d s))"

end
