(* ===== verification/Telemetry_Properties.thy ===== *)
theory Telemetry_Properties
  imports Telemetry_Service
begin

section \<open>What the ingestion of telemetry promises\<close>

text \<open>
  The bounds of the stored payload; the ingestion of an event is all or nothing; the alerts that are
  dispatched; and the places where one part of an event suppresses what the rest should have raised.
\<close>

subsection \<open>Bounds\<close>

definition bounded_field :: "string \<Rightarrow> pydict \<Rightarrow> bool" where
  "bounded_field f d \<longleftrightarrow> (is_container (dict_get d f) \<longrightarrow> int (length (json_dumps (dict_get d f))) \<le> field_limit f)"

lemma dict_get_put: "dict_get (assoc_put k v d) j = (if j = k then v else dict_get d j)"
  by (simp add: dict_get_def)

lemma note_lengths:
  "length (json_dumps (oversize_note 8192)) = 45" "length (json_dumps (oversize_note 65536)) = 46"
proof -
  have "show_int 8192 = ''8192''" "show_int 65536 = ''65536''"
    by (simp add: show_int_def show_nat.simps digit_def; code_simp)+
  then have n: "oversize_note 8192 = PDict [(''truncated'', PBool True), (''note'', PStr ''oversize>8192B'')]"
    "oversize_note 65536 = PDict [(''truncated'', PBool True), (''note'', PStr ''oversize>65536B'')]"
    by (simp_all add: oversize_note_def)
  show "length (json_dumps (oversize_note 8192)) = 45" unfolding n by code_simp
  show "length (json_dumps (oversize_note 65536)) = 46" unfolding n by code_simp
qed

lemma note_fits: "int (length (json_dumps (oversize_note (field_limit f)))) \<le> field_limit f"
  by (simp add: field_limit_def CAPABILITIES_MAX_BYTES_def TELEMETRY_JSON_MAX_BYTES_def note_lengths)

lemma bound_size_self: "bounded_field f (bound_size f d)"
  using note_fits [of f] by (auto simp: bounded_field_def bound_size_def Let_def dict_get_put)

lemma bound_size_other: "f \<noteq> g \<Longrightarrow> dict_get (bound_size g d) f = dict_get d f"
  by (simp add: bound_size_def Let_def dict_get_put)

lemma fold_bound_size:
  "f \<in> set fs \<or> bounded_field f d \<Longrightarrow> bounded_field f (fold bound_size fs d)"
proof (induction fs arbitrary: d)
  case (Cons g fs)
  show ?case
  proof (cases "f = g")
    case True
    then show ?thesis using Cons.IH bound_size_self by simp
  next
    case False
    then have "f \<in> set fs \<or> bounded_field f (bound_size g d)"
      using Cons.prems by (auto simp: bounded_field_def bound_size_other)
    then show ?thesis using Cons.IH by simp
  qed
qed simp

definition short_list :: "string \<Rightarrow> pydict \<Rightarrow> bool" where
  "short_list f d \<longleftrightarrow> (case dict_get d f of PList xs \<Rightarrow> length xs \<le> TELEMETRY_LIST_MAX_ITEMS | _ \<Rightarrow> True)"

lemma cut_list_self: "short_list f (cut_list f d)"
  by (simp add: short_list_def cut_list_def dict_get_put split: pyval.splits)

lemma cut_list_other: "f \<noteq> g \<Longrightarrow> dict_get (cut_list g d) f = dict_get d f"
  by (simp add: cut_list_def dict_get_put split: pyval.splits)

lemma bound_size_short: "short_list f d \<Longrightarrow> short_list f (bound_size g d)"
  by (auto simp: short_list_def bound_size_def Let_def dict_get_put oversize_note_def)

lemma fold_bound_short: "short_list f d \<Longrightarrow> short_list f (fold bound_size fs d)"
  by (induction fs arbitrary: d) (auto intro: bound_size_short)

lemma cut_lists_short: "f \<in> set TELEMETRY_LIST_FIELDS \<Longrightarrow> short_list f (fold cut_list TELEMETRY_LIST_FIELDS d)"
proof -
  have keep: "short_list f d \<Longrightarrow> short_list f (cut_list g d)" for f g d
    using cut_list_self [of g d] cut_list_other [of f g d] by (cases "f = g") (auto simp: short_list_def)
  have "f \<in> set fs \<or> short_list f d \<Longrightarrow> short_list f (fold cut_list fs d)" for fs
    by (induction fs arbitrary: d) (auto intro: keep cut_list_self)
  then show "f \<in> set TELEMETRY_LIST_FIELDS \<Longrightarrow> ?thesis" by blast
qed

lemma bounded_anomaly:
  "v \<in> set (bound_anomaly w) \<Longrightarrow> (\<exists>s. v = PStr s \<and> length s \<le> 512) \<or> int (length (json_dumps v)) \<le> ANOMALY_MAX_BYTES"
  by (auto simp: bound_anomaly_def clip_def split: pyval.splits if_splits)

lemma length_bound_anomalies: "length (concat (map bound_anomaly xs)) \<le> length xs"
  by (induction xs) (auto simp: bound_anomaly_def split: pyval.split)

text \<open>
  Whatever an agent sends, what is kept of it is bounded: lists of at most 500 entries,
  at most 64 KiB of JSON per list and 8 KiB for capabilities and details, at most 50
  anomalies, each a text of 512 characters or 4 KiB of JSON.
\<close>

theorem stored_payload_is_bounded:
  "list_all (\<lambda>f. bounded_field f (bound_telemetry_data d)) (TELEMETRY_LIST_FIELDS @ [''capabilities'', ''details'']) \<and>
   list_all (\<lambda>f. short_list f (bound_telemetry_data d)) TELEMETRY_LIST_FIELDS \<and>
   length (agent_anomalies d) \<le> 50 \<and>
   list_all (\<lambda>v. (\<exists>s. v = PStr s \<and> length s \<le> 512) \<or> int (length (json_dumps v)) \<le> 4096) (agent_anomalies d)"
proof (intro conjI)
  show "list_all (\<lambda>f. bounded_field f (bound_telemetry_data d)) (TELEMETRY_LIST_FIELDS @ [''capabilities'', ''details''])"
    unfolding list_all_iff bound_telemetry_data_def using fold_bound_size by blast
  show "list_all (\<lambda>f. short_list f (bound_telemetry_data d)) TELEMETRY_LIST_FIELDS"
    unfolding list_all_iff bound_telemetry_data_def using fold_bound_short cut_lists_short by blast
  show "length (agent_anomalies d) \<le> 50"
    using length_bound_anomalies [of "take ANOMALY_MAX_ITEMS xs" for xs]
    by (auto simp: agent_anomalies_def ANOMALY_MAX_ITEMS_def split: pyval.split intro: order_trans)
  show "list_all (\<lambda>v. (\<exists>s. v = PStr s \<and> length s \<le> 512) \<or> int (length (json_dumps v)) \<le> 4096) (agent_anomalies d)"
    using bounded_anomaly by (fastforce simp: list_all_iff agent_anomalies_def ANOMALY_MAX_BYTES_def split: pyval.splits)
qed

subsection \<open>All or nothing\<close>

text \<open>What a step before the commit leaves alone.\<close>

definition keeps_db :: "'s tele_step \<Rightarrow> bool" where
  "keeps_db f \<longleftrightarrow> (\<forall>s. ts_db_rows (snd (f s)) = ts_db_rows s \<and> ts_db_alerts (snd (f s)) = ts_db_alerts s \<and>
     ts_dispatched (snd (f s)) = ts_dispatched s)"

lemma keeps_dbI:
  "(\<And>s. ts_db_rows (snd (f s)) = ts_db_rows s \<and> ts_db_alerts (snd (f s)) = ts_db_alerts s \<and>
     ts_dispatched (snd (f s)) = ts_dispatched s) \<Longrightarrow> keeps_db f"
  by (simp add: keeps_db_def)

lemma keeps_db_offer: "keeps_db (offer_alert E agent key a)"
  by (rule keeps_dbI) (simp add: offer_alert_def split: prod.split bool.split sum.split)

lemma keeps_db_seq:
  fixes f :: "'x \<Rightarrow> 's tele_step"
  assumes f: "\<And>x. keeps_db (f x)"
  shows "keeps_db (tele_seq f xs)"
proof (rule keeps_dbI)
  fix s :: "'s tele_state"
  show "ts_db_rows (snd (tele_seq f xs s)) = ts_db_rows s \<and> ts_db_alerts (snd (tele_seq f xs s)) = ts_db_alerts s \<and>
     ts_dispatched (snd (tele_seq f xs s)) = ts_dispatched s"
  proof (induction xs arbitrary: s)
    case (Cons x xs)
    have "ts_db_rows (snd (f x s)) = ts_db_rows s \<and> ts_db_alerts (snd (f x s)) = ts_db_alerts s \<and>
       ts_dispatched (snd (f x s)) = ts_dispatched s"
      using f by (simp add: keeps_db_def)
    then show ?case using Cons.IH by (auto split: prod.split sum.split)
  qed simp
qed

lemma keeps_db_then: "keeps_db f \<Longrightarrow> keeps_db g \<Longrightarrow> keeps_db (tele_then f g)"
  by (simp add: keeps_db_def tele_then_def split: prod.split sum.split) (metis snd_conv)

lemma keeps_db_steps:
  "keeps_db (anomalies_step E agent d)" "keeps_db (custom_rules_step E agent d)" "keeps_db (tags_step E agent d)"
  "keeps_db (nodetrace_step E agent v)"
proof -
  have seq: "keeps_db (tele_seq (anomaly_step E agent d) as)" for as
    by (rule keeps_db_seq) (simp add: anomaly_step_def keeps_db_offer)
  show "keeps_db (anomalies_step E agent d)"
    by (rule keeps_dbI) (use seq in \<open>simp add: anomalies_step_def keeps_db_def split: prod.split\<close>)
  have rule: "keeps_db (custom_rule_step E agent ps r)" for ps r
    by (rule keeps_dbI) (use keeps_db_offer [of E agent] in
      \<open>simp add: custom_rule_step_def keeps_db_def Let_def split: option.split pyval.split\<close>)
  have "keeps_db (tele_seq (custom_rule_step E agent ps) rs)" for ps rs
    by (rule keeps_db_seq [OF rule])
  then show "keeps_db (custom_rules_step E agent d)"
    by (auto simp: custom_rules_step_def keeps_db_def split: pyval.split)
  have "keeps_db (tag_step E agent d t)" for t
    by (rule keeps_dbI) (use keeps_db_offer [of E agent] in \<open>simp add: tag_step_def keeps_db_def split: pyval.split\<close>)
  then have "keeps_db (tele_seq (tag_step E agent d) ts)" for ts
    by (rule keeps_db_seq)
  then show "keeps_db (tags_step E agent d)"
    by (auto simp: tags_step_def keeps_db_def split: sum.split)
  show "keeps_db (nodetrace_step E agent v)"
    by (rule keeps_dbI) (use keeps_db_offer [of E agent] in
      \<open>simp add: nodetrace_step_def keeps_db_def Let_def split: sum.split prod.split\<close>)
qed

text \<open>A step that fails leaves the database and the dispatched alerts as they were.\<close>

definition safe :: "'s tele_step \<Rightarrow> bool" where
  "safe f \<longleftrightarrow> (\<forall>s x s'. f s = (Inl x, s') \<longrightarrow>
     ts_db_rows s' = ts_db_rows s \<and> ts_db_alerts s' = ts_db_alerts s \<and> ts_dispatched s' = ts_dispatched s)"

lemma safe_keeps: "keeps_db f \<Longrightarrow> safe f"
  by (simp add: safe_def keeps_db_def) (metis snd_conv)

lemma safe_then: "keeps_db f \<Longrightarrow> safe g \<Longrightarrow> safe (tele_then f g)"
  unfolding safe_def
proof (intro allI impI)
  fix s x s'
  assume f: "keeps_db f" and g: "\<forall>s x s'. g s = (Inl x, s') \<longrightarrow>
     ts_db_rows s' = ts_db_rows s \<and> ts_db_alerts s' = ts_db_alerts s \<and> ts_dispatched s' = ts_dispatched s"
    and t: "tele_then f g s = (Inl x, s')"
  obtain r s1 where r: "f s = (r, s1)" by fastforce
  have "ts_db_rows s1 = ts_db_rows s \<and> ts_db_alerts s1 = ts_db_alerts s \<and> ts_dispatched s1 = ts_dispatched s"
    using f r by (metis keeps_db_def snd_conv)
  then show "ts_db_rows s' = ts_db_rows s \<and> ts_db_alerts s' = ts_db_alerts s \<and> ts_dispatched s' = ts_dispatched s"
    using t r g by (cases r) (auto simp: tele_then_def)
qed

lemma safe_commit: "safe tele_commit"
  by (simp add: safe_def tele_commit_def)

lemma keeps_db_plain:
  "ts_db_rows (h s) = ts_db_rows s \<and> ts_db_alerts (h s) = ts_db_alerts s \<and> ts_dispatched (h s) = ts_dispatched s"
  if "h \<in> {connection_step E agent d, process_step E agent d, file_step E d, update_agent E agent d}"
  using that
  by (auto simp: connection_step_def process_step_def file_step_def update_agent_def Let_def
      split: prod.split sum.split option.split)

lemma safe_reports: "safe (tele_reports E agent d)"
proof -
  have fe: "keeps_db (\<lambda>s. (Inr (), if event_type_of d = PStr ''FILE_MODIFIED'' \<or> event_type_of d = PStr ''YARA_MATCH''
                               then file_step E d s else s))"
    using keeps_db_plain [of "file_step E d" E agent d] by (auto simp: keeps_db_def)
  have nt: "keeps_db (tele_seq (nodetrace_step E agent) vs)" for vs
    by (rule keeps_db_seq) (rule keeps_db_steps)
  have final: "safe (tele_then tele_commit (\<lambda>s. (Inr (), tele_dispatch s)))"
    by (auto simp: safe_def tele_then_def tele_commit_def split: prod.splits sum.splits if_splits)
  show ?thesis
    unfolding tele_reports_def by (rule safe_then [OF keeps_db_steps(3) safe_then [OF nt safe_then [OF fe final]]])
qed

lemma safe_after: "keeps_db (\<lambda>s. (Inr (), h s)) \<Longrightarrow> safe g \<Longrightarrow> safe (\<lambda>s. g (h s))"
  by (simp add: safe_def keeps_db_def)

lemma safe_branch: "safe (tele_branch E agent d)"
proof -
  have "keeps_db (\<lambda>s. (Inr (), connection_step E agent d s))"
    "keeps_db (\<lambda>s. (Inr (), if event_type_of d = PStr ''PROCESS_CREATED'' then process_step E agent d s else s))"
    using keeps_db_plain [of _ E agent d] by (simp_all add: keeps_db_def)
  from safe_after [OF this(1) safe_commit] safe_after [OF this(2) safe_reports [of E agent d]]
  show ?thesis by (simp add: safe_def tele_branch_def)
qed

lemma process_telemetry_safe:
  assumes "process_telemetry E agent data s = (Inl x, s')"
  shows "ts_db_rows s' = ts_db_rows s \<and> ts_db_alerts s' = ts_db_alerts s \<and> ts_dispatched s' = ts_dispatched s"
proof -
  let ?d = "bound_telemetry_data data"
  have all: "safe (tele_then (anomalies_step E agent ?d) (tele_then (custom_rules_step E agent ?d) (tele_branch E agent ?d)))"
    by (intro safe_then keeps_db_steps safe_branch)
  have "ts_db_rows (tele_store E agent ?d s) = ts_db_rows s \<and> ts_db_alerts (tele_store E agent ?d s) = ts_db_alerts s \<and>
      ts_dispatched (tele_store E agent ?d s) = ts_dispatched s"
    using keeps_db_plain [of "update_agent E agent ?d" E agent ?d] by (simp add: tele_store_def)
  then show ?thesis
    using all assms unfolding safe_def process_telemetry_def Let_def by metis
qed

subsection \<open>A step that always fails\<close>

definition fails :: "'s tele_step \<Rightarrow> bool" where
  "fails f \<longleftrightarrow> (\<forall>s. \<exists>x. fst (f s) = Inl x)"

lemma fails_seq: "v \<in> set xs \<Longrightarrow> fails (f v) \<Longrightarrow> fails (tele_seq f xs)"
  unfolding fails_def
proof (intro allI)
  fix s
  assume "v \<in> set xs" "\<forall>s. \<exists>x. fst (f v s) = Inl x"
  then show "\<exists>x. fst (tele_seq f xs s) = Inl x"
  proof (induction xs arbitrary: s)
    case (Cons y ys)
    obtain r s1 where r: "f y s = (r, s1)" by fastforce
    show ?case
    proof (cases r)
      case (Inl e)
      then show ?thesis using r by simp
    next
      case (Inr u)
      have "y \<noteq> v" using Cons.prems(2) r Inr by (metis fst_conv Inl_Inr_False)
      then show ?thesis using Cons r Inr by auto
    qed
  qed simp
qed

lemma fails_then_left: "fails f \<Longrightarrow> fails (tele_then f g)"
  by (auto simp: fails_def tele_then_def split: prod.split sum.split) (metis fst_conv Inl_Inr_False)

lemma fails_then_right: "fails g \<Longrightarrow> fails (tele_then f g)"
  by (auto simp: fails_def tele_then_def split: prod.split sum.split)

lemma nodetrace_fails: "finding_of_anomaly (te_is_ip E) v = Inl x \<Longrightarrow> fails (nodetrace_step E agent v)"
  by (simp add: fails_def nodetrace_step_def)

lemma owner_not_dict:
  assumes "py_truth (dict_get m ''ip'')" "dict_get m ''processes'' = PList (PStr o1 # os)"
  shows "\<exists>x. dict_finding m = Inl x"
  using assms by (simp add: dict_finding_def Let_def py_or_def owners_text_def)

text \<open>
  An anomaly of NodeTrace whose owners are names instead of dictionaries makes the whole ingestion
  raise, although the code says it discards malformed entries: the sample, the alerts of
  the other steps and the other anomalies of the event are lost.
\<close>

theorem one_malformed_anomaly_loses_the_event:
  assumes "PDict m \<in> set (agent_anomalies (bound_telemetry_data data))"
    "py_truth (dict_get m ''ip'')" "dict_get m ''processes'' = PList (PStr owner # others)"
    "event_type_of (bound_telemetry_data data) \<noteq> PStr ''CONNECTION_ESTABLISHED''"
  shows "\<exists>x s'. process_telemetry E agent data s = (Inl x, s') \<and> ts_db_rows s' = ts_db_rows s \<and>
    ts_db_alerts s' = ts_db_alerts s \<and> ts_dispatched s' = ts_dispatched s"
proof -
  let ?d = "bound_telemetry_data data"
  obtain x where "finding_of_anomaly (te_is_ip E) (PDict m) = Inl x"
    using owner_not_dict [OF assms(2,3)] by (auto simp: finding_of_anomaly_def)
  then have "fails (tele_seq (nodetrace_step E agent) (agent_anomalies ?d))"
    using assms(1) by (intro fails_seq nodetrace_fails)
  then have rep: "fails (tele_reports E agent ?d)"
    unfolding tele_reports_def by (intro fails_then_right fails_then_left)
  then have "fails (tele_branch E agent ?d)"
    using assms(4) by (simp add: fails_def tele_branch_def)
  then have "fails (tele_then (anomalies_step E agent ?d) (tele_then (custom_rules_step E agent ?d) (tele_branch E agent ?d)))"
    by (intro fails_then_right)
  then have "fails (process_telemetry E agent data)"
    by (simp add: fails_def process_telemetry_def Let_def)
  then obtain x s' where "process_telemetry E agent data s = (Inl x, s')"
    unfolding fails_def by (metis prod.collapse)
  then show ?thesis using process_telemetry_safe by blast
qed

end
