(* ===== verification/Telemetry_Behaviour.thy ===== *)
theory Telemetry_Behaviour
  imports Telemetry_Properties
begin

section \<open>How parts of an event suppress each other\<close>

text \<open>
  A custom rule whose first matching process is cooling down stays silent for every other process; the
  mute an analyst sets by resolving the alert of one custom rule covers all of them; a list of
  processes too large for the database switches the static rules off; a conflict on the agent row
  loses the sample.
\<close>

subsection \<open>Concrete parameters\<close>

definition down_zset :: "'s zset" where
  "down_zset = \<lparr>zs_add = (\<lambda>s k m r. (Inl RedisError, s)), zs_range = (\<lambda>s k. (Inl RedisError, s)),
     zs_card = (\<lambda>s k. (Inl RedisError, s)), zs_trim = (\<lambda>s k n. (Inl RedisError, s)),
     zs_expire = (\<lambda>s k t. (Inl RedisError, s)), zs_delete = (\<lambda>s k. (Inl RedisError, s))\<rparr>"

definition plain_num :: numlib where
  "plain_num = \<lparr>np_mean = mean, np_std = (\<lambda>xs. 0), np_round2 = id, float_text = (\<lambda>r. []), read_float = (\<lambda>s. None)\<rparr>"

text \<open>A pattern is a literal; an event is what the dictionary names, and \<open>processes\<close> must be a list.\<close>

definition sample_env :: "rmap tele_env" where
  "sample_env = \<lparr>te_redis = map_redis, te_zset = down_zset, te_num = plain_num,
     te_corr = \<lparr>st_bruteforce_window = 60, st_bruteforce_threshold = 5, st_lineage_cooldown = 600, st_lineage_parent_ttl = 600\<rparr>,
     te_beacon = \<lparr>be_min_samples = 5, be_window = 3600, be_max_variance = 5, be_now = 0, be_now_text = ''0.0'',
       be_float = (\<lambda>s. None), be_set_order = id\<rparr>,
     te_sha256 = id, te_canary = [], te_now = 0, te_uid = id, te_uuid_of = id, te_event_text = (\<lambda>e. ([], [])),
     te_regex = (\<lambda>p. Some (py_in p)),
     te_schema = (\<lambda>d. case dict_get d ''processes'' of PDict m \<Rightarrow> Inl (OtherError ''ValidationError'') | _ \<Rightarrow> Inr blank_event),
     te_context = (\<lambda>e. []), te_is_ip = (\<lambda>s. False), te_rules_ok = True, te_conflict = (\<lambda>a. False)\<rparr>"

definition sample_state :: "rmap tele_state" where
  "sample_state = \<lparr>ts_redis = [], ts_rows = [], ts_alerts = [], ts_created = [], ts_agent = None, ts_rules = [],
     ts_window = new_window, ts_correlated = [], ts_uevents = [], ts_db_rows = [], ts_db_alerts = [],
     ts_db_agent = None, ts_dispatched = []\<rparr>"

definition bad_owner :: pydict where
  "bad_owner = [(''type'', PStr ''HIGH_CONNECTION_COUNT_TO_IP''), (''ip'', PStr ''8.8.8.8''), (''processes'', PList [PStr ''curl''])]"

lemma bad_owner_kept: "PDict bad_owner \<in> set (agent_anomalies (bound_telemetry_data [(''anomalies'', PList [PDict bad_owner])]))"
  by code_simp

lemma bad_owner_facts:
  "py_truth (dict_get bad_owner ''ip'')" "dict_get bad_owner ''processes'' = PList (PStr ''curl'' # [])"
  "event_type_of (bound_telemetry_data [(''anomalies'', PList [PDict bad_owner])]) \<noteq> PStr ''CONNECTION_ESTABLISHED''"
  by code_simp+

theorem one_malformed_anomaly_loses_the_event_witness:
  "\<exists>x s'. process_telemetry sample_env ''a'' [(''anomalies'', PList [PDict bad_owner])] sample_state = (Inl x, s') \<and>
     ts_db_rows s' = []"
  using one_malformed_anomaly_loses_the_event [OF bad_owner_kept bad_owner_facts, of sample_env "''a''" sample_state]
  by (auto simp: sample_state_def)

subsection \<open>Custom rules\<close>

lemma suppressed_when_set:
  assumes "redis_laws R view" "view s (suppress_key agent key) \<noteq> None"
  shows "\<exists>s'. suppressed R agent key s = (True, s')"
proof -
  obtain s' where "rd_exists R s (suppress_key agent key) = (Inr (view s (suppress_key agent key) \<noteq> None), s')"
    using redis_lawsD(2) [OF assms(1)] by blast
  then show ?thesis using assms(2) by (simp add: suppressed_def)
qed

lemma offer_suppressed:
  "suppressed (te_redis E) agent key (ts_redis s) = (True, r1) \<Longrightarrow>
   offer_alert E agent key a s = (Inr (), s\<lparr>ts_redis := r1\<rparr>)"
  by (simp add: offer_alert_def)

lemma custom_rule_step_first:
  assumes "te_regex E (cu_pattern r) = Some rx" "find_first (rule_hits rx r) ps = Some (PDict d)"
  shows "custom_rule_step E agent ps r s =
    offer_alert E agent (''custom:'' @ show_int (cu_id r) @ '':'' @ rule_value d ''process_name'')
      (custom_alert agent r (rule_value d ''process_name'') (rule_value d (cu_target_field r)))
      (s\<lparr>ts_rules := count_trigger (te_now E) (cu_id r) (ts_rules s)\<rparr>)"
  using assms by (simp add: custom_rule_step_def Let_def)

text \<open>
  A custom rule looks at the processes of a report in order and stops at the first that matches, even
  when that one is in its cooldown: whatever else matches after it raises no alert.
\<close>

theorem cooling_process_hides_the_others:
  assumes "redis_laws (te_redis E) view" "te_regex E (cu_pattern r) = Some rx"
    "list_all (\<lambda>p. \<not> rule_hits rx r p) before" "rule_hits rx r (PDict d)"
    "view (ts_redis s) (suppress_key agent (''custom:'' @ show_int (cu_id r) @ '':'' @ rule_value d ''process_name'')) \<noteq> None"
  shows "\<exists>s'. custom_rule_step E agent (before @ PDict d # after) r s = (Inr (), s') \<and>
    ts_alerts s' = ts_alerts s \<and> ts_created s' = ts_created s"
proof -
  define key where "key = ''custom:'' @ show_int (cu_id r) @ '':'' @ rule_value d ''process_name''"
  have "find_first (rule_hits rx r) (before @ PDict d # after) = Some (PDict d)"
    using assms(3,4) by (induction before) auto
  moreover have "view (ts_redis s) (suppress_key agent key) \<noteq> None"
    unfolding key_def by (rule assms(5))
  then obtain s' where "suppressed (te_redis E) agent key (ts_redis s) = (True, s')"
    using suppressed_when_set [OF assms(1)] by blast
  ultimately have "find_first (rule_hits rx r) (before @ PDict d # after) = Some (PDict d)"
    and sup: "suppressed (te_redis E) agent key (ts_redis s) = (True, s')" by blast+
  then have first: "custom_rule_step E agent (before @ PDict d # after) r s = offer_alert E agent key
      (custom_alert agent r (rule_value d ''process_name'') (rule_value d (cu_target_field r)))
      (s\<lparr>ts_rules := count_trigger (te_now E) (cu_id r) (ts_rules s)\<rparr>)"
    unfolding key_def using custom_rule_step_first [OF assms(2)] by blast
  show ?thesis
    unfolding first using sup by (simp add: offer_suppressed)
qed

definition miner_rule :: rule_row where
  "miner_rule = \<lparr>cu_id = 3, cu_name = ''miner'', cu_target_field = ''process_name'', cu_pattern = ''mine'',
     cu_severity = ''high'', cu_conditions = PNone, cu_whitelist = PNone, cu_mitre_tactic = None,
     cu_mitre_technique = None, cu_mitre_technique_id = None, cu_auto_remediation = None,
     ru_mitre_tactic_id = None, ru_trigger_count = None, ru_last_triggered = None\<rparr>"

definition proc_entry :: "string \<Rightarrow> pydict" where
  "proc_entry name = [(''name'', PStr name)]"

definition cooling_state :: "rmap tele_state" where
  "cooling_state = sample_state\<lparr>ts_redis := [(suppress_key ''a'' ''custom:3:minesweeper'', RStr ''1'')]\<rparr>"

lemma rule_value_entry: "rule_value (proc_entry ''minesweeper'') ''process_name'' = ''minesweeper''"
  by code_simp

lemma show_int_3: "show_int 3 = ''3''"
  by (simp add: show_int_def show_nat.simps digit_def; code_simp)

theorem cooling_process_hides_the_others_witness:
  "rule_hits (py_in ''mine'') miner_rule (PDict (proc_entry ''xmrig-miner'')) \<and>
   (\<exists>s'. custom_rule_step sample_env ''a'' [PDict (proc_entry ''minesweeper''), PDict (proc_entry ''xmrig-miner'')]
      miner_rule cooling_state = (Inr (), s') \<and> ts_created s' = [])"
proof -
  have laws: "redis_laws (te_redis sample_env) rview"
    by (simp add: sample_env_def map_redis_laws)
  have rx: "te_regex sample_env (cu_pattern miner_rule) = Some (py_in ''mine'')"
    by (simp add: sample_env_def miner_rule_def)
  have none: "list_all (\<lambda>p. \<not> rule_hits (py_in ''mine'') miner_rule p) []" by simp
  have h: "rule_hits (py_in ''mine'') miner_rule (PDict (proc_entry ''minesweeper''))" by code_simp
  have set: "rview (ts_redis cooling_state)
      (suppress_key ''a'' (''custom:'' @ show_int (cu_id miner_rule) @ '':'' @ rule_value (proc_entry ''minesweeper'') ''process_name'')) \<noteq> None"
    unfolding rule_value_entry by (simp add: cooling_state_def rview_def miner_rule_def show_int_3)
  have "rule_hits (py_in ''mine'') miner_rule (PDict (proc_entry ''xmrig-miner''))" by code_simp
  then show ?thesis
    using cooling_process_hides_the_others [OF laws rx none h set, of "[PDict (proc_entry ''xmrig-miner'')]"]
    by (auto simp: cooling_state_def sample_state_def)
qed

text \<open>The fingerprint of the alert of a custom rule does not mention the rule.\<close>

lemma custom_fingerprint:
  "triage_mute_fingerprint sha (custom_alert agent r name v) = triage_mute_fingerprint sha (custom_alert agent r' name v')"
proof -
  have "fingerprint_parts (custom_alert agent r name v) = Inr [''custom_rule'', basename (Some (or_str (Some name) ''Unknown''))]"
    for r :: rule_row and v
  proof -
    have "lower ''custom_rule'' = ''custom_rule''" by code_simp
    then show ?thesis
      by (simp add: fingerprint_parts_def custom_alert_def bare_alert_def dict_get_def py_or_def identity_of_def
          str_sort_def when_str_def)
  qed
  then show ?thesis by (simp add: triage_mute_fingerprint_def)
qed

text \<open>
  Resolving the alert of one custom rule on a process mutes, for a week, the alerts of every custom
  rule on a process of that name, whatever their severity.
\<close>

theorem resolving_one_rule_mutes_all:
  assumes "redis_laws R view" "record_triage_mute R sha agent (custom_alert agent r name v) s = (Inr ttl, s1)"
  shows "\<exists>s2. skip_new_alert R sha agent (custom_alert agent r' name v') s1 = (Inr True, s2)"
proof -
  obtain fp where fp: "triage_mute_fingerprint sha (custom_alert agent r name v) = Inr fp"
    using assms(2) by (auto simp: record_triage_mute_def split: sum.splits)
  then have fp': "triage_mute_fingerprint sha (custom_alert agent r' name v') = Inr fp"
    using custom_fingerprint by metis
  obtain s' where s': "rd_setex R s (triage_key agent fp) TRIAGE_MUTE_TTL ''1'' = (Inr (), s')"
    "view s' = (view s)(triage_key agent fp \<mapsto> RStr ''1'')"
    using redis_lawsD(3) [OF assms(1)] by blast
  then have s1: "s1 = s'" using assms(2) fp by (simp add: record_triage_mute_def)
  obtain s2 where "rd_exists R s' (triage_key agent fp) = (Inr (view s' (triage_key agent fp) \<noteq> None), s2)"
    using redis_lawsD(2) [OF assms(1)] by blast
  then show ?thesis
    using fp' s1 s'(2) by (simp add: skip_new_alert_def muted_by_triage_def)
qed

theorem resolving_one_rule_mutes_all_witness:
  "\<exists>s1 s2. record_triage_mute map_redis id ''a'' (custom_alert ''a'' miner_rule ''x'' ''x'') [] = (Inr TRIAGE_MUTE_TTL, s1) \<and>
     skip_new_alert map_redis id ''a''
       (custom_alert ''a'' (miner_rule\<lparr>cu_id := 9, cu_name := ''ransomware'', cu_severity := ''critical''\<rparr>) ''x'' ''x'') s1 = (Inr True, s2)"
proof -
  obtain fp where "triage_mute_fingerprint id (custom_alert ''a'' miner_rule ''x'' ''x'') = Inr fp"
    by (auto simp: triage_mute_fingerprint_def fingerprint_parts_def custom_alert_def bare_alert_def dict_get_def py_or_def Let_def)
  then obtain s1 where
    "record_triage_mute map_redis id ''a'' (custom_alert ''a'' miner_rule ''x'' ''x'') [] = (Inr TRIAGE_MUTE_TTL, s1)"
    by (auto simp: record_triage_mute_def map_redis_def)
  with resolving_one_rule_mutes_all [OF map_redis_laws this] show ?thesis by blast
qed

subsection \<open>A list of processes that is too large\<close>

lemma cut_list_processes:
  "dict_get d ''processes'' = PList xs \<Longrightarrow>
   dict_get (fold cut_list TELEMETRY_LIST_FIELDS d) ''processes'' = PList (take TELEMETRY_LIST_MAX_ITEMS xs)"
  by (simp add: TELEMETRY_LIST_FIELDS_def cut_list_other) (simp add: cut_list_def dict_get_put)

lemma bound_processes:
  assumes "dict_get d ''processes'' = PList xs"
    "int (length (json_dumps (PList (take TELEMETRY_LIST_MAX_ITEMS xs)))) > TELEMETRY_JSON_MAX_BYTES"
  shows "dict_get (bound_telemetry_data d) ''processes'' = oversize_note TELEMETRY_JSON_MAX_BYTES"
proof -
  let ?c = "fold cut_list TELEMETRY_LIST_FIELDS d"
  have "dict_get (bound_size ''processes'' ?c) ''processes'' = oversize_note TELEMETRY_JSON_MAX_BYTES"
    using cut_list_processes [OF assms(1)] assms(2) by (simp add: bound_size_def field_limit_def dict_get_put)
  then show ?thesis
    by (simp add: bound_telemetry_data_def TELEMETRY_LIST_FIELDS_def bound_size_other)
qed

text \<open>
  The bound against oversized rows replaces a list of processes by a note; the schema rejects the
  note, so that an event that reports enough process data is never shown to the static rules.
\<close>

theorem oversized_processes_disable_static_rules:
  assumes "\<forall>d m. dict_get d ''processes'' = PDict m \<longrightarrow> (\<exists>x. te_schema E d = Inl x)"
    "dict_get data ''processes'' = PList xs"
    "int (length (json_dumps (PList (take TELEMETRY_LIST_MAX_ITEMS xs)))) > TELEMETRY_JSON_MAX_BYTES"
  shows "process_step E agent (bound_telemetry_data data) s = s"
proof -
  have "\<exists>m. dict_get (bound_telemetry_data data) ''processes'' = PDict m"
    using bound_processes [OF assms(2,3)] by (simp add: oversize_note_def)
  then obtain x where "te_schema E (bound_telemetry_data data) = Inl x"
    using assms(1) by blast
  then show ?thesis by (simp add: process_step_def)
qed

definition large_process :: "pyval list" where
  "large_process = [PStr (replicate 70000 CHR ''a'')]"

lemma json_chars_replicate: "json_chars (replicate n CHR ''a'') = replicate n CHR ''a''"
proof (induction n)
  case (Suc n)
  have "json_ascii CHR ''a'' = ''a''" by code_simp
  then show ?case using Suc by (simp add: code_def)
qed simp

theorem oversized_processes_disable_static_rules_witness:
  "process_step sample_env ''a'' (bound_telemetry_data [(''processes'', PList large_process)]) sample_state = sample_state"
proof (rule oversized_processes_disable_static_rules)
  show "\<forall>d m. dict_get d ''processes'' = PDict m \<longrightarrow> (\<exists>x. te_schema sample_env d = Inl x)"
    by (simp add: sample_env_def)
  show "dict_get [(''processes'', PList large_process)] ''processes'' = PList large_process"
    by (simp add: dict_get_def)
  have "take TELEMETRY_LIST_MAX_ITEMS large_process = large_process"
    by (simp add: large_process_def TELEMETRY_LIST_MAX_ITEMS_def)
  then show "TELEMETRY_JSON_MAX_BYTES < int (length (json_dumps (PList (take TELEMETRY_LIST_MAX_ITEMS large_process))))"
    by (simp add: large_process_def json_str_def json_chars_replicate TELEMETRY_JSON_MAX_BYTES_def)
qed

subsection \<open>The agent row\<close>

text \<open>A conflict on the agent row discards the sample that was just added.\<close>

lemma conflict_discards_the_sample:
  assumes "ts_agent s = Some a" "te_conflict E (refresh_agent d (touch (te_now E) d a))"
  shows "ts_rows (tele_store E agent d s) = [] \<and> ts_alerts (tele_store E agent d s) = []"
  using assms by (simp add: tele_store_def update_agent_def Let_def)

lemma without_conflict_the_sample_stays:
  assumes "\<forall>a. \<not> te_conflict E a"
  shows "ts_rows (tele_store E agent d s) = ts_rows s @ [telemetry_row agent d]"
  using assms by (simp add: tele_store_def update_agent_def Let_def split: option.split)

subsection \<open>Attribution of a spike\<close>

text \<open>
  The legacy endpoint wraps every process of NodeTrace as the value of \<open>name\<close>, so that none has a
  \<open>pid\<close> of its own, and no spike is ever attributed to one of them.
\<close>

lemma real_process_wrapped: "real_process [(''name'', v)] = Inr False"
  by (simp add: real_process_def dict_get_def py_or_def)

lemma top_process_none:
  assumes "dict_get d ''processes'' = PList xs" "filter_result real_process (process_entries xs) = Inr []"
  shows "fst (top_process np d metric) = ''unknown''"
  using assms by (cases xs) (simp_all add: top_process_def Let_def del: filter_result.simps bind_result_Inr_iff)

lemma wrapped_processes_are_never_blamed:
  assumes "dict_get d ''processes'' = PList (map (\<lambda>v. PDict [(''name'', v)]) ps)"
  shows "fst (top_process np d metric) = ''unknown''"
proof -
  have e: "process_entries (map (\<lambda>v. PDict [(''name'', v)]) ps) = map (\<lambda>v. [(''name'', v)]) ps"
    by (induction ps) (simp_all add: process_entries_def)
  have f: "filter_result real_process (map (\<lambda>v. [(''name'', v)]) ps) = Inr []"
    by (induction ps) (simp_all add: real_process_wrapped)
  show ?thesis
    using top_process_none [OF assms] unfolding e using f by blast
qed

subsection \<open>Anomalies as text\<close>

text \<open>The process of an alert from a textual anomaly is never an address.\<close>

lemma text_anomaly_process: "fa_process (str_finding is_ip a) = PStr p \<Longrightarrow> \<not> looks_like_ip is_ip p"
  by (auto simp: str_finding_def Let_def split: if_splits)

text \<open>An unknown tag longer than the column of the technique cannot be stored.\<close>

lemma long_tag_not_storable:
  assumes "assoc (fa_tag f) BEHAVIORAL_TAG_MITRE = None" "200 < length (fa_tag f)"
  shows "\<not> alert_storable (nodetrace_alert agent f proc)"
  using assms by (simp add: alert_storable_def nodetrace_alert_def with_mitre_def tag_mitre_def fits_def)

lemma commit_needs_storable: "fst (tele_commit s) = Inr () \<longleftrightarrow> list_all alert_storable (ts_alerts s)"
  by (simp add: tele_commit_def)

subsection \<open>Dispatch\<close>

text \<open>The alerts of a connection event are stored but never handed to the playbooks and the notifier.\<close>

lemma connection_event_dispatches_nothing:
  assumes "event_type_of d = PStr ''CONNECTION_ESTABLISHED''" "tele_branch E agent d s = (Inr (), s')"
  shows "ts_dispatched s' = ts_dispatched s" "ts_db_alerts s' = ts_db_alerts s @ ts_alerts s"
  using assms
  by (auto simp: tele_branch_def tele_commit_def connection_step_def Let_def
      split: if_splits sum.splits prod.splits)

end
