(* ===== verification/Ingest_Api.thy ===== *)
theory Ingest_Api
  imports Access Ingest_Guards Event_Schema Telemetry_Behaviour
begin

section \<open>The ingestion routes\<close>

text \<open>
  \<open>agent_report\<close> and \<open>agent_report_batch\<close> of \<open>app/api/v1/telemetry.py\<close>: rate guard, validation,
  age, sequence, duplicates and \<open>process_telemetry\<close>, composed as the routes compose them.  The state is that of
  the telemetry service with the deduplication table, the sequence tracker and the rate guard of the process.  A request that
  ends in an exception, and a failed event of a batch, roll the session back.  \<open>ie_schema\<close> is the validation
  of a clamped payload with its dump (\<open>None\<close> is \<open>ValidationError\<close>), \<open>ie_time\<close> the instant of an event.
\<close>

record 's ingest_env =
  ie_tele :: "'s tele_env"
  ie_schema :: "pyval \<Rightarrow> pydict option"
  ie_time :: "pydict \<Rightarrow> rat option"
  ie_float :: "string \<Rightarrow> float_value option"
  ie_headers :: headers
  ie_can_connect :: bool
  ie_dedup_ttl :: int

record 's ingest_state =
  is_tele :: "'s tele_state"
  is_dedup :: event_dedup
  is_seq :: seq_tracker
  is_guard :: rate_guard

text \<open>What \<open>rollback\<close> takes back: everything of the session that no commit has stored; Redis and the counters of the process stay.\<close>

definition rolled_back :: "'s tele_state \<Rightarrow> 's tele_state \<Rightarrow> 's tele_state" where
  "rolled_back s0 s1 = s1\<lparr>ts_rows := [], ts_alerts := [], ts_created := [], ts_agent := ts_db_agent s1,
     ts_rules := ts_rules s0, ts_correlated := ts_correlated s0, ts_uevents := ts_uevents s0\<rparr>"

definition rate_allows :: "'s ingest_env \<Rightarrow> string \<Rightarrow> int \<Rightarrow> 's ingest_state \<Rightarrow> bool \<times> 's ingest_state" where
  "rate_allows V agent n st =
     (case allow_async (te_redis (ie_tele V)) (ie_can_connect V) (te_now (ie_tele V)) agent n (ts_redis (is_tele st), is_guard st) of
        (b, s, g) \<Rightarrow> (b, st\<lparr>is_tele := (is_tele st)\<lparr>ts_redis := s\<rparr>, is_guard := g\<rparr>))"

definition age_ok :: "'s ingest_env \<Rightarrow> pydict \<Rightarrow> unit result" where
  "age_ok V d = validate_age_header (ie_float V) (te_now (ie_tele V)) (ie_headers V) (ie_time V d)"

definition validated :: "'s ingest_env \<Rightarrow> pyval \<Rightarrow> pydict option" where
  "validated V raw = ie_schema V (clamp_oversized_strings raw)"

subsection \<open>One event\<close>

datatype fate = Accepted | Duplicate | Failed exn

definition seen_before_step :: "'s ingest_env \<Rightarrow> pydict \<Rightarrow> 's ingest_state \<Rightarrow> bool \<times> 's ingest_state" where
  "seen_before_step V d st =
     (let st1 = st\<lparr>is_seq := snd (seq_observe (dict_get d ''agent_id'') (dict_get d ''boot_id'') (dict_get d ''seq'') (is_seq st))\<rparr>
      in case is_duplicate (te_redis (ie_tele V)) (ie_dedup_ttl V) (dict_get d ''agent_id'') (dict_get d ''event_id'')
           (ts_redis (is_tele st1), is_dedup st1) of
        (b, s, q) \<Rightarrow> (b, st1\<lparr>is_tele := (is_tele st1)\<lparr>ts_redis := s\<rparr>, is_dedup := q\<rparr>))"

definition ingest_event :: "'s ingest_env \<Rightarrow> string \<Rightarrow> pydict \<Rightarrow> 's ingest_state \<Rightarrow> fate \<times> 's ingest_state" where
  "ingest_event V agent d st =
     (case seen_before_step V d st of
        (True, st1) \<Rightarrow> (Duplicate, st1)
      | (False, st1) \<Rightarrow>
          (case process_telemetry (ie_tele V) agent (sanitize_event d) (is_tele st1) of
             (Inl x, t) \<Rightarrow> (Failed x, st1\<lparr>is_tele := rolled_back (is_tele st1) t\<rparr>)
           | (Inr _, t) \<Rightarrow> (Accepted, st1\<lparr>is_tele := t\<rparr>)))"

definition agent_report :: "'s ingest_env \<Rightarrow> string \<Rightarrow> pydict \<Rightarrow> 's ingest_state \<Rightarrow> string result \<times> 's ingest_state" where
  "agent_report V agent d st =
     (case rate_allows V agent 1 st of
        (False, st1) \<Rightarrow> (Inl (http ''429''), st1)
      | (True, st1) \<Rightarrow>
          if dict_get d ''agent_id'' \<noteq> PStr agent then (Inl (http ''403''), st1)
          else (case age_ok V d of
            Inl x \<Rightarrow> (Inl x, st1)
          | Inr _ \<Rightarrow> (case ingest_event V agent d st1 of
                (Accepted, st2) \<Rightarrow> (Inr ''ok'', st2)
              | (Duplicate, st2) \<Rightarrow> (Inr ''duplicate'', st2)
              | (Failed x, st2) \<Rightarrow> (Inl x, st2))))"

subsection \<open>A batch\<close>

definition BATCH_MAX :: nat where
  "BATCH_MAX = 100"

record tally =
  ta_accepted :: nat
  ta_rejected :: nat
  ta_duplicates :: nat

definition no_tally :: tally where
  "no_tally = \<lparr>ta_accepted = 0, ta_rejected = 0, ta_duplicates = 0\<rparr>"

fun tallied :: "fate \<Rightarrow> tally \<Rightarrow> tally" where
  "tallied Accepted t = t\<lparr>ta_accepted := ta_accepted t + 1\<rparr>"
| "tallied Duplicate t = t\<lparr>ta_duplicates := ta_duplicates t + 1\<rparr>"
| "tallied (Failed x) t = t\<lparr>ta_rejected := ta_rejected t + 1\<rparr>"

text \<open>Whether the loop passes an element on to the deduplication: it validates, it names the caller, its age is fine.\<close>

definition admissible :: "'s ingest_env \<Rightarrow> string \<Rightarrow> pyval \<Rightarrow> pydict option" where
  "admissible V agent raw =
     (case validated V raw of None \<Rightarrow> None
      | Some d \<Rightarrow> if dict_get d ''agent_id'' \<noteq> PStr agent then None
                  else (case age_ok V d of Inl x \<Rightarrow> (if is_http x then None else Some d) | Inr _ \<Rightarrow> Some d))"

fun batch_loop :: "'s ingest_env \<Rightarrow> string \<Rightarrow> pyval list \<Rightarrow> tally \<Rightarrow> 's ingest_state \<Rightarrow> tally \<times> 's ingest_state" where
  "batch_loop V agent [] t st = (t, st)"
| "batch_loop V agent (raw # raws) t st =
     (case admissible V agent raw of
        None \<Rightarrow> batch_loop V agent raws (t\<lparr>ta_rejected := ta_rejected t + 1\<rparr>) st
      | Some d \<Rightarrow> (case ingest_event V agent d st of (f, st1) \<Rightarrow> batch_loop V agent raws (tallied f t) st1))"

definition agent_report_batch :: "'s ingest_env \<Rightarrow> string \<Rightarrow> pyval list \<Rightarrow> 's ingest_state \<Rightarrow> tally result \<times> 's ingest_state" where
  "agent_report_batch V agent raws st =
     (if length raws > BATCH_MAX then (Inl (http ''413''), st)
      else case rate_allows V agent (int (length raws)) st of
        (False, st1) \<Rightarrow> (Inl (http ''429''), st1)
      | (True, st1) \<Rightarrow> (case batch_loop V agent raws no_tally st1 of (t, st2) \<Rightarrow> (Inr t, st2)))"

subsection \<open>Accounting\<close>

definition tally_sum :: "tally \<Rightarrow> nat" where
  "tally_sum t = ta_accepted t + ta_rejected t + ta_duplicates t"

lemma tallied_sum [simp]: "tally_sum (tallied f t) = Suc (tally_sum t)"
  by (cases f) (simp_all add: tally_sum_def)

lemma batch_loop_sum: "tally_sum (fst (batch_loop V agent raws t st)) = tally_sum t + length raws"
  by (induction raws arbitrary: t st) (auto simp: case_prod_beta split: option.split, auto simp: tally_sum_def)

lemma batch_loop_skips:
  "snd (batch_loop V agent raws t st) = snd (batch_loop V agent (filter (\<lambda>r. admissible V agent r \<noteq> None) raws) u st)"
proof (induction raws arbitrary: t u st)
  case (Cons r raws)
  show ?case
  proof (cases "admissible V agent r")
    case None
    then show ?thesis using Cons.IH [where st = st and u = u] by simp
  next
    case (Some d)
    then show ?thesis using Cons.IH [where t = "tallied (fst (ingest_event V agent d st)) t" and st = "snd (ingest_event V agent d st)"
          and u = "tallied (fst (ingest_event V agent d st)) u"]
      by (simp add: case_prod_beta)
  qed
qed simp

lemma batch_loop_tally:
  "ta_accepted (fst (batch_loop V agent raws t st)) + ta_accepted u =
     ta_accepted (fst (batch_loop V agent (filter (\<lambda>r. admissible V agent r \<noteq> None) raws) u st)) + ta_accepted t"
proof (induction raws arbitrary: t u st)
  case (Cons r raws)
  show ?case
  proof (cases "admissible V agent r")
    case None
    then show ?thesis using Cons.IH [where t = "t\<lparr>ta_rejected := ta_rejected t + 1\<rparr>" and u = u and st = st] by simp
  next
    case (Some d)
    show ?thesis using Some Cons.IH [where t = "tallied (fst (ingest_event V agent d st)) t" and st = "snd (ingest_event V agent d st)"
          and u = "tallied (fst (ingest_event V agent d st)) u"]
      by (cases "fst (ingest_event V agent d st)") (simp_all add: case_prod_beta)
  qed
qed simp


subsection \<open>A failed event\<close>

lemma evict_last: "0 < n \<Longrightarrow> xs \<noteq> [] \<Longrightarrow> last xs \<in> set (evict n xs)"
proof (induction n xs rule: evict.induct)
  case (1 n xs)
  show ?case
  proof (cases "length xs > n")
    case True
    then have "tl xs \<noteq> []" "last (tl xs) = last xs" using 1(2) by (cases xs; auto)+
    then show ?thesis using 1 True by (subst evict.simps) simp
  next
    case False
    then show ?thesis using 1 by (subst evict.simps) simp
  qed
qed

lemma checked_is_seen:
  assumes "0 < dd_capacity d" "py_truth e"
  shows "(py_str a, py_str e) \<in> set (dd_seen (snd (dedup_check a e d)))"
    "dd_capacity (snd (dedup_check a e d)) = dd_capacity d"
  using evict_last [OF assms(1), of "dd_seen d @ [(py_str a, py_str e)]"] assms(2)
  by (auto simp: dedup_check_def Let_def)

lemma seen_is_duplicate: "py_truth e \<Longrightarrow> (py_str a, py_str e) \<in> set (dd_seen d) \<Longrightarrow> fst (dedup_check a e d)"
  by (simp add: dedup_check_def Let_def)

text \<open>A question answered "not seen" leaves the identifier in the table of the process.\<close>

lemma new_is_remembered:
  assumes "is_duplicate R ttl a e (s, d) = (False, s1, d1)" "py_truth e" "0 < dd_capacity d"
  shows "(py_str a, py_str e) \<in> set (dd_seen d1)"
proof -
  have "d1 = snd (dedup_check a e d)"
    using assms(1,2) by (auto simp: is_duplicate_def Let_def split: prod.splits sum.splits if_splits)
  then show ?thesis using checked_is_seen(1) [OF assms(3,2)] by simp
qed

lemma remembered_is_duplicate:
  assumes "(py_str a, py_str e) \<in> set (dd_seen d)" "py_truth e"
    "fst (rd_set_nx R s (dedup_key (py_str a) (py_str e)) ''1'' ttl) \<noteq> Inr True"
  shows "fst (is_duplicate R ttl a e (s, d))"
proof -
  obtain r s1 where r: "rd_set_nx R s (dedup_key (py_str a) (py_str e)) ''1'' ttl = (r, s1)" by fastforce
  have "r \<noteq> Inr True" using assms(3) r by simp
  then have "r = Inr False \<or> (\<exists>x. r = Inl x)" by (cases r) auto
  then show ?thesis using r assms(2) seen_is_duplicate [OF assms(2,1)]
    by (auto simp: is_duplicate_def set_nx_value_def case_prod_beta)
qed

lemma ingest_failed:
  assumes "ingest_event V agent d st = (Failed x, st1)"
  shows "\<exists>st0 t. seen_before_step V d st = (False, st0) \<and>
     process_telemetry (ie_tele V) agent (sanitize_event d) (is_tele st0) = (Inl x, t) \<and>
     st1 = st0\<lparr>is_tele := rolled_back (is_tele st0) t\<rparr>"
  using assms by (auto simp: ingest_event_def split: prod.splits bool.splits sum.splits)

text \<open>
  An event whose processing fails is never stored: the identifier was recorded before the work, so when
  the agent sends the event again, as its outbox does, it is answered as a duplicate, and neither attempt has stored
  a row or an alert.  The hypothesis on Redis says that it does not hand out the same mark twice; a Redis that
  is down satisfies it.
\<close>

theorem failed_event_is_never_stored:
  assumes "ingest_event V agent d st = (Failed x, st1)" "py_truth (dict_get d ''event_id'')" "0 < dd_capacity (is_dedup st)"
    "fst (rd_set_nx (te_redis (ie_tele V)) (ts_redis (is_tele st1))
       (dedup_key (py_str (dict_get d ''agent_id'')) (py_str (dict_get d ''event_id''))) ''1'' (ie_dedup_ttl V)) \<noteq> Inr True"
  shows "\<exists>st2. ingest_event V agent d st1 = (Duplicate, st2) \<and>
     ts_db_rows (is_tele st2) = ts_db_rows (is_tele st) \<and> ts_db_alerts (is_tele st2) = ts_db_alerts (is_tele st) \<and>
     ts_dispatched (is_tele st2) = ts_dispatched (is_tele st)"
proof -
  obtain st0 t where s: "seen_before_step V d st = (False, st0)"
    "process_telemetry (ie_tele V) agent (sanitize_event d) (is_tele st0) = (Inl x, t)"
    "st1 = st0\<lparr>is_tele := rolled_back (is_tele st0) t\<rparr>"
    using ingest_failed [OF assms(1)] by blast
  let ?a = "dict_get d ''agent_id''" and ?e = "dict_get d ''event_id''"
  obtain r0 where q: "is_duplicate (te_redis (ie_tele V)) (ie_dedup_ttl V) ?a ?e (ts_redis (is_tele st), is_dedup st) = (False, r0, is_dedup st0)"
    and db: "ts_db_rows (is_tele st0) = ts_db_rows (is_tele st)" "ts_db_alerts (is_tele st0) = ts_db_alerts (is_tele st)"
      "ts_dispatched (is_tele st0) = ts_dispatched (is_tele st)"
    using s(1) by (auto simp: seen_before_step_def Let_def split: prod.splits)
  have "(py_str ?a, py_str ?e) \<in> set (dd_seen (is_dedup st1))"
    using new_is_remembered [OF q assms(2,3)] s(3) by simp
  from remembered_is_duplicate [OF this assms(2,4)]
  obtain r1 q1 where again: "is_duplicate (te_redis (ie_tele V)) (ie_dedup_ttl V) ?a ?e (ts_redis (is_tele st1), is_dedup st1) = (True, r1, q1)"
    by (metis (full_types) prod.collapse)
  have "ts_db_rows (is_tele st1) = ts_db_rows (is_tele st) \<and> ts_db_alerts (is_tele st1) = ts_db_alerts (is_tele st) \<and>
      ts_dispatched (is_tele st1) = ts_dispatched (is_tele st)"
    using process_telemetry_safe [OF s(2)] s(3) db by (simp add: rolled_back_def)
  then show ?thesis using again
    by (simp add: ingest_event_def seen_before_step_def Let_def)
qed

subsection \<open>Witnesses\<close>

definition broken_event :: pydict where
  "broken_event = [(''agent_id'', PStr ''a''), (''event_id'', PInt 7),
     (''anomalies'', PList [PDict [(''ip'', PInt 1), (''processes'', PList [PStr []])]])]"

definition demo_ingest :: "rmap ingest_env" where
  "demo_ingest = \<lparr>ie_tele = sample_env\<lparr>te_redis := dead_redis\<rparr>,
     ie_schema = (\<lambda>v. case v of PDict d \<Rightarrow> Some d | _ \<Rightarrow> None), ie_time = (\<lambda>_. None), ie_float = (\<lambda>_. None),
     ie_headers = [], ie_can_connect = False, ie_dedup_ttl = 3600\<rparr>"

definition demo_ingest_state :: "rmap ingest_state" where
  "demo_ingest_state = \<lparr>is_tele = sample_state, is_dedup = new_dedup 10, is_seq = new_tracker,
     is_guard = \<lparr>rg_events_per_min = 100, rg_use_redis = False, rg_windows = [], rg_allowlist = [],
       rg_client = False, rg_redis_down_until = 0\<rparr>\<rparr>"

lemma broken_event_fails:
  "case fst (ingest_event demo_ingest ''a'' broken_event demo_ingest_state) of Failed x \<Rightarrow> True | _ \<Rightarrow> False"
  by code_simp

lemma failed_event_is_never_stored_witness:
  "\<exists>x st1 st2. ingest_event demo_ingest ''a'' broken_event demo_ingest_state = (Failed x, st1) \<and>
     ingest_event demo_ingest ''a'' broken_event st1 = (Duplicate, st2) \<and> ts_db_rows (is_tele st2) = []"
proof -
  obtain x st1 where f: "ingest_event demo_ingest ''a'' broken_event demo_ingest_state = (Failed x, st1)"
    using broken_event_fails by (cases "ingest_event demo_ingest ''a'' broken_event demo_ingest_state") (auto split: fate.splits)
  have e: "py_truth (dict_get broken_event ''event_id'')" "0 < dd_capacity (is_dedup demo_ingest_state)"
    "ts_db_rows (is_tele demo_ingest_state) = []"
    by code_simp+
  have r: "fst (rd_set_nx (te_redis (ie_tele demo_ingest)) s k v t) \<noteq> Inr True" for s k v t
    by (simp add: demo_ingest_def dead_redis_def)
  show ?thesis using failed_event_is_never_stored [OF f e(1,2) r] f e(3) by auto
qed


end
