(* ===== verification/Accounts.thy ===== *)
theory Accounts
  imports Access Regex_Groups
begin

section \<open>Accounts and sessions\<close>

text \<open>
  \<open>app/api/v1/auth.py\<close> (registration, login, logout, trusted devices), \<open>app/api/v1/users.py\<close> (roles and
  deactivation) and the helpers of \<open>app/core/security.py\<close>.  The state holds the rows of users and devices, the
  store of Redis, and the audit log in two parts: rows of the open session and rows that a commit has
  stored; \<open>close_session\<close> is the end of a request, where \<open>get_db\<close> drops what was not committed.  Hashing, random
  tokens, encoding and decoding of JWT are parameters.  A response that is an exception sets no cookie.
\<close>

record member = account +
  mb_email :: string
  mb_password_hash :: string

record remembered =
  dv_id :: int
  dv_user_id :: int
  dv_token_hash :: string
  dv_label :: string
  dv_user_agent :: string
  dv_created_at :: rat
  dv_last_used_at :: "rat option"
  dv_expires_at :: rat
  dv_revoked :: bool

record 's auth_state =
  as_redis :: 's
  as_users :: "member list"
  as_devices :: "remembered list"
  as_next_user :: int
  as_next_device :: int
  as_pending :: "audit_row list"
  as_audit :: "audit_row list"

record login_env =
  lg_open_registration :: bool
  lg_hash :: "string \<Rightarrow> string"
  lg_verify :: "string \<Rightarrow> string \<Rightarrow> bool"
  lg_checker :: "(string \<Rightarrow> bool) option"
  lg_probe :: string
  lg_sha256 :: "string \<Rightarrow> string"
  lg_now :: rat
  lg_expire_minutes :: int
  lg_fresh :: string
  lg_jti :: string
  lg_encode :: "pydict \<Rightarrow> string"
  lg_decode :: "string \<Rightarrow> pydict option"

datatype cookie = Kept | Set_to string | Cleared

record reply =
  rp_token :: string
  rp_user :: member
  rp_session :: cookie
  rp_remember :: cookie

type_synonym ('s, 'a) auth_answer = "'s auth_state \<Rightarrow> 'a result \<times> 's auth_state"

definition close_session :: "'s auth_state \<Rightarrow> 's auth_state" where
  "close_session st = st\<lparr>as_pending := []\<rparr>"

subsection \<open>Tokens and hashes\<close>

definition ARGON2_PARAMS :: grx where
  "ARGON2_PARAMS = g_seq [g_lit ''m='', GGroup ''1'' (g_plus g_digit), g_lit '',t='', GGroup ''2'' (g_plus g_digit),
     g_lit '',p='', GGroup ''3'' (g_plus g_digit)]"

definition parse_argon2_params :: "string \<Rightarrow> (nat \<times> nat \<times> nat) option" where
  "parse_argon2_params hashed =
     (if \<not> startswith hashed ''$argon2id$'' then None
      else map_option (\<lambda>g. (read_nat (grp_text g ''1''), read_nat (grp_text g ''2''), read_nat (grp_text g ''3'')))
        (g_search ARGON2_PARAMS hashed))"

text \<open>\<open>probe\<close> is a hash made with the recommended parameters.\<close>

definition argon2_params_drifted :: "string \<Rightarrow> string \<Rightarrow> bool" where
  "argon2_params_drifted probe hashed =
     (case parse_argon2_params hashed of None \<Rightarrow> True
      | Some current \<Rightarrow> (case parse_argon2_params probe of None \<Rightarrow> True | Some r \<Rightarrow> current \<noteq> r))"

definition needs_rehash :: "login_env \<Rightarrow> string \<Rightarrow> bool" where
  "needs_rehash env hashed = (case lg_checker env of Some c \<Rightarrow> c hashed
     | None \<Rightarrow> argon2_params_drifted (lg_probe env) hashed)"

definition JWT_ISSUER :: string where "JWT_ISSUER = ''aegis-brain''"
definition JWT_AUDIENCE :: string where "JWT_AUDIENCE = ''aegis-api''"

definition create_access_token :: "login_env \<Rightarrow> string \<Rightarrow> string option \<Rightarrow> string \<times> string \<times> int" where
  "create_access_token env subject role =
     (let expire = trunc (lg_now env + of_int (lg_expire_minutes env) * 60) in
      (lg_encode env [(''sub'', PStr subject), (''role'', opt_str role), (''exp'', PInt expire),
         (''jti'', PStr (lg_jti env)), (''iss'', PStr JWT_ISSUER), (''aud'', PStr JWT_AUDIENCE)],
       lg_jti env, expire))"

definition session_token :: "login_env \<Rightarrow> member \<Rightarrow> string" where
  "session_token env u = fst (create_access_token env (show_int (us_id u)) (us_role u))"

subsection \<open>Trusted devices\<close>

definition REMEMBER_DAYS :: rat where "REMEMBER_DAYS = 30"
definition MAX_DEVICES_PER_USER :: nat where "MAX_DEVICES_PER_USER = 10"

definition first_mark :: "(string \<times> string) list \<Rightarrow> string \<Rightarrow> string \<Rightarrow> string" where
  "first_mark marks d ua = (case find_first (\<lambda>(m, n). py_in m ua) marks of None \<Rightarrow> d | Some (m, n) \<Rightarrow> n)"

definition guess_device_label :: "string \<Rightarrow> string" where
  "guess_device_label ua =
     first_mark [(''Edg/'', ''Edge''), (''OPR/'', ''Opera''), (''Chrome/'', ''Chrome''), (''Firefox/'', ''Firefox''),
       (''Safari/'', ''Safari'')] ''Browser'' ua @ '' '' @ [CHR 0xC2, CHR 0xB7] @ '' '' @
     first_mark [(''Windows'', ''Windows''), (''Mac OS'', ''macOS''), (''Macintosh'', ''macOS''), (''Linux'', ''Linux''),
       (''Android'', ''Android''), (''iPhone'', ''iOS''), (''iPad'', ''iOS'')] ''OS sconosciuto'' ua"

text \<open>Dead devices are deleted; of the others the newest nine stay valid.\<close>

definition devices_of :: "int \<Rightarrow> remembered list \<Rightarrow> remembered list" where
  "devices_of uid ds = rev (sort_key dv_created_at (rev (filter (\<lambda>d. dv_user_id d = uid) ds)))"

definition dead_device :: "rat \<Rightarrow> remembered \<Rightarrow> bool" where
  "dead_device now d \<longleftrightarrow> dv_revoked d \<or> dv_expires_at d < now"

definition prune_remember_devices :: "rat \<Rightarrow> int \<Rightarrow> remembered list \<Rightarrow> remembered list" where
  "prune_remember_devices now uid ds =
     (let alive = filter (\<lambda>d. \<not> (dv_user_id d = uid \<and> dead_device now d)) ds;
          stale = map dv_id (drop (MAX_DEVICES_PER_USER - 1) (devices_of uid alive))
      in map (\<lambda>d. if dv_user_id d = uid \<and> List.member stale (dv_id d) then d\<lparr>dv_revoked := True\<rparr> else d) alive)"

definition new_device :: "login_env \<Rightarrow> string \<Rightarrow> int \<Rightarrow> int \<Rightarrow> remembered" where
  "new_device env ua uid i =
     (let agent = clip 255 ua in
      \<lparr>dv_id = i, dv_user_id = uid, dv_token_hash = lg_sha256 env (lg_fresh env), dv_label = guess_device_label agent,
       dv_user_agent = agent, dv_created_at = lg_now env, dv_last_used_at = Some (lg_now env),
       dv_expires_at = lg_now env + REMEMBER_DAYS * 86400, dv_revoked = False\<rparr>)"

definition issue_remember_device :: "login_env \<Rightarrow> string \<Rightarrow> int \<Rightarrow> 's auth_state \<Rightarrow> 's auth_state" where
  "issue_remember_device env ua uid st =
     st\<lparr>as_devices := prune_remember_devices (lg_now env) uid (as_devices st) @ [new_device env ua uid (as_next_device st)],
        as_next_device := as_next_device st + 1\<rparr>"

definition device_with :: "login_env \<Rightarrow> string \<Rightarrow> 's auth_state \<Rightarrow> remembered option" where
  "device_with env raw st = find_first (\<lambda>d. dv_token_hash d = lg_sha256 env raw) (as_devices st)"

definition put_device :: "remembered \<Rightarrow> 's auth_state \<Rightarrow> 's auth_state" where
  "put_device d st = st\<lparr>as_devices := map (\<lambda>b. if dv_id b = dv_id d then d else b) (as_devices st)\<rparr>"

definition user_with :: "int \<Rightarrow> 's auth_state \<Rightarrow> member option" where
  "user_with i st = find_first (\<lambda>u. us_id u = i) (as_users st)"

definition put_user :: "member \<Rightarrow> 's auth_state \<Rightarrow> 's auth_state" where
  "put_user u st = st\<lparr>as_users := map (\<lambda>b. if us_id b = us_id u then u else b) (as_users st)\<rparr>"

definition remember_login :: "login_env \<Rightarrow> string \<Rightarrow> string option \<Rightarrow> ('s, reply) auth_answer" where
  "remember_login env ua raw st =
     (if \<not> truthy raw then (Inl (http ''401''), st)
      else case device_with env (text_of raw) st of None \<Rightarrow> (Inl (http ''401''), st)
      | Some d \<Rightarrow>
          if dead_device (lg_now env) d then (Inl (http ''401''), st)
          else (case user_with (dv_user_id d) st of None \<Rightarrow> (Inl (http ''401''), st)
            | Some u \<Rightarrow>
                if \<not> ac_active u then (Inl (http ''401''), st)
                else (Inr \<lparr>rp_token = session_token env u, rp_user = u, rp_session = Set_to (session_token env u),
                           rp_remember = Set_to (lg_fresh env)\<rparr>,
                      issue_remember_device env ua (us_id u)
                        (put_device (d\<lparr>dv_last_used_at := Some (lg_now env), dv_revoked := True\<rparr>) st))))"

definition list_remember_devices :: "login_env \<Rightarrow> member \<Rightarrow> 's auth_state \<Rightarrow> (remembered \<times> bool) list" where
  "list_remember_devices env u st = map (\<lambda>d. (d, dead_device (lg_now env) d)) (devices_of (us_id u) (as_devices st))"

definition revoke_remember_device :: "member \<Rightarrow> int \<Rightarrow> ('s, int) auth_answer" where
  "revoke_remember_device u i st =
     (case find_first (\<lambda>d. dv_id d = i \<and> dv_user_id d = us_id u) (as_devices st) of
        None \<Rightarrow> (Inl (http ''404''), st)
      | Some d \<Rightarrow> (Inr i, put_device (d\<lparr>dv_revoked := True\<rparr>) st))"

subsection \<open>Registration, login, logout\<close>

definition may_register ::
  "'s redis \<Rightarrow> login_env \<Rightarrow> string option \<Rightarrow> string option \<Rightarrow> ('s, unit) auth_answer" where
  "may_register R env authorization cookie st =
     (if lg_open_registration env then (Inr (), st)
      else case get_optional_user R (lg_decode env) (map account.truncate (as_users st)) authorization cookie (as_redis st) of
        (Inl x, s) \<Rightarrow> (Inl x, st\<lparr>as_redis := s\<rparr>)
      | (Inr None, s) \<Rightarrow> (Inl (http ''403''), st\<lparr>as_redis := s\<rparr>)
      | (Inr (Some a), s) \<Rightarrow>
          (if lower (or_str (us_role a) []) \<noteq> ''admin'' then Inl (http ''403'') else Inr (), st\<lparr>as_redis := s\<rparr>))"

definition new_member :: "login_env \<Rightarrow> string \<Rightarrow> string \<Rightarrow> string \<Rightarrow> int \<Rightarrow> member" where
  "new_member env username email password i =
     \<lparr>us_id = i, us_username = username, us_role = Some ''user'', ac_active = True, mb_email = email,
      mb_password_hash = lg_hash env password\<rparr>"

text \<open>The column of user names is unique: a second user of a name ends in an \<open>IntegrityError\<close>.\<close>

definition register_user ::
  "'s redis \<Rightarrow> login_env \<Rightarrow> string option \<Rightarrow> string option \<Rightarrow> string \<Rightarrow> string \<Rightarrow> string \<Rightarrow> ('s, reply) auth_answer" where
  "register_user R env authorization cookie username email password st =
     (case may_register R env authorization cookie st of
        (Inl x, st1) \<Rightarrow> (Inl x, st1)
      | (Inr _, st1) \<Rightarrow>
          let u = new_member env username email password (as_next_user st1) in
          if list_ex (\<lambda>b. mb_email b = email) (as_users st1) then (Inl (http ''400''), st1)
          else if list_ex (\<lambda>b. us_username b = username) (as_users st1) then (Inl (ValueError ''duplicate key''), st1)
          else (Inr \<lparr>rp_token = session_token env u, rp_user = u, rp_session = Set_to (session_token env u), rp_remember = Kept\<rparr>,
                st1\<lparr>as_users := as_users st1 @ [u], as_next_user := as_next_user st1 + 1\<rparr>))"

definition user_by_email :: "string \<Rightarrow> 's auth_state \<Rightarrow> member option" where
  "user_by_email email st = find_first (\<lambda>u. mb_email u = email) (as_users st)"

definition rehashed :: "login_env \<Rightarrow> string \<Rightarrow> member \<Rightarrow> member" where
  "rehashed env password u =
     (if needs_rehash env (mb_password_hash u) then u\<lparr>mb_password_hash := lg_hash env password\<rparr> else u)"

text \<open>What follows a correct password of an active account.\<close>

definition admit_user :: "'s redis \<Rightarrow> login_env \<Rightarrow> string \<Rightarrow> string \<Rightarrow> bool \<Rightarrow> member \<Rightarrow> ('s, reply) auth_answer" where
  "admit_user R env ua password remember u st =
     (let u1 = rehashed env password u;
          st1 = put_user u1 (st\<lparr>as_redis := clear_login_failures R (Some (mb_email u)) (as_redis st)\<rparr>)
      in (Inr \<lparr>rp_token = session_token env u1, rp_user = u1, rp_session = Set_to (session_token env u1),
               rp_remember = (if remember then Set_to (lg_fresh env) else Kept)\<rparr>,
          if remember then issue_remember_device env ua (us_id u1) st1 else st1))"

definition login :: "'s redis \<Rightarrow> login_env \<Rightarrow> string \<Rightarrow> string \<Rightarrow> string \<Rightarrow> bool \<Rightarrow> ('s, reply) auth_answer" where
  "login R env ua email password remember st =
     (case login_throttled R (Some email) (as_redis st) of (throttled, s) \<Rightarrow>
        let st1 = st\<lparr>as_redis := s\<rparr> in
        if throttled then (Inl (http ''429''), st1)
        else (case user_by_email email st1 of
          None \<Rightarrow> (Inl (http ''401''), st1\<lparr>as_redis := record_login_failure R (Some email) s\<rparr>)
        | Some u \<Rightarrow>
            if \<not> lg_verify env password (mb_password_hash u)
            then (Inl (http ''401''), st1\<lparr>as_redis := record_login_failure R (Some email) s\<rparr>)
            else if \<not> ac_active u then (Inl (http ''403''), st1)
            else admit_user R env ua password remember u st1))"

text \<open>The token a logout revokes: the cookie before the header.\<close>

definition logout_token :: "string option \<Rightarrow> string \<Rightarrow> string option" where
  "logout_token cookie header =
     (if truthy cookie then cookie else if startswith header ''Bearer '' then Some (drop 7 header) else None)"

definition revoke_session :: "'s redis \<Rightarrow> login_env \<Rightarrow> string option \<Rightarrow> 's \<Rightarrow> unit result \<times> 's" where
  "revoke_session R env token s =
     (case (if truthy token then lg_decode env (text_of token) else None) of None \<Rightarrow> (Inr (), s)
      | Some p \<Rightarrow>
          if \<not> (py_truth (dict_get p ''jti'') \<and> py_truth (dict_get p ''exp'')) then (Inr (), s)
          else (case py_int (dict_get p ''exp'') of Inl x \<Rightarrow> (Inl x, s)
            | Inr e \<Rightarrow> (case blacklist_token R (trunc (lg_now env)) (py_str (dict_get p ''jti'')) e s of
                (b, s1) \<Rightarrow> (if b then Inr () else Inl (http ''503''), s1))))"

definition logout ::
  "'s redis \<Rightarrow> login_env \<Rightarrow> string option \<Rightarrow> string \<Rightarrow> string option \<Rightarrow> ('s, cookie \<times> cookie) auth_answer" where
  "logout R env cookie header remember st =
     (case revoke_session R env (logout_token cookie header) (as_redis st) of
        (Inl x, s) \<Rightarrow> (Inl x, st\<lparr>as_redis := s\<rparr>)
      | (Inr _, s) \<Rightarrow>
          let st1 = st\<lparr>as_redis := s\<rparr> in
          (Inr (Cleared, Cleared),
           if \<not> truthy remember then st1
           else case device_with env (text_of remember) st1 of None \<Rightarrow> st1
             | Some d \<Rightarrow> if dv_revoked d then st1 else put_device (d\<lparr>dv_revoked := True\<rparr>) st1))"

text \<open>\<open>user\<close> is the caller \<open>get_current_user\<close> found.\<close>

definition refresh_session :: "login_env \<Rightarrow> member \<Rightarrow> reply" where
  "refresh_session env u = \<lparr>rp_token = session_token env u, rp_user = u, rp_session = Set_to (session_token env u), rp_remember = Kept\<rparr>"

definition get_me :: "member \<Rightarrow> pydict" where
  "get_me u = [(''id'', PInt (us_id u)), (''username'', PStr (us_username u)), (''email'', PStr (mb_email u)),
     (''role'', opt_str (us_role u))]"

subsection \<open>Administration\<close>

definition active_admin :: "member \<Rightarrow> bool" where
  "active_admin u \<longleftrightarrow> us_role u = Some ''admin'' \<and> ac_active u"

definition count_active_admins :: "member list \<Rightarrow> nat" where
  "count_active_admins us = length (filter active_admin us)"

definition user_out :: "member \<Rightarrow> pydict" where
  "user_out u = get_me u @ [(''active'', PBool (ac_active u))]"

definition list_users :: "member \<Rightarrow> 's auth_state \<Rightarrow> pydict list result" where
  "list_users admin st = bind_result (require_perm [''manage''] (user_row.truncate admin))
     (\<lambda>_. Inr (map user_out (sort_key us_id (as_users st))))"

definition stops_being_admin :: "bool option \<Rightarrow> string option \<Rightarrow> member \<Rightarrow> bool" where
  "stops_being_admin active role u \<longleftrightarrow> active_admin u \<and>
     (active = Some False \<or> (case role of None \<Rightarrow> False | Some r \<Rightarrow> lower r \<noteq> ''admin''))"

definition new_role :: "string option \<Rightarrow> member \<Rightarrow> string option" where
  "new_role role u = (case role of None \<Rightarrow> us_role u | Some r \<Rightarrow> Some (lower r))"

definition patched_user :: "bool option \<Rightarrow> string option \<Rightarrow> member \<Rightarrow> member" where
  "patched_user active role u = u\<lparr>us_role := new_role role u, ac_active := (case active of None \<Rightarrow> ac_active u | Some b \<Rightarrow> b)\<rparr>"

definition user_changes :: "member \<Rightarrow> member \<Rightarrow> pyval list" where
  "user_changes u v = (if us_role v \<noteq> us_role u then [PStr (''role->'' @ text_of (us_role v))] else []) @
     (if ac_active v \<noteq> ac_active u then [PStr (''active->'' @ (if ac_active v then ''True'' else ''False''))] else [])"

definition user_audit :: "member \<Rightarrow> member \<Rightarrow> pyval list \<Rightarrow> audit_row" where
  "user_audit admin u changed = \<lparr>au_action = ''user_update'', au_resource = ''user:'' @ show_int (us_id u),
     au_resource_id = None, au_details = [(''changes'', PList changed), (''target_email'', PStr (mb_email u))],
     au_user = us_id admin, au_username = us_username admin\<rparr>"

definition update_user :: "member \<Rightarrow> int \<Rightarrow> bool option \<Rightarrow> string option \<Rightarrow> ('s, member) auth_answer" where
  "update_user admin i active role st =
     (case require_perm [''manage''] (user_row.truncate admin) of Inl x \<Rightarrow> (Inl x, st) | Inr _ \<Rightarrow>
      if active = None \<and> role = None then (Inl (http ''422''), st)
      else if role \<noteq> None \<and> \<not> List.member KNOWN_ROLES (lower (text_of role)) then (Inl (http ''422''), st)
      else case user_with i st of None \<Rightarrow> (Inl (http ''404''), st)
      | Some u \<Rightarrow>
          if stops_being_admin active role u \<and> count_active_admins (as_users st) \<le> 1 then (Inl (http ''409''), st)
          else let v = patched_user active role u; changed = user_changes u v in
            if changed = [] then (Inr u, st)
            else (Inr v, (put_user v st)\<lparr>as_pending := as_pending st @ [user_audit admin v changed]\<rparr>))"

text \<open>The request: the session is closed without another commit.\<close>

definition patch_user :: "member \<Rightarrow> int \<Rightarrow> bool option \<Rightarrow> string option \<Rightarrow> ('s, member) auth_answer" where
  "patch_user admin i active role st = (case update_user admin i active role st of (r, st1) \<Rightarrow> (r, close_session st1))"

subsection \<open>Requests\<close>

lemma text_of_some: "text_of (Some s) = s"
  by (simp add: text_of_def or_str_def)

text \<open>One request, or any change of the store; \<open>P\<close> restricts the environments.\<close>

inductive auth_step :: "(login_env \<Rightarrow> bool) \<Rightarrow> 's redis \<Rightarrow> 's auth_state \<Rightarrow> 's auth_state \<Rightarrow> bool" for P R where
  step_register: "P env \<Longrightarrow> auth_step P R st (snd (register_user R env a c n e p st))"
| step_login: "P env \<Longrightarrow> auth_step P R st (snd (login R env ua e p rem st))"
| step_logout: "P env \<Longrightarrow> auth_step P R st (snd (logout R env c h rem' st))"
| step_remember: "P env \<Longrightarrow> auth_step P R st (snd (remember_login env ua raw st))"
| step_revoke: "auth_step P R st (snd (revoke_remember_device u i st))"
| step_patch: "auth_step P R st (snd (patch_user adm i active role st))"
| step_store: "auth_step P R st (st\<lparr>as_redis := s\<rparr>)"

text \<open>What each request does to the users and to the devices.\<close>

lemma close_session_facts [simp]: "as_users (close_session st) = as_users st" "as_devices (close_session st) = as_devices st"
  "as_next_user (close_session st) = as_next_user st" "as_audit (close_session st) = as_audit st"
  by (simp_all add: close_session_def)

lemma issue_facts [simp]: "as_users (issue_remember_device env ua uid st) = as_users st"
  "as_next_user (issue_remember_device env ua uid st) = as_next_user st"
  "as_devices (issue_remember_device env ua uid st) =
     prune_remember_devices (lg_now env) uid (as_devices st) @ [new_device env ua uid (as_next_device st)]"
  by (simp_all add: issue_remember_device_def)

lemma put_facts [simp]: "as_users (put_device d st) = as_users st" "as_next_user (put_device d st) = as_next_user st"
  "as_devices (put_user u st) = as_devices st" "as_next_user (put_user u st) = as_next_user st"
  by (simp_all add: put_device_def put_user_def)

lemma may_register_facts:
  "may_register R env a c st = (r, st1) \<Longrightarrow> as_users st1 = as_users st \<and> as_next_user st1 = as_next_user st \<and> as_devices st1 = as_devices st"
  by (auto simp: may_register_def split: if_splits prod.splits sum.splits option.splits)

lemma register_users:
  "as_devices (snd (register_user R env a c n e p st)) = as_devices st \<and>
   (as_users (snd (register_user R env a c n e p st)) = as_users st \<and> as_next_user (snd (register_user R env a c n e p st)) = as_next_user st \<or>
    as_users (snd (register_user R env a c n e p st)) = as_users st @ [new_member env n e p (as_next_user st)] \<and>
      as_next_user (snd (register_user R env a c n e p st)) = as_next_user st + 1)"
proof (cases "may_register R env a c st")
  case (Pair r st1)
  then show ?thesis using may_register_facts [OF Pair]
    by (cases r) (simp_all add: register_user_def Let_def)
qed

lemma login_cases:
  obtains (failed) s x where "login R env ua e p rem st = (Inl x, st\<lparr>as_redis := s\<rparr>)"
  | (admitted) s u where "user_by_email e st = Some u" "lg_verify env p (mb_password_hash u)" "ac_active u"
      "login R env ua e p rem st = admit_user R env ua p rem u (st\<lparr>as_redis := s\<rparr>)"
proof (cases "login_throttled R (Some e) (as_redis st)")
  case (Pair b s)
  show thesis
  proof (cases b)
    case True
    then show thesis using Pair that(1) [of "http ''429''" s] by (simp add: login_def)
  next
    case nb: False
    show thesis
    proof (cases "user_by_email e st")
      case None
      then show thesis using Pair nb that(1) [of "http ''401''" "record_login_failure R (Some e) s"]
        by (simp add: login_def user_by_email_def)
    next
      case (Some u)
      have u: "user_by_email e (st\<lparr>as_redis := s\<rparr>) = Some u" using Some by (simp add: user_by_email_def)
      consider "\<not> lg_verify env p (mb_password_hash u)" | "lg_verify env p (mb_password_hash u)" "\<not> ac_active u"
        | "lg_verify env p (mb_password_hash u)" "ac_active u" by blast
      then show thesis
        by cases (use Pair nb u Some that(1) [of "http ''401''" "record_login_failure R (Some e) s"]
            that(1) [of "http ''403''" s] that(2) [of u s] in \<open>simp_all add: login_def\<close>)
    qed
  qed
qed

lemma remember_cases:
  obtains (failed) x where "remember_login env ua raw st = (Inl x, st)"
  | (entered) d u r where "truthy raw" "device_with env (text_of raw) st = Some d" "\<not> dead_device (lg_now env) d"
      "user_with (dv_user_id d) st = Some u" "ac_active u"
      "remember_login env ua raw st = (Inr r, issue_remember_device env ua (us_id u)
         (put_device (d\<lparr>dv_last_used_at := Some (lg_now env), dv_revoked := True\<rparr>) st))"
proof (cases "truthy raw")
  case t: True
  show thesis
  proof (cases "device_with env (text_of raw) st")
    case None
    then show thesis using t that(1) [of "http ''401''"] by (simp add: remember_login_def)
  next
    case d: (Some d)
    show thesis
    proof (cases "dead_device (lg_now env) d \<or> user_with (dv_user_id d) st = None")
      case True
      then show thesis using t d that(1) [of "http ''401''"] by (cases "dead_device (lg_now env) d") (simp_all add: remember_login_def)
    next
      case False
      then obtain u where u: "user_with (dv_user_id d) st = Some u" by auto
      show thesis
      proof (cases "ac_active u")
        case True
        then show thesis using t d u False that(2) by (simp add: remember_login_def)
      next
        case ia: False
        then show thesis using t d u False that(1) [of "http ''401''"] by (simp add: remember_login_def)
      qed
    qed
  qed
next
  case False
  then show thesis using that(1) [of "http ''401''"] by (simp add: remember_login_def)
qed

lemma logout_devices:
  "as_users (snd (logout R env c h rem st)) = as_users st \<and> as_next_user (snd (logout R env c h rem st)) = as_next_user st \<and>
   (as_devices (snd (logout R env c h rem st)) = as_devices st \<or>
    (\<exists>d. dv_revoked d \<and> (\<exists>b \<in> set (as_devices st). dv_token_hash b = dv_token_hash d) \<and>
       as_devices (snd (logout R env c h rem st)) = map (\<lambda>b. if dv_id b = dv_id d then d else b) (as_devices st)))"
proof (cases "revoke_session R env (logout_token c h) (as_redis st)")
  case (Pair r s)
  let ?st = "st\<lparr>as_redis := s\<rparr>"
  show ?thesis
  proof (cases "is_ok r \<and> truthy rem \<and> (\<exists>d. device_with env (text_of rem) ?st = Some d \<and> \<not> dv_revoked d)")
    case True
    then obtain d where d: "device_with env (text_of rem) ?st = Some d" "\<not> dv_revoked d" by blast
    have "d \<in> set (as_devices st)" using d(1) find_first_Some by (fastforce simp: device_with_def)
    then show ?thesis using Pair True d
      by (cases r) (auto simp: logout_def put_device_def intro!: exI [of _ "d\<lparr>dv_revoked := True\<rparr>"])
  next
    case False
    then show ?thesis using Pair by (cases r) (auto simp: logout_def Let_def split: option.split)
  qed
qed

subsection \<open>An administrator remains\<close>

definition well_keyed :: "'s auth_state \<Rightarrow> bool" where
  "well_keyed st \<longleftrightarrow> distinct (map us_id (as_users st)) \<and> (\<forall>u \<in> set (as_users st). us_id u < as_next_user st)"

lemma map_only:
  assumes "distinct (map f (ys @ u # zs))" "f v = f u"
  shows "map (\<lambda>b. if f b = f v then v else b) (ys @ u # zs) = ys @ v # zs"
proof -
  have "map (\<lambda>b. if f b = f v then v else b) ys = ys" "map (\<lambda>b. if f b = f v then v else b) zs = zs"
    using assms by (auto intro!: map_idI simp: image_iff)
  then show ?thesis using assms(2) by simp
qed

lemma put_user_split:
  assumes "well_keyed st" "u \<in> set (as_users st)" "us_id v = us_id u"
  shows "\<exists>ys zs. as_users st = ys @ u # zs \<and> as_users (put_user v st) = ys @ v # zs"
proof -
  obtain ys zs where l: "as_users st = ys @ u # zs" using assms(2) by (meson split_list)
  show ?thesis using map_only [of us_id ys u zs v] assms(1,3) l by (auto simp: put_user_def well_keyed_def)
qed

lemma put_user_keyed:
  assumes "well_keyed st" "u \<in> set (as_users st)" "us_id v = us_id u"
  shows "well_keyed (put_user v st)"
  using put_user_split [OF assms] assms(1,3) by (auto simp: well_keyed_def)

lemma put_user_admins:
  assumes "well_keyed st" "u \<in> set (as_users st)" "us_id v = us_id u"
  shows "count_active_admins (as_users (put_user v st)) + of_bool (active_admin u) =
     count_active_admins (as_users st) + of_bool (active_admin v)"
  using put_user_split [OF assms] by (auto simp: count_active_admins_def)

lemma rehashed_facts [simp]: "us_id (rehashed env p u) = us_id u" "active_admin (rehashed env p u) = active_admin u"
  by (simp_all add: rehashed_def active_admin_def)

lemma user_with_in: "user_with i st = Some u \<Longrightarrow> u \<in> set (as_users st) \<and> us_id u = i"
  using find_first_Some by (fastforce simp: user_with_def)

lemma user_by_email_in: "user_by_email e st = Some u \<Longrightarrow> u \<in> set (as_users st) \<and> mb_email u = e"
  using find_first_Some by (fastforce simp: user_by_email_def)

lemma same_users: "as_users st1 = as_users st \<Longrightarrow> as_next_user st1 = as_next_user st \<Longrightarrow> well_keyed st1 = well_keyed st"
  by (simp add: well_keyed_def)

lemma added_user_keyed:
  assumes "well_keyed st" "as_users st1 = as_users st @ [u]" "us_id u = as_next_user st" "as_next_user st1 = as_next_user st + 1"
  shows "well_keyed st1"
proof -
  have "as_next_user st \<notin> us_id ` set (as_users st)" using assms(1) by (force simp: well_keyed_def)
  moreover have "us_id b < as_next_user st + 1" if "b \<in> set (as_users st)" for b
    using assms(1) that by (force simp: well_keyed_def)
  ultimately show ?thesis using assms by (auto simp: well_keyed_def)
qed

lemma admit_users:
  assumes "well_keyed st" "u \<in> set (as_users st)"
  shows "well_keyed (snd (admit_user R env ua p rem u st)) \<and>
     count_active_admins (as_users (snd (admit_user R env ua p rem u st))) = count_active_admins (as_users st)"
proof -
  define st1 where "st1 = put_user (rehashed env p u) (st\<lparr>as_redis := clear_login_failures R (Some (mb_email u)) (as_redis st)\<rparr>)"
  have k: "well_keyed (st\<lparr>as_redis := clear_login_failures R (Some (mb_email u)) (as_redis st)\<rparr>)" using assms(1) by (simp add: well_keyed_def)
  have "well_keyed st1 \<and> count_active_admins (as_users st1) = count_active_admins (as_users st)"
    using put_user_keyed [OF k, of u "rehashed env p u"] put_user_admins [OF k, of u "rehashed env p u"] assms(2)
    by (simp add: st1_def)
  moreover have "as_users (snd (admit_user R env ua p rem u st)) = as_users st1 \<and>
      as_next_user (snd (admit_user R env ua p rem u st)) = as_next_user st1"
    by (simp add: admit_user_def st1_def Let_def)
  ultimately show ?thesis by (simp add: well_keyed_def)
qed

lemma patched_facts [simp]: "us_id (patched_user a r u) = us_id u" "mb_email (patched_user a r u) = mb_email u"
  by (simp_all add: patched_user_def)

lemma patched_admin: "active_admin u \<Longrightarrow> \<not> stops_being_admin a r u \<Longrightarrow> active_admin (patched_user a r u)"
  by (cases a; cases r) (auto simp: stops_being_admin_def patched_user_def active_admin_def new_role_def)

lemma patch_cases:
  obtains (same) "as_users (snd (patch_user adm i a r st)) = as_users st"
  | (patched) u where "user_with i st = Some u" "\<not> (stops_being_admin a r u \<and> count_active_admins (as_users st) \<le> 1)"
      "as_users (snd (patch_user adm i a r st)) = as_users (put_user (patched_user a r u) st)"
proof (cases "require_perm [''manage''] (user_row.truncate adm)")
  case (Inl x)
  then show thesis using that(1) by (simp add: patch_user_def update_user_def)
next
  case ok: (Inr w)
  show thesis
  proof (cases "a = None \<and> r = None \<or> r \<noteq> None \<and> \<not> List.member KNOWN_ROLES (lower (text_of r)) \<or> user_with i st = None")
    case True
    then show thesis using ok that(1) by (auto simp: patch_user_def update_user_def)
  next
    case False
    then obtain u where u: "user_with i st = Some u" by blast
    show thesis
    proof (cases "stops_being_admin a r u \<and> count_active_admins (as_users st) \<le> 1 \<or> user_changes u (patched_user a r u) = []")
      case True
      then show thesis using ok False u that(1) by (auto simp: patch_user_def update_user_def Let_def)
    next
      case nc: False
      have "as_users (snd (patch_user adm i a r st)) = as_users (put_user (patched_user a r u) st)"
        using ok False u nc by (auto simp: patch_user_def update_user_def Let_def put_user_def)
      then show thesis using u nc that(2) by blast
    qed
  qed
qed

lemma patch_next: "as_next_user (snd (patch_user adm i a r st)) = as_next_user st"
  "as_devices (snd (patch_user adm i a r st)) = as_devices st" "as_audit (snd (patch_user adm i a r st)) = as_audit st"
  by (simp_all add: patch_user_def update_user_def put_user_def Let_def case_prod_beta split: sum.split option.split)

lemma admin_step:
  assumes "auth_step P R st st1" "well_keyed st" "1 \<le> count_active_admins (as_users st)"
  shows "well_keyed st1 \<and> 1 \<le> count_active_admins (as_users st1)"
  using assms
proof cases
  case (step_register env a c n e p)
  consider "as_users st1 = as_users st" "as_next_user st1 = as_next_user st"
    | "as_users st1 = as_users st @ [new_member env n e p (as_next_user st)]" "as_next_user st1 = as_next_user st + 1"
    using register_users [of R env a c n e p st] step_register by auto
  then show ?thesis
  proof cases
    case 1
    then show ?thesis using assms(2,3) same_users by metis
  next
    case 2
    then show ?thesis using added_user_keyed [OF assms(2) 2(1) _ 2(2)] assms(3)
      by (simp add: new_member_def count_active_admins_def)
  qed
next
  case (step_login env ua e p rem)
  show ?thesis
  proof (cases rule: login_cases [of R env ua e p rem st])
    case (failed s x)
    then show ?thesis using step_login assms(2,3) by (simp add: well_keyed_def)
  next
    case (admitted s u)
    have k: "well_keyed (st\<lparr>as_redis := s\<rparr>)" using assms(2) by (simp add: well_keyed_def)
    then show ?thesis using admit_users [OF k, of u R env ua p rem] user_by_email_in [OF admitted(1)] admitted(4) step_login assms(3)
      by simp
  qed
next
  case (step_logout env c h rem)
  then show ?thesis using logout_devices [of R env c h rem st] assms(2,3) same_users by metis
next
  case (step_remember env ua raw)
  then show ?thesis using assms(2,3)
    by (cases rule: remember_cases [of env ua raw st]) (simp_all add: well_keyed_def)
next
  case (step_revoke u i)
  then show ?thesis using assms(2,3) by (auto simp: revoke_remember_device_def well_keyed_def split: option.split)
next
  case (step_patch adm i a r)
  show ?thesis
  proof (cases rule: patch_cases [of adm i a r st])
    case same
    then show ?thesis using step_patch patch_next same_users assms(2,3) by metis
  next
    case (patched u)
    have u: "u \<in> set (as_users st)" "us_id (patched_user a r u) = us_id u" using user_with_in [OF patched(1)] by simp_all
    have "1 \<le> count_active_admins (as_users (put_user (patched_user a r u) st))"
      using put_user_admins [OF assms(2) u] patched_admin [of u a r] patched(2) assms(3)
      by (cases "active_admin u"; cases "active_admin (patched_user a r u)"; cases "stops_being_admin a r u") simp_all
    then show ?thesis using step_patch patched(3) put_user_keyed [OF assms(2) u] same_users patch_next
      by (metis put_facts(4))
  qed
qed (simp add: well_keyed_def)

text \<open>
  C2: the system is never left without an active administrator: from a state that has one, whatever requests are
  served in whatever order, one remains, and user identifiers stay unique.
\<close>

theorem an_administrator_remains:
  assumes "(auth_step P R)\<^sup>*\<^sup>* st st1" "well_keyed st" "1 \<le> count_active_admins (as_users st)"
  shows "well_keyed st1 \<and> 1 \<le> count_active_admins (as_users st1)"
  using assms by (induction rule: rtranclp_induct) (auto dest: admin_step)

text \<open>A patch by the administrator, the login of a user and a store that changes, from two users.\<close>

definition demo_member :: "int \<Rightarrow> string \<Rightarrow> string \<Rightarrow> member" where
  "demo_member i name role = \<lparr>us_id = i, us_username = name, us_role = Some role, ac_active = True, mb_email = name @ ''@x.io'',
     mb_password_hash = ''pw''\<rparr>"

definition demo_login :: login_env where
  "demo_login = \<lparr>lg_open_registration = False, lg_hash = id, lg_verify = (\<lambda>p h. p = h), lg_checker = Some (\<lambda>_. False),
     lg_probe = [], lg_sha256 = id, lg_now = 100, lg_expire_minutes = 60, lg_fresh = ''new'', lg_jti = ''j'',
     lg_encode = (\<lambda>_. ''jwt''), lg_decode = (\<lambda>_. Some [(''jti'', PStr ''j''), (''sub'', PStr ''2''), (''exp'', PInt 90)])\<rparr>"

definition demo_device :: remembered where
  "demo_device = \<lparr>dv_id = 1, dv_user_id = 2, dv_token_hash = ''raw'', dv_label = [], dv_user_agent = [], dv_created_at = 50,
     dv_last_used_at = None, dv_expires_at = 1000, dv_revoked = False\<rparr>"

definition demo_accounts :: "rmap auth_state" where
  "demo_accounts = \<lparr>as_redis = [], as_users = [demo_member 1 ''root'' ''admin'', demo_member 2 ''ann'' ''analyst''],
     as_devices = [demo_device], as_next_user = 3, as_next_device = 2, as_pending = [], as_audit = []\<rparr>"

lemma an_administrator_remains_witness:
  "1 \<le> count_active_admins (as_users (snd (patch_user (demo_member 1 ''root'' ''admin'') 1 (Some False) None demo_accounts)))"
proof -
  have "(auth_step (\<lambda>_. True) map_redis)\<^sup>*\<^sup>* demo_accounts
      (snd (patch_user (demo_member 1 ''root'' ''admin'') 1 (Some False) None demo_accounts))"
    by (intro r_into_rtranclp step_patch)
  moreover have "well_keyed demo_accounts" by code_simp
  moreover have "1 \<le> count_active_admins (as_users demo_accounts)" by code_simp
  ultimately show ?thesis using an_administrator_remains by blast
qed

text \<open>What the commit of \<open>update_user\<close> does not store: the row of the audit log, written after it.\<close>

lemma role_changes_leave_no_trace: "as_audit (snd (patch_user adm i active role st)) = as_audit st"
  by (rule patch_next(3))

lemma role_change_demo:
  "map us_role (as_users (snd (patch_user (demo_member 1 ''root'' ''admin'') 2 None (Some ''admin'') demo_accounts))) =
     [Some ''admin'', Some ''admin'']"
  by code_simp

subsection \<open>Trusted devices\<close>

definition live_devices :: "int \<Rightarrow> remembered list \<Rightarrow> nat" where
  "live_devices uid ds = length (filter (\<lambda>d. dv_user_id d = uid \<and> \<not> dv_revoked d) ds)"

lemma live_append [simp]: "live_devices uid (ds @ es) = live_devices uid ds + live_devices uid es"
  by (simp add: live_devices_def)

lemma live_revoked:
  assumes "dv_revoked d"
  shows "live_devices uid (map (\<lambda>b. if p b then d else b) ds) \<le> live_devices uid ds"
  unfolding live_devices_def using assms by (induction ds) auto

lemma prune_live_other:
  "uid' \<noteq> uid \<Longrightarrow> live_devices uid' (prune_remember_devices now uid ds) = live_devices uid' ds"
proof -
  assume o: "uid' \<noteq> uid"
  have m: "live_devices uid' (map (\<lambda>d. if dv_user_id d = uid \<and> q d then d\<lparr>dv_revoked := True\<rparr> else d) xs) = live_devices uid' xs" for q xs
    using o by (induction xs) (auto simp: live_devices_def)
  have f: "live_devices uid' (filter (\<lambda>d. \<not> (dv_user_id d = uid \<and> q d)) xs) = live_devices uid' xs" for q xs
    using o by (induction xs) (auto simp: live_devices_def)
  show ?thesis unfolding prune_remember_devices_def Let_def m f ..
qed

lemma devices_of_mset: "mset (devices_of uid ds) = mset (filter (\<lambda>d. dv_user_id d = uid) ds)"
  by (simp add: devices_of_def)

lemma length_filter_mset: "mset xs = mset ys \<Longrightarrow> length (filter p xs) = length (filter p ys)"
  by (metis mset_filter size_mset)

lemma prune_live_same: "live_devices uid (prune_remember_devices now uid ds) \<le> MAX_DEVICES_PER_USER - 1"
proof -
  define alive where "alive = filter (\<lambda>d. \<not> (dv_user_id d = uid \<and> dead_device now d)) ds"
  define mine where "mine = devices_of uid alive"
  define stale where "stale = map dv_id (drop (MAX_DEVICES_PER_USER - 1) mine)"
  let ?keep = "\<lambda>d. dv_id d \<notin> set stale"
  have p: "prune_remember_devices now uid ds =
      map (\<lambda>d. if dv_user_id d = uid \<and> dv_id d \<in> set stale then d\<lparr>dv_revoked := True\<rparr> else d) alive"
    unfolding prune_remember_devices_def Let_def alive_def [symmetric] mine_def [symmetric] stale_def [symmetric] by simp
  have "live_devices uid (map (\<lambda>d. if dv_user_id d = uid \<and> dv_id d \<in> set stale then d\<lparr>dv_revoked := True\<rparr> else d) xs) \<le>
      length (filter ?keep (filter (\<lambda>d. dv_user_id d = uid) xs))" for xs
    by (induction xs) (auto simp: live_devices_def)
  then have "live_devices uid (prune_remember_devices now uid ds) \<le> length (filter ?keep (filter (\<lambda>d. dv_user_id d = uid) alive))"
    unfolding p .
  also have "\<dots> = length (filter ?keep mine)"
    by (rule length_filter_mset) (simp add: mine_def devices_of_mset)
  also have "filter ?keep mine = filter ?keep (take (MAX_DEVICES_PER_USER - 1) mine)"
  proof -
    have "filter ?keep (drop (MAX_DEVICES_PER_USER - 1) mine) = []" by (simp add: stale_def filter_empty_conv)
    then show ?thesis by (metis append_Nil2 append_take_drop_id filter_append)
  qed
  also have "length \<dots> \<le> MAX_DEVICES_PER_USER - 1"
    by (rule order_trans [OF length_filter_le]) simp
  finally show ?thesis .
qed

lemma issue_live:
  assumes "\<forall>u. live_devices u (as_devices st) \<le> MAX_DEVICES_PER_USER"
  shows "live_devices u (as_devices (issue_remember_device env ua uid st)) \<le> MAX_DEVICES_PER_USER"
proof (cases "u = uid")
  case True
  have "live_devices uid [new_device env ua uid (as_next_device st)] \<le> 1" by (simp add: live_devices_def)
  moreover have "MAX_DEVICES_PER_USER = 10" by (simp add: MAX_DEVICES_PER_USER_def)
  moreover have "live_devices uid (as_devices (issue_remember_device env ua uid st)) =
      live_devices uid (prune_remember_devices (lg_now env) uid (as_devices st)) + live_devices uid [new_device env ua uid (as_next_device st)]"
    by simp
  ultimately show ?thesis using prune_live_same [of uid "lg_now env" "as_devices st"] unfolding True by linarith
next
  case False
  then have "live_devices u [new_device env ua uid i] = 0" for i by (simp add: live_devices_def new_device_def Let_def)
  then show ?thesis using prune_live_other [OF False] assms by simp
qed

lemma put_device_live:
  "dv_revoked d \<Longrightarrow> \<forall>u. live_devices u (as_devices st) \<le> n \<Longrightarrow> \<forall>u. live_devices u (as_devices (put_device d st)) \<le> n"
  unfolding put_device_def by (auto intro: order_trans [OF live_revoked])

lemma admit_devices:
  "as_devices (snd (admit_user R env ua p rem u st)) =
     (if rem then prune_remember_devices (lg_now env) (us_id u) (as_devices st) @ [new_device env ua (us_id u) (as_next_device st)]
      else as_devices st)"
  by (simp add: admit_user_def put_user_def Let_def)

text \<open>A property of the list of devices that issuing and revoking keep is kept by every request.\<close>

lemma device_step:
  assumes "auth_step P R st st1" "Q (as_devices st)"
    "\<And>ds d. Q ds \<Longrightarrow> dv_revoked d \<Longrightarrow> Q (map (\<lambda>b. if dv_id b = dv_id d then d else b) ds)"
    "\<And>env ua uid i ds. P env \<Longrightarrow> Q ds \<Longrightarrow> Q (prune_remember_devices (lg_now env) uid ds @ [new_device env ua uid i])"
  shows "Q (as_devices st1)"
  using assms(1)
proof cases
  case (step_register env a c n e p)
  then show ?thesis using register_users [of R env a c n e p st] assms(2) by simp
next
  case (step_login env ua e p rem)
  show ?thesis
  proof (cases rule: login_cases [of R env ua e p rem st])
    case (failed s x)
    then show ?thesis using step_login assms(2) by simp
  next
    case (admitted s u)
    then show ?thesis using step_login assms(2) assms(4) [of env "as_devices st"] by (simp add: admit_devices)
  qed
next
  case (step_logout env c h rem)
  then show ?thesis using logout_devices [of R env c h rem st] assms(2,3) by auto
next
  case (step_remember env ua raw)
  show ?thesis
  proof (cases rule: remember_cases [of env ua raw st])
    case (failed x)
    then show ?thesis using step_remember assms(2) by simp
  next
    case (entered d u r)
    then show ?thesis using step_remember assms(2,4) assms(3) [of _ "d\<lparr>dv_last_used_at := Some (lg_now env), dv_revoked := True\<rparr>"]
      by (simp add: put_device_def)
  qed
next
  case (step_revoke u i)
  then show ?thesis using assms(2) assms(3) [of "as_devices st" "d\<lparr>dv_revoked := True\<rparr>" for d]
    by (auto simp: revoke_remember_device_def put_device_def split: option.split)
next
  case (step_patch adm i a r)
  then show ?thesis using assms(2) by (simp add: patch_next)
qed (use assms(2) in simp)

lemma device_steps:
  assumes "(auth_step P R)\<^sup>*\<^sup>* st st1" "Q (as_devices st)"
    "\<And>ds d. Q ds \<Longrightarrow> dv_revoked d \<Longrightarrow> Q (map (\<lambda>b. if dv_id b = dv_id d then d else b) ds)"
    "\<And>env ua uid i ds. P env \<Longrightarrow> Q ds \<Longrightarrow> Q (prune_remember_devices (lg_now env) uid ds @ [new_device env ua uid i])"
  shows "Q (as_devices st1)"
  using assms(1) by (induction rule: rtranclp_induct) (auto intro: assms(2) device_step [where Q = Q, OF _ _ assms(3,4)])

text \<open>
  C24: no user ever has more than ten devices whose token is valid, whatever requests are served.
\<close>

theorem trusted_devices_are_bounded:
  assumes "(auth_step P R)\<^sup>*\<^sup>* st st1" "\<forall>u. live_devices u (as_devices st) \<le> MAX_DEVICES_PER_USER"
  shows "live_devices u (as_devices st1) \<le> MAX_DEVICES_PER_USER"
proof -
  let ?Q = "\<lambda>ds. \<forall>u. live_devices u ds \<le> MAX_DEVICES_PER_USER"
  have issue: "?Q (prune_remember_devices (lg_now env) uid ds @ [new_device env ua uid i])" if "?Q ds" for env ua uid i ds
    using issue_live [of "st\<lparr>as_devices := ds, as_next_device := i\<rparr>" _ env ua uid] that by simp
  have "?Q (as_devices st1)"
    by (rule device_steps [where Q = ?Q, OF assms]) (use issue in \<open>auto intro: order_trans [OF live_revoked]\<close>)
  then show ?thesis by blast
qed

lemma trusted_devices_are_bounded_witness:
  "live_devices 2 (as_devices (snd (remember_login demo_login ''Firefox/1'' (Some ''raw'') demo_accounts))) \<le> 10"
proof -
  have "(auth_step (\<lambda>_. True) map_redis)\<^sup>*\<^sup>* demo_accounts (snd (remember_login demo_login ''Firefox/1'' (Some ''raw'') demo_accounts))"
    by (intro r_into_rtranclp step_remember) simp
  moreover have "\<forall>u. live_devices u (as_devices demo_accounts) \<le> MAX_DEVICES_PER_USER"
    by (simp add: demo_accounts_def live_devices_def MAX_DEVICES_PER_USER_def)
  ultimately show ?thesis using trusted_devices_are_bounded by (force simp: MAX_DEVICES_PER_USER_def)
qed

definition hash_dead :: "string \<Rightarrow> remembered list \<Rightarrow> bool" where
  "hash_dead h ds \<longleftrightarrow> (\<forall>d \<in> set ds. dv_token_hash d = h \<longrightarrow> dv_revoked d)"

lemma hash_dead_prune: "hash_dead h ds \<Longrightarrow> hash_dead h (prune_remember_devices now uid ds)"
  by (auto simp: hash_dead_def prune_remember_devices_def Let_def)

lemma hash_dead_revoked: "hash_dead h ds \<Longrightarrow> dv_revoked d \<Longrightarrow> hash_dead h (map (\<lambda>b. if p b then d else b) ds)"
  by (auto simp: hash_dead_def)

lemma hash_dead_refused:
  assumes "hash_dead (lg_sha256 env raw) (as_devices st)"
  shows "fst (remember_login env ua (Some raw) st) = Inl (http ''401'')"
proof (cases "device_with env raw st")
  case (Some d)
  have "dead_device (lg_now env) d"
    using Some find_first_Some assms by (fastforce simp: device_with_def hash_dead_def dead_device_def)
  then show ?thesis using Some by (simp add: remember_login_def text_of_some)
qed (simp add: remember_login_def text_of_some)

text \<open>
  C14: the token of a trusted device works once: after it was exchanged for a session it is refused, whatever requests
  follow, as long as no new token has the hash of the old one.
\<close>

theorem remember_token_works_once:
  assumes "remember_login env ua (Some raw) st = (Inr r, st1)" "distinct (map dv_token_hash (as_devices st))"
    "lg_sha256 env = sha" "sha (lg_fresh env) \<noteq> sha raw"
    "(auth_step (\<lambda>e. lg_sha256 e = sha \<and> sha (lg_fresh e) \<noteq> sha raw) R)\<^sup>*\<^sup>* st1 st2" "lg_sha256 env2 = sha"
  shows "fst (remember_login env2 ua2 (Some raw) st2) = Inl (http ''401'')"
proof -
  let ?Q = "hash_dead (sha raw)"
  have "\<exists>d uid. device_with env raw st = Some d \<and>
      st1 = issue_remember_device env ua uid (put_device (d\<lparr>dv_last_used_at := Some (lg_now env), dv_revoked := True\<rparr>) st)"
  proof (cases rule: remember_cases [of env ua "Some raw" st])
    case (failed x)
    then show ?thesis using assms(1) by simp
  next
    case (entered d u q)
    have "device_with env raw st = Some d" using entered(2) by (simp add: text_of_some)
    moreover have "st1 = issue_remember_device env ua (us_id u) (put_device (d\<lparr>dv_last_used_at := Some (lg_now env), dv_revoked := True\<rparr>) st)"
      using assms(1) entered(6) by simp
    ultimately show ?thesis by blast
  qed
  then obtain d uid where d: "device_with env raw st = Some d"
    "st1 = issue_remember_device env ua uid (put_device (d\<lparr>dv_last_used_at := Some (lg_now env), dv_revoked := True\<rparr>) st)"
    by blast
  have mem: "d \<in> set (as_devices st)" "dv_token_hash d = sha raw"
    using d(1) find_first_Some assms(3) by (fastforce simp: device_with_def)+
  have only: "b = d" if "b \<in> set (as_devices st)" "dv_token_hash b = sha raw" for b
    using assms(2) mem that inj_onD [of dv_token_hash "set (as_devices st)" b d] by (simp add: distinct_map)
  have issue: "?Q (prune_remember_devices (lg_now e) uid ds @ [new_device e a uid i])"
    if "lg_sha256 e = sha \<and> sha (lg_fresh e) \<noteq> sha raw" "?Q ds" for e a uid i ds
    using hash_dead_prune [OF that(2)] that(1) by (auto simp: hash_dead_def new_device_def Let_def)
  have "?Q (as_devices (put_device (d\<lparr>dv_last_used_at := Some (lg_now env), dv_revoked := True\<rparr>) st))"
    by (auto simp: hash_dead_def put_device_def dest: only)
  then have "?Q (as_devices st1)" using issue assms(3,4) d(2) by simp
  then have "?Q (as_devices st2)"
    by (rule device_steps [where Q = ?Q, OF assms(5)]) (use issue hash_dead_revoked in auto)
  then show ?thesis using hash_dead_refused assms(6) by auto
qed

lemma remember_token_works_once_witness:
  "\<exists>r st1. remember_login demo_login ''Firefox/1'' (Some ''raw'') demo_accounts = (Inr r, st1) \<and> rp_token r = ''jwt'' \<and>
     fst (remember_login demo_login ''Chrome/1'' (Some ''raw'') st1) = Inl (http ''401'')"
proof -
  let ?r = "remember_login demo_login ''Firefox/1'' (Some ''raw'') demo_accounts"
  have ok: "case fst ?r of Inl _ \<Rightarrow> False | Inr r \<Rightarrow> rp_token r = ''jwt''" by code_simp
  obtain r st1 where r: "?r = (Inr r, st1)" "rp_token r = ''jwt''" using ok by (cases ?r; cases "fst ?r") auto
  have h: "distinct (map dv_token_hash (as_devices demo_accounts))" "lg_sha256 demo_login = id"
    "id (lg_fresh demo_login) \<noteq> id ''raw''"
    by (simp_all add: demo_accounts_def demo_login_def)
  show ?thesis
    using r remember_token_works_once [OF r(1) h rtranclp.rtrancl_refl h(2)] by blast
qed

subsection \<open>Guessing passwords\<close>

fun guess_all :: "'s redis \<Rightarrow> login_env \<Rightarrow> string \<Rightarrow> string list \<Rightarrow> 's auth_state \<Rightarrow> reply result list \<times> 's auth_state" where
  "guess_all R env email [] st = ([], st)"
| "guess_all R env email (p # ps) st =
     (case login R env [] email p False st of (r, st1) \<Rightarrow>
        (case guess_all R env email ps st1 of (rs, st2) \<Rightarrow> (r # rs, st2)))"

lemma show_int_nonempty: "show_int i \<noteq> []"
proof
  assume "show_int i = []"
  then have "read_int [] = Some i" using read_show_int [of i] by simp
  moreover have "read_int [] = None" by code_simp
  ultimately show False by simp
qed

lemma throttle_counts:
  assumes "redis_laws R view" "view s (login_key email) = counter_val n"
  shows "\<exists>s'. login_throttled R email s = (10 \<le> n, s') \<and> view s' = view s"
proof -
  obtain s' where s': "rd_get R s (login_key email) = (Inr (str_of (counter_val n)), s')" "view s' = view s"
    using redis_lawsD(1) [OF assms(1), of s "login_key email"] assms(2) by auto
  have z: "read_int ''0'' = Some 0" by code_simp
  show ?thesis
  proof (cases "n = 0")
    case True
    then show ?thesis using s' z by (simp add: login_throttled_def counter_val_def or_str_def LOGIN_FAIL_MAX_def)
  next
    case False
    then show ?thesis using s'
      by (auto simp: login_throttled_def counter_val_def or_str_def LOGIN_FAIL_MAX_def read_show_int show_int_nonempty)
  qed
qed

lemma failure_counts:
  assumes "redis_laws R view" "view s (login_key email) = counter_val n"
  shows "view (record_login_failure R email s) = (view s)(login_key email := counter_val (Suc n))"
proof -
  obtain s1 where s1: "rd_incr R s (login_key email) = (Inr (int n + 1), s1)" "view s1 = (view s)(login_key email \<mapsto> RNum (int n + 1))"
    using redis_incrD [OF assms(1), of s "login_key email"] assms(2) by auto
  obtain s2 where s2: "rd_expire R s1 (login_key email) LOGIN_FAIL_WINDOW_S = (Inr (), s2)" "view s2 = view s1"
    using redis_lawsD(5) [OF assms(1)] by blast
  show ?thesis using s1 s2 by (auto simp: record_login_failure_def counter_val_def)
qed

lemma wrong_guess:
  assumes "redis_laws R view" "view (as_redis st) (login_key (Some email)) = counter_val n"
    "\<forall>u. user_by_email email st = Some u \<longrightarrow> \<not> lg_verify env p (mb_password_hash u)"
  shows "\<exists>st1. login R env ua email p rem st = (Inl (http (if n < 10 then ''401'' else ''429'')), st1) \<and>
     as_users st1 = as_users st \<and> view (as_redis st1) (login_key (Some email)) = counter_val (if n < 10 then Suc n else n)"
proof -
  obtain s' where s': "login_throttled R (Some email) (as_redis st) = (10 \<le> n, s')" "view s' = view (as_redis st)"
    using throttle_counts [OF assms(1,2)] by blast
  have u: "user_by_email email (st\<lparr>as_redis := s'\<rparr>) = user_by_email email st" by (simp add: user_by_email_def)
  show ?thesis
  proof (cases "n < 10")
    case True
    have "view (record_login_failure R (Some email) s') (login_key (Some email)) = counter_val (Suc n)"
      using failure_counts [OF assms(1), of s' "Some email" n] s'(2) assms(2) by simp
    then show ?thesis using True s' u assms(3)
      by (cases "user_by_email email st") (simp_all add: login_def Let_def)
  next
    case False
    then show ?thesis using s' assms(2) by (simp add: login_def)
  qed
qed

text \<open>
  C38: guessing is bounded: while Redis keeps the counter, of any number of wrong passwords for an address the first
  ten are compared with the hash and answered 401; every further one is refused with 429 before the comparison, and the
  count starts at what earlier failures left.
\<close>

theorem guesses_are_throttled:
  assumes "redis_laws R view" "view (as_redis st) (login_key (Some email)) = counter_val n"
    "\<forall>p \<in> set ps. \<forall>u. user_by_email email st = Some u \<longrightarrow> \<not> lg_verify env p (mb_password_hash u)"
  shows "fst (guess_all R env email ps st) =
     replicate (min (10 - n) (length ps)) (Inl (http ''401'')) @ replicate (length ps - (10 - n)) (Inl (http ''429''))"
  using assms(2,3)
proof (induction ps arbitrary: st n)
  case (Cons p ps)
  have "\<forall>u. user_by_email email st = Some u \<longrightarrow> \<not> lg_verify env p (mb_password_hash u)" using Cons.prems(2) by simp
  from wrong_guess [OF assms(1) Cons.prems(1) this, of "[]" False]
  obtain st1 where st1: "login R env [] email p False st = (Inl (http (if n < 10 then ''401'' else ''429'')), st1)"
    "as_users st1 = as_users st" "view (as_redis st1) (login_key (Some email)) = counter_val (if n < 10 then Suc n else n)"
    by blast
  have "\<forall>q \<in> set ps. \<forall>u. user_by_email email st1 = Some u \<longrightarrow> \<not> lg_verify env q (mb_password_hash u)"
    using Cons.prems(2) st1(2) by (simp add: user_by_email_def)
  note ih = Cons.IH [OF st1(3) this]
  show ?case
  proof (cases "n < 10")
    case True
    then have "10 - n = Suc (10 - Suc n)" by simp
    then show ?thesis using ih st1(1) True by (simp add: case_prod_beta)
  next
    case False
    then show ?thesis using ih st1(1) by (simp add: case_prod_beta)
  qed
qed simp

lemma guesses_are_throttled_witness:
  "fst (guess_all map_redis demo_login ''ann@x.io'' (replicate 12 ''guess'') demo_accounts) =
     replicate 10 (Inl (http ''401'')) @ replicate 2 (Inl (http ''429''))"
proof -
  have a: "rview (as_redis demo_accounts) (login_key (Some ''ann@x.io'')) = counter_val 0"
    by (simp add: demo_accounts_def rview_def counter_val_def)
  have w: "mb_password_hash u = ''pw''" if "user_by_email ''ann@x.io'' demo_accounts = Some u" for u
    using user_by_email_in [OF that] by (auto simp: demo_accounts_def demo_member_def)
  have "\<forall>p \<in> set (replicate 12 ''guess''). \<forall>u. user_by_email ''ann@x.io'' demo_accounts = Some u \<longrightarrow>
      \<not> lg_verify demo_login p (mb_password_hash u)" using w by (simp add: demo_login_def)
  from guesses_are_throttled [OF map_redis_laws a this] show ?thesis by simp
qed

subsection \<open>Accounts that are switched off\<close>

lemma disabled_rows:
  assumes "patch_user adm i (Some False) role st = (Inr v, st1)" "well_keyed st" "distinct (map mb_email (as_users st))"
    "b \<in> set (as_users st1)" "us_id b = i \<or> mb_email b = mb_email v"
  shows "\<not> ac_active b"
proof -
  have perm: "is_ok (require_perm [''manage''] (user_row.truncate adm))"
    using assms(1) by (cases "require_perm [''manage''] (user_row.truncate adm)") (simp_all add: patch_user_def update_user_def)
  then obtain w where w: "require_perm [''manage''] (user_row.truncate adm) = Inr w"
    by (cases "require_perm [''manage''] (user_row.truncate adm)") auto
  have role: "\<not> (role \<noteq> None \<and> \<not> List.member KNOWN_ROLES (lower (text_of role)))"
  proof (cases role)
    case (Some y)
    then show ?thesis using assms(1) w by (auto simp: patch_user_def update_user_def split: if_splits)
  qed simp
  obtain u where u: "user_with i st = Some u"
    using assms(1) w role by (cases "user_with i st") (auto simp: patch_user_def update_user_def)
  note iu = user_with_in [OF u]
  define x where "x = patched_user (Some False) role u"
  have x: "us_id x = i" "mb_email x = mb_email u" "\<not> ac_active x" using iu by (simp_all add: x_def patched_user_def)
  have keep: "\<not> (stops_being_admin (Some False) role u \<and> count_active_admins (as_users st) \<le> 1)"
    using assms(1) w role u by (auto simp: patch_user_def update_user_def)
  obtain ys zs where l: "as_users st = ys @ u # zs" "as_users (put_user x st) = ys @ x # zs"
    using put_user_split [OF assms(2), of u x] iu x(1) by auto
  have others: "us_id c \<noteq> i \<and> mb_email c \<noteq> mb_email u" if "c \<in> set ys \<union> set zs" for c
    using that assms(2,3) l(1) iu by (auto simp: well_keyed_def image_iff)
  show ?thesis
  proof (cases "user_changes u x = []")
    case True
    then have "v = u" "as_users st1 = as_users st" "\<not> ac_active u"
      using assms(1) w role u keep x(3) by (auto simp: patch_user_def update_user_def Let_def x_def user_changes_def split: if_splits)
    then show ?thesis using assms(4,5) others l(1) by auto
  next
    case False
    then have "v = x" "as_users st1 = as_users (put_user x st)"
      using assms(1) w role u keep by (auto simp: patch_user_def update_user_def Let_def x_def put_user_def)
    then show ?thesis using assms(4,5) others l(2) x by auto
  qed
qed

text \<open>
  C26: an account that was switched off is out at once: no token of a session that names it, no password and no trusted
  device of it is accepted any more.
\<close>

theorem disabled_account_is_shut_out:
  assumes "patch_user adm i (Some False) role st = (Inr v, st1)" "well_keyed st" "distinct (map mb_email (as_users st))"
  shows "(decode token = Some p \<longrightarrow> dict_get p ''sub'' = PStr (show_int i) \<longrightarrow>
       \<not> is_ok (fst (validate_token R decode (map account.truncate (as_users st1)) token s))) \<and>
     \<not> is_ok (fst (login R env ua (mb_email v) password rem st1)) \<and>
     (\<forall>d. device_with env raw st1 = Some d \<longrightarrow> dv_user_id d = i \<longrightarrow> \<not> is_ok (fst (remember_login env ua (Some raw) st1)))"
proof (intro conjI impI allI)
  note off = disabled_rows [OF assms]
  show "\<not> is_ok (fst (validate_token R decode (map account.truncate (as_users st1)) token s))"
    if t: "decode token = Some p" "dict_get p ''sub'' = PStr (show_int i)"
  proof -
    have "\<not> ac_active a" if "find_first (\<lambda>u. us_id u = i) (map account.truncate (as_users st1)) = Some a" for a
      using find_first_Some [OF that] off by (auto simp: account.defs)
    then show ?thesis using t
      by (auto simp: validate_token_def read_show_int show_int_nonempty split: prod.split option.split)
  qed
  show "\<not> is_ok (fst (login R env ua (mb_email v) password rem st1))"
  proof (cases rule: login_cases [of R env ua "mb_email v" password rem st1])
    case (admitted s u)
    then show ?thesis using user_by_email_in [OF admitted(1)] off by auto
  qed simp
  show "\<not> is_ok (fst (remember_login env ua (Some raw) st1))"
    if "device_with env raw st1 = Some d" "dv_user_id d = i" for d
  proof (cases rule: remember_cases [of env ua "Some raw" st1])
    case (entered d' u r)
    then show ?thesis using that user_with_in [OF entered(4)] off by (auto simp: text_of_some)
  qed simp
qed

lemma disabled_account_is_shut_out_witness:
  "\<exists>v st1. patch_user (demo_member 1 ''root'' ''admin'') 2 (Some False) None demo_accounts = (Inr v, st1) \<and>
     \<not> is_ok (fst (login map_redis demo_login [] ''ann@x.io'' ''pw'' False st1)) \<and>
     \<not> is_ok (fst (remember_login demo_login [] (Some ''raw'') st1))"
proof -
  let ?r = "patch_user (demo_member 1 ''root'' ''admin'') 2 (Some False) None demo_accounts"
  have ok: "case fst ?r of Inl _ \<Rightarrow> False | Inr v \<Rightarrow> mb_email v = ''ann@x.io''" by code_simp
  obtain v st1 where r: "?r = (Inr v, st1)" "mb_email v = ''ann@x.io''" using ok by (cases ?r; cases "fst ?r") auto
  have k: "well_keyed demo_accounts" "distinct (map mb_email (as_users demo_accounts))" by code_simp+
  have dev: "device_with demo_login ''raw'' (snd ?r) = Some demo_device" "dv_user_id demo_device = 2" by code_simp+
  show ?thesis
    using r dev disabled_account_is_shut_out [OF r(1) k, of "\<lambda>_. None" "[]" "[]" map_redis "[]" demo_login "[]" "''pw''" False "''raw''"]
    by auto
qed

subsection \<open>Logout\<close>

text \<open>
  A session that passed its end is still accepted for the leeway of \<open>pyjwt.decode\<close>, but its mark would live for
  no time, so \<open>blacklist_token\<close> writes none: the logout is confirmed and changes nothing.
\<close>

lemma logout_in_leeway:
  assumes "lg_decode env token = Some p" "token \<noteq> []" "dict_get p ''jti'' = PStr jti" "dict_get p ''exp'' = PInt e" "jti \<noteq> []" "e \<noteq> 0"
    "e \<le> trunc (lg_now env)"
  shows "logout R env (Some token) header None st = (Inr (Cleared, Cleared), st)"
  using assms by (simp add: logout_def revoke_session_def logout_token_def blacklist_token_def text_of_some truthy_def)

text \<open>The cookie comes first at the logout and the header first at a request: with both, the token of the header survives.\<close>

lemma header_token_survives:
  assumes "cookie \<noteq> []" "t \<noteq> []"
  shows "logout_token (Some cookie) (''Bearer '' @ t) = Some cookie \<and>
     extract_token (Some (''Bearer '' @ t)) (Some cookie) = Some t"
  using assms by (simp add: logout_token_def extract_token_def text_of_some truthy_def)

text \<open>The tests for desktop systems come first: phones are listed as computers.\<close>

lemma phones_are_desktops:
  "guess_device_label ''Mozilla/5.0 (Linux; Android 14) Chrome/1'' = ''Chrome '' @ [CHR 0xC2, CHR 0xB7] @ '' Linux'' \<and>
   guess_device_label ''(iPhone; CPU iPhone OS 17_0 like Mac OS X) Safari/1'' = ''Safari '' @ [CHR 0xC2, CHR 0xB7] @ '' macOS''"
  by code_simp

end
