(* ===== verification/Kernel_Stream.thy ===== *)
theory Kernel_Stream
  imports Json Regex_Groups Pytext Pyval "HOL-Library.Sublist"
begin

section \<open>Kernel events of a Linux agent\<close>

text \<open>
  \<open>src/NodeTrace/agents/python/services/ebpf.py\<close>, \<open>auditd.py\<close>, \<open>linux_probe.py\<close> and the stream loops of
  \<open>agent.py\<close>: a line of the collector becomes an event, the event a report for the brain, reports are
  sent in batches.  Times are rationals given with every line.  Parameters: \<open>sha\<close> (SHA-256), \<open>now_iso\<close> (the clock as a text), the reader
  of JSON floats, and \<open>fl_ns\<close>, the nanoseconds \<open>int(float(x) * 1e9)\<close> of a decimal.
\<close>

subsection \<open>Events of the collector\<close>

definition TYPES :: "string list" where
  "TYPES = [''PROCESS_CREATED'', ''PROCESS_EXITED'', ''CONNECTION_ESTABLISHED'']"

definition V2_PASSTHROUGH :: "string list" where
  "V2_PASSTHROUGH = [''boot_id'', ''session'', ''integrity'', ''proto'', ''direction'', ''container_id'', ''cgroup'', ''namespace'',
     ''provenance'', ''quality'', ''sampling'', ''signature'', ''publisher'']"

definition V2_INT_FIELDS :: "string list" where
  "V2_INT_FIELDS = [''seq'', ''ts_wall_ns'', ''proc_start_ns'']"

definition kernel_type :: "pyval \<Rightarrow> bool" where
  "kernel_type v = (case v of PStr s \<Rightarrow> List.member TYPES s | _ \<Rightarrow> False)"

definition parse_line :: "float_reader \<Rightarrow> string \<Rightarrow> pydict option" where
  "parse_line fl line =
     (if strip line = [] then None
      else case json_loads fl line of
        Some (PDict ev) \<Rightarrow>
          if \<not> kernel_type (dict_get ev ''event_type'') then None
          else (case py_int (dict_get_or ev ''pid'' (PInt 0)) of
              Inl x \<Rightarrow> None | Inr pid \<Rightarrow> if pid < 1 then None else Some ev)
      | _ \<Rightarrow> None)"

text \<open>\<open>str(v or "")\<close> and \<open>str(v if v is not None else "")\<close>.\<close>

definition text_or :: "pydict \<Rightarrow> string \<Rightarrow> string" where
  "text_or ev k = py_str (py_or (dict_get ev k) (PStr []))"

definition text_if :: "pydict \<Rightarrow> string \<Rightarrow> string" where
  "text_if ev k = (if dict_get ev k = PNone then [] else py_str (dict_get ev k))"

definition canonical_event :: "pydict \<Rightarrow> string \<Rightarrow> string" where
  "canonical_event ev device = join ''|'' [device, text_or ev ''boot_id'', text_if ev ''seq'', text_or ev ''pid'', text_or ev ''ppid'',
     text_or ev ''comm'', text_or ev ''filename'', text_or ev ''event_type'', text_if ev ''ts_ns'', text_if ev ''proc_start_ns'']"

definition stable_event_id :: "(string \<Rightarrow> string) \<Rightarrow> pydict \<Rightarrow> string \<Rightarrow> string" where
  "stable_event_id sha ev device =
     (if py_truth (dict_get ev ''event_id'') then py_str (dict_get ev ''event_id'')
      else take 32 (sha (canonical_event ev device)))"

definition put_all :: "pydict \<Rightarrow> pydict \<Rightarrow> pydict" where
  "put_all d kvs = fold (\<lambda>(k, v) m. assoc_put k v m) kvs d"

definition v2_text :: "pydict \<Rightarrow> string \<Rightarrow> pydict" where
  "v2_text ev k = (case dict_get ev k of PStr s \<Rightarrow> if s = [] then [] else [(k, PStr s)] | _ \<Rightarrow> [])"

definition v2_int :: "pydict \<Rightarrow> string \<Rightarrow> pydict" where
  "v2_int ev k = (if dict_get ev k = PNone then []
     else case py_int (dict_get ev k) of Inl x \<Rightarrow> [] | Inr i \<Rightarrow> if i \<ge> 0 then [(k, PInt i)] else [])"

definition v2_extra :: "pydict \<Rightarrow> pydict" where
  "v2_extra ev = concat (map (v2_text ev) V2_PASSTHROUGH) @ concat (map (v2_int ev) V2_INT_FIELDS)"

record report_env =
  ke_sha :: "string \<Rightarrow> string"
  ke_now_iso :: string
  ke_device :: string
  ke_hostname :: pyval
  ke_ip :: pyval
  ke_version :: pyval
  ke_provenance :: pyval

definition schema_version :: "pydict \<Rightarrow> int result" where
  "schema_version ev = py_int (py_or (dict_get ev ''schema_version'') (PInt 2))"

definition comm_of :: "pydict \<Rightarrow> string" where
  "comm_of ev = py_str (py_or (dict_get ev ''comm'') (PStr ''unknown''))"

definition provenance_of :: "report_env \<Rightarrow> pydict \<Rightarrow> pyval" where
  "provenance_of env ev = py_or (dict_get ev ''provenance'') (ke_provenance env)"

definition connection_report :: "report_env \<Rightarrow> pydict \<Rightarrow> pydict result" where
  "connection_report env ev =
     bind_result (schema_version ev) (\<lambda>version.
     bind_result (py_int (py_or (dict_get_or ev ''pid'' (PInt 0)) (PInt 0))) (\<lambda>pid.
       let remote = text_or ev ''remote'' in
       Inr (put_all [(''agent_id'', PStr (ke_device env)), (''timestamp'', PStr (ke_now_iso env)),
              (''event_type'', PStr ''CONNECTION_ESTABLISHED''), (''event_id'', PStr (stable_event_id (ke_sha env) ev (ke_device env))),
              (''schema_version'', PInt version), (''pid'', PInt pid), (''process_name'', PStr (comm_of ev)),
              (''hostname'', ke_hostname env), (''ip_address'', ke_ip env), (''agent_version'', ke_version env),
              (''ts_monotonic_ns'', dict_get ev ''ts_ns'')]
            (v2_extra ev @ [(''provenance'', provenance_of env ev),
              (''network_connections'', PList (if remote = [] then []
                 else [PDict [(''remote'', PStr remote), (''state'', PStr ''ESTABLISHED'')]]))]))))"

definition process_report :: "report_env \<Rightarrow> pydict \<Rightarrow> pydict result" where
  "process_report env ev =
     (let ppid = (case py_int (py_or (dict_get_or ev ''ppid'' (PInt 0)) (PInt 0)) of Inl x \<Rightarrow> 0 | Inr i \<Rightarrow> i);
          filename = text_or ev ''filename''
      in bind_result (schema_version ev) (\<lambda>version.
         bind_result (py_int (dict_get ev ''pid'')) (\<lambda>pid.
           Inr (put_all [(''agent_id'', PStr (ke_device env)), (''timestamp'', PStr (ke_now_iso env)),
                  (''event_type'', dict_get ev ''event_type''), (''event_id'', PStr (stable_event_id (ke_sha env) ev (ke_device env))),
                  (''schema_version'', PInt version), (''pid'', PInt pid), (''parent_pid'', if ppid > 0 then PInt ppid else PNone),
                  (''process_name'', PStr (comm_of ev)), (''process_path'', if filename = [] then PNone else PStr filename),
                  (''hostname'', ke_hostname env), (''ip_address'', ke_ip env), (''agent_version'', ke_version env),
                  (''ts_monotonic_ns'', dict_get ev ''ts_ns'')]
                (v2_extra ev @ [(''provenance'', provenance_of env ev)])))))"

definition event_to_report :: "report_env \<Rightarrow> pydict \<Rightarrow> pydict result" where
  "event_to_report env ev =
     (if dict_get ev ''event_type'' = PStr ''CONNECTION_ESTABLISHED'' then connection_report env ev else process_report env ev)"

definition collector_cmd :: "string \<Rightarrow> string option \<Rightarrow> int \<Rightarrow> string list" where
  "collector_cmd path obj pid = [path] @ (if truthy obj then [''--obj'', or_str obj []] else []) @ [''--exclude-pid'', show_int pid]"

subsection \<open>Batches\<close>

record batcher =
  kb_max_n :: nat
  kb_max_age :: rat
  kb_max_items :: nat
  kb_items :: "pydict list"
  kb_first :: "rat option"
  kb_received :: nat
  kb_drained :: nat
  kb_dropped :: nat

definition new_batcher :: "nat \<Rightarrow> rat \<Rightarrow> nat \<Rightarrow> batcher" where
  "new_batcher n age items = \<lparr>kb_max_n = n, kb_max_age = age, kb_max_items = items, kb_items = [], kb_first = None,
     kb_received = 0, kb_drained = 0, kb_dropped = 0\<rparr>"

text \<open>\<open>self._first_ts or now\<close>: a first time of zero counts as none.\<close>

definition batch_due :: "rat \<Rightarrow> batcher \<Rightarrow> bool" where
  "batch_due now b \<longleftrightarrow> kb_items b \<noteq> [] \<and> (kb_max_n b \<le> length (kb_items b) \<or>
     kb_max_age b \<le> now - (case kb_first b of None \<Rightarrow> now | Some t \<Rightarrow> if t = 0 then now else t))"

definition batch_add :: "rat \<Rightarrow> pydict \<Rightarrow> batcher \<Rightarrow> bool \<times> batcher" where
  "batch_add now r b =
     (let items = kb_items b @ [r]; over = length items - kb_max_items b;
          b1 = b\<lparr>kb_first := (case kb_first b of None \<Rightarrow> Some now | Some t \<Rightarrow> Some t), kb_items := drop over items,
                 kb_received := kb_received b + 1, kb_dropped := kb_dropped b + over\<rparr>
      in (batch_due now b1, b1))"

definition batch_drain :: "batcher \<Rightarrow> pydict list \<times> batcher" where
  "batch_drain b = (kb_items b, b\<lparr>kb_items := [], kb_first := None, kb_drained := kb_drained b + length (kb_items b)\<rparr>)"

subsection \<open>Events seen before\<close>

datatype event_key = Strong string string string | Legacy int int string string

record seen_cache =
  sc_window :: rat
  sc_max_keys :: nat
  sc_seen :: "(event_key \<times> rat) list"
  sc_duplicates :: nat

definition new_seen :: "rat \<Rightarrow> nat \<Rightarrow> seen_cache" where
  "new_seen w n = \<lparr>sc_window = w, sc_max_keys = n, sc_seen = [], sc_duplicates = 0\<rparr>"

definition event_key :: "pydict \<Rightarrow> event_key option" where
  "event_key ev =
     (let ident = py_or (py_or (dict_get ev ''event_id'') (dict_get ev ''proc_start_ns'')) (dict_get ev ''ts_ns'') in
      if ident \<noteq> PNone then Some (Strong (py_str ident) (text_or ev ''boot_id'') (text_or ev ''event_type''))
      else (case (py_int (dict_get_or ev ''pid'' (PInt 0)), py_int (py_or (dict_get_or ev ''ppid'' (PInt 0)) (PInt 0))) of
          (Inr pid, Inr ppid) \<Rightarrow>
            Some (Legacy pid ppid (py_str (py_or (py_or (dict_get ev ''comm'') (dict_get ev ''process_name'')) (PStr [])))
                    (text_or ev ''event_type''))
        | _ \<Rightarrow> None))"

text \<open>Old keys go only when the table is full.\<close>

definition seen_pruned :: "rat \<Rightarrow> seen_cache \<Rightarrow> (event_key \<times> rat) list" where
  "seen_pruned now c = (if sc_max_keys c \<le> length (sc_seen c)
     then filter (\<lambda>(k, t). now - sc_window c \<le> t) (sc_seen c) else sc_seen c)"

definition recent_key :: "rat \<Rightarrow> rat \<Rightarrow> event_key \<Rightarrow> (event_key \<times> rat) list \<Rightarrow> bool" where
  "recent_key w now k m = (case assoc k m of None \<Rightarrow> False | Some t \<Rightarrow> now - t < w)"

definition seen_check :: "rat \<Rightarrow> pydict \<Rightarrow> seen_cache \<Rightarrow> bool \<times> seen_cache" where
  "seen_check now ev c =
     (case event_key ev of None \<Rightarrow> (False, c)
      | Some k \<Rightarrow> (let m = seen_pruned now c in
          if recent_key (sc_window c) now k m then (True, c\<lparr>sc_seen := m, sc_duplicates := sc_duplicates c + 1\<rparr>)
          else (False, c\<lparr>sc_seen := assoc_put k now m\<rparr>)))"

subsection \<open>The stream of one collector process\<close>

text \<open>
  \<open>_run_ebpf_stream\<close> from one start of the collector to its end.  An exception ends the loop; the batcher is a
  local variable of that attempt.  \<open>ss_sent\<close> lists the batches given to \<open>_flush_kernel_batch\<close>.
\<close>

record stream =
  ss_seen :: seen_cache
  ss_batch :: batcher
  ss_sent :: "pydict list list"

definition flush_due :: "bool \<Rightarrow> stream \<Rightarrow> stream" where
  "flush_due due st = (if due then st\<lparr>ss_batch := snd (batch_drain (ss_batch st)), ss_sent := ss_sent st @ [fst (batch_drain (ss_batch st))]\<rparr>
     else st)"

definition stream_event :: "report_env \<Rightarrow> rat \<Rightarrow> pydict \<Rightarrow> stream \<Rightarrow> unit result \<times> stream" where
  "stream_event env now ev st =
     (case seen_check now ev (ss_seen st) of (dup, c) \<Rightarrow>
        let st1 = st\<lparr>ss_seen := c\<rparr> in
        if dup then (Inr (), st1)
        else (case event_to_report env ev of
            Inl x \<Rightarrow> (Inl x, st1)
          | Inr r \<Rightarrow> (case batch_add now r (ss_batch st1) of
              (due, b) \<Rightarrow> (Inr (), flush_due due (st1\<lparr>ss_batch := b\<rparr>)))))"

definition stream_line :: "float_reader \<Rightarrow> report_env \<Rightarrow> rat \<Rightarrow> string \<Rightarrow> stream \<Rightarrow> unit result \<times> stream" where
  "stream_line fl env now line st =
     (case parse_line fl line of None \<Rightarrow> (Inr (), st) | Some ev \<Rightarrow> stream_event env now ev st)"

fun stream_loop :: "float_reader \<Rightarrow> report_env \<Rightarrow> (rat \<times> string) list \<Rightarrow> stream \<Rightarrow> unit result \<times> stream" where
  "stream_loop fl env [] st = (Inr (), flush_due (kb_items (ss_batch st) \<noteq> []) st)"
| "stream_loop fl env ((now, line) # ls) st =
     (case stream_line fl env now line st of
        (Inl x, st1) \<Rightarrow> (Inl x, st1)
      | (Inr _, st1) \<Rightarrow> stream_loop fl env ls st1)"

definition collector_run :: "float_reader \<Rightarrow> report_env \<Rightarrow> (rat \<times> string) list \<Rightarrow> seen_cache \<Rightarrow> unit result \<times> stream" where
  "collector_run fl env ls c = stream_loop fl env ls \<lparr>ss_seen = c, ss_batch = new_batcher 25 2 2000, ss_sent = []\<rparr>"

text \<open>
  \<open>_flush_kernel_batch\<close>: the requests a batch causes.  \<open>post\<close> answers a list of reports with a status, \<open>None\<close> when the
  call raises; when the batch is not answered with 200 every report is sent alone, once.
\<close>

definition flush_kernel_batch :: "(pydict list \<Rightarrow> int option) \<Rightarrow> pydict list \<Rightarrow> pydict list list" where
  "flush_kernel_batch post batch = batch # (if post batch = Some 200 then [] else map (\<lambda>r. [r]) batch)"

subsection \<open>What the stream sends\<close>

text \<open>The reports of the events that are new, in order, up to the first event that cannot be reported.\<close>

fun new_reports :: "float_reader \<Rightarrow> report_env \<Rightarrow> (rat \<times> string) list \<Rightarrow> seen_cache \<Rightarrow> pydict list \<times> unit result" where
  "new_reports fl env [] c = ([], Inr ())"
| "new_reports fl env ((now, line) # ls) c =
     (case parse_line fl line of None \<Rightarrow> new_reports fl env ls c
      | Some ev \<Rightarrow> (case seen_check now ev c of (dup, c1) \<Rightarrow>
          if dup then new_reports fl env ls c1
          else (case event_to_report env ev of Inl x \<Rightarrow> ([], Inl x)
            | Inr r \<Rightarrow> (case new_reports fl env ls c1 of (rs, q) \<Rightarrow> (r # rs, q)))))"

definition stream_ok :: "stream \<Rightarrow> bool" where
  "stream_ok st \<longleftrightarrow> kb_max_n (ss_batch st) = 25 \<and> kb_max_items (ss_batch st) = 2000 \<and> length (kb_items (ss_batch st)) < 25 \<and>
     kb_dropped (ss_batch st) = 0 \<and> (\<forall>b \<in> set (ss_sent st). b \<noteq> [] \<and> length b \<le> 25)"

definition stream_out :: "stream \<Rightarrow> pydict list" where
  "stream_out st = concat (ss_sent st) @ kb_items (ss_batch st)"

lemma batch_added:
  assumes "stream_ok st" "batch_add now r (ss_batch st) = (due, b)"
  shows "stream_ok (flush_due due (st\<lparr>ss_batch := b\<rparr>)) \<and> stream_out (flush_due due (st\<lparr>ss_batch := b\<rparr>)) = stream_out st @ [r] \<and>
     ss_seen (flush_due due (st\<lparr>ss_batch := b\<rparr>)) = ss_seen st"
proof -
  have b: "kb_items b = kb_items (ss_batch st) @ [r]" "kb_max_n b = 25" "kb_max_items b = 2000" "kb_dropped b = 0"
    and due: "due = batch_due now b"
    using assms by (auto simp: batch_add_def stream_ok_def Let_def)
  show ?thesis
  proof (cases due)
    case True
    then show ?thesis using assms(1) b by (auto simp: flush_due_def batch_drain_def stream_ok_def stream_out_def)
  next
    case False
    then have "length (kb_items b) < 25" using due b by (auto simp: batch_due_def)
    then show ?thesis using False assms(1) b by (auto simp: flush_due_def stream_ok_def stream_out_def)
  qed
qed

lemma stream_loop_sends:
  assumes "stream_ok st" "stream_loop fl env ls st = (res, st1)"
  shows "res = snd (new_reports fl env ls (ss_seen st)) \<and>
     stream_out st1 = stream_out st @ fst (new_reports fl env ls (ss_seen st)) \<and> stream_ok st1 \<and>
     (res = Inr () \<longrightarrow> kb_items (ss_batch st1) = [])"
  using assms
proof (induction ls arbitrary: st)
  case Nil
  then show ?case
    by (cases "kb_items (ss_batch st) = []") (auto simp: flush_due_def batch_drain_def stream_ok_def stream_out_def)
next
  case (Cons l ls)
  obtain now line where l: "l = (now, line)" by (cases l)
  show ?case
  proof (cases "parse_line fl line")
    case None
    then show ?thesis using Cons.IH [OF Cons.prems(1)] Cons.prems(2) l by (simp add: stream_line_def stream_event_def)
  next
    case ev: (Some ev)
    obtain dup c where c: "seen_check now ev (ss_seen st) = (dup, c)" by (cases "seen_check now ev (ss_seen st)")
    let ?st = "st\<lparr>ss_seen := c\<rparr>"
    have ok: "stream_ok ?st" "stream_out ?st = stream_out st" using Cons.prems(1) by (simp_all add: stream_ok_def stream_out_def)
    show ?thesis
    proof (cases dup)
      case True
      then show ?thesis using Cons.IH [OF ok(1)] Cons.prems(2) l ev c ok(2) by (simp add: stream_line_def stream_event_def)
    next
      case new: False
      show ?thesis
      proof (cases "event_to_report env ev")
        case (Inl x)
        then show ?thesis using Cons.prems(2) l ev c new ok by (auto simp: stream_line_def stream_event_def)
      next
        case (Inr r)
        obtain due b where b: "batch_add now r (ss_batch ?st) = (due, b)" by (cases "batch_add now r (ss_batch ?st)")
        note added = batch_added [OF ok(1) b]
        have "stream_loop fl env ls (flush_due due (?st\<lparr>ss_batch := b\<rparr>)) = (res, st1)"
          using Cons.prems(2) l ev c new Inr b by (simp add: stream_line_def stream_event_def)
        from Cons.IH [OF _ this] show ?thesis using added l ev c new Inr ok(2) by (simp add: case_prod_beta)
      qed
    qed
  qed
qed

text \<open>
  C13: batching is transparent: the batches of a run are the reports of the new events, each once, in order, in
  batches of at most 25, none dropped; a run without an exception sends all of them, and one that ends in an exception
  keeps back those that were waiting, which no later attempt sends.
\<close>

theorem batching_is_transparent:
  assumes "collector_run fl env ls c = (res, st)"
  shows "concat (ss_sent st) @ kb_items (ss_batch st) = fst (new_reports fl env ls c) \<and> res = snd (new_reports fl env ls c) \<and>
     (res = Inr () \<longrightarrow> kb_items (ss_batch st) = []) \<and> length (kb_items (ss_batch st)) < 25 \<and>
     (\<forall>b \<in> set (ss_sent st). b \<noteq> [] \<and> length b \<le> 25) \<and> kb_dropped (ss_batch st) = 0"
proof -
  let ?s = "\<lparr>ss_seen = c, ss_batch = new_batcher 25 2 2000, ss_sent = []\<rparr>"
  have "stream_ok ?s" by (simp add: stream_ok_def new_batcher_def)
  from stream_loop_sends [OF this, of fl env ls res st] assms show ?thesis
    by (simp add: collector_run_def stream_out_def new_batcher_def stream_ok_def)
qed

definition kernel_env :: report_env where
  "kernel_env = \<lparr>ke_sha = id, ke_now_iso = ''t'', ke_device = ''u1'', ke_hostname = PNone, ke_ip = PNone, ke_version = PNone,
     ke_provenance = PStr ''ebpf-full''\<rparr>"

definition exec_line :: "string \<Rightarrow> string \<Rightarrow> string" where
  "exec_line pid version = ''{'' @ [CHR 0x22] @ ''event_type'' @ [CHR 0x22] @ '':'' @ [CHR 0x22] @ ''PROCESS_CREATED'' @ [CHR 0x22] @ '','' @
     [CHR 0x22] @ ''pid'' @ [CHR 0x22] @ '':'' @ pid @ '','' @ [CHR 0x22] @ ''schema_version'' @ [CHR 0x22] @ '':'' @ version @ ''}''"

text \<open>A version that is no number ends the stream; the event before it waits in the batch and is lost.\<close>

lemma malformed_line_drops_the_buffer:
  "case collector_run (\<lambda>_. None) kernel_env [(1, exec_line ''7'' ''2''), (2, exec_line ''8'' ''[1]''), (3, exec_line ''9'' ''2'')]
      (new_seen 5 10000) of (r, st) \<Rightarrow> \<not> is_ok r \<and> ss_sent st = [] \<and> length (kb_items (ss_batch st)) = 1"
  by code_simp

lemma batching_is_transparent_witness:
  "\<exists>st. collector_run (\<lambda>_. None) kernel_env [(1, exec_line ''7'' ''2''), (2, exec_line ''7'' ''2''), (9, exec_line ''8'' ''2'')]
      (new_seen 5 10000) = (Inr (), st) \<and> kb_dropped (ss_batch st) = 0 \<and> length (concat (ss_sent st)) = 2"
proof -
  let ?r = "collector_run (\<lambda>_. None) kernel_env [(1, exec_line ''7'' ''2''), (2, exec_line ''7'' ''2''), (9, exec_line ''8'' ''2'')]
      (new_seen 5 10000)"
  have ok: "is_ok (fst ?r) \<and> length (concat (ss_sent (snd ?r))) = 2" by code_simp
  then obtain st where r: "?r = (Inr (), st)" "length (concat (ss_sent st)) = 2" by (cases ?r; cases "fst ?r") auto
  show ?thesis using r batching_is_transparent [OF r(1)] by blast
qed

subsection \<open>The window of seen events\<close>

text \<open>The same check with a table that never forgets.\<close>

fun ideal_check :: "rat \<Rightarrow> rat \<Rightarrow> pydict \<Rightarrow> (event_key \<times> rat) list \<Rightarrow> bool \<times> (event_key \<times> rat) list" where
  "ideal_check w now ev m = (case event_key ev of None \<Rightarrow> (False, m)
     | Some k \<Rightarrow> if recent_key w now k m then (True, m) else (False, assoc_put k now m))"

fun ideal_run :: "rat \<Rightarrow> (rat \<times> pydict) list \<Rightarrow> (event_key \<times> rat) list \<Rightarrow> bool list" where
  "ideal_run w [] m = []"
| "ideal_run w ((now, ev) # es) m = (case ideal_check w now ev m of (b, m1) \<Rightarrow> b # ideal_run w es m1)"

fun seen_run :: "(rat \<times> pydict) list \<Rightarrow> seen_cache \<Rightarrow> bool list" where
  "seen_run [] c = []"
| "seen_run ((now, ev) # es) c = (case seen_check now ev c of (b, c1) \<Rightarrow> b # seen_run es c1)"

definition agrees :: "rat \<Rightarrow> rat \<Rightarrow> (event_key \<times> rat) list \<Rightarrow> (event_key \<times> rat) list \<Rightarrow> bool" where
  "agrees w now m n \<longleftrightarrow> distinct (map fst m) \<and>
     (\<forall>k. assoc k m = assoc k n \<or> assoc k m = None \<and> (\<exists>t. assoc k n = Some t \<and> t < now - w))"

lemma assoc_filter:
  "distinct (map fst m) \<Longrightarrow> assoc k (filter (\<lambda>(k, t). p t) m) = (case assoc k m of None \<Rightarrow> None | Some t \<Rightarrow> if p t then Some t else None)"
proof (induction m)
  case (Cons a m)
  obtain j t where a: "a = (j, t)" by (cases a)
  have "k \<notin> fst ` set m \<Longrightarrow> assoc k m = None" for k
    by (cases "assoc k m") (auto dest: assoc_in_set intro: rev_image_eqI)
  then show ?case using Cons a by auto
qed simp

lemma agrees_later: "agrees w now m n \<Longrightarrow> now \<le> later \<Longrightarrow> agrees w later m n"
  unfolding agrees_def by (meson diff_right_mono less_le_trans)

lemma agrees_recent:
  assumes "agrees w now m n"
  shows "recent_key w now k m = recent_key w now k n"
proof -
  consider "assoc k m = assoc k n" | t where "assoc k m = None" "assoc k n = Some t" "t < now - w"
    using assms by (auto simp: agrees_def)
  then show ?thesis by cases (auto simp: recent_key_def)
qed

lemma agrees_pruned:
  assumes "agrees (sc_window c) now (sc_seen c) n"
  shows "agrees (sc_window c) now (seen_pruned now c) n"
proof -
  let ?p = "\<lambda>t. now - sc_window c \<le> t"
  have d: "distinct (map fst (sc_seen c))" using assms by (simp add: agrees_def)
  have "distinct (map fst (filter (\<lambda>(k, t). ?p t) (sc_seen c)))" using d by (simp add: distinct_map_filter)
  moreover have "assoc k (filter (\<lambda>(k, t). ?p t) (sc_seen c)) = assoc k n \<or>
      assoc k (filter (\<lambda>(k, t). ?p t) (sc_seen c)) = None \<and> (\<exists>t. assoc k n = Some t \<and> t < now - sc_window c)" for k
  proof -
    have a: "assoc k (sc_seen c) = assoc k n \<or> assoc k (sc_seen c) = None \<and> (\<exists>t. assoc k n = Some t \<and> t < now - sc_window c)"
      using assms by (simp add: agrees_def)
    show ?thesis
    proof (cases "assoc k (sc_seen c)")
      case None
      then show ?thesis using a assoc_filter [OF d, of k ?p] by simp
    next
      case (Some t)
      then have "assoc k n = Some t" using a by simp
      then show ?thesis using Some assoc_filter [OF d, of k ?p] by (cases "?p t") (simp_all add: not_le)
    qed
  qed
  ultimately show ?thesis using assms by (auto simp: seen_pruned_def agrees_def)
qed

lemma agrees_put: "agrees w now m n \<Longrightarrow> agrees w now (assoc_put k t m) (assoc_put k t n)"
  unfolding agrees_def using distinct_assoc_put by (metis assoc_put_other assoc_put_same)

lemma seen_check_step:
  assumes "agrees (sc_window c) now (sc_seen c) n"
  shows "fst (seen_check now ev c) = fst (ideal_check (sc_window c) now ev n) \<and>
     agrees (sc_window c) now (sc_seen (snd (seen_check now ev c))) (snd (ideal_check (sc_window c) now ev n)) \<and>
     sc_window (snd (seen_check now ev c)) = sc_window c"
proof (cases "event_key ev")
  case (Some k)
  note p = agrees_pruned [OF assms]
  show ?thesis using Some p agrees_recent [OF p, of k] agrees_put [OF p] by (simp add: seen_check_def Let_def)
qed (use assms in \<open>simp add: seen_check_def\<close>)

text \<open>
  C25: the cache answers as one that never forgets: as long as the clock does not go back, pruning the table changes no
  verdict, so an event is dropped exactly when the same key was accepted less than a window ago.
\<close>

theorem pruning_changes_no_verdict:
  assumes "sorted (map fst es)" "distinct (map fst (sc_seen c))"
  shows "seen_run es c = ideal_run (sc_window c) es (sc_seen c)"
proof -
  have "seen_run es c = ideal_run (sc_window c) es n"
    if "agrees (sc_window c) t (sc_seen c) n" "sorted (map fst es)" "\<forall>e \<in> set es. t \<le> fst e" for t n
    using that
  proof (induction es arbitrary: c n t)
    case (Cons e es)
    obtain now ev where e: "e = (now, ev)" by (cases e)
    have a: "agrees (sc_window c) now (sc_seen c) n" using agrees_later [OF Cons.prems(1)] Cons.prems(3) e by simp
    note s = seen_check_step [OF a, of ev]
    have "seen_run es (snd (seen_check now ev c)) = ideal_run (sc_window (snd (seen_check now ev c))) es (snd (ideal_check (sc_window c) now ev n))"
      by (rule Cons.IH [where t = now]) (use s Cons.prems(2) e in auto)
    then show ?case using s e by (simp add: case_prod_beta del: ideal_check.simps)
  qed simp
  moreover have "agrees (sc_window c) t (sc_seen c) (sc_seen c)" for t using assms(2) by (simp add: agrees_def)
  ultimately show ?thesis using assms(1) by (cases es) (auto intro: order_refl)
qed

lemma pruning_changes_no_verdict_witness:
  "let e = (\<lambda>p. [(''pid'', PInt p)]); es = [(1::rat, e 7), (2, e 8), (3, e 7), (9, e 7)] in
     seen_run es (new_seen 5 2) = ideal_run 5 es [] \<and> seen_run es (new_seen 5 2) = [False, False, True, False]"
proof -
  let ?e = "\<lambda>p. [(''pid'', PInt p)]"
  let ?es = "[(1::rat, ?e 7), (2, ?e 8), (3, ?e 7), (9, ?e 7)]"
  have "seen_run ?es (new_seen 5 2) = [False, False, True, False]" by code_simp
  moreover have "sorted (map fst ?es)" "distinct (map fst (sc_seen (new_seen 5 2)))" by (simp_all add: new_seen_def)
  note pruning_changes_no_verdict [OF this]
  ultimately show ?thesis by (simp add: Let_def new_seen_def)
qed

subsection \<open>The audit log\<close>

text \<open>
  \<open>auditd.py\<close>: records of the audit log become the same events.  \<open>ns\<close> is \<open>int(float(t) * 1e9)\<close> and \<open>fresh\<close> the random identifier of a record.
  An exception is \<open>Inl\<close>: \<open>parse_record\<close> reads the variable \<open>comm\<close>, which is bound only when the record has a non-empty \<open>exe\<close>.
\<close>

definition EXEC_SYSCALLS :: "string list" where
  "EXEC_SYSCALLS = [''59'', ''execve'', ''322'', ''execveat'']"

definition AUDIT_KV :: grx where
  "AUDIT_KV = g_seq [GGroup ''1'' (g_plus (GSet is_word)), g_lit ''='', GGroup ''2'' (g_alts
     [g_seq [g_char CHR 0x22, GStar (GSet (\<lambda>c. c \<noteq> CHR 0x22)), g_char CHR 0x22], g_plus g_nonspace])]"

definition audit_kvs :: "string \<Rightarrow> (string \<times> string) list" where
  "audit_kvs line = fold (\<lambda>g m. assoc_put (grp_text g ''1'') (strip_chars [CHR 0x22] (grp_text g ''2'')) m) (g_all AUDIT_KV line) []"

definition AUDIT_TIME :: grx where
  "AUDIT_TIME = g_seq [g_lit ''audit('', GGroup ''1'' (g_seq [g_plus g_digit, g_lit ''.'', g_plus g_digit]), g_lit '':'']"

definition AUDIT_SERIAL :: grx where
  "AUDIT_SERIAL = g_seq [g_lit ''audit('', GGroup ''1'' (g_seq [g_plus g_digit, g_lit ''.'', g_plus g_digit, g_lit '':'', g_plus g_digit]), g_lit '')'']"

text \<open>\<open>int(kv.get(k, d) or 0)\<close>, 0 when it is no number.\<close>

definition kv_int :: "(string \<times> string) list \<Rightarrow> string list \<Rightarrow> int" where
  "kv_int kv ks = (case find_first (\<lambda>k. assoc k kv \<noteq> None) ks of None \<Rightarrow> 0
     | Some k \<Rightarrow> (let v = or_str (assoc k kv) [] in if v = [] then 0 else (case read_int v of None \<Rightarrow> 0 | Some i \<Rightarrow> i)))"

definition exec_comm :: "string \<Rightarrow> string list \<Rightarrow> string" where
  "exec_comm exe ls =
     (let base = after_last CHR ''/'' exe; c = (if base = [] then ''unknown'' else base) in
      if c = ''unknown''
      then (case find_first (\<lambda>l. py_in ''type=EXECVE'' l \<and> truthy (assoc ''a0'' (audit_kvs l))) ls of None \<Rightarrow> c
        | Some l \<Rightarrow> or_str (Some (after_last CHR ''/'' (or_str (assoc ''a0'' (audit_kvs l)) []))) ''unknown'')
      else c)"

definition exec_event :: "(string \<Rightarrow> int) \<Rightarrow> (string list \<Rightarrow> string) \<Rightarrow> (string \<times> string) list \<Rightarrow> string \<Rightarrow> int \<Rightarrow> string list \<Rightarrow> pydict" where
  "exec_event ns fresh kv line pid ls =
     (let exe = or_str (assoc ''exe'' kv) [];
          ts = (case g_search AUDIT_TIME line of None \<Rightarrow> 0 | Some g \<Rightarrow> ns (grp_text g ''1''));
          serial = (case g_search AUDIT_SERIAL line of None \<Rightarrow> [] | Some g \<Rightarrow> grp_text g ''1'')
      in [(''schema_version'', PInt 2), (''event_id'', PStr (if serial = [] then fresh ls else ''audit-'' @ serial)), (''pid'', PInt pid),
          (''ppid'', PInt (kv_int kv [''ppid''])), (''uid'', PInt (max 0 (kv_int kv [''uid'', ''auid'']))),
          (''comm'', PStr (exec_comm exe ls)), (''filename'', PStr exe), (''event_type'', PStr ''PROCESS_CREATED''),
          (''ts_wall_ns'', if ts > 0 then PInt ts else PNone), (''provenance'', PStr ''auditd''), (''quality'', PStr ''full'')])"

definition parse_record :: "(string \<Rightarrow> int) \<Rightarrow> (string list \<Rightarrow> string) \<Rightarrow> string list \<Rightarrow> pydict option result" where
  "parse_record ns fresh ls =
     (case filter (py_in ''type=SYSCALL'') ls of [] \<Rightarrow> Inr None
      | line # _ \<Rightarrow>
          (let kv = audit_kvs line; call = or_str (assoc ''syscall'' kv) [] in
           if assoc ''success'' kv \<noteq> Some ''yes'' then Inr None
           else if \<not> List.member EXEC_SYSCALLS call \<and> \<not> py_in ''execve'' call then Inr None
           else (case read_int (case assoc ''pid'' kv of None \<Rightarrow> ''0'' | Some p \<Rightarrow> p) of None \<Rightarrow> Inr None
             | Some pid \<Rightarrow>
                 if pid < 1 then Inr None
                 else if \<not> truthy (assoc ''exe'' kv) then Inl (OtherError ''UnboundLocalError'')
                 else Inr (Some (exec_event ns fresh kv line pid ls)))))"

text \<open>A new record starts at a line of another serial, or at one without a serial after a SYSCALL record.\<close>

definition audit_serial :: "string \<Rightarrow> string option" where
  "audit_serial line = map_option (\<lambda>g. grp_text g ''1'') (g_search (g_seq [g_lit ''msg='', AUDIT_SERIAL]) line)"

definition starts_record :: "string \<Rightarrow> string list \<Rightarrow> string option \<Rightarrow> bool" where
  "starts_record line ls serial \<longleftrightarrow> startswith line ''type='' \<and>
     (case audit_serial line of None \<Rightarrow> ls \<noteq> [] \<and> py_in ''type=SYSCALL'' (hd ls) | Some s \<Rightarrow> serial \<noteq> Some s)"

fun group_records :: "string list \<Rightarrow> string option \<Rightarrow> string list \<Rightarrow> string list list" where
  "group_records ls serial [] = (if ls = [] then [] else [ls])"
| "group_records ls serial (line # lines) =
     (let new = starts_record line ls serial \<and> ls \<noteq> []; serial1 = (if new then None else serial);
          serial2 = (if audit_serial line \<noteq> None \<and> serial1 = None \<and> startswith line ''type='' then audit_serial line else serial1)
      in if new then ls # group_records [line] serial2 lines else group_records (ls @ [line]) serial2 lines)"

fun parse_records :: "(string \<Rightarrow> int) \<Rightarrow> (string list \<Rightarrow> string) \<Rightarrow> string list list \<Rightarrow> pydict list result" where
  "parse_records ns fresh [] = Inr []"
| "parse_records ns fresh (r # rs) =
     bind_result (parse_record ns fresh r) (\<lambda>ev. bind_result (parse_records ns fresh rs) (\<lambda>evs. Inr (case ev of None \<Rightarrow> evs | Some e \<Rightarrow> e # evs)))"

text \<open>\<open>poll\<close>: the chunk read is given with the answer; \<open>None\<close> is a file that cannot be opened.\<close>

definition AUDIT_CHUNK :: nat where "AUDIT_CHUNK = 1048576"

definition audit_poll :: "(string \<Rightarrow> int) \<Rightarrow> (string list \<Rightarrow> string) \<Rightarrow> string option \<Rightarrow> nat \<Rightarrow> pydict list result \<times> nat \<times> string" where
  "audit_poll ns fresh content pos =
     (case content of None \<Rightarrow> (Inr [], 0, [])
      | Some t \<Rightarrow> (let chunk = take AUDIT_CHUNK (drop pos t) in
          (parse_records ns fresh (group_records [] None (splitlines chunk)), pos + length chunk, chunk)))"

fun stream_events :: "report_env \<Rightarrow> rat \<Rightarrow> pydict list \<Rightarrow> stream \<Rightarrow> unit result \<times> stream" where
  "stream_events env now [] st = (Inr (), st)"
| "stream_events env now (ev # evs) st =
     (case stream_event env now ev st of (Inl x, st1) \<Rightarrow> (Inl x, st1) | (Inr _, st1) \<Rightarrow> stream_events env now evs st1)"

text \<open>One round of \<open>_run_auditd_stream\<close>; the batcher and the cache live as long as the thread.\<close>

definition new_audit_stream :: stream where
  "new_audit_stream = \<lparr>ss_seen = new_seen 5 10000, ss_batch = new_batcher 25 5 2000, ss_sent = []\<rparr>"

definition audit_round ::
  "(string \<Rightarrow> int) \<Rightarrow> (string list \<Rightarrow> string) \<Rightarrow> report_env \<Rightarrow> rat \<Rightarrow> string option \<Rightarrow> nat \<Rightarrow> stream \<Rightarrow> unit result \<times> nat \<times> stream" where
  "audit_round ns fresh env now content pos st =
     (case audit_poll ns fresh content pos of (Inl x, pos1, _) \<Rightarrow> (Inl x, pos1, st)
      | (Inr evs, pos1, _) \<Rightarrow> (case stream_events (env\<lparr>ke_provenance := PNone\<rparr>) now evs st of
          (Inl x, st1) \<Rightarrow> (Inl x, pos1, st1)
        | (Inr _, st1) \<Rightarrow> (Inr (), pos1, flush_due (kb_items (ss_batch st1) \<noteq> []) st1)))"

fun audit_polls ::
  "(string \<Rightarrow> int) \<Rightarrow> (string list \<Rightarrow> string) \<Rightarrow> string list \<Rightarrow> nat \<Rightarrow> (pydict list result \<times> string) list \<times> nat" where
  "audit_polls ns fresh [] pos = ([], pos)"
| "audit_polls ns fresh (t # ts) pos =
     (case audit_poll ns fresh (Some t) pos of (r, pos1, chunk) \<Rightarrow>
        (case audit_polls ns fresh ts pos1 of (outs, pos2) \<Rightarrow> ((r, chunk) # outs, pos2)))"

lemma group_records_lines: "concat (group_records ls serial lines) = ls @ lines"
  by (induction lines arbitrary: ls serial) (auto simp: Let_def)

lemma audit_polls_read:
  assumes "audit_polls ns fresh ts pos = (outs, pos1)" "sorted_wrt prefix (t # ts)" "pos \<le> length t"
  shows "take pos t @ concat (map snd outs) = take pos1 (last (t # ts)) \<and> pos1 \<le> length (last (t # ts))"
  using assms
proof (induction ts arbitrary: pos t outs)
  case (Cons u ts)
  let ?c = "take AUDIT_CHUNK (drop pos u)"
  obtain rest1 where rest1: "audit_polls ns fresh ts (pos + length ?c) = (rest1, pos1)" "map snd outs = ?c # map snd rest1"
    using Cons.prems(1) by (auto simp: audit_poll_def Let_def split: prod.splits)
  have u: "take pos t = take pos u" "pos \<le> length u" using Cons.prems(2,3) by (auto simp: prefix_def)
  have "take pos u @ ?c = take (pos + length ?c) u" by (simp add: take_add min_def)
  moreover have "sorted_wrt prefix (u # ts)" "pos + length ?c \<le> length u" using Cons.prems(2) u(2) by simp_all
  ultimately show ?case using Cons.IH [OF rest1(1)] rest1(2) u(1) by (metis append.assoc concat.simps(2) last_ConsR list.distinct(1))
qed simp


definition audit_line :: "string \<Rightarrow> string \<Rightarrow> string" where
  "audit_line serial extra = ''type=SYSCALL msg=audit(1.5:'' @ serial @ ''): syscall=59 success=yes pid=7 ppid=1 uid=0'' @ extra @ [CHR 0x0A]"

definition named :: string where "named = '' exe='' @ [CHR 0x22] @ ''/bin/sh'' @ [CHR 0x22]"


text \<open>After a rotation the new file is not read until it is longer than the old one.\<close>

lemma rotated_log_is_ignored: "length t \<le> pos \<Longrightarrow> audit_poll ns fresh (Some t) pos = (Inr [], pos, [])"
  by (simp add: audit_poll_def)

text \<open>A record without a path of its executable raises, and its whole chunk is lost: the position has moved on.\<close>

lemma nameless_record_loses_the_chunk:
  "case audit_poll (\<lambda>_. 0) (\<lambda>_. []) (Some (audit_line ''1'' named @ audit_line ''2'' [])) 0 of (r, pos, chunk) \<Rightarrow>
     \<not> is_ok r \<and> pos = length (audit_line ''1'' named @ audit_line ''2'' [])"
proof -
  let ?t = "audit_line ''1'' named @ audit_line ''2'' []"
  have "\<not> is_ok (parse_records (\<lambda>_. 0) (\<lambda>_. []) (group_records [] None (splitlines ?t)))" by code_simp
  moreover have "length ?t \<le> AUDIT_CHUNK" by (simp add: audit_line_def named_def AUDIT_CHUNK_def)
  ultimately show ?thesis by (simp add: audit_poll_def Let_def)
qed

end
