(* ===== verification/Deploy.thy ===== *)
theory Deploy
  imports Alerts_Api Enrollment
begin

section \<open>Deployment of agents\<close>

text \<open>
  The routes of \<open>app/api/v1/deploy.py\<close>: enrollment tokens, published packages, signed update commands, rollout jobs and
  their approval by PIN.  A row of a job is read anew by every request.  Python dictionaries are shared: the entry a
  handler changes is the entry of the loaded row, and what the session of SQLAlchemy writes depends on a
  comparison of the assigned value with the loaded one, changed or not.  \<open>dy_differs\<close> is that comparison, a parameter; the law
  \<open>flush_law\<close> is its documented behaviour for a JSON column without mutation tracking.  Other parameters: hashes,
  random secrets, the reader of addresses and UUIDs, the files of \<open>ARTIFACT_DIR\<close>, the signer of manifests.
\<close>

record deploy_job =
  dj_id :: int
  dj_agent_type :: string
  dj_agent_version :: string
  dj_targets :: "(string \<times> string) list"
  dj_status :: string
  dj_results :: "(string \<times> pydict) list"

record install_token = enroll_token +
  it_id :: int
  it_label :: "string option"
  it_created_at :: rat
  it_config :: pydict

record 's deploy_state =
  dd_jobs :: "deploy_job list"
  dd_next_job :: int
  dd_install :: "install_token list"
  dd_next_token :: int
  dd_notes :: "(string \<times> string option) list"
  dd_tables :: tables
  dd_redis :: 's

record deploy_env =
  dy_now :: rat
  dy_sha256 :: "string \<Rightarrow> string"
  dy_hmac :: "string \<Rightarrow> string \<Rightarrow> string"
  dy_jwt_secret :: string
  dy_enroll_key :: string
  dy_base_url :: string
  dy_strict :: bool
  dy_fresh :: string
  dy_ip_ok :: "string \<Rightarrow> bool"
  dy_uuid :: "string \<Rightarrow> string option"
  dy_files :: "(string \<times> string) list"
  dy_canonical :: "pydict \<Rightarrow> string"
  dy_manifest_sign :: "(pydict \<Rightarrow> string) option"
  dy_differs :: "(string \<times> pydict) list \<Rightarrow> (string \<times> pydict) list \<Rightarrow> bool"

type_synonym ('s, 'a) deploy_answer = "'s deploy_state \<Rightarrow> 'a result \<times> 's deploy_state"

definition flush_law :: "deploy_env \<Rightarrow> bool" where
  "flush_law env \<longleftrightarrow> (\<forall>a b. dy_differs env a b \<longleftrightarrow> a \<noteq> b)"

definition VALID_AGENT_TYPES :: "string list" where
  "VALID_AGENT_TYPES = [''nodetrace'', ''aegis-guard'']"

definition VALID_METHODS :: "string list" where
  "VALID_METHODS = [''ssh'', ''winrm'', ''oneline'', ''interactive'']"

definition deploy_operator :: "user_row \<Rightarrow> bool" where
  "deploy_operator u \<longleftrightarrow> List.member [''admin'', ''analyst''] (lower (or_str (us_role u) ''user''))"

definition require_deploy_operator :: "user_row \<Rightarrow> unit result" where
  "require_deploy_operator u = (if deploy_operator u then Inr () else Inl (http ''403''))"

definition approval_mac :: "deploy_env \<Rightarrow> string \<Rightarrow> int \<Rightarrow> string \<Rightarrow> string \<Rightarrow> string" where
  "approval_mac env kind job ip value =
     dy_hmac env (dy_sha256 env (if dy_jwt_secret env = [] then ''aegis-approval-dev-only'' else dy_jwt_secret env))
       (kind @ '':'' @ show_int job @ '':'' @ ip @ '':'' @ value)"

definition clean_target :: "deploy_env \<Rightarrow> pydict \<Rightarrow> (string \<times> string) result" where
  "clean_target env t =
     (let ip = strip (py_str (dict_get_or t ''ip_address'' (PStr [])));
          how = lower (py_str (dict_get_or t ''method'' (PStr ''ssh'')))
      in if \<not> dy_ip_ok env ip then Inl (http ''400'')
         else if \<not> List.member VALID_METHODS how \<and> how \<noteq> ''interactive'' then Inl (http ''400'')
         else Inr (ip, how))"

fun clean_targets :: "deploy_env \<Rightarrow> pydict list \<Rightarrow> (string \<times> string) list result" where
  "clean_targets env [] = Inr []"
| "clean_targets env (t # ts) = bind_result (clean_target env t) (\<lambda>c. bind_result (clean_targets env ts) (\<lambda>cs. Inr (c # cs)))"

definition validate_targets :: "deploy_env \<Rightarrow> pydict list \<Rightarrow> (string \<times> string) list result" where
  "validate_targets env ts =
     bind_result (clean_targets env (take 100 ts)) (\<lambda>cs. if cs = [] then Inl (http ''400'') else Inr cs)"

subsection \<open>Enrollment tokens\<close>

definition deploy_audit :: "user_row \<Rightarrow> string \<Rightarrow> string \<Rightarrow> string option \<Rightarrow> pydict \<Rightarrow> 's deploy_state \<Rightarrow> 's deploy_state" where
  "deploy_audit u action resource i details st = st\<lparr>dd_tables := log_audit u action resource i details (dd_tables st)\<rparr>"

definition new_install_token :: "deploy_env \<Rightarrow> string option \<Rightarrow> string \<Rightarrow> int \<Rightarrow> bool \<Rightarrow> int \<Rightarrow> install_token" where
  "new_install_token env label agent_type ttl remote i =
     \<lparr>et_hash = dy_sha256 env (dy_fresh env), et_agent_type = agent_type, et_expires_at = Some (dy_now env + of_int ttl * 60),
      et_used_at = None, et_used_by_hostname = None, et_used_agent_types = None, et_revoked = False,
      it_id = i, it_label = label, it_created_at = dy_now env, it_config = [(''dashboard_remote'', PBool remote)]\<rparr>"

definition create_enroll_token ::
  "deploy_env \<Rightarrow> user_row \<Rightarrow> string option \<Rightarrow> string \<Rightarrow> int \<Rightarrow> bool \<Rightarrow> bool \<Rightarrow> ('s, string) deploy_answer" where
  "create_enroll_token env u label agent_type ttl remote local st =
     (if \<not> deploy_operator u then (Inl (http ''403''), st)
      else if local then (Inl (http ''422''), st)
      else (Inr (dy_fresh env),
        deploy_audit u ''deploy_token_create'' ''enroll_token'' None [(''label'', opt_str label), (''agent_type'', PStr agent_type)]
          (st\<lparr>dd_install := dd_install st @ [new_install_token env label agent_type ttl remote (dd_next_token st)],
              dd_next_token := dd_next_token st + 1\<rparr>)))"

definition list_enroll_tokens :: "'s deploy_state \<Rightarrow> install_token list" where
  "list_enroll_tokens st = take 50 (newest it_created_at (dd_install st))"

definition revoke_enroll_token :: "user_row \<Rightarrow> int \<Rightarrow> ('s, unit) deploy_answer" where
  "revoke_enroll_token u i st =
     (if \<not> deploy_operator u then (Inl (http ''403''), st)
      else (case find_first (\<lambda>t. it_id t = i) (dd_install st) of None \<Rightarrow> (Inl (http ''404''), st)
        | Some t \<Rightarrow> (Inr (), deploy_audit u ''deploy_token_revoke'' ''enroll_token'' (Some (show_int i)) []
            (st\<lparr>dd_install := map (\<lambda>t. if it_id t = i then t\<lparr>et_revoked := True\<rparr> else t) (dd_install st)\<rparr>))))"

definition validate_install_token :: "deploy_env \<Rightarrow> string option \<Rightarrow> 's deploy_state \<Rightarrow> install_token result" where
  "validate_install_token env raw st =
     (if \<not> truthy raw then Inl (http ''401'')
      else (case find_first (\<lambda>t. et_hash t = dy_sha256 env (strip (or_str raw [])) \<and> \<not> et_revoked t) (dd_install st) of
          None \<Rightarrow> Inl (http ''401'')
        | Some t \<Rightarrow> if (case et_expires_at t of None \<Rightarrow> False | Some e \<Rightarrow> e < dy_now env) then Inl (http ''401'') else Inr t))"

text \<open>\<open>install.ps1\<close> and \<open>install.sh\<close> fill in a constant text; \<open>yes\<close> and \<open>no\<close> are the two values of the last placeholder.\<close>

definition install_script :: "deploy_env \<Rightarrow> string \<Rightarrow> string \<Rightarrow> string \<Rightarrow> string \<Rightarrow> string option \<Rightarrow> 's deploy_state \<Rightarrow> string result" where
  "install_script env template yes no agent raw st =
     bind_result (validate_install_token env raw st) (\<lambda>t.
       if agent = ''both'' \<and> et_agent_type t \<noteq> ''both'' then Inl (http ''403'')
       else if agent \<noteq> ''both'' \<and> \<not> List.member [agent, ''both''] (et_agent_type t) then Inl (http ''403'')
       else Inr (replace_str ''{REMOTE_DASHBOARD}'' (if py_truth (dict_get_or (it_config t) ''dashboard_remote'' (PBool True)) then yes else no)
              (replace_str ''{AGENT}'' agent
                (replace_str ''{ENROLL_TOKEN}'' (strip (or_str raw []))
                  (replace_str ''{BASE}'' (rstrip_slash (dy_base_url env)) template)))))"

subsection \<open>Published packages\<close>

text \<open>\<open>rstrip_slash\<close>, \<open>artifact_name_for\<close> and \<open>build_update_command\<close> are those of \<open>Playbooks\<close>.\<close>

text \<open>\<open>Path(name).name\<close>.\<close>

definition package_name :: "string \<Rightarrow> string" where
  "package_name s = (case filter (\<lambda>w. w \<noteq> [] \<and> w \<noteq> ''.'') (split_char CHR ''/'' s) of [] \<Rightarrow> [] | ws \<Rightarrow> last ws)"

definition serve_artifact :: "deploy_env \<Rightarrow> string \<Rightarrow> string result" where
  "serve_artifact env name =
     (let safe = package_name name in
      if safe = [] \<or> startswith safe ''.'' then Inl (http ''400'')
      else (case assoc safe (dy_files env) of None \<Rightarrow> Inl (http ''404'') | Some data \<Rightarrow> Inr data))"

definition bootstrap_artifact :: "deploy_env \<Rightarrow> string \<Rightarrow> string option \<Rightarrow> 's deploy_state \<Rightarrow> string result" where
  "bootstrap_artifact env name raw st =
     bind_result (validate_install_token env raw st) (\<lambda>t.
       let safe = package_name name; kinds = (if et_agent_type t \<noteq> ''both'' then [et_agent_type t] else BOTH_TYPES) in
       if safe = [] \<or> startswith safe ''.'' then Inl (http ''400'')
       else if \<not> list_ex (\<lambda>k. startswith safe (k @ ''-'')) kinds then Inl (http ''403'')
       else (case assoc safe (dy_files env) of None \<Rightarrow> Inl (http ''404'') | Some data \<Rightarrow> Inr data))"

definition sign_artifact :: "deploy_env \<Rightarrow> string \<Rightarrow> string option \<Rightarrow> string" where
  "sign_artifact env digest key = dy_hmac env (case key of None \<Rightarrow> dy_enroll_key env | Some k \<Rightarrow> k) digest"

definition verify_artifact_signature :: "deploy_env \<Rightarrow> string \<Rightarrow> string option \<Rightarrow> string option \<Rightarrow> bool" where
  "verify_artifact_signature env digest signature key = (sign_artifact env digest key = strip (or_str signature []))"

definition version_parts :: "string \<Rightarrow> int list" where
  "version_parts v = map (\<lambda>p. case read_int p of None \<Rightarrow> 0 | Some i \<Rightarrow> i)
     (split_char CHR ''.'' (dropWhile (\<lambda>c. c = CHR ''v'') (strip v)))"

fun ints_less :: "int list \<Rightarrow> int list \<Rightarrow> bool" where
  "ints_less xs [] = False"
| "ints_less [] (y # ys) = True"
| "ints_less (x # xs) (y # ys) = (x < y \<or> x = y \<and> ints_less xs ys)"

definition is_newer_version :: "string option \<Rightarrow> string \<Rightarrow> bool" where
  "is_newer_version current target \<longleftrightarrow> target = [] \<or> lower (strip target) = ''latest'' \<or> \<not> truthy current \<or>
     ints_less (version_parts (or_str current [])) (version_parts target)"

definition build_manifest :: "deploy_env \<Rightarrow> (string \<times> string) list \<Rightarrow> pydict" where
  "build_manifest env artifacts =
     [(''key_id'', PStr ''aegis-manifest-v1''),
      (''artifacts'', PList (map (\<lambda>(name, digest). PDict [(''name'', PStr name), (''sha256'', PStr digest),
         (''hmac'', PStr (sign_artifact env digest None))]) artifacts))]"

text \<open>The signature of a manifest; \<open>None\<close> when there is no key or the signing fails.\<close>

definition sign_manifest_bundle :: "deploy_env \<Rightarrow> pydict \<Rightarrow> string option" where
  "sign_manifest_bundle env manifest = map_option (\<lambda>sign. sign manifest) (dy_manifest_sign env)"

definition get_manifest :: "deploy_env \<Rightarrow> pydict \<times> string option" where
  "get_manifest env =
     (let manifest = build_manifest env (map (\<lambda>(name, data). (name, dy_sha256 env data))
            (filter (\<lambda>(name, data). \<not> startswith name ''.'') (dy_files env)))
      in (manifest, sign_manifest_bundle env manifest))"

definition update_type :: "agent_row \<Rightarrow> string" where
  "update_type g = (if py_in ''guard'' (lower (or_str (ag_agent_type g) [])) then ''aegis-guard'' else ''nodetrace'')"

definition update_command :: "deploy_env \<Rightarrow> agent_row \<Rightarrow> string \<Rightarrow> string \<Rightarrow> pydict" where
  "update_command env g version data =
     (let kind = update_type g; digest = dy_sha256 env data; manifest = build_manifest env [(artifact_name_for kind version, digest)]
      in build_update_command kind version (dy_base_url env) digest (sign_artifact env digest None) @
         (case sign_manifest_bundle env manifest of None \<Rightarrow> []
          | Some sig \<Rightarrow> [(''manifest'', PStr (dy_canonical env manifest)), (''manifest_sig'', PStr sig)]))"

definition push_update_command ::
  "'s redis \<Rightarrow> deploy_env \<Rightarrow> user_row \<Rightarrow> string \<Rightarrow> string \<Rightarrow> ('s, bool \<times> pydict) deploy_answer" where
  "push_update_command R env u agent_id version st =
     (if \<not> deploy_operator u then (Inl (http ''403''), st)
      else (case dy_uuid env agent_id of None \<Rightarrow> (Inl (http ''400''), st)
      | Some i \<Rightarrow> (case find_first (\<lambda>g. ag_agent_id g = i) (tb_agents (dd_tables st)) of None \<Rightarrow> (Inl (http ''404''), st)
      | Some g \<Rightarrow>
          if \<not> List.member [''aegis-guard'', ''nodetrace'', ''guard''] (lower (or_str (ag_agent_type g) [])) then (Inl (http ''400''), st)
          else (case assoc (artifact_name_for (update_type g) version) (dy_files env) of None \<Rightarrow> (Inl (http ''404''), st)
          | Some data \<Rightarrow>
              if dy_strict env \<and> dy_manifest_sign env = None then (Inl (http ''500''), st)
              else (let cmd = update_command env g version data in
                case send_command_to_agent R (ag_agent_id g) (cmd @ [(''alert_id'', PNone)]) (dd_redis st) of
                  (queued, s) \<Rightarrow> (Inr (queued, cmd),
                    deploy_audit u ''deploy_update_push'' ''agent'' (Some (ag_agent_id g))
                      [(''version'', PStr version), (''artifact'', PStr (artifact_name_for (update_type g) version)),
                       (''sha256'', PStr (dy_sha256 env data)), (''queued'', PBool queued),
                       (''manifest_signed'', PBool (dy_manifest_sign env \<noteq> None))] (st\<lparr>dd_redis := s\<rparr>)))))))"

subsection \<open>Rollout jobs\<close>

definition queued_entry :: "string \<Rightarrow> pydict" where
  "queued_entry how = [(''status'', PStr ''queued''), (''method'', PStr how), (''log'', PStr [])]"

definition redacted_results :: "(string \<times> string) list \<Rightarrow> (string \<times> pydict) list" where
  "redacted_results targets = fold (\<lambda>(ip, how) m. assoc_put ip (queued_entry how) m) targets []"

definition touch_host :: "int \<Rightarrow> string \<Rightarrow> string \<Rightarrow> (string \<times> string option) list \<Rightarrow> (string \<times> string option) list" where
  "touch_host job agent_type ip hosts =
     (case assoc ip hosts of None \<Rightarrow> hosts
      | Some notes \<Rightarrow> assoc_put ip (Some (last_chars 2000 (strip (or_str notes [] @ [CHR 0x0A] @ ''[aegis-deploy] job #'' @
          show_int job @ '' queued ('' @ agent_type @ '')'')))) hosts)"

definition job_with :: "int \<Rightarrow> 's deploy_state \<Rightarrow> deploy_job option" where
  "job_with i st = find_first (\<lambda>j. dj_id j = i) (dd_jobs st)"

definition put_job :: "deploy_job \<Rightarrow> 's deploy_state \<Rightarrow> 's deploy_state" where
  "put_job j st = st\<lparr>dd_jobs := map (\<lambda>k. if dj_id k = dj_id j then j else k) (dd_jobs st)\<rparr>"

text \<open>
  The job is inserted with its results; the second commit writes the status only, as the entries of the
  results are changed in place and the column is not assigned.
\<close>

definition create_deploy_job ::
  "deploy_env \<Rightarrow> user_row \<Rightarrow> string \<Rightarrow> string \<Rightarrow> pydict list \<Rightarrow> string option \<Rightarrow> string option \<Rightarrow> string \<Rightarrow>
   ('s, int \<times> string \<times> (string \<times> string) list) deploy_answer" where
  "create_deploy_job env u agent_type version targets username password how st =
     (if \<not> deploy_operator u then (Inl (http ''403''), st)
      else if \<not> List.member VALID_AGENT_TYPES agent_type then (Inl (http ''400''), st)
      else if how \<noteq> ''oneline'' then (Inl (http ''501''), st)
      else if truthy username \<or> truthy password then (Inl (http ''400''), st)
      else (case validate_targets env (map (\<lambda>t. assoc_put ''method'' (dict_get_or t ''method'' (PStr how)) t) targets) of
          Inl x \<Rightarrow> (Inl x, st)
        | Inr clean \<Rightarrow> (let i = dd_next_job st in
            (Inr (i, ''manual_required'', clean),
             deploy_audit u ''deploy_job_create'' ''deploy_job'' (Some (show_int i))
               [(''agent_type'', PStr agent_type), (''targets'', PList (map (PStr \<circ> fst) clean)),
                (''has_transient_creds'', PBool (truthy username))]
               (st\<lparr>dd_jobs := dd_jobs st @ [\<lparr>dj_id = i, dj_agent_type = agent_type, dj_agent_version = version,
                       dj_targets = clean, dj_status = ''manual_required'', dj_results = redacted_results clean\<rparr>],
                   dd_next_job := i + 1, dd_notes := fold (\<lambda>(ip, _). touch_host i agent_type ip) clean (dd_notes st)\<rparr>)))))"

text \<open>The rows are kept in the order of their creation.\<close>

definition list_deploy_jobs :: "'s deploy_state \<Rightarrow> deploy_job list" where
  "list_deploy_jobs st = take 50 (rev (dd_jobs st))"

definition get_deploy_job :: "int \<Rightarrow> 's deploy_state \<Rightarrow> deploy_job result" where
  "get_deploy_job i st = (case job_with i st of None \<Rightarrow> Inl (http ''404'') | Some j \<Rightarrow> Inr j)"

text \<open>
  A handler copies the dictionary of results, changes one entry and assigns the copy.  The entry of a known
  address is shared with the loaded dictionary, so both sides of the comparison hold the change.
\<close>

definition loaded_results :: "string \<Rightarrow> pydict \<Rightarrow> (string \<times> pydict) list \<Rightarrow> (string \<times> pydict) list" where
  "loaded_results ip entry results = (if assoc ip results = None then results else assoc_put ip entry results)"

definition stored_results :: "deploy_env \<Rightarrow> string \<Rightarrow> pydict \<Rightarrow> (string \<times> pydict) list \<Rightarrow> (string \<times> pydict) list" where
  "stored_results env ip entry results =
     (if dy_differs env (loaded_results ip entry results) (assoc_put ip entry results) then assoc_put ip entry results else results)"

definition store_entry :: "deploy_env \<Rightarrow> string \<Rightarrow> pydict \<Rightarrow> string \<Rightarrow> deploy_job \<Rightarrow> deploy_job" where
  "store_entry env ip entry status j = j\<lparr>dj_status := status, dj_results := stored_results env ip entry (dj_results j)\<rparr>"

definition entry_update :: "(string \<times> pyval) list \<Rightarrow> pydict \<Rightarrow> pydict" where
  "entry_update kvs e = fold (\<lambda>(k, v) m. assoc_put k v m) kvs e"

definition job_status :: "string \<Rightarrow> (string \<times> pydict) list \<Rightarrow> string" where
  "job_status old results =
     (let states = map (\<lambda>(ip, e). dict_get e ''status'') results in
      if states \<noteq> [] \<and> list_all (\<lambda>s. s = PStr ''ok'' \<or> s = PStr ''failed'') states
      then (if List.member states (PStr ''failed'') then ''partial'' else ''done'')
      else if List.member states (PStr ''running'') \<or> List.member states (PStr ''queued'') then ''running'' else old)"

definition update_job_status :: "deploy_env \<Rightarrow> user_row \<Rightarrow> int \<Rightarrow> string \<Rightarrow> string \<Rightarrow> string option \<Rightarrow>
   ('s, string \<times> (string \<times> pydict) list) deploy_answer" where
  "update_job_status env u i ip status msg st =
     (if \<not> deploy_operator u then (Inl (http ''403''), st)
      else (case job_with i st of None \<Rightarrow> (Inl (http ''404''), st)
      | Some j \<Rightarrow>
          (let entry = entry_update [(''status'', PStr status), (''log'', PStr (last_chars 4000 (or_str msg [])))]
                 (assoc_default [(''method'', PStr ''ssh''), (''log'', PStr [])] ip (dj_results j));
               results = assoc_put ip entry (dj_results j); new = job_status (dj_status j) results
           in (Inr (new, results),
               deploy_audit u ''deploy_job_status'' ''deploy_job'' (Some (show_int i)) [(''ip'', PStr ip), (''status'', PStr status)]
                 (put_job (store_entry env ip entry new j) st)))))"

subsection \<open>Approval by PIN\<close>

definition request_interactive_approval ::
  "deploy_env \<Rightarrow> user_row \<Rightarrow> int \<Rightarrow> string \<Rightarrow> string \<Rightarrow> ('s, string) deploy_answer" where
  "request_interactive_approval env u i ip pin st =
     (if \<not> deploy_operator u then (Inl (http ''403''), st)
      else (case job_with i st of None \<Rightarrow> (Inl (http ''404''), st)
      | Some j \<Rightarrow> (case assoc ip (dj_results j) of None \<Rightarrow> (Inl (http ''400''), st)
      | Some e \<Rightarrow>
          if e = [] then (Inl (http ''400''), st)
          else (Inr (dy_fresh env),
            put_job (store_entry env ip (entry_update [(''status'', PStr ''waiting_approval''),
                (''approval_pin_hash'', PStr (approval_mac env ''pin'' i ip pin)),
                (''approval_token_hash'', PStr (approval_mac env ''token'' i ip (dy_fresh env))), (''approval_attempts'', PInt 0),
                (''log'', PStr ''Waiting for the remote user to enter the approval PIN on the target device.'')] e)
              ''waiting_approval'' j) st))))"

definition wrong_pin :: "deploy_env \<Rightarrow> string \<Rightarrow> pydict \<Rightarrow> deploy_job \<Rightarrow> deploy_job result" where
  "wrong_pin env ip e j =
     bind_result (py_int (dict_get_or e ''approval_attempts'' (PInt 0))) (\<lambda>n.
       let e1 = assoc_put ''approval_attempts'' (PInt (n + 1)) e in
       if n + 1 \<ge> 5
       then Inr (store_entry env ip (entry_update [(''status'', PStr ''failed''),
              (''log'', PStr ''Approval expired after too many invalid attempts.'')] e1) ''failed'' j)
       else Inr (store_entry env ip (assoc_put ''log'' (PStr ''Invalid approval PIN.'') e1) (dj_status j) j))"

definition drop_keys :: "string list \<Rightarrow> pydict \<Rightarrow> pydict" where
  "drop_keys ks e = filter (\<lambda>(k, v). \<not> List.member ks k) e"

definition granted :: "deploy_env \<Rightarrow> string \<Rightarrow> pydict \<Rightarrow> deploy_job \<Rightarrow> deploy_job" where
  "granted env ip e j = store_entry env ip
     (entry_update [(''status'', PStr ''queued''), (''log'', PStr ''Approval granted. Proceeding with installation...'')]
       (drop_keys [''approval_pin_hash'', ''approval_token_hash'', ''approval_attempts''] e)) ''running'' j"

definition approve_job_remotely ::
  "deploy_env \<Rightarrow> user_row option \<Rightarrow> string option \<Rightarrow> int \<Rightarrow> string \<Rightarrow> string \<Rightarrow> ('s, unit) deploy_answer" where
  "approve_job_remotely env u token i ip pin st =
     (case job_with i st of None \<Rightarrow> (Inl (http ''404''), st)
      | Some j \<Rightarrow> (case assoc ip (dj_results j) of None \<Rightarrow> (Inl (http ''400''), st)
      | Some e \<Rightarrow>
          if e = [] \<or> dict_get e ''status'' \<noteq> PStr ''waiting_approval'' then (Inl (http ''400''), st)
          else if \<not> (truthy token \<and> dict_get_or e ''approval_token_hash'' (PStr []) = PStr (approval_mac env ''token'' i ip (or_str token []))) \<and>
            \<not> (case u of None \<Rightarrow> False | Some v \<Rightarrow> deploy_operator v) then (Inl (http ''401''), st)
          else if dict_get_or e ''approval_pin_hash'' (PStr []) \<noteq> PStr (approval_mac env ''pin'' i ip pin)
          then (case wrong_pin env ip e j of Inl x \<Rightarrow> (Inl x, st) | Inr j1 \<Rightarrow> (Inl (http ''403''), put_job j1 st))
          else (Inr (), put_job (granted env ip e j) st)))"

subsection \<open>Requests\<close>

inductive deploy_step :: "'s redis \<Rightarrow> 's deploy_state \<Rightarrow> 's deploy_state \<Rightarrow> bool" for R where
  step_token: "deploy_step R st (snd (create_enroll_token env u label kind ttl remote local st))"
| step_revoke: "deploy_step R st (snd (revoke_enroll_token u i st))"
| step_push: "deploy_step R st (snd (push_update_command R env u agent version st))"
| step_create: "flush_law env \<Longrightarrow> deploy_step R st (snd (create_deploy_job env u kind version targets name password how st))"
| step_status: "flush_law env \<Longrightarrow> List.member [''queued'', ''running'', ''ok'', ''failed''] status \<Longrightarrow>
    deploy_step R st (snd (update_job_status env u i ip status msg st))"
| step_request: "flush_law env \<Longrightarrow> deploy_step R st (snd (request_interactive_approval env u i ip pin st))"
| step_approve: "flush_law env \<Longrightarrow> deploy_step R st (snd (approve_job_remotely env ou token i ip pin st))"

lemma audit_facts [simp]: "dd_jobs (deploy_audit u a r i d st) = dd_jobs st" "dd_next_job (deploy_audit u a r i d st) = dd_next_job st"
  by (simp_all add: deploy_audit_def)

lemma put_job_facts [simp]: "dd_next_job (put_job j st) = dd_next_job st"
  "dd_jobs (put_job j st) = map (\<lambda>k. if dj_id k = dj_id j then j else k) (dd_jobs st)"
  by (simp_all add: put_job_def)

lemma store_entry_id [simp]: "dj_id (store_entry env ip e s j) = dj_id j" "dj_status (store_entry env ip e s j) = s"
  by (simp_all add: store_entry_def)

lemma job_with_in: "job_with i st = Some j \<Longrightarrow> j \<in> set (dd_jobs st) \<and> dj_id j = i"
  by (auto simp: job_with_def dest: find_first_Some)

text \<open>A known entry is never written: the loaded value holds the change already.\<close>

lemma stored_known: "flush_law env \<Longrightarrow> assoc ip results = Some e \<Longrightarrow> stored_results env ip entry results = results"
  by (simp add: stored_results_def loaded_results_def flush_law_def)

lemma stored_new: "flush_law env \<Longrightarrow> assoc ip results = None \<Longrightarrow> stored_results env ip entry results = assoc_put ip entry results"
  by (auto simp: stored_results_def loaded_results_def flush_law_def)

lemma push_jobs: "dd_jobs (snd (push_update_command R env u a v st)) = dd_jobs st"
  by (auto simp: push_update_command_def Let_def split: option.split prod.split)

lemma token_jobs:
  "dd_jobs (snd (create_enroll_token env u label kind ttl remote local st)) = dd_jobs st"
  "dd_jobs (snd (revoke_enroll_token u i st)) = dd_jobs st"
  by (auto simp: create_enroll_token_def revoke_enroll_token_def split: option.split)

lemma create_jobs:
  "dd_jobs (snd (create_deploy_job env u kind v ts n p how st)) = dd_jobs st \<or>
   (\<exists>clean. dd_jobs (snd (create_deploy_job env u kind v ts n p how st)) = dd_jobs st @
      [\<lparr>dj_id = dd_next_job st, dj_agent_type = kind, dj_agent_version = v, dj_targets = clean, dj_status = ''manual_required'',
        dj_results = redacted_results clean\<rparr>])"
  by (auto simp: create_deploy_job_def Let_def split: sum.split)

text \<open>Everything a request does to a row of a job.\<close>

inductive job_step :: "deploy_job \<Rightarrow> deploy_job \<Rightarrow> bool" where
  job_same: "job_step j j"
| job_wait: "job_step j (j\<lparr>dj_status := ''waiting_approval''\<rparr>)"
| job_report: "List.member [''queued'', ''running'', ''ok'', ''failed''] status \<Longrightarrow>
    assoc ip (dj_results j) = Some e \<Longrightarrow>
    job_step j (j\<lparr>dj_status := job_status (dj_status j) (assoc_put ip
       (entry_update [(''status'', PStr status), (''log'', PStr msg)] e) (dj_results j))\<rparr>)"
| job_foreign: "List.member [''queued'', ''running'', ''ok'', ''failed''] status \<Longrightarrow>
    assoc ip (dj_results j) = None \<Longrightarrow>
    rs = assoc_put ip (entry_update [(''status'', PStr status), (''log'', PStr msg)] [(''method'', PStr ''ssh''), (''log'', PStr [])]) (dj_results j) \<Longrightarrow>
    job_step j (j\<lparr>dj_status := job_status (dj_status j) rs, dj_results := rs\<rparr>)"
| job_pin: "assoc ip (dj_results j) = Some e \<Longrightarrow> dict_get e ''status'' = PStr ''waiting_approval'' \<Longrightarrow> job_step j (j\<lparr>dj_status := s\<rparr>)"

lemma put_step:
  assumes "job_with i st = Some j" "job_step j k" "dj_id k = dj_id j" "m \<in> set (dd_jobs (put_job k st))"
  shows "\<exists>j0 \<in> set (dd_jobs st). dj_id m = dj_id j0 \<and> job_step j0 m"
proof (cases "m = k")
  case True
  then show ?thesis using job_with_in [OF assms(1)] assms(2,3) by (intro bexI [of _ j]) simp_all
next
  case False
  then have "m \<in> set (dd_jobs st)" using assms(4) by (auto split: if_splits)
  then show ?thesis using job_same by blast
qed

lemma unchanged_step: "dd_jobs st1 = dd_jobs st \<Longrightarrow> m \<in> set (dd_jobs st1) \<Longrightarrow> \<exists>j0 \<in> set (dd_jobs st). dj_id m = dj_id j0 \<and> job_step j0 m"
  using job_same by auto

lemma status_jobs:
  assumes "flush_law env" "List.member [''queued'', ''running'', ''ok'', ''failed''] status"
    "m \<in> set (dd_jobs (snd (update_job_status env u i ip status msg st)))"
  shows "\<exists>j0 \<in> set (dd_jobs st). dj_id m = dj_id j0 \<and> job_step j0 m"
proof (cases "deploy_operator u \<and> job_with i st \<noteq> None")
  case True
  then obtain j where op: "deploy_operator u" and j: "job_with i st = Some j" by auto
  let ?e = "entry_update [(''status'', PStr status), (''log'', PStr (last_chars 4000 (or_str msg [])))]
    (assoc_default [(''method'', PStr ''ssh''), (''log'', PStr [])] ip (dj_results j))"
  let ?rs = "assoc_put ip ?e (dj_results j)"
  have put: "m \<in> set (dd_jobs (put_job (store_entry env ip ?e (job_status (dj_status j) ?rs) j) st))"
    using assms(3) op j by (simp add: update_job_status_def Let_def)
  have "job_step j (store_entry env ip ?e (job_status (dj_status j) ?rs) j)"
  proof (cases "assoc ip (dj_results j)")
    case None
    then show ?thesis using job_foreign [OF assms(2) None refl, of "last_chars 4000 (or_str msg [])"]
      by (simp add: store_entry_def stored_new [OF assms(1)] assoc_default_def)
  next
    case (Some e)
    then show ?thesis using job_report [OF assms(2) Some, of "last_chars 4000 (or_str msg [])"]
      by (simp add: store_entry_def stored_known [OF assms(1)] assoc_default_def)
  qed
  from put_step [OF j this _ put] show ?thesis by simp
next
  case False
  then have "dd_jobs (snd (update_job_status env u i ip status msg st)) = dd_jobs st"
    by (auto simp: update_job_status_def split: option.split)
  from unchanged_step [OF this assms(3)] show ?thesis .
qed

lemma request_jobs:
  assumes "flush_law env" "m \<in> set (dd_jobs (snd (request_interactive_approval env u i ip pin st)))"
  shows "\<exists>j0 \<in> set (dd_jobs st). dj_id m = dj_id j0 \<and> job_step j0 m"
proof -
  consider (same) "dd_jobs (snd (request_interactive_approval env u i ip pin st)) = dd_jobs st"
    | (stored) j e x where "job_with i st = Some j" "assoc ip (dj_results j) = Some e"
        "snd (request_interactive_approval env u i ip pin st) = put_job (store_entry env ip x ''waiting_approval'' j) st"
  proof (cases "deploy_operator u \<and> (\<exists>j e. job_with i st = Some j \<and> assoc ip (dj_results j) = Some e \<and> e \<noteq> [])")
    case True
    then obtain j e where "deploy_operator u" "job_with i st = Some j" "assoc ip (dj_results j) = Some e" "e \<noteq> []" by blast
    then show thesis using that(2) [of j e] by (simp add: request_interactive_approval_def)
  next
    case False
    then show thesis using that(1) by (auto simp: request_interactive_approval_def split: option.split)
  qed
  then show ?thesis
  proof cases
    case stored
    have "store_entry env ip x ''waiting_approval'' j = j\<lparr>dj_status := ''waiting_approval''\<rparr>"
      by (simp add: store_entry_def stored_known [OF assms(1) stored(2)])
    with put_step [OF stored(1) job_wait] assms(2) stored(3) show ?thesis by simp
  qed (use assms(2) in \<open>auto intro: job_same\<close>)
qed

lemma wrong_pin_stores: "wrong_pin env ip e j = Inr k \<Longrightarrow> \<exists>x s. k = store_entry env ip x s j"
  by (auto simp: wrong_pin_def Let_def split: if_splits)

lemma approve_jobs:
  assumes "flush_law env" "m \<in> set (dd_jobs (snd (approve_job_remotely env ou token i ip pin st)))"
  shows "\<exists>j0 \<in> set (dd_jobs st). dj_id m = dj_id j0 \<and> job_step j0 m"
proof -
  consider (same) "dd_jobs (snd (approve_job_remotely env ou token i ip pin st)) = dd_jobs st"
    | (stored) j e x s where "job_with i st = Some j" "assoc ip (dj_results j) = Some e" "dict_get e ''status'' = PStr ''waiting_approval''"
        "snd (approve_job_remotely env ou token i ip pin st) = put_job (store_entry env ip x s j) st"
  proof (cases "\<exists>j e. job_with i st = Some j \<and> assoc ip (dj_results j) = Some e \<and> dict_get e ''status'' = PStr ''waiting_approval''")
    case True
    then obtain j e where j: "job_with i st = Some j" "assoc ip (dj_results j) = Some e" "dict_get e ''status'' = PStr ''waiting_approval''" by blast
    then have e: "e \<noteq> []" by (auto simp: dict_get_def)
    have "snd (approve_job_remotely env ou token i ip pin st) = st \<or>
        (\<exists>k. snd (approve_job_remotely env ou token i ip pin st) = put_job k st \<and> (wrong_pin env ip e j = Inr k \<or> k = granted env ip e j))"
      using j e by (cases "wrong_pin env ip e j") (auto simp: approve_job_remotely_def)
    then show thesis using that(1) that(2) [OF j] wrong_pin_stores [of env ip e j] granted_def [of env ip e j] by auto
  next
    case False
    then show thesis using that(1) by (auto simp: approve_job_remotely_def split: option.split)
  qed
  then show ?thesis
  proof cases
    case stored
    have "store_entry env ip x s j = j\<lparr>dj_status := s\<rparr>"
      by (simp add: store_entry_def stored_known [OF assms(1) stored(2)])
    with put_step [OF stored(1) job_pin [OF stored(2,3)]] assms(2) stored(4) show ?thesis by simp
  qed (use assms(2) in \<open>auto intro: job_same\<close>)
qed

lemma step_jobs:
  assumes "deploy_step R st st1" "m \<in> set (dd_jobs st1)"
  shows "(\<exists>j0 \<in> set (dd_jobs st). dj_id m = dj_id j0 \<and> job_step j0 m) \<or>
     dj_id m = dd_next_job st \<and> dj_status m = ''manual_required'' \<and> (\<exists>clean. dj_results m = redacted_results clean)"
  using assms
proof (cases rule: deploy_step.cases)
  case (step_create env u kind v ts n p how)
  from create_jobs [of env u kind v ts n p how st] show ?thesis
  proof
    assume "dd_jobs (snd (create_deploy_job env u kind v ts n p how st)) = dd_jobs st"
    from unchanged_step [OF this] assms(2) step_create(1) show ?thesis by simp
  next
    assume "\<exists>clean. dd_jobs (snd (create_deploy_job env u kind v ts n p how st)) = dd_jobs st @
      [\<lparr>dj_id = dd_next_job st, dj_agent_type = kind, dj_agent_version = v, dj_targets = clean, dj_status = ''manual_required'',
        dj_results = redacted_results clean\<rparr>]"
    then show ?thesis using assms(2) step_create(1) job_same by fastforce
  qed
next
  case (step_token env u label kind ttl remote local)
  then show ?thesis using unchanged_step [OF token_jobs(1)] assms(2) by blast
next
  case (step_revoke u i)
  then show ?thesis using unchanged_step [OF token_jobs(2)] assms(2) by blast
next
  case (step_push env u agent version)
  then show ?thesis using unchanged_step [OF push_jobs] assms(2) by blast
next
  case (step_status env status u i ip msg)
  then show ?thesis using status_jobs assms(2) by blast
next
  case (step_request env u i ip pin)
  then show ?thesis using request_jobs assms(2) by blast
next
  case (step_approve env ou token i ip pin)
  then show ?thesis using approve_jobs assms(2) by blast
qed

lemma put_ids [simp]: "map dj_id (dd_jobs (put_job k st)) = map dj_id (dd_jobs st)"
  by simp

lemma step_ids:
  assumes "deploy_step R st st1"
  shows "\<exists>new. map dj_id (dd_jobs st1) = map dj_id (dd_jobs st) @ new \<and> dd_next_job st1 = dd_next_job st + int (length new)"
  using assms
proof (cases rule: deploy_step.cases)
  case (step_token env u label kind ttl remote local)
  then show ?thesis by (auto simp: create_enroll_token_def)
next
  case (step_revoke u i)
  then show ?thesis by (auto simp: revoke_enroll_token_def split: option.split)
next
  case (step_push env u agent version)
  then show ?thesis by (auto simp: push_update_command_def Let_def split: option.split prod.split)
next
  case (step_create env u kind version targets name password how)
  then show ?thesis by (auto simp: create_deploy_job_def Let_def split: sum.split)
next
  case (step_status env status u i ip msg)
  then show ?thesis by (auto simp: update_job_status_def Let_def simp del: put_job_facts(2) split: option.split)
next
  case (step_request env u i ip pin)
  then show ?thesis by (auto simp: request_interactive_approval_def simp del: put_job_facts(2) split: option.split)
next
  case (step_approve env ou token i ip pin)
  have "snd (approve_job_remotely env ou token i ip pin st) = st \<or> (\<exists>k. snd (approve_job_remotely env ou token i ip pin st) = put_job k st)"
  proof (cases "job_with i st")
    case (Some j)
    show ?thesis
    proof (cases "assoc ip (dj_results j)")
      case (Some e)
      with \<open>job_with i st = Some j\<close> show ?thesis
        by (cases "wrong_pin env ip e j") (simp_all add: approve_job_remotely_def, blast+)
    qed (use Some in \<open>simp add: approve_job_remotely_def\<close>)
  qed (simp add: approve_job_remotely_def)
  then show ?thesis using step_approve(1) by (auto simp del: put_job_facts(2))
qed

lemma assoc_put_set: "set (assoc_put k v m) \<subseteq> insert (k, v) (set m)"
  by (induction k v m rule: assoc_put.induct) auto

lemma redacted_entry: "(ip, e) \<in> set (redacted_results clean) \<Longrightarrow> \<exists>how. e = queued_entry how"
proof -
  have "(ip, e) \<in> set (fold (\<lambda>(ip, how) m. assoc_put ip (queued_entry how) m) clean rs) \<Longrightarrow> (ip, e) \<in> set rs \<or> (\<exists>how. e = queued_entry how)" for rs
  proof (induction clean arbitrary: rs)
    case (Cons c clean)
    from Cons.IH [of "assoc_put (fst c) (queued_entry (snd c)) rs"] Cons.prems
    have "(ip, e) \<in> set (assoc_put (fst c) (queued_entry (snd c)) rs) \<or> (\<exists>how. e = queued_entry how)" by (simp add: case_prod_beta)
    then show ?case using assoc_put_set [of "fst c" "queued_entry (snd c)" rs] by auto
  qed simp
  then show "(ip, e) \<in> set (redacted_results clean) \<Longrightarrow> ?thesis" by (fastforce simp: redacted_results_def)
qed

lemma redacted_known: "ip \<in> fst ` set clean \<Longrightarrow> \<exists>how. assoc ip (redacted_results clean) = Some (queued_entry how)"
proof (induction clean rule: rev_induct)
  case (snoc c clean)
  then show ?case by (cases "ip = fst c") (auto simp: redacted_results_def case_prod_beta)
qed simp

lemma reported_entry_status: "dict_get (entry_update [(''status'', PStr s), (''log'', PStr l)] e) ''status'' = PStr s"
  by (simp add: entry_update_def dict_get_def)

subsection \<open>Approvals are never granted\<close>

definition not_waiting :: "deploy_job \<Rightarrow> bool" where
  "not_waiting j \<longleftrightarrow> (\<forall>ip e. (ip, e) \<in> set (dj_results j) \<longrightarrow> dict_get e ''status'' \<noteq> PStr ''waiting_approval'')"

lemma job_step_not_waiting:
  assumes "job_step j m" "not_waiting j"
  shows "not_waiting m"
  using assms
proof (cases rule: job_step.cases)
  case (job_foreign status ip rs msg)
  have "status \<noteq> ''waiting_approval''" using job_foreign(2) by auto
  then have "dict_get (entry_update [(''status'', PStr status), (''log'', PStr msg)] [(''method'', PStr ''ssh''), (''log'', PStr [])]) ''status'' \<noteq> PStr ''waiting_approval''"
    by (simp add: reported_entry_status)
  then show ?thesis using assms(2) job_foreign(1,4) assoc_put_set [of ip _ "dj_results j"]
    by (auto simp: not_waiting_def dest!: subsetD)
qed (auto simp: not_waiting_def)

lemma steps_not_waiting:
  assumes "(deploy_step R)\<^sup>*\<^sup>* st st1" "\<forall>j \<in> set (dd_jobs st). not_waiting j"
  shows "\<forall>j \<in> set (dd_jobs st1). not_waiting j"
  using assms
proof (induction rule: rtranclp_induct)
  case (step st1 st2)
  show ?case
  proof
    fix m assume "m \<in> set (dd_jobs st2)"
    from step_jobs [OF step.hyps(2) this] step.IH [OF step.prems] show "not_waiting m"
      using job_step_not_waiting redacted_entry by (fastforce simp: not_waiting_def queued_entry_def dict_get_def)
  qed
qed simp


subsection \<open>Rollouts of several targets\<close>

definition still_open :: "string set \<Rightarrow> deploy_job \<Rightarrow> bool" where
  "still_open T j \<longleftrightarrow> not_waiting j \<and> dj_status j \<in> {''manual_required'', ''running'', ''waiting_approval''} \<and>
     (\<forall>ip \<in> T. \<exists>how. assoc ip (dj_results j) = Some (queued_entry how))"

lemma queued_member: "assoc ip rs = Some (queued_entry how) \<Longrightarrow> List.member (map (\<lambda>(ip, e). dict_get e ''status'') rs) (PStr ''queued'')"
  by (force dest: assoc_in_set simp: queued_entry_def dict_get_def)

lemma job_status_running:
  assumes "assoc ip rs = Some (queued_entry how)"
  shows "job_status s rs = ''running''"
proof -
  note q = queued_member [OF assms]
  then have "\<not> list_all (\<lambda>s. s = PStr ''ok'' \<or> s = PStr ''failed'') (map (\<lambda>(ip, e). dict_get e ''status'') rs)"
    by (fastforce simp: list_all_iff)
  then show ?thesis using q by (simp add: job_status_def Let_def)
qed

lemma job_step_open:
  assumes "job_step j m" "still_open T j" "a \<in> T" "b \<in> T" "a \<noteq> b"
  shows "still_open T m"
  using assms(1)
proof (cases rule: job_step.cases)
  case (job_report status ip e msg)
  define c where "c = (if ip = a then b else a)"
  then have c: "c \<in> T" "ip \<noteq> c" using assms(3-5) by auto
  then obtain how where "assoc c (dj_results j) = Some (queued_entry how)" using assms(2) by (auto simp: still_open_def)
  then have "assoc c (assoc_put ip (entry_update [(''status'', PStr status), (''log'', PStr msg)] e) (dj_results j)) = Some (queued_entry how)"
    using c(2) by simp
  from job_status_running [OF this] show ?thesis using job_report(1) assms(2) by (simp add: still_open_def not_waiting_def)
next
  case (job_foreign status ip rs msg)
  have keep: "assoc x rs = Some (queued_entry how)" if "assoc x (dj_results j) = Some (queued_entry how)" for x how
    using that job_foreign(3,4) by (cases "x = ip") auto
  obtain how where "assoc a (dj_results j) = Some (queued_entry how)" using assms(2,3) by (auto simp: still_open_def)
  from job_status_running [OF keep [OF this]] job_step_not_waiting [OF assms(1)] assms(2) show ?thesis
    using job_foreign(1) keep by (fastforce simp: still_open_def)
next
  case (job_pin ip e s)
  then show ?thesis using assms(2) assoc_in_set [OF job_pin(2)] by (auto simp: still_open_def not_waiting_def)
qed (use assms(2) in \<open>auto simp: still_open_def not_waiting_def\<close>)

lemma steps_open:
  assumes "(deploy_step R)\<^sup>*\<^sup>* st st1" "i < dd_next_job st" "i \<in> set (map dj_id (dd_jobs st))"
    "\<forall>j \<in> set (dd_jobs st). dj_id j = i \<longrightarrow> still_open T j" "a \<in> T" "b \<in> T" "a \<noteq> b"
  shows "i < dd_next_job st1 \<and> i \<in> set (map dj_id (dd_jobs st1)) \<and> (\<forall>j \<in> set (dd_jobs st1). dj_id j = i \<longrightarrow> still_open T j)"
  using assms(1)
proof (induction rule: rtranclp_induct)
  case (step st1 st2)
  obtain new where new: "map dj_id (dd_jobs st2) = map dj_id (dd_jobs st1) @ new" "dd_next_job st2 = dd_next_job st1 + int (length new)"
    using step_ids [OF step.hyps(2)] by blast
  have "still_open T m" if "m \<in> set (dd_jobs st2)" "dj_id m = i" for m
    using step_jobs [OF step.hyps(2) that(1)] step.IH that(2) job_step_open [OF _ _ assms(5-7)] by fastforce
  then show ?case using new step.IH by simp
qed (use assms(2-4) in simp)


subsection \<open>Witnesses\<close>

definition demo_deploy :: "deploy_env" where
  "demo_deploy = \<lparr>dy_now = 10, dy_sha256 = id, dy_hmac = (\<lambda>k m. k @ m), dy_jwt_secret = ''s'', dy_enroll_key = ''k'',
     dy_base_url = ''https://b'', dy_strict = False, dy_fresh = ''t'', dy_ip_ok = (\<lambda>_. True), dy_uuid = Some,
     dy_files = [(''nodetrace-1.zip'', ''data'')], dy_canonical = (\<lambda>_. []), dy_manifest_sign = None, dy_differs = (\<lambda>a b. a \<noteq> b)\<rparr>"

definition demo_operator :: user_row where
  "demo_operator = \<lparr>us_id = 1, us_username = ''op'', us_role = Some ''admin''\<rparr>"

definition no_deploys :: "(string \<times> rval) list deploy_state" where
  "no_deploys = \<lparr>dd_jobs = [], dd_next_job = 1, dd_install = [], dd_next_token = 1, dd_notes = [],
     dd_tables = \<lparr>tb_alerts = [], tb_agents = [], tb_users = [], tb_incidents = [], tb_links = [], tb_next = 1, tb_audit = []\<rparr>, dd_redis = []\<rparr>"

definition demo_rollout :: "(int \<times> string \<times> (string \<times> string) list) result \<times> (string \<times> rval) list deploy_state" where
  "demo_rollout = create_deploy_job demo_deploy demo_operator ''nodetrace'' ''1''
     [[(''ip_address'', PStr ''a'')], [(''ip_address'', PStr ''b'')]] None None ''oneline'' no_deploys"

lemma demo_flush: "flush_law demo_deploy"
  by (simp add: flush_law_def demo_deploy_def)


text \<open>With a session that writes every assigned value the right PIN and token are accepted.\<close>

lemma approval_would_be_granted:
  "let env = demo_deploy\<lparr>dy_differs := (\<lambda>a b. True)\<rparr>;
       asked = snd (request_interactive_approval env demo_operator 1 ''a'' ''123456'' (snd demo_rollout)) in
     is_ok (fst (approve_job_remotely env None (Some ''t'') 1 ''a'' ''123456'' asked)) \<and>
     \<not> is_ok (fst (approve_job_remotely env None (Some ''t'') 1 ''a'' ''654321'' asked)) \<and>
     \<not> is_ok (fst (approve_job_remotely env None (Some ''u'') 1 ''a'' ''123456'' asked))"
  by code_simp


text \<open>A job for one target does end.\<close>

lemma rollout_of_one_ends:
  "let made = snd (create_deploy_job demo_deploy demo_operator ''nodetrace'' ''1'' [[(''ip_address'', PStr ''a'')]] None None ''oneline'' no_deploys) in
     map dj_status (dd_jobs (snd (update_job_status demo_deploy demo_operator 1 ''a'' ''ok'' None made))) = [''done'']"
  by code_simp

subsection \<open>Packages\<close>

lemma split_char_free: "w \<in> set (split_char c s) \<Longrightarrow> c \<notin> set w"
proof (induction c s arbitrary: w rule: split_char.induct)
  case (2 sep c s)
  then show ?case by (cases "split_char sep s") (auto split: if_splits)
qed simp

lemma package_name_free: "CHR ''/'' \<notin> set (package_name s)"
proof (cases "filter (\<lambda>w. w \<noteq> [] \<and> w \<noteq> ''.'') (split_char CHR ''/'' s)")
  case (Cons w ws)
  then have "last (w # ws) \<in> set (split_char CHR ''/'' s)" by (metis filter_is_subset last_in_set list.discI subsetD)
  moreover have "package_name s = last (w # ws)" using Cons by (simp add: package_name_def)
  ultimately show ?thesis using split_char_free by metis
qed (simp add: package_name_def)

text \<open>
  C27: only published packages leave the server: whatever name is asked for, the data of an answer is that of a file
  directly in the directory of packages, not a hidden one; without the credentials of an agent it is also a package of
  a type the token allows, and the token is known, not revoked and not expired.
\<close>

theorem only_published_packages_are_served:
  "(serve_artifact env name = Inr data \<longrightarrow>
      (\<exists>f. assoc f (dy_files env) = Some data \<and> CHR ''/'' \<notin> set f \<and> f \<noteq> [] \<and> \<not> startswith f ''.'')) \<and>
   (bootstrap_artifact env name raw st = Inr data \<longrightarrow>
      (\<exists>f t. assoc f (dy_files env) = Some data \<and> CHR ''/'' \<notin> set f \<and> f \<noteq> [] \<and> \<not> startswith f ''.'' \<and>
         t \<in> set (dd_install st) \<and> \<not> et_revoked t \<and> (\<forall>e. et_expires_at t = Some e \<longrightarrow> dy_now env \<le> e) \<and>
         (\<exists>kind. kind \<in> set BOTH_TYPES \<union> {et_agent_type t} \<and> (et_agent_type t = ''both'' \<or> kind = et_agent_type t) \<and>
            startswith f (kind @ ''-''))))"
proof (intro conjI impI)
  show "\<exists>f. assoc f (dy_files env) = Some data \<and> CHR ''/'' \<notin> set f \<and> f \<noteq> [] \<and> \<not> startswith f ''.''"
    if "serve_artifact env name = Inr data"
    using that package_name_free [of name]
    by (intro exI [of _ "package_name name"]) (auto simp: serve_artifact_def Let_def split: if_splits option.splits)
next
  assume b: "bootstrap_artifact env name raw st = Inr data"
  then obtain t where t: "validate_install_token env raw st = Inr t" by (auto simp: bootstrap_artifact_def)
  have live: "t \<in> set (dd_install st)" "\<not> et_revoked t" "\<forall>e. et_expires_at t = Some e \<longrightarrow> dy_now env \<le> e"
    using t by (auto simp: validate_install_token_def not_less dest!: find_first_Some split: if_splits option.splits)
  have f: "package_name name \<noteq> []" "\<not> startswith (package_name name) ''.''" "assoc (package_name name) (dy_files env) = Some data"
    "list_ex (\<lambda>k. startswith (package_name name) (k @ ''-'')) (if et_agent_type t \<noteq> ''both'' then [et_agent_type t] else BOTH_TYPES)"
    using b t by (auto simp: bootstrap_artifact_def Let_def split: if_splits option.splits)
  then have "\<exists>kind. kind \<in> set BOTH_TYPES \<union> {et_agent_type t} \<and> (et_agent_type t = ''both'' \<or> kind = et_agent_type t) \<and>
      startswith (package_name name) (kind @ ''-'')"
    by (auto simp: list_ex_iff split: if_splits)
  with f live package_name_free [of name] show "\<exists>f t. assoc f (dy_files env) = Some data \<and> CHR ''/'' \<notin> set f \<and> f \<noteq> [] \<and>
      \<not> startswith f ''.'' \<and> t \<in> set (dd_install st) \<and> \<not> et_revoked t \<and> (\<forall>e. et_expires_at t = Some e \<longrightarrow> dy_now env \<le> e) \<and>
      (\<exists>kind. kind \<in> set BOTH_TYPES \<union> {et_agent_type t} \<and> (et_agent_type t = ''both'' \<or> kind = et_agent_type t) \<and>
         startswith f (kind @ ''-''))" by blast
qed

lemma only_published_packages_are_served_witness:
  "let st = snd (create_enroll_token demo_deploy demo_operator None ''nodetrace'' 15 True False no_deploys) in
     serve_artifact demo_deploy ''x/nodetrace-1.zip'' = Inr ''data'' \<and>
     bootstrap_artifact demo_deploy ''x/nodetrace-1.zip'' (Some '' t '') st = Inr ''data'' \<and>
     (\<exists>f. assoc f (dy_files demo_deploy) = Some ''data'' \<and> CHR ''/'' \<notin> set f) \<and> (\<exists>t \<in> set (dd_install st). \<not> et_revoked t)"
proof -
  let ?st = "snd (create_enroll_token demo_deploy demo_operator None ''nodetrace'' 15 True False no_deploys)"
  have "serve_artifact demo_deploy ''x/nodetrace-1.zip'' = Inr ''data''"
    "bootstrap_artifact demo_deploy ''x/nodetrace-1.zip'' (Some '' t '') ?st = Inr ''data''" by code_simp+
  then show ?thesis
    using only_published_packages_are_served [of demo_deploy "''x/nodetrace-1.zip''" "''data''" "Some '' t ''" ?st]
    unfolding Let_def by blast
qed

end
