(* ===== verification/Node_Update.thy ===== *)
theory Node_Update
  imports Deploy Json Regex_Groups Pytext
begin

section \<open>Updates of a NodeTrace agent\<close>

text \<open>
  \<open>src/NodeTrace/agents/python/services/updater.py\<close>, the update command of \<open>agent.py\<close>, \<open>check_server_pin\<close> of
  \<open>token_service.py\<close> and \<open>linux_probe.py\<close>.  The state is what the agent has staged and what it acknowledged.  Parameters:
  HMAC and SHA-256, the check of an Ed25519 signature (\<open>None\<close> when the package is missing), the download, the
  environment variables, the check of a bracketed host of \<open>urllib.parse\<close>, the reader of JSON floats.
\<close>

subsection \<open>Addresses\<close>

text \<open>\<open>urllib.parse.urlparse\<close>: scheme, host and path; \<open>None\<close> is \<open>ValueError\<close>.\<close>

record url =
  ur_scheme :: string
  ur_netloc :: string
  ur_path :: string

definition scheme_char :: "char \<Rightarrow> bool" where
  "scheme_char c \<longleftrightarrow> code c \<in> {43, 45, 46} \<or> 48 \<le> code c \<and> code c \<le> 57 \<or> 65 \<le> code c \<and> code c \<le> 90 \<or> 97 \<le> code c \<and> code c \<le> 122"

definition url_alpha :: "char \<Rightarrow> bool" where
  "url_alpha c \<longleftrightarrow> 65 \<le> code c \<and> code c \<le> 90 \<or> 97 \<le> code c \<and> code c \<le> 122"

definition url_clean :: "string \<Rightarrow> string" where
  "url_clean s = filter (\<lambda>c. code c \<notin> {9, 10, 13}) (dropWhile (\<lambda>c. code c \<le> 32) s)"

definition url_scheme :: "string \<Rightarrow> string \<times> string" where
  "url_scheme s =
     (let p = takeWhile (\<lambda>c. c \<noteq> CHR '':'') s in
      if p \<noteq> s \<and> p \<noteq> [] \<and> url_alpha (hd p) \<and> list_all scheme_char p then (lower p, drop (Suc (length p)) s) else ([], s))"

definition url_authority :: "string \<Rightarrow> string \<times> string" where
  "url_authority s = (if startswith s ''//''
     then (takeWhile (\<lambda>c. c \<notin> set ''/?#'') (drop 2 s), dropWhile (\<lambda>c. c \<notin> set ''/?#'') (drop 2 s)) else ([], s))"

definition url_path :: "string \<Rightarrow> string" where
  "url_path s =
     (let p = takeWhile (\<lambda>c. c \<noteq> CHR ''?'') (takeWhile (\<lambda>c. c \<noteq> CHR ''#'') s) in
      take (length p - length (after_last CHR ''/'' p)) p @ takeWhile (\<lambda>c. c \<noteq> CHR '';'') (after_last CHR ''/'' p))"

definition urlparse :: "(string \<Rightarrow> bool) \<Rightarrow> string \<Rightarrow> url option" where
  "urlparse bracketed s =
     (case url_scheme (url_clean s) of (scheme, r) \<Rightarrow> (case url_authority r of (netloc, p) \<Rightarrow>
        if (CHR ''['' \<in> set netloc) \<noteq> (CHR '']'' \<in> set netloc) \<or> CHR ''['' \<in> set netloc \<and> \<not> bracketed netloc then None
        else Some \<lparr>ur_scheme = scheme, ur_netloc = netloc, ur_path = url_path p\<rparr>))"

definition url_origin :: "url \<Rightarrow> string" where
  "url_origin u = lower (rstrip_slash (ur_scheme u @ ''://'' @ ur_netloc u))"

record node_env =
  na_hmac :: "string \<Rightarrow> string \<Rightarrow> string"
  na_sha256 :: "string \<Rightarrow> string"
  na_enroll_key :: "string option"
  na_pubkey :: string
  na_ed25519 :: "string \<Rightarrow> string \<Rightarrow> string \<Rightarrow> bool option"
  na_floats :: float_reader
  na_bracketed :: "string \<Rightarrow> bool"
  na_heartbeat_url :: string
  na_download :: "string \<Rightarrow> string result"
  na_temp :: string
  na_workdir :: string

definition brain_origin :: "node_env \<Rightarrow> string" where
  "brain_origin env = (case urlparse (na_bracketed env) (na_heartbeat_url env) of None \<Rightarrow> [] | Some u \<Rightarrow> url_origin u)"

definition update_url_allowed :: "node_env \<Rightarrow> string \<Rightarrow> bool" where
  "update_url_allowed env s =
     (case urlparse (na_bracketed env) s of None \<Rightarrow> False
      | Some u \<Rightarrow> List.member [''https'', ''http''] (ur_scheme u) \<and> url_origin u \<noteq> [] \<and> url_origin u = brain_origin env \<and>
          startswith (ur_path u) ''/api/v1/deploy/artifacts/'')"

definition check_server_pin :: "string option \<Rightarrow> string option \<Rightarrow> string option" where
  "check_server_pin stored current =
     (let c0 = strip (or_str current []) in
      if c0 = [] then Some ''register URL non configurato''
      else if \<not> truthy stored \<or> strip (or_str stored []) = [] then None
      else if lower (rstrip_slash (strip (or_str stored []))) = lower (rstrip_slash c0) then None
      else Some (''Server cambiato (stored='' @ rstrip_slash (strip (or_str stored [])) @ '' current='' @ rstrip_slash c0 @
        ''): re-enroll richiesto, rifiuto connessioni''))"

subsection \<open>Signatures and versions\<close>

definition verify_signature :: "node_env \<Rightarrow> string \<Rightarrow> string \<Rightarrow> string option \<Rightarrow> bool" where
  "verify_signature env digest signature key =
     (digest \<noteq> [] \<and> signature \<noteq> [] \<and> truthy key \<and> strip (or_str key []) \<noteq> [] \<and>
      na_hmac env (or_str key []) (strip digest) = lower (strip signature))"

definition leading_digits :: "string \<Rightarrow> nat" where
  "leading_digits p = (let ds = takeWhile is_digit p in if ds = [] then 0 else read_nat ds)"

definition parse_version :: "string option \<Rightarrow> int list" where
  "parse_version v = (if \<not> truthy v then []
     else map (\<lambda>p. int (leading_digits p)) (split_char CHR ''.'' (dropWhile (\<lambda>c. c \<in> set ''vV'') (strip (or_str v [])))))"

definition is_newer :: "string option \<Rightarrow> string option \<Rightarrow> bool" where
  "is_newer current target \<longleftrightarrow> \<not> truthy target \<or> lower (strip (or_str target [])) = ''latest'' \<or> \<not> truthy current \<or>
     ints_less (parse_version current) (parse_version target)"

definition verify_manifest_ed25519 :: "node_env \<Rightarrow> string \<Rightarrow> string \<Rightarrow> string \<Rightarrow> bool option" where
  "verify_manifest_ed25519 env manifest signature pubkey =
     (if manifest = [] \<or> signature = [] \<or> strip pubkey = [] then Some False
      else na_ed25519 env manifest (strip signature) (strip pubkey))"

definition covers_entry :: "string \<Rightarrow> string \<Rightarrow> pyval \<Rightarrow> bool" where
  "covers_entry name digest a = (case a of PDict d \<Rightarrow> dict_get d ''name'' = PStr name \<and>
       lower (py_str (dict_get_or d ''sha256'' (PStr []))) = lower (strip digest) | _ \<Rightarrow> False)"

definition manifest_covers :: "node_env \<Rightarrow> string \<Rightarrow> string \<Rightarrow> string \<Rightarrow> bool" where
  "manifest_covers env manifest name digest =
     (manifest \<noteq> [] \<and> name \<noteq> [] \<and> digest \<noteq> [] \<and>
      (case json_loads (na_floats env) manifest of
         Some (PDict doc) \<Rightarrow> (case py_iter (py_or (dict_get doc ''artifacts'') (PList [])) of Inl x \<Rightarrow> False
           | Inr items \<Rightarrow> list_ex (covers_entry name digest) items)
       | _ \<Rightarrow> False))"

subsection \<open>Staging\<close>

record staged =
  sg_path :: string
  sg_data :: string
  sg_state :: string

record node_state =
  ns_staged :: "staged option"
  ns_acks :: "(string \<times> string \<times> string) list"

definition state_body :: "string \<Rightarrow> string \<Rightarrow> string" where
  "state_body path digest = ''staged='' @ path @ [CHR 0x0A] @ ''sha256='' @ digest @ [CHR 0x0A] @ ''status=pending-restart'' @ [CHR 0x0A]"

text \<open>\<open>stage_package\<close>: the versions are optional; the agent passes none.\<close>

definition stage_package ::
  "node_env \<Rightarrow> string \<Rightarrow> string \<Rightarrow> string option \<Rightarrow> string option \<Rightarrow> staged result" where
  "stage_package env data expected current target =
     (let actual = na_sha256 env data; path = na_workdir env @ ''/update.pending/'' @ after_last CHR ''/'' (na_temp env) in
      if target \<noteq> None \<and> \<not> is_newer current target then Inl (ValueError ''Rollback rifiutato'')
      else if actual \<noteq> lower (strip expected) then Inl (ValueError ''SHA-256 mismatch'')
      else Inr \<lparr>sg_path = path, sg_data = data, sg_state = state_body path actual\<rparr>)"

definition seal_staged_state :: "node_env \<Rightarrow> string option \<Rightarrow> string \<Rightarrow> string result" where
  "seal_staged_state env secret body =
     (if strip (or_str secret []) = [] then Inl (ValueError ''seal_staged_state: secret mancante'')
      else if py_in ''mac='' body then Inl (ValueError ''update.state gia' sigillato'')
      else Inr (body @ ''mac='' @ na_hmac env (or_str secret []) body @ [CHR 0x0A]))"

definition state_values :: "string \<Rightarrow> (string \<times> string) list" where
  "state_values text = fold (\<lambda>l m. case split1 CHR ''='' l of (k, None) \<Rightarrow> m | (k, Some v) \<Rightarrow> assoc_put (strip k) (strip v) m)
     (splitlines text) []"

definition verify_staged_state :: "node_env \<Rightarrow> string option \<Rightarrow> string \<Rightarrow> (string \<times> string) result" where
  "verify_staged_state env secret text =
     (if strip (or_str secret []) = [] then Inl (ValueError ''verify_staged_state: secret mancante'')
      else let vals = state_values text in
        (case (assoc_default [] ''staged'' vals, assoc_default [] ''sha256'' vals, assoc_default [] ''mac'' vals) of
          (staged, digest, mac) \<Rightarrow>
            if staged = [] \<or> digest = [] \<or> mac = [] then Inl (ValueError ''update.state incompleto o manomesso'')
            else if na_hmac env (or_str secret []) (state_body staged digest) \<noteq> lower mac
            then Inl (ValueError ''update.state MAC invalido: possibile tampering'')
            else Inr (staged, digest)))"

subsection \<open>The update command\<close>

definition ack :: "string \<Rightarrow> string \<Rightarrow> node_state \<Rightarrow> node_state" where
  "ack status details st = st\<lparr>ns_acks := ns_acks st @ [(''UPDATE_AGENT'', status, details)]\<rparr>"

text \<open>The values of a command are texts, as the server writes them; anything else is refused like a missing text.\<close>

definition command_text :: "pydict \<Rightarrow> string \<Rightarrow> string" where
  "command_text command k = (case dict_get_or command k (PStr []) of PStr s \<Rightarrow> s | _ \<Rightarrow> [])"

definition manifest_verdict :: "node_env \<Rightarrow> pydict \<Rightarrow> string \<Rightarrow> string \<Rightarrow> string option" where
  "manifest_verdict env command addr digest =
     (let manifest = command_text command ''manifest''; sig = command_text command ''manifest_sig'';
          name = after_last CHR ''/'' addr
      in if strip (na_pubkey env) = [] then None
         else (case (if manifest \<noteq> [] \<and> sig \<noteq> [] then verify_manifest_ed25519 env manifest sig (strip (na_pubkey env)) else Some False) of
             None \<Rightarrow> Some ''manifest needs cryptography lib''
           | Some ok \<Rightarrow> if \<not> ok \<or> \<not> manifest_covers env manifest name digest then Some ''bad manifest'' else None))"

text \<open>The guards before the download: the reason of a refusal.\<close>

definition update_refusal :: "node_env \<Rightarrow> pydict \<Rightarrow> string \<Rightarrow> string \<Rightarrow> string \<Rightarrow> string option" where
  "update_refusal env command addr digest sig =
     (if addr = [] \<or> digest = [] \<or> sig = [] then Some ''missing url/sha256/signature''
      else if na_enroll_key env = None then Some ''no enroll key''
      else if \<not> verify_signature env digest sig (na_enroll_key env) then Some ''bad signature''
      else if \<not> update_url_allowed env addr then Some ''url not allowed''
      else manifest_verdict env command addr digest)"

text \<open>The text of an exception is left out of the acknowledgement.\<close>

definition run_update_command :: "node_env \<Rightarrow> pydict \<Rightarrow> node_state \<Rightarrow> node_state" where
  "run_update_command env command st =
     (let addr = command_text command ''url''; digest = command_text command ''sha256''; sig = command_text command ''signature'';
          version = py_str (dict_get_or command ''version'' (PStr ''latest''))
      in case update_refusal env command addr digest sig of
           Some why \<Rightarrow> ack ''failed'' why st
         | None \<Rightarrow> (case bind_result (na_download env addr) (\<lambda>data. stage_package env data digest None None) of
             Inl x \<Rightarrow> ack ''failed'' ''error'' st
           | Inr s \<Rightarrow> ack ''ok'' (''staged v'' @ version) (st\<lparr>ns_staged := Some s\<rparr>)))"

subsection \<open>What is staged\<close>

lemma strip_idem: "strip (strip s) = strip s"
proof -
  have t: "\<exists>u. t = rstrip t @ u" for t
    by (metis rev_append rev_rev_ident rstrip_def takeWhile_dropWhile_id)
  have "lstrip (rstrip (lstrip s)) = rstrip (lstrip s)"
  proof (cases "rstrip (lstrip s)")
    case (Cons c r)
    obtain u where "lstrip s = (c # r) @ u" using t [of "lstrip s"] Cons by auto
    then have "\<not> is_space c" using hd_dropWhile [of is_space s] by (auto simp: lstrip_def)
    then show ?thesis using Cons by (simp add: lstrip_def)
  qed (simp add: lstrip_def)
  then show ?thesis by (simp add: strip_def) (simp add: rstrip_def)
qed

lemma update_refusal_None:
  assumes "update_refusal env command addr digest sig = None"
  shows "\<exists>key. na_enroll_key env = Some key \<and> strip key \<noteq> [] \<and> na_hmac env key (strip digest) = lower (strip sig) \<and>
     update_url_allowed env addr \<and>
     (if strip (na_pubkey env) = [] then True
      else na_ed25519 env (command_text command ''manifest'') (strip (command_text command ''manifest_sig'')) (strip (na_pubkey env)) = Some True \<and>
        manifest_covers env (command_text command ''manifest'') (after_last CHR ''/'' addr) digest)"
proof -
  obtain key where key: "na_enroll_key env = Some key" using assms by (cases "na_enroll_key env") (auto simp: update_refusal_def split: if_splits)
  have v: "verify_signature env digest sig (Some key)" "update_url_allowed env addr" "manifest_verdict env command addr digest = None"
    using assms key by (auto simp: update_refusal_def split: if_splits)
  have "strip key \<noteq> []" "na_hmac env key (strip digest) = lower (strip sig)"
    using v(1) by (auto simp: verify_signature_def truthy_def)
  moreover have "strip (na_pubkey env) \<noteq> [] \<Longrightarrow>
      na_ed25519 env (command_text command ''manifest'') (strip (command_text command ''manifest_sig'')) (strip (na_pubkey env)) = Some True \<and>
      manifest_covers env (command_text command ''manifest'') (after_last CHR ''/'' addr) digest"
    using v(3) strip_idem [of "na_pubkey env"]
    by (auto simp: manifest_verdict_def verify_manifest_ed25519_def Let_def split: if_splits option.splits)
  ultimately show ?thesis using key v(2) by auto
qed

text \<open>
  C3: an update is staged only if it is authentic: either nothing is staged and the failure is acknowledged, or the digest
  of the command carries the HMAC of the agent's own key, the address is a package of the server the agent belongs to,
  the manifest is signed and names the package with this digest where a public key is configured, and what is
  staged is the downloaded data, of exactly this digest.
\<close>

theorem only_authentic_updates_are_staged:
  "(\<exists>why. run_update_command env command st = ack ''failed'' why st) \<or>
   (\<exists>key data s addr digest.
      addr = command_text command ''url'' \<and> digest = command_text command ''sha256'' \<and>
      ns_staged (run_update_command env command st) = Some s \<and> sg_data s = data \<and>
      na_enroll_key env = Some key \<and> strip key \<noteq> [] \<and>
      na_hmac env key (strip digest) = lower (strip (command_text command ''signature'')) \<and>
      update_url_allowed env addr \<and> na_download env addr = Inr data \<and> na_sha256 env data = lower (strip digest) \<and>
      (if strip (na_pubkey env) = [] then True
       else na_ed25519 env (command_text command ''manifest'') (strip (command_text command ''manifest_sig'')) (strip (na_pubkey env)) = Some True \<and>
         manifest_covers env (command_text command ''manifest'') (after_last CHR ''/'' addr) digest))"
proof -
  let ?a = "command_text command ''url''" and ?d = "command_text command ''sha256''" and ?s = "command_text command ''signature''"
  show ?thesis
  proof (cases "update_refusal env command ?a ?d ?s")
    case (Some why)
    then have "run_update_command env command st = ack ''failed'' why st" by (simp add: run_update_command_def)
    then show ?thesis by blast
  next
    case None
    show ?thesis
    proof (cases "bind_result (na_download env ?a) (\<lambda>data. stage_package env data ?d None None)")
      case (Inl x)
      then have "run_update_command env command st = ack ''failed'' ''error'' st" using None by (simp add: run_update_command_def)
      then show ?thesis by blast
    next
      case (Inr s)
      then obtain data where data: "na_download env ?a = Inr data" "stage_package env data ?d None None = Inr s" by auto
      then have "sg_data s = data" "na_sha256 env data = lower (strip ?d)" by (auto simp: stage_package_def Let_def split: if_splits)
      moreover have "ns_staged (run_update_command env command st) = Some s" using None Inr
        by (simp add: run_update_command_def ack_def del: bind_result_Inr_iff)
      ultimately show ?thesis using update_refusal_None [OF None] data(1) by auto
    qed
  qed
qed

subsection \<open>An update from the server to the agent\<close>

definition host_text :: "string \<Rightarrow> bool" where
  "host_text s \<longleftrightarrow> s \<noteq> [] \<and> list_all (\<lambda>c. 32 < code c \<and> c \<notin> set ''/?#[]'') s"

definition path_text :: "string \<Rightarrow> bool" where
  "path_text s \<longleftrightarrow> list_all (\<lambda>c. 32 < code c \<and> c \<notin> set ''?#'') s"

definition hex_text :: "string \<Rightarrow> bool" where
  "hex_text s \<longleftrightarrow> s \<noteq> [] \<and> list_all (\<lambda>c. c \<in> set ''0123456789abcdef'') s"

lemma hex_char: "c \<in> set ''0123456789abcdef'' \<Longrightarrow> lower_char c = c \<and> \<not> is_space c"
  by (auto simp: lower_char_def is_space_def code_def)

lemma hex_facts:
  assumes "hex_text s"
  shows "lower s = s" "strip s = s" "s \<noteq> []"
proof -
  have c: "\<forall>c \<in> set s. lower_char c = c \<and> \<not> is_space c" using assms hex_char by (auto simp: hex_text_def list_all_iff simp del: set_simps)
  then show "lower s = s" by (simp add: lower_def map_idI)
  show "s \<noteq> []" using assms by (simp add: hex_text_def)
  then show "strip s = s" using c by (intro strip_id) simp
qed

lemma url_clean_plain: "\<forall>c \<in> set s. 32 < code c \<Longrightarrow> url_clean s = s"
  by (cases s) (auto simp: url_clean_def intro!: filter_True)

lemma takeWhile_stop: "\<forall>c \<in> set xs. P c \<Longrightarrow> \<not> P y \<Longrightarrow> takeWhile P (xs @ y # ys) = xs \<and> dropWhile P (xs @ y # ys) = y # ys"
  by (induction xs) auto

lemma urlparse_plain:
  assumes "scheme \<in> {''http'', ''https''}" "host_text host" "path_text p"
  shows "urlparse br (scheme @ ''://'' @ host @ CHR ''/'' # p) = Some \<lparr>ur_scheme = scheme, ur_netloc = host, ur_path = url_path (CHR ''/'' # p)\<rparr>"
proof -
  let ?s = "scheme @ ''://'' @ host @ CHR ''/'' # p"
  have "\<forall>c \<in> set host. 32 < code c" "\<forall>c \<in> set p. 32 < code c" using assms(2,3) by (auto simp: host_text_def path_text_def list_all_iff)
  moreover have "\<forall>c \<in> set scheme. 32 < code c" using assms(1) by (auto simp: code_def)
  moreover have "32 < code CHR '':''" "32 < code CHR ''/''" by (simp_all add: code_def)
  ultimately have "\<forall>c \<in> set ?s. 32 < code c" by (simp add: ball_Un)
  note clean = url_clean_plain [OF this]
  have sch: "url_scheme ?s = (scheme, ''//'' @ host @ CHR ''/'' # p)"
    using assms(1) by (auto simp: url_scheme_def Let_def url_alpha_def scheme_char_def lower_def lower_char_def code_def)
  have "\<forall>c \<in> set host. c \<notin> set ''/?#''" using assms(2) by (auto simp: host_text_def list_all_iff)
  from takeWhile_stop [OF this, of "CHR ''/''" p]
  have auth: "url_authority (''//'' @ host @ CHR ''/'' # p) = (host, CHR ''/'' # p)" by (simp add: url_authority_def)
  have "CHR ''['' \<notin> set host" "CHR '']'' \<notin> set host" using assms(2) by (auto simp: host_text_def list_all_iff)
  then show ?thesis unfolding urlparse_def clean sch prod.case auth by simp
qed

lemma url_path_plain:
  assumes "path_text d" "path_text name" "CHR ''/'' \<notin> set name"
  shows "startswith (url_path (d @ CHR ''/'' # name)) (d @ ''/'')"
proof -
  let ?p = "d @ CHR ''/'' # name"
  have "takeWhile (\<lambda>c. c \<noteq> CHR ''?'') (takeWhile (\<lambda>c. c \<noteq> CHR ''#'') ?p) = ?p"
    using assms(1,2) by (simp add: takeWhile_eq_all_conv [THEN iffD2] path_text_def list_all_iff)
  then have "url_path ?p = take (length ?p - length name) ?p @ takeWhile (\<lambda>c. c \<noteq> CHR '';'') name"
    using after_last_sep [OF assms(3), of d] by (simp only: url_path_def Let_def)
  then have "url_path ?p = (d @ ''/'') @ takeWhile (\<lambda>c. c \<noteq> CHR '';'') name" by simp
  then show ?thesis by (simp only: startswith_append)
qed

lemma rstrip_slash_plain: "s \<noteq> [] \<Longrightarrow> last s \<noteq> CHR ''/'' \<Longrightarrow> rstrip_slash s = s"
  by (simp add: rstrip_slash_def dropWhile_id hd_rev)

lemma strip_subset: "set (strip s) \<subseteq> set s"
  by (auto simp: strip_def rstrip_def lstrip_def dest!: set_dropWhileD)

lemma artifact_name_facts:
  assumes "path_text version" "CHR ''/'' \<notin> set version"
  shows "path_text (artifact_name_for kind version)" "CHR ''/'' \<notin> set (artifact_name_for kind version)"
    "\<not> startswith (artifact_name_for kind version) ''.''" "package_name (artifact_name_for kind version) = artifact_name_for kind version"
    "artifact_name_for kind version \<noteq> []"
proof -
  define v where "v = or_str (Some (strip (or_str (Some version) ''latest''))) ''latest''"
  have cases: "artifact_name_for kind version \<in> {''aegis-guard-'' @ v @ ''.zip'', ''nodetrace-'' @ v @ ''.zip''}"
    by (simp add: artifact_name_for_def Let_def v_def)
  have "set v \<subseteq> set version \<union> set ''latest''"
    using strip_subset [of version] strip_subset [of "''latest''"] by (auto simp: v_def or_str_def split: if_splits)
  moreover have "path_text ''latest''" "CHR ''/'' \<notin> set ''latest''" by (simp_all add: path_text_def code_def)
  ultimately have v: "path_text v" "CHR ''/'' \<notin> set v" using assms by (auto simp: path_text_def list_all_iff)
  have "path_text ''aegis-guard-''" "path_text ''nodetrace-''" "path_text ''.zip''" by (simp_all add: path_text_def code_def)
  then show p: "path_text (artifact_name_for kind version)" using cases v(1) by (auto simp: path_text_def)
  show f: "CHR ''/'' \<notin> set (artifact_name_for kind version)" using cases v(2) by auto
  show "\<not> startswith (artifact_name_for kind version) ''.''" "artifact_name_for kind version \<noteq> []" using cases by auto
  show "package_name (artifact_name_for kind version) = artifact_name_for kind version"
    using cases by (auto simp: package_name_def split_no_sep [OF f])
qed


definition demo_server :: deploy_env where
  "demo_server = demo_deploy\<lparr>dy_sha256 := (\<lambda>m. if m = ''data'' then ''5a'' else ''5b''), dy_hmac := (\<lambda>k m. if k = ''k'' then ''0f'' else ''0e'')\<rparr>"

definition demo_node :: node_env where
  "demo_node = \<lparr>na_hmac = dy_hmac demo_server, na_sha256 = dy_sha256 demo_server, na_enroll_key = Some ''k'', na_pubkey = [],
     na_ed25519 = (\<lambda>_ _ _. None), na_floats = (\<lambda>_. None), na_bracketed = (\<lambda>_. False),
     na_heartbeat_url = ''https://b/api/v1/heartbeat'',
     na_download = (\<lambda>a. serve_artifact demo_server (drop (length ''https://b/api/v1/deploy/artifacts/'') a)),
     na_temp = ''/tmp/u.pkg'', na_workdir = ''/opt/a''\<rparr>"

definition demo_fleet :: "(string \<times> rval) list deploy_state" where
  "demo_fleet = no_deploys\<lparr>dd_tables := (dd_tables no_deploys)\<lparr>tb_agents := [blank_agent\<lparr>ag_agent_type := Some ''nodetrace''\<rparr>]\<rparr>\<rparr>"


text \<open>
  The installers of \<open>deploy.py\<close> write the enrollment token into \<open>AEGIS_ENROLL_KEY\<close> of the agent, while the server signs
  with its own key: where the keys differ and HMAC tells them apart, every pushed update is refused.
\<close>

lemma installed_agent_refuses_updates:
  assumes "na_enroll_key nenv = Some key" "\<And>m. na_hmac nenv key m \<noteq> dy_hmac env (dy_enroll_key env) m"
    "\<And>k m. hex_text (dy_hmac env k m)" "\<And>m. hex_text (dy_sha256 env m)"
  shows "ns_staged (run_update_command nenv (update_command env g version data) st) = ns_staged st"
proof -
  let ?c = "update_command env g version data"
  have "command_text ?c ''sha256'' = dy_sha256 env data" "command_text ?c ''signature'' = dy_hmac env (dy_enroll_key env) (dy_sha256 env data)"
    by (simp_all add: update_command_def build_update_command_def Let_def command_text_def dict_get_or_def sign_artifact_def)
  then have "\<not> verify_signature nenv (command_text ?c ''sha256'') (command_text ?c ''signature'') (na_enroll_key nenv)"
    using assms(1,2) hex_facts [OF assms(3)] hex_facts [OF assms(4)] by (auto simp: verify_signature_def truthy_def)
  then have "update_refusal nenv ?c (command_text ?c ''url'') (command_text ?c ''sha256'') (command_text ?c ''signature'') \<noteq> None"
    by (simp add: update_refusal_def)
  then obtain why where "update_refusal nenv ?c (command_text ?c ''url'') (command_text ?c ''sha256'') (command_text ?c ''signature'') = Some why"
    by blast
  then show ?thesis by (simp add: run_update_command_def ack_def)
qed

subsection \<open>Sealing\<close>

lemma break_line_newline: "printable l \<Longrightarrow> break_line (l @ CHR 0x0A # r) = (l, r)"
  by (induction l) (simp_all add: printable_def break_len_printable code_def del: break_len.simps, simp add: code_def)

lemma splitlines_line: "printable l \<Longrightarrow> splitlines (l @ CHR 0x0A # r) = l # splitlines r"
  by (subst splitlines.simps) (simp add: break_line_newline)

lemma state_line:
  assumes "CHR ''='' \<notin> set k" "printable k" "printable v"
  shows "splitlines (k @ CHR ''='' # v @ CHR 0x0A # r) = (k @ CHR ''='' # v) # splitlines r"
proof -
  have "printable (k @ CHR ''='' # v)" using assms(2,3) by (simp add: printable_def code_def)
  from splitlines_line [OF this, of r] show ?thesis by simp
qed

lemma hex_printable:
  assumes "hex_text s"
  shows "printable s"
proof -
  have "\<forall>c \<in> set ''0123456789abcdef''. 31 < code c \<and> code c < 127" by (simp add: code_def)
  then show ?thesis using assms by (auto simp: hex_text_def printable_def list_all_iff simp del: set_simps)
qed

text \<open>
  A sealed state is accepted: what \<open>stage_package\<close> wrote and \<open>seal_staged_state\<close> sealed is read back by
  \<open>verify_staged_state\<close> with the same secret as the staged path and the digest of the data, and whatever text that
  function accepts carries the HMAC of exactly the path and digest it returns.
\<close>

theorem sealed_state_verifies:
  assumes "stage_package env data expected current target = Inr s" "seal_staged_state env (Some secret) (sg_state s) = Inr text"
    "printable (sg_path s)" "strip (sg_path s) = sg_path s" "hex_text (na_sha256 env data)" "hex_text (na_hmac env secret (sg_state s))"
  shows "verify_staged_state env (Some secret) text = Inr (sg_path s, na_sha256 env data) \<and>
     (verify_staged_state env (Some secret) other = Inr (path, digest) \<longrightarrow>
        lower (assoc_default [] ''mac'' (state_values other)) = na_hmac env secret (state_body path digest))"
proof (intro conjI impI)
  let ?d = "na_sha256 env data" and ?h = "na_hmac env secret (sg_state s)"
  have s: "sg_state s = state_body (sg_path s) ?d" "sg_path s \<noteq> []"
    using assms(1) by (auto simp: stage_package_def Let_def split: if_splits)
  have sealed: "text = sg_state s @ ''mac='' @ ?h @ [CHR 0x0A]" and sec: "secret \<noteq> []" "strip secret \<noteq> []"
    using assms(2) by (auto simp: seal_staged_state_def or_str_def strip_def lstrip_def rstrip_def split: if_splits)
  note hex = hex_facts [OF assms(5)] hex_facts [OF assms(6)] hex_printable [OF assms(5)] hex_printable [OF assms(6)]
  have plain: "printable ''staged''" "printable ''sha256''" "printable ''status''" "printable ''mac''" "printable ''pending-restart''"
    by (simp_all add: printable_def code_def)
  have keys: "CHR ''='' \<notin> set ''staged''" "CHR ''='' \<notin> set ''sha256''" "CHR ''='' \<notin> set ''status''" "CHR ''='' \<notin> set ''mac''" by simp_all
  have t: "text = ''staged'' @ CHR ''='' # sg_path s @ CHR 0x0A # (''sha256'' @ CHR ''='' # ?d @ CHR 0x0A #
      (''status'' @ CHR ''='' # ''pending-restart'' @ CHR 0x0A # (''mac'' @ CHR ''='' # ?h @ CHR 0x0A # [])))"
    by (simp add: sealed s(1) state_body_def)
  then have "splitlines text = [''staged'' @ CHR ''='' # sg_path s, ''sha256'' @ CHR ''='' # ?d, ''status'' @ CHR ''='' # ''pending-restart'', ''mac'' @ CHR ''='' # ?h]"
    by (simp only: t state_line [OF keys(1) plain(1) assms(3)] state_line [OF keys(2) plain(2) hex(7)]
      state_line [OF keys(3) plain(3,5)] state_line [OF keys(4) plain(4) hex(8)] splitlines_Nil)
  then have vals: "state_values text = [(''staged'', sg_path s), (''sha256'', ?d), (''status'', ''pending-restart''), (''mac'', ?h)]"
    using hex assms(4) by (simp add: state_values_def split1_def strip_def lstrip_def rstrip_def is_space_def code_def)
  show "verify_staged_state env (Some secret) text = Inr (sg_path s, ?d)"
    using s sec hex by (simp add: verify_staged_state_def Let_def vals assoc_default_def)
  show "lower (assoc_default [] ''mac'' (state_values other)) = na_hmac env secret (state_body path digest)"
    if "verify_staged_state env (Some secret) other = Inr (path, digest)"
    using that sec by (auto simp: verify_staged_state_def Let_def split: if_splits)
qed

lemma sealed_state_verifies_witness:
  "case stage_package demo_node ''data'' '' 5A '' (Some ''1.2'') (Some ''1.10'') of Inl x \<Rightarrow> False
   | Inr s \<Rightarrow> (case seal_staged_state demo_node (Some ''k'') (sg_state s) of Inl x \<Rightarrow> False
     | Inr text \<Rightarrow> verify_staged_state demo_node (Some ''k'') text = Inr (sg_path s, ''5a''))"
proof -
  let ?s = "\<lparr>sg_path = ''/opt/a/update.pending/u.pkg'', sg_data = ''data'', sg_state = state_body ''/opt/a/update.pending/u.pkg'' ''5a''\<rparr>"
  have s: "stage_package demo_node ''data'' '' 5A '' (Some ''1.2'') (Some ''1.10'') = Inr ?s" by code_simp
  have "is_ok (seal_staged_state demo_node (Some ''k'') (sg_state ?s))" by code_simp
  then obtain sealed where t: "seal_staged_state demo_node (Some ''k'') (sg_state ?s) = Inr sealed" by (auto simp: is_ok_iff)
  have "na_sha256 demo_node ''data'' = ''5a''" "na_hmac demo_node ''k'' (sg_state ?s) = ''0f''"
    by (simp_all add: demo_node_def demo_server_def)
  moreover have "printable (sg_path ?s)" "strip (sg_path ?s) = sg_path ?s" "hex_text ''5a''" "hex_text ''0f''" by code_simp+
  ultimately show ?thesis using sealed_state_verifies [OF s t] s t by simp
qed

text \<open>The check against rollback works when it is asked; the update command passes no versions and never asks.\<close>

lemma rollback_unchecked:
  "\<not> is_ok (stage_package demo_node ''data'' ''5a'' (Some ''1.10'') (Some ''1.9'')) \<and>
   is_ok (stage_package demo_node ''data'' ''5a'' None None)"
  by code_simp

subsection \<open>Capabilities of a host\<close>

unbundle bit_operations_syntax

definition sensor_mode :: "string option \<Rightarrow> bool \<Rightarrow> bool \<Rightarrow> string" where
  "sensor_mode platform ebpf auditd =
     (if \<not> py_in ''linux'' (lower (or_str platform [])) then ''unavailable''
      else if ebpf then ''full'' else if auditd then ''partial'' else ''fallback'')"

definition KERNEL_RELEASE :: grx where
  "KERNEL_RELEASE = g_seq [GGroup ''1'' (g_plus g_digit), g_lit ''.'', GGroup ''2'' (g_plus g_digit),
     g_opt (g_seq [g_lit ''.'', GGroup ''3'' (g_plus g_digit)])]"

definition parse_kernel_release :: "string option \<Rightarrow> nat list" where
  "parse_kernel_release release =
     (case g_match KERNEL_RELEASE (strip (or_str release [])) of None \<Rightarrow> []
      | Some g \<Rightarrow> map (\<lambda>i. read_nat (grp_text g i)) (filter (\<lambda>i. assoc i g \<noteq> None) [''1'', ''2'', ''3'']))"

definition kernel_supports_ebpf :: "string option \<Rightarrow> bool" where
  "kernel_supports_ebpf release =
     (case parse_kernel_release release of a # b # r \<Rightarrow> 5 < a \<or> a = 5 \<and> 8 \<le> b | _ \<Rightarrow> False)"

definition CAP_BPF :: int where "CAP_BPF = push_bit 39 1"
definition CAP_PERFMON :: int where "CAP_PERFMON = push_bit 38 1"
definition CAP_SYS_ADMIN :: int where "CAP_SYS_ADMIN = push_bit 21 1"

definition has_ebpf_caps :: "int \<Rightarrow> bool" where
  "has_ebpf_caps cap = (if cap < 0 then False
     else if cap AND CAP_SYS_ADMIN \<noteq> 0 then True else cap AND CAP_BPF \<noteq> 0 \<and> cap AND CAP_PERFMON \<noteq> 0)"

text \<open>\<open>int(text, 16)\<close>.\<close>

fun hex_digits :: "bool \<Rightarrow> int \<Rightarrow> string \<Rightarrow> int option" where
  "hex_digits ok n [] = (if ok then Some n else None)"
| "hex_digits ok n (c # s) =
     (if c = CHR ''_'' then (if ok \<and> s \<noteq> [] then hex_digits False n s else None)
      else case hex_val c of None \<Rightarrow> None | Some d \<Rightarrow> hex_digits True (16 * n + int d) s)"

definition read_hex :: "string \<Rightarrow> int option" where
  "read_hex s =
     (let t = strip s; neg = startswith t ''-''; u = (if startswith t ''-'' \<or> startswith t ''+'' then tl t else t) in
      map_option (\<lambda>n. if neg then - n else n)
        (if startswith (lower u) ''0x'' then (if startswith (drop 2 u) ''_'' then hex_digits False 0 (drop 3 u) else hex_digits False 0 (drop 2 u))
         else hex_digits False 0 u))"

definition parse_cap_eff :: "string option \<Rightarrow> int" where
  "parse_cap_eff status =
     (case find_first (\<lambda>l. startswith l ''CapEff:'') (splitlines (or_str status [])) of None \<Rightarrow> -1
      | Some l \<Rightarrow> (case words l of _ # w # _ \<Rightarrow> (case read_hex w of None \<Rightarrow> -1 | Some i \<Rightarrow> i) | _ \<Rightarrow> -1))"

text \<open>
  \<open>probe\<close>: the profile and the reasons, from the system, the kernel release, whether the BTF file exists and the text of
  \<open>/proc/self/status\<close>.
\<close>

definition probe_profile :: "string \<Rightarrow> string \<Rightarrow> bool \<Rightarrow> string option \<Rightarrow> string \<times> string" where
  "probe_profile platform release btf status =
     (if platform \<noteq> ''Linux'' then (''absent'', ''not-linux'')
      else (let kernel = kernel_supports_ebpf (Some release);
                caps = has_ebpf_caps (case status of None \<Rightarrow> -1 | Some t \<Rightarrow> parse_cap_eff (Some t)) in
        if kernel \<and> btf \<and> caps then (''full'', [])
        else (if kernel \<and> (btf \<or> caps) then ''partial'' else ''absent'',
              join ''+'' ((if kernel then [] else [''kernel-'' @ release @ ''-too-old'']) @ (if btf then [] else [''no-btf'']) @
                (if caps then [] else [''no-caps''])))))"

text \<open>The three conditions are checked bit by bit and number by number; the profile is full exactly when the reason is empty.\<close>

lemma probe_facts:
  "fst (probe_profile ''Linux'' release btf status) = ''full'' \<longleftrightarrow> snd (probe_profile ''Linux'' release btf status) = []"
  by (auto simp: probe_profile_def Let_def)

lemma caps_bits:
  "0 \<le> cap \<Longrightarrow> has_ebpf_caps cap \<longleftrightarrow> bit cap 21 \<or> bit cap 39 \<and> bit cap 38"
proof -
  have b: "cap AND push_bit n 1 \<noteq> 0 \<longleftrightarrow> bit cap n" for n
    using and_exp_eq_0_iff_not_bit [of cap n] by (simp add: push_bit_of_1)
  show "0 \<le> cap \<Longrightarrow> ?thesis" unfolding has_ebpf_caps_def CAP_SYS_ADMIN_def CAP_BPF_def CAP_PERFMON_def b by simp
qed

lemma probe_demo:
  "probe_profile ''Linux'' ''6.6.8-200.fc39'' True None = (''partial'', ''no-caps'') \<and>
   probe_profile ''Linux'' ''5.7.19'' True None = (''absent'', ''kernel-5.7.19-too-old+no-caps'')"
  by code_simp

lemma cap_eff_demo: "parse_cap_eff (Some (''Name:'' @ [CHR 0x09] @ ''x'' @ [CHR 0x0A] @ ''CapEff:'' @ [CHR 0x09] @ ''00c1'')) = 193"
  by code_simp

end
