(* ===== verification/Discovery.thy ===== *)
theory Discovery
  imports Deploy Regex_Groups Pytext
begin

section \<open>Discovery of hosts\<close>

text \<open>
  The routes of \<open>app/api/v1/discovery.py\<close>: network scans of the server and of agents, the inventory of hosts, reputations
  and the demo agents.  The session does not flush before a query, so a query finds the rows of the table with the changes
  made to them, but no host added by the same request (\<open>hs_new\<close>); the commit fails when two rows would have the same
  address, which the table declares unique, and then nothing is stored.  Parameters: the reader of networks and
  addresses, name service, open ports, ping, the text of the ARP table, the list of vendors.
\<close>

record found = discovered +
  fh_id :: int
  fh_hostname :: "string option"
  fh_mac_address :: "string option"
  fh_vendor :: "string option"
  fh_os_guess :: "string option"
  fh_os_confidence :: int
  fh_status :: string
  fh_open_ports :: "int list"
  fh_source :: string

record network =
  nw_addresses :: "string list"
  nw_hosts :: "string list"
  nw_private :: bool
  nw_text :: string

record scan_env =
  sn_now :: rat
  sn_ip_ok :: "string \<Rightarrow> bool"
  sn_network :: "string \<Rightarrow> network option"
  sn_dns :: "string \<Rightarrow> string option"
  sn_port :: "string \<Rightarrow> int \<Rightarrow> bool"
  sn_ping :: "string \<Rightarrow> bool"
  sn_windows :: bool
  sn_arp :: string
  sn_vendors :: "(string \<times> string) list"
  sn_demo :: bool

record host_db =
  hs_rows :: "found list"
  hs_new :: "found list"
  hs_next :: int
  hs_agents :: "agent_row list"

type_synonym 'a host_answer = "host_db \<Rightarrow> 'a result \<times> host_db"

definition DEFAULT_SCAN_PORTS :: "int list" where
  "DEFAULT_SCAN_PORTS = [22, 80, 135, 139, 443, 445, 3389, 8000, 8080]"

subsection \<open>Vendors, systems, neighbours\<close>

definition oui_prefix :: "string \<Rightarrow> string" where
  "oui_prefix s = take 6 (upper (replace_str '':'' [] (strip s)))"

definition load_oui :: "string \<Rightarrow> (string \<times> string) list" where
  "load_oui t = fold (\<lambda>l m. if strip l \<noteq> [] \<and> \<not> startswith l ''#''
       then (case split_char CHR 0x09 l of p # v # _ \<Rightarrow> assoc_put (oui_prefix p) (strip v) m | _ \<Rightarrow> m) else m) (splitlines t) []"

definition mac_to_vendor :: "scan_env \<Rightarrow> string \<Rightarrow> string" where
  "mac_to_vendor env mac = assoc_default ''Unknown'' (take 6 (upper (replace_str ''-'' [] (replace_str '':'' [] mac)))) (sn_vendors env)"

definition guess_os_from_ports :: "int list \<Rightarrow> string" where
  "guess_os_from_ports ps =
     (if List.member ps 3389 \<or> List.member ps 445 \<or> List.member ps 135 then ''windows''
      else if List.member ps 22 then ''linux''
      else if List.member ps 80 \<or> List.member ps 443 \<or> List.member ps 8080 then ''network-service''
      else if List.member ps 8000 then ''aegis-agent'' else ''unknown'')"

definition IPV4_START :: grx where
  "IPV4_START = g_seq [g_plus g_digit, g_lit ''.'', g_plus g_digit, g_lit ''.'', g_plus g_digit, g_lit ''.'', g_plus g_digit]"

definition arp_line :: "bool \<Rightarrow> string \<Rightarrow> (string \<times> string) option" where
  "arp_line windows line =
     (case words line of
        ip # rest1 \<Rightarrow>
          if g_match IPV4_START ip = None then None
          else if windows
          then (case rest1 of m # _ \<Rightarrow> (let mac = (if py_in ''-'' m then replace_str ''-'' '':'' m else m) in
                  if count_str '':'' mac = 5 \<and> mac \<noteq> ''00:00:00:00:00:00'' then Some (ip, upper mac) else None)
                | [] \<Rightarrow> None)
          else (case rest1 of _ # m # _ \<Rightarrow>
                  if length (split_char CHR '':'' m) = 6 \<and> m \<noteq> ''00:00:00:00:00:00'' then Some (ip, upper m) else None
                | _ \<Rightarrow> None)
      | [] \<Rightarrow> None)"

definition arp_scan_local :: "scan_env \<Rightarrow> (string \<times> string) list" where
  "arp_scan_local env = List.map_filter (arp_line (sn_windows env)) (splitlines (sn_arp env))"

definition ping_host :: "scan_env \<Rightarrow> string \<Rightarrow> bool" where
  "ping_host env ip \<longleftrightarrow> sn_ip_ok env ip \<and> sn_ping env ip"

definition safe_network :: "scan_env \<Rightarrow> string \<Rightarrow> network result" where
  "safe_network env cidr =
     (case sn_network env cidr of None \<Rightarrow> Inl (http ''400'')
      | Some n \<Rightarrow> if 256 < length (nw_addresses n) then Inl (http ''400'')
          else if \<not> nw_private n then Inl (http ''400'') else Inr n)"

subsection \<open>Rows\<close>

definition part_status :: "found \<Rightarrow> string" where
  "part_status h =
     (if dh_guard_status h = ''active'' \<or> dh_nodetrace_status h = ''active''
      then ''active ('' @ join '' + '' ((if dh_guard_status h = ''active'' then [''Guard''] else []) @
             (if dh_nodetrace_status h = ''active'' then [''NodeTrace''] else [])) @ '')''
      else if dh_guard_status h = ''deployed'' \<or> dh_nodetrace_status h = ''deployed'' then ''deployed''
      else ''not_deployed'')"

definition host_out :: "found \<Rightarrow> found \<times> string" where
  "host_out h = (h, part_status h)"

definition agent_state :: "rat \<Rightarrow> agent_row \<Rightarrow> string" where
  "agent_state now g = (case ag_last_seen g of None \<Rightarrow> ''not_deployed'' | Some t \<Rightarrow> if now - 600 < t then ''active'' else ''deployed'')"

definition sync_one :: "rat \<Rightarrow> agent_row \<Rightarrow> found \<Rightarrow> found" where
  "sync_one now g h =
     (if ag_agent_type g = Some ''aegis-guard'' then h\<lparr>dh_guard_status := agent_state now g\<rparr>
      else if ag_agent_type g = Some ''nodetrace'' \<or> ag_agent_type g = Some ''NodeTrace'' then h\<lparr>dh_nodetrace_status := agent_state now g\<rparr>
      else h)"

definition sync_host :: "rat \<Rightarrow> agent_row list \<Rightarrow> found \<Rightarrow> found" where
  "sync_host now gs h = fold (sync_one now) (filter (\<lambda>g. ag_ip_address g = Some (dh_ip_address h)) gs) h"

definition seen_host :: "scan_env \<Rightarrow> int list \<Rightarrow> string \<Rightarrow> string option \<Rightarrow> found \<Rightarrow> found" where
  "seen_host env ports source mac h =
     (let h1 = h\<lparr>fh_hostname := (case sn_dns env (dh_ip_address h) of None \<Rightarrow> fh_hostname h | Some n \<Rightarrow> if n = [] then fh_hostname h else Some n)\<rparr>;
          h2 = (if truthy mac then h1\<lparr>fh_mac_address := mac, fh_vendor := Some (mac_to_vendor env (or_str mac []))\<rparr> else h1)
      in h2\<lparr>fh_os_guess := (if ports \<noteq> [] then Some (guess_os_from_ports ports) else fh_os_guess h2),
            fh_status := (if ports \<noteq> [] then ''reachable'' else ''unknown''), fh_open_ports := ports, fh_source := source,
            dh_last_seen := Some (sn_now env)\<rparr>)"

definition new_host :: "scan_env \<Rightarrow> string \<Rightarrow> int list \<Rightarrow> string \<Rightarrow> string option \<Rightarrow> found" where
  "new_host env ip ports source mac =
     \<lparr>dh_ip_address = ip, dh_guard_status = ''not_deployed'', dh_nodetrace_status = ''not_deployed'', dh_last_seen = Some (sn_now env),
      fh_id = 0, fh_hostname = sn_dns env ip, fh_mac_address = mac,
      fh_vendor = (if truthy mac then Some (mac_to_vendor env (or_str mac [])) else None),
      fh_os_guess = Some (if ports \<noteq> [] then guess_os_from_ports ports else ''unknown''), fh_os_confidence = (if ports \<noteq> [] then 90 else 10),
      fh_status = (if ports \<noteq> [] then ''reachable'' else ''unknown''), fh_open_ports = ports, fh_source = source\<rparr>"

text \<open>\<open>_upsert_host\<close>; \<open>f\<close> is what the caller does with the host it returns.\<close>

definition upsert_host :: "scan_env \<Rightarrow> string \<Rightarrow> int list \<Rightarrow> string \<Rightarrow> string option \<Rightarrow> (found \<Rightarrow> found) \<Rightarrow> host_db \<Rightarrow> host_db" where
  "upsert_host env ip ports source mac f db =
     (case find_first (\<lambda>h. dh_ip_address h = ip) (hs_rows db) of
        None \<Rightarrow> db\<lparr>hs_new := hs_new db @ [f (sync_host (sn_now env) (hs_agents db) (new_host env ip ports source mac))]\<rparr>
      | Some _ \<Rightarrow> db\<lparr>hs_rows := update_first (\<lambda>h. dh_ip_address h = ip)
          (\<lambda>h. f (sync_host (sn_now env) (hs_agents db) (seen_host env ports source mac h))) (hs_rows db)\<rparr>)"

definition number_hosts :: "int \<Rightarrow> found list \<Rightarrow> found list" where
  "number_hosts i hs = map (\<lambda>(k, h). h\<lparr>fh_id := k\<rparr>) (zip (map (\<lambda>n. i + int n) [0..<length hs]) hs)"

definition commit_hosts :: "host_db \<Rightarrow> 'a \<Rightarrow> host_db \<Rightarrow> 'a result \<times> host_db" where
  "commit_hosts db0 answer db =
     (if distinct (map dh_ip_address (hs_rows db @ hs_new db))
      then (Inr answer, db\<lparr>hs_rows := hs_rows db @ number_hosts (hs_next db) (hs_new db), hs_new := [], hs_next := hs_next db + int (length (hs_new db))\<rparr>)
      else (Inl (OtherError ''IntegrityError''), db0))"

subsection \<open>Scans\<close>

definition scan_addresses :: "network \<Rightarrow> string list" where
  "scan_addresses n = (if 2 < length (nw_addresses n) then nw_hosts n else nw_addresses n)"

definition known_ips :: "host_db \<Rightarrow> string list" where
  "known_ips db = filter (\<lambda>ip. ip \<noteq> []) (map (\<lambda>g. or_str (ag_ip_address g) []) (hs_agents db) @ map dh_ip_address (hs_rows db))"

text \<open>The set \<open>live_ips\<close>, sorted.\<close>

definition live_ips :: "scan_env \<Rightarrow> bool \<Rightarrow> network \<Rightarrow> host_db \<Rightarrow> string list" where
  "live_ips env fast n db =
     (let arp = (if fast then map fst (arp_scan_local env) else []); known = known_ips db; addrs = scan_addresses n in
      str_sort (remdups (arp @ filter (List.member known) addrs @
        filter (\<lambda>ip. \<not> List.member arp ip \<and> \<not> List.member known ip \<and> ping_host env ip) addrs)))"

definition open_ports_of :: "scan_env \<Rightarrow> int list \<Rightarrow> string \<Rightarrow> int list" where
  "open_ports_of env ports ip = sort (filter (sn_port env ip) (take 32 (filter (\<lambda>p. 1 \<le> p \<and> p \<le> 65535) ports)))"

definition scan_network ::
  "scan_env \<Rightarrow> user_row \<Rightarrow> string \<Rightarrow> int list \<Rightarrow> bool \<Rightarrow> bool \<Rightarrow> (nat \<times> nat \<times> string list) host_answer" where
  "scan_network env u cidr ports unreachable fast db =
     (case require_perm [''deploy''] u of Inl x \<Rightarrow> (Inl x, db) | Inr _ \<Rightarrow>
      (case safe_network env cidr of Inl x \<Rightarrow> (Inl x, db)
      | Inr n \<Rightarrow>
          (let arp = (if fast then arp_scan_local env else []); live = live_ips env fast n db;
               db1 = fold (\<lambda>ip d. upsert_host env ip (open_ports_of env ports ip) ''scan'' (assoc ip arp) id d) live db;
               silent = (if unreachable then filter (\<lambda>ip. \<not> List.member live ip) (scan_addresses n) else []);
               db2 = fold (\<lambda>ip d. upsert_host env ip [] ''scan'' None id d) silent db1
           in commit_hosts db (length (nw_addresses n), length live, live @ silent) db2)))"

definition list_hosts :: "host_db \<Rightarrow> (found \<times> string) list" where
  "list_hosts db = map host_out (take 250 (newest (\<lambda>h. case dh_last_seen h of None \<Rightarrow> 0 | Some t \<Rightarrow> t) (hs_rows db)))"

definition add_manual_host :: "scan_env \<Rightarrow> user_row \<Rightarrow> string \<Rightarrow> string option \<Rightarrow> string option \<Rightarrow> string \<Rightarrow> unit host_answer" where
  "add_manual_host env u ip hostname mac source db =
     (case require_perm [''deploy''] u of Inl x \<Rightarrow> (Inl x, db) | Inr _ \<Rightarrow>
      if \<not> sn_ip_ok env ip then (Inl (http ''400''), db)
      else commit_hosts db () (upsert_host env ip [] source mac (\<lambda>h. if truthy hostname then h\<lparr>fh_hostname := hostname\<rparr> else h) db))"

definition sync_agent_status :: "scan_env \<Rightarrow> user_row \<Rightarrow> nat host_answer" where
  "sync_agent_status env u db =
     (case require_perm [''deploy''] u of Inl x \<Rightarrow> (Inl x, db) | Inr _ \<Rightarrow>
      (Inr (length (hs_rows db)), db\<lparr>hs_rows := map (sync_host (sn_now env) (hs_agents db)) (hs_rows db)\<rparr>))"

record scan_item =
  si_ip_address :: string
  si_hostname :: "string option"
  si_mac_address :: "string option"
  si_open_ports :: "int list"
  si_os_guess :: "string option"

definition reported_host :: "scan_item \<Rightarrow> found \<Rightarrow> found" where
  "reported_host i h =
     (let h1 = (if truthy (si_hostname i) then h\<lparr>fh_hostname := si_hostname i\<rparr> else h)
      in if truthy (si_os_guess i) then h1\<lparr>fh_os_guess := si_os_guess i, fh_os_confidence := 80\<rparr> else h1)"

definition report_item :: "scan_env \<Rightarrow> agent_row \<Rightarrow> scan_item \<Rightarrow> host_db \<Rightarrow> host_db" where
  "report_item env g i = upsert_host env (si_ip_address i) (si_open_ports i) (''agent-scan:'' @ ag_agent_id g) (si_mac_address i) (reported_host i)"

definition agent_scan_result :: "scan_env \<Rightarrow> agent_row \<Rightarrow> scan_item list \<Rightarrow> nat host_answer" where
  "agent_scan_result env g items db = commit_hosts db (length items) (fold (report_item env g) items db)"

definition scan_network_via_agent ::
  "'s redis \<Rightarrow> user_row \<Rightarrow> string \<Rightarrow> string \<Rightarrow> int list \<Rightarrow> pyval \<Rightarrow> host_db \<Rightarrow> 's \<Rightarrow> unit result \<times> 's" where
  "scan_network_via_agent R u agent cidr ports timeout db s =
     (case require_perm [''deploy''] u of Inl x \<Rightarrow> (Inl x, s) | Inr _ \<Rightarrow>
      if find_first (\<lambda>g. ag_agent_id g = agent) (hs_agents db) = None then (Inl (http ''404''), s)
      else rd_rpush R s (queue_name agent) (json_dumps (PDict [(''command'', PStr ''NETWORK_SCAN''), (''cidr'', PStr cidr),
             (''ports'', PList (map PInt ports)), (''probe_timeout'', timeout)])))"

subsection \<open>Demo agents and reputations\<close>

definition demo_item :: "scan_env \<Rightarrow> string \<times> string \<times> string \<times> string \<times> int list \<times> string option \<Rightarrow> (string \<Rightarrow> string) \<Rightarrow> host_db \<Rightarrow> host_db" where
  "demo_item env item uuid5 db =
     (case item of (ip, name, system, kind, ports, mac) \<Rightarrow>
       (let i = uuid5 (''aegis-demo:'' @ name);
            gs = map (\<lambda>g. if ag_agent_id g = i then g\<lparr>ag_last_seen := Some (sn_now env), ag_is_demo := True\<rparr> else g) (hs_agents db);
            db1 = upsert_host env ip ports ''demo'' mac (\<lambda>h.
              (let h1 = h\<lparr>fh_hostname := Some name, fh_vendor := (if truthy mac then Some (mac_to_vendor env (or_str mac [])) else None)\<rparr>
               in if kind = ''aegis-guard'' then h1\<lparr>dh_guard_status := ''active''\<rparr> else h1\<lparr>dh_nodetrace_status := ''active''\<rparr>)) (db\<lparr>hs_agents := gs\<rparr>)
        in if find_first (\<lambda>g. ag_agent_id g = i) gs \<noteq> None then db1
           else db1\<lparr>hs_agents := gs @ [blank_agent\<lparr>ag_agent_id := i, ag_hostname := Some name, ag_ip_address := Some ip,
                  ag_os_type := Some system, ag_agent_type := Some kind, ag_is_demo := True, ag_last_seen := Some (sn_now env)\<rparr>]\<rparr>))"

definition DEMO_HOSTS :: "(string \<times> string \<times> string \<times> string \<times> int list \<times> string option) list" where
  "DEMO_HOSTS =
     [(''10.10.10.21'', ''demo-win-endpoint'', ''windows'', ''aegis-guard'', [135, 445, 3389], None),
      (''10.10.10.42'', ''demo-linux-sensor'', ''linux'', ''nodetrace'', [22, 8000], None),
      (''10.10.10.55'', ''demo-android-device'', ''android'', ''nodetrace'', [], Some ''A4:C3:F0:12:34:56'')]"

definition start_demo :: "scan_env \<Rightarrow> user_row \<Rightarrow> (string \<Rightarrow> string) \<Rightarrow> unit host_answer" where
  "start_demo env u uuid5 db =
     (case require_perm [''deploy''] u of Inl x \<Rightarrow> (Inl x, db) | Inr _ \<Rightarrow>
      if \<not> sn_demo env then (Inl (http ''403''), db)
      else commit_hosts db () (fold (\<lambda>item. demo_item env item uuid5) DEMO_HOSTS db))"

definition demo_heartbeat :: "scan_env \<Rightarrow> user_row \<Rightarrow> nat host_answer" where
  "demo_heartbeat env u db =
     (case require_perm [''deploy''] u of Inl x \<Rightarrow> (Inl x, db) | Inr _ \<Rightarrow>
      if \<not> sn_demo env then (Inl (http ''403''), db)
      else (Inr (length (filter ag_is_demo (hs_agents db))),
            db\<lparr>hs_agents := map (\<lambda>g. if ag_is_demo g then g\<lparr>ag_last_seen := Some (sn_now env)\<rparr> else g) (hs_agents db)\<rparr>))"

record reputation =
  ip_address :: string
  ip_label :: string
  ip_confidence :: int
  ip_source :: string
  ip_details :: pyval
  ip_updated_at :: rat

definition upsert_reputation :: "scan_env \<Rightarrow> user_row \<Rightarrow> reputation \<Rightarrow> reputation list \<Rightarrow> reputation result \<times> reputation list" where
  "upsert_reputation env u r rs =
     (case require_perm [''triage'', ''deploy''] u of Inl x \<Rightarrow> (Inl x, rs) | Inr _ \<Rightarrow>
      if \<not> sn_ip_ok env (ip_address r) then (Inl (http ''400''), rs)
      else (let new = r\<lparr>ip_updated_at := sn_now env\<rparr> in
        (Inr new, if find_first (\<lambda>q. ip_address q = ip_address r) rs = None then rs @ [new]
                  else update_first (\<lambda>q. ip_address q = ip_address r) (\<lambda>_. new) rs)))"

definition list_reputation :: "string option \<Rightarrow> reputation list \<Rightarrow> reputation list" where
  "list_reputation label rs = take 250 (filter (\<lambda>r. \<not> truthy label \<or> ip_label r = or_str label []) (newest ip_updated_at rs))"

subsection \<open>What a scan records\<close>

lemma sync_facts [simp]:
  "dh_ip_address (sync_host now gs h) = dh_ip_address h" "fh_open_ports (sync_host now gs h) = fh_open_ports h"
  "fh_status (sync_host now gs h) = fh_status h" "fh_source (sync_host now gs h) = fh_source h"
proof -
  have "dh_ip_address (fold (sync_one now) as h) = dh_ip_address h \<and> fh_open_ports (fold (sync_one now) as h) = fh_open_ports h \<and>
      fh_status (fold (sync_one now) as h) = fh_status h \<and> fh_source (fold (sync_one now) as h) = fh_source h" for as h
    by (induction as arbitrary: h) (auto simp: sync_one_def)
  then show "dh_ip_address (sync_host now gs h) = dh_ip_address h" "fh_open_ports (sync_host now gs h) = fh_open_ports h"
    "fh_status (sync_host now gs h) = fh_status h" "fh_source (sync_host now gs h) = fh_source h"
    unfolding sync_host_def by blast+
qed

lemma seen_facts [simp]:
  "dh_ip_address (seen_host env ports src mac h) = dh_ip_address h" "fh_open_ports (seen_host env ports src mac h) = ports"
  "fh_status (seen_host env ports src mac h) = (if ports = [] then ''unknown'' else ''reachable'')"
  by (auto simp: seen_host_def Let_def)

lemma new_facts [simp]:
  "dh_ip_address (new_host env ip ports src mac) = ip" "fh_open_ports (new_host env ip ports src mac) = ports"
  "fh_status (new_host env ip ports src mac) = (if ports = [] then ''unknown'' else ''reachable'')"
  by (auto simp: new_host_def)

definition visit :: "scan_env \<Rightarrow> string \<times> int list \<times> string option \<Rightarrow> host_db \<Rightarrow> host_db" where
  "visit env v = (case v of (ip, ports, mac) \<Rightarrow> upsert_host env ip ports ''scan'' mac id)"

definition shows_ports :: "int list \<Rightarrow> found \<Rightarrow> bool" where
  "shows_ports ports h \<longleftrightarrow> fh_open_ports h = ports \<and> fh_status h = (if ports = [] then ''unknown'' else ''reachable'')"

lemma map_update_first: "(\<And>x. p x \<Longrightarrow> g (f x) = g x) \<Longrightarrow> map g (update_first p f xs) = map g xs"
  by (induction xs) auto

lemma update_first_in: "x \<in> set (update_first p f xs) \<Longrightarrow> x \<in> set xs \<or> (\<exists>y \<in> set xs. p y \<and> x = f y)"
  by (induction xs) (auto split: if_splits)

lemma update_first_other: "x \<in> set xs \<Longrightarrow> \<not> p x \<Longrightarrow> x \<in> set (update_first p f xs)"
  by (induction xs) auto

lemma update_first_hit:
  "distinct (map g xs) \<Longrightarrow> (\<And>x. g (f x) = g x) \<Longrightarrow> x \<in> set (update_first (\<lambda>x. g x = k) f xs) \<Longrightarrow> g x = k \<Longrightarrow> \<exists>y. x = f y"
  by (induction xs) (auto split: if_splits)

lemma visit_known:
  assumes "ip \<in> dh_ip_address ` set (hs_rows db)"
  shows "hs_new (visit env (ip, ports, mac) db) = hs_new db \<and>
     hs_rows (visit env (ip, ports, mac) db) = update_first (\<lambda>h. dh_ip_address h = ip)
       (\<lambda>h. sync_host (sn_now env) (hs_agents db) (seen_host env ports ''scan'' mac h)) (hs_rows db) \<and>
     hs_agents (visit env (ip, ports, mac) db) = hs_agents db \<and> hs_next (visit env (ip, ports, mac) db) = hs_next db"
  using assms by (cases "find_first (\<lambda>h. dh_ip_address h = ip) (hs_rows db)") (auto simp: visit_def upsert_host_def find_first_None)

lemma visit_unknown:
  assumes "ip \<notin> dh_ip_address ` set (hs_rows db)"
  shows "visit env (ip, ports, mac) db =
     db\<lparr>hs_new := hs_new db @ [sync_host (sn_now env) (hs_agents db) (new_host env ip ports ''scan'' mac)]\<rparr>"
proof -
  have "find_first (\<lambda>h. dh_ip_address h = ip) (hs_rows db) = None" using assms by (auto simp: find_first_None)
  then show ?thesis by (simp add: visit_def upsert_host_def)
qed

lemma visit_rows:
  assumes "distinct (map dh_ip_address (hs_rows db))"
  shows "map dh_ip_address (hs_rows (visit env (ip, ports, mac) db)) = map dh_ip_address (hs_rows db)"
    "h \<in> set (hs_rows (visit env (ip, ports, mac) db)) \<Longrightarrow> dh_ip_address h = ip \<Longrightarrow> shows_ports ports h"
    "dh_ip_address k \<noteq> ip \<Longrightarrow> k \<in> set (hs_rows (visit env (ip, ports, mac) db)) \<longleftrightarrow> k \<in> set (hs_rows db)"
proof -
  let ?f = "\<lambda>h. sync_host (sn_now env) (hs_agents db) (seen_host env ports ''scan'' mac h)"
  show "map dh_ip_address (hs_rows (visit env (ip, ports, mac) db)) = map dh_ip_address (hs_rows db)"
    by (cases "ip \<in> dh_ip_address ` set (hs_rows db)") (simp_all add: visit_known visit_unknown map_update_first)
  show "shows_ports ports h" if h: "h \<in> set (hs_rows (visit env (ip, ports, mac) db))" "dh_ip_address h = ip"
  proof (cases "ip \<in> dh_ip_address ` set (hs_rows db)")
    case True
    then have "h \<in> set (update_first (\<lambda>h. dh_ip_address h = ip) ?f (hs_rows db))" using h(1) by (simp add: visit_known)
    from update_first_hit [OF assms _ this h(2)] show ?thesis by (auto simp: shows_ports_def)
  next
    case False
    then show ?thesis using h by (auto simp: visit_unknown)
  qed
  show "k \<in> set (hs_rows (visit env (ip, ports, mac) db)) \<longleftrightarrow> k \<in> set (hs_rows db)" if "dh_ip_address k \<noteq> ip"
    using that update_first_in [of k "\<lambda>h. dh_ip_address h = ip" ?f "hs_rows db"] update_first_other [of k "hs_rows db" "\<lambda>h. dh_ip_address h = ip" ?f]
    by (cases "ip \<in> dh_ip_address ` set (hs_rows db)") (auto simp: visit_known visit_unknown)
qed

lemma visits:
  assumes "distinct (map dh_ip_address (hs_rows db))" "distinct (map fst vs)"
  shows "map dh_ip_address (hs_rows (fold (visit env) vs db)) = map dh_ip_address (hs_rows db) \<and>
     hs_next (fold (visit env) vs db) = hs_next db \<and>
     (\<forall>(ip, ports, mac) \<in> set vs. \<forall>h \<in> set (hs_rows (fold (visit env) vs db)). dh_ip_address h = ip \<longrightarrow> shows_ports ports h) \<and>
     (\<forall>k. dh_ip_address k \<notin> fst ` set vs \<longrightarrow> (k \<in> set (hs_rows (fold (visit env) vs db)) \<longleftrightarrow> k \<in> set (hs_rows db))) \<and>
     (\<exists>added. hs_new (fold (visit env) vs db) = hs_new db @ added \<and>
        map dh_ip_address added = filter (\<lambda>ip. ip \<notin> dh_ip_address ` set (hs_rows db)) (map fst vs) \<and>
        (\<forall>h \<in> set added. \<exists>ports mac. (dh_ip_address h, ports, mac) \<in> set vs \<and> shows_ports ports h))"
  using assms
proof (induction vs arbitrary: db)
  case (Cons v vs)
  obtain ip ports mac where v: "v = (ip, ports, mac)" by (cases v)
  let ?db = "visit env (ip, ports, mac) db"
  note rows = visit_rows [OF Cons.prems(1), where env = env and ip = ip and ports = ports and mac = mac]
  have ips: "dh_ip_address ` set (hs_rows ?db) = dh_ip_address ` set (hs_rows db)" using rows(1) by (metis list.set_map)
  have d: "distinct (map dh_ip_address (hs_rows ?db))" using rows(1) Cons.prems(1) by simp
  have fresh: "ip \<notin> fst ` set vs" "distinct (map fst vs)" using Cons.prems(2) v by auto
  note IH = Cons.IH [OF d fresh(2)]
  from IH obtain added where added: "hs_new (fold (visit env) vs ?db) = hs_new ?db @ added"
      "map dh_ip_address added = filter (\<lambda>ip. ip \<notin> dh_ip_address ` set (hs_rows ?db)) (map fst vs)"
      "\<forall>h \<in> set added. \<exists>ports mac. (dh_ip_address h, ports, mac) \<in> set vs \<and> shows_ports ports h" by blast
  have next1: "hs_next ?db = hs_next db"
    by (cases "ip \<in> dh_ip_address ` set (hs_rows db)") (simp_all add: visit_known visit_unknown)
  have known: "shows_ports ports h" if "h \<in> set (hs_rows (fold (visit env) vs ?db))" "dh_ip_address h = ip" for h
  proof -
    have "h \<in> set (hs_rows ?db)" using IH that fresh(1) by blast
    then show ?thesis using rows(2) that(2) by blast
  qed
  have other: "k \<in> set (hs_rows (fold (visit env) vs ?db)) \<longleftrightarrow> k \<in> set (hs_rows db)" if "dh_ip_address k \<notin> fst ` set (v # vs)" for k
    using IH rows(3) [of k] that v by auto
  obtain first where new: "hs_new ?db = hs_new db @ first" "map dh_ip_address first = filter (\<lambda>ip. ip \<notin> dh_ip_address ` set (hs_rows db)) [ip]"
      "\<forall>h \<in> set first. shows_ports ports h"
    by (cases "ip \<in> dh_ip_address ` set (hs_rows db)")
      (auto simp: visit_known visit_unknown shows_ports_def)
  have "hs_new (fold (visit env) vs ?db) = hs_new db @ (first @ added)" using added(1) new(1) by simp
  moreover have "map dh_ip_address (first @ added) = filter (\<lambda>ip. ip \<notin> dh_ip_address ` set (hs_rows db)) (map fst (v # vs))"
    using added(2) new(2) ips v by simp
  moreover have "\<forall>h \<in> set (first @ added). \<exists>ports mac. (dh_ip_address h, ports, mac) \<in> set (v # vs) \<and> shows_ports ports h"
  proof
    fix h assume "h \<in> set (first @ added)"
    then consider "h \<in> set first" | "h \<in> set added" by auto
    then show "\<exists>ports mac. (dh_ip_address h, ports, mac) \<in> set (v # vs) \<and> shows_ports ports h"
    proof cases
      case 1
      then have "dh_ip_address h \<in> set (map dh_ip_address first)" by simp
      then have "dh_ip_address h = ip" unfolding new(2) by (simp split: if_splits)
      then show ?thesis using new(3) 1 v by auto
    next
      case 2
      then obtain ps m where "(dh_ip_address h, ps, m) \<in> set vs" "shows_ports ps h" using added(3) by blast
      then show ?thesis by (intro exI [of _ ps] exI [of _ m]) simp
    qed
  qed
  ultimately have "\<exists>all. hs_new (fold (visit env) vs ?db) = hs_new db @ all \<and>
      map dh_ip_address all = filter (\<lambda>ip. ip \<notin> dh_ip_address ` set (hs_rows db)) (map fst (v # vs)) \<and>
      (\<forall>h \<in> set all. \<exists>ports mac. (dh_ip_address h, ports, mac) \<in> set (v # vs) \<and> shows_ports ports h)" by blast
  moreover have "\<forall>(i, ports, mac) \<in> set (v # vs). \<forall>h \<in> set (hs_rows (fold (visit env) vs ?db)). dh_ip_address h = i \<longrightarrow> shows_ports ports h"
    using IH known v by auto
  ultimately show ?case using IH rows(1) next1 other v by simp
qed simp

lemma distinct_str_sort: "distinct xs \<Longrightarrow> distinct (str_sort xs)"
  using mset_eq_imp_distinct_iff [OF str_sort_mset [of xs]] by simp

lemma number_hosts_in: "h \<in> set (number_hosts i hs) \<Longrightarrow> \<exists>k \<in> set hs. dh_ip_address h = dh_ip_address k \<and> (\<forall>ports. shows_ports ports h = shows_ports ports k)"
  by (fastforce simp: number_hosts_def shows_ports_def dest: set_zip_rightD)

lemma number_hosts_ips: "map dh_ip_address (number_hosts i hs) = map dh_ip_address hs"
  by (rule nth_equalityI) (simp_all add: number_hosts_def)

definition unique_hosts :: "host_db \<Rightarrow> bool" where
  "unique_hosts db \<longleftrightarrow> distinct (map dh_ip_address (hs_rows db)) \<and> hs_new db = []"

text \<open>
  C11: a scan records exactly what it found: it always commits, every answering neighbour, known or pinged address of the
  network has afterwards one row with its open ports, the silent ones only when they are asked for, no row is lost,
  no other row changes, and addresses stay unique.
\<close>

theorem scan_records_what_it_found:
  assumes "unique_hosts db" "safe_network env cidr = Inr n" "is_ok (require_perm [''deploy''] u)" "distinct (scan_addresses n)"
    "scan_network env u cidr ports unreachable fast db = (r, db1)"
  defines "arp \<equiv> (if fast then arp_scan_local env else [])"
  shows "\<exists>live silent. r = Inr (length (nw_addresses n), length live, live @ silent) \<and> unique_hosts db1 \<and>
     set live = fst ` set arp \<union> {ip \<in> set (scan_addresses n). ip \<in> set (known_ips db) \<or> ping_host env ip} \<and>
     set silent = (if unreachable then set (scan_addresses n) - set live else {}) \<and>
     map dh_ip_address (hs_rows db1) = map dh_ip_address (hs_rows db) @
       filter (\<lambda>ip. ip \<notin> dh_ip_address ` set (hs_rows db)) (live @ silent) \<and>
     (\<forall>h \<in> set (hs_rows db1). (dh_ip_address h \<in> set live \<longrightarrow> shows_ports (open_ports_of env ports (dh_ip_address h)) h) \<and>
        (dh_ip_address h \<in> set silent \<longrightarrow> shows_ports [] h) \<and>
        (dh_ip_address h \<notin> set (live @ silent) \<longrightarrow> h \<in> set (hs_rows db)))"
proof -
  define live where "live = live_ips env fast n db"
  define silent where "silent = (if unreachable then filter (\<lambda>ip. \<not> List.member live ip) (scan_addresses n) else [])"
  define vs where "vs = map (\<lambda>ip. (ip, open_ports_of env ports ip, assoc ip arp)) live @ map (\<lambda>ip. (ip, [], None)) silent"
  let ?db2 = "fold (visit env) vs db"
  have rows: "distinct (map dh_ip_address (hs_rows db))" "hs_new db = []" using assms(1) by (simp_all add: unique_hosts_def)
  have "distinct live" unfolding live_def live_ips_def Let_def by (rule distinct_str_sort) (rule distinct_remdups)
  then have ips: "map fst vs = live @ silent" "distinct (live @ silent)"
    using assms(4) by (auto simp: vs_def silent_def comp_def)
  then have "distinct (map fst vs)" by simp
  note V = visits [OF rows(1) this, of env]
  then obtain added where added: "hs_new ?db2 = added" "map dh_ip_address added = filter (\<lambda>ip. ip \<notin> dh_ip_address ` set (hs_rows db)) (live @ silent)"
      "\<forall>h \<in> set added. \<exists>ports mac. (dh_ip_address h, ports, mac) \<in> set vs \<and> shows_ports ports h"
    using rows(2) ips(1) by auto
  have keys: "map dh_ip_address (hs_rows ?db2 @ added) = map dh_ip_address (hs_rows db) @ filter (\<lambda>ip. ip \<notin> dh_ip_address ` set (hs_rows db)) (live @ silent)"
    using V added(2) by simp
  moreover have "distinct \<dots>" using rows(1) ips(2) by auto
  ultimately have commit: "distinct (map dh_ip_address (hs_rows ?db2 @ added))" by simp
  have folds: "fold (\<lambda>ip d. upsert_host env ip [] ''scan'' None id d) silent
      (fold (\<lambda>ip d. upsert_host env ip (open_ports_of env ports ip) ''scan'' (assoc ip arp) id d) live db) = ?db2"
    by (simp add: vs_def fold_map comp_def visit_def)
  obtain x where x: "require_perm [''deploy''] u = Inr x" using assms(3) by (auto simp: is_ok_iff)
  have run: "r = Inr (length (nw_addresses n), length live, live @ silent)"
      "db1 = ?db2\<lparr>hs_rows := hs_rows ?db2 @ number_hosts (hs_next ?db2) added, hs_new := [], hs_next := hs_next ?db2 + int (length added)\<rparr>"
    using assms(5) commit added(1) folds
    by (simp_all add: scan_network_def x assms(2) Let_def live_def [symmetric] silent_def [symmetric] arp_def [symmetric] commit_hosts_def)
  have "unique_hosts db1" using commit by (simp add: unique_hosts_def run(2) number_hosts_ips)
  moreover have "set live = fst ` set arp \<union> {ip \<in> set (scan_addresses n). ip \<in> set (known_ips db) \<or> ping_host env ip}"
    by (auto simp: live_def live_ips_def Let_def arp_def)
  moreover have "set silent = (if unreachable then set (scan_addresses n) - set live else {})" by (auto simp: silent_def)
  moreover have "map dh_ip_address (hs_rows db1) = map dh_ip_address (hs_rows db) @ filter (\<lambda>ip. ip \<notin> dh_ip_address ` set (hs_rows db)) (live @ silent)"
    using keys by (simp add: run(2) number_hosts_ips)
  moreover have "(dh_ip_address h \<in> set live \<longrightarrow> shows_ports (open_ports_of env ports (dh_ip_address h)) h) \<and>
      (dh_ip_address h \<in> set silent \<longrightarrow> shows_ports [] h) \<and> (dh_ip_address h \<notin> set (live @ silent) \<longrightarrow> h \<in> set (hs_rows db))"
    if "h \<in> set (hs_rows db1)" for h
  proof -
    have disj: "dh_ip_address h \<in> set live \<Longrightarrow> dh_ip_address h \<notin> set silent" using ips(2) by auto
    from that run(2) consider "h \<in> set (hs_rows ?db2)" | k where "k \<in> set added" "dh_ip_address h = dh_ip_address k" "\<forall>ports. shows_ports ports h = shows_ports ports k"
      using number_hosts_in by fastforce
    then show ?thesis
    proof cases
      case 1
      have "shows_ports ps h" if "(dh_ip_address h, ps, m) \<in> set vs" for ps m using V 1 that by fastforce
      moreover have "h \<in> set (hs_rows db)" if "dh_ip_address h \<notin> set (live @ silent)"
      proof -
        have "dh_ip_address h \<notin> fst ` set vs" using that ips(1) by (metis list.set_map)
        then show ?thesis using V 1 by blast
      qed
      ultimately show ?thesis by (auto simp: vs_def)
    next
      case 2
      obtain ps m where ps: "(dh_ip_address k, ps, m) \<in> set vs" "shows_ports ps k" using added(3) 2(1) by blast
      then have "shows_ports ps h" "dh_ip_address h \<in> set (live @ silent)" using 2(2,3) ips(1) by (auto simp: vs_def)
      then show ?thesis using ps(1) 2(2) disj by (auto simp: vs_def)
    qed
  qed
  ultimately show ?thesis using run(1) by blast
qed

definition demo_scan :: scan_env where
  "demo_scan = \<lparr>sn_now = 1000, sn_ip_ok = (\<lambda>_. True),
     sn_network = (\<lambda>_. Some \<lparr>nw_addresses = [''10.0.0.1'', ''10.0.0.2''], nw_hosts = [], nw_private = True, nw_text = ''10.0.0.0/31''\<rparr>),
     sn_dns = (\<lambda>_. None), sn_port = (\<lambda>ip p. p = 22), sn_ping = (\<lambda>ip. ip = ''10.0.0.2''), sn_windows = False,
     sn_arp = ''8.8.8.8 ether aa:bb:cc:dd:ee:ff C eth0'', sn_vendors = [(''AABBCC'', ''Acme'')], sn_demo = False\<rparr>"

definition no_hosts :: host_db where
  "no_hosts = \<lparr>hs_rows = [], hs_new = [], hs_next = 1, hs_agents = []\<rparr>"

lemma scan_records_what_it_found_witness:
  "unique_hosts (snd (scan_network demo_scan demo_operator ''10.0.0.0/31'' [22, 80] True True no_hosts))"
proof -
  let ?n = "\<lparr>nw_addresses = [''10.0.0.1'', ''10.0.0.2''], nw_hosts = [], nw_private = True, nw_text = ''10.0.0.0/31''\<rparr>"
  have h: "unique_hosts no_hosts" "safe_network demo_scan ''10.0.0.0/31'' = Inr ?n" "distinct (scan_addresses ?n)"
    by (simp_all add: unique_hosts_def no_hosts_def safe_network_def demo_scan_def scan_addresses_def)
  have p: "is_ok (require_perm [''deploy''] demo_operator)" by code_simp
  from scan_records_what_it_found [OF h(1,2) p h(3) prod.collapse [symmetric]] show ?thesis by blast
qed

text \<open>A neighbour outside the network of the request is scanned and recorded as well.\<close>

lemma scan_leaves_the_network:
  "map (\<lambda>h. (dh_ip_address h, fh_open_ports h, fh_vendor h)) (hs_rows (snd (scan_network demo_scan demo_operator ''10.0.0.0/31'' [22, 80] False True no_hosts))) =
     [(''10.0.0.2'', [22], None), (''8.8.8.8'', [22], Some ''Acme'')]"
  by code_simp

text \<open>An agent that reports an unknown address twice loses its whole report.\<close>

lemma reported_ip [simp]: "dh_ip_address (reported_host i h) = dh_ip_address h"
  by (simp add: reported_host_def Let_def)

lemma repeated_address_loses_the_report:
  assumes "hs_new db = []" "si_ip_address i \<notin> dh_ip_address ` set (hs_rows db)" "si_ip_address j = si_ip_address i"
  shows "agent_scan_result env g [i, j] db = (Inl (OtherError ''IntegrityError''), db)"
proof -
  have "find_first (\<lambda>h. dh_ip_address h = si_ip_address i) (hs_rows db) = None" using assms(2) by (force simp: find_first_None)
  then show ?thesis using assms(1,3) by (simp add: agent_scan_result_def report_item_def upsert_host_def commit_hosts_def)
qed

text \<open>Adding a known host by hand forgets its ports and that it was reachable.\<close>

lemma manual_host_forgets_ports:
  "let db = snd (scan_network demo_scan demo_operator ''10.0.0.0/31'' [22, 80] False False no_hosts) in
     map (\<lambda>h. (fh_open_ports h, fh_status h)) (hs_rows db) = [([22], ''reachable'')] \<and>
     map (\<lambda>h. (fh_open_ports h, fh_status h)) (hs_rows (snd (add_manual_host demo_scan demo_operator ''10.0.0.2'' None None ''manual'' db))) =
       [([], ''unknown'')]"
  by code_simp

end
